(* ===== verification/Prelude.thy ===== *)
theory Prelude
  imports Main "HOL-Library.Word"
begin

text \<open>
  Shared vocabulary of the development: what the Rust sources use of their language and
  standard library.

  \<^item> A Rust \<open>String\<close> or \<open>&str\<close> is the list of its UTF-8 bytes (\<open>string\<close>, a
    \<open>char list\<close> of 8-bit characters). Every pattern the sources search for is ASCII or one
    of the white-space scalars below, so the byte-wise functions agree with the char-wise ones
    of Rust on well-formed UTF-8.
  \<^item> \<open>Result<T, E>\<close> is the sum \<open>'e + 't\<close>, \<open>Inl\<close> for \<open>Err\<close> and \<open>Inr\<close> for \<open>Ok\<close>; an
    \<open>expect\<close> that may panic has an \<open>option\<close> as its result, \<open>None\<close> for the panic.
  \<^item> A machine integer is a word of its width; \<open>i32\<close> is a 32-bit word read with \<open>sint\<close>,
    so that an \<open>as\<close> cast between \<open>i32\<close> and \<open>u32\<close> is the identity.
\<close>

named_theorems str_simps \<open>rewriting of string operations on results already normalised\<close>
named_theorems step_simps \<open>definitions of the transition functions of the components\<close>

type_synonym u8 = "8 word"
type_synonym u16 = "16 word"
type_synonym u32 = "32 word"
type_synonym i32 = "32 word"
type_synonym u64 = "64 word"
type_synonym i64 = "64 word"

section \<open>Results\<close>

abbreviation Ok :: "'a \<Rightarrow> 'e + 'a" where "Ok \<equiv> Inr"
abbreviation Err :: "'e \<Rightarrow> 'e + 'a" where "Err \<equiv> Inl"

definition is_ok :: "'e + 'a \<Rightarrow> bool" where
  "is_ok r = (case r of Inl _ \<Rightarrow> False | Inr _ \<Rightarrow> True)"

definition ok :: "'e + 'a \<Rightarrow> 'a option" where
  "ok r = (case r of Inl _ \<Rightarrow> None | Inr x \<Rightarrow> Some x)"

definition err :: "'e + 'a \<Rightarrow> 'e option" where
  "err r = (case r of Inl e \<Rightarrow> Some e | Inr _ \<Rightarrow> None)"

definition and_then :: "'e + 'a \<Rightarrow> ('a \<Rightarrow> 'e + 'b) \<Rightarrow> 'e + 'b" where
  "and_then r f = (case r of Inl e \<Rightarrow> Inl e | Inr x \<Rightarrow> f x)"

definition map_err :: "('e \<Rightarrow> 'd) \<Rightarrow> 'e + 'a \<Rightarrow> 'd + 'a" where
  "map_err f r = (case r of Inl e \<Rightarrow> Inl (f e) | Inr x \<Rightarrow> Inr x)"

definition ok_or :: "'a option \<Rightarrow> 'e \<Rightarrow> 'e + 'a" where
  "ok_or x e = (case x of None \<Rightarrow> Inl e | Some v \<Rightarrow> Inr v)"

definition unwrap_or :: "'a option \<Rightarrow> 'a \<Rightarrow> 'a" where
  "unwrap_or x d = (case x of None \<Rightarrow> d | Some v \<Rightarrow> v)"

definition opt_filter :: "('a \<Rightarrow> bool) \<Rightarrow> 'a option \<Rightarrow> 'a option" where
  "opt_filter P x = (case x of None \<Rightarrow> None | Some v \<Rightarrow> if P v then Some v else None)"

definition opt_or :: "'a option \<Rightarrow> 'a option \<Rightarrow> 'a option" where
  "opt_or x y = (case x of None \<Rightarrow> y | Some _ \<Rightarrow> x)"

definition then_some :: "bool \<Rightarrow> 'a \<Rightarrow> 'a option" where
  "then_some b x = (if b then Some x else None)"

lemma result_simps [simp]:
  "is_ok (Inl e) = False" "is_ok (Inr x) = True"
  "ok (Inl e) = None" "ok (Inr x) = Some x"
  "err (Inl e) = Some e" "err (Inr x) = None"
  "and_then (Inl e) f = Inl e" "and_then (Inr x) f = f x"
  "map_err g (Inl e) = Inl (g e)" "map_err g (Inr x) = Inr x"
  by (simp_all add: is_ok_def ok_def err_def and_then_def map_err_def)

lemma option_simps [simp]:
  "ok_or None e = Inl e" "ok_or (Some v) e = Inr v"
  "unwrap_or None d = d" "unwrap_or (Some v) d = v"
  "opt_filter P None = None" "opt_filter P (Some v) = (if P v then Some v else None)"
  "opt_or None y = y" "opt_or (Some v) y = Some v"
  "then_some True x = Some x" "then_some False x = None"
  by (simp_all add: ok_or_def unwrap_or_def opt_filter_def opt_or_def then_some_def)

lemma is_ok_iff: "is_ok r \<longleftrightarrow> (\<exists>x. r = Inr x)"
  by (cases r) simp_all

lemma ok_eq_Some [simp]: "ok r = Some x \<longleftrightarrow> r = Inr x"
  by (cases r) simp_all

lemma ok_eq_None [simp]: "ok r = None \<longleftrightarrow> \<not> is_ok r"
  by (cases r) simp_all

lemma and_then_Inr: "and_then r f = Inr y \<longleftrightarrow> (\<exists>x. r = Inr x \<and> f x = Inr y)"
  by (cases r) simp_all

lemma and_then_Inl: "and_then r f = Inl e \<longleftrightarrow> r = Inl e \<or> (\<exists>x. r = Inr x \<and> f x = Inl e)"
  by (cases r) simp_all

lemma map_err_Inr [simp]: "map_err f r = Inr x \<longleftrightarrow> r = Inr x"
  by (cases r) simp_all

lemma map_err_Inl: "map_err f r = Inl d \<longleftrightarrow> (\<exists>e. r = Inl e \<and> d = f e)"
  by (cases r) auto

lemma is_ok_map_err [simp]: "is_ok (map_err f r) = is_ok r"
  by (cases r) simp_all

section \<open>Bytes\<close>

abbreviation byte :: "char \<Rightarrow> nat" where "byte \<equiv> of_char"

definition is_ascii_uppercase :: "char \<Rightarrow> bool" where
  "is_ascii_uppercase c \<longleftrightarrow> 65 \<le> byte c \<and> byte c \<le> 90"

definition is_ascii_lowercase :: "char \<Rightarrow> bool" where
  "is_ascii_lowercase c \<longleftrightarrow> 97 \<le> byte c \<and> byte c \<le> 122"

definition is_ascii_digit :: "char \<Rightarrow> bool" where
  "is_ascii_digit c \<longleftrightarrow> 48 \<le> byte c \<and> byte c \<le> 57"

definition is_ascii_alphanumeric :: "char \<Rightarrow> bool" where
  "is_ascii_alphanumeric c \<longleftrightarrow> is_ascii_uppercase c \<or> is_ascii_lowercase c \<or> is_ascii_digit c"

definition ascii_lower :: "char \<Rightarrow> char" where
  "ascii_lower c = (if is_ascii_uppercase c then char_of (byte c + 32) else c)"

definition to_ascii_lowercase :: "string \<Rightarrow> string" where
  "to_ascii_lowercase s = map ascii_lower s"

definition eq_ignore_ascii_case :: "string \<Rightarrow> string \<Rightarrow> bool" where
  "eq_ignore_ascii_case s t \<longleftrightarrow> to_ascii_lowercase s = to_ascii_lowercase t"

lemma byte_lt_256 [simp]: "byte c < 256"
  using nat_of_char_less_256 by blast

lemma byte_ascii_lower:
  "byte (ascii_lower c) = (if is_ascii_uppercase c then byte c + 32 else byte c)"
  by (simp add: ascii_lower_def is_ascii_uppercase_def)

lemma not_upper_ascii_lower [simp]: "\<not> is_ascii_uppercase (ascii_lower c)"
  by (auto simp: is_ascii_uppercase_def byte_ascii_lower)

lemma ascii_lower_idem [simp]: "ascii_lower (ascii_lower c) = ascii_lower c"
  by (simp add: ascii_lower_def [of "ascii_lower c"])

lemma alphanumeric_ascii_lower [simp]:
  "is_ascii_alphanumeric (ascii_lower c) = is_ascii_alphanumeric c"
  by (auto simp: is_ascii_alphanumeric_def is_ascii_uppercase_def is_ascii_lowercase_def
      is_ascii_digit_def byte_ascii_lower)

lemma ascii_lower_eq_nonletter:
  assumes "\<not> is_ascii_lowercase d"
  shows "ascii_lower c = d \<longleftrightarrow> c = d \<and> \<not> is_ascii_uppercase d"
  using assms not_upper_ascii_lower [of c] byte_ascii_lower [of c]
  by (auto simp: ascii_lower_def is_ascii_uppercase_def is_ascii_lowercase_def split: if_splits)

lemma to_ascii_lowercase_idem [simp]:
  "to_ascii_lowercase (to_ascii_lowercase s) = to_ascii_lowercase s"
  by (simp add: to_ascii_lowercase_def)

lemma to_ascii_lowercase_Nil [simp]: "to_ascii_lowercase [] = []"
  by (simp add: to_ascii_lowercase_def)

lemma to_ascii_lowercase_eq_Nil [simp]: "to_ascii_lowercase s = [] \<longleftrightarrow> s = []"
  by (simp add: to_ascii_lowercase_def)

lemma to_ascii_lowercase_append [simp]:
  "to_ascii_lowercase (s @ t) = to_ascii_lowercase s @ to_ascii_lowercase t"
  by (simp add: to_ascii_lowercase_def)

lemma length_to_ascii_lowercase [simp]: "length (to_ascii_lowercase s) = length s"
  by (simp add: to_ascii_lowercase_def)

lemma to_ascii_lowercase_fixed_iff:
  "to_ascii_lowercase s = s \<longleftrightarrow> list_all (\<lambda>c. ascii_lower c = c) s"
  by (induction s) (simp_all add: to_ascii_lowercase_def)

lemma eq_ignore_ascii_case_refl [simp]: "eq_ignore_ascii_case s s"
  by (simp add: eq_ignore_ascii_case_def)

section \<open>Searching and splitting\<close>

definition starts_with :: "string \<Rightarrow> string \<Rightarrow> bool" where
  "starts_with s p \<longleftrightarrow> take (length p) s = p"

definition ends_with :: "string \<Rightarrow> string \<Rightarrow> bool" where
  "ends_with s p \<longleftrightarrow> length p \<le> length s \<and> drop (length s - length p) s = p"

definition strip_prefix :: "string \<Rightarrow> string \<Rightarrow> string option" where
  "strip_prefix s p = (if starts_with s p then Some (drop (length p) s) else None)"

lemma starts_with_append [simp]: "starts_with (p @ s) p"
  by (simp add: starts_with_def)

lemma starts_with_iff: "starts_with s p \<longleftrightarrow> (\<exists>r. s = p @ r)"
proof
  assume "starts_with s p"
  then have "s = p @ drop (length p) s"
    using append_take_drop_id [of "length p" s] by (simp add: starts_with_def)
  then show "\<exists>r. s = p @ r" ..
qed auto

text \<open>\<open>split_first s c\<close> is \<open>s.split(c).next()\<close>, which always yields a piece.\<close>

definition split_first :: "string \<Rightarrow> char \<Rightarrow> string" where
  "split_first s c = takeWhile (\<lambda>d. d \<noteq> c) s"

fun split_once :: "string \<Rightarrow> char \<Rightarrow> (string \<times> string) option" where
  "split_once [] c = None"
| "split_once (d # s) c =
     (if d = c then Some ([], s) else map_option (\<lambda>(a, b). (d # a, b)) (split_once s c))"

definition rsplit_once :: "string \<Rightarrow> char \<Rightarrow> (string \<times> string) option" where
  "rsplit_once s c = map_option (\<lambda>(a, b). (rev b, rev a)) (split_once (rev s) c)"

definition trim_end_matches :: "string \<Rightarrow> char \<Rightarrow> string" where
  "trim_end_matches s c = rev (dropWhile (\<lambda>d. d = c) (rev s))"

text \<open>\<open>trim_start_matches\<close> with a string pattern removes the pattern as often as it occurs.\<close>

function trim_start_matches :: "string \<Rightarrow> string \<Rightarrow> string" where
  "trim_start_matches s p =
     (if p \<noteq> [] \<and> starts_with s p then trim_start_matches (drop (length p) s) p else s)"
  by pat_completeness auto
termination
  by (relation "measure (\<lambda>(s, p). length s)") (auto simp: starts_with_iff)

declare trim_start_matches.simps [simp del]

lemma starts_with_trans: "starts_with s p \<Longrightarrow> starts_with p q \<Longrightarrow> starts_with s q"
  by (auto simp: starts_with_iff)

lemma ends_with_append [simp]: "ends_with (s @ p) p"
  by (simp add: ends_with_def)

lemma ends_with_iff: "ends_with s p \<longleftrightarrow> (\<exists>r. s = r @ p)"
proof
  assume "ends_with s p"
  then have "s = take (length s - length p) s @ p"
    using append_take_drop_id [of "length s - length p" s] by (simp add: ends_with_def)
  then show "\<exists>r. s = r @ p" ..
qed auto

lemma split_once_None: "split_once s c = None \<longleftrightarrow> c \<notin> set s"
  by (induction s) auto

lemma split_once_Some: "split_once s c = Some (a, b) \<Longrightarrow> s = a @ c # b \<and> c \<notin> set a"
  by (induction s arbitrary: a) (auto split: if_splits)

lemma split_once_append: "c \<notin> set a \<Longrightarrow> split_once (a @ c # b) c = Some (a, b)"
  by (induction a) auto

lemma split_first_append: "c \<notin> set a \<Longrightarrow> split_first (a @ c # b) c = a"
  by (induction a) (auto simp: split_first_def)

lemma split_first_id: "c \<notin> set a \<Longrightarrow> split_first a c = a"
  by (induction a) (auto simp: split_first_def)

lemma not_in_split_first: "c \<notin> set (split_first a c)"
  by (auto simp: split_first_def dest: set_takeWhileD)

lemma rsplit_once_None: "rsplit_once s c = None \<longleftrightarrow> c \<notin> set s"
  by (simp add: rsplit_once_def split_once_None)

lemma rsplit_once_Some:
  assumes "rsplit_once s c = Some (a, b)"
  shows "s = a @ c # b \<and> c \<notin> set b"
proof -
  from assms have "split_once (rev s) c = Some (rev b, rev a)"
    by (auto simp: rsplit_once_def)
  from split_once_Some [OF this] have "rev (rev s) = rev (rev b @ c # rev a)" and "c \<notin> set b"
    by simp_all
  then show ?thesis by simp
qed

lemma rsplit_once_append: "c \<notin> set b \<Longrightarrow> rsplit_once (a @ c # b) c = Some (a, b)"
  by (simp add: rsplit_once_def split_once_append)

lemma trim_end_matches_append:
  "trim_end_matches (s @ [d]) c = (if d = c then trim_end_matches s c else s @ [d])"
  by (simp add: trim_end_matches_def)

lemma trim_end_matches_Nil [simp]: "trim_end_matches [] c = []"
  by (simp add: trim_end_matches_def)

lemma trim_end_matches_id: "s = [] \<or> last s \<noteq> c \<Longrightarrow> trim_end_matches s c = s"
  by (cases s rule: rev_cases) (auto simp: trim_end_matches_append)

lemma trim_end_matches_last: "trim_end_matches s c \<noteq> [] \<Longrightarrow> last (trim_end_matches s c) \<noteq> c"
  by (induction s rule: rev_induct) (auto simp: trim_end_matches_append split: if_splits)

lemma trim_end_matches_idem [simp]:
  "trim_end_matches (trim_end_matches s c) c = trim_end_matches s c"
  by (rule trim_end_matches_id) (use trim_end_matches_last in blast)

lemma trim_end_matches_prefix: "\<exists>k. s = trim_end_matches s c @ replicate k c"
proof (induction s rule: rev_induct)
  case Nil
  then show ?case by simp
next
  case (snoc d s)
  show ?case
  proof (cases "d = c")
    case True
    from snoc obtain k where k: "s = trim_end_matches s c @ replicate k c" by blast
    have "s @ [d] = (trim_end_matches s c @ replicate k c) @ [c]"
      using arg_cong [OF k, of "\<lambda>x. x @ [c]"] True by simp
    also have "\<dots> = trim_end_matches (s @ [d]) c @ replicate (Suc k) c"
      using True by (simp add: trim_end_matches_append replicate_append_same)
    finally show ?thesis by blast
  next
    case False
    then have "s @ [d] = trim_end_matches (s @ [d]) c @ replicate 0 c"
      by (simp add: trim_end_matches_append)
    then show ?thesis by blast
  qed
qed

lemma trim_end_matches_replicate [simp]:
  "trim_end_matches (s @ replicate k c) c = trim_end_matches s c"
proof (induction k)
  case (Suc k)
  have "s @ replicate (Suc k) c = (s @ replicate k c) @ [c]"
    by (simp add: replicate_append_same)
  then show ?case using Suc by (simp only: trim_end_matches_append simp_thms if_True)
qed simp

lemma set_trim_end_matches: "set (trim_end_matches s c) \<subseteq> set s"
  by (auto simp: trim_end_matches_def dest: set_dropWhileD)

section \<open>White space\<close>

text \<open>
  \<open>str::trim\<close> removes the scalars with the Unicode property \<open>White_Space\<close>: the one-byte
  \<open>U+0009\<close> to \<open>U+000D\<close> and \<open>U+0020\<close>, the two-byte \<open>U+0085\<close> and \<open>U+00A0\<close>, and the
  three-byte \<open>U+1680\<close>, \<open>U+2000\<close> to \<open>U+200A\<close>, \<open>U+2028\<close>, \<open>U+2029\<close>, \<open>U+202F\<close>,
  \<open>U+205F\<close> and \<open>U+3000\<close>. The functions give the width in bytes of the white space a string
  begins with, 0 when it begins with none.
\<close>

definition ws1 :: "char \<Rightarrow> bool" where
  "ws1 a \<longleftrightarrow> 9 \<le> byte a \<and> byte a \<le> 13 \<or> byte a = 32"

definition ws2 :: "char \<Rightarrow> char \<Rightarrow> bool" where
  "ws2 a b \<longleftrightarrow> byte a = 194 \<and> (byte b = 133 \<or> byte b = 160)"

definition ws3 :: "char \<Rightarrow> char \<Rightarrow> char \<Rightarrow> bool" where
  "ws3 a b c \<longleftrightarrow>
     byte a = 225 \<and> byte b = 154 \<and> byte c = 128
   \<or> byte a = 226 \<and> byte b = 128 \<and>
       (128 \<le> byte c \<and> byte c \<le> 138 \<or> byte c = 168 \<or> byte c = 169 \<or> byte c = 175)
   \<or> byte a = 226 \<and> byte b = 129 \<and> byte c = 159
   \<or> byte a = 227 \<and> byte b = 128 \<and> byte c = 128"

fun ws_width :: "string \<Rightarrow> nat" where
  "ws_width [] = 0"
| "ws_width [a] = (if ws1 a then 1 else 0)"
| "ws_width [a, b] = (if ws1 a then 1 else if ws2 a b then 2 else 0)"
| "ws_width (a # b # c # r) =
     (if ws1 a then 1 else if ws2 a b then 2 else if ws3 a b c then 3 else 0)"

text \<open>The same for a reversed string: the white space it ends with, last byte first.\<close>

fun ws_width_rev :: "string \<Rightarrow> nat" where
  "ws_width_rev [] = 0"
| "ws_width_rev [a] = (if ws1 a then 1 else 0)"
| "ws_width_rev [b, a] = (if ws1 b then 1 else if ws2 a b then 2 else 0)"
| "ws_width_rev (c # b # a # r) =
     (if ws1 c then 1 else if ws2 b c then 2 else if ws3 a b c then 3 else 0)"

function drop_by :: "(string \<Rightarrow> nat) \<Rightarrow> string \<Rightarrow> string" where
  "drop_by w s = (if s = [] \<or> w s = 0 then s else drop_by w (drop (w s) s))"
  by pat_completeness auto
termination
  by (relation "measure (\<lambda>(w, s). length s)") auto

declare drop_by.simps [simp del]

definition trim_start :: "string \<Rightarrow> string" where
  "trim_start s = drop_by ws_width s"

definition trim_end :: "string \<Rightarrow> string" where
  "trim_end s = rev (drop_by ws_width_rev (rev s))"

definition trim :: "string \<Rightarrow> string" where
  "trim s = trim_end (trim_start s)"

lemma drop_by_done: "drop_by w s = [] \<or> w (drop_by w s) = 0"
proof (induction w s rule: drop_by.induct)
  case (1 w s)
  then show ?case by (cases "s = [] \<or> w s = 0") (auto simp: drop_by.simps [of w s])
qed

lemma drop_by_id: "s = [] \<or> w s = 0 \<Longrightarrow> drop_by w s = s"
  by (simp add: drop_by.simps)

lemma drop_by_idem [simp]: "drop_by w (drop_by w s) = drop_by w s"
  by (rule drop_by_id) (rule drop_by_done)

lemma drop_by_drop: "\<exists>n. drop_by w s = drop n s"
proof (induction w s rule: drop_by.induct)
  case (1 w s)
  show ?case
  proof (cases "s = [] \<or> w s = 0")
    case True
    then have "drop_by w s = drop 0 s" by (simp add: drop_by_id)
    then show ?thesis ..
  next
    case False
    with "1" obtain n where "drop_by w (drop (w s) s) = drop n (drop (w s) s)" by blast
    with False have "drop_by w s = drop (n + w s) s" by (simp add: drop_by.simps [of w s])
    then show ?thesis ..
  qed
qed

lemma ws_width_append: "ws_width p \<noteq> 0 \<Longrightarrow> ws_width (p @ r) = ws_width p"
  by (induction p rule: ws_width.induct; cases r rule: ws_width.cases) (auto split: if_splits)

lemma trim_end_take: "\<exists>n. trim_end s = take n s"
  using drop_by_drop [of ws_width_rev "rev s"]
  by (auto simp: trim_end_def drop_rev intro: exI [of _ "length s - n" for n])

lemma trim_end_idem [simp]: "trim_end (trim_end s) = trim_end s"
  by (simp add: trim_end_def)

lemma trim_start_idem [simp]: "trim_start (trim_start s) = trim_start s"
  by (simp add: trim_start_def)

lemma trim_start_prefix_closed:
  assumes "trim_start s = s" shows "trim_start (take n s) = take n s"
proof -
  have "s = [] \<or> ws_width s = 0"
    using drop_by_done [of ws_width s] assms by (simp add: trim_start_def)
  then have "take n s = [] \<or> ws_width (take n s) = 0"
    by (metis append_take_drop_id take_Nil ws_width_append)
  then show ?thesis by (simp add: trim_start_def drop_by_id)
qed

lemma trim_idem [simp]: "trim (trim s) = trim s"
proof -
  obtain n where "trim_end (trim_start s) = take n (trim_start s)"
    using trim_end_take by blast
  then have "trim_start (trim_end (trim_start s)) = trim_end (trim_start s)"
    by (simp add: trim_start_prefix_closed)
  then show ?thesis by (simp add: trim_def)
qed

lemma set_trim: "set (trim s) \<subseteq> set s"
proof -
  obtain m where "trim_start s = drop m s"
    using drop_by_drop [of ws_width s] by (auto simp: trim_start_def)
  moreover obtain n where "trim_end (trim_start s) = take n (trim_start s)"
    using trim_end_take by blast
  ultimately show ?thesis by (auto simp: trim_def dest: in_set_takeD in_set_dropD)
qed

lemma trim_Nil [simp]: "trim [] = []"
  by (simp add: trim_def trim_start_def trim_end_def drop_by_id)

text \<open>A string none of whose bytes can occur in white space is its own trimming.\<close>

definition plain_byte :: "char \<Rightarrow> bool" where
  "plain_byte c \<longleftrightarrow> 33 \<le> byte c \<and> byte c < 128"

lemma ws_width_plain: "plain_byte a \<Longrightarrow> ws_width (a # r) = 0"
  by (cases "a # r" rule: ws_width.cases)
     (auto simp: plain_byte_def ws1_def ws2_def ws3_def)

lemma ws_width_rev_plain: "plain_byte a \<Longrightarrow> ws_width_rev (a # r) = 0"
  by (cases "a # r" rule: ws_width_rev.cases)
     (auto simp: plain_byte_def ws1_def ws2_def ws3_def)

lemma trim_id_ends:
  assumes "s = [] \<or> plain_byte (hd s) \<and> plain_byte (last s)"
  shows "trim s = s"
proof (cases "s = []")
  case False
  with assms have "trim_start s = s"
    by (cases s) (auto simp: trim_start_def intro!: drop_by_id ws_width_plain)
  moreover from False assms have "trim_end s = s"
    by (cases s rule: rev_cases)
       (auto simp: trim_end_def drop_by_id ws_width_rev_plain)
  ultimately show ?thesis by (simp add: trim_def)
qed simp

lemma trim_id_plain: "list_all plain_byte s \<Longrightarrow> trim s = s"
  by (rule trim_id_ends) (cases s; auto simp: list_all_iff)

lemma alphanumeric_plain: "is_ascii_alphanumeric c \<Longrightarrow> plain_byte c"
  by (auto simp: plain_byte_def is_ascii_alphanumeric_def is_ascii_uppercase_def
      is_ascii_lowercase_def is_ascii_digit_def)

section \<open>Lower-casing commutes with trimming\<close>

lemma byte_ascii_lower_ws [simp]:
  "ws1 (ascii_lower a) = ws1 a"
  "ws2 (ascii_lower a) (ascii_lower b) = ws2 a b"
  "ws3 (ascii_lower a) (ascii_lower b) (ascii_lower c) = ws3 a b c"
  by (auto simp: ws1_def ws2_def ws3_def byte_ascii_lower is_ascii_uppercase_def)

lemma ws_width_lower [simp]: "ws_width (map ascii_lower s) = ws_width s"
  by (induction s rule: ws_width.induct) simp_all

lemma ws_width_rev_lower [simp]: "ws_width_rev (map ascii_lower s) = ws_width_rev s"
  by (induction s rule: ws_width_rev.induct) simp_all

lemma drop_by_lower:
  assumes "\<And>t. w (map ascii_lower t) = w t"
  shows "drop_by w (map ascii_lower s) = map ascii_lower (drop_by w s)"
  using assms
proof (induction w s rule: drop_by.induct)
  case (1 w s)
  show ?case
  proof (cases "s = [] \<or> w s = 0")
    case True
    then show ?thesis by (auto simp: drop_by_id "1.prems")
  next
    case False
    then have "drop_by w (map ascii_lower s) = drop_by w (map ascii_lower (drop (w s) s))"
      by (simp add: drop_by.simps [of w "map ascii_lower s"] "1.prems" drop_map)
    also have "\<dots> = map ascii_lower (drop_by w (drop (w s) s))"
      using "1.IH" "1.prems" False by blast
    also have "drop_by w (drop (w s) s) = drop_by w s"
      using False by (simp add: drop_by.simps [of w s])
    finally show ?thesis .
  qed
qed

lemma trim_to_ascii_lowercase: "trim (to_ascii_lowercase s) = to_ascii_lowercase (trim s)"
proof -
  have "rev (drop_by ws_width_rev (rev (map ascii_lower x))) =
      map ascii_lower (rev (drop_by ws_width_rev (rev x)))" for x
    by (simp add: rev_map drop_by_lower)
  then show ?thesis
    by (simp add: to_ascii_lowercase_def trim_def trim_start_def trim_end_def drop_by_lower)
qed

section \<open>Decimal numbers\<close>

definition digit_char :: "nat \<Rightarrow> char" where
  "digit_char d = char_of (48 + d)"

text \<open>\<open>format!("{n}")\<close> on an unsigned integer.\<close>

fun show_nat :: "nat \<Rightarrow> string" where
  "show_nat n = (if n < 10 then [digit_char n] else show_nat (n div 10) @ [digit_char (n mod 10)])"

declare show_nat.simps [simp del]

lemma byte_digit_char: "d < 10 \<Longrightarrow> byte (digit_char d) = 48 + d"
  by (simp add: digit_char_def)

lemma is_ascii_digit_digit_char: "d < 10 \<Longrightarrow> is_ascii_digit (digit_char d)"
  by (simp add: is_ascii_digit_def byte_digit_char)

lemma show_nat_digits: "list_all is_ascii_digit (show_nat n)"
proof (induction n rule: show_nat.induct)
  case (1 n)
  then show ?case
    by (cases "n < 10") (auto simp: show_nat.simps [of n] is_ascii_digit_digit_char)
qed

lemma show_nat_nonempty [simp]: "show_nat n \<noteq> []"
  by (subst show_nat.simps) simp

lemma digit_plain: "is_ascii_digit c \<Longrightarrow> plain_byte c"
  by (auto simp: plain_byte_def is_ascii_digit_def)

lemma trim_show_nat [simp]: "trim (show_nat n) = show_nat n"
  by (rule trim_id_plain)
     (use show_nat_digits [of n] in \<open>auto simp: list_all_iff intro: digit_plain\<close>)

section \<open>Lists\<close>

text \<open>Rust collects the trimmed, non-empty strings of a vector in several places.\<close>

definition trimmed_nonempty :: "string list \<Rightarrow> string list" where
  "trimmed_nonempty xs = filter (\<lambda>v. v \<noteq> []) (map trim xs)"

lemma trimmed_nonempty_fixed:
  "\<forall>x \<in> set (trimmed_nonempty xs). x \<noteq> [] \<and> trim x = x"
  by (auto simp: trimmed_nonempty_def)

lemma trimmed_nonempty_idem [simp]:
  "trimmed_nonempty (trimmed_nonempty xs) = trimmed_nonempty xs"
proof -
  have "map trim (trimmed_nonempty xs) = trimmed_nonempty xs"
    using trimmed_nonempty_fixed by (metis map_idI)
  then show ?thesis by (simp add: trimmed_nonempty_def)
qed

lemma trimmed_nonempty_Nil [simp]: "trimmed_nonempty [] = []"
  by (simp add: trimmed_nonempty_def)

lemma trimmed_nonempty_id:
  "list_all (\<lambda>v. v \<noteq> [] \<and> trim v = v) xs \<Longrightarrow> trimmed_nonempty xs = xs"
  by (induction xs) (auto simp: trimmed_nonempty_def)

lemma length_trimmed_nonempty: "length (trimmed_nonempty xs) \<le> length xs"
  by (metis length_filter_le length_map trimmed_nonempty_def)

text \<open>\<open>Option<String>\<close> fields are trimmed and dropped when nothing is left.\<close>

definition trimmed_option :: "string option \<Rightarrow> string option" where
  "trimmed_option x = opt_filter (\<lambda>v. v \<noteq> []) (map_option trim x)"

lemma trimmed_option_idem [simp]: "trimmed_option (trimmed_option x) = trimmed_option x"
  by (cases x) (auto simp: trimmed_option_def)

lemma trimmed_option_Some:
  "trimmed_option x = Some v \<longleftrightarrow> (\<exists>u. x = Some u \<and> v = trim u \<and> v \<noteq> [])"
  by (cases x) (auto simp: trimmed_option_def)

section \<open>Bytes as words\<close>

lemma unat_u8 [simp]: "unat (a :: u8) < 256"
  using unsigned_less [of a] by simp

lemma unat_u8_to_u32 [simp]: "unat (ucast (k :: u8) :: u32) = unat k"
proof -
  have "unat k < 2 ^ 32" by (rule less_trans [OF unat_u8]) simp
  then show ?thesis by (simp add: unsigned_ucast_eq take_bit_nat_eq_self)
qed

section \<open>Finite state spaces\<close>

lemma finite_surj_UNIV:
  fixes f :: "'a \<Rightarrow> 's"
  assumes "finite (UNIV :: 'a set)" "\<And>s. \<exists>x. f x = s"
  shows "finite (UNIV :: 's set)"
proof -
  have "(UNIV :: 's set) \<subseteq> range f" using assms(2) by (metis range_eqI subsetI)
  then show ?thesis using assms(1) finite_subset by blast
qed

end
