(* ===== verification/Domain_Base.thy ===== *)
theory Domain_Base
  imports Prelude
begin

text \<open>
  The shared vocabulary of the domain crate: state transitions with events
  (\<open>transition.rs\<close>), non-blank identifiers (\<open>ids.rs\<close>) and the error enumerations with
  their messages (\<open>error.rs\<close>).
\<close>

section \<open>Transitions\<close>

record ('s, 'e) transition =
  t_state :: 's
  t_events :: "'e list"

definition without_events :: "'s \<Rightarrow> ('s, 'e) transition" where
  "without_events s = \<lparr>t_state = s, t_events = []\<rparr>"

definition with_event :: "'s \<Rightarrow> 'e \<Rightarrow> ('s, 'e) transition" where
  "with_event s e = \<lparr>t_state = s, t_events = [e]\<rparr>"

definition has_event :: "('s, 'e) transition \<Rightarrow> 'e \<Rightarrow> bool" where
  "has_event t e = list_ex (\<lambda>candidate. candidate = e) (t_events t)"

lemma transition_simps [simp]:
  "t_state (without_events s) = s" "t_events (without_events s) = []"
  "t_state (with_event s e) = s" "t_events (with_event s e) = [e]"
  by (simp_all add: without_events_def with_event_def)

lemma has_event_iff: "has_event t e \<longleftrightarrow> e \<in> set (t_events t)"
  by (auto simp: has_event_def list_ex_iff)

lemma has_event_simps [simp]:
  "has_event (with_event s e) f \<longleftrightarrow> e = f" "\<not> has_event (without_events s) f"
  by (auto simp: has_event_iff)

section \<open>Errors\<close>

datatype id_error = Empty

datatype quote_approval_policy_error = Unknown

datatype quote_state_error = Unknown

datatype visibility_error = Unknown

datatype poll_draft_error = InvalidOptionCount | ExpiresInTooShort

datatype record_hydration_error =
    VisibilityIssue visibility_error
  | QuoteStateIssue quote_state_error

datatype remote_status_error = MissingObjectId | MissingBoostTarget

datatype status_draft_error =
    EmptyPayload
  | TooManyMedia
  | PollWithMedia
  | QuoteWithMediaOrPoll
  | Poll poll_draft_error
  | QuotePolicy quote_approval_policy_error

fun id_error_message :: "id_error \<Rightarrow> string" where
  "id_error_message id_error.Empty = ''identifier must not be empty''"

fun quote_approval_policy_error_message :: "quote_approval_policy_error \<Rightarrow> string" where
  "quote_approval_policy_error_message quote_approval_policy_error.Unknown =
     ''quote_approval_policy must be one of: public, followers, nobody''"

fun quote_state_error_message :: "quote_state_error \<Rightarrow> string" where
  "quote_state_error_message quote_state_error.Unknown =
     ''quote_state must be one of: accepted, pending, rejected, revoked''"

fun visibility_error_message :: "visibility_error \<Rightarrow> string" where
  "visibility_error_message visibility_error.Unknown =
     ''visibility must be one of: public, unlisted, private, direct''"

fun poll_draft_error_message :: "poll_draft_error \<Rightarrow> string" where
  "poll_draft_error_message InvalidOptionCount =
     ''poll must include between 2 and 4 non-empty options''"
| "poll_draft_error_message ExpiresInTooShort =
     ''poll expires_in must be at least 300 seconds''"

fun record_hydration_error_message :: "record_hydration_error \<Rightarrow> string" where
  "record_hydration_error_message (VisibilityIssue e) = visibility_error_message e"
| "record_hydration_error_message (QuoteStateIssue e) = quote_state_error_message e"

fun remote_status_error_message :: "remote_status_error \<Rightarrow> string" where
  "remote_status_error_message MissingObjectId = ''remote status object is missing id''"
| "remote_status_error_message MissingBoostTarget =
     ''remote announce activity is missing object id''"

fun status_draft_error_message :: "status_draft_error \<Rightarrow> string" where
  "status_draft_error_message EmptyPayload = ''status, media_ids, or poll must be present''"
| "status_draft_error_message TooManyMedia = ''a maximum of 4 media attachments is supported''"
| "status_draft_error_message PollWithMedia =
     ''poll cannot be combined with media attachments yet''"
| "status_draft_error_message QuoteWithMediaOrPoll =
     ''quoted statuses cannot be combined with media attachments or polls''"
| "status_draft_error_message (Poll e) = poll_draft_error_message e"
| "status_draft_error_message (QuotePolicy e) = quote_approval_policy_error_message e"

text \<open>No two draft errors share a message, so the text identifies the refusal.\<close>

lemma poll_draft_error_message_inject:
  "poll_draft_error_message a = poll_draft_error_message b \<longleftrightarrow> a = b"
  by (cases a; cases b) simp_all

lemma quote_approval_policy_error_message_const:
  "quote_approval_policy_error_message e =
     ''quote_approval_policy must be one of: public, followers, nobody''"
  by (cases e) simp

lemma quote_approval_policy_error_unique: "(a :: quote_approval_policy_error) = b"
  by (cases a; cases b) simp

lemma status_draft_error_message_inject:
  "status_draft_error_message d = status_draft_error_message e \<longleftrightarrow> d = e"
proof -
  have poll: "poll_draft_error_message a \<in>
      {''poll must include between 2 and 4 non-empty options'',
       ''poll expires_in must be at least 300 seconds''}" for a
    by (cases a) simp_all
  have mixed: "poll_draft_error_message a \<noteq> status_draft_error_message x"
    if "\<forall>b. x \<noteq> Poll b" for a x
    using that poll [of a]
    by (cases x) (auto simp: quote_approval_policy_error_message_const)
  show ?thesis
    using mixed [of d] mixed [of e] quote_approval_policy_error_unique
    by (cases d; cases e)
       (auto simp: poll_draft_error_message_inject quote_approval_policy_error_message_const
         dest: sym)
qed

section \<open>Identifiers\<close>

text \<open>
  \<open>AccountId\<close>, \<open>StatusId\<close> and \<open>MediaId\<close> come from one macro: a wrapper around a string
  that is not blank. The string is kept as it is, not trimmed.
\<close>

datatype account_id = AccountId (account_id_str: string)
datatype status_id = StatusId (status_id_str: string)
datatype media_id = MediaId (media_id_str: string)

definition id_new :: "(string \<Rightarrow> 'i) \<Rightarrow> string \<Rightarrow> id_error + 'i" where
  "id_new mk value = (if trim value = [] then Inl id_error.Empty else Inr (mk value))"

definition account_id_new :: "string \<Rightarrow> id_error + account_id" where
  "account_id_new = id_new AccountId"

definition status_id_new :: "string \<Rightarrow> id_error + status_id" where
  "status_id_new = id_new StatusId"

definition media_id_new :: "string \<Rightarrow> id_error + media_id" where
  "media_id_new = id_new MediaId"

lemma id_new_Inr: "id_new mk v = Inr i \<longleftrightarrow> trim v \<noteq> [] \<and> i = mk v"
  by (auto simp: id_new_def)

lemma status_id_new_Inr: "status_id_new v = Inr i \<longleftrightarrow> trim v \<noteq> [] \<and> i = StatusId v"
  by (simp add: status_id_new_def id_new_Inr)

lemma media_id_new_Inr: "media_id_new v = Inr i \<longleftrightarrow> trim v \<noteq> [] \<and> i = MediaId v"
  by (simp add: media_id_new_def id_new_Inr)

end
