(* ===== verification/Media_Report.thy ===== *)
theory Media_Report
  imports Domain_Base
begin

text \<open>
  Media before and after they are attached to a status (\<open>media.rs\<close>), moderation reports
  (\<open>report.rs\<close>) and the description of the instance (\<open>instance.rs\<close>).
\<close>

record uploaded_media =
  um_id :: media_id
  um_object_key :: string
  um_content_type :: string

definition uploaded_media_new :: "string \<Rightarrow> string \<Rightarrow> string \<Rightarrow> id_error + uploaded_media" where
  "uploaded_media_new ident object_key content_type =
    and_then (media_id_new ident) (\<lambda>i.
      Inr \<lparr>um_id = i, um_object_key = object_key, um_content_type = content_type\<rparr>)"

record status_bound_media =
  sm_id :: media_id
  sm_status_id :: status_id
  sm_object_key :: string
  sm_content_type :: string

definition attach_to_status :: "uploaded_media \<Rightarrow> status_id \<Rightarrow> status_bound_media" where
  "attach_to_status m status =
    \<lparr>sm_id = um_id m, sm_status_id = status, sm_object_key = um_object_key m,
     sm_content_type = um_content_type m\<rparr>"

record media_attachment =
  ma_id :: string
  ma_object_key :: string
  ma_content_type :: string

definition media_attachment_from_uploaded :: "uploaded_media \<Rightarrow> media_attachment" where
  "media_attachment_from_uploaded m =
    \<lparr>ma_id = media_id_str (um_id m), ma_object_key = um_object_key m,
     ma_content_type = um_content_type m\<rparr>"

record stored_media_attachment_intent =
  sma_media_id :: string
  sma_account_id :: string
  sma_object_key :: string
  sma_content_type :: string
  sma_description :: string
  sma_width :: "u32 option"
  sma_height :: "u32 option"

definition stored_media_attachment_new ::
    "string \<Rightarrow> string \<Rightarrow> string \<Rightarrow> string \<Rightarrow> string \<Rightarrow> u32 option \<Rightarrow> u32 option \<Rightarrow>
     stored_media_attachment_intent" where
  "stored_media_attachment_new media account object_key content_type description width height =
    \<lparr>sma_media_id = media, sma_account_id = account, sma_object_key = object_key,
     sma_content_type = content_type, sma_description = description,
     sma_width = width, sma_height = height\<rparr>"

record stored_report_intent =
  sri_report_id :: string
  sri_target_account_id :: string
  sri_target_remote_actor_uri :: "string option"
  sri_comment :: string
  sri_category :: string
  sri_forward :: bool

definition stored_report_new ::
    "string \<Rightarrow> string \<Rightarrow> string option \<Rightarrow> string \<Rightarrow> string \<Rightarrow> bool \<Rightarrow> stored_report_intent" where
  "stored_report_new report target remote_actor comment category forward =
    \<lparr>sri_report_id = report, sri_target_account_id = target,
     sri_target_remote_actor_uri = remote_actor, sri_comment = comment,
     sri_category = category, sri_forward = forward\<rparr>"

record software_info =
  si_name :: string
  si_version :: string

record instance_capabilities =
  cap_federation :: bool
  cap_local_timeline :: bool
  cap_media_uploads :: bool

record instance_summary =
  is_domain :: string
  is_title :: string
  is_description :: string
  is_software :: software_info
  is_capabilities :: instance_capabilities

text \<open>The attachment snapshot and the attached medium name the same object.\<close>

lemma uploaded_media_identity:
  assumes "uploaded_media_new ident object_key content_type = Inr m"
  shows "ma_id (media_attachment_from_uploaded m) = ident"
    and "sm_id (attach_to_status m status) = MediaId ident"
    and "sm_object_key (attach_to_status m status) = ma_object_key (media_attachment_from_uploaded m)"
  using assms
  by (auto simp: uploaded_media_new_def and_then_Inr media_id_new_Inr attach_to_status_def
      media_attachment_from_uploaded_def)

end
