(* ===== verification/Codec.thy ===== *)
theory Codec
  imports Prelude
begin

text \<open>
  The interface between the enumerations of the domain and the textual columns they are stored
  in. A provider has \<open>as_str\<close> and \<open>parse\<close>; \<open>parse\<close> trims and lower-cases its input
  first. The record-hydration components use only the laws below.
\<close>

locale string_enum =
  fixes as_str :: "'a \<Rightarrow> string"
    and parse :: "string \<Rightarrow> 'e + 'a"
  assumes parse_as_str [simp]: "parse (as_str x) = Inr x"
    and parse_normalises: "parse (to_ascii_lowercase (trim s)) = parse s"
    and parse_sound: "parse s = Inr x \<Longrightarrow> to_ascii_lowercase (trim s) = as_str x"
begin

lemma as_str_inject [simp]: "as_str x = as_str y \<longleftrightarrow> x = y"
  by (metis parse_as_str sum.inject(2))

lemma parse_Inr_iff: "parse s = Inr x \<longleftrightarrow> to_ascii_lowercase (trim s) = as_str x"
  by (metis parse_as_str parse_normalises parse_sound)

lemma parse_fails_iff: "\<not> is_ok (parse s) \<longleftrightarrow> to_ascii_lowercase (trim s) \<notin> range as_str"
  by (auto simp: is_ok_iff parse_Inr_iff)

lemma parse_ignores_case: "parse (to_ascii_lowercase s) = parse s"
proof -
  have "parse (to_ascii_lowercase s) = parse (to_ascii_lowercase (trim s))"
    by (subst parse_normalises [symmetric]) (simp add: trim_to_ascii_lowercase)
  then show ?thesis by (simp add: parse_normalises)
qed

lemma parse_ignores_padding: "parse (trim s) = parse s"
  by (metis parse_normalises trim_idem)

lemma unwrap_parse_as_str [simp]: "unwrap_or (ok (parse (as_str x))) d = x"
  by simp

end

end
