(* ===== verification/Quote.thy ===== *)
theory Quote
  imports Codec Domain_Base
begin

text \<open>
  Visibilities (\<open>status/visibility.rs\<close>), quote approval policies and the quote state
  machine (\<open>quote.rs\<close>). The three enumerations interpret the codec interface.
\<close>

section \<open>Visibility\<close>

datatype visibility = Public | Unlisted | FollowersOnly | Direct

definition visibility_parse :: "string \<Rightarrow> visibility_error + visibility" where
  "visibility_parse value =
    (let v = to_ascii_lowercase (trim value) in
     if v = ''public'' then Inr visibility.Public
     else if v = ''unlisted'' then Inr Unlisted
     else if v = ''private'' then Inr FollowersOnly
     else if v = ''direct'' then Inr Direct
     else Inl visibility_error.Unknown)"

fun visibility_as_str :: "visibility \<Rightarrow> string" where
  "visibility_as_str visibility.Public = ''public''"
| "visibility_as_str Unlisted = ''unlisted''"
| "visibility_as_str FollowersOnly = ''private''"
| "visibility_as_str Direct = ''direct''"

fun is_restricted :: "visibility \<Rightarrow> bool" where
  "is_restricted FollowersOnly = True"
| "is_restricted Direct = True"
| "is_restricted _ = False"

section \<open>Quote approval policy\<close>

datatype quote_approval_policy = Public | Followers | Nobody

definition quote_approval_policy_parse ::
    "string \<Rightarrow> quote_approval_policy_error + quote_approval_policy" where
  "quote_approval_policy_parse value =
    (let v = to_ascii_lowercase (trim value) in
     if v = ''public'' then Inr quote_approval_policy.Public
     else if v = ''followers'' then Inr Followers
     else if v = ''nobody'' then Inr Nobody
     else Inl quote_approval_policy_error.Unknown)"

fun quote_approval_policy_as_str :: "quote_approval_policy \<Rightarrow> string" where
  "quote_approval_policy_as_str quote_approval_policy.Public = ''public''"
| "quote_approval_policy_as_str Followers = ''followers''"
| "quote_approval_policy_as_str Nobody = ''nobody''"

fun allows_quote :: "quote_approval_policy \<Rightarrow> bool \<Rightarrow> bool \<Rightarrow> bool" where
  "allows_quote policy is_owner is_follower =
    (if is_owner then True
     else case policy of
         quote_approval_policy.Public \<Rightarrow> True
       | Followers \<Rightarrow> is_follower
       | Nobody \<Rightarrow> False)"

definition for_status_visibility ::
    "visibility \<Rightarrow> quote_approval_policy option \<Rightarrow> quote_approval_policy \<Rightarrow>
     quote_approval_policy" where
  "for_status_visibility v requested account_default =
    (if v = FollowersOnly \<or> v = Direct then Nobody else unwrap_or requested account_default)"

text \<open>
  The raw column \<open>visibility\<close> is compared as it is, without trimming or lower-casing. A
  stored policy that does not parse counts as absent.
\<close>

definition for_stored_visibility :: "string \<Rightarrow> string option \<Rightarrow> quote_approval_policy" where
  "for_stored_visibility v stored_policy =
    (if v = ''private'' \<or> v = ''direct'' then Nobody
     else case stored_policy of
         None \<Rightarrow> quote_approval_policy.Public
       | Some p \<Rightarrow> unwrap_or (ok (quote_approval_policy_parse p)) quote_approval_policy.Public)"

section \<open>Quote state\<close>

datatype quote_state = Accepted | Pending | Rejected | Revoked

datatype owner_quote_action = Approve | Reject | Revoke

definition quote_state_parse :: "string \<Rightarrow> quote_state_error + quote_state" where
  "quote_state_parse value =
    (let v = to_ascii_lowercase (trim value) in
     if v = ''accepted'' then Inr Accepted
     else if v = ''pending'' then Inr Pending
     else if v = ''rejected'' then Inr Rejected
     else if v = ''revoked'' then Inr Revoked
     else Inl quote_state_error.Unknown)"

fun quote_state_as_str :: "quote_state \<Rightarrow> string" where
  "quote_state_as_str Accepted = ''accepted''"
| "quote_state_as_str Pending = ''pending''"
| "quote_state_as_str Rejected = ''rejected''"
| "quote_state_as_str Revoked = ''revoked''"

definition effective_for_stored :: "string option \<Rightarrow> quote_state \<Rightarrow> quote_state" where
  "effective_for_stored quote_of_uri stored = (if quote_of_uri = None then Accepted else stored)"

definition quote_state_is_visible :: "quote_state \<Rightarrow> bool" where
  "quote_state_is_visible s \<longleftrightarrow> s \<noteq> Revoked"

definition initial_for_quote_target :: "bool \<Rightarrow> bool \<Rightarrow> quote_state" where
  "initial_for_quote_target has_quote target_exists_locally =
    (if \<not> has_quote \<or> target_exists_locally then Accepted else Pending)"

definition remote_for_target :: "bool \<Rightarrow> bool \<Rightarrow> quote_state" where
  "remote_for_target blocked_by_owner policy_allows =
    (if blocked_by_owner then Rejected else if policy_allows then Accepted else Pending)"

definition quote_state_for_local_publish :: "bool \<Rightarrow> bool \<Rightarrow> quote_state" where
  "quote_state_for_local_publish has_quote target_exists_locally =
    initial_for_quote_target has_quote target_exists_locally"

definition quote_state_for_remote_publish :: "bool \<Rightarrow> bool \<Rightarrow> bool \<Rightarrow> bool \<Rightarrow> quote_state" where
  "quote_state_for_remote_publish has_quote target_exists_locally blocked_by_owner policy_allows =
    (if \<not> has_quote \<or> \<not> target_exists_locally then Accepted
     else remote_for_target blocked_by_owner policy_allows)"

fun quote_state_after_remote_upsert :: "quote_state \<Rightarrow> quote_state \<Rightarrow> quote_state" where
  "quote_state_after_remote_upsert Rejected incoming = Rejected"
| "quote_state_after_remote_upsert Revoked incoming = Revoked"
| "quote_state_after_remote_upsert _ incoming = incoming"

fun quote_state_after_owner_approve :: "quote_state \<Rightarrow> quote_state" where
  "quote_state_after_owner_approve Pending = Accepted"
| "quote_state_after_owner_approve other = other"

fun quote_state_after_owner_reject :: "quote_state \<Rightarrow> quote_state" where
  "quote_state_after_owner_reject Pending = Rejected"
| "quote_state_after_owner_reject other = other"

fun quote_state_after_revoke :: "quote_state \<Rightarrow> quote_state" where
  "quote_state_after_revoke current = Revoked"

definition counts_in_accepted_quotes_timeline :: "quote_state \<Rightarrow> bool" where
  "counts_in_accepted_quotes_timeline s \<longleftrightarrow> s = Accepted"

definition shows_quote_placeholder :: "quote_state \<Rightarrow> bool" where
  "shows_quote_placeholder s \<longleftrightarrow> s = Pending"

fun quote_state_after_owner_action :: "quote_state \<Rightarrow> owner_quote_action \<Rightarrow> quote_state" where
  "quote_state_after_owner_action s Approve = quote_state_after_owner_approve s"
| "quote_state_after_owner_action s Reject = quote_state_after_owner_reject s"
| "quote_state_after_owner_action s Revoke = quote_state_after_revoke s"

definition merged_quote_state_for_remote_upsert :: "quote_state \<Rightarrow> quote_state \<Rightarrow> quote_state" where
  "merged_quote_state_for_remote_upsert current incoming =
    quote_state_after_remote_upsert current incoming"

section \<open>Finitely many values\<close>

instance visibility :: finite
proof
  have "(UNIV :: visibility set) = {visibility.Public, Unlisted, FollowersOnly, Direct}"
    using visibility.exhaust by auto
  then show "finite (UNIV :: visibility set)" by (metis finite.emptyI finite_insert)
qed

instance quote_approval_policy :: finite
proof
  have "(UNIV :: quote_approval_policy set) = {quote_approval_policy.Public, Followers, Nobody}"
    using quote_approval_policy.exhaust by auto
  then show "finite (UNIV :: quote_approval_policy set)" by (metis finite.emptyI finite_insert)
qed

instance quote_state :: finite
proof
  have "(UNIV :: quote_state set) = {Accepted, Pending, Rejected, Revoked}"
    using quote_state.exhaust by auto
  then show "finite (UNIV :: quote_state set)" by (metis finite.emptyI finite_insert)
qed

section \<open>The codecs\<close>

lemma quoted_words_normal [str_simps]:
  "to_ascii_lowercase (trim ''public'') = ''public''"
  "to_ascii_lowercase (trim ''unlisted'') = ''unlisted''"
  "to_ascii_lowercase (trim ''private'') = ''private''"
  "to_ascii_lowercase (trim ''direct'') = ''direct''"
  "to_ascii_lowercase (trim ''followers'') = ''followers''"
  "to_ascii_lowercase (trim ''nobody'') = ''nobody''"
  "to_ascii_lowercase (trim ''accepted'') = ''accepted''"
  "to_ascii_lowercase (trim ''pending'') = ''pending''"
  "to_ascii_lowercase (trim ''rejected'') = ''rejected''"
  "to_ascii_lowercase (trim ''revoked'') = ''revoked''"
  by code_simp+

interpretation vis: string_enum visibility_as_str visibility_parse
proof unfold_locales
  show "visibility_parse (visibility_as_str x) = Inr x" for x
    by (cases x) (simp_all add: visibility_parse_def Let_def str_simps)
  show "visibility_parse (to_ascii_lowercase (trim s)) = visibility_parse s" for s
    by (simp add: visibility_parse_def trim_to_ascii_lowercase)
  show "visibility_parse s = Inr x \<Longrightarrow> to_ascii_lowercase (trim s) = visibility_as_str x" for s x
    by (auto simp: visibility_parse_def Let_def split: if_splits)
qed

interpretation policy: string_enum quote_approval_policy_as_str quote_approval_policy_parse
proof unfold_locales
  show "quote_approval_policy_parse (quote_approval_policy_as_str x) = Inr x" for x
    by (cases x) (simp_all add: quote_approval_policy_parse_def Let_def str_simps)
  show "quote_approval_policy_parse (to_ascii_lowercase (trim s)) = quote_approval_policy_parse s"
    for s by (simp add: quote_approval_policy_parse_def trim_to_ascii_lowercase)
  show "quote_approval_policy_parse s = Inr x \<Longrightarrow>
      to_ascii_lowercase (trim s) = quote_approval_policy_as_str x" for s x
    by (auto simp: quote_approval_policy_parse_def Let_def split: if_splits)
qed

interpretation qstate: string_enum quote_state_as_str quote_state_parse
proof unfold_locales
  show "quote_state_parse (quote_state_as_str x) = Inr x" for x
    by (cases x) (simp_all add: quote_state_parse_def Let_def str_simps)
  show "quote_state_parse (to_ascii_lowercase (trim s)) = quote_state_parse s" for s
    by (simp add: quote_state_parse_def trim_to_ascii_lowercase)
  show "quote_state_parse s = Inr x \<Longrightarrow> to_ascii_lowercase (trim s) = quote_state_as_str x" for s x
    by (auto simp: quote_state_parse_def Let_def split: if_splits)
qed

section \<open>Policies\<close>

lemma is_restricted_iff: "is_restricted v \<longleftrightarrow> v = FollowersOnly \<or> v = Direct"
  by (cases v) simp_all

lemma restricted_policy_nobody [simp]: "is_restricted v \<Longrightarrow> for_status_visibility v r d = Nobody"
  by (simp add: for_status_visibility_def is_restricted_iff)

lemma unrestricted_policy [simp]:
  "\<not> is_restricted v \<Longrightarrow> for_status_visibility v r d = unwrap_or r d"
  by (simp add: for_status_visibility_def is_restricted_iff)

text \<open>
  On a canonical visibility the stored rule is the entity rule with default \<open>Public\<close>.
\<close>

lemma for_stored_visibility_canonical:
  "for_stored_visibility (visibility_as_str v) (map_option quote_approval_policy_as_str p) =
   for_status_visibility v p quote_approval_policy.Public"
  by (cases v; cases p) (simp_all add: for_stored_visibility_def for_status_visibility_def)

section \<open>The quote state machine\<close>

text \<open>
  The order in which a state may move: \<open>Pending\<close> below everything, \<open>Revoked\<close> on top. Owner
  actions never move down.
\<close>

fun quote_rank :: "quote_state \<Rightarrow> nat" where
  "quote_rank Pending = 0"
| "quote_rank Accepted = 1"
| "quote_rank Rejected = 1"
| "quote_rank Revoked = 2"

lemma owner_action_rank: "quote_rank s \<le> quote_rank (quote_state_after_owner_action s a)"
  by (cases s; cases a) simp_all

lemma owner_action_idem:
  "quote_state_after_owner_action (quote_state_after_owner_action s a) a =
   quote_state_after_owner_action s a"
  by (cases s; cases a) simp_all

lemma foldl_revoked: "foldl quote_state_after_owner_action Revoked acts = Revoked"
proof (induction acts)
  case (Cons a acts)
  then show ?case by (cases a) simp_all
qed simp

lemma foldl_revoke:
  "Revoke \<in> set acts \<Longrightarrow> foldl quote_state_after_owner_action s acts = Revoked"
proof (induction acts arbitrary: s)
  case (Cons a acts)
  then show ?case by (cases a) (auto simp: foldl_revoked)
qed simp

lemma foldl_upsert_rejected: "foldl quote_state_after_remote_upsert Rejected ins = Rejected"
  by (induction ins) simp_all

lemma foldl_upsert_revoked: "foldl quote_state_after_remote_upsert Revoked ins = Revoked"
  by (induction ins) simp_all

section \<open>Properties\<close>

text \<open>Everything that can happen to a stored quote state.\<close>

datatype quote_event = Owner owner_quote_action | Upsert quote_state

fun quote_event_apply :: "quote_state \<Rightarrow> quote_event \<Rightarrow> quote_state" where
  "quote_event_apply s (Owner a) = quote_state_after_owner_action s a"
| "quote_event_apply s (Upsert incoming) = merged_quote_state_for_remote_upsert s incoming"

lemma quote_events_rejected:
  "foldl quote_event_apply Rejected es =
     (if Owner Revoke \<in> set es then Revoked else Rejected) \<and>
   foldl quote_event_apply Revoked es = Revoked"
proof (induction es)
  case (Cons e es)
  then show ?case
    by (cases e rule: quote_event.exhaust; cases "case e of Owner a \<Rightarrow> a | _ \<Rightarrow> Revoke")
       (auto simp: merged_quote_state_for_remote_upsert_def)
qed simp

text \<open>
  C1: A quote that its owner has rejected or revoked never comes back. Whatever owner actions
  and remote updates follow, in any order and number, the state stays \<open>Rejected\<close> until the
  owner revokes, and \<open>Revoked\<close> for ever; in particular no remote server can make the quote
  count or show again.
\<close>

theorem quote_refusal_is_final:
  assumes "s \<in> {Rejected, Revoked}"
  shows "foldl quote_event_apply s es =
      (if s = Revoked \<or> Owner Revoke \<in> set es then Revoked else Rejected) \<and>
    \<not> counts_in_accepted_quotes_timeline (foldl quote_event_apply s es)"
  using assms quote_events_rejected [of es] by (auto simp: counts_in_accepted_quotes_timeline_def)

theorem quote_refusal_is_final_witness:
  "foldl quote_event_apply Rejected [Upsert Accepted, Owner Approve, Owner Revoke, Upsert Pending] =
     Revoked"
  using quote_refusal_is_final
    [of Rejected "[Upsert Accepted, Owner Approve, Owner Revoke, Upsert Pending]"] by simp

text \<open>
  The three enumerations are stored as text and read back exactly: a column hydrates to a
  value if and only if it is that value's canonical spelling up to surrounding white space and
  ASCII case.
\<close>

theorem quote_columns_codec:
  "(visibility_parse s = Inr v \<longleftrightarrow> to_ascii_lowercase (trim s) = visibility_as_str v) \<and>
   (quote_approval_policy_parse s = Inr p \<longleftrightarrow>
      to_ascii_lowercase (trim s) = quote_approval_policy_as_str p) \<and>
   (quote_state_parse s = Inr q \<longleftrightarrow> to_ascii_lowercase (trim s) = quote_state_as_str q)"
  by (simp add: vis.parse_Inr_iff policy.parse_Inr_iff qstate.parse_Inr_iff)

end
