(* ===== verification/Local_Account.thy ===== *)
theory Local_Account
  imports Quote
begin

text \<open>
  Local accounts: the persisted row (\<open>account/record.rs\<close>), the entity and the conversions
  between them (\<open>account/mod.rs\<close>). The profile fields are stored as JSON by \<open>serde_json\<close>;
  \<open>from_json\<close> stands for \<open>serde_json::from_str\<close> (\<open>None\<close> for an error) and \<open>to_json\<close>
  for \<open>serde_json::to_string\<close>.
\<close>

record local_account_record =
  lar_id :: string
  lar_username :: string
  lar_access_email :: string
  lar_display_name :: string
  lar_bio_html :: string
  lar_bio_text :: string
  lar_fields_json :: string
  lar_locked :: i32
  lar_bot :: i32
  lar_discoverable :: i32
  lar_default_post_visibility :: string
  lar_default_quote_policy :: string
  lar_default_sensitive :: i32
  lar_default_language :: "string option"
  lar_avatar_object_key :: "string option"
  lar_avatar_content_type :: "string option"
  lar_header_object_key :: "string option"
  lar_header_content_type :: "string option"
  lar_private_key_jwk :: string
  lar_public_key_pem :: string
  lar_created_at :: string

definition account_record_test_fixture :: "string \<Rightarrow> string \<Rightarrow> local_account_record" where
  "account_record_test_fixture ident name =
    \<lparr>lar_id = ident, lar_username = name, lar_access_email = name @ ''@example.com'',
     lar_display_name = name, lar_bio_html = [], lar_bio_text = [], lar_fields_json = ''[]'',
     lar_locked = 0, lar_bot = 0, lar_discoverable = 0,
     lar_default_post_visibility = ''public'', lar_default_quote_policy = ''public'',
     lar_default_sensitive = 0, lar_default_language = Some ''en'',
     lar_avatar_object_key = None, lar_avatar_content_type = None,
     lar_header_object_key = None, lar_header_content_type = None,
     lar_private_key_jwk = ''{}'', lar_public_key_pem = ''pem'',
     lar_created_at = ''2026-01-01T00:00:00.000Z''\<rparr>"

record profile_field =
  pf_name :: string
  pf_value :: string

record local_account =
  la_id :: string
  la_username :: string
  la_access_email :: string
  la_display_name :: string
  la_bio_html :: string
  la_bio_text :: string
  la_fields :: "profile_field list"
  la_locked :: bool
  la_bot :: bool
  la_discoverable :: bool
  la_default_post_visibility :: visibility
  la_default_quote_policy :: quote_approval_policy
  la_default_sensitive :: bool
  la_default_language :: "string option"
  la_avatar_object_key :: "string option"
  la_avatar_content_type :: "string option"
  la_header_object_key :: "string option"
  la_header_content_type :: "string option"
  la_private_key_jwk :: string
  la_public_key_pem :: string
  la_created_at :: string

definition account_from_record ::
    "(string \<Rightarrow> profile_field list option) \<Rightarrow> local_account_record \<Rightarrow> local_account" where
  "account_from_record from_json r =
    \<lparr>la_id = lar_id r, la_username = lar_username r, la_access_email = lar_access_email r,
     la_display_name = lar_display_name r, la_bio_html = lar_bio_html r,
     la_bio_text = lar_bio_text r,
     la_fields = unwrap_or (from_json (lar_fields_json r)) [],
     la_locked = (lar_locked r \<noteq> 0), la_bot = (lar_bot r \<noteq> 0),
     la_discoverable = (lar_discoverable r \<noteq> 0),
     la_default_post_visibility =
       unwrap_or (ok (visibility_parse (lar_default_post_visibility r))) visibility.Public,
     la_default_quote_policy =
       unwrap_or (ok (quote_approval_policy_parse (lar_default_quote_policy r)))
         quote_approval_policy.Public,
     la_default_sensitive = (lar_default_sensitive r \<noteq> 0),
     la_default_language = lar_default_language r,
     la_avatar_object_key = lar_avatar_object_key r,
     la_avatar_content_type = lar_avatar_content_type r,
     la_header_object_key = lar_header_object_key r,
     la_header_content_type = lar_header_content_type r,
     la_private_key_jwk = lar_private_key_jwk r, la_public_key_pem = lar_public_key_pem r,
     la_created_at = lar_created_at r\<rparr>"

definition i32_of_bool :: "bool \<Rightarrow> i32" where
  "i32_of_bool b = (if b then 1 else 0)"

definition account_to_record ::
    "(profile_field list \<Rightarrow> string option) \<Rightarrow> local_account \<Rightarrow> local_account_record" where
  "account_to_record to_json a =
    \<lparr>lar_id = la_id a, lar_username = la_username a, lar_access_email = la_access_email a,
     lar_display_name = la_display_name a, lar_bio_html = la_bio_html a,
     lar_bio_text = la_bio_text a,
     lar_fields_json = unwrap_or (to_json (la_fields a)) ''[]'',
     lar_locked = i32_of_bool (la_locked a), lar_bot = i32_of_bool (la_bot a),
     lar_discoverable = i32_of_bool (la_discoverable a),
     lar_default_post_visibility = visibility_as_str (la_default_post_visibility a),
     lar_default_quote_policy = quote_approval_policy_as_str (la_default_quote_policy a),
     lar_default_sensitive = i32_of_bool (la_default_sensitive a),
     lar_default_language = la_default_language a,
     lar_avatar_object_key = la_avatar_object_key a,
     lar_avatar_content_type = la_avatar_content_type a,
     lar_header_object_key = la_header_object_key a,
     lar_header_content_type = la_header_content_type a,
     lar_private_key_jwk = la_private_key_jwk a, lar_public_key_pem = la_public_key_pem a,
     lar_created_at = la_created_at a\<rparr>"

definition acct :: "local_account \<Rightarrow> string" where
  "acct a = la_username a"

definition resolved_default_quote_policy :: "local_account \<Rightarrow> quote_approval_policy" where
  "resolved_default_quote_policy a = la_default_quote_policy a"

lemma i32_of_bool_neq_0 [simp]: "i32_of_bool b \<noteq> 0 \<longleftrightarrow> b"
  by (simp add: i32_of_bool_def)

text \<open>The default policy of the row, read through the codec.\<close>

definition account_record_default_policy :: "local_account_record \<Rightarrow> quote_approval_policy" where
  "account_record_default_policy r =
    unwrap_or (ok (quote_approval_policy_parse (lar_default_quote_policy r)))
      quote_approval_policy.Public"

lemma from_record_default_policy [simp]:
  "resolved_default_quote_policy (account_from_record j r) = account_record_default_policy r"
  by (simp add: resolved_default_quote_policy_def account_from_record_def
      account_record_default_policy_def)

text \<open>
  An entity written to a row and read back is the same entity, for every field codec that reads
  back what it wrote.
\<close>

lemma account_from_to_record:
  assumes "\<And>js. to_json (la_fields a) = Some js \<Longrightarrow> from_json js = Some (la_fields a)"
    and "to_json (la_fields a) = None \<Longrightarrow> la_fields a = [] \<and> from_json ''[]'' \<in> {None, Some []}"
  shows "account_from_record from_json (account_to_record to_json a) = a"
proof (cases "to_json (la_fields a)")
  case None
  with assms(2) show ?thesis
    by (cases a) (auto simp: account_from_record_def account_to_record_def)
next
  case (Some js)
  with assms(1) show ?thesis
    by (cases a) (auto simp: account_from_record_def account_to_record_def)
qed

text \<open>
  Reading a row normalises it: reading, writing and reading again is reading once.
\<close>

lemma account_record_normalises:
  assumes "\<And>fs. \<exists>js. to_json fs = Some js \<and> from_json js = Some fs"
  shows "account_from_record from_json (account_to_record to_json (account_from_record from_json r)) =
    account_from_record from_json r"
proof (rule account_from_to_record)
  let ?f = "la_fields (account_from_record from_json r)"
  show "to_json ?f = Some js \<Longrightarrow> from_json js = Some ?f" for js
    using assms [of ?f] by auto
  show "to_json ?f = None \<Longrightarrow> ?f = [] \<and> from_json ''[]'' \<in> {None, Some []}"
    using assms [of ?f] by auto
qed

end
