(* ===== verification/Status_Draft.thy ===== *)
theory Status_Draft
  imports Local_Account
begin

text \<open>
  Poll drafts (\<open>status/poll.rs\<close>) and the path of a composed status to its publication
  (\<open>status/draft.rs\<close>): \<open>ComposingStatus\<close> is validated into a \<open>StatusDraft\<close>, which
  becomes a \<open>PublishIntent\<close> once the quote policy and quote state are resolved.
\<close>

section \<open>Polls\<close>

record poll_draft =
  pd_options :: "string list"
  pd_expires_in_seconds :: u64
  pd_multiple :: bool
  pd_hide_totals :: bool

definition poll_draft_try_new ::
    "string list \<Rightarrow> u64 \<Rightarrow> bool \<Rightarrow> bool \<Rightarrow> poll_draft_error + poll_draft" where
  "poll_draft_try_new options expires_in_seconds multiple hide_totals =
    (let options = trimmed_nonempty options in
     if length options < 2 \<or> 4 < length options then Inl InvalidOptionCount
     else if expires_in_seconds < 300 then Inl ExpiresInTooShort
     else Inr \<lparr>pd_options = options, pd_expires_in_seconds = expires_in_seconds,
               pd_multiple = multiple, pd_hide_totals = hide_totals\<rparr>)"

record stored_local_poll_vote_intent =
  lv_vote_id :: string
  lv_poll_id :: string
  lv_account_id :: string
  lv_option_position :: u32
  lv_activity_uri :: "string option"

definition local_poll_vote_new ::
    "string \<Rightarrow> string \<Rightarrow> string \<Rightarrow> u32 \<Rightarrow> string option \<Rightarrow> stored_local_poll_vote_intent" where
  "local_poll_vote_new vote poll account position activity =
    \<lparr>lv_vote_id = vote, lv_poll_id = poll, lv_account_id = account,
     lv_option_position = position, lv_activity_uri = activity\<rparr>"

record stored_remote_poll_vote_intent =
  rv_vote_id :: string
  rv_poll_id :: string
  rv_account_id :: string
  rv_option_position :: u32
  rv_option_title :: string
  rv_activity_id :: string

definition remote_poll_vote_new ::
    "string \<Rightarrow> string \<Rightarrow> string \<Rightarrow> u32 \<Rightarrow> string \<Rightarrow> string \<Rightarrow>
     stored_remote_poll_vote_intent" where
  "remote_poll_vote_new vote poll account position title activity =
    \<lparr>rv_vote_id = vote, rv_poll_id = poll, rv_account_id = account,
     rv_option_position = position, rv_option_title = title, rv_activity_id = activity\<rparr>"

section \<open>Drafts\<close>

datatype status_draft_event = DraftValidated | PublishIntentResolved

record composing_status =
  cs_text :: string
  cs_visibility :: visibility
  cs_spoiler_text :: string
  cs_sensitive :: bool
  cs_language :: "string option"
  cs_quote_approval_policy :: "quote_approval_policy option"
  cs_in_reply_to_id :: "string option"
  cs_media_ids :: "string list"
  cs_poll :: "poll_draft option"

record status_draft =
  sd_text :: string
  sd_visibility :: visibility
  sd_spoiler_text :: string
  sd_sensitive :: bool
  sd_language :: "string option"
  sd_quote_approval_policy :: "quote_approval_policy option"
  sd_in_reply_to_id :: "string option"
  sd_media_ids :: "string list"
  sd_poll :: "poll_draft option"

definition normalized_language :: "string option \<Rightarrow> string option" where
  "normalized_language l =
    opt_filter (\<lambda>v. v \<noteq> []) (map_option (\<lambda>v. to_ascii_lowercase (trim v)) l)"

definition composing_status_validate ::
    "composing_status \<Rightarrow> string option \<Rightarrow>
     status_draft_error + (status_draft, status_draft_event) transition" where
  "composing_status_validate c quoted_status_id =
    (let has_poll = (cs_poll c \<noteq> None);
         media_ids = trimmed_nonempty (cs_media_ids c) in
     if trim (cs_text c) = [] \<and> media_ids = [] \<and> \<not> has_poll then Inl EmptyPayload
     else if length media_ids > 4 then Inl TooManyMedia
     else if has_poll \<and> media_ids \<noteq> [] then Inl PollWithMedia
     else if quoted_status_id \<noteq> None \<and> (has_poll \<or> media_ids \<noteq> []) then Inl QuoteWithMediaOrPoll
     else Inr (with_event
       \<lparr>sd_text = trim (cs_text c), sd_visibility = cs_visibility c,
        sd_spoiler_text = trim (cs_spoiler_text c), sd_sensitive = cs_sensitive c,
        sd_language = normalized_language (cs_language c),
        sd_quote_approval_policy = cs_quote_approval_policy c,
        sd_in_reply_to_id = trimmed_option (cs_in_reply_to_id c),
        sd_media_ids = media_ids, sd_poll = cs_poll c\<rparr>
       DraftValidated))"

definition status_draft_try_from_persisted ::
    "string \<Rightarrow> visibility \<Rightarrow> string \<Rightarrow> bool \<Rightarrow> string option \<Rightarrow> quote_approval_policy option \<Rightarrow>
     string option \<Rightarrow> string list \<Rightarrow> poll_draft option \<Rightarrow> status_draft_error + status_draft" where
  "status_draft_try_from_persisted txt v spoiler sensitive language policy reply media poll =
    map_sum id t_state
      (composing_status_validate
        \<lparr>cs_text = txt, cs_visibility = v, cs_spoiler_text = spoiler, cs_sensitive = sensitive,
         cs_language = language, cs_quote_approval_policy = policy, cs_in_reply_to_id = reply,
         cs_media_ids = media, cs_poll = poll\<rparr> None)"

definition effective_quote_policy :: "status_draft \<Rightarrow> local_account \<Rightarrow> quote_approval_policy" where
  "effective_quote_policy d account =
    for_status_visibility (sd_visibility d) (sd_quote_approval_policy d)
      (resolved_default_quote_policy account)"

section \<open>Publication\<close>

record quote_target_resolution =
  qt_has_quote :: bool
  qt_target_exists_locally :: bool

definition quote_target_none :: quote_target_resolution where
  "quote_target_none = \<lparr>qt_has_quote = False, qt_target_exists_locally = False\<rparr>"

definition quote_target_with_target :: "bool \<Rightarrow> quote_target_resolution" where
  "quote_target_with_target target_exists_locally =
    \<lparr>qt_has_quote = True, qt_target_exists_locally = target_exists_locally\<rparr>"

definition quote_target_initial_state :: "quote_target_resolution \<Rightarrow> quote_state" where
  "quote_target_initial_state q =
    initial_for_quote_target (qt_has_quote q) (qt_target_exists_locally q)"

record publish_intent =
  pi_draft :: status_draft
  pi_quote_policy :: quote_approval_policy
  pi_quote_state :: quote_state

definition into_publish_intent ::
    "status_draft \<Rightarrow> local_account \<Rightarrow> quote_target_resolution \<Rightarrow>
     (publish_intent, status_draft_event) transition" where
  "into_publish_intent d account quote_target =
    with_event
      \<lparr>pi_draft = d, pi_quote_policy = effective_quote_policy d account,
       pi_quote_state = quote_target_initial_state quote_target\<rparr>
      PublishIntentResolved"

definition publish_intent_in_reply_to_id :: "publish_intent \<Rightarrow> status_id option" where
  "publish_intent_in_reply_to_id i =
    (case sd_in_reply_to_id (pi_draft i) of
       None \<Rightarrow> None
     | Some v \<Rightarrow> ok (status_id_new v))"

definition publish_intent_media_ids :: "publish_intent \<Rightarrow> (id_error + media_id) list" where
  "publish_intent_media_ids i = map media_id_new (sd_media_ids (pi_draft i))"

section \<open>What a valid draft is\<close>

definition poll_draft_ok :: "poll_draft \<Rightarrow> bool" where
  "poll_draft_ok p \<longleftrightarrow> 2 \<le> length (pd_options p) \<and> length (pd_options p) \<le> 4 \<and>
    list_all (\<lambda>o'. o' \<noteq> [] \<and> trim o' = o') (pd_options p) \<and> 300 \<le> pd_expires_in_seconds p"

lemma poll_draft_try_new_ok: "poll_draft_try_new os e m h = Inr p \<Longrightarrow> poll_draft_ok p"
  using trimmed_nonempty_fixed [of os]
  by (auto simp: poll_draft_try_new_def poll_draft_ok_def Let_def list_all_iff split: if_splits)

lemma poll_draft_again:
  "poll_draft_ok p \<Longrightarrow>
   poll_draft_try_new (pd_options p) (pd_expires_in_seconds p) (pd_multiple p) (pd_hide_totals p) =
     Inr p"
  by (cases p) (auto simp: poll_draft_ok_def poll_draft_try_new_def trimmed_nonempty_id not_less)

text \<open>The well-formedness of a draft, as every later stage relies on it.\<close>

definition status_draft_ok :: "status_draft \<Rightarrow> bool" where
  "status_draft_ok d \<longleftrightarrow>
    trim (sd_text d) = sd_text d \<and> trim (sd_spoiler_text d) = sd_spoiler_text d \<and>
    normalized_language (sd_language d) = sd_language d \<and>
    trimmed_option (sd_in_reply_to_id d) = sd_in_reply_to_id d \<and>
    trimmed_nonempty (sd_media_ids d) = sd_media_ids d \<and> length (sd_media_ids d) \<le> 4 \<and>
    (sd_text d \<noteq> [] \<or> sd_media_ids d \<noteq> [] \<or> sd_poll d \<noteq> None) \<and>
    (sd_poll d = None \<or> sd_media_ids d = [])"

lemma normalized_language_idem [simp]:
  "normalized_language (normalized_language l) = normalized_language l"
  by (cases l) (auto simp: normalized_language_def trim_to_ascii_lowercase)

lemma composing_status_validate_Inr:
  "composing_status_validate c q = Inr t \<longleftrightarrow>
    (trim (cs_text c) \<noteq> [] \<or> trimmed_nonempty (cs_media_ids c) \<noteq> [] \<or> cs_poll c \<noteq> None) \<and>
    length (trimmed_nonempty (cs_media_ids c)) \<le> 4 \<and>
    (cs_poll c = None \<or> trimmed_nonempty (cs_media_ids c) = []) \<and>
    (q = None \<or> cs_poll c = None \<and> trimmed_nonempty (cs_media_ids c) = []) \<and>
    t = with_event
      \<lparr>sd_text = trim (cs_text c), sd_visibility = cs_visibility c,
       sd_spoiler_text = trim (cs_spoiler_text c), sd_sensitive = cs_sensitive c,
       sd_language = normalized_language (cs_language c),
       sd_quote_approval_policy = cs_quote_approval_policy c,
       sd_in_reply_to_id = trimmed_option (cs_in_reply_to_id c),
       sd_media_ids = trimmed_nonempty (cs_media_ids c), sd_poll = cs_poll c\<rparr> DraftValidated"
  unfolding composing_status_validate_def Let_def
  by (simp add: not_less split del: if_split split: if_split_asm) auto

lemma composing_status_validate_ok:
  "composing_status_validate c q = Inr t \<Longrightarrow> status_draft_ok (t_state t)"
  unfolding composing_status_validate_Inr status_draft_ok_def
  by (elim conjE) (simp; blast)

text \<open>A draft as it is composed again from what was stored.\<close>

definition recompose :: "status_draft \<Rightarrow> composing_status" where
  "recompose d =
    \<lparr>cs_text = sd_text d, cs_visibility = sd_visibility d, cs_spoiler_text = sd_spoiler_text d,
     cs_sensitive = sd_sensitive d, cs_language = sd_language d,
     cs_quote_approval_policy = sd_quote_approval_policy d,
     cs_in_reply_to_id = sd_in_reply_to_id d, cs_media_ids = sd_media_ids d,
     cs_poll = sd_poll d\<rparr>"

lemma revalidate:
  "status_draft_ok d \<Longrightarrow>
   composing_status_validate (recompose d) None = Inr (with_event d DraftValidated)"
  by (cases d) (auto simp: composing_status_validate_def recompose_def status_draft_ok_def Let_def)

lemma try_from_persisted_recompose:
  "status_draft_try_from_persisted (sd_text d) (sd_visibility d) (sd_spoiler_text d)
     (sd_sensitive d) (sd_language d) (sd_quote_approval_policy d) (sd_in_reply_to_id d)
     (sd_media_ids d) (sd_poll d) =
   map_sum id t_state (composing_status_validate (recompose d) None)"
  by (simp add: status_draft_try_from_persisted_def recompose_def)

lemma intent_media_valid:
  assumes "status_draft_ok (pi_draft i)"
  shows "publish_intent_media_ids i = map (Inr \<circ> MediaId) (sd_media_ids (pi_draft i))"
proof -
  have "\<forall>v \<in> set (sd_media_ids (pi_draft i)). media_id_new v = Inr (MediaId v)"
    using assms trimmed_nonempty_fixed [of "sd_media_ids (pi_draft i)"]
    by (auto simp: status_draft_ok_def media_id_new_Inr)
  then show ?thesis by (simp add: publish_intent_media_ids_def)
qed

lemma intent_reply_valid:
  assumes "status_draft_ok (pi_draft i)"
  shows "publish_intent_in_reply_to_id i = map_option StatusId (sd_in_reply_to_id (pi_draft i))"
proof (cases "sd_in_reply_to_id (pi_draft i)")
  case (Some v)
  with assms have "trim v = v" "v \<noteq> []"
    by (auto simp: status_draft_ok_def trimmed_option_def split: if_splits)
  then show ?thesis
    using Some by (simp add: publish_intent_in_reply_to_id_def status_id_new_def id_new_def)
qed (simp add: publish_intent_in_reply_to_id_def)

lemma quote_target_cases:
  "quote_target_initial_state quote_target_none = Accepted"
  "quote_target_initial_state (quote_target_with_target True) = Accepted"
  "quote_target_initial_state (quote_target_with_target False) = Pending"
  by (simp_all add: quote_target_initial_state_def quote_target_none_def
      quote_target_with_target_def initial_for_quote_target_def)

section \<open>Properties\<close>

text \<open>
  A composed status is refused for exactly one reason, the first that applies in the order
  empty payload, too many media, poll with media, quote with media or poll; blank media ids do
  not count.
\<close>

theorem composing_status_refusals:
  "(let media = trimmed_nonempty (cs_media_ids c);
        empty = (trim (cs_text c) = [] \<and> media = [] \<and> cs_poll c = None);
        many = (4 < length media);
        mixed = (cs_poll c \<noteq> None \<and> media \<noteq> []);
        quoted = (q \<noteq> None \<and> \<not> (cs_poll c = None \<and> media = []))
    in err (composing_status_validate c q) =
         (if empty then Some EmptyPayload
          else if many then Some TooManyMedia
          else if mixed then Some PollWithMedia
          else if quoted then Some QuoteWithMediaOrPoll
          else None))"
  by (auto simp: composing_status_validate_def Let_def)

text \<open>
  Whatever validation accepts can be stored and validated again without changing: a
  scheduled draft read back from its columns is the draft that was scheduled. Its media ids and
  its reply target are valid identifiers, so no later stage loses any of them.
\<close>

theorem draft_persistence_stable:
  assumes "composing_status_validate c q = Inr t"
  shows "let d = t_state t; i = t_state (into_publish_intent d account target) in
    status_draft_try_from_persisted (sd_text d) (sd_visibility d) (sd_spoiler_text d)
      (sd_sensitive d) (sd_language d) (sd_quote_approval_policy d) (sd_in_reply_to_id d)
      (sd_media_ids d) (sd_poll d) = Inr d \<and>
    publish_intent_media_ids i = map (Inr \<circ> MediaId) (sd_media_ids d) \<and>
    publish_intent_in_reply_to_id i = map_option StatusId (sd_in_reply_to_id d)"
proof -
  have ok: "status_draft_ok (t_state t)" using assms by (rule composing_status_validate_ok)
  then have i: "status_draft_ok (pi_draft (t_state (into_publish_intent (t_state t) account target)))"
    by (simp add: into_publish_intent_def)
  show ?thesis
    unfolding Let_def using revalidate [OF ok] intent_media_valid [OF i] intent_reply_valid [OF i]
    by (simp add: try_from_persisted_recompose into_publish_intent_def)
qed

definition sample_composing :: composing_status where
  "sample_composing =
    \<lparr>cs_text = '' hello '', cs_visibility = Unlisted, cs_spoiler_text = [], cs_sensitive = False,
     cs_language = Some '' EN '', cs_quote_approval_policy = None,
     cs_in_reply_to_id = Some '' 12 '', cs_media_ids = [''m1'', ''  ''], cs_poll = None\<rparr>"

theorem draft_persistence_stable_witness:
  "\<exists>d. sd_text d = ''hello'' \<and> sd_media_ids d = [''m1''] \<and>
    status_draft_try_from_persisted ''hello'' Unlisted [] False (Some ''en'') None (Some ''12'')
      [''m1''] None = Inr d"
proof -
  define d where "d = \<lparr>sd_text = ''hello'', sd_visibility = Unlisted, sd_spoiler_text = [],
    sd_sensitive = False, sd_language = Some ''en'', sd_quote_approval_policy = None,
    sd_in_reply_to_id = Some ''12'', sd_media_ids = [''m1''], sd_poll = None\<rparr>"
  have "composing_status_validate sample_composing None = Inr (with_event d DraftValidated)"
    unfolding sample_composing_def d_def by code_simp
  from draft_persistence_stable [OF this] show ?thesis
    by (intro exI [of _ d]) (simp add: Let_def d_def)
qed

end
