(* ===== verification/Local_Status.thy ===== *)
theory Local_Status
  imports Status_Draft
begin

text \<open>
  Persisted local statuses: the row (\<open>status/record.rs\<close>), the entity and its hydration
  (\<open>status/local.rs\<close>), and the intents that are written after publication
  (\<open>status/stored.rs\<close>). \<open>from_record\<close> panics on a row that does not hydrate: its model
  is an option.
\<close>

section \<open>Rows\<close>

record local_status_record =
  lsr_id :: string
  lsr_account_id :: string
  lsr_ap_id :: "string option"
  lsr_in_reply_to_id :: "string option"
  lsr_in_reply_to_account_id :: "string option"
  lsr_boost_of_uri :: "string option"
  lsr_quote_of_uri :: "string option"
  lsr_content_html :: string
  lsr_text_content :: string
  lsr_spoiler_text :: string
  lsr_visibility :: string
  lsr_sensitive :: i32
  lsr_language :: "string option"
  lsr_quote_approval_policy :: "string option"
  lsr_quote_state :: string
  lsr_application_id :: "i64 option"
  lsr_card_json :: "string option"
  lsr_created_at :: string
  lsr_updated_at :: "string option"

definition local_status_default_quote_state :: string where
  "local_status_default_quote_state = quote_state_as_str Accepted"

definition record_effective_quote_state :: "local_status_record \<Rightarrow> quote_state" where
  "record_effective_quote_state r =
    (let stored = unwrap_or (ok (quote_state_parse (lsr_quote_state r))) Accepted
     in effective_for_stored (lsr_quote_of_uri r) stored)"

definition record_has_active_quote :: "local_status_record \<Rightarrow> bool" where
  "record_has_active_quote r \<longleftrightarrow>
    lsr_quote_of_uri r \<noteq> None \<and> quote_state_is_visible (record_effective_quote_state r)"

definition record_effective_quote_approval_policy ::
    "local_status_record \<Rightarrow> quote_approval_policy" where
  "record_effective_quote_approval_policy r =
    for_stored_visibility (lsr_visibility r) (lsr_quote_approval_policy r)"

definition record_visibility_parsed :: "local_status_record \<Rightarrow> visibility" where
  "record_visibility_parsed r =
    unwrap_or (ok (visibility_parse (lsr_visibility r))) visibility.Public"

definition record_is_sensitive :: "local_status_record \<Rightarrow> bool" where
  "record_is_sensitive r \<longleftrightarrow> lsr_sensitive r \<noteq> 0"

section \<open>The entity\<close>

record local_status =
  ls_id :: string
  ls_account_id :: string
  ls_ap_id :: "string option"
  ls_in_reply_to_id :: "string option"
  ls_in_reply_to_account_id :: "string option"
  ls_boost_of_uri :: "string option"
  ls_quote_of_uri :: "string option"
  ls_content_html :: string
  ls_text :: string
  ls_spoiler_text :: string
  ls_visibility :: visibility
  ls_sensitive :: bool
  ls_language :: "string option"
  ls_quote_approval_policy :: "quote_approval_policy option"
  ls_quote_state :: quote_state
  ls_application_id :: "i64 option"
  ls_card_json :: "string option"
  ls_created_at :: string
  ls_updated_at :: "string option"

text \<open>
  The two \<open>?\<close> operators run in the order of the fields: an unknown visibility is reported
  before an unknown quote state. A stored policy that does not parse is dropped.
\<close>

definition local_status_try_from_record ::
    "local_status_record \<Rightarrow> record_hydration_error + local_status" where
  "local_status_try_from_record r =
    and_then (map_err VisibilityIssue (visibility_parse (lsr_visibility r))) (\<lambda>v.
    and_then (map_err QuoteStateIssue (quote_state_parse (lsr_quote_state r))) (\<lambda>q.
      Inr \<lparr>ls_id = lsr_id r, ls_account_id = lsr_account_id r, ls_ap_id = lsr_ap_id r,
           ls_in_reply_to_id = lsr_in_reply_to_id r,
           ls_in_reply_to_account_id = lsr_in_reply_to_account_id r,
           ls_boost_of_uri = lsr_boost_of_uri r, ls_quote_of_uri = lsr_quote_of_uri r,
           ls_content_html = lsr_content_html r, ls_text = lsr_text_content r,
           ls_spoiler_text = lsr_spoiler_text r, ls_visibility = v,
           ls_sensitive = (lsr_sensitive r \<noteq> 0), ls_language = lsr_language r,
           ls_quote_approval_policy =
             (case lsr_quote_approval_policy r of
                None \<Rightarrow> None
              | Some p \<Rightarrow> ok (quote_approval_policy_parse p)),
           ls_quote_state = q, ls_application_id = lsr_application_id r,
           ls_card_json = lsr_card_json r, ls_created_at = lsr_created_at r,
           ls_updated_at = lsr_updated_at r\<rparr>))"

definition local_status_from_record :: "local_status_record \<Rightarrow> local_status option" where
  "local_status_from_record r = ok (local_status_try_from_record r)"

definition local_status_to_record :: "local_status \<Rightarrow> local_status_record" where
  "local_status_to_record s =
    \<lparr>lsr_id = ls_id s, lsr_account_id = ls_account_id s, lsr_ap_id = ls_ap_id s,
     lsr_in_reply_to_id = ls_in_reply_to_id s,
     lsr_in_reply_to_account_id = ls_in_reply_to_account_id s,
     lsr_boost_of_uri = ls_boost_of_uri s, lsr_quote_of_uri = ls_quote_of_uri s,
     lsr_content_html = ls_content_html s, lsr_text_content = ls_text s,
     lsr_spoiler_text = ls_spoiler_text s,
     lsr_visibility = visibility_as_str (ls_visibility s),
     lsr_sensitive = i32_of_bool (ls_sensitive s), lsr_language = ls_language s,
     lsr_quote_approval_policy =
       map_option quote_approval_policy_as_str (ls_quote_approval_policy s),
     lsr_quote_state = quote_state_as_str (ls_quote_state s),
     lsr_application_id = ls_application_id s, lsr_card_json = ls_card_json s,
     lsr_created_at = ls_created_at s, lsr_updated_at = ls_updated_at s\<rparr>"

definition status_effective_quote_state :: "local_status \<Rightarrow> quote_state" where
  "status_effective_quote_state s = effective_for_stored (ls_quote_of_uri s) (ls_quote_state s)"

definition status_has_active_quote :: "local_status \<Rightarrow> bool" where
  "status_has_active_quote s \<longleftrightarrow>
    ls_quote_of_uri s \<noteq> None \<and> quote_state_is_visible (status_effective_quote_state s)"

definition status_effective_quote_approval_policy :: "local_status \<Rightarrow> quote_approval_policy" where
  "status_effective_quote_approval_policy s =
    for_stored_visibility (visibility_as_str (ls_visibility s))
      (map_option quote_approval_policy_as_str (ls_quote_approval_policy s))"

section \<open>Persistence intents\<close>

record local_status_persistence_facts =
  lf_status_id :: string
  lf_account_id :: string
  lf_ap_id :: string
  lf_quote_of_uri :: "string option"
  lf_content_html :: string
  lf_application_id :: "i64 option"
  lf_in_reply_to_account_id :: "string option"
  lf_card_json :: "string option"
  lf_created_at :: string

record stored_local_status_intent =
  sl_status_id :: string
  sl_account_id :: string
  sl_ap_id :: string
  sl_in_reply_to_id :: "string option"
  sl_quote_of_uri :: "string option"
  sl_content_html :: string
  sl_text_content :: string
  sl_spoiler_text :: string
  sl_visibility :: visibility
  sl_sensitive :: bool
  sl_language :: "string option"
  sl_quote_approval_policy :: quote_approval_policy
  sl_quote_state :: quote_state
  sl_application_id :: "i64 option"
  sl_in_reply_to_account_id :: "string option"
  sl_card_json :: "string option"
  sl_created_at :: string

definition into_stored_intent ::
    "publish_intent \<Rightarrow> local_status_persistence_facts \<Rightarrow>
     (stored_local_status_intent, unit) transition" where
  "into_stored_intent i facts =
    without_events
      \<lparr>sl_status_id = lf_status_id facts, sl_account_id = lf_account_id facts,
       sl_ap_id = lf_ap_id facts, sl_in_reply_to_id = sd_in_reply_to_id (pi_draft i),
       sl_quote_of_uri = lf_quote_of_uri facts, sl_content_html = lf_content_html facts,
       sl_text_content = sd_text (pi_draft i), sl_spoiler_text = sd_spoiler_text (pi_draft i),
       sl_visibility = sd_visibility (pi_draft i), sl_sensitive = sd_sensitive (pi_draft i),
       sl_language = sd_language (pi_draft i), sl_quote_approval_policy = pi_quote_policy i,
       sl_quote_state = pi_quote_state i, sl_application_id = lf_application_id facts,
       sl_in_reply_to_account_id = lf_in_reply_to_account_id facts,
       sl_card_json = lf_card_json facts, sl_created_at = lf_created_at facts\<rparr>"

definition stored_status_to_record :: "stored_local_status_intent \<Rightarrow> local_status_record" where
  "stored_status_to_record s =
    \<lparr>lsr_id = sl_status_id s, lsr_account_id = sl_account_id s, lsr_ap_id = Some (sl_ap_id s),
     lsr_in_reply_to_id = sl_in_reply_to_id s,
     lsr_in_reply_to_account_id = sl_in_reply_to_account_id s,
     lsr_boost_of_uri = None, lsr_quote_of_uri = sl_quote_of_uri s,
     lsr_content_html = sl_content_html s, lsr_text_content = sl_text_content s,
     lsr_spoiler_text = sl_spoiler_text s,
     lsr_visibility = visibility_as_str (sl_visibility s),
     lsr_sensitive = i32_of_bool (sl_sensitive s), lsr_language = sl_language s,
     lsr_quote_approval_policy =
       Some (quote_approval_policy_as_str (sl_quote_approval_policy s)),
     lsr_quote_state = quote_state_as_str (sl_quote_state s),
     lsr_application_id = sl_application_id s, lsr_card_json = sl_card_json s,
     lsr_created_at = sl_created_at s, lsr_updated_at = Some (sl_created_at s)\<rparr>"

record local_reblog_persistence_facts =
  rf_status_id :: string
  rf_account_id :: string
  rf_ap_id :: string
  rf_boost_of_uri :: string
  rf_visibility :: visibility
  rf_created_at :: string

record stored_local_reblog_intent =
  sr_status_id :: string
  sr_account_id :: string
  sr_ap_id :: string
  sr_boost_of_uri :: string
  sr_visibility :: visibility
  sr_created_at :: string

definition stored_reblog_new :: "local_reblog_persistence_facts \<Rightarrow> stored_local_reblog_intent" where
  "stored_reblog_new facts =
    \<lparr>sr_status_id = rf_status_id facts, sr_account_id = rf_account_id facts,
     sr_ap_id = rf_ap_id facts, sr_boost_of_uri = rf_boost_of_uri facts,
     sr_visibility = rf_visibility facts, sr_created_at = rf_created_at facts\<rparr>"

definition stored_reblog_to_record :: "stored_local_reblog_intent \<Rightarrow> local_status_record" where
  "stored_reblog_to_record s =
    \<lparr>lsr_id = sr_status_id s, lsr_account_id = sr_account_id s, lsr_ap_id = Some (sr_ap_id s),
     lsr_in_reply_to_id = None, lsr_in_reply_to_account_id = None,
     lsr_boost_of_uri = Some (sr_boost_of_uri s), lsr_quote_of_uri = None,
     lsr_content_html = [], lsr_text_content = [], lsr_spoiler_text = [],
     lsr_visibility = visibility_as_str (sr_visibility s),
     lsr_sensitive = 0, lsr_language = None,
     lsr_quote_approval_policy =
       Some (quote_approval_policy_as_str quote_approval_policy.Public),
     lsr_quote_state = quote_state_as_str Accepted,
     lsr_application_id = None, lsr_card_json = None,
     lsr_created_at = sr_created_at s, lsr_updated_at = Some (sr_created_at s)\<rparr>"

record status_interaction_counts =
  ic_favourites :: u64
  ic_reblogs :: u64
  ic_replies :: u64

section \<open>Hydration\<close>

lemma local_status_from_to_record:
  "local_status_try_from_record (local_status_to_record s) = Inr s"
  by (cases s)
     (auto simp: local_status_try_from_record_def local_status_to_record_def split: option.splits)

lemma hydration_ok_iff:
  "is_ok (local_status_try_from_record r) \<longleftrightarrow>
   is_ok (visibility_parse (lsr_visibility r)) \<and> is_ok (quote_state_parse (lsr_quote_state r))"
  by (cases "visibility_parse (lsr_visibility r)"; cases "quote_state_parse (lsr_quote_state r)")
     (simp_all add: local_status_try_from_record_def)

lemma hydration_error:
  "local_status_try_from_record r = Inl x \<longleftrightarrow>
   (\<exists>e. visibility_parse (lsr_visibility r) = Inl e \<and> x = VisibilityIssue e) \<or>
   is_ok (visibility_parse (lsr_visibility r)) \<and>
     (\<exists>e. quote_state_parse (lsr_quote_state r) = Inl e \<and> x = QuoteStateIssue e)"
  by (cases "visibility_parse (lsr_visibility r)"; cases "quote_state_parse (lsr_quote_state r)")
     (auto simp: local_status_try_from_record_def)

lemma hydrated_fields:
  assumes "local_status_try_from_record r = Inr s"
  shows "visibility_parse (lsr_visibility r) = Inr (ls_visibility s)"
    and "quote_state_parse (lsr_quote_state r) = Inr (ls_quote_state s)"
    and "ls_quote_of_uri s = lsr_quote_of_uri r"
    and "ls_quote_approval_policy s =
      Option.bind (lsr_quote_approval_policy r) (\<lambda>p. ok (quote_approval_policy_parse p))"
  using assms
  by (auto simp: local_status_try_from_record_def and_then_Inr split: option.splits)

text \<open>On a row that hydrates, row and entity agree on the quote state.\<close>

lemma hydrated_quote_state:
  "local_status_try_from_record r = Inr s \<Longrightarrow>
   record_effective_quote_state r = status_effective_quote_state s"
  by (simp add: hydrated_fields record_effective_quote_state_def status_effective_quote_state_def)

lemma entity_policy:
  "status_effective_quote_approval_policy s =
   for_status_visibility (ls_visibility s) (ls_quote_approval_policy s) quote_approval_policy.Public"
  by (simp add: status_effective_quote_approval_policy_def for_stored_visibility_canonical)

text \<open>
  They agree on the policy when the visibility column is canonical. Without this hypothesis
  they need not: a row may hydrate to a restricted visibility that the raw comparison misses.
\<close>

lemma hydrated_policy:
  assumes "local_status_try_from_record r = Inr s"
    and "lsr_visibility r = visibility_as_str (ls_visibility s)"
  shows "record_effective_quote_approval_policy r = status_effective_quote_approval_policy s"
  using assms hydrated_fields [OF assms(1)]
  by (cases "ls_visibility s"; cases "lsr_quote_approval_policy r")
     (auto simp: record_effective_quote_approval_policy_def entity_policy for_stored_visibility_def
       for_status_visibility_def unwrap_or_def split: option.splits)

text \<open>What a published status is once it is stored: the row is canonical and hydrates.\<close>

lemma stored_row_hydrates:
  "local_status_try_from_record (stored_status_to_record i) = Inr
     \<lparr>ls_id = sl_status_id i, ls_account_id = sl_account_id i, ls_ap_id = Some (sl_ap_id i),
      ls_in_reply_to_id = sl_in_reply_to_id i,
      ls_in_reply_to_account_id = sl_in_reply_to_account_id i, ls_boost_of_uri = None,
      ls_quote_of_uri = sl_quote_of_uri i, ls_content_html = sl_content_html i,
      ls_text = sl_text_content i, ls_spoiler_text = sl_spoiler_text i,
      ls_visibility = sl_visibility i, ls_sensitive = sl_sensitive i,
      ls_language = sl_language i,
      ls_quote_approval_policy = Some (sl_quote_approval_policy i),
      ls_quote_state = sl_quote_state i, ls_application_id = sl_application_id i,
      ls_card_json = sl_card_json i, ls_created_at = sl_created_at i,
      ls_updated_at = Some (sl_created_at i)\<rparr>"
  by (simp add: local_status_try_from_record_def stored_status_to_record_def)

lemma policy_twice:
  "for_status_visibility v (Some (for_status_visibility v p d)) e = for_status_visibility v p d"
  by (simp add: for_status_visibility_def)

section \<open>Properties\<close>



text \<open>
  Reading any row of local statuses either fails, naming the visibility column first, or
  gives a status that survives being written and read again; row and status agree on the quote
  state at once, and on the quote policy after one write.
\<close>

theorem local_row_hydration:
  "(case local_status_try_from_record r of
      Inl e \<Rightarrow>
        e = (if is_ok (visibility_parse (lsr_visibility r))
             then QuoteStateIssue quote_state_error.Unknown
             else VisibilityIssue visibility_error.Unknown) \<and>
        \<not> (is_ok (visibility_parse (lsr_visibility r)) \<and>
           is_ok (quote_state_parse (lsr_quote_state r)))
    | Inr s \<Rightarrow>
        local_status_try_from_record (local_status_to_record s) = Inr s \<and>
        record_effective_quote_state r = status_effective_quote_state s \<and>
        record_effective_quote_approval_policy (local_status_to_record s) =
          status_effective_quote_approval_policy s)"
proof (cases "local_status_try_from_record r")
  case (Inl e)
  then show ?thesis
    using hydration_error [of r e] hydration_ok_iff [of r]
    by (cases "visibility_parse (lsr_visibility r)"; cases "quote_state_parse (lsr_quote_state r)")
       (auto simp: is_ok_def visibility_error.nchotomy quote_state_error.nchotomy)
next
  case (Inr s)
  have "lsr_visibility (local_status_to_record s) = visibility_as_str (ls_visibility s)"
    by (simp add: local_status_to_record_def)
  then show ?thesis
    using Inr hydrated_quote_state [OF Inr] local_status_from_to_record [of s]
      hydrated_policy [OF local_status_from_to_record]
    by simp
qed

text \<open>
  The row-level quote policy compares the raw visibility column, the entity the parsed one.
  A row whose visibility is written with padding or capitals hydrates to a restricted status
  that nobody may quote, and has whatever policy is stored at row level.
\<close>

theorem raw_visibility_policy_gap:
  "(let r' = r\<lparr>lsr_visibility := '' Private'', lsr_quote_state := ''accepted'',
               lsr_quote_approval_policy := Some (quote_approval_policy_as_str p)\<rparr>
    in \<exists>s. local_status_try_from_record r' = Inr s \<and> is_restricted (ls_visibility s) \<and>
         status_effective_quote_approval_policy s = Nobody \<and>
         record_effective_quote_approval_policy r' = p)"
proof -
  have parsed: "visibility_parse '' Private'' = Inr FollowersOnly" by code_simp
  have accepted: "quote_state_parse ''accepted'' = Inr Accepted" by code_simp
  have raw: "for_stored_visibility '' Private'' (Some (quote_approval_policy_as_str p)) = p"
    by (simp add: for_stored_visibility_def)
  show ?thesis
    unfolding Let_def
    by (simp add: local_status_try_from_record_def parsed accepted entity_policy raw
        record_effective_quote_approval_policy_def)
qed

end
