(* ===== verification/Account_Identity.thy ===== *)
theory Account_Identity
  imports Domain_Base
begin

text \<open>
  Who an account is: the email address an access provider vouches for
  (\<open>account/email.rs\<close>), the local user name and its derivation from an address
  (\<open>account/username.rs\<close>), and the handle (\<open>account/mod.rs\<close>). The newtypes
  \<open>AccessEmail\<close> and \<open>Username\<close> are the wrapped strings; \<open>access_email_ok\<close> and
  \<open>username_ok\<close> say what their constructors guarantee.
\<close>

section \<open>Access emails\<close>

datatype access_email_error = Blank | Invalid

fun access_email_error_message :: "access_email_error \<Rightarrow> string" where
  "access_email_error_message access_email_error.Blank = ''email can't be blank''"
| "access_email_error_message Invalid = ''email is invalid''"

datatype access_email = AccessEmail (access_email_str: string)

definition access_email_parse :: "string \<Rightarrow> access_email_error + access_email" where
  "access_email_parse raw =
    (let value = to_ascii_lowercase (trim raw) in
     if value = [] then Inl access_email_error.Blank
     else case split_once value (CHR ''@'') of
         None \<Rightarrow> Inl Invalid
       | Some (local, domain) \<Rightarrow>
           if local = [] \<or> domain = [] \<or> CHR ''@'' \<in> set domain then Inl Invalid
           else if CHR ''.'' \<notin> set domain \<or> starts_with domain ''.'' \<or> ends_with domain ''.''
           then Inl Invalid
           else Inr (AccessEmail value))"

definition local_part :: "access_email \<Rightarrow> string" where
  "local_part e = split_first (access_email_str e) (CHR ''@'')"

text \<open>The checksum wraps at 32 bits: \<open>wrapping_mul\<close> and \<open>wrapping_add\<close> on \<open>u32\<close>.\<close>

definition email_checksum :: "string \<Rightarrow> u32" where
  "email_checksum bytes = foldl (\<lambda>acc b. acc * 16777619 + of_nat (byte b)) 0 bytes"

definition hex_digit :: "nat \<Rightarrow> char" where
  "hex_digit d = (if d < 10 then char_of (48 + d) else char_of (87 + d))"

text \<open>
  \<open>format!("{:06x}", v)\<close>: at least six hexadecimal digits, most significant first. The
  argument is below \<open>2 ^ 24\<close>, so there are exactly six.
\<close>

fun hex_digits :: "nat \<Rightarrow> nat \<Rightarrow> string" where
  "hex_digits 0 v = []"
| "hex_digits (Suc k) v = hex_digits k (v div 16) @ [hex_digit (v mod 16)]"

definition short_suffix :: "access_email \<Rightarrow> string" where
  "short_suffix e =
     hex_digits 6 (unat (and (email_checksum (access_email_str e)) (0x00ffffff :: u32)))"

section \<open>User names\<close>

datatype username_error = Blank | InvalidCharacters

fun username_error_message :: "username_error \<Rightarrow> string" where
  "username_error_message username_error.Blank = ''username can't be blank''"
| "username_error_message InvalidCharacters =
     ''username must contain only letters, numbers and underscores''"

datatype username = Username (username_str: string)

definition username_char :: "char \<Rightarrow> bool" where
  "username_char ch \<longleftrightarrow> is_ascii_alphanumeric ch \<or> ch = CHR ''_''"

definition username_parse :: "string \<Rightarrow> username_error + username" where
  "username_parse raw =
    (let value = to_ascii_lowercase (trim raw) in
     if value = [] then Inl username_error.Blank
     else if \<not> list_all username_char value then Inl InvalidCharacters
     else Inr (Username value))"

definition sanitize_username_local_part :: "string \<Rightarrow> string" where
  "sanitize_username_local_part p =
    (let sanitized =
       filter username_char
         (map (\<lambda>ch. let ch = ascii_lower ch in if ch = CHR ''-'' then CHR ''_'' else ch) p)
     in if sanitized = [] then ''user'' else sanitized)"

definition username_derive_from_email ::
    "access_email \<Rightarrow> bool \<Rightarrow> username_error + username" where
  "username_derive_from_email email base_username_taken =
    (let sanitized = sanitize_username_local_part (local_part email);
         candidate = if base_username_taken then sanitized @ ''_'' @ short_suffix email
                     else sanitized
     in username_parse candidate)"

section \<open>Handles\<close>

record account_handle =
  ah_username :: string
  ah_domain :: "string option"

definition account_handle_local :: "string \<Rightarrow> account_handle" where
  "account_handle_local name = \<lparr>ah_username = name, ah_domain = None\<rparr>"

definition account_handle_remote :: "string \<Rightarrow> string \<Rightarrow> id_error + account_handle" where
  "account_handle_remote name domain =
    (if trim domain = [] then Inl id_error.Empty
     else Inr \<lparr>ah_username = name, ah_domain = Some domain\<rparr>)"

text \<open>The part of a configured domain or base URL that handles are compared with.\<close>

definition bare_local_domain :: "string \<Rightarrow> string" where
  "bare_local_domain d =
     to_ascii_lowercase
       (split_first
         (trim_end_matches
           (trim_start_matches (trim_start_matches (trim d) ''https://'') ''http://'') (CHR ''/''))
         (CHR ''/''))"

definition is_local_to :: "account_handle \<Rightarrow> string \<Rightarrow> bool" where
  "is_local_to h local_domain =
    (case ah_domain h of
       Some domain \<Rightarrow> eq_ignore_ascii_case domain (bare_local_domain local_domain)
     | None \<Rightarrow> True)"

section \<open>What a parsed address guarantees\<close>

definition access_email_ok :: "access_email \<Rightarrow> bool" where
  "access_email_ok e \<longleftrightarrow>
    trim (access_email_str e) = access_email_str e \<and>
    to_ascii_lowercase (access_email_str e) = access_email_str e \<and>
    (\<exists>local domain. access_email_str e = local @ CHR ''@'' # domain \<and>
       local \<noteq> [] \<and> domain \<noteq> [] \<and> CHR ''@'' \<notin> set local \<and> CHR ''@'' \<notin> set domain \<and>
       CHR ''.'' \<in> set domain \<and> hd domain \<noteq> CHR ''.'' \<and> last domain \<noteq> CHR ''.'')"

lemma starts_with_single: "starts_with s [c] \<longleftrightarrow> s \<noteq> [] \<and> hd s = c"
  by (cases s) (auto simp: starts_with_def)

lemma ends_with_single: "ends_with s [c] \<longleftrightarrow> s \<noteq> [] \<and> last s = c"
  by (cases s rule: rev_cases) (auto simp: ends_with_def)

lemma access_email_parse_cases:
  assumes "access_email_parse raw = Inr e"
  obtains local domain where "access_email_str e = to_ascii_lowercase (trim raw)"
    "access_email_str e = local @ CHR ''@'' # domain" "local \<noteq> []" "domain \<noteq> []"
    "CHR ''@'' \<notin> set local" "CHR ''@'' \<notin> set domain"
    "CHR ''.'' \<in> set domain" "hd domain \<noteq> CHR ''.''" "last domain \<noteq> CHR ''.''"
  using assms
  by (auto simp: access_email_parse_def Let_def starts_with_single ends_with_single
      dest!: split_once_Some split: if_splits option.splits)

lemma access_email_parse_ok:
  assumes "access_email_parse raw = Inr e"
  shows "access_email_ok e"
  using assms
proof (cases rule: access_email_parse_cases)
  case (1 local domain)
  have "trim (access_email_str e) = access_email_str e"
    unfolding 1(1) by (simp add: trim_to_ascii_lowercase)
  moreover have "to_ascii_lowercase (access_email_str e) = access_email_str e"
    unfolding 1(1) by simp
  ultimately show ?thesis
    unfolding access_email_ok_def using 1(2-) by blast
qed

lemma access_email_parse_str:
  "access_email_parse raw = Inr e \<Longrightarrow> access_email_str e = to_ascii_lowercase (trim raw)"
  by (auto simp: access_email_parse_def Let_def split: if_splits option.splits)

lemma access_email_parse_again:
  assumes "access_email_ok e"
  shows "access_email_parse (access_email_str e) = Inr e"
proof -
  obtain local domain where split: "access_email_str e = local @ CHR ''@'' # domain"
      "local \<noteq> []" "domain \<noteq> []" "CHR ''@'' \<notin> set local" "CHR ''@'' \<notin> set domain"
      "CHR ''.'' \<in> set domain" "hd domain \<noteq> CHR ''.''" "last domain \<noteq> CHR ''.''"
    using assms by (auto simp: access_email_ok_def)
  have "to_ascii_lowercase (trim (access_email_str e)) = access_email_str e"
    using assms by (simp add: access_email_ok_def)
  moreover have "split_once (access_email_str e) (CHR ''@'') = Some (local, domain)"
    using split by (simp add: split_once_append)
  ultimately show ?thesis
    using split by (cases e) (simp add: access_email_parse_def starts_with_single ends_with_single)
qed

lemma local_part_before_at:
  "access_email_ok e \<Longrightarrow> \<exists>domain. access_email_str e = local_part e @ CHR ''@'' # domain"
  by (auto simp: access_email_ok_def local_part_def split_first_append)

section \<open>What a parsed user name guarantees\<close>

definition username_ok :: "username \<Rightarrow> bool" where
  "username_ok u \<longleftrightarrow> username_str u \<noteq> [] \<and>
    list_all (\<lambda>c. is_ascii_lowercase c \<or> is_ascii_digit c \<or> c = CHR ''_'') (username_str u)"

lemma username_char_plain: "username_char c \<Longrightarrow> plain_byte c"
  by (auto simp: username_char_def alphanumeric_plain) (simp add: plain_byte_def)

lemma underscore_lower [simp]: "ascii_lower (CHR ''_'') = CHR ''_''"
  by (simp add: ascii_lower_def is_ascii_uppercase_def)

lemma username_char_lower [simp]: "username_char (ascii_lower c) = username_char c"
  by (auto simp: username_char_def ascii_lower_eq_nonletter is_ascii_lowercase_def
      is_ascii_uppercase_def)

lemma not_upper_fixed: "\<not> is_ascii_uppercase c \<Longrightarrow> ascii_lower c = c"
  by (simp add: ascii_lower_def)

lemma username_ok_iff:
  "username_ok u \<longleftrightarrow> username_str u \<noteq> [] \<and> list_all username_char (username_str u) \<and>
     to_ascii_lowercase (username_str u) = username_str u"
proof -
  have "username_char c \<and> ascii_lower c = c \<longleftrightarrow>
      is_ascii_lowercase c \<or> is_ascii_digit c \<or> c = CHR ''_''" for c
    using not_upper_ascii_lower [of c] not_upper_fixed [of c]
    by (auto simp: username_char_def is_ascii_alphanumeric_def is_ascii_uppercase_def
        is_ascii_lowercase_def is_ascii_digit_def)
  then show ?thesis
    unfolding username_ok_def to_ascii_lowercase_fixed_iff list_all_iff by blast
qed

lemma username_parse_ok: "username_parse raw = Inr u \<Longrightarrow> username_ok u"
  by (auto simp: username_parse_def Let_def username_ok_iff split: if_splits)

lemma username_parse_str:
  "username_parse raw = Inr u \<Longrightarrow> username_str u = to_ascii_lowercase (trim raw)"
  by (auto simp: username_parse_def Let_def split: if_splits)

lemma username_parse_again: "username_ok u \<Longrightarrow> username_parse (username_str u) = Inr u"
proof -
  assume u: "username_ok u"
  then have "trim (username_str u) = username_str u"
    by (intro trim_id_plain) (auto simp: username_ok_iff list_all_iff username_char_plain)
  with u show ?thesis
    by (cases u) (simp add: username_parse_def username_ok_iff)
qed

text \<open>The derivation never fails: whatever the address, the candidate is a valid name.\<close>

lemma hex_digit_char: "d < 16 \<Longrightarrow> username_char (hex_digit d) \<and> \<not> is_ascii_uppercase (hex_digit d)"
  by (auto simp: hex_digit_def username_char_def is_ascii_alphanumeric_def is_ascii_uppercase_def
      is_ascii_lowercase_def is_ascii_digit_def)

lemma hex_digits_chars:
  "list_all (\<lambda>c. username_char c \<and> \<not> is_ascii_uppercase c) (hex_digits k v)"
  by (induction k arbitrary: v) (auto simp: hex_digit_char)

lemma length_hex_digits [simp]: "length (hex_digits k v) = k"
  by (induction k arbitrary: v) auto

lemma sanitize_chars:
  "sanitize_username_local_part p \<noteq> [] \<and>
   list_all (\<lambda>c. username_char c \<and> \<not> is_ascii_uppercase c) (sanitize_username_local_part p)"
proof -
  have user: "list_all (\<lambda>c. username_char c \<and> \<not> is_ascii_uppercase c) ''user''"
    by (simp add: username_char_def is_ascii_alphanumeric_def is_ascii_uppercase_def
        is_ascii_lowercase_def is_ascii_digit_def)
  show ?thesis
    using user by (auto simp: sanitize_username_local_part_def Let_def list_all_iff
        is_ascii_uppercase_def [of "CHR ''_''"])
qed

lemma lower_username_parse:
  assumes "s \<noteq> []" "list_all (\<lambda>c. username_char c \<and> \<not> is_ascii_uppercase c) s"
  shows "username_parse s = Inr (Username s)"
  using username_parse_again [of "Username s"] assms
  by (auto simp: username_ok_iff list_all_iff to_ascii_lowercase_def intro!: map_idI not_upper_fixed)

lemma derive_from_email_eq:
  "username_derive_from_email e taken =
     Inr (Username (sanitize_username_local_part (local_part e) @
       (if taken then ''_'' @ short_suffix e else [])))"
  unfolding username_derive_from_email_def Let_def
  using sanitize_chars [of "local_part e"] hex_digits_chars
  by (auto simp: short_suffix_def username_char_def is_ascii_uppercase_def
      intro!: lower_username_parse)

section \<open>Properties\<close>

text \<open>
  A user name can be derived from every access email, taken base name or not: the
  candidate always passes the validation of user names, and parsing it again changes nothing.
  When the base name is taken the candidate ends in an underscore and the six digits of the
  checksum.
\<close>

theorem derive_from_email_total:
  "\<exists>u. username_derive_from_email e taken = Inr u \<and> username_ok u \<and>
     username_parse (username_str u) = Inr u \<and>
     username_str u = sanitize_username_local_part (local_part e) @
       (if taken then ''_'' @ short_suffix e else []) \<and>
     length (short_suffix e) = 6"
proof -
  obtain u where u: "username_derive_from_email e taken = Inr u"
    "username_str u = sanitize_username_local_part (local_part e) @
       (if taken then ''_'' @ short_suffix e else [])"
    by (simp add: derive_from_email_eq)
  then have "username_ok u"
    unfolding username_derive_from_email_def Let_def by (auto dest: username_parse_ok)
  with u show ?thesis
    using username_parse_again [of u] by (intro exI [of _ u]) (simp add: short_suffix_def)
qed

text \<open>
  Parsing normalises and is idempotent on access emails: what is accepted is the trimmed
  lower-case text, it has exactly one at sign with a non-empty local part before it and a dotted
  domain after it, and parsing the result gives it back.
\<close>

theorem access_email_parse_normalises:
  assumes "access_email_parse raw = Inr e"
  shows "access_email_str e = to_ascii_lowercase (trim raw) \<and> access_email_ok e \<and>
    access_email_parse (access_email_str e) = Inr e \<and>
    (\<exists>domain. access_email_str e = local_part e @ CHR ''@'' # domain \<and> local_part e \<noteq> [])"
proof -
  have ok: "access_email_ok e" using assms by (rule access_email_parse_ok)
  then obtain l d where "access_email_str e = l @ CHR ''@'' # d" "l \<noteq> []" "CHR ''@'' \<notin> set l"
    by (auto simp: access_email_ok_def)
  then have "access_email_str e = local_part e @ CHR ''@'' # d \<and> local_part e \<noteq> []"
    by (simp add: local_part_def split_first_append)
  then show ?thesis
    using ok access_email_parse_str [OF assms] access_email_parse_again [OF ok] by blast
qed

theorem access_email_parse_normalises_witness:
  "access_email_ok (AccessEmail ''alice@example.com'') \<and>
   access_email_parse ''alice@example.com'' = Inr (AccessEmail ''alice@example.com'')"
proof -
  have "access_email_parse '' Alice@Example.com '' = Inr (AccessEmail ''alice@example.com'')"
    by code_simp
  from access_email_parse_normalises [OF this] show ?thesis
    unfolding access_email.sel by blast
qed

end
