(* ===== verification/Registration.thy ===== *)
theory Registration
  imports Local_Account Account_Identity
begin

text \<open>
  Account registration and access provisioning (\<open>account/registration.rs\<close>): validation of the
  submitted fields with one issue per field, the uniqueness check, the validated intent, and
  the account it becomes. The two \<open>expect\<close> calls of \<open>validate\<close> are modelled as results of
  type \<open>option\<close>; \<open>registration_validate_total\<close> shows that they never panic.
\<close>

section \<open>Issues and their messages\<close>

datatype registration_field_issue = Blank | InvalidFormat | MustBeAccepted | Taken

record registration_validation_errors =
  re_username :: "registration_field_issue option"
  re_email :: "registration_field_issue option"
  re_password :: "registration_field_issue option"
  re_agreement :: "registration_field_issue option"

definition no_registration_errors :: registration_validation_errors where
  "no_registration_errors =
    \<lparr>re_username = None, re_email = None, re_password = None, re_agreement = None\<rparr>"

definition registration_errors_is_empty :: "registration_validation_errors \<Rightarrow> bool" where
  "registration_errors_is_empty e \<longleftrightarrow>
    re_username e = None \<and> re_email e = None \<and> re_password e = None \<and> re_agreement e = None"

datatype registration_validation_field = Username | Email | Password | Agreement

fun registration_field_issue_message ::
    "registration_validation_field \<Rightarrow> registration_field_issue \<Rightarrow> string" where
  "registration_field_issue_message registration_validation_field.Username
     registration_field_issue.Blank = ''can't be blank''"
| "registration_field_issue_message registration_validation_field.Username InvalidFormat =
     ''must contain only letters, numbers and underscores''"
| "registration_field_issue_message Email registration_field_issue.Blank = ''can't be blank''"
| "registration_field_issue_message Email InvalidFormat = ''is invalid''"
| "registration_field_issue_message Password registration_field_issue.Blank = ''can't be blank''"
| "registration_field_issue_message Password InvalidFormat = ''is invalid''"
| "registration_field_issue_message Agreement registration_field_issue.Blank = ''can't be blank''"
| "registration_field_issue_message Agreement InvalidFormat = ''is invalid''"
| "registration_field_issue_message registration_validation_field.Username Taken =
     ''has already been taken''"
| "registration_field_issue_message Email Taken = ''has already been taken''"
| "registration_field_issue_message Password Taken = ''is invalid''"
| "registration_field_issue_message Agreement Taken = ''is invalid''"
| "registration_field_issue_message _ MustBeAccepted = ''must be accepted''"

definition insert_detail ::
    "registration_validation_field \<Rightarrow> string \<Rightarrow> registration_field_issue option \<Rightarrow>
     (string \<rightharpoonup> string list) \<Rightarrow> (string \<rightharpoonup> string list)" where
  "insert_detail field key issue details =
    (case issue of
       None \<Rightarrow> details
     | Some i \<Rightarrow> details(key \<mapsto> [registration_field_issue_message field i]))"

definition into_api_details :: "registration_validation_errors \<Rightarrow> (string \<rightharpoonup> string list)" where
  "into_api_details e =
    (let details = Map.empty;
         details = insert_detail registration_validation_field.Username ''username''
                     (re_username e) details;
         details = insert_detail Email ''email'' (re_email e) details;
         details = insert_detail Password ''password'' (re_password e) details
     in insert_detail Agreement ''agreement'' (re_agreement e) details)"

section \<open>Uniqueness\<close>

record registration_uniqueness_facts =
  uf_username_taken :: bool
  uf_email_taken :: bool

definition registration_uniqueness_errors ::
    "registration_uniqueness_facts \<Rightarrow> registration_validation_errors" where
  "registration_uniqueness_errors facts =
    (let errors = no_registration_errors;
         errors = (if uf_username_taken facts then errors\<lparr>re_username := Some Taken\<rparr> else errors)
     in if uf_email_taken facts then errors\<lparr>re_email := Some Taken\<rparr> else errors)"

definition uniqueness_facts_validation_errors ::
    "registration_uniqueness_facts \<Rightarrow> registration_validation_errors" where
  "uniqueness_facts_validation_errors facts = registration_uniqueness_errors facts"

section \<open>Validation\<close>

datatype registration_event = IntentValidated | AccountProvisioned

record composing_registration =
  cr_username :: "string option"
  cr_email :: "string option"
  cr_password_present :: bool
  cr_agreement :: "bool option"

record registration_intent =
  ri_username :: username
  ri_email :: access_email

definition validate_username_field ::
    "string option \<Rightarrow> registration_field_issue option \<times> username option" where
  "validate_username_field field =
    (case field of
       None \<Rightarrow> (Some registration_field_issue.Blank, None)
     | Some raw \<Rightarrow>
         (case username_parse raw of
            Inr name \<Rightarrow> (None, Some name)
          | Inl username_error.Blank \<Rightarrow> (Some registration_field_issue.Blank, None)
          | Inl InvalidCharacters \<Rightarrow> (Some InvalidFormat, None)))"

definition validate_email_field ::
    "string option \<Rightarrow> registration_field_issue option \<times> access_email option" where
  "validate_email_field field =
    (case field of
       None \<Rightarrow> (Some registration_field_issue.Blank, None)
     | Some raw \<Rightarrow>
         (case access_email_parse raw of
            Inr email \<Rightarrow> (None, Some email)
          | Inl access_email_error.Blank \<Rightarrow> (Some registration_field_issue.Blank, None)
          | Inl Invalid \<Rightarrow> (Some InvalidFormat, None)))"

definition registration_validate ::
    "composing_registration \<Rightarrow>
     (registration_validation_errors +
      (registration_intent, registration_event) transition) option" where
  "registration_validate r =
    (let (username_issue, name) = validate_username_field (cr_username r);
         (email_issue, email) = validate_email_field (cr_email r);
         errors =
           \<lparr>re_username = username_issue, re_email = email_issue,
            re_password = (if \<not> cr_password_present r then Some registration_field_issue.Blank
                           else None),
            re_agreement = (if cr_agreement r \<noteq> Some True then Some MustBeAccepted else None)\<rparr>
     in if registration_errors_is_empty errors
        then (case (name, email) of
            (Some u, Some e) \<Rightarrow>
              Some (Inr (with_event \<lparr>ri_username = u, ri_email = e\<rparr> IntentValidated))
          | _ \<Rightarrow> None)
        else Some (Inl errors))"

definition finalize_registration_validation ::
    "registration_validation_errors + (registration_intent, registration_event) transition \<Rightarrow>
     registration_uniqueness_facts \<Rightarrow> registration_validation_errors + registration_intent" where
  "finalize_registration_validation validate_result uniqueness =
    and_then validate_result (\<lambda>t.
      let intent = t_state t;
          uniqueness_errors = registration_uniqueness_errors uniqueness
      in if registration_errors_is_empty uniqueness_errors then Inr intent
         else Inl uniqueness_errors)"

section \<open>From the intent to the account\<close>

definition intent_display_name :: "registration_intent \<Rightarrow> string" where
  "intent_display_name i = username_str (ri_username i)"

definition intent_uniqueness_errors ::
    "registration_intent \<Rightarrow> registration_uniqueness_facts \<Rightarrow> registration_validation_errors" where
  "intent_uniqueness_errors i facts = registration_uniqueness_errors facts"

record account_key_material =
  km_private_key_jwk :: string
  km_public_key_pem :: string

text \<open>The \<open>Debug\<close> text of the key material never shows the private key.\<close>

definition account_key_material_debug_fields :: "account_key_material \<Rightarrow> (string \<times> string) list" where
  "account_key_material_debug_fields k =
    [(''private_key_jwk'', ''<redacted>''), (''public_key_pem'', km_public_key_pem k)]"

record registering_account =
  ra_id :: account_id
  ra_username :: username
  ra_email :: access_email
  ra_display_name :: string
  ra_keys :: account_key_material

definition registration_intent_register ::
    "registration_intent \<Rightarrow> account_id \<Rightarrow> account_key_material \<Rightarrow> registering_account" where
  "registration_intent_register i ident keys =
    \<lparr>ra_id = ident, ra_username = ri_username i, ra_email = ri_email i,
     ra_display_name = username_str (ri_username i), ra_keys = keys\<rparr>"

definition provision ::
    "registering_account \<Rightarrow> string \<Rightarrow> (local_account, registration_event) transition" where
  "provision r created_at =
    with_event
      \<lparr>la_id = account_id_str (ra_id r), la_username = username_str (ra_username r),
       la_access_email = access_email_str (ra_email r), la_display_name = ra_display_name r,
       la_bio_html = [], la_bio_text = [], la_fields = [],
       la_locked = False, la_bot = False, la_discoverable = False,
       la_default_post_visibility = visibility.Public,
       la_default_quote_policy = quote_approval_policy.Public,
       la_default_sensitive = False, la_default_language = None,
       la_avatar_object_key = None, la_avatar_content_type = None,
       la_header_object_key = None, la_header_content_type = None,
       la_private_key_jwk = km_private_key_jwk (ra_keys r),
       la_public_key_pem = km_public_key_pem (ra_keys r), la_created_at = created_at\<rparr>
      AccountProvisioned"

section \<open>Access provisioning\<close>

datatype access_provision_error =
    EmailError access_email_error
  | UsernameError username_error

fun access_provision_error_message :: "access_provision_error \<Rightarrow> string" where
  "access_provision_error_message (EmailError e) = access_email_error_message e"
| "access_provision_error_message (UsernameError e) = username_error_message e"

record access_provision_intent =
  ai_email :: access_email
  ai_username :: username

definition access_provision_resolve ::
    "string \<Rightarrow> bool \<Rightarrow> access_provision_error + access_provision_intent" where
  "access_provision_resolve raw base_username_taken =
    and_then (map_err EmailError (access_email_parse raw)) (\<lambda>email.
    and_then (map_err UsernameError (username_derive_from_email email base_username_taken)) (\<lambda>name.
      Inr \<lparr>ai_email = email, ai_username = name\<rparr>))"

definition access_provision_register ::
    "access_provision_intent \<Rightarrow> account_id \<Rightarrow> account_key_material \<Rightarrow> registering_account" where
  "access_provision_register i ident keys =
    \<lparr>ra_id = ident, ra_username = ai_username i, ra_email = ai_email i,
     ra_display_name = username_str (ai_username i), ra_keys = keys\<rparr>"

section \<open>Facts about validation\<close>

lemma uniqueness_empty_iff:
  "registration_errors_is_empty (registration_uniqueness_errors f) \<longleftrightarrow>
   \<not> uf_username_taken f \<and> \<not> uf_email_taken f"
  by (simp add: registration_uniqueness_errors_def registration_errors_is_empty_def
      no_registration_errors_def Let_def)

lemma validate_username_field_cases:
  "fst (validate_username_field f) = None \<longleftrightarrow>
     (\<exists>raw u. f = Some raw \<and> username_parse raw = Inr u \<and> validate_username_field f = (None, Some u))"
  by (auto simp: validate_username_field_def split: option.splits sum.splits username_error.splits)

lemma validate_email_field_cases:
  "fst (validate_email_field f) = None \<longleftrightarrow>
     (\<exists>raw e. f = Some raw \<and> access_email_parse raw = Inr e \<and> validate_email_field f = (None, Some e))"
  by (auto simp: validate_email_field_def split: option.splits sum.splits access_email_error.splits)

text \<open>The \<open>expect\<close>s never fail: without issues both fields have been parsed.\<close>

lemma registration_validate_total: "registration_validate r \<noteq> None"
  using validate_username_field_cases [of "cr_username r"]
    validate_email_field_cases [of "cr_email r"]
  by (auto simp: registration_validate_def registration_errors_is_empty_def Let_def
      split: prod.splits option.splits)

lemma registration_validate_ok:
  "registration_validate r = Some (Inr t) \<longleftrightarrow>
    (\<exists>raw_name raw_email u e.
       cr_username r = Some raw_name \<and> username_parse raw_name = Inr u \<and>
       cr_email r = Some raw_email \<and> access_email_parse raw_email = Inr e \<and>
       cr_password_present r \<and> cr_agreement r = Some True \<and>
       t = with_event \<lparr>ri_username = u, ri_email = e\<rparr> IntentValidated)"
  by (auto simp: registration_validate_def registration_errors_is_empty_def Let_def
      validate_username_field_def validate_email_field_def
      split: prod.splits option.splits sum.splits if_splits
        username_error.splits access_email_error.splits)

lemma finalize_ok:
  "finalize_registration_validation v f = Inr i \<longleftrightarrow>
    (\<exists>t. v = Inr t \<and> t_state t = i) \<and> \<not> uf_username_taken f \<and> \<not> uf_email_taken f"
  by (cases v) (auto simp: finalize_registration_validation_def Let_def uniqueness_empty_iff)

lemma resolve_ok:
  "access_provision_resolve raw taken = Inr i \<longleftrightarrow>
    access_email_parse raw = Inr (ai_email i) \<and>
    username_derive_from_email (ai_email i) taken = Inr (ai_username i)"
  by (cases "access_email_parse raw"; cases i)
     (auto simp: access_provision_resolve_def derive_from_email_eq)

text \<open>Only the address can be at fault: the derived name is always valid.\<close>

lemma resolve_error:
  "access_provision_resolve raw taken = Inl x \<longleftrightarrow>
    (\<exists>e. access_email_parse raw = Inl e \<and> x = EmailError e)"
  by (cases "access_email_parse raw")
     (auto simp: access_provision_resolve_def derive_from_email_eq)

section \<open>Properties\<close>

text \<open>
  C25: Registration succeeds exactly when every submitted field is acceptable and neither the
  user name nor the address is taken: validation always returns (its two \<open>expect\<close>s never
  panic), and after the uniqueness check the intent holds the parsed name and address.
\<close>

theorem registration_accepts_iff:
  "\<exists>v. registration_validate r = Some v \<and>
    (finalize_registration_validation v f = Inr i \<longleftrightarrow>
      (\<exists>raw_name raw_email.
         cr_username r = Some raw_name \<and> username_parse raw_name = Inr (ri_username i) \<and>
         cr_email r = Some raw_email \<and> access_email_parse raw_email = Inr (ri_email i) \<and>
         cr_password_present r \<and> cr_agreement r = Some True \<and>
         \<not> uf_username_taken f \<and> \<not> uf_email_taken f))"
proof -
  obtain v where v: "registration_validate r = Some v"
    using registration_validate_total by blast
  show ?thesis
  proof (intro exI conjI)
    show "registration_validate r = Some v" by (rule v)
    show "finalize_registration_validation v f = Inr i \<longleftrightarrow>
      (\<exists>raw_name raw_email.
         cr_username r = Some raw_name \<and> username_parse raw_name = Inr (ri_username i) \<and>
         cr_email r = Some raw_email \<and> access_email_parse raw_email = Inr (ri_email i) \<and>
         cr_password_present r \<and> cr_agreement r = Some True \<and>
         \<not> uf_username_taken f \<and> \<not> uf_email_taken f)"
      using registration_validate_ok [of r] v by (cases i) (fastforce simp: finalize_ok)
  qed
qed

text \<open>
  Provisioning by an access provider fails only for an address that does not parse; else
  the account that is provisioned carries the parsed address and a valid user name, which is
  also its display name, starts public and unlocked, and survives being stored and read back.
\<close>

theorem access_provision_account:
  assumes "access_email_parse raw = Inr e"
    and "\<exists>js. to_json [] = Some js \<and> from_json js = Some []"
  shows "\<exists>i. access_provision_resolve raw taken = Inr i \<and> username_ok (ai_username i) \<and>
    (let a = t_state (provision (access_provision_register i ident keys) now) in
       la_access_email a = access_email_str e \<and>
       la_username a = username_str (ai_username i) \<and> la_display_name a = la_username a \<and>
       la_default_post_visibility a = visibility.Public \<and> \<not> la_locked a \<and>
       account_from_record from_json (account_to_record to_json a) = a)"
proof -
  obtain u where u: "username_derive_from_email e taken = Inr u"
    by (simp add: derive_from_email_eq)
  let ?i = "\<lparr>ai_email = e, ai_username = u\<rparr>"
  let ?a = "t_state (provision (access_provision_register ?i ident keys) now)"
  have "access_provision_resolve raw taken = Inr ?i"
    using assms(1) u by (simp add: resolve_ok)
  moreover have "username_ok u"
    using u unfolding username_derive_from_email_def Let_def by (auto dest: username_parse_ok)
  moreover have "account_from_record from_json (account_to_record to_json ?a) = ?a"
    using assms(2) by (intro account_from_to_record) (auto simp: provision_def)
  ultimately show ?thesis
    by (intro exI [of _ ?i]) (simp add: provision_def access_provision_register_def Let_def)
qed

theorem access_provision_account_witness:
  "\<exists>i. access_provision_resolve ''bob@example.com'' True = Inr i \<and> username_ok (ai_username i)"
proof -
  have "access_email_parse ''bob@example.com'' = Inr (AccessEmail ''bob@example.com'')"
    by code_simp
  from access_provision_account [OF this, of "\<lambda>fs. Some ''[]''"
      "\<lambda>s. if s = ''[]'' then Some [] else None" True "AccountId ''7''"
      "\<lparr>km_private_key_jwk = ''{}'', km_public_key_pem = ''pem''\<rparr>" "''now''"]
  show ?thesis by auto
qed

end
