(* ===== verification/Remote_Status.thy ===== *)
theory Remote_Status
  imports Local_Status
begin

text \<open>
  Statuses of other servers: the audience rules of ActivityPub
  (\<open>remote/activitypub.rs\<close>), the persisted row (\<open>remote/record.rs\<close>) and entity
  (\<open>remote/entity.rs\<close>), and the path of an incoming note or announce to its stored form
  (\<open>remote/status.rs\<close>).
\<close>

section \<open>Audiences\<close>

definition ACTIVITYSTREAMS_PUBLIC :: string where
  "ACTIVITYSTREAMS_PUBLIC = ''https://www.w3.org/ns/activitystreams#Public''"

definition ACTIVITYSTREAMS_PUBLIC_SHORT :: string where
  "ACTIVITYSTREAMS_PUBLIC_SHORT = ''as:Public''"

definition is_public_audience_uri :: "string \<Rightarrow> bool" where
  "is_public_audience_uri v \<longleftrightarrow>
    v = ACTIVITYSTREAMS_PUBLIC \<or> v = ACTIVITYSTREAMS_PUBLIC_SHORT"

definition is_followers_collection_uri :: "string \<Rightarrow> bool" where
  "is_followers_collection_uri v \<longleftrightarrow> ends_with (trim_end_matches v (CHR ''/'')) ''/followers''"

definition audience_values_contains_public :: "string list \<Rightarrow> bool" where
  "audience_values_contains_public vs = list_ex is_public_audience_uri vs"

definition audience_values_contain_followers :: "string list \<Rightarrow> bool" where
  "audience_values_contain_followers vs = list_ex is_followers_collection_uri vs"

definition visibility_from_activitypub_audiences :: "bool \<Rightarrow> bool \<Rightarrow> bool \<Rightarrow> visibility" where
  "visibility_from_activitypub_audiences to_contains_public cc_contains_public addresses_followers =
    (if to_contains_public then visibility.Public
     else if cc_contains_public then Unlisted
     else if addresses_followers then FollowersOnly
     else Direct)"

fun activitypub_audience_flags_for_visibility :: "visibility \<Rightarrow> bool \<times> bool \<times> bool" where
  "activitypub_audience_flags_for_visibility visibility.Public = (True, False, True)"
| "activitypub_audience_flags_for_visibility Unlisted = (False, True, True)"
| "activitypub_audience_flags_for_visibility FollowersOnly = (False, False, True)"
| "activitypub_audience_flags_for_visibility Direct = (False, False, False)"

definition visibility_from_audience_lists :: "string list \<Rightarrow> string list \<Rightarrow> visibility" where
  "visibility_from_audience_lists to_audiences cc_audiences =
    visibility_from_activitypub_audiences
      (audience_values_contains_public to_audiences)
      (audience_values_contains_public cc_audiences)
      (audience_values_contain_followers to_audiences \<or>
       audience_values_contain_followers cc_audiences)"

fun is_public_activitypub_visibility :: "visibility \<Rightarrow> bool" where
  "is_public_activitypub_visibility visibility.Public = True"
| "is_public_activitypub_visibility Unlisted = True"
| "is_public_activitypub_visibility _ = False"

fun find_map_trimmed :: "string option list \<Rightarrow> string option" where
  "find_map_trimmed [] = None"
| "find_map_trimmed (v # vs) =
    (case trimmed_option v of Some x \<Rightarrow> Some x | None \<Rightarrow> find_map_trimmed vs)"

definition quote_target_uri_from_fields ::
    "string option \<Rightarrow> string option \<Rightarrow> string option \<Rightarrow> string option" where
  "quote_target_uri_from_fields quote_uri quote_url misskey_quote =
    find_map_trimmed [quote_uri, quote_url, misskey_quote]"

section \<open>Rows and entities\<close>

record remote_status_record =
  rsr_id :: string
  rsr_actor_uri :: string
  rsr_object_uri :: string
  rsr_url :: "string option"
  rsr_in_reply_to_uri :: "string option"
  rsr_boost_of_uri :: "string option"
  rsr_quote_of_uri :: "string option"
  rsr_content_html :: string
  rsr_text_content :: string
  rsr_spoiler_text :: string
  rsr_visibility :: string
  rsr_sensitive :: i32
  rsr_language :: "string option"
  rsr_quote_state :: string
  rsr_published_at :: string
  rsr_edited_at :: "string option"
  rsr_card_json :: "string option"
  rsr_federated_emojis_json :: string
  rsr_in_reply_to_id :: "string option"
  rsr_favourites_count :: "u64 option"
  rsr_reblogs_count :: "u64 option"
  rsr_replies_count :: "u64 option"

definition remote_status_default_quote_state :: string where
  "remote_status_default_quote_state = quote_state_as_str Accepted"

definition remote_record_effective_quote_state :: "remote_status_record \<Rightarrow> quote_state" where
  "remote_record_effective_quote_state r =
    (let stored = unwrap_or (ok (quote_state_parse (rsr_quote_state r))) Accepted
     in effective_for_stored (rsr_quote_of_uri r) stored)"

definition remote_record_has_active_quote :: "remote_status_record \<Rightarrow> bool" where
  "remote_record_has_active_quote r \<longleftrightarrow>
    rsr_quote_of_uri r \<noteq> None \<and> quote_state_is_visible (remote_record_effective_quote_state r)"

definition remote_record_visibility_parsed :: "remote_status_record \<Rightarrow> visibility" where
  "remote_record_visibility_parsed r =
    unwrap_or (ok (visibility_parse (rsr_visibility r))) visibility.Public"

definition remote_record_is_sensitive :: "remote_status_record \<Rightarrow> bool" where
  "remote_record_is_sensitive r \<longleftrightarrow> rsr_sensitive r \<noteq> 0"

record remote_status =
  rs_id :: string
  rs_actor_uri :: string
  rs_object_uri :: string
  rs_url :: "string option"
  rs_in_reply_to_uri :: "string option"
  rs_boost_of_uri :: "string option"
  rs_quote_of_uri :: "string option"
  rs_content_html :: string
  rs_text_content :: string
  rs_spoiler_text :: string
  rs_visibility :: visibility
  rs_sensitive :: bool
  rs_language :: "string option"
  rs_quote_state :: quote_state
  rs_published_at :: string
  rs_edited_at :: "string option"
  rs_card_json :: "string option"
  rs_federated_emojis_json :: string
  rs_in_reply_to_id :: "string option"
  rs_interaction_counts :: "status_interaction_counts option"

definition joined_counts ::
    "u64 option \<Rightarrow> u64 option \<Rightarrow> u64 option \<Rightarrow> status_interaction_counts option" where
  "joined_counts favourites reblogs replies =
    (if favourites = None \<and> reblogs = None \<and> replies = None then None
     else Some \<lparr>ic_favourites = unwrap_or favourites 0, ic_reblogs = unwrap_or reblogs 0,
                ic_replies = unwrap_or replies 0\<rparr>)"

definition remote_status_try_from_record ::
    "remote_status_record \<Rightarrow> record_hydration_error + remote_status" where
  "remote_status_try_from_record r =
    and_then (map_err VisibilityIssue (visibility_parse (rsr_visibility r))) (\<lambda>v.
    and_then (map_err QuoteStateIssue (quote_state_parse (rsr_quote_state r))) (\<lambda>q.
      Inr \<lparr>rs_id = rsr_id r, rs_actor_uri = rsr_actor_uri r, rs_object_uri = rsr_object_uri r,
           rs_url = rsr_url r, rs_in_reply_to_uri = rsr_in_reply_to_uri r,
           rs_boost_of_uri = rsr_boost_of_uri r, rs_quote_of_uri = rsr_quote_of_uri r,
           rs_content_html = rsr_content_html r, rs_text_content = rsr_text_content r,
           rs_spoiler_text = rsr_spoiler_text r, rs_visibility = v,
           rs_sensitive = (rsr_sensitive r \<noteq> 0), rs_language = rsr_language r,
           rs_quote_state = q, rs_published_at = rsr_published_at r,
           rs_edited_at = rsr_edited_at r, rs_card_json = rsr_card_json r,
           rs_federated_emojis_json =
             (if rsr_federated_emojis_json r = [] then ''[]'' else rsr_federated_emojis_json r),
           rs_in_reply_to_id = rsr_in_reply_to_id r,
           rs_interaction_counts =
             joined_counts (rsr_favourites_count r) (rsr_reblogs_count r) (rsr_replies_count r)\<rparr>))"

definition remote_status_from_record :: "remote_status_record \<Rightarrow> remote_status option" where
  "remote_status_from_record r = ok (remote_status_try_from_record r)"

definition remote_status_to_record :: "remote_status \<Rightarrow> remote_status_record" where
  "remote_status_to_record s =
    \<lparr>rsr_id = rs_id s, rsr_actor_uri = rs_actor_uri s, rsr_object_uri = rs_object_uri s,
     rsr_url = rs_url s, rsr_in_reply_to_uri = rs_in_reply_to_uri s,
     rsr_boost_of_uri = rs_boost_of_uri s, rsr_quote_of_uri = rs_quote_of_uri s,
     rsr_content_html = rs_content_html s, rsr_text_content = rs_text_content s,
     rsr_spoiler_text = rs_spoiler_text s, rsr_visibility = visibility_as_str (rs_visibility s),
     rsr_sensitive = i32_of_bool (rs_sensitive s), rsr_language = rs_language s,
     rsr_quote_state = quote_state_as_str (rs_quote_state s),
     rsr_published_at = rs_published_at s, rsr_edited_at = rs_edited_at s,
     rsr_card_json = rs_card_json s, rsr_federated_emojis_json = rs_federated_emojis_json s,
     rsr_in_reply_to_id = rs_in_reply_to_id s,
     rsr_favourites_count = map_option ic_favourites (rs_interaction_counts s),
     rsr_reblogs_count = map_option ic_reblogs (rs_interaction_counts s),
     rsr_replies_count = map_option ic_replies (rs_interaction_counts s)\<rparr>"

definition remote_status_effective_quote_state :: "remote_status \<Rightarrow> quote_state" where
  "remote_status_effective_quote_state s =
    effective_for_stored (rs_quote_of_uri s) (rs_quote_state s)"

definition remote_status_has_active_quote :: "remote_status \<Rightarrow> bool" where
  "remote_status_has_active_quote s \<longleftrightarrow>
    rs_quote_of_uri s \<noteq> None \<and> quote_state_is_visible (remote_status_effective_quote_state s)"

text \<open>The loop over the characters with its flag \<open>in_tag\<close>.\<close>

fun strip_tags :: "bool \<Rightarrow> string \<Rightarrow> string" where
  "strip_tags in_tag [] = []"
| "strip_tags in_tag (ch # s) =
    (if ch = CHR ''<'' then strip_tags True s
     else if ch = CHR ''>'' then strip_tags False s
     else if \<not> in_tag then ch # strip_tags in_tag s
     else strip_tags in_tag s)"

definition strip_basic_html_tags :: "string \<Rightarrow> string" where
  "strip_basic_html_tags html = strip_tags False html"

definition plain_text :: "remote_status \<Rightarrow> string" where
  "plain_text s =
    (if rs_text_content s \<noteq> [] then rs_text_content s
     else strip_basic_html_tags (rs_content_html s))"

section \<open>Incoming notes\<close>

record activitypub_status_input =
  asi_object_id :: "string option"
  asi_url :: "string option"
  asi_in_reply_to :: "string option"
  asi_quote_uri :: "string option"
  asi_quote_url :: "string option"
  asi_misskey_quote :: "string option"
  asi_content_html :: string
  asi_spoiler_text :: "string option"
  asi_to_audiences :: "string list"
  asi_cc_audiences :: "string list"
  asi_sensitive :: "bool option"
  asi_language :: "string option"
  asi_published_at :: "string option"
  asi_updated_at :: "string option"

record incoming_remote_status =
  ins_object_uri :: string
  ins_url :: "string option"
  ins_in_reply_to_uri :: "string option"
  ins_quote_of_uri :: "string option"
  ins_content_html :: string
  ins_text_content :: string
  ins_spoiler_text :: string
  ins_visibility :: visibility
  ins_sensitive :: bool
  ins_language :: "string option"
  ins_published_at :: string

definition normalize_optional_uri :: "string option \<Rightarrow> string option" where
  "normalize_optional_uri v = opt_filter (\<lambda>x. x \<noteq> []) (map_option trim v)"

definition normalize_optional_language :: "string option \<Rightarrow> string option" where
  "normalize_optional_language v =
    opt_filter (\<lambda>x. x \<noteq> []) (map_option (\<lambda>x. to_ascii_lowercase (trim x)) v)"

definition published_at_of :: "string option \<Rightarrow> string option \<Rightarrow> string" where
  "published_at_of published updated = unwrap_or (trimmed_option (opt_or published updated)) []"

definition status_input_into_incoming ::
    "activitypub_status_input \<Rightarrow> remote_status_error + incoming_remote_status" where
  "status_input_into_incoming i =
    and_then (ok_or (trimmed_option (asi_object_id i)) MissingObjectId) (\<lambda>object_uri.
      Inr \<lparr>ins_object_uri = object_uri,
           ins_url = normalize_optional_uri (asi_url i),
           ins_in_reply_to_uri = normalize_optional_uri (asi_in_reply_to i),
           ins_quote_of_uri =
             quote_target_uri_from_fields (asi_quote_uri i) (asi_quote_url i) (asi_misskey_quote i),
           ins_content_html = asi_content_html i,
           ins_text_content = strip_basic_html_tags (asi_content_html i),
           ins_spoiler_text = unwrap_or (map_option trim (asi_spoiler_text i)) [],
           ins_visibility =
             visibility_from_activitypub_audiences
               (audience_values_contains_public (asi_to_audiences i))
               (audience_values_contains_public (asi_cc_audiences i))
               (audience_values_contain_followers (asi_to_audiences i) \<or>
                audience_values_contain_followers (asi_cc_audiences i)),
           ins_sensitive = unwrap_or (asi_sensitive i) False,
           ins_language = normalize_optional_language (asi_language i),
           ins_published_at = published_at_of (asi_published_at i) (asi_updated_at i)\<rparr>)"

record remote_quote_local_target =
  lt_blocked_by_owner :: bool
  lt_policy_allows :: bool

record remote_quote_resolution =
  qr_quote_of_uri :: "string option"
  qr_local_target :: "remote_quote_local_target option"

definition resolution_without_quote :: remote_quote_resolution where
  "resolution_without_quote = \<lparr>qr_quote_of_uri = None, qr_local_target = None\<rparr>"

definition resolution_accepted_quote :: "string \<Rightarrow> remote_quote_resolution" where
  "resolution_accepted_quote uri = \<lparr>qr_quote_of_uri = Some uri, qr_local_target = None\<rparr>"

definition resolution_with_local_target ::
    "string \<Rightarrow> remote_quote_local_target \<Rightarrow> remote_quote_resolution" where
  "resolution_with_local_target uri target =
    \<lparr>qr_quote_of_uri = Some uri, qr_local_target = Some target\<rparr>"

definition initial_quote_state :: "remote_quote_resolution \<Rightarrow> quote_state" where
  "initial_quote_state q =
    (case (qr_quote_of_uri q, qr_local_target q) of
       (None, _) \<Rightarrow> Accepted
     | (Some _, None) \<Rightarrow> Accepted
     | (Some _, Some target) \<Rightarrow>
         remote_for_target (lt_blocked_by_owner target) (lt_policy_allows target))"

record stored_remote_status_intent =
  srs_status_id :: status_id
  srs_actor_uri :: string
  srs_object_uri :: string
  srs_url :: "string option"
  srs_in_reply_to_uri :: "string option"
  srs_quote_of_uri :: "string option"
  srs_content_html :: string
  srs_text_content :: string
  srs_spoiler_text :: string
  srs_visibility :: visibility
  srs_sensitive :: bool
  srs_language :: "string option"
  srs_quote_state :: quote_state
  srs_published_at :: string
  srs_edited_at :: "string option"
  srs_card_json :: "string option"
  srs_federated_emojis_json :: string
  srs_in_reply_to_id :: "string option"
  srs_raw_object_json :: string
  srs_revision_at :: string

definition incoming_status_into_store_intent ::
    "incoming_remote_status \<Rightarrow> status_id \<Rightarrow> string \<Rightarrow> remote_quote_resolution \<Rightarrow> string \<Rightarrow> string \<Rightarrow>
     (stored_remote_status_intent, unit) transition" where
  "incoming_status_into_store_intent s ident actor_uri resolution raw_object_json revision_at =
    without_events
      \<lparr>srs_status_id = ident, srs_actor_uri = actor_uri, srs_object_uri = ins_object_uri s,
       srs_url = ins_url s, srs_in_reply_to_uri = ins_in_reply_to_uri s,
       srs_quote_of_uri = ins_quote_of_uri s, srs_content_html = ins_content_html s,
       srs_text_content = ins_text_content s, srs_spoiler_text = ins_spoiler_text s,
       srs_visibility = ins_visibility s, srs_sensitive = ins_sensitive s,
       srs_language = ins_language s, srs_quote_state = initial_quote_state resolution,
       srs_published_at = ins_published_at s, srs_edited_at = None, srs_card_json = None,
       srs_federated_emojis_json = ''[]'', srs_in_reply_to_id = None,
       srs_raw_object_json = raw_object_json, srs_revision_at = revision_at\<rparr>"

definition stored_remote_effective_quote_state :: "stored_remote_status_intent \<Rightarrow> quote_state" where
  "stored_remote_effective_quote_state s =
    effective_for_stored (srs_quote_of_uri s) (srs_quote_state s)"

definition stored_remote_has_active_quote :: "stored_remote_status_intent \<Rightarrow> bool" where
  "stored_remote_has_active_quote s \<longleftrightarrow>
    srs_quote_of_uri s \<noteq> None \<and> quote_state_is_visible (stored_remote_effective_quote_state s)"

section \<open>Incoming announces\<close>

record activitypub_reblog_input =
  ari_activity_id :: "string option"
  ari_boost_of_uri :: "string option"
  ari_quote_uri :: "string option"
  ari_quote_url :: "string option"
  ari_misskey_quote :: "string option"
  ari_to_audiences :: "string list"
  ari_cc_audiences :: "string list"
  ari_published_at :: "string option"
  ari_updated_at :: "string option"

record incoming_remote_reblog =
  inr_object_uri :: string
  inr_boost_of_uri :: string
  inr_quote_of_uri :: "string option"
  inr_visibility :: visibility
  inr_published_at :: string

definition reblog_input_into_incoming ::
    "activitypub_reblog_input \<Rightarrow> remote_status_error + incoming_remote_reblog" where
  "reblog_input_into_incoming i =
    and_then (ok_or (trimmed_option (ari_activity_id i)) MissingObjectId) (\<lambda>object_uri.
    and_then (ok_or (trimmed_option (ari_boost_of_uri i)) MissingBoostTarget) (\<lambda>boost_of_uri.
      Inr \<lparr>inr_object_uri = object_uri,
           inr_boost_of_uri = boost_of_uri,
           inr_quote_of_uri =
             quote_target_uri_from_fields (ari_quote_uri i) (ari_quote_url i) (ari_misskey_quote i),
           inr_visibility =
             visibility_from_activitypub_audiences
               (audience_values_contains_public (ari_to_audiences i))
               (audience_values_contains_public (ari_cc_audiences i))
               (audience_values_contain_followers (ari_to_audiences i) \<or>
                audience_values_contain_followers (ari_cc_audiences i)),
           inr_published_at = published_at_of (ari_published_at i) (ari_updated_at i)\<rparr>))"

record stored_remote_reblog_intent =
  srb_status_id :: status_id
  srb_actor_uri :: string
  srb_object_uri :: string
  srb_boost_of_uri :: string
  srb_quote_of_uri :: "string option"
  srb_visibility :: visibility
  srb_quote_state :: quote_state
  srb_published_at :: string
  srb_raw_object_json :: string

definition incoming_reblog_into_store_intent ::
    "incoming_remote_reblog \<Rightarrow> status_id \<Rightarrow> string \<Rightarrow> remote_quote_resolution \<Rightarrow> string \<Rightarrow>
     (stored_remote_reblog_intent, unit) transition" where
  "incoming_reblog_into_store_intent s ident actor_uri resolution raw_object_json =
    without_events
      \<lparr>srb_status_id = ident, srb_actor_uri = actor_uri, srb_object_uri = inr_object_uri s,
       srb_boost_of_uri = inr_boost_of_uri s, srb_quote_of_uri = inr_quote_of_uri s,
       srb_visibility = inr_visibility s, srb_quote_state = initial_quote_state resolution,
       srb_published_at = inr_published_at s, srb_raw_object_json = raw_object_json\<rparr>"

section \<open>Facts\<close>

lemma audience_flags_roundtrip:
  "(case activitypub_audience_flags_for_visibility v of
      (to_public, cc_public, followers) \<Rightarrow>
        visibility_from_activitypub_audiences to_public cc_public followers) = v"
  by (cases v) (simp_all add: visibility_from_activitypub_audiences_def)

lemma restricted_flags:
  "is_restricted v \<longleftrightarrow>
   (\<exists>f. activitypub_audience_flags_for_visibility v = (False, False, f))"
  by (cases v) auto

lemma public_visibility_iff: "is_public_activitypub_visibility v \<longleftrightarrow> \<not> is_restricted v"
  by (cases v) simp_all

lemma visibility_from_lists_restricted:
  "is_restricted (visibility_from_audience_lists tos ccs) \<longleftrightarrow>
   list_all (\<lambda>v. \<not> is_public_audience_uri v) (tos @ ccs)"
  by (auto simp: visibility_from_audience_lists_def visibility_from_activitypub_audiences_def
      audience_values_contains_public_def list_ex_iff list_all_iff)

lemma find_map_trimmed_Some:
  "find_map_trimmed vs = Some u \<Longrightarrow> u \<noteq> [] \<and> trim u = u \<and> (\<exists>v. Some v \<in> set vs \<and> u = trim v)"
  by (induction vs) (auto simp: trimmed_option_Some split: option.splits)

lemma find_map_trimmed_None:
  "find_map_trimmed vs = None \<longleftrightarrow> (\<forall>v. Some v \<in> set vs \<longrightarrow> trim v = [])"
  by (induction vs) (auto simp: trimmed_option_def opt_filter_def split: option.splits)

lemma strip_tags_no_brackets: "CHR ''<'' \<notin> set (strip_tags b s) \<and> CHR ''>'' \<notin> set (strip_tags b s)"
  by (induction b s rule: strip_tags.induct) auto

lemma strip_tags_id: "CHR ''<'' \<notin> set s \<Longrightarrow> CHR ''>'' \<notin> set s \<Longrightarrow> strip_tags False s = s"
  by (induction s) auto

lemma strip_tags_idem: "strip_tags False (strip_tags b s) = strip_tags b s"
  using strip_tags_no_brackets by (intro strip_tags_id) blast+

lemma strip_tags_inside:
  "CHR ''>'' \<notin> set t \<Longrightarrow> strip_tags True (t @ CHR ''>'' # s) = strip_tags False s"
  by (induction t) auto

text \<open>Markup in front of a text is removed, whatever it contains.\<close>

lemma strip_tag_between:
  "CHR ''<'' \<notin> set a \<Longrightarrow> CHR ''>'' \<notin> set a \<Longrightarrow> CHR ''>'' \<notin> set t \<Longrightarrow>
   strip_tags False (a @ CHR ''<'' # t @ CHR ''>'' # s) = a @ strip_tags False s"
  by (induction a) (auto simp: strip_tags_inside)

lemma remote_status_from_to_record:
  "rs_federated_emojis_json s \<noteq> [] \<Longrightarrow>
   remote_status_try_from_record (remote_status_to_record s) = Inr s"
  by (cases s; cases "rs_interaction_counts s")
     (auto simp: remote_status_try_from_record_def remote_status_to_record_def joined_counts_def)

lemma remote_hydrated_emojis:
  "remote_status_try_from_record r = Inr s \<Longrightarrow> rs_federated_emojis_json s \<noteq> []"
  by (auto simp: remote_status_try_from_record_def and_then_Inr split: if_splits)

lemma remote_hydration_idem:
  "remote_status_try_from_record r = Inr s \<Longrightarrow>
   remote_status_try_from_record (remote_status_to_record s) = Inr s"
  by (rule remote_status_from_to_record) (rule remote_hydrated_emojis)

lemma find_map_trimmed_first:
  "find_map_trimmed vs =
    (case trimmed_nonempty (List.map_filter id vs) of [] \<Rightarrow> None | v # _ \<Rightarrow> Some v)"
  by (induction vs)
     (auto simp: trimmed_nonempty_def trimmed_option_def opt_filter_def map_filter_simps
       split: option.splits list.splits)

section \<open>Properties\<close>

text \<open>
  An incoming note is refused exactly when it has no object id. Else its visibility is
  restricted exactly when neither list names the public collection, its text has no markup left
  and is its own stripping, it quotes the first of the three quote fields that is not blank, and
  its date is the published one or, only where that is missing, the updated one, trimmed.
\<close>

theorem incoming_note:
  "(case status_input_into_incoming i of
      Inl e \<Rightarrow> e = MissingObjectId \<and> trimmed_option (asi_object_id i) = None
    | Inr n \<Rightarrow>
        trimmed_option (asi_object_id i) = Some (ins_object_uri n) \<and>
        is_restricted (ins_visibility n) =
          list_all (\<lambda>v. \<not> is_public_audience_uri v) (asi_to_audiences i @ asi_cc_audiences i) \<and>
        ins_visibility n = visibility_from_audience_lists (asi_to_audiences i) (asi_cc_audiences i) \<and>
        list_all (\<lambda>c. c \<noteq> CHR ''<'' \<and> c \<noteq> CHR ''>'') (ins_text_content n) \<and>
        strip_basic_html_tags (ins_text_content n) = ins_text_content n \<and>
        ins_quote_of_uri n =
          (case trimmed_nonempty (List.map_filter id
                  [asi_quote_uri i, asi_quote_url i, asi_misskey_quote i]) of
             [] \<Rightarrow> None | v # _ \<Rightarrow> Some v) \<and>
        ins_published_at n =
          (case (asi_published_at i, asi_updated_at i) of
             (Some p, _) \<Rightarrow> trim p | (None, Some u) \<Rightarrow> trim u | (None, None) \<Rightarrow> []))"
proof (cases "trimmed_option (asi_object_id i)")
  case None
  then show ?thesis by (simp add: status_input_into_incoming_def)
next
  case (Some uri)
  have date: "published_at_of p u =
      (case (p, u) of (Some p, _) \<Rightarrow> trim p | (None, Some u) \<Rightarrow> trim u | (None, None) \<Rightarrow> [])" for p u
    by (cases p; cases u) (auto simp: published_at_of_def trimmed_option_def)
  have brackets: "list_all (\<lambda>c. c \<noteq> CHR ''<'' \<and> c \<noteq> CHR ''>'') (strip_tags b s)" for b s
    using strip_tags_no_brackets [of b s] by (auto simp: list_all_iff)
  show ?thesis
    using Some visibility_from_lists_restricted [of "asi_to_audiences i" "asi_cc_audiences i"]
    by (simp add: status_input_into_incoming_def strip_basic_html_tags_def strip_tags_idem brackets
        date quote_target_uri_from_fields_def find_map_trimmed_first
        visibility_from_audience_lists_def)
qed


text \<open>
  Reading a row of remote statuses normalises it once: a row either names a column that does
  not parse, or gives a status that is read back unchanged from the row it writes, with the same
  quote shown.
\<close>

theorem remote_row_hydration:
  "(case remote_status_try_from_record r of
      Inl _ \<Rightarrow> \<not> (is_ok (visibility_parse (rsr_visibility r)) \<and>
                 is_ok (quote_state_parse (rsr_quote_state r)))
    | Inr s \<Rightarrow>
        remote_status_try_from_record (remote_status_to_record s) = Inr s \<and>
        remote_record_has_active_quote (remote_status_to_record s) =
          remote_status_has_active_quote s \<and>
        remote_record_has_active_quote r = remote_status_has_active_quote s)"
proof (cases "remote_status_try_from_record r")
  case (Inl e)
  then show ?thesis
    by (auto simp: remote_status_try_from_record_def is_ok_def
        split: sum.splits)
next
  case (Inr s)
  have "remote_record_has_active_quote (remote_status_to_record s) = remote_status_has_active_quote s"
    by (simp add: remote_record_has_active_quote_def remote_status_has_active_quote_def
        remote_record_effective_quote_state_def remote_status_effective_quote_state_def
        remote_status_to_record_def)
  moreover have "remote_record_has_active_quote r = remote_status_has_active_quote s"
    using Inr
    by (auto simp: remote_status_try_from_record_def and_then_Inr remote_record_has_active_quote_def
        remote_status_has_active_quote_def remote_record_effective_quote_state_def
        remote_status_effective_quote_state_def)
  ultimately show ?thesis
    using Inr remote_hydration_idem [OF Inr] by simp
qed

end
