(* ===== verification/Follow.thy ===== *)
theory Follow
  imports Prelude
begin

text \<open>
  Local follows and inbound remote follow requests (\<open>follow.rs\<close>): the state of one request, how
  it starts, and what authorising and rejecting it do.
\<close>

datatype local_follow_state = Pending | Accepted

datatype follow_request_scenario = LocalFollower | RemoteFollower

datatype remote_inbound_follow_request_state = Absent | Queued | Fulfilled

record local_follow_request_state =
  fr_scenario :: follow_request_scenario
  fr_target_locked :: bool
  fr_local_follow :: "local_follow_state option"
  fr_remote_request :: remote_inbound_follow_request_state

definition initial_local_follow_state :: "bool \<Rightarrow> local_follow_state" where
  "initial_local_follow_state target_locked =
    (if target_locked then local_follow_state.Pending else local_follow_state.Accepted)"

fun local_follow_state_after_authorize :: "local_follow_state \<Rightarrow> local_follow_state" where
  "local_follow_state_after_authorize local_follow_state.Pending = local_follow_state.Accepted"
| "local_follow_state_after_authorize local_follow_state.Accepted = local_follow_state.Accepted"

definition local_follow_exists_after_reject :: "local_follow_state \<Rightarrow> bool" where
  "local_follow_exists_after_reject current \<longleftrightarrow> current \<noteq> local_follow_state.Pending"

fun local_follow_notification_type :: "local_follow_state \<Rightarrow> string" where
  "local_follow_notification_type local_follow_state.Pending = ''follow_request''"
| "local_follow_notification_type local_follow_state.Accepted = ''follow''"

fun local_follow_state_as_str :: "local_follow_state \<Rightarrow> string" where
  "local_follow_state_as_str local_follow_state.Pending = ''pending''"
| "local_follow_state_as_str local_follow_state.Accepted = ''accepted''"

definition remote_inbound_request_after_inbox_follow ::
    "bool \<Rightarrow> remote_inbound_follow_request_state" where
  "remote_inbound_request_after_inbox_follow target_locked =
    (if target_locked then remote_inbound_follow_request_state.Queued else Fulfilled)"

fun remote_inbound_request_after_authorize ::
    "remote_inbound_follow_request_state \<Rightarrow> remote_inbound_follow_request_state" where
  "remote_inbound_request_after_authorize remote_inbound_follow_request_state.Queued = Fulfilled"
| "remote_inbound_request_after_authorize other = other"

fun remote_inbound_request_after_reject ::
    "remote_inbound_follow_request_state \<Rightarrow> remote_inbound_follow_request_state" where
  "remote_inbound_request_after_reject remote_inbound_follow_request_state.Queued =
     remote_inbound_follow_request_state.Absent"
| "remote_inbound_request_after_reject other = other"

fun initial_local_follow_request_state ::
    "follow_request_scenario \<Rightarrow> bool \<Rightarrow> local_follow_request_state" where
  "initial_local_follow_request_state LocalFollower target_locked =
    \<lparr>fr_scenario = LocalFollower, fr_target_locked = target_locked,
     fr_local_follow = Some (initial_local_follow_state target_locked),
     fr_remote_request = remote_inbound_follow_request_state.Absent\<rparr>"
| "initial_local_follow_request_state RemoteFollower target_locked =
    (let remote_request = remote_inbound_request_after_inbox_follow target_locked in
     \<lparr>fr_scenario = RemoteFollower, fr_target_locked = target_locked,
      fr_local_follow =
        (if remote_request = Fulfilled then Some local_follow_state.Accepted else None),
      fr_remote_request = remote_request\<rparr>)"

definition authorize_local_follow_request ::
    "local_follow_request_state \<Rightarrow> local_follow_request_state" where
  "authorize_local_follow_request state =
    (let state = (case fr_local_follow state of
           Some local_follow \<Rightarrow>
             state\<lparr>fr_local_follow := Some (local_follow_state_after_authorize local_follow)\<rparr>
         | None \<Rightarrow> state);
         state = state\<lparr>fr_remote_request :=
             remote_inbound_request_after_authorize (fr_remote_request state)\<rparr>
     in if fr_remote_request state = Fulfilled \<and> fr_local_follow state = None
        then state\<lparr>fr_local_follow := Some local_follow_state.Accepted\<rparr>
        else state)"

definition reject_local_follow_request ::
    "local_follow_request_state \<Rightarrow> local_follow_request_state" where
  "reject_local_follow_request state =
    (let state = (case fr_local_follow state of
           Some local_follow \<Rightarrow>
             state\<lparr>fr_local_follow :=
               (if local_follow_exists_after_reject local_follow then Some local_follow else None)\<rparr>
         | None \<Rightarrow> state)
     in state\<lparr>fr_remote_request :=
          remote_inbound_request_after_reject (fr_remote_request state)\<rparr>)"

definition pending_local_follow_request_state :: "bool \<Rightarrow> local_follow_request_state" where
  "pending_local_follow_request_state target_locked =
    \<lparr>fr_scenario = LocalFollower, fr_target_locked = target_locked,
     fr_local_follow = Some local_follow_state.Pending,
     fr_remote_request = remote_inbound_follow_request_state.Absent\<rparr>"

definition pending_remote_follow_request_state :: "bool \<Rightarrow> local_follow_request_state" where
  "pending_remote_follow_request_state target_locked =
    \<lparr>fr_scenario = RemoteFollower, fr_target_locked = target_locked,
     fr_local_follow = None, fr_remote_request = remote_inbound_follow_request_state.Queued\<rparr>"

section \<open>Consistent requests\<close>

text \<open>
  What every request satisfies. A local follower never has a remote request; a remote one has a
  local row exactly when its request is fulfilled, and the row is then accepted; something
  waits for a decision only if the target is locked.
\<close>

definition follow_request_ok :: "local_follow_request_state \<Rightarrow> bool" where
  "follow_request_ok s \<longleftrightarrow>
    (case fr_scenario s of
       LocalFollower \<Rightarrow> fr_remote_request s = remote_inbound_follow_request_state.Absent \<and>
         (fr_target_locked s \<or> fr_local_follow s = Some local_follow_state.Accepted)
     | RemoteFollower \<Rightarrow>
         fr_local_follow s =
           (if fr_remote_request s = Fulfilled then Some local_follow_state.Accepted else None) \<and>
         (fr_target_locked s \<or> fr_remote_request s = Fulfilled))"

definition follow_request_waiting :: "local_follow_request_state \<Rightarrow> bool" where
  "follow_request_waiting s \<longleftrightarrow>
    fr_local_follow s = Some local_follow_state.Pending \<or>
    fr_remote_request s = remote_inbound_follow_request_state.Queued"

lemma initial_follow_request_ok: "follow_request_ok (initial_local_follow_request_state sc locked)"
  by (cases sc; cases locked)
     (simp_all add: follow_request_ok_def initial_local_follow_state_def
        remote_inbound_request_after_inbox_follow_def)

lemma initial_follow_request_waiting:
  "follow_request_waiting (initial_local_follow_request_state sc locked) = locked"
  by (cases sc; cases locked)
     (simp_all add: follow_request_waiting_def initial_local_follow_state_def
        remote_inbound_request_after_inbox_follow_def)

lemma authorize_ok: "follow_request_ok s \<Longrightarrow> follow_request_ok (authorize_local_follow_request s)"
  by (cases s; cases "fr_scenario s"; cases "fr_local_follow s"; cases "fr_remote_request s")
     (auto simp: follow_request_ok_def authorize_local_follow_request_def Let_def
       elim: local_follow_state_after_authorize.elims split: if_splits)

lemma reject_ok: "follow_request_ok s \<Longrightarrow> follow_request_ok (reject_local_follow_request s)"
  by (cases s; cases "fr_scenario s"; cases "fr_local_follow s"; cases "fr_remote_request s")
     (auto simp: follow_request_ok_def reject_local_follow_request_def Let_def
       local_follow_exists_after_reject_def split: if_splits)

lemma authorize_settles: "\<not> follow_request_waiting (authorize_local_follow_request s)"
proof -
  have "local_follow_state_after_authorize x = local_follow_state.Accepted" for x
    by (cases x) simp_all
  then show ?thesis
    by (cases s; cases "fr_local_follow s"; cases "fr_remote_request s")
       (auto simp: follow_request_waiting_def authorize_local_follow_request_def Let_def)
qed

lemma reject_settles: "\<not> follow_request_waiting (reject_local_follow_request s)"
  by (cases s; cases "fr_local_follow s"; cases "fr_remote_request s")
     (auto simp: follow_request_waiting_def reject_local_follow_request_def Let_def
       local_follow_exists_after_reject_def)

text \<open>A decision already taken is not changed by a second one.\<close>

lemma settled_authorize:
  assumes "follow_request_ok s" "\<not> follow_request_waiting s"
  shows "authorize_local_follow_request s = s"
  using assms
  by (cases s; cases "fr_scenario s"; cases "fr_local_follow s"; cases "the (fr_local_follow s)";
      cases "fr_remote_request s")
     (auto simp: follow_request_ok_def follow_request_waiting_def
       authorize_local_follow_request_def Let_def split: if_splits)

lemma settled_reject:
  assumes "follow_request_ok s" "\<not> follow_request_waiting s"
  shows "reject_local_follow_request s = s"
  using assms
  by (cases s; cases "fr_scenario s"; cases "fr_local_follow s"; cases "the (fr_local_follow s)";
      cases "fr_remote_request s")
     (auto simp: follow_request_ok_def follow_request_waiting_def
       reject_local_follow_request_def local_follow_exists_after_reject_def Let_def split: if_splits)

end
