(* ===== verification/Inbox.thy ===== *)
theory Inbox
  imports Prelude
begin

text \<open>
  The record that makes the processing of an inbox activity idempotent
  (\<open>federation/inbox.rs\<close>): \<open>Absent\<close>, \<open>InFlight\<close> while one delivery is being processed,
  \<open>Processed\<close> for good after a success.
\<close>

datatype inbox_activity_record_state = Absent | InFlight | Processed

fun inbox_activity_after_receive ::
    "inbox_activity_record_state \<Rightarrow> inbox_activity_record_state \<times> bool" where
  "inbox_activity_after_receive inbox_activity_record_state.Absent = (InFlight, True)"
| "inbox_activity_after_receive InFlight = (InFlight, False)"
| "inbox_activity_after_receive Processed = (Processed, False)"

fun inbox_activity_after_success ::
    "inbox_activity_record_state \<Rightarrow> inbox_activity_record_state option" where
  "inbox_activity_after_success InFlight = Some Processed"
| "inbox_activity_after_success _ = None"

fun inbox_activity_after_failure ::
    "inbox_activity_record_state \<Rightarrow> inbox_activity_record_state option" where
  "inbox_activity_after_failure InFlight = Some inbox_activity_record_state.Absent"
| "inbox_activity_after_failure _ = None"

section \<open>One activity over time\<close>

datatype inbox_event = Receive | Success | Failure

text \<open>
  The handler's use of the three functions: a delivery that may not begin is dropped, and an
  outcome that does not apply leaves the record alone. The counters are the numbers of times
  processing began, ended well and was given up.
\<close>

record inbox_log =
  il_state :: inbox_activity_record_state
  il_begun :: nat
  il_succeeded :: nat
  il_released :: nat

definition inbox_log_init :: inbox_log where
  "inbox_log_init = \<lparr>il_state = inbox_activity_record_state.Absent, il_begun = 0, il_succeeded = 0,
     il_released = 0\<rparr>"

fun inbox_log_step :: "inbox_log \<Rightarrow> inbox_event \<Rightarrow> inbox_log" where
  "inbox_log_step l Receive =
    (case inbox_activity_after_receive (il_state l) of
       (st, begin) \<Rightarrow> l\<lparr>il_state := st, il_begun := il_begun l + (if begin then 1 else 0)\<rparr>)"
| "inbox_log_step l Success =
    (case inbox_activity_after_success (il_state l) of
       None \<Rightarrow> l | Some st \<Rightarrow> l\<lparr>il_state := st, il_succeeded := Suc (il_succeeded l)\<rparr>)"
| "inbox_log_step l Failure =
    (case inbox_activity_after_failure (il_state l) of
       None \<Rightarrow> l | Some st \<Rightarrow> l\<lparr>il_state := st, il_released := Suc (il_released l)\<rparr>)"

definition inbox_log_ok :: "inbox_log \<Rightarrow> bool" where
  "inbox_log_ok l \<longleftrightarrow> il_succeeded l = (if il_state l = Processed then 1 else 0) \<and>
    il_begun l = il_succeeded l + il_released l + (if il_state l = InFlight then 1 else 0)"

lemma inbox_log_step_ok: "inbox_log_ok l \<Longrightarrow> inbox_log_ok (inbox_log_step l e)"
  by (cases e; cases "il_state l") (auto simp: inbox_log_ok_def)

lemma inbox_log_steps_ok: "inbox_log_ok l \<Longrightarrow> inbox_log_ok (foldl inbox_log_step l es)"
  by (induction es arbitrary: l) (auto intro: inbox_log_step_ok simp del: inbox_log_step.simps)

lemma processed_absorbing:
  "il_state l = Processed \<Longrightarrow> foldl inbox_log_step l es = l"
proof (induction es arbitrary: l)
  case (Cons e es)
  from Cons.prems have "inbox_log_step l e = l" by (cases e) simp_all
  with Cons show ?case by simp
qed simp

section \<open>Properties\<close>

text \<open>
  An inbox activity is processed successfully at most once. Whatever order deliveries and
  outcomes come in, the number of successes is one or none, told by the record; processing was
  begun once for the success, once for each attempt that was given up and once for an attempt
  still running, so no two attempts overlap; and a processed activity ignores everything that
  comes later.
\<close>

theorem inbox_exactly_once:
  "(let l = foldl inbox_log_step inbox_log_init es in
     il_succeeded l = (if il_state l = Processed then 1 else 0) \<and>
     il_begun l = il_succeeded l + il_released l + (if il_state l = InFlight then 1 else 0) \<and>
     foldl inbox_log_step inbox_log_init (es @ later) =
       (if il_state l = Processed then l else foldl inbox_log_step l later))"
proof -
  have "inbox_log_ok inbox_log_init" by (simp add: inbox_log_ok_def inbox_log_init_def)
  from inbox_log_steps_ok [OF this, of es] show ?thesis
    by (auto simp: Let_def inbox_log_ok_def processed_absorbing)
qed

end
