(* ===== verification/Delivery.thy ===== *)
theory Delivery
  imports Prelude
begin

text \<open>
  Delivery of outbound activities (\<open>delivery.rs\<close>): classification of HTTP answers, the retry
  schedule with its limit of attempts, the parent state of an outbox entry, the slot of one
  remote inbox, and the reconciliation of remote follows.
\<close>

definition DELIVERY_MAX_ATTEMPTS :: u32 where
  "DELIVERY_MAX_ATTEMPTS = 5"

definition OUTBOX_DELIVERY_CONCURRENCY :: "64 word" where
  "OUTBOX_DELIVERY_CONCURRENCY = 8"

datatype outbox_delivery_record_state = Queued | Expanded | Delivered | Failed

datatype outbound_activity_state = Queued | Delivered | Failed

datatype remote_follow_state = Pending | Accepted | Rejected | Failed

datatype follow_inbox_response = Accept | Reject

datatype delivery_attempt_outcome = Success | Failure | PermanentFailure

instance outbox_delivery_record_state :: finite
proof
  have "(UNIV :: outbox_delivery_record_state set) =
      {outbox_delivery_record_state.Queued, Expanded, outbox_delivery_record_state.Delivered,
       outbox_delivery_record_state.Failed}"
    using outbox_delivery_record_state.exhaust by auto
  then show "finite (UNIV :: outbox_delivery_record_state set)"
    by (metis finite.emptyI finite_insert)
qed

instance outbound_activity_state :: finite
proof
  have "(UNIV :: outbound_activity_state set) =
      {outbound_activity_state.Queued, outbound_activity_state.Delivered,
       outbound_activity_state.Failed}"
    using outbound_activity_state.exhaust by auto
  then show "finite (UNIV :: outbound_activity_state set)"
    by (metis finite.emptyI finite_insert)
qed

instance remote_follow_state :: finite
proof
  have "(UNIV :: remote_follow_state set) =
      {remote_follow_state.Pending, Accepted, Rejected, remote_follow_state.Failed}"
    using remote_follow_state.exhaust by auto
  then show "finite (UNIV :: remote_follow_state set)"
    by (metis finite.emptyI finite_insert)
qed

definition generic_outbox_has_follower_targets :: "64 word \<Rightarrow> bool" where
  "generic_outbox_has_follower_targets follower_target_count \<longleftrightarrow> follower_target_count > 0"

definition generic_outbox_parent_state_after_expand :: "u32 \<Rightarrow> outbox_delivery_record_state" where
  "generic_outbox_parent_state_after_expand follower_target_count =
    (if follower_target_count = 0 then outbox_delivery_record_state.Delivered
     else outbox_delivery_record_state.Expanded)"

definition is_delivery_terminal :: "u32 \<Rightarrow> bool" where
  "is_delivery_terminal next_attempt \<longleftrightarrow> next_attempt \<ge> DELIVERY_MAX_ATTEMPTS"

text \<open>\<open>Success\<close> and \<open>PermanentFailure\<close> apply in every state, the terminal ones included.\<close>

fun outbox_delivery_state_after_attempt ::
    "outbox_delivery_record_state \<Rightarrow> u32 \<Rightarrow> delivery_attempt_outcome \<Rightarrow>
     outbox_delivery_record_state" where
  "outbox_delivery_state_after_attempt _ next_attempt delivery_attempt_outcome.Success =
     outbox_delivery_record_state.Delivered"
| "outbox_delivery_state_after_attempt _ next_attempt PermanentFailure =
     outbox_delivery_record_state.Failed"
| "outbox_delivery_state_after_attempt outbox_delivery_record_state.Queued next_attempt
       delivery_attempt_outcome.Failure =
     (if is_delivery_terminal next_attempt then outbox_delivery_record_state.Failed
      else outbox_delivery_record_state.Queued)"
| "outbox_delivery_state_after_attempt current next_attempt delivery_attempt_outcome.Failure =
     current"

definition outbox_expand_slot_count :: "u32 \<Rightarrow> u32 \<Rightarrow> u32" where
  "outbox_expand_slot_count follower_target_count max_slots = min follower_target_count max_slots"

definition delivery_disposition_for_http_status :: "u16 \<Rightarrow> delivery_attempt_outcome" where
  "delivery_disposition_for_http_status status =
    (if 200 \<le> status \<and> status \<le> 299 then delivery_attempt_outcome.Success
     else if status = 408 \<or> status = 429 then delivery_attempt_outcome.Failure
     else if 400 \<le> status \<and> status \<le> 499 then PermanentFailure
     else delivery_attempt_outcome.Failure)"

definition is_delivery_http_status_permanent :: "u16 \<Rightarrow> bool" where
  "is_delivery_http_status_permanent status \<longleftrightarrow>
    delivery_disposition_for_http_status status = PermanentFailure"

definition delivery_retry_delay_modifier :: "u32 \<Rightarrow> string" where
  "delivery_retry_delay_modifier attempt =
    (if attempt = 1 then ''+1 minute''
     else if attempt = 2 then ''+5 minutes''
     else if attempt = 3 then ''+15 minutes''
     else ''+60 minutes'')"

text \<open>\<open>attempt_count.saturating_add(1) as u32\<close> on an \<open>i32\<close>: the cast keeps the bits.\<close>

definition next_delivery_attempt_count :: "i32 \<Rightarrow> u32" where
  "next_delivery_attempt_count attempt_count =
    (if sint attempt_count = 2147483647 then attempt_count else attempt_count + 1)"

fun outbound_state_after_delivery_attempt ::
    "outbound_activity_state \<Rightarrow> u32 \<Rightarrow> delivery_attempt_outcome \<Rightarrow> outbound_activity_state" where
  "outbound_state_after_delivery_attempt _ next_attempt delivery_attempt_outcome.Success =
     outbound_activity_state.Delivered"
| "outbound_state_after_delivery_attempt _ next_attempt PermanentFailure =
     outbound_activity_state.Failed"
| "outbound_state_after_delivery_attempt outbound_activity_state.Queued next_attempt
       delivery_attempt_outcome.Failure =
     (if is_delivery_terminal next_attempt then outbound_activity_state.Failed
      else outbound_activity_state.Queued)"
| "outbound_state_after_delivery_attempt terminal next_attempt delivery_attempt_outcome.Failure =
     terminal"

record outbound_delivery_slot =
  ds_state :: outbound_activity_state
  ds_attempt_count :: u32

definition outbound_delivery_slot_queued :: outbound_delivery_slot where
  "outbound_delivery_slot_queued =
    \<lparr>ds_state = outbound_activity_state.Queued, ds_attempt_count = 0\<rparr>"

definition outbound_delivery_slot_after_attempt ::
    "outbound_delivery_slot \<Rightarrow> delivery_attempt_outcome \<Rightarrow> outbound_delivery_slot" where
  "outbound_delivery_slot_after_attempt slot outcome =
    (if ds_state slot \<noteq> outbound_activity_state.Queued then slot
     else let next_attempt = next_delivery_attempt_count (ds_attempt_count slot);
              nxt = \<lparr>ds_state = ds_state slot, ds_attempt_count = ds_attempt_count slot\<rparr>;
              nxt = (if outcome = delivery_attempt_outcome.Failure \<or> outcome = PermanentFailure
                     then nxt\<lparr>ds_attempt_count := next_attempt\<rparr> else nxt)
          in nxt\<lparr>ds_state :=
               outbound_state_after_delivery_attempt (ds_state slot) next_attempt outcome\<rparr>)"

text \<open>\<open>max_concurrency as u8\<close> truncates.\<close>

definition outbox_delivery_pool_size :: "u8 \<Rightarrow> 64 word \<Rightarrow> u8" where
  "outbox_delivery_pool_size total_slots max_concurrency =
    min total_slots (ucast max_concurrency)"

definition outbound_terminal_failure_follow_state :: "string \<Rightarrow> remote_follow_state option" where
  "outbound_terminal_failure_follow_state activity_type =
    (if activity_type = ''Follow'' then Some remote_follow_state.Failed else None)"

definition reconcile_pending_follow_on_outbound_terminal_failure ::
    "remote_follow_state \<Rightarrow> string \<Rightarrow> remote_follow_state" where
  "reconcile_pending_follow_on_outbound_terminal_failure follow_state activity_type =
    (if follow_state \<noteq> remote_follow_state.Pending then follow_state
     else unwrap_or (outbound_terminal_failure_follow_state activity_type) follow_state)"

definition initial_remote_follow_state :: "bool \<Rightarrow> remote_follow_state" where
  "initial_remote_follow_state actor_locked =
    (if actor_locked then remote_follow_state.Pending else remote_follow_state.Accepted)"

fun follow_state_after_inbox_response ::
    "remote_follow_state \<Rightarrow> follow_inbox_response \<Rightarrow> remote_follow_state" where
  "follow_state_after_inbox_response current Accept = remote_follow_state.Accepted"
| "follow_state_after_inbox_response current Reject = remote_follow_state.Rejected"

fun follow_inbox_response_as_str :: "follow_inbox_response \<Rightarrow> string" where
  "follow_inbox_response_as_str Accept = ''accepted''"
| "follow_inbox_response_as_str Reject = ''rejected''"

fun remote_follow_state_as_str :: "remote_follow_state \<Rightarrow> string" where
  "remote_follow_state_as_str remote_follow_state.Pending = ''pending''"
| "remote_follow_state_as_str remote_follow_state.Accepted = ''accepted''"
| "remote_follow_state_as_str remote_follow_state.Rejected = ''rejected''"
| "remote_follow_state_as_str remote_follow_state.Failed = ''failed''"

definition remote_follow_is_active :: "remote_follow_state \<Rightarrow> bool" where
  "remote_follow_is_active s \<longleftrightarrow> s = remote_follow_state.Accepted"

text \<open>The text sent for an inbox response is the stored name of the state it leads to.\<close>

lemma inbox_response_text:
  "remote_follow_state_as_str (follow_state_after_inbox_response s r) =
   follow_inbox_response_as_str r"
  by (cases r) simp_all

section \<open>Retried work\<close>

text \<open>
  The contract of a slot of retried work. \<open>valid\<close> holds of the slots the system builds;
  an attempt keeps it, leaves a finished slot alone, and an attempt after which the slot is
  still open has been counted and is below the limit.
\<close>

locale retry_slot =
  fixes valid :: "'s \<Rightarrow> bool"
    and is_open :: "'s \<Rightarrow> bool"
    and attempts :: "'s \<Rightarrow> nat"
    and attempt :: "'s \<Rightarrow> 'o \<Rightarrow> 's"
    and limit :: nat
  assumes attempt_valid: "valid s \<Longrightarrow> valid (attempt s x)"
    and closed_stays: "valid s \<Longrightarrow> \<not> is_open s \<Longrightarrow> attempt s x = s"
    and open_counts: "valid s \<Longrightarrow> is_open (attempt s x) \<Longrightarrow>
      attempts (attempt s x) = Suc (attempts s) \<and> attempts (attempt s x) < limit"
begin

lemma closed_for_good: "valid s \<Longrightarrow> \<not> is_open s \<Longrightarrow> foldl attempt s xs = s"
  by (induction xs) (simp_all add: closed_stays)

lemma open_before: "valid s \<Longrightarrow> is_open (attempt s x) \<Longrightarrow> is_open s"
  using closed_stays by force

lemma valid_fold: "valid s \<Longrightarrow> valid (foldl attempt s xs)"
  by (induction xs arbitrary: s) (simp_all add: attempt_valid)

lemma open_attempts:
  "valid s \<Longrightarrow> is_open (foldl attempt s xs) \<Longrightarrow>
   attempts (foldl attempt s xs) = attempts s + length xs"
proof (induction xs rule: rev_induct)
  case (snoc x xs)
  let ?t = "foldl attempt s xs"
  have valid: "valid ?t" using snoc.prems(1) by (rule valid_fold)
  with snoc.prems have "is_open ?t" by (auto intro: open_before)
  with snoc valid show ?case using open_counts [of ?t x] by simp
qed simp

text \<open>The work ends: no slot survives as many attempts as the limit allows.\<close>

lemma finishes:
  assumes "valid s" "limit \<le> attempts s + length xs" "xs \<noteq> []"
  shows "\<not> is_open (foldl attempt s xs)"
proof
  assume is_open: "is_open (foldl attempt s xs)"
  obtain ys x where xs: "xs = ys @ [x]" using assms(3) by (cases xs rule: rev_cases) auto
  have "attempts (foldl attempt s xs) < limit"
    using open_counts [OF valid_fold [OF assms(1), of ys], of x] is_open xs by simp
  with open_attempts [OF assms(1) is_open] assms(2) show False by simp
qed

end

section \<open>Attempt counts\<close>

lemma unat_next_attempt:
  "unat c < 2147483647 \<Longrightarrow> unat (next_delivery_attempt_count c) = Suc (unat c)"
proof -
  assume c: "unat c < 2147483647"
  then have "int (unat c) < 2147483647" by linarith
  then have "uint c < 2147483647" by (simp only: uint_nat)
  then have "sint c \<noteq> 2147483647"
    using signed_take_bit_int_eq_self [of 31 "uint c"] uint_ge_0 [of c]
    by (simp add: sint_uint)
  moreover have "unat (c + 1) = Suc (unat c)"
    using c by (simp add: unat_word_ariths)
  ultimately show ?thesis by (simp add: next_delivery_attempt_count_def)
qed

lemma is_delivery_terminal_iff: "is_delivery_terminal n \<longleftrightarrow> 5 \<le> unat n"
  by (simp add: is_delivery_terminal_def DELIVERY_MAX_ATTEMPTS_def word_le_nat_alt)

text \<open>A slot the system builds: an open one has used fewer attempts than allowed.\<close>

definition slot_ok :: "outbound_delivery_slot \<Rightarrow> bool" where
  "slot_ok s \<longleftrightarrow> unat (ds_attempt_count s) \<le> 5 \<and>
    (ds_state s = outbound_activity_state.Queued \<longrightarrow> unat (ds_attempt_count s) < 5)"

definition slot_open :: "outbound_delivery_slot \<Rightarrow> bool" where
  "slot_open s \<longleftrightarrow> ds_state s = outbound_activity_state.Queued"

definition slot_attempts :: "outbound_delivery_slot \<Rightarrow> nat" where
  "slot_attempts s = unat (ds_attempt_count s)"

lemma slot_after_attempt_cases:
  assumes "slot_open s" "slot_ok s"
  shows "outbound_delivery_slot_after_attempt s x =
    (case x of
       delivery_attempt_outcome.Success \<Rightarrow> s\<lparr>ds_state := outbound_activity_state.Delivered\<rparr>
     | PermanentFailure \<Rightarrow>
         \<lparr>ds_state = outbound_activity_state.Failed,
          ds_attempt_count = next_delivery_attempt_count (ds_attempt_count s)\<rparr>
     | delivery_attempt_outcome.Failure \<Rightarrow>
         \<lparr>ds_state = (if 4 \<le> slot_attempts s then outbound_activity_state.Failed
                      else outbound_activity_state.Queued),
          ds_attempt_count = next_delivery_attempt_count (ds_attempt_count s)\<rparr>)"
  using assms unat_next_attempt [of "ds_attempt_count s"]
  by (cases s; cases x)
     (auto simp: outbound_delivery_slot_after_attempt_def slot_open_def slot_ok_def Let_def
       is_delivery_terminal_iff slot_attempts_def)

lemma slot_after_attempt_ok: "slot_ok s \<Longrightarrow> slot_ok (outbound_delivery_slot_after_attempt s x)"
  using slot_after_attempt_cases [of s x] unat_next_attempt [of "ds_attempt_count s"]
  by (cases "slot_open s"; cases x)
     (auto simp: slot_ok_def slot_open_def slot_attempts_def outbound_delivery_slot_after_attempt_def
       split: if_splits)

interpretation slot: retry_slot slot_ok slot_open slot_attempts outbound_delivery_slot_after_attempt 5
proof unfold_locales
  fix s :: outbound_delivery_slot and x
  assume ok: "slot_ok s"
  show "slot_ok (outbound_delivery_slot_after_attempt s x)"
    using ok by (rule slot_after_attempt_ok)
  show "\<not> slot_open s \<Longrightarrow> outbound_delivery_slot_after_attempt s x = s"
    by (simp add: slot_open_def outbound_delivery_slot_after_attempt_def)
  assume op: "slot_open (outbound_delivery_slot_after_attempt s x)"
  then have "slot_open s"
    by (auto simp: slot_open_def outbound_delivery_slot_after_attempt_def split: if_splits)
  with op ok show "slot_attempts (outbound_delivery_slot_after_attempt s x) = Suc (slot_attempts s) \<and>
      slot_attempts (outbound_delivery_slot_after_attempt s x) < 5"
    using slot_after_attempt_cases [of s x] unat_next_attempt [of "ds_attempt_count s"]
    by (cases x) (auto simp: slot_open_def slot_ok_def slot_attempts_def split: if_splits)
qed

lemma slot_queued_ok [simp]: "slot_ok outbound_delivery_slot_queued"
  by (simp add: slot_ok_def outbound_delivery_slot_queued_def)

section \<open>Properties\<close>

text \<open>What a slot has come to after a sequence of outcomes, read off the sequence.\<close>

definition slot_after :: "nat \<Rightarrow> delivery_attempt_outcome list \<Rightarrow> outbound_activity_state \<times> nat" where
  "slot_after used xs =
    (let n = used + length (takeWhile (\<lambda>x. x = delivery_attempt_outcome.Failure) xs) in
     if 5 \<le> n then (outbound_activity_state.Failed, 5)
     else case dropWhile (\<lambda>x. x = delivery_attempt_outcome.Failure) xs of
         [] \<Rightarrow> (outbound_activity_state.Queued, n)
       | x # _ \<Rightarrow>
           if x = delivery_attempt_outcome.Success then (outbound_activity_state.Delivered, n)
           else (outbound_activity_state.Failed, Suc n))"

lemma slot_closed_run:
  "slot_ok s \<Longrightarrow> \<not> slot_open s \<Longrightarrow> foldl outbound_delivery_slot_after_attempt s xs = s"
  by (rule slot.closed_for_good)

lemma slot_run:
  assumes "slot_open s" "slot_ok s"
  shows "(ds_state (foldl outbound_delivery_slot_after_attempt s xs),
      slot_attempts (foldl outbound_delivery_slot_after_attempt s xs)) =
    slot_after (slot_attempts s) xs"
  using assms
proof (induction xs arbitrary: s)
  case Nil
  then show ?case by (auto simp: slot_after_def slot_open_def slot_ok_def slot_attempts_def)
next
  case (Cons x xs)
  let ?t = "outbound_delivery_slot_after_attempt s x"
  have used: "slot_attempts s < 5"
    using Cons.prems by (simp add: slot_ok_def slot_open_def slot_attempts_def)
  then have count: "unat (next_delivery_attempt_count (ds_attempt_count s)) = Suc (slot_attempts s)"
    by (simp add: slot_attempts_def unat_next_attempt)
  note t = slot_after_attempt_cases [OF Cons.prems, of x]
  have ok: "slot_ok ?t" using Cons.prems(2) by (rule slot_after_attempt_ok)
  show ?case
  proof (cases "slot_open ?t")
    case True
    with t have x: "x = delivery_attempt_outcome.Failure" and lt: "\<not> 4 \<le> slot_attempts s"
      by (auto simp: slot_open_def split: delivery_attempt_outcome.splits if_splits)
    then have "slot_attempts ?t = Suc (slot_attempts s)"
      using t count by (simp add: slot_attempts_def)
    with Cons.IH [OF True ok] x show ?thesis by (simp add: slot_after_def)
  next
    case False
    then have "foldl outbound_delivery_slot_after_attempt s (x # xs) = ?t"
      using slot_closed_run [OF ok False, of xs] by simp
    moreover have "(ds_state ?t, slot_attempts ?t) = slot_after (slot_attempts s) (x # xs)"
      using False t used count
      by (cases x) (auto simp: slot_after_def slot_open_def slot_attempts_def)
    ultimately show ?thesis by simp
  qed
qed

text \<open>
  C18: The fate of a delivery is decided by the sequence of its outcomes alone. The slot stays
  queued while only transient failures have come, at most four; the fifth fails it; a success or
  a permanent failure before that ends it at once, and whatever happens afterwards changes
  neither the state nor the count. In particular five attempts always end it.
\<close>

theorem delivery_slot_fate:
  "(let s = foldl outbound_delivery_slot_after_attempt outbound_delivery_slot_queued xs in
      (ds_state s, unat (ds_attempt_count s)) = slot_after 0 xs \<and>
      unat (ds_attempt_count s) \<le> 5 \<and>
      \<not> (5 \<le> length xs \<and> ds_state s = outbound_activity_state.Queued))"
proof -
  let ?s = "foldl outbound_delivery_slot_after_attempt outbound_delivery_slot_queued xs"
  have "slot_open outbound_delivery_slot_queued" "slot_attempts outbound_delivery_slot_queued = 0"
    by (simp_all add: slot_open_def slot_attempts_def outbound_delivery_slot_queued_def)
  note start = this
  have "slot_ok ?s" using slot_queued_ok by (rule slot.valid_fold)
  moreover have "\<not> (5 \<le> length xs \<and> ds_state ?s = outbound_activity_state.Queued)"
    using slot.finishes [OF slot_queued_ok, of xs] start by (cases xs) (auto simp: slot_open_def)
  ultimately show ?thesis
    using slot_run [OF start(1) slot_queued_ok, of xs] start(2)
    by (simp add: Let_def slot_ok_def slot_attempts_def)
qed

text \<open>
  Every HTTP status is classified: 2xx is a success, a 4xx other than 408 and 429 is
  permanent, and everything else, also a status outside every class, is retried. Against a
  remote that keeps giving the same answer, a queued delivery therefore ends as delivered after
  one attempt, as failed after one attempt, or as failed after exactly five.
\<close>

theorem http_answers_decide:
  "(let s = foldl outbound_delivery_slot_after_attempt outbound_delivery_slot_queued
              (replicate 5 (delivery_disposition_for_http_status status)) in
      (ds_state s, unat (ds_attempt_count s)) =
        (if unat status \<in> {200..299} then (outbound_activity_state.Delivered, 0)
         else if unat status \<in> {400..499} - {408, 429} then (outbound_activity_state.Failed, 1)
         else (outbound_activity_state.Failed, 5))) \<and>
   is_delivery_http_status_permanent status = (unat status \<in> {400..499} - {408, 429})"
proof -
  have unat_eq: "status = 408 \<longleftrightarrow> unat status = 408" "status = 429 \<longleftrightarrow> unat status = 429"
    by (simp_all add: word_unat_eq_iff)
  have class_of: "delivery_disposition_for_http_status status =
      (if unat status \<in> {200..299} then delivery_attempt_outcome.Success
       else if unat status \<in> {400..499} - {408, 429} then PermanentFailure
       else delivery_attempt_outcome.Failure)"
    by (auto simp: delivery_disposition_for_http_status_def word_le_nat_alt unat_eq)
  have "slot_open outbound_delivery_slot_queued" "slot_attempts outbound_delivery_slot_queued = 0"
    by (simp_all add: slot_open_def slot_attempts_def outbound_delivery_slot_queued_def)
  then have "(let s = foldl outbound_delivery_slot_after_attempt outbound_delivery_slot_queued
        (replicate 5 x) in (ds_state s, unat (ds_attempt_count s))) = slot_after 0 (replicate 5 x)"
    for x
    using slot_run [of outbound_delivery_slot_queued "replicate 5 x"]
    by (simp add: slot_attempts_def)
  moreover have "slot_after 0 (replicate 5 x) =
      (case x of delivery_attempt_outcome.Success \<Rightarrow> (outbound_activity_state.Delivered, 0)
       | PermanentFailure \<Rightarrow> (outbound_activity_state.Failed, 1)
       | delivery_attempt_outcome.Failure \<Rightarrow> (outbound_activity_state.Failed, 5))" for x
    by (cases x) (simp_all add: slot_after_def eval_nat_numeral)
  ultimately show ?thesis
    by (simp add: Let_def class_of is_delivery_http_status_permanent_def)
qed

end
