(* ===== verification/Ip_Addr.thy ===== *)
theory Ip_Addr
  imports Prelude
begin

text \<open>
  What the sources use of \<open>std::net\<close>: IP addresses, the predicates that classify them and the
  parser behind \<open>str::parse::<IpAddr>()\<close>. The parser works on the rest of the input; each
  reader returns what it read with the new rest, or \<open>None\<close>, upon which the input is as before.
\<close>

section \<open>Addresses and their classes\<close>

datatype ipv4_addr = Ipv4 u8 u8 u8 u8

datatype ipv6_addr = Ipv6 u16 u16 u16 u16 u16 u16 u16 u16

datatype ip_addr = V4 ipv4_addr | V6 ipv6_addr

fun v4_is_loopback :: "ipv4_addr \<Rightarrow> bool" where
  "v4_is_loopback (Ipv4 a b c d) \<longleftrightarrow> a = 127"

fun v4_is_private :: "ipv4_addr \<Rightarrow> bool" where
  "v4_is_private (Ipv4 a b c d) \<longleftrightarrow>
    a = 10 \<or> a = 172 \<and> 16 \<le> b \<and> b \<le> 31 \<or> a = 192 \<and> b = 168"

fun v4_is_link_local :: "ipv4_addr \<Rightarrow> bool" where
  "v4_is_link_local (Ipv4 a b c d) \<longleftrightarrow> a = 169 \<and> b = 254"

fun v4_is_unspecified :: "ipv4_addr \<Rightarrow> bool" where
  "v4_is_unspecified (Ipv4 a b c d) \<longleftrightarrow> a = 0 \<and> b = 0 \<and> c = 0 \<and> d = 0"

fun v4_is_multicast :: "ipv4_addr \<Rightarrow> bool" where
  "v4_is_multicast (Ipv4 a b c d) \<longleftrightarrow> 224 \<le> a \<and> a \<le> 239"

fun v4_is_broadcast :: "ipv4_addr \<Rightarrow> bool" where
  "v4_is_broadcast (Ipv4 a b c d) \<longleftrightarrow> a = 255 \<and> b = 255 \<and> c = 255 \<and> d = 255"

fun v6_is_loopback :: "ipv6_addr \<Rightarrow> bool" where
  "v6_is_loopback v \<longleftrightarrow> v = Ipv6 0 0 0 0 0 0 0 1"

fun v6_is_unspecified :: "ipv6_addr \<Rightarrow> bool" where
  "v6_is_unspecified v \<longleftrightarrow> v = Ipv6 0 0 0 0 0 0 0 0"

fun v6_is_multicast :: "ipv6_addr \<Rightarrow> bool" where
  "v6_is_multicast (Ipv6 a b c d e f g h) \<longleftrightarrow> and a 0xff00 = 0xff00"

fun v6_is_unique_local :: "ipv6_addr \<Rightarrow> bool" where
  "v6_is_unique_local (Ipv6 a b c d e f g h) \<longleftrightarrow> and a 0xfe00 = 0xfc00"

fun v6_is_unicast_link_local :: "ipv6_addr \<Rightarrow> bool" where
  "v6_is_unicast_link_local (Ipv6 a b c d e f g h) \<longleftrightarrow> and a 0xffc0 = 0xfe80"

definition high_byte :: "u16 \<Rightarrow> u8" where
  "high_byte w = ucast (drop_bit 8 w)"

definition low_byte :: "u16 \<Rightarrow> u8" where
  "low_byte w = ucast w"

definition from_be_bytes :: "u8 \<Rightarrow> u8 \<Rightarrow> u16" where
  "from_be_bytes h l = ucast h * 256 + ucast l"

fun to_ipv4_mapped :: "ipv6_addr \<Rightarrow> ipv4_addr option" where
  "to_ipv4_mapped (Ipv6 a b c d e f g h) =
    (if a = 0 \<and> b = 0 \<and> c = 0 \<and> d = 0 \<and> e = 0 \<and> f = 0xffff
     then Some (Ipv4 (high_byte g) (low_byte g) (high_byte h) (low_byte h)) else None)"

section \<open>Numbers\<close>

text \<open>\<open>char::to_digit\<close> for a radix of at most 16.\<close>

definition to_digit :: "nat \<Rightarrow> char \<Rightarrow> nat option" where
  "to_digit radix ch =
    (let v = (if is_ascii_digit ch then Some (byte ch - 48)
              else if 97 \<le> byte ch \<and> byte ch \<le> 102 then Some (byte ch - 87)
              else if 65 \<le> byte ch \<and> byte ch \<le> 70 then Some (byte ch - 55)
              else None)
     in opt_filter (\<lambda>d. d < radix) v)"

fun read_digits :: "nat \<Rightarrow> string \<Rightarrow> nat list \<times> string" where
  "read_digits radix [] = ([], [])"
| "read_digits radix (ch # s) =
    (case to_digit radix ch of
       None \<Rightarrow> ([], ch # s)
     | Some d \<Rightarrow> (case read_digits radix s of (ds, r) \<Rightarrow> (d # ds, r)))"

definition digits_value :: "nat \<Rightarrow> nat list \<Rightarrow> nat" where
  "digits_value radix ds = foldl (\<lambda>acc d. acc * radix + d) 0 ds"

text \<open>
  \<open>read_number\<close> reads all the digits there are and fails if they are none or too many, if there
  is a leading zero that is not allowed, or if the value does not fit.
\<close>

definition read_number :: "nat \<Rightarrow> nat \<Rightarrow> bool \<Rightarrow> nat \<Rightarrow> string \<Rightarrow> (nat \<times> string) option" where
  "read_number radix max_digits allow_zero_prefix bound s =
    (case read_digits radix s of (ds, r) \<Rightarrow>
      if length ds > max_digits then None
      else if ds = [] then None
      else if \<not> allow_zero_prefix \<and> hd ds = 0 \<and> length ds > 1 then None
      else if digits_value radix ds < bound then Some (digits_value radix ds, r) else None)"

fun read_given_char :: "char \<Rightarrow> string \<Rightarrow> string option" where
  "read_given_char c [] = None"
| "read_given_char c (d # s) = (if d = c then Some s else None)"

definition read_separator :: "char \<Rightarrow> nat \<Rightarrow> (string \<Rightarrow> 'a option) \<Rightarrow> string \<Rightarrow> 'a option" where
  "read_separator sep index inner s =
    (if index > 0 then Option.bind (read_given_char sep s) inner else inner s)"

section \<open>Addresses\<close>

definition read_octet :: "nat \<Rightarrow> string \<Rightarrow> (nat \<times> string) option" where
  "read_octet i s = read_separator (CHR ''.'') i (read_number 10 3 False 256) s"

definition read_ipv4_addr :: "string \<Rightarrow> (ipv4_addr \<times> string) option" where
  "read_ipv4_addr s =
    Option.bind (read_octet 0 s) (\<lambda>(a, s).
    Option.bind (read_octet 1 s) (\<lambda>(b, s).
    Option.bind (read_octet 2 s) (\<lambda>(c, s).
    Option.bind (read_octet 3 s) (\<lambda>(d, s).
      Some (Ipv4 (of_nat a) (of_nat b) (of_nat c) (of_nat d), s)))))"

text \<open>
  \<open>read_groups\<close> reads colon-separated groups into the slots from index \<open>i\<close> on, \<open>limit\<close> slots
  in all; \<open>k\<close> is the number of slots left. The last two may hold a trailing IPv4 address. The
  result is the groups, whether such an address was read, and the rest.
\<close>

fun read_groups :: "nat \<Rightarrow> nat \<Rightarrow> string \<Rightarrow> u16 list \<times> bool \<times> string" where
  "read_groups i 0 s = ([], False, s)"
| "read_groups i (Suc k) s =
    (case (if 0 < k then read_separator (CHR '':'') i read_ipv4_addr s else None) of
       Some (Ipv4 a b c d, r) \<Rightarrow> ([from_be_bytes a b, from_be_bytes c d], True, r)
     | None \<Rightarrow>
        (case read_separator (CHR '':'') i (read_number 16 4 True 65536) s of
           None \<Rightarrow> ([], False, s)
         | Some (g, r) \<Rightarrow>
            (case read_groups (Suc i) k r of
               (gs, v4, r') \<Rightarrow> (of_nat g # gs, v4, r'))))"

fun ipv6_of_segments :: "u16 list \<Rightarrow> ipv6_addr option" where
  "ipv6_of_segments [a, b, c, d, e, f, g, h] = Some (Ipv6 a b c d e f g h)"
| "ipv6_of_segments _ = None"

definition read_ipv6_addr :: "string \<Rightarrow> (ipv6_addr \<times> string) option" where
  "read_ipv6_addr s =
    (case read_groups 0 8 s of (hd', head_ipv4, r) \<Rightarrow>
      if length hd' = 8 then map_option (\<lambda>v. (v, r)) (ipv6_of_segments hd')
      else if head_ipv4 then None
      else Option.bind (read_given_char (CHR '':'') r) (\<lambda>r.
           Option.bind (read_given_char (CHR '':'') r) (\<lambda>r.
             (case read_groups 0 (8 - (length hd' + 1)) r of (tl', _, r) \<Rightarrow>
                map_option (\<lambda>v. (v, r))
                  (ipv6_of_segments
                    (hd' @ replicate (8 - length hd' - length tl') 0 @ tl'))))))"

definition read_ip_addr :: "string \<Rightarrow> (ip_addr \<times> string) option" where
  "read_ip_addr s =
    (case read_ipv4_addr s of
       Some (v4, r) \<Rightarrow> Some (V4 v4, r)
     | None \<Rightarrow> map_option (\<lambda>(v6, r). (V6 v6, r)) (read_ipv6_addr s))"

definition parse_ip_addr :: "string \<Rightarrow> ip_addr option" where
  "parse_ip_addr s =
    (case read_ip_addr s of
       Some (ip, []) \<Rightarrow> Some ip
     | _ \<Rightarrow> None)"

section \<open>Case does not matter\<close>

text \<open>Upper-case and lower-case hexadecimal digits read the same, and nothing else is a letter.\<close>

definition lower_rest :: "('a \<times> string) option \<Rightarrow> ('a \<times> string) option" where
  "lower_rest x = map_option (\<lambda>(v, r). (v, map ascii_lower r)) x"

lemma lower_rest_simps [simp]:
  "lower_rest None = None" "lower_rest (Some (v, r)) = Some (v, map ascii_lower r)"
  by (simp_all add: lower_rest_def)

lemma to_digit_lower [simp]: "to_digit r (ascii_lower c) = to_digit r c"
  by (auto simp: to_digit_def Let_def byte_ascii_lower is_ascii_digit_def is_ascii_uppercase_def)

lemma read_digits_lower:
  "read_digits r (map ascii_lower s) = (case read_digits r s of (ds, t) \<Rightarrow> (ds, map ascii_lower t))"
  by (induction s) (auto split: option.splits prod.splits)

lemma read_number_lower:
  "read_number r m z b (map ascii_lower s) = lower_rest (read_number r m z b s)"
  by (auto simp: read_number_def read_digits_lower split: prod.splits)

lemma read_given_char_lower:
  assumes "\<not> is_ascii_lowercase c" "\<not> is_ascii_uppercase c"
  shows "read_given_char c (map ascii_lower s) = map_option (map ascii_lower) (read_given_char c s)"
  using assms(2) by (cases s) (simp_all add: ascii_lower_eq_nonletter [OF assms(1)])

lemma separators_not_letters [simp]:
  "\<not> is_ascii_lowercase (CHR ''.'')" "\<not> is_ascii_uppercase (CHR ''.'')"
  "\<not> is_ascii_lowercase (CHR '':'')" "\<not> is_ascii_uppercase (CHR '':'')"
  by (simp_all add: is_ascii_lowercase_def is_ascii_uppercase_def)

lemma read_separator_lower:
  assumes "\<And>t. inner (map ascii_lower t) = lower_rest (inner t)"
    and "\<not> is_ascii_lowercase c" "\<not> is_ascii_uppercase c"
  shows "read_separator c i inner (map ascii_lower s) = lower_rest (read_separator c i inner s)"
  using assms
  by (cases "read_given_char c s") (auto simp: read_separator_def read_given_char_lower)

lemma lower_rest_bind:
  assumes "\<And>v r. f (v, map ascii_lower r) = lower_rest (g (v, r))"
  shows "Option.bind (lower_rest x) f = lower_rest (Option.bind x g)"
  using assms by (cases x) auto

lemma read_octet_lower: "read_octet i (map ascii_lower s) = lower_rest (read_octet i s)"
  unfolding read_octet_def by (rule read_separator_lower) (simp_all add: read_number_lower)

lemma read_ipv4_addr_lower: "read_ipv4_addr (map ascii_lower s) = lower_rest (read_ipv4_addr s)"
  unfolding read_ipv4_addr_def read_octet_lower
  by (intro lower_rest_bind) (simp add: read_octet_lower lower_rest_bind)

lemma read_groups_lower:
  "read_groups i k (map ascii_lower s) =
    (case read_groups i k s of (gs, v4, r) \<Rightarrow> (gs, v4, map ascii_lower r))"
proof (induction i k s rule: read_groups.induct)
  case (2 i k s)
  have v4: "read_separator (CHR '':'') i read_ipv4_addr (map ascii_lower s) =
      lower_rest (read_separator (CHR '':'') i read_ipv4_addr s)"
    by (rule read_separator_lower) (simp_all add: read_ipv4_addr_lower)
  have num: "read_separator (CHR '':'') i (read_number 16 4 True 65536) (map ascii_lower s) =
      lower_rest (read_separator (CHR '':'') i (read_number 16 4 True 65536) s)"
    by (rule read_separator_lower) (simp_all add: read_number_lower)
  show ?case
    using 2 by (auto simp: v4 num split: option.splits prod.splits ipv4_addr.splits)
qed simp

lemma read_ipv6_addr_lower: "read_ipv6_addr (map ascii_lower s) = lower_rest (read_ipv6_addr s)"
proof -
  obtain hd' v4 r where head: "read_groups 0 8 s = (hd', v4, r)" by (metis prod_cases3)
  then have head_lower: "read_groups 0 8 (map ascii_lower s) = (hd', v4, map ascii_lower r)"
    by (simp add: read_groups_lower)
  let ?tail = "\<lambda>r. case read_groups 0 (7 - length hd') r of (tl', _, r) \<Rightarrow>
    map_option (\<lambda>v. (v, r))
      (ipv6_of_segments (hd' @ replicate (8 - (length hd' + length tl')) 0 @ tl'))"
  have tail: "?tail (map ascii_lower r) = lower_rest (?tail r)" for r
    by (auto simp: read_groups_lower option.map_comp o_def lower_rest_def split: prod.splits)
  have colon: "read_given_char (CHR '':'') (map ascii_lower t) =
      map_option (map ascii_lower) (read_given_char (CHR '':'') t)" for t
    by (rule read_given_char_lower) simp_all
  have full: "lower_rest (map_option (\<lambda>v. (v, r)) x) = map_option (\<lambda>v. (v, map ascii_lower r)) x"
    for x :: "ipv6_addr option" by (cases x) simp_all
  show ?thesis
    by (cases "read_given_char (CHR '':'') r";
        cases "read_given_char (CHR '':'') (the (read_given_char (CHR '':'') r))")
       (simp_all add: read_ipv6_addr_def head head_lower colon tail full)
qed

lemma parse_ip_addr_lower: "parse_ip_addr (to_ascii_lowercase s) = parse_ip_addr s"
proof -
  have "read_ip_addr (map ascii_lower s) = lower_rest (read_ip_addr s)"
    by (cases "read_ipv4_addr s"; cases "read_ipv6_addr s")
       (auto simp: read_ip_addr_def read_ipv4_addr_lower read_ipv6_addr_lower)
  then show ?thesis
    by (cases "read_ip_addr s")
       (auto simp: parse_ip_addr_def to_ascii_lowercase_def split: list.splits)
qed

section \<open>Dotted decimal addresses\<close>

text \<open>The textual form of an IPv4 address, as \<open>Display\<close> prints it.\<close>

fun show_ipv4 :: "ipv4_addr \<Rightarrow> string" where
  "show_ipv4 (Ipv4 a b c d) =
    show_nat (unat a) @ ''.'' @ show_nat (unat b) @ ''.'' @ show_nat (unat c) @ ''.'' @
    show_nat (unat d)"

lemma to_digit_digit_char: "d < 10 \<Longrightarrow> to_digit 10 (digit_char d) = Some d"
  by (simp add: to_digit_def is_ascii_digit_digit_char byte_digit_char)

lemma read_number_show_nat:
  assumes "n < 256" "r = [] \<or> to_digit 10 (hd r) = None"
  shows "read_number 10 3 False 256 (show_nat n @ r) = Some (n, r)"
proof -
  have rest: "read_digits 10 r = ([], r)"
    using assms(2) by (cases r) auto
  consider "n < 10" | "10 \<le> n" "n < 100" | "100 \<le> n" by linarith
  then show ?thesis
  proof cases
    case 1
    then show ?thesis
      by (simp add: read_number_def show_nat.simps to_digit_digit_char rest digits_value_def)
  next
    case 2
    then have "show_nat n = [digit_char (n div 10), digit_char (n mod 10)]"
      by (simp add: show_nat.simps [of n] show_nat.simps [of "n div 10"] div_less_dividend)
    with 2 show ?thesis
      by (simp add: read_number_def to_digit_digit_char rest digits_value_def)
  next
    case 3
    then have "\<not> n div 10 < 10" "n div 10 div 10 < 10" using assms(1) by linarith+
    then have "show_nat n =
        [digit_char (n div 10 div 10), digit_char (n div 10 mod 10), digit_char (n mod 10)]"
      using 3 by (simp add: show_nat.simps [of n] show_nat.simps [of "n div 10"]
          show_nat.simps [of "n div 10 div 10"])
    moreover have "n div 10 div 10 < 10" "n div 10 div 10 \<noteq> 0"
      using 3 assms(1) by linarith+
    moreover have "(n div 10 div 10 * 10 + n div 10 mod 10) * 10 + n mod 10 = n" by simp
    ultimately show ?thesis
      using assms(1) by (simp add: read_number_def to_digit_digit_char rest digits_value_def)
  qed
qed

lemma dot_not_digit [simp]: "to_digit 10 (CHR ''.'') = None"
  by (simp add: to_digit_def is_ascii_digit_def)

lemma read_ipv4_show:
  assumes "r = [] \<or> to_digit 10 (hd r) = None"
  shows "read_ipv4_addr (show_ipv4 v @ r) = Some (v, r)"
  using assms
  by (cases v) (simp add: read_ipv4_addr_def read_octet_def read_separator_def read_number_show_nat)

lemma parse_show_ipv4: "parse_ip_addr (show_ipv4 v) = Some (V4 v)"
  using read_ipv4_show [of "[]" v] by (simp add: parse_ip_addr_def read_ip_addr_def)

lemma show_ipv4_chars:
  "list_all (\<lambda>c. is_ascii_digit c \<or> c = CHR ''.'') (show_ipv4 v)"
  using show_nat_digits by (cases v) (auto simp: list_all_iff)

lemma show_ipv4_last: "show_ipv4 v \<noteq> [] \<and> last (show_ipv4 v) \<noteq> CHR ''.''"
proof -
  have "is_ascii_digit (last (show_nat n))" for n
    using show_nat_digits [of n] last_in_set [OF show_nat_nonempty [of n]] by (simp add: list_all_iff)
  moreover have "\<not> is_ascii_digit (CHR ''.'')" by (simp add: is_ascii_digit_def)
  ultimately have "last (show_nat n) \<noteq> CHR ''.''" for n by metis
  then show ?thesis by (cases v) simp
qed

lemma digit_lower: "is_ascii_digit c \<Longrightarrow> ascii_lower c = c"
  by (auto simp: ascii_lower_def is_ascii_digit_def is_ascii_uppercase_def)

lemma show_ipv4_lower: "to_ascii_lowercase (show_ipv4 v) = show_ipv4 v"
proof -
  have "ascii_lower (CHR ''.'') = CHR ''.''" by (simp add: ascii_lower_def)
  then have "ascii_lower c = c" if "is_ascii_digit c \<or> c = CHR ''.''" for c
    using that digit_lower by blast
  then show ?thesis
    using show_ipv4_chars [of v] by (simp add: to_ascii_lowercase_fixed_iff list_all_iff)
qed

text \<open>A name that starts with neither a digit nor a colon is no address.\<close>

lemma parse_not_a_number:
  assumes "to_digit 10 c = None" "to_digit 16 c = None" "c \<noteq> CHR '':''"
  shows "parse_ip_addr (c # s) = None"
proof -
  have digits: "read_number 10 n z b (c # s) = None" "read_number 16 n z b (c # s) = None" for n z b
    using assms(1,2) by (simp_all add: read_number_def)
  have "read_ipv4_addr (c # s) = None"
    by (simp add: read_ipv4_addr_def read_octet_def read_separator_def digits)
  moreover from this have "read_groups 0 (Suc k) (c # s) = ([], False, c # s)" for k
    by (simp add: read_separator_def digits)
  from this [of 7] have "read_ipv6_addr (c # s) = None"
    using assms(3) by (simp add: read_ipv6_addr_def)
  ultimately show ?thesis by (simp add: parse_ip_addr_def read_ip_addr_def)
qed

end
