(* ===== verification/Url_Policy.thy ===== *)
theory Url_Policy
  imports Ip_Addr
begin

text \<open>
  The defence against requests to internal addresses: the static policy on scheme, host and
  address (\<open>federation/url.rs\<close>) and the policy on the DNS answers for a host name
  (\<open>federation/dns.rs\<close>).
\<close>

datatype remote_url_policy_issue =
    UnsupportedScheme
  | MissingHost
  | UserInfoPresent
  | LocalhostBlocked
  | BlockedIp

definition remote_http_url_scheme_allowed :: "string \<Rightarrow> bool" where
  "remote_http_url_scheme_allowed url =
    (let trimmed = trim url in starts_with trimmed ''http://'' \<or> starts_with trimmed ''https://'')"

section \<open>Blocked addresses\<close>

fun is_blocked_cgnat_v4 :: "ipv4_addr \<Rightarrow> bool" where
  "is_blocked_cgnat_v4 (Ipv4 a b c d) \<longleftrightarrow> a = 100 \<and> 64 \<le> b \<and> b \<le> 127"

fun first_octet :: "ipv4_addr \<Rightarrow> u8" where
  "first_octet (Ipv4 a b c d) = a"

fun normalize_ip_for_blocklist :: "ip_addr \<Rightarrow> ip_addr" where
  "normalize_ip_for_blocklist (V6 v6) =
    (case to_ipv4_mapped v6 of Some v4 \<Rightarrow> V4 v4 | None \<Rightarrow> V6 v6)"
| "normalize_ip_for_blocklist other = other"

definition is_blocked_ip_address :: "ip_addr \<Rightarrow> bool" where
  "is_blocked_ip_address ip =
    (case normalize_ip_for_blocklist ip of
       V4 v4 \<Rightarrow>
         v4_is_loopback v4 \<or> v4_is_private v4 \<or> v4_is_link_local v4 \<or> v4_is_unspecified v4 \<or>
         v4_is_multicast v4 \<or> v4_is_broadcast v4 \<or> first_octet v4 = 0 \<or> is_blocked_cgnat_v4 v4
     | V6 v6 \<Rightarrow>
         v6_is_loopback v6 \<or> v6_is_unspecified v6 \<or> v6_is_multicast v6 \<or>
         v6_is_unique_local v6 \<or> v6_is_unicast_link_local v6)"

section \<open>The static policy\<close>

definition remote_url_policy_from_parts ::
    "string \<Rightarrow> string \<Rightarrow> bool \<Rightarrow> remote_url_policy_issue + unit" where
  "remote_url_policy_from_parts scheme host has_userinfo =
    (if scheme \<noteq> ''http'' \<and> scheme \<noteq> ''https'' then Inl UnsupportedScheme
     else if has_userinfo then Inl UserInfoPresent
     else let host = to_ascii_lowercase (trim_end_matches host (CHR ''.'')) in
       if host = [] then Inl MissingHost
       else if host = ''localhost'' \<or> ends_with host ''.localhost'' then Inl LocalhostBlocked
       else case parse_ip_addr host of
           Some ip \<Rightarrow> if is_blocked_ip_address ip then Inl BlockedIp else Inr ()
         | None \<Rightarrow> Inr ())"

definition remote_url_policy_for_ip :: "ip_addr \<Rightarrow> bool \<Rightarrow> remote_url_policy_issue + unit" where
  "remote_url_policy_for_ip ip has_userinfo =
    (if has_userinfo then Inl UserInfoPresent
     else if is_blocked_ip_address ip then Inl BlockedIp else Inr ())"

section \<open>The policy on DNS answers\<close>

datatype remote_dns_resolution_issue = NoRecords | BlockedAddress

datatype remote_fetch_host_policy_issue =
    Static remote_url_policy_issue
  | Dns remote_dns_resolution_issue

definition remote_hostname_dns_resolution_allowed ::
    "ip_addr list \<Rightarrow> remote_dns_resolution_issue + unit" where
  "remote_hostname_dns_resolution_allowed resolved_ips =
    (if resolved_ips = [] then Inl NoRecords
     else if list_ex is_blocked_ip_address resolved_ips then Inl BlockedAddress
     else Inr ())"

definition host_is_ip_literal :: "string \<Rightarrow> bool" where
  "host_is_ip_literal host \<longleftrightarrow> parse_ip_addr (trim_end_matches host (CHR ''.'')) \<noteq> None"

definition parse_dns_answer_ips :: "string list \<Rightarrow> ip_addr list" where
  "parse_dns_answer_ips answers = List.map_filter parse_ip_addr answers"

definition remote_fetch_host_allowed ::
    "string \<Rightarrow> string \<Rightarrow> bool \<Rightarrow> ip_addr list option \<Rightarrow> remote_fetch_host_policy_issue + unit" where
  "remote_fetch_host_allowed scheme host has_userinfo resolved_ips =
    and_then (map_err Static (remote_url_policy_from_parts scheme host has_userinfo)) (\<lambda>_.
      if host_is_ip_literal host then Inr ()
      else and_then (ok_or resolved_ips (Dns NoRecords)) (\<lambda>ips.
        map_err Dns (remote_hostname_dns_resolution_allowed ips)))"

section \<open>Facts\<close>

lemma from_parts_ok:
  "remote_url_policy_from_parts scheme host ui = Inr () \<longleftrightarrow>
    (scheme = ''http'' \<or> scheme = ''https'') \<and> \<not> ui \<and>
    (let h = to_ascii_lowercase (trim_end_matches host (CHR ''.'')) in
       h \<noteq> [] \<and> h \<noteq> ''localhost'' \<and> \<not> ends_with h ''.localhost'' \<and>
       (case parse_ip_addr h of Some ip \<Rightarrow> \<not> is_blocked_ip_address ip | None \<Rightarrow> True))"
  by (auto simp: remote_url_policy_from_parts_def Let_def split: option.splits if_splits)

lemma host_literal_lower:
  "parse_ip_addr (to_ascii_lowercase (trim_end_matches host c)) =
   parse_ip_addr (trim_end_matches host c)"
  by (rule parse_ip_addr_lower)

lemma dns_ok:
  "remote_hostname_dns_resolution_allowed ips = Inr () \<longleftrightarrow>
   ips \<noteq> [] \<and> (\<forall>ip \<in> set ips. \<not> is_blocked_ip_address ip)"
  by (auto simp: remote_hostname_dns_resolution_allowed_def list_ex_iff)

lemma fetch_ok:
  "remote_fetch_host_allowed scheme host ui ips = Inr () \<longleftrightarrow>
    remote_url_policy_from_parts scheme host ui = Inr () \<and>
    (host_is_ip_literal host \<or>
     (\<exists>rs. ips = Some rs \<and> remote_hostname_dns_resolution_allowed rs = Inr ()))"
  by (cases "remote_url_policy_from_parts scheme host ui"; cases ips)
     (auto simp: remote_fetch_host_allowed_def)

text \<open>The address a request connects to, when the policy has let it pass.\<close>

definition connect_targets :: "string \<Rightarrow> ip_addr list option \<Rightarrow> ip_addr list" where
  "connect_targets host resolved =
    (case parse_ip_addr (trim_end_matches host (CHR ''.'')) of
       Some ip \<Rightarrow> [ip]
     | None \<Rightarrow> (case resolved of Some ips \<Rightarrow> ips | None \<Rightarrow> []))"

lemma allowed_targets:
  assumes "remote_fetch_host_allowed scheme host ui resolved = Inr ()"
  shows "connect_targets host resolved \<noteq> [] \<and>
    (\<forall>ip \<in> set (connect_targets host resolved). \<not> is_blocked_ip_address ip)"
proof (cases "parse_ip_addr (trim_end_matches host (CHR ''.''))")
  case None
  with assms show ?thesis
    by (auto simp: fetch_ok host_is_ip_literal_def connect_targets_def dns_ok)
next
  case (Some ip)
  with assms have "\<not> is_blocked_ip_address ip"
    by (simp add: fetch_ok from_parts_ok host_literal_lower Let_def)
  with Some show ?thesis by (simp add: connect_targets_def)
qed

section \<open>Mapped addresses\<close>

fun v6_mapped :: "ipv4_addr \<Rightarrow> ipv6_addr" where
  "v6_mapped (Ipv4 a b c d) = Ipv6 0 0 0 0 0 0xffff (from_be_bytes a b) (from_be_bytes c d)"

lemma uint_from_be_bytes: "uint (from_be_bytes h l) = uint h * 256 + uint l"
proof -
  have "uint h < 256" "uint l < 256"
    using unsigned_less [of h] unsigned_less [of l] by simp_all
  then show ?thesis
    by (simp add: from_be_bytes_def uint_word_ariths unsigned_ucast_eq take_bit_eq_mod)
qed

lemma bytes_of_be [simp]:
  "high_byte (from_be_bytes h l) = h" "low_byte (from_be_bytes h l) = l"
proof -
  have less: "uint h < 256" "uint l < 256"
    using unsigned_less [of h] unsigned_less [of l] by simp_all
  show "high_byte (from_be_bytes h l) = h"
    using less by (intro word_uint_eqI)
      (simp add: high_byte_def unsigned_ucast_eq drop_bit_eq_div uint_div uint_from_be_bytes
        take_bit_eq_mod)
  show "low_byte (from_be_bytes h l) = l"
    using less by (intro word_uint_eqI)
      (simp add: low_byte_def unsigned_ucast_eq uint_from_be_bytes take_bit_eq_mod)
qed

lemma mapped_normalizes: "normalize_ip_for_blocklist (V6 (v6_mapped v)) = V4 v"
  by (cases v) simp

lemma mapped_blocked: "is_blocked_ip_address (V6 (v6_mapped v)) = is_blocked_ip_address (V4 v)"
  unfolding is_blocked_ip_address_def mapped_normalizes by simp

section \<open>Properties\<close>

text \<open>The special-purpose IPv4 blocks as base address and prefix length.\<close>

definition v4_value :: "nat \<Rightarrow> nat \<Rightarrow> nat \<Rightarrow> nat \<Rightarrow> nat" where
  "v4_value a b c d = ((a * 256 + b) * 256 + c) * 256 + d"

fun v4_to_nat :: "ipv4_addr \<Rightarrow> nat" where
  "v4_to_nat (Ipv4 a b c d) = v4_value (unat a) (unat b) (unat c) (unat d)"

definition in_block :: "nat \<Rightarrow> nat \<times> nat \<Rightarrow> bool" where
  "in_block x block = (case block of (base, len) \<Rightarrow>
     x div 2 ^ (32 - len) = base div 2 ^ (32 - len))"

definition blocked_blocks :: "(nat \<times> nat) list" where
  "blocked_blocks =
    [(v4_value 0 0 0 0, 8), (v4_value 10 0 0 0, 8), (v4_value 100 64 0 0, 10),
     (v4_value 127 0 0 0, 8), (v4_value 169 254 0 0, 16), (v4_value 172 16 0 0, 12),
     (v4_value 192 168 0 0, 16), (v4_value 224 0 0 0, 4), (v4_value 255 255 255 255, 32)]"

lemma radix_pair:
  fixes d e r :: nat
  assumes "d < r"
  shows "(x * r + d) div r = x" "e < r \<Longrightarrow> x * r + d = y * r + e \<longleftrightarrow> x = y \<and> d = e"
proof -
  show div: "(x * r + d) div r = x" using assms by simp
  assume e: "e < r"
  then have "(y * r + e) div r = y" by simp
  with div show "x * r + d = y * r + e \<longleftrightarrow> x = y \<and> d = e" by auto
qed

lemma nat_div_range: "0 < k \<Longrightarrow> n div k = q \<longleftrightarrow> q * k \<le> n \<and> n < Suc q * k" for n k q :: nat
  using less_eq_div_iff_mult_less_eq [of k q n] div_less_iff_less_mult [of k n "Suc q"] by linarith

lemma v4_value_prefixes:
  assumes "b < 256" "c < 256" "d < 256"
  shows "v4_value a b c d div 268435456 = a div 16" "v4_value a b c d div 16777216 = a"
    "v4_value a b c d div 4194304 = a * 4 + b div 64"
    "v4_value a b c d div 1048576 = a * 16 + b div 16"
    "v4_value a b c d div 65536 = a * 256 + b"
proof -
  let ?v = "v4_value a b c d"
  have "?v div (256 * 256) = a * 256 + b"
    using assms(2,3) by (simp only: div_mult2_eq v4_value_def radix_pair)
  then show hi: "?v div 65536 = a * 256 + b" by simp
  have "?v div (65536 * 256) = a"
    using assms(1) by (simp only: div_mult2_eq hi radix_pair)
  then show top: "?v div 16777216 = a" by simp
  have "?v div (16777216 * 16) = a div 16" by (simp only: div_mult2_eq top)
  then show "?v div 268435456 = a div 16" by simp
  have "?v div (65536 * 64) = (a * 256 + b) div 64" by (simp only: div_mult2_eq hi)
  then show "?v div 4194304 = a * 4 + b div 64" by simp
  have "?v div (65536 * 16) = (a * 256 + b) div 16" by (simp only: div_mult2_eq hi)
  then show "?v div 1048576 = a * 16 + b div 16" by simp
qed

lemma v4_value_inject:
  assumes "b < 256" "c < 256" "d < 256" "b' < 256" "c' < 256" "d' < 256"
  shows "v4_value a b c d = v4_value a' b' c' d' \<longleftrightarrow> a = a' \<and> b = b' \<and> c = c' \<and> d = d'"
  using assms by (simp only: v4_value_def radix_pair conj_assoc)

text \<open>
  C20: The IPv4 addresses the server refuses to contact are exactly those of nine blocks: the
  zero network, the three private networks, carrier-grade NAT, loopback, link-local, multicast
  and the broadcast address. An IPv6 address that maps an IPv4 address is refused exactly
  when that address is.
\<close>

theorem blocked_ipv4_blocks:
  "remote_url_policy_for_ip (V4 v) False =
     (if list_ex (in_block (v4_to_nat v)) blocked_blocks then Inl BlockedIp else Inr ()) \<and>
   remote_url_policy_for_ip (V6 (v6_mapped v)) ui = remote_url_policy_for_ip (V4 v) ui"
proof -
  obtain a b c d where v: "v = Ipv4 a b c d" by (cases v)
  let ?a = "unat a" and ?b = "unat b" and ?c = "unat c" and ?d = "unat d"
  note less = unat_u8 [of a] unat_u8 [of b] unat_u8 [of c] unat_u8 [of d]
  have word: "x = y \<longleftrightarrow> unat x = unat y" for x y :: u8 by (simp add: word_unat_eq_iff)
  have octets: "is_blocked_ip_address (V4 v) \<longleftrightarrow>
      ?a = 0 \<or> ?a = 10 \<or> ?a = 100 \<and> 64 \<le> ?b \<and> ?b \<le> 127 \<or> ?a = 127 \<or> ?a = 169 \<and> ?b = 254 \<or>
      ?a = 172 \<and> 16 \<le> ?b \<and> ?b \<le> 31 \<or> ?a = 192 \<and> ?b = 168 \<or> 224 \<le> ?a \<and> ?a \<le> 239 \<or>
      ?a = 255 \<and> ?b = 255 \<and> ?c = 255 \<and> ?d = 255"
    by (auto simp: v is_blocked_ip_address_def word word_le_nat_alt)
  have blocks: "list_ex (in_block (v4_to_nat v)) blocked_blocks \<longleftrightarrow>
      ?a = 0 \<or> ?a = 10 \<or> ?a * 4 + ?b div 64 = 401 \<or> ?a = 127 \<or> ?a * 256 + ?b = 43518 \<or>
      ?a * 16 + ?b div 16 = 2753 \<or> ?a * 256 + ?b = 49320 \<or> ?a div 16 = 14 \<or>
      v4_value ?a ?b ?c ?d = v4_value 255 255 255 255"
    by (simp add: v blocked_blocks_def in_block_def v4_value_prefixes [OF less(2-4)]
        v4_value_prefixes)
  have "is_blocked_ip_address (V4 v) = list_ex (in_block (v4_to_nat v)) blocked_blocks"
  proof -
    have "?b div 64 < 4" "?b div 16 < 16" using less(2) by (simp_all add: less_mult_imp_div_less)
    then have pairs: "?a * 4 + ?b div 64 = 401 \<longleftrightarrow> ?a = 100 \<and> ?b div 64 = 1"
      "?a * 16 + ?b div 16 = 2753 \<longleftrightarrow> ?a = 172 \<and> ?b div 16 = 1"
      "?a * 256 + ?b = 43518 \<longleftrightarrow> ?a = 169 \<and> ?b = 254"
      "?a * 256 + ?b = 49320 \<longleftrightarrow> ?a = 192 \<and> ?b = 168"
      using radix_pair(2) [of "?b div 64" 4 1 ?a 100] radix_pair(2) [of "?b div 16" 16 1 ?a 172]
        radix_pair(2) [OF less(2), of 254 ?a 169] radix_pair(2) [OF less(2), of 168 ?a 192]
      by simp_all
    have ranges: "n div 64 = 1 \<longleftrightarrow> 64 \<le> n \<and> n \<le> 127" "n div 16 = 1 \<longleftrightarrow> 16 \<le> n \<and> n \<le> 31"
      "n div 16 = 14 \<longleftrightarrow> 224 \<le> n \<and> n \<le> 239" for n :: nat
      by (simp_all add: nat_div_range) auto
    have all_ones: "v4_value ?a ?b ?c ?d = v4_value 255 255 255 255 \<longleftrightarrow>
        ?a = 255 \<and> ?b = 255 \<and> ?c = 255 \<and> ?d = 255"
      using less by (intro v4_value_inject) simp_all
    show ?thesis unfolding octets blocks by (simp only: pairs ranges all_ones)
  qed
  then show ?thesis
    by (simp add: remote_url_policy_for_ip_def mapped_blocked)
qed

text \<open>
  A host written as a dotted IPv4 address, with any number of trailing dots, is recognised
  as that address whatever the address is: over http or https and without credentials it is let
  through exactly when the address is not blocked, and it never counts as a name to look up.
\<close>

theorem ipv4_literal_policy:
  "remote_url_policy_from_parts scheme (show_ipv4 v @ replicate k (CHR ''.'')) ui =
     (if \<not> (scheme = ''http'' \<or> scheme = ''https'') then Inl UnsupportedScheme
      else remote_url_policy_for_ip (V4 v) ui) \<and>
   host_is_ip_literal (show_ipv4 v @ replicate k (CHR ''.''))"
proof -
  have stripped: "trim_end_matches (show_ipv4 v) (CHR ''.'') = show_ipv4 v"
    using show_ipv4_last [of v] by (simp add: trim_end_matches_id)
  have "\<not> ends_with (show_ipv4 v) ''.localhost''" "show_ipv4 v \<noteq> ''localhost''"
  proof -
    have "CHR ''t'' \<notin> set (show_ipv4 v)"
      using show_ipv4_chars [of v] by (auto simp: list_all_iff is_ascii_digit_def)
    then show "\<not> ends_with (show_ipv4 v) ''.localhost''" "show_ipv4 v \<noteq> ''localhost''"
      by (auto simp: ends_with_iff)
  qed
  then show ?thesis
    using show_ipv4_last [of v]
    by (simp add: remote_url_policy_from_parts_def remote_url_policy_for_ip_def stripped
        show_ipv4_lower parse_show_ipv4 host_is_ip_literal_def)
qed

text \<open>
  C26: A fetch is allowed exactly when the scheme is http or https, the URL has no credentials,
  the host is neither empty nor a localhost name, and there is at least one address to connect
  to, none of them blocked: the literal address of the host, or every address its name
  resolved to. Upper-case spellings of an address literal make no difference.
\<close>

theorem fetch_allowed_iff:
  "remote_fetch_host_allowed scheme host ui resolved = Inr () \<longleftrightarrow>
    (scheme = ''http'' \<or> scheme = ''https'') \<and> \<not> ui \<and>
    (let h = to_ascii_lowercase (trim_end_matches host (CHR ''.'')) in
       h \<noteq> [] \<and> h \<noteq> ''localhost'' \<and> \<not> ends_with h ''.localhost'') \<and>
    connect_targets host resolved \<noteq> [] \<and>
    list_all (\<lambda>ip. \<not> is_blocked_ip_address ip) (connect_targets host resolved)"
proof (cases "parse_ip_addr (trim_end_matches host (CHR ''.''))")
  case None
  then show ?thesis
    by (cases resolved)
       (auto simp: fetch_ok from_parts_ok dns_ok host_is_ip_literal_def host_literal_lower Let_def
         connect_targets_def list_all_iff)
next
  case (Some ip)
  then show ?thesis
    by (auto simp: fetch_ok from_parts_ok host_is_ip_literal_def host_literal_lower Let_def
         connect_targets_def)
qed

end
