(* ===== verification/Actor_Authority.thy ===== *)
theory Actor_Authority
  imports Url_Policy
begin

text \<open>
  Binding remote documents to the server they come from (\<open>federation/actor.rs\<close>): the
  normalised authority of a URL, the checks on actors, statuses and public keys; and the
  checks on signed requests (\<open>federation/signature.rs\<close>). A time in milliseconds is an
  \<open>f64\<close> that a JavaScript date produced: an integer below \<open>2 ^ 53\<close>, on which the
  floating-point operations used are exact, or \<open>NaN\<close>, modelled as \<open>None\<close>.
\<close>

datatype remote_actor_authority_issue =
    InvalidActorUri
  | InvalidRelatedUri
  | CrossAuthorityId
  | CrossAuthorityInbox
  | CrossAuthoritySharedInbox
  | CrossAuthorityPublicKey
  | PublicKeyOwnerMismatch

section \<open>Authorities\<close>

definition authority_terminator :: "char \<Rightarrow> bool" where
  "authority_terminator c \<longleftrightarrow> c = CHR ''/'' \<or> c = CHR ''?'' \<or> c = CHR ''#''"

definition split_scheme :: "string \<Rightarrow> (string \<times> string) option" where
  "split_scheme url =
    (case strip_prefix url ''https://'' of
       Some rest \<Rightarrow> Some (''https'', rest)
     | None \<Rightarrow> map_option (\<lambda>rest. (''http'', rest)) (strip_prefix url ''http://''))"

definition after_userinfo :: "string \<Rightarrow> string" where
  "after_userinfo authority =
    (case rsplit_once authority (CHR ''@'') of
       Some (_, host_port) \<Rightarrow> host_port
     | None \<Rightarrow> authority)"

definition split_port :: "string \<Rightarrow> string \<times> string option" where
  "split_port host_port =
    (case rsplit_once host_port (CHR '':'') of
       Some (host, port) \<Rightarrow>
         if host \<noteq> [] \<and> list_all is_ascii_digit port then (host, Some port) else (host_port, None)
     | None \<Rightarrow> (host_port, None))"

definition default_port :: "string \<Rightarrow> string option" where
  "default_port scheme =
    (if scheme = ''http'' then Some ''80'' else if scheme = ''https'' then Some ''443'' else None)"

definition remote_http_authority :: "string \<Rightarrow> string option" where
  "remote_http_authority url =
    Option.bind (split_scheme (trim url)) (\<lambda>(scheme, rest).
      let authority = takeWhile (\<lambda>c. \<not> authority_terminator c) rest in
      if authority = [] then None
      else let host_port = after_userinfo authority in
        if host_port = [] then None
        else case split_port (trim_end_matches host_port (CHR ''.'')) of (host, port) \<Rightarrow>
          let host = to_ascii_lowercase (trim_end_matches host (CHR ''.'')) in
          if host = [] then None
          else Option.bind (default_port scheme) (\<lambda>default_port.
            case port of
              Some port \<Rightarrow> if port = default_port then Some host else Some (host @ '':'' @ port)
            | None \<Rightarrow> Some host))"

definition remote_http_authorities_match :: "string \<Rightarrow> string \<Rightarrow> bool" where
  "remote_http_authorities_match left right =
    (case (remote_http_authority left, remote_http_authority right) of
       (Some left, Some right) \<Rightarrow> left = right
     | _ \<Rightarrow> False)"

definition remote_actor_id_authority_allowed ::
    "string \<Rightarrow> string \<Rightarrow> remote_actor_authority_issue + unit" where
  "remote_actor_id_authority_allowed fetched_uri document_id =
    and_then (ok_or (remote_http_authority fetched_uri) InvalidActorUri) (\<lambda>fetched.
    and_then (ok_or (remote_http_authority document_id) InvalidActorUri) (\<lambda>document.
      if fetched = document then Inr () else Inl CrossAuthorityId))"

definition remote_actor_related_uri_authority_allowed ::
    "string \<Rightarrow> string \<Rightarrow> remote_actor_authority_issue \<Rightarrow> remote_actor_authority_issue + unit" where
  "remote_actor_related_uri_authority_allowed actor_uri related_uri issue =
    and_then (ok_or (remote_http_authority actor_uri) InvalidActorUri) (\<lambda>actor.
    and_then (ok_or (remote_http_authority related_uri) InvalidRelatedUri) (\<lambda>related.
      if actor = related then Inr () else Inl issue))"

definition remote_status_object_authority_allowed ::
    "string \<Rightarrow> string \<Rightarrow> string \<Rightarrow> remote_actor_authority_issue + unit" where
  "remote_status_object_authority_allowed fetch_url object_id attributed_to =
    and_then (remote_actor_id_authority_allowed fetch_url object_id) (\<lambda>_.
      remote_actor_related_uri_authority_allowed object_id attributed_to CrossAuthorityId)"

section \<open>Public keys, link types and handles\<close>

definition without_fragment :: "string \<Rightarrow> string" where
  "without_fragment s = trim (split_first s (CHR ''#''))"

definition remote_actor_public_key_owner_allowed ::
    "string \<Rightarrow> string option \<Rightarrow> remote_actor_authority_issue + unit" where
  "remote_actor_public_key_owner_allowed actor_uri owner =
    (case trimmed_option owner of
       None \<Rightarrow> Inr ()
     | Some owner \<Rightarrow>
         if owner = trim actor_uri then Inr ()
         else let actor_base = without_fragment (trim actor_uri);
                  owner_base = without_fragment owner
              in if owner_base = actor_base then Inr () else Inl PublicKeyOwnerMismatch)"

definition webfinger_link_is_activitypub_type :: "string option \<Rightarrow> bool" where
  "webfinger_link_is_activitypub_type link_type =
    (case trimmed_option link_type of
       None \<Rightarrow> False
     | Some link_type \<Rightarrow>
         let lower = to_ascii_lowercase link_type in
         starts_with lower ''application/activity+json'' \<or>
         starts_with lower ''application/ld+json'')"

definition remote_actor_uri_matches_acct_domain :: "string \<Rightarrow> string \<Rightarrow> bool" where
  "remote_actor_uri_matches_acct_domain actor_uri acct_domain =
    (case remote_http_authority actor_uri of
       None \<Rightarrow> False
     | Some authority \<Rightarrow>
         let expected = to_ascii_lowercase (trim_end_matches acct_domain (CHR ''.'')) in
         if expected = [] then False
         else authority = expected \<or> starts_with authority (expected @ '':''))"

definition remote_actor_cached_handle_allowed ::
    "string \<Rightarrow> string \<Rightarrow> string \<Rightarrow> string \<Rightarrow> string \<Rightarrow> bool" where
  "remote_actor_cached_handle_allowed actor_uri stored_username stored_domain
     expected_username expected_domain =
    (let expected_username = to_ascii_lowercase (trim expected_username);
         stored_username = to_ascii_lowercase (trim stored_username)
     in if expected_username = [] \<or> stored_username \<noteq> expected_username \<or>
           \<not> remote_actor_uri_matches_acct_domain actor_uri expected_domain \<or>
           \<not> remote_actor_uri_matches_acct_domain actor_uri stored_domain
        then False else True)"

section \<open>Signed requests\<close>

definition ACTIVITYPUB_REQUIRED_SIGNED_HEADERS :: "string list" where
  "ACTIVITYPUB_REQUIRED_SIGNED_HEADERS = [''(request-target)'', ''date'', ''digest'']"

definition ACTIVITYPUB_MAX_DATE_SKEW_MS :: int where
  "ACTIVITYPUB_MAX_DATE_SKEW_MS = 12 * 60 * 60 * 1000"

definition activitypub_signature_lists_required_headers :: "string list \<Rightarrow> bool" where
  "activitypub_signature_lists_required_headers signed_headers =
    list_all (\<lambda>required. list_ex (\<lambda>header. header = required) signed_headers)
      ACTIVITYPUB_REQUIRED_SIGNED_HEADERS"

definition activitypub_date_within_skew :: "int option \<Rightarrow> int option \<Rightarrow> bool" where
  "activitypub_date_within_skew parsed_ms now_ms =
    (case (parsed_ms, now_ms) of
       (Some parsed, Some now) \<Rightarrow> \<bar>now - parsed\<bar> \<le> ACTIVITYPUB_MAX_DATE_SKEW_MS
     | _ \<Rightarrow> False)"

definition activitypub_key_id_matches_actor :: "string \<Rightarrow> string \<Rightarrow> string \<Rightarrow> bool" where
  "activitypub_key_id_matches_actor key_id raw_actor_uri canonical_actor_uri =
    (if \<not> remote_http_url_scheme_allowed key_id then False
     else let key_actor = trim (split_first (trim key_id) (CHR ''#''))
          in key_actor = trim raw_actor_uri \<or> key_actor = trim canonical_actor_uri)"

definition cached_remote_actor_key_matches :: "bool \<Rightarrow> string \<Rightarrow> string \<Rightarrow> bool" where
  "cached_remote_actor_key_matches key_id_matches_actor cached_public_key_id key_id \<longleftrightarrow>
    key_id_matches_actor \<and> (cached_public_key_id = [] \<or> key_id = cached_public_key_id)"

definition activitypub_host_header_matches_url_host :: "string \<Rightarrow> string \<Rightarrow> bool" where
  "activitypub_host_header_matches_url_host host_header url_host =
    (let host_header = trim host_header; url_host = trim url_host in
     if eq_ignore_ascii_case host_header url_host then True
     else case rsplit_once host_header (CHR '':'') of
         Some (name, port) \<Rightarrow>
           if name \<noteq> [] \<and> CHR '']'' \<notin> set name \<and> list_all is_ascii_digit port
           then eq_ignore_ascii_case name url_host else False
       | None \<Rightarrow> False)"

section \<open>Facts\<close>

lemma strip_prefix_append [simp]: "strip_prefix (p @ s) p = Some s"
  by (simp add: strip_prefix_def)

lemma authorities_match_iff:
  "remote_http_authorities_match l r \<longleftrightarrow>
   remote_http_authority l \<noteq> None \<and> remote_http_authority l = remote_http_authority r"
  by (auto simp: remote_http_authorities_match_def split: option.splits)

lemma id_authority_ok:
  "remote_actor_id_authority_allowed f d = Inr () \<longleftrightarrow> remote_http_authorities_match f d"
  by (cases "remote_http_authority f"; cases "remote_http_authority d")
     (auto simp: remote_actor_id_authority_allowed_def remote_http_authorities_match_def)

lemma related_authority_ok:
  "remote_actor_related_uri_authority_allowed a r x = Inr () \<longleftrightarrow> remote_http_authorities_match a r"
  by (cases "remote_http_authority a"; cases "remote_http_authority r")
     (auto simp: remote_actor_related_uri_authority_allowed_def remote_http_authorities_match_def)

lemma and_then_unit: "and_then r (\<lambda>_. q) = Inr () \<longleftrightarrow> r = Inr () \<and> q = Inr ()" for r :: "'e + unit"
  by (cases r) simp_all

lemma status_authority_ok:
  "remote_status_object_authority_allowed f i a = Inr () \<longleftrightarrow>
   remote_http_authorities_match f i \<and> remote_http_authorities_match i a"
  by (simp add: remote_status_object_authority_allowed_def and_then_unit id_authority_ok
      related_authority_ok)

text \<open>An ordinary host name: what a URL may have before its port.\<close>

definition host_name :: "string \<Rightarrow> bool" where
  "host_name h \<longleftrightarrow> h \<noteq> [] \<and> last h \<noteq> CHR ''.'' \<and>
    list_all (\<lambda>c. is_ascii_alphanumeric c \<or> c = CHR ''.'' \<or> c = CHR ''-'') h"

definition url_tail :: "string \<Rightarrow> bool" where
  "url_tail t \<longleftrightarrow> (t = [] \<or> authority_terminator (hd t)) \<and> list_all plain_byte t"

lemma host_name_char:
  assumes "host_name h" "c \<in> set h"
  shows "\<not> authority_terminator c" "c \<noteq> CHR ''@''" "c \<noteq> CHR '':''" "plain_byte c"
proof -
  have "is_ascii_alphanumeric c \<or> c = CHR ''.'' \<or> c = CHR ''-''"
    using assms by (auto simp: host_name_def list_all_iff)
  then show "\<not> authority_terminator c" "c \<noteq> CHR ''@''" "c \<noteq> CHR '':''" "plain_byte c"
    by (auto simp: authority_terminator_def plain_byte_def is_ascii_alphanumeric_def
        is_ascii_uppercase_def is_ascii_lowercase_def is_ascii_digit_def)
qed

lemma takeWhile_until:
  assumes "list_all P a" "t = [] \<or> \<not> P (hd t)"
  shows "takeWhile P (a @ t) = a"
  using assms(1)
proof (induction a)
  case Nil
  then show ?case using assms(2) by (cases t) auto
qed simp

definition port_suffix :: "string option \<Rightarrow> string" where
  "port_suffix port = (case port of None \<Rightarrow> [] | Some p \<Rightarrow> '':'' @ p)"

definition port_ok :: "string option \<Rightarrow> bool" where
  "port_ok port \<longleftrightarrow> (case port of None \<Rightarrow> True | Some p \<Rightarrow> list_all is_ascii_digit p)"

definition userinfo_ok :: "string \<Rightarrow> bool" where
  "userinfo_ok u \<longleftrightarrow> u = [] \<or>
    (\<exists>x. u = x @ ''@'' \<and> list_all (\<lambda>c. \<not> authority_terminator c) x)"

lemma digit_not_special:
  assumes "is_ascii_digit c"
  shows "\<not> authority_terminator c" "c \<noteq> CHR ''@''" "c \<noteq> CHR '':''" "c \<noteq> CHR ''.''"
  using assms by (auto simp: is_ascii_digit_def authority_terminator_def)

lemma port_suffix_chars:
  assumes "port_ok port" "c \<in> set (port_suffix port)"
  shows "\<not> authority_terminator c" "c \<noteq> CHR ''@''" "plain_byte c"
proof -
  have "c = CHR '':'' \<or> is_ascii_digit c"
    using assms by (auto simp: port_ok_def port_suffix_def list_all_iff split: option.splits)
  then show "\<not> authority_terminator c" "c \<noteq> CHR ''@''" "plain_byte c"
    using digit_not_special [of c] digit_plain [of c]
    by (auto simp: authority_terminator_def plain_byte_def)
qed

lemma split_port_suffix:
  assumes "host_name h" "port_ok port"
  shows "split_port (h @ port_suffix port) = (h, port)"
proof (cases port)
  case None
  have "rsplit_once h (CHR '':'') = None"
    using host_name_char(3) [OF assms(1)] by (auto simp: rsplit_once_None)
  with None show ?thesis by (simp add: split_port_def port_suffix_def)
next
  case (Some p)
  with assms(2) have "list_all is_ascii_digit p" by (simp add: port_ok_def)
  moreover from this have "CHR '':'' \<notin> set p"
    using digit_not_special(3) by (auto simp: list_all_iff)
  ultimately show ?thesis
    using Some assms(1)
    by (simp add: split_port_def port_suffix_def rsplit_once_append host_name_def)
qed

lemma host_port_no_dots:
  assumes "host_name h" "port_ok port"
  shows "trim_end_matches (h @ port_suffix port) (CHR ''.'') = h @ port_suffix port"
proof (rule trim_end_matches_id, rule disjI2)
  have "last p \<noteq> CHR ''.''" if "list_all is_ascii_digit p" "p \<noteq> []" for p
    using that last_in_set [of p] digit_not_special(4) by (auto simp: list_all_iff)
  then show "last (h @ port_suffix port) \<noteq> CHR ''.''"
    using assms by (auto simp: host_name_def port_suffix_def port_ok_def split: option.splits)
qed

definition http_url :: "bool \<Rightarrow> string \<Rightarrow> string \<Rightarrow> string option \<Rightarrow> string \<Rightarrow> string" where
  "http_url secure userinfo host port tl' =
    (if secure then ''https://'' else ''http://'') @ userinfo @ host @ port_suffix port @ tl'"

lemma trim_http_url:
  assumes "host_name h" "port_ok port" "url_tail t"
  shows "trim (http_url secure u h port t) = http_url secure u h port t"
proof (rule trim_id_ends, rule disjI2, rule conjI)
  show "plain_byte (hd (http_url secure u h port t))"
    by (simp add: http_url_def plain_byte_def)
  have "plain_byte c" if "c \<in> set (h @ port_suffix port @ t)" for c
    using that assms host_name_char(4) port_suffix_chars(3)
    by (auto simp: url_tail_def list_all_iff)
  moreover have "last (http_url secure u h port t) = last (h @ port_suffix port @ t)"
    using assms(1) by (simp add: http_url_def host_name_def)
  ultimately show "plain_byte (last (http_url secure u h port t))"
    using assms(1) last_in_set [of "h @ port_suffix port @ t"] by (simp add: host_name_def)
qed

lemma http_url_scheme:
  "split_scheme (http_url secure u h port t) =
    Some (if secure then ''https'' else ''http'', u @ h @ port_suffix port @ t)"
proof -
  have "strip_prefix (''http://'' @ s) ''https://'' = None" for s
    by (simp add: strip_prefix_def starts_with_def)
  then show ?thesis
    by (auto simp: split_scheme_def http_url_def simp del: append.simps)
qed

lemma http_url_authority:
  assumes "host_name h" "port_ok port" "userinfo_ok u" "url_tail t"
  shows "takeWhile (\<lambda>c. \<not> authority_terminator c) (u @ h @ port_suffix port @ t) =
    u @ h @ port_suffix port"
proof -
  have "list_all (\<lambda>c. \<not> authority_terminator c) (u @ h @ port_suffix port)"
    using assms(3) host_name_char(1) [OF assms(1)] port_suffix_chars(1) [OF assms(2)]
    by (auto simp: userinfo_ok_def list_all_iff authority_terminator_def)
  then show ?thesis
    using takeWhile_until [of _ "u @ h @ port_suffix port" t] assms(4)
    by (simp add: url_tail_def)
qed

lemma http_url_host_port:
  assumes "host_name h" "port_ok port" "userinfo_ok u"
  shows "after_userinfo (u @ h @ port_suffix port) = h @ port_suffix port"
proof -
  have at: "CHR ''@'' \<notin> set (h @ port_suffix port)"
    using host_name_char(2) [OF assms(1)] port_suffix_chars(2) [OF assms(2)] by auto
  show ?thesis
  proof (cases "u = []")
    case True
    with at have "rsplit_once (u @ h @ port_suffix port) (CHR ''@'') = None"
      by (simp add: rsplit_once_None)
    with True show ?thesis by (simp add: after_userinfo_def)
  next
    case False
    with assms(3) obtain x where "u = x @ ''@''" by (auto simp: userinfo_ok_def)
    then show ?thesis
      using rsplit_once_append [OF at, of x] by (simp add: after_userinfo_def)
  qed
qed

definition canonical_authority :: "bool \<Rightarrow> string \<Rightarrow> string option \<Rightarrow> string" where
  "canonical_authority secure host port =
    to_ascii_lowercase host @
    (if port = Some (if secure then ''443'' else ''80'') then [] else port_suffix port)"

lemma authority_of_url:
  assumes "host_name h" "port_ok port" "userinfo_ok u" "url_tail t"
  shows "remote_http_authority (http_url secure u h port t) =
    Some (canonical_authority secure h port)"
proof -
  have "h \<noteq> []" using assms(1) by (simp add: host_name_def)
  moreover have "trim_end_matches h (CHR ''.'') = h"
    using assms(1) by (simp add: host_name_def trim_end_matches_id)
  ultimately have "remote_http_authority (http_url secure u h port t) =
      Option.bind (default_port (if secure then ''https'' else ''http'')) (\<lambda>default_port.
        case port of
          Some p \<Rightarrow> if p = default_port then Some (to_ascii_lowercase h)
                    else Some (to_ascii_lowercase h @ '':'' @ p)
        | None \<Rightarrow> Some (to_ascii_lowercase h))"
    using assms
    by (simp add: remote_http_authority_def trim_http_url http_url_scheme http_url_authority
          http_url_host_port host_port_no_dots split_port_suffix Let_def default_port_def
          split: option.split)
  then show ?thesis
    by (cases port) (auto simp: default_port_def canonical_authority_def port_suffix_def)
qed

lemma canonical_authority_cases:
  "canonical_authority secure h port = to_ascii_lowercase h \<or>
   (\<exists>p. port = Some p \<and> canonical_authority secure h port = to_ascii_lowercase h @ '':'' @ p)"
  by (cases port) (auto simp: canonical_authority_def port_suffix_def)

lemma no_colon_lower: "host_name h \<Longrightarrow> CHR '':'' \<notin> set (to_ascii_lowercase h)"
proof
  assume h: "host_name h" and "CHR '':'' \<in> set (to_ascii_lowercase h)"
  then obtain c where "c \<in> set h" "ascii_lower c = CHR '':''"
    by (auto simp: to_ascii_lowercase_def)
  then show False
    using host_name_char(3) [OF h] ascii_lower_eq_nonletter [of "CHR '':''" c] by auto
qed

lemma prefix_before_colon:
  assumes "CHR '':'' \<notin> set a" "CHR '':'' \<notin> set b"
  shows "starts_with (a @ CHR '':'' # p) (b @ '':'') \<longleftrightarrow> a = b"
proof
  assume "starts_with (a @ CHR '':'' # p) (b @ '':'')"
  then obtain r where "a @ CHR '':'' # p = b @ CHR '':'' # r" by (auto simp: starts_with_iff)
  then have "split_once (a @ CHR '':'' # p) (CHR '':'') = split_once (b @ CHR '':'' # r) (CHR '':'')"
    by simp
  then show "a = b" using assms by (simp add: split_once_append)
qed (auto simp: starts_with_iff)

lemma not_starts_with_colon: "CHR '':'' \<notin> set a \<Longrightarrow> \<not> starts_with a (b @ '':'')"
  by (auto simp: starts_with_iff)

section \<open>Properties\<close>

text \<open>
  The authority of an http or https URL is its host in lower case with the port, unless that
  is the default of its scheme; credentials before the host and everything from the first slash,
  question mark or hash on do not matter.
\<close>

theorem http_authority_canonical:
  assumes "host_name h" "port_ok port" "userinfo_ok u" "url_tail t"
  shows "remote_http_authority (http_url secure u h port t) =
    Some (to_ascii_lowercase h @
      (if port = Some (if secure then ''443'' else ''80'') then [] else port_suffix port))"
  using authority_of_url [OF assms] by (simp add: canonical_authority_def)

theorem http_authority_canonical_witness:
  "remote_http_authority ''https://bob@Example.org:443/users/a'' = Some ''example.org''"
proof -
  have "host_name ''Example.org''" "port_ok (Some ''443'')" "url_tail ''/users/a''"
    by code_simp+
  moreover have "userinfo_ok ''bob@''"
    unfolding userinfo_ok_def by (rule disjI2, rule exI [of _ "''bob''"], code_simp)
  moreover have "to_ascii_lowercase ''Example.org'' = ''example.org''" by code_simp
  ultimately show ?thesis
    using http_authority_canonical [of "''Example.org''" "Some ''443''" "''bob@''" "''/users/a''" True]
    by (simp add: http_url_def port_suffix_def)
qed

text \<open>
  An actor document is accepted only for its own server. Of a URL with an ordinary host, the
  account domain matches exactly when it is that host up to case, so neither a longer name that
  ends or begins with the domain nor another port can pass for it.
\<close>

theorem actor_domain_binding:
  assumes "host_name h" "port_ok port" "userinfo_ok u" "url_tail t" "host_name d"
  shows "remote_actor_uri_matches_acct_domain (http_url secure u h port t) d \<longleftrightarrow>
    eq_ignore_ascii_case h d"
proof -
  have d: "trim_end_matches d (CHR ''.'') = d" "d \<noteq> []"
    using assms(5) by (simp_all add: host_name_def trim_end_matches_id)
  have colon: "CHR '':'' \<notin> set (to_ascii_lowercase h)" "CHR '':'' \<notin> set (to_ascii_lowercase d)"
    using assms by (simp_all add: no_colon_lower)
  have whole: "to_ascii_lowercase h @ CHR '':'' # p \<noteq> to_ascii_lowercase d" for p
    using colon(2) by (metis in_set_conv_decomp)
  note unfold = remote_actor_uri_matches_acct_domain_def authority_of_url [OF assms(1-4)] d
    Let_def eq_ignore_ascii_case_def
  from canonical_authority_cases [of secure h port] show ?thesis
  proof
    assume "canonical_authority secure h port = to_ascii_lowercase h"
    then show ?thesis by (simp add: unfold not_starts_with_colon [OF colon(1)])
  next
    assume "\<exists>p. port = Some p \<and>
      canonical_authority secure h port = to_ascii_lowercase h @ '':'' @ p"
    then obtain p where "canonical_authority secure h port = to_ascii_lowercase h @ CHR '':'' # p"
      by auto
    then show ?thesis by (simp add: unfold prefix_before_colon [OF colon] whole)
  qed
qed

theorem actor_domain_binding_witness:
  "\<not> remote_actor_uri_matches_acct_domain ''https://good.example.evil/u'' ''good.example''"
proof -
  have "host_name ''good.example.evil''" "port_ok None" "url_tail ''/u''" "host_name ''good.example''"
    by code_simp+
  moreover have "userinfo_ok []" by (simp add: userinfo_ok_def)
  moreover have "\<not> eq_ignore_ascii_case ''good.example.evil'' ''good.example''" by code_simp
  ultimately show ?thesis
    using actor_domain_binding
      [of "''good.example.evil''" None "[]" "''/u''" "''good.example''" True]
    by (simp add: http_url_def port_suffix_def)
qed

text \<open>
  A fetched status is stored only if the URL it was fetched from, its identifier and its
  author have one and the same authority, whichever of the three is looked at.
\<close>

theorem status_authority_binding:
  "remote_status_object_authority_allowed fetch_url object_id attributed_to = Inr () \<longleftrightarrow>
    (\<exists>a. remote_http_authority fetch_url = Some a \<and> remote_http_authority object_id = Some a \<and>
      remote_http_authority attributed_to = Some a)"
  by (auto simp: status_authority_ok authorities_match_iff)

text \<open>
  The key of a signed request belongs to its actor: a key id matches exactly when it is an
  http or https URL that is one of the two actor URIs once its fragment is cut off, and a
  declared owner is accepted exactly when it is blank or equal to the actor URI without
  fragments, in both cases up to surrounding white space.
\<close>

theorem key_binding:
  "(activitypub_key_id_matches_actor key_id raw canonical \<longleftrightarrow>
     remote_http_url_scheme_allowed key_id \<and>
     without_fragment (trim key_id) \<in> {trim raw, trim canonical}) \<and>
   (remote_actor_public_key_owner_allowed actor (Some owner) = Inr () \<longleftrightarrow>
     trim owner = [] \<or> without_fragment (trim owner) = without_fragment (trim actor))"
  by (auto simp: activitypub_key_id_matches_actor_def remote_actor_public_key_owner_allowed_def
      without_fragment_def trimmed_option_def Let_def split: option.splits)

end
