(* ===== verification/Stateright.thy ===== *)
theory Stateright
  imports Prelude
begin

text \<open>
  The framework of the model crate. A Stateright model is given by its initial states, the actions
  offered in a state and the next state, \<open>None\<close> when an action does nothing. What the model
  checker establishes is stated over the reachable states. The two walks of
  \<open>refinement/verify.rs\<close> are modelled as they are written, with fuel for the loop, and shown to
  decide what their comments promise.
\<close>

section \<open>Reachable states\<close>

inductive model_reachable ::
    "'s list \<Rightarrow> ('s \<Rightarrow> 'a list) \<Rightarrow> ('s \<Rightarrow> 'a \<Rightarrow> 's option) \<Rightarrow> 's \<Rightarrow> bool"
  for init :: "'s list" and acts :: "'s \<Rightarrow> 'a list" and nxt :: "'s \<Rightarrow> 'a \<Rightarrow> 's option" where
  initial: "s \<in> set init \<Longrightarrow> model_reachable init acts nxt s"
| step: "model_reachable init acts nxt s \<Longrightarrow> a \<in> set (acts s) \<Longrightarrow> nxt s a = Some t \<Longrightarrow>
    model_reachable init acts nxt t"

inductive_cases model_reachableE: "model_reachable init acts nxt s"

text \<open>A path of actions, each offered in its state.\<close>

fun run_path :: "('s \<Rightarrow> 'a list) \<Rightarrow> ('s \<Rightarrow> 'a \<Rightarrow> 's option) \<Rightarrow> 's \<Rightarrow> 'a list \<Rightarrow> 's option" where
  "run_path acts nxt s [] = Some s"
| "run_path acts nxt s (a # as) =
    (if a \<in> set (acts s) then Option.bind (nxt s a) (\<lambda>t. run_path acts nxt t as) else None)"

lemma run_path_reachable:
  "model_reachable init acts nxt s \<Longrightarrow> run_path acts nxt s as = Some t \<Longrightarrow>
   model_reachable init acts nxt t"
proof (induction as arbitrary: s)
  case (Cons a as)
  then obtain u where u: "a \<in> set (acts s)" "nxt s a = Some u" "run_path acts nxt u as = Some t"
    by (auto split: if_splits Option.bind_splits)
  show ?case
    using Cons.IH [OF model_reachable.step [OF Cons.prems(1) u(1,2)] u(3)] .
qed simp

text \<open>
  \<open>Property::always\<close> and \<open>Property::sometimes\<close> with their names, and what
  \<open>assert_properties\<close> demands of them.
\<close>

type_synonym 's named_property = "string \<times> ('s \<Rightarrow> bool)"

definition always_holds ::
    "'s list \<Rightarrow> ('s \<Rightarrow> 'a list) \<Rightarrow> ('s \<Rightarrow> 'a \<Rightarrow> 's option) \<Rightarrow> 's named_property list \<Rightarrow> bool" where
  "always_holds init acts nxt ps \<longleftrightarrow>
    (\<forall>s. model_reachable init acts nxt s \<longrightarrow> list_all (\<lambda>p. snd p s) ps)"

definition sometimes_holds ::
    "'s list \<Rightarrow> ('s \<Rightarrow> 'a list) \<Rightarrow> ('s \<Rightarrow> 'a \<Rightarrow> 's option) \<Rightarrow> 's named_property list \<Rightarrow> bool" where
  "sometimes_holds init acts nxt ps \<longleftrightarrow>
    list_all (\<lambda>p. \<exists>s. model_reachable init acts nxt s \<and> snd p s) ps"

definition properties_hold ::
    "'s list \<Rightarrow> ('s \<Rightarrow> 'a list) \<Rightarrow> ('s \<Rightarrow> 'a \<Rightarrow> 's option) \<Rightarrow>
     's named_property list \<Rightarrow> 's named_property list \<Rightarrow> bool" where
  "properties_hold init acts nxt always sometimes \<longleftrightarrow>
    always_holds init acts nxt always \<and> sometimes_holds init acts nxt sometimes"

lemma sometimes_holdsI:
  assumes "list_all2 (\<lambda>p (s, as). s \<in> set init \<and>
    (case run_path acts nxt s as of Some t \<Rightarrow> snd p t | None \<Rightarrow> False)) ps paths"
  shows "sometimes_holds init acts nxt ps"
  using assms
proof (induction ps paths rule: list_all2_induct)
  case (Cons p ps path paths)
  obtain s as where path: "path = (s, as)" by (cases path)
  with Cons.hyps(1) have "s \<in> set init" and
    "case run_path acts nxt s as of Some t \<Rightarrow> snd p t | None \<Rightarrow> False"
    by simp_all
  then obtain t where "run_path acts nxt s as = Some t" "snd p t"
    by (cases "run_path acts nxt s as") simp_all
  moreover from this(1) have "model_reachable init acts nxt t"
    using run_path_reachable [OF model_reachable.initial [OF \<open>s \<in> set init\<close>]] by blast
  ultimately have "\<exists>t. model_reachable init acts nxt t \<and> snd p t" by blast
  with Cons.IH show ?case by (simp add: sometimes_holds_def)
qed (simp add: sometimes_holds_def)

section \<open>Invariants\<close>

text \<open>
  A model with an inductive invariant. Everything that follows from the invariant holds in every
  reachable state.
\<close>

locale model_invariant =
  fixes init :: "'s list"
    and acts :: "'s \<Rightarrow> 'a list"
    and nxt :: "'s \<Rightarrow> 'a \<Rightarrow> 's option"
    and inv :: "'s \<Rightarrow> bool"
  assumes init_inv: "s \<in> set init \<Longrightarrow> inv s"
    and step_inv: "inv s \<Longrightarrow> a \<in> set (acts s) \<Longrightarrow> nxt s a = Some t \<Longrightarrow> inv t"
begin

lemma reachable_inv: "model_reachable init acts nxt s \<Longrightarrow> inv s"
  by (induction rule: model_reachable.induct) (auto intro: init_inv step_inv)

lemma alwaysI: "(\<And>s. inv s \<Longrightarrow> list_all (\<lambda>p. snd p s) ps) \<Longrightarrow> always_holds init acts nxt ps"
  by (auto simp: always_holds_def dest: reachable_inv)

lemma properties_holdI:
  assumes "\<And>s. inv s \<Longrightarrow> list_all (\<lambda>p. snd p s) always"
    and "sometimes_holds init acts nxt sometimes"
  shows "properties_hold init acts nxt always sometimes"
  using assms by (simp add: properties_hold_def alwaysI)

end

text \<open>A model whose steps use up a budget: its runs end.\<close>

locale terminating_model = model_invariant init acts nxt inv
  for init :: "'s list" and acts :: "'s \<Rightarrow> 'a list" and nxt :: "'s \<Rightarrow> 'a \<Rightarrow> 's option"
    and inv :: "'s \<Rightarrow> bool" +
  fixes budget :: "'s \<Rightarrow> nat"
  assumes step_budget: "inv s \<Longrightarrow> a \<in> set (acts s) \<Longrightarrow> nxt s a = Some t \<Longrightarrow> budget t < budget s"
begin

lemma run_budget:
  assumes "inv s" "run_path acts nxt s as = Some t"
  shows "inv t \<and> length as + budget t \<le> budget s"
  using assms
proof (induction as arbitrary: s)
  case (Cons a as)
  then obtain u where u: "a \<in> set (acts s)" "nxt s a = Some u" "run_path acts nxt u as = Some t"
    by (auto split: if_splits Option.bind_splits)
  have "inv t \<and> length as + budget t \<le> budget u"
    using Cons.IH [OF step_inv [OF Cons.prems(1) u(1,2)] u(3)] .
  then show ?case using step_budget [OF Cons.prems(1) u(1,2)] by simp
qed simp

end

section \<open>The walk\<close>

text \<open>
  The loop both checks share: pop a state, skip it when seen, else expand it and push its
  successors; \<open>expand\<close> is \<open>None\<close> where an assertion fails. The head of the list is the end of
  the vector. The result is \<open>None\<close> when the fuel is used up, \<open>Some False\<close> for a panic.
\<close>

fun walk :: "('s \<Rightarrow> 's list option) \<Rightarrow> nat \<Rightarrow> 's set \<Rightarrow> 's list \<Rightarrow> bool option" where
  "walk expand 0 seen stack = None"
| "walk expand (Suc n) seen [] = Some True"
| "walk expand (Suc n) seen (s # stack) =
    (if s \<in> seen then walk expand n seen stack
     else case expand s of
         None \<Rightarrow> Some False
       | Some succs \<Rightarrow> walk expand n (insert s seen) (rev succs @ stack))"

text \<open>A search on fuel settles on a result when it has that result with any large enough fuel.\<close>

definition settles :: "(nat \<Rightarrow> 'r option) \<Rightarrow> 'r \<Rightarrow> bool" where
  "settles search r \<longleftrightarrow> (\<exists>n. \<forall>fuel \<ge> n. search fuel = Some r)"

lemma settles_unique: "settles search r \<Longrightarrow> settles search r' \<Longrightarrow> r = r'"
  unfolding settles_def by (metis linear option.inject)

definition expand_model ::
    "('s \<Rightarrow> 'a list) \<Rightarrow> ('s \<Rightarrow> 'a \<Rightarrow> 's option) \<Rightarrow> ('s \<Rightarrow> 'a \<Rightarrow> 's option) \<Rightarrow> 's \<Rightarrow>
     's list option" where
  "expand_model acts nxt domain_step s =
    (if list_all (\<lambda>a. nxt s a = domain_step s a) (acts s)
     then Some (List.map_filter (nxt s) (acts s)) else None)"

definition assert_model_matches_domain ::
    "'s list \<Rightarrow> ('s \<Rightarrow> 'a list) \<Rightarrow> ('s \<Rightarrow> 'a \<Rightarrow> 's option) \<Rightarrow> ('s \<Rightarrow> 'a \<Rightarrow> 's option) \<Rightarrow> nat \<Rightarrow>
     bool option" where
  "assert_model_matches_domain init acts nxt domain_step fuel =
    walk (expand_model acts nxt domain_step) fuel {} (rev init)"

definition expand_worker ::
    "('s \<Rightarrow> 'a list) \<Rightarrow> ('s \<Rightarrow> 'a \<Rightarrow> bool) \<Rightarrow> ('s \<Rightarrow> 'a \<Rightarrow> 's) \<Rightarrow> ('s \<Rightarrow> 'a \<Rightarrow> 's) \<Rightarrow> 's \<Rightarrow>
     's list option" where
  "expand_worker acts allows effect domain_step s =
    (if list_all (\<lambda>a. if allows s a then effect s a = domain_step s a else effect s a = s) (acts s)
     then Some (map (effect s) (filter (allows s) (acts s))) else None)"

definition assert_worker_refinement ::
    "'s list \<Rightarrow> ('s \<Rightarrow> 'a list) \<Rightarrow> ('s \<Rightarrow> 'a \<Rightarrow> bool) \<Rightarrow> ('s \<Rightarrow> 'a \<Rightarrow> 's) \<Rightarrow> ('s \<Rightarrow> 'a \<Rightarrow> 's) \<Rightarrow> nat \<Rightarrow>
     bool option" where
  "assert_worker_refinement init acts allows effect domain_step fuel =
    walk (expand_worker acts allows effect domain_step) fuel {} (rev init)"

text \<open>The states a walk may visit.\<close>

inductive walk_reachable :: "('s \<Rightarrow> 's list option) \<Rightarrow> 's set \<Rightarrow> 's \<Rightarrow> bool"
  for expand :: "'s \<Rightarrow> 's list option" and start :: "'s set" where
  "s \<in> start \<Longrightarrow> walk_reachable expand start s"
| "walk_reachable expand start s \<Longrightarrow> expand s = Some succs \<Longrightarrow> t \<in> set succs \<Longrightarrow>
    walk_reachable expand start t"

lemma walk_reachable_closed:
  assumes "walk_reachable expand start s" "start \<subseteq> C"
    and "\<And>s succs. s \<in> C \<Longrightarrow> expand s = Some succs \<Longrightarrow> set succs \<subseteq> C"
  shows "s \<in> C"
  using assms by (induction rule: walk_reachable.induct) blast+

lemma walk_true:
  assumes "walk expand n seen stack = Some True"
    and "\<And>s. s \<in> seen \<Longrightarrow> \<exists>succs. expand s = Some succs \<and> set succs \<subseteq> seen \<union> set stack"
  shows "\<exists>C. seen \<union> set stack \<subseteq> C \<and> (\<forall>s \<in> C. \<exists>succs. expand s = Some succs \<and> set succs \<subseteq> C)"
  using assms
proof (induction expand n seen stack rule: walk.induct)
  case (2 expand n seen)
  then show ?case by (intro exI [of _ seen]) auto
next
  case (3 expand n seen s stack)
  show ?case
  proof (cases "s \<in> seen")
    case True
    with "3.prems" have "\<exists>C. seen \<union> set stack \<subseteq> C \<and>
        (\<forall>s \<in> C. \<exists>succs. expand s = Some succs \<and> set succs \<subseteq> C)"
      by (intro "3.IH"(1)) (auto simp: insert_absorb)
    with True show ?thesis by (metis insert_absorb list.simps(15) Un_insert_left Un_insert_right)
  next
    case False
    with "3.prems"(1) obtain succs where succs: "expand s = Some succs"
      "walk expand n (insert s seen) (rev succs @ stack) = Some True"
      by (auto split: option.splits)
    have "\<exists>C. insert s seen \<union> set (rev succs @ stack) \<subseteq> C \<and>
        (\<forall>s \<in> C. \<exists>succs. expand s = Some succs \<and> set succs \<subseteq> C)"
    proof (rule "3.IH"(2) [OF False succs])
      fix t assume t: "t \<in> insert s seen"
      show "\<exists>us. expand t = Some us \<and> set us \<subseteq> insert s seen \<union> set (rev succs @ stack)"
      proof (cases "t = s")
        case True
        with succs(1) show ?thesis by auto
      next
        case False
        with t obtain us where "expand t = Some us" "set us \<subseteq> seen \<union> set (s # stack)"
          using "3.prems"(2) [of t] by blast
        then show ?thesis by (intro exI [of _ us]) auto
      qed
    qed
    then show ?thesis by (auto simp: subset_iff)
  qed
qed simp

lemma walk_false:
  "walk expand n seen stack = Some False \<Longrightarrow>
   \<exists>s. walk_reachable expand (set stack) s \<and> expand s = None"
proof (induction expand n seen stack rule: walk.induct)
  case (3 expand n seen s stack)
  have mono: "walk_reachable expand A t \<Longrightarrow>
      (\<And>u. u \<in> A \<Longrightarrow> walk_reachable expand B u) \<Longrightarrow> walk_reachable expand B t" for A B t
    by (induction rule: walk_reachable.induct) (auto intro: walk_reachable.intros)
  show ?case
  proof (cases "s \<in> seen")
    case True
    with 3 obtain t where "walk_reachable expand (set stack) t" "expand t = None" by auto
    then show ?thesis by (meson mono list.set_intros(2) walk_reachable.intros(1))
  next
    case False
    note new = this
    show ?thesis
    proof (cases "expand s")
      case None
      then show ?thesis using walk_reachable.intros(1) [of s "set (s # stack)"] by auto
    next
      case (Some succs)
      with 3 new obtain t where t: "walk_reachable expand (set (rev succs @ stack)) t"
        "expand t = None" by auto
      have "walk_reachable expand (set (s # stack)) u" if "u \<in> set (rev succs @ stack)" for u
      proof -
        have "walk_reachable expand (set (s # stack)) s" by (simp add: walk_reachable.intros(1))
        then show ?thesis
          using that Some by (auto intro: walk_reachable.intros)
      qed
      with t show ?thesis using mono by blast
    qed
  qed
qed simp_all

lemma walk_more_fuel: "walk expand n seen stack = Some b \<Longrightarrow> walk expand (n + k) seen stack = Some b"
  by (induction expand n seen stack rule: walk.induct) (auto split: option.splits)

lemma walk_ends:
  assumes "finite R" "set stack \<subseteq> R" "seen \<subseteq> R"
    and "\<And>s succs. s \<in> R \<Longrightarrow> expand s = Some succs \<Longrightarrow> set succs \<subseteq> R"
  shows "\<exists>n. walk expand n seen stack \<noteq> None"
  using assms(2,3)
proof (induction "(seen, stack)" arbitrary: seen stack
    rule: wf_induct_rule [OF wf_measures [of "[\<lambda>(seen, stack). card (R - seen), \<lambda>(seen, stack). length stack]"]])
  case (1 seen stack)
  show ?case
  proof (cases stack)
    case Nil
    then have "walk expand (Suc 0) seen stack \<noteq> None" by simp
    then show ?thesis ..
  next
    case (Cons s rest)
    show ?thesis
    proof (cases "s \<in> seen")
      case True
      have "\<exists>n. walk expand n seen rest \<noteq> None"
        by (rule 1) (use "1.prems" Cons in auto)
      then obtain n where "walk expand n seen rest \<noteq> None" ..
      with True Cons have "walk expand (Suc n) seen stack \<noteq> None" by simp
      then show ?thesis ..
    next
      case False
      note new = this
      show ?thesis
      proof (cases "expand s")
        case None
        with new Cons have "walk expand (Suc 0) seen stack \<noteq> None" by simp
        then show ?thesis ..
      next
        case (Some succs)
        have "R - insert s seen \<subset> R - seen" using new "1.prems" Cons by auto
        then have "card (R - insert s seen) < card (R - seen)"
          using assms(1) by (intro psubset_card_mono) auto
        moreover have "set (rev succs @ rest) \<subseteq> R" "insert s seen \<subseteq> R"
          using "1.prems" Cons assms(4) [OF _ Some] by auto
        ultimately have "\<exists>n. walk expand n (insert s seen) (rev succs @ rest) \<noteq> None"
          by (intro 1) auto
        then obtain n where "walk expand n (insert s seen) (rev succs @ rest) \<noteq> None" ..
        with new Cons Some have "walk expand (Suc n) seen stack \<noteq> None" by simp
        then show ?thesis ..
      qed
    qed
  qed
qed

lemma walk_decides:
  assumes "finite {s. walk_reachable expand (set stack) s}"
  shows "\<exists>n. \<forall>m \<ge> n. walk expand m {} stack =
    Some (\<forall>s. walk_reachable expand (set stack) s \<longrightarrow> expand s \<noteq> None)"
proof -
  let ?R = "{s. walk_reachable expand (set stack) s}"
  have closed: "\<And>s succs. s \<in> ?R \<Longrightarrow> expand s = Some succs \<Longrightarrow> set succs \<subseteq> ?R"
    by (auto intro: walk_reachable.intros)
  have "set stack \<subseteq> ?R" by (auto intro: walk_reachable.intros)
  then obtain n b where n: "walk expand n {} stack = Some b"
    using walk_ends [OF assms, of stack "{}" expand] closed by blast
  have "b = (\<forall>s. walk_reachable expand (set stack) s \<longrightarrow> expand s \<noteq> None)"
  proof (cases b)
    case True
    with n obtain C where "set stack \<subseteq> C" and
      C: "\<forall>s \<in> C. \<exists>succs. expand s = Some succs \<and> set succs \<subseteq> C"
      using walk_true [of expand n "{}" stack] by auto
    then have "s \<in> C" if "walk_reachable expand (set stack) s" for s
      using walk_reachable_closed [OF that, of C] by (metis option.inject)
    with C True show ?thesis by fastforce
  next
    case False
    with n have "walk expand n {} stack = Some False" by simp
    from walk_false [OF this] show ?thesis using False by blast
  qed
  then have "walk expand (n + k) {} stack =
      Some (\<forall>s. walk_reachable expand (set stack) s \<longrightarrow> expand s \<noteq> None)" for k
    using walk_more_fuel [OF n] by simp
  then show ?thesis by (metis le_Suc_ex)
qed

lemma matches_domain_finishes:
  assumes "finite (UNIV :: 's set)" "\<And>s a. nxt s a = domain_step s a"
  shows "settles (assert_model_matches_domain (init :: 's list) acts nxt domain_step) True"
proof -
  have "finite {s. walk_reachable (expand_model acts nxt domain_step) (set (rev init)) s}"
    using assms(1) by (rule rev_finite_subset) simp
  moreover have "expand_model acts nxt domain_step s \<noteq> None" for s
    using assms(2) by (simp add: expand_model_def list_all_iff)
  ultimately show ?thesis
    unfolding assert_model_matches_domain_def settles_def using walk_decides by fastforce
qed

section \<open>Refinement of a domain step by guarded worker operations\<close>

fun accepted :: "('s \<Rightarrow> 'a \<Rightarrow> bool) \<Rightarrow> ('s \<Rightarrow> 'a \<Rightarrow> 's) \<Rightarrow> 's \<Rightarrow> 'a list \<Rightarrow> 'a list" where
  "accepted allows step s [] = []"
| "accepted allows step s (a # as) =
    (if allows s a then a # accepted allows step (step s a) as else accepted allows step s as)"

text \<open>
  The contract of a worker operation: allowed, it does what the domain says; refused, nothing.
\<close>

locale worker_refinement =
  fixes allows :: "'s \<Rightarrow> 'a \<Rightarrow> bool"
    and effect :: "'s \<Rightarrow> 'a \<Rightarrow> 's"
    and domain_step :: "'s \<Rightarrow> 'a \<Rightarrow> 's"
  assumes allowed_effect: "allows s a \<Longrightarrow> effect s a = domain_step s a"
    and refused_stutters: "\<not> allows s a \<Longrightarrow> effect s a = s"
begin

text \<open>The check never panics, whatever it starts from and whichever actions it tries.\<close>

lemma check_passes: "assert_worker_refinement init acts allows effect domain_step fuel \<noteq> Some False"
proof
  assume "assert_worker_refinement init acts allows effect domain_step fuel = Some False"
  then obtain s where "expand_worker acts allows effect domain_step s = None"
    unfolding assert_worker_refinement_def by (blast dest: walk_false)
  moreover have "list_all (\<lambda>a. if allows s a then effect s a = domain_step s a else effect s a = s)
      (acts s)"
    by (auto simp: list_all_iff allowed_effect refused_stutters)
  ultimately show False by (simp add: expand_worker_def)
qed

text \<open>A run of the worker is the run of the domain over the actions that were let through.\<close>

lemma check_finishes_inv:
  assumes "finite (Collect P)" "\<And>s. s \<in> set init \<Longrightarrow> P s"
    and "\<And>s a. P s \<Longrightarrow> a \<in> set (acts s) \<Longrightarrow> allows s a \<Longrightarrow> P (domain_step s a)"
  shows "settles (assert_worker_refinement init acts allows effect domain_step) True"
proof -
  let ?expand = "expand_worker acts allows effect domain_step"
  have closed: "t \<in> Collect P" if "s \<in> Collect P" "?expand s = Some succs" "t \<in> set succs"
    for s t succs
    using that assms(3) by (auto simp: expand_worker_def allowed_effect split: if_splits)
  have "set (rev init) \<subseteq> Collect P" using assms(2) by auto
  then have "{s. walk_reachable ?expand (set (rev init)) s} \<subseteq> Collect P"
    using walk_reachable_closed [of ?expand "set (rev init)" _ "Collect P"] closed by blast
  with assms(1) have "finite {s. walk_reachable ?expand (set (rev init)) s}"
    by (rule rev_finite_subset)
  from walk_decides [OF this] obtain n b where
    n: "\<forall>m \<ge> n. assert_worker_refinement init acts allows effect domain_step m = Some b"
    unfolding assert_worker_refinement_def by blast
  then have "b \<noteq> False" using check_passes [of init acts n] by auto
  with n show ?thesis by (auto simp: settles_def)
qed

lemma check_finishes:
  assumes "finite (UNIV :: 's set)"
  shows "settles (assert_worker_refinement init acts allows effect domain_step) True"
  using check_finishes_inv [of "\<lambda>_. True"] assms by simp

lemma worker_run: "foldl effect s as = foldl domain_step s (accepted allows domain_step s as)"
  by (induction as arbitrary: s) (simp_all add: allowed_effect refused_stutters)

lemma worker_keeps:
  assumes "\<And>s a. P s \<Longrightarrow> allows s a \<Longrightarrow> P (domain_step s a)" "P s"
  shows "P (foldl effect s as)"
  using assms(2)
proof (induction as arbitrary: s)
  case (Cons a as)
  have "P (effect s a)"
    using Cons.prems assms(1) [of s a] by (cases "allows s a")
      (simp_all add: allowed_effect refused_stutters)
  then show ?case using Cons.IH by simp
qed simp

end

section \<open>Properties\<close>

text \<open>
  The refinement check decides refinement. Over finitely many reachable states it ends with
  enough fuel, and then it passes exactly when in every reachable state every action the guard
  allows has the effect of the domain step, and every action it refuses leaves the state as it
  is.
\<close>

theorem refinement_check_decides:
  assumes "finite {s. walk_reachable (expand_worker acts allows effect domain_step) (set init) s}"
  shows "settles (assert_worker_refinement init acts allows effect domain_step)
    (\<forall>s a. walk_reachable (expand_worker acts allows effect domain_step) (set init) s \<and>
      a \<in> set (acts s) \<longrightarrow>
      effect s a = (if allows s a then domain_step s a else s))"
proof -
  have "(\<forall>s. walk_reachable (expand_worker acts allows effect domain_step) (set init) s \<longrightarrow>
      expand_worker acts allows effect domain_step s \<noteq> None) =
    (\<forall>s a. walk_reachable (expand_worker acts allows effect domain_step) (set init) s \<and>
      a \<in> set (acts s) \<longrightarrow> effect s a = (if allows s a then domain_step s a else s))"
    by (auto simp: expand_worker_def list_all_iff)
  then show ?thesis
    using walk_decides [of "expand_worker acts allows effect domain_step" "rev init"] assms
    unfolding assert_worker_refinement_def settles_def by simp
qed

end
