(* ===== verification/Model_Quote.thy ===== *)
theory Model_Quote
  imports Stateright Status_Draft
begin

text \<open>
  The models of quote resolution (\<open>quote.rs\<close>) and of quote approval
  (\<open>quote_approval.rs\<close>) in the model crate, and the worker refinements of both
  (\<open>refinement/quote.rs\<close>, \<open>refinement/quote_approval.rs\<close>).
\<close>

section \<open>Quote resolution\<close>

record quote_model_state =
  qm_quote_state :: quote_state
  qm_visibility :: visibility
  qm_policy :: quote_approval_policy
  qm_has_quote :: bool
  qm_target_exists_locally :: bool
  qm_blocked_by_owner :: bool
  qm_is_owner :: bool
  qm_is_follower :: bool

datatype quote_action = ResolveInitial | ResolveRemote | ApplyVisibilityPolicy | Revoke

definition ACCOUNT_DEFAULT_POLICY :: quote_approval_policy where
  "ACCOUNT_DEFAULT_POLICY = Followers"

fun apply_quote_action :: "quote_model_state \<Rightarrow> quote_action \<Rightarrow> quote_model_state" where
  "apply_quote_action s ResolveInitial =
     s\<lparr>qm_quote_state := initial_for_quote_target (qm_has_quote s) (qm_target_exists_locally s)\<rparr>"
| "apply_quote_action s ResolveRemote =
    (let policy_allows = allows_quote (qm_policy s) (qm_is_owner s) (qm_is_follower s)
     in s\<lparr>qm_quote_state := remote_for_target (qm_blocked_by_owner s) policy_allows\<rparr>)"
| "apply_quote_action s ApplyVisibilityPolicy =
     s\<lparr>qm_policy := for_status_visibility (qm_visibility s) None ACCOUNT_DEFAULT_POLICY\<rparr>"
| "apply_quote_action s quote_action.Revoke =
     s\<lparr>qm_quote_state := quote_state_after_revoke (qm_quote_state s)\<rparr>"

definition quote_model_init_states :: "quote_model_state list" where
  "quote_model_init_states =
    [\<lparr>qm_quote_state = Pending, qm_visibility = v,
      qm_policy = for_status_visibility v None ACCOUNT_DEFAULT_POLICY,
      qm_has_quote = has_quote, qm_target_exists_locally = target_exists_locally,
      qm_blocked_by_owner = blocked_by_owner, qm_is_owner = False,
      qm_is_follower = is_follower\<rparr>.
     v \<leftarrow> [visibility.Public, Unlisted, FollowersOnly, Direct],
     has_quote \<leftarrow> [False, True], target_exists_locally \<leftarrow> [False, True],
     blocked_by_owner \<leftarrow> [False, True], is_follower \<leftarrow> [False, True]]"

definition quote_model_actions :: "quote_model_state \<Rightarrow> quote_action list" where
  "quote_model_actions s = [ResolveInitial, ResolveRemote, ApplyVisibilityPolicy, quote_action.Revoke]"

definition quote_model_next_state ::
    "quote_model_state \<Rightarrow> quote_action \<Rightarrow> quote_model_state option" where
  "quote_model_next_state s a = Some (apply_quote_action s a)"

definition quote_model_always :: "quote_model_state named_property list" where
  "quote_model_always =
    [(''restricted_visibility_policy_nobody'',
      \<lambda>s. \<not> is_restricted (qm_visibility s) \<or> qm_policy s = Nobody),
     (''revoked_not_visible'',
      \<lambda>s. qm_quote_state s \<noteq> Revoked \<or> \<not> quote_state_is_visible (qm_quote_state s)),
     (''blocked_remote_is_rejected'',
      \<lambda>s. \<not> qm_blocked_by_owner s \<or>
        remote_for_target True (allows_quote (qm_policy s) (qm_is_owner s) (qm_is_follower s)) =
          Rejected)]"

definition quote_model_sometimes :: "quote_model_state named_property list" where
  "quote_model_sometimes =
    [(''accepted_reachable'', \<lambda>s. qm_quote_state s = Accepted),
     (''pending_reachable'', \<lambda>s. qm_quote_state s = Pending),
     (''rejected_reachable'', \<lambda>s. qm_quote_state s = Rejected)]"

text \<open>The policy always follows from the visibility, and the requester never owns the target.\<close>

definition quote_model_inv :: "quote_model_state \<Rightarrow> bool" where
  "quote_model_inv s \<longleftrightarrow> \<not> qm_is_owner s \<and>
    qm_policy s = for_status_visibility (qm_visibility s) None ACCOUNT_DEFAULT_POLICY"

interpretation quote_model: model_invariant quote_model_init_states quote_model_actions
  quote_model_next_state quote_model_inv
proof unfold_locales
  show "s \<in> set quote_model_init_states \<Longrightarrow> quote_model_inv s" for s
    by (auto simp: quote_model_init_states_def quote_model_inv_def)
  show "quote_model_inv s \<Longrightarrow> a \<in> set (quote_model_actions s) \<Longrightarrow>
      quote_model_next_state s a = Some t \<Longrightarrow> quote_model_inv t" for s a t
    by (cases a) (auto simp: quote_model_next_state_def quote_model_inv_def Let_def)
qed

lemma quote_model_sometimes_holds:
  "sometimes_holds quote_model_init_states quote_model_actions quote_model_next_state
     quote_model_sometimes"
proof (rule sometimes_holdsI)
  show "list_all2 (\<lambda>p (s, as). s \<in> set quote_model_init_states \<and>
      (case run_path quote_model_actions quote_model_next_state s as of
         Some t \<Rightarrow> snd p t | None \<Rightarrow> False))
    quote_model_sometimes
    [(quote_model_init_states ! 0, [ResolveInitial]), (quote_model_init_states ! 0, []),
     (quote_model_init_states ! 2, [ResolveRemote])]"
    by code_simp
qed

section \<open>The worker's quote resolution\<close>

record quote_worker_context =
  qw_state :: quote_model_state
  qw_requester_is_quote_author :: bool

definition quote_worker_resolve_initial :: "quote_model_state \<Rightarrow> quote_state" where
  "quote_worker_resolve_initial s =
    quote_target_initial_state
      \<lparr>qt_has_quote = qm_has_quote s, qt_target_exists_locally = qm_target_exists_locally s\<rparr>"

definition quote_worker_apply_visibility_policy :: "visibility \<Rightarrow> quote_approval_policy" where
  "quote_worker_apply_visibility_policy v = for_status_visibility v None ACCOUNT_DEFAULT_POLICY"

definition quote_worker_resolve_remote :: "quote_model_state \<Rightarrow> quote_state" where
  "quote_worker_resolve_remote s =
    (let policy_allows = allows_quote (qm_policy s) (qm_is_owner s) (qm_is_follower s)
     in remote_for_target (qm_blocked_by_owner s) policy_allows)"

fun quote_worker_allows :: "quote_worker_context \<Rightarrow> quote_action \<Rightarrow> bool" where
  "quote_worker_allows c quote_action.Revoke =
     (qw_requester_is_quote_author c \<and> qm_has_quote (qw_state c))"
| "quote_worker_allows c _ = True"

definition quote_worker_effect ::
    "quote_worker_context \<Rightarrow> quote_action \<Rightarrow> quote_worker_context" where
  "quote_worker_effect c a =
    (if \<not> quote_worker_allows c a then c
     else let s = qw_state c in
       case a of
         ResolveInitial \<Rightarrow>
           c\<lparr>qw_state := s\<lparr>qm_quote_state := quote_worker_resolve_initial s\<rparr>\<rparr>
       | ResolveRemote \<Rightarrow>
           c\<lparr>qw_state := s\<lparr>qm_quote_state := quote_worker_resolve_remote s\<rparr>\<rparr>
       | ApplyVisibilityPolicy \<Rightarrow>
           c\<lparr>qw_state := s\<lparr>qm_policy := quote_worker_apply_visibility_policy (qm_visibility s)\<rparr>\<rparr>
       | quote_action.Revoke \<Rightarrow> c\<lparr>qw_state := apply_quote_action s quote_action.Revoke\<rparr>)"

definition quote_domain_step :: "quote_worker_context \<Rightarrow> quote_action \<Rightarrow> quote_worker_context" where
  "quote_domain_step c a =
    c\<lparr>qw_state := unwrap_or (quote_model_next_state (qw_state c) a) (qw_state c)\<rparr>"

definition quote_worker_contexts :: "quote_worker_context list" where
  "quote_worker_contexts =
    [\<lparr>qw_state = s, qw_requester_is_quote_author = author\<rparr>.
     s \<leftarrow> quote_model_init_states, author \<leftarrow> [False, True]]"

interpretation quote_worker: worker_refinement quote_worker_allows quote_worker_effect
  quote_domain_step
proof unfold_locales
  show "quote_worker_allows c a \<Longrightarrow> quote_worker_effect c a = quote_domain_step c a" for c a
    by (cases a)
       (simp_all add: quote_worker_effect_def quote_domain_step_def quote_model_next_state_def
         quote_worker_resolve_initial_def quote_worker_resolve_remote_def
         quote_worker_apply_visibility_policy_def quote_target_initial_state_def Let_def)
  show "\<not> quote_worker_allows c a \<Longrightarrow> quote_worker_effect c a = c" for c a
    by (simp add: quote_worker_effect_def)
qed

section \<open>Quote approval\<close>

record quote_approval_model_state =
  qa_quote_state :: quote_state
  qa_has_quote :: bool
  qa_target_exists_locally :: bool
  qa_blocked_by_owner :: bool
  qa_policy_allows :: bool

datatype quote_approval_action = RemoteUpsert | OwnerApprove | OwnerReject | Revoke

definition qa_has_active_quote :: "quote_approval_model_state \<Rightarrow> bool" where
  "qa_has_active_quote s \<longleftrightarrow> qa_has_quote s \<and> quote_state_is_visible (qa_quote_state s)"

definition qa_remote_upsert_incoming :: "quote_approval_model_state \<Rightarrow> quote_state" where
  "qa_remote_upsert_incoming s =
    quote_state_for_remote_publish (qa_has_quote s) (qa_target_exists_locally s)
      (qa_blocked_by_owner s) (qa_policy_allows s)"

definition quote_approval_init_states :: "quote_approval_model_state list" where
  "quote_approval_init_states =
    concat [\<lparr>qa_quote_state = quote_state_for_local_publish True target_exists_locally,
       qa_has_quote = True, qa_target_exists_locally = target_exists_locally,
       qa_blocked_by_owner = blocked_by_owner, qa_policy_allows = policy_allows\<rparr> #
      (if target_exists_locally
       then [\<lparr>qa_quote_state =
                quote_state_for_remote_publish True True blocked_by_owner policy_allows,
              qa_has_quote = True, qa_target_exists_locally = True,
              qa_blocked_by_owner = blocked_by_owner, qa_policy_allows = policy_allows\<rparr>]
       else []).
     target_exists_locally \<leftarrow> [False, True], blocked_by_owner \<leftarrow> [False, True],
     policy_allows \<leftarrow> [False, True]]"

definition quote_approval_actions :: "quote_approval_model_state \<Rightarrow> quote_approval_action list" where
  "quote_approval_actions s = [RemoteUpsert, OwnerApprove, OwnerReject, quote_approval_action.Revoke]"

fun quote_approval_next_state ::
    "quote_approval_model_state \<Rightarrow> quote_approval_action \<Rightarrow> quote_approval_model_state option" where
  "quote_approval_next_state s RemoteUpsert =
    (let incoming = qa_remote_upsert_incoming s
     in Some (s\<lparr>qa_quote_state := quote_state_after_remote_upsert (qa_quote_state s) incoming\<rparr>))"
| "quote_approval_next_state s OwnerApprove =
     Some (s\<lparr>qa_quote_state := quote_state_after_owner_approve (qa_quote_state s)\<rparr>)"
| "quote_approval_next_state s OwnerReject =
     Some (s\<lparr>qa_quote_state := quote_state_after_owner_reject (qa_quote_state s)\<rparr>)"
| "quote_approval_next_state s quote_approval_action.Revoke =
     Some (s\<lparr>qa_quote_state := quote_state_after_revoke (qa_quote_state s)\<rparr>)"

definition quote_approval_always :: "quote_approval_model_state named_property list" where
  "quote_approval_always =
    [(''revoked_is_sticky_on_remote_upsert'',
      \<lambda>s. qa_quote_state s \<noteq> Revoked \<or>
        quote_state_after_remote_upsert Revoked (qa_remote_upsert_incoming s) = Revoked),
     (''revoked_not_visible'',
      \<lambda>s. qa_quote_state s \<noteq> Revoked \<or> \<not> quote_state_is_visible (qa_quote_state s)),
     (''revoked_is_not_active_quote'',
      \<lambda>s. qa_quote_state s \<noteq> Revoked \<or> \<not> qa_has_active_quote s),
     (''accepted_counts_in_quote_timeline'',
      \<lambda>s. \<not> qa_has_quote s \<or> \<not> counts_in_accepted_quotes_timeline (qa_quote_state s) \<or>
        qa_quote_state s = Accepted),
     (''pending_shows_placeholder'',
      \<lambda>s. \<not> shows_quote_placeholder (qa_quote_state s) \<or> qa_quote_state s = Pending),
     (''blocked_local_remote_publish_is_rejected'',
      \<lambda>s. \<not> qa_target_exists_locally s \<or> \<not> qa_blocked_by_owner s \<or>
        quote_state_for_remote_publish True True True (qa_policy_allows s) = Rejected)]"

definition quote_approval_sometimes :: "quote_approval_model_state named_property list" where
  "quote_approval_sometimes =
    [(''accepted_reachable'', \<lambda>s. qa_quote_state s = Accepted),
     (''rejected_reachable'', \<lambda>s. qa_quote_state s = Rejected),
     (''revoked_reachable'', \<lambda>s. qa_quote_state s = Revoked)]"

text \<open>Every reachable status has a quote.\<close>

definition quote_approval_inv :: "quote_approval_model_state \<Rightarrow> bool" where
  "quote_approval_inv s \<longleftrightarrow> qa_has_quote s"

interpretation quote_approval: model_invariant quote_approval_init_states quote_approval_actions
  quote_approval_next_state quote_approval_inv
proof unfold_locales
  show "s \<in> set quote_approval_init_states \<Longrightarrow> quote_approval_inv s" for s
    by (auto simp: quote_approval_init_states_def quote_approval_inv_def)
  show "quote_approval_inv s \<Longrightarrow> a \<in> set (quote_approval_actions s) \<Longrightarrow>
      quote_approval_next_state s a = Some t \<Longrightarrow> quote_approval_inv t" for s a t
    by (cases a) (auto simp: quote_approval_inv_def Let_def)
qed

lemma quote_approval_sometimes_holds:
  "sometimes_holds quote_approval_init_states quote_approval_actions quote_approval_next_state
     quote_approval_sometimes"
proof (rule sometimes_holdsI)
  show "list_all2 (\<lambda>p (s, as). s \<in> set quote_approval_init_states \<and>
      (case run_path quote_approval_actions quote_approval_next_state s as of
         Some t \<Rightarrow> snd p t | None \<Rightarrow> False))
    quote_approval_sometimes
    [(quote_approval_init_states ! 0, [OwnerApprove]), (quote_approval_init_states ! 0, [OwnerReject]),
     (quote_approval_init_states ! 0, [quote_approval_action.Revoke])]"
    by code_simp
qed

section \<open>The worker's quote approval\<close>

record quote_approval_observable =
  qo_quote_state :: quote_state
  qo_has_quote :: bool
  qo_target_exists_locally :: bool
  qo_blocked_by_owner :: bool
  qo_policy_allows :: bool

datatype quote_approval_worker_action = RemoteUpsert | OwnerApprove | OwnerReject | Revoke

record quote_approval_worker_context =
  qc_observable :: quote_approval_observable
  qc_quote_of_uri_matches_target :: bool
  qc_requester_is_quote_author :: bool

definition qo_to_model_state :: "quote_approval_observable \<Rightarrow> quote_approval_model_state" where
  "qo_to_model_state s =
    \<lparr>qa_quote_state = qo_quote_state s, qa_has_quote = qo_has_quote s,
     qa_target_exists_locally = qo_target_exists_locally s,
     qa_blocked_by_owner = qo_blocked_by_owner s, qa_policy_allows = qo_policy_allows s\<rparr>"

definition qo_remote_upsert_incoming :: "quote_approval_observable \<Rightarrow> quote_state" where
  "qo_remote_upsert_incoming s =
    quote_state_for_remote_publish (qo_has_quote s) (qo_target_exists_locally s)
      (qo_blocked_by_owner s) (qo_policy_allows s)"

definition qo_domain_step ::
    "quote_approval_observable \<Rightarrow> quote_approval_worker_action \<Rightarrow> quote_approval_observable" where
  "qo_domain_step s a =
    s\<lparr>qo_quote_state := (case a of
        quote_approval_worker_action.RemoteUpsert \<Rightarrow>
          merged_quote_state_for_remote_upsert (qo_quote_state s) (qo_remote_upsert_incoming s)
      | quote_approval_worker_action.OwnerApprove \<Rightarrow>
          quote_state_after_owner_approve (qo_quote_state s)
      | quote_approval_worker_action.OwnerReject \<Rightarrow>
          quote_state_after_owner_reject (qo_quote_state s)
      | quote_approval_worker_action.Revoke \<Rightarrow> quote_state_after_revoke (qo_quote_state s))\<rparr>"

fun qc_worker_allows ::
    "quote_approval_worker_context \<Rightarrow> quote_approval_worker_action \<Rightarrow> bool" where
  "qc_worker_allows c quote_approval_worker_action.RemoteUpsert = qo_has_quote (qc_observable c)"
| "qc_worker_allows c quote_approval_worker_action.Revoke =
     (qc_requester_is_quote_author c \<and> qo_has_quote (qc_observable c))"
| "qc_worker_allows c _ =
     (qo_quote_state (qc_observable c) = Pending \<and> qc_quote_of_uri_matches_target c)"

definition qc_worker_effect ::
    "quote_approval_worker_context \<Rightarrow> quote_approval_worker_action \<Rightarrow>
     quote_approval_worker_context" where
  "qc_worker_effect c a =
    (if \<not> qc_worker_allows c a then c
     else c\<lparr>qc_observable := qo_domain_step (qc_observable c) a\<rparr>)"

fun quote_approval_to_worker_action ::
    "quote_approval_action \<Rightarrow> quote_approval_worker_action" where
  "quote_approval_to_worker_action quote_approval_action.RemoteUpsert =
     quote_approval_worker_action.RemoteUpsert"
| "quote_approval_to_worker_action quote_approval_action.OwnerApprove =
     quote_approval_worker_action.OwnerApprove"
| "quote_approval_to_worker_action quote_approval_action.OwnerReject =
     quote_approval_worker_action.OwnerReject"
| "quote_approval_to_worker_action quote_approval_action.Revoke =
     quote_approval_worker_action.Revoke"

definition quote_approval_model_domain_step ::
    "quote_approval_model_state \<Rightarrow> quote_approval_action \<Rightarrow> quote_approval_model_state option" where
  "quote_approval_model_domain_step s a =
    (let observable =
       \<lparr>qo_quote_state = qa_quote_state s, qo_has_quote = qa_has_quote s,
        qo_target_exists_locally = qa_target_exists_locally s,
        qo_blocked_by_owner = qa_blocked_by_owner s, qo_policy_allows = qa_policy_allows s\<rparr>
     in Some (qo_to_model_state
          (qo_domain_step observable (quote_approval_to_worker_action a))))"

definition quote_approval_worker_initial_states :: "quote_approval_observable list" where
  "quote_approval_worker_initial_states =
    [\<lparr>qo_quote_state = q, qo_has_quote = has_quote,
      qo_target_exists_locally = target_exists_locally, qo_blocked_by_owner = blocked_by_owner,
      qo_policy_allows = policy_allows\<rparr>.
     q \<leftarrow> [Accepted, Pending, Rejected, Revoked], has_quote \<leftarrow> [False, True],
     target_exists_locally \<leftarrow> [False, True], blocked_by_owner \<leftarrow> [False, True],
     policy_allows \<leftarrow> [False, True]]"

definition quote_approval_worker_contexts ::
    "quote_approval_observable \<Rightarrow> quote_approval_worker_context list" where
  "quote_approval_worker_contexts observable =
    [\<lparr>qc_observable = observable, qc_quote_of_uri_matches_target = matches,
      qc_requester_is_quote_author = author\<rparr>.
     matches \<leftarrow> [False, True], author \<leftarrow> [False, True]]"

text \<open>A context with its observable exchanged: the closures the check builds.\<close>

definition qc_with :: "quote_approval_worker_context \<Rightarrow> quote_approval_observable \<Rightarrow>
    quote_approval_worker_context" where
  "qc_with c s = c\<lparr>qc_observable := s\<rparr>"

interpretation quote_approval_worker: worker_refinement
  "\<lambda>s a. qc_worker_allows (qc_with c s) a" "\<lambda>s a. qc_observable (qc_worker_effect (qc_with c s) a)"
  qo_domain_step for c
  by unfold_locales (simp_all add: qc_worker_effect_def qc_with_def)

lemma quote_approval_model_matches:
  "quote_approval_next_state s a = quote_approval_model_domain_step s a"
  by (cases s; cases a)
     (simp_all add: quote_approval_model_domain_step_def qo_to_model_state_def qo_domain_step_def
       merged_quote_state_for_remote_upsert_def qa_remote_upsert_incoming_def
       qo_remote_upsert_incoming_def Let_def)

section \<open>Finitely many states\<close>

lemma finite_quote_model_state: "finite (UNIV :: quote_model_state set)"
proof (rule finite_surj_UNIV)
  show "\<exists>x. (\<lambda>(a, b, c, d, e, f, g, h).
      \<lparr>qm_quote_state = a, qm_visibility = b, qm_policy = c, qm_has_quote = d,
       qm_target_exists_locally = e, qm_blocked_by_owner = f, qm_is_owner = g,
       qm_is_follower = h\<rparr>) x = s" for s
    by (cases s) simp
qed simp

lemma finite_quote_worker_context: "finite (UNIV :: quote_worker_context set)"
proof (rule finite_surj_UNIV)
  show "\<exists>x. (\<lambda>(a, b). \<lparr>qw_state = a, qw_requester_is_quote_author = b\<rparr>) x = s" for s
    by (cases s) simp
  show "finite (UNIV :: (quote_model_state \<times> bool) set)"
    using finite_quote_model_state by (simp add: finite_prod)
qed

lemma finite_quote_approval_observable: "finite (UNIV :: quote_approval_observable set)"
proof (rule finite_surj_UNIV)
  show "\<exists>x. (\<lambda>(a, b, c, d, e).
      \<lparr>qo_quote_state = a, qo_has_quote = b, qo_target_exists_locally = c,
       qo_blocked_by_owner = d, qo_policy_allows = e\<rparr>) x = s" for s
    by (cases s) simp
qed simp

lemma finite_quote_approval_model_state: "finite (UNIV :: quote_approval_model_state set)"
proof (rule finite_surj_UNIV [OF finite_quote_approval_observable])
  show "\<exists>x. qo_to_model_state x = s" for s
    by (cases s) (rule exI [of _ "\<lparr>qo_quote_state = qa_quote_state s, qo_has_quote = qa_has_quote s,
      qo_target_exists_locally = qa_target_exists_locally s,
      qo_blocked_by_owner = qa_blocked_by_owner s, qo_policy_allows = qa_policy_allows s\<rparr>"],
      simp add: qo_to_model_state_def)
qed

section \<open>Properties\<close>

text \<open>
  The two quote models keep every property they declare, in every reachable state and not
  only up to the depth a checker explores: restricted statuses cannot be quoted, blocked
  requesters are rejected, a revoked quote is neither visible nor active nor revived; and every
  quote state they call reachable is reached.
\<close>

theorem quote_models_verified:
  "properties_hold quote_model_init_states quote_model_actions quote_model_next_state
     quote_model_always quote_model_sometimes \<and>
   properties_hold quote_approval_init_states quote_approval_actions quote_approval_next_state
     quote_approval_always quote_approval_sometimes"
proof
  show "properties_hold quote_model_init_states quote_model_actions quote_model_next_state
     quote_model_always quote_model_sometimes"
  proof (rule quote_model.properties_holdI [OF _ quote_model_sometimes_holds])
    show "list_all (\<lambda>p. snd p s) quote_model_always" if "quote_model_inv s" for s
      using that
      by (auto simp: quote_model_always_def quote_model_inv_def quote_state_is_visible_def
          remote_for_target_def)
  qed
  show "properties_hold quote_approval_init_states quote_approval_actions
     quote_approval_next_state quote_approval_always quote_approval_sometimes"
  proof (rule quote_approval.properties_holdI [OF _ quote_approval_sometimes_holds])
    show "list_all (\<lambda>p. snd p s) quote_approval_always" if "quote_approval_inv s" for s
      by (auto simp: quote_approval_always_def quote_state_is_visible_def qa_has_active_quote_def
          counts_in_accepted_quotes_timeline_def shows_quote_placeholder_def
          quote_state_for_remote_publish_def remote_for_target_def)
  qed
qed

text \<open>
  The quote operations of the worker refine the models: the walks of
  \<open>check_quote_refinement\<close> and \<open>check_quote_approval_refinement\<close> end and pass, for every
  context. A run of the worker is the run of the domain over the actions it let through, and
  nobody but the author of a quote ever gets a revocation through.
\<close>

theorem quote_worker_refines:
  "(let allows = \<lambda>s a. qc_worker_allows (qc_with c s) a;
        effect = \<lambda>s a. qc_observable (qc_worker_effect (qc_with c s) a);
        actions = \<lambda>_. [quote_approval_worker_action.RemoteUpsert,
          quote_approval_worker_action.OwnerApprove, quote_approval_worker_action.OwnerReject,
          quote_approval_worker_action.Revoke]
    in settles (assert_model_matches_domain quote_approval_init_states quote_approval_actions
         quote_approval_next_state quote_approval_model_domain_step) True \<and>
       settles (assert_worker_refinement quote_worker_contexts
         (\<lambda>c. quote_model_actions (qw_state c)) quote_worker_allows quote_worker_effect
         quote_domain_step) True \<and>
       settles (assert_worker_refinement [qc_observable c] actions allows effect qo_domain_step)
         True \<and>
       foldl effect s as = foldl qo_domain_step s (accepted allows qo_domain_step s as) \<and>
       \<not> (quote_approval_worker_action.Revoke \<in> set (accepted allows qo_domain_step s as) \<and>
          \<not> qc_requester_is_quote_author c))"
proof -
  have "\<not> (quote_approval_worker_action.Revoke \<in>
        set (accepted (\<lambda>s a. qc_worker_allows (qc_with c s) a) qo_domain_step s as) \<and>
      \<not> qc_requester_is_quote_author c)"
    by (induction as arbitrary: s) (auto simp: qc_with_def)
  moreover have "settles (assert_model_matches_domain quote_approval_init_states
      quote_approval_actions quote_approval_next_state quote_approval_model_domain_step) True"
    by (rule matches_domain_finishes [OF finite_quote_approval_model_state])
       (rule quote_approval_model_matches)
  ultimately show ?thesis
    unfolding Let_def
    using quote_worker.check_finishes [OF finite_quote_worker_context]
      quote_approval_worker.check_finishes [OF finite_quote_approval_observable]
      quote_approval_worker.worker_run by blast
qed

end
