(* ===== verification/Model_Delivery.thy ===== *)
theory Model_Delivery
  imports Stateright Delivery
begin

text \<open>
  The models of outbound delivery in the model crate: two concurrent slots
  (\<open>concurrent_delivery.rs\<close>), the pool of slots (\<open>outbox_delivery_pool.rs\<close>), the
  delivery of a follow (\<open>outbound_follow.rs\<close>) and the outbox pipeline
  (\<open>outbox_pipeline.rs\<close>), with the worker refinements of each (\<open>refinement/\<close>). Arrays are
  lists of the fixed length; an operation on \<open>&mut\<close> that returns a \<open>bool\<close> is modelled as a
  function to the pair of the two.
\<close>

section \<open>Two concurrent slots\<close>

record concurrent_delivery_model_state =
  cd_slots :: "outbound_delivery_slot list"

datatype concurrent_delivery_action = SucceedSlot0 | SucceedSlot1 | FailSlot0 | FailSlot1

definition cd_slot_is_queued :: "concurrent_delivery_model_state \<Rightarrow> nat \<Rightarrow> bool" where
  "cd_slot_is_queued s i \<longleftrightarrow> ds_state (cd_slots s ! i) = outbound_activity_state.Queued"

fun cd_slot_index :: "concurrent_delivery_action \<Rightarrow> nat" where
  "cd_slot_index SucceedSlot0 = 0"
| "cd_slot_index FailSlot0 = 0"
| "cd_slot_index SucceedSlot1 = 1"
| "cd_slot_index FailSlot1 = 1"

fun cd_outcome :: "concurrent_delivery_action \<Rightarrow> delivery_attempt_outcome" where
  "cd_outcome SucceedSlot0 = delivery_attempt_outcome.Success"
| "cd_outcome SucceedSlot1 = delivery_attempt_outcome.Success"
| "cd_outcome FailSlot0 = delivery_attempt_outcome.Failure"
| "cd_outcome FailSlot1 = delivery_attempt_outcome.Failure"

definition apply_concurrent_delivery_action ::
    "outbound_delivery_slot list \<Rightarrow> concurrent_delivery_action \<Rightarrow>
     bool \<times> outbound_delivery_slot list" where
  "apply_concurrent_delivery_action slots a =
    (let i = cd_slot_index a; slot = slots ! i in
     if ds_state slot \<noteq> outbound_activity_state.Queued then (False, slots)
     else (True, slots[i := outbound_delivery_slot_after_attempt slot (cd_outcome a)]))"

definition cd_init_states :: "concurrent_delivery_model_state list" where
  "cd_init_states = [\<lparr>cd_slots = replicate 2 outbound_delivery_slot_queued\<rparr>]"

definition cd_actions :: "concurrent_delivery_model_state \<Rightarrow> concurrent_delivery_action list" where
  "cd_actions s =
    (if cd_slot_is_queued s 0 then [SucceedSlot0, FailSlot0] else []) @
    (if cd_slot_is_queued s 1 then [SucceedSlot1, FailSlot1] else [])"

definition cd_next_state ::
    "concurrent_delivery_model_state \<Rightarrow> concurrent_delivery_action \<Rightarrow>
     concurrent_delivery_model_state option" where
  "cd_next_state s a =
    (case apply_concurrent_delivery_action (cd_slots s) a of
       (applied, slots) \<Rightarrow> then_some applied (s\<lparr>cd_slots := slots\<rparr>))"

definition cd_always :: "concurrent_delivery_model_state named_property list" where
  "cd_always =
    [(''each_slot_respects_retry_threshold'',
      \<lambda>s. list_all (\<lambda>slot. ds_state slot \<noteq> outbound_activity_state.Queued \<or>
        ds_attempt_count slot < DELIVERY_MAX_ATTEMPTS) (cd_slots s)),
     (''terminal_slot_requires_max_attempts'',
      \<lambda>s. list_all (\<lambda>slot. ds_state slot \<noteq> outbound_activity_state.Failed \<or>
        ds_attempt_count slot \<ge> DELIVERY_MAX_ATTEMPTS) (cd_slots s)),
     (''slots_evolve_independently'',
      \<lambda>s. length (filter (\<lambda>slot. ds_state slot \<noteq> outbound_activity_state.Queued) (cd_slots s))
        \<le> 2)]"

definition cd_sometimes :: "concurrent_delivery_model_state named_property list" where
  "cd_sometimes =
    [(''both_slots_delivered_reachable'',
      \<lambda>s. list_all (\<lambda>slot. ds_state slot = outbound_activity_state.Delivered) (cd_slots s)),
     (''mixed_terminal_states_reachable'',
      \<lambda>s. ds_state (cd_slots s ! 0) = outbound_activity_state.Delivered \<and>
        ds_state (cd_slots s ! 1) = outbound_activity_state.Failed)]"

text \<open>
  A slot that has only seen successes and transient failures: it is below the limit while
  queued, and has used up all attempts when it has failed.
\<close>

definition transient_slot_ok :: "outbound_delivery_slot \<Rightarrow> bool" where
  "transient_slot_ok s \<longleftrightarrow> slot_ok s \<and>
    (ds_state s = outbound_activity_state.Failed \<longrightarrow> unat (ds_attempt_count s) = 5)"

lemma transient_slot_after_attempt:
  assumes "transient_slot_ok s" "x \<noteq> PermanentFailure"
  shows "transient_slot_ok (outbound_delivery_slot_after_attempt s x)"
proof (cases "slot_open s")
  case True
  have ok: "slot_ok s" using assms(1) by (simp add: transient_slot_ok_def)
  have less: "slot_attempts s < 5"
    using True ok by (simp add: slot_ok_def slot_open_def slot_attempts_def)
  then have next_count: "unat (next_delivery_attempt_count (ds_attempt_count s)) = Suc (slot_attempts s)"
    by (simp add: slot_attempts_def unat_next_attempt)
  show ?thesis
    using slot_after_attempt_cases [OF True ok, of x] slot_after_attempt_ok [OF ok, of x]
      assms(2) less next_count
    by (cases x) (auto simp: transient_slot_ok_def split: if_splits)
next
  case False
  then show ?thesis
    using assms(1) slot.closed_stays [of s x] by (simp add: transient_slot_ok_def)
qed

definition cd_inv :: "concurrent_delivery_model_state \<Rightarrow> bool" where
  "cd_inv s \<longleftrightarrow> length (cd_slots s) = 2 \<and> list_all transient_slot_ok (cd_slots s)"

lemma list_all_update: "list_all P xs \<Longrightarrow> P x \<Longrightarrow> list_all P (xs[i := x])"
  by (auto simp: list_all_iff dest: set_update_subset_insert [THEN subsetD])

lemma cd_step_inv: "cd_inv s \<Longrightarrow> cd_next_state s a = Some t \<Longrightarrow> cd_inv t"
proof -
  assume inv: "cd_inv s" and nxt: "cd_next_state s a = Some t"
  have "cd_slot_index a < 2" and "cd_outcome a \<noteq> PermanentFailure" by (cases a; simp)+
  then have "transient_slot_ok (outbound_delivery_slot_after_attempt
      (cd_slots s ! cd_slot_index a) (cd_outcome a))"
    using inv by (intro transient_slot_after_attempt) (auto simp: cd_inv_def list_all_length)
  with inv nxt show "cd_inv t"
    by (auto simp: cd_next_state_def apply_concurrent_delivery_action_def cd_inv_def Let_def
        list_all_update split: if_splits)
qed

interpretation cd_model: model_invariant cd_init_states cd_actions cd_next_state cd_inv
proof unfold_locales
  show "s \<in> set cd_init_states \<Longrightarrow> cd_inv s" for s
    by (simp add: cd_init_states_def cd_inv_def transient_slot_ok_def list_all_iff
        outbound_delivery_slot_queued_def slot_ok_def)
  show "cd_inv s \<Longrightarrow> a \<in> set (cd_actions s) \<Longrightarrow> cd_next_state s a = Some t \<Longrightarrow> cd_inv t" for s a t
    by (rule cd_step_inv)
qed

lemma cd_always_holds: "cd_inv s \<Longrightarrow> list_all (\<lambda>p. snd p s) cd_always"
proof -
  assume inv: "cd_inv s"
  have "length (filter P (cd_slots s)) \<le> 2" for P
    using inv length_filter_le [of P "cd_slots s"] by (simp add: cd_inv_def)
  with inv show ?thesis
    by (auto simp: cd_always_def cd_inv_def list_all_iff transient_slot_ok_def slot_ok_def
        DELIVERY_MAX_ATTEMPTS_def word_less_nat_alt word_le_nat_alt)
qed

lemma cd_sometimes_holds: "sometimes_holds cd_init_states cd_actions cd_next_state cd_sometimes"
proof (rule sometimes_holdsI)
  show "list_all2 (\<lambda>p (s, as). s \<in> set cd_init_states \<and>
      (case run_path cd_actions cd_next_state s as of Some t \<Rightarrow> snd p t | None \<Rightarrow> False))
    cd_sometimes
    [(cd_init_states ! 0, [SucceedSlot0, SucceedSlot1]),
     (cd_init_states ! 0,
      [SucceedSlot0, FailSlot1, FailSlot1, FailSlot1, FailSlot1, FailSlot1])]"
    by code_simp
qed

subsection \<open>The worker\<close>

definition cd_worker_allows ::
    "concurrent_delivery_model_state \<Rightarrow> concurrent_delivery_action \<Rightarrow> bool" where
  "cd_worker_allows s a = cd_slot_is_queued s (cd_slot_index a)"

definition cd_worker_effect ::
    "concurrent_delivery_model_state \<Rightarrow> concurrent_delivery_action \<Rightarrow>
     concurrent_delivery_model_state" where
  "cd_worker_effect s a = s\<lparr>cd_slots := snd (apply_concurrent_delivery_action (cd_slots s) a)\<rparr>"

definition cd_domain_step ::
    "concurrent_delivery_model_state \<Rightarrow> concurrent_delivery_action \<Rightarrow>
     concurrent_delivery_model_state" where
  "cd_domain_step s a = unwrap_or (cd_next_state s a) s"

interpretation cd_worker: worker_refinement cd_worker_allows cd_worker_effect cd_domain_step
  by unfold_locales
     (auto simp: cd_worker_allows_def cd_worker_effect_def cd_domain_step_def cd_next_state_def
       cd_slot_is_queued_def apply_concurrent_delivery_action_def Let_def)

section \<open>The pool of delivery slots\<close>

text \<open>
  \<open>queued_at\<close> counts, for each number of attempts used, the slots still queued. The counters are
  \<open>u8\<close>; the invariant shows that none of the additions and subtractions overflows.
\<close>

definition POOL_SIZE :: u8 where
  "POOL_SIZE = ucast OUTBOX_DELIVERY_CONCURRENCY"

definition MAX_QUEUED_ATTEMPT_INDEX :: nat where
  "MAX_QUEUED_ATTEMPT_INDEX = unat (DELIVERY_MAX_ATTEMPTS - 1)"

record outbox_delivery_pool_model_state =
  op_queued_at :: "u8 list"
  op_delivered :: u8
  op_failed :: u8

datatype outbox_delivery_pool_action = SucceedAt u8 | FailAt u8

definition op_has_queued_slots_at :: "outbox_delivery_pool_model_state \<Rightarrow> u8 \<Rightarrow> bool" where
  "op_has_queued_slots_at s attempt_index =
    (let i = unat attempt_index in i < length (op_queued_at s) \<and> op_queued_at s ! i > 0)"

definition op_total_slots :: "outbox_delivery_pool_model_state \<Rightarrow> u8" where
  "op_total_slots s = op_delivered s + op_failed s + sum_list (op_queued_at s)"

definition apply_outbox_delivery_pool_outcome ::
    "outbox_delivery_pool_model_state \<Rightarrow> u8 \<Rightarrow> delivery_attempt_outcome \<Rightarrow>
     bool \<times> outbox_delivery_pool_model_state" where
  "apply_outbox_delivery_pool_outcome s attempt_index outcome =
    (let i = unat attempt_index in
     if i \<ge> length (op_queued_at s) \<or> op_queued_at s ! i = 0 then (False, s)
     else
       let slot = \<lparr>ds_state = outbound_activity_state.Queued,
                   ds_attempt_count = ucast attempt_index\<rparr>;
           nxt = outbound_delivery_slot_after_attempt slot outcome;
           s = s\<lparr>op_queued_at := (op_queued_at s)[i := op_queued_at s ! i - 1]\<rparr>
       in (True,
           case ds_state nxt of
             outbound_activity_state.Queued \<Rightarrow>
               (let next_index = unat (ds_attempt_count nxt) in
                if next_index < length (op_queued_at s)
                then s\<lparr>op_queued_at :=
                       (op_queued_at s)[next_index := op_queued_at s ! next_index + 1]\<rparr>
                else s)
           | outbound_activity_state.Delivered \<Rightarrow> s\<lparr>op_delivered := op_delivered s + 1\<rparr>
           | outbound_activity_state.Failed \<Rightarrow> s\<lparr>op_failed := op_failed s + 1\<rparr>))"

definition op_init_states :: "outbox_delivery_pool_model_state list" where
  "op_init_states =
    (let s = \<lparr>op_queued_at = replicate (unat DELIVERY_MAX_ATTEMPTS) 0, op_delivered = 0,
              op_failed = 0\<rparr>
     in [s\<lparr>op_queued_at := (op_queued_at s)
           [0 := outbox_delivery_pool_size POOL_SIZE OUTBOX_DELIVERY_CONCURRENCY]\<rparr>])"

definition op_actions ::
    "outbox_delivery_pool_model_state \<Rightarrow> outbox_delivery_pool_action list" where
  "op_actions s =
    concat (map (\<lambda>i. if op_queued_at s ! i > 0
                     then [SucceedAt (of_nat i), FailAt (of_nat i)] else [])
      [0 ..< Suc MAX_QUEUED_ATTEMPT_INDEX])"

fun op_apply ::
    "outbox_delivery_pool_model_state \<Rightarrow> outbox_delivery_pool_action \<Rightarrow>
     bool \<times> outbox_delivery_pool_model_state" where
  "op_apply s (SucceedAt i) =
     apply_outbox_delivery_pool_outcome s i delivery_attempt_outcome.Success"
| "op_apply s (FailAt i) =
     apply_outbox_delivery_pool_outcome s i delivery_attempt_outcome.Failure"

definition op_next_state ::
    "outbox_delivery_pool_model_state \<Rightarrow> outbox_delivery_pool_action \<Rightarrow>
     outbox_delivery_pool_model_state option" where
  "op_next_state s a = (case op_apply s a of (applied, nxt) \<Rightarrow> then_some applied nxt)"

definition op_always :: "outbox_delivery_pool_model_state named_property list" where
  "op_always =
    [(''pool_size_matches_outbox_concurrency'',
      \<lambda>s. op_total_slots s = outbox_delivery_pool_size POOL_SIZE OUTBOX_DELIVERY_CONCURRENCY),
     (''queued_slots_respect_retry_threshold'',
      \<lambda>s. list_all (\<lambda>(i, count). count = 0 \<or> i < unat DELIVERY_MAX_ATTEMPTS)
        (List.enumerate 0 (op_queued_at s))),
     (''failed_slots_imply_terminal_retry_count'',
      \<lambda>s. op_failed s = 0 \<or> op_queued_at s ! unat (DELIVERY_MAX_ATTEMPTS - 1) < POOL_SIZE),
     (''delivered_and_failed_never_return_to_queue'',
      \<lambda>s. op_delivered s \<le> POOL_SIZE \<and> op_failed s \<le> POOL_SIZE)]"

definition op_sometimes :: "outbox_delivery_pool_model_state named_property list" where
  "op_sometimes =
    [(''all_delivered_reachable'',
      \<lambda>s. op_delivered s = POOL_SIZE \<and> op_failed s = 0 \<and>
        list_all (\<lambda>count. count = 0) (op_queued_at s)),
     (''mixed_terminal_pool_reachable'', \<lambda>s. op_delivered s > 0 \<and> op_failed s > 0)]"

text \<open>No slot is lost or made up: the three kinds of slots add up to the size of the pool.\<close>

definition op_sum :: "outbox_delivery_pool_model_state \<Rightarrow> nat" where
  "op_sum s = unat (op_delivered s) + unat (op_failed s) + sum_list (map unat (op_queued_at s))"

definition op_inv :: "outbox_delivery_pool_model_state \<Rightarrow> bool" where
  "op_inv s \<longleftrightarrow> length (op_queued_at s) = 5 \<and> op_sum s = 8"

lemma unat_pred: "x \<noteq> 0 \<Longrightarrow> unat (x - 1 :: u8) = unat x - 1"
  by (simp add: unat_minus_one)

lemma unat_succ: "unat x < 255 \<Longrightarrow> unat (x + 1 :: u8) = Suc (unat x)"
  by (simp add: unat_word_ariths)

lemma elem_le_sum: "i < length xs \<Longrightarrow> xs ! i \<le> sum_list xs" for xs :: "nat list"
  by (induction xs arbitrary: i) (auto simp: nth_Cons split: nat.splits, force)

lemma queued_sum_update:
  assumes "i < length qs"
  shows "sum_list (map unat (qs[i := v])) + unat (qs ! i) = sum_list (map unat qs) + unat (v :: u8)"
  using assms elem_le_sum [of i "map unat qs"]
  by (simp add: map_update sum_list_update)

lemma pool_constants:
  "unat DELIVERY_MAX_ATTEMPTS = 5" "unat (DELIVERY_MAX_ATTEMPTS - 1) = 4" "POOL_SIZE = 8"
  "outbox_delivery_pool_size 8 OUTBOX_DELIVERY_CONCURRENCY = 8"
  by (simp_all add: DELIVERY_MAX_ATTEMPTS_def POOL_SIZE_def OUTBOX_DELIVERY_CONCURRENCY_def
      outbox_delivery_pool_size_def)

text \<open>What an attempt does to the pool: a slot leaves its queue, for the next one or for good.\<close>

lemma op_apply_outcome_cases:
  assumes "op_inv s" "apply_outbox_delivery_pool_outcome s k x = (True, t)"
  obtains (requeued) i qs where "i < 5" "op_queued_at s ! i \<noteq> 0" "Suc i < 5"
      "qs = (op_queued_at s)[i := op_queued_at s ! i - 1]"
      "t = s\<lparr>op_queued_at := qs[Suc i := qs ! Suc i + 1]\<rparr>"
  | (delivered) i where "i < 5" "op_queued_at s ! i \<noteq> 0"
      "t = s\<lparr>op_queued_at := (op_queued_at s)[i := op_queued_at s ! i - 1],
             op_delivered := op_delivered s + 1\<rparr>"
  | (failed) i where "i < 5" "op_queued_at s ! i \<noteq> 0"
      "t = s\<lparr>op_queued_at := (op_queued_at s)[i := op_queued_at s ! i - 1],
             op_failed := op_failed s + 1\<rparr>"
proof -
  let ?i = "unat k" and ?qs = "op_queued_at s"
  let ?slot = "\<lparr>ds_state = outbound_activity_state.Queued, ds_attempt_count = ucast k\<rparr>"
  let ?nxt = "outbound_delivery_slot_after_attempt ?slot x"
  let ?qs' = "?qs[?i := ?qs ! ?i - 1]"
  have i: "?i < 5" and pos: "?qs ! ?i \<noteq> 0" and len: "length ?qs = 5"
    using assms
    by (auto simp: apply_outbox_delivery_pool_outcome_def op_inv_def Let_def split: if_splits)
  have slot: "slot_open ?slot" "slot_ok ?slot"
    using i by (simp_all add: slot_open_def slot_ok_def slot_attempts_def)
  have nxt: "unat (ds_attempt_count ?nxt) = Suc ?i \<and> Suc ?i < 5"
    if "ds_state ?nxt = outbound_activity_state.Queued"
    using that slot_after_attempt_cases [OF slot, of x] unat_next_attempt [of "ucast k :: u32"] i
    by (cases x) (auto simp: slot_attempts_def split: if_splits)
  have "t = (case ds_state ?nxt of
      outbound_activity_state.Queued \<Rightarrow>
        (if unat (ds_attempt_count ?nxt) < 5
         then s\<lparr>op_queued_at := ?qs'[unat (ds_attempt_count ?nxt) :=
                ?qs' ! unat (ds_attempt_count ?nxt) + 1]\<rparr>
         else s\<lparr>op_queued_at := ?qs'\<rparr>)
    | outbound_activity_state.Delivered \<Rightarrow>
        s\<lparr>op_queued_at := ?qs', op_delivered := op_delivered s + 1\<rparr>
    | outbound_activity_state.Failed \<Rightarrow>
        s\<lparr>op_queued_at := ?qs', op_failed := op_failed s + 1\<rparr>)"
    using assms(2) i pos len
    by (auto simp: apply_outbox_delivery_pool_outcome_def Let_def split: outbound_activity_state.splits)
  then show ?thesis
    using that i pos nxt by (cases "ds_state ?nxt") auto
qed

lemma op_queue_decreased:
  assumes "op_inv s" "i < 5" "op_queued_at s ! i \<noteq> 0"
    "qs = (op_queued_at s)[i := op_queued_at s ! i - 1]"
  shows "Suc (sum_list (map unat qs)) = sum_list (map unat (op_queued_at s))" "length qs = 5"
    "sum_list (map unat qs) \<le> 8" "unat (op_delivered s) \<le> 8" "unat (op_failed s) \<le> 8"
proof -
  show dec: "Suc (sum_list (map unat qs)) = sum_list (map unat (op_queued_at s))"
    using queued_sum_update [of i "op_queued_at s" "op_queued_at s ! i - 1"] assms
      unat_gt_0 [of "op_queued_at s ! i"]
    by (simp add: op_inv_def unat_pred)
  show "length qs = 5" using assms by (simp add: op_inv_def)
  show "sum_list (map unat qs) \<le> 8" "unat (op_delivered s) \<le> 8" "unat (op_failed s) \<le> 8"
    using assms(1) dec by (auto simp: op_inv_def op_sum_def)
qed

lemma op_queue_increased:
  assumes "length qs = 5" "sum_list (map unat qs) \<le> 8" "n < 5"
  shows "unat (qs ! n + 1 :: u8) = Suc (unat (qs ! n))"
    "sum_list (map unat (qs[n := qs ! n + 1])) = Suc (sum_list (map unat qs))"
proof -
  have "unat (qs ! n) \<le> 8"
    using elem_le_sum [of n "map unat qs"] assms by simp
  then show "unat (qs ! n + 1) = Suc (unat (qs ! n))" by (intro unat_succ) simp
  with queued_sum_update [of n qs "qs ! n + 1"] assms
  show "sum_list (map unat (qs[n := qs ! n + 1])) = Suc (sum_list (map unat qs))" by simp
qed

lemma op_apply_outcome_inv:
  assumes "op_inv s" "apply_outbox_delivery_pool_outcome s k x = (True, t)"
  shows "op_inv t"
  using assms
proof (cases rule: op_apply_outcome_cases)
  case (requeued i qs)
  note dec = op_queue_decreased [OF assms(1) requeued(1,2,4)]
  show ?thesis
    using op_queue_increased(2) [OF dec(2,3) requeued(3)] dec(1,2) assms(1)
    by (simp add: requeued(5) op_inv_def op_sum_def)
next
  case (delivered i)
  note dec = op_queue_decreased [OF assms(1) delivered(1,2) refl]
  have "unat (op_delivered s + 1) = Suc (unat (op_delivered s))"
    using dec(4) by (intro unat_succ) simp
  with dec(1,2) assms(1) show ?thesis by (simp add: delivered(3) op_inv_def op_sum_def)
next
  case (failed i)
  note dec = op_queue_decreased [OF assms(1) failed(1,2) refl]
  have "unat (op_failed s + 1) = Suc (unat (op_failed s))"
    using dec(5) by (intro unat_succ) simp
  with dec(1,2) assms(1) show ?thesis by (simp add: failed(3) op_inv_def op_sum_def)
qed

lemma op_step_inv: "op_inv s \<Longrightarrow> op_next_state s a = Some t \<Longrightarrow> op_inv t"
  by (cases a)
     (auto simp: op_next_state_def then_some_def intro: op_apply_outcome_inv split: if_splits prod.splits)

lemma numeral_5: "replicate 5 x = [x, x, x, x, x]"
  by (simp add: eval_nat_numeral)

interpretation op_model: model_invariant op_init_states op_actions op_next_state op_inv
proof unfold_locales
  show "s \<in> set op_init_states \<Longrightarrow> op_inv s" for s
    by (simp add: op_init_states_def op_inv_def op_sum_def pool_constants Let_def numeral_5)
  show "op_inv s \<Longrightarrow> a \<in> set (op_actions s) \<Longrightarrow> op_next_state s a = Some t \<Longrightarrow> op_inv t" for s a t
    by (rule op_step_inv)
qed

lemma unat_sum_list: "sum_list (map unat xs) < 256 \<Longrightarrow> unat (sum_list xs :: u8) = sum_list (map unat xs)"
  by (induction xs) (simp_all add: unat_word_ariths)

lemma op_always_holds: "op_inv s \<Longrightarrow> list_all (\<lambda>p. snd p s) op_always"
proof -
  assume inv: "op_inv s"
  then have len: "length (op_queued_at s) = 5" and sum: "op_sum s = 8"
    by (simp_all add: op_inv_def)
  have "unat (op_total_slots s) = 8"
    using sum unat_sum_list [of "op_queued_at s"]
    by (simp add: op_total_slots_def op_sum_def unat_word_ariths)
  then have "op_total_slots s = 8" by (simp add: word_unat_eq_iff)
  moreover have "op_failed s = 0 \<or> op_queued_at s ! 4 < 8"
    using sum elem_le_sum [of 4 "map unat (op_queued_at s)"] len
    by (auto simp: op_sum_def word_less_nat_alt word_unat_eq_iff)
  moreover have "op_delivered s \<le> 8" "op_failed s \<le> 8"
    using sum by (simp_all add: op_sum_def word_le_nat_alt)
  moreover have "list_all (\<lambda>(i, count). count = 0 \<or> i < 5) (List.enumerate 0 (op_queued_at s))"
    using len by (auto simp: list_all_iff in_set_enumerate_eq)
  ultimately show ?thesis by (simp add: op_always_def pool_constants)
qed

lemma op_sometimes_holds: "sometimes_holds op_init_states op_actions op_next_state op_sometimes"
proof (rule sometimes_holdsI)
  show "list_all2 (\<lambda>p (s, as). s \<in> set op_init_states \<and>
      (case run_path op_actions op_next_state s as of Some t \<Rightarrow> snd p t | None \<Rightarrow> False))
    op_sometimes
    [(op_init_states ! 0, replicate 8 (SucceedAt 0)),
     (op_init_states ! 0, [SucceedAt 0, FailAt 0, FailAt 1, FailAt 2, FailAt 3, FailAt 4])]"
    by code_simp
qed

subsection \<open>The worker\<close>

definition op_worker_slot_after_attempt ::
    "u32 \<Rightarrow> delivery_attempt_outcome \<Rightarrow> outbound_delivery_slot" where
  "op_worker_slot_after_attempt attempt_count outcome =
    outbound_delivery_slot_after_attempt
      \<lparr>ds_state = outbound_activity_state.Queued, ds_attempt_count = attempt_count\<rparr> outcome"

definition op_worker_marks_terminal_failure :: "u32 \<Rightarrow> bool" where
  "op_worker_marks_terminal_failure attempt_count =
    is_delivery_terminal (next_delivery_attempt_count attempt_count)"

fun op_worker_allows ::
    "outbox_delivery_pool_model_state \<Rightarrow> outbox_delivery_pool_action \<Rightarrow> bool" where
  "op_worker_allows s (SucceedAt i) = op_has_queued_slots_at s i"
| "op_worker_allows s (FailAt i) = op_has_queued_slots_at s i"

definition op_worker_effect ::
    "outbox_delivery_pool_model_state \<Rightarrow> outbox_delivery_pool_action \<Rightarrow>
     outbox_delivery_pool_model_state" where
  "op_worker_effect s a = snd (op_apply s a)"

definition op_domain_step ::
    "outbox_delivery_pool_model_state \<Rightarrow> outbox_delivery_pool_action \<Rightarrow>
     outbox_delivery_pool_model_state" where
  "op_domain_step s a = unwrap_or (op_next_state s a) s"

lemma op_applied_iff:
  "fst (apply_outbox_delivery_pool_outcome s i x) = op_has_queued_slots_at s i"
  "\<not> op_has_queued_slots_at s i \<Longrightarrow> snd (apply_outbox_delivery_pool_outcome s i x) = s"
  by (auto simp: apply_outbox_delivery_pool_outcome_def op_has_queued_slots_at_def Let_def
      word_neq_0_conv)

interpretation op_worker: worker_refinement op_worker_allows op_worker_effect op_domain_step
proof unfold_locales
  show "op_worker_allows s a \<Longrightarrow> op_worker_effect s a = op_domain_step s a" for s a
    using op_applied_iff(1)
    by (cases a; cases "op_apply s a")
       (simp_all add: op_worker_effect_def op_domain_step_def op_next_state_def then_some_def,
        (metis fst_conv)+)
  show "\<not> op_worker_allows s a \<Longrightarrow> op_worker_effect s a = s" for s a
    by (cases a) (simp_all add: op_worker_effect_def op_applied_iff)
qed

text \<open>The worker's terminal guard agrees with the slot, for every count a queued slot can have.\<close>

lemma op_terminal_guard:
  assumes "unat attempt_count < 5"
  shows "op_worker_marks_terminal_failure attempt_count \<longleftrightarrow>
    ds_state (op_worker_slot_after_attempt attempt_count delivery_attempt_outcome.Failure) =
      outbound_activity_state.Failed"
  using assms unat_next_attempt [of attempt_count]
    slot_after_attempt_cases [of "\<lparr>ds_state = outbound_activity_state.Queued,
      ds_attempt_count = attempt_count\<rparr>" delivery_attempt_outcome.Failure]
  by (auto simp: op_worker_marks_terminal_failure_def op_worker_slot_after_attempt_def
      is_delivery_terminal_iff slot_open_def slot_ok_def slot_attempts_def)

section \<open>Delivery of a follow\<close>

record outbound_follow_model_state =
  of_outbound_state :: outbound_activity_state
  of_follow_state :: remote_follow_state
  of_attempt_count :: u32
  of_activity_is_follow :: bool

datatype outbound_follow_action =
    DeliverySucceeds
  | DeliveryFails
  | ReceiveFollowAccept
  | ReceiveFollowReject

definition of_outbound_queued :: "outbound_follow_model_state \<Rightarrow> bool" where
  "of_outbound_queued s \<longleftrightarrow> of_outbound_state s = outbound_activity_state.Queued"

definition apply_outbound_follow_delivery_outcome ::
    "outbound_follow_model_state \<Rightarrow> delivery_attempt_outcome \<Rightarrow>
     bool \<times> outbound_follow_model_state" where
  "apply_outbound_follow_delivery_outcome s outcome =
    (if of_outbound_state s \<noteq> outbound_activity_state.Queued then (False, s)
     else
       let next_attempt = next_delivery_attempt_count (of_attempt_count s);
           s = (if outcome = delivery_attempt_outcome.Failure \<or> outcome = PermanentFailure
                then s\<lparr>of_attempt_count := next_attempt\<rparr> else s);
           s = s\<lparr>of_outbound_state :=
                 outbound_state_after_delivery_attempt (of_outbound_state s) next_attempt outcome\<rparr>;
           s = (if of_outbound_state s = outbound_activity_state.Failed
                then let activity_type = (if of_activity_is_follow s then ''Follow'' else ''Undo'')
                     in s\<lparr>of_follow_state :=
                          reconcile_pending_follow_on_outbound_terminal_failure
                            (of_follow_state s) activity_type\<rparr>
                else s)
       in (True, s))"

definition apply_outbound_follow_inbox_response ::
    "outbound_follow_model_state \<Rightarrow> follow_inbox_response \<Rightarrow>
     bool \<times> outbound_follow_model_state" where
  "apply_outbound_follow_inbox_response s response =
    (if \<not> of_activity_is_follow s then (False, s)
     else (True, s\<lparr>of_follow_state :=
       follow_state_after_inbox_response (of_follow_state s) response\<rparr>))"

definition of_init_states :: "outbound_follow_model_state list" where
  "of_init_states =
    [\<lparr>of_outbound_state = outbound_activity_state.Queued,
      of_follow_state = initial_remote_follow_state actor_locked, of_attempt_count = 0,
      of_activity_is_follow = activity_is_follow\<rparr>.
     actor_locked \<leftarrow> [False, True], activity_is_follow \<leftarrow> [False, True]]"

definition of_actions :: "outbound_follow_model_state \<Rightarrow> outbound_follow_action list" where
  "of_actions s =
    (if of_outbound_queued s then [DeliverySucceeds, DeliveryFails] else []) @
    (if of_activity_is_follow s then [ReceiveFollowAccept, ReceiveFollowReject] else [])"

fun of_apply ::
    "outbound_follow_model_state \<Rightarrow> outbound_follow_action \<Rightarrow>
     bool \<times> outbound_follow_model_state" where
  "of_apply s DeliverySucceeds =
     apply_outbound_follow_delivery_outcome s delivery_attempt_outcome.Success"
| "of_apply s DeliveryFails =
     apply_outbound_follow_delivery_outcome s delivery_attempt_outcome.Failure"
| "of_apply s ReceiveFollowAccept = apply_outbound_follow_inbox_response s Accept"
| "of_apply s ReceiveFollowReject = apply_outbound_follow_inbox_response s Reject"

definition of_next_state ::
    "outbound_follow_model_state \<Rightarrow> outbound_follow_action \<Rightarrow>
     outbound_follow_model_state option" where
  "of_next_state s a = (case of_apply s a of (applied, nxt) \<Rightarrow> then_some applied nxt)"

definition of_always :: "outbound_follow_model_state named_property list" where
  "of_always =
    [(''queued_attempts_below_terminal_threshold'',
      \<lambda>s. of_outbound_state s \<noteq> outbound_activity_state.Queued \<or>
        of_attempt_count s < DELIVERY_MAX_ATTEMPTS),
     (''terminal_outbound_requires_max_attempts'',
      \<lambda>s. of_outbound_state s \<noteq> outbound_activity_state.Failed \<or>
        of_attempt_count s \<ge> DELIVERY_MAX_ATTEMPTS),
     (''failed_follow_requires_follow_activity'',
      \<lambda>s. of_follow_state s \<noteq> remote_follow_state.Failed \<or> of_activity_is_follow s),
     (''non_follow_terminal_does_not_fail_pending_follow'',
      \<lambda>s. \<not> (\<not> of_activity_is_follow s \<and>
        of_outbound_state s = outbound_activity_state.Failed \<and>
        of_follow_state s = remote_follow_state.Failed)),
     (''failed_follow_implies_terminal_outbound'',
      \<lambda>s. of_follow_state s \<noteq> remote_follow_state.Failed \<or>
        of_outbound_state s = outbound_activity_state.Failed),
     (''rejected_follow_requires_follow_activity'',
      \<lambda>s. of_follow_state s \<noteq> remote_follow_state.Rejected \<or> of_activity_is_follow s)]"

definition of_sometimes :: "outbound_follow_model_state named_property list" where
  "of_sometimes =
    [(''delivered_reachable'', \<lambda>s. of_outbound_state s = outbound_activity_state.Delivered),
     (''failed_outbound_reachable'', \<lambda>s. of_outbound_state s = outbound_activity_state.Failed),
     (''failed_follow_reachable'', \<lambda>s. of_follow_state s = remote_follow_state.Failed),
     (''rejected_follow_reachable'', \<lambda>s. of_follow_state s = remote_follow_state.Rejected)]"

definition of_inv :: "outbound_follow_model_state \<Rightarrow> bool" where
  "of_inv s \<longleftrightarrow>
    unat (of_attempt_count s) \<le> 5 \<and>
    (of_outbound_state s = outbound_activity_state.Queued \<longrightarrow> unat (of_attempt_count s) < 5) \<and>
    (of_outbound_state s = outbound_activity_state.Failed \<longrightarrow> unat (of_attempt_count s) = 5) \<and>
    (of_follow_state s = remote_follow_state.Failed \<longrightarrow>
       of_activity_is_follow s \<and> of_outbound_state s = outbound_activity_state.Failed) \<and>
    (of_follow_state s = remote_follow_state.Rejected \<longrightarrow> of_activity_is_follow s)"

lemma reconcile_cases:
  "reconcile_pending_follow_on_outbound_terminal_failure f (if is_follow then ''Follow'' else ''Undo'') =
    (if f = remote_follow_state.Pending \<and> is_follow then remote_follow_state.Failed else f)"
  by (simp add: reconcile_pending_follow_on_outbound_terminal_failure_def
      outbound_terminal_failure_follow_state_def)

lemma of_delivery_inv:
  assumes "of_inv s" "x \<noteq> PermanentFailure"
  shows "of_inv (snd (apply_outbound_follow_delivery_outcome s x))"
  using assms unat_next_attempt [of "of_attempt_count s"]
  by (cases x)
     (auto simp: apply_outbound_follow_delivery_outcome_def of_inv_def Let_def
       is_delivery_terminal_iff reconcile_cases)

lemma of_response_inv: "of_inv s \<Longrightarrow> of_inv (snd (apply_outbound_follow_inbox_response s r))"
  by (cases r) (auto simp: apply_outbound_follow_inbox_response_def of_inv_def)

lemma of_apply_inv: "of_inv s \<Longrightarrow> of_inv (snd (of_apply s a))"
  by (cases a) (simp_all add: of_delivery_inv of_response_inv)

interpretation of_model: model_invariant of_init_states of_actions of_next_state of_inv
proof unfold_locales
  show "s \<in> set of_init_states \<Longrightarrow> of_inv s" for s
    by (auto simp: of_init_states_def of_inv_def initial_remote_follow_state_def)
  show "of_inv s \<Longrightarrow> a \<in> set (of_actions s) \<Longrightarrow> of_next_state s a = Some t \<Longrightarrow> of_inv t" for s a t
    using of_apply_inv [of s a]
    by (auto simp: of_next_state_def then_some_def split: prod.splits if_splits)
qed

lemma of_always_holds: "of_inv s \<Longrightarrow> list_all (\<lambda>p. snd p s) of_always"
  by (auto simp: of_always_def of_inv_def DELIVERY_MAX_ATTEMPTS_def word_less_nat_alt word_le_nat_alt)

lemma of_sometimes_holds: "sometimes_holds of_init_states of_actions of_next_state of_sometimes"
proof (rule sometimes_holdsI)
  show "list_all2 (\<lambda>p (s, as). s \<in> set of_init_states \<and>
      (case run_path of_actions of_next_state s as of Some t \<Rightarrow> snd p t | None \<Rightarrow> False))
    of_sometimes
    [(of_init_states ! 0, [DeliverySucceeds]), (of_init_states ! 0, replicate 5 DeliveryFails),
     (of_init_states ! 3, replicate 5 DeliveryFails), (of_init_states ! 1, [ReceiveFollowReject])]"
    by code_simp
qed

subsection \<open>The worker\<close>

definition of_worker_reconciles_follow_on_terminal_failure :: "string \<Rightarrow> bool" where
  "of_worker_reconciles_follow_on_terminal_failure activity_type \<longleftrightarrow>
    outbound_terminal_failure_follow_state activity_type \<noteq> None"

fun of_worker_allows ::
    "outbound_follow_model_state \<Rightarrow> outbound_follow_action \<Rightarrow> bool" where
  "of_worker_allows s DeliverySucceeds = of_outbound_queued s"
| "of_worker_allows s DeliveryFails = of_outbound_queued s"
| "of_worker_allows s ReceiveFollowAccept = of_activity_is_follow s"
| "of_worker_allows s ReceiveFollowReject = of_activity_is_follow s"

definition of_worker_effect ::
    "outbound_follow_model_state \<Rightarrow> outbound_follow_action \<Rightarrow> outbound_follow_model_state" where
  "of_worker_effect s a = snd (of_apply s a)"

definition of_domain_step ::
    "outbound_follow_model_state \<Rightarrow> outbound_follow_action \<Rightarrow> outbound_follow_model_state" where
  "of_domain_step s a = unwrap_or (of_next_state s a) s"

interpretation of_worker: worker_refinement of_worker_allows of_worker_effect of_domain_step
proof unfold_locales
  show "of_worker_allows s a \<Longrightarrow> of_worker_effect s a = of_domain_step s a" for s a
    by (cases a)
       (simp_all add: of_worker_effect_def of_domain_step_def of_next_state_def of_outbound_queued_def
         apply_outbound_follow_delivery_outcome_def apply_outbound_follow_inbox_response_def Let_def)
  show "\<not> of_worker_allows s a \<Longrightarrow> of_worker_effect s a = s" for s a
    by (cases a)
       (simp_all add: of_worker_effect_def of_outbound_queued_def
         apply_outbound_follow_delivery_outcome_def apply_outbound_follow_inbox_response_def)
qed

section \<open>The outbox pipeline\<close>

definition MAX_TARGET_SLOTS :: nat where
  "MAX_TARGET_SLOTS = 2"

record target_slot_state =
  ts_active :: bool
  ts_state :: outbox_delivery_record_state
  ts_attempt_count :: u32

record outbox_pipeline_model_state =
  px_generic_parent :: outbox_delivery_record_state
  px_follower_target_count :: u32
  px_targets :: "target_slot_state list"

datatype outbox_pipeline_action =
    ExpandGeneric
  | Target0Succeeds
  | Target0Fails
  | Target1Succeeds
  | Target1Fails

definition px_generic_parent_queued :: "outbox_pipeline_model_state \<Rightarrow> bool" where
  "px_generic_parent_queued s \<longleftrightarrow> px_generic_parent s = outbox_delivery_record_state.Queued"

definition px_target_queued :: "outbox_pipeline_model_state \<Rightarrow> nat \<Rightarrow> bool" where
  "px_target_queued s i \<longleftrightarrow>
    ts_active (px_targets s ! i) \<and>
    ts_state (px_targets s ! i) = outbox_delivery_record_state.Queued"

definition px_worker_has_follower_targets :: "outbox_pipeline_model_state \<Rightarrow> bool" where
  "px_worker_has_follower_targets s =
    generic_outbox_has_follower_targets (ucast (px_follower_target_count s))"

definition activated_slot :: "target_slot_state \<Rightarrow> target_slot_state" where
  "activated_slot slot =
    slot\<lparr>ts_active := True, ts_state := outbox_delivery_record_state.Queued, ts_attempt_count := 0\<rparr>"

definition activate_outbox_pipeline_targets ::
    "outbox_pipeline_model_state \<Rightarrow> outbox_pipeline_model_state" where
  "activate_outbox_pipeline_targets s =
    (let slot_count = unat (outbox_expand_slot_count (px_follower_target_count s)
                        (of_nat MAX_TARGET_SLOTS))
     in s\<lparr>px_targets := map activated_slot (take slot_count (px_targets s)) @
                         drop slot_count (px_targets s)\<rparr>)"

definition expand_outbox_pipeline_generic ::
    "outbox_pipeline_model_state \<Rightarrow> bool \<times> outbox_pipeline_model_state" where
  "expand_outbox_pipeline_generic s =
    (if px_generic_parent s \<noteq> outbox_delivery_record_state.Queued then (False, s)
     else
       let s = s\<lparr>px_generic_parent :=
             generic_outbox_parent_state_after_expand (px_follower_target_count s)\<rparr>
       in (True, if px_generic_parent s = outbox_delivery_record_state.Expanded
                 then activate_outbox_pipeline_targets s else s))"

definition apply_outbox_pipeline_target_outcome ::
    "target_slot_state \<Rightarrow> delivery_attempt_outcome \<Rightarrow> bool \<times> target_slot_state" where
  "apply_outbox_pipeline_target_outcome slot outcome =
    (if \<not> ts_active slot \<or> ts_state slot \<noteq> outbox_delivery_record_state.Queued then (False, slot)
     else
       let next_attempt = next_delivery_attempt_count (ts_attempt_count slot);
           slot = (if outcome = delivery_attempt_outcome.Failure \<or> outcome = PermanentFailure
                   then slot\<lparr>ts_attempt_count := next_attempt\<rparr> else slot)
       in (True, slot\<lparr>ts_state :=
             outbox_delivery_state_after_attempt (ts_state slot) next_attempt outcome\<rparr>))"

fun px_target_action_index :: "outbox_pipeline_action \<Rightarrow> nat option" where
  "px_target_action_index Target0Succeeds = Some 0"
| "px_target_action_index Target0Fails = Some 0"
| "px_target_action_index Target1Succeeds = Some 1"
| "px_target_action_index Target1Fails = Some 1"
| "px_target_action_index ExpandGeneric = None"

fun px_target_outcome :: "outbox_pipeline_action \<Rightarrow> delivery_attempt_outcome option" where
  "px_target_outcome Target0Succeeds = Some delivery_attempt_outcome.Success"
| "px_target_outcome Target1Succeeds = Some delivery_attempt_outcome.Success"
| "px_target_outcome Target0Fails = Some delivery_attempt_outcome.Failure"
| "px_target_outcome Target1Fails = Some delivery_attempt_outcome.Failure"
| "px_target_outcome ExpandGeneric = None"

definition px_init_states :: "outbox_pipeline_model_state list" where
  "px_init_states =
    map (\<lambda>n. \<lparr>px_generic_parent = outbox_delivery_record_state.Queued,
               px_follower_target_count = n,
               px_targets = replicate MAX_TARGET_SLOTS
                 \<lparr>ts_active = False, ts_state = outbox_delivery_record_state.Queued,
                  ts_attempt_count = 0\<rparr>\<rparr>)
      [0, 1, 2]"

definition px_actions :: "outbox_pipeline_model_state \<Rightarrow> outbox_pipeline_action list" where
  "px_actions s =
    (if px_generic_parent_queued s then [ExpandGeneric] else []) @
    (if px_target_queued s 0 then [Target0Succeeds, Target0Fails] else []) @
    (if px_target_queued s 1 then [Target1Succeeds, Target1Fails] else [])"

definition px_next_state ::
    "outbox_pipeline_model_state \<Rightarrow> outbox_pipeline_action \<Rightarrow>
     outbox_pipeline_model_state option" where
  "px_next_state s a =
    (case a of
       ExpandGeneric \<Rightarrow>
         (case expand_outbox_pipeline_generic s of (applied, nxt) \<Rightarrow> then_some applied nxt)
     | _ \<Rightarrow>
         Option.bind (px_target_action_index a) (\<lambda>i.
         Option.bind (px_target_outcome a) (\<lambda>outcome.
           case apply_outbox_pipeline_target_outcome (px_targets s ! i) outcome of
             (applied, slot) \<Rightarrow> then_some applied (s\<lparr>px_targets := (px_targets s)[i := slot]\<rparr>))))"

definition px_always :: "outbox_pipeline_model_state named_property list" where
  "px_always =
    [(''expanded_parent_requires_follower_targets'',
      \<lambda>s. px_generic_parent s \<noteq> outbox_delivery_record_state.Expanded \<or>
        px_follower_target_count s > 0),
     (''delivered_parent_without_targets_only_when_empty'',
      \<lambda>s. px_generic_parent s \<noteq> outbox_delivery_record_state.Delivered \<or>
        px_follower_target_count s = 0),
     (''expanded_parent_has_active_target_slots'',
      \<lambda>s. px_generic_parent s \<noteq> outbox_delivery_record_state.Expanded \<or>
        list_ex ts_active (px_targets s)),
     (''inactive_target_slots_never_attempt_delivery'',
      \<lambda>s. list_all (\<lambda>slot. ts_active slot \<or> ts_attempt_count slot = 0) (px_targets s)),
     (''active_targets_respect_retry_threshold'',
      \<lambda>s. list_all (\<lambda>slot. \<not> ts_active slot \<or>
        ts_state slot \<noteq> outbox_delivery_record_state.Queued \<or>
        ts_attempt_count slot < DELIVERY_MAX_ATTEMPTS) (px_targets s)),
     (''failed_target_requires_terminal_attempts'',
      \<lambda>s. list_all (\<lambda>slot. \<not> ts_active slot \<or>
        ts_state slot \<noteq> outbox_delivery_record_state.Failed \<or>
        ts_attempt_count slot \<ge> DELIVERY_MAX_ATTEMPTS) (px_targets s))]"

definition px_sometimes :: "outbox_pipeline_model_state named_property list" where
  "px_sometimes =
    [(''completed_without_targets_reachable'',
      \<lambda>s. px_generic_parent s = outbox_delivery_record_state.Delivered \<and>
        px_follower_target_count s = 0),
     (''all_active_targets_delivered_reachable'',
      \<lambda>s. list_ex ts_active (px_targets s) \<and>
        list_all (\<lambda>slot. ts_state slot = outbox_delivery_record_state.Delivered)
          (filter ts_active (px_targets s)))]"

definition target_slot_ok :: "target_slot_state \<Rightarrow> bool" where
  "target_slot_ok t \<longleftrightarrow>
    unat (ts_attempt_count t) \<le> 5 \<and>
    (ts_active t \<or> ts_attempt_count t = 0) \<and>
    (ts_state t = outbox_delivery_record_state.Queued \<longrightarrow> unat (ts_attempt_count t) < 5) \<and>
    (ts_state t = outbox_delivery_record_state.Failed \<longrightarrow> unat (ts_attempt_count t) = 5)"

definition px_inv :: "outbox_pipeline_model_state \<Rightarrow> bool" where
  "px_inv s \<longleftrightarrow> length (px_targets s) = 2 \<and> list_all target_slot_ok (px_targets s) \<and>
    (px_generic_parent s = outbox_delivery_record_state.Expanded \<longrightarrow>
       px_follower_target_count s \<noteq> 0 \<and> ts_active (px_targets s ! 0)) \<and>
    (px_generic_parent s = outbox_delivery_record_state.Delivered \<longrightarrow>
       px_follower_target_count s = 0) \<and>
    (px_generic_parent_queued s \<longrightarrow> list_all (\<lambda>t. \<not> ts_active t) (px_targets s))"

lemma target_outcome_ok:
  assumes "target_slot_ok t" "x \<noteq> PermanentFailure"
  shows "target_slot_ok (snd (apply_outbox_pipeline_target_outcome t x)) \<and>
    ts_active (snd (apply_outbox_pipeline_target_outcome t x)) = ts_active t"
  using assms unat_next_attempt [of "ts_attempt_count t"]
  by (cases x)
     (auto simp: apply_outbox_pipeline_target_outcome_def target_slot_ok_def Let_def
       is_delivery_terminal_iff)

lemma activated_slot_ok: "target_slot_ok (activated_slot t)" "ts_active (activated_slot t)"
  by (simp_all add: activated_slot_def target_slot_ok_def)

lemma activate_inv:
  assumes "length (px_targets s) = 2" "list_all target_slot_ok (px_targets s)"
    "px_follower_target_count s \<noteq> 0"
  shows "length (px_targets (activate_outbox_pipeline_targets s)) = 2"
    "list_all target_slot_ok (px_targets (activate_outbox_pipeline_targets s))"
    "ts_active (px_targets (activate_outbox_pipeline_targets s) ! 0)"
proof -
  let ?n = "unat (outbox_expand_slot_count (px_follower_target_count s) (of_nat MAX_TARGET_SLOTS))"
  obtain t u where tu: "px_targets s = [t, u]"
    using assms(1) by (auto simp: length_Suc_conv eval_nat_numeral)
  have n: "?n = 1 \<or> ?n = 2"
    using assms(3)
    by (auto simp: outbox_expand_slot_count_def MAX_TARGET_SLOTS_def min_def word_le_nat_alt
        word_unat_eq_iff)
  have targets: "px_targets (activate_outbox_pipeline_targets s) =
      map activated_slot (take ?n (px_targets s)) @ drop ?n (px_targets s)"
    by (simp add: activate_outbox_pipeline_targets_def Let_def)
  show "length (px_targets (activate_outbox_pipeline_targets s)) = 2"
    "list_all target_slot_ok (px_targets (activate_outbox_pipeline_targets s))"
    "ts_active (px_targets (activate_outbox_pipeline_targets s) ! 0)"
    using n assms(2) unfolding targets tu by (auto simp: activated_slot_ok eval_nat_numeral)
qed

lemma activate_other [simp]:
  "px_generic_parent (activate_outbox_pipeline_targets s) = px_generic_parent s"
  "px_follower_target_count (activate_outbox_pipeline_targets s) = px_follower_target_count s"
  by (simp_all add: activate_outbox_pipeline_targets_def Let_def)

lemma expand_inv: "px_inv s \<Longrightarrow> px_inv (snd (expand_outbox_pipeline_generic s))"
  using activate_inv
    [of "s\<lparr>px_generic_parent := generic_outbox_parent_state_after_expand (px_follower_target_count s)\<rparr>"]
  by (auto simp: expand_outbox_pipeline_generic_def px_inv_def Let_def px_generic_parent_queued_def
      generic_outbox_parent_state_after_expand_def)

lemma target_step_inv:
  assumes "px_inv s" "i < 2" "x \<noteq> PermanentFailure"
  shows "px_inv (s\<lparr>px_targets := (px_targets s)
    [i := snd (apply_outbox_pipeline_target_outcome (px_targets s ! i) x)]\<rparr>)"
proof -
  have "target_slot_ok (px_targets s ! i)"
    using assms(1,2) by (simp add: px_inv_def list_all_length)
  note ok = target_outcome_ok [OF this assms(3)]
  have inactive: "\<not> ts_active (px_targets s ! i)" if "px_generic_parent_queued s"
    using that assms(1,2) by (simp add: px_inv_def list_all_length)
  show ?thesis
    using ok inactive assms(1,2)
    by (auto simp: px_inv_def list_all_update nth_list_update px_generic_parent_queued_def)
qed

lemma px_action_cases:
  obtains "a = ExpandGeneric"
  | i x where "px_target_action_index a = Some i" "px_target_outcome a = Some x" "i < 2"
      "x \<noteq> PermanentFailure" "a \<noteq> ExpandGeneric"
  by (cases a) auto

lemma px_next_expand:
  "px_next_state s ExpandGeneric = (case expand_outbox_pipeline_generic s of
     (applied, nxt) \<Rightarrow> then_some applied nxt)"
  by (simp add: px_next_state_def)

lemma px_next_target:
  assumes "px_target_action_index a = Some i" "px_target_outcome a = Some x"
  shows "px_next_state s a =
    (case apply_outbox_pipeline_target_outcome (px_targets s ! i) x of
       (applied, slot) \<Rightarrow> then_some applied (s\<lparr>px_targets := (px_targets s)[i := slot]\<rparr>))"
  using assms by (cases a) (simp_all add: px_next_state_def)

lemma px_step_inv:
  assumes "px_inv s" "px_next_state s a = Some t"
  shows "px_inv t"
proof (cases a rule: px_action_cases)
  case 1
  with assms show ?thesis
    using expand_inv [of s]
    by (auto simp: px_next_expand then_some_def split: prod.splits if_splits)
next
  case (2 i x)
  with assms(2) have "t = s\<lparr>px_targets := (px_targets s)
      [i := snd (apply_outbox_pipeline_target_outcome (px_targets s ! i) x)]\<rparr>"
    by (auto simp: px_next_target then_some_def split: prod.splits if_splits)
  with target_step_inv [OF assms(1) 2(3,4)] show ?thesis by simp
qed

interpretation px_model: model_invariant px_init_states px_actions px_next_state px_inv
proof unfold_locales
  show "s \<in> set px_init_states \<Longrightarrow> px_inv s" for s
    by (auto simp: px_init_states_def px_inv_def target_slot_ok_def MAX_TARGET_SLOTS_def list_all_iff)
  show "px_inv s \<Longrightarrow> a \<in> set (px_actions s) \<Longrightarrow> px_next_state s a = Some t \<Longrightarrow> px_inv t" for s a t
    by (rule px_step_inv)
qed

lemma px_always_holds: "px_inv s \<Longrightarrow> list_all (\<lambda>p. snd p s) px_always"
proof -
  assume inv: "px_inv s"
  then have ok: "\<forall>t \<in> set (px_targets s). target_slot_ok t" and len: "length (px_targets s) = 2"
    by (simp_all add: px_inv_def list_all_iff)
  have "list_ex ts_active (px_targets s)"
    if "px_generic_parent s = outbox_delivery_record_state.Expanded"
    using inv that len nth_mem [of 0 "px_targets s"] by (auto simp: px_inv_def list_ex_iff)
  moreover have "px_follower_target_count s > 0"
    if "px_generic_parent s = outbox_delivery_record_state.Expanded"
    using inv that by (auto simp: px_inv_def word_neq_0_conv)
  ultimately show ?thesis
    using inv ok
    by (auto simp: px_always_def px_inv_def list_all_iff target_slot_ok_def DELIVERY_MAX_ATTEMPTS_def
        word_less_nat_alt word_le_nat_alt)
qed

lemma px_sometimes_holds: "sometimes_holds px_init_states px_actions px_next_state px_sometimes"
proof (rule sometimes_holdsI)
  show "list_all2 (\<lambda>p (s, as). s \<in> set px_init_states \<and>
      (case run_path px_actions px_next_state s as of Some t \<Rightarrow> snd p t | None \<Rightarrow> False))
    px_sometimes
    [(px_init_states ! 0, [ExpandGeneric]),
     (px_init_states ! 2, [ExpandGeneric, Target0Succeeds, Target1Succeeds])]"
    by code_simp
qed

subsection \<open>The worker\<close>

definition px_worker_allows ::
    "outbox_pipeline_model_state \<Rightarrow> outbox_pipeline_action \<Rightarrow> bool" where
  "px_worker_allows s a =
    (case a of
       ExpandGeneric \<Rightarrow> px_generic_parent_queued s
     | _ \<Rightarrow> (case px_target_action_index a of None \<Rightarrow> False | Some i \<Rightarrow> px_target_queued s i))"

definition px_worker_effect ::
    "outbox_pipeline_model_state \<Rightarrow> outbox_pipeline_action \<Rightarrow> outbox_pipeline_model_state" where
  "px_worker_effect s a =
    (case a of
       ExpandGeneric \<Rightarrow>
         if px_generic_parent_queued s then snd (expand_outbox_pipeline_generic s) else s
     | _ \<Rightarrow>
         (case (px_target_action_index a, px_target_outcome a) of
            (Some i, Some outcome) \<Rightarrow>
              s\<lparr>px_targets := (px_targets s)
                [i := snd (apply_outbox_pipeline_target_outcome (px_targets s ! i) outcome)]\<rparr>
          | _ \<Rightarrow> s))"

definition px_domain_step ::
    "outbox_pipeline_model_state \<Rightarrow> outbox_pipeline_action \<Rightarrow> outbox_pipeline_model_state" where
  "px_domain_step s a = unwrap_or (px_next_state s a) s"

lemma px_worker_target:
  assumes "px_target_action_index a = Some i" "px_target_outcome a = Some x"
  shows "px_worker_allows s a = px_target_queued s i"
    "px_worker_effect s a = s\<lparr>px_targets := (px_targets s)
       [i := snd (apply_outbox_pipeline_target_outcome (px_targets s ! i) x)]\<rparr>"
  using assms by (cases a; simp add: px_worker_allows_def px_worker_effect_def)+

lemma target_applied:
  "fst (apply_outbox_pipeline_target_outcome (px_targets s ! i) x) = px_target_queued s i"
  "\<not> px_target_queued s i \<Longrightarrow>
     snd (apply_outbox_pipeline_target_outcome (px_targets s ! i) x) = px_targets s ! i"
  by (auto simp: px_target_queued_def apply_outbox_pipeline_target_outcome_def Let_def)

lemma expand_applied: "fst (expand_outbox_pipeline_generic s) = px_generic_parent_queued s"
  by (simp add: px_generic_parent_queued_def expand_outbox_pipeline_generic_def Let_def)

interpretation px_worker: worker_refinement px_worker_allows px_worker_effect px_domain_step
proof unfold_locales
  fix s a
  have "px_worker_effect s a = (if px_worker_allows s a then px_domain_step s a else s)"
  proof (cases a rule: px_action_cases)
    case 1
    then show ?thesis
      using expand_applied [of s]
      by (cases "expand_outbox_pipeline_generic s")
         (simp add: px_worker_allows_def px_worker_effect_def px_domain_step_def px_next_expand)
  next
    case (2 i x)
    then show ?thesis
      using target_applied [of s i x]
      by (cases "apply_outbox_pipeline_target_outcome (px_targets s ! i) x")
         (auto simp: px_worker_target px_domain_step_def px_next_target)
  qed
  then show "px_worker_allows s a \<Longrightarrow> px_worker_effect s a = px_domain_step s a"
    and "\<not> px_worker_allows s a \<Longrightarrow> px_worker_effect s a = s"
    by simp_all
qed

section \<open>The runs end\<close>

text \<open>
  The budget of the pool: a slot with \<open>i\<close> attempts behind it can be tried at most
  \<open>5 - i\<close> more times. The budget of the pipeline: one expansion and the attempts left to
  the targets.
\<close>

definition op_budget :: "outbox_delivery_pool_model_state \<Rightarrow> nat" where
  "op_budget s = (\<Sum>i < 5. unat (op_queued_at s ! i) * (5 - i))"

definition target_budget :: "target_slot_state \<Rightarrow> nat" where
  "target_budget t =
    (if ts_state t = outbox_delivery_record_state.Queued then 5 - unat (ts_attempt_count t) else 0)"

definition px_budget :: "outbox_pipeline_model_state \<Rightarrow> nat" where
  "px_budget s = (if px_generic_parent_queued s then 11
    else sum_list (map target_budget (px_targets s)))"

lemma op_budget_update:
  assumes "i < 5" "length qs = 5"
  shows "(\<Sum>j < 5. unat (qs[i := v :: u8] ! j) * (5 - j)) + unat (qs ! i) * (5 - i) =
    (\<Sum>j < 5. unat (qs ! j) * (5 - j)) + unat v * (5 - i)"
proof -
  have "(\<Sum>j < 5. unat (qs[i := v] ! j) * (5 - j)) =
      unat v * (5 - i) + (\<Sum>j \<in> {..<5} - {i}. unat (qs ! j) * (5 - j))"
    using assms by (subst sum.remove [of _ i]) auto
  moreover have "(\<Sum>j < 5. unat (qs ! j) * (5 - j)) =
      unat (qs ! i) * (5 - i) + (\<Sum>j \<in> {..<5} - {i}. unat (qs ! j) * (5 - j))"
    using assms by (subst sum.remove [of _ i]) auto
  ultimately show ?thesis by simp
qed

lemma op_budget_decreased:
  assumes "op_inv s" "i < 5" "op_queued_at s ! i \<noteq> 0"
    "qs = (op_queued_at s)[i := op_queued_at s ! i - 1]"
  shows "(\<Sum>j < 5. unat (qs ! j) * (5 - j)) + (5 - i) = op_budget s"
proof -
  have "unat (op_queued_at s ! i) = Suc (unat (op_queued_at s ! i - 1))"
    using assms(3) by (simp add: unat_pred unat_gt_0)
  then show ?thesis
    using op_budget_update [of i "op_queued_at s" "op_queued_at s ! i - 1"] assms(1,2)
    by (simp add: assms(4) op_budget_def op_inv_def)
qed

lemma op_outcome_budget:
  assumes "op_inv s" "apply_outbox_delivery_pool_outcome s k x = (True, t)"
  shows "op_budget t < op_budget s"
  using assms
proof (cases rule: op_apply_outcome_cases)
  case (requeued i qs)
  note dec = op_queue_decreased [OF assms(1) requeued(1,2,4)]
  show ?thesis
    using op_budget_decreased [OF assms(1) requeued(1,2,4)] requeued(3)
      op_budget_update [of "Suc i" qs "qs ! Suc i + 1"]
      op_queue_increased(1) [OF dec(2,3) requeued(3)] dec(2)
    by (simp add: requeued(5) op_budget_def)
next
  case (delivered i)
  then show ?thesis
    using op_budget_decreased [OF assms(1) delivered(1,2) refl] by (simp add: op_budget_def)
next
  case (failed i)
  then show ?thesis
    using op_budget_decreased [OF assms(1) failed(1,2) refl] by (simp add: op_budget_def)
qed

interpretation op_runs: terminating_model op_init_states op_actions op_next_state op_inv op_budget
proof unfold_locales
  show "op_inv s \<Longrightarrow> a \<in> set (op_actions s) \<Longrightarrow> op_next_state s a = Some t \<Longrightarrow>
      op_budget t < op_budget s" for s a t
    by (cases a)
       (auto simp: op_next_state_def then_some_def intro: op_outcome_budget
         split: if_splits prod.splits)
qed

text \<open>A pool with no action left has delivered or given up every slot.\<close>

lemma op_stuck:
  assumes "op_inv s" "op_actions s = []"
  shows "unat (op_delivered s) + unat (op_failed s) = 8"
proof -
  have "op_queued_at s ! i = 0" if "i < 5" for i
  proof (rule ccontr)
    assume "op_queued_at s ! i \<noteq> 0"
    with that have "SucceedAt (of_nat i) \<in> set (op_actions s)"
      by (auto simp: op_actions_def MAX_QUEUED_ATTEMPT_INDEX_def pool_constants word_neq_0_conv)
    with assms(2) show False by simp
  qed
  then have "op_queued_at s = replicate 5 0"
    using assms(1) by (intro nth_equalityI) (auto simp: op_inv_def)
  with assms(1) show ?thesis by (simp add: op_inv_def op_sum_def numeral_5)
qed

lemma target_budget_decreases:
  assumes "target_slot_ok t" "x \<noteq> PermanentFailure" "ts_active t"
    "ts_state t = outbox_delivery_record_state.Queued"
  shows "target_budget (snd (apply_outbox_pipeline_target_outcome t x)) < target_budget t"
  using assms unat_next_attempt [of "ts_attempt_count t"]
  by (cases x)
     (auto simp: apply_outbox_pipeline_target_outcome_def target_budget_def target_slot_ok_def Let_def
       is_delivery_terminal_iff)

lemma px_target_step_budget:
  assumes "px_inv s" "i < 2" "x \<noteq> PermanentFailure" "px_target_queued s i"
  shows "px_budget (s\<lparr>px_targets := (px_targets s)
    [i := snd (apply_outbox_pipeline_target_outcome (px_targets s ! i) x)]\<rparr>) < px_budget s"
proof -
  have len: "length (px_targets s) = 2" using assms(1) by (simp add: px_inv_def)
  have open_parent: "\<not> px_generic_parent_queued s"
    using assms(1,2,4) by (auto simp: px_inv_def px_target_queued_def list_all_length)
  have "target_slot_ok (px_targets s ! i)"
    using assms(1,2) by (simp add: px_inv_def list_all_length)
  with assms have less: "target_budget (snd (apply_outbox_pipeline_target_outcome (px_targets s ! i) x))
      < target_budget (px_targets s ! i)"
    by (intro target_budget_decreases) (auto simp: px_target_queued_def)
  have "target_budget (px_targets s ! i) \<le> sum_list (map target_budget (px_targets s))"
    using elem_le_sum [of i "map target_budget (px_targets s)"] assms(2) len by simp
  with less open_parent assms(2) len show ?thesis
    by (simp add: px_budget_def px_generic_parent_queued_def map_update sum_list_update)
qed

lemma px_expand_budget:
  assumes "px_inv s" "px_generic_parent_queued s"
  shows "px_budget (snd (expand_outbox_pipeline_generic s)) < px_budget s"
proof -
  let ?t = "snd (expand_outbox_pipeline_generic s)"
  have "length (px_targets ?t) = 2" using expand_inv [OF assms(1)] by (simp add: px_inv_def)
  then obtain t u where tu: "px_targets ?t = [t, u]"
    by (auto simp: length_Suc_conv eval_nat_numeral)
  have "target_budget v \<le> 5" for v by (simp add: target_budget_def)
  from this [of t] this [of u] have "sum_list (map target_budget (px_targets ?t)) < 11"
    by (simp add: tu)
  moreover have "\<not> px_generic_parent_queued ?t"
    using assms(2)
    by (simp add: px_generic_parent_queued_def expand_outbox_pipeline_generic_def Let_def
        generic_outbox_parent_state_after_expand_def)
  ultimately show ?thesis using assms(2) by (simp add: px_budget_def)
qed

interpretation px_runs: terminating_model px_init_states px_actions px_next_state px_inv px_budget
proof unfold_locales
  fix s a t
  assume inv: "px_inv s" and nxt: "px_next_state s a = Some t"
  show "px_budget t < px_budget s"
  proof (cases a rule: px_action_cases)
    case 1
    with nxt have "px_generic_parent_queued s \<and> t = snd (expand_outbox_pipeline_generic s)"
      using expand_applied [of s]
      by (cases "expand_outbox_pipeline_generic s") (auto simp: px_next_expand then_some_def split: if_splits)
    then show ?thesis using px_expand_budget [OF inv] by simp
  next
    case (2 i x)
    with nxt have "px_target_queued s i \<and> t = s\<lparr>px_targets := (px_targets s)
        [i := snd (apply_outbox_pipeline_target_outcome (px_targets s ! i) x)]\<rparr>"
      using target_applied(1) [of s i x]
      by (cases "apply_outbox_pipeline_target_outcome (px_targets s ! i) x")
         (auto simp: px_next_target then_some_def split: if_splits)
    then show ?thesis using px_target_step_budget [OF inv 2(3,4)] by simp
  qed
qed

text \<open>A pipeline with no action left: the parent is settled, and so is every active target.\<close>

lemma px_stuck:
  assumes "px_inv s" "px_actions s = []"
  shows "\<not> px_generic_parent_queued s \<and>
    filter (\<lambda>t. ts_active t \<and> ts_state t = outbox_delivery_record_state.Queued) (px_targets s) = []"
proof -
  obtain t u where "px_targets s = [t, u]"
    using assms(1) by (auto simp: px_inv_def length_Suc_conv eval_nat_numeral)
  with assms(2) show ?thesis
    by (auto simp: px_actions_def px_target_queued_def split: if_splits)
qed

lemma sum_below_5: "(\<Sum>i < 5. f i) = f 0 + f 1 + f 2 + f 3 + f 4" for f :: "nat \<Rightarrow> nat"
  by (simp add: eval_nat_numeral)

section \<open>Finitely many states\<close>

lemma finite_fixed_length: "finite (UNIV :: 'a set) \<Longrightarrow> finite {xs :: 'a list. length xs = n}"
  using finite_lists_length_eq [of UNIV n] by simp

lemma finite_UNIV_u8: "finite (UNIV :: u8 set)"
  by simp

lemma finite_cd_states: "finite {s :: concurrent_delivery_model_state. length (cd_slots s) = 2}"
proof -
  have "finite (UNIV :: outbound_delivery_slot set)"
  proof (rule finite_surj_UNIV)
    show "\<exists>x. (\<lambda>(a, b). \<lparr>ds_state = a, ds_attempt_count = b\<rparr>) x = s" for s
      by (cases s) simp
  qed simp
  from finite_fixed_length [OF this]
  have "finite ((\<lambda>xs. \<lparr>cd_slots = xs\<rparr>) ` {xs. length xs = 2})" by (rule finite_imageI)
  moreover have "{s :: concurrent_delivery_model_state. length (cd_slots s) = 2} \<subseteq> (\<lambda>xs. \<lparr>cd_slots = xs\<rparr>) ` {xs. length xs = 2}"
  proof
    fix s assume "s \<in> {s :: concurrent_delivery_model_state. length (cd_slots s) = 2}"
    then show "s \<in> (\<lambda>xs. \<lparr>cd_slots = xs\<rparr>) ` {xs. length xs = 2}"
      by (cases s) auto
  qed
  ultimately show ?thesis by (rule rev_finite_subset)
qed

lemma finite_op_states: "finite {s :: outbox_delivery_pool_model_state. length (op_queued_at s) = 5}"
proof -
  let ?f = "\<lambda>(q, d, f). \<lparr>op_queued_at = q, op_delivered = d, op_failed = f\<rparr>"
  have "finite (?f ` ({q. length q = 5} \<times> UNIV))"
    using finite_fixed_length [OF finite_UNIV_u8, of 5]
    by (intro finite_imageI finite_cartesian_product) simp_all
  moreover have "{s :: outbox_delivery_pool_model_state. length (op_queued_at s) = 5} \<subseteq> ?f ` ({q. length q = 5} \<times> UNIV)"
  proof
    fix s assume "s \<in> {s :: outbox_delivery_pool_model_state. length (op_queued_at s) = 5}"
    then show "s \<in> ?f ` ({q. length q = 5} \<times> UNIV)"
      by (intro image_eqI [of _ _ "(op_queued_at s, op_delivered s, op_failed s)"]) simp_all
  qed
  ultimately show ?thesis by (rule rev_finite_subset)
qed

lemma finite_of_states: "finite (UNIV :: outbound_follow_model_state set)"
proof (rule finite_surj_UNIV)
  show "\<exists>x. (\<lambda>(a, b, c, d). \<lparr>of_outbound_state = a, of_follow_state = b, of_attempt_count = c,
      of_activity_is_follow = d\<rparr>) x = s" for s
    by (cases s) simp
qed simp

lemma finite_px_states: "finite {s :: outbox_pipeline_model_state. length (px_targets s) = 2}"
proof -
  have "finite (UNIV :: target_slot_state set)"
  proof (rule finite_surj_UNIV)
    show "\<exists>x. (\<lambda>(a, b, c). \<lparr>ts_active = a, ts_state = b, ts_attempt_count = c\<rparr>) x = s" for s
      by (cases s) simp
  qed simp
  note targets = finite_fixed_length [OF this, of 2]
  let ?f = "\<lambda>(p, n, t). \<lparr>px_generic_parent = p, px_follower_target_count = n, px_targets = t\<rparr>"
  have "finite (?f ` (UNIV \<times> UNIV \<times> {t. length t = 2}))"
    using targets by (intro finite_imageI finite_cartesian_product) simp_all
  moreover have "{s :: outbox_pipeline_model_state. length (px_targets s) = 2} \<subseteq> ?f ` (UNIV \<times> UNIV \<times> {t. length t = 2})"
  proof
    fix s assume "s \<in> {s :: outbox_pipeline_model_state. length (px_targets s) = 2}"
    then show "s \<in> ?f ` (UNIV \<times> UNIV \<times> {t. length t = 2})"
      by (intro image_eqI [of _ _ "(px_generic_parent s, px_follower_target_count s, px_targets s)"])
        simp_all
  qed
  ultimately show ?thesis by (rule rev_finite_subset)
qed

section \<open>Properties\<close>

text \<open>
  The four models of outbound delivery keep every property they declare in every reachable
  state, and reach every state they call reachable: a queued slot is below the retry threshold,
  a failed one has used up its attempts, no slot of the pool is lost, only a follow that could
  not be delivered fails the pending follow, and an inactive target is never tried.
\<close>

theorem delivery_models_verified:
  "properties_hold cd_init_states cd_actions cd_next_state cd_always cd_sometimes \<and>
   properties_hold op_init_states op_actions op_next_state op_always op_sometimes \<and>
   properties_hold of_init_states of_actions of_next_state of_always of_sometimes \<and>
   properties_hold px_init_states px_actions px_next_state px_always px_sometimes"
  using cd_model.properties_holdI [OF cd_always_holds cd_sometimes_holds]
    op_model.properties_holdI [OF op_always_holds op_sometimes_holds]
    of_model.properties_holdI [OF of_always_holds of_sometimes_holds]
    px_model.properties_holdI [OF px_always_holds px_sometimes_holds]
  by simp

text \<open>
  Delivery ends. A run of the pool of eight slots has at most forty attempts, and every slot
  is accounted for at each of its states; when no attempt is left every slot has been delivered
  or given up. A run of the outbox pipeline has at most eleven steps, and when none is left the
  parent and every active target are settled.
\<close>

theorem delivery_runs_end:
  assumes "s \<in> set op_init_states" "run_path op_actions op_next_state s as = Some t"
    and "u \<in> set px_init_states" "run_path px_actions px_next_state u bs = Some v"
  shows "length as \<le> 40 \<and> op_sum t = 8 \<and>
    (op_actions t = [] \<longrightarrow> unat (op_delivered t) + unat (op_failed t) = 8) \<and>
    length bs \<le> 11 \<and>
    (px_actions v = [] \<longrightarrow> \<not> px_generic_parent_queued v \<and>
       filter (\<lambda>x. ts_active x \<and> ts_state x = outbox_delivery_record_state.Queued)
         (px_targets v) = [])"
proof -
  have "op_budget s = 40"
    using assms(1)
    by (auto simp: op_init_states_def op_budget_def pool_constants Let_def numeral_5 sum_below_5)
  with op_runs.run_budget [OF op_model.init_inv [OF assms(1)] assms(2)]
  have pool: "op_inv t" "length as \<le> 40" by simp_all
  have "px_budget u = 11"
    using assms(3) by (auto simp: px_init_states_def px_budget_def px_generic_parent_queued_def)
  with px_runs.run_budget [OF px_model.init_inv [OF assms(3)] assms(4)]
  have pipeline: "px_inv v" "length bs \<le> 11" by simp_all
  from pool pipeline show ?thesis
    using op_stuck [of t] px_stuck [of v] by (simp add: op_inv_def)
qed

theorem delivery_runs_end_witness:
  "\<exists>t v. length (replicate 8 (SucceedAt 0)) \<le> (40 :: nat) \<and> op_sum t = 8 \<and>
    unat (op_delivered t) + unat (op_failed t) = 8 \<and> \<not> px_generic_parent_queued v"
proof -
  have run: "run_path op_actions op_next_state (op_init_states ! 0) (replicate 8 (SucceedAt 0)) =
      Some \<lparr>op_queued_at = [0, 0, 0, 0, 0], op_delivered = 8, op_failed = 0\<rparr>"
    "op_actions \<lparr>op_queued_at = [0, 0, 0, 0, 0], op_delivered = 8, op_failed = 0\<rparr> = []"
    "op_init_states ! 0 \<in> set op_init_states"
    by code_simp+
  let ?v = "\<lparr>px_generic_parent = outbox_delivery_record_state.Delivered,
      px_follower_target_count = 0, px_targets = replicate MAX_TARGET_SLOTS
        \<lparr>ts_active = False, ts_state = outbox_delivery_record_state.Queued, ts_attempt_count = 0\<rparr>\<rparr>"
  have pipeline: "run_path px_actions px_next_state (px_init_states ! 0) [ExpandGeneric] = Some ?v"
    "px_actions ?v = []" "px_init_states ! 0 \<in> set px_init_states"
    by code_simp+
  from delivery_runs_end [OF run(3) run(1) pipeline(3) pipeline(1)] run(2) pipeline(2)
  show ?thesis by blast
qed

text \<open>
  The worker's delivery refines the models: the walks of \<open>check_concurrent_delivery\<close>,
  \<open>check_outbox_delivery_pool\<close>, \<open>check_outbound_follow\<close> and \<open>check_outbox_pipeline\<close>
  end and pass, and an arbitrary schedule of worker operations, allowed or not, leaves the state
  of the schedule of model steps that were let through.
\<close>

theorem delivery_worker_refines:
  "settles (assert_worker_refinement cd_init_states cd_actions cd_worker_allows cd_worker_effect
        cd_domain_step) True \<and>
   settles (assert_worker_refinement op_init_states op_actions op_worker_allows op_worker_effect
        op_domain_step) True \<and>
   settles (assert_worker_refinement of_init_states of_actions of_worker_allows of_worker_effect
        of_domain_step) True \<and>
   settles (assert_worker_refinement px_init_states px_actions px_worker_allows px_worker_effect
        px_domain_step) True \<and>
   foldl cd_worker_effect s as = foldl cd_domain_step s (accepted cd_worker_allows cd_domain_step s as) \<and>
   foldl op_worker_effect t bs = foldl op_domain_step t (accepted op_worker_allows op_domain_step t bs) \<and>
   foldl of_worker_effect u cs = foldl of_domain_step u (accepted of_worker_allows of_domain_step u cs) \<and>
   foldl px_worker_effect v ds = foldl px_domain_step v (accepted px_worker_allows px_domain_step v ds)"
proof -
  have "settles (assert_worker_refinement cd_init_states cd_actions cd_worker_allows
      cd_worker_effect cd_domain_step) True"
  proof (rule cd_worker.check_finishes_inv [OF finite_cd_states])
    show "length (cd_slots s) = 2" if "s \<in> set cd_init_states" for s
      using cd_model.init_inv [OF that] by (simp add: cd_inv_def)
    show "length (cd_slots (cd_domain_step s a)) = 2" if "length (cd_slots s) = 2" for s a
      using that
      by (auto simp: cd_domain_step_def cd_next_state_def apply_concurrent_delivery_action_def
          then_some_def Let_def)
  qed
  moreover have "settles (assert_worker_refinement op_init_states op_actions op_worker_allows
      op_worker_effect op_domain_step) True"
  proof (rule op_worker.check_finishes_inv [of op_inv])
    show "finite (Collect op_inv)"
      by (rule rev_finite_subset [OF finite_op_states]) (auto simp: op_inv_def)
    show "op_inv (op_domain_step s a)" if "op_inv s" for s a
      using that op_step_inv [of s a] by (cases "op_next_state s a") (simp_all add: op_domain_step_def)
  qed (rule op_model.init_inv)
  moreover have "settles (assert_worker_refinement of_init_states of_actions of_worker_allows
      of_worker_effect of_domain_step) True"
    by (rule of_worker.check_finishes [OF finite_of_states])
  moreover have "settles (assert_worker_refinement px_init_states px_actions px_worker_allows
      px_worker_effect px_domain_step) True"
  proof (rule px_worker.check_finishes_inv [of px_inv])
    show "finite (Collect px_inv)"
      by (rule rev_finite_subset [OF finite_px_states]) (auto simp: px_inv_def)
    show "px_inv (px_domain_step s a)" if "px_inv s" for s a
      using that px_step_inv [of s a] by (cases "px_next_state s a") (simp_all add: px_domain_step_def)
  qed (rule px_model.init_inv)
  ultimately show ?thesis
    by (intro conjI cd_worker.worker_run op_worker.worker_run of_worker.worker_run
        px_worker.worker_run)
qed

end
