(* ===== verification/Model_Follow_Inbox.thy ===== *)
theory Model_Follow_Inbox
  imports Stateright Follow Inbox
begin

text \<open>
  The models of follow requests to a local account (\<open>local_follow_request.rs\<close>) and of inbox
  replays (\<open>inbox_replay.rs\<close>), with their refinements (\<open>refinement/local_follow_request.rs\<close>,
  \<open>refinement/inbox_replay.rs\<close>).
\<close>

section \<open>Follow requests\<close>

datatype local_follow_request_action = Authorize | Reject

definition local_follow_request_action_allowed :: "local_follow_request_state \<Rightarrow> bool" where
  "local_follow_request_action_allowed state \<longleftrightarrow>
    fr_local_follow state = Some local_follow_state.Pending \<or>
    fr_remote_request state = remote_inbound_follow_request_state.Queued"

definition lf_init_states :: "local_follow_request_state list" where
  "lf_init_states = concat (map (\<lambda>target_locked.
    [initial_local_follow_request_state LocalFollower target_locked,
     initial_local_follow_request_state RemoteFollower target_locked]) [False, True])"

definition lf_actions :: "local_follow_request_state \<Rightarrow> local_follow_request_action list" where
  "lf_actions s = (if local_follow_request_action_allowed s then [Authorize, Reject] else [])"

definition lf_next_state ::
    "local_follow_request_state \<Rightarrow> local_follow_request_action \<Rightarrow>
     local_follow_request_state option" where
  "lf_next_state s a =
    (if \<not> local_follow_request_action_allowed s then None
     else Some (case a of
         Authorize \<Rightarrow> authorize_local_follow_request s
       | Reject \<Rightarrow> reject_local_follow_request s))"

definition lf_always :: "local_follow_request_state named_property list" where
  "lf_always =
    [(''pending_local_follow_only_when_locked_local_follower'',
      \<lambda>s. fr_local_follow s \<noteq> Some local_follow_state.Pending \<or>
        fr_target_locked s \<and> fr_scenario s = LocalFollower),
     (''unlocked_local_follow_never_starts_pending'',
      \<lambda>s. fr_local_follow s \<noteq> Some local_follow_state.Pending \<or> fr_target_locked s),
     (''queued_remote_request_only_when_locked_remote_follower'',
      \<lambda>s. fr_remote_request s \<noteq> remote_inbound_follow_request_state.Queued \<or>
        fr_target_locked s \<and> fr_scenario s = RemoteFollower),
     (''accepted_follow_has_no_pending_request_queue'',
      \<lambda>s. fr_local_follow s \<noteq> Some local_follow_state.Accepted \<or>
        fr_remote_request s \<noteq> remote_inbound_follow_request_state.Queued),
     (''fulfilled_remote_request_has_accepted_follow_row'',
      \<lambda>s. fr_remote_request s \<noteq> Fulfilled \<or>
        fr_local_follow s = Some local_follow_state.Accepted)]"

definition lf_sometimes :: "local_follow_request_state named_property list" where
  "lf_sometimes =
    [(''pending_local_follow_reachable'',
      \<lambda>s. fr_local_follow s = Some local_follow_state.Pending),
     (''accepted_local_follow_reachable'',
      \<lambda>s. fr_local_follow s = Some local_follow_state.Accepted),
     (''queued_remote_request_reachable'',
      \<lambda>s. fr_remote_request s = remote_inbound_follow_request_state.Queued)]"

lemma allowed_iff_waiting: "local_follow_request_action_allowed s = follow_request_waiting s"
  by (simp add: local_follow_request_action_allowed_def follow_request_waiting_def)

interpretation lf_model: model_invariant lf_init_states lf_actions lf_next_state follow_request_ok
proof unfold_locales
  show "s \<in> set lf_init_states \<Longrightarrow> follow_request_ok s" for s
    using initial_follow_request_ok [of LocalFollower] initial_follow_request_ok [of RemoteFollower]
    by (auto simp: lf_init_states_def simp del: initial_local_follow_request_state.simps)
  show "follow_request_ok s \<Longrightarrow> a \<in> set (lf_actions s) \<Longrightarrow> lf_next_state s a = Some t \<Longrightarrow>
      follow_request_ok t" for s a t
    by (cases a) (auto simp: lf_next_state_def authorize_ok reject_ok split: if_splits)
qed

lemma lf_always_holds: "follow_request_ok s \<Longrightarrow> list_all (\<lambda>p. snd p s) lf_always"
  by (cases "fr_scenario s"; cases "fr_remote_request s"; cases "fr_local_follow s")
     (auto simp: lf_always_def follow_request_ok_def)

lemma lf_sometimes_holds: "sometimes_holds lf_init_states lf_actions lf_next_state lf_sometimes"
proof (rule sometimes_holdsI)
  show "list_all2 (\<lambda>p (s, as). s \<in> set lf_init_states \<and>
      (case run_path lf_actions lf_next_state s as of Some t \<Rightarrow> snd p t | None \<Rightarrow> False))
    lf_sometimes
    [(lf_init_states ! 2, []), (lf_init_states ! 0, []), (lf_init_states ! 3, [])]"
    by code_simp
qed

subsection \<open>The worker\<close>

definition lf_worker_allows ::
    "local_follow_request_state \<Rightarrow> local_follow_request_action \<Rightarrow> bool" where
  "lf_worker_allows s a = local_follow_request_action_allowed s"

definition lf_worker_effect ::
    "local_follow_request_state \<Rightarrow> local_follow_request_action \<Rightarrow>
     local_follow_request_state" where
  "lf_worker_effect s a =
    (if \<not> lf_worker_allows s a then s
     else case a of
         Authorize \<Rightarrow> authorize_local_follow_request s
       | Reject \<Rightarrow> reject_local_follow_request s)"

definition lf_domain_step ::
    "local_follow_request_state \<Rightarrow> local_follow_request_action \<Rightarrow>
     local_follow_request_state" where
  "lf_domain_step s a = unwrap_or (lf_next_state s a) s"

interpretation lf_worker: worker_refinement lf_worker_allows lf_worker_effect lf_domain_step
  by unfold_locales
     (simp_all add: lf_worker_allows_def lf_worker_effect_def lf_domain_step_def lf_next_state_def)

text \<open>Once nothing waits, every further operation is refused.\<close>

lemma lf_settled: "\<not> follow_request_waiting s \<Longrightarrow> foldl lf_worker_effect s as = s"
  by (induction as) (simp_all add: lf_worker_effect_def lf_worker_allows_def allowed_iff_waiting)

lemma lf_decision_settles:
  "follow_request_waiting s \<Longrightarrow> \<not> follow_request_waiting (lf_worker_effect s a)"
  by (cases a)
     (simp_all add: lf_worker_effect_def lf_worker_allows_def allowed_iff_waiting authorize_settles
       reject_settles)

section \<open>Inbox replays\<close>

datatype inbox_replay_action = Receive | CompleteSuccess | CompleteFailure

definition ir_init_states :: "inbox_activity_record_state list" where
  "ir_init_states = [inbox_activity_record_state.Absent, InFlight, Processed]"

definition ir_actions :: "inbox_activity_record_state \<Rightarrow> inbox_replay_action list" where
  "ir_actions s = inbox_replay_action.Receive #
    (if s = InFlight then [CompleteSuccess, CompleteFailure] else [])"

fun ir_next_state ::
    "inbox_activity_record_state \<Rightarrow> inbox_replay_action \<Rightarrow>
     inbox_activity_record_state option" where
  "ir_next_state s inbox_replay_action.Receive =
     (case inbox_activity_after_receive s of (nxt, _) \<Rightarrow> Some nxt)"
| "ir_next_state s CompleteSuccess = inbox_activity_after_success s"
| "ir_next_state s CompleteFailure = inbox_activity_after_failure s"

definition ir_always :: "inbox_activity_record_state named_property list" where
  "ir_always =
    [(''processed_replays_are_rejected'',
      \<lambda>s. if s \<noteq> Processed then True
        else case inbox_activity_after_receive s of (_, is_accepted) \<Rightarrow> \<not> is_accepted),
     (''in_flight_replays_are_rejected'',
      \<lambda>s. if s \<noteq> InFlight then True
        else case inbox_activity_after_receive s of (nxt, is_accepted) \<Rightarrow>
          \<not> is_accepted \<and> nxt = InFlight),
     (''success_only_from_in_flight'',
      \<lambda>s. inbox_activity_after_success s = None \<or> s = InFlight),
     (''failure_only_releases_in_flight'',
      \<lambda>s. inbox_activity_after_failure s = None \<or> s = InFlight)]"

definition ir_sometimes :: "inbox_activity_record_state named_property list" where
  "ir_sometimes = [(''processed_reachable'', \<lambda>s. s = Processed)]"

interpretation ir_model: model_invariant ir_init_states ir_actions ir_next_state "\<lambda>_. True"
  by unfold_locales simp_all

lemma ir_always_holds: "list_all (\<lambda>p. snd p s) ir_always"
  by (cases s) (simp_all add: ir_always_def)

lemma ir_sometimes_holds: "sometimes_holds ir_init_states ir_actions ir_next_state ir_sometimes"
proof (rule sometimes_holdsI)
  show "list_all2 (\<lambda>p (s, as). s \<in> set ir_init_states \<and>
      (case run_path ir_actions ir_next_state s as of Some t \<Rightarrow> snd p t | None \<Rightarrow> False))
    ir_sometimes
    [(inbox_activity_record_state.Absent, [inbox_replay_action.Receive, CompleteSuccess])]"
    by code_simp
qed

subsection \<open>The worker\<close>

definition ir_worker_allows_receive :: "inbox_activity_record_state \<Rightarrow> bool" where
  "ir_worker_allows_receive s = snd (inbox_activity_after_receive s)"

definition ir_worker_allows_complete :: "inbox_activity_record_state \<Rightarrow> bool \<Rightarrow> bool" where
  "ir_worker_allows_complete s success =
    (if success then inbox_activity_after_success s \<noteq> None
     else inbox_activity_after_failure s \<noteq> None)"

fun ir_worker_allows :: "inbox_activity_record_state \<Rightarrow> inbox_replay_action \<Rightarrow> bool" where
  "ir_worker_allows s inbox_replay_action.Receive = ir_worker_allows_receive s"
| "ir_worker_allows s CompleteSuccess = ir_worker_allows_complete s True"
| "ir_worker_allows s CompleteFailure = ir_worker_allows_complete s False"

fun ir_worker_effect ::
    "inbox_activity_record_state \<Rightarrow> inbox_replay_action \<Rightarrow> inbox_activity_record_state" where
  "ir_worker_effect s inbox_replay_action.Receive = fst (inbox_activity_after_receive s)"
| "ir_worker_effect s CompleteSuccess = unwrap_or (inbox_activity_after_success s) s"
| "ir_worker_effect s CompleteFailure = unwrap_or (inbox_activity_after_failure s) s"

definition ir_domain_step ::
    "inbox_activity_record_state \<Rightarrow> inbox_replay_action \<Rightarrow> inbox_activity_record_state" where
  "ir_domain_step s a = unwrap_or (ir_next_state s a) s"

interpretation ir_worker: worker_refinement ir_worker_allows ir_worker_effect ir_domain_step
proof unfold_locales
  show "ir_worker_allows s a \<Longrightarrow> ir_worker_effect s a = ir_domain_step s a" for s a
    by (cases a; cases s) (simp_all add: ir_domain_step_def)
  show "\<not> ir_worker_allows s a \<Longrightarrow> ir_worker_effect s a = s" for s a
    by (cases a; cases s) (simp_all add: ir_worker_allows_receive_def ir_worker_allows_complete_def)
qed

section \<open>Finitely many states\<close>

lemma finite_local_follow_request_state: "finite (UNIV :: local_follow_request_state set)"
proof -
  have "(UNIV :: follow_request_scenario set) = {LocalFollower, RemoteFollower}"
    using follow_request_scenario.exhaust by auto
  then have 1: "finite (UNIV :: follow_request_scenario set)" by (metis finite.emptyI finite_insert)
  have "(UNIV :: local_follow_state set) = {local_follow_state.Pending, local_follow_state.Accepted}"
    using local_follow_state.exhaust by auto
  then have "finite (UNIV :: local_follow_state set)" by (metis finite.emptyI finite_insert)
  then have 2: "finite (UNIV :: local_follow_state option set)" by (simp add: UNIV_option_conv)
  have "(UNIV :: remote_inbound_follow_request_state set) =
      {remote_inbound_follow_request_state.Absent, remote_inbound_follow_request_state.Queued, Fulfilled}"
    using remote_inbound_follow_request_state.exhaust by auto
  then have 3: "finite (UNIV :: remote_inbound_follow_request_state set)"
    by (metis finite.emptyI finite_insert)
  show ?thesis
  proof (rule finite_surj_UNIV)
    show "finite (UNIV :: (follow_request_scenario \<times> bool \<times> local_follow_state option \<times>
        remote_inbound_follow_request_state) set)"
      using 1 2 3 by (simp add: finite_prod)
    show "\<exists>x. (\<lambda>(a, b, c, d). \<lparr>fr_scenario = a, fr_target_locked = b, fr_local_follow = c,
        fr_remote_request = d\<rparr>) x = s" for s
      by (cases s) simp
  qed
qed

lemma finite_inbox_activity_record_state: "finite (UNIV :: inbox_activity_record_state set)"
proof -
  have "(UNIV :: inbox_activity_record_state set) =
      {inbox_activity_record_state.Absent, InFlight, Processed}"
    using inbox_activity_record_state.exhaust by auto
  then show ?thesis by (metis finite.emptyI finite_insert)
qed

section \<open>The check at work\<close>

text \<open>
  The refinement check on the inbox: it passes the worker, and it catches one that begins to
  process whatever it receives.
\<close>

definition ir_careless_effect ::
    "inbox_activity_record_state \<Rightarrow> inbox_replay_action \<Rightarrow> inbox_activity_record_state" where
  "ir_careless_effect s a =
    (if a = inbox_replay_action.Receive then InFlight else ir_worker_effect s a)"

theorem refinement_check_decides_witness:
  "(settles (assert_worker_refinement ir_init_states ir_actions ir_worker_allows
      ir_worker_effect ir_domain_step) True) \<and>
   (settles (assert_worker_refinement ir_init_states ir_actions ir_worker_allows
      ir_careless_effect ir_domain_step) False)"
proof
  have fin: "finite {s. walk_reachable (expand_worker ir_actions ir_worker_allows e ir_domain_step)
      (set ir_init_states) s}" for e
    by (rule rev_finite_subset [OF finite_inbox_activity_record_state]) simp
  have good: "ir_worker_effect s a = (if ir_worker_allows s a then ir_domain_step s a else s)" for s a
    by (cases a; cases s) (simp_all add: ir_domain_step_def ir_worker_allows_receive_def
        ir_worker_allows_complete_def)
  show "settles (assert_worker_refinement ir_init_states ir_actions ir_worker_allows
      ir_worker_effect ir_domain_step) True"
    using refinement_check_decides [OF fin [of ir_worker_effect]] good by auto
  have "walk_reachable (expand_worker ir_actions ir_worker_allows ir_careless_effect ir_domain_step)
      (set ir_init_states) Processed"
    by (rule walk_reachable.intros) (simp add: ir_init_states_def)
  moreover have "inbox_replay_action.Receive \<in> set (ir_actions Processed)"
    "ir_careless_effect Processed inbox_replay_action.Receive = InFlight"
    "\<not> ir_worker_allows Processed inbox_replay_action.Receive"
    by (simp_all add: ir_actions_def ir_careless_effect_def ir_worker_allows_receive_def)
  ultimately have refused: "(\<forall>s a. walk_reachable (expand_worker ir_actions ir_worker_allows
      ir_careless_effect ir_domain_step) (set ir_init_states) s \<and> a \<in> set (ir_actions s) \<longrightarrow>
      ir_careless_effect s a = (if ir_worker_allows s a then ir_domain_step s a else s)) = False"
    by (metis inbox_activity_record_state.distinct(5))
  show "settles (assert_worker_refinement ir_init_states ir_actions ir_worker_allows
      ir_careless_effect ir_domain_step) False"
    using refinement_check_decides [OF fin [of ir_careless_effect]] by (simp only: refused)
qed

section \<open>Properties\<close>

text \<open>
  The first decision on a follow request is final. For a follower of either kind and
  whatever decisions come, an unlocked account is followed at once and every decision is refused;
  for a locked account the first decision settles the request and the later ones are refused. A
  row for an accepted follow exists exactly when the account is unlocked or the first decision
  authorised it, and until then a local follower has a pending row and a remote one has none.
\<close>

theorem follow_request_first_decision:
  "(let start = initial_local_follow_request_state sc locked;
        final = foldl lf_worker_effect start as
    in final = (if locked \<and> as \<noteq> [] then lf_worker_effect start (hd as) else start) \<and>
       fr_local_follow final =
         (if locked
          then if as = [] then (if sc = LocalFollower then Some local_follow_state.Pending else None)
               else if hd as = Authorize then Some local_follow_state.Accepted else None
          else Some local_follow_state.Accepted) \<and>
       follow_request_ok final \<and> follow_request_waiting final = (locked \<and> as = []))"
proof -
  let ?start = "initial_local_follow_request_state sc locked"
  have final: "foldl lf_worker_effect ?start as =
      (if locked \<and> as \<noteq> [] then lf_worker_effect ?start (hd as) else ?start)"
    using lf_settled [of ?start as] lf_settled [OF lf_decision_settles [of ?start "hd as"], of "tl as"]
    by (cases as) (auto simp: initial_follow_request_waiting)
  have ok: "follow_request_ok (lf_worker_effect s a)" if "follow_request_ok s" for s a
    using that by (cases a) (simp_all add: lf_worker_effect_def authorize_ok reject_ok)
  have waiting: "follow_request_waiting (foldl lf_worker_effect ?start as) = (locked \<and> as = [])"
    unfolding final using lf_decision_settles [of ?start "hd as"]
    by (auto simp: initial_follow_request_waiting)
  have decided: "fr_local_follow (lf_worker_effect (initial_local_follow_request_state sc True) a) =
      (if a = Authorize then Some local_follow_state.Accepted else None)" for a
    by (cases sc; cases a)
       (simp_all add: lf_worker_effect_def lf_worker_allows_def local_follow_request_action_allowed_def
         initial_local_follow_state_def remote_inbound_request_after_inbox_follow_def Let_def
         authorize_local_follow_request_def reject_local_follow_request_def
         local_follow_exists_after_reject_def)
  have undecided: "fr_local_follow ?start = (if \<not> locked then Some local_follow_state.Accepted
      else if sc = LocalFollower then Some local_follow_state.Pending else None)"
    by (cases sc) (simp_all add: initial_local_follow_state_def
        remote_inbound_request_after_inbox_follow_def Let_def)
  show ?thesis
    unfolding Let_def
  proof (intro conjI)
    show "fr_local_follow (foldl lf_worker_effect ?start as) =
       (if locked
        then if as = [] then (if sc = LocalFollower then Some local_follow_state.Pending else None)
             else if hd as = Authorize then Some local_follow_state.Accepted else None
        else Some local_follow_state.Accepted)"
      unfolding final using decided undecided by auto
    show "follow_request_ok (foldl lf_worker_effect ?start as)"
      unfolding final using ok initial_follow_request_ok by simp
  qed (fact final waiting)+
qed

text \<open>
  The models of follow requests and of inbox replays keep every property they declare in
  every reachable state and reach what they call reachable, and the walks of
  \<open>check_local_follow_request_refinement\<close> and \<open>check_inbox_replay_refinement\<close> end and
  pass.
\<close>

theorem follow_and_inbox_models_verified:
  "properties_hold lf_init_states lf_actions lf_next_state lf_always lf_sometimes \<and>
   properties_hold ir_init_states ir_actions ir_next_state ir_always ir_sometimes \<and>
   settles (assert_model_matches_domain lf_init_states lf_actions lf_next_state lf_next_state) True \<and>
   settles (assert_worker_refinement lf_init_states lf_actions lf_worker_allows lf_worker_effect
        lf_domain_step) True \<and>
   settles (assert_model_matches_domain ir_init_states ir_actions ir_next_state ir_next_state) True \<and>
   settles (assert_worker_refinement ir_init_states ir_actions ir_worker_allows ir_worker_effect
        ir_domain_step) True"
proof (intro conjI)
  show "properties_hold lf_init_states lf_actions lf_next_state lf_always lf_sometimes"
    by (rule lf_model.properties_holdI [OF lf_always_holds lf_sometimes_holds])
  show "properties_hold ir_init_states ir_actions ir_next_state ir_always ir_sometimes"
    by (rule ir_model.properties_holdI [OF ir_always_holds ir_sometimes_holds])
qed (simp_all add: lf_worker.check_finishes ir_worker.check_finishes matches_domain_finishes
    finite_local_follow_request_state finite_inbox_activity_record_state)

end
