(* ===== verification/Model_Registration.thy ===== *)
theory Model_Registration
  imports Stateright Registration
begin

text \<open>
  The models of account registration: the pipeline from the submitted form to the stored account
  (\<open>registration_pipeline.rs\<close>), the events its transitions emit
  (\<open>registration_transition_events.rs\<close>) and provisioning by an access provider
  (\<open>access_provision.rs\<close>), with their refinements. An \<open>expect\<close> or \<open>assert\<close> of a fixture
  is a \<open>None\<close>.
\<close>

section \<open>The registration pipeline\<close>

datatype registration_stage = Composing | Validated | ValidationFailed | Registered | Provisioned

datatype text_field_input = Missing | Blank | Invalid | Valid

datatype field_kind = UsernameField | EmailField

record registration_pipeline_model_state =
  rp_stage :: registration_stage
  rp_username :: text_field_input
  rp_email :: text_field_input
  rp_password_present :: bool
  rp_agreement :: bool
  rp_username_taken :: bool
  rp_email_taken :: bool

datatype registration_pipeline_action =
    CycleUsername | CycleEmail | TogglePassword | ToggleAgreement | ToggleUsernameTaken
  | ToggleEmailTaken | Validate | Register | Provision

fun cycle_field :: "text_field_input \<Rightarrow> text_field_input" where
  "cycle_field Missing = text_field_input.Blank"
| "cycle_field text_field_input.Blank = text_field_input.Invalid"
| "cycle_field text_field_input.Invalid = Valid"
| "cycle_field Valid = Missing"

fun registration_pipeline_field_value :: "text_field_input \<Rightarrow> field_kind \<Rightarrow> string option" where
  "registration_pipeline_field_value Missing _ = None"
| "registration_pipeline_field_value text_field_input.Blank _ = Some []"
| "registration_pipeline_field_value text_field_input.Invalid UsernameField = Some ''bad name!''"
| "registration_pipeline_field_value text_field_input.Invalid EmailField = Some ''not-an-email''"
| "registration_pipeline_field_value Valid UsernameField = Some ''alice''"
| "registration_pipeline_field_value Valid EmailField = Some ''alice@example.com''"

definition registration_pipeline_composing ::
    "registration_pipeline_model_state \<Rightarrow> composing_registration" where
  "registration_pipeline_composing s =
    \<lparr>cr_username = registration_pipeline_field_value (rp_username s) UsernameField,
     cr_email = registration_pipeline_field_value (rp_email s) EmailField,
     cr_password_present = rp_password_present s,
     cr_agreement = then_some (rp_agreement s) True\<rparr>"

fun field_input_issue :: "text_field_input \<Rightarrow> registration_field_issue option" where
  "field_input_issue Missing = Some registration_field_issue.Blank"
| "field_input_issue text_field_input.Blank = Some registration_field_issue.Blank"
| "field_input_issue text_field_input.Invalid = Some InvalidFormat"
| "field_input_issue Valid = None"

definition registration_pipeline_validation_errors ::
    "registration_pipeline_model_state \<Rightarrow> registration_validation_errors" where
  "registration_pipeline_validation_errors s =
    \<lparr>re_username = field_input_issue (rp_username s), re_email = field_input_issue (rp_email s),
     re_password =
       (if \<not> rp_password_present s then Some registration_field_issue.Blank else None),
     re_agreement = (if \<not> rp_agreement s then Some MustBeAccepted else None)\<rparr>"

definition registration_pipeline_fixture_keys :: account_key_material where
  "registration_pipeline_fixture_keys =
    \<lparr>km_private_key_jwk = ''{\"kty\":\"RSA\"}'', km_public_key_pem = ''pem-fixture''\<rparr>"

definition registration_pipeline_fixture_account_id :: "account_id option" where
  "registration_pipeline_fixture_account_id = ok (account_id_new ''acct-model'')"

definition registration_pipeline_uniqueness_facts ::
    "registration_pipeline_model_state \<Rightarrow> registration_uniqueness_facts" where
  "registration_pipeline_uniqueness_facts s =
    \<lparr>uf_username_taken = rp_username_taken s, uf_email_taken = rp_email_taken s\<rparr>"

definition registration_pipeline_uniqueness_errors ::
    "registration_pipeline_model_state \<Rightarrow> registration_validation_errors" where
  "registration_pipeline_uniqueness_errors s =
    registration_uniqueness_errors (registration_pipeline_uniqueness_facts s)"

definition registration_pipeline_register_allowed ::
    "registration_pipeline_model_state \<Rightarrow> bool" where
  "registration_pipeline_register_allowed s \<longleftrightarrow>
    rp_stage s = Validated \<and>
    registration_errors_is_empty (registration_pipeline_validation_errors s) \<and>
    registration_errors_is_empty (registration_pipeline_uniqueness_errors s)"

definition registration_pipeline_finalize_allowed ::
    "registration_pipeline_model_state \<Rightarrow> bool" where
  "registration_pipeline_finalize_allowed s \<longleftrightarrow>
    registration_errors_is_empty (registration_pipeline_validation_errors s) \<and>
    registration_errors_is_empty (registration_pipeline_uniqueness_errors s)"

definition apply_registration_pipeline_validate ::
    "registration_pipeline_model_state \<Rightarrow> registration_stage" where
  "apply_registration_pipeline_validate s =
    (if registration_errors_is_empty (registration_pipeline_validation_errors s)
     then Validated else ValidationFailed)"

text \<open>A transition whose event has been checked; \<open>None\<close> when the assertion fails.\<close>

definition with_asserted_event ::
    "('s, registration_event) transition \<Rightarrow> registration_event \<Rightarrow> 's option" where
  "with_asserted_event t e = then_some (has_event t e) (t_state t)"

definition registration_pipeline_provisioned_account ::
    "registration_pipeline_model_state \<Rightarrow> local_account option" where
  "registration_pipeline_provisioned_account s =
    Option.bind (registration_validate (registration_pipeline_composing s)) (\<lambda>result.
    Option.bind (ok result) (\<lambda>validated.
    Option.bind (with_asserted_event validated IntentValidated) (\<lambda>intent.
    Option.bind registration_pipeline_fixture_account_id (\<lambda>ident.
      with_asserted_event
        (provision (registration_intent_register intent ident registration_pipeline_fixture_keys)
           ''2026-01-01T00:00:00.000Z'')
        AccountProvisioned))))"

definition rp_init_states :: "registration_pipeline_model_state list" where
  "rp_init_states =
    [\<lparr>rp_stage = Composing, rp_username = u, rp_email = e, rp_password_present = p,
      rp_agreement = a, rp_username_taken = ut, rp_email_taken = et\<rparr>.
     u \<leftarrow> [Missing, text_field_input.Blank, text_field_input.Invalid, Valid],
     e \<leftarrow> [Missing, text_field_input.Blank, text_field_input.Invalid, Valid],
     p \<leftarrow> [False, True], a \<leftarrow> [False, True], ut \<leftarrow> [False, True], et \<leftarrow> [False, True]]"

definition rp_actions ::
    "registration_pipeline_model_state \<Rightarrow> registration_pipeline_action list" where
  "rp_actions s =
    (case rp_stage s of
       Composing \<Rightarrow> [CycleUsername, CycleEmail, TogglePassword, ToggleAgreement,
         ToggleUsernameTaken, ToggleEmailTaken, Validate]
     | Validated \<Rightarrow> if registration_pipeline_register_allowed s then [Register] else []
     | Registered \<Rightarrow> [Provision]
     | ValidationFailed \<Rightarrow> []
     | Provisioned \<Rightarrow> [])"

fun rp_next_state ::
    "registration_pipeline_model_state \<Rightarrow> registration_pipeline_action \<Rightarrow>
     registration_pipeline_model_state option" where
  "rp_next_state s CycleUsername =
     (if rp_stage s \<noteq> Composing then None
      else Some (s\<lparr>rp_username := cycle_field (rp_username s)\<rparr>))"
| "rp_next_state s CycleEmail =
     (if rp_stage s \<noteq> Composing then None
      else Some (s\<lparr>rp_email := cycle_field (rp_email s)\<rparr>))"
| "rp_next_state s TogglePassword =
     (if rp_stage s \<noteq> Composing then None
      else Some (s\<lparr>rp_password_present := \<not> rp_password_present s\<rparr>))"
| "rp_next_state s ToggleAgreement =
     (if rp_stage s \<noteq> Composing then None
      else Some (s\<lparr>rp_agreement := \<not> rp_agreement s\<rparr>))"
| "rp_next_state s ToggleUsernameTaken =
     (if rp_stage s \<noteq> Composing then None
      else Some (s\<lparr>rp_username_taken := \<not> rp_username_taken s\<rparr>))"
| "rp_next_state s ToggleEmailTaken =
     (if rp_stage s \<noteq> Composing then None
      else Some (s\<lparr>rp_email_taken := \<not> rp_email_taken s\<rparr>))"
| "rp_next_state s Validate =
     (if rp_stage s \<noteq> Composing then None
      else Some (s\<lparr>rp_stage := apply_registration_pipeline_validate s\<rparr>))"
| "rp_next_state s Register =
     (if \<not> registration_pipeline_register_allowed s then None
      else Some (s\<lparr>rp_stage := Registered\<rparr>))"
| "rp_next_state s Provision =
     (if rp_stage s \<noteq> Registered then None
      else Some (s\<lparr>rp_stage := Provisioned\<rparr>))"

text \<open>A property of the account, at the provisioned stage only.\<close>

definition provisioned_only ::
    "(local_account \<Rightarrow> bool) \<Rightarrow> registration_pipeline_model_state \<Rightarrow> bool" where
  "provisioned_only P s =
    (if rp_stage s \<noteq> Provisioned then True
     else case registration_pipeline_provisioned_account s of None \<Rightarrow> False | Some a \<Rightarrow> P a)"

definition rp_always :: "registration_pipeline_model_state named_property list" where
  "rp_always =
    [(''validation_failed_matches_domain_rules'',
      \<lambda>s. rp_stage s \<noteq> ValidationFailed \<or>
        \<not> registration_errors_is_empty (registration_pipeline_validation_errors s)),
     (''validated_inputs_have_no_validation_errors'',
      \<lambda>s. rp_stage s \<noteq> Validated \<or>
        registration_errors_is_empty (registration_pipeline_validation_errors s)),
     (''registered_implies_unique_username_and_email'',
      \<lambda>s. rp_stage s \<noteq> Registered \<and> rp_stage s \<noteq> Provisioned \<or>
        \<not> rp_username_taken s \<and> \<not> rp_email_taken s),
     (''registered_implies_validated_inputs'',
      \<lambda>s. rp_stage s \<noteq> Registered \<and> rp_stage s \<noteq> Provisioned \<or>
        registration_errors_is_empty (registration_pipeline_validation_errors s)),
     (''provisioned_account_preserves_identity'',
      provisioned_only (\<lambda>a. la_username a = ''alice'' \<and>
        la_access_email a = ''alice@example.com'')),
     (''provisioned_account_uses_fixture_keys'',
      provisioned_only (\<lambda>a. la_public_key_pem a = ''pem-fixture'' \<and>
        la_private_key_jwk a = ''{\"kty\":\"RSA\"}'')),
     (''provisioned_account_has_active_defaults'',
      provisioned_only (\<lambda>a. \<not> la_locked a \<and> la_default_post_visibility a = visibility.Public \<and>
        la_default_quote_policy a = quote_approval_policy.Public)),
     (''provisioned_display_name_matches_username'',
      provisioned_only (\<lambda>a. la_display_name a = la_username a))]"

definition rp_sometimes :: "registration_pipeline_model_state named_property list" where
  "rp_sometimes =
    [(''provisioned_account_reachable'', \<lambda>s. rp_stage s = Provisioned),
     (''validation_failure_reachable'', \<lambda>s. rp_stage s = ValidationFailed)]"

definition rp_inv :: "registration_pipeline_model_state \<Rightarrow> bool" where
  "rp_inv s \<longleftrightarrow>
    (case rp_stage s of
       Composing \<Rightarrow> True
     | Validated \<Rightarrow> registration_errors_is_empty (registration_pipeline_validation_errors s)
     | ValidationFailed \<Rightarrow>
         \<not> registration_errors_is_empty (registration_pipeline_validation_errors s)
     | _ \<Rightarrow> registration_pipeline_finalize_allowed s)"

lemma validation_errors_stage [simp]:
  "registration_pipeline_validation_errors (s\<lparr>rp_stage := st\<rparr>) =
   registration_pipeline_validation_errors s"
  "registration_pipeline_uniqueness_errors (s\<lparr>rp_stage := st\<rparr>) =
   registration_pipeline_uniqueness_errors s"
  "registration_pipeline_composing (s\<lparr>rp_stage := st\<rparr>) = registration_pipeline_composing s"
  "registration_pipeline_uniqueness_facts (s\<lparr>rp_stage := st\<rparr>) =
   registration_pipeline_uniqueness_facts s"
  by (simp_all add: registration_pipeline_validation_errors_def
      registration_pipeline_uniqueness_errors_def registration_pipeline_uniqueness_facts_def
      registration_pipeline_composing_def)

lemma field_input_issue_None: "field_input_issue i = None \<longleftrightarrow> i = Valid"
  by (cases i) simp_all

lemma pipeline_errors_empty:
  "registration_errors_is_empty (registration_pipeline_validation_errors s) \<longleftrightarrow>
    rp_username s = Valid \<and> rp_email s = Valid \<and> rp_password_present s \<and> rp_agreement s"
  by (auto simp: registration_errors_is_empty_def registration_pipeline_validation_errors_def
      field_input_issue_None)

text \<open>The errors the model expects are the errors of the domain.\<close>

lemma validate_field_inputs:
  "validate_username_field (registration_pipeline_field_value i UsernameField) =
    (field_input_issue i, if i = Valid then Some (username.Username ''alice'') else None)"
  "validate_email_field (registration_pipeline_field_value i EmailField) =
    (field_input_issue i, if i = Valid then Some (AccessEmail ''alice@example.com'') else None)"
  by (cases i; hypsubst; code_simp)+

lemma pipeline_validate:
  "registration_validate (registration_pipeline_composing s) =
    Some (if registration_errors_is_empty (registration_pipeline_validation_errors s)
      then Inr (with_event \<lparr>ri_username = username.Username ''alice'',
        ri_email = AccessEmail ''alice@example.com''\<rparr> IntentValidated)
      else Inl (registration_pipeline_validation_errors s))"
proof -
  have agreement: "then_some b True \<noteq> Some True \<longleftrightarrow> \<not> b" for b
    by (simp add: then_some_def)
  have errors: "registration_pipeline_validation_errors s =
      \<lparr>re_username = field_input_issue (rp_username s), re_email = field_input_issue (rp_email s),
       re_password = (if \<not> cr_password_present (registration_pipeline_composing s)
         then Some registration_field_issue.Blank else None),
       re_agreement = (if cr_agreement (registration_pipeline_composing s) \<noteq> Some True
         then Some MustBeAccepted else None)\<rparr>"
    by (simp add: registration_pipeline_validation_errors_def registration_pipeline_composing_def
        agreement)
  have fields: "cr_username (registration_pipeline_composing s) =
      registration_pipeline_field_value (rp_username s) UsernameField"
    "cr_email (registration_pipeline_composing s) =
      registration_pipeline_field_value (rp_email s) EmailField"
    by (simp_all add: registration_pipeline_composing_def)
  show ?thesis
    using pipeline_errors_empty [of s]
    by (simp add: registration_validate_def fields validate_field_inputs Let_def
        flip: errors)
qed

lemma pipeline_provisioned:
  assumes "registration_errors_is_empty (registration_pipeline_validation_errors s)"
  shows "\<exists>a. registration_pipeline_provisioned_account s = Some a \<and>
    la_username a = ''alice'' \<and> la_display_name a = ''alice'' \<and>
    la_access_email a = ''alice@example.com'' \<and> la_public_key_pem a = ''pem-fixture'' \<and>
    la_private_key_jwk a = ''{\"kty\":\"RSA\"}'' \<and> \<not> la_locked a \<and>
    la_default_post_visibility a = visibility.Public \<and>
    la_default_quote_policy a = quote_approval_policy.Public"
proof -
  have ident: "registration_pipeline_fixture_account_id = Some (AccountId ''acct-model'')"
    by code_simp
  show ?thesis
    using assms
    by (simp add: registration_pipeline_provisioned_account_def pipeline_validate ident
        with_asserted_event_def with_event_def has_event_def provision_def
        registration_intent_register_def registration_pipeline_fixture_keys_def ok_def)
qed

interpretation rp_model: model_invariant rp_init_states rp_actions rp_next_state rp_inv
proof unfold_locales
  show "s \<in> set rp_init_states \<Longrightarrow> rp_inv s" for s
    by (auto simp: rp_init_states_def rp_inv_def)
  show "rp_inv s \<Longrightarrow> a \<in> set (rp_actions s) \<Longrightarrow> rp_next_state s a = Some t \<Longrightarrow> rp_inv t" for s a t
    by (cases a)
       (auto simp: rp_inv_def apply_registration_pipeline_validate_def
         registration_pipeline_register_allowed_def registration_pipeline_finalize_allowed_def
         split: if_splits)
qed

lemma rp_always_holds: "rp_inv s \<Longrightarrow> list_all (\<lambda>p. snd p s) rp_always"
  using pipeline_provisioned [of s]
  by (auto simp: rp_always_def rp_inv_def provisioned_only_def
      registration_pipeline_finalize_allowed_def registration_pipeline_uniqueness_errors_def
      registration_pipeline_uniqueness_facts_def uniqueness_empty_iff
      split: registration_stage.splits)

definition rp_good_form :: registration_pipeline_model_state where
  "rp_good_form =
    \<lparr>rp_stage = Composing, rp_username = Valid, rp_email = Valid, rp_password_present = True,
     rp_agreement = True, rp_username_taken = False, rp_email_taken = False\<rparr>"

definition rp_empty_form :: registration_pipeline_model_state where
  "rp_empty_form =
    \<lparr>rp_stage = Composing, rp_username = Missing, rp_email = Missing,
     rp_password_present = False, rp_agreement = False, rp_username_taken = False,
     rp_email_taken = False\<rparr>"

lemma rp_sometimes_holds: "sometimes_holds rp_init_states rp_actions rp_next_state rp_sometimes"
proof (rule sometimes_holdsI)
  have "rp_good_form \<in> set rp_init_states" "rp_empty_form \<in> set rp_init_states"
    by (simp_all add: rp_init_states_def rp_good_form_def rp_empty_form_def)
  moreover have "case run_path rp_actions rp_next_state rp_good_form [Validate, Register, Provision] of
      Some t \<Rightarrow> rp_stage t = Provisioned | None \<Rightarrow> False"
    "case run_path rp_actions rp_next_state rp_empty_form [Validate] of
      Some t \<Rightarrow> rp_stage t = ValidationFailed | None \<Rightarrow> False"
    by code_simp+
  ultimately show "list_all2 (\<lambda>p (s, as). s \<in> set rp_init_states \<and>
      (case run_path rp_actions rp_next_state s as of Some t \<Rightarrow> snd p t | None \<Rightarrow> False))
    rp_sometimes [(rp_good_form, [Validate, Register, Provision]), (rp_empty_form, [Validate])]"
    by (simp add: rp_sometimes_def del: run_path.simps split: option.splits)
qed

subsection \<open>The worker\<close>

definition rp_worker_validate_succeeds :: "registration_pipeline_model_state \<Rightarrow> bool" where
  "rp_worker_validate_succeeds s =
    registration_errors_is_empty (registration_pipeline_validation_errors s)"

definition rp_worker_register_succeeds :: "registration_pipeline_model_state \<Rightarrow> bool" where
  "rp_worker_register_succeeds s = registration_pipeline_finalize_allowed s"

fun rp_worker_allows ::
    "registration_pipeline_model_state \<Rightarrow> registration_pipeline_action \<Rightarrow> bool" where
  "rp_worker_allows s Validate \<longleftrightarrow> rp_stage s = Composing"
| "rp_worker_allows s Register \<longleftrightarrow> registration_pipeline_register_allowed s"
| "rp_worker_allows s Provision \<longleftrightarrow> rp_stage s = Registered"
| "rp_worker_allows s _ \<longleftrightarrow> False"

definition rp_worker_effect ::
    "registration_pipeline_model_state \<Rightarrow> registration_pipeline_action \<Rightarrow>
     registration_pipeline_model_state" where
  "rp_worker_effect s a =
    (if \<not> rp_worker_allows s a then s
     else case a of
         Validate \<Rightarrow> s\<lparr>rp_stage := apply_registration_pipeline_validate s\<rparr>
       | Register \<Rightarrow> s\<lparr>rp_stage := Registered\<rparr>
       | Provision \<Rightarrow> s\<lparr>rp_stage := Provisioned\<rparr>
       | _ \<Rightarrow> s)"

definition rp_domain_step ::
    "registration_pipeline_model_state \<Rightarrow> registration_pipeline_action \<Rightarrow>
     registration_pipeline_model_state" where
  "rp_domain_step s a = unwrap_or (rp_next_state s a) s"

definition rp_worker_states :: "registration_pipeline_model_state list" where
  "rp_worker_states = rp_init_states @ concat (map (\<lambda>s.
     if registration_errors_is_empty (registration_pipeline_validation_errors s)
     then let validated = s\<lparr>rp_stage := Validated\<rparr> in
       validated # (if registration_pipeline_register_allowed validated
                    then [validated\<lparr>rp_stage := Registered\<rparr>] else [])
     else []) rp_init_states)"

definition rp_worker_actions ::
    "registration_pipeline_model_state \<Rightarrow> registration_pipeline_action list" where
  "rp_worker_actions s =
    (case rp_stage s of
       Composing \<Rightarrow> [Validate]
     | Validated \<Rightarrow> if registration_pipeline_register_allowed s then [Register] else []
     | Registered \<Rightarrow> [Provision]
     | _ \<Rightarrow> [])"

interpretation rp_worker: worker_refinement rp_worker_allows rp_worker_effect rp_domain_step
proof unfold_locales
  show "rp_worker_allows s a \<Longrightarrow> rp_worker_effect s a = rp_domain_step s a" for s a
    by (cases a) (simp_all add: rp_worker_effect_def rp_domain_step_def)
  show "\<not> rp_worker_allows s a \<Longrightarrow> rp_worker_effect s a = s" for s a
    by (simp add: rp_worker_effect_def)
qed

subsection \<open>The assertions of the refinement check\<close>

text \<open>
  What \<open>check_registration_pipeline_refinement\<close> asserts of each initial state after its walks.
\<close>

definition rp_refinement_asserts :: "registration_pipeline_model_state \<Rightarrow> bool" where
  "rp_refinement_asserts s \<longleftrightarrow>
    (case registration_validate (registration_pipeline_composing s) of
       None \<Rightarrow> False
     | Some result \<Rightarrow>
         registration_pipeline_validation_errors s = unwrap_or (err result) no_registration_errors \<and>
         rp_worker_validate_succeeds s =
           registration_errors_is_empty (registration_pipeline_validation_errors s) \<and>
         (apply_registration_pipeline_validate s = Validated) = rp_worker_validate_succeeds s \<and>
         rp_worker_register_succeeds s =
           is_ok (finalize_registration_validation result
             (registration_pipeline_uniqueness_facts s)) \<and>
         registration_pipeline_register_allowed s =
           (rp_stage s = Validated \<and> rp_worker_register_succeeds s) \<and>
         (if rp_worker_register_succeeds s
          then (case (registration_pipeline_provisioned_account s, ok result) of
              (Some a, Some validated) \<Rightarrow> la_username a = ''alice'' \<and>
                la_access_email a = ''alice@example.com'' \<and> has_event validated IntentValidated
            | _ \<Rightarrow> False)
          else True))"

lemma rp_refinement_asserts_hold: "rp_refinement_asserts s"
proof (cases "registration_errors_is_empty (registration_pipeline_validation_errors s)")
  case True
  have empty: "registration_pipeline_validation_errors s = no_registration_errors"
    using True
    by (cases "registration_pipeline_validation_errors s")
       (simp add: registration_errors_is_empty_def no_registration_errors_def)
  from pipeline_provisioned [OF True] obtain a where
    "registration_pipeline_provisioned_account s = Some a" "la_username a = ''alice''"
    "la_access_email a = ''alice@example.com''" by blast
  with True empty show ?thesis
    by (simp add: rp_refinement_asserts_def pipeline_validate err_def ok_def is_ok_def
        rp_worker_validate_succeeds_def rp_worker_register_succeeds_def has_event_def with_event_def
        apply_registration_pipeline_validate_def registration_pipeline_finalize_allowed_def
        registration_pipeline_register_allowed_def finalize_registration_validation_def
        registration_pipeline_uniqueness_errors_def and_then_def Let_def)
next
  case False
  then show ?thesis
    by (simp add: rp_refinement_asserts_def pipeline_validate err_def is_ok_def
        rp_worker_validate_succeeds_def rp_worker_register_succeeds_def
        apply_registration_pipeline_validate_def registration_pipeline_finalize_allowed_def
        registration_pipeline_register_allowed_def finalize_registration_validation_def and_then_def)
qed

section \<open>The events of registration\<close>

datatype registration_event_stage =
    Composing
  | IntentValidated
  | AccountProvisioned

record registration_transition_events_model_state =
  rt_stage :: registration_event_stage
  rt_username_present :: bool
  rt_email_present :: bool
  rt_password_present :: bool
  rt_agreement :: bool

datatype registration_transition_events_action =
    ToggleUsername | ToggleEmail | TogglePassword | ToggleAgreement | Validate | RegisterAndProvision

definition rt_composing_registration ::
    "registration_transition_events_model_state \<Rightarrow> composing_registration" where
  "rt_composing_registration s =
    \<lparr>cr_username = then_some (rt_username_present s) ''alice'',
     cr_email = then_some (rt_email_present s) ''alice@example.com'',
     cr_password_present = rt_password_present s,
     cr_agreement = then_some (rt_agreement s) True\<rparr>"

text \<open>\<open>validate\<close> on the form of a state; a panic would count as a failure.\<close>

definition rt_validated ::
    "registration_transition_events_model_state \<Rightarrow>
     (registration_intent, registration_event) transition option" where
  "rt_validated s = Option.bind (registration_validate (rt_composing_registration s)) ok"

definition rt_validation_succeeds :: "registration_transition_events_model_state \<Rightarrow> bool" where
  "rt_validation_succeeds s \<longleftrightarrow> rt_validated s \<noteq> None"

definition rt_worker_validate_succeeds :: "registration_transition_events_model_state \<Rightarrow> bool" where
  "rt_worker_validate_succeeds s = rt_validation_succeeds s"

definition rt_init_states :: "registration_transition_events_model_state list" where
  "rt_init_states =
    [\<lparr>rt_stage = registration_event_stage.Composing, rt_username_present = False,
      rt_email_present = False, rt_password_present = False, rt_agreement = False\<rparr>]"

definition rt_actions ::
    "registration_transition_events_model_state \<Rightarrow>
     registration_transition_events_action list" where
  "rt_actions s =
    (if rt_stage s = registration_event_stage.Composing
     then [ToggleUsername, ToggleEmail, registration_transition_events_action.TogglePassword,
       registration_transition_events_action.ToggleAgreement,
       registration_transition_events_action.Validate] else []) @
    (if rt_stage s = registration_event_stage.IntentValidated then [RegisterAndProvision] else [])"

fun rt_next_state ::
    "registration_transition_events_model_state \<Rightarrow> registration_transition_events_action \<Rightarrow>
     registration_transition_events_model_state option" where
  "rt_next_state s ToggleUsername =
     (if rt_stage s \<noteq> registration_event_stage.Composing then None
      else Some (s\<lparr>rt_username_present := \<not> rt_username_present s\<rparr>))"
| "rt_next_state s ToggleEmail =
     (if rt_stage s \<noteq> registration_event_stage.Composing then None
      else Some (s\<lparr>rt_email_present := \<not> rt_email_present s\<rparr>))"
| "rt_next_state s registration_transition_events_action.TogglePassword =
     (if rt_stage s \<noteq> registration_event_stage.Composing then None
      else Some (s\<lparr>rt_password_present := \<not> rt_password_present s\<rparr>))"
| "rt_next_state s registration_transition_events_action.ToggleAgreement =
     (if rt_stage s \<noteq> registration_event_stage.Composing then None
      else Some (s\<lparr>rt_agreement := \<not> rt_agreement s\<rparr>))"
| "rt_next_state s registration_transition_events_action.Validate =
     (if rt_stage s \<noteq> registration_event_stage.Composing \<or> \<not> rt_validation_succeeds s then None
      else Some (s\<lparr>rt_stage := registration_event_stage.IntentValidated\<rparr>))"
| "rt_next_state s RegisterAndProvision =
     (if rt_stage s \<noteq> registration_event_stage.IntentValidated then None
      else Some (s\<lparr>rt_stage := registration_event_stage.AccountProvisioned\<rparr>))"

text \<open>The account the third stage stands for, with its event.\<close>

definition rt_provisioned ::
    "registration_transition_events_model_state \<Rightarrow> string \<Rightarrow>
     (local_account, registration_event) transition option" where
  "rt_provisioned s raw_id =
    Option.bind (rt_validated s) (\<lambda>validated.
    Option.bind (ok (account_id_new raw_id)) (\<lambda>ident.
      Some (provision
        (registration_intent_register (t_state validated) ident
           \<lparr>km_private_key_jwk = ''{}'', km_public_key_pem = ''pem''\<rparr>)
        ''2026-01-01T00:00:00.000Z'')))"

definition rt_always :: "registration_transition_events_model_state named_property list" where
  "rt_always =
    [(''validate_emits_intent_validated_event'',
      \<lambda>s. rt_stage s \<noteq> registration_event_stage.IntentValidated \<or>
        unwrap_or (map_option (\<lambda>t. has_event t registration_event.IntentValidated)
          (rt_validated s)) False),
     (''provision_emits_account_provisioned_event'',
      \<lambda>s. rt_stage s \<noteq> registration_event_stage.AccountProvisioned \<or>
        (case rt_provisioned s ''acct-event'' of
           None \<Rightarrow> False | Some t \<Rightarrow> has_event t registration_event.AccountProvisioned)),
     (''failed_validation_emits_no_domain_transition'',
      \<lambda>s. rt_validation_succeeds s \<or>
        (case registration_validate (rt_composing_registration s) of
           Some (Inl _) \<Rightarrow> True | _ \<Rightarrow> False))]"

definition rt_sometimes :: "registration_transition_events_model_state named_property list" where
  "rt_sometimes =
    [(''account_provisioned_event_reachable'',
      \<lambda>s. rt_stage s = registration_event_stage.AccountProvisioned)]"

definition rt_inv :: "registration_transition_events_model_state \<Rightarrow> bool" where
  "rt_inv s \<longleftrightarrow>
    (if rt_stage s = registration_event_stage.Composing then True else rt_validation_succeeds s)"

lemma rt_validated_stage [simp]:
  "rt_validated (s\<lparr>rt_stage := st\<rparr>) = rt_validated s"
  "rt_validation_succeeds (s\<lparr>rt_stage := st\<rparr>) = rt_validation_succeeds s"
  by (simp_all add: rt_validated_def rt_validation_succeeds_def rt_composing_registration_def)

lemma rt_validated_event:
  assumes "rt_validated s = Some t"
  shows "has_event t registration_event.IntentValidated"
  using assms registration_validate_ok [of "rt_composing_registration s" t]
  by (auto simp: rt_validated_def ok_def has_event_def with_event_def
      split: Option.bind_splits sum.splits)

lemma rt_provisioned_event:
  assumes "rt_validation_succeeds s" "trim raw_id \<noteq> []"
  shows "\<exists>t. rt_provisioned s raw_id = Some t \<and> has_event t registration_event.AccountProvisioned"
  using assms
  by (auto simp: rt_validation_succeeds_def rt_provisioned_def ok_def account_id_new_def id_new_def
      provision_def has_event_def with_event_def)

interpretation rt_model: model_invariant rt_init_states rt_actions rt_next_state rt_inv
proof unfold_locales
  show "s \<in> set rt_init_states \<Longrightarrow> rt_inv s" for s
    by (simp add: rt_init_states_def rt_inv_def)
  show "rt_inv s \<Longrightarrow> a \<in> set (rt_actions s) \<Longrightarrow> rt_next_state s a = Some t \<Longrightarrow> rt_inv t" for s a t
    by (cases a) (auto simp: rt_inv_def split: if_splits)
qed

lemma rt_always_holds: "rt_inv s \<Longrightarrow> list_all (\<lambda>p. snd p s) rt_always"
proof -
  assume inv: "rt_inv s"
  have "trim ''acct-event'' \<noteq> []" by code_simp
  from rt_provisioned_event [OF _ this, of s] inv
  have "rt_stage s \<noteq> registration_event_stage.AccountProvisioned \<or>
      (case rt_provisioned s ''acct-event'' of
         None \<Rightarrow> False | Some t \<Rightarrow> has_event t registration_event.AccountProvisioned)"
    by (auto simp: rt_inv_def)
  moreover have "rt_stage s \<noteq> registration_event_stage.IntentValidated \<or>
      unwrap_or (map_option (\<lambda>t. has_event t registration_event.IntentValidated)
          (rt_validated s)) False"
    using inv rt_validated_event [of s] by (auto simp: rt_inv_def rt_validation_succeeds_def)
  moreover have "rt_validation_succeeds s \<or>
        (case registration_validate (rt_composing_registration s) of
           Some (Inl _) \<Rightarrow> True | _ \<Rightarrow> False)"
    using registration_validate_total [of "rt_composing_registration s"]
    by (auto simp: rt_validation_succeeds_def rt_validated_def ok_def split: sum.splits)
  ultimately show ?thesis by (simp add: rt_always_def)
qed

lemma rt_sometimes_holds: "sometimes_holds rt_init_states rt_actions rt_next_state rt_sometimes"
proof (rule sometimes_holdsI)
  show "list_all2 (\<lambda>p (s, as). s \<in> set rt_init_states \<and>
      (case run_path rt_actions rt_next_state s as of Some t \<Rightarrow> snd p t | None \<Rightarrow> False))
    rt_sometimes
    [(rt_init_states ! 0, [ToggleUsername, ToggleEmail,
       registration_transition_events_action.TogglePassword,
       registration_transition_events_action.ToggleAgreement,
       registration_transition_events_action.Validate, RegisterAndProvision])]"
    by code_simp
qed

subsection \<open>The refinement check\<close>

text \<open>The observable has the four fields of the form; its checks are those of a composing state.\<close>

definition rt_refinement_asserts :: "bool \<Rightarrow> bool \<Rightarrow> bool \<Rightarrow> bool \<Rightarrow> bool" where
  "rt_refinement_asserts name_present email_present password_present agreement \<longleftrightarrow>
    (let s = \<lparr>rt_stage = registration_event_stage.Composing, rt_username_present = name_present,
              rt_email_present = email_present, rt_password_present = password_present,
              rt_agreement = agreement\<rparr>
     in rt_worker_validate_succeeds s = rt_validation_succeeds s \<and>
       (if rt_validation_succeeds s
        then (case (rt_validated s, rt_provisioned s ''acct-refine'') of
            (Some validated, Some provisioned) \<Rightarrow>
              has_event validated registration_event.IntentValidated \<and>
              has_event provisioned registration_event.AccountProvisioned
          | _ \<Rightarrow> False)
        else True))"

lemma rt_refinement_asserts_hold: "rt_refinement_asserts n e p a"
proof -
  have "trim ''acct-refine'' \<noteq> []" by code_simp
  note provisioned = rt_provisioned_event [OF _ this]
  show ?thesis
    unfolding rt_refinement_asserts_def Let_def
    using provisioned rt_validated_event
    by (fastforce simp: rt_validation_succeeds_def rt_worker_validate_succeeds_def
        split: option.splits)
qed

section \<open>Runs of the worker\<close>

lemma rp_steps:
  "rp_stage s = registration_stage.Composing \<Longrightarrow>
     rp_worker_effect s registration_pipeline_action.Validate =
       s\<lparr>rp_stage := apply_registration_pipeline_validate s\<rparr>"
  "registration_pipeline_register_allowed s \<Longrightarrow>
     rp_worker_effect s Register = s\<lparr>rp_stage := Registered\<rparr>"
  "rp_stage s = Registered \<Longrightarrow> rp_worker_effect s Provision = s\<lparr>rp_stage := Provisioned\<rparr>"
  "\<not> rp_worker_allows s a \<Longrightarrow> rp_worker_effect s a = s"
  "rp_stage s = registration_stage.Composing \<Longrightarrow>
     rp_domain_step s registration_pipeline_action.Validate =
       s\<lparr>rp_stage := apply_registration_pipeline_validate s\<rparr>"
  "registration_pipeline_register_allowed s \<Longrightarrow>
     rp_domain_step s Register = s\<lparr>rp_stage := Registered\<rparr>"
  "rp_stage s = Registered \<Longrightarrow> rp_domain_step s Provision = s\<lparr>rp_stage := Provisioned\<rparr>"
  by (simp_all add: rp_worker_effect_def rp_domain_step_def)

lemma rp_stopped_run:
  assumes "rp_stage t \<in> {Provisioned, ValidationFailed}"
  shows "accepted rp_worker_allows rp_domain_step t as = [] \<and> foldl rp_worker_effect t as = t"
proof (induction as)
  case (Cons b bs)
  have "\<not> rp_worker_allows t b"
    using assms by (cases b) (auto simp: registration_pipeline_register_allowed_def)
  with Cons show ?case by (simp add: rp_steps)
qed simp

lemma rp_registered_run:
  assumes "rp_stage t = Registered" "rp_stage (foldl rp_worker_effect t as) = Provisioned"
  shows "accepted rp_worker_allows rp_domain_step t as = [Provision] \<and>
    foldl rp_worker_effect t as = t\<lparr>rp_stage := Provisioned\<rparr>"
  using assms
proof (induction as arbitrary: t)
  case (Cons b bs)
  show ?case
  proof (cases "b = Provision")
    case True
    with Cons.prems rp_stopped_run [of "t\<lparr>rp_stage := Provisioned\<rparr>" bs] show ?thesis
      by (simp add: rp_steps)
  next
    case False
    with Cons.prems have "\<not> rp_worker_allows t b"
      by (cases b) (auto simp: registration_pipeline_register_allowed_def)
    with Cons show ?thesis by (simp add: rp_steps)
  qed
qed simp

lemma rp_validated_run:
  assumes "rp_stage t = Validated" "rp_stage (foldl rp_worker_effect t as) = Provisioned"
  shows "accepted rp_worker_allows rp_domain_step t as = [Register, Provision] \<and>
    foldl rp_worker_effect t as = t\<lparr>rp_stage := Provisioned\<rparr> \<and>
    registration_pipeline_finalize_allowed t"
  using assms
proof (induction as arbitrary: t)
  case (Cons b bs)
  show ?case
  proof (cases "rp_worker_allows t b")
    case True
    with Cons.prems have b: "b = Register" "registration_pipeline_register_allowed t"
      by (cases b; simp)+
    with Cons.prems rp_registered_run [of "t\<lparr>rp_stage := Registered\<rparr>" bs] show ?thesis
      by (simp add: rp_steps
          registration_pipeline_register_allowed_def registration_pipeline_finalize_allowed_def)
  next
    case False
    with Cons show ?thesis by (simp add: rp_steps)
  qed
qed simp

section \<open>Finitely many states\<close>

lemma finite_registration_pipeline_model_state:
  "finite (UNIV :: registration_pipeline_model_state set)"
proof -
  have "(UNIV :: registration_stage set) =
      {registration_stage.Composing, Validated, ValidationFailed, Registered, Provisioned}"
    using registration_stage.exhaust by auto
  then have 1: "finite (UNIV :: registration_stage set)" by (metis finite.emptyI finite_insert)
  have "(UNIV :: text_field_input set) =
      {Missing, text_field_input.Blank, text_field_input.Invalid, Valid}"
    using text_field_input.exhaust by auto
  then have 2: "finite (UNIV :: text_field_input set)" by (metis finite.emptyI finite_insert)
  show ?thesis
  proof (rule finite_surj_UNIV)
    show "finite (UNIV :: (registration_stage \<times> text_field_input \<times> text_field_input \<times>
        bool \<times> bool \<times> bool \<times> bool) set)"
      using 1 2 by (simp add: finite_prod)
    show "\<exists>x. (\<lambda>(a, b, c, d, e, f, g). \<lparr>rp_stage = a, rp_username = b, rp_email = c,
        rp_password_present = d, rp_agreement = e, rp_username_taken = f, rp_email_taken = g\<rparr>) x = s"
      for s by (cases s) simp
  qed
qed

section \<open>Properties\<close>

text \<open>
  The registration models keep every property they declare in every reachable state and
  reach what they call reachable; the walk of \<open>check_registration_pipeline_refinement\<close> ends and
  passes, and its assertions and those of \<open>check_registration_refinement\<close> hold in every state:
  the errors the model predicts are those of \<open>validate\<close>, the guard of the insert is the success
  of \<open>finalize_registration_validation\<close>, and every accepted form emits both events.
\<close>

theorem registration_models_verified:
  "properties_hold rp_init_states rp_actions rp_next_state rp_always rp_sometimes \<and>
   properties_hold rt_init_states rt_actions rt_next_state rt_always rt_sometimes \<and>
   (settles (assert_worker_refinement rp_worker_states rp_worker_actions rp_worker_allows
      rp_worker_effect rp_domain_step) True) \<and>
   rp_refinement_asserts s \<and> rt_refinement_asserts name_present email_present pw_present agreed"
  using rp_model.properties_holdI [OF rp_always_holds rp_sometimes_holds]
    rt_model.properties_holdI [OF rt_always_holds rt_sometimes_holds]
    rp_worker.check_finishes [OF finite_registration_pipeline_model_state]
    rp_refinement_asserts_hold rt_refinement_asserts_hold
  by simp

text \<open>
  The stages of the registration worker are in order: from a form being composed, a run of
  worker operations that ends at a provisioned account validated first, then registered, then
  provisioned, once each; the form it started from was acceptable and neither the name nor the
  address was taken.
\<close>

theorem registration_worker_order:
  assumes "rp_stage s = registration_stage.Composing"
    and "rp_stage (foldl rp_worker_effect s as) = Provisioned"
  shows "accepted rp_worker_allows rp_domain_step s as =
      [registration_pipeline_action.Validate, Register, Provision] \<and>
    registration_pipeline_finalize_allowed s \<and>
    foldl rp_worker_effect s as = s\<lparr>rp_stage := Provisioned\<rparr>"
  using assms
proof (induction as arbitrary: s)
  case (Cons a as)
  show ?case
  proof (cases "a = registration_pipeline_action.Validate")
    case True
    let ?t = "s\<lparr>rp_stage := apply_registration_pipeline_validate s\<rparr>"
    have step: "rp_worker_effect s a = ?t" "rp_domain_step s a = ?t" "rp_worker_allows s a"
      using True Cons.prems(1) by (simp_all add: rp_steps)
    have "rp_stage ?t = Validated"
      using rp_stopped_run [of ?t as] Cons.prems(2) step
      by (auto simp: apply_registration_pipeline_validate_def split: if_splits)
    with rp_validated_run [of ?t as] Cons.prems(2) step True show ?thesis
      by (simp add: registration_pipeline_finalize_allowed_def)
  next
    case False
    with Cons.prems(1) have "\<not> rp_worker_allows s a"
      by (cases a) (auto simp: registration_pipeline_register_allowed_def)
    with Cons show ?thesis by (simp add: rp_steps)
  qed
qed simp

theorem registration_worker_order_witness:
  "accepted rp_worker_allows rp_domain_step rp_good_form
      [Register, registration_pipeline_action.Validate, Provision, registration_pipeline_action.Validate, Register, CycleEmail, Provision, Register] =
    [registration_pipeline_action.Validate, Register, Provision]"
proof -
  let ?as = "[Register, registration_pipeline_action.Validate, Provision, registration_pipeline_action.Validate, Register, CycleEmail, Provision, Register]"
  have "rp_stage rp_good_form = registration_stage.Composing"
    "rp_stage (foldl rp_worker_effect rp_good_form ?as) = Provisioned"
    by code_simp+
  from registration_worker_order [OF this] show ?thesis by blast
qed

end
