(* ===== verification/Model_Access_Provision.thy ===== *)
theory Model_Access_Provision
  imports Stateright Registration
begin

text \<open>
  The model of provisioning by an access provider (\<open>access_provision.rs\<close>) and its refinement
  (\<open>refinement/access_provision.rs\<close>). An \<open>expect\<close> of a fixture is a \<open>None\<close>.
\<close>

section \<open>The model\<close>

datatype provision_stage = Composing | Resolved | ResolutionFailed | Registered | Provisioned

datatype email_input = Blank | Invalid | Standard | DottedLocal | PlusLocal

record access_provision_model_state =
  ap_stage :: provision_stage
  ap_email :: email_input
  ap_base_username_taken :: bool

datatype access_provision_action =
  CycleEmail | ToggleBaseUsernameTaken | Resolve | Register | Provision

fun cycle_email :: "email_input \<Rightarrow> email_input" where
  "cycle_email email_input.Blank = email_input.Invalid"
| "cycle_email email_input.Invalid = Standard"
| "cycle_email Standard = DottedLocal"
| "cycle_email DottedLocal = PlusLocal"
| "cycle_email PlusLocal = email_input.Blank"

fun access_provision_email_value :: "email_input \<Rightarrow> string" where
  "access_provision_email_value email_input.Blank = []"
| "access_provision_email_value email_input.Invalid = ''not-an-email''"
| "access_provision_email_value Standard = ''alice@example.com''"
| "access_provision_email_value DottedLocal = ''alice.bob@example.com''"
| "access_provision_email_value PlusLocal = ''alice+foo@example.com''"

text \<open>The composing provision is its email; this is \<open>resolve\<close> on it.\<close>

definition ap_resolve ::
    "access_provision_model_state \<Rightarrow> access_provision_error + access_provision_intent" where
  "ap_resolve s =
    access_provision_resolve (access_provision_email_value (ap_email s)) (ap_base_username_taken s)"

definition access_provision_resolution_succeeds :: "access_provision_model_state \<Rightarrow> bool" where
  "access_provision_resolution_succeeds s = is_ok (ap_resolve s)"

definition access_provision_sanitized_local_part :: "access_email \<Rightarrow> string option" where
  "access_provision_sanitized_local_part email =
    map_option username_str (ok (username_derive_from_email email False))"

definition apply_access_provision_resolve :: "access_provision_model_state \<Rightarrow> provision_stage" where
  "apply_access_provision_resolve s =
    (if access_provision_resolution_succeeds s then Resolved else ResolutionFailed)"

definition access_provision_resolved_intent ::
    "access_provision_model_state \<Rightarrow> access_provision_intent option" where
  "access_provision_resolved_intent s = ok (ap_resolve s)"

definition access_provision_fixture_keys :: account_key_material where
  "access_provision_fixture_keys =
    \<lparr>km_private_key_jwk = ''{\"kty\":\"RSA\"}'', km_public_key_pem = ''pem-fixture''\<rparr>"

definition access_provision_fixture_account_id :: "account_id option" where
  "access_provision_fixture_account_id = ok (account_id_new ''acct-access'')"

definition access_provision_provisioned_account ::
    "access_provision_model_state \<Rightarrow> local_account option" where
  "access_provision_provisioned_account s =
    Option.bind (access_provision_resolved_intent s) (\<lambda>intent.
    Option.bind access_provision_fixture_account_id (\<lambda>ident.
      Some (t_state (provision
        (access_provision_register intent ident access_provision_fixture_keys)
        ''2026-01-01T00:00:00.000Z''))))"

definition ap_init_states :: "access_provision_model_state list" where
  "ap_init_states =
    [\<lparr>ap_stage = Composing, ap_email = e, ap_base_username_taken = taken\<rparr>.
     e \<leftarrow> [email_input.Blank, email_input.Invalid, Standard, DottedLocal, PlusLocal],
     taken \<leftarrow> [False, True]]"

definition ap_actions :: "access_provision_model_state \<Rightarrow> access_provision_action list" where
  "ap_actions s =
    (case ap_stage s of
       Composing \<Rightarrow> [CycleEmail, ToggleBaseUsernameTaken, Resolve]
     | Resolved \<Rightarrow> [Register]
     | Registered \<Rightarrow> [Provision]
     | ResolutionFailed \<Rightarrow> []
     | Provisioned \<Rightarrow> [])"

fun ap_next_state ::
    "access_provision_model_state \<Rightarrow> access_provision_action \<Rightarrow>
     access_provision_model_state option" where
  "ap_next_state s CycleEmail =
     (if ap_stage s \<noteq> Composing then None else Some (s\<lparr>ap_email := cycle_email (ap_email s)\<rparr>))"
| "ap_next_state s ToggleBaseUsernameTaken =
     (if ap_stage s \<noteq> Composing then None
      else Some (s\<lparr>ap_base_username_taken := \<not> ap_base_username_taken s\<rparr>))"
| "ap_next_state s Resolve =
     (if ap_stage s \<noteq> Composing then None
      else Some (s\<lparr>ap_stage := apply_access_provision_resolve s\<rparr>))"
| "ap_next_state s Register =
     (if ap_stage s \<noteq> Resolved then None else Some (s\<lparr>ap_stage := Registered\<rparr>))"
| "ap_next_state s Provision =
     (if ap_stage s \<noteq> Registered then None else Some (s\<lparr>ap_stage := Provisioned\<rparr>))"

text \<open>The address an input stands for, and properties of the later stages.\<close>

definition ap_expected_email :: "access_provision_model_state \<Rightarrow> string" where
  "ap_expected_email s = to_ascii_lowercase (trim (access_provision_email_value (ap_email s)))"

definition ap_resolved_only ::
    "(access_provision_intent \<Rightarrow> access_email \<Rightarrow> string \<Rightarrow> bool) \<Rightarrow>
     access_provision_model_state \<Rightarrow> bool" where
  "ap_resolved_only P s =
    (if \<not> (ap_stage s = Resolved \<or> ap_stage s = Registered \<or> ap_stage s = Provisioned) then True
     else case (access_provision_resolved_intent s,
                ok (access_email_parse (access_provision_email_value (ap_email s)))) of
         (Some intent, Some email) \<Rightarrow>
           (case access_provision_sanitized_local_part email of
              Some base \<Rightarrow> P intent email base | None \<Rightarrow> False)
       | _ \<Rightarrow> False)"

definition ap_provisioned_only ::
    "(access_provision_intent \<Rightarrow> local_account \<Rightarrow> bool) \<Rightarrow> access_provision_model_state \<Rightarrow> bool" where
  "ap_provisioned_only P s =
    (if ap_stage s \<noteq> Provisioned then True
     else case (access_provision_resolved_intent s, access_provision_provisioned_account s) of
         (Some intent, Some a) \<Rightarrow> P intent a
       | _ \<Rightarrow> False)"

definition ap_always :: "access_provision_model_state named_property list" where
  "ap_always =
    [(''resolution_failed_only_for_invalid_email'',
      \<lambda>s. ap_stage s \<noteq> ResolutionFailed \<or> \<not> access_provision_resolution_succeeds s),
     (''resolved_inputs_have_valid_email'',
      \<lambda>s. ap_stage s \<noteq> Resolved \<or> access_provision_resolution_succeeds s),
     (''resolved_email_matches_input'',
      \<lambda>s. ap_resolved_only (\<lambda>intent _ _. access_email_str (ai_email intent) = ap_expected_email s) s),
     (''available_username_uses_sanitized_local_part'',
      \<lambda>s. ap_base_username_taken s \<or>
        ap_resolved_only (\<lambda>intent _ base. username_str (ai_username intent) = base) s),
     (''taken_username_appends_suffix'',
      \<lambda>s. \<not> ap_base_username_taken s \<or>
        ap_resolved_only (\<lambda>intent _ base.
          starts_with (username_str (ai_username intent)) (base @ ''_'')) s),
     (''provisioned_account_preserves_access_email'',
      \<lambda>s. ap_provisioned_only (\<lambda>_ a. la_access_email a = ap_expected_email s) s),
     (''provisioned_account_matches_resolved_username'',
      \<lambda>s. ap_provisioned_only (\<lambda>intent a.
        la_username a = username_str (ai_username intent)) s),
     (''provisioned_account_has_active_defaults'',
      \<lambda>s. ap_provisioned_only (\<lambda>_ a. \<not> la_locked a \<and>
        la_default_post_visibility a = visibility.Public \<and>
        la_default_quote_policy a = quote_approval_policy.Public) s)]"

definition ap_sometimes :: "access_provision_model_state named_property list" where
  "ap_sometimes =
    [(''provisioned_account_reachable'', \<lambda>s. ap_stage s = Provisioned),
     (''resolution_failure_reachable'', \<lambda>s. ap_stage s = ResolutionFailed)]"

definition ap_inv :: "access_provision_model_state \<Rightarrow> bool" where
  "ap_inv s \<longleftrightarrow>
    (case ap_stage s of
       Composing \<Rightarrow> True
     | ResolutionFailed \<Rightarrow> \<not> access_provision_resolution_succeeds s
     | _ \<Rightarrow> access_provision_resolution_succeeds s)"

lemma ap_resolve_stage [simp]:
  "ap_resolve (s\<lparr>ap_stage := st\<rparr>) = ap_resolve s"
  "access_provision_resolution_succeeds (s\<lparr>ap_stage := st\<rparr>) = access_provision_resolution_succeeds s"
  by (simp_all add: ap_resolve_def access_provision_resolution_succeeds_def)

interpretation ap_model: model_invariant ap_init_states ap_actions ap_next_state ap_inv
proof unfold_locales
  show "s \<in> set ap_init_states \<Longrightarrow> ap_inv s" for s
    by (auto simp: ap_init_states_def ap_inv_def)
  show "ap_inv s \<Longrightarrow> a \<in> set (ap_actions s) \<Longrightarrow> ap_next_state s a = Some t \<Longrightarrow> ap_inv t" for s a t
    by (cases a) (auto simp: ap_inv_def apply_access_provision_resolve_def split: if_splits)
qed

text \<open>
  What a successful resolution gives, for an arbitrary address: the parsed address and the name
  derived from it. No property of the model depends on the five inputs it tries.
\<close>

lemma ap_resolved:
  assumes "access_provision_resolution_succeeds s"
  obtains intent base a where "access_provision_resolved_intent s = Some intent"
    "access_email_parse (access_provision_email_value (ap_email s)) = Inr (ai_email intent)"
    "access_email_str (ai_email intent) = ap_expected_email s"
    "access_provision_sanitized_local_part (ai_email intent) = Some base"
    "username_str (ai_username intent) =
       base @ (if ap_base_username_taken s then ''_'' @ short_suffix (ai_email intent) else [])"
    "access_provision_provisioned_account s = Some a"
    "la_access_email a = ap_expected_email s" "la_username a = username_str (ai_username intent)"
    "\<not> la_locked a" "la_default_post_visibility a = visibility.Public"
    "la_default_quote_policy a = quote_approval_policy.Public"
proof -
  from assms obtain intent where intent: "ap_resolve s = Inr intent"
    by (cases "ap_resolve s") (auto simp: access_provision_resolution_succeeds_def is_ok_def)
  then have email: "access_email_parse (access_provision_email_value (ap_email s)) =
      Inr (ai_email intent)"
    and name: "username_derive_from_email (ai_email intent) (ap_base_username_taken s) =
      Inr (ai_username intent)"
    by (simp_all add: ap_resolve_def resolve_ok)
  from email have str: "access_email_str (ai_email intent) = ap_expected_email s"
    by (simp add: ap_expected_email_def access_email_parse_str)
  from name have username: "username_str (ai_username intent) =
      sanitize_username_local_part (local_part (ai_email intent)) @
      (if ap_base_username_taken s then ''_'' @ short_suffix (ai_email intent) else [])"
    by (auto simp: derive_from_email_eq simp flip: username.inject)
  have ident: "access_provision_fixture_account_id = Some (AccountId ''acct-access'')" by code_simp
  show ?thesis
    using that [of intent "sanitize_username_local_part (local_part (ai_email intent))"
        "t_state (provision (access_provision_register intent (AccountId ''acct-access'')
           access_provision_fixture_keys) ''2026-01-01T00:00:00.000Z'')"]
      intent email username str
    by (auto simp: ident access_provision_resolved_intent_def ok_def derive_from_email_eq
        access_provision_sanitized_local_part_def access_provision_provisioned_account_def
        provision_def with_event_def access_provision_register_def)
qed

lemma ap_always_holds: "ap_inv s \<Longrightarrow> list_all (\<lambda>p. snd p s) ap_always"
proof (cases "access_provision_resolution_succeeds s")
  case True
  assume "ap_inv s"
  from True obtain intent base a where
    "access_provision_resolved_intent s = Some intent"
    "access_email_parse (access_provision_email_value (ap_email s)) = Inr (ai_email intent)"
    "access_email_str (ai_email intent) = ap_expected_email s"
    "access_provision_sanitized_local_part (ai_email intent) = Some base"
    "username_str (ai_username intent) =
       base @ (if ap_base_username_taken s then ''_'' @ short_suffix (ai_email intent) else [])"
    "access_provision_provisioned_account s = Some a"
    "la_access_email a = ap_expected_email s" "la_username a = username_str (ai_username intent)"
    "\<not> la_locked a" "la_default_post_visibility a = visibility.Public"
    "la_default_quote_policy a = quote_approval_policy.Public"
    by (rule ap_resolved)
  with True \<open>ap_inv s\<close> show ?thesis
    by (auto simp: ap_always_def ap_inv_def ap_resolved_only_def ap_provisioned_only_def ok_def
        starts_with_iff)
next
  case False
  moreover assume "ap_inv s"
  ultimately have "ap_stage s = Composing \<or> ap_stage s = ResolutionFailed"
    by (cases "ap_stage s") (auto simp: ap_inv_def)
  with False show ?thesis
    by (auto simp: ap_always_def ap_resolved_only_def ap_provisioned_only_def)
qed

lemma ap_sometimes_holds: "sometimes_holds ap_init_states ap_actions ap_next_state ap_sometimes"
proof (rule sometimes_holdsI)
  show "list_all2 (\<lambda>p (s, as). s \<in> set ap_init_states \<and>
      (case run_path ap_actions ap_next_state s as of Some t \<Rightarrow> snd p t | None \<Rightarrow> False))
    ap_sometimes
    [(ap_init_states ! 4, [Resolve, Register, Provision]), (ap_init_states ! 0, [Resolve])]"
    by code_simp
qed

section \<open>The worker\<close>

definition ap_worker_resolve_succeeds :: "access_provision_model_state \<Rightarrow> bool" where
  "ap_worker_resolve_succeeds s = access_provision_resolution_succeeds s"

fun ap_worker_allows :: "access_provision_model_state \<Rightarrow> access_provision_action \<Rightarrow> bool" where
  "ap_worker_allows s Resolve \<longleftrightarrow> ap_stage s = Composing"
| "ap_worker_allows s Register \<longleftrightarrow> ap_stage s = Resolved"
| "ap_worker_allows s Provision \<longleftrightarrow> ap_stage s = Registered"
| "ap_worker_allows s _ \<longleftrightarrow> False"

definition ap_worker_effect ::
    "access_provision_model_state \<Rightarrow> access_provision_action \<Rightarrow> access_provision_model_state" where
  "ap_worker_effect s a =
    (if \<not> ap_worker_allows s a then s
     else case a of
         Resolve \<Rightarrow> s\<lparr>ap_stage := apply_access_provision_resolve s\<rparr>
       | Register \<Rightarrow> s\<lparr>ap_stage := Registered\<rparr>
       | Provision \<Rightarrow> s\<lparr>ap_stage := Provisioned\<rparr>
       | _ \<Rightarrow> s)"

definition ap_domain_step ::
    "access_provision_model_state \<Rightarrow> access_provision_action \<Rightarrow> access_provision_model_state" where
  "ap_domain_step s a = unwrap_or (ap_next_state s a) s"

definition ap_worker_states :: "access_provision_model_state list" where
  "ap_worker_states = ap_init_states @ concat (map (\<lambda>s.
     if access_provision_resolution_succeeds s
     then [s\<lparr>ap_stage := Resolved\<rparr>, s\<lparr>ap_stage := Registered\<rparr>] else []) ap_init_states)"

definition ap_worker_actions :: "access_provision_model_state \<Rightarrow> access_provision_action list" where
  "ap_worker_actions s =
    (case ap_stage s of
       Composing \<Rightarrow> [Resolve]
     | Resolved \<Rightarrow> [Register]
     | Registered \<Rightarrow> [Provision]
     | _ \<Rightarrow> [])"

interpretation ap_worker: worker_refinement ap_worker_allows ap_worker_effect ap_domain_step
proof unfold_locales
  show "ap_worker_allows s a \<Longrightarrow> ap_worker_effect s a = ap_domain_step s a" for s a
    by (cases a) (simp_all add: ap_worker_effect_def ap_domain_step_def)
  show "\<not> ap_worker_allows s a \<Longrightarrow> ap_worker_effect s a = s" for s a
    by (simp add: ap_worker_effect_def)
qed

text \<open>What the check asserts of each initial state after its walks.\<close>

definition ap_refinement_asserts :: "access_provision_model_state \<Rightarrow> bool" where
  "ap_refinement_asserts s \<longleftrightarrow>
    access_provision_resolution_succeeds s = is_ok (ap_resolve s) \<and>
    ap_worker_resolve_succeeds s = access_provision_resolution_succeeds s \<and>
    (apply_access_provision_resolve s = Resolved) = ap_worker_resolve_succeeds s \<and>
    (if ap_worker_resolve_succeeds s
     then (case (access_provision_resolved_intent s,
                 ok (access_email_parse (access_provision_email_value (ap_email s))),
                 access_provision_provisioned_account s) of
         (Some intent, Some email, Some a) \<Rightarrow>
           access_email_str (ai_email intent) = ap_expected_email s \<and>
           (case access_provision_sanitized_local_part email of
              None \<Rightarrow> False
            | Some base \<Rightarrow>
                if ap_base_username_taken s
                then starts_with (username_str (ai_username intent)) (base @ ''_'')
                else username_str (ai_username intent) = base) \<and>
           la_username a = username_str (ai_username intent) \<and>
           la_access_email a = ap_expected_email s
       | _ \<Rightarrow> False)
     else True)"

lemma ap_refinement_asserts_hold: "ap_refinement_asserts s"
proof (cases "access_provision_resolution_succeeds s")
  case True
  then obtain intent base a where
    "access_provision_resolved_intent s = Some intent"
    "access_email_parse (access_provision_email_value (ap_email s)) = Inr (ai_email intent)"
    "access_email_str (ai_email intent) = ap_expected_email s"
    "access_provision_sanitized_local_part (ai_email intent) = Some base"
    "username_str (ai_username intent) =
       base @ (if ap_base_username_taken s then ''_'' @ short_suffix (ai_email intent) else [])"
    "access_provision_provisioned_account s = Some a"
    "la_access_email a = ap_expected_email s" "la_username a = username_str (ai_username intent)"
    by (rule ap_resolved)
  with True show ?thesis
    by (auto simp: ap_refinement_asserts_def ap_worker_resolve_succeeds_def ok_def starts_with_iff
        apply_access_provision_resolve_def access_provision_resolution_succeeds_def)
next
  case False
  then show ?thesis
    by (auto simp: ap_refinement_asserts_def ap_worker_resolve_succeeds_def
        apply_access_provision_resolve_def access_provision_resolution_succeeds_def)
qed

lemma finite_access_provision_model_state: "finite (UNIV :: access_provision_model_state set)"
proof -
  have "(UNIV :: provision_stage set) =
      {Composing, Resolved, ResolutionFailed, Registered, Provisioned}"
    using provision_stage.exhaust by auto
  then have 1: "finite (UNIV :: provision_stage set)" by (metis finite.emptyI finite_insert)
  have "(UNIV :: email_input set) =
      {email_input.Blank, email_input.Invalid, Standard, DottedLocal, PlusLocal}"
    using email_input.exhaust by auto
  then have 2: "finite (UNIV :: email_input set)" by (metis finite.emptyI finite_insert)
  show ?thesis
  proof (rule finite_surj_UNIV)
    show "finite (UNIV :: (provision_stage \<times> email_input \<times> bool) set)"
      using 1 2 by (simp add: finite_prod)
    show "\<exists>x. (\<lambda>(a, b, c). \<lparr>ap_stage = a, ap_email = b, ap_base_username_taken = c\<rparr>) x = s" for s
      by (cases s) simp
  qed
qed

section \<open>Properties\<close>

text \<open>
  The model of provisioning keeps every property it declares in every reachable state: the
  resolved address is the normalised input, the name is the sanitised local part, with a suffix
  exactly when that is taken, and the account has the address, the name and the defaults. Both
  outcomes are reached, the walk of \<open>check_access_provision_refinement\<close> ends and passes, and
  its assertions hold in every state.
\<close>

theorem access_provision_verified:
  "properties_hold ap_init_states ap_actions ap_next_state ap_always ap_sometimes \<and>
   (settles (assert_worker_refinement ap_worker_states ap_worker_actions ap_worker_allows
      ap_worker_effect ap_domain_step) True) \<and>
   ap_refinement_asserts s"
  using ap_model.properties_holdI [OF ap_always_holds ap_sometimes_holds]
    ap_worker.check_finishes [OF finite_access_provision_model_state] ap_refinement_asserts_hold
  by simp

end
