(* ===== verification/Model_Status_Draft.thy ===== *)
theory Model_Status_Draft
  imports Stateright Status_Draft
begin

text \<open>
  The models of the path from a composed status to its publication
  (\<open>status_draft_publish.rs\<close>) and of the events on it (\<open>status_draft_transition_events.rs\<close>),
  with their refinements (\<open>refinement/status_draft_publish.rs\<close>,
  \<open>refinement/status_draft.rs\<close>). The JSON reader of profile fields, which the fixture account
  passes through, is the parameter \<open>from_json\<close>.
\<close>

section \<open>Fixtures\<close>

definition fixture_poll :: "poll_draft option" where
  "fixture_poll = ok (poll_draft_try_new [''yes'', ''no''] 300 False False)"

definition fixture_media_ids :: "u8 \<Rightarrow> string list" where
  "fixture_media_ids media_count = map (\<lambda>i. ''media-'' @ show_nat i) [0 ..< unat media_count]"

definition fixture_composing ::
    "bool \<Rightarrow> u8 \<Rightarrow> bool \<Rightarrow> visibility \<Rightarrow> quote_approval_policy option \<Rightarrow> composing_status" where
  "fixture_composing has_text media_count has_poll v policy =
    \<lparr>cs_text = (if has_text then ''hello'' else []), cs_visibility = v, cs_spoiler_text = [],
     cs_sensitive = False, cs_language = None, cs_quote_approval_policy = policy,
     cs_in_reply_to_id = None, cs_media_ids = fixture_media_ids media_count,
     cs_poll = (if has_poll then fixture_poll else None)\<rparr>"

definition fixture_account ::
    "(string \<Rightarrow> profile_field list option) \<Rightarrow> string \<Rightarrow> string \<Rightarrow> local_account" where
  "fixture_account from_json ident default_policy =
    account_from_record from_json
      ((account_record_test_fixture ident ''alice'')\<lparr>lar_default_quote_policy := default_policy\<rparr>)"

lemma fixture_poll_exists: "fixture_poll \<noteq> None"
  unfolding fixture_poll_def by code_simp

lemma fixture_account_default [simp]:
  "resolved_default_quote_policy (fixture_account j ident (quote_approval_policy_as_str p)) = p"
  by (simp add: fixture_account_def account_record_default_policy_def)

lemma fixture_media_ids_valid: "trimmed_nonempty (fixture_media_ids n) = fixture_media_ids n"
proof (rule trimmed_nonempty_id)
  have "list_all plain_byte ''media-''" by code_simp
  then have "trim (''media-'' @ show_nat i) = ''media-'' @ show_nat i" for i
    using show_nat_digits [of i]
    by (intro trim_id_plain) (auto simp: list_all_iff intro: digit_plain)
  then show "list_all (\<lambda>v. v \<noteq> [] \<and> trim v = v) (fixture_media_ids n)"
    by (auto simp: fixture_media_ids_def list_all_iff)
qed

lemma length_fixture_media_ids [simp]: "length (fixture_media_ids n) = unat n"
  by (simp add: fixture_media_ids_def)

lemma fixture_media_ids_empty [simp]: "fixture_media_ids n = [] \<longleftrightarrow> n = 0"
  by (metis length_0_conv length_fixture_media_ids unat_eq_0)

text \<open>The error the models expect of a composition, as they list it.\<close>

definition expected_draft_error ::
    "bool \<Rightarrow> u8 \<Rightarrow> bool \<Rightarrow> bool \<Rightarrow> status_draft_error option" where
  "expected_draft_error has_text media_count has_poll has_quote =
    (if \<not> has_text \<and> media_count = 0 \<and> \<not> has_poll then Some EmptyPayload
     else if media_count > 4 then Some TooManyMedia
     else if has_poll \<and> media_count > 0 then Some PollWithMedia
     else if has_quote \<and> (has_poll \<or> media_count > 0) then Some QuoteWithMediaOrPoll
     else None)"

lemma fixture_validate:
  "composing_status_validate (fixture_composing has_text n has_poll v policy)
     (then_some has_quote q) =
    (case expected_draft_error has_text n has_poll has_quote of
       Some e \<Rightarrow> Inl e
     | None \<Rightarrow> Inr (with_event
         \<lparr>sd_text = (if has_text then ''hello'' else []), sd_visibility = v, sd_spoiler_text = [],
          sd_sensitive = False, sd_language = None, sd_quote_approval_policy = policy,
          sd_in_reply_to_id = None, sd_media_ids = fixture_media_ids n,
          sd_poll = (if has_poll then fixture_poll else None)\<rparr> DraftValidated))"
proof -
  obtain p where p: "fixture_poll = Some p" using fixture_poll_exists by blast
  have hello: "trim ''hello'' = ''hello''" by code_simp
  have many: "4 < unat n \<longleftrightarrow> 4 < n" by (simp add: word_less_nat_alt)
  show ?thesis
    unfolding composing_status_validate_def fixture_composing_def expected_draft_error_def Let_def
      normalized_language_def trimmed_option_def then_some_def p
    by (cases has_text; cases has_poll; cases has_quote)
       (simp_all add: fixture_media_ids_valid hello many word_gt_0)
qed

section \<open>The publication model\<close>

datatype publish_stage = Composing | Validated | Published | ValidationFailed

record status_draft_publish_model_state =
  sp_stage :: publish_stage
  sp_has_text :: bool
  sp_media_count :: u8
  sp_has_poll :: bool
  sp_has_quote :: bool
  sp_visibility :: visibility
  sp_policy_override :: "quote_approval_policy option"
  sp_account_default :: quote_approval_policy
  sp_quote_target_local :: bool
  sp_published_policy :: "quote_approval_policy option"
  sp_published_quote_state :: "quote_state option"

datatype status_draft_publish_action =
    ToggleText | AddMedia | RemoveMedia | TogglePoll | ToggleQuote | CycleVisibility
  | CyclePolicyOverride | CycleAccountDefault | ToggleQuoteTargetLocal | Validate | Publish

fun cycle_visibility :: "visibility \<Rightarrow> visibility" where
  "cycle_visibility visibility.Public = Unlisted"
| "cycle_visibility Unlisted = FollowersOnly"
| "cycle_visibility FollowersOnly = Direct"
| "cycle_visibility Direct = visibility.Public"

fun cycle_policy_override :: "quote_approval_policy option \<Rightarrow> quote_approval_policy option" where
  "cycle_policy_override None = Some quote_approval_policy.Public"
| "cycle_policy_override (Some quote_approval_policy.Public) = Some Followers"
| "cycle_policy_override (Some Followers) = Some Nobody"
| "cycle_policy_override (Some Nobody) = None"

fun cycle_account_default :: "quote_approval_policy \<Rightarrow> quote_approval_policy" where
  "cycle_account_default quote_approval_policy.Public = Followers"
| "cycle_account_default Followers = Nobody"
| "cycle_account_default Nobody = quote_approval_policy.Public"

definition status_draft_publish_fixture_account ::
    "(string \<Rightarrow> profile_field list option) \<Rightarrow> quote_approval_policy \<Rightarrow> local_account" where
  "status_draft_publish_fixture_account from_json account_default =
    fixture_account from_json ''acct-model'' (quote_approval_policy_as_str account_default)"

definition status_draft_publish_composing ::
    "status_draft_publish_model_state \<Rightarrow> composing_status" where
  "status_draft_publish_composing s =
    fixture_composing (sp_has_text s) (sp_media_count s) (sp_has_poll s) (sp_visibility s)
      (sp_policy_override s)"

definition status_draft_publish_quote_resolution ::
    "status_draft_publish_model_state \<Rightarrow> quote_target_resolution" where
  "status_draft_publish_quote_resolution s =
    (if sp_has_quote s then quote_target_with_target (sp_quote_target_local s)
     else quote_target_none)"

definition status_draft_publish_validation_error ::
    "status_draft_publish_model_state \<Rightarrow> status_draft_error option" where
  "status_draft_publish_validation_error s =
    expected_draft_error (sp_has_text s) (sp_media_count s) (sp_has_poll s) (sp_has_quote s)"

definition status_draft_publish_quoted_status_id ::
    "status_draft_publish_model_state \<Rightarrow> string option" where
  "status_draft_publish_quoted_status_id s = then_some (sp_has_quote s) ''quote-1''"

definition apply_status_draft_publish_validate ::
    "status_draft_publish_model_state \<Rightarrow> publish_stage" where
  "apply_status_draft_publish_validate s =
    (case composing_status_validate (status_draft_publish_composing s)
            (status_draft_publish_quoted_status_id s) of
       Inr _ \<Rightarrow> Validated
     | Inl _ \<Rightarrow> ValidationFailed)"

definition apply_status_draft_publish_publish ::
    "(string \<Rightarrow> profile_field list option) \<Rightarrow> status_draft_publish_model_state \<Rightarrow>
     (quote_approval_policy \<times> quote_state) option" where
  "apply_status_draft_publish_publish from_json s =
    Option.bind (ok (composing_status_validate (status_draft_publish_composing s)
                      (status_draft_publish_quoted_status_id s))) (\<lambda>draft.
      let account = status_draft_publish_fixture_account from_json (sp_account_default s);
          intent = t_state (into_publish_intent (t_state draft) account
                     (status_draft_publish_quote_resolution s))
      in Some (pi_quote_policy intent, pi_quote_state intent))"

definition sp_init_states :: "status_draft_publish_model_state list" where
  "sp_init_states =
    [\<lparr>sp_stage = Composing, sp_has_text = has_text, sp_media_count = media_count,
      sp_has_poll = has_poll, sp_has_quote = has_quote, sp_visibility = v,
      sp_policy_override = None, sp_account_default = Followers,
      sp_quote_target_local = quote_target_local, sp_published_policy = None,
      sp_published_quote_state = None\<rparr>.
     has_text \<leftarrow> [False, True], media_count \<leftarrow> [0, 1, 5], has_poll \<leftarrow> [False, True],
     has_quote \<leftarrow> [False, True], v \<leftarrow> [visibility.Public, Unlisted, FollowersOnly, Direct],
     quote_target_local \<leftarrow> [False, True]]"

definition sp_actions ::
    "status_draft_publish_model_state \<Rightarrow> status_draft_publish_action list" where
  "sp_actions s =
    (case sp_stage s of
       Composing \<Rightarrow>
         [ToggleText] @
         (if sp_media_count s < 5 then [AddMedia] else []) @
         (if sp_media_count s > 0 then [RemoveMedia] else []) @
         [TogglePoll, ToggleQuote, CycleVisibility, CyclePolicyOverride, CycleAccountDefault,
          ToggleQuoteTargetLocal, Validate]
     | Validated \<Rightarrow> [Publish]
     | _ \<Rightarrow> [])"

text \<open>The \<open>expect\<close> of \<open>Publish\<close> is a \<open>None\<close>; \<open>sp_publish_total\<close> shows it never fails.\<close>

fun sp_next_state ::
    "(string \<Rightarrow> profile_field list option) \<Rightarrow> status_draft_publish_model_state \<Rightarrow>
     status_draft_publish_action \<Rightarrow> status_draft_publish_model_state option" where
  "sp_next_state j s ToggleText =
     (if sp_stage s \<noteq> Composing then None else Some (s\<lparr>sp_has_text := \<not> sp_has_text s\<rparr>))"
| "sp_next_state j s AddMedia =
     (if sp_stage s \<noteq> Composing \<or> sp_media_count s \<ge> 5 then None
      else Some (s\<lparr>sp_media_count := sp_media_count s + 1\<rparr>))"
| "sp_next_state j s RemoveMedia =
     (if sp_stage s \<noteq> Composing \<or> sp_media_count s = 0 then None
      else Some (s\<lparr>sp_media_count := sp_media_count s - 1\<rparr>))"
| "sp_next_state j s TogglePoll =
     (if sp_stage s \<noteq> Composing then None else Some (s\<lparr>sp_has_poll := \<not> sp_has_poll s\<rparr>))"
| "sp_next_state j s ToggleQuote =
     (if sp_stage s \<noteq> Composing then None else Some (s\<lparr>sp_has_quote := \<not> sp_has_quote s\<rparr>))"
| "sp_next_state j s CycleVisibility =
     (if sp_stage s \<noteq> Composing then None
      else Some (s\<lparr>sp_visibility := cycle_visibility (sp_visibility s)\<rparr>))"
| "sp_next_state j s CyclePolicyOverride =
     (if sp_stage s \<noteq> Composing then None
      else Some (s\<lparr>sp_policy_override := cycle_policy_override (sp_policy_override s)\<rparr>))"
| "sp_next_state j s CycleAccountDefault =
     (if sp_stage s \<noteq> Composing then None
      else Some (s\<lparr>sp_account_default := cycle_account_default (sp_account_default s)\<rparr>))"
| "sp_next_state j s ToggleQuoteTargetLocal =
     (if sp_stage s \<noteq> Composing then None
      else Some (s\<lparr>sp_quote_target_local := \<not> sp_quote_target_local s\<rparr>))"
| "sp_next_state j s Validate =
     (if sp_stage s \<noteq> Composing then None
      else Some (s\<lparr>sp_stage := apply_status_draft_publish_validate s\<rparr>))"
| "sp_next_state j s Publish =
     (if sp_stage s \<noteq> Validated then None
      else map_option (\<lambda>(policy, quote_state).
        s\<lparr>sp_stage := Published, sp_published_policy := Some policy,
          sp_published_quote_state := Some quote_state\<rparr>)
        (apply_status_draft_publish_publish j s))"

definition sp_always :: "status_draft_publish_model_state named_property list" where
  "sp_always =
    [(''validation_failed_matches_domain_rules'',
      \<lambda>s. sp_stage s \<noteq> ValidationFailed \<or> status_draft_publish_validation_error s \<noteq> None),
     (''validated_compositions_have_no_validation_error'',
      \<lambda>s. sp_stage s \<noteq> Validated \<or> status_draft_publish_validation_error s = None),
     (''published_implies_prior_validation'',
      \<lambda>s. sp_stage s \<noteq> Published \<or> status_draft_publish_validation_error s = None),
     (''restricted_visibility_policy_nobody'',
      \<lambda>s. sp_stage s \<noteq> Published \<or> \<not> is_restricted (sp_visibility s) \<or>
        sp_published_policy s = Some Nobody),
     (''published_quote_state_matches_target'',
      \<lambda>s. sp_stage s \<noteq> Published \<or> sp_published_quote_state s =
        Some (quote_target_initial_state (status_draft_publish_quote_resolution s))),
     (''published_quote_policy_matches_effective'',
      \<lambda>s. if sp_stage s \<noteq> Published then True
        else sp_published_policy s = Some (for_status_visibility (sp_visibility s)
               (sp_policy_override s) (sp_account_default s))),
     (''terminal_stages_are_final'',
      \<lambda>s. \<not> (sp_stage s = Published \<or> sp_stage s = ValidationFailed) \<or>
        sp_stage s = Published \<or> status_draft_publish_validation_error s \<noteq> None)]"

definition sp_sometimes :: "status_draft_publish_model_state named_property list" where
  "sp_sometimes =
    [(''valid_publish_reachable'', \<lambda>s. sp_stage s = Published),
     (''validation_failure_reachable'', \<lambda>s. sp_stage s = ValidationFailed)]"

lemma sp_validate_stage:
  "apply_status_draft_publish_validate s =
    (if status_draft_publish_validation_error s = None then Validated else ValidationFailed)"
  by (auto simp: apply_status_draft_publish_validate_def status_draft_publish_composing_def
      status_draft_publish_quoted_status_id_def fixture_validate
      status_draft_publish_validation_error_def split: option.splits)

lemma sp_publish_eq:
  "apply_status_draft_publish_publish j s =
    (if status_draft_publish_validation_error s = None
     then Some (for_status_visibility (sp_visibility s) (sp_policy_override s)
             (sp_account_default s),
           quote_target_initial_state (status_draft_publish_quote_resolution s))
     else None)"
  by (auto simp: apply_status_draft_publish_publish_def status_draft_publish_composing_def
      status_draft_publish_quoted_status_id_def fixture_validate ok_def
      status_draft_publish_validation_error_def into_publish_intent_def with_event_def Let_def
      effective_quote_policy_def status_draft_publish_fixture_account_def split: option.splits)

lemma validation_error_update [simp]:
  "status_draft_publish_validation_error (s\<lparr>sp_stage := st\<rparr>) =
   status_draft_publish_validation_error s"
  "status_draft_publish_validation_error
     (s\<lparr>sp_stage := st, sp_published_policy := p, sp_published_quote_state := q\<rparr>) =
   status_draft_publish_validation_error s"
  "status_draft_publish_quote_resolution
     (s\<lparr>sp_stage := st, sp_published_policy := p, sp_published_quote_state := q\<rparr>) =
   status_draft_publish_quote_resolution s"
  by (simp_all add: status_draft_publish_validation_error_def
      status_draft_publish_quote_resolution_def)

definition sp_inv :: "status_draft_publish_model_state \<Rightarrow> bool" where
  "sp_inv s \<longleftrightarrow>
    (case sp_stage s of
       Composing \<Rightarrow> True
     | Validated \<Rightarrow> status_draft_publish_validation_error s = None
     | ValidationFailed \<Rightarrow> status_draft_publish_validation_error s \<noteq> None
     | Published \<Rightarrow> status_draft_publish_validation_error s = None \<and>
         sp_published_policy s = Some (for_status_visibility (sp_visibility s)
           (sp_policy_override s) (sp_account_default s)) \<and>
         sp_published_quote_state s =
           Some (quote_target_initial_state (status_draft_publish_quote_resolution s)))"

text \<open>A validated draft can always be published.\<close>

lemma sp_publish_total: "sp_inv s \<Longrightarrow> sp_stage s = Validated \<Longrightarrow> sp_next_state j s Publish \<noteq> None"
  by (simp add: sp_inv_def sp_publish_eq)

interpretation sp_model: model_invariant sp_init_states sp_actions "sp_next_state j" sp_inv for j
proof unfold_locales
  show "s \<in> set sp_init_states \<Longrightarrow> sp_inv s" for s
    by (auto simp: sp_init_states_def sp_inv_def)
  show "sp_inv s \<Longrightarrow> a \<in> set (sp_actions s) \<Longrightarrow> sp_next_state j s a = Some t \<Longrightarrow> sp_inv t" for s a t
    by (cases a) (auto simp: sp_inv_def sp_validate_stage sp_publish_eq split: if_splits)
qed

lemma sp_always_holds: "sp_inv s \<Longrightarrow> list_all (\<lambda>p. snd p s) sp_always"
  by (auto simp: sp_always_def sp_inv_def split: publish_stage.splits)

definition sp_text_form :: status_draft_publish_model_state where
  "sp_text_form =
    \<lparr>sp_stage = Composing, sp_has_text = True, sp_media_count = 0, sp_has_poll = False,
     sp_has_quote = False, sp_visibility = visibility.Public, sp_policy_override = None,
     sp_account_default = Followers, sp_quote_target_local = False, sp_published_policy = None,
     sp_published_quote_state = None\<rparr>"

lemma sp_sometimes_holds: "sometimes_holds sp_init_states sp_actions (sp_next_state j) sp_sometimes"
proof (rule sometimes_holdsI)
  let ?empty = "sp_text_form\<lparr>sp_has_text := False\<rparr>"
  have init: "sp_text_form \<in> set sp_init_states" "?empty \<in> set sp_init_states"
    by (simp_all add: sp_init_states_def sp_text_form_def)
  have "run_path sp_actions (sp_next_state j) sp_text_form [Validate, Publish] =
      Some (sp_text_form\<lparr>sp_stage := Published, sp_published_policy := Some Followers,
        sp_published_quote_state := Some Accepted\<rparr>)"
    "run_path sp_actions (sp_next_state j) ?empty [Validate] =
      Some (?empty\<lparr>sp_stage := ValidationFailed\<rparr>)"
    by (simp_all add: sp_actions_def sp_text_form_def sp_validate_stage sp_publish_eq
        status_draft_publish_validation_error_def expected_draft_error_def
        status_draft_publish_quote_resolution_def quote_target_cases for_status_visibility_def)
  with init show "list_all2 (\<lambda>p (s, as). s \<in> set sp_init_states \<and>
      (case run_path sp_actions (sp_next_state j) s as of Some t \<Rightarrow> snd p t | None \<Rightarrow> False))
    sp_sometimes [(sp_text_form, [Validate, Publish]), (?empty, [Validate])]"
    by (simp add: sp_sometimes_def del: run_path.simps)
qed

subsection \<open>The worker\<close>

definition sp_worker_validate_succeeds :: "status_draft_publish_model_state \<Rightarrow> bool" where
  "sp_worker_validate_succeeds s =
    is_ok (composing_status_validate (status_draft_publish_composing s)
      (status_draft_publish_quoted_status_id s))"

fun sp_worker_allows ::
    "status_draft_publish_model_state \<Rightarrow> status_draft_publish_action \<Rightarrow> bool" where
  "sp_worker_allows s Validate \<longleftrightarrow> sp_stage s = Composing"
| "sp_worker_allows s Publish \<longleftrightarrow> sp_stage s = Validated"
| "sp_worker_allows s _ \<longleftrightarrow> False"

definition sp_worker_effect ::
    "(string \<Rightarrow> profile_field list option) \<Rightarrow> status_draft_publish_model_state \<Rightarrow>
     status_draft_publish_action \<Rightarrow> status_draft_publish_model_state" where
  "sp_worker_effect j s a =
    (if \<not> sp_worker_allows s a then s
     else case a of
         Validate \<Rightarrow> s\<lparr>sp_stage := apply_status_draft_publish_validate s\<rparr>
       | Publish \<Rightarrow>
           (case apply_status_draft_publish_publish j s of
              Some (policy, quote_state) \<Rightarrow>
                s\<lparr>sp_stage := Published, sp_published_policy := Some policy,
                  sp_published_quote_state := Some quote_state\<rparr>
            | None \<Rightarrow> s)
       | _ \<Rightarrow> s)"

definition sp_domain_step ::
    "(string \<Rightarrow> profile_field list option) \<Rightarrow> status_draft_publish_model_state \<Rightarrow>
     status_draft_publish_action \<Rightarrow> status_draft_publish_model_state" where
  "sp_domain_step j s a = unwrap_or (sp_next_state j s a) s"

definition sp_worker_states :: "status_draft_publish_model_state list" where
  "sp_worker_states = sp_init_states @
    map (\<lambda>s. s\<lparr>sp_stage := Validated\<rparr>) (filter sp_worker_validate_succeeds sp_init_states)"

definition sp_worker_actions ::
    "status_draft_publish_model_state \<Rightarrow> status_draft_publish_action list" where
  "sp_worker_actions s =
    (case sp_stage s of Composing \<Rightarrow> [Validate] | Validated \<Rightarrow> [Publish] | _ \<Rightarrow> [])"

interpretation sp_worker: worker_refinement sp_worker_allows "sp_worker_effect j" "sp_domain_step j"
  for j
proof unfold_locales
  show "sp_worker_allows s a \<Longrightarrow> sp_worker_effect j s a = sp_domain_step j s a" for s a
    by (cases a)
       (auto simp: sp_worker_effect_def sp_domain_step_def sp_publish_eq)
  show "\<not> sp_worker_allows s a \<Longrightarrow> sp_worker_effect j s a = s" for s a
    by (simp add: sp_worker_effect_def)
qed

text \<open>What the check asserts of each initial state after its walks.\<close>

definition sp_refinement_asserts ::
    "(string \<Rightarrow> profile_field list option) \<Rightarrow> status_draft_publish_model_state \<Rightarrow> bool" where
  "sp_refinement_asserts j s \<longleftrightarrow>
    sp_worker_validate_succeeds s = (status_draft_publish_validation_error s = None) \<and>
    (apply_status_draft_publish_validate s = Validated) = sp_worker_validate_succeeds s \<and>
    (if sp_worker_validate_succeeds s
     then (let validated = s\<lparr>sp_stage := Validated\<rparr>;
               published = sp_domain_step j validated Publish
           in case apply_status_draft_publish_publish j validated of
                None \<Rightarrow> False
              | Some (policy, quote_state) \<Rightarrow>
                  sp_published_policy published = Some policy \<and>
                  sp_published_quote_state published = Some quote_state)
     else True)"

lemma sp_worker_validate_iff:
  "sp_worker_validate_succeeds s \<longleftrightarrow> status_draft_publish_validation_error s = None"
  by (auto simp: sp_worker_validate_succeeds_def status_draft_publish_composing_def is_ok_def
      status_draft_publish_quoted_status_id_def fixture_validate
      status_draft_publish_validation_error_def split: option.splits)

lemma sp_refinement_asserts_hold: "sp_refinement_asserts j s"
  by (auto simp: sp_refinement_asserts_def sp_worker_validate_iff sp_validate_stage sp_publish_eq
      sp_domain_step_def Let_def)

section \<open>The events of a draft\<close>

datatype status_draft_event_stage = Composing | DraftValidated | PublishIntentResolved

record status_draft_transition_events_model_state =
  se_stage :: status_draft_event_stage
  se_has_text :: bool
  se_media_count :: u8
  se_has_poll :: bool
  se_has_quote :: bool

datatype status_draft_transition_events_action =
    ToggleText | AddMedia | RemoveMedia | TogglePoll | ToggleQuote | Validate | ResolvePublishIntent

definition se_composing_status ::
    "status_draft_transition_events_model_state \<Rightarrow> composing_status" where
  "se_composing_status s =
    fixture_composing (se_has_text s) (se_media_count s) (se_has_poll s) visibility.Public None"

definition se_quoted_status_id ::
    "status_draft_transition_events_model_state \<Rightarrow> string option" where
  "se_quoted_status_id s = then_some (se_has_quote s) ''quote-1''"

definition se_validate ::
    "status_draft_transition_events_model_state \<Rightarrow>
     status_draft_error + (status_draft, status_draft_event) transition" where
  "se_validate s = composing_status_validate (se_composing_status s) (se_quoted_status_id s)"

definition se_validation_succeeds :: "status_draft_transition_events_model_state \<Rightarrow> bool" where
  "se_validation_succeeds s = is_ok (se_validate s)"

definition se_worker_validate_succeeds :: "status_draft_transition_events_model_state \<Rightarrow> bool" where
  "se_worker_validate_succeeds s = se_validation_succeeds s"

definition se_init_states :: "status_draft_transition_events_model_state list" where
  "se_init_states =
    [\<lparr>se_stage = status_draft_event_stage.Composing, se_has_text = False, se_media_count = 0,
      se_has_poll = False, se_has_quote = False\<rparr>]"

definition se_actions ::
    "status_draft_transition_events_model_state \<Rightarrow>
     status_draft_transition_events_action list" where
  "se_actions s =
    (case se_stage s of
       status_draft_event_stage.Composing \<Rightarrow>
         [status_draft_transition_events_action.ToggleText] @
         (if se_media_count s < 5 then [status_draft_transition_events_action.AddMedia] else []) @
         (if se_media_count s > 0 then [status_draft_transition_events_action.RemoveMedia] else []) @
         [status_draft_transition_events_action.TogglePoll,
          status_draft_transition_events_action.ToggleQuote,
          status_draft_transition_events_action.Validate]
     | status_draft_event_stage.DraftValidated \<Rightarrow> [ResolvePublishIntent]
     | status_draft_event_stage.PublishIntentResolved \<Rightarrow> [])"

fun se_next_state ::
    "status_draft_transition_events_model_state \<Rightarrow> status_draft_transition_events_action \<Rightarrow>
     status_draft_transition_events_model_state option" where
  "se_next_state s status_draft_transition_events_action.ToggleText =
     (if se_stage s \<noteq> status_draft_event_stage.Composing then None
      else Some (s\<lparr>se_has_text := \<not> se_has_text s\<rparr>))"
| "se_next_state s status_draft_transition_events_action.AddMedia =
     (if se_stage s \<noteq> status_draft_event_stage.Composing \<or> se_media_count s \<ge> 5 then None
      else Some (s\<lparr>se_media_count := se_media_count s + 1\<rparr>))"
| "se_next_state s status_draft_transition_events_action.RemoveMedia =
     (if se_stage s \<noteq> status_draft_event_stage.Composing \<or> se_media_count s = 0 then None
      else Some (s\<lparr>se_media_count := se_media_count s - 1\<rparr>))"
| "se_next_state s status_draft_transition_events_action.TogglePoll =
     (if se_stage s \<noteq> status_draft_event_stage.Composing then None
      else Some (s\<lparr>se_has_poll := \<not> se_has_poll s\<rparr>))"
| "se_next_state s status_draft_transition_events_action.ToggleQuote =
     (if se_stage s \<noteq> status_draft_event_stage.Composing then None
      else Some (s\<lparr>se_has_quote := \<not> se_has_quote s\<rparr>))"
| "se_next_state s status_draft_transition_events_action.Validate =
     (if se_stage s \<noteq> status_draft_event_stage.Composing \<or> \<not> se_validation_succeeds s then None
      else Some (s\<lparr>se_stage := status_draft_event_stage.DraftValidated\<rparr>))"
| "se_next_state s ResolvePublishIntent =
     (if se_stage s \<noteq> status_draft_event_stage.DraftValidated then None
      else Some (s\<lparr>se_stage := status_draft_event_stage.PublishIntentResolved\<rparr>))"

text \<open>The intent the last stage stands for; a refused draft would panic.\<close>

definition se_resolved ::
    "(string \<Rightarrow> profile_field list option) \<Rightarrow> string \<Rightarrow>
     status_draft_transition_events_model_state \<Rightarrow>
     (publish_intent, status_draft_event) transition option" where
  "se_resolved j ident s =
    map_option (\<lambda>validated. into_publish_intent (t_state validated)
      (fixture_account j ident ''followers'') quote_target_none) (ok (se_validate s))"

definition se_always ::
    "(string \<Rightarrow> profile_field list option) \<Rightarrow>
     status_draft_transition_events_model_state named_property list" where
  "se_always j =
    [(''validate_emits_draft_validated_event'',
      \<lambda>s. se_stage s \<noteq> status_draft_event_stage.DraftValidated \<or>
        unwrap_or (map_option (\<lambda>t. has_event t status_draft_event.DraftValidated)
          (ok (se_validate s))) False),
     (''publish_intent_emits_publish_intent_resolved_event'',
      \<lambda>s. se_stage s \<noteq> status_draft_event_stage.PublishIntentResolved \<or>
        (case se_resolved j ''acct-event'' s of
           None \<Rightarrow> False
         | Some t \<Rightarrow> has_event t status_draft_event.PublishIntentResolved)),
     (''failed_validation_emits_no_domain_transition'',
      \<lambda>s. se_validation_succeeds s \<or>
        (case se_validate s of
           Inl e \<Rightarrow> e \<in> {EmptyPayload, TooManyMedia, PollWithMedia, QuoteWithMediaOrPoll}
         | Inr _ \<Rightarrow> False))]"

definition se_sometimes :: "status_draft_transition_events_model_state named_property list" where
  "se_sometimes =
    [(''publish_intent_resolved_event_reachable'',
      \<lambda>s. se_stage s = status_draft_event_stage.PublishIntentResolved)]"

definition se_inv :: "status_draft_transition_events_model_state \<Rightarrow> bool" where
  "se_inv s \<longleftrightarrow>
    (if se_stage s = status_draft_event_stage.Composing then True else se_validation_succeeds s)"

lemma se_validate_eq:
  "err (se_validate s) =
    expected_draft_error (se_has_text s) (se_media_count s) (se_has_poll s) (se_has_quote s)"
  "is_ok (se_validate s) \<longleftrightarrow>
    expected_draft_error (se_has_text s) (se_media_count s) (se_has_poll s) (se_has_quote s) = None"
  "se_validate s = Inr t \<Longrightarrow> has_event t status_draft_event.DraftValidated"
  by (auto simp: se_validate_def se_composing_status_def se_quoted_status_id_def fixture_validate
      err_def is_ok_def has_event_def with_event_def split: option.splits)

lemma se_validate_stage [simp]:
  "se_validate (s\<lparr>se_stage := st\<rparr>) = se_validate s"
  "se_validation_succeeds (s\<lparr>se_stage := st\<rparr>) = se_validation_succeeds s"
  by (simp_all add: se_validate_def se_composing_status_def se_quoted_status_id_def
      se_validation_succeeds_def)

lemma se_resolved_event:
  assumes "se_validation_succeeds s"
  shows "\<exists>t. se_resolved j ident s = Some t \<and> has_event t status_draft_event.PublishIntentResolved"
  using assms
  by (cases "se_validate s")
     (auto simp: se_validation_succeeds_def se_resolved_def is_ok_def ok_def into_publish_intent_def
       has_event_def with_event_def)

interpretation se_model: model_invariant se_init_states se_actions se_next_state se_inv
proof unfold_locales
  show "s \<in> set se_init_states \<Longrightarrow> se_inv s" for s
    by (simp add: se_init_states_def se_inv_def)
  show "se_inv s \<Longrightarrow> a \<in> set (se_actions s) \<Longrightarrow> se_next_state s a = Some t \<Longrightarrow> se_inv t" for s a t
    by (cases a) (auto simp: se_inv_def split: if_splits)
qed

lemma se_always_holds: "se_inv s \<Longrightarrow> list_all (\<lambda>p. snd p s) (se_always j)"
proof -
  assume inv: "se_inv s"
  have "se_stage s \<noteq> status_draft_event_stage.DraftValidated \<or>
      unwrap_or (map_option (\<lambda>t. has_event t status_draft_event.DraftValidated)
          (ok (se_validate s))) False"
    using inv se_validate_eq(3) [of s]
    by (cases "se_validate s") (auto simp: se_inv_def se_validation_succeeds_def ok_def is_ok_def)
  moreover have "se_stage s \<noteq> status_draft_event_stage.PublishIntentResolved \<or>
      (case se_resolved j ''acct-event'' s of
         None \<Rightarrow> False | Some t \<Rightarrow> has_event t status_draft_event.PublishIntentResolved)"
    using inv se_resolved_event [of s j "''acct-event''"] by (auto simp: se_inv_def)
  moreover have "se_validation_succeeds s \<or>
      (case se_validate s of
         Inl e \<Rightarrow> e \<in> {EmptyPayload, TooManyMedia, PollWithMedia, QuoteWithMediaOrPoll}
       | Inr _ \<Rightarrow> False)"
    using se_validate_eq(1) [of s]
    by (cases "se_validate s")
       (auto simp: se_validation_succeeds_def is_ok_def err_def expected_draft_error_def
         split: if_splits)
  ultimately show ?thesis by (simp add: se_always_def)
qed

lemma se_sometimes_holds: "sometimes_holds se_init_states se_actions se_next_state se_sometimes"
proof (rule sometimes_holdsI)
  show "list_all2 (\<lambda>p (s, as). s \<in> set se_init_states \<and>
      (case run_path se_actions se_next_state s as of Some t \<Rightarrow> snd p t | None \<Rightarrow> False))
    se_sometimes
    [(se_init_states ! 0, [status_draft_transition_events_action.ToggleText,
       status_draft_transition_events_action.Validate, ResolvePublishIntent])]"
    by code_simp
qed

text \<open>What \<open>check_status_draft_refinement\<close> asserts of an observable, a form being composed.\<close>

definition se_refinement_asserts ::
    "(string \<Rightarrow> profile_field list option) \<Rightarrow> bool \<Rightarrow> u8 \<Rightarrow> bool \<Rightarrow> bool \<Rightarrow> bool" where
  "se_refinement_asserts j has_text media_count has_poll has_quote \<longleftrightarrow>
    (let s = \<lparr>se_stage = status_draft_event_stage.Composing, se_has_text = has_text,
              se_media_count = media_count, se_has_poll = has_poll, se_has_quote = has_quote\<rparr>
     in se_worker_validate_succeeds s = se_validation_succeeds s \<and>
       (if se_validation_succeeds s
        then (case (ok (se_validate s), se_resolved j ''acct-refine'' s) of
            (Some validated, Some resolved) \<Rightarrow>
              has_event validated status_draft_event.DraftValidated \<and>
              has_event resolved status_draft_event.PublishIntentResolved
          | _ \<Rightarrow> False)
        else True))"

lemma se_refinement_asserts_hold: "se_refinement_asserts j t n p q"
proof -
  let ?s = "\<lparr>se_stage = status_draft_event_stage.Composing, se_has_text = t,
              se_media_count = n, se_has_poll = p, se_has_quote = q\<rparr>"
  show ?thesis
    unfolding se_refinement_asserts_def Let_def
    using se_resolved_event [of ?s j "''acct-refine''"] se_validate_eq(3) [of ?s]
    by (cases "se_validate ?s") (auto simp: se_validation_succeeds_def se_worker_validate_succeeds_def is_ok_def ok_def)
qed

section \<open>Finitely many states\<close>

lemma finite_status_draft_publish_model_state:
  "finite (UNIV :: status_draft_publish_model_state set)"
proof -
  have "(UNIV :: publish_stage set) =
      {publish_stage.Composing, Validated, Published, ValidationFailed}"
    using publish_stage.exhaust by auto
  then have 1: "finite (UNIV :: publish_stage set)" by (metis finite.emptyI finite_insert)
  show ?thesis
  proof (rule finite_surj_UNIV)
    show "finite (UNIV :: (publish_stage \<times> bool \<times> u8 \<times> bool \<times> bool \<times> visibility \<times>
        quote_approval_policy option \<times> quote_approval_policy \<times> bool \<times>
        quote_approval_policy option \<times> quote_state option) set)"
      using 1 by (simp add: finite_prod)
    show "\<exists>x. (\<lambda>(a, b, c, d, e, f, g, h, i, j, k). \<lparr>sp_stage = a, sp_has_text = b,
        sp_media_count = c, sp_has_poll = d, sp_has_quote = e, sp_visibility = f,
        sp_policy_override = g, sp_account_default = h, sp_quote_target_local = i,
        sp_published_policy = j, sp_published_quote_state = k\<rparr>) x = s" for s
      by (cases s) simp
  qed
qed

section \<open>Properties\<close>

text \<open>
  The draft models keep every property they declare in every reachable state, whatever the
  profile-field reader does: what fails to validate has the error the model predicts, a restricted
  visibility is published with policy \<open>Nobody\<close>, and the published policy and quote state are
  those of the domain. Both outcomes are reached, a validated draft can always be published, and
  the assertions of the two refinement checks hold, whose walk ends and passes.
\<close>

theorem status_draft_models_verified:
  "properties_hold sp_init_states sp_actions (sp_next_state j) sp_always sp_sometimes \<and>
   properties_hold se_init_states se_actions se_next_state (se_always j) se_sometimes \<and>
   (settles (assert_worker_refinement sp_worker_states sp_worker_actions sp_worker_allows
      (sp_worker_effect j) (sp_domain_step j)) True) \<and>
   always_holds sp_init_states sp_actions (sp_next_state j)
     [(''publish_never_panics'',
       \<lambda>s. if sp_stage s = Validated then sp_next_state j s Publish \<noteq> None else True)] \<and>
   sp_refinement_asserts j s \<and>
   se_refinement_asserts j has_text media_count has_poll has_quote"
proof (intro conjI)
  show "properties_hold sp_init_states sp_actions (sp_next_state j) sp_always sp_sometimes"
    by (rule sp_model.properties_holdI [OF sp_always_holds sp_sometimes_holds])
  show "properties_hold se_init_states se_actions se_next_state (se_always j) se_sometimes"
    by (rule se_model.properties_holdI [OF se_always_holds se_sometimes_holds])
  show "always_holds sp_init_states sp_actions (sp_next_state j)
     [(''publish_never_panics'',
       \<lambda>s. if sp_stage s = Validated then sp_next_state j s Publish \<noteq> None else True)]"
    by (rule sp_model.alwaysI) (simp add: sp_publish_total del: sp_next_state.simps)
qed (fact sp_worker.check_finishes [OF finite_status_draft_publish_model_state]
    sp_refinement_asserts_hold se_refinement_asserts_hold)+

end
