(* ===== verification/Model_Federation.thy ===== *)
theory Model_Federation
  imports Stateright Actor_Authority Remote_Status
begin

text \<open>
  The models of the federation policies: signed requests and remote URLs
  (\<open>federation_request_policy.rs\<close>), DNS answers (\<open>federation_dns_policy.rs\<close>) and the
  audience of a status (\<open>activitypub_visibility.rs\<close>), with their refinements.
\<close>

section \<open>Requests\<close>

datatype signed_header_set = MissingTarget | MissingDigest | Complete

datatype key_id_case = MatchingFragment | MatchingCanonical | MismatchedActor | InvalidScheme

datatype remote_host_case = Public | Localhost | PrivateIp | UserInfo | UnsupportedScheme

datatype date_skew_case = Within | Outside

record federation_request_policy_model_state =
  rq_signed_headers :: signed_header_set
  rq_key_id_case :: key_id_case
  rq_cached_public_key_id_present :: bool
  rq_remote_host :: remote_host_case
  rq_date_skew :: date_skew_case

datatype federation_request_policy_action =
  CycleSignedHeaders | CycleKeyIdCase | ToggleCachedPublicKeyId | CycleRemoteHost | ToggleDateSkew

definition ACTOR_URI :: string where
  "ACTOR_URI = ''https://remote.example/users/bob''"

definition CANONICAL_ACTOR_URI :: string where
  "CANONICAL_ACTOR_URI = ''https://remote.example/@bob''"

fun signed_header_list :: "signed_header_set \<Rightarrow> string list" where
  "signed_header_list MissingTarget = [''date'', ''digest'']"
| "signed_header_list MissingDigest = [''(request-target)'', ''date'']"
| "signed_header_list Complete = [''(request-target)'', ''host'', ''date'', ''digest'']"

fun rq_key_id :: "key_id_case \<Rightarrow> string" where
  "rq_key_id MatchingFragment = ''https://remote.example/users/bob#main-key''"
| "rq_key_id MatchingCanonical = ''https://remote.example/@bob''"
| "rq_key_id MismatchedActor = ''https://remote.example/users/eve#main-key''"
| "rq_key_id InvalidScheme = ''ftp://remote.example/users/bob#main-key''"

fun remote_url_parts :: "remote_host_case \<Rightarrow> string \<times> string \<times> bool" where
  "remote_url_parts remote_host_case.Public = (''https'', ''remote.example'', False)"
| "remote_url_parts Localhost = (''https'', ''localhost'', False)"
| "remote_url_parts PrivateIp = (''https'', ''127.0.0.1'', False)"
| "remote_url_parts UserInfo = (''https'', ''remote.example'', True)"
| "remote_url_parts remote_host_case.UnsupportedScheme = (''file'', ''remote.example'', False)"

fun cycle_signed_headers :: "signed_header_set \<Rightarrow> signed_header_set" where
  "cycle_signed_headers MissingTarget = MissingDigest"
| "cycle_signed_headers MissingDigest = Complete"
| "cycle_signed_headers Complete = MissingTarget"

fun cycle_key_id_case :: "key_id_case \<Rightarrow> key_id_case" where
  "cycle_key_id_case MatchingFragment = MatchingCanonical"
| "cycle_key_id_case MatchingCanonical = MismatchedActor"
| "cycle_key_id_case MismatchedActor = InvalidScheme"
| "cycle_key_id_case InvalidScheme = MatchingFragment"

fun cycle_remote_host :: "remote_host_case \<Rightarrow> remote_host_case" where
  "cycle_remote_host remote_host_case.Public = Localhost"
| "cycle_remote_host Localhost = PrivateIp"
| "cycle_remote_host PrivateIp = UserInfo"
| "cycle_remote_host UserInfo = remote_host_case.UnsupportedScheme"
| "cycle_remote_host remote_host_case.UnsupportedScheme = remote_host_case.Public"

fun toggle_date_skew :: "date_skew_case \<Rightarrow> date_skew_case" where
  "toggle_date_skew Within = Outside"
| "toggle_date_skew Outside = Within"

definition signature_headers_valid :: "federation_request_policy_model_state \<Rightarrow> bool" where
  "signature_headers_valid s =
    activitypub_signature_lists_required_headers (signed_header_list (rq_signed_headers s))"

definition key_id_matches_actor :: "federation_request_policy_model_state \<Rightarrow> bool" where
  "key_id_matches_actor s =
    activitypub_key_id_matches_actor (rq_key_id (rq_key_id_case s)) ACTOR_URI CANONICAL_ACTOR_URI"

definition rq_cached_key_matches :: "federation_request_policy_model_state \<Rightarrow> bool" where
  "rq_cached_key_matches s =
    (let cached_public_key_id =
       (if rq_cached_public_key_id_present s then rq_key_id (rq_key_id_case s) else [])
     in cached_remote_actor_key_matches (key_id_matches_actor s) cached_public_key_id
          (rq_key_id (rq_key_id_case s)))"

definition remote_url_allowed :: "federation_request_policy_model_state \<Rightarrow> bool" where
  "remote_url_allowed s =
    (case remote_url_parts (rq_remote_host s) of
       (scheme, host, has_userinfo) \<Rightarrow>
         is_ok (remote_url_policy_from_parts scheme host has_userinfo))"

definition date_within_skew :: "federation_request_policy_model_state \<Rightarrow> bool" where
  "date_within_skew s =
    (let now_ms = 1000000;
         parsed_ms = (case rq_date_skew s of
             Within \<Rightarrow> now_ms
           | Outside \<Rightarrow> now_ms + ACTIVITYPUB_MAX_DATE_SKEW_MS + 1)
     in activitypub_date_within_skew (Some parsed_ms) (Some now_ms))"

definition rq_init_states :: "federation_request_policy_model_state list" where
  "rq_init_states =
    [\<lparr>rq_signed_headers = signed_headers, rq_key_id_case = key_id,
      rq_cached_public_key_id_present = cached, rq_remote_host = host, rq_date_skew = Within\<rparr>.
     signed_headers \<leftarrow> [MissingTarget, MissingDigest, Complete],
     key_id \<leftarrow> [MatchingFragment, MatchingCanonical, MismatchedActor, InvalidScheme],
     cached \<leftarrow> [False, True],
     host \<leftarrow> [remote_host_case.Public, Localhost, PrivateIp, UserInfo,
       remote_host_case.UnsupportedScheme]]"

definition rq_actions ::
    "federation_request_policy_model_state \<Rightarrow> federation_request_policy_action list" where
  "rq_actions s =
    [CycleSignedHeaders, CycleKeyIdCase, ToggleCachedPublicKeyId, CycleRemoteHost, ToggleDateSkew]"

fun rq_next_state ::
    "federation_request_policy_model_state \<Rightarrow> federation_request_policy_action \<Rightarrow>
     federation_request_policy_model_state option" where
  "rq_next_state s CycleSignedHeaders =
     Some (s\<lparr>rq_signed_headers := cycle_signed_headers (rq_signed_headers s)\<rparr>)"
| "rq_next_state s CycleKeyIdCase =
     Some (s\<lparr>rq_key_id_case := cycle_key_id_case (rq_key_id_case s)\<rparr>)"
| "rq_next_state s ToggleCachedPublicKeyId =
     Some (s\<lparr>rq_cached_public_key_id_present := \<not> rq_cached_public_key_id_present s\<rparr>)"
| "rq_next_state s CycleRemoteHost =
     Some (s\<lparr>rq_remote_host := cycle_remote_host (rq_remote_host s)\<rparr>)"
| "rq_next_state s ToggleDateSkew =
     Some (s\<lparr>rq_date_skew := toggle_date_skew (rq_date_skew s)\<rparr>)"

definition rq_always :: "federation_request_policy_model_state named_property list" where
  "rq_always =
    [(''complete_signed_headers_are_valid'',
      \<lambda>s. rq_signed_headers s \<noteq> Complete \<or> signature_headers_valid s),
     (''incomplete_signed_headers_are_invalid'',
      \<lambda>s. rq_signed_headers s = Complete \<or> \<not> signature_headers_valid s),
     (''matching_key_ids_accept_fragment_or_canonical_actor'',
      \<lambda>s. \<not> (rq_key_id_case s = MatchingFragment \<or> rq_key_id_case s = MatchingCanonical) \<or>
        key_id_matches_actor s),
     (''mismatched_or_invalid_key_ids_reject'',
      \<lambda>s. \<not> (rq_key_id_case s = MismatchedActor \<or> rq_key_id_case s = InvalidScheme) \<or>
        \<not> key_id_matches_actor s),
     (''cached_key_requires_actor_match'',
      \<lambda>s. \<not> rq_cached_key_matches s \<or> key_id_matches_actor s),
     (''public_remote_host_is_allowed'',
      \<lambda>s. rq_remote_host s \<noteq> remote_host_case.Public \<or> remote_url_allowed s),
     (''blocked_remote_hosts_are_rejected'',
      \<lambda>s. rq_remote_host s = remote_host_case.Public \<or> \<not> remote_url_allowed s),
     (''localhost_remote_host_is_blocked'',
      \<lambda>s. rq_remote_host s \<noteq> Localhost \<or>
        remote_url_policy_from_parts ''https'' ''localhost'' False = Inl LocalhostBlocked),
     (''within_skew_dates_are_accepted'',
      \<lambda>s. rq_date_skew s \<noteq> Within \<or> date_within_skew s),
     (''outside_skew_dates_are_rejected'',
      \<lambda>s. rq_date_skew s \<noteq> Outside \<or> \<not> date_within_skew s)]"

definition rq_sometimes :: "federation_request_policy_model_state named_property list" where
  "rq_sometimes =
    [(''valid_signature_prerequisites_reachable'',
      \<lambda>s. signature_headers_valid s \<and> key_id_matches_actor s \<and> remote_url_allowed s \<and>
        date_within_skew s)]"

text \<open>What each case of the model means for the policy.\<close>

lemma signature_headers_valid_iff: "signature_headers_valid s \<longleftrightarrow> rq_signed_headers s = Complete"
  by (cases "rq_signed_headers s")
     (simp_all add: signature_headers_valid_def activitypub_signature_lists_required_headers_def
       ACTIVITYPUB_REQUIRED_SIGNED_HEADERS_def)

lemma key_id_evaluations:
  "activitypub_key_id_matches_actor (rq_key_id MatchingFragment) ACTOR_URI CANONICAL_ACTOR_URI"
  "activitypub_key_id_matches_actor (rq_key_id MatchingCanonical) ACTOR_URI CANONICAL_ACTOR_URI"
  "\<not> activitypub_key_id_matches_actor (rq_key_id MismatchedActor) ACTOR_URI CANONICAL_ACTOR_URI"
  "\<not> activitypub_key_id_matches_actor (rq_key_id InvalidScheme) ACTOR_URI CANONICAL_ACTOR_URI"
  by code_simp+

lemma key_id_matches_iff:
  "key_id_matches_actor s \<longleftrightarrow>
   rq_key_id_case s = MatchingFragment \<or> rq_key_id_case s = MatchingCanonical"
  using key_id_evaluations by (cases "rq_key_id_case s") (simp_all add: key_id_matches_actor_def)

lemma model_literals: "show_ipv4 (Ipv4 127 0 0 1) = ''127.0.0.1''" "show_ipv4 (Ipv4 8 8 8 8) = ''8.8.8.8''"
  by code_simp+

lemma model_names:
  "parse_ip_addr ''remote.example'' = None" "parse_ip_addr ''localhost'' = None"
  "to_ascii_lowercase ''remote.example'' = ''remote.example''"
  "to_ascii_lowercase ''localhost'' = ''localhost''"
  "trim_end_matches ''remote.example'' (CHR ''.'') = ''remote.example''"
  "trim_end_matches ''localhost'' (CHR ''.'') = ''localhost''"
  "\<not> ends_with ''remote.example'' ''.localhost''"
  by (rule parse_not_a_number; code_simp) (rule parse_not_a_number; code_simp |
      simp add: trim_end_matches_id | code_simp)+

lemma model_addresses:
  "parse_ip_addr ''127.0.0.1'' = Some (V4 (Ipv4 127 0 0 1))"
  "parse_ip_addr ''8.8.8.8'' = Some (V4 (Ipv4 8 8 8 8))"
  "to_ascii_lowercase ''127.0.0.1'' = ''127.0.0.1''" "to_ascii_lowercase ''8.8.8.8'' = ''8.8.8.8''"
  "trim_end_matches ''127.0.0.1'' (CHR ''.'') = ''127.0.0.1''"
  "trim_end_matches ''8.8.8.8'' (CHR ''.'') = ''8.8.8.8''"
  using parse_show_ipv4 [of "Ipv4 127 0 0 1"] parse_show_ipv4 [of "Ipv4 8 8 8 8"]
    show_ipv4_lower [of "Ipv4 127 0 0 1"] show_ipv4_lower [of "Ipv4 8 8 8 8"]
  unfolding model_literals by (simp_all add: trim_end_matches_id)

lemma model_blocked:
  "\<not> is_blocked_ip_address (V4 (Ipv4 8 8 8 8))" "is_blocked_ip_address (V4 (Ipv4 127 0 0 1))"
  "\<not> ends_with ''127.0.0.1'' ''.localhost''" "\<not> ends_with ''8.8.8.8'' ''.localhost''"
  by (simp add: is_blocked_ip_address_def, simp add: is_blocked_ip_address_def, code_simp, code_simp)

lemma host_evaluations:
  "remote_url_policy_from_parts ''https'' ''remote.example'' False = Inr ()"
  "remote_url_policy_from_parts ''https'' ''localhost'' False = Inl LocalhostBlocked"
  "remote_url_policy_from_parts ''https'' ''127.0.0.1'' False = Inl BlockedIp"
  "remote_url_policy_from_parts ''https'' ''8.8.8.8'' False = Inr ()"
  by (simp_all add: remote_url_policy_from_parts_def model_names model_addresses model_blocked)

lemma literal_evaluations:
  "\<not> host_is_ip_literal ''remote.example''" "\<not> host_is_ip_literal ''localhost''"
  "host_is_ip_literal ''8.8.8.8''" "host_is_ip_literal ''127.0.0.1''"
  by (simp_all add: host_is_ip_literal_def model_names model_addresses)

lemma remote_url_allowed_iff: "remote_url_allowed s \<longleftrightarrow> rq_remote_host s = remote_host_case.Public"
  using host_evaluations
  by (cases "rq_remote_host s")
     (simp_all add: remote_url_allowed_def is_ok_def remote_url_policy_from_parts_def)

lemma date_within_iff: "date_within_skew s \<longleftrightarrow> rq_date_skew s = Within"
  by (cases "rq_date_skew s")
     (simp_all add: date_within_skew_def activitypub_date_within_skew_def
       ACTIVITYPUB_MAX_DATE_SKEW_MS_def)

interpretation rq_model: model_invariant rq_init_states rq_actions rq_next_state "\<lambda>_. True"
  by unfold_locales simp_all

lemma rq_always_holds: "list_all (\<lambda>p. snd p s) rq_always"
  using host_evaluations(2)
  by (cases "rq_key_id_case s"; cases "rq_date_skew s")
     (simp_all add: rq_always_def signature_headers_valid_iff key_id_matches_iff
       remote_url_allowed_iff date_within_iff rq_cached_key_matches_def
       cached_remote_actor_key_matches_def)

lemma rq_sometimes_holds: "sometimes_holds rq_init_states rq_actions rq_next_state rq_sometimes"
proof (rule sometimes_holdsI)
  let ?s = "\<lparr>rq_signed_headers = Complete, rq_key_id_case = MatchingFragment,
      rq_cached_public_key_id_present = False, rq_remote_host = remote_host_case.Public,
      rq_date_skew = Within\<rparr>"
  have "?s \<in> set rq_init_states" by (simp add: rq_init_states_def)
  then show "list_all2 (\<lambda>p (s, as). s \<in> set rq_init_states \<and>
      (case run_path rq_actions rq_next_state s as of Some t \<Rightarrow> snd p t | None \<Rightarrow> False))
    rq_sometimes [(?s, [])]"
    by (simp add: rq_sometimes_def signature_headers_valid_iff key_id_matches_iff
        remote_url_allowed_iff date_within_iff)
qed

section \<open>DNS answers\<close>

datatype static_host_case = PublicHostname | Localhost | LiteralPublicIp | LiteralPrivateIp

datatype dns_resolution_case = NotRequired | PublicOnly | PrivateOnly | Mixed | NoRecords

record federation_dns_policy_model_state =
  dp_static_host :: static_host_case
  dp_dns_resolution :: dns_resolution_case
  dp_cache_hit :: bool

datatype federation_dns_policy_action = CycleStaticHost | CycleDnsResolution | ToggleCacheHit

definition PUBLIC_IP :: ip_addr where
  "PUBLIC_IP = V4 (Ipv4 8 8 8 8)"

definition PRIVATE_IP :: ip_addr where
  "PRIVATE_IP = V4 (Ipv4 127 0 0 1)"

fun static_host_value :: "static_host_case \<Rightarrow> string" where
  "static_host_value PublicHostname = ''remote.example''"
| "static_host_value static_host_case.Localhost = ''localhost''"
| "static_host_value LiteralPublicIp = ''8.8.8.8''"
| "static_host_value LiteralPrivateIp = ''127.0.0.1''"

fun cycle_static_host :: "static_host_case \<Rightarrow> static_host_case" where
  "cycle_static_host PublicHostname = static_host_case.Localhost"
| "cycle_static_host static_host_case.Localhost = LiteralPublicIp"
| "cycle_static_host LiteralPublicIp = LiteralPrivateIp"
| "cycle_static_host LiteralPrivateIp = PublicHostname"

fun cycle_dns_resolution :: "dns_resolution_case \<Rightarrow> dns_resolution_case" where
  "cycle_dns_resolution NotRequired = PublicOnly"
| "cycle_dns_resolution PublicOnly = PrivateOnly"
| "cycle_dns_resolution PrivateOnly = Mixed"
| "cycle_dns_resolution Mixed = dns_resolution_case.NoRecords"
| "cycle_dns_resolution dns_resolution_case.NoRecords = NotRequired"

definition effective_dns_resolution ::
    "federation_dns_policy_model_state \<Rightarrow> dns_resolution_case" where
  "effective_dns_resolution s =
    (if host_is_ip_literal (static_host_value (dp_static_host s)) then NotRequired
     else dp_dns_resolution s)"

fun resolved_ips :: "dns_resolution_case \<Rightarrow> ip_addr list option" where
  "resolved_ips NotRequired = None"
| "resolved_ips PublicOnly = Some [PUBLIC_IP]"
| "resolved_ips PrivateOnly = Some [PRIVATE_IP]"
| "resolved_ips Mixed = Some [PUBLIC_IP, PRIVATE_IP]"
| "resolved_ips dns_resolution_case.NoRecords = Some []"

definition worker_validates_dns :: "federation_dns_policy_model_state \<Rightarrow> bool" where
  "worker_validates_dns s \<longleftrightarrow>
    \<not> host_is_ip_literal (static_host_value (dp_static_host s)) \<and> \<not> dp_cache_hit s"

definition dp_fetch_allowed :: "federation_dns_policy_model_state \<Rightarrow> bool" where
  "dp_fetch_allowed s =
    (let host = static_host_value (dp_static_host s) in
     if dp_cache_hit s \<and> \<not> host_is_ip_literal host
     then is_ok (remote_url_policy_from_parts ''https'' host False)
     else let dns_case = effective_dns_resolution s in
       is_ok (remote_fetch_host_allowed ''https'' host False (resolved_ips dns_case)))"

definition static_policy_issue ::
    "federation_dns_policy_model_state \<Rightarrow> remote_url_policy_issue option" where
  "static_policy_issue s =
    err (remote_url_policy_from_parts ''https'' (static_host_value (dp_static_host s)) False)"

definition dns_policy_issue ::
    "federation_dns_policy_model_state \<Rightarrow> remote_dns_resolution_issue option" where
  "dns_policy_issue s =
    (if \<not> worker_validates_dns s then None
     else let dns_case = effective_dns_resolution s in
       err (remote_hostname_dns_resolution_allowed (unwrap_or (resolved_ips dns_case) [])))"

definition dp_init_states :: "federation_dns_policy_model_state list" where
  "dp_init_states =
    [\<lparr>dp_static_host = host, dp_dns_resolution = dns, dp_cache_hit = hit\<rparr>.
     host \<leftarrow> [PublicHostname, static_host_case.Localhost, LiteralPublicIp, LiteralPrivateIp],
     dns \<leftarrow> [NotRequired, PublicOnly, PrivateOnly, Mixed, dns_resolution_case.NoRecords],
     hit \<leftarrow> [False, True]]"

definition dp_actions ::
    "federation_dns_policy_model_state \<Rightarrow> federation_dns_policy_action list" where
  "dp_actions s = [CycleStaticHost, CycleDnsResolution, ToggleCacheHit]"

fun dp_next_state ::
    "federation_dns_policy_model_state \<Rightarrow> federation_dns_policy_action \<Rightarrow>
     federation_dns_policy_model_state option" where
  "dp_next_state s CycleStaticHost =
     Some (s\<lparr>dp_static_host := cycle_static_host (dp_static_host s)\<rparr>)"
| "dp_next_state s CycleDnsResolution =
     Some (s\<lparr>dp_dns_resolution := cycle_dns_resolution (dp_dns_resolution s)\<rparr>)"
| "dp_next_state s ToggleCacheHit = Some (s\<lparr>dp_cache_hit := \<not> dp_cache_hit s\<rparr>)"

definition dp_rebinding :: "federation_dns_policy_model_state \<Rightarrow> bool" where
  "dp_rebinding s \<longleftrightarrow>
    effective_dns_resolution s = PrivateOnly \<or> effective_dns_resolution s = Mixed"

definition dp_always :: "federation_dns_policy_model_state named_property list" where
  "dp_always =
    [(''literal_private_ip_blocked_without_dns'',
      \<lambda>s. dp_static_host s \<noteq> LiteralPrivateIp \<or> \<not> dp_fetch_allowed s),
     (''literal_public_ip_allowed_without_dns'',
      \<lambda>s. dp_static_host s \<noteq> LiteralPublicIp \<or> dp_fetch_allowed s),
     (''localhost_blocked_before_dns'',
      \<lambda>s. dp_static_host s \<noteq> static_host_case.Localhost \<or>
        static_policy_issue s = Some LocalhostBlocked),
     (''public_hostname_public_dns_allowed'',
      \<lambda>s. dp_static_host s \<noteq> PublicHostname \<or> effective_dns_resolution s \<noteq> PublicOnly \<or>
        dp_cache_hit s \<or> dp_fetch_allowed s),
     (''dns_rebinding_private_resolution_blocked'',
      \<lambda>s. dp_static_host s \<noteq> PublicHostname \<or> \<not> dp_rebinding s \<or> dp_cache_hit s \<or>
        \<not> dp_fetch_allowed s),
     (''empty_dns_answers_blocked'',
      \<lambda>s. dp_static_host s \<noteq> PublicHostname \<or>
        effective_dns_resolution s \<noteq> dns_resolution_case.NoRecords \<or> dp_cache_hit s \<or>
        dns_policy_issue s = Some remote_dns_resolution_issue.NoRecords),
     (''cache_hit_skips_dns_validation'',
      \<lambda>s. \<not> dp_cache_hit s \<or> dp_static_host s \<noteq> PublicHostname \<or> dns_policy_issue s = None),
     (''fetch_allowed_matches_domain_composition'',
      \<lambda>s. let host = static_host_value (dp_static_host s);
              expected =
                (if dp_cache_hit s \<and> \<not> host_is_ip_literal host
                 then is_ok (remote_url_policy_from_parts ''https'' host False)
                 else is_ok (remote_fetch_host_allowed ''https'' host False
                        (resolved_ips (effective_dns_resolution s))))
          in dp_fetch_allowed s = expected)]"

definition dp_sometimes :: "federation_dns_policy_model_state named_property list" where
  "dp_sometimes =
    [(''public_hostname_fetch_reachable'',
      \<lambda>s. dp_static_host s = PublicHostname \<and> dp_fetch_allowed s),
     (''dns_rebinding_blocked_reachable'',
      \<lambda>s. dp_static_host s = PublicHostname \<and> dp_rebinding s \<and> \<not> dp_cache_hit s \<and>
        \<not> dp_fetch_allowed s)]"

lemma dp_fetch_allowed_iff:
  "dp_fetch_allowed s \<longleftrightarrow>
    dp_static_host s = LiteralPublicIp \<or>
    dp_static_host s = PublicHostname \<and> (dp_cache_hit s \<or> dp_dns_resolution s = PublicOnly)"
  by (cases "dp_static_host s"; cases "dp_dns_resolution s")
     (simp_all add: dp_fetch_allowed_def effective_dns_resolution_def literal_evaluations
       host_evaluations is_ok_def remote_fetch_host_allowed_def Let_def
       remote_hostname_dns_resolution_allowed_def PUBLIC_IP_def PRIVATE_IP_def model_blocked)

interpretation dp_model: model_invariant dp_init_states dp_actions dp_next_state "\<lambda>_. True"
  by unfold_locales simp_all

lemma dp_always_holds: "list_all (\<lambda>p. snd p s) dp_always"
proof -
  have composition: "dp_fetch_allowed s =
      (if dp_cache_hit s \<and> \<not> host_is_ip_literal (static_host_value (dp_static_host s))
       then is_ok (remote_url_policy_from_parts ''https'' (static_host_value (dp_static_host s)) False)
       else is_ok (remote_fetch_host_allowed ''https'' (static_host_value (dp_static_host s)) False
         (resolved_ips (effective_dns_resolution s))))"
    by (simp add: dp_fetch_allowed_def Let_def)
  have issue: "dp_static_host s \<noteq> PublicHostname \<or>
      effective_dns_resolution s \<noteq> dns_resolution_case.NoRecords \<or> dp_cache_hit s \<or>
      dns_policy_issue s = Some remote_dns_resolution_issue.NoRecords"
    "\<not> dp_cache_hit s \<or> dp_static_host s \<noteq> PublicHostname \<or> dns_policy_issue s = None"
    by (auto simp: dns_policy_issue_def worker_validates_dns_def literal_evaluations err_def
        remote_hostname_dns_resolution_allowed_def)
  have "dp_static_host s \<noteq> static_host_case.Localhost \<or>
      static_policy_issue s = Some LocalhostBlocked"
    by (auto simp: static_policy_issue_def host_evaluations err_def)
  then show ?thesis
    using issue composition
    by (auto simp: dp_always_def dp_fetch_allowed_iff dp_rebinding_def effective_dns_resolution_def
        literal_evaluations Let_def)
qed

lemma dp_sometimes_holds: "sometimes_holds dp_init_states dp_actions dp_next_state dp_sometimes"
proof (rule sometimes_holdsI)
  let ?s = "\<lambda>dns. \<lparr>dp_static_host = PublicHostname, dp_dns_resolution = dns, dp_cache_hit = False\<rparr>"
  have "?s PublicOnly \<in> set dp_init_states" "?s Mixed \<in> set dp_init_states"
    by (simp_all add: dp_init_states_def)
  then show "list_all2 (\<lambda>p (s, as). s \<in> set dp_init_states \<and>
      (case run_path dp_actions dp_next_state s as of Some t \<Rightarrow> snd p t | None \<Rightarrow> False))
    dp_sometimes [(?s PublicOnly, []), (?s Mixed, [])]"
    by (simp add: dp_sometimes_def dp_fetch_allowed_iff dp_rebinding_def
        effective_dns_resolution_def literal_evaluations)
qed

section \<open>Audiences\<close>

record activitypub_visibility_model_state =
  av_to_contains_public :: bool
  av_cc_contains_public :: bool
  av_addresses_followers :: bool

datatype activitypub_visibility_action =
    ToggleToPublic | ToggleCcPublic | ToggleAddressesFollowers
  | EmitPublic | EmitUnlisted | EmitFollowersOnly | EmitDirect

definition av_resolved_visibility :: "activitypub_visibility_model_state \<Rightarrow> visibility" where
  "av_resolved_visibility s =
    visibility_from_activitypub_audiences (av_to_contains_public s) (av_cc_contains_public s)
      (av_addresses_followers s)"

definition av_init_states :: "activitypub_visibility_model_state list" where
  "av_init_states =
    map (\<lambda>(t, c, f). \<lparr>av_to_contains_public = t, av_cc_contains_public = c,
      av_addresses_followers = f\<rparr>)
    [(False, False, False), (False, False, True), (True, False, True), (False, True, True),
     (True, True, False)]"

definition av_actions ::
    "activitypub_visibility_model_state \<Rightarrow> activitypub_visibility_action list" where
  "av_actions s =
    [ToggleToPublic, ToggleCcPublic, ToggleAddressesFollowers, EmitPublic, EmitUnlisted,
     EmitFollowersOnly, EmitDirect]"

text \<open>The four emitting actions set all three flags to those of their visibility.\<close>

definition av_emit ::
    "activitypub_visibility_model_state \<Rightarrow> visibility \<Rightarrow> activitypub_visibility_model_state" where
  "av_emit s v =
    (case activitypub_audience_flags_for_visibility v of
       (to, cc, followers) \<Rightarrow>
         s\<lparr>av_to_contains_public := to, av_cc_contains_public := cc,
           av_addresses_followers := followers\<rparr>)"

fun av_next_state ::
    "activitypub_visibility_model_state \<Rightarrow> activitypub_visibility_action \<Rightarrow>
     activitypub_visibility_model_state option" where
  "av_next_state s ToggleToPublic =
     Some (s\<lparr>av_to_contains_public := \<not> av_to_contains_public s\<rparr>)"
| "av_next_state s ToggleCcPublic =
     Some (s\<lparr>av_cc_contains_public := \<not> av_cc_contains_public s\<rparr>)"
| "av_next_state s ToggleAddressesFollowers =
     Some (s\<lparr>av_addresses_followers := \<not> av_addresses_followers s\<rparr>)"
| "av_next_state s EmitPublic = Some (av_emit s visibility.Public)"
| "av_next_state s EmitUnlisted = Some (av_emit s Unlisted)"
| "av_next_state s EmitFollowersOnly = Some (av_emit s FollowersOnly)"
| "av_next_state s EmitDirect = Some (av_emit s Direct)"

definition av_always :: "activitypub_visibility_model_state named_property list" where
  "av_always =
    [(''to_public_takes_precedence'',
      \<lambda>s. \<not> av_to_contains_public s \<or> av_resolved_visibility s = visibility.Public),
     (''cc_public_without_to_is_unlisted'',
      \<lambda>s. av_to_contains_public s \<or> \<not> av_cc_contains_public s \<or>
        av_resolved_visibility s = Unlisted),
     (''no_public_with_followers_is_followers_only'',
      \<lambda>s. av_to_contains_public s \<or> av_cc_contains_public s \<or> \<not> av_addresses_followers s \<or>
        av_resolved_visibility s = FollowersOnly),
     (''no_public_without_followers_is_direct'',
      \<lambda>s. av_to_contains_public s \<or> av_cc_contains_public s \<or> av_addresses_followers s \<or>
        av_resolved_visibility s = Direct),
     (''public_activitypub_visibility_matches_public_or_unlisted'',
      \<lambda>s. let v = av_resolved_visibility s in
        is_public_activitypub_visibility v = (v = visibility.Public \<or> v = Unlisted)),
     (''restricted_visibility_forces_nobody_quote_policy'',
      \<lambda>s. let v = av_resolved_visibility s in
        \<not> is_restricted v \<or>
        for_status_visibility v (Some quote_approval_policy.Public) Followers = Nobody)]"

definition av_sometimes :: "activitypub_visibility_model_state named_property list" where
  "av_sometimes =
    [(''public_visibility_reachable'', \<lambda>s. av_resolved_visibility s = visibility.Public),
     (''unlisted_visibility_reachable'', \<lambda>s. av_resolved_visibility s = Unlisted),
     (''followers_only_visibility_reachable'', \<lambda>s. av_resolved_visibility s = FollowersOnly),
     (''direct_visibility_reachable'', \<lambda>s. av_resolved_visibility s = Direct)]"

interpretation av_model: model_invariant av_init_states av_actions av_next_state "\<lambda>_. True"
  by unfold_locales simp_all

lemma av_always_holds: "list_all (\<lambda>p. snd p s) av_always"
proof -
  have "is_public_activitypub_visibility v = (v = visibility.Public \<or> v = Unlisted)" for v
    by (cases v) simp_all
  then show ?thesis
    by (auto simp: av_always_def av_resolved_visibility_def visibility_from_activitypub_audiences_def
        Let_def)
qed

lemma av_sometimes_holds: "sometimes_holds av_init_states av_actions av_next_state av_sometimes"
proof (rule sometimes_holdsI)
  show "list_all2 (\<lambda>p (s, as). s \<in> set av_init_states \<and>
      (case run_path av_actions av_next_state s as of Some t \<Rightarrow> snd p t | None \<Rightarrow> False))
    av_sometimes
    [(av_init_states ! 2, []), (av_init_states ! 3, []), (av_init_states ! 1, []),
     (av_init_states ! 0, [])]"
    by code_simp
qed

section \<open>The worker\<close>

subsection \<open>Audiences\<close>

definition av_worker_parse_visibility :: "activitypub_visibility_model_state \<Rightarrow> visibility" where
  "av_worker_parse_visibility s =
    visibility_from_activitypub_audiences (av_to_contains_public s) (av_cc_contains_public s)
      (av_addresses_followers s)"

definition worker_is_public_visibility_string :: "visibility \<Rightarrow> bool" where
  "worker_is_public_visibility_string v \<longleftrightarrow>
    visibility_as_str v = ''public'' \<or> visibility_as_str v = ''unlisted''"

definition worker_emit_audience_flags :: "visibility \<Rightarrow> bool \<times> bool \<times> bool" where
  "worker_emit_audience_flags v = activitypub_audience_flags_for_visibility v"

fun worker_visibility_for_emit :: "activitypub_visibility_action \<Rightarrow> visibility option" where
  "worker_visibility_for_emit EmitPublic = Some visibility.Public"
| "worker_visibility_for_emit EmitUnlisted = Some Unlisted"
| "worker_visibility_for_emit EmitFollowersOnly = Some FollowersOnly"
| "worker_visibility_for_emit EmitDirect = Some Direct"
| "worker_visibility_for_emit _ = None"

definition av_worker_allows ::
    "activitypub_visibility_model_state \<Rightarrow> activitypub_visibility_action \<Rightarrow> bool" where
  "av_worker_allows s a \<longleftrightarrow> worker_visibility_for_emit a \<noteq> None"

definition av_worker_effect ::
    "activitypub_visibility_model_state \<Rightarrow> activitypub_visibility_action \<Rightarrow>
     activitypub_visibility_model_state" where
  "av_worker_effect s a =
    (case worker_visibility_for_emit a of
       None \<Rightarrow> s
     | Some v \<Rightarrow>
         (case worker_emit_audience_flags v of
            (to, cc, followers) \<Rightarrow>
              \<lparr>av_to_contains_public = to, av_cc_contains_public = cc,
               av_addresses_followers = followers\<rparr>))"

definition av_domain_step ::
    "activitypub_visibility_model_state \<Rightarrow> activitypub_visibility_action \<Rightarrow>
     activitypub_visibility_model_state" where
  "av_domain_step s a = unwrap_or (av_next_state s a) s"

definition av_worker_actions ::
    "activitypub_visibility_model_state \<Rightarrow> activitypub_visibility_action list" where
  "av_worker_actions s = [EmitPublic, EmitUnlisted, EmitFollowersOnly, EmitDirect]"

interpretation av_worker: worker_refinement av_worker_allows av_worker_effect av_domain_step
proof unfold_locales
  show "av_worker_allows s a \<Longrightarrow> av_worker_effect s a = av_domain_step s a" for s a
    by (cases a; cases s)
       (simp_all add: av_worker_allows_def av_worker_effect_def av_domain_step_def av_emit_def
         worker_emit_audience_flags_def)
  show "\<not> av_worker_allows s a \<Longrightarrow> av_worker_effect s a = s" for s a
    by (simp add: av_worker_allows_def av_worker_effect_def)
qed

lemma finite_activitypub_visibility_model_state:
  "finite (UNIV :: activitypub_visibility_model_state set)"
proof (rule finite_surj_UNIV)
  show "\<exists>x. (\<lambda>(a, b, c). \<lparr>av_to_contains_public = a, av_cc_contains_public = b,
      av_addresses_followers = c\<rparr>) x = s" for s
    by (cases s) simp
qed simp

subsection \<open>Requests\<close>

definition worker_validate_signature_headers :: "string list \<Rightarrow> bool" where
  "worker_validate_signature_headers signed_headers =
    (if activitypub_signature_lists_required_headers signed_headers then True
     else list_all (\<lambda>required. list_ex (\<lambda>header. header = required) signed_headers)
       ACTIVITYPUB_REQUIRED_SIGNED_HEADERS)"

definition worker_cached_key_matches :: "bool \<Rightarrow> string \<Rightarrow> string \<Rightarrow> bool" where
  "worker_cached_key_matches key_id_matches cached_public_key_id key_id =
    cached_remote_actor_key_matches key_id_matches cached_public_key_id key_id"

definition worker_remote_url_allowed :: "string \<Rightarrow> string \<Rightarrow> bool \<Rightarrow> bool" where
  "worker_remote_url_allowed scheme host has_userinfo =
    is_ok (remote_url_policy_from_parts scheme host has_userinfo)"

definition worker_date_within_skew :: "int option \<Rightarrow> int option \<Rightarrow> bool" where
  "worker_date_within_skew parsed_ms now_ms = activitypub_date_within_skew parsed_ms now_ms"

text \<open>What \<open>check_federation_request_policy_refinement\<close> asserts, case by case.\<close>

definition rq_refinement_asserts :: bool where
  "rq_refinement_asserts \<longleftrightarrow>
    list_all (\<lambda>(headers, expected).
        worker_validate_signature_headers headers = expected \<and>
        activitypub_signature_lists_required_headers headers = expected)
      [([''date'', ''digest''], False), ([''(request-target)'', ''date''], False),
       ([''(request-target)'', ''host'', ''date'', ''digest''], True)] \<and>
    list_all (\<lambda>(key_id, expected).
        activitypub_key_id_matches_actor key_id ACTOR_URI CANONICAL_ACTOR_URI = expected)
      [(rq_key_id MatchingFragment, True), (rq_key_id MatchingCanonical, True),
       (rq_key_id MismatchedActor, False), (rq_key_id InvalidScheme, False)] \<and>
    worker_cached_key_matches True (rq_key_id MatchingFragment) (rq_key_id MatchingFragment) \<and>
    \<not> worker_cached_key_matches False (rq_key_id MatchingFragment) (rq_key_id MatchingFragment) \<and>
    worker_cached_key_matches True [] (rq_key_id MatchingFragment) \<and>
    list_all (\<lambda>(scheme, host, has_userinfo, expected).
        worker_remote_url_allowed scheme host has_userinfo = expected)
      [(''https'', ''remote.example'', False, True), (''https'', ''localhost'', False, False),
       (''https'', ''127.0.0.1'', False, False), (''https'', ''remote.example'', True, False),
       (''file'', ''remote.example'', False, False)] \<and>
    worker_date_within_skew (Some 1000000) (Some 1000000) \<and>
    \<not> worker_date_within_skew (Some (1000000 + ACTIVITYPUB_MAX_DATE_SKEW_MS + 1)) (Some 1000000)"

lemma worker_signature_headers:
  "worker_validate_signature_headers hs = activitypub_signature_lists_required_headers hs"
  by (simp add: worker_validate_signature_headers_def
      activitypub_signature_lists_required_headers_def)

lemma rq_refinement_asserts_hold: rq_refinement_asserts
proof -
  have "\<not> is_ok (remote_url_policy_from_parts ''https'' ''remote.example'' True)"
    "\<not> is_ok (remote_url_policy_from_parts ''file'' ''remote.example'' False)"
    by (simp_all add: remote_url_policy_from_parts_def is_ok_def)
  then have urls: "list_all (\<lambda>(scheme, host, has_userinfo, expected).
        worker_remote_url_allowed scheme host has_userinfo = expected)
      [(''https'', ''remote.example'', False, True), (''https'', ''localhost'', False, False),
       (''https'', ''127.0.0.1'', False, False), (''https'', ''remote.example'', True, False),
       (''file'', ''remote.example'', False, False)]"
    using host_evaluations by (simp add: worker_remote_url_allowed_def is_ok_def)
  have headers: "list_all (\<lambda>(headers, expected).
        worker_validate_signature_headers headers = expected \<and>
        activitypub_signature_lists_required_headers headers = expected)
      [([''date'', ''digest''], False), ([''(request-target)'', ''date''], False),
       ([''(request-target)'', ''host'', ''date'', ''digest''], True)]"
    by (simp add: worker_signature_headers activitypub_signature_lists_required_headers_def
        ACTIVITYPUB_REQUIRED_SIGNED_HEADERS_def)
  show ?thesis
    unfolding rq_refinement_asserts_def
    using urls headers key_id_evaluations
    by (simp add: worker_cached_key_matches_def cached_remote_actor_key_matches_def
        worker_date_within_skew_def activitypub_date_within_skew_def
        ACTIVITYPUB_MAX_DATE_SKEW_MS_def del: rq_key_id.simps)
qed

section \<open>Properties\<close>

text \<open>
  The federation models keep every property they declare in every reachable state and
  reach what they call reachable: only complete signatures, keys of the actor and public hosts
  are accepted, a name that resolves to a private address is not fetched unless its answer is
  cached, and the audience decides the visibility. The assertions of
  \<open>check_federation_request_policy_refinement\<close> hold.
\<close>

theorem federation_models_verified:
  "properties_hold rq_init_states rq_actions rq_next_state rq_always rq_sometimes \<and>
   properties_hold dp_init_states dp_actions dp_next_state dp_always dp_sometimes \<and>
   properties_hold av_init_states av_actions av_next_state av_always av_sometimes \<and>
   rq_refinement_asserts"
  using rq_model.properties_holdI [OF rq_always_holds rq_sometimes_holds]
    dp_model.properties_holdI [OF dp_always_holds dp_sometimes_holds]
    av_model.properties_holdI [OF av_always_holds av_sometimes_holds] rq_refinement_asserts_hold
  by simp

text \<open>
  What the worker emits is read back: the walk of
  \<open>check_activitypub_visibility_refinement\<close> ends and passes, from every state the audience the
  worker writes for a visibility parses to that visibility, and the test on the visibility
  string agrees with the domain's.
\<close>

theorem activitypub_emission_read_back:
  "(settles (assert_worker_refinement av_init_states av_worker_actions av_worker_allows
      av_worker_effect av_domain_step) True) \<and>
   (case worker_visibility_for_emit a of
      Some v \<Rightarrow> av_worker_parse_visibility (av_worker_effect s a) = v
    | None \<Rightarrow> av_worker_effect s a = s) \<and>
   worker_is_public_visibility_string w = is_public_activitypub_visibility w"
proof (intro conjI)
  show "case worker_visibility_for_emit a of
      Some v \<Rightarrow> av_worker_parse_visibility (av_worker_effect s a) = v
    | None \<Rightarrow> av_worker_effect s a = s"
    by (cases a)
       (simp_all add: av_worker_effect_def av_worker_parse_visibility_def worker_emit_audience_flags_def
         visibility_from_activitypub_audiences_def)
  show "worker_is_public_visibility_string w = is_public_activitypub_visibility w"
    by (cases w) (simp_all add: worker_is_public_visibility_string_def)
qed (rule av_worker.check_finishes [OF finite_activitypub_visibility_model_state])

end
