(* ===== verification/Gif_Static.thy ===== *)
theory Gif_Static
  imports Prelude
begin

unbundle bit_operations_syntax

text \<open>
  The first frame of an animated GIF, served as the static variant of a custom emoji
  (\<open>cfwdon-worker/src/custom_emojis/gif_static.rs\<close>). A slice is a list of bytes and an offset
  into it a natural number: an offset never exceeds the length of a slice by more than a
  colour table and a block, so \<open>usize\<close> does not wrap. The loops terminate because every
  block they skip moves the offset forward.
\<close>

section \<open>Blocks\<close>

definition color_table_size :: "u8 \<Rightarrow> nat" where
  "color_table_size packed =
    (if packed AND 0x80 \<noteq> 0 then 3 * 2 ^ (unat (packed AND 0x07) + 1) else 0)"

definition GIF87a :: "u8 list" where
  "GIF87a = [0x47, 0x49, 0x46, 0x38, 0x37, 0x61]"

definition GIF89a :: "u8 list" where
  "GIF89a = [0x47, 0x49, 0x46, 0x38, 0x39, 0x61]"

definition gif_header_end :: "u8 list \<Rightarrow> nat option" where
  "gif_header_end bytes =
    (if length bytes < 13 \<or> \<not> (take 6 bytes = GIF87a \<or> take 6 bytes = GIF89a) then None
     else let offset = 13 + color_table_size (bytes ! 10)
          in if offset \<le> length bytes then Some offset else None)"

function gif_skip_sub_blocks :: "u8 list \<Rightarrow> nat \<Rightarrow> nat option" where
  "gif_skip_sub_blocks bytes offset =
    (if offset < length bytes
     then let block_size = unat (bytes ! offset)
          in if block_size = 0 then Some (offset + 1)
             else if offset + 1 + block_size > length bytes then None
             else gif_skip_sub_blocks bytes (offset + 1 + block_size)
     else None)"
  by pat_completeness auto
termination by (relation "measure (\<lambda>(bytes, offset). length bytes - offset)") auto

declare gif_skip_sub_blocks.simps [simp del]

definition gif_skip_extension :: "u8 list \<Rightarrow> nat \<Rightarrow> nat option" where
  "gif_skip_extension bytes offset =
    (if offset \<ge> length bytes then None else gif_skip_sub_blocks bytes (offset + 1))"

definition gif_skip_image :: "u8 list \<Rightarrow> nat \<Rightarrow> nat option" where
  "gif_skip_image bytes offset =
    (if offset + 10 > length bytes then None
     else let next_offset = offset + 10 + color_table_size (bytes ! (offset + 9))
          in if next_offset \<ge> length bytes then None
             else gif_skip_sub_blocks bytes (next_offset + 1))"

text \<open>Skipping a block goes forward and stays within the slice.\<close>

lemma gif_skip_sub_blocks_forward:
  "gif_skip_sub_blocks bytes offset = Some n \<Longrightarrow> offset < n \<and> n \<le> length bytes"
proof (induction bytes offset rule: gif_skip_sub_blocks.induct)
  case (1 bytes offset)
  from "1.prems" "1.IH" show ?case
    by (subst (asm) gif_skip_sub_blocks.simps) (fastforce simp: Let_def split: if_splits)
qed

lemma gif_skip_extension_forward:
  "gif_skip_extension bytes offset = Some n \<Longrightarrow> offset < n \<and> n \<le> length bytes"
  using gif_skip_sub_blocks_forward [of bytes "offset + 1" n]
  by (simp add: gif_skip_extension_def split: if_splits)

lemma gif_skip_image_forward:
  "gif_skip_image bytes offset = Some n \<Longrightarrow> offset < n \<and> n \<le> length bytes"
  using gif_skip_sub_blocks_forward [of bytes _ n]
  by (fastforce simp: gif_skip_image_def Let_def split: if_splits)

lemmas gif_forward = gif_skip_extension_forward gif_skip_image_forward

section \<open>Frames\<close>

function gif_frames_from :: "u8 list \<Rightarrow> nat \<Rightarrow> nat \<Rightarrow> nat" where
  "gif_frames_from bytes offset frames =
    (if offset < length bytes
     then if bytes ! offset = 0x21
          then (case gif_skip_extension bytes (offset + 1) of
                  None \<Rightarrow> frames
                | Some n \<Rightarrow> gif_frames_from bytes n frames)
          else if bytes ! offset = 0x2c
          then (case gif_skip_image bytes offset of
                  None \<Rightarrow> frames + 1
                | Some n \<Rightarrow> gif_frames_from bytes n (frames + 1))
          else frames
     else frames)"
  by pat_completeness auto
termination
  by (relation "measure (\<lambda>(bytes, offset, frames). length bytes - offset)")
     (auto dest!: gif_forward)

declare gif_frames_from.simps [simp del]

definition gif_image_frame_count :: "u8 list \<Rightarrow> nat" where
  "gif_image_frame_count bytes =
    (case gif_header_end bytes of
       None \<Rightarrow> 0
     | Some offset \<Rightarrow> gif_frames_from bytes offset 0)"

definition gif_is_animated :: "u8 list \<Rightarrow> bool" where
  "gif_is_animated bytes \<longleftrightarrow> gif_image_frame_count bytes > 1"

function gif_first_frame_from :: "u8 list \<Rightarrow> nat \<Rightarrow> u8 list option" where
  "gif_first_frame_from bytes offset =
    (if offset < length bytes
     then if bytes ! offset = 0x21
          then (case gif_skip_extension bytes (offset + 1) of
                  None \<Rightarrow> None
                | Some n \<Rightarrow> gif_first_frame_from bytes n)
          else if bytes ! offset = 0x2c
          then map_option (\<lambda>n. take n bytes @ [0x3b]) (gif_skip_image bytes offset)
          else None
     else None)"
  by pat_completeness auto
termination
  by (relation "measure (\<lambda>(bytes, offset). length bytes - offset)")
     (auto dest!: gif_forward)

declare gif_first_frame_from.simps [simp del]

definition gif_first_frame_bytes :: "u8 list \<Rightarrow> u8 list option" where
  "gif_first_frame_bytes bytes =
    Option.bind (gif_header_end bytes) (gif_first_frame_from bytes)"

definition gif_static_bytes :: "u8 list \<Rightarrow> u8 list" where
  "gif_static_bytes bytes =
    (if \<not> gif_is_animated bytes then bytes
     else unwrap_or (gif_first_frame_bytes bytes) bytes)"

section \<open>What a block is does not depend on what follows it\<close>

lemma gif_skip_sub_blocks_local:
  "gif_skip_sub_blocks bytes offset = Some n \<Longrightarrow>
    gif_skip_sub_blocks (take n bytes @ rest) offset = Some n"
proof (induction bytes offset rule: gif_skip_sub_blocks.induct)
  case (1 bytes offset)
  note bounds = gif_skip_sub_blocks_forward [OF "1.prems"]
  then have at: "(take n bytes @ rest) ! offset = bytes ! offset" by (simp add: nth_append)
  show ?case
  proof (cases "unat (bytes ! offset) = 0")
    case True
    with "1.prems" bounds at show ?thesis
      by (subst gif_skip_sub_blocks.simps, subst (asm) gif_skip_sub_blocks.simps) simp
  next
    case False
    let ?next = "offset + 1 + unat (bytes ! offset)"
    from False bounds "1.prems" have inside: "?next \<le> length bytes"
      and step: "gif_skip_sub_blocks bytes ?next = Some n"
      by (subst (asm) gif_skip_sub_blocks.simps, simp add: Let_def split: if_splits)+
    from "1.IH" False bounds inside step
    have "gif_skip_sub_blocks (take n bytes @ rest) ?next = Some n" by simp
    moreover have "?next < n" using gif_skip_sub_blocks_forward [OF step] by simp
    ultimately show ?thesis using False bounds at
      by (subst gif_skip_sub_blocks.simps) (simp add: Let_def)
  qed
qed

lemma gif_skip_extension_local:
  assumes "gif_skip_extension bytes offset = Some n"
  shows "gif_skip_extension (take n bytes @ rest) offset = Some n"
  using assms gif_skip_extension_forward [OF assms] gif_skip_sub_blocks_local
  by (fastforce simp: gif_skip_extension_def split: if_splits)

lemma gif_skip_image_local:
  assumes "gif_skip_image bytes offset = Some n"
  shows "gif_skip_image (take n bytes @ rest) offset = Some n"
proof -
  let ?next = "offset + 10 + color_table_size (bytes ! (offset + 9))"
  from assms have step: "gif_skip_sub_blocks bytes (?next + 1) = Some n"
    and inside: "?next < length bytes"
    by (simp_all add: gif_skip_image_def Let_def split: if_splits)
  have "?next + 1 < n" "n \<le> length bytes" using gif_skip_sub_blocks_forward [OF step] by simp_all
  then show ?thesis
    using gif_skip_sub_blocks_local [OF step, of rest]
    by (simp add: gif_skip_image_def nth_append)
qed

lemma gif_header_end_local:
  assumes "gif_header_end bytes = Some h" "h \<le> n" "n \<le> length bytes"
  shows "gif_header_end (take n bytes @ rest) = Some h"
  using assms
  by (auto simp: gif_header_end_def nth_append Let_def min_def take_append split: if_splits)

lemma gif_header_end_bound: "gif_header_end bytes = Some h \<Longrightarrow> h \<le> length bytes"
  by (simp add: gif_header_end_def Let_def split: if_splits)

section \<open>The first frame\<close>

lemma gif_frames_from_lower: "frames \<le> gif_frames_from bytes offset frames"
proof (induction bytes offset frames rule: gif_frames_from.induct)
  case (1 bytes offset frames)
  then show ?case
    by (subst gif_frames_from.simps) (fastforce split: option.split)
qed

text \<open>What is cut out ends with a trailer behind exactly one image.\<close>

lemma gif_first_frame_from_cut:
  "gif_first_frame_from bytes offset = Some still \<Longrightarrow>
    \<exists>n. offset < n \<and> n \<le> length bytes \<and> still = take n bytes @ [0x3b] \<and>
      gif_frames_from still offset frames = frames + 1 \<and>
      gif_frames_from bytes offset frames = gif_frames_from bytes n (frames + 1)"
proof (induction bytes offset rule: gif_first_frame_from.induct)
  case (1 bytes offset)
  have len: "offset < length bytes"
    and kind: "bytes ! offset = 0x21 \<or> bytes ! offset = 0x2c"
    using "1.prems" by (subst (asm) gif_first_frame_from.simps, simp split: if_splits)+
  show ?case
  proof (cases "bytes ! offset = 0x21")
    case True
    with "1.prems" len obtain m where m: "gif_skip_extension bytes (offset + 1) = Some m"
      and rest: "gif_first_frame_from bytes m = Some still"
      by (subst (asm) gif_first_frame_from.simps) (auto split: option.splits)
    from "1.IH" [OF len True m rest] obtain n where
      n: "m < n" "n \<le> length bytes" "still = take n bytes @ [0x3b]"
      "gif_frames_from still m frames = frames + 1"
      "gif_frames_from bytes m frames = gif_frames_from bytes n (frames + 1)" by blast
    have mo: "offset + 1 < m" using gif_skip_extension_forward [OF m] by simp
    have "take n bytes @ [0x3b] = take m bytes @ (take (n - m) (drop m bytes) @ [0x3b])"
      using n by (simp add: take_add [symmetric])
    then have "gif_skip_extension still (offset + 1) = Some m"
      using gif_skip_extension_local [OF m] n by simp
    moreover have "still ! offset = 0x21" "offset < length still"
      using n mo True by (simp_all add: nth_append)
    ultimately have "gif_frames_from still offset frames = frames + 1"
      using n by (subst gif_frames_from.simps) simp
    moreover have "gif_frames_from bytes offset frames = gif_frames_from bytes n (frames + 1)"
      using n m len True by (subst gif_frames_from.simps) simp
    ultimately show ?thesis using n mo by (intro exI [of _ n]) simp
  next
    case False
    with kind have image: "bytes ! offset = 0x2c" by simp
    with "1.prems" len obtain n where n: "gif_skip_image bytes offset = Some n"
      and still: "still = take n bytes @ [0x3b]"
      by (subst (asm) gif_first_frame_from.simps) auto
    have bounds: "offset < n" "n \<le> length bytes" using gif_skip_image_forward [OF n] by simp_all
    have "still ! offset = 0x2c" "offset < length still" "still ! n = 0x3b" "n < length still"
      using still bounds image by (simp_all add: nth_append)
    moreover have "gif_skip_image still offset = Some n"
      using gif_skip_image_local [OF n] still by simp
    moreover have "gif_frames_from still n (frames + 1) = frames + 1"
      using calculation by (subst gif_frames_from.simps) simp
    ultimately have "gif_frames_from still offset frames = frames + 1"
      by (subst gif_frames_from.simps) simp
    moreover have "gif_frames_from bytes offset frames = gif_frames_from bytes n (frames + 1)"
      using n len image by (subst gif_frames_from.simps) simp
    ultimately show ?thesis using still bounds by blast
  qed
qed

lemma gif_first_frame_from_None:
  "gif_first_frame_from bytes offset = None \<Longrightarrow> gif_frames_from bytes offset frames \<le> frames + 1"
proof (induction bytes offset rule: gif_first_frame_from.induct)
  case (1 bytes offset)
  from "1.prems" "1.IH" show ?case
    by (subst gif_frames_from.simps, subst (asm) gif_first_frame_from.simps)
       (auto split: if_splits option.splits)
qed

lemma gif_frames_from_end: "length bytes \<le> n \<Longrightarrow> gif_frames_from bytes n frames = frames"
  by (subst gif_frames_from.simps) simp

lemma gif_animated_static:
  assumes "gif_is_animated bytes"
  obtains n where "n < length bytes" "gif_first_frame_bytes bytes = Some (take n bytes @ [0x3b])"
    "gif_static_bytes bytes = take n bytes @ [0x3b]"
    "gif_image_frame_count (take n bytes @ [0x3b]) = 1"
proof -
  from assms obtain h where h: "gif_header_end bytes = Some h" "gif_frames_from bytes h 0 > 1"
    by (auto simp: gif_is_animated_def gif_image_frame_count_def split: option.splits)
  then obtain still where still: "gif_first_frame_from bytes h = Some still"
    using gif_first_frame_from_None [of bytes h 0] by fastforce
  from gif_first_frame_from_cut [OF still, of 0] obtain n where
    n: "h < n" "n \<le> length bytes" "still = take n bytes @ [0x3b]" "gif_frames_from still h 0 = 1"
      "gif_frames_from bytes h 0 = gif_frames_from bytes n 1" by auto
  have "n \<noteq> length bytes" using gif_frames_from_end [of bytes n 1] n h by auto
  with n have "n < length bytes" by simp
  moreover have "gif_header_end still = Some h" using gif_header_end_local [OF h(1)] n by simp
  ultimately show ?thesis
    using that [of n] n h still assms
    by (simp add: gif_first_frame_bytes_def gif_static_bytes_def gif_image_frame_count_def
        unwrap_or_def)
qed

section \<open>Properties\<close>

text \<open>
  The static variant of a GIF is a GIF with exactly one frame. Of an animated one it is a
  proper prefix with a trailer, so it is never longer; anything else, GIF or not, is served as it
  is. Making it static a second time changes nothing.
\<close>

theorem gif_static_one_frame:
  "(if gif_is_animated bytes
    then gif_image_frame_count (gif_static_bytes bytes) = 1 \<and>
      (\<exists>n. n < length bytes \<and> gif_static_bytes bytes = take n bytes @ [0x3b]) \<and>
      length (gif_static_bytes bytes) \<le> length bytes
    else gif_static_bytes bytes = bytes) \<and>
   \<not> gif_is_animated (gif_static_bytes bytes) \<and>
   gif_static_bytes (gif_static_bytes bytes) = gif_static_bytes bytes"
proof (cases "gif_is_animated bytes")
  case True
  then obtain n where "n < length bytes" "gif_static_bytes bytes = take n bytes @ [0x3b]"
    "gif_image_frame_count (take n bytes @ [0x3b]) = 1" by (rule gif_animated_static)
  note n = this
  then have still: "\<not> gif_is_animated (gif_static_bytes bytes)" by (simp add: gif_is_animated_def)
  then have "gif_static_bytes (gif_static_bytes bytes) = gif_static_bytes bytes"
    by (simp add: gif_static_bytes_def [of "gif_static_bytes bytes"])
  with True still n show ?thesis by auto
qed (simp add: gif_static_bytes_def)

end
