(* ===== verification/Text_Ops.thy ===== *)
theory Text_Ops
  imports Prelude
begin

text \<open>
  More of Rust's \<open>str\<close>: replacing and splitting on a pattern, joining, and the words of a
  text. A pattern of the sources is never empty.
\<close>

lemma starts_with_Cons [simp]: "starts_with (a # s) (c # p) \<longleftrightarrow> a = c \<and> starts_with s p"
  by (auto simp: starts_with_def)

lemma starts_with_Nil [simp]: "starts_with s []" "starts_with [] (c # p) = False"
  by (simp_all add: starts_with_def)

lemma starts_with_self [simp]: "starts_with s s"
  by (simp add: starts_with_def)

section \<open>Replacing\<close>

definition replace_char :: "char \<Rightarrow> string \<Rightarrow> string \<Rightarrow> string" where
  "replace_char c new s = concat (map (\<lambda>x. if x = c then new else [x]) s)"

text \<open>\<open>str::replace\<close> with a string pattern: the matches from left to right, not overlapping.\<close>

function replace_all :: "string \<Rightarrow> string \<Rightarrow> string \<Rightarrow> string" where
  "replace_all pat new s =
    (if pat = [] \<or> s = [] then s
     else if starts_with s pat then new @ replace_all pat new (drop (length pat) s)
     else hd s # replace_all pat new (tl s))"
  by pat_completeness auto
termination
  by (relation "measure (\<lambda>(pat, new, s). length s)") (auto simp: starts_with_iff)

declare replace_all.simps [simp del]

lemma replace_all_Nil [simp]: "replace_all pat new [] = []"
  by (simp add: replace_all.simps)

lemma replace_all_match: "pat \<noteq> [] \<Longrightarrow> replace_all pat new (pat @ s) = new @ replace_all pat new s"
  by (subst replace_all.simps) simp

lemma replace_all_other:
  "pat \<noteq> [] \<Longrightarrow> \<not> starts_with (c # s) pat \<Longrightarrow> replace_all pat new (c # s) = c # replace_all pat new s"
  by (simp add: replace_all.simps [of _ _ "_ # _"])

lemma replace_all_skip:
  "c \<notin> set u \<Longrightarrow> replace_all (c # pat) new (u @ s) = u @ replace_all (c # pat) new s"
  by (induction u) (auto simp: replace_all_other)

text \<open>
  A text of atoms, each a single byte other than the mark or the mark with a tail free of it:
  replacing an atom by pattern replaces exactly the atoms equal to it.
\<close>

definition atom_of :: "char \<Rightarrow> string \<Rightarrow> bool" where
  "atom_of mark a \<longleftrightarrow> a \<noteq> [] \<and> mark \<notin> set (tl a)"

lemma replace_all_atoms:
  assumes "atom_of mark (mark # pat)" "list_all (\<lambda>x. atom_of mark (f x)) xs"
    and "list_all (\<lambda>x. f x = mark # pat \<or>
      \<not> starts_with (f x) (mark # pat) \<and> \<not> starts_with (mark # pat) (f x)) xs"
  shows "replace_all (mark # pat) new (concat (map f xs)) =
    concat (map (\<lambda>x. if f x = mark # pat then new else f x) xs)"
  using assms(2,3)
proof (induction xs)
  case (Cons x xs)
  let ?rest = "concat (map f xs)"
  have IH: "replace_all (mark # pat) new ?rest =
      concat (map (\<lambda>x. if f x = mark # pat then new else f x) xs)"
    using Cons by simp
  show ?case
  proof (cases "f x = mark # pat")
    case True
    then show ?thesis using IH replace_all_match [of "mark # pat" new ?rest] by simp
  next
    case False
    obtain c u where fx: "f x = c # u" "mark \<notin> set u"
      using Cons.prems(1) by (cases "f x") (auto simp: atom_of_def)
    have "\<not> starts_with (c # u @ ?rest) (mark # pat)"
    proof
      assume "starts_with (c # u @ ?rest) (mark # pat)"
      then obtain r where r: "f x @ ?rest = (mark # pat) @ r"
        by (auto simp: starts_with_iff fx)
      then have "starts_with (f x) (mark # pat) \<or> starts_with (mark # pat) (f x)"
        unfolding starts_with_iff append_eq_append_conv2 by metis
      then show False using Cons.prems(2) False by simp
    qed
    then have "replace_all (mark # pat) new (f x @ ?rest) =
        c # replace_all (mark # pat) new (u @ ?rest)"
      by (simp add: fx replace_all_other)
    also have "\<dots> = f x @ replace_all (mark # pat) new ?rest"
      using fx by (simp add: replace_all_skip)
    finally show ?thesis using IH False by simp
  qed
qed simp

section \<open>Splitting and joining\<close>

function split_pattern :: "string \<Rightarrow> string \<Rightarrow> string list" where
  "split_pattern pat s =
    (if pat = [] \<or> s = [] then [s]
     else if starts_with s pat then [] # split_pattern pat (drop (length pat) s)
     else (case split_pattern pat (tl s) of
             p # ps \<Rightarrow> (hd s # p) # ps
           | [] \<Rightarrow> [[hd s]]))"
  by pat_completeness auto
termination
  by (relation "measure (\<lambda>(pat, s). length s)") (auto simp: starts_with_iff)

declare split_pattern.simps [simp del]

fun join :: "string \<Rightarrow> string list \<Rightarrow> string" where
  "join sep [] = []"
| "join sep [p] = p"
| "join sep (p # q # ps) = p @ sep @ join sep (q # ps)"

lemma split_pattern_nonempty [simp]: "split_pattern pat s \<noteq> []"
  by (subst split_pattern.simps) (auto split: list.split)

lemma join_Cons: "ps \<noteq> [] \<Longrightarrow> join sep (p # ps) = p @ sep @ join sep ps"
  by (cases ps) simp_all

lemma join_split: "pat \<noteq> [] \<Longrightarrow> join pat (split_pattern pat s) = s"
proof (induction pat s rule: split_pattern.induct)
  case (1 pat s)
  show ?case
  proof (cases "s = []")
    case True
    then show ?thesis by (simp add: split_pattern.simps)
  next
    case False
    show ?thesis
    proof (cases "starts_with s pat")
      case True
      then have "pat @ drop (length pat) s = s" by (auto simp: starts_with_iff)
      moreover have "join pat (split_pattern pat (drop (length pat) s)) = drop (length pat) s"
        using 1 True False by blast
      ultimately show ?thesis using True False "1.prems"
        by (subst split_pattern.simps) (simp add: join_Cons)
    next
      case noMatch: False
      obtain p ps where ps: "split_pattern pat (tl s) = p # ps"
        by (cases "split_pattern pat (tl s)") simp_all
      have "join pat (p # ps) = tl s" using 1 noMatch False ps by metis
      then have "join pat ((hd s # p) # ps) = s"
        using False by (cases ps; cases s) simp_all
      then show ?thesis using noMatch False "1.prems" ps by (subst split_pattern.simps) simp
    qed
  qed
qed

lemma split_pattern_skip:
  "c \<notin> set u \<Longrightarrow> split_pattern (c # pat) (u @ s) =
    (case split_pattern (c # pat) s of p # ps \<Rightarrow> (u @ p) # ps | [] \<Rightarrow> [u])"
proof (induction u)
  case Nil
  then show ?case by (cases "split_pattern (c # pat) s") simp_all
next
  case (Cons d u)
  then show ?case
    by (subst split_pattern.simps)
       (cases "split_pattern (c # pat) s"; auto)
qed

text \<open>\<open>split(c)\<close> with a single character.\<close>

fun split_char :: "char \<Rightarrow> string \<Rightarrow> string list" where
  "split_char c [] = [[]]"
| "split_char c (d # s) =
    (if d = c then [] # split_char c s
     else (case split_char c s of p # ps \<Rightarrow> (d # p) # ps | [] \<Rightarrow> [[d]]))"

lemma split_char_nonempty [simp]: "split_char c s \<noteq> []"
  by (induction s) (auto split: list.split)

lemma split_char_free: "c \<notin> set u \<Longrightarrow> split_char c u = [u]"
  by (induction u) auto

lemma split_char_append:
  "c \<notin> set u \<Longrightarrow> split_char c (u @ c # s) = u # split_char c s"
  by (induction u) auto

lemma split_char_join:
  assumes "ps \<noteq> []" "list_all (\<lambda>p. c \<notin> set p) ps"
  shows "split_char c (join [c] ps) = ps"
  using assms
proof (induction "[c]" ps rule: join.induct)
  case (2 p)
  then show ?case by (simp add: split_char_free)
next
  case (3 p q ps)
  then show ?case by (simp add: split_char_append)
qed simp

section \<open>Words\<close>

text \<open>
  \<open>split_whitespace\<close>: the maximal pieces between white space. The function carries the reversed
  piece read so far.
\<close>

definition flush :: "string \<Rightarrow> string list" where
  "flush piece = (if piece = [] then [] else [rev piece])"

function words_from :: "string \<Rightarrow> string \<Rightarrow> string list" where
  "words_from piece [] = flush piece"
| "words_from piece (c # s) =
    (if ws_width (c # s) = 0 then words_from (c # piece) s
     else flush piece @ words_from [] (drop (ws_width (c # s)) (c # s)))"
  by pat_completeness auto
termination by (relation "measure (\<lambda>(piece, s). length s)") auto

definition split_whitespace :: "string \<Rightarrow> string list" where
  "split_whitespace s = words_from [] s"

section \<open>Searching\<close>

text \<open>\<open>str::contains\<close> with a string pattern.\<close>

fun contains_str :: "string \<Rightarrow> string \<Rightarrow> bool" where
  "contains_str [] needle \<longleftrightarrow> needle = []"
| "contains_str (c # s) needle \<longleftrightarrow> starts_with (c # s) needle \<or> contains_str s needle"

section \<open>Numbers\<close>

text \<open>\<open>str::parse\<close> of an unsigned and of a signed integer with a largest value.\<close>

definition decimal_value :: "string \<Rightarrow> nat" where
  "decimal_value s = foldl (\<lambda>n c. 10 * n + (byte c - 48)) 0 s"

definition parse_digits :: "nat \<Rightarrow> string \<Rightarrow> nat option" where
  "parse_digits largest s =
    (if s = [] \<or> \<not> list_all is_ascii_digit s \<or> decimal_value s > largest then None
     else Some (decimal_value s))"

definition parse_unsigned :: "nat \<Rightarrow> string \<Rightarrow> nat option" where
  "parse_unsigned largest s =
    parse_digits largest (case s of c # rest \<Rightarrow> if c = CHR ''+'' then rest else s | [] \<Rightarrow> [])"

definition parse_signed :: "nat \<Rightarrow> string \<Rightarrow> int option" where
  "parse_signed largest s =
    (case s of
       [] \<Rightarrow> None
     | c # rest \<Rightarrow>
         if c = CHR ''-'' then map_option (\<lambda>n. - int n) (parse_digits (largest + 1) rest)
         else map_option int (parse_unsigned largest s))"

section \<open>Addresses\<close>

text \<open>What the \<open>url\<close> crate reads in an address.\<close>

record parsed_url =
  pu_scheme :: string
  pu_username :: string
  pu_password :: "string option"
  pu_host_str :: "string option"
  pu_port :: "nat option"
  pu_path :: string
  pu_query :: "string option"
  pu_fragment :: "string option"

text \<open>The segments of a path; an address that cannot be a base has none.\<close>

definition pu_path_segments :: "parsed_url \<Rightarrow> string list option" where
  "pu_path_segments u =
    (case pu_path u of
       [] \<Rightarrow> None
     | c # p \<Rightarrow> if c = CHR ''/'' then Some (split_char (CHR ''/'') p) else None)"

end
