(* ===== verification/Text_Scan.thy ===== *)
theory Text_Scan
  imports Account_Identity Text_Ops
begin

text \<open>
  What a status mentions (\<open>extract_hashtags_from_text\<close> and
  \<open>extract_account_handles_from_text\<close> in \<open>cfwdon-worker/src/content_helpers.rs\<close>). The loops
  over an index are recursions over the rest of the text that carry the character before it. Bytes
  of a multi-byte scalar are no word characters, so scanning bytes and scanning characters agree.
  The host of the instance is an argument.
\<close>

section \<open>Hashtags\<close>

definition word_char :: "char \<Rightarrow> bool" where
  "word_char c \<longleftrightarrow> is_ascii_alphanumeric c \<or> c = CHR ''_''"

definition after_word :: "char option \<Rightarrow> bool" where
  "after_word previous = (case previous of Some c \<Rightarrow> word_char c | None \<Rightarrow> False)"

definition push_new :: "'a \<Rightarrow> 'a list \<Rightarrow> 'a list" where
  "push_new x xs = (if x \<in> set xs then xs else xs @ [x])"

function hashtags_from :: "char option \<Rightarrow> string \<Rightarrow> string list \<Rightarrow> string list" where
  "hashtags_from previous [] tags = tags"
| "hashtags_from previous (c # s) tags =
    (if c \<noteq> CHR ''#'' \<or> after_word previous then hashtags_from (Some c) s tags
     else let name = takeWhile word_char s
          in if name = [] then hashtags_from (Some c) s tags
             else hashtags_from (Some (last name)) (dropWhile word_char s)
               (push_new (to_ascii_lowercase name) tags))"
  by pat_completeness auto
termination
  by (relation "measure (\<lambda>(previous, s, tags). length s)")
     (auto simp: less_Suc_eq_le length_dropWhile_le)

definition extract_hashtags_from_text :: "string \<Rightarrow> string list" where
  "extract_hashtags_from_text s = hashtags_from None s []"

text \<open>A tag stands in a text where a hash that follows no word is followed by one.\<close>

definition tag_occurs :: "char option \<Rightarrow> string \<Rightarrow> string \<Rightarrow> bool" where
  "tag_occurs previous s tag \<longleftrightarrow>
    (\<exists>before name rest. s = before @ CHR ''#'' # name @ rest \<and> tag = to_ascii_lowercase name \<and>
      name \<noteq> [] \<and> list_all word_char name \<and> (rest = [] \<or> \<not> word_char (hd rest)) \<and>
      \<not> after_word (if before = [] then previous else Some (last before)))"

lemma set_push_new [simp]: "set (push_new x xs) = insert x (set xs)"
  by (auto simp: push_new_def)

lemma distinct_push_new [simp]: "distinct (push_new x xs) = distinct xs"
  by (auto simp: push_new_def)

lemma tag_occurs_Nil [simp]: "\<not> tag_occurs previous [] tag"
  by (simp add: tag_occurs_def)

lemma takeWhile_word:
  assumes "list_all P name" "rest = [] \<or> \<not> P (hd rest)"
  shows "takeWhile P (name @ rest) = name \<and> dropWhile P (name @ rest) = rest"
  using assms by (induction name) (cases rest; auto)+

lemma tag_occurs_Cons:
  "tag_occurs previous (c # s) tag \<longleftrightarrow>
    c = CHR ''#'' \<and> \<not> after_word previous \<and> takeWhile word_char s \<noteq> [] \<and>
      tag = to_ascii_lowercase (takeWhile word_char s) \<or>
    tag_occurs (Some c) s tag"
  (is "?lhs \<longleftrightarrow> ?here \<or> ?later")
proof
  assume ?lhs
  then obtain before name rest where *: "c # s = before @ CHR ''#'' # name @ rest"
    "tag = to_ascii_lowercase name" "name \<noteq> []" "list_all word_char name"
    "rest = [] \<or> \<not> word_char (hd rest)"
    "\<not> after_word (if before = [] then previous else Some (last before))"
    by (auto simp: tag_occurs_def)
  show "?here \<or> ?later"
  proof (cases before)
    case Nil
    with * have s: "c = CHR ''#''" "s = name @ rest" "\<not> after_word previous" by simp_all
    have "takeWhile word_char s = name" using takeWhile_word [OF *(4,5)] s(2) by blast
    with *(2,3) s(1,3) have ?here by simp
    then show ?thesis ..
  next
    case (Cons d before')
    with * have "s = before' @ CHR ''#'' # name @ rest"
      "\<not> after_word (if before' = [] then Some c else Some (last before'))"
      by (auto split: if_splits)
    with * have ?later unfolding tag_occurs_def by metis
    then show ?thesis ..
  qed
next
  assume "?here \<or> ?later"
  then show ?lhs
  proof
    assume here: ?here
    let ?name = "takeWhile word_char s" and ?rest = "dropWhile word_char s"
    have "c # s = [] @ CHR ''#'' # ?name @ ?rest" using here by simp
    moreover have "list_all word_char ?name" by (auto simp: list_all_iff dest: set_takeWhileD)
    moreover have "?rest = [] \<or> \<not> word_char (hd ?rest)"
      using hd_dropWhile [of word_char s] by blast
    ultimately show ?lhs using here unfolding tag_occurs_def
      by (intro exI [of _ "[]"] exI [of _ ?name] exI [of _ ?rest]) simp
  next
    assume ?later
    then obtain before name rest where *: "s = before @ CHR ''#'' # name @ rest"
      "tag = to_ascii_lowercase name" "name \<noteq> []" "list_all word_char name"
      "rest = [] \<or> \<not> word_char (hd rest)"
      "\<not> after_word (if before = [] then Some c else Some (last before))"
      by (auto simp: tag_occurs_def)
    then have "c # s = (c # before) @ CHR ''#'' # name @ rest"
      "\<not> after_word (if c # before = [] then previous else Some (last (c # before)))"
      by (auto split: if_splits)
    with * show ?lhs unfolding tag_occurs_def by blast
  qed
qed

lemma tag_occurs_word:
  "u \<noteq> [] \<Longrightarrow> list_all word_char u \<Longrightarrow> tag_occurs previous (u @ s) tag = tag_occurs (Some (last u)) s tag"
proof (induction u arbitrary: previous)
  case (Cons c u)
  then have "c \<noteq> CHR ''#''"
    by (auto simp: word_char_def is_ascii_alphanumeric_def is_ascii_uppercase_def
        is_ascii_lowercase_def is_ascii_digit_def)
  with Cons show ?case by (cases u) (simp_all add: tag_occurs_Cons)
qed simp

lemma hashtags_from_set:
  "set (hashtags_from previous s tags) = set tags \<union> {tag. tag_occurs previous s tag}"
proof (induction previous s tags rule: hashtags_from.induct)
  case (2 previous c s tags)
  let ?name = "takeWhile word_char s"
  consider (skip) "c \<noteq> CHR ''#'' \<or> after_word previous \<or> ?name = []"
    | (tag) "c = CHR ''#''" "\<not> after_word previous" "?name \<noteq> []" by blast
  then show ?case
  proof cases
    case skip
    then have "hashtags_from previous (c # s) tags = hashtags_from (Some c) s tags" by auto
    moreover have "tag_occurs previous (c # s) = tag_occurs (Some c) s"
      using skip by (auto simp: tag_occurs_Cons fun_eq_iff)
    moreover have "set (hashtags_from (Some c) s tags) = set tags \<union> {tag. tag_occurs (Some c) s tag}"
      using 2(1,2) skip by blast
    ultimately show ?thesis by simp
  next
    case tag
    have "list_all word_char ?name" by (auto simp: list_all_iff dest: set_takeWhileD)
    then have "tag_occurs (Some c) s t = tag_occurs (Some (last ?name)) (dropWhile word_char s) t" for t
      using tag_occurs_word [of ?name "Some c" "dropWhile word_char s" t] tag(3)
      by (simp only: takeWhile_dropWhile_id simp_thms)
    then have occurs: "{t. tag_occurs previous (c # s) t} = insert (to_ascii_lowercase ?name)
        {t. tag_occurs (Some (last ?name)) (dropWhile word_char s) t}"
      using tag by (auto simp only: tag_occurs_Cons)
    have "hashtags_from previous (c # s) tags = hashtags_from (Some (last ?name))
        (dropWhile word_char s) (push_new (to_ascii_lowercase ?name) tags)"
      using tag by (simp add: Let_def)
    moreover have "set (hashtags_from (Some (last ?name)) (dropWhile word_char s)
        (push_new (to_ascii_lowercase ?name) tags)) =
      set (push_new (to_ascii_lowercase ?name) tags) \<union>
        {t. tag_occurs (Some (last ?name)) (dropWhile word_char s) t}"
      using 2(3) tag by blast
    ultimately show ?thesis unfolding occurs by simp
  qed
qed simp

lemma hashtags_from_distinct: "distinct tags \<Longrightarrow> distinct (hashtags_from previous s tags)"
  by (induction previous s tags rule: hashtags_from.induct) (auto simp: Let_def)

section \<open>Mentions\<close>

definition domain_char :: "char \<Rightarrow> bool" where
  "domain_char c \<longleftrightarrow> is_ascii_alphanumeric c \<or> c = CHR ''-'' \<or> c = CHR ''.''"

text \<open>The domain after a user name: what it is, the text it was read from, and what is left.\<close>

definition mention_domain :: "string \<Rightarrow> string option \<times> string \<times> string" where
  "mention_domain s =
    (case s of
       c # t \<Rightarrow>
         if c = CHR ''@'' \<and> takeWhile domain_char t \<noteq> []
         then (Some (to_ascii_lowercase (takeWhile domain_char t)),
               c # takeWhile domain_char t, dropWhile domain_char t)
         else (None, [], s)
     | [] \<Rightarrow> (None, [], s))"

lemma mention_domain_length:
  "mention_domain s = (d, used, rest) \<Longrightarrow> s = used @ rest \<and> length rest \<le> length s"
  by (cases s) (auto simp: mention_domain_def length_dropWhile_le le_Suc_eq split: if_splits)

function handles_from ::
    "string \<Rightarrow> char option \<Rightarrow> string \<Rightarrow> account_handle list \<Rightarrow> account_handle list" where
  "handles_from host previous [] mentions = mentions"
| "handles_from host previous (c # s) mentions =
    (if c \<noteq> CHR ''@'' \<or> after_word previous then handles_from host (Some c) s mentions
     else let name = takeWhile word_char s
          in if name = [] then handles_from host (Some c) s mentions
             else case mention_domain (dropWhile word_char s) of
               (domain, used, rest) \<Rightarrow>
                 handles_from host (Some (last (name @ used))) rest
                   (push_new \<lparr>ah_username = to_ascii_lowercase name,
                      ah_domain = opt_or domain (Some host)\<rparr> mentions))"
  by pat_completeness auto
termination
proof (relation "measure (\<lambda>(host, previous, s, mentions). length s)", goal_cases)
  case (4 host previous c s mentions name d used_rest used rest)
  then have "length rest \<le> length (dropWhile word_char s)"
    using mention_domain_length [of "dropWhile word_char s" d used rest] by auto
  then show ?case using length_dropWhile_le [of word_char s] by simp
qed auto

definition extract_account_handles_from_text :: "string \<Rightarrow> string \<Rightarrow> account_handle list" where
  "extract_account_handles_from_text s host = handles_from host None s []"

definition extract_mentions_from_text :: "string \<Rightarrow> string \<Rightarrow> string \<Rightarrow> account_handle list" where
  "extract_mentions_from_text s host instance_domain =
    filter (\<lambda>h. is_local_to h instance_domain) (extract_account_handles_from_text s host)"

text \<open>
  The source remembers the strings \<open>user@domain\<close> it has seen; no user name has an at sign, so
  these are the same exactly when the handles are.
\<close>

definition handle_key :: "account_handle \<Rightarrow> string" where
  "handle_key h = ah_username h @ ''@'' @ unwrap_or (ah_domain h) []"

lemma handle_key_inject:
  assumes "CHR ''@'' \<notin> set (ah_username g)" "CHR ''@'' \<notin> set (ah_username h)"
    and "ah_domain g \<noteq> None" "ah_domain h \<noteq> None"
  shows "handle_key g = handle_key h \<longleftrightarrow> g = h"
proof
  assume "handle_key g = handle_key h"
  then have "split_once (handle_key g) (CHR ''@'') = split_once (handle_key h) (CHR ''@'')" by simp
  then show "g = h"
    using assms by (auto simp: handle_key_def split_once_append)
qed simp

definition handle_ok :: "account_handle \<Rightarrow> bool" where
  "handle_ok h \<longleftrightarrow> ah_username h \<noteq> [] \<and> list_all word_char (ah_username h) \<and>
    to_ascii_lowercase (ah_username h) = ah_username h \<and> ah_domain h \<noteq> None"

lemma word_char_lower [simp]: "word_char (ascii_lower c) = word_char c"
  by (auto simp: word_char_def ascii_lower_eq_nonletter is_ascii_lowercase_def is_ascii_uppercase_def)

lemma handles_from_ok:
  "list_all handle_ok mentions \<Longrightarrow> distinct mentions \<Longrightarrow>
    list_all handle_ok (handles_from host previous s mentions) \<and>
    distinct (handles_from host previous s mentions)"
proof (induction host previous s mentions rule: handles_from.induct)
  case (2 host previous c s mentions)
  let ?name = "takeWhile word_char s"
  show ?case
  proof (cases "c \<noteq> CHR ''@'' \<or> after_word previous \<or> ?name = []")
    case True
    then have "handles_from host previous (c # s) mentions = handles_from host (Some c) s mentions"
      by auto
    moreover have "list_all handle_ok (handles_from host (Some c) s mentions) \<and>
        distinct (handles_from host (Some c) s mentions)"
      using 2(1,2) "2.prems" True by blast
    ultimately show ?thesis by simp
  next
    case False
    obtain d used rest where d: "mention_domain (dropWhile word_char s) = (d, used, rest)"
      by (cases "mention_domain (dropWhile word_char s)") auto
    let ?h = "\<lparr>ah_username = to_ascii_lowercase ?name, ah_domain = opt_or d (Some host)\<rparr>"
    have "handle_ok ?h"
      using False by (cases d) (auto simp: handle_ok_def list_all_iff to_ascii_lowercase_def
          dest: set_takeWhileD)
    then have "list_all handle_ok (push_new ?h mentions)" "distinct (push_new ?h mentions)"
      using "2.prems" by (auto simp: list_all_iff)
    with 2(3) [OF _ refl _ d [symmetric] refl] False d show ?thesis by (simp add: Let_def)
  qed
qed simp

section \<open>Properties\<close>

text \<open>
  The hashtags of a status are exactly the words behind a hash that itself follows no word,
  in lower case and each once. Its handles are distinct, with a user name of word characters in
  lower case and a domain, which is the host of the instance where the text names none.
\<close>

theorem extracted_tags_and_handles:
  "set (extract_hashtags_from_text content) = {tag. tag_occurs None content tag} \<and>
   distinct (extract_hashtags_from_text content) \<and>
   list_all handle_ok (extract_account_handles_from_text content host) \<and>
   distinct (map handle_key (extract_account_handles_from_text content host))"
proof -
  let ?hs = "extract_account_handles_from_text content host"
  have hs: "list_all handle_ok ?hs" "distinct ?hs"
    using handles_from_ok [of "[]" host None content]
    by (simp_all add: extract_account_handles_from_text_def)
  have "CHR ''@'' \<notin> set (ah_username h) \<and> ah_domain h \<noteq> None" if "h \<in> set ?hs" for h
  proof -
    have "\<not> word_char (CHR ''@'')"
      by (simp add: word_char_def is_ascii_alphanumeric_def is_ascii_uppercase_def
          is_ascii_lowercase_def is_ascii_digit_def)
    then show ?thesis using that hs(1) by (auto simp: list_all_iff handle_ok_def)
  qed
  then have "inj_on handle_key (set ?hs)" by (auto intro!: inj_onI simp: handle_key_inject)
  with hs show ?thesis
    by (simp add: extract_hashtags_from_text_def hashtags_from_set hashtags_from_distinct
        distinct_map)
qed

text \<open>
  A mention takes the full stop of its sentence for a part of the domain: a handle that is
  written at the end of a sentence names a domain with a final dot, so a local account that is
  mentioned by its full handle there is not found to be local.
\<close>

theorem mention_at_end_of_sentence:
  "extract_account_handles_from_text ''hi @bob@local.example.'' ''local.example'' =
     [\<lparr>ah_username = ''bob'', ah_domain = Some ''local.example.''\<rparr>] \<and>
   extract_mentions_from_text ''hi @bob@local.example.'' ''local.example'' ''local.example'' = [] \<and>
   extract_mentions_from_text ''hi @bob@local.example'' ''local.example'' ''local.example'' =
     [\<lparr>ah_username = ''bob'', ah_domain = Some ''local.example''\<rparr>]"
  by code_simp

end
