(* ===== verification/Activity_Json.thy ===== *)
theory Activity_Json
  imports Remote_Status Text_Ops
begin

text \<open>
  Reading ActivityPub documents (\<open>cfwdon-worker/src/activitypub/parse.rs\<close>). A JSON object is the
  list of its members in the order of its keys, a number its text. Resolving a URI to a local
  account goes through the \<open>url\<close> crate and is an argument where it is used.
\<close>

section \<open>Documents\<close>

datatype json =
    JNull
  | JBool bool
  | JNumber string
  | JString string
  | JArray "json list"
  | JObject "(string \<times> json) list"

text \<open>\<open>Value::get\<close>, \<open>as_str\<close> and \<open>as_bool\<close>.\<close>

fun jget :: "json \<Rightarrow> string \<Rightarrow> json option" where
  "jget (JObject members) key = map_of members key"
| "jget _ key = None"

fun as_str :: "json \<Rightarrow> string option" where
  "as_str (JString s) = Some s"
| "as_str _ = None"

fun as_bool :: "json \<Rightarrow> bool option" where
  "as_bool (JBool b) = Some b"
| "as_bool _ = None"

definition get_str :: "json \<Rightarrow> string \<Rightarrow> string option" where
  "get_str v key = Option.bind (jget v key) as_str"

text \<open>The text of the \<open>id\<close> of an object, or else of its \<open>@id\<close>.\<close>

definition id_member :: "(string \<times> json) list \<Rightarrow> string option" where
  "id_member members = Option.bind (opt_or (map_of members ''id'') (map_of members ''@id'')) as_str"

section \<open>Types and identifiers\<close>

fun type_strings :: "json \<Rightarrow> string list" where
  "type_strings (JString value) = [value]"
| "type_strings (JArray values) = List.map_filter as_str values"
| "type_strings _ = []"

definition activitypub_type_strings :: "json option \<Rightarrow> string list" where
  "activitypub_type_strings value = (case value of Some v \<Rightarrow> type_strings v | None \<Rightarrow> [])"

definition activitypub_has_type :: "json \<Rightarrow> string \<Rightarrow> bool" where
  "activitypub_has_type object expected \<longleftrightarrow>
    expected \<in> set (activitypub_type_strings (jget object ''type''))"

definition activitypub_primary_type :: "json \<Rightarrow> string option" where
  "activitypub_primary_type object =
    (case activitypub_type_strings (jget object ''type'') of [] \<Rightarrow> None | t # _ \<Rightarrow> Some t)"

fun object_id :: "json \<Rightarrow> string option" and first_object_id :: "json list \<Rightarrow> string option" where
  "object_id (JString value) = trimmed_option (Some value)"
| "object_id (JObject members) = trimmed_option (id_member members)"
| "object_id (JArray values) = first_object_id values"
| "object_id _ = None"
| "first_object_id [] = None"
| "first_object_id (v # vs) = opt_or (object_id v) (first_object_id vs)"

definition activity_object_id :: "json option \<Rightarrow> string option" where
  "activity_object_id value = Option.bind value object_id"

definition is_activitypub_actor_type :: "string option \<Rightarrow> bool" where
  "is_activitypub_actor_type t \<longleftrightarrow>
    t \<in> {Some ''Person'', Some ''Application'', Some ''Group'', Some ''Organization'', Some ''Service''}"

definition object_has_activitypub_actor_type :: "json \<Rightarrow> bool" where
  "object_has_activitypub_actor_type object \<longleftrightarrow>
    list_ex (\<lambda>t. is_activitypub_actor_type (Some t)) (activitypub_type_strings (jget object ''type''))"

definition is_supported_remote_status_object_type :: "string option \<Rightarrow> bool" where
  "is_supported_remote_status_object_type t \<longleftrightarrow> t \<in> {Some ''Note'', Some ''Question''}"

definition object_has_supported_remote_status_type :: "json \<Rightarrow> bool" where
  "object_has_supported_remote_status_type object \<longleftrightarrow>
    list_ex (\<lambda>t. is_supported_remote_status_object_type (Some t))
      (activitypub_type_strings (jget object ''type''))"

definition extract_remote_note_object :: "json \<Rightarrow> json option" where
  "extract_remote_note_object document =
    (if object_has_supported_remote_status_type document then Some document
     else Option.bind (jget document ''object'') (\<lambda>object.
       if object_has_supported_remote_status_type object then Some object else None))"

section \<open>Audiences\<close>

fun audience_uris :: "json \<Rightarrow> string list" where
  "audience_uris (JString uri) = [uri]"
| "audience_uris (JArray values) = concat (map audience_uris values)"
| "audience_uris (JObject members) = (case id_member members of Some uri \<Rightarrow> [uri] | None \<Rightarrow> [])"
| "audience_uris _ = []"

definition collect_activitypub_uris :: "json option \<Rightarrow> string list \<Rightarrow> string list" where
  "collect_activitypub_uris value audiences =
    audiences @ (case value of Some v \<Rightarrow> audience_uris v | None \<Rightarrow> [])"

definition activity_audience_uris :: "json \<Rightarrow> string list" where
  "activity_audience_uris activity =
    fold (\<lambda>key audiences.
        collect_activitypub_uris (Option.bind (jget activity ''object'') (\<lambda>object. jget object key))
          (collect_activitypub_uris (jget activity key) audiences))
      [''to'', ''cc''] []"

fun contains_public :: "json \<Rightarrow> bool" where
  "contains_public (JString value) \<longleftrightarrow>
    value = ''https://www.w3.org/ns/activitystreams#Public'' \<or> value = ''as:Public''"
| "contains_public (JArray values) \<longleftrightarrow> list_ex contains_public values"
| "contains_public (JObject members) \<longleftrightarrow>
    (case id_member members of
       Some value \<Rightarrow> value = ''https://www.w3.org/ns/activitystreams#Public'' \<or> value = ''as:Public''
     | None \<Rightarrow> False)"
| "contains_public _ \<longleftrightarrow> False"

definition contains_public_audience :: "json option \<Rightarrow> bool" where
  "contains_public_audience value = (case value of Some v \<Rightarrow> contains_public v | None \<Rightarrow> False)"

fun contains_followers :: "json \<Rightarrow> bool" where
  "contains_followers (JString value) \<longleftrightarrow> is_followers_collection_uri value"
| "contains_followers (JArray values) \<longleftrightarrow> list_ex contains_followers values"
| "contains_followers (JObject members) \<longleftrightarrow>
    (case id_member members of Some value \<Rightarrow> is_followers_collection_uri value | None \<Rightarrow> False)"
| "contains_followers _ \<longleftrightarrow> False"

definition contains_followers_audience :: "json option \<Rightarrow> bool" where
  "contains_followers_audience value = (case value of Some v \<Rightarrow> contains_followers v | None \<Rightarrow> False)"

definition visibility_from_activitypub_object :: "json \<Rightarrow> string" where
  "visibility_from_activitypub_object object =
    visibility_as_str (visibility_from_activitypub_audiences
      (contains_public_audience (jget object ''to''))
      (contains_public_audience (jget object ''cc''))
      (contains_followers_audience (jget object ''to'') \<or>
       contains_followers_audience (jget object ''cc'')))"

text \<open>\<open>serde_json::json!({ "object": object })\<close>.\<close>

definition as_object_member :: "json \<Rightarrow> json" where
  "as_object_member object = JObject [(''object'', object)]"

definition note_targets_account :: "string \<Rightarrow> json \<Rightarrow> bool" where
  "note_targets_account actor object \<longleftrightarrow>
    list_ex (\<lambda>audience. audience = actor) (activity_audience_uris (as_object_member object))"

definition note_targets_followers :: "json \<Rightarrow> bool" where
  "note_targets_followers object \<longleftrightarrow>
    list_ex is_followers_collection_uri (activity_audience_uris (as_object_member object))"

definition note_targets_public :: "json \<Rightarrow> bool" where
  "note_targets_public object \<longleftrightarrow>
    list_ex is_public_audience_uri (activity_audience_uris (as_object_member object))"

definition note_targets_account_or_followers :: "string \<Rightarrow> json \<Rightarrow> bool" where
  "note_targets_account_or_followers actor object \<longleftrightarrow>
    note_targets_account actor object \<or> note_targets_followers object \<or> note_targets_public object"

section \<open>Follows, quotes and attributions\<close>

definition follow_targets_local_actor :: "json option \<Rightarrow> string \<Rightarrow> bool" where
  "follow_targets_local_actor object local_actor_uri =
    (case object of
       Some (JString value) \<Rightarrow> value = local_actor_uri
     | Some (JObject members) \<Rightarrow> id_member members = Some local_actor_uri
     | _ \<Rightarrow> False)"

definition is_follow_undo :: "json option \<Rightarrow> string \<Rightarrow> string \<Rightarrow> bool" where
  "is_follow_undo object actor_uri canonical_actor_uri =
    (case object of
       Some (JObject members) \<Rightarrow>
         ''Follow'' \<in> set (activitypub_type_strings (map_of members ''type'')) \<and>
         (case activity_object_id (map_of members ''actor'') of
            Some value \<Rightarrow> value = actor_uri \<or> value = canonical_actor_uri
          | None \<Rightarrow> False)
     | _ \<Rightarrow> False)"

definition object_attributed_to_remote_actor :: "json \<Rightarrow> json \<Rightarrow> string \<Rightarrow> bool" where
  "object_attributed_to_remote_actor object activity canonical_actor_uri =
    (case opt_or (activity_object_id (jget object ''attributedTo''))
                 (activity_object_id (jget activity ''actor'')) of
       Some value \<Rightarrow> value = canonical_actor_uri
     | None \<Rightarrow> False)"

definition quote_target_uri_from_object :: "json \<Rightarrow> string option" where
  "quote_target_uri_from_object object =
    quote_target_uri_from_fields (get_str object ''quoteUri'') (get_str object ''quoteUrl'')
      (get_str object ''_misskey_quote'')"

section \<open>The local account an activity is for\<close>

definition strip_suffix :: "string \<Rightarrow> string \<Rightarrow> string option" where
  "strip_suffix s p = (if ends_with s p then Some (take (length s - length p) s) else None)"

definition local_username_from_audience_uri ::
    "(string \<Rightarrow> string option) \<Rightarrow> string \<Rightarrow> string option" where
  "local_username_from_audience_uri local_actor uri =
    (case strip_suffix uri ''/followers'' of
       Some stripped \<Rightarrow> local_actor stripped
     | None \<Rightarrow> local_actor uri)"

fun find_map :: "('a \<Rightarrow> 'b option) \<Rightarrow> 'a list \<Rightarrow> 'b option" where
  "find_map f [] = None"
| "find_map f (x # xs) = opt_or (f x) (find_map f xs)"

definition first_local_audience_username ::
    "(string \<Rightarrow> string option) \<Rightarrow> json \<Rightarrow> string option" where
  "first_local_audience_username local_actor activity =
    find_map (local_username_from_audience_uri local_actor) (activity_audience_uris activity)"

definition extract_inbox_target_username ::
    "(string \<Rightarrow> string option) \<Rightarrow> (string \<Rightarrow> string option) \<Rightarrow> json \<Rightarrow> string option" where
  "extract_inbox_target_username local_actor local_status activity =
    (let types = activitypub_type_strings (jget activity ''type'');
         object = jget activity ''object''
     in if ''Follow'' \<in> set types
        then Option.bind (activity_object_id object) local_actor
        else if list_ex (\<lambda>t. t = ''Accept'' \<or> t = ''Reject'') types
        then Option.bind (Option.bind object (\<lambda>ob. jget ob ''actor'')) (\<lambda>actor.
          Option.bind (activity_object_id (Some actor)) local_actor)
        else if ''Undo'' \<in> set types
        then Option.bind (Option.bind object (\<lambda>ob. jget ob ''object'')) (\<lambda>ob.
          opt_or
            (Option.bind (activity_object_id (Some ob)) (\<lambda>uri.
              opt_or (local_actor uri) (local_status uri)))
            (Option.bind (jget ob ''inReplyTo'') (\<lambda>v.
              Option.bind (activity_object_id (Some v)) local_status)))
        else if ''Like'' \<in> set types
        then Option.bind object (\<lambda>ob. Option.bind (activity_object_id (Some ob)) local_status)
        else if ''Announce'' \<in> set types
        then opt_or
          (Option.bind object (\<lambda>ob. opt_or
            (Option.bind (activity_object_id (Some ob)) local_status)
            (Option.bind (quote_target_uri_from_object ob) local_status)))
          (first_local_audience_username local_actor activity)
        else if list_ex (\<lambda>t. t = ''Create'' \<or> t = ''Update'') types
        then first_local_audience_username local_actor activity
        else None)"

section \<open>Facts\<close>

lemma contains_public_iff: "contains_public v = list_ex is_public_audience_uri (audience_uris v)"
  by (induction v rule: contains_public.induct)
     (auto simp: is_public_audience_uri_def ACTIVITYSTREAMS_PUBLIC_def
       ACTIVITYSTREAMS_PUBLIC_SHORT_def list_ex_iff split: option.splits)

lemma contains_followers_iff:
  "contains_followers v = list_ex is_followers_collection_uri (audience_uris v)"
  by (induction v rule: contains_followers.induct) (auto simp: list_ex_iff split: option.splits)

lemma opt_audience_iff:
  "contains_public_audience value =
    audience_values_contains_public (collect_activitypub_uris value [])"
  "contains_followers_audience value =
    audience_values_contain_followers (collect_activitypub_uris value [])"
  by ((cases "value"; simp add: contains_public_audience_def contains_followers_audience_def
      audience_values_contains_public_def audience_values_contain_followers_def
      collect_activitypub_uris_def contains_public_iff contains_followers_iff)+)

lemma visibility_from_object_eq:
  "visibility_from_activitypub_object object =
    visibility_as_str (visibility_from_audience_lists
      (collect_activitypub_uris (jget object ''to'') [])
      (collect_activitypub_uris (jget object ''cc'') []))"
  by (simp add: visibility_from_activitypub_object_def visibility_from_audience_lists_def
      opt_audience_iff)

lemma note_audiences:
  "activity_audience_uris (as_object_member object) =
    collect_activitypub_uris (jget object ''to'') [] @ collect_activitypub_uris (jget object ''cc'') []"
  by (simp add: activity_audience_uris_def as_object_member_def collect_activitypub_uris_def)

lemma find_map_None: "find_map f xs = None \<longleftrightarrow> list_all (\<lambda>x. f x = None) xs"
proof (induction xs)
  case (Cons x xs)
  then show ?case by (cases "f x") simp_all
qed simp

lemma find_map_Some: "find_map f xs = Some y \<Longrightarrow> \<exists>x \<in> set xs. f x = Some y"
proof (induction xs)
  case (Cons x xs)
  then show ?case by (cases "f x") auto
qed simp

lemma note_targets_public_restricted:
  "note_targets_public object \<longleftrightarrow>
    \<not> is_restricted (visibility_from_audience_lists
      (collect_activitypub_uris (jget object ''to'') [])
      (collect_activitypub_uris (jget object ''cc'') []))"
  unfolding visibility_from_lists_restricted
  by (auto simp: note_targets_public_def note_audiences list_ex_iff list_all_iff)

section \<open>Properties\<close>

text \<open>
  The scan of a document for public and followers addresses and the collection of its
  addresses agree: a note is accepted as public, as addressed to followers or to an account exactly
  by the addresses collected from its two lists, and its visibility is the one the domain gives
  these lists; it is restricted exactly when the note is not taken for a public one.
\<close>

theorem note_audience_decides:
  "visibility_from_activitypub_object object =
     visibility_as_str (visibility_from_audience_lists
       (collect_activitypub_uris (jget object ''to'') [])
       (collect_activitypub_uris (jget object ''cc'') [])) \<and>
   note_targets_public object =
     (visibility_from_activitypub_object object \<in> {''public'', ''unlisted''}) \<and>
   note_targets_account_or_followers actor object =
     (list_ex (\<lambda>uri. uri = actor) (activity_audience_uris (as_object_member object)) \<or>
      visibility_from_activitypub_object object \<in> {''public'', ''unlisted'', ''private''})"
proof -
  let ?v = "visibility_from_audience_lists (collect_activitypub_uris (jget object ''to'') [])
      (collect_activitypub_uris (jget object ''cc'') [])"
  have public: "note_targets_public object \<longleftrightarrow> \<not> is_restricted ?v"
    by (rule note_targets_public_restricted)
  have str: "visibility_as_str ?v \<in> {''public'', ''unlisted''} \<longleftrightarrow> \<not> is_restricted ?v"
    by (cases ?v) simp_all
  have "visibility_as_str ?v \<in> {''public'', ''unlisted'', ''private''} \<longleftrightarrow> ?v \<noteq> Direct"
    by (cases ?v) simp_all
  also have "\<dots> \<longleftrightarrow> note_targets_public object \<or> note_targets_followers object"
    by (auto simp: visibility_from_audience_lists_def visibility_from_activitypub_audiences_def
        audience_values_contains_public_def audience_values_contain_followers_def
        note_targets_public_def note_targets_followers_def note_audiences)
  finally have direct: "visibility_as_str ?v \<in> {''public'', ''unlisted'', ''private''} \<longleftrightarrow>
      note_targets_public object \<or> note_targets_followers object" .
  show ?thesis
    unfolding visibility_from_object_eq public str direct note_targets_account_or_followers_def
      note_targets_account_def
    using public by blast
qed

end
