(* ===== verification/Status_Html.thy ===== *)
theory Status_Html
  imports Text_Ops
begin

text \<open>
  The HTML of statuses (\<open>cfwdon-worker/src/time_html.rs\<close> from \<open>render_status_html\<close> on and
  \<open>content_helpers.rs\<close>): escaping, paragraphs, the stripping of remote markup and the decoding
  of its entities. The lemmas relate each chain of replacements to one pass over the text.
\<close>

section \<open>Operations\<close>

definition escape_html :: "string \<Rightarrow> string" where
  "escape_html value =
    replace_char (CHR 0x27) ''&#39;''
      (replace_char (CHR 0x22) ''&quot;''
        (replace_char (CHR ''>'') ''&gt;''
          (replace_char (CHR ''<'') ''&lt;'' (replace_char (CHR ''&'') ''&amp;'' value))))"

definition newline :: char where "newline = CHR 0x0A"

definition paragraph_html :: "string \<Rightarrow> string" where
  "paragraph_html paragraph =
    ''<p>'' @ replace_char newline ''<br />'' paragraph @ ''</p>''"

definition render_status_html :: "string \<Rightarrow> string" where
  "render_status_html content =
    (let escaped = escape_html (trim content);
         paragraphs = map paragraph_html (split_pattern [newline, newline] escaped)
     in if paragraphs = [] then ''<p></p>'' else join [] paragraphs)"

fun strip_html_from :: "bool \<Rightarrow> string \<Rightarrow> string" where
  "strip_html_from in_tag [] = []"
| "strip_html_from in_tag (ch # s) =
    (if ch = CHR ''<'' then strip_html_from True s
     else if ch = CHR ''>'' then strip_html_from False s
     else if \<not> in_tag then ch # strip_html_from in_tag s
     else strip_html_from in_tag s)"

definition strip_html_tags :: "string \<Rightarrow> string" where
  "strip_html_tags html = strip_html_from False html"

definition decode_basic_html_entities :: "string \<Rightarrow> string" where
  "decode_basic_html_entities value =
    replace_all ''&amp;'' ''&''
      (replace_all ''&gt;'' ''>''
        (replace_all ''&lt;'' ''<''
          (replace_all ''&quot;'' [CHR 0x22]
            (replace_all ''&#x27;'' [CHR 0x27]
              (replace_all ''&#39;'' [CHR 0x27] (replace_all ''&nbsp;'' '' '' value))))))"

definition sanitize_remote_status_html :: "string \<Rightarrow> string" where
  "sanitize_remote_status_html html =
    (let plain = decode_basic_html_entities (strip_html_tags html) in render_status_html plain)"

definition sanitize_remote_plain_text :: "string \<Rightarrow> string" where
  "sanitize_remote_plain_text value =
    join '' '' (split_whitespace (decode_basic_html_entities (strip_html_tags value)))"

section \<open>Escaping is one pass\<close>

definition escape_char :: "char \<Rightarrow> string" where
  "escape_char c =
    (if c = CHR ''&'' then ''&amp;'' else if c = CHR ''<'' then ''&lt;''
     else if c = CHR ''>'' then ''&gt;'' else if c = CHR 0x22 then ''&quot;''
     else if c = CHR 0x27 then ''&#39;'' else [c])"

lemma replace_char_simps [simp]:
  "replace_char c new [] = []"
  "replace_char c new (x # s) = (if x = c then new else [x]) @ replace_char c new s"
  "replace_char c new (s @ t) = replace_char c new s @ replace_char c new t"
  by (simp_all add: replace_char_def)

lemma escape_html_eq: "escape_html s = concat (map escape_char s)"
  unfolding escape_html_def by (induction s) (simp_all add: escape_char_def)

lemma escape_char_newline: "newline \<in> set (escape_char c) \<longleftrightarrow> c = newline"
  by (auto simp: escape_char_def newline_def)

lemma escape_char_eq_newline [simp]: "escape_char newline = [newline]"
  by (simp add: escape_char_def newline_def)

lemma split_escaped:
  "split_pattern [newline, newline] (concat (map escape_char s)) =
    map (\<lambda>p. concat (map escape_char p)) (split_pattern [newline, newline] s)"
proof (induction "[newline, newline]" s rule: split_pattern.induct)
  case (1 s)
  show ?case
  proof (cases s)
    case Nil
    then show ?thesis by (simp add: split_pattern.simps)
  next
    case (Cons c t)
    show ?thesis
    proof (cases "c = newline")
      case False
      have "newline \<notin> set (escape_char c)" using False by (simp add: escape_char_newline)
      moreover have "\<not> starts_with s [newline, newline]" using Cons False by simp
      ultimately show ?thesis
        using 1 Cons
        by (subst (2) split_pattern.simps)
           (simp add: split_pattern_skip split: list.split)
    next
      case True
      show ?thesis
      proof (cases "starts_with t [newline]")
        case two: True
        then obtain u where u: "t = newline # u" by (auto simp: starts_with_iff)
        with 1(1) Cons True have IH: "split_pattern [newline, newline] (concat (map escape_char u)) =
            map (\<lambda>p. concat (map escape_char p)) (split_pattern [newline, newline] u)" by simp
        show ?thesis using IH
          by (subst split_pattern.simps, subst (2) split_pattern.simps) (simp add: Cons True u)
      next
        case one: False
        have "\<not> starts_with (concat (map escape_char t)) [newline]"
        proof (cases t)
          case (Cons d u)
          then show ?thesis using one escape_char_newline [of d]
            by (cases "escape_char d") (auto simp: escape_char_def split: if_splits)
        qed simp
        moreover have "split_pattern [newline, newline] (concat (map escape_char t)) =
            map (\<lambda>p. concat (map escape_char p)) (split_pattern [newline, newline] t)"
          using 1(2) Cons True one by simp
        ultimately show ?thesis
          using one by (subst split_pattern.simps, subst (2) split_pattern.simps)
            (simp add: Cons True split: list.split)
      qed
    qed
  qed
qed

text \<open>A rendered text, paragraph by paragraph and character by character.\<close>

definition html_char :: "char \<Rightarrow> string" where
  "html_char c = (if c = newline then ''<br />'' else escape_char c)"

lemma replace_newline_escaped:
  "replace_char newline ''<br />'' (concat (map escape_char p)) = concat (map html_char p)"
proof (induction p)
  case (Cons c p)
  have "replace_char newline ''<br />'' u = u" if "newline \<notin> set u" for u
    using that by (induction u) auto
  then show ?case using Cons by (auto simp: html_char_def escape_char_newline)
qed simp

lemma join_Nil: "join [] ps = concat ps"
  by (induction "[] :: string" ps rule: join.induct) simp_all

lemma render_status_html_eq:
  "render_status_html content =
    concat (map (\<lambda>p. ''<p>'' @ concat (map html_char p) @ ''</p>'')
      (split_pattern [newline, newline] (trim content)))"
  by (simp add: render_status_html_def escape_html_eq split_escaped paragraph_html_def join_Nil
      replace_newline_escaped Let_def comp_def)

section \<open>Safe markup\<close>

text \<open>
  The markup a client may be given: an opening angle bracket only begins a paragraph or line break
  tag, an ampersand only one of the five entities, and no quote stands for itself, so that the
  text can also stand in an attribute.
\<close>

fun markup_safe :: "string \<Rightarrow> bool" where
  "markup_safe [] = True"
| "markup_safe (c # s) =
    ((if c = CHR ''<'' then starts_with s ''p>'' \<or> starts_with s ''/p>'' \<or> starts_with s ''br />''
      else if c = CHR ''&''
      then starts_with s ''amp;'' \<or> starts_with s ''lt;'' \<or> starts_with s ''gt;'' \<or>
        starts_with s ''quot;'' \<or> starts_with s ''#39;''
      else c \<noteq> CHR 0x22 \<and> c \<noteq> CHR 0x27) \<and> markup_safe s)"

lemma markup_safe_escaped [simp]: "markup_safe (escape_char c @ s) = markup_safe s"
  by (simp add: escape_char_def)

lemma markup_safe_html_chars [simp]:
  "markup_safe (concat (map html_char p) @ s) = markup_safe s"
  by (induction p) (simp_all add: html_char_def)

lemma render_safe: "markup_safe (render_status_html content)"
proof -
  have "markup_safe (concat (map (\<lambda>p. ''<p>'' @ concat (map html_char p) @ ''</p>'') ps))" for ps
    by (induction ps) simp_all
  then show ?thesis by (simp add: render_status_html_eq)
qed

section \<open>Reading the text back\<close>

lemma strip_html_plain:
  assumes "CHR ''<'' \<notin> set u" "CHR ''>'' \<notin> set u"
  shows "strip_html_from False (u @ s) = u @ strip_html_from False s"
  using assms by (induction u) auto

lemma escape_char_no_angle: "CHR ''<'' \<notin> set (escape_char c)" "CHR ''>'' \<notin> set (escape_char c)"
  by (simp_all add: escape_char_def)

lemma strip_html_chars:
  "strip_html_from False (concat (map html_char p) @ s) =
    concat (map escape_char (filter (\<lambda>c. c \<noteq> newline) p)) @ strip_html_from False s"
  by (induction p) (simp_all add: html_char_def strip_html_plain escape_char_no_angle)

lemma strip_rendered:
  "strip_html_tags (render_status_html content) =
    concat (map escape_char (filter (\<lambda>c. c \<noteq> newline) (trim content)))"
proof -
  have "strip_html_from False
      (concat (map (\<lambda>p. ''<p>'' @ concat (map html_char p) @ ''</p>'') ps)) =
    concat (map escape_char (filter (\<lambda>c. c \<noteq> newline) (join [newline, newline] ps)))" for ps
  proof (induction "[newline, newline]" ps rule: join.induct)
    case (3 p q ps)
    then show ?case by (simp add: strip_html_chars)
  qed (simp_all add: strip_html_chars [of _ "''</p>''"])
  then show ?thesis
    by (simp add: strip_html_tags_def render_status_html_eq join_split)
qed

text \<open>Decoding undoes escaping, one entity at a time; the ampersand comes last.\<close>

definition escape_except :: "char set \<Rightarrow> char \<Rightarrow> string" where
  "escape_except K c = (if c \<in> K then [c] else escape_char c)"

lemma escape_except_atom: "CHR ''&'' \<notin> K \<Longrightarrow> atom_of (CHR ''&'') (escape_except K c)"
  by (auto simp: escape_except_def escape_char_def atom_of_def)

lemma entity_cases:
  assumes "escape_char c = CHR ''&'' # e"
  shows "(c, e) \<in> {(CHR ''&'', ''amp;''), (CHR ''<'', ''lt;''), (CHR ''>'', ''gt;''),
    (CHR 0x22, ''quot;''), (CHR 0x27, ''#39;'')}"
  using assms by (simp add: escape_char_def split: if_splits)

lemma escape_char_cases:
  "(x, escape_char x) \<in> {(CHR ''&'', ''&amp;''), (CHR ''<'', ''&lt;''), (CHR ''>'', ''&gt;''),
     (CHR 0x22, ''&quot;''), (CHR 0x27, ''&#39;'')} \<or>
   x \<notin> {CHR ''&'', CHR ''<'', CHR ''>'', CHR 0x22, CHR 0x27} \<and> escape_char x = [x]"
  by (simp add: escape_char_def)

lemma entities_prefix_free:
  assumes "escape_char c = CHR ''&'' # e"
  shows "escape_char x = CHR ''&'' # e \<and> x = c \<or>
    escape_char x \<noteq> CHR ''&'' # e \<and> x \<noteq> c \<and>
    \<not> starts_with (escape_char x) (CHR ''&'' # e) \<and> \<not> starts_with (CHR ''&'' # e) (escape_char x)"
  using entity_cases [OF assms] escape_char_cases [of x] by auto

lemma decode_entity:
  assumes "escape_char c = CHR ''&'' # e" "CHR ''&'' \<notin> K" "c \<notin> K"
  shows "replace_all (CHR ''&'' # e) [c] (concat (map (escape_except K) s)) =
    concat (map (escape_except (insert c K)) s)"
proof -
  have "replace_all (CHR ''&'' # e) [c] (concat (map (escape_except K) s)) =
      concat (map (\<lambda>x. if escape_except K x = CHR ''&'' # e then [c] else escape_except K x) s)"
  proof (rule replace_all_atoms)
    show "atom_of (CHR ''&'') (CHR ''&'' # e)"
      using escape_except_atom [of "{}" c] assms(1) by (simp add: escape_except_def)
    show "list_all (\<lambda>x. atom_of (CHR ''&'') (escape_except K x)) s"
      using assms(2) by (simp add: escape_except_atom list_all_iff)
    note free = entities_prefix_free [OF assms(1)]
    have "\<not> starts_with [x] (CHR ''&'' # e) \<and> \<not> starts_with (CHR ''&'' # e) [x]"
      if "x \<in> K" for x using that assms(2) by auto
    then show "list_all (\<lambda>x. escape_except K x = CHR ''&'' # e \<or>
        \<not> starts_with (escape_except K x) (CHR ''&'' # e) \<and>
        \<not> starts_with (CHR ''&'' # e) (escape_except K x)) s"
      using free by (auto simp: list_all_iff escape_except_def)
  qed
  moreover have "(if escape_except K x = CHR ''&'' # e then [c] else escape_except K x) =
      escape_except (insert c K) x" for x
    using assms(2,3) entities_prefix_free [OF assms(1), of x]
    by (auto simp: escape_except_def)
  ultimately show ?thesis by simp
qed

lemma decode_absent:
  assumes "CHR ''&'' \<notin> set e" "CHR ''&'' \<notin> K"
    and "\<And>c. \<not> starts_with (escape_char c) (CHR ''&'' # e) \<and>
      \<not> starts_with (CHR ''&'' # e) (escape_char c)"
  shows "replace_all (CHR ''&'' # e) new (concat (map (escape_except K) s)) =
    concat (map (escape_except K) s)"
proof -
  have "\<not> starts_with (escape_except K x) (CHR ''&'' # e) \<and>
      \<not> starts_with (CHR ''&'' # e) (escape_except K x)" for x
    using assms(2,3) by (auto simp: escape_except_def)
  moreover from this [of x for x] have "escape_except K x \<noteq> CHR ''&'' # e" for x
    by (metis starts_with_self)
  moreover have "atom_of (CHR ''&'') (escape_except K x)" for x
    using assms(2) by (rule escape_except_atom)
  ultimately show ?thesis
    using replace_all_atoms [of "CHR ''&''" e "escape_except K" s new] assms(1)
    by (simp add: list_all_iff atom_of_def [of _ "_ # e"])
qed

lemma decode_escaped: "decode_basic_html_entities (concat (map escape_char s)) = s"
proof -
  let ?text = "\<lambda>K. concat (map (escape_except K) s)"
  have "escape_char = escape_except {}" by (simp add: escape_except_def fun_eq_iff)
  then have "concat (map escape_char s) = ?text {}" by simp
  moreover have "replace_all ''&nbsp;'' '' '' (?text {}) = ?text {}"
    by (rule decode_absent) (simp_all add: escape_char_def)
  moreover have "replace_all ''&#39;'' [CHR 0x27] (?text {}) = ?text {CHR 0x27}"
    by (rule decode_entity) (simp_all add: escape_char_def)
  moreover have "replace_all ''&#x27;'' [CHR 0x27] (?text {CHR 0x27}) = ?text {CHR 0x27}"
    by (rule decode_absent) (simp_all add: escape_char_def)
  moreover have "replace_all ''&quot;'' [CHR 0x22] (?text {CHR 0x27}) = ?text {CHR 0x22, CHR 0x27}"
    by (rule decode_entity) (simp_all add: escape_char_def)
  moreover have "replace_all ''&lt;'' ''<'' (?text {CHR 0x22, CHR 0x27}) =
      ?text {CHR ''<'', CHR 0x22, CHR 0x27}"
    by (rule decode_entity) (simp_all add: escape_char_def)
  moreover have "replace_all ''&gt;'' ''>'' (?text {CHR ''<'', CHR 0x22, CHR 0x27}) =
      ?text {CHR ''>'', CHR ''<'', CHR 0x22, CHR 0x27}"
    by (rule decode_entity) (simp_all add: escape_char_def)
  moreover have "replace_all ''&amp;'' ''&'' (?text {CHR ''>'', CHR ''<'', CHR 0x22, CHR 0x27}) =
      ?text {CHR ''&'', CHR ''>'', CHR ''<'', CHR 0x22, CHR 0x27}"
    by (rule decode_entity) (simp_all add: escape_char_def)
  moreover have "escape_except {CHR ''&'', CHR ''>'', CHR ''<'', CHR 0x22, CHR 0x27} = (\<lambda>c. [c])"
    by (auto simp: escape_except_def escape_char_def fun_eq_iff)
  ultimately show ?thesis by (simp add: decode_basic_html_entities_def)
qed

section \<open>Properties\<close>


end
