(* ===== verification/Timestamps.thy ===== *)
theory Timestamps
  imports Text_Ops "HOL-Library.Char_ord" "HOL-Library.List_Lexorder"
begin

text \<open>
  Timestamps as text (\<open>cfwdon-worker/src/time_html.rs\<close> and \<open>normalized_remote_timestamp\<close> of
  \<open>remote/adapters.rs\<close>). Parsing and formatting of RFC 3339 belong to the \<open>time\<close> crate and are
  arguments: \<open>parse\<close> gives the instant of a text, \<open>fmt\<close> its text and \<open>to_utc\<close> its fields in
  UTC. A slice that is not on character boundaries panics; such a function returns \<open>None\<close>.
  \<open>String\<close>s are compared byte by byte, which is the lexicographic order of the library.
\<close>

section \<open>Slices\<close>

definition continuation_byte :: "char \<Rightarrow> bool" where
  "continuation_byte c \<longleftrightarrow> 128 \<le> byte c \<and> byte c < 192"

definition is_char_boundary :: "string \<Rightarrow> nat \<Rightarrow> bool" where
  "is_char_boundary s i \<longleftrightarrow>
    i = 0 \<or> i = length s \<or> (i < length s \<and> \<not> continuation_byte (s ! i))"

definition str_slice :: "string \<Rightarrow> nat \<Rightarrow> nat \<Rightarrow> string option" where
  "str_slice s a b =
    (if a \<le> b \<and> b \<le> length s \<and> is_char_boundary s a \<and> is_char_boundary s b
     then Some (take (b - a) (drop a s)) else None)"

section \<open>Operations\<close>

definition activitypub_datetime_string ::
    "(string \<Rightarrow> 't option) \<Rightarrow> ('t \<Rightarrow> string option) \<Rightarrow> string \<Rightarrow> string option" where
  "activitypub_datetime_string parse fmt value =
    (let trimmed = trim value in
     if trimmed = [] then Some []
     else case parse trimmed of
       Some timestamp \<Rightarrow> Some (unwrap_or (fmt timestamp) trimmed)
     | None \<Rightarrow>
         if length trimmed \<ge> 19 \<and> trimmed ! 10 = CHR '' ''
         then (case (str_slice trimmed 0 10, str_slice trimmed 11 19) of
             (Some date, Some clock) \<Rightarrow>
               (let candidate = date @ ''T'' @ clock @ ''Z'' in
                case parse candidate of
                  Some timestamp \<Rightarrow> Some (unwrap_or (fmt timestamp) candidate)
                | None \<Rightarrow> Some trimmed)
           | _ \<Rightarrow> None)
         else Some trimmed)"

definition timestamp_to_mastodon_iso8601 ::
    "(string \<Rightarrow> 't option) \<Rightarrow> ('t \<Rightarrow> string option) \<Rightarrow> string \<Rightarrow> string option" where
  "timestamp_to_mastodon_iso8601 parse fmt value =
    (let v = trim value in
     if v = [] then Some []
     else if CHR ''T'' \<in> set v then Some v
     else map_option (\<lambda>normalized.
         if ends_with normalized ''Z'' \<and> CHR ''.'' \<notin> set normalized
         then take (length normalized - 1) normalized @ ''.000Z'' else normalized)
       (activitypub_datetime_string parse fmt v))"

definition timestamp_to_mastodon_account_created_at ::
    "(string \<Rightarrow> 't option) \<Rightarrow> ('t \<Rightarrow> string option) \<Rightarrow> string \<Rightarrow> string option" where
  "timestamp_to_mastodon_account_created_at parse fmt value =
    Option.bind (timestamp_to_mastodon_iso8601 parse fmt value) (\<lambda>normalized.
      let date = takeWhile (\<lambda>c. c \<noteq> CHR ''T'' \<and> c \<noteq> CHR '' '') normalized in
      if length date \<ge> 10
      then map_option (\<lambda>d. d @ ''T00:00:00.000Z'') (str_slice date 0 10)
      else Some ''1970-01-01T00:00:00.000Z'')"

text \<open>The fields of an instant in UTC.\<close>

datatype utc_time =
  Utc (utc_year: int) (utc_month: nat) (utc_day: nat) (utc_hour: nat) (utc_minute: nat)
    (utc_second: nat) (utc_millisecond: nat)

text \<open>\<open>format!("{n:0w}")\<close>; the width of a negative number includes its sign.\<close>

definition pad :: "nat \<Rightarrow> nat \<Rightarrow> string" where
  "pad w n = replicate (w - length (show_nat n)) (CHR ''0'') @ show_nat n"

definition pad_int :: "nat \<Rightarrow> int \<Rightarrow> string" where
  "pad_int w i = (if i < 0 then ''-'' @ pad (w - 1) (nat (- i)) else pad w (nat i))"

definition format_millis_utc :: "utc_time \<Rightarrow> string" where
  "format_millis_utc t =
    pad_int 4 (utc_year t) @ ''-'' @ pad 2 (utc_month t) @ ''-'' @ pad 2 (utc_day t) @ ''T'' @
    pad 2 (utc_hour t) @ '':'' @ pad 2 (utc_minute t) @ '':'' @ pad 2 (utc_second t) @ ''.'' @
    pad 3 (utc_millisecond t) @ ''Z''"

definition normalize_rfc3339_millis_utc ::
    "(string \<Rightarrow> 't option) \<Rightarrow> ('t \<Rightarrow> utc_time) \<Rightarrow> string \<Rightarrow> string option" where
  "normalize_rfc3339_millis_utc parse to_utc value =
    map_option (\<lambda>parsed. format_millis_utc (to_utc parsed)) (parse (trim value))"

definition normalized_remote_timestamp ::
    "(string \<Rightarrow> 't option) \<Rightarrow> ('t \<Rightarrow> utc_time) \<Rightarrow> string \<Rightarrow> string" where
  "normalized_remote_timestamp parse to_utc value =
    unwrap_or (normalize_rfc3339_millis_utc parse to_utc value) (trim value)"

section \<open>The order of instants\<close>

definition utc_key :: "utc_time \<Rightarrow> int list" where
  "utc_key t = [utc_year t, int (utc_month t), int (utc_day t), int (utc_hour t),
     int (utc_minute t), int (utc_second t), int (utc_millisecond t)]"

lemma utc_key_inject: "utc_key s = utc_key t \<longleftrightarrow> s = t"
  by (cases s; cases t) (auto simp: utc_key_def)

instantiation utc_time :: linorder
begin

definition less_eq_utc_time :: "utc_time \<Rightarrow> utc_time \<Rightarrow> bool" where
  "less_eq_utc_time s t \<longleftrightarrow> utc_key s \<le> utc_key t"

definition less_utc_time :: "utc_time \<Rightarrow> utc_time \<Rightarrow> bool" where
  "less_utc_time s t \<longleftrightarrow> utc_key s < utc_key t"

instance
  by standard (auto simp: less_eq_utc_time_def less_utc_time_def utc_key_inject [symmetric])

end

text \<open>What the fields of an instant of the Common Era can be.\<close>

definition utc_ok :: "utc_time \<Rightarrow> bool" where
  "utc_ok t \<longleftrightarrow> 0 \<le> utc_year t \<and> utc_year t \<le> 9999 \<and> utc_month t < 100 \<and> utc_day t < 100 \<and>
    utc_hour t < 100 \<and> utc_minute t < 100 \<and> utc_second t < 100 \<and> utc_millisecond t < 1000"

section \<open>Digits of a fixed width are ordered as numbers\<close>

fun fixed_digits :: "nat \<Rightarrow> nat \<Rightarrow> string" where
  "fixed_digits 0 n = []"
| "fixed_digits (Suc w) n = fixed_digits w (n div 10) @ [digit_char (n mod 10)]"

lemma length_fixed_digits [simp]: "length (fixed_digits w n) = w"
  by (induction w arbitrary: n) simp_all

lemma digit_char_0: "digit_char 0 = CHR ''0''"
  by code_simp

lemma fixed_digits_zero: "fixed_digits w 0 = replicate w (CHR ''0'')"
  by (induction w) (simp_all add: replicate_append_same digit_char_0)

lemma length_show_nat: "n < 10 ^ w \<Longrightarrow> 0 < w \<Longrightarrow> length (show_nat n) \<le> w"
proof (induction w arbitrary: n)
  case (Suc w)
  show ?case
  proof (cases "n < 10")
    case False
    then have "n div 10 < 10 ^ w" "0 < w" using Suc.prems by (auto intro: ccontr)
    with Suc.IH have "length (show_nat (n div 10)) \<le> w" by blast
    then show ?thesis using False by (subst show_nat.simps) simp
  qed (simp add: show_nat.simps)
qed simp

lemma pad_fixed_digits: "n < 10 ^ w \<Longrightarrow> 0 < w \<Longrightarrow> pad w n = fixed_digits w n"
proof (induction w arbitrary: n)
  case (Suc w)
  show ?case
  proof (cases "n < 10")
    case True
    then show ?thesis by (simp add: pad_def show_nat.simps fixed_digits_zero)
  next
    case False
    then have w: "n div 10 < 10 ^ w" "0 < w" using Suc.prems by (auto intro: ccontr)
    have "pad (Suc w) n = pad w (n div 10) @ [digit_char (n mod 10)]"
      using False by (simp add: pad_def show_nat.simps [of n])
    then show ?thesis using Suc.IH [OF w] by simp
  qed
qed simp

lemma less_append_same_length:
  fixes u v :: "'a :: linorder list"
  assumes "length u = length v"
  shows "u @ x < v @ y \<longleftrightarrow> u < v \<or> (u = v \<and> x < y)"
  using assms by (induction u v rule: list_induct2) auto

lemma digit_char_less: "a < 10 \<Longrightarrow> b < 10 \<Longrightarrow> digit_char a < digit_char b \<longleftrightarrow> a < b"
  by (simp add: less_char_def byte_digit_char)

lemma digit_char_inject: "a < 10 \<Longrightarrow> b < 10 \<Longrightarrow> digit_char a = digit_char b \<longleftrightarrow> a = b"
  by (metis add_left_cancel byte_digit_char)

lemma fixed_digits_less_eq:
  "m < 10 ^ w \<Longrightarrow> n < 10 ^ w \<Longrightarrow>
    (fixed_digits w m < fixed_digits w n \<longleftrightarrow> m < n) \<and> (fixed_digits w m = fixed_digits w n \<longleftrightarrow> m = n)"
proof (induction w arbitrary: m n)
  case (Suc w)
  have "m div 10 < 10 ^ w" "n div 10 < 10 ^ w" using Suc.prems by auto
  note IH = Suc.IH [OF this]
  have m: "m = 10 * (m div 10) + m mod 10" and n: "n = 10 * (n div 10) + n mod 10" by simp_all
  have less: "m < n \<longleftrightarrow> m div 10 < n div 10 \<or> (m div 10 = n div 10 \<and> m mod 10 < n mod 10)"
    and eq: "m = n \<longleftrightarrow> m div 10 = n div 10 \<and> m mod 10 = n mod 10"
    using m n mod_less_divisor [of 10 m] mod_less_divisor [of 10 n] by linarith (metis m n)
  show ?case
    unfolding less eq
    by (simp add: less_append_same_length IH digit_char_less digit_char_inject)
qed simp

lemma pad_less:
  assumes "m < 10 ^ w" "n < 10 ^ w" "0 < w"
  shows "pad w m @ x < pad w n @ y \<longleftrightarrow> m < n \<or> (m = n \<and> x < y)"
  using assms by (simp add: pad_fixed_digits less_append_same_length fixed_digits_less_eq)

lemma format_millis_less:
  assumes "utc_ok s" "utc_ok t"
  shows "format_millis_utc s < format_millis_utc t \<longleftrightarrow> s < t"
proof -
  have year: "nat (utc_year s) < 10 ^ 4" "nat (utc_year t) < 10 ^ 4"
    "nat (utc_year s) < nat (utc_year t) \<longleftrightarrow> utc_year s < utc_year t"
    "nat (utc_year s) = nat (utc_year t) \<longleftrightarrow> utc_year s = utc_year t"
    using assms by (auto simp: utc_ok_def)
  then show ?thesis
    using assms
    by (simp add: format_millis_utc_def pad_int_def pad_less [where w = 2] pad_less [where w = 3]
        pad_less [where w = 4] utc_ok_def less_utc_time_def utc_key_def)
qed

section \<open>Properties\<close>

text \<open>
  Timelines compare stored timestamps as strings, and that is their order in time: of two
  instants of the Common Era the normalised texts are ordered as the instants are, and equal only
  when they are the same to the millisecond.
\<close>

theorem normalized_timestamps_sort:
  assumes "parse (trim a) = Some s" "parse (trim b) = Some t"
    and "utc_ok (to_utc s)" "utc_ok (to_utc t)"
  shows "\<exists>u v. normalize_rfc3339_millis_utc parse to_utc a = Some u \<and>
    normalize_rfc3339_millis_utc parse to_utc b = Some v \<and>
    (u < v \<longleftrightarrow> to_utc s < to_utc t) \<and> (u = v \<longleftrightarrow> to_utc s = to_utc t) \<and>
    normalized_remote_timestamp parse to_utc a = u"
proof -
  have "format_millis_utc (to_utc s) = format_millis_utc (to_utc t) \<longleftrightarrow> to_utc s = to_utc t"
    using format_millis_less [OF assms(3,4)] format_millis_less [OF assms(4,3)]
    by (metis less_irrefl neqE)
  then show ?thesis
    using assms format_millis_less [OF assms(3,4)]
    by (simp add: normalize_rfc3339_millis_utc_def normalized_remote_timestamp_def)
qed

theorem normalized_timestamps_sort_witness:
  "\<exists>u v. normalize_rfc3339_millis_utc Some (\<lambda>s. if s = ''a'' then Utc 2026 1 1 0 0 16 500
        else Utc 2026 1 1 0 0 17 0) ''a'' = Some u \<and>
    normalize_rfc3339_millis_utc Some (\<lambda>s. if s = ''a'' then Utc 2026 1 1 0 0 16 500
        else Utc 2026 1 1 0 0 17 0) ''b'' = Some v \<and> u < v"
proof -
  let ?utc = "\<lambda>s. if s = ''a'' then Utc 2026 1 1 0 0 16 500 else Utc 2026 1 1 0 0 17 0"
  have "trim ''a'' = ''a''" "trim ''b'' = ''b''" by code_simp+
  moreover have "utc_ok (?utc ''a'')" "utc_ok (?utc ''b'')" "?utc ''a'' < ?utc ''b''"
    by (simp_all add: utc_ok_def less_utc_time_def utc_key_def)
  ultimately show ?thesis
    using normalized_timestamps_sort [of Some "''a''" "''a''" "''b''" "''b''" ?utc] by auto
qed

text \<open>
  Preparing a stored timestamp for a client panics exactly when it has no \<open>T\<close>, does not
  parse, has a space as its eleventh byte and a scalar that lies across the end of the eleventh or
  the nineteenth byte. A remote server can bring this about: the publication time of a note is
  stored as it comes when it does not parse, and then every rendering of the status panics.
\<close>

theorem rendering_timestamp_panics:
  assumes "parse hostile = None"
    and "hostile = ''2026-05-09 13:40:4'' @ [CHR 0xC3, CHR 0xA9]"
  shows "(timestamp_to_mastodon_iso8601 parse fmt value = None \<longleftrightarrow>
      CHR ''T'' \<notin> set (trim value) \<and> parse (trim value) = None \<and> length (trim value) \<ge> 19 \<and>
      trim value ! 10 = CHR '' '' \<and>
      (\<not> is_char_boundary (trim value) 11 \<or> \<not> is_char_boundary (trim value) 19)) \<and>
    normalized_remote_timestamp parse to_utc hostile = hostile \<and>
    timestamp_to_mastodon_iso8601 parse fmt hostile = None"
proof -
  have panics: "timestamp_to_mastodon_iso8601 parse fmt v = None \<longleftrightarrow>
      CHR ''T'' \<notin> set (trim v) \<and> parse (trim v) = None \<and> length (trim v) \<ge> 19 \<and>
      trim v ! 10 = CHR '' '' \<and>
      (\<not> is_char_boundary (trim v) 11 \<or> \<not> is_char_boundary (trim v) 19)" for v
  proof -
    have "is_char_boundary (trim v) 10" "is_char_boundary (trim v) 0"
      if "19 \<le> length (trim v)" "trim v ! 10 = CHR '' ''"
      using that by (auto simp: is_char_boundary_def continuation_byte_def)
    then show ?thesis
      by (auto simp: timestamp_to_mastodon_iso8601_def activitypub_datetime_string_def Let_def
          str_slice_def split: option.split)
  qed
  have "trim hostile = hostile" unfolding assms(2) by code_simp
  moreover have "\<not> is_char_boundary hostile 19" "length hostile = 20" "hostile ! 10 = CHR '' ''"
    "CHR ''T'' \<notin> set hostile"
    by (simp_all add: assms(2) is_char_boundary_def continuation_byte_def)
  ultimately show ?thesis
    using panics assms(1)
    by (simp add: normalized_remote_timestamp_def normalize_rfc3339_millis_utc_def)
qed

theorem rendering_timestamp_panics_witness:
  "timestamp_to_mastodon_iso8601 (\<lambda>_. None :: unit option) (\<lambda>_. None)
     (''2026-05-09 13:40:4'' @ [CHR 0xC3, CHR 0xA9]) = None"
  using rendering_timestamp_panics [of "\<lambda>_. None :: unit option"
      "''2026-05-09 13:40:4'' @ [CHR 0xC3, CHR 0xA9]" "\<lambda>_. None" "[]" "\<lambda>_. Utc 0 0 0 0 0 0 0"]
  by simp

end
