(* ===== verification/Remote_Ingest.thy ===== *)
theory Remote_Ingest
  imports Activity_Json Status_Html Timestamps Url_Policy
begin

text \<open>
  From a document to the row it is stored as: the inputs the domain takes, read from the JSON of a
  note or an announce (\<open>cfwdon-worker/src/remote/adapters.rs\<close>), and the intents to store
  (\<open>remote/store/intents.rs\<close>). The parser of RFC 3339 and the conversion to UTC, the serialiser of
  JSON and the clock are arguments; the latter two can fail with a message.
\<close>

section \<open>Inputs\<close>

definition sanitize_remote_http_url :: "string option \<Rightarrow> string option" where
  "sanitize_remote_http_url value =
    Option.bind (trimmed_option value) (\<lambda>v.
      if \<not> remote_http_url_scheme_allowed v then None else Some v)"

definition remote_status_content_html :: "json \<Rightarrow> string" where
  "remote_status_content_html object =
    unwrap_or
      (opt_or (map_option sanitize_remote_status_html (get_str object ''content''))
        (map_option render_status_html (get_str object ''name''))) []"

text \<open>The first key of \<open>contentMap\<close>.\<close>

definition remote_status_language :: "json \<Rightarrow> string option" where
  "remote_status_language object =
    (case jget object ''contentMap'' of
       Some (JObject ((key, _) # _)) \<Rightarrow> Some key
     | _ \<Rightarrow> None)"

fun audiences_of :: "json \<Rightarrow> string list" where
  "audiences_of (JString uri) = [uri]"
| "audiences_of (JArray values) = concat (map audiences_of values)"
| "audiences_of (JObject members) =
    (case Option.bind (map_of members ''id'') as_str of Some uri \<Rightarrow> [uri] | None \<Rightarrow> [])"
| "audiences_of _ = []"

definition collect_activitypub_audiences :: "json option \<Rightarrow> string list" where
  "collect_activitypub_audiences value = (case value of Some v \<Rightarrow> audiences_of v | None \<Rightarrow> [])"

definition activity_pub_status_input_from_object ::
    "(string \<Rightarrow> 't option) \<Rightarrow> ('t \<Rightarrow> utc_time) \<Rightarrow> json \<Rightarrow> activitypub_status_input" where
  "activity_pub_status_input_from_object parse to_utc object =
    \<lparr>asi_object_id = get_str object ''id'',
     asi_url = sanitize_remote_http_url (get_str object ''url''),
     asi_in_reply_to = get_str object ''inReplyTo'',
     asi_quote_uri = get_str object ''quoteUri'',
     asi_quote_url = get_str object ''quoteUrl'',
     asi_misskey_quote = get_str object ''_misskey_quote'',
     asi_content_html = remote_status_content_html object,
     asi_spoiler_text = map_option sanitize_remote_plain_text (get_str object ''summary''),
     asi_to_audiences = collect_activitypub_audiences (jget object ''to''),
     asi_cc_audiences = collect_activitypub_audiences (jget object ''cc''),
     asi_sensitive = Option.bind (jget object ''sensitive'') as_bool,
     asi_language = remote_status_language object,
     asi_published_at =
       map_option (normalized_remote_timestamp parse to_utc) (get_str object ''published''),
     asi_updated_at =
       map_option (normalized_remote_timestamp parse to_utc) (get_str object ''updated'')\<rparr>"

definition activity_pub_reblog_input_from_activity ::
    "(string \<Rightarrow> 't option) \<Rightarrow> ('t \<Rightarrow> utc_time) \<Rightarrow> json \<Rightarrow> activitypub_reblog_input" where
  "activity_pub_reblog_input_from_activity parse to_utc activity =
    \<lparr>ari_activity_id = get_str activity ''id'',
     ari_boost_of_uri =
       Option.bind (jget activity ''object'') (\<lambda>v. activity_object_id (Some v)),
     ari_quote_uri = get_str activity ''quoteUri'',
     ari_quote_url = get_str activity ''quoteUrl'',
     ari_misskey_quote = get_str activity ''_misskey_quote'',
     ari_to_audiences = collect_activitypub_audiences (jget activity ''to''),
     ari_cc_audiences = collect_activitypub_audiences (jget activity ''cc''),
     ari_published_at =
       map_option (normalized_remote_timestamp parse to_utc) (get_str activity ''published''),
     ari_updated_at =
       map_option (normalized_remote_timestamp parse to_utc) (get_str activity ''updated'')\<rparr>"

section \<open>Intents\<close>

text \<open>\<open>worker::Error::RustError\<close> is its message.\<close>

definition serialize_remote_store_json ::
    "(json \<Rightarrow> string + string) \<Rightarrow> json \<Rightarrow> string \<Rightarrow> string + string" where
  "serialize_remote_store_json to_string v label =
    map_err (\<lambda>error. ''failed to serialize '' @ label @ '': '' @ error) (to_string v)"

definition serialize_remote_status_object_json ::
    "(json \<Rightarrow> string + string) \<Rightarrow> json \<Rightarrow> string + string" where
  "serialize_remote_status_object_json to_string object =
    serialize_remote_store_json to_string object ''remote status object''"

definition serialize_remote_reblog_activity_json ::
    "(json \<Rightarrow> string + string) \<Rightarrow> json \<Rightarrow> string + string" where
  "serialize_remote_reblog_activity_json to_string activity =
    serialize_remote_store_json to_string activity ''remote announce activity''"

definition received_at_timestamp ::
    "(string \<Rightarrow> 't option) \<Rightarrow> ('t \<Rightarrow> utc_time) \<Rightarrow> string + string \<Rightarrow> string + string" where
  "received_at_timestamp parse to_utc clock =
    and_then clock (\<lambda>now. Inr (unwrap_or (normalize_rfc3339_millis_utc parse to_utc now) now))"

definition build_remote_status_store_intent ::
    "(string \<Rightarrow> 't option) \<Rightarrow> ('t \<Rightarrow> utc_time) \<Rightarrow> (json \<Rightarrow> string + string) \<Rightarrow> string + string \<Rightarrow>
     string \<Rightarrow> json \<Rightarrow> status_id \<Rightarrow> remote_quote_resolution \<Rightarrow> string \<Rightarrow>
     string + stored_remote_status_intent" where
  "build_remote_status_store_intent parse to_utc to_string clock
      actor_uri object ident resolution revision_at =
    and_then
      (map_err remote_status_error_message
        (status_input_into_incoming (activity_pub_status_input_from_object parse to_utc object)))
      (\<lambda>incoming. and_then (serialize_remote_status_object_json to_string object) (\<lambda>raw.
        let intent = t_state
          (incoming_status_into_store_intent incoming ident actor_uri resolution raw revision_at)
        in if srs_published_at intent = []
           then and_then (received_at_timestamp parse to_utc clock) (\<lambda>now.
             Inr (intent\<lparr>srs_published_at := now\<rparr>))
           else Inr intent))"

definition build_remote_reblog_store_intent ::
    "(string \<Rightarrow> 't option) \<Rightarrow> ('t \<Rightarrow> utc_time) \<Rightarrow> (json \<Rightarrow> string + string) \<Rightarrow> string + string \<Rightarrow>
     string \<Rightarrow> json \<Rightarrow> status_id \<Rightarrow> remote_quote_resolution \<Rightarrow>
     string + stored_remote_reblog_intent" where
  "build_remote_reblog_store_intent parse to_utc to_string clock
      actor_uri activity ident resolution =
    and_then
      (map_err remote_status_error_message
        (reblog_input_into_incoming (activity_pub_reblog_input_from_activity parse to_utc activity)))
      (\<lambda>incoming. and_then (serialize_remote_reblog_activity_json to_string activity) (\<lambda>raw.
        let intent = t_state
          (incoming_reblog_into_store_intent incoming ident actor_uri resolution raw)
        in if srb_published_at intent = []
           then and_then (received_at_timestamp parse to_utc clock) (\<lambda>now.
             Inr (intent\<lparr>srb_published_at := now\<rparr>))
           else Inr intent))"

section \<open>Facts\<close>

lemma sanitized_url:
  "sanitize_remote_http_url value = Some u \<Longrightarrow> remote_http_url_scheme_allowed u \<and> trim u = u"
  by (auto simp: sanitize_remote_http_url_def trimmed_option_def opt_filter_def
      split: if_splits option.splits bind_splits)

lemma content_safe: "markup_safe (remote_status_content_html object)"
  by (cases "get_str object ''content''"; cases "get_str object ''name''")
     (simp_all add: remote_status_content_html_def sanitize_remote_status_html_def Let_def
       render_safe)

text \<open>A value all of whose objects that carry an identifier carry it as \<open>id\<close>.\<close>

fun plain_ids :: "json \<Rightarrow> bool" where
  "plain_ids (JArray values) \<longleftrightarrow> list_all plain_ids values"
| "plain_ids (JObject members) \<longleftrightarrow>
    map_of members ''id'' \<noteq> None \<or> id_member members = None"
| "plain_ids _ \<longleftrightarrow> True"

lemma audiences_plain: "plain_ids v \<Longrightarrow> audiences_of v = audience_uris v"
proof (induction v rule: plain_ids.induct)
  case (1 vs)
  then have "map audiences_of vs = map audience_uris vs" by (auto simp: list_all_iff)
  then show ?case by (simp only: audiences_of.simps audience_uris.simps)
next
  case (2 members)
  then show ?case by (cases "map_of members ''id''") (auto simp: id_member_def)
qed simp_all

lemma collect_plain:
  "pred_option plain_ids v \<Longrightarrow> collect_activitypub_audiences v = collect_activitypub_uris v []"
  by (cases v) (simp_all add: collect_activitypub_audiences_def collect_activitypub_uris_def
      audiences_plain)

lemma status_intent_Inr:
  "build_remote_status_store_intent parse to_utc to_string clock actor object ident q at = Inr i \<Longrightarrow>
    \<exists>n raw. status_input_into_incoming (activity_pub_status_input_from_object parse to_utc object) = Inr n \<and>
      to_string object = Inr raw \<and>
      i = (t_state (incoming_status_into_store_intent n ident actor q raw at))
        \<lparr>srs_published_at := srs_published_at i\<rparr> \<and>
      (if ins_published_at n = []
       then received_at_timestamp parse to_utc clock = Inr (srs_published_at i)
       else srs_published_at i = ins_published_at n)"
  by (auto simp: build_remote_status_store_intent_def serialize_remote_status_object_json_def
      serialize_remote_store_json_def and_then_Inr Let_def incoming_status_into_store_intent_def
      without_events_def split: if_splits)

lemma reblog_intent_Inr:
  "build_remote_reblog_store_intent parse to_utc to_string clock actor activity ident q = Inr i \<Longrightarrow>
    \<exists>n raw. reblog_input_into_incoming (activity_pub_reblog_input_from_activity parse to_utc activity) = Inr n \<and>
      to_string activity = Inr raw \<and>
      i = (t_state (incoming_reblog_into_store_intent n ident actor q raw))
        \<lparr>srb_published_at := srb_published_at i\<rparr> \<and>
      (if inr_published_at n = []
       then received_at_timestamp parse to_utc clock = Inr (srb_published_at i)
       else srb_published_at i = inr_published_at n)"
  by (auto simp: build_remote_reblog_store_intent_def serialize_remote_reblog_activity_json_def
      serialize_remote_store_json_def and_then_Inr Let_def incoming_reblog_into_store_intent_def
      without_events_def split: if_splits)

lemma strip_basic_eq_strip_html: "strip_basic_html_tags = strip_html_tags"
proof
  have "strip_tags b s = strip_html_from b s" for b s
    by (induction b s rule: strip_tags.induct) simp_all
  then show "strip_basic_html_tags s = strip_html_tags s" for s
    by (simp add: strip_basic_html_tags_def strip_html_tags_def)
qed

text \<open>What a reader of the note sees: the text of its content, or else its name.\<close>

definition visible_text :: "json \<Rightarrow> string" where
  "visible_text object =
    filter (\<lambda>c. c \<noteq> newline)
      (trim (case (get_str object ''content'', get_str object ''name'') of
         (Some html, _) \<Rightarrow> decode_basic_html_entities (strip_html_tags html)
       | (None, Some name) \<Rightarrow> name
       | (None, None) \<Rightarrow> []))"

lemma strip_content:
  "decode_basic_html_entities (strip_html_tags (remote_status_content_html object)) =
    visible_text object"
proof -
  have "decode_basic_html_entities (strip_html_tags []) = []" "trim [] = []" by code_simp+
  then show ?thesis
    by (cases "get_str object ''content''"; cases "get_str object ''name''")
       (simp_all add: remote_status_content_html_def visible_text_def
         sanitize_remote_status_html_def Let_def strip_rendered decode_escaped)
qed

lemma status_intent_visibility:
  assumes "build_remote_status_store_intent parse to_utc to_string clock actor object ident q at = Inr i"
  shows "srs_visibility i = visibility_from_audience_lists
    (collect_activitypub_audiences (jget object ''to''))
    (collect_activitypub_audiences (jget object ''cc''))"
proof -
  from status_intent_Inr [OF assms] obtain n raw where
    n: "status_input_into_incoming (activity_pub_status_input_from_object parse to_utc object) = Inr n"
    and i: "i = (t_state (incoming_status_into_store_intent n ident actor q raw at))
        \<lparr>srs_published_at := srs_published_at i\<rparr>"
    by blast
  have "srs_visibility i = ins_visibility n"
    by (subst i) (simp add: incoming_status_into_store_intent_def without_events_def)
  then show ?thesis
    using n by (auto simp: status_input_into_incoming_def activity_pub_status_input_from_object_def
        and_then_Inr visibility_from_audience_lists_def)
qed

lemma reblog_intent_visibility:
  assumes "build_remote_reblog_store_intent parse to_utc to_string clock actor activity ident q = Inr i"
  shows "srb_visibility i = visibility_from_audience_lists
    (collect_activitypub_audiences (jget activity ''to''))
    (collect_activitypub_audiences (jget activity ''cc''))"
proof -
  from reblog_intent_Inr [OF assms] obtain n raw where
    n: "reblog_input_into_incoming (activity_pub_reblog_input_from_activity parse to_utc activity) = Inr n"
    and i: "i = (t_state (incoming_reblog_into_store_intent n ident actor q raw))
        \<lparr>srb_published_at := srb_published_at i\<rparr>"
    by blast
  have "srb_visibility i = inr_visibility n"
    by (subst i) (simp add: incoming_reblog_into_store_intent_def without_events_def)
  then show ?thesis
    using n by (auto simp: reblog_input_into_incoming_def activity_pub_reblog_input_from_activity_def
        and_then_Inr visibility_from_audience_lists_def)
qed

section \<open>Properties\<close>


text \<open>
  The visibility a note is stored with is the one its document states, the one by which the
  inbox accepted it, whenever no audience is given as an object with only an \<open>@id\<close>; so is that of an
  announce.
\<close>

theorem stored_visibility_agrees:
  assumes "pred_option plain_ids (jget object ''to'')" "pred_option plain_ids (jget object ''cc'')"
    and "build_remote_status_store_intent parse to_utc to_string clock actor object ident q at = Inr i"
    and "build_remote_reblog_store_intent parse to_utc to_string clock actor object ident q = Inr b"
  shows "visibility_as_str (srs_visibility i) = visibility_from_activitypub_object object \<and>
    visibility_as_str (srb_visibility b) = visibility_from_activitypub_object object \<and>
    note_targets_public object = (\<not> is_restricted (srs_visibility i))"
proof -
  note plain = collect_plain [OF assms(1)] collect_plain [OF assms(2)]
  have "srs_visibility i = visibility_from_audience_lists
      (collect_activitypub_uris (jget object ''to'') [])
      (collect_activitypub_uris (jget object ''cc'') [])"
    using status_intent_visibility [OF assms(3)] by (simp add: plain)
  moreover have "srb_visibility b = visibility_from_audience_lists
      (collect_activitypub_uris (jget object ''to'') [])
      (collect_activitypub_uris (jget object ''cc'') [])"
    using reblog_intent_visibility [OF assms(4)] by (simp add: plain)
  ultimately show ?thesis
    by (simp add: visibility_from_object_eq note_targets_public_restricted)
qed

theorem stored_visibility_agrees_witness:
  "\<exists>i. build_remote_status_store_intent (\<lambda>_. None :: unit option) (\<lambda>_. Utc 0 0 0 0 0 0 0) (\<lambda>_. Inr ''{}'')
        (Inr ''now'') ''a'' (JObject [(''id'', JString ''n''), (''object'', JString ''b''),
          (''to'', JArray [JString ''as:Public''])])
        (StatusId ''s'') resolution_without_quote ''now'' = Inr i \<and>
      visibility_as_str (srs_visibility i) = ''public''"
proof -
  let ?o = "JObject [(''id'', JString ''n''), (''object'', JString ''b''),
          (''to'', JArray [JString ''as:Public''])]"
  let ?s = "build_remote_status_store_intent (\<lambda>_. None :: unit option) (\<lambda>_. Utc 0 0 0 0 0 0 0)
    (\<lambda>_. Inr ''{}'') (Inr ''now'') ''a'' ?o (StatusId ''s'') resolution_without_quote ''now''"
  let ?b = "build_remote_reblog_store_intent (\<lambda>_. None :: unit option) (\<lambda>_. Utc 0 0 0 0 0 0 0)
    (\<lambda>_. Inr ''{}'') (Inr ''now'') ''a'' ?o (StatusId ''s'') resolution_without_quote"
  have "is_ok ?s" "is_ok ?b" by code_simp+
  then obtain i b where "?s = Inr i" "?b = Inr b" by (auto simp: is_ok_def split: sum.splits)
  moreover have "pred_option plain_ids (jget ?o ''to'')" "pred_option plain_ids (jget ?o ''cc'')"
    by simp_all
  moreover have "visibility_from_activitypub_object ?o = ''public''" by code_simp
  ultimately show ?thesis
    using stored_visibility_agrees by metis
qed

text \<open>
  An audience given as an object with only an \<open>@id\<close> is read by the test for public notes and
  not by the store: such a public note is accepted as public and stored as a direct one.
\<close>

theorem at_id_audience_stored_direct:
  "(let object = JObject [(''id'', JString ident), (''to'', JObject [(''@id'', JString ''as:Public'')])]
    in note_targets_public object \<and> visibility_from_activitypub_object object = ''public'' \<and>
      (case status_input_into_incoming (activity_pub_status_input_from_object parse to_utc object) of
         Inl _ \<Rightarrow> trim ident = []
       | Inr n \<Rightarrow> ins_visibility n = Direct))"
proof -
  have "trimmed_option (Some ident) = None \<longleftrightarrow> trim ident = []"
    by (simp add: trimmed_option_def opt_filter_def)
  then show ?thesis
    by (auto simp: Let_def note_targets_public_def note_audiences collect_activitypub_uris_def
        id_member_def is_public_audience_uri_def ACTIVITYSTREAMS_PUBLIC_SHORT_def
        visibility_from_activitypub_object_def contains_public_audience_def
        visibility_from_activitypub_audiences_def status_input_into_incoming_def
        activity_pub_status_input_from_object_def get_str_def collect_activitypub_audiences_def
        audience_values_contains_public_def audience_values_contain_followers_def ok_or_def
        split: option.split)
qed

end
