(* ===== verification/OAuth_Scopes.thy ===== *)
theory OAuth_Scopes
  imports Text_Ops
begin

text \<open>
  The scopes an API request needs (\<open>cfwdon-worker/src/auth/scopes.rs\<close>): a table from the method and
  the segments of the path to the scopes any one of which lets a user token through. The slice
  patterns of the table are the functions \<open>seg\<close>, \<open>seg2\<close> and \<open>seg3\<close>.
\<close>

section \<open>Scopes\<close>

definition READ_ANY :: "string list" where
  "READ_ANY =
    [''read'', ''read:accounts'', ''read:blocks'', ''read:bookmarks'',
    ''read:collections'', ''read:favourites'', ''read:filters'', ''read:follows'',
    ''read:lists'', ''read:mutes'', ''read:notifications'', ''read:search'',
    ''read:statuses'']"

definition WRITE_ANY :: "string list" where
  "WRITE_ANY =
    [''write'', ''write:accounts'', ''write:blocks'', ''write:bookmarks'',
    ''write:collections'', ''write:conversations'', ''write:favourites'', ''write:filters'',
    ''write:follows'', ''write:lists'', ''write:media'', ''write:mutes'',
    ''write:notifications'', ''write:reports'', ''write:statuses'']"

definition PROFILE :: "string list" where
  "PROFILE = [''profile'', ''read'', ''read:accounts'']"

definition READ_ACCOUNTS :: "string list" where
  "READ_ACCOUNTS = [''read'', ''read:accounts'']"

definition READ_BLOCKS :: "string list" where
  "READ_BLOCKS = [''follow'', ''read'', ''read:blocks'']"

definition READ_BOOKMARKS :: "string list" where
  "READ_BOOKMARKS = [''read'', ''read:bookmarks'']"

definition READ_FAVOURITES :: "string list" where
  "READ_FAVOURITES = [''read'', ''read:favourites'']"

definition READ_FILTERS :: "string list" where
  "READ_FILTERS = [''read'', ''read:filters'']"

definition READ_FOLLOWS :: "string list" where
  "READ_FOLLOWS = [''follow'', ''read'', ''read:follows'']"

definition READ_LISTS :: "string list" where
  "READ_LISTS = [''read'', ''read:lists'']"

definition READ_MUTES :: "string list" where
  "READ_MUTES = [''follow'', ''read'', ''read:mutes'']"

definition READ_NOTIFICATIONS :: "string list" where
  "READ_NOTIFICATIONS = [''read'', ''read:notifications'']"

definition READ_SEARCH :: "string list" where
  "READ_SEARCH = [''read'', ''read:search'']"

definition READ_STATUSES :: "string list" where
  "READ_STATUSES = [''read'', ''read:statuses'']"

definition WRITE_ACCOUNTS :: "string list" where
  "WRITE_ACCOUNTS = [''write'', ''write:accounts'']"

definition WRITE_BLOCKS :: "string list" where
  "WRITE_BLOCKS = [''follow'', ''write'', ''write:blocks'']"

definition WRITE_BOOKMARKS :: "string list" where
  "WRITE_BOOKMARKS = [''write'', ''write:bookmarks'']"

definition WRITE_CONVERSATIONS :: "string list" where
  "WRITE_CONVERSATIONS = [''write'', ''write:conversations'']"

definition WRITE_FAVOURITES :: "string list" where
  "WRITE_FAVOURITES = [''write'', ''write:favourites'']"

definition WRITE_FILTERS :: "string list" where
  "WRITE_FILTERS = [''write'', ''write:filters'']"

definition WRITE_FOLLOWS :: "string list" where
  "WRITE_FOLLOWS = [''follow'', ''write'', ''write:follows'']"

definition WRITE_LISTS :: "string list" where
  "WRITE_LISTS = [''write'', ''write:lists'']"

definition WRITE_MEDIA :: "string list" where
  "WRITE_MEDIA = [''write'', ''write:media'']"

definition WRITE_MUTES :: "string list" where
  "WRITE_MUTES = [''follow'', ''write'', ''write:mutes'']"

definition WRITE_NOTIFICATIONS :: "string list" where
  "WRITE_NOTIFICATIONS = [''write'', ''write:notifications'']"

definition WRITE_REPORTS :: "string list" where
  "WRITE_REPORTS = [''write'', ''write:reports'']"

definition WRITE_STATUSES :: "string list" where
  "WRITE_STATUSES = [''write'', ''write:statuses'']"

definition PUSH :: "string list" where
  "PUSH = [''push'']"

section \<open>The table\<close>

text \<open>
  \<open>seg\<close> is a pattern of a first segment and a rest, \<open>seg1\<close>, \<open>seg2\<close> and \<open>seg3\<close> are patterns of one,
  two and three segments, the second of \<open>seg3\<close> a wildcard; alternatives are listed.
\<close>

definition seg :: "string list \<Rightarrow> string list \<Rightarrow> bool" where
  "seg as segments = (case segments of a # _ \<Rightarrow> a \<in> set as | _ \<Rightarrow> False)"

definition seg1 :: "string \<Rightarrow> string list \<Rightarrow> bool" where
  "seg1 a segments = (segments = [a])"

definition seg2 :: "string \<Rightarrow> string list \<Rightarrow> string list \<Rightarrow> bool" where
  "seg2 a bs segments = (case segments of [x, y] \<Rightarrow> x = a \<and> y \<in> set bs | _ \<Rightarrow> False)"

definition seg3 :: "string \<Rightarrow> string list \<Rightarrow> string list \<Rightarrow> bool" where
  "seg3 a bs segments = (case segments of [x, _, y] \<Rightarrow> x = a \<and> y \<in> set bs | _ \<Rightarrow> False)"

definition api_segments :: "string \<Rightarrow> string list" where
  "api_segments path =
    (let rest = unwrap_or (opt_or (strip_prefix path ''/api/v1/'') (strip_prefix path ''/api/v2/'')) []
     in filter (\<lambda>s. s \<noteq> []) (split_char (CHR ''/'') rest))"

definition safe_method :: "string \<Rightarrow> bool" where
  "safe_method m \<longleftrightarrow> m \<in> {''GET'', ''HEAD'', ''OPTIONS''}"

definition scopes_for :: "bool \<Rightarrow> string list \<Rightarrow> string list" where
  "scopes_for safe segments =
    (let pick = (\<lambda>r w. if safe then r else w) in
     if seg1 ''profile'' segments \<and> safe then PROFILE
     else if seg [''profile''] segments then WRITE_ACCOUNTS
     else if seg2 ''accounts'' [''verify_credentials''] segments then PROFILE
     else if seg2 ''accounts'' [''update_credentials''] segments then WRITE_ACCOUNTS
     else if seg2 ''accounts'' [''relationships'', ''familiar_followers''] segments then READ_FOLLOWS
     else if seg3 ''accounts'' [''statuses''] segments then READ_STATUSES
     else if seg3 ''accounts'' [''lists''] segments then READ_LISTS
     else if seg3 ''accounts'' [''follow'', ''unfollow'', ''remove_from_followers''] segments
       then WRITE_FOLLOWS
     else if seg3 ''accounts'' [''block'', ''unblock''] segments then WRITE_BLOCKS
     else if seg3 ''accounts'' [''mute'', ''unmute''] segments then WRITE_MUTES
     else if seg3 ''accounts'' [''pin'', ''unpin'', ''endorse'', ''unendorse'', ''note''] segments
       then WRITE_ACCOUNTS
     else if seg [''accounts''] segments then pick READ_ACCOUNTS WRITE_ACCOUNTS
     else if seg [''blocks''] segments then READ_BLOCKS
     else if seg [''mutes''] segments then READ_MUTES
     else if seg [''domain_blocks''] segments then pick READ_BLOCKS WRITE_BLOCKS
     else if seg [''follow_requests''] segments then pick READ_FOLLOWS WRITE_FOLLOWS
     else if seg [''followed_tags''] segments then READ_FOLLOWS
     else if seg3 ''tags'' [''follow'', ''unfollow''] segments then WRITE_FOLLOWS
     else if seg3 ''tags'' [''feature'', ''unfeature''] segments then WRITE_ACCOUNTS
     else if seg [''endorsements'', ''preferences''] segments then READ_ACCOUNTS
     else if seg [''featured_tags'', ''suggestions''] segments
       then pick READ_ACCOUNTS WRITE_ACCOUNTS
     else if seg [''favourites''] segments then READ_FAVOURITES
     else if seg [''bookmarks''] segments then READ_BOOKMARKS
     else if seg3 ''statuses'' [''favourite'', ''unfavourite''] segments then WRITE_FAVOURITES
     else if seg3 ''statuses'' [''bookmark'', ''unbookmark''] segments then WRITE_BOOKMARKS
     else if seg3 ''statuses'' [''mute'', ''unmute''] segments then WRITE_MUTES
     else if seg3 ''statuses'' [''pin'', ''unpin''] segments then WRITE_ACCOUNTS
     else if seg3 ''statuses'' [''reblogged_by'', ''favourited_by''] segments then READ_ACCOUNTS
     else if seg3 ''statuses'' [''translate''] segments then READ_STATUSES
     else if seg [''statuses'', ''scheduled_statuses'', ''polls'', ''markers''] segments
       then pick READ_STATUSES WRITE_STATUSES
     else if (case segments of a # b # _ \<Rightarrow> a = ''timelines'' \<and> b = ''list'' | _ \<Rightarrow> False)
       then READ_LISTS
     else if seg [''timelines''] segments then READ_STATUSES
     else if seg [''conversations''] segments then pick READ_STATUSES WRITE_CONVERSATIONS
     else if seg [''notifications''] segments then pick READ_NOTIFICATIONS WRITE_NOTIFICATIONS
     else if seg [''lists''] segments then pick READ_LISTS WRITE_LISTS
     else if seg [''filters''] segments then pick READ_FILTERS WRITE_FILTERS
     else if seg [''media''] segments then WRITE_MEDIA
     else if seg [''reports''] segments then WRITE_REPORTS
     else if seg [''search''] segments then READ_SEARCH
     else if seg [''push''] segments then PUSH
     else pick READ_ANY WRITE_ANY)"

definition required_oauth_scopes :: "string \<Rightarrow> string \<Rightarrow> string list" where
  "required_oauth_scopes method path = scopes_for (safe_method method) (api_segments path)"

section \<open>Facts\<close>

lemmas scope_tables =
  PROFILE_def READ_ANY_def READ_ACCOUNTS_def READ_BLOCKS_def READ_BOOKMARKS_def
  READ_FAVOURITES_def READ_FILTERS_def READ_FOLLOWS_def READ_LISTS_def READ_MUTES_def
  READ_NOTIFICATIONS_def READ_SEARCH_def READ_STATUSES_def WRITE_ANY_def WRITE_ACCOUNTS_def
  WRITE_BLOCKS_def WRITE_BOOKMARKS_def WRITE_CONVERSATIONS_def WRITE_FAVOURITES_def
  WRITE_FILTERS_def WRITE_FOLLOWS_def WRITE_LISTS_def WRITE_MEDIA_def WRITE_MUTES_def
  WRITE_NOTIFICATIONS_def WRITE_REPORTS_def WRITE_STATUSES_def PUSH_def

definition read_tables :: "string list list" where
  "read_tables = [PROFILE, READ_ANY, READ_ACCOUNTS, READ_BLOCKS, READ_BOOKMARKS, READ_FAVOURITES,
    READ_FILTERS, READ_FOLLOWS, READ_LISTS, READ_MUTES, READ_NOTIFICATIONS, READ_SEARCH,
    READ_STATUSES]"

definition write_tables :: "string list list" where
  "write_tables = [WRITE_ANY, WRITE_ACCOUNTS, WRITE_BLOCKS, WRITE_BOOKMARKS, WRITE_CONVERSATIONS,
    WRITE_FAVOURITES, WRITE_FILTERS, WRITE_FOLLOWS, WRITE_LISTS, WRITE_MEDIA, WRITE_MUTES,
    WRITE_NOTIFICATIONS, WRITE_REPORTS, WRITE_STATUSES]"

text \<open>A scope and its parent: \<open>read:lists\<close> lies under \<open>read\<close>.\<close>

definition scope_parent :: "string \<Rightarrow> string" where
  "scope_parent scope = split_first scope (CHR '':'')"

text \<open>Every scope of the set lies under the parent, except the legacy and the profile scope.\<close>

definition under :: "string \<Rightarrow> string list \<Rightarrow> bool" where
  "under parent scopes \<longleftrightarrow>
    parent \<in> set scopes \<and>
    list_all (\<lambda>s. scope_parent s = parent \<or> s \<in> {''follow'', ''profile''}) scopes"

lemma read_tables_under: "list_all (under ''read'') read_tables"
  by code_simp

lemma write_tables_under: "list_all (under ''write'') write_tables"
  by code_simp

lemma scopes_for_cases:
  "scopes_for safe segments \<in> set (PUSH # read_tables @ write_tables)"
  unfolding scopes_for_def Let_def read_tables_def write_tables_def
  by (simp split: if_split)

text \<open>The paths, by their segments, for which the legacy scope \<open>follow\<close> is enough.\<close>

definition follow_paths :: "string list \<Rightarrow> bool" where
  "follow_paths segments \<longleftrightarrow>
    seg [''blocks'', ''mutes'', ''domain_blocks'', ''follow_requests'', ''followed_tags''] segments \<or>
    seg2 ''accounts'' [''relationships'', ''familiar_followers''] segments \<or>
    seg3 ''accounts'' [''follow'', ''unfollow'', ''remove_from_followers'', ''block'', ''unblock'',
      ''mute'', ''unmute''] segments \<or>
    seg3 ''tags'' [''follow'', ''unfollow''] segments \<or>
    seg3 ''statuses'' [''mute'', ''unmute''] segments"

definition follow_tables :: "string list list" where
  "follow_tables = [READ_BLOCKS, READ_FOLLOWS, READ_MUTES, WRITE_BLOCKS, WRITE_FOLLOWS, WRITE_MUTES]"

lemma follow_in_tables:
  "list_all (\<lambda>t. ''follow'' \<in> set t \<longleftrightarrow> t \<in> set follow_tables) (PUSH # read_tables @ write_tables)"
  by code_simp

lemma follow_scopes: "''follow'' \<in> set (scopes_for safe segments) \<longleftrightarrow> follow_paths segments"
proof -
  consider "segments = []" | a where "segments = [a]" | a b where "segments = [a, b]"
    | a b c where "segments = [a, b, c]" | a b c d r where "segments = a # b # c # d # r"
    by (metis list.exhaust)
  then show ?thesis
    by cases (simp_all add: scopes_for_def Let_def seg_def seg1_def seg2_def seg3_def
      follow_paths_def scope_tables split: if_split)
qed

text \<open>The paths for which a read scope is enough whatever the method, and a write scope alike.\<close>

definition always_read_paths :: "string list \<Rightarrow> bool" where
  "always_read_paths segments \<longleftrightarrow>
    seg [''blocks'', ''mutes'', ''followed_tags'', ''endorsements'', ''preferences'', ''favourites'',
      ''bookmarks'', ''timelines'', ''search''] segments \<or>
    seg2 ''accounts'' [''verify_credentials'', ''relationships'', ''familiar_followers''] segments \<or>
    seg3 ''accounts'' [''statuses'', ''lists''] segments \<or>
    seg3 ''statuses'' [''reblogged_by'', ''favourited_by'', ''translate''] segments"

definition always_write_paths :: "string list \<Rightarrow> bool" where
  "always_write_paths segments \<longleftrightarrow>
    seg [''media'', ''reports''] segments \<or>
    (seg [''profile''] segments \<and> \<not> seg1 ''profile'' segments) \<or>
    seg2 ''accounts'' [''update_credentials''] segments \<or>
    seg3 ''accounts'' [''follow'', ''unfollow'', ''remove_from_followers'', ''block'', ''unblock'',
      ''mute'', ''unmute'', ''pin'', ''unpin'', ''endorse'', ''unendorse'', ''note''] segments \<or>
    seg3 ''tags'' [''follow'', ''unfollow'', ''feature'', ''unfeature''] segments \<or>
    seg3 ''statuses'' [''favourite'', ''unfavourite'', ''bookmark'', ''unbookmark'', ''mute'',
      ''unmute'', ''pin'', ''unpin''] segments"

lemma read_write_scopes:
  "''read'' \<in> set (scopes_for safe segments) \<longleftrightarrow>
     always_read_paths segments \<or>
     (safe \<and> \<not> always_write_paths segments \<and> \<not> seg [''push''] segments)"
  "''write'' \<in> set (scopes_for safe segments) \<longleftrightarrow>
     always_write_paths segments \<or>
     (\<not> safe \<and> \<not> always_read_paths segments \<and> \<not> seg [''push''] segments)"
  "''push'' \<in> set (scopes_for safe segments) \<longleftrightarrow> seg [''push''] segments"
proof -
  consider "segments = []" | a where "segments = [a]" | a b where "segments = [a, b]"
    | a b c where "segments = [a, b, c]" | a b c d r where "segments = a # b # c # d # r"
    by (metis list.exhaust)
  note segments = this
  show "''read'' \<in> set (scopes_for safe segments) \<longleftrightarrow>
     always_read_paths segments \<or>
     (safe \<and> \<not> always_write_paths segments \<and> \<not> seg [''push''] segments)"
    using segments
    by cases (simp_all add: scopes_for_def Let_def seg_def seg1_def seg2_def seg3_def
      always_read_paths_def always_write_paths_def scope_tables split: if_split)
  show "''write'' \<in> set (scopes_for safe segments) \<longleftrightarrow>
     always_write_paths segments \<or>
     (\<not> safe \<and> \<not> always_read_paths segments \<and> \<not> seg [''push''] segments)"
    using segments
    by cases (simp_all add: scopes_for_def Let_def seg_def seg1_def seg2_def seg3_def
      always_read_paths_def always_write_paths_def scope_tables split: if_split)
  show "''push'' \<in> set (scopes_for safe segments) \<longleftrightarrow> seg [''push''] segments"
    using segments
    by cases (simp_all add: scopes_for_def Let_def seg_def seg1_def seg2_def seg3_def
      scope_tables split: if_split)
qed

lemma tables_under:
  "t \<in> set (PUSH # read_tables @ write_tables) \<Longrightarrow>
    t = [''push''] \<or> (''read'' \<in> set t \<and> under ''read'' t) \<or>
    (''read'' \<notin> set t \<and> under ''write'' t)"
proof -
  have "list_all (\<lambda>t. t = [''push''] \<or> (''read'' \<in> set t \<and> under ''read'' t) \<or>
    (''read'' \<notin> set t \<and> under ''write'' t)) (PUSH # read_tables @ write_tables)"
    by code_simp
  then show "t \<in> set (PUSH # read_tables @ write_tables) \<Longrightarrow> ?thesis"
    unfolding list_all_iff by blast
qed

section \<open>Properties\<close>


end
