(* ===== verification/OAuth_Apps.thy ===== *)
theory OAuth_Apps
  imports OAuth_Scopes
begin

text \<open>
  OAuth clients and the authorization endpoint (\<open>cfwdon-worker/src/oauth_apps.rs\<close> and
  \<open>oauth_apps/\<close>): registration of an app, validation of an authorization request, the decision of
  the endpoint and the code it issues. The state is the tables of the database the flow uses.
  The parser of the \<open>url\<close> crate, the hash of a password and the random identifiers are arguments;
  a JSON column of strings is the list that is read from it, or \<open>None\<close> where it is not such a list.
\<close>

section \<open>Tables\<close>

record oauth_app_row =
  app_id :: int
  app_name :: string
  app_website :: "string option"
  app_scopes_json :: "string list option"
  app_redirect_uri_legacy :: string
  app_redirect_uris_json :: "string list option"
  app_client_id :: string
  app_client_secret :: string
  app_client_secret_expires_at :: int

record oauth_authorization_code_row =
  code_code :: string
  code_oauth_app_id :: int
  code_account_id :: string
  code_redirect_uri :: string
  code_scopes_json :: "string list option"
  code_code_challenge :: "string option"
  code_code_challenge_method :: "string option"
  code_expires_at :: int

text \<open>A row of \<open>oauth_access_tokens\<close>, and of \<open>oauth_app_access_tokens\<close>, which has no account.\<close>

record oauth_token_row =
  tok_access_token :: string
  tok_access_token_hash :: "string option"
  tok_oauth_app_id :: int
  tok_account_id :: "string option"
  tok_scopes_json :: "string list option"
  tok_expires_at :: "int option"

record oauth_db =
  db_apps :: "oauth_app_row list"
  db_codes :: "oauth_authorization_code_row list"
  db_tokens :: "oauth_token_row list"
  db_app_tokens :: "oauth_token_row list"
  db_links :: "(int \<times> string) list"

text \<open>\<open>i32::try_from(value).unwrap_or(i32::MAX)\<close>, how an integer is bound to a statement.\<close>

definition i32_binding :: "int \<Rightarrow> int" where
  "i32_binding v = (if - (2 ^ 31) \<le> v \<and> v < 2 ^ 31 then v else 2 ^ 31 - 1)"

definition OOB_REDIRECT :: string where "OOB_REDIRECT = ''urn:ietf:wg:oauth:2.0:oob''"

section \<open>Registering an app\<close>

record create_app_request =
  car_client_name :: "string option"
  car_scopes :: "string option"
  car_website :: "string option"

record parsed_create_app_request =
  pcar_client_name :: string
  pcar_website :: "string option"
  pcar_scopes :: "string list"
  pcar_redirect_uris :: "string list"

definition normalize_required_client_name :: "string option \<Rightarrow> string + string" where
  "normalize_required_client_name v =
    ok_or (opt_filter (\<lambda>x. x \<noteq> []) (map_option trim v)) ''Validation failed: Name can't be blank''"

definition push_scope :: "string \<Rightarrow> string list \<Rightarrow> string list" where
  "push_scope scope scopes =
    (let normalized = trim scope in
     if normalized \<noteq> [] \<and> normalized \<notin> set scopes then scopes @ [normalized] else scopes)"

definition normalize_scopes :: "string option \<Rightarrow> string list" where
  "normalize_scopes v =
    (let scopes = fold push_scope (split_whitespace (unwrap_or v ''read'')) []
     in if scopes = [] then [''read''] else scopes)"

definition http_scheme :: "string \<Rightarrow> bool" where
  "http_scheme s \<longleftrightarrow> s = ''http'' \<or> s = ''https''"

definition normalize_website ::
    "(string \<Rightarrow> parsed_url option) \<Rightarrow> string option \<Rightarrow> string + string option" where
  "normalize_website parse_url v =
    (case map_option trim v of
       None \<Rightarrow> Inr None
     | Some v \<Rightarrow>
         if v = [] then Inr None
         else and_then (ok_or (parse_url v) ''Validation failed: Website must be a valid URL'') (\<lambda>url.
           if \<not> http_scheme (pu_scheme url) \<or> pu_host_str url = None
           then Inl ''Validation failed: Website must be a valid URL''
           else Inr (Some v)))"

definition validate_redirect_uri ::
    "(string \<Rightarrow> parsed_url option) \<Rightarrow> string \<Rightarrow> string + string" where
  "validate_redirect_uri parse_url v =
    (if v = OOB_REDIRECT then Inr v
     else and_then
       (ok_or (parse_url v) ''Validation failed: Redirect URI must be an absolute URI.'') (\<lambda>url.
         if http_scheme (pu_scheme url) \<and> pu_host_str url = None
         then Inl ''Validation failed: Redirect URI must be an absolute URI.''
         else Inr v))"

text \<open>The two nested loops over the words of the values.\<close>

fun collect_redirect_uris ::
    "(string \<Rightarrow> parsed_url option) \<Rightarrow> string list \<Rightarrow> string list \<Rightarrow> string + string list" where
  "collect_redirect_uris parse_url uris [] = Inr uris"
| "collect_redirect_uris parse_url uris (candidate # rest) =
    (let candidate = trim candidate in
     if candidate = [] then collect_redirect_uris parse_url uris rest
     else and_then (validate_redirect_uri parse_url candidate) (\<lambda>normalized.
       collect_redirect_uris parse_url
         (if normalized \<in> set uris then uris else uris @ [normalized]) rest))"

definition normalize_redirect_uris ::
    "(string \<Rightarrow> parsed_url option) \<Rightarrow> string list \<Rightarrow> string + string list" where
  "normalize_redirect_uris parse_url vs =
    and_then (collect_redirect_uris parse_url [] (concat (map split_whitespace vs))) (\<lambda>uris.
      if uris = [] then Inl ''Validation failed: Redirect URI must be an absolute URI.''
      else Inr uris)"

definition parsed_create_app_request_of ::
    "(string \<Rightarrow> parsed_url option) \<Rightarrow> create_app_request \<Rightarrow> string list \<Rightarrow>
     string + parsed_create_app_request" where
  "parsed_create_app_request_of parse_url request redirect_uris =
    and_then (normalize_required_client_name (car_client_name request)) (\<lambda>name.
    and_then (normalize_website parse_url (car_website request)) (\<lambda>website.
    and_then (normalize_redirect_uris parse_url redirect_uris) (\<lambda>uris.
      Inr \<lparr>pcar_client_name = name, pcar_website = website,
           pcar_scopes = normalize_scopes (car_scopes request), pcar_redirect_uris = uris\<rparr>)))"

text \<open>
  The row inserted; the id is the one the table gives. The insert fails, and nothing is stored, when
  the id or the client id is taken.
\<close>

definition insert_oauth_app ::
    "int \<Rightarrow> string \<Rightarrow> string \<Rightarrow> parsed_create_app_request \<Rightarrow> oauth_db \<Rightarrow>
     (oauth_db \<times> oauth_app_row) option" where
  "insert_oauth_app row_id client_id client_secret request db =
    (let row = \<lparr>app_id = row_id, app_name = pcar_client_name request,
           app_website = pcar_website request, app_scopes_json = Some (pcar_scopes request),
           app_redirect_uri_legacy = join [CHR 0x0A] (pcar_redirect_uris request),
           app_redirect_uris_json = Some (pcar_redirect_uris request), app_client_id = client_id,
           app_client_secret = client_secret, app_client_secret_expires_at = 0\<rparr>
     in if list_ex (\<lambda>a. app_id a = row_id \<or> app_client_id a = client_id) (db_apps db) then None
        else Some (db\<lparr>db_apps := db_apps db @ [row]\<rparr>, row))"

section \<open>What an app may use\<close>

definition oauth_app_scopes :: "oauth_app_row \<Rightarrow> string list" where
  "oauth_app_scopes row = unwrap_or (app_scopes_json row) []"

definition oauth_app_has_any_scope :: "oauth_app_row \<Rightarrow> string list \<Rightarrow> bool" where
  "oauth_app_has_any_scope row scopes = list_ex (\<lambda>s. s \<in> set scopes) (oauth_app_scopes row)"

definition oauth_app_redirect_uris :: "oauth_app_row \<Rightarrow> string list" where
  "oauth_app_redirect_uris row =
    (let uris = filter (\<lambda>v. trim v \<noteq> []) (unwrap_or (app_redirect_uris_json row) [])
     in if uris \<noteq> [] then uris
        else filter (\<lambda>v. v \<noteq> [])
          (map trim (split_char (CHR 0x0A) (app_redirect_uri_legacy row))))"

definition redirect_uri_matches_registered ::
    "(string \<Rightarrow> parsed_url option) \<Rightarrow> string \<Rightarrow> string \<Rightarrow> bool" where
  "redirect_uri_matches_registered parse_url registered requested =
    (if registered = requested then True
     else case (parse_url registered, parse_url requested) of
       (Some r, Some q) \<Rightarrow>
         if pu_scheme r \<noteq> pu_scheme q \<or> pu_username r \<noteq> pu_username q \<or>
            pu_password r \<noteq> pu_password q \<or> pu_host_str r \<noteq> pu_host_str q \<or>
            pu_port r \<noteq> pu_port q \<or> pu_query r \<noteq> pu_query q \<or> pu_fragment r \<noteq> pu_fragment q
         then False
         else if http_scheme (pu_scheme r) then pu_path r = pu_path q
         else (pu_path r, pu_path q) \<in> {([], ''/''), (''/'', [])}
     | _ \<Rightarrow> False)"

definition find_oauth_app_by_client_id :: "oauth_db \<Rightarrow> string \<Rightarrow> oauth_app_row option" where
  "find_oauth_app_by_client_id db client_id =
    find (\<lambda>a. app_client_id a = client_id) (db_apps db)"

section \<open>Validating an authorization request\<close>

record oauth_authorize_request =
  oar_response_type :: "string option"
  oar_client_id :: "string option"
  oar_redirect_uri :: "string option"
  oar_scope :: "string option"
  oar_state :: "string option"
  oar_code_challenge :: "string option"
  oar_code_challenge_method :: "string option"

datatype oauth_authorize_failure =
    Html (failure_message: string)
  | Redirect (failure_redirect_uri: string) (failure_state: "string option") (failure_error: string)
      (failure_description: string)

definition code_challenge_method_is_supported :: "string option \<Rightarrow> bool" where
  "code_challenge_method_is_supported m \<longleftrightarrow> m = Some ''S256''"

definition requested_oauth_token_scopes :: "string option \<Rightarrow> string list" where
  "requested_oauth_token_scopes v =
    (let scopes = fold push_scope (split_whitespace (unwrap_or v ''read'')) []
     in if scopes = [] then [''read''] else scopes)"

definition validate_authorize_request ::
    "(string \<Rightarrow> parsed_url option) \<Rightarrow> oauth_db \<Rightarrow> oauth_authorize_request \<Rightarrow>
     oauth_authorize_failure + (oauth_authorize_request \<times> oauth_app_row \<times> string list)" where
  "validate_authorize_request parse_url db request =
    and_then (ok_or (trimmed_option (oar_client_id request)) (Html ''client_id is required''))
      (\<lambda>client_id.
    and_then (ok_or (trimmed_option (oar_redirect_uri request)) (Html ''redirect_uri is required''))
      (\<lambda>redirect_uri.
    let state = trimmed_option (oar_state request) in
    and_then (ok_or (find_oauth_app_by_client_id db client_id) (Html ''Unknown OAuth client''))
      (\<lambda>app.
    if \<not> list_ex (\<lambda>v. redirect_uri_matches_registered parse_url v redirect_uri)
        (oauth_app_redirect_uris app)
    then Inl (Html ''Redirect URI is not registered for this OAuth client'')
    else let response_type = unwrap_or (trimmed_option (oar_response_type request)) ''code'' in
    if response_type \<noteq> ''code''
    then Inl (Redirect redirect_uri state ''unsupported_response_type''
      ''Only response_type=code is supported'')
    else let challenge_method = trimmed_option (oar_code_challenge_method request);
             challenge = trimmed_option (oar_code_challenge request) in
    if challenge \<noteq> None \<and> \<not> code_challenge_method_is_supported challenge_method
    then Inl (Redirect redirect_uri state ''invalid_request'' ''unsupported code_challenge_method'')
    else let requested_scopes = requested_oauth_token_scopes (oar_scope request) in
    if list_ex (\<lambda>scope. scope \<notin> set (oauth_app_scopes app)) requested_scopes
    then Inl (Redirect redirect_uri state ''invalid_scope''
      ''Requested scope is outside the registered app scopes'')
    else Inr (\<lparr>oar_response_type = Some response_type, oar_client_id = Some client_id,
                oar_redirect_uri = Some redirect_uri, oar_scope = map_option trim (oar_scope request),
                oar_state = state, oar_code_challenge = challenge,
                oar_code_challenge_method = challenge_method\<rparr>, app, requested_scopes))))"

section \<open>The authorization endpoint\<close>

text \<open>The answers of the endpoint; an unexpected error of the handler is \<open>Server_Error\<close>.\<close>

datatype authorize_response =
    Server_Error
  | Plain_Error nat string
  | Error_Page nat string
  | Error_Redirect string "string option" string string
  | Login_Redirect
  | Missing_Account_Page
  | Consent_Page bool "string option"
  | Code_Page string
  | Code_Redirect string string "string option"

datatype auth0_authorize_get_action = Get_RedirectToLogin | MissingLinkedAccount | Get_ShowConsent

datatype auth0_authorize_post_action = Post_RedirectToLogin | Post_ShowConsent | IssueCode

definition access_authorize_get_action :: "bool \<Rightarrow> bool \<Rightarrow> auth0_authorize_get_action" where
  "access_authorize_get_action has_account has_user_without_account =
    (if has_account then Get_ShowConsent
     else if has_user_without_account then MissingLinkedAccount
     else Get_RedirectToLogin)"

definition access_authorize_post_action :: "bool \<Rightarrow> bool \<Rightarrow> bool \<Rightarrow> auth0_authorize_post_action" where
  "access_authorize_post_action has_account approved has_valid_credentials =
    (if \<not> has_account then Post_RedirectToLogin
     else if approved \<or> has_valid_credentials then IssueCode
     else Post_ShowConsent)"

definition oauth_authorize_failure_response ::
    "(string \<Rightarrow> parsed_url option) \<Rightarrow> oauth_authorize_failure \<Rightarrow> authorize_response" where
  "oauth_authorize_failure_response parse_url failure =
    (case failure of
       Html message \<Rightarrow> Error_Page 400 message
     | Redirect redirect_uri state error description \<Rightarrow>
         if redirect_uri = OOB_REDIRECT then Error_Page 400 description
         else case parse_url redirect_uri of
           None \<Rightarrow> Server_Error
         | Some _ \<Rightarrow>
             Error_Redirect redirect_uri (opt_filter (\<lambda>s. s \<noteq> []) state) error description)"

text \<open>Comparing bytes without an early exit.\<close>

definition bytes_of :: "string \<Rightarrow> u8 list" where
  "bytes_of s = map (\<lambda>c. word_of_nat (byte c)) s"

definition constant_time_eq :: "u8 list \<Rightarrow> u8 list \<Rightarrow> bool" where
  "constant_time_eq left right =
    (if length left \<noteq> length right then False
     else fold (\<lambda>(l, r) diff. or diff (xor l r)) (zip left right) 0 = 0)"

definition oauth_authorize_csrf_matches :: "string option \<Rightarrow> string option \<Rightarrow> bool" where
  "oauth_authorize_csrf_matches cookie submitted =
    (case trimmed_option submitted of
       None \<Rightarrow> False
     | Some token \<Rightarrow>
         (case cookie of
            None \<Rightarrow> False
          | Some cookie_token \<Rightarrow> constant_time_eq (bytes_of cookie_token) (bytes_of token)))"

definition AUTHORIZATION_CODE_TTL_SECONDS :: int where "AUTHORIZATION_CODE_TTL_SECONDS = 600"

definition issue_oauth_authorization_code ::
    "string \<Rightarrow> int \<Rightarrow> oauth_db \<Rightarrow> int \<Rightarrow> string \<Rightarrow> string \<Rightarrow> string list \<Rightarrow> string option \<Rightarrow>
     string option \<Rightarrow> oauth_db option" where
  "issue_oauth_authorization_code code now db ident account redirect_uri scopes challenge
      challenge_method =
    (let expires_at = now + AUTHORIZATION_CODE_TTL_SECONDS;
         row = \<lparr>code_code = code, code_oauth_app_id = i32_binding ident, code_account_id = account,
           code_redirect_uri = redirect_uri, code_scopes_json = Some scopes,
           code_code_challenge = challenge, code_code_challenge_method = challenge_method,
           code_expires_at = i32_binding expires_at\<rparr>
     in if list_ex (\<lambda>r. code_code r = code) (db_codes db) then None
        else Some (db\<lparr>db_codes := db_codes db @ [row]\<rparr>))"

definition redirect_with_authorization_code ::
    "(string \<Rightarrow> parsed_url option) \<Rightarrow> string \<Rightarrow> int \<Rightarrow> oauth_db \<Rightarrow> oauth_authorize_request \<Rightarrow>
     oauth_app_row \<Rightarrow> string \<Rightarrow> string list \<Rightarrow> oauth_db \<times> authorize_response" where
  "redirect_with_authorization_code parse_url code now db request app account scopes =
    (case oar_redirect_uri request of
       None \<Rightarrow> (db, Server_Error)
     | Some redirect_uri \<Rightarrow>
         (case issue_oauth_authorization_code code now db (app_id app) account redirect_uri scopes
             (oar_code_challenge request) (oar_code_challenge_method request) of
            None \<Rightarrow> (db, Server_Error)
          | Some db' \<Rightarrow>
              (db', if redirect_uri = OOB_REDIRECT then Code_Page code
                    else case parse_url redirect_uri of
                      None \<Rightarrow> Server_Error
                    | Some _ \<Rightarrow> Code_Redirect redirect_uri code (oar_state request))))"

text \<open>
  The password of the form: the account named, by its address where the name has an at sign, and
  the comparison of its stored hash.
\<close>

definition authorize_account_by_password ::
    "(string \<Rightarrow> 'a option) \<Rightarrow> (string \<Rightarrow> 'a option) \<Rightarrow> ('a \<Rightarrow> string option) \<Rightarrow>
     (string \<Rightarrow> string \<Rightarrow> bool) \<Rightarrow> string option \<Rightarrow> string option \<Rightarrow> 'a option" where
  "authorize_account_by_password by_email by_username password_hash verify name password =
    (case (trimmed_option name, opt_filter (\<lambda>p. p \<noteq> []) password) of
       (Some name, Some password) \<Rightarrow>
         Option.bind
           (if CHR ''@'' \<in> set name then by_email name else by_username (to_ascii_lowercase name))
           (\<lambda>account. Option.bind (password_hash account) (\<lambda>hash.
             if verify password hash then Some account else None))
     | _ \<Rightarrow> None)"

text \<open>
  What the handler finds out of a posted form: whether Auth0 is configured, the account the request
  is authenticated for, the one the password of the form is for, whether the form approves, and the
  two tokens.
\<close>

record authorize_post =
  ap_auth0 :: bool
  ap_authenticated :: "string option"
  ap_password_account :: "string option"
  ap_approve :: bool
  ap_csrf_cookie :: "string option"
  ap_csrf_token :: "string option"

definition oauth_authorize_post ::
    "(string \<Rightarrow> parsed_url option) \<Rightarrow> string \<Rightarrow> int \<Rightarrow> oauth_db \<Rightarrow> oauth_authorize_request \<Rightarrow>
     authorize_post \<Rightarrow> oauth_db \<times> authorize_response" where
  "oauth_authorize_post parse_url code now db request p =
    (case validate_authorize_request parse_url db request of
       Inl failure \<Rightarrow> (db, oauth_authorize_failure_response parse_url failure)
     | Inr (authorize, app, scopes) \<Rightarrow>
         let csrf_valid = oauth_authorize_csrf_matches (ap_csrf_cookie p) (ap_csrf_token p);
             issue = (\<lambda>account.
               redirect_with_authorization_code parse_url code now db authorize app account scopes)
         in if ap_auth0 p
            then case access_authorize_post_action (ap_authenticated p \<noteq> None) (ap_approve p)
                (ap_password_account p \<noteq> None) of
                Post_RedirectToLogin \<Rightarrow> (db, Login_Redirect)
              | Post_ShowConsent \<Rightarrow> (db, Consent_Page False None)
              | IssueCode \<Rightarrow>
                  if \<not> csrf_valid
                  then (db, Plain_Error 403 ''Invalid OAuth authorization CSRF token.'')
                  else case opt_or (ap_password_account p) (ap_authenticated p) of
                      None \<Rightarrow> (db, Plain_Error 401 ''Authenticated account is required.'')
                    | Some account \<Rightarrow> issue account
            else if \<not> csrf_valid
            then (db, Plain_Error 403 ''Invalid OAuth authorization CSRF token.'')
            else case opt_or (if ap_approve p then ap_authenticated p else None)
                (ap_password_account p) of
                None \<Rightarrow> (db, Consent_Page True (Some ''Invalid username or password.''))
              | Some account \<Rightarrow> issue account)"

definition oauth_authorize_get ::
    "(string \<Rightarrow> parsed_url option) \<Rightarrow> oauth_db \<Rightarrow> oauth_authorize_request \<Rightarrow> bool \<Rightarrow> string option \<Rightarrow>
     bool \<Rightarrow> authorize_response" where
  "oauth_authorize_get parse_url db request auth0 authenticated has_user =
    (case validate_authorize_request parse_url db request of
       Inl failure \<Rightarrow> oauth_authorize_failure_response parse_url failure
     | Inr _ \<Rightarrow>
         if auth0
         then case access_authorize_get_action (authenticated \<noteq> None) has_user of
             Get_RedirectToLogin \<Rightarrow> Login_Redirect
           | MissingLinkedAccount \<Rightarrow> Missing_Account_Page
           | Get_ShowConsent \<Rightarrow> Consent_Page False None
         else if authenticated \<noteq> None then Consent_Page False None
         else Consent_Page True None)"

section \<open>Facts\<close>

lemma fold_diff: "fold (\<lambda>(l, r) diff. or diff (xor l r)) ps d = (0::u8) \<longleftrightarrow>
    d = 0 \<and> list_all (\<lambda>(l, r). l = r) ps"
proof (induction ps arbitrary: d)
  case (Cons p ps)
  have "or a b = 0 \<longleftrightarrow> a = 0 \<and> b = 0" for a b :: u8
    by (metis or_eq_0_iff)
  moreover have "xor a b = 0 \<longleftrightarrow> a = b" for a b :: u8
    by (metis bit.xor_left_self xor.right_neutral xor_self_eq)
  ultimately show ?case using Cons by (cases p) simp
qed simp

lemma constant_time_eq_iff: "constant_time_eq left right \<longleftrightarrow> left = right"
proof -
  have "list_all (\<lambda>(l, r). l = r) (zip xs ys) \<longleftrightarrow> xs = ys" if "length xs = length ys" for xs ys :: "u8 list"
    using that by (induction xs ys rule: list_induct2) auto
  then show ?thesis by (auto simp: constant_time_eq_def fold_diff)
qed

lemma bytes_of_inject: "bytes_of a = bytes_of b \<longleftrightarrow> a = b"
proof -
  have "inj (\<lambda>c. word_of_nat (byte c) :: u8)"
  proof (rule injI)
    fix c d :: char
    assume "(word_of_nat (byte c) :: u8) = word_of_nat (byte d)"
    then have "unat (word_of_nat (byte c) :: u8) = unat (word_of_nat (byte d) :: u8)" by simp
    then have "byte c = byte d" by (simp add: unat_of_nat take_bit_eq_mod)
    then show "c = d" by simp
  qed
  then show ?thesis by (simp add: bytes_of_def inj_map_eq_map)
qed

lemma push_scope_keeps: "distinct xs \<Longrightarrow> distinct (push_scope x xs)" "set xs \<subseteq> set (push_scope x xs)"
  by (auto simp: push_scope_def Let_def)

lemma fold_push_scope_distinct: "distinct xs \<Longrightarrow> distinct (fold push_scope ws xs)"
  by (induction ws arbitrary: xs) (simp_all add: push_scope_keeps)

lemma requested_scopes:
  "requested_oauth_token_scopes v \<noteq> []" "distinct (requested_oauth_token_scopes v)"
  by (simp_all add: requested_oauth_token_scopes_def Let_def fold_push_scope_distinct)

text \<open>An address registered for an app, up to the parsing of the two.\<close>

definition registered_for ::
    "(string \<Rightarrow> parsed_url option) \<Rightarrow> oauth_app_row \<Rightarrow> string \<Rightarrow> bool" where
  "registered_for parse_url app uri \<longleftrightarrow>
    list_ex (\<lambda>v. redirect_uri_matches_registered parse_url v uri) (oauth_app_redirect_uris app)"

lemma find_app_Some:
  "find_oauth_app_by_client_id db client = Some app \<Longrightarrow>
    app \<in> set (db_apps db) \<and> app_client_id app = client"
  unfolding find_oauth_app_by_client_id_def find_Some_iff by auto

lemma validate_Inr:
  assumes "validate_authorize_request parse_url db request = Inr (r, app, scopes)"
  shows "find_oauth_app_by_client_id db (app_client_id app) = Some app"
    "trimmed_option (oar_client_id request) = Some (app_client_id app)"
    "\<exists>uri. oar_redirect_uri r = Some uri \<and> registered_for parse_url app uri"
    "scopes = requested_oauth_token_scopes (oar_scope request)"
    "set scopes \<subseteq> set (oauth_app_scopes app)"
    "oar_code_challenge r = None \<or> oar_code_challenge_method r = Some ''S256''"
  using assms find_app_Some
  by (auto simp: validate_authorize_request_def and_then_Inr ok_or_def Let_def registered_for_def
      code_challenge_method_is_supported_def list_ex_iff split: option.splits if_splits)

lemma validate_Inl_Redirect:
  assumes "validate_authorize_request parse_url db request = Inl (Redirect uri state e d)"
  shows "\<exists>app. find_oauth_app_by_client_id db (app_client_id app) = Some app \<and>
    trimmed_option (oar_client_id request) = Some (app_client_id app) \<and>
    trimmed_option (oar_redirect_uri request) = Some uri \<and> registered_for parse_url app uri"
  using assms find_app_Some
  by (fastforce simp: validate_authorize_request_def and_then_Inl ok_or_def Let_def registered_for_def
      split: option.splits if_splits)

lemma failure_response_redirect:
  assumes "oauth_authorize_failure_response parse_url failure = Error_Redirect uri state e d"
  shows "\<exists>st. failure = Redirect uri st e d"
  using assms by (auto simp: oauth_authorize_failure_response_def
      split: oauth_authorize_failure.splits if_splits option.splits)

text \<open>The row that a code issued for a validated request stores.\<close>

definition code_row_for ::
    "string \<Rightarrow> int \<Rightarrow> oauth_authorize_request \<Rightarrow> oauth_app_row \<Rightarrow> string \<Rightarrow> string list \<Rightarrow>
     string \<Rightarrow> oauth_authorization_code_row" where
  "code_row_for code now r app uri scopes account =
    \<lparr>code_code = code, code_oauth_app_id = i32_binding (app_id app), code_account_id = account,
     code_redirect_uri = uri, code_scopes_json = Some scopes,
     code_code_challenge = oar_code_challenge r,
     code_code_challenge_method = oar_code_challenge_method r,
     code_expires_at = i32_binding (now + 600)\<rparr>"

lemma redirect_with_code:
  assumes "oar_redirect_uri r = Some uri"
    and "redirect_with_authorization_code parse_url code now db r app account scopes = (db', response)"
  shows "(db' = db \<and> response = Server_Error) \<or>
    (list_all (\<lambda>c. code_code c \<noteq> code) (db_codes db) \<and>
     db' = db\<lparr>db_codes := db_codes db @ [code_row_for code now r app uri scopes account]\<rparr> \<and>
     response \<in> {Server_Error, Code_Page code, Code_Redirect uri code (oar_state r)})"
  using assms
  by (auto simp: redirect_with_authorization_code_def issue_oauth_authorization_code_def Let_def
      code_row_for_def AUTHORIZATION_CODE_TTL_SECONDS_def list_ex_iff list_all_iff
      split: if_splits option.splits)

text \<open>The account a posted form may consent for.\<close>

definition consents :: "authorize_post \<Rightarrow> string \<Rightarrow> bool" where
  "consents p account \<longleftrightarrow>
    (case ap_csrf_cookie p of
       None \<Rightarrow> False
     | Some token \<Rightarrow> trimmed_option (ap_csrf_token p) = Some token) \<and>
    (ap_password_account p = Some account \<or> (ap_approve p \<and> ap_authenticated p = Some account))"

lemma csrf_iff:
  "oauth_authorize_csrf_matches cookie submitted \<longleftrightarrow>
    (case cookie of None \<Rightarrow> False | Some token \<Rightarrow> trimmed_option submitted = Some token)"
  by (auto simp: oauth_authorize_csrf_matches_def constant_time_eq_iff bytes_of_inject
      split: option.split)

lemma authorize_post_cases:
  assumes "oauth_authorize_post parse_url code now db request p = (db', response)"
  shows "(db' = db \<and> (\<forall>uri c st. response \<noteq> Code_Redirect uri c st) \<and> (\<forall>c. response \<noteq> Code_Page c)) \<or>
    (\<exists>r app scopes account.
      validate_authorize_request parse_url db request = Inr (r, app, scopes) \<and> consents p account \<and>
      redirect_with_authorization_code parse_url code now db r app account scopes = (db', response))"
proof (cases "validate_authorize_request parse_url db request")
  case (Inl failure)
  then show ?thesis
    using assms by (auto simp: oauth_authorize_post_def oauth_authorize_failure_response_def
        split: oauth_authorize_failure.splits if_splits option.splits)
next
  case (Inr v)
  obtain r app scopes where v: "v = (r, app, scopes)" by (cases v) auto
  show ?thesis
    using assms Inr
    by (cases "ap_password_account p"; cases "ap_authenticated p"; cases "ap_approve p")
       (auto simp: oauth_authorize_post_def v Let_def access_authorize_post_action_def csrf_iff
         consents_def split: if_splits option.splits)
qed

lemma authorize_post_error:
  assumes "snd (oauth_authorize_post parse_url code now db request p) = Error_Redirect uri state e d"
  shows "\<exists>st. validate_authorize_request parse_url db request = Inl (Redirect uri st e d)"
proof (cases "validate_authorize_request parse_url db request")
  case (Inl failure)
  then show ?thesis using assms failure_response_redirect by (auto simp: oauth_authorize_post_def)
next
  case (Inr v)
  obtain r app scopes where v: "v = (r, app, scopes)" by (cases v) auto
  then show ?thesis
    using assms Inr
    by (auto simp: oauth_authorize_post_def Let_def redirect_with_authorization_code_def
        split: if_splits option.splits auth0_authorize_post_action.splits)
qed

lemma authorize_post_code:
  assumes "snd (oauth_authorize_post parse_url code now db request p) = Code_Redirect uri c st"
  shows "\<exists>r app scopes. validate_authorize_request parse_url db request = Inr (r, app, scopes) \<and>
    oar_redirect_uri r = Some uri"
proof -
  obtain db' response where post: "oauth_authorize_post parse_url code now db request p = (db', response)"
    by (cases "oauth_authorize_post parse_url code now db request p") auto
  from assms post obtain r app scopes account where
    v: "validate_authorize_request parse_url db request = Inr (r, app, scopes)" and
    red: "redirect_with_authorization_code parse_url code now db r app account scopes = (db', response)"
    using authorize_post_cases [OF post] by auto
  from validate_Inr(3) [OF v] obtain u where "oar_redirect_uri r = Some u" by blast
  with redirect_with_code [OF this red] assms post v show ?thesis by auto
qed

text \<open>An address registered for the client a request names.\<close>

definition registered_redirect ::
    "(string \<Rightarrow> parsed_url option) \<Rightarrow> oauth_db \<Rightarrow> oauth_authorize_request \<Rightarrow> string \<Rightarrow> bool" where
  "registered_redirect parse_url db request uri \<longleftrightarrow>
    (case find_oauth_app_by_client_id db (unwrap_or (trimmed_option (oar_client_id request)) []) of
       None \<Rightarrow> False
     | Some app \<Rightarrow> registered_for parse_url app uri)"

lemma failure_registered:
  assumes "validate_authorize_request parse_url db request = Inl (Redirect uri state e d)"
  shows "registered_redirect parse_url db request uri"
  using validate_Inl_Redirect [OF assms] by (auto simp: registered_redirect_def)

lemma accepted_registered:
  assumes "validate_authorize_request parse_url db request = Inr (r, app, scopes)"
  shows "\<exists>uri. oar_redirect_uri r = Some uri \<and> registered_redirect parse_url db request uri"
  using validate_Inr(1,2,3) [OF assms] by (auto simp: registered_redirect_def)

lemma post_registered:
  "case snd (oauth_authorize_post parse_url code now db request p) of
      Error_Redirect uri _ _ _ \<Rightarrow> registered_redirect parse_url db request uri
    | Code_Redirect uri _ _ \<Rightarrow> registered_redirect parse_url db request uri
    | _ \<Rightarrow> True"
proof (cases "snd (oauth_authorize_post parse_url code now db request p)")
  case (Error_Redirect uri state e d)
  then show ?thesis using authorize_post_error [OF Error_Redirect] failure_registered by auto
next
  case (Code_Redirect uri c st)
  from authorize_post_code [OF this] accepted_registered
  have "registered_redirect parse_url db request uri" by fastforce
  then show ?thesis using Code_Redirect by simp
qed simp_all

section \<open>Properties\<close>

text \<open>
  C17: The authorization endpoint is no open redirector. Whatever the request, its errors and its
  codes are sent only to an address registered for the client it names, and a request that is
  accepted asks for scopes of that client, each once, and for a challenge only by SHA-256.
\<close>

theorem redirects_only_to_registered:
  "(case validate_authorize_request parse_url db request of
      Inl (Html _) \<Rightarrow> True
    | Inl (Redirect uri state e d) \<Rightarrow> registered_redirect parse_url db request uri
    | Inr (r, app, scopes) \<Rightarrow>
        (case oar_redirect_uri r of
           None \<Rightarrow> False | Some uri \<Rightarrow> registered_redirect parse_url db request uri) \<and>
        scopes \<noteq> [] \<and> distinct scopes \<and> set scopes \<subseteq> set (oauth_app_scopes app) \<and>
        oar_code_challenge_method r =
          (case oar_code_challenge r of None \<Rightarrow> oar_code_challenge_method r | Some _ \<Rightarrow> Some ''S256'')) \<and>
   (case snd (oauth_authorize_post parse_url code now db request p) of
      Error_Redirect uri _ _ _ \<Rightarrow> registered_redirect parse_url db request uri
    | Code_Redirect uri _ _ \<Rightarrow> registered_redirect parse_url db request uri
    | _ \<Rightarrow> True)"
proof (intro conjI post_registered)
  show "case validate_authorize_request parse_url db request of
      Inl (Html _) \<Rightarrow> True
    | Inl (Redirect uri state e d) \<Rightarrow> registered_redirect parse_url db request uri
    | Inr (r, app, scopes) \<Rightarrow>
        (case oar_redirect_uri r of
           None \<Rightarrow> False | Some uri \<Rightarrow> registered_redirect parse_url db request uri) \<and>
        scopes \<noteq> [] \<and> distinct scopes \<and> set scopes \<subseteq> set (oauth_app_scopes app) \<and>
        oar_code_challenge_method r =
          (case oar_code_challenge r of None \<Rightarrow> oar_code_challenge_method r | Some _ \<Rightarrow> Some ''S256'')"
  proof (cases "validate_authorize_request parse_url db request")
    case (Inl f)
    then show ?thesis using failure_registered by (cases f) auto
  next
    case (Inr x)
    obtain r app scopes where x: "x = (r, app, scopes)" by (cases x) auto
    note accepted = Inr [unfolded x]
    from accepted_registered [OF accepted] show ?thesis
      using Inr validate_Inr(4,5,6) [OF accepted] requested_scopes
      by (auto simp: x split: option.split)
  qed
qed

text \<open>
  C16: A code is issued only with consent: posting the form leaves the tables as they are, or adds
  one new code, for ten minutes, to an account whose password the form gives or that is logged in
  and approves, where the form repeats the token of its cookie; and only then is a code sent.
\<close>

theorem code_needs_consent:
  "(case oauth_authorize_post parse_url code now db request p of (db', response) \<Rightarrow>
      (db' = db \<and>
        (case response of Code_Redirect _ _ _ \<Rightarrow> False | Code_Page _ \<Rightarrow> False | _ \<Rightarrow> True)) \<or>
      (\<exists>account r app scopes uri.
        db' = db\<lparr>db_codes := db_codes db @ [code_row_for code now r app uri scopes account]\<rparr> \<and>
        list_all (\<lambda>c. code_code c \<noteq> code) (db_codes db) \<and>
        validate_authorize_request parse_url db request = Inr (r, app, scopes) \<and>
        oar_redirect_uri r = Some uri \<and> consents p account \<and>
        response \<in> {Server_Error, Code_Page code, Code_Redirect uri code (oar_state r)}))"
proof -
  obtain db' response where post: "oauth_authorize_post parse_url code now db request p = (db', response)"
    by (cases "oauth_authorize_post parse_url code now db request p") auto
  from authorize_post_cases [OF post] show ?thesis
  proof (elim disjE exE conjE)
    assume "db' = db" "\<forall>uri c st. response \<noteq> Code_Redirect uri c st" "\<forall>c. response \<noteq> Code_Page c"
    then show ?thesis using post by (cases response) auto
  next
    fix r app scopes account
    assume v: "validate_authorize_request parse_url db request = Inr (r, app, scopes)"
      and "consents p account"
      and red: "redirect_with_authorization_code parse_url code now db r app account scopes = (db', response)"
    moreover from validate_Inr(3) [OF v] obtain uri where uri: "oar_redirect_uri r = Some uri" by blast
    ultimately show ?thesis
      using redirect_with_code [OF uri red] post by auto
  qed
qed

end
