(* ===== verification/OAuth_Tokens.thy ===== *)
theory OAuth_Tokens
  imports OAuth_Apps
begin

text \<open>
  Tokens (\<open>cfwdon-worker/src/oauth_apps/token_routes.rs\<close>, \<open>oauth_store.rs\<close>, \<open>auth.rs\<close>): the exchange of
  a code, the grant to an app, revocation, and the tokens a request presents. SHA-256, its two
  encodings and the random identifiers are arguments; the exchange of a code is split where other
  requests can come between its reads and its writes.
\<close>

section \<open>Requests\<close>

record oauth_token_request =
  otr_grant_type :: "string option"
  otr_client_id :: "string option"
  otr_client_secret :: "string option"
  otr_redirect_uri :: "string option"
  otr_scope :: "string option"
  otr_code :: "string option"
  otr_code_verifier :: "string option"

record authorization_code_token_input =
  ati_client_id :: string
  ati_client_secret :: "string option"
  ati_code :: string
  ati_redirect_uri :: string
  ati_code_verifier :: "string option"

datatype token_response =
    Token_Failure
  | Token_Error nat string
  | Token_Document string "string list" "int option"
  | Token_Revoked

abbreviation invalid_client :: token_response where
  "invalid_client \<equiv> Token_Error 401 ''invalid_client''"

abbreviation invalid_grant :: token_response where
  "invalid_grant \<equiv> Token_Error 400 ''invalid_grant''"

text \<open>
  \<open>Basic\<close> credentials, with the decoding of base64 to UTF-8 an argument, and \<open>Bearer\<close> tokens.
\<close>

definition parse_basic_authorization_header ::
    "(string \<Rightarrow> string option) \<Rightarrow> string \<Rightarrow> (string \<times> string) option" where
  "parse_basic_authorization_header decode v =
    Option.bind (strip_prefix (trim v) ''Basic '') (\<lambda>encoded.
    Option.bind (decode (trim encoded)) (\<lambda>decoded.
    Option.bind (split_once decoded (CHR '':'')) (\<lambda>(client_id, client_secret).
      if trim client_id = [] \<or> trim client_secret = [] then None
      else Some (trim client_id, trim client_secret))))"

definition parse_bearer_authorization_header :: "string \<Rightarrow> string option" where
  "parse_bearer_authorization_header v =
    Option.bind (split_once (trim v) (CHR '' '')) (\<lambda>(scheme, token).
      if \<not> eq_ignore_ascii_case scheme ''Bearer'' then None
      else then_some (trim token \<noteq> []) (trim token))"

definition token_input_from_request ::
    "oauth_token_request \<Rightarrow> (string \<times> string) option \<Rightarrow> authorization_code_token_input option" where
  "token_input_from_request request credentials =
    Option.bind (opt_or (map_option fst credentials) (trimmed_option (otr_client_id request)))
      (\<lambda>client_id.
    let client_secret =
      opt_or (map_option snd credentials) (trimmed_option (otr_client_secret request)) in
    Option.bind (trimmed_option (otr_code request)) (\<lambda>code.
    Option.bind (trimmed_option (otr_redirect_uri request)) (\<lambda>redirect_uri.
      Some \<lparr>ati_client_id = client_id, ati_client_secret = client_secret, ati_code = code,
            ati_redirect_uri = redirect_uri,
            ati_code_verifier = trimmed_option (otr_code_verifier request)\<rparr>)))"

definition client_secret_matches_app :: "oauth_app_row \<Rightarrow> string option \<Rightarrow> bool" where
  "client_secret_matches_app app secret =
    (case secret of None \<Rightarrow> True | Some s \<Rightarrow> app_client_secret app = s)"

definition authorization_code_matches_request ::
    "oauth_authorization_code_row \<Rightarrow> oauth_app_row \<Rightarrow> string \<Rightarrow> bool" where
  "authorization_code_matches_request row app redirect_uri \<longleftrightarrow>
    code_oauth_app_id row = app_id app \<and> code_redirect_uri row = redirect_uri"

text \<open>\<open>challenge_of\<close> is the unpadded base64 of the SHA-256 of the verifier.\<close>

definition pkce_code_challenge :: "(string \<Rightarrow> string) \<Rightarrow> string \<Rightarrow> string option \<Rightarrow> string" where
  "pkce_code_challenge challenge_of verifier m =
    (if m = Some ''S256'' then challenge_of verifier else verifier)"

definition pkce_verifier_matches ::
    "(string \<Rightarrow> string) \<Rightarrow> string \<Rightarrow> string \<Rightarrow> string option \<Rightarrow> bool" where
  "pkce_verifier_matches challenge_of verifier challenge m =
    (if \<not> code_challenge_method_is_supported m then False
     else constant_time_eq (bytes_of (pkce_code_challenge challenge_of verifier m))
       (bytes_of challenge))"

definition authorization_code_allows_client ::
    "(string \<Rightarrow> string) \<Rightarrow> oauth_authorization_code_row \<Rightarrow> authorization_code_token_input \<Rightarrow> bool" where
  "authorization_code_allows_client challenge_of row input =
    (case code_code_challenge row of
       Some challenge \<Rightarrow>
         (case ati_code_verifier input of
            None \<Rightarrow> False
          | Some verifier \<Rightarrow>
              pkce_verifier_matches challenge_of verifier challenge (code_code_challenge_method row))
     | None \<Rightarrow> ati_client_secret input \<noteq> None)"

section \<open>The tables\<close>

definition load_oauth_authorization_code ::
    "oauth_db \<Rightarrow> string \<Rightarrow> oauth_authorization_code_row option" where
  "load_oauth_authorization_code db code = find (\<lambda>r. code_code r = code) (db_codes db)"

definition delete_oauth_authorization_code :: "oauth_db \<Rightarrow> string \<Rightarrow> oauth_db" where
  "delete_oauth_authorization_code db code =
    db\<lparr>db_codes := filter (\<lambda>r. code_code r \<noteq> code) (db_codes db)\<rparr>"

definition oauth_bearer_token_hash :: "(string \<Rightarrow> string) \<Rightarrow> string \<Rightarrow> string" where
  "oauth_bearer_token_hash sha token = ''sha256:'' @ sha token"

text \<open>The insert fails where the primary key, the token, is taken.\<close>

definition issue_oauth_access_token ::
    "(string \<Rightarrow> string) \<Rightarrow> string \<Rightarrow> oauth_db \<Rightarrow> int \<Rightarrow> string \<Rightarrow> string list \<Rightarrow> oauth_db option" where
  "issue_oauth_access_token sha token db ident account scopes =
    (let hash = oauth_bearer_token_hash sha token;
         row = \<lparr>tok_access_token = hash, tok_access_token_hash = Some hash,
           tok_oauth_app_id = i32_binding ident, tok_account_id = Some account,
           tok_scopes_json = Some scopes, tok_expires_at = None\<rparr>
     in if list_ex (\<lambda>r. tok_access_token r = hash) (db_tokens db) then None
        else Some (db\<lparr>db_tokens := db_tokens db @ [row]\<rparr>))"

definition APP_ACCESS_TOKEN_TTL_SECONDS :: int where "APP_ACCESS_TOKEN_TTL_SECONDS = 3600"

definition issue_oauth_app_access_token ::
    "(string \<Rightarrow> string) \<Rightarrow> string \<Rightarrow> int \<Rightarrow> oauth_db \<Rightarrow> int \<Rightarrow> string list \<Rightarrow> oauth_db option" where
  "issue_oauth_app_access_token sha token now db ident scopes =
    (let hash = oauth_bearer_token_hash sha token;
         expires_at = now + APP_ACCESS_TOKEN_TTL_SECONDS;
         row = \<lparr>tok_access_token = hash, tok_access_token_hash = Some hash,
           tok_oauth_app_id = i32_binding ident, tok_account_id = None,
           tok_scopes_json = Some scopes, tok_expires_at = Some (i32_binding expires_at)\<rparr>
     in if list_ex (\<lambda>r. tok_access_token r = hash) (db_app_tokens db) then None
        else Some (db\<lparr>db_app_tokens := db_app_tokens db @ [row]\<rparr>))"

text \<open>\<open>INSERT OR REPLACE\<close>: an account is linked to one app.\<close>

definition link_oauth_app_to_account :: "oauth_db \<Rightarrow> int \<Rightarrow> string \<Rightarrow> oauth_db" where
  "link_oauth_app_to_account db ident account =
    db\<lparr>db_links := filter (\<lambda>(_, a). a \<noteq> account) (db_links db) @ [(ident, account)]\<rparr>"

definition revoke_matches :: "(string \<Rightarrow> string) \<Rightarrow> int \<Rightarrow> string \<Rightarrow> oauth_token_row \<Rightarrow> bool" where
  "revoke_matches sha ident token r \<longleftrightarrow>
    tok_oauth_app_id r = i32_binding ident \<and>
    (tok_access_token_hash r = Some (oauth_bearer_token_hash sha token) \<or> tok_access_token r = token)"

definition revoke_oauth_access_token ::
    "(string \<Rightarrow> string) \<Rightarrow> oauth_db \<Rightarrow> int \<Rightarrow> string \<Rightarrow> oauth_db" where
  "revoke_oauth_access_token sha db ident token =
    db\<lparr>db_tokens := filter (\<lambda>r. \<not> revoke_matches sha ident token r) (db_tokens db),
       db_app_tokens := filter (\<lambda>r. \<not> revoke_matches sha ident token r) (db_app_tokens db)\<rparr>"

section \<open>The token endpoint\<close>

text \<open>The checks of the exchange, up to the first write; an expired code is deleted.\<close>

definition exchange_check ::
    "(string \<Rightarrow> string) \<Rightarrow> int \<Rightarrow> oauth_db \<Rightarrow> authorization_code_token_input \<Rightarrow>
     (oauth_db \<times> token_response) + (oauth_app_row \<times> oauth_authorization_code_row)" where
  "exchange_check challenge_of now db input =
    (case find_oauth_app_by_client_id db (ati_client_id input) of
       None \<Rightarrow> Inl (db, invalid_client)
     | Some app \<Rightarrow>
         if \<not> client_secret_matches_app app (ati_client_secret input) then Inl (db, invalid_client)
         else case load_oauth_authorization_code db (ati_code input) of
           None \<Rightarrow> Inl (db, invalid_grant)
         | Some row \<Rightarrow>
             if \<not> authorization_code_matches_request row app (ati_redirect_uri input)
             then Inl (db, invalid_grant)
             else if code_expires_at row < now
             then Inl (delete_oauth_authorization_code db (code_code row), invalid_grant)
             else if \<not> authorization_code_allows_client challenge_of row input
             then Inl (db, invalid_grant)
             else Inr (app, row))"

text \<open>Its writes, of a token for the account of the code, which may be gone.\<close>

definition exchange_commit ::
    "(string \<Rightarrow> string) \<Rightarrow> string \<Rightarrow> (string \<Rightarrow> bool) \<Rightarrow> oauth_db \<Rightarrow> oauth_app_row \<Rightarrow>
     oauth_authorization_code_row \<Rightarrow> oauth_db \<times> token_response" where
  "exchange_commit sha token account_exists db app row =
    (let scopes = unwrap_or (code_scopes_json row) [] in
     case issue_oauth_access_token sha token db (app_id app) (code_account_id row) scopes of
       None \<Rightarrow> (db, Token_Failure)
     | Some db1 \<Rightarrow>
         let db2 = link_oauth_app_to_account db1 (app_id app) (code_account_id row);
             db3 = delete_oauth_authorization_code db2 (code_code row)
         in if \<not> account_exists (code_account_id row) then (db3, invalid_grant)
            else (db3, Token_Document token scopes None))"

definition oauth_authorization_code_token_response ::
    "(string \<Rightarrow> string) \<Rightarrow> (string \<Rightarrow> string) \<Rightarrow> string \<Rightarrow> (string \<Rightarrow> bool) \<Rightarrow> int \<Rightarrow> oauth_db \<Rightarrow>
     oauth_token_request \<Rightarrow> (string \<times> string) option \<Rightarrow> oauth_db \<times> token_response" where
  "oauth_authorization_code_token_response sha challenge_of token account_exists now db request
      credentials =
    (case token_input_from_request request credentials of
       None \<Rightarrow> (db, invalid_client)
     | Some input \<Rightarrow>
         (case exchange_check challenge_of now db input of
            Inl result \<Rightarrow> result
          | Inr (app, row) \<Rightarrow> exchange_commit sha token account_exists db app row))"

definition client_credentials_token_response ::
    "(string \<Rightarrow> parsed_url option) \<Rightarrow> (string \<Rightarrow> string) \<Rightarrow> string \<Rightarrow> int \<Rightarrow> oauth_db \<Rightarrow>
     oauth_token_request \<Rightarrow> (string \<times> string) option \<Rightarrow> oauth_db \<times> token_response" where
  "client_credentials_token_response parse_url sha token now db request credentials =
    (case (opt_or (map_option fst credentials) (trimmed_option (otr_client_id request)),
           opt_or (map_option snd credentials) (trimmed_option (otr_client_secret request)),
           trimmed_option (otr_redirect_uri request)) of
       (Some client_id, Some client_secret, Some redirect_uri) \<Rightarrow>
         (case find_oauth_app_by_client_id db client_id of
            None \<Rightarrow> (db, invalid_client)
          | Some app \<Rightarrow>
              if app_client_secret app \<noteq> client_secret then (db, invalid_client)
              else if \<not> list_ex (\<lambda>v. redirect_uri_matches_registered parse_url v redirect_uri)
                  (oauth_app_redirect_uris app)
              then (db, invalid_client)
              else let requested_scopes = requested_oauth_token_scopes (otr_scope request) in
              if list_ex (\<lambda>scope. scope \<notin> set (oauth_app_scopes app)) requested_scopes
              then (db, Token_Error 400 ''invalid_scope'')
              else case issue_oauth_app_access_token sha token now db (app_id app) requested_scopes of
                None \<Rightarrow> (db, Token_Failure)
              | Some db' \<Rightarrow>
                  (db', Token_Document token requested_scopes (Some APP_ACCESS_TOKEN_TTL_SECONDS)))
     | _ \<Rightarrow> (db, invalid_client))"

definition oauth_token_response ::
    "(string \<Rightarrow> parsed_url option) \<Rightarrow> (string \<Rightarrow> string) \<Rightarrow> (string \<Rightarrow> string) \<Rightarrow> string \<Rightarrow>
     (string \<Rightarrow> bool) \<Rightarrow> int \<Rightarrow> oauth_db \<Rightarrow> oauth_token_request \<Rightarrow> (string \<times> string) option \<Rightarrow>
     oauth_db \<times> token_response" where
  "oauth_token_response parse_url sha challenge_of token account_exists now db request credentials =
    (let grant_type = unwrap_or (map_option trim (otr_grant_type request)) [] in
     if grant_type = ''authorization_code''
     then oauth_authorization_code_token_response sha challenge_of token account_exists now db
       request credentials
     else if grant_type \<noteq> ''client_credentials'' then (db, Token_Error 400 ''unsupported_grant_type'')
     else client_credentials_token_response parse_url sha token now db request credentials)"

definition oauth_revoke_response ::
    "(string \<Rightarrow> string) \<Rightarrow> oauth_db \<Rightarrow> string option \<Rightarrow> string option \<Rightarrow> string option \<Rightarrow>
     (string \<times> string) option \<Rightarrow> oauth_db \<times> token_response" where
  "oauth_revoke_response sha db token client_id client_secret credentials =
    (case trimmed_option token of
       None \<Rightarrow> (db, Token_Error 400 ''invalid_request'')
     | Some token \<Rightarrow>
         (case (opt_or (map_option fst credentials) (trimmed_option client_id),
                opt_or (map_option snd credentials) (trimmed_option client_secret)) of
            (Some client_id, Some client_secret) \<Rightarrow>
              (case find_oauth_app_by_client_id db client_id of
                 None \<Rightarrow> (db, invalid_client)
               | Some app \<Rightarrow>
                   if app_client_secret app \<noteq> client_secret then (db, invalid_client)
                   else (revoke_oauth_access_token sha db (app_id app) token, Token_Revoked))
          | _ \<Rightarrow> (db, invalid_client)))"

section \<open>Presented tokens\<close>

definition not_expired :: "int \<Rightarrow> oauth_token_row \<Rightarrow> bool" where
  "not_expired now r =
    (case tok_expires_at r of None \<Rightarrow> True | Some t \<Rightarrow> i32_binding now < t)"

definition find_token_by_hash :: "int \<Rightarrow> oauth_db \<Rightarrow> string \<Rightarrow> oauth_token_row option" where
  "find_token_by_hash now db hash =
    find (\<lambda>r. tok_access_token_hash r = Some hash \<and> not_expired now r) (db_tokens db)"

definition find_legacy_token_by_plaintext :: "int \<Rightarrow> oauth_db \<Rightarrow> string \<Rightarrow> oauth_token_row option" where
  "find_legacy_token_by_plaintext now db token =
    find (\<lambda>r. tok_access_token r = token \<and> not_expired now r \<and> tok_access_token_hash r = None)
      (db_tokens db)"

definition rehash :: "(oauth_token_row \<Rightarrow> bool) \<Rightarrow> string \<Rightarrow> oauth_token_row list \<Rightarrow> oauth_token_row list" where
  "rehash P hash rows =
    map (\<lambda>r. if P r then r\<lparr>tok_access_token := hash, tok_access_token_hash := Some hash\<rparr> else r) rows"

text \<open>
  The update that moves a legacy row to its hash fails where the key is taken; the request fails
  with it.
\<close>

definition find_oauth_access_token_by_bearer_token ::
    "(string \<Rightarrow> string) \<Rightarrow> int \<Rightarrow> oauth_db \<Rightarrow> string \<Rightarrow> (oauth_db \<times> oauth_token_row option) option" where
  "find_oauth_access_token_by_bearer_token sha now db token =
    (let hash = oauth_bearer_token_hash sha token;
         legacy = (\<lambda>r. tok_access_token r = token \<and> tok_access_token_hash r = None)
     in case find_token_by_hash now db hash of
       Some row \<Rightarrow> Some (db, Some row)
     | None \<Rightarrow>
         (case find_legacy_token_by_plaintext now db token of
            None \<Rightarrow> Some (db, None)
          | Some row \<Rightarrow>
              if list_ex (\<lambda>r. tok_access_token r = hash \<and> \<not> legacy r) (db_tokens db) then None
              else Some (db\<lparr>db_tokens := rehash legacy hash (db_tokens db)\<rparr>,
                Some (row\<lparr>tok_access_token := hash\<rparr>))))"

definition app_of_token :: "oauth_db \<Rightarrow> oauth_token_row \<Rightarrow> oauth_app_row option" where
  "app_of_token db r = find (\<lambda>a. app_id a = tok_oauth_app_id r) (db_apps db)"

text \<open>The join with the apps, in the order of their ids, of the rows that match; its first app.\<close>

definition find_app_joined :: "oauth_db \<Rightarrow> (oauth_token_row \<Rightarrow> bool) \<Rightarrow> oauth_app_row option" where
  "find_app_joined db P =
    (case sort_key app_id (List.map_filter (app_of_token db) (filter P (db_app_tokens db))) of
       [] \<Rightarrow> None
     | a # _ \<Rightarrow> Some a)"

definition find_oauth_app_by_bearer_token ::
    "(string \<Rightarrow> string) \<Rightarrow> int \<Rightarrow> oauth_db \<Rightarrow> string \<Rightarrow> (oauth_db \<times> oauth_app_row option) option" where
  "find_oauth_app_by_bearer_token sha now db token =
    (let hash = oauth_bearer_token_hash sha token;
         legacy = (\<lambda>r. tok_access_token r = token)
     in case find_app_joined db (\<lambda>r. tok_access_token_hash r = Some hash \<and> not_expired now r) of
       Some app \<Rightarrow> Some (db, Some app)
     | None \<Rightarrow>
         (case find_app_joined db (\<lambda>r. legacy r \<and> not_expired now r) of
            None \<Rightarrow> Some (db, None)
          | Some app \<Rightarrow>
              if list_ex (\<lambda>r. tok_access_token r = hash \<and> \<not> legacy r) (db_app_tokens db) then None
              else Some (db\<lparr>db_app_tokens := rehash legacy hash (db_app_tokens db)\<rparr>, Some app)))"

definition oauth_access_token_has_any_scope :: "oauth_token_row \<Rightarrow> string list \<Rightarrow> bool" where
  "oauth_access_token_has_any_scope row scopes =
    list_ex (\<lambda>s. s \<in> set scopes) (unwrap_or (tok_scopes_json row) [])"

definition oauth_access_token_allows_method_path :: "string \<Rightarrow> string \<Rightarrow> oauth_token_row \<Rightarrow> bool" where
  "oauth_access_token_allows_method_path m path token =
    oauth_access_token_has_any_scope token (required_oauth_scopes m path)"

text \<open>
  The account of a request by its bearer token: the tables, whether the token is one whose scopes
  do not cover the endpoint, and the account, which the join leaves out when it is gone. \<open>auth0\<close> is
  the account of the session, asked where there is no such token.
\<close>

definition find_authenticated_local_account ::
    "(string \<Rightarrow> string) \<Rightarrow> (string \<Rightarrow> 'a option) \<Rightarrow> 'a option \<Rightarrow> int \<Rightarrow> oauth_db \<Rightarrow> string option \<Rightarrow>
     string \<Rightarrow> string \<Rightarrow> (oauth_db \<times> bool \<times> 'a option) option" where
  "find_authenticated_local_account sha account_of auth0 now db authorization m path =
    (case Option.bind authorization parse_bearer_authorization_header of
       None \<Rightarrow> Some (db, False, auth0)
     | Some token \<Rightarrow>
         Option.bind (find_oauth_access_token_by_bearer_token sha now db token) (\<lambda>(db', row).
           Some (case row of
             None \<Rightarrow> (db', False, auth0)
           | Some row \<Rightarrow>
               if oauth_access_token_allows_method_path m path row
               then (db', False, Option.bind (tok_account_id row) account_of)
               else (db', True, None))))"

section \<open>Interleaved requests\<close>

text \<open>
  The tables, the exchanges that have made their checks and not their writes, and, for the
  statements only, the consents given: the accounts and the clients of the forms posted with one.
\<close>

record oauth_world =
  w_db :: oauth_db
  w_pending :: "(oauth_app_row \<times> oauth_authorization_code_row) list"
  w_consents :: "(string \<times> string) list"

definition empty_world :: oauth_world where
  "empty_world =
    \<lparr>w_db = \<lparr>db_apps = [], db_codes = [], db_tokens = [], db_app_tokens = [], db_links = []\<rparr>,
     w_pending = [], w_consents = []\<rparr>"

definition named_accounts :: "authorize_post \<Rightarrow> string list" where
  "named_accounts p =
    (case ap_password_account p of None \<Rightarrow> [] | Some a \<Rightarrow> [a]) @
    (case ap_authenticated p of None \<Rightarrow> [] | Some a \<Rightarrow> [a])"

definition given_consents :: "oauth_authorize_request \<Rightarrow> authorize_post \<Rightarrow> (string \<times> string) list" where
  "given_consents request p =
    (case trimmed_option (oar_client_id request) of
       None \<Rightarrow> []
     | Some client \<Rightarrow> map (\<lambda>account. (account, client)) (filter (consents p) (named_accounts p)))"

inductive oauth_step ::
    "(string \<Rightarrow> parsed_url option) \<Rightarrow> (string \<Rightarrow> string) \<Rightarrow> (string \<Rightarrow> string) \<Rightarrow>
     oauth_world \<Rightarrow> oauth_world \<Rightarrow> bool"
  for parse_url sha challenge_of where
  Register: "insert_oauth_app row_id client_id client_secret request (w_db w) = Some (db, row) \<Longrightarrow>
    oauth_step parse_url sha challenge_of w (w\<lparr>w_db := db\<rparr>)"
| Authorize: "oauth_authorize_post parse_url code now (w_db w) request p = (db, response) \<Longrightarrow>
    oauth_step parse_url sha challenge_of w
      (w\<lparr>w_db := db, w_consents := w_consents w @ given_consents request p\<rparr>)"
| Check: "exchange_check challenge_of now (w_db w) input = Inr (app, row) \<Longrightarrow>
    oauth_step parse_url sha challenge_of w (w\<lparr>w_pending := w_pending w @ [(app, row)]\<rparr>)"
| Refuse: "exchange_check challenge_of now (w_db w) input = Inl (db, reply) \<Longrightarrow>
    oauth_step parse_url sha challenge_of w (w\<lparr>w_db := db\<rparr>)"
| Commit: "w_pending w = before @ (app, row) # after \<Longrightarrow>
    exchange_commit sha token account_exists (w_db w) app row = (db, reply) \<Longrightarrow>
    oauth_step parse_url sha challenge_of w (w\<lparr>w_db := db, w_pending := before @ after\<rparr>)"
| Grant: "client_credentials_token_response parse_url sha token now (w_db w) grant credentials =
      (db, reply) \<Longrightarrow>
    oauth_step parse_url sha challenge_of w (w\<lparr>w_db := db\<rparr>)"
| Revoke: "oauth_revoke_response sha (w_db w) revoked client secret credentials = (db, reply) \<Longrightarrow>
    oauth_step parse_url sha challenge_of w (w\<lparr>w_db := db\<rparr>)"
| Present: "find_oauth_access_token_by_bearer_token sha now (w_db w) bearer = Some (db, found) \<Longrightarrow>
    oauth_step parse_url sha challenge_of w (w\<lparr>w_db := db\<rparr>)"
| Present_App: "find_oauth_app_by_bearer_token sha now (w_db w) bearer = Some (db, found_app) \<Longrightarrow>
    oauth_step parse_url sha challenge_of w (w\<lparr>w_db := db\<rparr>)"

inductive oauth_reachable ::
    "(string \<Rightarrow> parsed_url option) \<Rightarrow> (string \<Rightarrow> string) \<Rightarrow> (string \<Rightarrow> string) \<Rightarrow> oauth_world \<Rightarrow> bool"
  for parse_url sha challenge_of where
  Empty: "oauth_reachable parse_url sha challenge_of empty_world"
| Step: "oauth_reachable parse_url sha challenge_of w \<Longrightarrow>
    oauth_step parse_url sha challenge_of w w' \<Longrightarrow> oauth_reachable parse_url sha challenge_of w'"

section \<open>The invariant of the tables\<close>

text \<open>
  A row of an app: its scopes are registered for the app, and its account, where it has one, has
  consented to the client of the app.
\<close>

definition row_of_app ::
    "oauth_world \<Rightarrow> oauth_app_row \<Rightarrow> int \<Rightarrow> string list option \<Rightarrow> string option \<Rightarrow> bool" where
  "row_of_app w app ident scopes account \<longleftrightarrow>
    app \<in> set (db_apps (w_db w)) \<and> ident = i32_binding (app_id app) \<and>
    set (unwrap_or scopes []) \<subseteq> set (oauth_app_scopes app) \<and>
    (case account of None \<Rightarrow> True | Some a \<Rightarrow> (a, app_client_id app) \<in> set (w_consents w))"

definition code_sound ::
    "(string \<Rightarrow> parsed_url option) \<Rightarrow> oauth_world \<Rightarrow> oauth_authorization_code_row \<Rightarrow> bool" where
  "code_sound parse_url w r \<longleftrightarrow>
    (\<exists>app. row_of_app w app (code_oauth_app_id r) (code_scopes_json r) (Some (code_account_id r)) \<and>
      registered_for parse_url app (code_redirect_uri r)) \<and>
    code_expires_at r < 2 ^ 31"

definition token_sound :: "oauth_world \<Rightarrow> oauth_token_row \<Rightarrow> bool" where
  "token_sound w r \<longleftrightarrow>
    (\<exists>app. row_of_app w app (tok_oauth_app_id r) (tok_scopes_json r) (tok_account_id r)) \<and>
    tok_account_id r \<noteq> None \<and> tok_access_token_hash r = Some (tok_access_token r)"

definition app_token_sound :: "oauth_world \<Rightarrow> oauth_token_row \<Rightarrow> bool" where
  "app_token_sound w r \<longleftrightarrow>
    (\<exists>app. row_of_app w app (tok_oauth_app_id r) (tok_scopes_json r) None) \<and>
    tok_access_token_hash r = Some (tok_access_token r) \<and>
    (case tok_expires_at r of None \<Rightarrow> False | Some t \<Rightarrow> t < 2 ^ 31)"

definition pending_sound ::
    "(string \<Rightarrow> parsed_url option) \<Rightarrow> oauth_world \<Rightarrow>
     oauth_app_row \<times> oauth_authorization_code_row \<Rightarrow> bool" where
  "pending_sound parse_url w = (\<lambda>(app, r).
    code_sound parse_url w r \<and> code_oauth_app_id r = app_id app)"

definition oauth_sound :: "(string \<Rightarrow> parsed_url option) \<Rightarrow> oauth_world \<Rightarrow> bool" where
  "oauth_sound parse_url w \<longleftrightarrow>
    list_all (code_sound parse_url w) (db_codes (w_db w)) \<and>
    list_all (token_sound w) (db_tokens (w_db w)) \<and>
    list_all (app_token_sound w) (db_app_tokens (w_db w)) \<and>
    list_all (pending_sound parse_url w) (w_pending w)"

text \<open>Apps and consents only grow, and what is sound stays so.\<close>

definition grows :: "oauth_world \<Rightarrow> oauth_world \<Rightarrow> bool" where
  "grows w w' \<longleftrightarrow>
    set (db_apps (w_db w)) \<subseteq> set (db_apps (w_db w')) \<and> set (w_consents w) \<subseteq> set (w_consents w')"

lemma row_of_app_grows: "grows w w' \<Longrightarrow> row_of_app w app i s a \<Longrightarrow> row_of_app w' app i s a"
  by (auto simp: grows_def row_of_app_def split: option.splits)

lemma sound_grows:
  assumes "grows w w'"
  shows "code_sound parse_url w r \<Longrightarrow> code_sound parse_url w' r"
    "token_sound w t \<Longrightarrow> token_sound w' t"
    "app_token_sound w t \<Longrightarrow> app_token_sound w' t"
    "pending_sound parse_url w x \<Longrightarrow> pending_sound parse_url w' x"
  using row_of_app_grows [OF assms]
  by (auto simp: code_sound_def token_sound_def app_token_sound_def pending_sound_def split: prod.splits)
    blast+

lemma oauth_sound_grows:
  assumes "grows w w'" "oauth_sound parse_url w"
    and "list_all (\<lambda>r. r \<in> set (db_codes (w_db w)) \<or> code_sound parse_url w' r) (db_codes (w_db w'))"
    and "list_all (\<lambda>r. r \<in> set (db_tokens (w_db w)) \<or> token_sound w' r) (db_tokens (w_db w'))"
    and "list_all (\<lambda>r. r \<in> set (db_app_tokens (w_db w)) \<or> app_token_sound w' r) (db_app_tokens (w_db w'))"
    and "list_all (\<lambda>x. x \<in> set (w_pending w) \<or> pending_sound parse_url w' x) (w_pending w')"
  shows "oauth_sound parse_url w'"
  using assms(2-) sound_grows [OF assms(1)]
  unfolding oauth_sound_def list_all_iff by blast

lemma i32_binding_idem [simp]: "i32_binding (i32_binding v) = i32_binding v"
  by (simp add: i32_binding_def)

lemma i32_binding_less: "i32_binding v < 2 ^ 31"
  by (simp add: i32_binding_def)

lemma row_of_new_app [simp]:
  "app \<in> set (db_apps (w_db w)) \<Longrightarrow>
    row_of_app w app (i32_binding (app_id app)) (Some scopes) account \<longleftrightarrow>
    set scopes \<subseteq> set (oauth_app_scopes app) \<and>
    (case account of None \<Rightarrow> True | Some a \<Rightarrow> (a, app_client_id app) \<in> set (w_consents w))"
  by (simp add: row_of_app_def)

section \<open>Preservation\<close>

lemma sound_members:
  assumes "oauth_sound parse_url w"
  shows "r \<in> set (db_codes (w_db w)) \<Longrightarrow> code_sound parse_url w r"
    "t \<in> set (db_tokens (w_db w)) \<Longrightarrow> token_sound w t"
    "t \<in> set (db_app_tokens (w_db w)) \<Longrightarrow> app_token_sound w t"
    "x \<in> set (w_pending w) \<Longrightarrow> pending_sound parse_url w x"
  using assms by (auto simp: oauth_sound_def list_all_iff)

lemma sound_register:
  assumes "oauth_sound parse_url w"
    and "insert_oauth_app row_id client_id client_secret request (w_db w) = Some (db, row)"
  shows "oauth_sound parse_url (w\<lparr>w_db := db\<rparr>)"
  by (rule oauth_sound_grows [OF _ assms(1)])
     (use assms(2) in \<open>auto simp: insert_oauth_app_def grows_def Let_def list_all_iff split: if_splits\<close>)

lemma given_consents_set:
  "(account, client) \<in> set (given_consents request p) \<longleftrightarrow>
    consents p account \<and> trimmed_option (oar_client_id request) = Some client"
  by (auto simp: given_consents_def named_accounts_def consents_def split: option.splits)

lemma sound_authorize:
  assumes sound: "oauth_sound parse_url w"
    and post: "oauth_authorize_post parse_url code now (w_db w) request p = (db, response)"
  shows "oauth_sound parse_url (w\<lparr>w_db := db, w_consents := w_consents w @ given_consents request p\<rparr>)"
    (is "oauth_sound _ ?w")
  using authorize_post_cases [OF post]
proof (elim disjE exE conjE)
  assume "db = w_db w"
  then show ?thesis
    by (intro oauth_sound_grows [OF _ sound]) (auto simp: grows_def list_all_iff)
next
  fix r app scopes account
  assume v: "validate_authorize_request parse_url (w_db w) request = Inr (r, app, scopes)"
    and c: "consents p account"
    and red: "redirect_with_authorization_code parse_url code now (w_db w) r app account scopes = (db, response)"
  from validate_Inr(3) [OF v] obtain uri where uri: "oar_redirect_uri r = Some uri"
    "registered_for parse_url app uri" by blast
  have app: "app \<in> set (db_apps (w_db w))" using find_app_Some [OF validate_Inr(1) [OF v]] by simp
  have consent: "(account, app_client_id app) \<in> set (given_consents request p)"
    using c validate_Inr(2) [OF v] by (simp add: given_consents_set)
  have row: "code_sound parse_url (w\<lparr>w_db := db, w_consents := w_consents w @ given_consents request p\<rparr>)
      (code_row_for code now r app uri scopes account)"
    if "db_apps db = db_apps (w_db w)" for db
    using app consent uri validate_Inr(5) [OF v] i32_binding_less that
    by (auto simp: code_sound_def code_row_for_def row_of_app_def intro!: exI [of _ app])
  show ?thesis
    using redirect_with_code [OF uri(1) red]
    by (intro oauth_sound_grows [OF _ sound]) (auto simp: grows_def list_all_iff row)
qed

lemma exchange_check_Inr:
  assumes "exchange_check challenge_of now db input = Inr (app, row)"
  shows "find_oauth_app_by_client_id db (ati_client_id input) = Some app"
    "client_secret_matches_app app (ati_client_secret input)"
    "load_oauth_authorization_code db (ati_code input) = Some row"
    "code_oauth_app_id row = app_id app" "code_redirect_uri row = ati_redirect_uri input"
    "now \<le> code_expires_at row"
    "authorization_code_allows_client challenge_of row input"
  using assms by (auto simp: exchange_check_def authorization_code_matches_request_def
      split: option.splits if_splits)

lemma exchange_check_Inl:
  assumes "exchange_check challenge_of now db input = Inl (db', reply)"
  shows "(db' = db \<or> (\<exists>code. db' = delete_oauth_authorization_code db code)) \<and>
    reply \<in> {invalid_client, invalid_grant}"
  using assms by (auto simp: exchange_check_def split: option.splits if_splits)

lemma load_code_Some:
  "load_oauth_authorization_code db code = Some row \<Longrightarrow> row \<in> set (db_codes db) \<and> code_code row = code"
  by (auto simp: load_oauth_authorization_code_def find_Some_iff)

lemma sound_check:
  assumes sound: "oauth_sound parse_url w"
    and check: "exchange_check challenge_of now (w_db w) input = Inr (app, row)"
  shows "oauth_sound parse_url (w\<lparr>w_pending := w_pending w @ [(app, row)]\<rparr>)"
proof -
  have grows: "grows w (w\<lparr>w_pending := w_pending w @ [(app, row)]\<rparr>)" by (simp add: grows_def)
  have "row \<in> set (db_codes (w_db w))" using load_code_Some [OF exchange_check_Inr(3) [OF check]] by simp
  then have "pending_sound parse_url w (app, row)"
    using sound_members(1) [OF sound] exchange_check_Inr(4) [OF check] by (simp add: pending_sound_def)
  then show ?thesis
    using sound_grows(4) [OF grows] by (intro oauth_sound_grows [OF grows sound]) (auto simp: list_all_iff)
qed

lemma sound_refuse:
  assumes sound: "oauth_sound parse_url w"
    and check: "exchange_check challenge_of now (w_db w) input = Inl (db, reply)"
  shows "oauth_sound parse_url (w\<lparr>w_db := db\<rparr>)"
  using exchange_check_Inl [OF check]
  by (intro oauth_sound_grows [OF _ sound])
     (auto simp: grows_def list_all_iff delete_oauth_authorization_code_def)

text \<open>The row a code is exchanged for.\<close>

definition user_token_row ::
    "(string \<Rightarrow> string) \<Rightarrow> string \<Rightarrow> oauth_app_row \<Rightarrow> oauth_authorization_code_row \<Rightarrow> oauth_token_row" where
  "user_token_row sha token app row =
    \<lparr>tok_access_token = oauth_bearer_token_hash sha token,
     tok_access_token_hash = Some (oauth_bearer_token_hash sha token),
     tok_oauth_app_id = i32_binding (app_id app), tok_account_id = Some (code_account_id row),
     tok_scopes_json = Some (unwrap_or (code_scopes_json row) []), tok_expires_at = None\<rparr>"

lemma exchange_commit_cases:
  assumes "exchange_commit sha token account_exists db app row = (db', reply)"
  shows "(db' = db \<and> reply = Token_Failure) \<or>
    (list_all (\<lambda>r. tok_access_token r \<noteq> oauth_bearer_token_hash sha token) (db_tokens db) \<and>
     db_apps db' = db_apps db \<and> db_app_tokens db' = db_app_tokens db \<and>
     db_tokens db' = db_tokens db @ [user_token_row sha token app row] \<and>
     db_codes db' = filter (\<lambda>r. code_code r \<noteq> code_code row) (db_codes db) \<and>
     reply = (if account_exists (code_account_id row)
       then Token_Document token (unwrap_or (code_scopes_json row) []) None else invalid_grant))"
  using assms
  by (auto simp: exchange_commit_def issue_oauth_access_token_def Let_def user_token_row_def
      link_oauth_app_to_account_def delete_oauth_authorization_code_def list_ex_iff list_all_iff
      split: if_splits option.splits)

lemma exchange_commit_tokens:
  "list_all (\<lambda>r. tok_access_token r \<noteq> oauth_bearer_token_hash sha token) (db_tokens db) \<Longrightarrow>
    db_tokens (fst (exchange_commit sha token account_exists db app row)) =
      db_tokens db @ [user_token_row sha token app row]"
  by (auto simp: exchange_commit_def issue_oauth_access_token_def Let_def user_token_row_def
      link_oauth_app_to_account_def delete_oauth_authorization_code_def list_ex_iff list_all_iff)

text \<open>What lets a client have a code: the verifier of its challenge, or else its secret.\<close>

lemma exchange_proof:
  assumes "client_secret_matches_app app (ati_client_secret input)"
    and "authorization_code_allows_client challenge_of row input"
  shows "case code_code_challenge row of
      None \<Rightarrow> ati_client_secret input = Some (app_client_secret app)
    | Some challenge \<Rightarrow> code_code_challenge_method row = Some ''S256'' \<and>
        map_option challenge_of (ati_code_verifier input) = Some challenge"
  using assms
  by (auto simp: authorization_code_allows_client_def client_secret_matches_app_def
      pkce_verifier_matches_def pkce_code_challenge_def code_challenge_method_is_supported_def
      constant_time_eq_iff bytes_of_inject split: option.splits if_splits)

lemma find_app_joined_Some:
  assumes "r \<in> set (db_app_tokens db)" "P r" "app_of_token db r = Some app"
  shows "\<exists>a. find_app_joined db P = Some a"
proof -
  have "app \<in> set (List.map_filter (app_of_token db) (filter P (db_app_tokens db)))"
    using assms by (force simp: List.map_filter_def)
  then have "sort_key app_id (List.map_filter (app_of_token db) (filter P (db_app_tokens db))) \<noteq> []"
    by (metis empty_iff empty_set set_sort)
  then show ?thesis by (auto simp: find_app_joined_def split: list.splits)
qed

lemma sound_commit:
  assumes sound: "oauth_sound parse_url w"
    and pending: "w_pending w = before @ (app, row) # after"
    and commit: "exchange_commit sha token account_exists (w_db w) app row = (db, reply)"
  shows "oauth_sound parse_url (w\<lparr>w_db := db, w_pending := before @ after\<rparr>)"
proof -
  have "pending_sound parse_url w (app, row)" using sound_members(4) [OF sound] pending by simp
  then obtain app0 where app0: "row_of_app w app0 (app_id app) (code_scopes_json row) (Some (code_account_id row))"
    by (auto simp: pending_sound_def code_sound_def)
  then have "i32_binding (app_id app) = i32_binding (app_id app0)" by (auto simp: row_of_app_def)
  with app0 have "token_sound (w\<lparr>w_db := db, w_pending := before @ after\<rparr>) (user_token_row sha token app row)"
    if "db_apps db = db_apps (w_db w)" for db
    using that by (auto simp: token_sound_def user_token_row_def row_of_app_def intro!: exI [of _ app0])
  then show ?thesis
    using exchange_commit_cases [OF commit] pending
    by (intro oauth_sound_grows [OF _ sound]) (auto simp: grows_def list_all_iff)
qed

text \<open>The row an app is granted.\<close>

definition app_token_row ::
    "(string \<Rightarrow> string) \<Rightarrow> string \<Rightarrow> int \<Rightarrow> oauth_app_row \<Rightarrow> string list \<Rightarrow> oauth_token_row" where
  "app_token_row sha token now app scopes =
    \<lparr>tok_access_token = oauth_bearer_token_hash sha token,
     tok_access_token_hash = Some (oauth_bearer_token_hash sha token),
     tok_oauth_app_id = i32_binding (app_id app), tok_account_id = None,
     tok_scopes_json = Some scopes, tok_expires_at = Some (i32_binding (now + 3600))\<rparr>"

lemma grant_cases:
  assumes "client_credentials_token_response parse_url sha token now db request credentials = (db', reply)"
  shows "db' = db \<or>
    (\<exists>app scopes. app \<in> set (db_apps db) \<and> set scopes \<subseteq> set (oauth_app_scopes app) \<and>
      db' = db\<lparr>db_app_tokens := db_app_tokens db @ [app_token_row sha token now app scopes]\<rparr>)"
proof (cases "db' = db")
  case False
  with assms obtain app client where app: "find_oauth_app_by_client_id db client = Some app"
      "set (requested_oauth_token_scopes (otr_scope request)) \<subseteq> set (oauth_app_scopes app)"
    and issue: "issue_oauth_app_access_token sha token now db (app_id app)
        (requested_oauth_token_scopes (otr_scope request)) = Some db'"
    by (auto simp: client_credentials_token_response_def Let_def list_ex_iff subset_iff
        split: option.splits if_splits)
  from issue have "db' = db\<lparr>db_app_tokens := db_app_tokens db @
      [app_token_row sha token now app (requested_oauth_token_scopes (otr_scope request))]\<rparr>"
    by (auto simp: issue_oauth_app_access_token_def Let_def app_token_row_def
        APP_ACCESS_TOKEN_TTL_SECONDS_def split: if_splits)
  then show ?thesis using app find_app_Some by blast
qed simp

lemma sound_grant:
  assumes sound: "oauth_sound parse_url w"
    and grant: "client_credentials_token_response parse_url sha token now (w_db w) request credentials =
      (db, reply)"
  shows "oauth_sound parse_url (w\<lparr>w_db := db\<rparr>)"
proof -
  have "app_token_sound (w\<lparr>w_db := db\<rparr>) (app_token_row sha token now app scopes)"
    if "app \<in> set (db_apps (w_db w))" "db_apps db = db_apps (w_db w)"
      "set scopes \<subseteq> set (oauth_app_scopes app)" for app scopes db
    using that i32_binding_less
    by (auto simp: app_token_sound_def app_token_row_def row_of_app_def intro!: exI [of _ app])
  then show ?thesis
    using grant_cases [OF grant]
    by (intro oauth_sound_grows [OF _ sound]) (auto simp: grows_def list_all_iff)
qed

lemma sound_revoke:
  assumes sound: "oauth_sound parse_url w"
    and revoke: "oauth_revoke_response sha (w_db w) token client secret credentials = (db, reply)"
  shows "oauth_sound parse_url (w\<lparr>w_db := db\<rparr>)"
  using revoke
  by (intro oauth_sound_grows [OF _ sound])
     (auto simp: oauth_revoke_response_def revoke_oauth_access_token_def grows_def list_all_iff
       split: option.splits if_splits)

lemma sound_rehash:
  assumes "list_all (token_sound w) rows" shows "list_all (token_sound w) (rehash P h rows)"
  using assms by (auto simp: rehash_def list_all_iff token_sound_def)

lemma app_sound_rehash:
  assumes "list_all (app_token_sound w) rows" shows "list_all (app_token_sound w) (rehash P h rows)"
  using assms by (auto simp: rehash_def list_all_iff app_token_sound_def)

lemma no_legacy_tokens:
  assumes "oauth_sound parse_url w"
  shows "find_legacy_token_by_plaintext now (w_db w) bearer = None"
  using sound_members(2) [OF assms]
  by (auto simp: find_legacy_token_by_plaintext_def find_None_iff token_sound_def)

lemma sound_present:
  assumes sound: "oauth_sound parse_url w"
    and find: "find_oauth_access_token_by_bearer_token sha now (w_db w) bearer = Some (db, found)"
  shows "oauth_sound parse_url (w\<lparr>w_db := db\<rparr>)"
proof -
  have "db = w_db w"
    using find no_legacy_tokens [OF sound, of now bearer] by (auto simp: find_oauth_access_token_by_bearer_token_def Let_def split: option.splits)
  then show ?thesis using sound by simp
qed

lemma sound_present_app:
  assumes sound: "oauth_sound parse_url w"
    and find: "find_oauth_app_by_bearer_token sha now (w_db w) bearer = Some (db, found)"
  shows "oauth_sound parse_url (w\<lparr>w_db := db\<rparr>)"
proof -
  have apps: "list_all (app_token_sound w) (db_app_tokens (w_db w))"
    using sound by (simp add: oauth_sound_def)
  have "db = w_db w \<or> (\<exists>P h. db = (w_db w)\<lparr>db_app_tokens := rehash P h (db_app_tokens (w_db w))\<rparr>)"
    using find by (auto simp: find_oauth_app_by_bearer_token_def Let_def split: option.splits if_splits)
  moreover have "list_all (app_token_sound (w\<lparr>w_db := (w_db w)\<lparr>db_app_tokens := rows\<rparr>\<rparr>)) (rehash P h (db_app_tokens (w_db w)))"
    for rows P h
  proof -
    have "grows w (w\<lparr>w_db := (w_db w)\<lparr>db_app_tokens := rows\<rparr>\<rparr>)" by (simp add: grows_def)
    then show ?thesis
      using app_sound_rehash [OF apps, of P h] sound_grows(3) by (auto simp: list_all_iff)
  qed
  ultimately show ?thesis
    using sound
    by (elim disjE exE) (simp, intro oauth_sound_grows [OF _ sound], auto simp: grows_def list_all_iff)
qed

lemma sound_step:
  assumes "oauth_step parse_url sha challenge_of w w'" "oauth_sound parse_url w"
  shows "oauth_sound parse_url w'"
  using assms
  by (cases rule: oauth_step.cases)
     (blast intro: sound_register sound_authorize sound_check sound_refuse sound_commit sound_grant
       sound_revoke sound_present sound_present_app)+

lemma reachable_sound: "oauth_reachable parse_url sha challenge_of w \<Longrightarrow> oauth_sound parse_url w"
proof (induction rule: oauth_reachable.induct)
  case Empty
  show ?case by (simp add: oauth_sound_def empty_world_def)
next
  case (Step w w')
  then show ?case using sound_step by blast
qed

section \<open>A reachable world with a code\<close>

text \<open>An app of the out-of-band address is registered, and an account of a password consents.\<close>

definition sample_app :: parsed_create_app_request where
  "sample_app = \<lparr>pcar_client_name = ''app'', pcar_website = None, pcar_scopes = [''read''],
    pcar_redirect_uris = [OOB_REDIRECT]\<rparr>"

definition sample_request :: oauth_authorize_request where
  "sample_request = \<lparr>oar_response_type = None, oar_client_id = Some ''client'',
    oar_redirect_uri = Some OOB_REDIRECT, oar_scope = None, oar_state = None,
    oar_code_challenge = None, oar_code_challenge_method = None\<rparr>"

definition sample_post :: authorize_post where
  "sample_post = \<lparr>ap_auth0 = False, ap_authenticated = None, ap_password_account = Some ''alice'',
    ap_approve = False, ap_csrf_cookie = Some ''csrf'', ap_csrf_token = Some ''csrf''\<rparr>"

definition sample_input :: authorization_code_token_input where
  "sample_input = \<lparr>ati_client_id = ''client'', ati_client_secret = Some ''secret'', ati_code = ''code'',
    ati_redirect_uri = OOB_REDIRECT, ati_code_verifier = None\<rparr>"

definition sample_db :: oauth_db where
  "sample_db = (case insert_oauth_app 1 ''client'' ''secret'' sample_app (w_db empty_world) of
     Some (db, _) \<Rightarrow> db | None \<Rightarrow> w_db empty_world)"

definition sample_world :: oauth_world where
  "sample_world = empty_world
    \<lparr>w_db := fst (oauth_authorize_post (\<lambda>_. None) ''code'' 0 sample_db sample_request sample_post),
     w_consents := given_consents sample_request sample_post\<rparr>"

lemma sample_world_reachable: "oauth_reachable (\<lambda>_. None) sha challenge_of sample_world"
proof -
  have "insert_oauth_app 1 ''client'' ''secret'' sample_app (w_db empty_world) \<noteq> None"
    by (simp add: insert_oauth_app_def empty_world_def Let_def)
  then obtain row where row:
    "insert_oauth_app 1 ''client'' ''secret'' sample_app (w_db empty_world) = Some (sample_db, row)"
    by (auto simp: sample_db_def split: option.splits)
  have "oauth_reachable (\<lambda>_. None) sha challenge_of (empty_world\<lparr>w_db := sample_db\<rparr>)"
    by (rule Step [OF Empty Register [OF row]])
  moreover have "oauth_step (\<lambda>_. None) sha challenge_of (empty_world\<lparr>w_db := sample_db\<rparr>) sample_world"
    using Authorize [of "\<lambda>_. None" "''code''" 0 "empty_world\<lparr>w_db := sample_db\<rparr>" sample_request
        sample_post "fst (oauth_authorize_post (\<lambda>_. None) ''code'' 0 sample_db sample_request sample_post)"
        "snd (oauth_authorize_post (\<lambda>_. None) ''code'' 0 sample_db sample_request sample_post)"
        sha challenge_of]
    by (simp add: sample_world_def empty_world_def)
  ultimately show ?thesis by (rule Step)
qed

lemma sample_exchange:
  "is_ok (exchange_check (\<lambda>v. v) 600 (w_db sample_world) sample_input)"
  by code_simp

text \<open>The code is exchanged, and the app is granted a token of its own.\<close>

definition sample_token_world :: oauth_world where
  "sample_token_world =
    (case exchange_check (\<lambda>v. v) 600 (w_db sample_world) sample_input of
       Inl _ \<Rightarrow> sample_world
     | Inr (app, row) \<Rightarrow> sample_world\<lparr>w_db :=
         fst (exchange_commit (\<lambda>s. s) ''t'' (\<lambda>_. True) (w_db sample_world) app row),
         w_pending := []\<rparr>)"

definition sample_grant :: oauth_token_request where
  "sample_grant = \<lparr>otr_grant_type = None, otr_client_id = Some ''client'',
    otr_client_secret = Some ''secret'', otr_redirect_uri = Some OOB_REDIRECT, otr_scope = None,
    otr_code = None, otr_code_verifier = None\<rparr>"

definition sample_app_token_world :: oauth_world where
  "sample_app_token_world = sample_token_world\<lparr>w_db :=
    fst (client_credentials_token_response (\<lambda>_. None) (\<lambda>s. s) ''u'' 600 (w_db sample_token_world)
      sample_grant None)\<rparr>"

lemma sample_token_world_reachable: "oauth_reachable (\<lambda>_. None) (\<lambda>s. s) (\<lambda>v. v) sample_token_world"
proof -
  obtain app row where check: "exchange_check (\<lambda>v. v) 600 (w_db sample_world) sample_input = Inr (app, row)"
    using sample_exchange by (auto simp: is_ok_iff)
  let ?commit = "exchange_commit (\<lambda>s. s) ''t'' (\<lambda>_. True) (w_db sample_world) app row"
  have pending: "w_pending sample_world = []" by (simp add: sample_world_def empty_world_def)
  then have "oauth_reachable (\<lambda>_. None) (\<lambda>s. s) (\<lambda>v. v) (sample_world\<lparr>w_pending := [(app, row)]\<rparr>)"
    using Step [OF sample_world_reachable Check [OF check]] by simp
  moreover have "oauth_step (\<lambda>_. None) (\<lambda>s. s) (\<lambda>v. v) (sample_world\<lparr>w_pending := [(app, row)]\<rparr>)
      sample_token_world"
    using Commit [of "sample_world\<lparr>w_pending := [(app, row)]\<rparr>" "[]" app row "[]" "\<lambda>s. s" "''t''"
        "\<lambda>_. True" "fst ?commit" "snd ?commit" "\<lambda>_. None" "\<lambda>v. v"] pending
    by (simp add: sample_token_world_def check)
  ultimately show ?thesis by (rule Step)
qed

lemma sample_app_token_world_reachable:
  "oauth_reachable (\<lambda>_. None) (\<lambda>s. s) (\<lambda>v. v) sample_app_token_world"
  by (rule Step [OF sample_token_world_reachable])
     (auto simp: sample_app_token_world_def intro!: Grant [of _ _ "''u''" 600 _ sample_grant None]
       surjective_pairing)

section \<open>Properties\<close>



text \<open>
  C5: The exchange of a code gives a token only to the client the code was issued to, for the
  address it was issued for, in its time and, by the challenge stored with the code, to who knows
  its verifier, or else the secret of the client; the token is the one row added, with the scopes
  of the code, and the code is gone. Else no token is given, and one is stored only where the
  account of the code is gone.
\<close>

theorem code_exchange:
  "(case oauth_authorization_code_token_response sha challenge_of token account_exists now db request
       credentials of
      (db', Token_Document t scopes expiry) \<Rightarrow>
        (\<exists>input app row.
          token_input_from_request request credentials = Some input \<and>
          find_oauth_app_by_client_id db (ati_client_id input) = Some app \<and>
          load_oauth_authorization_code db (ati_code input) = Some row \<and>
          code_oauth_app_id row = app_id app \<and> code_redirect_uri row = ati_redirect_uri input \<and>
          now \<le> code_expires_at row \<and> account_exists (code_account_id row) \<and>
          (case code_code_challenge row of
             None \<Rightarrow> ati_client_secret input = Some (app_client_secret app)
           | Some challenge \<Rightarrow>
               code_code_challenge_method row = Some ''S256'' \<and>
               map_option challenge_of (ati_code_verifier input) = Some challenge) \<and>
          t = token \<and> scopes = unwrap_or (code_scopes_json row) [] \<and> expiry = None \<and>
          db_tokens db' = db_tokens db @ [user_token_row sha token app row] \<and>
          load_oauth_authorization_code db' (ati_code input) = None)
    | (db', reply) \<Rightarrow>
        db_tokens db' = db_tokens db \<or>
        (reply = invalid_grant \<and>
          (\<exists>app row. db_tokens db' = db_tokens db @ [user_token_row sha token app row] \<and>
            \<not> account_exists (code_account_id row))))"
proof (cases "token_input_from_request request credentials")
  case None
  then show ?thesis by (simp add: oauth_authorization_code_token_response_def)
next
  case (Some input)
  show ?thesis
  proof (cases "exchange_check challenge_of now db input")
    case (Inl result)
    obtain db' reply where r: "result = (db', reply)" by (cases result)
    from exchange_check_Inl [OF Inl [unfolded r]]
    have "reply \<in> {invalid_client, invalid_grant}" "db_tokens db' = db_tokens db"
      by (auto simp: delete_oauth_authorization_code_def)
    then show ?thesis
      using Some Inl r by (auto simp: oauth_authorization_code_token_response_def)
  next
    case (Inr result)
    obtain app row where r: "result = (app, row)" by (cases result)
    note checked = exchange_check_Inr [OF Inr [unfolded r]]
    obtain db' reply where commit:
      "exchange_commit sha token account_exists db app row = (db', reply)" by fastforce
    have code: "code_code row = ati_code input" using load_code_Some [OF checked(3)] by simp
    have "oauth_authorization_code_token_response sha challenge_of token account_exists now db
        request credentials = (db', reply)"
      using Some Inr r commit by (simp add: oauth_authorization_code_token_response_def)
    moreover have "case code_code_challenge row of
         None \<Rightarrow> ati_client_secret input = Some (app_client_secret app)
       | Some challenge \<Rightarrow> code_code_challenge_method row = Some ''S256'' \<and>
           map_option challenge_of (ati_code_verifier input) = Some challenge"
      using checked(2,7) by (rule exchange_proof)
    moreover have "load_oauth_authorization_code db' (ati_code input) = None"
      if "db_codes db' = filter (\<lambda>r. code_code r \<noteq> code_code row) (db_codes db)"
      using that by (auto simp: load_oauth_authorization_code_def find_None_iff code)
    moreover have "\<exists>app' row'. user_token_row sha token app row = user_token_row sha token app' row' \<and>
        \<not> account_exists (code_account_id row')" if "\<not> account_exists (code_account_id row)"
      using that by blast
    ultimately show ?thesis
      using exchange_commit_cases [OF commit] Some checked by (auto split: if_splits) blast
  qed
qed

text \<open>
  A code is not used at most once. Two exchanges that both make their checks before either
  writes each add a token for the one code.
\<close>

theorem code_used_twice:
  assumes "exchange_check challenge_of now (w_db w) input = Inr (app, row)" "w_pending w = []"
    and "list_all (\<lambda>r. tok_access_token r \<notin>
      {oauth_bearer_token_hash sha t1, oauth_bearer_token_hash sha t2}) (db_tokens (w_db w))"
    and "oauth_bearer_token_hash sha t1 \<noteq> oauth_bearer_token_hash sha t2"
  shows "\<exists>w'. (oauth_step parse_url sha challenge_of)\<^sup>*\<^sup>* w w' \<and>
    db_tokens (w_db w') =
      db_tokens (w_db w) @ [user_token_row sha t1 app row, user_token_row sha t2 app row]"
proof -
  let ?db1 = "fst (exchange_commit sha t1 (\<lambda>_. True) (w_db w) app row)"
  let ?db2 = "fst (exchange_commit sha t2 (\<lambda>_. True) ?db1 app row)"
  let ?w1 = "w\<lparr>w_pending := [(app, row)]\<rparr>" and ?w2 = "w\<lparr>w_pending := [(app, row), (app, row)]\<rparr>"
  let ?w3 = "w\<lparr>w_db := ?db1, w_pending := [(app, row)]\<rparr>" and ?w4 = "w\<lparr>w_db := ?db2, w_pending := []\<rparr>"
  let ?step = "oauth_step parse_url sha challenge_of"
  have check: "?step w ?w1" "?step ?w1 ?w2"
    using Check [OF assms(1), of parse_url sha] Check [of challenge_of now ?w1 input app row parse_url sha]
      assms(1,2) by simp_all
  have commit: "?step ?w2 ?w3" "?step ?w3 ?w4"
    using Commit [of ?w2 "[]" app row "[(app, row)]" sha t1 "\<lambda>_. True" ?db1
        "snd (exchange_commit sha t1 (\<lambda>_. True) (w_db w) app row)" parse_url challenge_of]
      Commit [of ?w3 "[]" app row "[]" sha t2 "\<lambda>_. True" ?db2
        "snd (exchange_commit sha t2 (\<lambda>_. True) ?db1 app row)" parse_url challenge_of]
    by simp_all
  have "db_tokens ?db1 = db_tokens (w_db w) @ [user_token_row sha t1 app row]"
    using assms(3) by (simp add: exchange_commit_tokens list_all_iff)
  then have "db_tokens ?db2 = db_tokens (w_db w) @
      [user_token_row sha t1 app row, user_token_row sha t2 app row]"
    using assms(3,4) by (simp add: exchange_commit_tokens list_all_iff user_token_row_def)
  moreover have "?step\<^sup>*\<^sup>* w ?w4"
    using check commit by (meson converse_rtranclp_into_rtranclp rtranclp.rtrancl_refl)
  ultimately show ?thesis by (intro exI [of _ ?w4]) simp
qed

theorem code_used_twice_witness:
  "\<exists>w' app row. (oauth_step (\<lambda>_. None) (\<lambda>s. s) (\<lambda>v. v))\<^sup>*\<^sup>* sample_world w' \<and>
    db_tokens (w_db w') =
      [user_token_row (\<lambda>s. s) ''t'' app row, user_token_row (\<lambda>s. s) ''u'' app row]"
proof -
  obtain app row where check: "exchange_check (\<lambda>v. v) 600 (w_db sample_world) sample_input = Inr (app, row)"
    using sample_exchange by (auto simp: is_ok_iff)
  have "db_tokens (w_db sample_world) = []" by code_simp
  moreover have "w_pending sample_world = []" by (simp add: sample_world_def empty_world_def)
  ultimately show ?thesis
    using code_used_twice [OF check, of "\<lambda>s. s" "''t''" "''u''" "\<lambda>_. None"]
    by (auto simp: oauth_bearer_token_hash_def)
qed

text \<open>
  Expiry is stored and compared in 32 bits. From the second 2 ^ 31 on, in January 2038, no code
  can be exchanged and no token of an app is accepted, however new.
\<close>

theorem nothing_valid_after_2038:
  assumes "oauth_reachable parse_url sha challenge_of w" "2 ^ 31 \<le> now"
  shows "\<not> is_ok (exchange_check challenge_of now (w_db w) input) \<and>
    find_oauth_app_by_bearer_token sha now (w_db w) bearer = Some (w_db w, None)"
proof -
  note sound = reachable_sound [OF assms(1)]
  have "code_expires_at row < now" if "row \<in> set (db_codes (w_db w))" for row
    using sound_members(1) [OF sound that] assms(2) by (simp add: code_sound_def)
  then have "\<not> is_ok (exchange_check challenge_of now (w_db w) input)"
    using load_code_Some exchange_check_Inr(3,6) by (fastforce simp: is_ok_iff)
  moreover have "\<not> not_expired now t" if "t \<in> set (db_app_tokens (w_db w))" for t
    using sound_members(3) [OF sound that] assms(2)
    by (auto simp: app_token_sound_def not_expired_def i32_binding_def split: option.splits)
  then have "find_app_joined (w_db w) (\<lambda>t. P t \<and> not_expired now t) = None" for P
    by (simp add: find_app_joined_def cong: filter_cong)
  ultimately show ?thesis by (simp add: find_oauth_app_by_bearer_token_def)
qed

theorem nothing_valid_after_2038_witness:
  "\<not> is_ok (exchange_check (\<lambda>v. v) (2 ^ 31) (w_db sample_world) sample_input) \<and>
    is_ok (exchange_check (\<lambda>v. v) 600 (w_db sample_world) sample_input)"
  using nothing_valid_after_2038 [OF sample_world_reachable, of "2 ^ 31" "\<lambda>v. v" sample_input]
    sample_exchange by simp

text \<open>
  The stored hash of an app's token is itself a token. Presented in place of the token it is
  taken for a legacy one, and the app it belongs to, or one of an equal stored token, is found;
  that of an account's token is not.
\<close>

theorem stored_hash_is_a_token:
  assumes "oauth_reachable parse_url sha challenge_of w" "r \<in> set (db_app_tokens (w_db w))"
    and "not_expired now r" "list_all (\<lambda>a. 0 \<le> app_id a \<and> app_id a < 2 ^ 31) (db_apps (w_db w))"
    and "list_all (\<lambda>t. tok_access_token t \<noteq> oauth_bearer_token_hash sha (tok_access_token r))
      (db_app_tokens (w_db w) @ db_tokens (w_db w))"
  shows "\<exists>db app. find_oauth_app_by_bearer_token sha now (w_db w) (tok_access_token r) =
      Some (db, Some app) \<and>
    find_oauth_access_token_by_bearer_token sha now (w_db w) (tok_access_token r) =
      Some (w_db w, None)"
proof -
  note sound = reachable_sound [OF assms(1)]
  let ?h = "oauth_bearer_token_hash sha (tok_access_token r)"
  have unhashed: "tok_access_token_hash t \<noteq> Some ?h"
    if "t \<in> set (db_app_tokens (w_db w)) \<or> t \<in> set (db_tokens (w_db w))" for t
    using that assms(5) sound_members(2,3) [OF sound, of t]
    by (auto simp: list_all_iff token_sound_def app_token_sound_def)
  have "find_app_joined (w_db w) (\<lambda>t. tok_access_token_hash t = Some ?h \<and> not_expired now t) = None"
    using unhashed by (simp add: find_app_joined_def cong: filter_cong)
  moreover obtain app where "app_of_token (w_db w) r = Some app"
  proof -
    obtain a where "row_of_app w a (tok_oauth_app_id r) (tok_scopes_json r) None"
      using sound_members(3) [OF sound assms(2)] by (auto simp: app_token_sound_def)
    then have "a \<in> set (db_apps (w_db w))" "app_id a = tok_oauth_app_id r"
      using assms(4) by (auto simp: row_of_app_def i32_binding_def list_all_iff)
    then have "app_of_token (w_db w) r \<noteq> None" by (auto simp: app_of_token_def find_None_iff)
    then show ?thesis using that by blast
  qed
  then obtain a where
    "find_app_joined (w_db w) (\<lambda>t. tok_access_token t = tok_access_token r \<and> not_expired now t) = Some a"
    using find_app_joined_Some [of r "w_db w" "\<lambda>t. tok_access_token t = tok_access_token r \<and> not_expired now t"]
      assms(2,3) by simp blast
  moreover have "\<not> list_ex (\<lambda>t. tok_access_token t = ?h \<and> tok_access_token t \<noteq> tok_access_token r)
      (db_app_tokens (w_db w))"
    using assms(5) by (auto simp: list_ex_iff list_all_iff)
  moreover have "find_token_by_hash now (w_db w) ?h = None"
    using unhashed by (auto simp: find_token_by_hash_def find_None_iff)
  moreover have "find_legacy_token_by_plaintext now (w_db w) (tok_access_token r) = None"
    using no_legacy_tokens [OF sound] .
  ultimately show ?thesis
    by (simp add: find_oauth_app_by_bearer_token_def find_oauth_access_token_by_bearer_token_def)
qed

theorem stored_hash_is_a_token_witness:
  "\<exists>db app. find_oauth_app_by_bearer_token (\<lambda>s. s) 600 (w_db sample_app_token_world) ''sha256:u'' =
    Some (db, Some app)"
proof -
  obtain r where r: "db_app_tokens (w_db sample_app_token_world) = [r]" "not_expired 600 r"
    "tok_access_token r = ''sha256:u''"
  proof -
    have "length (db_app_tokens (w_db sample_app_token_world)) = 1"
      "not_expired 600 (hd (db_app_tokens (w_db sample_app_token_world)))"
      "tok_access_token (hd (db_app_tokens (w_db sample_app_token_world))) = ''sha256:u''"
      by code_simp+
    then show ?thesis using that by (auto simp: length_Suc_conv)
  qed
  have "list_all (\<lambda>a. 0 \<le> app_id a \<and> app_id a < 2 ^ 31) (db_apps (w_db sample_app_token_world))"
    "list_all (\<lambda>t. tok_access_token t \<noteq> oauth_bearer_token_hash (\<lambda>s. s) ''sha256:u'')
      (db_app_tokens (w_db sample_app_token_world) @ db_tokens (w_db sample_app_token_world))"
    by code_simp+
  then show ?thesis
    using stored_hash_is_a_token [OF sample_app_token_world_reachable, of r 600] r by auto
qed



end
