(* ===== verification/Delivery_Queue.thy ===== *)
theory Delivery_Queue
  imports Delivery Text_Ops
begin

text \<open>
  The queue of deliveries (\<open>cfwdon-worker/src/delivery/\<close>): the rows of \<open>outbox_deliveries\<close> and the
  statements that change them, each a guarded update, and the workers that claim rows, send them and
  report. Instants are seconds. A run is a list of events, so that claims, reports of workers that
  were taken for dead, and the requeueing of stale rows come in any order.
\<close>

section \<open>Rows\<close>

datatype row_state = Row_Queued | Row_In_Flight | Row_Expanded | Row_Delivered | Row_Failed

record outbox_delivery_row =
  od_id :: string
  od_account_id :: string
  od_status_id :: "string option"
  od_activity_id :: string
  od_activity_type :: string
  od_target_inbox :: "string option"
  od_payload_json :: string
  od_state :: row_state
  od_attempt_count :: int
  od_last_attempt_at :: "int option"
  od_next_attempt_at :: "int option"
  od_created_at :: int

type_synonym outbox_table = "outbox_delivery_row list"

text \<open>\<open>UPDATE .. SET .. WHERE ..\<close>, and whether it changed a row.\<close>

definition update_where ::
    "(outbox_delivery_row \<Rightarrow> bool) \<Rightarrow> (outbox_delivery_row \<Rightarrow> outbox_delivery_row) \<Rightarrow>
     outbox_table \<Rightarrow> outbox_table" where
  "update_where P f rows = map (\<lambda>r. if P r then f r else r) rows"

definition due :: "int \<Rightarrow> outbox_delivery_row \<Rightarrow> bool" where
  "due now r \<longleftrightarrow> (case od_next_attempt_at r of None \<Rightarrow> True | Some t \<Rightarrow> t \<le> now)"

text \<open>\<open>-15 minutes\<close>\<close>

definition OUTBOX_IN_FLIGHT_STALE_SECONDS :: int where "OUTBOX_IN_FLIGHT_STALE_SECONDS = 900"

definition stale :: "int \<Rightarrow> outbox_delivery_row \<Rightarrow> bool" where
  "stale now r \<longleftrightarrow> od_state r = Row_In_Flight \<and>
    (case od_last_attempt_at r of
       None \<Rightarrow> False | Some t \<Rightarrow> t \<le> now - OUTBOX_IN_FLIGHT_STALE_SECONDS)"

text \<open>What SQLite adds for the modifiers of the retry schedule.\<close>

definition modifier_seconds :: "string \<Rightarrow> int" where
  "modifier_seconds m =
    (if m = ''+1 minute'' then 60 else if m = ''+5 minutes'' then 300
     else if m = ''+15 minutes'' then 900 else 3600)"

text \<open>\<open>next_attempt\<close> of a row, by the domain's rule on 32 bits.\<close>

definition next_attempt :: "int \<Rightarrow> u32" where
  "next_attempt attempt_count = next_delivery_attempt_count (word_of_int attempt_count)"

section \<open>Statements\<close>

definition pending_outbox_work_exists :: "int \<Rightarrow> outbox_table \<Rightarrow> bool" where
  "pending_outbox_work_exists now rows \<longleftrightarrow>
    list_ex (\<lambda>r. od_state r = Row_Queued \<and> due now r) rows \<or> list_ex (stale now) rows"

definition claim ::
    "(outbox_delivery_row \<Rightarrow> bool) \<Rightarrow> int \<Rightarrow> nat \<Rightarrow> outbox_table \<Rightarrow>
     outbox_table \<times> outbox_delivery_row list" where
  "claim P now limit rows =
    (let selected = take limit (sort_key od_created_at
           (filter (\<lambda>r. od_state r = Row_Queued \<and> P r \<and> due now r) rows));
         set_in_flight = (\<lambda>r. r\<lparr>od_state := Row_In_Flight, od_last_attempt_at := Some now\<rparr>)
     in (update_where (\<lambda>r. od_id r \<in> set (map od_id selected)) set_in_flight rows,
         map set_in_flight selected))"

definition claim_pending_generic_outbox_deliveries ::
    "int \<Rightarrow> nat \<Rightarrow> outbox_table \<Rightarrow> outbox_table \<times> outbox_delivery_row list" where
  "claim_pending_generic_outbox_deliveries = claim (\<lambda>r. od_target_inbox r = None)"

definition claim_pending_target_outbox_deliveries ::
    "int \<Rightarrow> nat \<Rightarrow> outbox_table \<Rightarrow> outbox_table \<times> outbox_delivery_row list" where
  "claim_pending_target_outbox_deliveries = claim (\<lambda>r. od_target_inbox r \<noteq> None)"

definition mark_outbox_deliveries_expanded :: "string list \<Rightarrow> outbox_table \<Rightarrow> outbox_table" where
  "mark_outbox_deliveries_expanded ids =
    update_where (\<lambda>r. od_id r \<in> set ids \<and> od_state r = Row_In_Flight)
      (\<lambda>r. r\<lparr>od_state := Row_Expanded\<rparr>)"

definition mark_outbox_deliveries_completed_without_targets ::
    "int \<Rightarrow> string list \<Rightarrow> outbox_table \<Rightarrow> outbox_table" where
  "mark_outbox_deliveries_completed_without_targets now ids =
    update_where (\<lambda>r. od_id r \<in> set ids)
      (\<lambda>r. r\<lparr>od_state := Row_Delivered, od_last_attempt_at := Some now, od_next_attempt_at := None\<rparr>)"

definition mark_outbox_delivery_delivered :: "int \<Rightarrow> string \<Rightarrow> outbox_table \<Rightarrow> outbox_table" where
  "mark_outbox_delivery_delivered now ident =
    update_where (\<lambda>r. od_id r = ident \<and> od_state r = Row_In_Flight)
      (\<lambda>r. r\<lparr>od_state := Row_Delivered, od_last_attempt_at := Some now, od_next_attempt_at := None\<rparr>)"

definition mark_outbox_delivery_terminal_failure ::
    "int \<Rightarrow> string \<Rightarrow> u32 \<Rightarrow> outbox_table \<Rightarrow> outbox_table" where
  "mark_outbox_delivery_terminal_failure now ident attempt =
    update_where (\<lambda>r. od_id r = ident \<and> od_state r = Row_In_Flight)
      (\<lambda>r. r\<lparr>od_state := Row_Failed, od_attempt_count := sint attempt,
             od_last_attempt_at := Some now, od_next_attempt_at := None\<rparr>)"

definition reschedule_outbox_delivery ::
    "int \<Rightarrow> string \<Rightarrow> u32 \<Rightarrow> outbox_table \<Rightarrow> outbox_table" where
  "reschedule_outbox_delivery now ident attempt =
    update_where (\<lambda>r. od_id r = ident \<and> od_state r = Row_In_Flight)
      (\<lambda>r. r\<lparr>od_state := Row_Queued, od_attempt_count := sint attempt,
             od_last_attempt_at := Some now,
             od_next_attempt_at := Some (now + modifier_seconds (delivery_retry_delay_modifier attempt))\<rparr>)"

definition requeue_stale_in_flight_outbox_deliveries :: "int \<Rightarrow> outbox_table \<Rightarrow> outbox_table" where
  "requeue_stale_in_flight_outbox_deliveries now =
    update_where (stale now)
      (\<lambda>r. let exhausted = od_attempt_count r + 1 \<ge> uint DELIVERY_MAX_ATTEMPTS in
        r\<lparr>od_attempt_count := od_attempt_count r + 1,
          od_state := (if exhausted then Row_Failed else Row_Queued),
          od_next_attempt_at := (if exhausted then od_next_attempt_at r else Some now)\<rparr>)"

definition cancel_pending_outbox_deliveries_for_inbox ::
    "string \<Rightarrow> string \<Rightarrow> outbox_table \<Rightarrow> outbox_table" where
  "cancel_pending_outbox_deliveries_for_inbox account target_inbox =
    update_where (\<lambda>r. od_account_id r = account \<and> od_target_inbox r = Some target_inbox \<and>
        od_state r \<in> {Row_Queued, Row_Expanded, Row_In_Flight})
      (\<lambda>r. r\<lparr>od_state := Row_Failed\<rparr>)"

definition retry_outbox_delivery :: "int \<Rightarrow> string \<Rightarrow> outbox_table \<Rightarrow> outbox_table" where
  "retry_outbox_delivery now ident =
    update_where (\<lambda>r. od_id r = ident \<and> od_state r = Row_Failed)
      (\<lambda>r. r\<lparr>od_state := Row_Queued, od_next_attempt_at := Some now\<rparr>)"

text \<open>
  \<open>INSERT OR IGNORE\<close> of a queued row: ignored where its key is taken or another row has its
  activity and its inbox.
\<close>

definition insert_or_ignore :: "outbox_delivery_row \<Rightarrow> outbox_table \<Rightarrow> outbox_table" where
  "insert_or_ignore r rows =
    (if list_ex (\<lambda>q. od_id q = od_id r \<or>
          (od_target_inbox r \<noteq> None \<and> od_activity_id q = od_activity_id r \<and>
           od_target_inbox q = od_target_inbox r)) rows
     then rows else rows @ [r])"

definition queued_row ::
    "int \<Rightarrow> string \<Rightarrow> string \<Rightarrow> string option \<Rightarrow> string \<Rightarrow> string \<Rightarrow> string option \<Rightarrow> string \<Rightarrow>
     outbox_delivery_row" where
  "queued_row now ident account status activity_id activity_type target payload =
    \<lparr>od_id = ident, od_account_id = account, od_status_id = status, od_activity_id = activity_id,
     od_activity_type = activity_type, od_target_inbox = target, od_payload_json = payload,
     od_state = Row_Queued, od_attempt_count = 0, od_last_attempt_at = None,
     od_next_attempt_at = Some now, od_created_at = now\<rparr>"

text \<open>The inboxes of a targeted activity, each once; \<open>fresh\<close> gives the random identifiers.\<close>

fun distinct_targets :: "string list \<Rightarrow> string list \<Rightarrow> string list" where
  "distinct_targets seen [] = []"
| "distinct_targets seen (t # ts) =
    (let t = trim t in
     if t = [] \<or> t \<in> set seen then distinct_targets seen ts
     else t # distinct_targets (t # seen) ts)"

definition enqueue_targeted_outbox_activity ::
    "(string \<Rightarrow> string) \<Rightarrow> int \<Rightarrow> string \<Rightarrow> string option \<Rightarrow> string \<Rightarrow> string \<Rightarrow> string \<Rightarrow>
     string list \<Rightarrow> outbox_table \<Rightarrow> outbox_table" where
  "enqueue_targeted_outbox_activity fresh now account status activity_id activity_type payload
      target_inboxes =
    fold (\<lambda>target. insert_or_ignore
        (queued_row now (fresh target) account status activity_id activity_type (Some target) payload))
      (distinct_targets [] target_inboxes)"

text \<open>The insert of a generic row fails where the key is taken.\<close>

definition outbox_delivery_insert ::
    "int \<Rightarrow> string \<Rightarrow> string \<Rightarrow> string \<Rightarrow> string \<Rightarrow> string \<Rightarrow> string \<Rightarrow> outbox_table \<Rightarrow>
     outbox_table option" where
  "outbox_delivery_insert now ident account status activity_id activity_type payload rows =
    (if list_ex (\<lambda>r. od_id r = ident) rows then None
     else Some (rows @
       [queued_row now ident account (Some status) activity_id activity_type None payload]))"

section \<open>Expansion of a generic row\<close>

definition partition_generic_outbox_deliveries_by_targets ::
    "outbox_delivery_row list \<Rightarrow> (string \<Rightarrow> string list option) \<Rightarrow>
     outbox_delivery_row list \<times> string list" where
  "partition_generic_outbox_deliveries_by_targets deliveries targets_by_account =
    (let has = (\<lambda>r. case targets_by_account (od_account_id r) of
         None \<Rightarrow> False
       | Some targets \<Rightarrow> generic_outbox_has_follower_targets (word_of_nat (length targets)))
     in (filter has deliveries, map od_id (filter (\<lambda>r. \<not> has r) deliveries)))"

fun distinct_from :: "string list \<Rightarrow> string list \<Rightarrow> string list" where
  "distinct_from seen [] = []"
| "distinct_from seen (t # ts) =
    (if t \<in> set seen then distinct_from seen ts else t # distinct_from (t # seen) ts)"

definition collect_outbox_delivery_expansions ::
    "outbox_delivery_row list \<Rightarrow> (string \<Rightarrow> string list option) \<Rightarrow>
     (outbox_delivery_row \<times> string) list" where
  "collect_outbox_delivery_expansions deliveries targets_by_account =
    concat (map (\<lambda>d. case targets_by_account (od_account_id d) of
        None \<Rightarrow> []
      | Some targets \<Rightarrow> map (\<lambda>t. (d, t)) (distinct_from [] targets)) deliveries)"

definition expand_outbox_delivery_targets_for_deliveries ::
    "(string \<Rightarrow> string \<Rightarrow> string) \<Rightarrow> int \<Rightarrow> outbox_delivery_row list \<Rightarrow>
     (string \<Rightarrow> string list option) \<Rightarrow> outbox_table \<Rightarrow> outbox_table" where
  "expand_outbox_delivery_targets_for_deliveries fresh now deliveries targets_by_account =
    fold (\<lambda>(d, t). insert_or_ignore
        ((queued_row now (fresh (od_id d) t) (od_account_id d) (od_status_id d) (od_activity_id d)
          (od_activity_type d) (Some t) (od_payload_json d))\<lparr>od_next_attempt_at := Some now\<rparr>))
      (collect_outbox_delivery_expansions deliveries targets_by_account)"

definition finish_generic_outbox_deliveries ::
    "(string \<Rightarrow> string \<Rightarrow> string) \<Rightarrow> int \<Rightarrow> outbox_delivery_row list \<Rightarrow>
     (string \<Rightarrow> string list option) \<Rightarrow> outbox_table \<Rightarrow> outbox_table" where
  "finish_generic_outbox_deliveries fresh now deliveries targets_by_account rows =
    (let (with_targets, without) =
         partition_generic_outbox_deliveries_by_targets deliveries targets_by_account;
         rows1 = (if without = [] then rows
           else mark_outbox_deliveries_completed_without_targets now without rows)
     in if with_targets = [] then rows1
        else mark_outbox_deliveries_expanded (map od_id with_targets)
          (expand_outbox_delivery_targets_for_deliveries fresh now with_targets targets_by_account
            rows1))"

section \<open>Reports\<close>

text \<open>
  What becomes of a claimed delivery: it is sent, or the account is missing, or the domain of the
  inbox is blocked, which are reported like a permanent failure.
\<close>

definition report_target_delivery ::
    "int \<Rightarrow> outbox_delivery_row \<Rightarrow> delivery_attempt_outcome \<Rightarrow> outbox_table \<Rightarrow> outbox_table" where
  "report_target_delivery now d outcome =
    (if outcome = delivery_attempt_outcome.Success then mark_outbox_delivery_delivered now (od_id d)
     else let attempt = next_attempt (od_attempt_count d);
              terminal = (outcome = PermanentFailure \<or> is_delivery_terminal attempt)
       in if terminal then mark_outbox_delivery_terminal_failure now (od_id d) attempt
          else reschedule_outbox_delivery now (od_id d) attempt)"

end
