(* ===== verification/Delivery_Runs.thy ===== *)
theory Delivery_Runs
  imports Delivery_Queue
begin

text \<open>
  Runs of the delivery queue: workers claim rows and report on them in any order, are taken for dead
  and report late; the clock advances, stale rows are requeued, users enqueue, the administrator
  retries. The world keeps, beside the table, the claims not yet reported on, and a log of all claims
  of target rows (each of which sends its activity at most once) and of the administrator's retries.
\<close>

section \<open>Worlds and events\<close>

record queue_world =
  q_rows :: outbox_table
  q_jobs :: "outbox_delivery_row list"
  q_now :: int
  q_claims :: "string list"
  q_retries :: "string list"

definition empty_queue :: "int \<Rightarrow> queue_world" where
  "empty_queue now = \<lparr>q_rows = [], q_jobs = [], q_now = now, q_claims = [], q_retries = []\<rparr>"

datatype queue_event =
  Tick nat
| Requeue
| Claim_Targets nat
| Claim_Generic nat
| Finish_Generic "string \<Rightarrow> string \<Rightarrow> string" "outbox_delivery_row list" "string \<Rightarrow> string list option"
| Report outbox_delivery_row delivery_attempt_outcome
| Cancel_Inbox string string
| Admin_Retry string
| Enqueue_Targeted "string \<Rightarrow> string" string "string option" string string string "string list"
| Enqueue_Generic string string string string string string

text \<open>A worker reports on a claim once; the generic rows it finishes are rows without an inbox.\<close>

fun queue_apply :: "queue_event \<Rightarrow> queue_world \<Rightarrow> queue_world" where
  "queue_apply (Tick n) w = w\<lparr>q_now := q_now w + int n\<rparr>"
| "queue_apply Requeue w =
    w\<lparr>q_rows := requeue_stale_in_flight_outbox_deliveries (q_now w) (q_rows w)\<rparr>"
| "queue_apply (Claim_Targets limit) w =
    (case claim_pending_target_outbox_deliveries (q_now w) limit (q_rows w) of (rows, claimed) \<Rightarrow>
      w\<lparr>q_rows := rows, q_jobs := q_jobs w @ claimed, q_claims := q_claims w @ map od_id claimed\<rparr>)"
| "queue_apply (Claim_Generic limit) w =
    w\<lparr>q_rows := fst (claim_pending_generic_outbox_deliveries (q_now w) limit (q_rows w))\<rparr>"
| "queue_apply (Finish_Generic fresh batch targets) w =
    (if list_all (\<lambda>d. od_target_inbox d = None \<and>
          list_ex (\<lambda>r. od_id r = od_id d \<and> od_target_inbox r = None) (q_rows w)) batch
     then w\<lparr>q_rows := finish_generic_outbox_deliveries fresh (q_now w) batch targets (q_rows w)\<rparr>
     else w)"
| "queue_apply (Report d outcome) w =
    (if d \<in> set (q_jobs w)
     then w\<lparr>q_rows := report_target_delivery (q_now w) d outcome (q_rows w),
            q_jobs := remove1 d (q_jobs w)\<rparr>
     else w)"
| "queue_apply (Cancel_Inbox account inbox) w =
    w\<lparr>q_rows := cancel_pending_outbox_deliveries_for_inbox account inbox (q_rows w)\<rparr>"
| "queue_apply (Admin_Retry ident) w =
    w\<lparr>q_rows := retry_outbox_delivery (q_now w) ident (q_rows w),
      q_retries := q_retries w @ [ident]\<rparr>"
| "queue_apply (Enqueue_Targeted fresh account status activity_id activity_type payload inboxes) w =
    w\<lparr>q_rows := enqueue_targeted_outbox_activity fresh (q_now w) account status activity_id
        activity_type payload inboxes (q_rows w)\<rparr>"
| "queue_apply (Enqueue_Generic ident account status activity_id activity_type payload) w =
    (case outbox_delivery_insert (q_now w) ident account status activity_id activity_type payload
        (q_rows w) of
       None \<Rightarrow> w | Some rows \<Rightarrow> w\<lparr>q_rows := rows\<rparr>)"

definition queue_run :: "queue_event list \<Rightarrow> queue_world \<Rightarrow> queue_world" where
  "queue_run es w = fold queue_apply es w"

section \<open>The row of an identifier\<close>

definition row_of :: "outbox_table \<Rightarrow> string \<Rightarrow> outbox_delivery_row option" where
  "row_of rows ident = find (\<lambda>r. od_id r = ident) rows"

lemma row_of_id: "row_of rows x = Some r \<Longrightarrow> od_id r = x"
  by (auto simp: row_of_def find_Some_iff)

lemma row_of_update:
  assumes "\<And>r. od_id (f r) = od_id r"
  shows "row_of (update_where P f rows) x = map_option (\<lambda>r. if P r then f r else r) (row_of rows x)"
  using assms by (induction rows) (auto simp: row_of_def update_where_def)

lemma ids_update:
  assumes "\<And>r. od_id (f r) = od_id r"
  shows "map od_id (update_where P f rows) = map od_id rows"
  using assms by (induction rows) (auto simp: update_where_def)

lemma row_of_in: "distinct (map od_id rows) \<Longrightarrow> r \<in> set rows \<Longrightarrow> row_of rows (od_id r) = Some r"
  by (induction rows) (auto simp: row_of_def)

lemma row_of_mem: "row_of rows x = Some r \<Longrightarrow> r \<in> set rows"
  by (auto simp: row_of_def find_Some_iff)

lemma row_of_append: "row_of (rows @ rows') x =
    (case row_of rows x of None \<Rightarrow> row_of rows' x | Some r \<Rightarrow> Some r)"
  by (induction rows) (auto simp: row_of_def)

lemma row_of_none: "row_of rows x = None \<longleftrightarrow> x \<notin> od_id ` set rows"
  by (auto simp: row_of_def find_None_iff)

section \<open>The invariant of runs\<close>

text \<open>
  How often a row can still be claimed. A claim leaves the row in flight and a report to come, and
  each of the two can put the row back in the queue with one attempt more: the one when the row is
  taken for stale, the other when the worker reports after that.
\<close>

definition tries :: "int \<Rightarrow> nat" where
  "tries c = (if 5 \<le> c then 0 else 2 ^ nat (5 - c) - 1)"

definition row_weight :: "outbox_delivery_row \<Rightarrow> nat" where
  "row_weight r =
    (case od_state r of
       Row_Queued \<Rightarrow> max 1 (tries (od_attempt_count r))
     | Row_In_Flight \<Rightarrow> tries (od_attempt_count r + 1)
     | _ \<Rightarrow> 0)"

definition jobs_weight :: "outbox_delivery_row list \<Rightarrow> string \<Rightarrow> nat" where
  "jobs_weight ds x =
    sum_list (map (\<lambda>d. if od_id d = x then tries (od_attempt_count d + 1) else 0) ds)"

definition weight_of :: "queue_world \<Rightarrow> string \<Rightarrow> nat" where
  "weight_of w x =
    (case row_of (q_rows w) x of None \<Rightarrow> 0 | Some r \<Rightarrow> row_weight r) + jobs_weight (q_jobs w) x"

definition row_ok :: "nat \<Rightarrow> int \<Rightarrow> outbox_delivery_row \<Rightarrow> bool" where
  "row_ok n now r \<longleftrightarrow>
    0 \<le> od_attempt_count r \<and>
    od_attempt_count r \<le> int n + (if od_state r \<in> {Row_Queued, Row_In_Flight} then 4 else 5) \<and>
    (od_state r = Row_In_Flight \<longrightarrow> (\<exists>t. od_last_attempt_at r = Some t \<and> t \<le> now)) \<and>
    (od_state r = Row_Queued \<longrightarrow> due (now + 3600) r)"

abbreviation targeted :: "outbox_delivery_row \<Rightarrow> bool" where
  "targeted r \<equiv> od_target_inbox r \<noteq> None"

definition row_key :: "outbox_delivery_row \<Rightarrow> string \<times> string option" where
  "row_key r = (od_activity_id r, od_target_inbox r)"

definition queue_ok :: "queue_world \<Rightarrow> bool" where
  "queue_ok w \<longleftrightarrow>
    distinct (map od_id (q_rows w)) \<and>
    distinct (map row_key (filter targeted (q_rows w))) \<and>
    (\<forall>x r. row_of (q_rows w) x = Some r \<longrightarrow> row_ok (count_list (q_retries w) x) (q_now w) r) \<and>
    (\<forall>d \<in> set (q_jobs w). row_of (q_rows w) (od_id d) \<noteq> None \<and> 0 \<le> od_attempt_count d \<and>
      od_attempt_count d \<le> int (count_list (q_retries w) (od_id d)) + 4) \<and>
    (\<forall>x \<in> set (q_claims w). row_of (q_rows w) x \<noteq> None) \<and>
    (\<forall>x. count_list (q_claims w) x + weight_of w x \<le> 31 * (1 + count_list (q_retries w) x))"

lemma row_ok_mono: "row_ok m now r \<Longrightarrow> m \<le> n \<Longrightarrow> now \<le> now' \<Longrightarrow> row_ok n now' r"
  by (auto simp: row_ok_def due_def split: option.splits)

lemma tries_step: "c < 5 \<Longrightarrow> tries c = 1 + 2 * tries (c + 1)"
proof -
  assume c: "c < 5"
  define k where "k = nat (4 - c)"
  have k: "nat (5 - c) = Suc k" "nat (5 - (c + 1)) = k" "5 \<le> c + 1 \<longleftrightarrow> k = 0"
    using c by (auto simp: k_def)
  have "2 * (2::nat) ^ k - 1 = 1 + 2 * (2 ^ k - 1)" by (cases "2 ^ k :: nat") auto
  moreover have "k = 0 \<Longrightarrow> (2::nat) ^ k = 1" by simp
  ultimately show ?thesis using c unfolding tries_def k by (cases "k = 0") simp_all
qed

lemma tries_le: "0 \<le> c \<Longrightarrow> tries c \<le> 31"
proof -
  assume c: "0 \<le> c"
  have "(2::nat) ^ nat (5 - c) \<le> 2 ^ 5" using c by (intro power_increasing) auto
  then have "(2::nat) ^ nat (5 - c) - 1 \<le> 31" by simp
  then show ?thesis by (auto simp: tries_def)
qed

lemma tries_zero [simp]: "5 \<le> c \<Longrightarrow> tries c = 0" by (simp add: tries_def)

lemma tries_pos: "c < 5 \<Longrightarrow> 1 \<le> tries c"
  by (simp add: tries_step)

lemma tries_next_pos: "c < 4 \<Longrightarrow> Suc 0 \<le> tries (c + 1)"
  using tries_pos [of "c + 1"] by simp

lemma row_weight_le: "0 \<le> od_attempt_count r \<Longrightarrow> row_weight r \<le> 31"
  using tries_le [of "od_attempt_count r"] tries_le [of "od_attempt_count r + 1"]
  by (auto simp: row_weight_def split: row_state.split)

lemma row_of_map:
  assumes "\<And>r. od_id (f r) = od_id r"
  shows "row_of (map f rows) x = map_option f (row_of rows x)"
  using assms by (induction rows) (auto simp: row_of_def)

lemma keys_map:
  assumes "\<And>r. od_activity_id (f r) = od_activity_id r" "\<And>r. od_target_inbox (f r) = od_target_inbox r"
  shows "map row_key (filter targeted (map f rows)) = map row_key (filter targeted rows)"
  using assms by (induction rows) (auto simp: row_key_def)

text \<open>Every statement but a claim of target rows and an insertion changes rows where they are.\<close>

lemma queue_ok_map:
  assumes ok: "queue_ok w"
    and rows: "q_rows w' = map f (q_rows w)"
    and same: "\<And>r. od_id (f r) = od_id r" "\<And>r. od_activity_id (f r) = od_activity_id r"
      "\<And>r. od_target_inbox (f r) = od_target_inbox r"
    and rest: "q_claims w' = q_claims w" "set (q_jobs w') \<subseteq> set (q_jobs w)"
    and more: "\<And>x. count_list (q_retries w) x \<le> count_list (q_retries w') x"
    and row: "\<And>x r. row_of (q_rows w) x = Some r \<Longrightarrow>
      row_ok (count_list (q_retries w) x) (q_now w) r \<Longrightarrow>
      row_ok (count_list (q_retries w') x) (q_now w') (f r)"
    and weight: "\<And>x r. row_of (q_rows w) x = Some r \<Longrightarrow>
      row_ok (count_list (q_retries w) x) (q_now w) r \<Longrightarrow>
      row_weight (f r) + jobs_weight (q_jobs w') x \<le> row_weight r + jobs_weight (q_jobs w) x +
        31 * (count_list (q_retries w') x - count_list (q_retries w) x)"
  shows "queue_ok w'"
proof -
  have lookup: "row_of (q_rows w') x = map_option f (row_of (q_rows w) x)" for x
    by (simp add: rows row_of_map same)
  have ids: "map od_id (q_rows w') = map od_id (q_rows w)" by (simp add: rows same)
  have bound: "count_list (q_claims w') x + weight_of w' x \<le>
      31 * (1 + count_list (q_retries w') x)" for x
  proof (cases "row_of (q_rows w) x")
    case None
    have "\<forall>d \<in> set (q_jobs w). row_of (q_rows w) (od_id d) \<noteq> None"
      "\<forall>x \<in> set (q_claims w). row_of (q_rows w) x \<noteq> None"
      using ok by (auto simp: queue_ok_def)
    with None rest have "x \<notin> set (q_claims w')" "\<forall>d \<in> set (q_jobs w'). od_id d \<noteq> x"
      by (metis, metis subsetD)
    then have "count_list (q_claims w') x = 0" "jobs_weight (q_jobs w') x = 0"
      by (auto simp: count_list_0_iff jobs_weight_def)
    then show ?thesis by (simp add: weight_of_def lookup None)
  next
    case (Some r)
    have "count_list (q_claims w) x + weight_of w x \<le> 31 * (1 + count_list (q_retries w) x)"
      "row_ok (count_list (q_retries w) x) (q_now w) r"
      using ok Some by (auto simp: queue_ok_def)
    then show ?thesis
      using weight [OF Some] more [of x] rest(1) by (simp add: weight_of_def lookup Some)
  qed
  have jobs: "\<forall>d \<in> set (q_jobs w'). row_of (q_rows w') (od_id d) \<noteq> None \<and> 0 \<le> od_attempt_count d \<and>
      od_attempt_count d \<le> int (count_list (q_retries w') (od_id d)) + 4"
  proof
    fix d assume "d \<in> set (q_jobs w')"
    then have "row_of (q_rows w) (od_id d) \<noteq> None \<and> 0 \<le> od_attempt_count d \<and>
      od_attempt_count d \<le> int (count_list (q_retries w) (od_id d)) + 4"
      using rest ok by (auto simp: queue_ok_def)
    then show "row_of (q_rows w') (od_id d) \<noteq> None \<and> 0 \<le> od_attempt_count d \<and>
      od_attempt_count d \<le> int (count_list (q_retries w') (od_id d)) + 4"
      using more [of "od_id d"] by (simp add: lookup)
  qed
  have keys: "map row_key (filter targeted (q_rows w')) = map row_key (filter targeted (q_rows w))"
    by (simp only: rows keys_map [OF same(2,3)])
  show ?thesis
    using ok bound jobs row unfolding queue_ok_def ids keys
    by (auto simp: lookup rest)
qed

section \<open>Insertions\<close>

lemma queue_ok_insert:
  assumes ok: "queue_ok w"
    and r: "od_state r = Row_Queued" "od_attempt_count r = 0" "due (q_now w + 3600) r"
    and generic: "targeted r \<or> list_all (\<lambda>q. od_id q \<noteq> od_id r) (q_rows w)"
  shows "queue_ok (w\<lparr>q_rows := insert_or_ignore r (q_rows w)\<rparr>)"
proof (cases "insert_or_ignore r (q_rows w) = q_rows w")
  case True
  then show ?thesis using ok by simp
next
  case False
  then have new: "insert_or_ignore r (q_rows w) = q_rows w @ [r]"
    and fresh: "row_of (q_rows w) (od_id r) = None"
    and key: "targeted r \<Longrightarrow> row_key r \<notin> row_key ` set (filter targeted (q_rows w))"
    by (auto simp: insert_or_ignore_def row_of_none list_ex_iff row_key_def split: if_splits)
  let ?w = "w\<lparr>q_rows := q_rows w @ [r]\<rparr>"
  have lookup: "row_of (q_rows w @ [r]) x =
      (if x = od_id r then Some r else row_of (q_rows w) x)" for x
  proof -
    have "row_of [r] x = (if x = od_id r then Some r else None)" by (auto simp: row_of_def)
    then show ?thesis using fresh by (auto simp: row_of_append split: option.splits)
  qed
  have jobs: "od_id d \<noteq> od_id r" if "d \<in> set (q_jobs w)" for d
    using ok fresh that by (auto simp: queue_ok_def)
  have claims: "od_id r \<notin> set (q_claims w)"
    using ok fresh by (auto simp: queue_ok_def)
  have none: "jobs_weight (q_jobs w) (od_id r) = 0"
    using jobs by (auto simp: jobs_weight_def)
  have "tries 0 = 31" by (simp add: tries_def)
  then have weight: "row_weight r = 31" using r by (simp add: row_weight_def)
  have rowok: "row_ok n (q_now w) r" for n using r by (simp add: row_ok_def)
  have bound: "count_list (q_claims w) x + weight_of ?w x \<le> 31 * (1 + count_list (q_retries w) x)" for x
    using ok none claims weight
    by (auto simp: queue_ok_def weight_of_def lookup count_list_0_iff)
  have "queue_ok ?w"
    using ok fresh key bound rowok
    by (auto simp: queue_ok_def lookup row_of_none jobs)
  then show ?thesis by (simp add: new)
qed

lemma queue_ok_inserts:
  assumes "queue_ok w"
    and "\<And>r. r \<in> set rs \<Longrightarrow>
      od_state r = Row_Queued \<and> od_attempt_count r = 0 \<and> due (q_now w + 3600) r \<and> targeted r"
  shows "queue_ok (w\<lparr>q_rows := fold insert_or_ignore rs (q_rows w)\<rparr>)"
  using assms
proof (induction rs arbitrary: w)
  case (Cons r rs)
  let ?w = "w\<lparr>q_rows := insert_or_ignore r (q_rows w)\<rparr>"
  have "queue_ok ?w" using Cons.prems by (intro queue_ok_insert) auto
  then have "queue_ok (?w\<lparr>q_rows := fold insert_or_ignore rs (q_rows ?w)\<rparr>)"
    by (rule Cons.IH) (use Cons.prems in auto)
  then show ?case by simp
qed simp

lemma enqueue_ok:
  assumes "queue_ok w"
  shows "queue_ok (queue_apply (Enqueue_Targeted fresh account status activity_id activity_type payload
      inboxes) w)"
proof -
  let ?row = "\<lambda>t. queued_row (q_now w) (fresh t) account status activity_id activity_type (Some t) payload"
  have "enqueue_targeted_outbox_activity fresh (q_now w) account status activity_id activity_type
      payload inboxes (q_rows w) =
    fold insert_or_ignore (map ?row (distinct_targets [] inboxes)) (q_rows w)"
    by (simp add: enqueue_targeted_outbox_activity_def fold_map comp_def)
  moreover have "queue_ok (w\<lparr>q_rows :=
      fold insert_or_ignore (map ?row (distinct_targets [] inboxes)) (q_rows w)\<rparr>)"
    by (rule queue_ok_inserts [OF assms]) (auto simp: queued_row_def due_def)
  ultimately show ?thesis by simp
qed

lemma enqueue_generic_ok:
  assumes "queue_ok w"
  shows "queue_ok (queue_apply (Enqueue_Generic ident account status activity_id activity_type
      payload) w)"
proof (cases "list_ex (\<lambda>r. od_id r = ident) (q_rows w)")
  case True
  then show ?thesis using assms by (simp add: outbox_delivery_insert_def)
next
  case False
  let ?r = "queued_row (q_now w) ident account (Some status) activity_id activity_type None payload"
  have "queue_ok (w\<lparr>q_rows := insert_or_ignore ?r (q_rows w)\<rparr>)"
    by (rule queue_ok_insert [OF assms])
      (use False in \<open>auto simp: queued_row_def due_def list_ex_iff list_all_iff\<close>)
  then show ?thesis
    using False by (simp add: outbox_delivery_insert_def insert_or_ignore_def queued_row_def)
qed

section \<open>Statements that change rows where they are\<close>

text \<open>An update that changes only rows of one kind and does not let them be claimed more often.\<close>

lemma queue_ok_update:
  assumes ok: "queue_ok w"
    and same: "\<And>r. od_id (f r) = od_id r" "\<And>r. od_activity_id (f r) = od_activity_id r"
      "\<And>r. od_target_inbox (f r) = od_target_inbox r"
    and row: "\<And>n r. P r \<Longrightarrow> row_ok n (q_now w) r \<Longrightarrow>
      row_ok n (q_now w) (f r) \<and> row_weight (f r) \<le> row_weight r"
  shows "queue_ok (w\<lparr>q_rows := update_where P f (q_rows w)\<rparr>)"
  by (rule queue_ok_map [where f = "\<lambda>r. if P r then f r else r", OF ok])
    (use same row in \<open>auto simp: update_where_def\<close>)

lemma tick_ok: "queue_ok w \<Longrightarrow> queue_ok (queue_apply (Tick n) w)"
  by (rule queue_ok_map [where f = id]) (auto elim: row_ok_mono)

lemma requeue_ok: "queue_ok w \<Longrightarrow> queue_ok (queue_apply Requeue w)"
  unfolding queue_apply.simps requeue_stale_in_flight_outbox_deliveries_def
  by (rule queue_ok_update)
    (auto simp: Let_def stale_def row_ok_def row_weight_def due_def DELIVERY_MAX_ATTEMPTS_def
      max_absorb2 tries_next_pos)

lemma cancel_ok: "queue_ok w \<Longrightarrow> queue_ok (queue_apply (Cancel_Inbox account inbox) w)"
  unfolding queue_apply.simps cancel_pending_outbox_deliveries_for_inbox_def
  by (rule queue_ok_update) (auto simp: row_ok_def row_weight_def split: if_splits)

lemma completed_ok:
  "queue_ok w \<Longrightarrow> queue_ok (w\<lparr>q_rows :=
     mark_outbox_deliveries_completed_without_targets (q_now w) ids (q_rows w)\<rparr>)"
  unfolding mark_outbox_deliveries_completed_without_targets_def
  by (rule queue_ok_update) (auto simp: row_ok_def row_weight_def split: if_splits)

lemma expanded_ok:
  "queue_ok w \<Longrightarrow> queue_ok (w\<lparr>q_rows := mark_outbox_deliveries_expanded ids (q_rows w)\<rparr>)"
  unfolding mark_outbox_deliveries_expanded_def
  by (rule queue_ok_update) (auto simp: row_ok_def row_weight_def split: if_splits)

lemma retry_ok: "queue_ok w \<Longrightarrow> queue_ok (queue_apply (Admin_Retry ident) w)"
proof -
  assume ok: "queue_ok w"
  let ?f = "\<lambda>r. if od_id r = ident \<and> od_state r = Row_Failed
    then r\<lparr>od_state := Row_Queued, od_next_attempt_at := Some (q_now w)\<rparr> else r"
  let ?n = "\<lambda>x. count_list (q_retries (queue_apply (Admin_Retry ident) w)) x"
  have n: "?n x = count_list (q_retries w) x + (if x = ident then 1 else 0)" for x by simp
  have row: "row_ok (?n x) (q_now w) (?f r)"
    and weight: "row_weight (?f r) \<le> row_weight r + 31 * (?n x - count_list (q_retries w) x)"
    if "row_of (q_rows w) x = Some r" "row_ok (count_list (q_retries w) x) (q_now w) r" for x r
  proof -
    have "row_weight (?f r) \<le> 31" using that(2) by (intro row_weight_le) (simp add: row_ok_def)
    then show "row_weight (?f r) \<le> row_weight r + 31 * (?n x - count_list (q_retries w) x)"
      using row_of_id [OF that(1)] by (auto simp: n)
    show "row_ok (?n x) (q_now w) (?f r)"
      using that(2) row_of_id [OF that(1)] by (auto simp: n row_ok_def due_def split: if_splits)
  qed
  show ?thesis
    by (rule queue_ok_map [where f = ?f, OF ok])
      (use row weight in \<open>simp_all add: retry_outbox_delivery_def update_where_def\<close>)
qed

lemma claim_generic_ok: "queue_ok w \<Longrightarrow> queue_ok (queue_apply (Claim_Generic limit) w)"
proof -
  assume ok: "queue_ok w"
  define selected where "selected = take limit (sort_key od_created_at
    (filter (\<lambda>r. od_state r = Row_Queued \<and> od_target_inbox r = None \<and> due (q_now w) r) (q_rows w)))"
  have sel: "r \<in> set (q_rows w) \<and> od_state r = Row_Queued" if "r \<in> set selected" for r
    using that set_take_subset unfolding selected_def by fastforce
  have queued: "od_state r = Row_Queued"
    if row: "row_of (q_rows w) x = Some r" and ids: "od_id r \<in> od_id ` set selected" for x r
  proof -
    obtain q where q: "q \<in> set selected" "od_id q = od_id r" using ids by (metis imageE)
    then have "row_of (q_rows w) (od_id r) = Some q"
      using sel [of q] row_of_in [of "q_rows w" q] ok by (simp add: queue_ok_def)
    with row row_of_id [of "q_rows w" x r] have "q = r" by simp
    then show ?thesis using q sel by simp
  qed
  have weight: "row_weight (r\<lparr>od_state := Row_In_Flight, od_last_attempt_at := t\<rparr>) \<le> row_weight r"
    if "od_state r = Row_Queued" for r t
    using that by (cases "od_attempt_count r < 5") (auto simp: row_weight_def tries_step)
  let ?f = "\<lambda>r. if od_id r \<in> od_id ` set selected
    then r\<lparr>od_state := Row_In_Flight, od_last_attempt_at := Some (q_now w)\<rparr> else r"
  have rows: "q_rows (queue_apply (Claim_Generic limit) w) = map ?f (q_rows w)"
    by (simp add: claim_pending_generic_outbox_deliveries_def claim_def Let_def selected_def
        update_where_def)
  show ?thesis
    by (rule queue_ok_map [OF ok rows]) (auto simp: queued weight row_ok_def)
qed

lemma expansion_ok:
  assumes "queue_ok w"
  shows "queue_ok (w\<lparr>q_rows := expand_outbox_delivery_targets_for_deliveries fresh (q_now w) ds
    targets (q_rows w)\<rparr>)"
proof -
  let ?row = "\<lambda>(d, t). (queued_row (q_now w) (fresh (od_id d) t) (od_account_id d) (od_status_id d)
      (od_activity_id d) (od_activity_type d) (Some t) (od_payload_json d))
    \<lparr>od_next_attempt_at := Some (q_now w)\<rparr>"
  have "expand_outbox_delivery_targets_for_deliveries fresh (q_now w) ds targets (q_rows w) =
    fold insert_or_ignore (map ?row (collect_outbox_delivery_expansions ds targets)) (q_rows w)"
    by (simp add: expand_outbox_delivery_targets_for_deliveries_def fold_map comp_def split_def)
  moreover have "queue_ok (w\<lparr>q_rows :=
      fold insert_or_ignore (map ?row (collect_outbox_delivery_expansions ds targets)) (q_rows w)\<rparr>)"
    by (rule queue_ok_inserts [OF assms]) (auto simp: queued_row_def due_def)
  ultimately show ?thesis by simp
qed

lemma finish_generic_ok:
  assumes ok: "queue_ok w"
  shows "queue_ok (queue_apply (Finish_Generic fresh batch targets) w)"
proof -
  obtain full bare where
    parts: "partition_generic_outbox_deliveries_by_targets batch targets = (full, bare)"
    by (cases "partition_generic_outbox_deliveries_by_targets batch targets")
  let ?completed = "w\<lparr>q_rows := if bare = [] then q_rows w
    else mark_outbox_deliveries_completed_without_targets (q_now w) bare (q_rows w)\<rparr>"
  have completed: "queue_ok ?completed" using ok completed_ok [OF ok] by simp
  show ?thesis
    using ok completed expanded_ok [OF expansion_ok [OF completed]]
    by (simp add: finish_generic_outbox_deliveries_def parts Let_def)
qed

section \<open>Claims and reports\<close>

lemma count_list_1: "distinct xs \<Longrightarrow> x \<in> set xs \<Longrightarrow> count_list xs x = 1"
  by (induction xs) (auto simp: count_list_0_iff)

lemma jobs_weight_append: "jobs_weight (ds @ es) x = jobs_weight ds x + jobs_weight es x"
  by (simp add: jobs_weight_def)

lemma jobs_weight_Cons:
  "jobs_weight (d # ds) x =
    (if od_id d = x then tries (od_attempt_count d + 1) else 0) + jobs_weight ds x"
  by (simp add: jobs_weight_def)

lemma row_of_Cons: "row_of (r # rows) x = (if od_id r = x then Some r else row_of rows x)"
  by (simp add: row_of_def)

lemma jobs_weight_distinct:
  "distinct (map od_id ds) \<Longrightarrow>
   jobs_weight ds x = (case row_of ds x of None \<Rightarrow> 0 | Some d \<Rightarrow> tries (od_attempt_count d + 1))"
proof (induction ds)
  case (Cons d ds)
  then have "\<forall>e \<in> set ds. od_id e \<noteq> od_id d" by (force simp: image_iff)
  then have "jobs_weight ds (od_id d) = 0" "row_of ds (od_id d) = None"
    by (auto simp: jobs_weight_def row_of_none)
  with Cons show ?case by (auto simp: jobs_weight_Cons row_of_Cons)
qed (simp add: jobs_weight_def row_of_def)

lemma jobs_weight_remove: "d \<in> set ds \<Longrightarrow>
    jobs_weight (remove1 d ds) x + (if od_id d = x then tries (od_attempt_count d + 1) else 0) =
    jobs_weight ds x"
  by (induction ds) (auto simp: jobs_weight_def)

text \<open>What a claim takes: rows of the table, each once, that were queued.\<close>

lemma claim_selects:
  assumes "distinct (map od_id rows)"
    and "selected = take limit (sort_key od_created_at
      (filter (\<lambda>r. od_state r = Row_Queued \<and> P r \<and> due now r) rows))"
  shows "distinct (map od_id selected)"
    and "set selected \<subseteq> {r \<in> set rows. od_state r = Row_Queued \<and> P r \<and> due now r}"
    and "row_of selected x = (if x \<in> od_id ` set selected then row_of rows x else None)"
proof -
  let ?kept = "filter (\<lambda>r. od_state r = Row_Queued \<and> P r \<and> due now r) rows"
  have "distinct rows" "inj_on od_id (set rows)" using assms(1) by (auto simp: distinct_map)
  then show *: "distinct (map od_id selected)"
    and sub: "set selected \<subseteq> {r \<in> set rows. od_state r = Row_Queued \<and> P r \<and> due now r}"
    using set_take_subset [of limit "sort_key od_created_at ?kept"]
    by (auto simp: assms(2) distinct_map elim!: inj_on_subset dest!: in_set_takeD)
  show "row_of selected x = (if x \<in> od_id ` set selected then row_of rows x else None)"
  proof (cases "x \<in> od_id ` set selected")
    case True
    then obtain r where "r \<in> set selected" "x = od_id r" by auto
    then show ?thesis using row_of_in [OF *, of r] row_of_in [OF assms(1), of r] sub by auto
  next
    case False
    then show ?thesis by (simp add: row_of_none)
  qed
qed

lemma claim_targets_ok:
  assumes ok: "queue_ok w"
  shows "queue_ok (queue_apply (Claim_Targets limit) w)"
proof -
  define selected where "selected = take limit (sort_key od_created_at
    (filter (\<lambda>r. od_state r = Row_Queued \<and> targeted r \<and> due (q_now w) r) (q_rows w)))"
  define start where "start = (\<lambda>r :: outbox_delivery_row. r\<lparr>od_state := Row_In_Flight, od_last_attempt_at := Some (q_now w)\<rparr>)"
  let ?f = "\<lambda>r. if od_id r \<in> od_id ` set selected then start r else r"
  let ?w = "w\<lparr>q_rows := map ?f (q_rows w), q_jobs := q_jobs w @ map start selected,
    q_claims := q_claims w @ map od_id selected\<rparr>"
  have ids: "distinct (map od_id (q_rows w))" using ok by (simp add: queue_ok_def)
  note sel = claim_selects [OF ids selected_def]
  have start [simp]: "od_id (start r) = od_id r" "od_activity_id (start r) = od_activity_id r"
    "od_target_inbox (start r) = od_target_inbox r" "od_attempt_count (start r) = od_attempt_count r"
    for r by (simp_all add: start_def)
  have apply_eq: "queue_apply (Claim_Targets limit) w = ?w"
    by (simp add: claim_pending_target_outbox_deliveries_def claim_def Let_def selected_def
        update_where_def start_def comp_def)
  have lookup: "row_of (map ?f (q_rows w)) x = map_option ?f (row_of (q_rows w) x)" for x
    by (simp add: row_of_map)
  have row: "row_ok n (q_now w) r \<Longrightarrow> row_ok n (q_now w) (?f r)"
    if "row_of (q_rows w) x = Some r" for x r n
  proof (cases "x \<in> od_id ` set selected")
    case True
    then have "row_of selected x = Some r" using sel(3) that by simp
    then have "od_state r = Row_Queued" using sel(2) row_of_mem by fastforce
    then show "row_ok n (q_now w) r \<Longrightarrow> row_ok n (q_now w) (?f r)"
      by (simp add: row_ok_def start_def)
  qed (use row_of_id [OF that] in simp)
  have bound: "count_list (q_claims ?w) x + weight_of ?w x \<le> 31 * (1 + count_list (q_retries w) x)"
    for x
  proof (cases "x \<in> od_id ` set selected")
    case True
    then obtain r where r: "row_of (q_rows w) x = Some r" "row_of selected x = Some r"
    proof -
      have "row_of selected x \<noteq> None" using True by (simp add: row_of_none)
      then show thesis using that sel(3) [of x] True by auto
    qed
    then have queued: "od_state r = Row_Queued" using sel(2) row_of_mem by fastforce
    have x: "od_id r = x" by (rule row_of_id [OF r(1)])
    have "row_of (map start selected) x = Some (start r)" using r(2) by (simp add: row_of_map)
    then have jobs: "jobs_weight (map start selected) x = tries (od_attempt_count r + 1)"
      using sel(1) by (subst jobs_weight_distinct) (simp_all add: comp_def)
    have "count_list (map od_id selected) x = 1"
      using True sel(1) count_list_1 [of "map od_id selected" x] by simp
    moreover have "row_weight (start r) + tries (od_attempt_count r + 1) + 1 \<le> row_weight r"
      using queued by (cases "od_attempt_count r < 5") (auto simp: row_weight_def start_def tries_step)
    moreover have "count_list (q_claims w) x + weight_of w x \<le> 31 * (1 + count_list (q_retries w) x)"
      using ok by (simp add: queue_ok_def)
    ultimately show ?thesis
      using True x jobs by (simp add: weight_of_def lookup r jobs_weight_append)
  next
    case False
    have "jobs_weight (map start selected) x = 0" "count_list (map od_id selected) x = 0"
      using False by (auto simp: jobs_weight_def count_list_0_iff)
    moreover have "map_option ?f (row_of (q_rows w) x) = row_of (q_rows w) x"
      using False row_of_id by (cases "row_of (q_rows w) x") auto
    ultimately show ?thesis
      using ok by (simp add: queue_ok_def weight_of_def lookup jobs_weight_append)
  qed
  have present: "row_of (q_rows w) (od_id r) = Some r" if "r \<in> set selected" for r
    using that sel(2) row_of_in [OF ids] by blast
  have count: "0 \<le> od_attempt_count r \<and> od_attempt_count r \<le>
      int (count_list (q_retries w) (od_id r)) + 4" if "r \<in> set selected" for r
  proof -
    have "row_ok (count_list (q_retries w) (od_id r)) (q_now w) r"
      using ok present [OF that] by (auto simp: queue_ok_def)
    then show ?thesis using that sel(2) by (auto simp: row_ok_def)
  qed
  have keys: "map row_key (filter targeted (map ?f (q_rows w))) = map row_key (filter targeted (q_rows w))"
    by (rule keys_map) simp_all
  have same: "map od_id (map ?f (q_rows w)) = map od_id (q_rows w)" by simp
  have rw: "q_rows ?w = map ?f (q_rows w)" by simp
  have rows: "row_ok (count_list (q_retries w) x) (q_now w) r"
    if "row_of (map ?f (q_rows w)) x = Some r" for x r
  proof -
    obtain q where "row_of (q_rows w) x = Some q" "r = ?f q" using \<open>_ = Some r\<close> by (auto simp: lookup)
    then show ?thesis using row ok by (simp add: queue_ok_def)
  qed
  have "\<forall>d \<in> set (q_jobs ?w). row_of (q_rows ?w) (od_id d) \<noteq> None \<and> 0 \<le> od_attempt_count d \<and>
      od_attempt_count d \<le> int (count_list (q_retries ?w) (od_id d)) + 4"
    "\<forall>x \<in> set (q_claims ?w). row_of (q_rows ?w) x \<noteq> None"
    using ok present count by (auto simp: queue_ok_def lookup)
  moreover have "\<forall>x r. row_of (q_rows ?w) x = Some r \<longrightarrow>
      row_ok (count_list (q_retries ?w) x) (q_now ?w) r"
    "\<forall>x. count_list (q_claims ?w) x + weight_of ?w x \<le> 31 * (1 + count_list (q_retries ?w) x)"
    using rows bound by simp_all
  moreover have "distinct (map od_id (q_rows ?w))"
    "distinct (map row_key (filter targeted (q_rows ?w)))"
    using ok unfolding queue_ok_def rw keys same by blast+
  ultimately have "queue_ok ?w" unfolding queue_ok_def by blast
  then show ?thesis by (simp only: apply_eq)
qed

text \<open>Below 2 ^ 31 - 1 an attempt is counted without loss.\<close>

lemma sint_i32: "0 \<le> a \<Longrightarrow> a < 2147483648 \<Longrightarrow> sint (word_of_int a :: i32) = a"
  by (simp add: sint_uint uint_word_of_int signed_take_bit_int_eq_self take_bit_int_eq_self)

lemma next_attempt_counts:
  assumes "0 \<le> a" "a < 2147483647"
  shows "sint (next_attempt a) = a + 1" "is_delivery_terminal (next_attempt a) \<longleftrightarrow> 4 \<le> a"
proof -
  have "next_attempt a = word_of_int (a + 1)"
    using assms sint_i32 [of a] by (simp add: next_attempt_def next_delivery_attempt_count_def)
  moreover have "sint (word_of_int (a + 1) :: i32) = a + 1" using assms by (intro sint_i32) auto
  moreover have "uint (word_of_int (a + 1) :: i32) = a + 1"
    using assms by (intro uint_word_of_int_eq [THEN trans] take_bit_int_eq_self) auto
  then have "unat (word_of_int (a + 1) :: i32) = nat (a + 1)"
    by (simp only: unat_eq_nat_uint)
  ultimately show "sint (next_attempt a) = a + 1" "is_delivery_terminal (next_attempt a) \<longleftrightarrow> 4 \<le> a"
    using assms by (auto simp only: is_delivery_terminal_iff)
qed

lemma report_ok:
  assumes ok: "queue_ok w" and few: "length (q_retries w) < 2147483640"
  shows "queue_ok (queue_apply (Report d outcome) w)"
proof (cases "d \<in> set (q_jobs w)")
  case True
  let ?a = "od_attempt_count d" and ?n = "next_attempt (od_attempt_count d)"
  have a: "0 \<le> ?a" "?a \<le> int (count_list (q_retries w) (od_id d)) + 4"
    using ok True by (auto simp: queue_ok_def)
  have "?a < 2147483647" using a few count_le_length [of "q_retries w" "od_id d"] by simp
  note next_n = next_attempt_counts [OF a(1) this]
  have jobs: "jobs_weight (remove1 d (q_jobs w)) x \<le> jobs_weight (q_jobs w) x"
    "od_id d = x \<Longrightarrow> jobs_weight (remove1 d (q_jobs w)) x + tries (?a + 1) = jobs_weight (q_jobs w) x"
    for x using jobs_weight_remove [OF True, of x] by (auto split: if_splits)
  have step: "queue_ok (w\<lparr>q_rows := update_where (\<lambda>r. od_id r = od_id d \<and> od_state r = Row_In_Flight) g
      (q_rows w), q_jobs := remove1 d (q_jobs w)\<rparr>)"
    if same: "\<And>r. od_id (g r) = od_id r" "\<And>r. od_activity_id (g r) = od_activity_id r"
        "\<And>r. od_target_inbox (g r) = od_target_inbox r"
      and g: "\<And>r. od_id r = od_id d \<Longrightarrow> od_state r = Row_In_Flight \<Longrightarrow>
        row_ok (count_list (q_retries w) (od_id d)) (q_now w) r \<Longrightarrow>
        row_ok (count_list (q_retries w) (od_id d)) (q_now w) (g r) \<and>
        row_weight (g r) \<le> tries (?a + 1)" for g
  proof -
    let ?f = "\<lambda>r. if od_id r = od_id d \<and> od_state r = Row_In_Flight then g r else r"
    have "row_ok (count_list (q_retries w) x) (q_now w) (?f r) \<and>
        row_weight (?f r) + jobs_weight (remove1 d (q_jobs w)) x \<le>
          row_weight r + jobs_weight (q_jobs w) x"
      if "row_of (q_rows w) x = Some r" "row_ok (count_list (q_retries w) x) (q_now w) r" for x r
      using that row_of_id [OF that(1)] g [of r] jobs [of x] by auto
    then show ?thesis
      by (intro queue_ok_map [where f = ?f, OF ok])
        (use same set_remove1_subset [of d "q_jobs w"] in \<open>auto simp: update_where_def\<close>)
  qed
  have "queue_ok (w\<lparr>q_rows := report_target_delivery (q_now w) d outcome (q_rows w),
      q_jobs := remove1 d (q_jobs w)\<rparr>)"
  proof -
    consider (delivered) "outcome = delivery_attempt_outcome.Success"
      | (failed) "outcome \<noteq> delivery_attempt_outcome.Success"
          "outcome = PermanentFailure \<or> is_delivery_terminal ?n"
      | (again) "outcome \<noteq> delivery_attempt_outcome.Success" "outcome \<noteq> PermanentFailure"
          "\<not> is_delivery_terminal ?n" by blast
    then show ?thesis
    proof cases
      case delivered
      show ?thesis
        unfolding report_target_delivery_def mark_outbox_delivery_delivered_def if_P [OF delivered]
        by (rule step) (auto simp: row_ok_def row_weight_def)
    next
      case failed
      then have "report_target_delivery (q_now w) d outcome (q_rows w) =
          mark_outbox_delivery_terminal_failure (q_now w) (od_id d) ?n (q_rows w)"
        by (simp add: report_target_delivery_def)
      then show ?thesis
        unfolding mark_outbox_delivery_terminal_failure_def next_n(1)
        by (simp only:) (rule step, use a in \<open>auto simp: row_ok_def row_weight_def\<close>)
    next
      case again
      then have "report_target_delivery (q_now w) d outcome (q_rows w) =
          reschedule_outbox_delivery (q_now w) (od_id d) ?n (q_rows w)"
        by (simp add: report_target_delivery_def Let_def)
      moreover have "modifier_seconds m \<le> 3600" for m by (simp add: modifier_seconds_def)
      ultimately show ?thesis
        unfolding reschedule_outbox_delivery_def next_n(1)
        by (simp only:) (rule step, use a again tries_pos [of "?a + 1"] next_n(2) in
          \<open>auto simp: row_ok_def row_weight_def due_def\<close>)
    qed
  qed
  then show ?thesis using True by simp
qed (use ok in simp)

section \<open>Runs\<close>

lemma empty_ok: "queue_ok (empty_queue now)"
  by (simp add: empty_queue_def queue_ok_def row_of_def weight_of_def jobs_weight_def)

lemma retries_grow: "length (q_retries w) \<le> length (q_retries (queue_apply e w))"
  by (cases e) (auto split: prod.splits option.splits)

lemma queue_apply_ok:
  assumes "queue_ok w" "length (q_retries w) < 2147483640"
  shows "queue_ok (queue_apply e w)"
  using assms
  by (cases e) (simp_all only: tick_ok requeue_ok claim_targets_ok claim_generic_ok finish_generic_ok
      report_ok cancel_ok retry_ok enqueue_ok enqueue_generic_ok)

lemma run_grows: "length (q_retries w) \<le> length (q_retries (queue_run es w))"
proof (induction es arbitrary: w)
  case (Cons e es)
  then show ?case using retries_grow [of w e] le_trans by (fastforce simp: queue_run_def)
qed (simp add: queue_run_def)

lemma run_ok:
  "queue_ok w \<Longrightarrow> length (q_retries (queue_run es w)) < 2147483640 \<Longrightarrow> queue_ok (queue_run es w)"
proof (induction es arbitrary: w)
  case (Cons e es)
  have run: "queue_run (e # es) w = queue_run es (queue_apply e w)" by (simp add: queue_run_def)
  have "length (q_retries w) < 2147483640"
    using Cons.prems(2) retries_grow [of w e] run_grows [of "queue_apply e w" es] by (simp add: run)
  then show ?case using Cons queue_apply_ok [of w e] by (simp add: run)
qed (simp add: queue_run_def)

lemma run_append: "queue_run (es @ fs) w = queue_run fs (queue_run es w)"
  by (simp add: queue_run_def)

text \<open>Once delivered, a row stays so, and no worker claims it.\<close>

definition is_delivered :: "queue_world \<Rightarrow> string \<Rightarrow> bool" where
  "is_delivered w x \<longleftrightarrow>
    (case row_of (q_rows w) x of None \<Rightarrow> False | Some r \<Rightarrow> od_state r = Row_Delivered)"

lemma delivered_update:
  assumes "is_delivered w x" "\<And>r. od_id (f r) = od_id r"
    "\<And>r. P r \<Longrightarrow> od_state r = Row_Delivered \<Longrightarrow> od_state (f r) = Row_Delivered"
  shows "is_delivered (w\<lparr>q_rows := update_where P f (q_rows w)\<rparr>) x"
  using assms by (auto simp: is_delivered_def row_of_update split: option.splits)

lemma delivered_insert:
  "is_delivered w x \<Longrightarrow> is_delivered (w\<lparr>q_rows := insert_or_ignore r (q_rows w)\<rparr>) x"
  by (auto simp: is_delivered_def insert_or_ignore_def row_of_append split: option.splits)

lemma delivered_inserts:
  "is_delivered w x \<Longrightarrow> is_delivered (w\<lparr>q_rows := fold insert_or_ignore rs (q_rows w)\<rparr>) x"
proof (induction rs arbitrary: w)
  case (Cons r rs)
  then show ?case using Cons.IH [OF delivered_insert [OF Cons.prems, of r]] by simp
qed simp

lemma delivered_fields:
  "is_delivered (w\<lparr>q_jobs := ds\<rparr>) x = is_delivered w x"
  "is_delivered (w\<lparr>q_claims := cs\<rparr>) x = is_delivered w x"
  "is_delivered (w\<lparr>q_retries := rs\<rparr>) x = is_delivered w x"
  "is_delivered (w\<lparr>q_now := now\<rparr>) x = is_delivered w x"
  by (simp_all add: is_delivered_def)

lemma delivered_claim:
  assumes "is_delivered w x" "distinct (map od_id (q_rows w))"
  shows "is_delivered (w\<lparr>q_rows := fst (claim P now limit (q_rows w))\<rparr>) x"
    and "count_list (map od_id (snd (claim P now limit (q_rows w)))) x = 0"
proof -
  define selected where "selected = take limit (sort_key od_created_at
    (filter (\<lambda>r. od_state r = Row_Queued \<and> P r \<and> due now r) (q_rows w)))"
  note sel = claim_selects [OF assms(2) selected_def]
  obtain r where r: "row_of (q_rows w) x = Some r" "od_state r = Row_Delivered"
    using assms(1) by (auto simp: is_delivered_def split: option.splits)
  have x: "x \<notin> od_id ` set selected"
  proof
    assume *: "x \<in> od_id ` set selected"
    with sel(3) [of x] r have "row_of selected x = Some r" by simp
    then show False using sel(2) row_of_mem r(2) by fastforce
  qed
  show "count_list (map od_id (snd (claim P now limit (q_rows w)))) x = 0"
    using x by (auto simp: claim_def Let_def selected_def [symmetric] count_list_0_iff)
  show "is_delivered (w\<lparr>q_rows := fst (claim P now limit (q_rows w))\<rparr>) x"
    using r x row_of_id [OF r(1)]
    by (simp add: is_delivered_def claim_def Let_def selected_def [symmetric] row_of_update)
qed

lemmas statement_defs =
  requeue_stale_in_flight_outbox_deliveries_def mark_outbox_deliveries_expanded_def
  mark_outbox_deliveries_completed_without_targets_def mark_outbox_delivery_delivered_def
  mark_outbox_delivery_terminal_failure_def reschedule_outbox_delivery_def
  cancel_pending_outbox_deliveries_for_inbox_def retry_outbox_delivery_def

lemma delivered_report:
  "is_delivered w x \<Longrightarrow>
   is_delivered (w\<lparr>q_rows := report_target_delivery now d outcome (q_rows w)\<rparr>) x"
  unfolding report_target_delivery_def Let_def statement_defs
  by (cases "outcome = delivery_attempt_outcome.Success";
      cases "outcome = PermanentFailure \<or> is_delivery_terminal (next_attempt (od_attempt_count d))")
    (auto intro!: delivered_update)

lemma delivered_finish:
  assumes "is_delivered w x"
  shows "is_delivered (w\<lparr>q_rows :=
    finish_generic_outbox_deliveries fresh now batch targets (q_rows w)\<rparr>) x"
proof -
  obtain full bare where
    parts: "partition_generic_outbox_deliveries_by_targets batch targets = (full, bare)"
    by (cases "partition_generic_outbox_deliveries_by_targets batch targets")
  let ?row = "\<lambda>(d, t). (queued_row now (fresh (od_id d) t) (od_account_id d) (od_status_id d)
      (od_activity_id d) (od_activity_type d) (Some t) (od_payload_json d))
    \<lparr>od_next_attempt_at := Some now\<rparr>"
  have expand: "expand_outbox_delivery_targets_for_deliveries fresh now ds targets rows =
    fold insert_or_ignore (map ?row (collect_outbox_delivery_expansions ds targets)) rows" for ds rows
    by (simp add: expand_outbox_delivery_targets_for_deliveries_def fold_map comp_def split_def)
  let ?done = "w\<lparr>q_rows := if bare = [] then q_rows w
    else mark_outbox_deliveries_completed_without_targets now bare (q_rows w)\<rparr>"
  have completed: "is_delivered ?done x"
    using assms delivered_update [OF assms, of _ _] by (auto simp: statement_defs intro: delivered_update)
  then have "is_delivered (?done\<lparr>q_rows := mark_outbox_deliveries_expanded (map od_id full)
      (expand_outbox_delivery_targets_for_deliveries fresh now full targets (q_rows ?done))\<rparr>) x"
    unfolding expand mark_outbox_deliveries_expanded_def
    using delivered_update [OF delivered_inserts [OF completed],
        where P = "\<lambda>r. od_id r \<in> set (map od_id full) \<and> od_state r = Row_In_Flight"
          and f = "\<lambda>r. r\<lparr>od_state := Row_Expanded\<rparr>"] by simp
  with completed show ?thesis
    by (simp add: finish_generic_outbox_deliveries_def parts Let_def)
qed

lemma delivered_step:
  assumes "is_delivered w x" "queue_ok w"
  shows "is_delivered (queue_apply e w) x \<and>
    count_list (q_claims (queue_apply e w)) x = count_list (q_claims w) x"
proof -
  have ids: "distinct (map od_id (q_rows w))" using assms(2) by (simp add: queue_ok_def)
  show ?thesis
  proof (cases e)
    case (Claim_Targets limit)
    have "is_delivered (w\<lparr>q_rows := fst (claim targeted (q_now w) limit (q_rows w))\<rparr>) x"
      "count_list (map od_id (snd (claim targeted (q_now w) limit (q_rows w)))) x = 0"
      by (rule delivered_claim [OF assms(1) ids])+
    then show ?thesis
      by (auto simp: Claim_Targets claim_pending_target_outbox_deliveries_def is_delivered_def
          split: prod.splits)
  next
    case (Claim_Generic limit)
    then show ?thesis
      using delivered_claim(1) [OF assms(1) ids]
      by (simp add: claim_pending_generic_outbox_deliveries_def)
  next
    case (Finish_Generic fresh batch targets)
    then show ?thesis using assms(1) delivered_finish [OF assms(1)] by simp
  next
    case (Report d outcome)
    then show ?thesis
      using assms(1) delivered_report [OF assms(1)]
      by (simp add: is_delivered_def)
  next
    case (Enqueue_Targeted fresh account status activity_id activity_type payload inboxes)
    let ?row = "\<lambda>t. queued_row (q_now w) (fresh t) account status activity_id activity_type (Some t) payload"
    have "enqueue_targeted_outbox_activity fresh (q_now w) account status activity_id activity_type
        payload inboxes (q_rows w) =
      fold insert_or_ignore (map ?row (distinct_targets [] inboxes)) (q_rows w)"
      by (simp add: enqueue_targeted_outbox_activity_def fold_map comp_def)
    then show ?thesis using Enqueue_Targeted delivered_inserts [OF assms(1)] by simp
  next
    case (Enqueue_Generic ident account status activity_id activity_type payload)
    then show ?thesis
      using assms(1) by (auto simp: outbox_delivery_insert_def is_delivered_def row_of_append
          split: option.splits)
  next
    case Requeue
    then show ?thesis
      by (simp add: statement_defs) (rule delivered_update [OF assms(1)],
        auto simp: Let_def stale_def)
  next
    case (Cancel_Inbox account inbox)
    then show ?thesis
      by (simp add: statement_defs) (rule delivered_update [OF assms(1)], auto)
  next
    case (Admin_Retry ident)
    have "is_delivered (w\<lparr>q_rows := retry_outbox_delivery (q_now w) ident (q_rows w)\<rparr>) x"
      unfolding statement_defs by (rule delivered_update [OF assms(1)]) auto
    then show ?thesis by (simp add: Admin_Retry is_delivered_def)
  next
    case (Tick n)
    then show ?thesis using assms(1) by (simp add: is_delivered_def)
  qed
qed

lemma delivered_run:
  assumes "is_delivered w x" "queue_ok w" "length (q_retries (queue_run es w)) < 2147483640"
  shows "is_delivered (queue_run es w) x \<and>
    count_list (q_claims (queue_run es w)) x = count_list (q_claims w) x"
  using assms
proof (induction es arbitrary: w)
  case (Cons e es)
  have run: "queue_run (e # es) w = queue_run es (queue_apply e w)" by (simp add: queue_run_def)
  have "length (q_retries w) < 2147483640"
    using Cons.prems(3) retries_grow [of w e] run_grows [of "queue_apply e w" es] by (simp add: run)
  then have "queue_ok (queue_apply e w)" using Cons.prems(2) by (rule queue_apply_ok [rotated])
  then show ?case
    using Cons.IH [of "queue_apply e w"] Cons.prems delivered_step [of w x e] by (simp add: run)
qed (simp add: queue_run_def)

section \<open>Samples\<close>

text \<open>One activity for one inbox, and the claim of its row with \<open>c\<close> attempts at the instant \<open>t\<close>.\<close>

definition sample_enqueue :: queue_event where
  "sample_enqueue = Enqueue_Targeted (\<lambda>_. ''d'') ''a'' None ''act'' ''Like'' ''{}'' [''i'']"

definition sample_row :: outbox_delivery_row where
  "sample_row = queued_row 0 ''d'' ''a'' None ''act'' ''Like'' (Some ''i'') ''{}''"

definition sample_claim :: "int \<Rightarrow> int \<Rightarrow> int \<Rightarrow> outbox_delivery_row" where
  "sample_claim c n t =
    sample_row\<lparr>od_state := Row_In_Flight, od_attempt_count := c, od_last_attempt_at := Some t,
      od_next_attempt_at := Some n\<rparr>"

text \<open>
  The worst run of a row with \<open>c\<close> attempts, of which \<open>4 - c\<close> are left before the last, due since
  \<open>n\<close>, from the instant \<open>t\<close>: its worker is taken for dead, the row runs its worst with one attempt
  more, then the worker reports a failure after all, and the row runs its worst once more.
\<close>

fun overrun :: "nat \<Rightarrow> int \<Rightarrow> int \<Rightarrow> int \<Rightarrow> queue_event list \<times> int" where
  "overrun 0 c n t = ([Claim_Targets 1], t)"
| "overrun (Suc k) c n t =
    (let (es, t1) = overrun k (c + 1) (t + 3600) (t + 3600);
         delay = modifier_seconds (delivery_retry_delay_modifier (next_attempt c));
         (fs, t2) = overrun k (c + 1) (t1 + delay) (t1 + 3600)
     in ([Claim_Targets 1, Tick 3600, Requeue] @ es @
         [Report (sample_claim c n t) delivery_attempt_outcome.Failure, Tick 3600] @ fs, t2))"

section \<open>Properties\<close>

text \<open>
  C6: However claims, reports, requeueing and retries interleave, no identifier and no pair of an
  activity and an inbox is queued twice, and a delivery is claimed, and so sent, at most 31 times,
  and at most 31 times more for each retry of the administrator.
\<close>

theorem delivery_claims_bounded:
  assumes "w = queue_run es (empty_queue now)" "length (q_retries w) < 2147483640"
  shows "distinct (map od_id (q_rows w)) \<and>
    distinct (map row_key (filter targeted (q_rows w))) \<and>
    count_list (q_claims w) x \<le> 31 * (1 + count_list (q_retries w) x)"
proof -
  have "queue_ok w" using run_ok [OF empty_ok] assms by simp
  then show ?thesis by (auto simp: queue_ok_def intro: add_leD1)
qed

theorem delivery_claims_bounded_witness:
  "count_list (q_claims (queue_run [sample_enqueue, Claim_Targets 1] (empty_queue 0))) ''d'' \<le> 31"
proof -
  let ?w = "queue_run [sample_enqueue, Claim_Targets 1] (empty_queue 0)"
  have *: "q_retries ?w = []" by code_simp
  then show ?thesis using delivery_claims_bounded [of ?w, OF refl, of "''d''"] by (simp add: *)
qed

text \<open>
  The maximum of five attempts does not hold for a worker that is slow: a claim carries no
  mark of its own, so the report of a worker that was taken for dead is accepted for the claim of
  another and sets the attempts back to its own count. One delivery, without any retry of the
  administrator, is claimed 31 times.
\<close>

theorem maximum_of_attempts_exceeded:
  "(let w = queue_run (sample_enqueue # fst (overrun 4 0 0 0)) (empty_queue 0)
    in q_retries w = [] \<and> count_list (q_claims w) ''d'' = 31 \<and>
      count_list (q_claims w) ''d'' > unat DELIVERY_MAX_ATTEMPTS)"
  by code_simp

text \<open>A row that is delivered stays delivered and is never claimed again.\<close>

theorem delivered_stays_delivered:
  assumes "w = queue_run es (empty_queue now)" "w' = queue_run fs w" "is_delivered w x"
    and "length (q_retries w') < 2147483640"
  shows "is_delivered w' x \<and> count_list (q_claims w') x = count_list (q_claims w) x"
proof -
  have "length (q_retries w) < 2147483640" using assms run_grows [of w fs] by simp
  then have "queue_ok w" using run_ok [OF empty_ok] assms(1) by simp
  then show ?thesis using delivered_run assms by simp
qed

theorem delivered_stays_delivered_witness:
  "let es = [sample_enqueue, Claim_Targets 1, Report (sample_claim 0 0 0) delivery_attempt_outcome.Success];
       w = queue_run es (empty_queue 0);
       w' = queue_run [Tick 3600, Requeue, Claim_Targets 8] w
   in is_delivered w' ''d'' \<and> count_list (q_claims w') ''d'' = 1"
proof -
  let ?es = "[sample_enqueue, Claim_Targets 1,
    Report (sample_claim 0 0 0) delivery_attempt_outcome.Success]"
  let ?fs = "[Tick 3600, Requeue, Claim_Targets 8]"
  have "is_delivered (queue_run ?es (empty_queue 0)) ''d''"
    "q_retries (queue_run ?fs (queue_run ?es (empty_queue 0))) = []"
    "count_list (q_claims (queue_run ?es (empty_queue 0))) ''d'' = 1" by code_simp+
  then show ?thesis
    using delivered_stays_delivered [OF refl refl, of ?es 0 "''d''" ?fs] by (simp add: Let_def)
qed



section \<open>Refinement of the domain's delivery slot\<close>

text \<open>A row as the slot of the domain: a claimed row is still open.\<close>

fun slot_state :: "row_state \<Rightarrow> outbound_activity_state" where
  "slot_state Row_Queued = outbound_activity_state.Queued"
| "slot_state Row_In_Flight = outbound_activity_state.Queued"
| "slot_state Row_Expanded = outbound_activity_state.Delivered"
| "slot_state Row_Delivered = outbound_activity_state.Delivered"
| "slot_state Row_Failed = outbound_activity_state.Failed"

definition slot_of :: "outbox_delivery_row \<Rightarrow> outbound_delivery_slot" where
  "slot_of r =
    \<lparr>ds_state = slot_state (od_state r), ds_attempt_count = word_of_int (od_attempt_count r)\<rparr>"

lemma next_attempt_word:
  "0 \<le> a \<Longrightarrow> a < 2147483647 \<Longrightarrow> next_attempt a = word_of_int (a + 1)"
  using sint_i32 [of a] by (simp add: next_attempt_def next_delivery_attempt_count_def)

lemma slot_after:
  assumes "0 \<le> od_attempt_count r" "od_attempt_count r < 2147483647" "slot_state (od_state r) = outbound_activity_state.Queued"
  shows "outbound_delivery_slot_after_attempt (slot_of r) outcome =
    (if outcome = delivery_attempt_outcome.Success
     then (slot_of r)\<lparr>ds_state := outbound_activity_state.Delivered\<rparr>
     else \<lparr>ds_state = (if outcome = PermanentFailure \<or> 4 \<le> od_attempt_count r
             then outbound_activity_state.Failed else outbound_activity_state.Queued),
           ds_attempt_count = word_of_int (od_attempt_count r + 1)\<rparr>)"
  using next_attempt_counts [OF assms(1,2)] next_attempt_word [OF assms(1,2)] assms(3)
  by (cases outcome) (auto simp: outbound_delivery_slot_after_attempt_def slot_of_def Let_def next_attempt_def)

text \<open>
  C22: The statements implement the domain's slot. The report of the worker whose claim is current
  takes the row where the slot's attempt with that outcome takes it; a worker taken for dead counts
  as a failed attempt; and both leave every row that is not in flight as it is.
\<close>

theorem queue_refines_slot:
  assumes "0 \<le> od_attempt_count r" "od_attempt_count r < 2147483647"
    and "row_of rows x = Some r" "od_id d = x" "od_attempt_count d = od_attempt_count r"
  shows "\<exists>r' q. row_of (report_target_delivery now d outcome rows) x = Some r' \<and>
    row_of (requeue_stale_in_flight_outbox_deliveries now rows) x = Some q \<and>
    (if od_state r = Row_In_Flight
     then slot_of r' = outbound_delivery_slot_after_attempt (slot_of r) outcome \<and>
       (if stale now r
        then slot_of q = outbound_delivery_slot_after_attempt (slot_of r) delivery_attempt_outcome.Failure
        else q = r)
     else r' = r \<and> q = r)"
proof -
  note counts = next_attempt_counts [OF assms(1,2)]
  have id: "od_id r = x" by (rule row_of_id [OF assms(3)])
  define f where "f = (\<lambda>r :: outbox_delivery_row. if outcome = delivery_attempt_outcome.Success
    then r\<lparr>od_state := Row_Delivered, od_last_attempt_at := Some now, od_next_attempt_at := None\<rparr>
    else if outcome = PermanentFailure \<or> 4 \<le> od_attempt_count d
    then r\<lparr>od_state := Row_Failed, od_attempt_count := od_attempt_count d + 1,
           od_last_attempt_at := Some now, od_next_attempt_at := None\<rparr>
    else r\<lparr>od_state := Row_Queued, od_attempt_count := od_attempt_count d + 1,
           od_last_attempt_at := Some now,
           od_next_attempt_at :=
             Some (now + modifier_seconds (delivery_retry_delay_modifier (next_attempt (od_attempt_count d))))\<rparr>)"
  have report: "row_of (report_target_delivery now d outcome rows) x =
      Some (if od_state r = Row_In_Flight then f r else r)"
    using assms(3-5) id counts
    by (auto simp: report_target_delivery_def statement_defs Let_def row_of_update f_def)
  define g where "g = (\<lambda>r :: outbox_delivery_row. r\<lparr>od_attempt_count := od_attempt_count r + 1,
      od_state := (if 4 \<le> od_attempt_count r then Row_Failed else Row_Queued),
      od_next_attempt_at := (if 4 \<le> od_attempt_count r then od_next_attempt_at r else Some now)\<rparr>)"
  have requeue: "row_of (requeue_stale_in_flight_outbox_deliveries now rows) x =
      Some (if stale now r then g r else r)"
    using assms(3)
    by (simp add: requeue_stale_in_flight_outbox_deliveries_def row_of_update Let_def
        DELIVERY_MAX_ATTEMPTS_def g_def)
  have "slot_of (f r) = outbound_delivery_slot_after_attempt (slot_of r) outcome"
    "slot_of (g r) = outbound_delivery_slot_after_attempt (slot_of r) delivery_attempt_outcome.Failure"
    if "od_state r = Row_In_Flight"
    using slot_after [OF assms(1,2)] that assms(5) by (auto simp: slot_of_def f_def g_def)
  then show ?thesis unfolding report requeue by (auto simp: stale_def)
qed

theorem queue_refines_slot_witness:
  "let rows = [sample_claim 4 0 0]
   in \<exists>r'. row_of (report_target_delivery 7 (sample_claim 4 0 0) delivery_attempt_outcome.Failure rows)
      ''d'' = Some r' \<and>
    slot_of r' = outbound_delivery_slot_after_attempt (slot_of (sample_claim 4 0 0))
      delivery_attempt_outcome.Failure"
  using queue_refines_slot [of "sample_claim 4 0 0" "[sample_claim 4 0 0]" "''d''"
      "sample_claim 4 0 0" 7 delivery_attempt_outcome.Failure]
  by (auto simp: sample_claim_def sample_row_def queued_row_def row_of_def)

end
