(* ===== verification/Outbound_Queue.thy ===== *)
theory Outbound_Queue
  imports Delivery_Runs
begin

text \<open>
  The queue of activities for one remote actor (\<open>delivery/outbound_state.rs\<close>, \<open>delivery/outbound.rs\<close>):
  the rows of \<open>outbound_activities\<close>, which an activity that is sent again takes over, and the
  follows that are set to failed when the delivery of a Follow fails for good.
\<close>

section \<open>Rows\<close>

record outbound_activity_row =
  oa_id :: string
  oa_account_id :: string
  oa_activity_id :: string
  oa_activity_type :: string
  oa_target_actor_uri :: "string option"
  oa_target_inbox :: string
  oa_payload_json :: string
  oa_state :: row_state
  oa_attempt_count :: int
  oa_last_attempt_at :: "int option"
  oa_next_attempt_at :: "int option"
  oa_created_at :: int

record follow_row =
  fo_follower_account_id :: string
  fo_target_actor_uri :: string
  fo_follow_activity_id :: string
  fo_state :: remote_follow_state

record outbound_db =
  ob_rows :: "outbound_activity_row list"
  ob_follows :: "follow_row list"

definition update_outbound ::
    "(outbound_activity_row \<Rightarrow> bool) \<Rightarrow> (outbound_activity_row \<Rightarrow> outbound_activity_row) \<Rightarrow>
     outbound_db \<Rightarrow> outbound_db" where
  "update_outbound P f db = db\<lparr>ob_rows := map (\<lambda>r. if P r then f r else r) (ob_rows db)\<rparr>"

section \<open>Statements\<close>

definition oa_due :: "int \<Rightarrow> outbound_activity_row \<Rightarrow> bool" where
  "oa_due now r \<longleftrightarrow> (case oa_next_attempt_at r of None \<Rightarrow> True | Some t \<Rightarrow> t \<le> now)"

definition claim_pending_outbound_activities ::
    "int \<Rightarrow> nat \<Rightarrow> outbound_db \<Rightarrow> outbound_db \<times> outbound_activity_row list" where
  "claim_pending_outbound_activities now limit db =
    (let selected = take limit (sort_key oa_created_at
           (filter (\<lambda>r. oa_state r = Row_Queued \<and> oa_due now r) (ob_rows db)));
         set_in_flight = (\<lambda>r. r\<lparr>oa_state := Row_In_Flight, oa_last_attempt_at := Some now\<rparr>)
     in (update_outbound (\<lambda>r. oa_id r \<in> set (map oa_id selected)) set_in_flight db,
         map set_in_flight selected))"

definition mark_outbound_activity_delivered :: "int \<Rightarrow> string \<Rightarrow> outbound_db \<Rightarrow> outbound_db" where
  "mark_outbound_activity_delivered now ident =
    update_outbound (\<lambda>r. oa_id r = ident \<and> oa_state r = Row_In_Flight)
      (\<lambda>r. r\<lparr>oa_state := Row_Delivered, oa_last_attempt_at := Some now, oa_next_attempt_at := None\<rparr>)"

definition mark_outbound_activity_terminal_failure ::
    "int \<Rightarrow> string \<Rightarrow> u32 \<Rightarrow> outbound_db \<Rightarrow> outbound_db" where
  "mark_outbound_activity_terminal_failure now ident attempt =
    update_outbound (\<lambda>r. oa_id r = ident \<and> oa_state r = Row_In_Flight)
      (\<lambda>r. r\<lparr>oa_state := Row_Failed, oa_attempt_count := sint attempt,
             oa_last_attempt_at := Some now, oa_next_attempt_at := None\<rparr>)"

definition reschedule_outbound_activity ::
    "int \<Rightarrow> string \<Rightarrow> u32 \<Rightarrow> outbound_db \<Rightarrow> outbound_db" where
  "reschedule_outbound_activity now ident attempt =
    update_outbound (\<lambda>r. oa_id r = ident \<and> oa_state r = Row_In_Flight)
      (\<lambda>r. r\<lparr>oa_state := Row_Queued, oa_attempt_count := sint attempt,
             oa_last_attempt_at := Some now,
             oa_next_attempt_at := Some (now + modifier_seconds (delivery_retry_delay_modifier attempt))\<rparr>)"

text \<open>The statement on the follows names the state a failed activity of a type leads to, if any.\<close>

definition reconcile_follow_state_for_terminal_outbound ::
    "outbound_activity_row \<Rightarrow> outbound_db \<Rightarrow> outbound_db" where
  "reconcile_follow_state_for_terminal_outbound d db =
    (case (outbound_terminal_failure_follow_state (oa_activity_type d), oa_target_actor_uri d) of
       (Some s, Some uri) \<Rightarrow>
         db\<lparr>ob_follows := map (\<lambda>f. if fo_follower_account_id f = oa_account_id d \<and>
               fo_target_actor_uri f = uri \<and> fo_follow_activity_id f = oa_activity_id d \<and>
               fo_state f = remote_follow_state.Pending
             then f\<lparr>fo_state := s\<rparr> else f) (ob_follows db)\<rparr>
     | _ \<Rightarrow> db)"

text \<open>The number of rows the first statement changed is not looked at.\<close>

definition reconcile_outbound_activity_terminal_failure ::
    "int \<Rightarrow> outbound_activity_row \<Rightarrow> u32 \<Rightarrow> outbound_db \<Rightarrow> outbound_db" where
  "reconcile_outbound_activity_terminal_failure now d attempt db =
    reconcile_follow_state_for_terminal_outbound d
      (mark_outbound_activity_terminal_failure now (oa_id d) attempt db)"

definition oa_stale :: "int \<Rightarrow> outbound_activity_row \<Rightarrow> bool" where
  "oa_stale now r \<longleftrightarrow> oa_state r = Row_In_Flight \<and>
    (case oa_last_attempt_at r of
       None \<Rightarrow> False | Some t \<Rightarrow> t \<le> now - OUTBOX_IN_FLIGHT_STALE_SECONDS)"

text \<open>The rows the statement returns are the changed ones, in their new state.\<close>

definition requeue_stale_in_flight_outbound_activities :: "int \<Rightarrow> outbound_db \<Rightarrow> outbound_db" where
  "requeue_stale_in_flight_outbound_activities now db =
    (let requeued = (\<lambda>r. let exhausted = oa_attempt_count r + 1 \<ge> uint DELIVERY_MAX_ATTEMPTS in
           r\<lparr>oa_attempt_count := oa_attempt_count r + 1,
             oa_state := (if exhausted then Row_Failed else Row_Queued),
             oa_next_attempt_at := (if exhausted then None else Some now)\<rparr>);
         returned = map requeued (filter (oa_stale now) (ob_rows db))
     in fold (\<lambda>d db. if oa_state d = Row_Failed
           then reconcile_follow_state_for_terminal_outbound d db else db)
         returned (update_outbound (oa_stale now) requeued db))"

text \<open>\<open>ON CONFLICT(activity_id) DO UPDATE\<close>: the row keeps its key, its account and its age.\<close>

definition enqueue_outbound_activity ::
    "string \<Rightarrow> int \<Rightarrow> string \<Rightarrow> string \<Rightarrow> string \<Rightarrow> string option \<Rightarrow> string \<Rightarrow> string \<Rightarrow>
     outbound_db \<Rightarrow> outbound_db" where
  "enqueue_outbound_activity fresh now account activity_id activity_type target_actor target_inbox
      payload db =
    (if list_ex (\<lambda>r. oa_activity_id r = activity_id) (ob_rows db)
     then update_outbound (\<lambda>r. oa_activity_id r = activity_id)
       (\<lambda>r. r\<lparr>oa_activity_type := activity_type, oa_target_actor_uri := target_actor,
              oa_target_inbox := target_inbox, oa_payload_json := payload, oa_state := Row_Queued,
              oa_attempt_count := 0, oa_last_attempt_at := None, oa_next_attempt_at := Some now\<rparr>) db
     else db\<lparr>ob_rows := ob_rows db @
       [\<lparr>oa_id = fresh, oa_account_id = account, oa_activity_id = activity_id,
         oa_activity_type = activity_type, oa_target_actor_uri = target_actor,
         oa_target_inbox = target_inbox, oa_payload_json = payload, oa_state = Row_Queued,
         oa_attempt_count = 0, oa_last_attempt_at = None, oa_next_attempt_at = Some now,
         oa_created_at = now\<rparr>]\<rparr>)"

text \<open>What becomes of a claimed activity; a missing account or a blocked inbox fails for good.\<close>

definition report_outbound_activity ::
    "int \<Rightarrow> outbound_activity_row \<Rightarrow> delivery_attempt_outcome \<Rightarrow> outbound_db \<Rightarrow> outbound_db" where
  "report_outbound_activity now d outcome =
    (if outcome = delivery_attempt_outcome.Success then mark_outbound_activity_delivered now (oa_id d)
     else let attempt = next_attempt (oa_attempt_count d);
              terminal = (outcome = PermanentFailure \<or> is_delivery_terminal attempt)
       in if terminal then reconcile_outbound_activity_terminal_failure now d attempt
          else reschedule_outbound_activity now (oa_id d) attempt)"

section \<open>Follows\<close>

lemma reconcile_rows [simp]: "ob_rows (reconcile_follow_state_for_terminal_outbound d db) = ob_rows db"
  by (simp add: reconcile_follow_state_for_terminal_outbound_def split: option.split prod.split)

lemma update_follows [simp]: "ob_follows (update_outbound P f db) = ob_follows db"
  by (simp add: update_outbound_def)

definition follow_of :: "outbound_activity_row \<Rightarrow> follow_row \<Rightarrow> bool" where
  "follow_of d f \<longleftrightarrow> oa_activity_type d = ''Follow'' \<and> fo_follower_account_id f = oa_account_id d \<and>
    oa_target_actor_uri d = Some (fo_target_actor_uri f) \<and>
    fo_follow_activity_id f = oa_activity_id d"

definition follow_failed :: "outbound_activity_row \<Rightarrow> follow_row \<Rightarrow> follow_row" where
  "follow_failed d f =
    (if follow_of d f
     then f\<lparr>fo_state := reconcile_pending_follow_on_outbound_terminal_failure (fo_state f)
       (oa_activity_type d)\<rparr>
     else f)"

lemma reconcile_follows:
  "ob_follows (reconcile_follow_state_for_terminal_outbound d db) = map (follow_failed d) (ob_follows db)"
proof -
  have "follow_failed d f = f" if "oa_activity_type d \<noteq> ''Follow'' \<or> oa_target_actor_uri d = None" for f
    using that by (auto simp: follow_failed_def follow_of_def)
  moreover have "follow_failed d f = (if fo_follower_account_id f = oa_account_id d \<and>
      fo_target_actor_uri f = uri \<and> fo_follow_activity_id f = oa_activity_id d \<and>
      fo_state f = remote_follow_state.Pending
    then f\<lparr>fo_state := remote_follow_state.Failed\<rparr> else f)"
    if "oa_activity_type d = ''Follow''" "oa_target_actor_uri d = Some uri" for f uri
    using that
    by (auto simp: follow_failed_def follow_of_def outbound_terminal_failure_follow_state_def
        reconcile_pending_follow_on_outbound_terminal_failure_def unwrap_or_def)
  ultimately show ?thesis
    by (cases "oa_target_actor_uri d")
      (auto simp: reconcile_follow_state_for_terminal_outbound_def
        outbound_terminal_failure_follow_state_def map_idI)
qed

section \<open>Properties\<close>

text \<open>
  A report changes no follow, unless the delivery of its Follow failed for good; then the
  follows that name the activity, the account and the target go where the domain's rule takes them,
  a pending one to failed and any other nowhere. That is so whether the claim was current or not.
\<close>

theorem report_reconciles_follows:
  "ob_follows (report_outbound_activity now d outcome db) =
    (if outcome = PermanentFailure \<or>
        (outcome = delivery_attempt_outcome.Failure \<and> is_delivery_terminal (next_attempt (oa_attempt_count d)))
     then map (\<lambda>f. if follow_of d f
         then f\<lparr>fo_state := reconcile_pending_follow_on_outbound_terminal_failure (fo_state f)
           (oa_activity_type d)\<rparr>
         else f) (ob_follows db)
     else ob_follows db)"
  by (cases outcome)
    (simp_all add: report_outbound_activity_def Let_def mark_outbound_activity_delivered_def
      reconcile_outbound_activity_terminal_failure_def reconcile_follows follow_failed_def [abs_def]
      mark_outbound_activity_terminal_failure_def reschedule_outbound_activity_def)

text \<open>
  A follow request that was delivered can still fail: where a worker taken for dead reports a
  permanent failure after another has delivered the activity, the row stays delivered and the
  pending follow is set to failed.
\<close>

theorem delivered_follow_set_failed:
  assumes "r \<in> set (ob_rows db)" "oa_id d = oa_id r" "oa_state r = Row_Delivered"
    and "f \<in> set (ob_follows db)" "follow_of d f" "fo_state f = remote_follow_state.Pending"
  shows "r \<in> set (ob_rows (report_outbound_activity now d PermanentFailure db)) \<and>
    f\<lparr>fo_state := remote_follow_state.Failed\<rparr> \<in>
      set (ob_follows (report_outbound_activity now d PermanentFailure db))"
proof -
  have "r \<in> set (ob_rows (report_outbound_activity now d PermanentFailure db))"
    using assms(1,3) by (force simp: report_outbound_activity_def Let_def update_outbound_def
        reconcile_outbound_activity_terminal_failure_def mark_outbound_activity_terminal_failure_def)
  moreover have "follow_failed d f = f\<lparr>fo_state := remote_follow_state.Failed\<rparr>"
    using assms(5,6) by (simp add: follow_failed_def follow_of_def unwrap_or_def
        reconcile_pending_follow_on_outbound_terminal_failure_def
        outbound_terminal_failure_follow_state_def)
  then have "f\<lparr>fo_state := remote_follow_state.Failed\<rparr> \<in>
      set (ob_follows (report_outbound_activity now d PermanentFailure db))"
    using assms(4) by (force simp: report_outbound_activity_def Let_def reconcile_follows
        reconcile_outbound_activity_terminal_failure_def mark_outbound_activity_terminal_failure_def)
  ultimately show ?thesis ..
qed

definition sample_follow :: follow_row where
  "sample_follow = \<lparr>fo_follower_account_id = ''a'', fo_target_actor_uri = ''u'',
    fo_follow_activity_id = ''act'', fo_state = remote_follow_state.Pending\<rparr>"

definition sample_outbound :: outbound_db where
  "sample_outbound = enqueue_outbound_activity ''o'' 0 ''a'' ''act'' ''Follow'' (Some ''u'') ''i'' ''{}''
    \<lparr>ob_rows = [], ob_follows = [sample_follow]\<rparr>"

text \<open>A claim, a claim of the stale row after a quarter of an hour, its delivery, and the late report.\<close>

theorem delivered_follow_set_failed_witness:
  "case claim_pending_outbound_activities 0 8 sample_outbound of (db1, ds) \<Rightarrow>
    (case claim_pending_outbound_activities 900 8
        (requeue_stale_in_flight_outbound_activities 900 db1) of (db2, es) \<Rightarrow>
      map fo_state (ob_follows (report_outbound_activity 902 (hd ds) PermanentFailure
        (report_outbound_activity 901 (hd es) delivery_attempt_outcome.Success db2))) =
      [remote_follow_state.Failed])"
proof -
  define db1 where "db1 = fst (claim_pending_outbound_activities 0 8 sample_outbound)"
  define d where "d = hd (snd (claim_pending_outbound_activities 0 8 sample_outbound))"
  define q where "q = claim_pending_outbound_activities 900 8
    (requeue_stale_in_flight_outbound_activities 900 db1)"
  define db where "db = report_outbound_activity 901 (hd (snd q)) delivery_attempt_outcome.Success (fst q)"
  have "hd (ob_rows db) \<in> set (ob_rows db)" "oa_id d = oa_id (hd (ob_rows db))"
    "oa_state (hd (ob_rows db)) = Row_Delivered" "sample_follow \<in> set (ob_follows db)"
    "follow_of d sample_follow" "fo_state sample_follow = remote_follow_state.Pending"
    unfolding db_def q_def d_def db1_def by code_simp+
  from delivered_follow_set_failed [OF this, of 902]
  have "remote_follow_state.Failed \<in>
      set (map fo_state (ob_follows (report_outbound_activity 902 d PermanentFailure db)))"
    by force
  moreover have "length (ob_follows (report_outbound_activity 902 d PermanentFailure db)) = 1"
    unfolding db_def q_def d_def db1_def by code_simp
  ultimately show ?thesis
    by (auto simp: db_def q_def d_def db1_def length_Suc_conv split: prod.splits)
qed

end
