(* ===== verification/Remote_Fetch.thy ===== *)
theory Remote_Fetch
  imports Url_Policy Activity_Json
begin

text \<open>
  Fetching documents of other servers (\<open>federation/url_guard.rs\<close>, \<open>federation/secure_fetch.rs\<close>): the
  check of an address with the cached answers of the DNS, and the redirects. The network is an
  argument that may answer differently at every moment, and so are the \<open>url\<close> crate and the reader
  of JSON. A header or an option that is set to a constant is not modelled, it cannot fail.
\<close>

section \<open>The network\<close>

datatype url_host = Host_Domain string | Host_Ipv4 ipv4_addr | Host_Ipv6 ipv6_addr

record url_crate =
  url_parse :: "string \<Rightarrow> string + parsed_url"
  url_join :: "parsed_url \<Rightarrow> string \<Rightarrow> string + parsed_url"
  url_host :: "parsed_url \<Rightarrow> url_host option"
  url_as_str :: "parsed_url \<Rightarrow> string"
  byte_serialize :: "string \<Rightarrow> string"

record doh_response =
  doh_http_status :: nat
  doh_json :: "string + nat \<times> string list option"

record http_response =
  hr_status :: nat
  hr_location :: "string option"
  hr_content_type :: "string option"
  hr_body :: "string + string"

text \<open>Each part of the network is asked at a time, in milliseconds. \<open>net_kv\<close> says whether the
  key-value store answers.\<close>

record network =
  net_doh :: "int \<Rightarrow> string \<Rightarrow> string + doh_response"
  net_kv :: "int \<Rightarrow> bool"
  net_http :: "int \<Rightarrow> string \<Rightarrow> string + http_response"

text \<open>The caches of a worker: for the host its result and when it expires. There may be no store.\<close>

record dns_caches =
  dc_l1 :: "string \<Rightarrow> (bool \<times> int) option"
  dc_kv :: "(string \<Rightarrow> (bool \<times> int) option) option"

text \<open>The moments of one step: the look into the memory, the answers of the store and of the DNS,
  and the request.\<close>

record hop_times =
  ht_l1 :: int
  ht_kv :: int
  ht_dns :: int
  ht_send :: int

section \<open>Caches\<close>

definition DOH_CACHE_ALLOW_TTL_SECS :: int where "DOH_CACHE_ALLOW_TTL_SECS = 300"
definition DOH_CACHE_DENY_TTL_SECS :: int where "DOH_CACHE_DENY_TTL_SECS = 60"
definition DOH_L1_TTL_MS :: int where "DOH_L1_TTL_MS = 60000"

definition doh_cache_key :: "string \<Rightarrow> string" where
  "doh_cache_key host = ''doh:v1:'' @ to_ascii_lowercase host"

definition l1_get :: "int \<Rightarrow> string \<Rightarrow> dns_caches \<Rightarrow> bool option" where
  "l1_get now host caches =
    (case dc_l1 caches host of
       Some (allowed, expires) \<Rightarrow> if expires > now then Some allowed else None
     | None \<Rightarrow> None)"

definition l1_put :: "int \<Rightarrow> string \<Rightarrow> bool \<Rightarrow> dns_caches \<Rightarrow> dns_caches" where
  "l1_put now host allowed caches =
    caches\<lparr>dc_l1 := (\<lambda>k. case dc_l1 caches k of
        Some (a, expires) \<Rightarrow> if expires > now then Some (a, expires) else None
      | None \<Rightarrow> None)(to_ascii_lowercase host \<mapsto> (allowed, now + DOH_L1_TTL_MS))\<rparr>"

definition kv_get_allowed :: "network \<Rightarrow> int \<Rightarrow> string \<Rightarrow> dns_caches \<Rightarrow> bool option" where
  "kv_get_allowed net now host caches =
    (case dc_kv caches of
       None \<Rightarrow> None
     | Some kv \<Rightarrow>
         if \<not> net_kv net now then None
         else (case kv (doh_cache_key host) of
             Some (allowed, expires) \<Rightarrow> if expires > now then Some allowed else None
           | None \<Rightarrow> None))"

definition kv_put_allowed :: "network \<Rightarrow> int \<Rightarrow> string \<Rightarrow> bool \<Rightarrow> dns_caches \<Rightarrow> dns_caches" where
  "kv_put_allowed net now host allowed caches =
    (case dc_kv caches of
       None \<Rightarrow> caches
     | Some kv \<Rightarrow>
         let ttl = (if allowed then DOH_CACHE_ALLOW_TTL_SECS else DOH_CACHE_DENY_TTL_SECS) in
         if net_kv net now
         then caches\<lparr>dc_kv := Some (kv(doh_cache_key host \<mapsto> (allowed, now + ttl * 1000)))\<rparr>
         else caches)"

section \<open>The check of an address\<close>

definition resolve_dns_json_ips ::
    "url_crate \<Rightarrow> network \<Rightarrow> int \<Rightarrow> string \<Rightarrow> string \<Rightarrow> string + ip_addr list" where
  "resolve_dns_json_ips lib net now host record_type =
    (let url = ''https://cloudflare-dns.com/dns-query?name='' @ byte_serialize lib host @
               ''&type='' @ record_type in
     and_then (net_doh net now url) (\<lambda>response.
       if doh_http_status response div 100 \<noteq> 2
       then Inl (''DNS resolution failed for '' @ host @ '': HTTP '' @
                 show_nat (doh_http_status response))
       else and_then (doh_json response) (\<lambda>(status, answer).
         if status \<noteq> 0
         then Inl (''DNS resolution failed for '' @ host @ '': response status '' @ show_nat status)
         else Inr (parse_dns_answer_ips (case answer of Some as \<Rightarrow> as | None \<Rightarrow> [])))))"

definition blocked_host_message :: "string \<Rightarrow> string" where
  "blocked_host_message host = ''remote host '' @ host @ '' resolved to a blocked IP range''"

text \<open>Both lookups run at once; the error of the first is the one that is returned.\<close>

definition resolved_records ::
    "url_crate \<Rightarrow> network \<Rightarrow> int \<Rightarrow> string \<Rightarrow> string + ip_addr list" where
  "resolved_records lib net now host =
    and_then (resolve_dns_json_ips lib net now host ''A'') (\<lambda>a.
      and_then (resolve_dns_json_ips lib net now host ''AAAA'') (\<lambda>aaaa. Inr (a @ aaaa)))"

definition cached_answer :: "string \<Rightarrow> bool \<Rightarrow> string + unit" where
  "cached_answer host allowed = (if allowed then Inr () else Inl (blocked_host_message host))"

definition validate_remote_hostname_resolution ::
    "url_crate \<Rightarrow> network \<Rightarrow> hop_times \<Rightarrow> string \<Rightarrow> dns_caches \<Rightarrow> (string + unit) \<times> dns_caches" where
  "validate_remote_hostname_resolution lib net ts host0 caches =
    (let host = to_ascii_lowercase (trim_end_matches host0 (CHR ''.'')) in
     case l1_get (ht_l1 ts) host caches of
       Some allowed \<Rightarrow> (cached_answer host allowed, caches)
     | None \<Rightarrow>
     case kv_get_allowed net (ht_kv ts) host caches of
       Some allowed \<Rightarrow> (cached_answer host allowed, l1_put (ht_kv ts) host allowed caches)
     | None \<Rightarrow>
     case resolved_records lib net (ht_dns ts) host of
       Inl e \<Rightarrow> (Inl e, caches)
     | Inr resolved \<Rightarrow>
         (case remote_hostname_dns_resolution_allowed resolved of
            Inr _ \<Rightarrow>
              (Inr (), kv_put_allowed net (ht_dns ts) host True
                         (l1_put (ht_dns ts) host True caches))
          | Inl NoRecords \<Rightarrow>
              (Inl (''remote host '' @ host @ '' did not resolve to any public A/AAAA records''), caches)
          | Inl BlockedAddress \<Rightarrow>
              (Inl (blocked_host_message host),
               kv_put_allowed net (ht_dns ts) host False (l1_put (ht_dns ts) host False caches))))"

fun remote_url_policy_error :: "remote_url_policy_issue \<Rightarrow> string" where
  "remote_url_policy_error UnsupportedScheme = ''unsupported remote URL scheme''"
| "remote_url_policy_error MissingHost = ''remote URL must include host''"
| "remote_url_policy_error UserInfoPresent = ''remote URL must not include user info''"
| "remote_url_policy_error LocalhostBlocked = ''localhost is not allowed''"
| "remote_url_policy_error BlockedIp = ''private or loopback IPs are not allowed''"

definition has_userinfo :: "parsed_url \<Rightarrow> bool" where
  "has_userinfo url \<longleftrightarrow> pu_username url \<noteq> [] \<or> pu_password url \<noteq> None"

definition validate_remote_fetch_url ::
    "url_crate \<Rightarrow> network \<Rightarrow> hop_times \<Rightarrow> parsed_url \<Rightarrow> dns_caches \<Rightarrow> (string + unit) \<times> dns_caches" where
  "validate_remote_fetch_url lib net ts url caches =
    (if pu_scheme url \<noteq> ''http'' \<and> pu_scheme url \<noteq> ''https''
     then (Inl ''unsupported remote URL scheme'', caches)
     else case url_host lib url of
         None \<Rightarrow> (Inl ''remote URL must include host'', caches)
       | Some (Host_Domain host) \<Rightarrow>
           (case remote_url_policy_from_parts (pu_scheme url) host (has_userinfo url) of
              Inl issue \<Rightarrow> (Inl (remote_url_policy_error issue), caches)
            | Inr _ \<Rightarrow> validate_remote_hostname_resolution lib net ts host caches)
       | Some (Host_Ipv4 v4) \<Rightarrow>
           (map_err remote_url_policy_error
              (remote_url_policy_for_ip (V4 v4) (has_userinfo url)), caches)
       | Some (Host_Ipv6 v6) \<Rightarrow>
           (map_err remote_url_policy_error
              (remote_url_policy_for_ip (V6 v6) (has_userinfo url)), caches))"

section \<open>Fetching\<close>

definition parse_remote_http_url :: "url_crate \<Rightarrow> string \<Rightarrow> string + parsed_url" where
  "parse_remote_http_url lib url =
    and_then (map_err (\<lambda>e. ''invalid remote URL '' @ url @ '': '' @ e) (url_parse lib (trim url)))
      (\<lambda>parsed.
        if pu_scheme parsed = ''http'' \<or> pu_scheme parsed = ''https'' then Inr parsed
        else Inl (''unsupported remote URL scheme '' @ pu_scheme parsed))"

definition resolve_remote_redirect_location ::
    "url_crate \<Rightarrow> parsed_url \<Rightarrow> string \<Rightarrow> string + parsed_url" where
  "resolve_remote_redirect_location lib base location0 =
    (let location = trim location0 in
     if location = [] then Inl ''remote fetch redirect Location header is empty''
     else and_then
       (if starts_with location ''http://'' \<or> starts_with location ''https://''
        then map_err (\<lambda>e. ''invalid remote redirect URL '' @ location @ '': '' @ e)
               (url_parse lib location)
        else map_err (\<lambda>e. ''failed to resolve remote redirect '' @ location @ '' against '' @
                        url_as_str lib base @ '': '' @ e)
               (url_join lib base location))
       (\<lambda>resolved.
         if pu_scheme resolved = ''http'' \<or> pu_scheme resolved = ''https'' then Inr resolved
         else Inl (''unsupported remote redirect URL scheme '' @ pu_scheme resolved)))"

text \<open>\<open>chars().take(n)\<close>: a byte of the form \<open>10xxxxxx\<close> continues a character.\<close>

definition continues_char :: "char \<Rightarrow> bool" where
  "continues_char c \<longleftrightarrow> 128 \<le> byte c \<and> byte c < 192"

fun take_chars :: "nat \<Rightarrow> string \<Rightarrow> string" where
  "take_chars n [] = []"
| "take_chars n (c # s) =
    (if continues_char c then c # take_chars n s
     else case n of 0 \<Rightarrow> [] | Suc m \<Rightarrow> c # take_chars m s)"

definition REMOTE_FETCH_JSON_BODY_SNIPPET_LIMIT :: nat where
  "REMOTE_FETCH_JSON_BODY_SNIPPET_LIMIT = 200"

definition remote_fetch_json_body_snippet :: "string \<Rightarrow> string" where
  "remote_fetch_json_body_snippet body =
    take_chars REMOTE_FETCH_JSON_BODY_SNIPPET_LIMIT
      (map (\<lambda>c. if c = CHR 0x0A \<or> c = CHR 0x0D \<or> c = CHR 0x09 then CHR '' '' else c) body)"

definition parse_remote_fetch_json_body ::
    "(string \<Rightarrow> string + json) \<Rightarrow> string \<Rightarrow> nat \<Rightarrow> string option \<Rightarrow> string \<Rightarrow> string + json" where
  "parse_remote_fetch_json_body from_json url status content_type body =
    map_err (\<lambda>e. ''failed to parse remote JSON from '' @ url @ '': HTTP '' @ show_nat status @
        '', content-type='' @ (case content_type of Some t \<Rightarrow> t | None \<Rightarrow> ''<missing>'') @
        '', parse_error='' @ e @ '', body='' @ remote_fetch_json_body_snippet body)
      (from_json body)"

definition parse_remote_http_json_response ::
    "(string \<Rightarrow> string + json) \<Rightarrow> http_response \<Rightarrow> string \<Rightarrow> nat \<Rightarrow> string + json" where
  "parse_remote_http_json_response from_json response url status =
    and_then (hr_body response)
      (parse_remote_fetch_json_body from_json url status (hr_content_type response))"

definition MAX_REMOTE_FETCH_REDIRECTS :: nat where "MAX_REMOTE_FETCH_REDIRECTS = 5"

text \<open>
  The loop over the redirects, for the hops from \<open>i\<close> on; \<open>clock i\<close> are the moments of hop \<open>i\<close>. Its
  result is the document or the error, the caches, and the addresses that were requested.
\<close>

function fetch_hops ::
    "url_crate \<Rightarrow> (string \<Rightarrow> string + json) \<Rightarrow> network \<Rightarrow> (nat \<Rightarrow> hop_times) \<Rightarrow> string \<Rightarrow> nat \<Rightarrow>
     parsed_url \<Rightarrow> dns_caches \<Rightarrow> (string + json) \<times> dns_caches \<times> (nat \<times> string) list" where
  "fetch_hops lib from_json net clock url redirect_count current_url caches =
    (if redirect_count > MAX_REMOTE_FETCH_REDIRECTS
     then (Inl (''remote fetch exceeded redirect limit for '' @ url), caches, [])
     else
       let sent = url_as_str lib current_url; request = (redirect_count, sent) in
       case net_http net (ht_send (clock redirect_count)) sent of
         Inl e \<Rightarrow> (Inl e, caches, [request])
       | Inr response \<Rightarrow>
         let status = hr_status response in
         if 300 \<le> status \<and> status < 400 then
           if redirect_count = MAX_REMOTE_FETCH_REDIRECTS
           then (Inl (''remote fetch exceeded redirect limit for '' @ url), caches, [request])
           else (case hr_location response of
               None \<Rightarrow> (Inl (''remote fetch redirect missing Location header for '' @ sent),
                         caches, [request])
             | Some location \<Rightarrow>
               (case resolve_remote_redirect_location lib current_url location of
                  Inl e \<Rightarrow> (Inl e, caches, [request])
                | Inr next_url \<Rightarrow>
                  (case validate_remote_fetch_url lib net (clock (redirect_count + 1)) next_url caches of
                     (Inl e, caches) \<Rightarrow> (Inl e, caches, [request])
                   | (Inr _, caches) \<Rightarrow>
                     (case fetch_hops lib from_json net clock url (redirect_count + 1) next_url caches of
                        (result, caches, requests) \<Rightarrow> (result, caches, request # requests)))))
         else if status div 100 \<noteq> 2
         then (Inl (''failed to fetch remote document '' @ sent @ '': HTTP '' @ show_nat status),
               caches, [request])
         else (parse_remote_http_json_response from_json response sent status, caches, [request]))"
  by pat_completeness auto
termination
  by (relation "measure (\<lambda>(lib, from_json, net, clock, url, i, u, caches). 6 - i)")
     (auto simp: MAX_REMOTE_FETCH_REDIRECTS_def)

declare fetch_hops.simps [simp del]

definition fetch_remote_http_json ::
    "url_crate \<Rightarrow> (string \<Rightarrow> string + json) \<Rightarrow> network \<Rightarrow> (nat \<Rightarrow> hop_times) \<Rightarrow> string \<Rightarrow> dns_caches \<Rightarrow>
     (string + json) \<times> dns_caches \<times> (nat \<times> string) list" where
  "fetch_remote_http_json lib from_json net clock url caches =
    (case parse_remote_http_url lib url of
       Inl e \<Rightarrow> (Inl e, caches, [])
     | Inr current_url \<Rightarrow>
       (case validate_remote_fetch_url lib net (clock 0) current_url caches of
          (Inl e, caches) \<Rightarrow> (Inl e, caches, [])
        | (Inr _, caches) \<Rightarrow> fetch_hops lib from_json net clock url 0 current_url caches))"

section \<open>Caches whose answers age\<close>

text \<open>
  Every entry \<open>True\<close> of a cache stems from an answer that held at a moment \<open>t\<close> not after \<open>now\<close>, and
  expires at most \<open>age\<close> after it.
\<close>

definition answers_from ::
    "(int \<Rightarrow> string \<Rightarrow> bool) \<Rightarrow> int \<Rightarrow> int \<Rightarrow> (string \<Rightarrow> (bool \<times> int) option) \<Rightarrow> bool" where
  "answers_from holds now age entry \<longleftrightarrow>
    (\<forall>h e. entry h = Some (True, e) \<longrightarrow>
      (\<exists>t \<le> now. holds t (to_ascii_lowercase h) \<and> e \<le> t + age))"

lemma answers_from_later:
  "answers_from holds now age entry \<Longrightarrow> now \<le> now' \<Longrightarrow> answers_from holds now' age entry"
  unfolding answers_from_def by (meson order_trans)

text \<open>What the memory of a worker and the store have in common.\<close>

locale ttl_cache =
  fixes get :: "int \<Rightarrow> string \<Rightarrow> 'c \<Rightarrow> bool option"
    and put :: "int \<Rightarrow> string \<Rightarrow> bool \<Rightarrow> 'c \<Rightarrow> 'c"
    and entry :: "'c \<Rightarrow> string \<Rightarrow> (bool \<times> int) option"
    and ttl :: int
  assumes get_entry: "get t h c = Some a \<Longrightarrow> \<exists>e. entry c h = Some (a, e) \<and> t < e"
    and put_entry: "entry (put t h a c) k = Some (True, e) \<Longrightarrow>
      to_ascii_lowercase k = to_ascii_lowercase h \<and> a \<and> e = t + ttl \<or> entry c k = Some (True, e)"
begin

lemma get_recent:
  assumes "answers_from holds now age (entry c)" "get t h c = Some True"
  shows "\<exists>t0 \<le> now. holds t0 (to_ascii_lowercase h) \<and> t < t0 + age"
proof -
  obtain e where "entry c h = Some (True, e)" "t < e" using get_entry [OF assms(2)] by auto
  then show ?thesis using assms(1) unfolding answers_from_def by force
qed

lemma put_answers:
  assumes "answers_from holds now age (entry c)" "now \<le> now'"
    and "a \<Longrightarrow> \<exists>t0 \<le> now'. holds t0 (to_ascii_lowercase h) \<and> t + ttl \<le> t0 + age"
  shows "answers_from holds now' age (entry (put t h a c))"
  unfolding answers_from_def
proof (intro allI impI)
  fix k e
  assume "entry (put t h a c) k = Some (True, e)"
  from put_entry [OF this] show "\<exists>t0 \<le> now'. holds t0 (to_ascii_lowercase k) \<and> e \<le> t0 + age"
    using assms answers_from_later [OF assms(1,2)] unfolding answers_from_def by auto
qed

end

definition kv_entry :: "dns_caches \<Rightarrow> string \<Rightarrow> (bool \<times> int) option" where
  "kv_entry caches h = (case dc_kv caches of None \<Rightarrow> None | Some kv \<Rightarrow> kv (doh_cache_key h))"

interpretation l1: ttl_cache l1_get l1_put dc_l1 DOH_L1_TTL_MS
  by unfold_locales
     (auto simp: l1_get_def l1_put_def split: option.splits if_splits)

interpretation kv: ttl_cache "kv_get_allowed net" "kv_put_allowed net" kv_entry
    "DOH_CACHE_ALLOW_TTL_SECS * 1000" for net
  by unfold_locales
     (auto simp: kv_get_allowed_def kv_put_allowed_def kv_entry_def doh_cache_key_def Let_def
       split: option.splits if_splits)

lemma caches_apart [simp]:
  "kv_entry (l1_put t h a c) = kv_entry c" "dc_l1 (kv_put_allowed net t h a c) = dc_l1 c"
  by (auto simp: kv_entry_def l1_put_def kv_put_allowed_def Let_def fun_eq_iff split: option.splits)

section \<open>Admitted addresses\<close>

text \<open>The DNS gives public addresses for a host, and no other ones.\<close>

definition public_at :: "url_crate \<Rightarrow> network \<Rightarrow> int \<Rightarrow> string \<Rightarrow> bool" where
  "public_at lib net t host \<longleftrightarrow>
    (case resolved_records lib net t host of
       Inl _ \<Rightarrow> False
     | Inr ips \<Rightarrow> remote_hostname_dns_resolution_allowed ips = Inr ())"

definition DNS_ANSWER_AGE :: int where "DNS_ANSWER_AGE = 360000"

definition caches_sound :: "url_crate \<Rightarrow> network \<Rightarrow> int \<Rightarrow> dns_caches \<Rightarrow> bool" where
  "caches_sound lib net now caches \<longleftrightarrow>
    answers_from (public_at lib net) now DNS_ANSWER_AGE (dc_l1 caches) \<and>
    answers_from (public_at lib net) now (DOH_CACHE_ALLOW_TTL_SECS * 1000) (kv_entry caches)"

lemma caches_sound_later:
  "caches_sound lib net now c \<Longrightarrow> now \<le> now' \<Longrightarrow> caches_sound lib net now' c"
  unfolding caches_sound_def by (meson answers_from_later)

definition hop_in_order :: "hop_times \<Rightarrow> bool" where
  "hop_in_order ts \<longleftrightarrow> ht_l1 ts \<le> ht_kv ts \<and> ht_kv ts \<le> ht_dns ts \<and> ht_dns ts \<le> ht_send ts"

definition in_order :: "(nat \<Rightarrow> hop_times) \<Rightarrow> bool" where
  "in_order clock \<longleftrightarrow> (\<forall>i. hop_in_order (clock i) \<and> ht_send (clock i) \<le> ht_l1 (clock (i + 1)))"

definition dns_host :: "string \<Rightarrow> string" where
  "dns_host host = to_ascii_lowercase (trim_end_matches host (CHR ''.''))"

text \<open>An address that may be requested: what has been checked, and when the DNS was asked.\<close>

definition admitted :: "url_crate \<Rightarrow> network \<Rightarrow> hop_times \<Rightarrow> parsed_url \<Rightarrow> bool" where
  "admitted lib net ts url \<longleftrightarrow>
    pu_scheme url \<in> {''http'', ''https''} \<and> \<not> has_userinfo url \<and>
    (case url_host lib url of
       None \<Rightarrow> False
     | Some (Host_Ipv4 v4) \<Rightarrow> \<not> is_blocked_ip_address (V4 v4)
     | Some (Host_Ipv6 v6) \<Rightarrow> \<not> is_blocked_ip_address (V6 v6)
     | Some (Host_Domain host) \<Rightarrow>
         remote_url_policy_from_parts (pu_scheme url) host False = Inr () \<and>
         (\<exists>t. ht_l1 ts - DNS_ANSWER_AGE < t \<and> t \<le> ht_dns ts \<and> public_at lib net t (dns_host host)))"

lemma hostname_validated:
  assumes sound: "caches_sound lib net (ht_l1 ts) c" and order: "hop_in_order ts"
    and run: "validate_remote_hostname_resolution lib net ts host c = (r, c')"
  shows "caches_sound lib net (ht_dns ts) c'"
    and "r = Inr () \<Longrightarrow> \<exists>t. ht_l1 ts - DNS_ANSWER_AGE < t \<and> t \<le> ht_dns ts \<and>
      public_at lib net t (dns_host host)"
proof -
  define h where "h = dns_host host"
  have lower [simp]: "to_ascii_lowercase h = h" by (simp add: h_def dns_host_def to_ascii_lowercase_idem)
  have ord: "ht_l1 ts \<le> ht_kv ts" "ht_kv ts \<le> ht_dns ts" using order by (simp_all add: hop_in_order_def)
  have l1: "answers_from (public_at lib net) (ht_l1 ts) DNS_ANSWER_AGE (dc_l1 c)"
    and kv: "answers_from (public_at lib net) (ht_l1 ts) (DOH_CACHE_ALLOW_TTL_SECS * 1000) (kv_entry c)"
    using sound by (simp_all add: caches_sound_def)
  note defs = validate_remote_hostname_resolution_def dns_host_def [symmetric] h_def [symmetric] Let_def
  have "caches_sound lib net (ht_dns ts) c' \<and>
    (r = Inr () \<longrightarrow> (\<exists>t. ht_l1 ts - DNS_ANSWER_AGE < t \<and> t \<le> ht_dns ts \<and> public_at lib net t h))"
  proof (cases "l1_get (ht_l1 ts) h c")
    case (Some a)
    then have [simp]: "c' = c" "r = cached_answer h a" using run by (simp_all add: defs)
    have "caches_sound lib net (ht_dns ts) c"
      using caches_sound_later [OF sound] ord by simp
    moreover have "\<exists>t. ht_l1 ts - DNS_ANSWER_AGE < t \<and> t \<le> ht_dns ts \<and> public_at lib net t h" if "a"
    proof -
      have "l1_get (ht_l1 ts) h c = Some True" using Some that by simp
      from l1.get_recent [OF l1 this] obtain t0 where "t0 \<le> ht_l1 ts" "public_at lib net t0 h"
        "ht_l1 ts < t0 + DNS_ANSWER_AGE" by auto
      then show ?thesis using ord by (intro exI [of _ t0]) simp
    qed
    ultimately show ?thesis by (simp add: cached_answer_def)
  next
    case l1_None: None
    show ?thesis
    proof (cases "kv_get_allowed net (ht_kv ts) h c")
      case (Some a)
      then have [simp]: "c' = l1_put (ht_kv ts) h a c" "r = cached_answer h a"
        using run l1_None by (simp_all add: defs)
      have recent: "\<exists>t0 \<le> ht_l1 ts. public_at lib net t0 h \<and> ht_kv ts < t0 + DOH_CACHE_ALLOW_TTL_SECS * 1000"
        if "a" using kv.get_recent [OF kv, of net "ht_kv ts" h] Some that by simp
      have put: "\<exists>t0 \<le> ht_dns ts. public_at lib net t0 (to_ascii_lowercase h) \<and>
          ht_kv ts + DOH_L1_TTL_MS \<le> t0 + DNS_ANSWER_AGE" if a: "a"
      proof -
        from recent [OF a] obtain t0 where "t0 \<le> ht_l1 ts" "public_at lib net t0 h"
          "ht_kv ts < t0 + DOH_CACHE_ALLOW_TTL_SECS * 1000" by auto
        then show ?thesis using ord
          by (intro exI [of _ t0])
             (simp add: DNS_ANSWER_AGE_def DOH_L1_TTL_MS_def DOH_CACHE_ALLOW_TTL_SECS_def)
      qed
      have "answers_from (public_at lib net) (ht_dns ts) DNS_ANSWER_AGE (dc_l1 c')"
        using l1.put_answers [OF l1 _ put] ord by simp
      then have "caches_sound lib net (ht_dns ts) c'"
        using answers_from_later [OF kv] ord by (simp add: caches_sound_def)
      moreover have "\<exists>t. ht_l1 ts - DNS_ANSWER_AGE < t \<and> t \<le> ht_dns ts \<and> public_at lib net t h" if a: "a"
      proof -
        from recent [OF a] obtain t0 where "t0 \<le> ht_l1 ts" "public_at lib net t0 h"
          "ht_kv ts < t0 + DOH_CACHE_ALLOW_TTL_SECS * 1000" by auto
        then show ?thesis using ord
          by (intro exI [of _ t0]) (simp add: DNS_ANSWER_AGE_def DOH_CACHE_ALLOW_TTL_SECS_def)
      qed
      ultimately show ?thesis by (simp add: cached_answer_def)
    next
      case kv_None: None
      show ?thesis
      proof (cases "resolved_records lib net (ht_dns ts) h")
        case (Inl e)
        then have "c' = c" "r = Inl e" using run l1_None kv_None by (simp_all add: defs)
        then show ?thesis using caches_sound_later [OF sound] ord by simp
      next
        case (Inr ips)
        let ?a = "remote_hostname_dns_resolution_allowed ips = Inr ()"
        have public: "?a \<Longrightarrow> public_at lib net (ht_dns ts) h" using Inr by (simp add: public_at_def)
        have now: "\<exists>t0 \<le> ht_dns ts. public_at lib net t0 (to_ascii_lowercase h) \<and>
            ht_dns ts + ttl \<le> t0 + age" if "?a" "ttl \<le> age" for ttl age
          using public [OF that(1)] that(2) by (intro exI [of _ "ht_dns ts"]) simp
        have ttl: "DOH_L1_TTL_MS \<le> DNS_ANSWER_AGE" by (simp add: DNS_ANSWER_AGE_def DOH_L1_TTL_MS_def)
        have keep: "caches_sound lib net (ht_dns ts)
            (kv_put_allowed net (ht_dns ts) h a (l1_put (ht_dns ts) h a c))" if "a \<Longrightarrow> ?a" for a
        proof -
          have "answers_from (public_at lib net) (ht_dns ts) DNS_ANSWER_AGE (dc_l1 (l1_put (ht_dns ts) h a c))"
            by (rule l1.put_answers [where now = "ht_l1 ts"])
               (use l1 ord now [OF that ttl] in auto)
          moreover have "answers_from (public_at lib net) (ht_dns ts) (DOH_CACHE_ALLOW_TTL_SECS * 1000)
              (kv_entry (kv_put_allowed net (ht_dns ts) h a (l1_put (ht_dns ts) h a c)))"
            by (rule kv.put_answers [where now = "ht_l1 ts"]) (use kv ord now [OF that order_refl] in auto)
          ultimately show ?thesis by (simp add: caches_sound_def)
        qed
        have no_age: "ht_l1 ts - DNS_ANSWER_AGE < ht_dns ts" using ord by (simp add: DNS_ANSWER_AGE_def)
        show ?thesis
        proof (cases "remote_hostname_dns_resolution_allowed ips")
          case (Inl issue)
          then show ?thesis
            using run l1_None kv_None Inr keep [of False] caches_sound_later [OF sound] ord
            by (cases issue) (auto simp: defs)
        next
          case allowed: (Inr x)
          then have "r = Inr ()"
            "c' = kv_put_allowed net (ht_dns ts) h True (l1_put (ht_dns ts) h True c)"
            using run l1_None kv_None Inr by (simp_all add: defs)
          then show ?thesis using keep [of True] public allowed no_age by auto
        qed
      qed
    qed
  qed
  then show "caches_sound lib net (ht_dns ts) c'"
    and "r = Inr () \<Longrightarrow> \<exists>t. ht_l1 ts - DNS_ANSWER_AGE < t \<and> t \<le> ht_dns ts \<and>
      public_at lib net t (dns_host host)"
    by (simp_all add: h_def)
qed

lemma url_validated:
  assumes sound: "caches_sound lib net (ht_l1 ts) c" and order: "hop_in_order ts"
    and run: "validate_remote_fetch_url lib net ts url c = (r, c')"
  shows "caches_sound lib net (ht_dns ts) c'" and "r = Inr () \<Longrightarrow> admitted lib net ts url"
proof -
  have later: "caches_sound lib net (ht_dns ts) c"
    using caches_sound_later [OF sound] order by (simp add: hop_in_order_def)
  have "caches_sound lib net (ht_dns ts) c' \<and> (r = Inr () \<longrightarrow> admitted lib net ts url)"
  proof (cases "\<exists>host. url_host lib url = Some (Host_Domain host) \<and> pu_scheme url \<in> {''http'', ''https''} \<and>
      remote_url_policy_from_parts (pu_scheme url) host (has_userinfo url) = Inr ()")
    case True
    then obtain host where h: "url_host lib url = Some (Host_Domain host)"
      "pu_scheme url \<in> {''http'', ''https''}"
      "remote_url_policy_from_parts (pu_scheme url) host (has_userinfo url) = Inr ()" by auto
    then have "validate_remote_hostname_resolution lib net ts host c = (r, c')"
      using run by (auto simp: validate_remote_fetch_url_def)
    note v = hostname_validated [OF sound order this]
    have "\<not> has_userinfo url" using h(3) by (simp add: from_parts_ok)
    then show ?thesis using v h by (auto simp: admitted_def)
  next
    case False
    then show ?thesis
      using run later
      by (auto simp: validate_remote_fetch_url_def admitted_def remote_url_policy_for_ip_def
          split: if_splits option.splits url_host.splits sum.splits)
  qed
  then show "caches_sound lib net (ht_dns ts) c'" and "r = Inr () \<Longrightarrow> admitted lib net ts url"
    by blast+
qed

section \<open>Properties\<close>

definition requests_admitted ::
    "url_crate \<Rightarrow> network \<Rightarrow> (nat \<Rightarrow> hop_times) \<Rightarrow> (nat \<times> string) list \<Rightarrow> bool" where
  "requests_admitted lib net clock requests \<longleftrightarrow>
    (\<forall>(k, sent) \<in> set requests. \<exists>u. sent = url_as_str lib u \<and> admitted lib net (clock k) u)"

definition document_of_last ::
    "(string \<Rightarrow> string + json) \<Rightarrow> network \<Rightarrow> (nat \<Rightarrow> hop_times) \<Rightarrow> (nat \<times> string) list \<Rightarrow> json \<Rightarrow> bool" where
  "document_of_last from_json net clock requests doc \<longleftrightarrow>
    (\<exists>k sent response body. requests \<noteq> [] \<and> last requests = (k, sent) \<and>
      net_http net (ht_send (clock k)) sent = Inr response \<and> hr_status response div 100 = 2 \<and>
      hr_body response = Inr body \<and> from_json body = Inr doc)"

lemma clock_mono:
  assumes "in_order clock" "i \<le> j"
  shows "ht_send (clock i) \<le> ht_send (clock j)"
proof (rule lift_Suc_mono_le [OF _ assms(2)])
  fix n
  have "ht_send (clock n) \<le> ht_l1 (clock (n + 1))" "hop_in_order (clock (n + 1))"
    using assms(1) by (simp_all add: in_order_def)
  then show "ht_send (clock n) \<le> ht_send (clock (Suc n))" by (simp add: hop_in_order_def)
qed

text \<open>A hop ends the fetch, or hands on to the next hop after its check.\<close>

lemma fetch_hop_cases:
  assumes "i < 5" "fetch_hops lib from_json net clock url i u c = (r, c', requests)"
  shows "(\<exists>v d rest. requests = (i, url_as_str lib u) # rest \<and>
        validate_remote_fetch_url lib net (clock (i + 1)) v c = (Inr (), d) \<and>
        fetch_hops lib from_json net clock url (i + 1) v d = (r, c', rest)) \<or>
      requests = [(i, url_as_str lib u)] \<and>
      (c' = c \<or> (\<exists>v e. validate_remote_fetch_url lib net (clock (i + 1)) v c = (Inl e, c'))) \<and>
      (\<forall>doc. r = Inr doc \<longrightarrow> document_of_last from_json net clock requests doc)"
    (is "?next \<or> ?end")
proof (cases "net_http net (ht_send (clock i)) (url_as_str lib u)")
  case (Inl e)
  then show ?thesis using assms
    by (subst (asm) fetch_hops.simps) (simp add: MAX_REMOTE_FETCH_REDIRECTS_def Let_def, blast)
next
  case http: (Inr response)
  have i: "\<not> 5 < i" "i \<noteq> 5" using assms(1) by simp_all
  note run = assms(2) [unfolded fetch_hops.simps [of lib from_json net clock url i u c]
      MAX_REMOTE_FETCH_REDIRECTS_def Let_def, simplified i http if_False sum.case]
  show ?thesis
  proof (cases "300 \<le> hr_status response \<and> hr_status response < 400")
    case False
    then show ?thesis using run http
      by (simp add: document_of_last_def parse_remote_http_json_response_def
          and_then_Inr split: if_splits) (auto simp: and_then_Inr parse_remote_fetch_json_body_def)
  next
    case True
    show ?thesis
    proof (cases "\<exists>location v. hr_location response = Some location \<and>
        resolve_remote_redirect_location lib u location = Inr v")
      case False
      then show ?thesis using run True by (auto split: option.splits sum.splits)
    next
      case redirect: True
      then obtain location v where v: "hr_location response = Some location"
        "resolve_remote_redirect_location lib u location = Inr v" by blast
      obtain q d where q: "validate_remote_fetch_url lib net (clock (i + 1)) v c = (q, d)" by force
      show ?thesis
      proof (cases q)
        case (Inl e)
        then show ?thesis using run True v q by auto
      next
        case (Inr x)
        then show ?thesis using run True v q by (auto split: prod.splits)
      qed
    qed
  qed
qed

lemma hops_guarded:
  assumes order: "in_order clock"
  shows "i + n = 5 \<Longrightarrow> caches_sound lib net (ht_dns (clock i)) c \<Longrightarrow> admitted lib net (clock i) u \<Longrightarrow>
    fetch_hops lib from_json net clock url i u c = (r, c', requests) \<Longrightarrow>
    map fst requests = [i..<i + length requests] \<and> i + length requests \<le> 6 \<and>
    requests_admitted lib net clock requests \<and>
    caches_sound lib net (ht_send (clock 5)) c' \<and>
    (\<forall>doc. r = Inr doc \<longrightarrow> document_of_last from_json net clock requests doc)"
proof (induction n arbitrary: i u c r c' requests)
  case 0
  then have [simp]: "i = 5" by simp
  have "caches_sound lib net (ht_send (clock 5)) c"
    using caches_sound_later 0 order by (simp add: in_order_def hop_in_order_def)
  then show ?case using 0(3,4)
    by (subst (asm) fetch_hops.simps)
       (auto simp: MAX_REMOTE_FETCH_REDIRECTS_def requests_admitted_def document_of_last_def Let_def
          parse_remote_http_json_response_def parse_remote_fetch_json_body_def and_then_Inr
          split: sum.splits if_splits)
next
  case (Suc n)
  have hop: "hop_in_order (clock i)" "hop_in_order (clock (i + 1))"
    "ht_send (clock i) \<le> ht_l1 (clock (i + 1))"
    using order by (simp_all add: in_order_def)
  have sound: "caches_sound lib net (ht_l1 (clock (i + 1))) c"
    using caches_sound_later [OF Suc.prems(2)] hop by (simp add: hop_in_order_def)
  have final: "caches_sound lib net (ht_send (clock 5)) d"
    if "caches_sound lib net (ht_dns (clock (i + 1))) d" for d
    using caches_sound_later [OF that] clock_mono [OF order, of "i + 1" 5] hop Suc.prems(1)
    by (simp add: hop_in_order_def)
  have sound': "caches_sound lib net (ht_send (clock 5)) c"
    using final caches_sound_later [OF sound] hop by (simp add: hop_in_order_def)
  have one: "requests_admitted lib net clock [(i, url_as_str lib u)]"
    using Suc.prems(3) by (auto simp: requests_admitted_def)
  show ?case
  proof (cases "\<exists>v d rest. requests = (i, url_as_str lib u) # rest \<and>
      validate_remote_fetch_url lib net (clock (i + 1)) v c = (Inr (), d) \<and>
      fetch_hops lib from_json net clock url (i + 1) v d = (r, c', rest)")
    case True
    then obtain v d rest where step: "requests = (i, url_as_str lib u) # rest"
      "validate_remote_fetch_url lib net (clock (i + 1)) v c = (Inr (), d)"
      "fetch_hops lib from_json net clock url (i + 1) v d = (r, c', rest)" by blast
    have "map fst rest = [i + 1..<i + 1 + length rest] \<and> i + 1 + length rest \<le> 6 \<and>
        requests_admitted lib net clock rest \<and> caches_sound lib net (ht_send (clock 5)) c' \<and>
        (\<forall>doc. r = Inr doc \<longrightarrow> document_of_last from_json net clock rest doc)"
      using Suc.IH [OF _ url_validated [OF sound hop(2) step(2)] step(3)] Suc.prems(1) by simp
    moreover have "[i..<i + length requests] = i # [i + 1..<i + 1 + length rest]"
      using step(1) by (simp add: upt_conv_Cons del: upt_Suc)
    ultimately show ?thesis
      using step(1) one by (simp add: requests_admitted_def document_of_last_def)
  next
    case False
    then have "requests = [(i, url_as_str lib u)]"
      "c' = c \<or> (\<exists>v e. validate_remote_fetch_url lib net (clock (i + 1)) v c = (Inl e, c'))"
      "\<And>doc. r = Inr doc \<Longrightarrow> document_of_last from_json net clock requests doc"
      using fetch_hop_cases [OF _ Suc.prems(4)] Suc.prems(1) by auto
    moreover have "caches_sound lib net (ht_send (clock 5)) c'"
      if "validate_remote_fetch_url lib net (clock (i + 1)) v c = (Inl e, c')" for v e
      using final url_validated(1) [OF sound hop(2) that] .
    ultimately show ?thesis using sound' one Suc.prems(1) by auto
  qed
qed

lemma remote_fetch_document:
  assumes "in_order clock" "caches_sound lib net (ht_l1 (clock 0)) caches"
    and "fetch_remote_http_json lib from_json net clock url caches = (result, caches', requests)"
  shows "length requests \<le> 6 \<and> requests_admitted lib net clock requests \<and>
    map fst requests = [0..<length requests] \<and>
    caches_sound lib net (ht_send (clock 5)) caches' \<and>
    (\<forall>doc. result = Inr doc \<longrightarrow> document_of_last from_json net clock requests doc)"
proof -
  have hop: "hop_in_order (clock 0)" using assms(1) by (simp add: in_order_def)
  have final: "caches_sound lib net (ht_send (clock 5)) d"
    if "caches_sound lib net (ht_dns (clock 0)) d" for d
    using caches_sound_later [OF that] clock_mono [OF assms(1), of 0 5] hop
    by (simp add: hop_in_order_def)
  have start: "caches_sound lib net (ht_send (clock 5)) caches"
    using final caches_sound_later [OF assms(2)] hop by (simp add: hop_in_order_def)
  show ?thesis
  proof (cases "\<exists>u d. validate_remote_fetch_url lib net (clock 0) u caches = (Inr (), d) \<and>
      fetch_hops lib from_json net clock url 0 u d = (result, caches', requests)")
    case True
    then obtain u d where "validate_remote_fetch_url lib net (clock 0) u caches = (Inr (), d)"
      "fetch_hops lib from_json net clock url 0 u d = (result, caches', requests)" by blast
    from hops_guarded [OF assms(1) _ url_validated [OF assms(2) hop this(1)] this(2), of 5]
    show ?thesis by simp
  next
    case False
    then have "requests = []" "\<exists>e. result = Inl e"
      "caches' = caches \<or> (\<exists>u e. validate_remote_fetch_url lib net (clock 0) u caches = (Inl e, caches'))"
      using assms(3)
      by (auto simp: fetch_remote_http_json_def split: sum.splits prod.splits)
    moreover have "caches_sound lib net (ht_send (clock 5)) caches'"
      if "validate_remote_fetch_url lib net (clock 0) u caches = (Inl e, caches')" for u e
      using final url_validated(1) [OF assms(2) hop that] .
    ultimately show ?thesis using start by (auto simp: requests_admitted_def)
  qed
qed

text \<open>
  C3: However the network and the DNS change while a document is fetched: at most six
  requests are sent, each to an \<open>http\<close> or \<open>https\<close> address without credentials whose host is a public
  address or a name that the DNS resolved to public addresses, and to no other ones, less than six
  minutes before its check; a document is the JSON of a successful answer to the last request; and
  the caches stay such that this holds for the next fetch.
\<close>

theorem remote_fetch_guarded:
  assumes "in_order clock" "caches_sound lib net (ht_l1 (clock 0)) caches"
    and "fetch_remote_http_json lib from_json net clock url caches = (result, caches', requests)"
  shows "length requests \<le> 6 \<and> requests_admitted lib net clock requests \<and>
    map fst requests = [0..<length requests] \<and>
    caches_sound lib net (ht_send (clock 5)) caches' \<and>
    (\<forall>doc. result = Inr doc \<longrightarrow> document_of_last from_json net clock requests doc)"
  by (rule remote_fetch_document [OF assms])

text \<open>A server at a public address that redirects once.\<close>

definition sample_crate :: url_crate where
  "sample_crate =
    \<lparr>url_parse = (\<lambda>s. Inr \<lparr>pu_scheme = ''https'', pu_username = [], pu_password = None,
        pu_host_str = Some ''93.184.216.34'', pu_port = None, pu_path = s, pu_query = None,
        pu_fragment = None\<rparr>),
     url_join = (\<lambda>base s. Inr (base\<lparr>pu_path := s\<rparr>)),
     url_host = (\<lambda>_. Some (Host_Ipv4 (Ipv4 93 184 216 34))),
     url_as_str = pu_path, byte_serialize = (\<lambda>s. s)\<rparr>"

definition sample_network :: network where
  "sample_network =
    \<lparr>net_doh = (\<lambda>_ _. Inl ''unreachable''), net_kv = (\<lambda>_. False),
     net_http = (\<lambda>_ s. Inr (if s = ''/a''
       then \<lparr>hr_status = 302, hr_location = Some ''/b'', hr_content_type = None, hr_body = Inr []\<rparr>
       else \<lparr>hr_status = 200, hr_location = None, hr_content_type = None, hr_body = Inr ''null''\<rparr>))\<rparr>"

definition sample_clock :: "nat \<Rightarrow> hop_times" where
  "sample_clock i = \<lparr>ht_l1 = int i, ht_kv = int i, ht_dns = int i, ht_send = int i\<rparr>"

theorem remote_fetch_guarded_witness:
  "fetch_remote_http_json sample_crate (\<lambda>_. Inr JNull) sample_network sample_clock ''/a''
      \<lparr>dc_l1 = Map.empty, dc_kv = None\<rparr> =
    (Inr JNull, \<lparr>dc_l1 = Map.empty, dc_kv = None\<rparr>, [(0, ''/a''), (1, ''/b'')]) \<and>
   document_of_last (\<lambda>_. Inr JNull) sample_network sample_clock [(0, ''/a''), (1, ''/b'')] JNull"
proof -
  let ?caches = "\<lparr>dc_l1 = Map.empty, dc_kv = None\<rparr>"
  have ok: "\<not> is_blocked_ip_address (V4 (Ipv4 93 184 216 34))" by code_simp
  have trims: "trim ''/a'' = ''/a''" "trim ''/b'' = ''/b''" by code_simp+
  have run: "fetch_remote_http_json sample_crate (\<lambda>_. Inr JNull) sample_network sample_clock ''/a''
      ?caches = (Inr JNull, ?caches, [(0, ''/a''), (1, ''/b'')])"
    using ok
    by (simp add: fetch_remote_http_json_def parse_remote_http_url_def sample_crate_def trims
        validate_remote_fetch_url_def remote_url_policy_for_ip_def has_userinfo_def
        fetch_hops.simps [of _ _ _ _ _ 0] fetch_hops.simps [of _ _ _ _ _ "Suc 0"]
        MAX_REMOTE_FETCH_REDIRECTS_def sample_network_def Let_def
        resolve_remote_redirect_location_def parse_remote_http_json_response_def
        parse_remote_fetch_json_body_def)
  have "in_order sample_clock" by (simp add: in_order_def hop_in_order_def sample_clock_def)
  moreover have "caches_sound sample_crate sample_network (ht_l1 (sample_clock 0)) ?caches"
    by (simp add: caches_sound_def answers_from_def kv_entry_def)
  ultimately show ?thesis using remote_fetch_guarded [OF _ _ run] run by simp
qed

end
