(* ===== verification/Actor_Profile.thy ===== *)
theory Actor_Profile
  imports Remote_Fetch Actor_Authority Status_Html Account_Identity
begin

text \<open>
  Profiles of remote actors (\<open>federation/fetch.rs\<close>, \<open>store/remote/actor_profile_store.rs\<close> and the check
  of their addresses in \<open>federation/secure_fetch.rs\<close>): WebFinger, the document of an actor, what of
  it must belong to one authority, and the table the profile is kept in.
\<close>

section \<open>Profiles\<close>

record remote_actor_profile =
  rp_actor_uri :: string
  rp_username :: string
  rp_domain :: string
  rp_locked :: bool
  rp_bot :: bool
  rp_discoverable :: bool
  rp_indexable :: bool
  rp_inbox_uri :: string
  rp_shared_inbox_uri :: "string option"
  rp_public_key_id :: string
  rp_public_key_pem :: string
  rp_display_name :: string
  rp_summary_html :: string
  rp_profile_url :: "string option"
  rp_avatar_url :: "string option"
  rp_header_url :: "string option"

fun remote_actor_authority_error :: "remote_actor_authority_issue \<Rightarrow> string" where
  "remote_actor_authority_error InvalidActorUri = ''remote actor URI is missing a valid http(s) authority''"
| "remote_actor_authority_error InvalidRelatedUri =
     ''remote actor related URI is missing a valid http(s) authority''"
| "remote_actor_authority_error CrossAuthorityId =
     ''remote actor document id authority did not match fetched URI''"
| "remote_actor_authority_error CrossAuthorityInbox =
     ''remote actor inbox authority did not match actor URI''"
| "remote_actor_authority_error CrossAuthoritySharedInbox =
     ''remote actor sharedInbox authority did not match actor URI''"
| "remote_actor_authority_error CrossAuthorityPublicKey =
     ''remote actor publicKey.id authority did not match actor URI''"
| "remote_actor_authority_error PublicKeyOwnerMismatch =
     ''remote actor publicKey.owner did not match actor URI''"

definition ensure_remote_actor_endpoint_authorities ::
    "string \<Rightarrow> string \<Rightarrow> string option \<Rightarrow> string \<Rightarrow> string + unit" where
  "ensure_remote_actor_endpoint_authorities actor_uri inbox_uri shared_inbox_uri public_key_id =
    and_then (map_err remote_actor_authority_error
      (remote_actor_related_uri_authority_allowed actor_uri inbox_uri CrossAuthorityInbox)) (\<lambda>_.
    and_then (case shared_inbox_uri of
        None \<Rightarrow> Inr ()
      | Some shared \<Rightarrow> map_err remote_actor_authority_error
          (remote_actor_related_uri_authority_allowed actor_uri shared CrossAuthoritySharedInbox)) (\<lambda>_.
    map_err remote_actor_authority_error
      (remote_actor_related_uri_authority_allowed actor_uri public_key_id CrossAuthorityPublicKey)))"

definition ensure_remote_actor_username_matches_handle ::
    "remote_actor_profile \<Rightarrow> string \<Rightarrow> string + unit" where
  "ensure_remote_actor_username_matches_handle profile expected_username =
    (let expected = to_ascii_lowercase (trim expected_username) in
     if expected = [] then Inr ()
     else if rp_username profile \<noteq> expected
     then Inl ''remote actor preferredUsername did not match looked-up handle''
     else Inr ())"

definition remote_actor_canonical_uri :: "json \<Rightarrow> string \<Rightarrow> string" where
  "remote_actor_canonical_uri actor fallback_actor_uri =
    (case get_str actor ''id'' of Some uri \<Rightarrow> uri | None \<Rightarrow> fallback_actor_uri)"

definition remote_actor_username :: "json \<Rightarrow> parsed_url \<Rightarrow> string" where
  "remote_actor_username actor actor_url = to_ascii_lowercase
    (case get_str actor ''preferredUsername'' of
       Some name \<Rightarrow> name
     | None \<Rightarrow> (case pu_path_segments actor_url of Some segments \<Rightarrow> last segments | None \<Rightarrow> ''remote''))"

definition remote_actor_domain :: "parsed_url \<Rightarrow> string" where
  "remote_actor_domain actor_url =
    to_ascii_lowercase (case pu_host_str actor_url of Some host \<Rightarrow> host | None \<Rightarrow> [])"

definition remote_actor_shared_inbox_uri :: "json \<Rightarrow> string option" where
  "remote_actor_shared_inbox_uri actor =
    Option.bind (jget actor ''endpoints'') (\<lambda>e. get_str e ''sharedInbox'')"

definition remote_actor_optional_string :: "json \<Rightarrow> string \<Rightarrow> string" where
  "remote_actor_optional_string actor field =
    (case get_str actor field of Some s \<Rightarrow> s | None \<Rightarrow> [])"

definition sanitize_remote_actor_summary_html :: "string \<Rightarrow> string" where
  "sanitize_remote_actor_summary_html summary =
    (if trim summary = [] then [] else sanitize_remote_status_html summary)"

definition required_remote_actor_string :: "json \<Rightarrow> string \<Rightarrow> string \<Rightarrow> string + string" where
  "required_remote_actor_string actor field missing = ok_or (get_str actor field) missing"

definition required_remote_actor_nested_string ::
    "json \<Rightarrow> string \<Rightarrow> string \<Rightarrow> string \<Rightarrow> string + string" where
  "required_remote_actor_nested_string actor parent field missing =
    ok_or (Option.bind (jget actor parent) (\<lambda>v. get_str v field)) missing"

definition remote_actor_public_key :: "json \<Rightarrow> string + string \<times> string" where
  "remote_actor_public_key actor =
    and_then (required_remote_actor_nested_string actor ''publicKey'' ''id''
        ''remote actor document is missing publicKey.id'') (\<lambda>key_id.
    and_then (required_remote_actor_nested_string actor ''publicKey'' ''publicKeyPem''
        ''remote actor document is missing publicKey.publicKeyPem'') (\<lambda>pem.
    Inr (key_id, pem)))"

definition actor_type_is_bot :: "string \<Rightarrow> bool" where
  "actor_type_is_bot t \<longleftrightarrow> t = ''Application'' \<or> t = ''Service''"

definition remote_actor_type_is_bot :: "json option \<Rightarrow> bool" where
  "remote_actor_type_is_bot value' =
    (case value' of
       Some (JString t) \<Rightarrow> actor_type_is_bot t
     | Some (JArray vs) \<Rightarrow>
         list_ex (\<lambda>v. case as_str v of Some t \<Rightarrow> actor_type_is_bot t | None \<Rightarrow> False) vs
     | _ \<Rightarrow> False)"

definition get_bool :: "json \<Rightarrow> string \<Rightarrow> bool option" where
  "get_bool v key = Option.bind (jget v key) as_bool"

definition normalize_remote_media_url :: "url_crate \<Rightarrow> string \<Rightarrow> string option" where
  "normalize_remote_media_url lib url =
    (case parse_remote_http_url lib url of Inr u \<Rightarrow> Some (url_as_str lib u) | Inl _ \<Rightarrow> None)"

text \<open>\<open>media_url\<close> is \<open>extract_remote_profile_media_url\<close> of a value, the other two are its search in
  an array and in the members of an object.\<close>

fun media_url :: "url_crate \<Rightarrow> json \<Rightarrow> string option"
  and first_media_url :: "url_crate \<Rightarrow> json list \<Rightarrow> string option"
  and member_media_url :: "url_crate \<Rightarrow> string \<Rightarrow> (string \<times> json) list \<Rightarrow> string option" where
  "media_url lib (JString url) = normalize_remote_media_url lib url"
| "media_url lib (JArray vs) = first_media_url lib vs"
| "media_url lib (JObject ms) =
     opt_or (member_media_url lib ''url'' ms) (member_media_url lib ''href'' ms)"
| "media_url lib JNull = None"
| "media_url lib (JBool b) = None"
| "media_url lib (JNumber n) = None"
| "first_media_url lib [] = None"
| "first_media_url lib (v # vs) = opt_or (media_url lib v) (first_media_url lib vs)"
| "member_media_url lib key [] = None"
| "member_media_url lib key ((k, v) # ms) =
     (if k = key then media_url lib v else member_media_url lib key ms)"

definition extract_remote_profile_media_url :: "url_crate \<Rightarrow> json option \<Rightarrow> string option" where
  "extract_remote_profile_media_url lib v = Option.bind v (media_url lib)"

definition parse_remote_actor_profile_document ::
    "url_crate \<Rightarrow> json \<Rightarrow> string \<Rightarrow> string + remote_actor_profile" where
  "parse_remote_actor_profile_document lib actor fetched_actor_uri =
    (let canonical_actor_uri = remote_actor_canonical_uri actor fetched_actor_uri in
     and_then (map_err remote_actor_authority_error
       (remote_actor_id_authority_allowed fetched_actor_uri canonical_actor_uri)) (\<lambda>_.
     and_then (parse_remote_http_url lib canonical_actor_uri) (\<lambda>actor_url.
     and_then (remote_actor_public_key actor) (\<lambda>(public_key_id, public_key_pem).
     and_then (map_err remote_actor_authority_error
       (remote_actor_public_key_owner_allowed canonical_actor_uri
         (Option.bind (jget actor ''publicKey'') (\<lambda>v. get_str v ''owner'')))) (\<lambda>_.
     and_then (required_remote_actor_string actor ''inbox'' ''remote actor document is missing inbox'')
       (\<lambda>inbox_uri.
     let shared_inbox_uri = remote_actor_shared_inbox_uri actor in
     and_then (ensure_remote_actor_endpoint_authorities canonical_actor_uri inbox_uri
         shared_inbox_uri public_key_id) (\<lambda>_.
     Inr \<lparr>rp_actor_uri = canonical_actor_uri,
          rp_username = remote_actor_username actor actor_url,
          rp_domain = remote_actor_domain actor_url,
          rp_locked = get_bool actor ''manuallyApprovesFollowers'' = Some True,
          rp_bot = (case get_bool actor ''bot'' of
              Some b \<Rightarrow> b | None \<Rightarrow> remote_actor_type_is_bot (jget actor ''type'')),
          rp_discoverable = get_bool actor ''discoverable'' \<noteq> Some False,
          rp_indexable = get_bool actor ''indexable'' \<noteq> Some False,
          rp_inbox_uri = inbox_uri,
          rp_shared_inbox_uri = shared_inbox_uri,
          rp_public_key_id = public_key_id,
          rp_public_key_pem = public_key_pem,
          rp_display_name = remote_actor_optional_string actor ''name'',
          rp_summary_html =
            sanitize_remote_actor_summary_html (remote_actor_optional_string actor ''summary''),
          rp_profile_url = extract_remote_profile_media_url lib (jget actor ''url''),
          rp_avatar_url = extract_remote_profile_media_url lib (jget actor ''icon''),
          rp_header_url = extract_remote_profile_media_url lib (jget actor ''image'')\<rparr>)))))))"

section \<open>The addresses of a profile\<close>

text \<open>The set of addresses that have been checked is threaded; a host name is checked each time.\<close>

definition validate_remote_actor_profile_url ::
    "url_crate \<Rightarrow> network \<Rightarrow> hop_times \<Rightarrow> string \<Rightarrow> ip_addr list \<Rightarrow> dns_caches \<Rightarrow>
     (string + unit) \<times> ip_addr list \<times> dns_caches" where
  "validate_remote_actor_profile_url lib net ts raw_url validated caches =
    (case parse_remote_http_url lib raw_url of
       Inl e \<Rightarrow> (Inl e, validated, caches)
     | Inr parsed \<Rightarrow>
       if has_userinfo parsed then (Inl ''remote URL must not include user info'', validated, caches)
       else (case url_host lib parsed of
           None \<Rightarrow> (Inl ''remote URL must include host'', validated, caches)
         | Some (Host_Domain host0) \<Rightarrow>
             let host = to_ascii_lowercase (trim_end_matches host0 (CHR ''.'')) in
             if host = ''localhost'' \<or> ends_with host ''.localhost''
             then (Inl ''localhost is not allowed'', validated, caches)
             else (case validate_remote_fetch_url lib net ts parsed caches of
                 (r, caches) \<Rightarrow> (r, validated, caches))
         | Some (Host_Ipv4 v4) \<Rightarrow>
             if V4 v4 \<in> set validated then (Inr (), validated, caches)
             else (case validate_remote_fetch_url lib net ts parsed caches of
                 (r, caches) \<Rightarrow> (r, V4 v4 # validated, caches))
         | Some (Host_Ipv6 v6) \<Rightarrow>
             if V6 v6 \<in> set validated then (Inr (), validated, caches)
             else (case validate_remote_fetch_url lib net ts parsed caches of
                 (r, caches) \<Rightarrow> (r, V6 v6 # validated, caches))))"

fun validate_each_url ::
    "url_crate \<Rightarrow> network \<Rightarrow> (nat \<Rightarrow> hop_times) \<Rightarrow> nat \<Rightarrow> string list \<Rightarrow> ip_addr list \<Rightarrow> dns_caches \<Rightarrow>
     (string + unit) \<times> dns_caches" where
  "validate_each_url lib net clock i [] validated caches = (Inr (), caches)"
| "validate_each_url lib net clock i (url # urls) validated caches =
    (case validate_remote_actor_profile_url lib net (clock i) url validated caches of
       (Inl e, validated, caches) \<Rightarrow> (Inl e, caches)
     | (Inr _, validated, caches) \<Rightarrow> validate_each_url lib net clock (i + 1) urls validated caches)"

definition profile_urls :: "remote_actor_profile \<Rightarrow> string list" where
  "profile_urls profile =
    [rp_actor_uri profile, rp_inbox_uri profile] @
    (case rp_shared_inbox_uri profile of Some shared \<Rightarrow> [shared] | None \<Rightarrow> []) @
    [rp_public_key_id profile]"

definition validate_remote_actor_profile_urls ::
    "url_crate \<Rightarrow> network \<Rightarrow> (nat \<Rightarrow> hop_times) \<Rightarrow> remote_actor_profile \<Rightarrow> dns_caches \<Rightarrow>
     (string + unit) \<times> dns_caches" where
  "validate_remote_actor_profile_urls lib net clock profile caches =
    validate_each_url lib net clock 0 (profile_urls profile) [] caches"

section \<open>Fetching a profile\<close>

text \<open>The hops of the fetch come first, then those of the check of the addresses.\<close>

definition fetch_remote_actor_profile ::
    "url_crate \<Rightarrow> (string \<Rightarrow> string + json) \<Rightarrow> network \<Rightarrow> (nat \<Rightarrow> hop_times) \<Rightarrow> string \<Rightarrow> dns_caches \<Rightarrow>
     (string + remote_actor_profile) \<times> dns_caches \<times> (nat \<times> string) list" where
  "fetch_remote_actor_profile lib from_json net clock actor_uri caches =
    (case parse_remote_http_url lib actor_uri of
       Inl e \<Rightarrow> (Inl e, caches, [])
     | Inr actor_url \<Rightarrow>
       (case fetch_remote_http_json lib from_json net clock (url_as_str lib actor_url) caches of
          (Inl e, caches, requests) \<Rightarrow> (Inl e, caches, requests)
        | (Inr document, caches, requests) \<Rightarrow>
          (case parse_remote_actor_profile_document lib document actor_uri of
             Inl e \<Rightarrow> (Inl e, caches, requests)
           | Inr profile \<Rightarrow>
             (case validate_remote_actor_profile_urls lib net (\<lambda>i. clock (i + 6)) profile caches of
                (Inl e, caches) \<Rightarrow> (Inl e, caches, requests)
              | (Inr _, caches) \<Rightarrow> (Inr profile, caches, requests)))))"

definition self_link :: "bool \<Rightarrow> json \<Rightarrow> string option" where
  "self_link typed link =
    Option.bind (get_str link ''rel'') (\<lambda>rel. Option.bind (get_str link ''href'') (\<lambda>href.
      if rel = ''self'' \<and> (typed \<longrightarrow> webfinger_link_is_activitypub_type (get_str link ''type''))
      then Some href else None))"

definition select_webfinger_self_link :: "json list \<Rightarrow> string option" where
  "select_webfinger_self_link links =
    opt_or (find_map (self_link True) links) (find_map (self_link False) links)"

definition resolve_webfinger_actor_uri ::
    "url_crate \<Rightarrow> (string \<Rightarrow> string + json) \<Rightarrow> network \<Rightarrow> (nat \<Rightarrow> hop_times) \<Rightarrow> account_handle \<Rightarrow>
     dns_caches \<Rightarrow> (string + string) \<times> dns_caches \<times> (nat \<times> string) list" where
  "resolve_webfinger_actor_uri lib from_json net clock handle caches =
    (case ah_domain handle of
       None \<Rightarrow> (Inl ''remote handle is missing domain'', caches, [])
     | Some domain \<Rightarrow>
       let resource = ''acct:'' @ ah_username handle @ ''@'' @ domain;
           webfinger_url = ''https://'' @ domain @ ''/.well-known/webfinger?resource='' @
             byte_serialize lib resource
       in case parse_remote_http_url lib webfinger_url of
         Inl e \<Rightarrow> (Inl e, caches, [])
       | Inr url \<Rightarrow>
         (case fetch_remote_http_json lib from_json net clock (url_as_str lib url) caches of
            (Inl e, caches, requests) \<Rightarrow> (Inl e, caches, requests)
          | (Inr webfinger, caches, requests) \<Rightarrow>
            (case (case jget webfinger ''links'' of
                     Some (JArray links) \<Rightarrow> select_webfinger_self_link links | _ \<Rightarrow> None) of
               None \<Rightarrow> (Inl ''webfinger response did not include a self link'', caches, requests)
             | Some actor_uri \<Rightarrow>
               if remote_http_authority actor_uri = None
               then (Inl ''webfinger self link is not a valid http(s) URL'', caches, requests)
               else if \<not> remote_actor_uri_matches_acct_domain actor_uri domain
               then (Inl ''webfinger self link authority did not match account domain'', caches, requests)
               else (Inr actor_uri, caches, requests))))"

section \<open>The table of actors\<close>

text \<open>The rows of \<open>remote_actors\<close>; the address of an actor is their key.\<close>

type_synonym actor_table = "remote_actor_profile list"

definition find_cached_remote_actor_profile_by_actor_uri ::
    "actor_table \<Rightarrow> string \<Rightarrow> remote_actor_profile option" where
  "find_cached_remote_actor_profile_by_actor_uri rows actor_uri =
    find (\<lambda>r. rp_actor_uri r = actor_uri) rows"

definition upsert_remote_actor :: "remote_actor_profile \<Rightarrow> actor_table \<Rightarrow> actor_table" where
  "upsert_remote_actor actor rows =
    (let username = to_ascii_lowercase (rp_username actor);
         domain = to_ascii_lowercase (rp_domain actor);
         rows = filter (\<lambda>r. \<not> (to_ascii_lowercase (rp_username r) = username \<and>
           to_ascii_lowercase (rp_domain r) = domain \<and> rp_actor_uri r \<noteq> rp_actor_uri actor)) rows
     in if list_ex (\<lambda>r. rp_actor_uri r = rp_actor_uri actor) rows
        then map (\<lambda>r. if rp_actor_uri r = rp_actor_uri actor then actor else r) rows
        else rows @ [actor])"

lemma upsert_remote_actor_finds:
  "find_cached_remote_actor_profile_by_actor_uri (upsert_remote_actor actor rows) (rp_actor_uri actor) =
    Some actor"
proof -
  have map: "find (\<lambda>r. rp_actor_uri r = rp_actor_uri actor)
      (map (\<lambda>r. if rp_actor_uri r = rp_actor_uri actor then actor else r) xs) = Some actor"
    if "list_ex (\<lambda>r. rp_actor_uri r = rp_actor_uri actor) xs" for xs
    using that by (induction xs) auto
  have append: "find (\<lambda>r. rp_actor_uri r = rp_actor_uri actor) (xs @ [actor]) = Some actor"
    if "\<not> list_ex (\<lambda>r. rp_actor_uri r = rp_actor_uri actor) xs" for xs
    using that by (induction xs) auto
  show ?thesis
    by (auto simp: find_cached_remote_actor_profile_by_actor_uri_def upsert_remote_actor_def Let_def
        intro: map append)
qed

lemma upsert_remote_actor_others:
  assumes "find_cached_remote_actor_profile_by_actor_uri (upsert_remote_actor actor rows) uri = Some r"
    and "uri \<noteq> rp_actor_uri actor"
  shows "r \<in> set rows" and "rp_actor_uri r = uri"
proof -
  have "r \<in> set (upsert_remote_actor actor rows)" and uri: "rp_actor_uri r = uri"
    using assms(1) by (auto simp: find_cached_remote_actor_profile_by_actor_uri_def find_Some_iff)
  then show "r \<in> set rows" "rp_actor_uri r = uri"
    using assms(2) by (auto simp: upsert_remote_actor_def Let_def split: if_splits)
qed

section \<open>What a profile is checked for\<close>

text \<open>The addresses of the profile belong to the authority of the address that was looked up.\<close>

definition profile_of_authority :: "string \<Rightarrow> remote_actor_profile \<Rightarrow> bool" where
  "profile_of_authority authority profile \<longleftrightarrow>
    (\<forall>url \<in> set (profile_urls profile). remote_http_authority url = Some authority)"

lemma owner_unit: "map_err g (remote_actor_public_key_owner_allowed a x) = Inr () \<longleftrightarrow>
    remote_actor_public_key_owner_allowed a x = Inr ()"
  by simp

lemma endpoint_authorities_ok:
  assumes "ensure_remote_actor_endpoint_authorities a inbox shared key = Inr ()"
  shows "remote_http_authorities_match a inbox" "remote_http_authorities_match a key"
    "shared = Some s \<Longrightarrow> remote_http_authorities_match a s"
  using assms
  by (auto simp: ensure_remote_actor_endpoint_authorities_def and_then_unit related_authority_ok
      split: option.splits)

lemma summary_safe: "markup_safe (sanitize_remote_actor_summary_html s)"
  using render_safe
  by (simp add: sanitize_remote_actor_summary_html_def sanitize_remote_status_html_def Let_def)

lemma parsed_profile:
  assumes "parse_remote_actor_profile_document lib document uri = Inr profile"
  shows "\<exists>authority. remote_http_authority uri = Some authority \<and> profile_of_authority authority profile"
    and "rp_actor_uri profile = remote_actor_canonical_uri document uri"
    and "remote_actor_public_key document = Inr (rp_public_key_id profile, rp_public_key_pem profile)"
    and "remote_actor_public_key_owner_allowed (rp_actor_uri profile)
      (Option.bind (jget document ''publicKey'') (\<lambda>v. get_str v ''owner'')) = Inr ()"
    and "markup_safe (rp_summary_html profile)"
proof -
  let ?id = "remote_actor_canonical_uri document uri"
  from assms obtain url key pem inbox where steps:
    "remote_actor_id_authority_allowed uri ?id = Inr ()"
    "remote_actor_public_key document = Inr (key, pem)"
    "remote_actor_public_key_owner_allowed ?id
      (Option.bind (jget document ''publicKey'') (\<lambda>v. get_str v ''owner'')) = Inr ()"
    "ensure_remote_actor_endpoint_authorities ?id inbox (remote_actor_shared_inbox_uri document) key = Inr ()"
    and profile: "rp_actor_uri profile = ?id" "rp_inbox_uri profile = inbox"
      "rp_shared_inbox_uri profile = remote_actor_shared_inbox_uri document"
      "rp_public_key_id profile = key" "rp_public_key_pem profile = pem"
      "rp_summary_html profile =
        sanitize_remote_actor_summary_html (remote_actor_optional_string document ''summary'')"
    by (auto simp: parse_remote_actor_profile_document_def Let_def and_then_Inr)
  then show "rp_actor_uri profile = ?id"
    "remote_actor_public_key document = Inr (rp_public_key_id profile, rp_public_key_pem profile)"
    "remote_actor_public_key_owner_allowed (rp_actor_uri profile)
      (Option.bind (jget document ''publicKey'') (\<lambda>v. get_str v ''owner'')) = Inr ()"
    "markup_safe (rp_summary_html profile)"
    by (simp_all add: summary_safe)
  obtain authority where authority: "remote_http_authority uri = Some authority"
    "remote_http_authority ?id = Some authority"
    using steps(1) by (cases "remote_http_authority ?id") (auto simp: id_authority_ok authorities_match_iff)
  moreover have "remote_http_authority inbox = Some authority" "remote_http_authority key = Some authority"
    "remote_actor_shared_inbox_uri document = Some s \<Longrightarrow> remote_http_authority s = Some authority" for s
    using endpoint_authorities_ok [OF steps(4)] authority(2) by (simp_all add: authorities_match_iff)
  ultimately show "\<exists>authority. remote_http_authority uri = Some authority \<and>
      profile_of_authority authority profile"
    using profile by (auto simp: profile_of_authority_def profile_urls_def split: option.splits)
qed

lemma profile_url_validated:
  assumes sound: "caches_sound lib net (ht_l1 ts) c" and order: "hop_in_order ts"
    and unblocked: "\<forall>ip \<in> set ips. \<not> is_blocked_ip_address ip"
    and run: "validate_remote_actor_profile_url lib net ts url ips c = (r, ips', c')"
  shows "caches_sound lib net (ht_dns ts) c'"
    and "r = Inr () \<Longrightarrow> (\<forall>ip \<in> set ips'. \<not> is_blocked_ip_address ip) \<and>
      (\<exists>u. parse_remote_http_url lib url = Inr u \<and> admitted lib net ts u)"
proof -
  have later: "caches_sound lib net (ht_dns ts) c"
    using caches_sound_later [OF sound] order by (simp add: hop_in_order_def)
  note checked = url_validated [OF sound order]
  have "caches_sound lib net (ht_dns ts) c' \<and>
    (r = Inr () \<longrightarrow> (\<forall>ip \<in> set ips'. \<not> is_blocked_ip_address ip) \<and>
      (\<exists>u. parse_remote_http_url lib url = Inr u \<and> admitted lib net ts u))"
  proof (cases "parse_remote_http_url lib url")
    case (Inl e)
    then show ?thesis using run later by (auto simp: validate_remote_actor_profile_url_def)
  next
    case (Inr u)
    have scheme: "pu_scheme u \<in> {''http'', ''https''}"
      using Inr by (auto simp: parse_remote_http_url_def and_then_Inr split: if_splits)
    obtain q d where q: "validate_remote_fetch_url lib net ts u c = (q, d)" by force
    note fetched = checked(1) [OF q] checked(2) [OF q]
    show ?thesis
    proof (cases "r = q \<and> c' = d")
      case True
      then show ?thesis
        using run Inr later fetched unblocked scheme q
        by (auto simp: validate_remote_actor_profile_url_def Let_def admitted_def
            split: if_splits option.splits url_host.splits)
    next
      case False
      then show ?thesis
        using run Inr later unblocked scheme q
        by (auto simp: validate_remote_actor_profile_url_def Let_def admitted_def
            split: if_splits option.splits url_host.splits)
    qed
  qed
  then show "caches_sound lib net (ht_dns ts) c'"
    and "r = Inr () \<Longrightarrow> (\<forall>ip \<in> set ips'. \<not> is_blocked_ip_address ip) \<and>
      (\<exists>u. parse_remote_http_url lib url = Inr u \<and> admitted lib net ts u)"
    by blast+
qed

lemma in_order_shift: "in_order clock \<Longrightarrow> in_order (\<lambda>i. clock (i + k))"
  unfolding in_order_def by (metis add.assoc add.commute)

lemma each_url_validated:
  assumes "in_order clock"
  shows "caches_sound lib net (ht_l1 (clock i)) c \<Longrightarrow> \<forall>ip \<in> set ips. \<not> is_blocked_ip_address ip \<Longrightarrow>
    validate_each_url lib net clock i urls ips c = (r, c') \<Longrightarrow>
    caches_sound lib net (ht_l1 (clock (i + length urls))) c' \<and>
    (r = Inr () \<longrightarrow> (\<forall>url \<in> set urls. \<exists>u j. parse_remote_http_url lib url = Inr u \<and>
      admitted lib net (clock j) u))"
proof (induction urls arbitrary: i ips c)
  case (Cons url urls)
  obtain q ips' d where q: "validate_remote_actor_profile_url lib net (clock i) url ips c = (q, ips', d)"
    by (metis prod_cases3)
  have hop: "hop_in_order (clock i)" "ht_send (clock i) \<le> ht_l1 (clock (i + 1))"
    using assms by (simp_all add: in_order_def)
  note step = profile_url_validated [OF Cons.prems(1) hop(1) Cons.prems(2) q]
  have sound: "caches_sound lib net (ht_l1 (clock (i + 1))) d"
    using caches_sound_later [OF step(1)] hop by (simp add: hop_in_order_def)
  have mono: "ht_l1 (clock (i + 1)) \<le> ht_l1 (clock (i + 1 + n))" for n
  proof (induction n)
    case (Suc n)
    have "hop_in_order (clock (i + 1 + n))" "ht_send (clock (i + 1 + n)) \<le> ht_l1 (clock (i + 1 + n + 1))"
      using assms by (simp_all add: in_order_def)
    then show ?case using Suc by (simp add: hop_in_order_def)
  qed simp
  show ?case
  proof (cases q)
    case (Inl e)
    then show ?thesis
      using Cons.prems(3) q caches_sound_later [OF sound mono [of "length urls"]] by auto
  next
    case (Inr x)
    then show ?thesis
      using Cons.IH [OF sound] step(2) Cons.prems(3) q by auto
  qed
qed simp

section \<open>Properties\<close>

lemma fetched_profile_facts:
  assumes "in_order clock" "caches_sound lib net (ht_l1 (clock 0)) caches"
    and "fetch_remote_actor_profile lib from_json net clock actor_uri caches =
      (Inr profile, caches', requests)"
  shows "(\<exists>authority. remote_http_authority actor_uri = Some authority \<and>
      profile_of_authority authority profile) \<and>
    markup_safe (rp_summary_html profile) \<and>
    (\<forall>url \<in> set (profile_urls profile). \<exists>u i. parse_remote_http_url lib url = Inr u \<and>
      admitted lib net (clock i) u) \<and>
    length requests \<le> 6 \<and> requests_admitted lib net clock requests \<and>
    (\<exists>document. document_of_last from_json net clock requests document \<and>
      rp_actor_uri profile = remote_actor_canonical_uri document actor_uri \<and>
      remote_actor_public_key document = Inr (rp_public_key_id profile, rp_public_key_pem profile) \<and>
      remote_actor_public_key_owner_allowed (rp_actor_uri profile)
        (Option.bind (jget document ''publicKey'') (\<lambda>v. get_str v ''owner'')) = Inr ())"
proof -
  from assms(3) obtain url document d where steps:
    "fetch_remote_http_json lib from_json net clock url caches = (Inr document, d, requests)"
    "parse_remote_actor_profile_document lib document actor_uri = Inr profile"
    "validate_remote_actor_profile_urls lib net (\<lambda>i. clock (i + 6)) profile d = (Inr (), caches')"
    by (auto simp: fetch_remote_actor_profile_def split: sum.splits prod.splits)
  note guarded = remote_fetch_document [OF assms(1,2) steps(1)]
  have "hop_in_order (clock 6)" "ht_send (clock 5) \<le> ht_l1 (clock 6)"
    using assms(1) unfolding in_order_def by (auto dest: spec [of _ 6] spec [of _ 5])
  then have "caches_sound lib net (ht_l1 (clock 6)) d"
    using guarded caches_sound_later by blast
  moreover have "in_order (\<lambda>i. clock (i + 6))"
    using in_order_shift [OF assms(1)] .
  ultimately have "\<forall>url \<in> set (profile_urls profile). \<exists>u i. parse_remote_http_url lib url = Inr u \<and>
      admitted lib net (clock i) u"
    using each_url_validated [of "\<lambda>i. clock (i + 6)" lib net 0 d "[]"] steps(3)
    unfolding validate_remote_actor_profile_urls_def by fastforce
  then show ?thesis using parsed_profile [OF steps(2)] guarded by blast
qed

text \<open>
  C14: The profile that a fetch yields has its inboxes, its key and its address under the one
  authority of the address that was looked up, its key belongs to it, its summary is safe; each of
  these addresses has been admitted as the target of later requests, and so has each request that
  was sent for it.
\<close>

theorem fetched_profile_bound:
  assumes "in_order clock" "caches_sound lib net (ht_l1 (clock 0)) caches"
    and "fetch_remote_actor_profile lib from_json net clock actor_uri caches =
      (Inr profile, caches', requests)"
  shows "(\<exists>authority. remote_http_authority actor_uri = Some authority \<and>
      profile_of_authority authority profile) \<and>
    markup_safe (rp_summary_html profile) \<and>
    (\<forall>url \<in> set (profile_urls profile). \<exists>u i. parse_remote_http_url lib url = Inr u \<and>
      admitted lib net (clock i) u) \<and>
    length requests \<le> 6 \<and> requests_admitted lib net clock requests \<and>
    (\<exists>document. document_of_last from_json net clock requests document \<and>
      rp_actor_uri profile = remote_actor_canonical_uri document actor_uri \<and>
      remote_actor_public_key document = Inr (rp_public_key_id profile, rp_public_key_pem profile) \<and>
      remote_actor_public_key_owner_allowed (rp_actor_uri profile)
        (Option.bind (jget document ''publicKey'') (\<lambda>v. get_str v ''owner'')) = Inr ())"
  by (rule fetched_profile_facts [OF assms])

text \<open>A document at another server, reached by a redirect of the server whose actor it names.\<close>

definition foreign_document :: json where
  "foreign_document = JObject
    [(''id'', JString ''https://a.example/users/bob''),
     (''inbox'', JString ''https://a.example/inbox''),
     (''preferredUsername'', JString ''bob''),
     (''publicKey'', JObject
       [(''id'', JString ''https://a.example/r?to=b#k''), (''publicKeyPem'', JString ''key of b'')])]"

definition redirecting_network :: network where
  "redirecting_network =
    \<lparr>net_doh = (\<lambda>_ _. Inl ''unreachable''), net_kv = (\<lambda>_. False),
     net_http = (\<lambda>_ s. Inr (if s = ''https://a.example/r?to=b''
       then \<lparr>hr_status = 302, hr_location = Some ''https://b.example/'', hr_content_type = None,
             hr_body = Inr []\<rparr>
       else \<lparr>hr_status = 200, hr_location = None, hr_content_type = None, hr_body = Inr ''document''\<rparr>))\<rparr>"

definition foreign_profile :: remote_actor_profile where
  "foreign_profile =
    \<lparr>rp_actor_uri = ''https://a.example/users/bob'', rp_username = ''bob'', rp_domain = ''93.184.216.34'',
     rp_locked = False, rp_bot = False, rp_discoverable = True, rp_indexable = True,
     rp_inbox_uri = ''https://a.example/inbox'', rp_shared_inbox_uri = None,
     rp_public_key_id = ''https://a.example/r?to=b#k'', rp_public_key_pem = ''key of b'',
     rp_display_name = [], rp_summary_html = [], rp_profile_url = None, rp_avatar_url = None,
     rp_header_url = None\<rparr>"

text \<open>
  The document that is accepted for an actor can come from any server: only the address that was
  looked up is compared, not the one the document was fetched from. Whoever finds a redirect on a
  server that leads away from it can sign for each actor of the server.
\<close>

lemma profile_behind_redirect:
  "let r = fetch_remote_actor_profile sample_crate (\<lambda>_. Inr foreign_document) redirecting_network
      sample_clock ''https://a.example/r?to=b'' \<lparr>dc_l1 = Map.empty, dc_kv = None\<rparr>
   in fst r = Inr foreign_profile \<and>
      snd (snd r) = [(0, ''https://a.example/r?to=b''), (1, ''https://b.example/'')]"
  by code_simp

theorem fetched_profile_bound_witness:
  "profile_of_authority ''a.example'' foreign_profile \<and>
   (\<exists>caches requests. requests_admitted sample_crate redirecting_network sample_clock requests)"
proof -
  let ?caches = "\<lparr>dc_l1 = Map.empty, dc_kv = None\<rparr>"
  obtain caches' requests where run: "fetch_remote_actor_profile sample_crate (\<lambda>_. Inr foreign_document)
      redirecting_network sample_clock ''https://a.example/r?to=b'' ?caches =
      (Inr foreign_profile, caches', requests)"
    using profile_behind_redirect by (metis prod.collapse)
  have "in_order sample_clock" by (simp add: in_order_def hop_in_order_def sample_clock_def)
  moreover have "caches_sound sample_crate redirecting_network (ht_l1 (sample_clock 0)) ?caches"
    by (simp add: caches_sound_def answers_from_def kv_entry_def)
  moreover have "remote_http_authority ''https://a.example/r?to=b'' = Some ''a.example''" by code_simp
  ultimately show ?thesis using fetched_profile_bound [OF _ _ run] by auto
qed

end
