(* ===== verification/Identity.thy ===== *)
theory Identity
  imports Account_Identity Text_Ops
begin

text \<open>
  Addresses of the instance and of its accounts (\<open>identity.rs\<close>, \<open>activitypub/local_uri.rs\<close>): the
  host and the base of the configured domain, what WebFinger and a lookup ask for, and which local
  account or status an address stands for. The \<open>url\<close> crate and \<open>urlencoding::decode\<close> are arguments.
\<close>

section \<open>The configured domain\<close>

record app_config =
  ac_instance_domain :: string
  ac_media_public_base_url :: "string option"

definition HTTPS :: string where "HTTPS = ''https://''"
definition HTTP :: string where "HTTP = ''http://''"

definition normalize_instance_domain :: "string \<Rightarrow> string" where
  "normalize_instance_domain v =
    split_first (trim_end_matches (trim_start_matches (trim_start_matches (trim v) HTTPS) HTTP)
      (CHR ''/'')) (CHR ''/'')"

definition instance_host :: "app_config \<Rightarrow> string" where
  "instance_host config = normalize_instance_domain (ac_instance_domain config)"

definition instance_base_url :: "app_config \<Rightarrow> string" where
  "instance_base_url config =
    (let domain = trim_end_matches (trim (ac_instance_domain config)) (CHR ''/'') in
     if starts_with domain HTTPS \<or> starts_with domain HTTP then domain
     else HTTPS @ instance_host config)"

definition actor_url :: "app_config \<Rightarrow> string \<Rightarrow> string" where
  "actor_url config username = instance_base_url config @ ''/users/'' @ username"

definition account_profile_page_url :: "app_config \<Rightarrow> string \<Rightarrow> string" where
  "account_profile_page_url config username = instance_base_url config @ ''/@'' @ username"

definition authorize_interaction_subscribe_template :: "app_config \<Rightarrow> string" where
  "authorize_interaction_subscribe_template config =
    instance_base_url config @ ''/authorize_interaction?uri={uri}''"

definition authorize_interaction_object_template :: "app_config \<Rightarrow> string" where
  "authorize_interaction_object_template config =
    instance_base_url config @ ''/authorize_interaction?uri={object}''"

definition share_create_template :: "app_config \<Rightarrow> string" where
  "share_create_template config = instance_base_url config @ ''/share?text={content}''"

definition account_webfinger_acct :: "app_config \<Rightarrow> string \<Rightarrow> string" where
  "account_webfinger_acct config username = username @ ''@'' @ instance_host config"

definition webfinger_lrdd_template :: "app_config \<Rightarrow> string" where
  "webfinger_lrdd_template config =
    instance_base_url config @ ''/.well-known/webfinger?resource={uri}''"

definition public_key_id :: "app_config \<Rightarrow> string \<Rightarrow> string" where
  "public_key_id config username = actor_url config username @ ''#main-key''"

definition shared_inbox_url :: "app_config \<Rightarrow> string" where
  "shared_inbox_url config = instance_base_url config @ ''/inbox''"

definition tag_url :: "app_config \<Rightarrow> string \<Rightarrow> string" where
  "tag_url config name = instance_base_url config @ ''/tags/'' @ name"

text \<open>Remote accounts are named to clients by their address in \<open>base64\<close>, an argument.\<close>

definition remote_account_rest_id :: "(string \<Rightarrow> string) \<Rightarrow> string \<Rightarrow> string" where
  "remote_account_rest_id encode actor_uri = ''r_'' @ encode actor_uri"

definition remote_actor_uri_from_rest_id :: "(string \<Rightarrow> string option) \<Rightarrow> string \<Rightarrow> string option" where
  "remote_actor_uri_from_rest_id decode account_id =
    Option.bind (strip_prefix account_id ''r_'') decode"

section \<open>WebFinger and lookups\<close>

datatype identity_error =
    EmptyResource
  | UnknownResource
  | NotUserAtDomain
  | MissingUserOrDomain
  | InvalidHost
  | InvalidUrl
  | NotHttpUrl
  | MissingHost
  | NotAnActorPath
  | EmptyAcct

definition is_ascii_hexdigit :: "char \<Rightarrow> bool" where
  "is_ascii_hexdigit c \<longleftrightarrow> is_ascii_digit c \<or> ascii_lower c \<in> set ''abcdef''"

fun contains_percent_escape :: "string \<Rightarrow> bool" where
  "contains_percent_escape (a # b # c # s) \<longleftrightarrow>
    (a = CHR ''%'' \<and> is_ascii_hexdigit b \<and> is_ascii_hexdigit c) \<or>
    contains_percent_escape (b # c # s)"
| "contains_percent_escape _ \<longleftrightarrow> False"

definition maybe_percent_decode_acct :: "(string \<Rightarrow> string option) \<Rightarrow> string \<Rightarrow> string" where
  "maybe_percent_decode_acct decode v =
    (if \<not> contains_percent_escape v then v else unwrap_or (decode v) v)"

definition normalize_acct_host ::
    "(string \<Rightarrow> parsed_url option) \<Rightarrow> string \<Rightarrow> identity_error + string" where
  "normalize_acct_host parse_url host =
    (let host = to_ascii_lowercase (trim_end_matches (trim host) (CHR ''.'')) in
     if host = [] then Inl MissingUserOrDomain
     else case parse_url (HTTPS @ host) of
         None \<Rightarrow> Inl InvalidHost
       | Some parsed \<Rightarrow>
           ok_or (opt_filter (\<lambda>v. v \<noteq> []) (map_option (\<lambda>v.
               to_ascii_lowercase (trim_end_matches v (CHR ''.''))) (pu_host_str parsed))) InvalidHost)"

definition parse_acct_handle ::
    "(string \<Rightarrow> parsed_url option) \<Rightarrow> (string \<Rightarrow> string option) \<Rightarrow> string \<Rightarrow>
     identity_error + account_handle" where
  "parse_acct_handle parse_url decode acct =
    (case split_once (maybe_percent_decode_acct decode acct) (CHR ''@'') of
       None \<Rightarrow> Inl NotUserAtDomain
     | Some (username, domain) \<Rightarrow>
         let username = to_ascii_lowercase (trim_start_matches (trim username) ''@'') in
         and_then (normalize_acct_host parse_url domain) (\<lambda>domain.
           if username = [] then Inl MissingUserOrDomain
           else Inr \<lparr>ah_username = username, ah_domain = Some domain\<rparr>))"

text \<open>A path with empty segments left out: \<open>/users/name\<close> or \<open>/@name\<close>.\<close>

definition actor_path_username :: "string list \<Rightarrow> string option" where
  "actor_path_username segments =
    (case filter (\<lambda>s. s \<noteq> []) segments of
       [users, username] \<Rightarrow> if users = ''users'' then Some (to_ascii_lowercase username) else None
     | [segment] \<Rightarrow> map_option to_ascii_lowercase
         (opt_filter (\<lambda>username. username \<noteq> []) (strip_prefix segment ''@''))
     | _ \<Rightarrow> None)"

definition parse_webfinger_actor_url ::
    "(string \<Rightarrow> parsed_url option) \<Rightarrow> string \<Rightarrow> identity_error + account_handle" where
  "parse_webfinger_actor_url parse_url resource =
    (case parse_url resource of
       None \<Rightarrow> Inl InvalidUrl
     | Some parsed \<Rightarrow>
         if pu_scheme parsed \<notin> {''http'', ''https''} then Inl NotHttpUrl
         else and_then (and_then (ok_or (pu_host_str parsed) MissingHost)
             (normalize_acct_host parse_url)) (\<lambda>domain.
           and_then (ok_or (pu_path_segments parsed) NotAnActorPath) (\<lambda>segments.
             case actor_path_username segments of
               None \<Rightarrow> Inl NotAnActorPath
             | Some username \<Rightarrow> Inr \<lparr>ah_username = username, ah_domain = Some domain\<rparr>)))"

definition has_acct_prefix :: "string \<Rightarrow> bool" where
  "has_acct_prefix v \<longleftrightarrow> length v \<ge> 5 \<and> eq_ignore_ascii_case (take 5 v) ''acct:''"

definition parse_webfinger_resource ::
    "(string \<Rightarrow> parsed_url option) \<Rightarrow> (string \<Rightarrow> string option) \<Rightarrow> string \<Rightarrow>
     identity_error + account_handle" where
  "parse_webfinger_resource parse_url decode resource =
    (let resource = trim resource in
     if resource = [] then Inl EmptyResource
     else if has_acct_prefix resource then parse_acct_handle parse_url decode (drop 5 resource)
     else if starts_with resource HTTP \<or> starts_with resource HTTPS
     then parse_webfinger_actor_url parse_url resource
     else if CHR ''@'' \<in> set resource
     then parse_acct_handle parse_url decode (trim_start_matches resource ''@'')
     else Inl UnknownResource)"

definition parse_lookup_handle ::
    "(string \<Rightarrow> parsed_url option) \<Rightarrow> (string \<Rightarrow> string option) \<Rightarrow> string \<Rightarrow> app_config \<Rightarrow>
     identity_error + account_handle" where
  "parse_lookup_handle parse_url decode v config =
    (let v = trim v in
     if v = [] then Inl EmptyAcct
     else if has_acct_prefix v then parse_webfinger_resource parse_url decode v
     else if CHR ''@'' \<in> set v then parse_acct_handle parse_url decode (trim_start_matches v ''@'')
     else Inr \<lparr>ah_username = to_ascii_lowercase (trim v), ah_domain = Some (instance_host config)\<rparr>)"

definition split_configured_scheme :: "string \<Rightarrow> string \<times> string" where
  "split_configured_scheme trimmed =
    (case strip_prefix trimmed HTTPS of
       Some rest \<Rightarrow> (HTTPS, rest)
     | None \<Rightarrow> (case strip_prefix trimmed HTTP of Some rest \<Rightarrow> (HTTP, rest) | None \<Rightarrow> ([], trimmed)))"

definition normalize_configured_instance_domain ::
    "(string \<Rightarrow> parsed_url option) \<Rightarrow> string \<Rightarrow> string" where
  "normalize_configured_instance_domain parse_url v =
    (let trimmed = trim v; (scheme, rest) = split_configured_scheme trimmed;
         host = split_first rest (CHR ''/''); path = drop (length host) rest
     in case normalize_acct_host parse_url host of
          Inr host \<Rightarrow> scheme @ host @ path
        | Inl _ \<Rightarrow> trimmed)"

section \<open>Local addresses\<close>

definition is_local_host :: "app_config \<Rightarrow> parsed_url \<Rightarrow> bool" where
  "is_local_host config parsed \<longleftrightarrow>
    (case pu_host_str parsed of
       None \<Rightarrow> False
     | Some host \<Rightarrow> to_ascii_lowercase (trim_end_matches host (CHR ''.'')) = instance_host config)"

definition local_username_from_actor_uri ::
    "(string \<Rightarrow> parsed_url option) \<Rightarrow> app_config \<Rightarrow> string \<Rightarrow> string option" where
  "local_username_from_actor_uri parse_url config actor_uri =
    Option.bind (opt_filter (is_local_host config) (parse_url actor_uri)) (\<lambda>parsed.
      Option.bind (pu_path_segments parsed) actor_path_username)"

definition at_username :: "string \<Rightarrow> string option" where
  "at_username segment =
    (case strip_prefix segment ''@'' of
       None \<Rightarrow> None
     | Some username \<Rightarrow>
         if username = [] then None
         else Some (to_ascii_lowercase (trim_start_matches segment ''@'')))"

definition status_path_identity :: "string list \<Rightarrow> (string \<times> string) option" where
  "status_path_identity segments =
    (case filter (\<lambda>s. s \<noteq> []) segments of
       [users, username, statuses, status_id] \<Rightarrow>
         if users = ''users'' \<and> statuses = ''statuses''
         then Some (to_ascii_lowercase username, status_id) else None
     | [segment, status_id] \<Rightarrow> map_option (\<lambda>username. (username, status_id)) (at_username segment)
     | [segment, statuses, status_id] \<Rightarrow>
         if statuses = ''statuses''
         then map_option (\<lambda>username. (username, status_id)) (at_username segment) else None
     | _ \<Rightarrow> None)"

definition local_status_identity_from_uri ::
    "(string \<Rightarrow> parsed_url option) \<Rightarrow> app_config \<Rightarrow> string \<Rightarrow> (string \<times> string) option" where
  "local_status_identity_from_uri parse_url config uri =
    Option.bind (opt_filter (is_local_host config) (parse_url uri)) (\<lambda>parsed.
      Option.bind (pu_path_segments parsed) status_path_identity)"

definition local_username_from_status_uri ::
    "(string \<Rightarrow> parsed_url option) \<Rightarrow> app_config \<Rightarrow> string \<Rightarrow> string option" where
  "local_username_from_status_uri parse_url config uri =
    map_option fst (local_status_identity_from_uri parse_url config uri)"

section \<open>Properties\<close>

definition handle_char :: "char \<Rightarrow> bool" where
  "handle_char c \<longleftrightarrow> is_ascii_alphanumeric c \<or> c \<in> {CHR ''_'', CHR ''.'', CHR ''-''}"

lemma handle_char_plain: "handle_char c \<Longrightarrow> plain_byte c"
  by (auto simp: handle_char_def alphanumeric_plain) (simp_all add: plain_byte_def)

lemma handle_char_not [simp]:
  "\<not> handle_char (CHR ''@'')" "\<not> handle_char (CHR ''%'')" "\<not> handle_char (CHR '':'')"
  "\<not> handle_char (CHR ''/'')"
  by (simp_all add: handle_char_def is_ascii_alphanumeric_def is_ascii_uppercase_def
      is_ascii_lowercase_def is_ascii_digit_def)

lemma handle_free:
  assumes "list_all handle_char s"
  shows "CHR ''@'' \<notin> set s" "CHR ''%'' \<notin> set s" "CHR '':'' \<notin> set s" "CHR ''/'' \<notin> set s"
  using assms handle_char_not by (auto simp: list_all_iff)

lemma no_escape: "CHR ''%'' \<notin> set s \<Longrightarrow> \<not> contains_percent_escape s"
  by (induction s rule: contains_percent_escape.induct) auto

lemma starts_with_free: "c \<in> set p \<Longrightarrow> c \<notin> set s \<Longrightarrow> \<not> starts_with s p"
  by (auto simp: starts_with_iff)

lemma trim_start_at: "trim_start_matches (CHR ''@'' # s) ''@'' = trim_start_matches s ''@''"
  by (subst trim_start_matches.simps) simp

lemma trim_start_free: "c \<notin> set s \<Longrightarrow> trim_start_matches s [c] = s"
  by (subst trim_start_matches.simps) (cases s; auto)

lemma trim_start_user:
  "u \<noteq> [] \<Longrightarrow> c \<notin> set u \<Longrightarrow> trim_start_matches (u @ s) [c] = u @ s"
  by (subst trim_start_matches.simps) (cases u; auto)

lemma parse_acct_plain:
  assumes "u \<noteq> []" "list_all handle_char (u @ d)"
  shows "parse_acct_handle parse_url decode (u @ CHR ''@'' # d) =
    and_then (normalize_acct_host parse_url d)
      (\<lambda>domain. Inr \<lparr>ah_username = to_ascii_lowercase u, ah_domain = Some domain\<rparr>)"
proof -
  have free: "CHR ''@'' \<notin> set u" "CHR ''%'' \<notin> set (u @ CHR ''@'' # d)"
    using handle_free [OF assms(2)] by auto
  have "trim u = u"
    using assms(2) handle_char_plain by (intro trim_id_plain) (auto simp: list_all_iff)
  then show ?thesis
    using assms(1) free
    by (simp add: parse_acct_handle_def maybe_percent_decode_acct_def no_escape split_once_append
        trim_start_free)
qed

lemma no_acct_prefix:
  assumes "CHR '':'' \<notin> set v"
  shows "\<not> has_acct_prefix v"
proof
  assume *: "has_acct_prefix v"
  then have low: "map ascii_lower (take 5 v) = ''acct:''"
    by (simp add: has_acct_prefix_def eq_ignore_ascii_case_def to_ascii_lowercase_def ascii_lower_def
        is_ascii_uppercase_def)
  then have "CHR '':'' \<in> ascii_lower ` set (take 5 v)" by (metis in_set_conv_decomp list.set_map
        list.set_intros append_Cons append_Nil image_set)
  then obtain c where c: "c \<in> set (take 5 v)" "ascii_lower c = CHR '':''" by auto
  have "c = CHR '':''"
  proof (cases "is_ascii_uppercase c")
    case True
    then have "byte (ascii_lower c) = byte c + 32" "65 \<le> byte c"
      by (simp_all add: ascii_lower_def is_ascii_uppercase_def)
    then show ?thesis using c(2) by simp
  qed (use c(2) in \<open>simp add: ascii_lower_def\<close>)
  then show False using c assms in_set_takeD by fastforce
qed

text \<open>
  All ways to write a handle mean one account: \<open>acct:user@domain\<close>, \<open>user@domain\<close> and
  \<open>@user@domain\<close> are read alike by WebFinger and by a lookup, as the user name in lower case at
  the normalised domain, or as the error of that domain; a lookup of the bare name means the
  account of the instance.
\<close>

theorem handle_forms_agree:
  assumes "u \<noteq> []" "list_all handle_char (u @ d)" "d \<noteq> []"
  shows "(let h = and_then (normalize_acct_host parse_url d)
        (\<lambda>domain. Inr \<lparr>ah_username = to_ascii_lowercase u, ah_domain = Some domain\<rparr>);
      handle = u @ ''@'' @ d
    in parse_webfinger_resource parse_url decode (''acct:'' @ handle) = h \<and>
      parse_webfinger_resource parse_url decode handle = h \<and>
      parse_webfinger_resource parse_url decode (''@'' @ handle) = h \<and>
      parse_lookup_handle parse_url decode (''acct:'' @ handle) config = h \<and>
      parse_lookup_handle parse_url decode handle config = h \<and>
      parse_lookup_handle parse_url decode (''@'' @ handle) config = h \<and>
      parse_lookup_handle parse_url decode u config =
        Inr \<lparr>ah_username = to_ascii_lowercase u, ah_domain = Some (instance_host config)\<rparr>)"
proof -
  let ?h = "u @ CHR ''@'' # d"
  have free: "CHR '':'' \<notin> set ?h" "CHR ''/'' \<notin> set ?h" "CHR ''@'' \<notin> set u"
    using handle_free [OF assms(2)] by auto
  have plain: "list_all plain_byte ?h" "list_all plain_byte u"
    using assms(2) handle_char_plain by (auto simp: list_all_iff plain_byte_def)
  then have trims: "trim ?h = ?h" "trim (CHR ''@'' # ?h) = CHR ''@'' # ?h" "trim (''acct:'' @ ?h) = ''acct:'' @ ?h"
    "trim u = u"
    by (auto intro!: trim_id_plain simp: plain_byte_def)
  have acct: "has_acct_prefix (''acct:'' @ ?h)" by (simp add: has_acct_prefix_def eq_ignore_ascii_case_def)
  have not_acct: "\<not> has_acct_prefix ?h" "\<not> has_acct_prefix (CHR ''@'' # ?h)" "\<not> has_acct_prefix u"
    using free by (auto intro!: no_acct_prefix)
  have not_http: "\<not> starts_with ?h HTTP" "\<not> starts_with ?h HTTPS"
    "\<not> starts_with (CHR ''@'' # ?h) HTTP" "\<not> starts_with (CHR ''@'' # ?h) HTTPS"
    using free starts_with_free [of "CHR ''/''" _ ?h] starts_with_free [of "CHR ''/''" _ "CHR ''@'' # ?h"]
    by (simp_all add: HTTP_def HTTPS_def)
  have at: "trim_start_matches ?h ''@'' = ?h" "trim_start_matches (CHR ''@'' # ?h) ''@'' = ?h"
    using assms(1) free by (simp_all add: trim_start_at trim_start_user)
  note parsed = parse_acct_plain [OF assms(1,2)]
  show ?thesis
    using assms(1) free trims acct not_acct not_http at parsed
    by (simp add: parse_webfinger_resource_def parse_lookup_handle_def Let_def)
qed

theorem handle_forms_agree_witness:
  "parse_lookup_handle (\<lambda>_. None) (\<lambda>_. None) ''@Al@b.c'' \<lparr>ac_instance_domain = ''x'',
     ac_media_public_base_url = None\<rparr> = Inl InvalidHost"
proof -
  have "normalize_acct_host (\<lambda>_. None) ''b.c'' = Inl InvalidHost" by code_simp
  moreover have "list_all handle_char (''Al'' @ ''b.c'')" by code_simp
  ultimately show ?thesis
    using handle_forms_agree [of "''Al''" "''b.c''" "\<lambda>_. None" "\<lambda>_. None"
        "\<lparr>ac_instance_domain = ''x'', ac_media_public_base_url = None\<rparr>"]
    by (simp add: Let_def and_then_def)
qed

text \<open>The addresses the instance gives its accounts and statuses are read back.\<close>

lemma split_users:
  assumes "CHR ''/'' \<notin> set u"
  shows "split_char (CHR ''/'') (''users/'' @ u) = [''users'', u]"
  using split_char_append [of "CHR ''/''" "''users''" u] split_char_free [OF assms] by simp

lemma local_actor_read_back:
  assumes "parse_url (actor_url config u) = Some p" "is_local_host config p"
    and "pu_path p = ''/users/'' @ u" "CHR ''/'' \<notin> set u" "u \<noteq> []"
  shows "local_username_from_actor_uri parse_url config (actor_url config u) = Some (to_ascii_lowercase u)"
  using assms split_users [OF assms(4)]
  by (simp add: local_username_from_actor_uri_def opt_filter_def pu_path_segments_def
      actor_path_username_def)

end
