(* ===== verification/Signed_Requests.thy ===== *)
theory Signed_Requests
  imports Actor_Profile Delivery Identity
begin

text \<open>
  Signed requests (\<open>http/request_validation.rs\<close>, \<open>http/signatures.rs\<close>, \<open>http/signed_delivery.rs\<close>): what
  is checked of a request to an inbox and whose request it is, and the requests the instance signs
  itself. Keys, hashes, base64 and the parsers of the \<open>time\<close> crate and of the browser are arguments;
  their errors are messages. A message that follows a prefix stands for the formatted error.
\<close>

section \<open>Cryptography and time\<close>

record crypto =
  cr_sha256 :: "string \<Rightarrow> string + string"
  cr_encode :: "string \<Rightarrow> string"
  cr_decode :: "string \<Rightarrow> string + string"
  cr_sign :: "string \<Rightarrow> string \<Rightarrow> string + string"
  cr_verify :: "string \<Rightarrow> string \<Rightarrow> string \<Rightarrow> string + unit"

text \<open>\<open>dl_at\<close> gives the milliseconds of a date and a time of day in UTC, where there is such a day.\<close>

record date_lib =
  dl_rfc2822 :: "string \<Rightarrow> int option"
  dl_rfc3339 :: "string \<Rightarrow> int option"
  dl_asctime :: "string \<Rightarrow> int option"
  dl_js :: "string \<Rightarrow> int option"
  dl_at :: "int \<Rightarrow> nat \<Rightarrow> nat \<Rightarrow> nat \<times> nat \<times> nat \<Rightarrow> int option"

definition sha256_http_digest :: "crypto \<Rightarrow> string \<Rightarrow> string + string" where
  "sha256_http_digest cr payload =
    and_then (cr_sha256 cr payload) (\<lambda>bytes. Inr (''SHA-256='' @ cr_encode cr bytes))"

section \<open>The signature header\<close>

record parsed_signature_header =
  ps_key_id :: string
  ps_headers :: "string list"
  ps_signature :: string

definition trim_quotes :: "string \<Rightarrow> string" where
  "trim_quotes s = trim_end_matches (dropWhile (\<lambda>c. c = CHR 0x22) s) (CHR 0x22)"

text \<open>The parameters read so far: a later one takes the place of an earlier one of its name.\<close>

type_synonym signature_parts = "string option \<times> string list option \<times> string option"

definition signature_part :: "crypto \<Rightarrow> string \<Rightarrow> signature_parts \<Rightarrow> string + signature_parts" where
  "signature_part cr part parts =
    (case (split_once (trim part) (CHR ''=''), parts) of
       (None, _) \<Rightarrow> Inr parts
     | (Some (name, raw_value), key_id, headers, signature) \<Rightarrow>
         let value = trim_quotes (trim raw_value); name = to_ascii_lowercase (trim name) in
         if name = ''keyid'' then Inr (Some value, headers, signature)
         else if name = ''headers''
         then Inr (key_id, Some (map to_ascii_lowercase (split_whitespace value)), signature)
         else if name = ''signature''
         then and_then (map_err (\<lambda>e. ''invalid Signature header encoding: '' @ e) (cr_decode cr value))
                (\<lambda>bytes. Inr (key_id, headers, Some bytes))
         else Inr parts)"

fun signature_parts_from :: "crypto \<Rightarrow> string list \<Rightarrow> signature_parts \<Rightarrow> string + signature_parts" where
  "signature_parts_from cr [] parts = Inr parts"
| "signature_parts_from cr (part # rest) parts =
    and_then (signature_part cr part parts) (signature_parts_from cr rest)"

definition parse_signature_header :: "crypto \<Rightarrow> string \<Rightarrow> string + parsed_signature_header" where
  "parse_signature_header cr header =
    and_then (signature_parts_from cr (split_char (CHR '','') header) (None, None, None))
      (\<lambda>(key_id, headers, signature).
        and_then (ok_or key_id ''Signature keyId missing'') (\<lambda>key_id.
        and_then (ok_or headers ''Signature headers missing'') (\<lambda>headers.
        and_then (ok_or signature ''Signature value missing'') (\<lambda>signature.
        Inr \<lparr>ps_key_id = key_id, ps_headers = headers, ps_signature = signature\<rparr>))))"

section \<open>Dates\<close>

definition parse_month :: "string \<Rightarrow> nat option" where
  "parse_month name = map_of (zip
    [''Jan'', ''Feb'', ''Mar'', ''Apr'', ''May'', ''Jun'', ''Jul'', ''Aug'', ''Sep'', ''Oct'', ''Nov'', ''Dec'']
    [1..<13]) name"

definition parse_hms :: "string \<Rightarrow> (nat \<times> nat \<times> nat) option" where
  "parse_hms v =
    (case split_char (CHR '':'') v of
       [h, m, s] \<Rightarrow>
         (case (parse_unsigned 255 h, parse_unsigned 255 m, parse_unsigned 255 s) of
            (Some h, Some m, Some s) \<Rightarrow>
              if h < 24 \<and> m < 60 \<and> s < 60 then Some (h, m, s) else None
          | _ \<Rightarrow> None)
     | _ \<Rightarrow> None)"

text \<open>\<open>split_once(", ")\<close>.\<close>

definition after_comma :: "string \<Rightarrow> string option" where
  "after_comma v = (case split_pattern '', '' v of _ # rest # others \<Rightarrow> Some (join '', '' (rest # others)) | _ \<Rightarrow> None)"

definition parse_rfc850_date_ms :: "date_lib \<Rightarrow> string \<Rightarrow> int option" where
  "parse_rfc850_date_ms dl v =
    Option.bind (after_comma v) (\<lambda>rest.
      case split_whitespace rest of
        [date, time, zone] \<Rightarrow>
          Option.bind (parse_hms time) (\<lambda>time.
            if \<not> eq_ignore_ascii_case zone ''GMT'' then None
            else (case split_char (CHR ''-'') date of
                [d, m, y] \<Rightarrow>
                  Option.bind (parse_unsigned 255 d) (\<lambda>day.
                  Option.bind (parse_month m) (\<lambda>month.
                  Option.bind (parse_signed 2147483647 y) (\<lambda>year.
                    dl_at dl (if year \<ge> 70 then 1900 + year else 2000 + year) month day time)))
              | _ \<Rightarrow> None))
      | _ \<Rightarrow> None)"

definition parse_asctime_date_ms :: "date_lib \<Rightarrow> string \<Rightarrow> int option" where
  "parse_asctime_date_ms dl v =
    (case split_whitespace v of
       [_, m, d, time, y] \<Rightarrow>
         Option.bind (parse_month m) (\<lambda>month.
         Option.bind (parse_unsigned 255 d) (\<lambda>day.
         Option.bind (parse_hms time) (\<lambda>time.
         Option.bind (parse_signed 2147483647 y) (\<lambda>year. dl_at dl year month day time))))
     | _ \<Rightarrow> None)"

definition parse_activitypub_request_date_ms :: "date_lib \<Rightarrow> string \<Rightarrow> int option" where
  "parse_activitypub_request_date_ms dl v =
    (let trimmed = trim v in
     opt_or (dl_rfc2822 dl trimmed) (opt_or (dl_rfc3339 dl trimmed)
       (opt_or (parse_rfc850_date_ms dl trimmed) (opt_or (dl_asctime dl trimmed)
         (opt_or (parse_asctime_date_ms dl trimmed) (dl_js dl trimmed))))))"

section \<open>Checks of a request\<close>

text \<open>A request to the instance. A header with a name that is none is an error.\<close>

record http_request =
  rq_method :: string
  rq_url :: "string + string"
  rq_header :: "string \<Rightarrow> string + string option"

definition required_header :: "http_request \<Rightarrow> string \<Rightarrow> string \<Rightarrow> string + string" where
  "required_header req name missing =
    and_then (rq_header req name) (\<lambda>found. ok_or found missing)"

definition validate_request_date :: "date_lib \<Rightarrow> int \<Rightarrow> http_request \<Rightarrow> string + unit" where
  "validate_request_date dl now req =
    and_then (required_header req ''Date'' ''missing Date header'') (\<lambda>date.
    and_then (ok_or (parse_activitypub_request_date_ms dl date) ''invalid Date header'') (\<lambda>parsed.
      if \<not> activitypub_date_within_skew (Some parsed) (Some now)
      then Inl ''Date header outside allowed skew'' else Inr ()))"

definition validate_activitypub_signature_headers :: "parsed_signature_header \<Rightarrow> string + unit" where
  "validate_activitypub_signature_headers signature =
    (if activitypub_signature_lists_required_headers (ps_headers signature) then Inr ()
     else case find (\<lambda>required. required \<notin> set (ps_headers signature)) ACTIVITYPUB_REQUIRED_SIGNED_HEADERS of
         Some required \<Rightarrow> Inl (''Signature missing required signed header '' @ required)
       | None \<Rightarrow> Inr ())"

definition validate_request_digest :: "crypto \<Rightarrow> http_request \<Rightarrow> string \<Rightarrow> string + unit" where
  "validate_request_digest cr req body =
    and_then (required_header req ''Digest'' ''missing Digest header'') (\<lambda>digest.
    and_then (ok_or (split_once digest (CHR ''='')) ''invalid Digest header'') (\<lambda>(algorithm, given).
      if \<not> eq_ignore_ascii_case algorithm ''sha-256'' then Inl ''unsupported Digest algorithm''
      else and_then (sha256_http_digest cr body) (\<lambda>expected.
        if given \<noteq> (case split_once expected (CHR ''='') of Some (_, v) \<Rightarrow> v | None \<Rightarrow> [])
        then Inl ''Digest header mismatch'' else Inr ())))"

definition request_url :: "url_crate \<Rightarrow> http_request \<Rightarrow> string + parsed_url" where
  "request_url lib req = and_then (rq_url req) (parse_remote_http_url lib)"

definition validate_signed_host_header ::
    "url_crate \<Rightarrow> http_request \<Rightarrow> parsed_signature_header \<Rightarrow> string + unit" where
  "validate_signed_host_header lib req signature =
    (if ''host'' \<notin> set (ps_headers signature) then Inr ()
     else and_then (required_header req ''host'' ''missing signed header host'') (\<lambda>host_header.
       and_then (request_url lib req) (\<lambda>url.
       and_then (ok_or (pu_host_str url) ''request URL is missing host'') (\<lambda>url_host.
         if \<not> activitypub_host_header_matches_url_host host_header url_host
         then Inl ''signed Host header does not match request host'' else Inr ()))))"

definition target_line :: "string \<Rightarrow> string \<Rightarrow> string" where
  "target_line method path_and_query =
    ''(request-target): '' @ to_ascii_lowercase method @ '' '' @ path_and_query"

definition header_line :: "string \<Rightarrow> string \<Rightarrow> string" where
  "header_line name v = name @ '': '' @ v"

definition path_and_query_of :: "parsed_url \<Rightarrow> string" where
  "path_and_query_of url =
    (case pu_query url of Some query \<Rightarrow> pu_path url @ ''?'' @ query | None \<Rightarrow> pu_path url)"

fun signed_lines :: "(string \<Rightarrow> string + string) \<Rightarrow> string list \<Rightarrow> string + string list" where
  "signed_lines line [] = Inr []"
| "signed_lines line (name # names) =
    and_then (line name) (\<lambda>l. and_then (signed_lines line names) (\<lambda>ls. Inr (l # ls)))"

definition line_feed :: string where "line_feed = [CHR 0x0A]"

definition build_signature_signing_string ::
    "url_crate \<Rightarrow> http_request \<Rightarrow> parsed_signature_header \<Rightarrow> string + string" where
  "build_signature_signing_string lib req signature =
    and_then (request_url lib req) (\<lambda>url.
    and_then (signed_lines (\<lambda>name.
        if name = ''(request-target)'' then Inr (target_line (rq_method req) (path_and_query_of url))
        else and_then (required_header req name (''missing signed header '' @ name))
               (\<lambda>v. Inr (header_line name v)))
      (ps_headers signature)) (\<lambda>lines. Inr (join line_feed lines)))"

definition build_signature_signing_string_from_parts ::
    "string \<Rightarrow> string \<Rightarrow> string list \<Rightarrow> (string \<times> string) list \<Rightarrow> string + string" where
  "build_signature_signing_string_from_parts method path_and_query signed_headers header_values =
    and_then (signed_lines (\<lambda>name.
        if name = ''(request-target)'' then Inr (target_line method path_and_query)
        else and_then (ok_or (map_option snd (find (\<lambda>(n, _). eq_ignore_ascii_case n name) header_values))
                 (''missing signed header '' @ name)) (\<lambda>v. Inr (header_line name v)))
      signed_headers) (\<lambda>lines. Inr (join line_feed lines))"

section \<open>Whose request it is\<close>

definition cached_remote_actor_matches_key :: "remote_actor_profile \<Rightarrow> string \<Rightarrow> string \<Rightarrow> bool" where
  "cached_remote_actor_matches_key remote_actor key_id actor_uri =
    cached_remote_actor_key_matches
      (activitypub_key_id_matches_actor key_id actor_uri (rp_actor_uri remote_actor))
      (rp_public_key_id remote_actor) key_id"

definition cached_actor_can_verify_key :: "remote_actor_profile \<Rightarrow> string \<Rightarrow> string \<Rightarrow> bool" where
  "cached_actor_can_verify_key remote_actor key_id actor_uri \<longleftrightarrow>
    cached_remote_actor_matches_key remote_actor key_id actor_uri \<or>
    activitypub_key_id_matches_actor key_id actor_uri (rp_actor_uri remote_actor)"

definition remote_actor_document_unavailable :: "string \<Rightarrow> bool" where
  "remote_actor_document_unavailable error \<longleftrightarrow>
    list_ex (contains_str error) [''HTTP 403'', ''HTTP 404'', ''HTTP 410'']"

definition actor_uri_from_key_id :: "url_crate \<Rightarrow> string \<Rightarrow> string + string" where
  "actor_uri_from_key_id lib key_id =
    and_then (parse_remote_http_url lib key_id) (\<lambda>parsed.
      Inr (url_as_str lib (parsed\<lparr>pu_fragment := None\<rparr>)))"

definition extract_activity_actor_uri :: "json \<Rightarrow> string + string" where
  "extract_activity_actor_uri activity =
    ok_or (activity_object_id (jget activity ''actor'')) ''activity is missing actor''"

text \<open>What an instance keeps and asks to verify a request.\<close>

record verify_env =
  ve_url :: url_crate
  ve_json :: "string \<Rightarrow> string + json"
  ve_net :: network
  ve_clock :: "nat \<Rightarrow> hop_times"
  ve_crypto :: crypto
  ve_dates :: date_lib
  ve_now :: int

record verify_state =
  vs_actors :: actor_table
  vs_caches :: dns_caches

definition verified_with :: "verify_env \<Rightarrow> remote_actor_profile \<Rightarrow> string \<Rightarrow> string \<Rightarrow> bool" where
  "verified_with env actor signing_string signature \<longleftrightarrow>
    cr_verify (ve_crypto env) (rp_public_key_pem actor) signing_string signature = Inr ()"

definition resolve_remote_actor_for_signature ::
    "verify_env \<Rightarrow> string \<Rightarrow> string \<Rightarrow> string \<Rightarrow> verify_state \<Rightarrow>
     (string + remote_actor_profile) \<times> verify_state" where
  "resolve_remote_actor_for_signature env key_id signing_string signature st =
    (case actor_uri_from_key_id (ve_url env) key_id of
       Inl e \<Rightarrow> (Inl e, st)
     | Inr actor_uri \<Rightarrow>
       let cached_actor = find_cached_remote_actor_profile_by_actor_uri (vs_actors st) actor_uri;
           usable = (\<lambda>actor. cached_actor_can_verify_key actor key_id actor_uri \<and>
             verified_with env actor signing_string signature)
       in case opt_filter usable cached_actor of
         Some actor \<Rightarrow> (Inr actor, st)
       | None \<Rightarrow>
         (case fetch_remote_actor_profile (ve_url env) (ve_json env) (ve_net env) (ve_clock env)
                 actor_uri (vs_caches st) of
            (fetched, caches, _) \<Rightarrow>
              let st = st\<lparr>vs_caches := caches\<rparr> in
              case fetched of
                Inr remote_actor \<Rightarrow>
                  if \<not> cached_remote_actor_matches_key remote_actor key_id actor_uri
                  then (Inl ''Signature keyId did not match delivery actor'', st)
                  else (case cr_verify (ve_crypto env) (rp_public_key_pem remote_actor)
                             signing_string signature of
                      Inl e \<Rightarrow> (Inl e, st)
                    | Inr _ \<Rightarrow>
                        (Inr remote_actor, st\<lparr>vs_actors := upsert_remote_actor remote_actor (vs_actors st)\<rparr>))
              | Inl error \<Rightarrow>
                  if remote_actor_document_unavailable error
                  then (case opt_filter usable cached_actor of
                      Some actor \<Rightarrow> (Inr actor, st) | None \<Rightarrow> (Inl error, st))
                  else (Inl error, st)))"

record verified_delivery =
  vd_delivery_actor :: remote_actor_profile
  vd_content_actor_uri :: string
  vd_relayed :: bool

text \<open>The checks that need no actor, with the signature and the string that is signed.\<close>

definition check_signed_request ::
    "verify_env \<Rightarrow> http_request \<Rightarrow> string \<Rightarrow> string + parsed_signature_header \<times> string" where
  "check_signed_request env req body =
    and_then (required_header req ''Signature'' ''missing Signature header'') (\<lambda>signature_header.
    and_then (parse_signature_header (ve_crypto env) signature_header) (\<lambda>parsed_signature.
    and_then (validate_activitypub_signature_headers parsed_signature) (\<lambda>_.
    and_then (validate_signed_host_header (ve_url env) req parsed_signature) (\<lambda>_.
    and_then (build_signature_signing_string (ve_url env) req parsed_signature) (\<lambda>signing_string.
    and_then (validate_request_date (ve_dates env) (ve_now env) req) (\<lambda>_.
    and_then (validate_request_digest (ve_crypto env) req body) (\<lambda>_.
    Inr (parsed_signature, signing_string))))))))"

definition verify_incoming_activitypub_delivery ::
    "verify_env \<Rightarrow> http_request \<Rightarrow> string \<Rightarrow> json \<Rightarrow> verify_state \<Rightarrow>
     (string + verified_delivery) \<times> verify_state" where
  "verify_incoming_activitypub_delivery env req body activity st =
    (case and_then (extract_activity_actor_uri activity) (\<lambda>content_actor_uri.
         and_then (check_signed_request env req body) (\<lambda>checked. Inr (content_actor_uri, checked))) of
       Inl e \<Rightarrow> (Inl e, st)
     | Inr (content_actor_uri, parsed_signature, signing_string) \<Rightarrow>
       (case resolve_remote_actor_for_signature env (ps_key_id parsed_signature) signing_string
              (ps_signature parsed_signature) st of
          (Inl e, st) \<Rightarrow> (Inl e, st)
        | (Inr delivery_actor, st) \<Rightarrow>
            (Inr \<lparr>vd_delivery_actor = delivery_actor, vd_content_actor_uri = content_actor_uri,
                  vd_relayed = (rp_actor_uri delivery_actor \<noteq> content_actor_uri)\<rparr>, st)))"

definition verify_incoming_activitypub_request ::
    "verify_env \<Rightarrow> http_request \<Rightarrow> string \<Rightarrow> json \<Rightarrow> verify_state \<Rightarrow>
     (string + remote_actor_profile) \<times> verify_state" where
  "verify_incoming_activitypub_request env req body activity st =
    (case verify_incoming_activitypub_delivery env req body activity st of
       (Inl e, st) \<Rightarrow> (Inl e, st)
     | (Inr delivery, st) \<Rightarrow>
         if vd_relayed delivery
         then (Inl ''activitypub unauthorized: relayed delivery must use shared inbox handler'', st)
         else (Inr (vd_delivery_actor delivery), st))"

section \<open>Requests the instance signs\<close>

definition SIGNED_POST_HEADERS :: "string list" where
  "SIGNED_POST_HEADERS = [''(request-target)'', ''host'', ''date'', ''digest'', ''content-type'']"

definition ACTIVITYPUB_CONTENT_TYPE :: string where
  "ACTIVITYPUB_CONTENT_TYPE = ''application/activity+json''"

definition ACTIVITYPUB_ACCEPT :: string where
  "ACTIVITYPUB_ACCEPT = ''application/activity+json, application/ld+json; profile='' @ [CHR 0x22] @
    ''https://www.w3.org/ns/activitystreams'' @ [CHR 0x22]"

definition signed_post_signing_string ::
    "string \<Rightarrow> string \<Rightarrow> string \<Rightarrow> string \<Rightarrow> string \<Rightarrow> string + string" where
  "signed_post_signing_string path_and_query host date digest content_type =
    build_signature_signing_string_from_parts ''POST'' path_and_query SIGNED_POST_HEADERS
      [(''host'', host), (''date'', date), (''digest'', digest), (''content-type'', content_type)]"

definition parse_http_url_parts :: "url_crate \<Rightarrow> string \<Rightarrow> string + string \<times> string" where
  "parse_http_url_parts lib url =
    and_then (parse_remote_http_url lib url) (\<lambda>url.
    and_then (ok_or (pu_host_str url) ''URL host missing'') (\<lambda>host.
      let path = (case pu_query url of
          Some query \<Rightarrow>
            if pu_path url = [] \<or> pu_path url = ''/'' then ''/?'' @ query else pu_path url @ ''?'' @ query
        | None \<Rightarrow> if pu_path url = [] then ''/'' else pu_path url)
      in Inr (host, path)))"

record signed_post_request =
  sp_inbox_url :: string
  sp_headers :: "(string \<times> string) list"
  sp_body :: string

type_synonym delivery_failure = "delivery_attempt_outcome \<times> string"

definition permanent :: "string \<Rightarrow> string \<Rightarrow> delivery_failure" where
  "permanent what e = (PermanentFailure, what @ e)"

definition retryable :: "string \<Rightarrow> string \<Rightarrow> delivery_failure" where
  "retryable what e = (delivery_attempt_outcome.Failure, what @ e)"

definition signature_header :: "string \<Rightarrow> string \<Rightarrow> string" where
  "signature_header key_id signature =
    ''keyId='' @ [CHR 0x22] @ key_id @ [CHR 0x22] @ '',algorithm='' @ [CHR 0x22] @ ''rsa-sha256'' @
    [CHR 0x22] @ '',headers='' @ [CHR 0x22] @ ''(request-target) host date digest content-type'' @
    [CHR 0x22] @ '',signature='' @ [CHR 0x22] @ signature @ [CHR 0x22]"

text \<open>\<open>key\<close> is the result of loading the key of the account: it may fail, and there may be none.\<close>

definition build_signed_post_request ::
    "url_crate \<Rightarrow> network \<Rightarrow> hop_times \<Rightarrow> crypto \<Rightarrow> string + string \<Rightarrow> string + string option \<Rightarrow> string \<Rightarrow>
     string \<Rightarrow> string \<Rightarrow> dns_caches \<Rightarrow> (delivery_failure + signed_post_request) \<times> dns_caches" where
  "build_signed_post_request lib net ts cr now_date key key_id inbox_url payload caches =
    (case parse_remote_http_url lib inbox_url of
       Inl e \<Rightarrow> (Inl (permanent ''invalid remote inbox URL: '' e), caches)
     | Inr inbox \<Rightarrow>
       (case validate_remote_fetch_url lib net ts inbox caches of
          (Inl e, caches) \<Rightarrow> (Inl (permanent ''remote inbox URL rejected: '' e), caches)
        | (Inr _, caches) \<Rightarrow>
          (and_then (map_err (permanent ''failed to parse inbox URL parts: '')
             (parse_http_url_parts lib (url_as_str lib inbox))) (\<lambda>(host, path_and_query).
           and_then (map_err (retryable ''failed to build Date header: '') now_date) (\<lambda>date.
           and_then (map_err (retryable ''failed to build Digest header: '')
             (sha256_http_digest cr payload)) (\<lambda>digest.
           and_then (map_err (retryable ''failed to build signing string: '')
             (signed_post_signing_string path_and_query host date digest ACTIVITYPUB_CONTENT_TYPE))
             (\<lambda>signing_string.
           and_then (map_err (retryable ''failed to load signing key: '') key) (\<lambda>key.
           and_then (ok_or key (permanent ''account private signing key is missing'' [])) (\<lambda>key.
           and_then (map_err (retryable ''failed to sign delivery request: '')
             (cr_sign cr key signing_string)) (\<lambda>signature.
           Inr \<lparr>sp_inbox_url = url_as_str lib inbox,
                sp_headers = [(''Accept'', ACTIVITYPUB_ACCEPT),
                  (''Content-Type'', ACTIVITYPUB_CONTENT_TYPE), (''Date'', date), (''Digest'', digest),
                  (''Signature'', signature_header key_id (cr_encode cr signature))],
                sp_body = payload\<rparr>))))))), caches)))"

definition dispatch_signed_post ::
    "network \<Rightarrow> int \<Rightarrow> signed_post_request \<Rightarrow> delivery_failure + unit" where
  "dispatch_signed_post net now request =
    and_then (map_err (retryable ''remote inbox delivery fetch failed: '')
      (net_http net now (sp_inbox_url request))) (\<lambda>response.
      let status = hr_status response in
      case delivery_disposition_for_http_status (of_nat status) of
        delivery_attempt_outcome.Success \<Rightarrow> Inr ()
      | PermanentFailure \<Rightarrow>
          Inl (permanent ''remote inbox rejected activity with HTTP '' (show_nat status))
      | delivery_attempt_outcome.Failure \<Rightarrow>
          Inl (retryable (if 300 \<le> status \<and> status < 400
            then ''remote inbox redirected signed delivery with HTTP ''
            else ''remote inbox rejected activity with HTTP '') (show_nat status)))"

definition send_signed_activity ::
    "url_crate \<Rightarrow> network \<Rightarrow> hop_times \<Rightarrow> crypto \<Rightarrow> string + string \<Rightarrow> string + string option \<Rightarrow> string \<Rightarrow>
     string \<Rightarrow> string \<Rightarrow> dns_caches \<Rightarrow> (delivery_failure + unit) \<times> dns_caches" where
  "send_signed_activity lib net ts cr now_date key key_id inbox_url payload caches =
    (case build_signed_post_request lib net ts cr now_date key key_id inbox_url payload caches of
       (Inl failure, caches) \<Rightarrow> (Inl failure, caches)
     | (Inr request, caches) \<Rightarrow> (dispatch_signed_post net (ht_send ts) request, caches))"

section \<open>Facts\<close>

lemma ok_or_Inr: "ok_or x m = Inr v \<longleftrightarrow> x = Some v"
  by (cases x) simp_all

lemma signed_lines_Inr:
  "signed_lines line names = Inr ls \<longleftrightarrow> list_all2 (\<lambda>name l. line name = Inr l) names ls"
  by (induction names arbitrary: ls) (auto simp: and_then_Inr list_all2_Cons1)

lemma signed_lines_member:
  assumes "signed_lines line names = Inr ls" "name \<in> set names"
  shows "\<exists>l \<in> set ls. line name = Inr l"
  using assms by (auto simp: signed_lines_Inr list_all2_conv_all_nth in_set_conv_nth)

lemma required_headers_listed:
  "activitypub_signature_lists_required_headers headers \<longleftrightarrow>
    {''(request-target)'', ''date'', ''digest''} \<subseteq> set headers"
  by (auto simp: activitypub_signature_lists_required_headers_def
      ACTIVITYPUB_REQUIRED_SIGNED_HEADERS_def list_ex_iff)

lemma required_headers_validated:
  "validate_activitypub_signature_headers signature = Inr () \<longleftrightarrow>
    {''(request-target)'', ''date'', ''digest''} \<subseteq> set (ps_headers signature)"
proof -
  have "find (\<lambda>required. required \<notin> set (ps_headers signature)) ACTIVITYPUB_REQUIRED_SIGNED_HEADERS = None
      \<longleftrightarrow> {''(request-target)'', ''date'', ''digest''} \<subseteq> set (ps_headers signature)"
    by (auto simp: find_None_iff ACTIVITYPUB_REQUIRED_SIGNED_HEADERS_def)
  then show ?thesis
    by (auto simp: validate_activitypub_signature_headers_def required_headers_listed
        split: option.splits)
qed

lemma digest_parts:
  "sha256_http_digest cr payload = Inr d \<Longrightarrow>
    \<exists>hash. cr_sha256 cr payload = Inr hash \<and> split_once d (CHR ''='') = Some (''SHA-256'', cr_encode cr hash)"
  by (auto simp: sha256_http_digest_def and_then_Inr)

text \<open>What a signature over a string binds of a request.\<close>

definition request_bound ::
    "verify_env \<Rightarrow> http_request \<Rightarrow> string \<Rightarrow> string \<Rightarrow> bool" where
  "request_bound env req body signing_string \<longleftrightarrow>
    (\<exists>lines url date t algorithm hash.
      signing_string = join line_feed lines \<and>
      request_url (ve_url env) req = Inr url \<and>
      target_line (rq_method req) (path_and_query_of url) \<in> set lines \<and>
      header_line ''date'' date \<in> set lines \<and>
      parse_activitypub_request_date_ms (ve_dates env) date = Some t \<and>
      \<bar>ve_now env - t\<bar> \<le> 12 * 60 * 60 * 1000 \<and>
      header_line ''digest'' (algorithm @ ''='' @ cr_encode (ve_crypto env) hash) \<in> set lines \<and>
      to_ascii_lowercase algorithm = ''sha-256'' \<and> cr_sha256 (ve_crypto env) body = Inr hash)"

lemma checked_request_bound:
  assumes case_free: "\<And>name. rq_header req name = rq_header req (to_ascii_lowercase name)"
    and checked: "check_signed_request env req body = Inr (signature, signing_string)"
  shows "request_bound env req body signing_string"
proof -
  let ?lib = "ve_url env"
  from checked obtain where_host where
    "{''(request-target)'', ''date'', ''digest''} \<subseteq> set (ps_headers signature)"
    and signing: "build_signature_signing_string ?lib req signature = Inr signing_string"
    and date: "validate_request_date (ve_dates env) (ve_now env) req = Inr ()"
    and digest: "validate_request_digest (ve_crypto env) req body = Inr ()"
    by (auto simp: check_signed_request_def and_then_Inr required_headers_validated)
  then have listed: "''(request-target)'' \<in> set (ps_headers signature)"
    "''date'' \<in> set (ps_headers signature)" "''digest'' \<in> set (ps_headers signature)" by auto
  have lower: "to_ascii_lowercase ''Date'' = ''date''" "to_ascii_lowercase ''Digest'' = ''digest''"
    by code_simp+
  have names: "required_header req ''Date'' m = required_header req ''date'' m"
    "required_header req ''Digest'' m = required_header req ''digest'' m" for m
    using case_free [of "''Date''"] case_free [of "''Digest''"]
    by (simp_all add: required_header_def lower)
  obtain url lines where url: "request_url ?lib req = Inr url"
    and lines: "signing_string = join line_feed lines"
      "signed_lines (\<lambda>name.
        if name = ''(request-target)'' then Inr (target_line (rq_method req) (path_and_query_of url))
        else and_then (required_header req name (''missing signed header '' @ name))
               (\<lambda>v. Inr (header_line name v))) (ps_headers signature) = Inr lines"
    using signing by (auto simp: build_signature_signing_string_def and_then_Inr)
  note line = signed_lines_member [OF lines(2)]
  have header: "header_line name v \<in> set lines"
    if "name \<in> set (ps_headers signature)" "name \<noteq> ''(request-target)''" "required_header req name m = Inr v"
    for name v m
    using line [OF that(1)] that(2,3)
    by (auto simp: required_header_def and_then_Inr ok_or_Inr)
  obtain d t where d: "required_header req ''date'' ''missing Date header'' = Inr d"
    "parse_activitypub_request_date_ms (ve_dates env) d = Some t" "\<bar>ve_now env - t\<bar> \<le> 12 * 60 * 60 * 1000"
    using date by (auto simp: validate_request_date_def and_then_Inr names activitypub_date_within_skew_def
        ACTIVITYPUB_MAX_DATE_SKEW_MS_def ok_or_Inr split: if_splits)
  obtain g algorithm v expected where g: "required_header req ''digest'' ''missing Digest header'' = Inr g"
    "split_once g (CHR ''='') = Some (algorithm, v)" "eq_ignore_ascii_case algorithm ''sha-256''"
    "sha256_http_digest (ve_crypto env) body = Inr expected"
    "v = (case split_once expected (CHR ''='') of Some (_, v) \<Rightarrow> v | None \<Rightarrow> [])"
    using digest by (auto simp: validate_request_digest_def and_then_Inr names ok_or_Inr split: if_splits)
  obtain hash where hash: "cr_sha256 (ve_crypto env) body = Inr hash" "v = cr_encode (ve_crypto env) hash"
    using digest_parts [OF g(4)] g(5) by auto
  have "g = algorithm @ ''='' @ v" using split_once_Some [OF g(2)] by simp
  moreover have "to_ascii_lowercase algorithm = ''sha-256''"
  proof -
    have "to_ascii_lowercase ''sha-256'' = ''sha-256''" by code_simp
    then show ?thesis using g(3) by (simp add: eq_ignore_ascii_case_def)
  qed
  ultimately show ?thesis
    unfolding request_bound_def
    using url lines(1) line [OF listed(1)] header [OF listed(2) _ d(1)] header [OF listed(3) _ g(1)] d hash
    by (intro exI [of _ lines] exI [of _ url] exI [of _ d] exI [of _ t] exI [of _ algorithm] exI [of _ hash])
       auto
qed

lemma resolved_actor:
  assumes "in_order (ve_clock env)"
    and "caches_sound (ve_url env) (ve_net env) (ht_l1 (ve_clock env 0)) (vs_caches st)"
    and "resolve_remote_actor_for_signature env key_id s signature st = (Inr actor, st')"
  shows "verified_with env actor s signature"
    and "\<exists>uri. actor_uri_from_key_id (ve_url env) key_id = Inr uri \<and>
      (find_cached_remote_actor_profile_by_actor_uri (vs_actors st) uri = Some actor \<and>
         vs_actors st' = vs_actors st \<or>
       (\<exists>authority. remote_http_authority uri = Some authority \<and> profile_of_authority authority actor) \<and>
         vs_actors st' = upsert_remote_actor actor (vs_actors st))"
proof -
  from assms(3) obtain uri where uri: "actor_uri_from_key_id (ve_url env) key_id = Inr uri"
    by (auto simp: resolve_remote_actor_for_signature_def split: sum.splits)
  let ?cached = "find_cached_remote_actor_profile_by_actor_uri (vs_actors st) uri"
  let ?usable = "\<lambda>actor. cached_actor_can_verify_key actor key_id uri \<and> verified_with env actor s signature"
  obtain fetched caches requests where fetch: "fetch_remote_actor_profile (ve_url env) (ve_json env)
      (ve_net env) (ve_clock env) uri (vs_caches st) = (fetched, caches, requests)"
    by (metis prod_cases3)
  note run = assms(3) [unfolded resolve_remote_actor_for_signature_def uri sum.case Let_def fetch
      prod.case]
  have "verified_with env actor s signature \<and>
    (?cached = Some actor \<and> vs_actors st' = vs_actors st \<or>
     fetched = Inr actor \<and> vs_actors st' = upsert_remote_actor actor (vs_actors st))"
  proof (cases "opt_filter ?usable ?cached")
    case (Some a)
    then have "a = actor" "st' = st" using run by simp_all
    then show ?thesis using Some by (auto simp: opt_filter_def split: option.splits if_splits)
  next
    case None
    note run = run [unfolded None option.case]
    show ?thesis
    proof (cases fetched)
      case (Inl e)
      then show ?thesis using run None
        by (auto split: if_splits)
    next
      case (Inr a)
      then show ?thesis using run None
        by (auto simp: verified_with_def split: if_splits sum.splits)
    qed
  qed
  then show "verified_with env actor s signature"
    and "\<exists>uri. actor_uri_from_key_id (ve_url env) key_id = Inr uri \<and>
      (find_cached_remote_actor_profile_by_actor_uri (vs_actors st) uri = Some actor \<and>
         vs_actors st' = vs_actors st \<or>
       (\<exists>authority. remote_http_authority uri = Some authority \<and> profile_of_authority authority actor) \<and>
         vs_actors st' = upsert_remote_actor actor (vs_actors st))"
    using uri fetched_profile_facts [OF assms(1,2)] fetch by blast+
qed

lemma verified_delivery_steps:
  assumes "verify_incoming_activitypub_delivery env req body activity st = (Inr delivery, st')"
  shows "\<exists>signature signing_string.
    check_signed_request env req body = Inr (signature, signing_string) \<and>
    resolve_remote_actor_for_signature env (ps_key_id signature) signing_string (ps_signature signature) st =
      (Inr (vd_delivery_actor delivery), st') \<and>
    extract_activity_actor_uri activity = Inr (vd_content_actor_uri delivery) \<and>
    vd_relayed delivery = (rp_actor_uri (vd_delivery_actor delivery) \<noteq> vd_content_actor_uri delivery)"
  using assms
  by (auto simp: verify_incoming_activitypub_delivery_def and_then_Inr and_then_Inl
      split: sum.splits prod.splits)

section \<open>The header the instance writes\<close>

definition quoted :: "string \<Rightarrow> string" where
  "quoted v = [CHR 0x22] @ v @ [CHR 0x22]"

lemma trim_quoted [simp]: "trim (quoted v) = quoted v"
  by (rule trim_id_ends) (simp add: quoted_def plain_byte_def)

lemma trim_quotes_quoted:
  assumes "CHR 0x22 \<notin> set v"
  shows "trim_quotes (quoted v) = v"
proof (cases v rule: rev_cases)
  case Nil
  then show ?thesis by (simp add: trim_quotes_def quoted_def trim_end_matches_def)
next
  case (snoc w c)
  have "dropWhile (\<lambda>c. c = CHR 0x22) (v @ [CHR 0x22]) = v @ [CHR 0x22]" if "v \<noteq> []"
    using assms that by (cases v) auto
  then have "dropWhile (\<lambda>c. c = CHR 0x22) (v @ [CHR 0x22]) = v @ [CHR 0x22]" using snoc by blast
  moreover have "trim_end_matches (v @ [CHR 0x22]) (CHR 0x22) = v"
    using assms snoc trim_end_matches_append [of v "CHR 0x22" "CHR 0x22"]
      trim_end_matches_id [of v "CHR 0x22"] by auto
  ultimately show ?thesis by (simp add: trim_quotes_def quoted_def)
qed

text \<open>A parameter: a name in lower case, or nearly, and a quoted text.\<close>

definition plain_name :: "string \<Rightarrow> bool" where
  "plain_name name \<longleftrightarrow> name \<noteq> [] \<and> CHR ''='' \<notin> set name \<and> list_all plain_byte name"

lemma parameter_parts:
  assumes "plain_name name"
  shows "split_once (trim (name @ ''='' @ quoted v)) (CHR ''='') = Some (name, quoted v)"
    and "trim name = name"
proof -
  have "plain_byte (hd name)" "plain_byte (last name)" "name \<noteq> []"
    using assms by (auto simp: plain_name_def list_all_iff)
  then have "trim (name @ ''='' @ quoted v) = name @ ''='' @ quoted v"
    by (intro trim_id_ends) (simp add: quoted_def plain_byte_def)
  then show "split_once (trim (name @ ''='' @ quoted v)) (CHR ''='') = Some (name, quoted v)"
    using assms by (simp add: split_once_append plain_name_def)
  show "trim name = name"
    using \<open>plain_byte (hd name)\<close> \<open>plain_byte (last name)\<close> by (simp add: trim_id_ends)
qed

definition header_text :: "string \<Rightarrow> bool" where
  "header_text s \<longleftrightarrow> CHR 0x22 \<notin> set s \<and> CHR '','' \<notin> set s"

lemma written_header_read:
  assumes key: "header_text key_id" and sig: "header_text (cr_encode cr signature)"
    and decode: "cr_decode cr (cr_encode cr signature) = Inr signature"
  shows "parse_signature_header cr (signature_header key_id (cr_encode cr signature)) =
    Inr \<lparr>ps_key_id = key_id, ps_headers = SIGNED_POST_HEADERS, ps_signature = signature\<rparr>"
proof -
  let ?parts = "[''keyId='' @ quoted key_id, ''algorithm='' @ quoted ''rsa-sha256'',
    ''headers='' @ quoted ''(request-target) host date digest content-type'',
    ''signature='' @ quoted (cr_encode cr signature)]"
  have header: "signature_header key_id (cr_encode cr signature) = join '','' ?parts"
    by (simp add: signature_header_def quoted_def)
  have parts: "split_char (CHR '','') (join '','' ?parts) = ?parts"
    by (rule split_char_join) (use key sig in \<open>simp_all add: quoted_def header_text_def\<close>)
  have names: "plain_name ''keyId''" "plain_name ''algorithm''" "plain_name ''headers''"
    "plain_name ''signature''" by (simp_all add: plain_name_def plain_byte_def)
  have lower: "to_ascii_lowercase ''keyId'' = ''keyid''" "to_ascii_lowercase ''algorithm'' = ''algorithm''"
    "to_ascii_lowercase ''headers'' = ''headers''" "to_ascii_lowercase ''signature'' = ''signature''"
    by code_simp+
  have words: "map to_ascii_lowercase (split_whitespace ''(request-target) host date digest content-type'') =
    SIGNED_POST_HEADERS" by code_simp
  have quotes: "trim_quotes (quoted key_id) = key_id"
    "trim_quotes (quoted (cr_encode cr signature)) = cr_encode cr signature"
    "trim_quotes (quoted ''(request-target) host date digest content-type'') =
      ''(request-target) host date digest content-type''"
    using key sig by (simp_all add: trim_quotes_quoted header_text_def)
  note part = signature_part_def Let_def
  have 1: "signature_part cr (''keyId='' @ quoted key_id) (None, None, None) = Inr (Some key_id, None, None)"
    using parameter_parts [OF names(1)] by (simp add: part lower quotes)
  have 2: "signature_part cr (''algorithm='' @ quoted ''rsa-sha256'') p = Inr p" for p
    using parameter_parts [OF names(2)] by (cases p) (simp add: part lower)
  have 3: "signature_part cr (''headers='' @ quoted ''(request-target) host date digest content-type'')
      (k, None, None) = Inr (k, Some SIGNED_POST_HEADERS, None)" for k
    using parameter_parts [OF names(3)] words by (simp add: part lower quotes)
  have 4: "signature_part cr (''signature='' @ quoted (cr_encode cr signature)) (k, h, None) =
      Inr (k, h, Some signature)" for k h
    using parameter_parts [OF names(4)] decode by (simp add: part lower quotes)
  show ?thesis
    unfolding parse_signature_header_def header parts
    by (simp only: signature_parts_from.simps 1 2 3 4 result_simps prod.case ok_or_def option.case)
qed

section \<open>A delivery received\<close>

text \<open>What the inbox of an instance gets of a request, with the \<open>Host\<close> its client adds.\<close>

definition received_request :: "signed_post_request \<Rightarrow> string \<Rightarrow> http_request" where
  "received_request request host =
    \<lparr>rq_method = ''POST'', rq_url = Inr (sp_inbox_url request),
     rq_header = (\<lambda>name. Inr (map_of
       ((''host'', host) # map (\<lambda>(n, v). (to_ascii_lowercase n, v)) (sp_headers request))
       (to_ascii_lowercase name)))\<rparr>"

lemma lower_names [simp]:
  "to_ascii_lowercase ''Accept'' = ''accept''" "to_ascii_lowercase ''Content-Type'' = ''content-type''"
  "to_ascii_lowercase ''Date'' = ''date''" "to_ascii_lowercase ''Digest'' = ''digest''"
  "to_ascii_lowercase ''Signature'' = ''signature''" "to_ascii_lowercase ''host'' = ''host''"
  "to_ascii_lowercase ''date'' = ''date''" "to_ascii_lowercase ''digest'' = ''digest''"
  "to_ascii_lowercase ''content-type'' = ''content-type''" "to_ascii_lowercase ''sha-256'' = ''sha-256''"
  "to_ascii_lowercase ''SHA-256'' = ''sha-256''"
  by code_simp+

lemma received_headers:
  assumes "sp_headers request = [(''Accept'', a), (''Content-Type'', c), (''Date'', d), (''Digest'', g),
    (''Signature'', s)]"
  shows "rq_header (received_request request host) ''host'' = Inr (Some host)"
    and "rq_header (received_request request host) ''date'' = Inr (Some d)"
    and "rq_header (received_request request host) ''digest'' = Inr (Some g)"
    and "rq_header (received_request request host) ''content-type'' = Inr (Some c)"
    and "rq_header (received_request request host) ''Date'' = Inr (Some d)"
    and "rq_header (received_request request host) ''Digest'' = Inr (Some g)"
    and "rq_header (received_request request host) ''Signature'' = Inr (Some s)"
  using assms by (simp_all add: received_request_def)

lemma post_signing_string:
  "signed_post_signing_string path host date digest type =
    Inr (join line_feed [target_line ''POST'' path, header_line ''host'' host,
      header_line ''date'' date, header_line ''digest'' digest, header_line ''content-type'' type])"
proof -
  have names: "\<not> eq_ignore_ascii_case ''host'' ''date''" "\<not> eq_ignore_ascii_case ''host'' ''digest''"
    "\<not> eq_ignore_ascii_case ''date'' ''digest''" "\<not> eq_ignore_ascii_case ''host'' ''content-type''"
    "\<not> eq_ignore_ascii_case ''date'' ''content-type''" "\<not> eq_ignore_ascii_case ''digest'' ''content-type''"
    by (simp_all add: eq_ignore_ascii_case_def)
  show ?thesis
    by (simp add: signed_post_signing_string_def build_signature_signing_string_from_parts_def
        SIGNED_POST_HEADERS_def names ok_or_def)
qed

lemma parsed_again:
  assumes "parse_http_url_parts lib url = Inr (host, path)" "\<And>s u. url_parse lib s = Inr u \<Longrightarrow> pu_path u \<noteq> []"
  shows "\<exists>u. parse_remote_http_url lib url = Inr u \<and> pu_host_str u = Some host \<and> path_and_query_of u = path"
proof -
  from assms(1) obtain u where u: "parse_remote_http_url lib url = Inr u" "pu_host_str u = Some host"
    by (auto simp: parse_http_url_parts_def and_then_Inr ok_or_Inr)
  then have "pu_path u \<noteq> []"
    using assms(2) by (auto simp: parse_remote_http_url_def and_then_Inr split: if_splits)
  then show ?thesis using u assms(1)
    by (auto simp: parse_http_url_parts_def path_and_query_of_def and_then_Inr ok_or_Inr
        split: option.splits if_splits)
qed

text \<open>The parts of a request that has been built.\<close>

lemma built_request:
  assumes "build_signed_post_request lib net ts cr now_date key key_id inbox_url payload c = (Inr request, c')"
  shows "\<exists>host path date digest priv signature.
    now_date = Inr date \<and> sha256_http_digest cr payload = Inr digest \<and> key = Inr (Some priv) \<and>
    parse_http_url_parts lib (sp_inbox_url request) = Inr (host, path) \<and>
    cr_sign cr priv (join line_feed [target_line ''POST'' path, header_line ''host'' host,
      header_line ''date'' date, header_line ''digest'' digest,
      header_line ''content-type'' ACTIVITYPUB_CONTENT_TYPE]) = Inr signature \<and>
    sp_headers request = [(''Accept'', ACTIVITYPUB_ACCEPT), (''Content-Type'', ACTIVITYPUB_CONTENT_TYPE),
      (''Date'', date), (''Digest'', digest),
      (''Signature'', signature_header key_id (cr_encode cr signature))] \<and>
    sp_body request = payload"
proof -
  have parts: "ok_or (Some x) m = Inr x" for x :: 'a and m :: 'b by simp
  from assms obtain inbox host path where inbox: "parse_remote_http_url lib inbox_url = Inr inbox"
    "parse_http_url_parts lib (url_as_str lib inbox) = Inr (host, path)"
    by (auto simp: build_signed_post_request_def and_then_Inr split: sum.splits prod.splits)
  show ?thesis
    using assms inbox
    by (auto simp: build_signed_post_request_def and_then_Inr ok_or_Inr post_signing_string
        split: sum.splits prod.splits)
qed

lemma host_matches_itself: "activitypub_host_header_matches_url_host host host"
  by (simp add: activitypub_host_header_matches_url_host_def Let_def)

lemma delivery_accepted:
  assumes built: "build_signed_post_request (ve_url env) net ts (ve_crypto env) (Inr date) (Inr (Some priv))
      key_id inbox_url payload c = (Inr request, c')"
    and host: "parse_http_url_parts (ve_url env) (sp_inbox_url request) = Inr (host, path)"
    and keys: "\<And>data s. cr_sign (ve_crypto env) priv data = Inr s \<Longrightarrow>
      cr_verify (ve_crypto env) (rp_public_key_pem actor) data s = Inr ()"
    and base64: "\<And>b. cr_decode (ve_crypto env) (cr_encode (ve_crypto env) b) = Inr b"
      "\<And>b. header_text (cr_encode (ve_crypto env) b)"
    and paths: "\<And>s u. url_parse (ve_url env) s = Inr u \<Longrightarrow> pu_path u \<noteq> []"
    and kept: "header_text key_id" "actor_uri_from_key_id (ve_url env) key_id = Inr uri"
      "find_cached_remote_actor_profile_by_actor_uri (vs_actors st) uri = Some actor"
      "activitypub_key_id_matches_actor key_id uri (rp_actor_uri actor)"
    and date: "parse_activitypub_request_date_ms (ve_dates env) date = Some t"
      "\<bar>ve_now env - t\<bar> \<le> 12 * 60 * 60 * 1000"
    and activity: "extract_activity_actor_uri activity = Inr (rp_actor_uri actor)"
  shows "verify_incoming_activitypub_request env (received_request request host) (sp_body request) activity st =
    (Inr actor, st)"
proof -
  let ?cr = "ve_crypto env" and ?lib = "ve_url env"
  let ?req = "received_request request host"
  obtain digest signature where built': "sha256_http_digest ?cr payload = Inr digest"
    "cr_sign ?cr priv (join line_feed [target_line ''POST'' path, header_line ''host'' host,
      header_line ''date'' date, header_line ''digest'' digest,
      header_line ''content-type'' ACTIVITYPUB_CONTENT_TYPE]) = Inr signature"
    "sp_headers request = [(''Accept'', ACTIVITYPUB_ACCEPT), (''Content-Type'', ACTIVITYPUB_CONTENT_TYPE),
      (''Date'', date), (''Digest'', digest),
      (''Signature'', signature_header key_id (cr_encode ?cr signature))]"
    "sp_body request = payload"
    using built_request [OF built] host by auto
  let ?signed = "join line_feed [target_line ''POST'' path, header_line ''host'' host,
      header_line ''date'' date, header_line ''digest'' digest,
      header_line ''content-type'' ACTIVITYPUB_CONTENT_TYPE]"
  let ?sig = "\<lparr>ps_key_id = key_id, ps_headers = SIGNED_POST_HEADERS, ps_signature = signature\<rparr>"
  note headers = received_headers [OF built'(3), of host]
  obtain url where url: "parse_remote_http_url ?lib (sp_inbox_url request) = Inr url"
    "pu_host_str url = Some host" "path_and_query_of url = path"
    using parsed_again [OF host] paths by blast
  have req: "rq_method ?req = ''POST''" "request_url ?lib ?req = Inr url"
    using url(1) by (simp_all add: received_request_def request_url_def)
  have required: "validate_activitypub_signature_headers ?sig = Inr ()"
    by (simp add: required_headers_validated SIGNED_POST_HEADERS_def)
  have host_ok: "validate_signed_host_header ?lib ?req ?sig = Inr ()"
    by (simp add: validate_signed_host_header_def required_header_def headers req url(2)
        host_matches_itself)
  have signing: "build_signature_signing_string ?lib ?req ?sig = Inr ?signed"
    by (simp add: build_signature_signing_string_def req SIGNED_POST_HEADERS_def required_header_def
        headers url(3))
  have date_ok: "validate_request_date (ve_dates env) (ve_now env) ?req = Inr ()"
    using date by (simp add: validate_request_date_def required_header_def headers
        activitypub_date_within_skew_def ACTIVITYPUB_MAX_DATE_SKEW_MS_def)
  have digest_ok: "validate_request_digest ?cr ?req payload = Inr ()"
    using digest_parts [OF built'(1)] built'(1)
    by (auto simp: validate_request_digest_def required_header_def headers eq_ignore_ascii_case_def)
  have checked: "check_signed_request env ?req payload = Inr (?sig, ?signed)"
    using written_header_read [OF kept(1) base64(2) base64(1), of signature] required host_ok signing
      date_ok digest_ok
    by (simp add: check_signed_request_def required_header_def headers)
  have "resolve_remote_actor_for_signature env key_id ?signed signature st = (Inr actor, st)"
    using kept keys [OF built'(2)]
    by (simp add: resolve_remote_actor_for_signature_def Let_def opt_filter_def
        cached_actor_can_verify_key_def verified_with_def)
  then show ?thesis
    using checked activity built'(4)
    by (simp add: verify_incoming_activitypub_request_def verify_incoming_activitypub_delivery_def)
qed

section \<open>A delivery between two instances\<close>

text \<open>A signature that is the signed string under the key, and an encoding without quotes and commas.\<close>

fun sample_encode :: "string \<Rightarrow> string" where
  "sample_encode [] = []"
| "sample_encode (c # s) =
    (if c = CHR 0x22 then ''%1'' else if c = CHR '','' then ''%2'' else if c = CHR ''%'' then ''%0''
     else [c]) @ sample_encode s"

fun sample_decode :: "string \<Rightarrow> string" where
  "sample_decode (c # d # s) =
    (if c = CHR ''%''
     then (if d = CHR ''1'' then CHR 0x22 else if d = CHR ''2'' then CHR '','' else CHR ''%'') # sample_decode s
     else c # sample_decode (d # s))"
| "sample_decode s = s"

lemma sample_decode_plain: "c \<noteq> CHR ''%'' \<Longrightarrow> sample_decode (c # s) = c # sample_decode s"
  by (cases s) simp_all

lemma sample_decode_encode: "sample_decode (sample_encode s) = s"
  by (induction s) (auto simp: sample_decode_plain)

lemma sample_encode_text: "header_text (sample_encode s)"
  by (induction s) (auto simp: header_text_def)

definition sample_crypto :: crypto where
  "sample_crypto =
    \<lparr>cr_sha256 = (\<lambda>s. Inr s), cr_encode = sample_encode, cr_decode = (\<lambda>s. Inr (sample_decode s)),
     cr_sign = (\<lambda>key data. Inr (key @ data)),
     cr_verify = (\<lambda>key data signature. if signature = key @ data then Inr () else Inl ''bad signature'')\<rparr>"

definition rooted_crate :: url_crate where
  "rooted_crate = sample_crate
    \<lparr>url_parse := (\<lambda>s. Inr \<lparr>pu_scheme = ''https'', pu_username = [], pu_password = None,
        pu_host_str = Some ''a.example'', pu_port = None, pu_path = CHR ''/'' # s, pu_query = None,
        pu_fragment = None\<rparr>),
     url_as_str := (\<lambda>u. tl (pu_path u))\<rparr>"

definition sample_verify_env :: verify_env where
  "sample_verify_env =
    \<lparr>ve_url = rooted_crate, ve_json = (\<lambda>_. Inl ''no JSON''), ve_net = sample_network,
     ve_clock = sample_clock, ve_crypto = sample_crypto,
     ve_dates = \<lparr>dl_rfc2822 = (\<lambda>_. Some 0), dl_rfc3339 = (\<lambda>_. None), dl_asctime = (\<lambda>_. None),
       dl_js = (\<lambda>_. None), dl_at = (\<lambda>_ _ _ _. None)\<rparr>,
     ve_now = 1000\<rparr>"

definition bob :: remote_actor_profile where
  "bob = foreign_profile\<lparr>rp_public_key_pem := ''k'', rp_public_key_id := ''https://a.example/users/bob''\<rparr>"

definition sample_verify_state :: verify_state where
  "sample_verify_state = \<lparr>vs_actors = [bob], vs_caches = \<lparr>dc_l1 = Map.empty, dc_kv = None\<rparr>\<rparr>"

definition sample_signed_post :: "(delivery_failure + signed_post_request) \<times> dns_caches" where
  "sample_signed_post = build_signed_post_request rooted_crate sample_network (sample_clock 0) sample_crypto
    (Inr ''now'') (Inr (Some ''k'')) ''https://a.example/users/bob'' ''inbox'' ''body'' (vs_caches sample_verify_state)"

definition sample_activity :: json where
  "sample_activity = JObject [(''actor'', JString ''https://a.example/users/bob'')]"

lemma sample_post_built:
  "\<exists>request c'. sample_signed_post = (Inr request, c') \<and>
    parse_http_url_parts rooted_crate (sp_inbox_url request) = Inr (''a.example'', ''/inbox'')"
proof -
  have "case fst sample_signed_post of Inl _ \<Rightarrow> False
    | Inr r \<Rightarrow> parse_http_url_parts rooted_crate (sp_inbox_url r) = Inr (''a.example'', ''/inbox'')"
    by code_simp
  then obtain r where "fst sample_signed_post = Inr r"
    "parse_http_url_parts rooted_crate (sp_inbox_url r) = Inr (''a.example'', ''/inbox'')"
    by (auto split: sum.splits)
  then show ?thesis by (metis prod.collapse)
qed

lemma sample_delivery_facts:
  "actor_uri_from_key_id rooted_crate ''https://a.example/users/bob'' = Inr ''https://a.example/users/bob''"
  "rp_actor_uri bob = ''https://a.example/users/bob''"
  "activitypub_key_id_matches_actor ''https://a.example/users/bob'' ''https://a.example/users/bob''
    ''https://a.example/users/bob''"
  "extract_activity_actor_uri sample_activity = Inr ''https://a.example/users/bob''"
  "header_text ''https://a.example/users/bob''"
  by code_simp+

lemma sample_delivery_accepted:
  "\<exists>request c'. sample_signed_post = (Inr request, c') \<and>
    verify_incoming_activitypub_request sample_verify_env (received_request request ''a.example'')
      (sp_body request) sample_activity sample_verify_state = (Inr bob, sample_verify_state)"
proof -
  obtain request c' where post: "sample_signed_post = (Inr request, c')"
    "parse_http_url_parts rooted_crate (sp_inbox_url request) = Inr (''a.example'', ''/inbox'')"
    using sample_post_built by blast
  have env: "ve_url sample_verify_env = rooted_crate" "ve_crypto sample_verify_env = sample_crypto"
    "ve_now sample_verify_env = 1000"
    "parse_activitypub_request_date_ms (ve_dates sample_verify_env) ''now'' = Some 0"
    by (simp_all add: sample_verify_env_def parse_activitypub_request_date_ms_def Let_def)
  have kept: "find_cached_remote_actor_profile_by_actor_uri (vs_actors sample_verify_state)
      ''https://a.example/users/bob'' = Some bob"
    by (simp add: sample_verify_state_def find_cached_remote_actor_profile_by_actor_uri_def
        sample_delivery_facts)
  have "verify_incoming_activitypub_request sample_verify_env (received_request request ''a.example'')
      (sp_body request) sample_activity sample_verify_state = (Inr bob, sample_verify_state)"
  proof (rule delivery_accepted
      [where env = sample_verify_env and uri = "''https://a.example/users/bob''" and t = 0, unfolded env])
    show "build_signed_post_request rooted_crate sample_network (sample_clock 0) sample_crypto
      (Inr ''now'') (Inr (Some ''k'')) ''https://a.example/users/bob'' ''inbox'' ''body''
      (vs_caches sample_verify_state) = (Inr request, c')"
      using post(1) by (simp add: sample_signed_post_def)
  qed (use post(2) kept sample_delivery_facts env sample_decode_encode sample_encode_text in
      \<open>auto simp: sample_crypto_def bob_def rooted_crate_def\<close>)
  then show ?thesis using post(1) by blast
qed

section \<open>Properties\<close>

text \<open>
  C2: A request to an inbox is accepted only if its method and path, its date, of the last
  or the next twelve hours, and the hash of its body are in the string that is signed, and the signature
  is good for the key of the delivering actor; this is the actor kept for the address of the key,
  or one of the same server, just fetched and kept from now on. Only for another actor is the
  activity taken as relayed.
\<close>

theorem accepted_delivery_authentic:
  assumes "in_order (ve_clock env)"
    and "caches_sound (ve_url env) (ve_net env) (ht_l1 (ve_clock env 0)) (vs_caches st)"
    and "\<And>name. rq_header req name = rq_header req (to_ascii_lowercase name)"
    and "verify_incoming_activitypub_delivery env req body activity st = (Inr delivery, st')"
  shows "\<exists>(signature :: parsed_signature_header) signing_string uri.
    request_bound env req body signing_string \<and>
    verified_with env (vd_delivery_actor delivery) signing_string (ps_signature signature) \<and>
    actor_uri_from_key_id (ve_url env) (ps_key_id signature) = Inr uri \<and>
    (find_cached_remote_actor_profile_by_actor_uri (vs_actors st) uri = Some (vd_delivery_actor delivery) \<and>
       vs_actors st' = vs_actors st \<or>
     (\<exists>authority. remote_http_authority uri = Some authority \<and>
        profile_of_authority authority (vd_delivery_actor delivery)) \<and>
       vs_actors st' = upsert_remote_actor (vd_delivery_actor delivery) (vs_actors st)) \<and>
    extract_activity_actor_uri activity = Inr (vd_content_actor_uri delivery) \<and>
    vd_relayed delivery = (rp_actor_uri (vd_delivery_actor delivery) \<noteq> vd_content_actor_uri delivery)"
proof -
  obtain signature signing_string where steps:
    "check_signed_request env req body = Inr (signature, signing_string)"
    "resolve_remote_actor_for_signature env (ps_key_id signature) signing_string (ps_signature signature) st =
      (Inr (vd_delivery_actor delivery), st')"
    "extract_activity_actor_uri activity = Inr (vd_content_actor_uri delivery)"
    "vd_relayed delivery = (rp_actor_uri (vd_delivery_actor delivery) \<noteq> vd_content_actor_uri delivery)"
    using verified_delivery_steps [OF assms(4)] by blast
  note bound = checked_request_bound [OF assms(3) steps(1)]
  note actor = resolved_actor(1) [OF assms(1,2) steps(2)]
  from resolved_actor(2) [OF assms(1,2) steps(2)] obtain uri where
    "actor_uri_from_key_id (ve_url env) (ps_key_id signature) = Inr uri"
    "find_cached_remote_actor_profile_by_actor_uri (vs_actors st) uri = Some (vd_delivery_actor delivery) \<and>
       vs_actors st' = vs_actors st \<or>
     (\<exists>authority. remote_http_authority uri = Some authority \<and>
        profile_of_authority authority (vd_delivery_actor delivery)) \<and>
       vs_actors st' = upsert_remote_actor (vd_delivery_actor delivery) (vs_actors st)" by blast
  with bound actor steps(3,4) show ?thesis
    by - (rule exI [of _ signature], rule exI [of _ signing_string], rule exI [of _ uri],
        simp only: simp_thms)
qed

lemma received_case_free:
  "rq_header (received_request request host) name =
    rq_header (received_request request host) (to_ascii_lowercase name)"
  by (simp add: received_request_def to_ascii_lowercase_idem)

theorem accepted_delivery_authentic_witness:
  "\<exists>request signing_string. fst sample_signed_post = Inr request \<and>
    request_bound sample_verify_env (received_request request ''a.example'') (sp_body request) signing_string"
proof -
  obtain request c' where sample: "sample_signed_post = (Inr request, c')"
    "verify_incoming_activitypub_request sample_verify_env (received_request request ''a.example'')
      (sp_body request) sample_activity sample_verify_state = (Inr bob, sample_verify_state)"
    using sample_delivery_accepted by blast
  then obtain delivery where "verify_incoming_activitypub_delivery sample_verify_env
      (received_request request ''a.example'') (sp_body request) sample_activity sample_verify_state =
      (Inr delivery, sample_verify_state)"
    by (auto simp: verify_incoming_activitypub_request_def split: sum.splits prod.splits if_splits)
  note accepted = accepted_delivery_authentic [OF _ _ received_case_free this]
  have "in_order (ve_clock sample_verify_env)" "caches_sound (ve_url sample_verify_env)
      (ve_net sample_verify_env) (ht_l1 (ve_clock sample_verify_env 0)) (vs_caches sample_verify_state)"
    by (simp_all add: sample_verify_env_def sample_verify_state_def in_order_def hop_in_order_def
        sample_clock_def caches_sound_def answers_from_def kv_entry_def)
  from accepted [OF this] obtain signing_string where "request_bound sample_verify_env
      (received_request request ''a.example'') (sp_body request) signing_string" by blast
  moreover have "fst sample_signed_post = Inr request" by (metis fst_conv sample(1))
  ultimately show ?thesis by blast
qed




text \<open>
  A delivery fails for good when the DNS cannot be asked, whatever its host: the failure of the check
  of its address is taken as the rejection of the address, and is not retried.
\<close>

lemma dns_outage_fails_for_good:
  assumes "\<And>t url. net_doh net t url = Inl e" "url_parse lib (trim inbox_url) = Inr inbox"
    and "pu_scheme inbox = ''https''" "url_host lib inbox = Some (Host_Domain host)"
    and "remote_url_policy_from_parts (pu_scheme inbox) host (has_userinfo inbox) = Inr ()"
  shows "send_signed_activity lib net ts cr now_date key key_id inbox_url payload
      \<lparr>dc_l1 = Map.empty, dc_kv = None\<rparr> =
    (Inl (PermanentFailure, ''remote inbox URL rejected: '' @ e), \<lparr>dc_l1 = Map.empty, dc_kv = None\<rparr>)"
  using assms
  by (simp add: send_signed_activity_def build_signed_post_request_def parse_remote_http_url_def
      validate_remote_fetch_url_def validate_remote_hostname_resolution_def Let_def l1_get_def
      kv_get_allowed_def resolved_records_def resolve_dns_json_ips_def permanent_def)

text \<open>
  The host that is signed is without the port that a client adds to \<open>Host\<close>: the string the receiver
  rebuilds is then another one than the string that was signed.
\<close>

lemma port_is_not_signed:
  "join line_feed [target_line m p, header_line ''host'' host, d, g, t] \<noteq>
   join line_feed [target_line m p, header_line ''host'' (host @ '':'' @ port), d, g, t]"
  by (simp add: header_line_def line_feed_def)

end
