(* ===== verification/Note_Emission.thy ===== *)
theory Note_Emission
  imports Identity Text_Scan Timestamps Activity_Json Local_Status Actor_Authority
begin

text \<open>
  What the instance sends for a status (\<open>activitypub/objects.rs\<close>, \<open>activitypub.rs\<close>,
  \<open>activitypub/updates.rs\<close>): its audience, its tags, the note with its attachments, quote and poll,
  and the activities around it. The tables are lists of rows, as the queries read them; an error of
  the database is not modelled. \<open>None\<close> is the panic of the rendering of a timestamp.
\<close>

section \<open>Tables\<close>

record remote_actor_row =
  ra_actor_uri :: string
  ra_username :: string
  ra_domain :: string
  ra_inbox_uri :: "string option"
  ra_shared_inbox_uri :: "string option"
  ra_updated_at :: string

record media_attachment_row =
  ma_id :: string
  ma_status_id :: "string option"
  ma_object_key :: string
  ma_content_type :: string
  ma_description :: string
  ma_created_at :: string

record status_poll_option_row =
  po_title :: string
  po_votes_count :: int

record status_poll_row =
  sp_id :: string
  sp_status_id :: string
  sp_multiple :: int
  sp_expires_at :: string

record emission_db =
  em_accounts :: "local_account list"
  em_actors :: "remote_actor_row list"
  em_statuses :: "local_status list"
  em_remote_statuses :: "remote_status list"
  em_media :: "media_attachment_row list"
  em_polls :: "status_poll_row list"
  em_poll_options :: "string \<Rightarrow> status_poll_option_row list"
  em_poll_voters :: "string \<Rightarrow> nat"

record 't emission_env =
  en_config :: app_config
  en_parse_url :: "string \<Rightarrow> parsed_url option"
  en_parse_time :: "string \<Rightarrow> 't option"
  en_format_time :: "'t \<Rightarrow> string option"
  en_now :: 't

definition find_account_by_username :: "emission_db \<Rightarrow> string \<Rightarrow> local_account option" where
  "find_account_by_username db username =
    find (\<lambda>a. la_username a = to_ascii_lowercase (trim username)) (em_accounts db)"

definition find_account_by_id :: "emission_db \<Rightarrow> string \<Rightarrow> local_account option" where
  "find_account_by_id db ident = find (\<lambda>a. la_id a = ident) (em_accounts db)"

definition find_status_by_id :: "emission_db \<Rightarrow> string \<Rightarrow> local_status option" where
  "find_status_by_id db ident = find (\<lambda>s. ls_id s = ident) (em_statuses db)"

definition find_status_by_ap_id :: "emission_db \<Rightarrow> string \<Rightarrow> local_status option" where
  "find_status_by_ap_id db uri = find (\<lambda>s. ls_ap_id s = Some uri) (em_statuses db)"

definition find_remote_status_by_id :: "emission_db \<Rightarrow> string \<Rightarrow> remote_status option" where
  "find_remote_status_by_id db ident = find (\<lambda>s. rs_id s = ident) (em_remote_statuses db)"

text \<open>\<open>ORDER BY updated_at DESC, actor_uri ASC LIMIT 1\<close>, and the check of the handle.\<close>

definition newest_first :: "remote_actor_row list \<Rightarrow> remote_actor_row list" where
  "newest_first rows = rev (sort_key ra_updated_at (rev (sort_key ra_actor_uri rows)))"

definition find_remote_actor_by_username_domain ::
    "emission_db \<Rightarrow> string \<Rightarrow> string \<Rightarrow> remote_actor_row option" where
  "find_remote_actor_by_username_domain db username domain =
    (let username = to_ascii_lowercase username; domain = to_ascii_lowercase domain in
     case newest_first (filter (\<lambda>r. to_ascii_lowercase (ra_username r) = username \<and>
         to_ascii_lowercase (ra_domain r) = domain) (em_actors db)) of
       [] \<Rightarrow> None
     | r # _ \<Rightarrow> if remote_actor_cached_handle_allowed (ra_actor_uri r) (ra_username r) (ra_domain r)
           username domain then Some r else None)"

definition find_local_status_by_object_uri ::
    "(string \<Rightarrow> parsed_url option) \<Rightarrow> emission_db \<Rightarrow> app_config \<Rightarrow> string \<Rightarrow> local_status option" where
  "find_local_status_by_object_uri parse_url db config uri =
    (case find_status_by_ap_id db uri of
       Some s \<Rightarrow> Some s
     | None \<Rightarrow>
         Option.bind (local_status_identity_from_uri parse_url config uri) (\<lambda>(username, status_id).
         Option.bind (find_status_by_id db status_id) (\<lambda>s.
         Option.bind (find_account_by_id db (ls_account_id s)) (\<lambda>owner.
           if eq_ignore_ascii_case (la_username owner) username then Some s else None))))"

text \<open>\<open>ORDER BY created_at ASC, id ASC\<close>\<close>

definition find_media_attachments_by_status_id ::
    "emission_db \<Rightarrow> string \<Rightarrow> media_attachment_row list" where
  "find_media_attachments_by_status_id db ident =
    sort_key ma_created_at (sort_key ma_id (filter (\<lambda>m. ma_status_id m = Some ident) (em_media db)))"

definition find_status_poll_by_status_id :: "emission_db \<Rightarrow> string \<Rightarrow> status_poll_row option" where
  "find_status_poll_by_status_id db ident = find (\<lambda>p. sp_status_id p = ident) (em_polls db)"

section \<open>JSON\<close>

text \<open>An object keeps its members in the order of their keys.\<close>

fun set_member :: "string \<Rightarrow> json \<Rightarrow> (string \<times> json) list \<Rightarrow> (string \<times> json) list" where
  "set_member k v [] = [(k, v)]"
| "set_member k v ((l, u) # ms) =
    (if k = l then (k, v) # ms
     else if k < l then (k, v) # (l, u) # ms
     else (l, u) # set_member k v ms)"

fun jset :: "string \<Rightarrow> json \<Rightarrow> json \<Rightarrow> json" where
  "jset k v (JObject ms) = JObject (set_member k v ms)"
| "jset k v j = j"

definition jobject :: "(string \<times> json) list \<Rightarrow> json" where
  "jobject ms = fold (\<lambda>(k, v). jset k v) ms (JObject [])"

definition jstrings :: "string list \<Rightarrow> json" where
  "jstrings xs = JArray (map JString xs)"

section \<open>Audience\<close>

definition is_public_visibility_name :: "string \<Rightarrow> bool" where
  "is_public_visibility_name v \<longleftrightarrow> v = ''public'' \<or> v = ''unlisted''"

definition local_status_ap_id :: "app_config \<Rightarrow> local_account \<Rightarrow> local_status \<Rightarrow> string" where
  "local_status_ap_id config account status =
    unwrap_or (ls_ap_id status)
      (actor_url config (la_username account) @ ''/statuses/'' @ ls_id status)"

definition PUBLIC_COLLECTION :: string where
  "PUBLIC_COLLECTION = ''https://www.w3.org/ns/activitystreams#Public''"

definition activitypub_audiences_for_visibility ::
    "app_config \<Rightarrow> string \<Rightarrow> visibility \<Rightarrow> json \<times> json" where
  "activitypub_audiences_for_visibility config username v =
    (let public = jstrings [PUBLIC_COLLECTION];
         followers = jstrings [actor_url config username @ ''/followers'']
     in case v of
          visibility.Public \<Rightarrow> (public, followers)
        | Unlisted \<Rightarrow> (followers, public)
        | FollowersOnly \<Rightarrow> (followers, JArray [])
        | Direct \<Rightarrow> (JArray [], JArray []))"

fun audience_uri_list :: "json \<Rightarrow> string list" where
  "audience_uri_list (JArray values) = List.map_filter as_str values"
| "audience_uri_list (JString uri) = [uri]"
| "audience_uri_list _ = []"

definition audience_json :: "string list \<Rightarrow> json" where
  "audience_json uris = JArray (map JString uris)"

fun append_unique_uris :: "string list \<Rightarrow> string set \<Rightarrow> string list \<Rightarrow> string list" where
  "append_unique_uris target seen [] = target"
| "append_unique_uris target seen (uri # uris) =
    (if uri \<in> seen then append_unique_uris target seen uris
     else append_unique_uris (target @ [uri]) (insert uri seen) uris)"

definition resolve_reply_actor_uri ::
    "emission_db \<Rightarrow> app_config \<Rightarrow> local_account \<Rightarrow> local_status \<Rightarrow> string option" where
  "resolve_reply_actor_uri db config author status =
    Option.bind (ls_in_reply_to_id status) (\<lambda>reply_id.
      case Option.bind (find_status_by_id db reply_id) (\<lambda>reply.
          opt_filter (\<lambda>a. la_id a \<noteq> la_id author) (find_account_by_id db (ls_account_id reply))) of
        Some reply_account \<Rightarrow> Some (actor_url config (la_username reply_account))
      | None \<Rightarrow> map_option rs_actor_uri (find_remote_status_by_id db reply_id))"

definition addressed_by_handle ::
    "emission_db \<Rightarrow> app_config \<Rightarrow> local_account \<Rightarrow> account_handle \<Rightarrow> string option" where
  "addressed_by_handle db config author h =
    (if is_local_to h (ac_instance_domain config)
     then map_option (\<lambda>a. actor_url config (la_username a))
       (opt_filter (\<lambda>a. la_id a \<noteq> la_id author) (find_account_by_username db (ah_username h)))
     else Option.bind (ah_domain h) (\<lambda>domain. map_option ra_actor_uri
       (find_remote_actor_by_username_domain db (ah_username h) domain)))"

definition collect_addressed_actor_uris ::
    "emission_db \<Rightarrow> app_config \<Rightarrow> local_account \<Rightarrow> local_status \<Rightarrow> string list" where
  "collect_addressed_actor_uris db config author status =
    (let handles = extract_account_handles_from_text (ls_text status) (instance_host config);
         push = (\<lambda>uri recipients. case uri of None \<Rightarrow> recipients | Some u \<Rightarrow> push_new u recipients);
         recipients = fold (\<lambda>h. push (addressed_by_handle db config author h)) handles []
     in push (resolve_reply_actor_uri db config author status) recipients)"

definition activitypub_audiences_for_status ::
    "emission_db \<Rightarrow> app_config \<Rightarrow> local_account \<Rightarrow> local_status \<Rightarrow> json \<times> json" where
  "activitypub_audiences_for_status db config account status =
    (let addressed = collect_addressed_actor_uris db config account status in
     if ls_visibility status = Direct then (audience_json addressed, JArray [])
     else let (base_to, base_cc) = activitypub_audiences_for_visibility config (la_username account)
              (ls_visibility status)
       in if addressed = [] then (base_to, base_cc)
          else let to = audience_uri_list base_to; cc = audience_uri_list base_cc
            in (audience_json (append_unique_uris to (set (to @ cc)) addressed), audience_json cc))"

section \<open>Tags\<close>

definition resolve_reply_object_uri :: "emission_db \<Rightarrow> local_status \<Rightarrow> string option" where
  "resolve_reply_object_uri db status =
    Option.bind (ls_in_reply_to_id status) (\<lambda>reply_id.
      case Option.bind (find_status_by_id db reply_id) ls_ap_id of
        Some ap_id \<Rightarrow> Some ap_id
      | None \<Rightarrow> map_option rs_object_uri (find_remote_status_by_id db reply_id))"

text \<open>The mention a handle becomes: its address and its name.\<close>

definition mention_of_handle ::
    "emission_db \<Rightarrow> app_config \<Rightarrow> account_handle \<Rightarrow> (string \<times> string) option" where
  "mention_of_handle db config h =
    (if is_local_to h (ac_instance_domain config)
     then map_option (\<lambda>a. (actor_url config (la_username a), ''@'' @ la_username a))
       (find_account_by_username db (ah_username h))
     else Option.bind (ah_domain h) (\<lambda>domain. map_option
       (\<lambda>r. (ra_actor_uri r, ''@'' @ ah_username h @ ''@'' @ domain))
       (find_remote_actor_by_username_domain db (ah_username h) domain)))"

definition mention_tag :: "string \<Rightarrow> string option \<Rightarrow> json" where
  "mention_tag href name = jobject ((''type'', JString ''Mention'') # (''href'', JString href) #
    (case name of None \<Rightarrow> [] | Some n \<Rightarrow> [(''name'', JString n)]))"

fun add_mentions ::
    "(string \<times> string option) list \<Rightarrow> string list \<Rightarrow> (string \<times> string option) list" where
  "add_mentions [] seen = []"
| "add_mentions ((href, name) # ms) seen =
    (if href \<in> set seen then add_mentions ms seen else (href, name) # add_mentions ms (href # seen))"

definition note_mentions ::
    "emission_db \<Rightarrow> app_config \<Rightarrow> local_account \<Rightarrow> local_status \<Rightarrow> (string \<times> string option) list" where
  "note_mentions db config author status =
    add_mentions
      (map (\<lambda>(href, name). (href, Some name))
         (List.map_filter (mention_of_handle db config)
           (extract_account_handles_from_text (ls_text status) (instance_host config))) @
       (case resolve_reply_actor_uri db config author status of None \<Rightarrow> [] | Some u \<Rightarrow> [(u, None)])) []"

definition hashtag_tag :: "app_config \<Rightarrow> string \<Rightarrow> json" where
  "hashtag_tag config tag = jobject [(''type'', JString ''Hashtag''),
    (''href'', JString (tag_url config tag)), (''name'', JString (CHR ''#'' # tag))]"

definition build_activitypub_note_tags ::
    "emission_db \<Rightarrow> app_config \<Rightarrow> local_account \<Rightarrow> local_status \<Rightarrow> json list" where
  "build_activitypub_note_tags db config author status =
    map (\<lambda>(href, name). mention_tag href name) (note_mentions db config author status) @
    map (hashtag_tag config) (extract_hashtags_from_text (ls_text status))"

section \<open>The note\<close>

definition quote_context_mapping :: json where
  "quote_context_mapping =
    (let iri = (\<lambda>i. jobject [(''@id'', JString i), (''@type'', JString ''@id'')])
     in jobject [(''_misskey_quote'', iri ''https://misskey-hub.net/ns#_misskey_quote''),
       (''quoteUri'', iri ''http://fedibird.com/ns#quoteUri''),
       (''quoteUrl'', iri ''https://www.w3.org/ns/activitystreams#quoteUrl''),
       (''quoteAuthorization'', iri ''https://w3id.org/fep/044f#quoteAuthorization'')])"

definition ACTIVITYSTREAMS :: json where
  "ACTIVITYSTREAMS = JString ''https://www.w3.org/ns/activitystreams''"

definition voters_context :: json where
  "voters_context = jobject [(''votersCount'', JString ''http://joinmastodon.org/ns#votersCount'')]"

fun note_context :: "bool \<Rightarrow> bool \<Rightarrow> json" where
  "note_context False False = ACTIVITYSTREAMS"
| "note_context True False = JArray [ACTIVITYSTREAMS, quote_context_mapping]"
| "note_context False True = JArray [ACTIVITYSTREAMS, voters_context]"
| "note_context True True = JArray [ACTIVITYSTREAMS, quote_context_mapping, voters_context]"

definition activitypub_media_attachment_type :: "string \<Rightarrow> string" where
  "activitypub_media_attachment_type content_type =
    (if starts_with content_type ''image/'' then ''Image''
     else if starts_with content_type ''video/'' then ''Video''
     else if starts_with content_type ''audio/'' then ''Audio''
     else ''Document'')"

definition media_object_url :: "app_config \<Rightarrow> string \<Rightarrow> string" where
  "media_object_url config object_key =
    trim_end_matches (unwrap_or (ac_media_public_base_url config) (instance_base_url config)) (CHR ''/'') @
    ''/'' @ trim_start_matches object_key ''/''"

definition media_fallback_url :: "app_config \<Rightarrow> string \<Rightarrow> string" where
  "media_fallback_url config media_id = instance_base_url config @ ''/media/'' @ media_id"

definition media_attachment_url :: "app_config \<Rightarrow> string \<Rightarrow> string \<Rightarrow> string" where
  "media_attachment_url config media_id object_key =
    (if ac_media_public_base_url config \<noteq> None then media_object_url config object_key
     else media_fallback_url config media_id)"

definition attachment_json :: "app_config \<Rightarrow> media_attachment_row \<Rightarrow> json" where
  "attachment_json config m = jobject
    [(''type'', JString (activitypub_media_attachment_type (ma_content_type m))),
     (''mediaType'', JString (ma_content_type m)),
     (''url'', JString (media_attachment_url config (ma_id m) (ma_object_key m))),
     (''name'', if ma_description m = [] then JNull else JString (ma_description m))]"

definition quote_authorization_uri :: "string \<Rightarrow> string \<Rightarrow> string" where
  "quote_authorization_uri target key =
    trim_end_matches target (CHR ''/'') @ ''/quote_authorizations/'' @ trim key"

definition quote_authorization_stamp_uri ::
    "(string \<Rightarrow> parsed_url option) \<Rightarrow> emission_db \<Rightarrow> app_config \<Rightarrow> local_status \<Rightarrow> string \<Rightarrow>
     string option" where
  "quote_authorization_stamp_uri parse_url db config quote_status target_uri =
    Option.bind (find_local_status_by_object_uri parse_url db config target_uri) (\<lambda>target.
    Option.bind (find_account_by_id db (ls_account_id target)) (\<lambda>owner.
      Some (quote_authorization_uri (local_status_ap_id config owner target) (ls_id quote_status))))"

text \<open>An option counts at least zero votes.\<close>

definition poll_option_json :: "status_poll_option_row \<Rightarrow> json" where
  "poll_option_json p = jobject [(''type'', JString ''Note''), (''name'', JString (po_title p)),
    (''replies'', jobject [(''type'', JString ''Collection''),
      (''totalItems'', JNumber (show_nat (nat (po_votes_count p))))])]"

definition apply_activitypub_poll_fields ::
    "('t::linorder) emission_env \<Rightarrow> json \<Rightarrow> status_poll_row \<Rightarrow> status_poll_option_row list \<Rightarrow> nat \<Rightarrow>
     bool \<Rightarrow> json option" where
  "apply_activitypub_poll_fields env note poll options voters expired =
    (if options = [] then Some note
     else map_option (\<lambda>time.
         let note = jset ''votersCount'' (JNumber (show_nat voters))
               (jset ''endTime'' (JString time) (jset ''type'' (JString ''Question'') note));
             note = (if expired then jset ''closed'' (JString time) note else note)
         in jset (if sp_multiple poll \<noteq> 0 then ''anyOf'' else ''oneOf'')
              (JArray (map poll_option_json options)) note)
       (timestamp_to_mastodon_iso8601 (en_parse_time env) (en_format_time env) (sp_expires_at poll)))"

definition is_iso_timestamp_in_past :: "('t::linorder) emission_env \<Rightarrow> string \<Rightarrow> bool option" where
  "is_iso_timestamp_in_past env v = map_option (\<lambda>t. t \<le> en_now env) (en_parse_time env v)"

definition note_base ::
    "emission_db \<Rightarrow> app_config \<Rightarrow> local_account \<Rightarrow> local_status \<Rightarrow> string \<Rightarrow>
     media_attachment_row list \<Rightarrow> json" where
  "note_base db config account status published attachments =
    (let note_id = JString (local_status_ap_id config account status);
         (to, cc) = activitypub_audiences_for_status db config account status
     in jobject
       [(''type'', JString ''Note''), (''id'', note_id), (''url'', note_id),
        (''attributedTo'', JString (actor_url config (la_username account))),
        (''content'', JString (ls_content_html status)), (''published'', JString published),
        (''to'', to), (''cc'', cc),
        (''tag'', JArray (build_activitypub_note_tags db config account status)),
        (''attachment'', JArray (map (attachment_json config) attachments))])"

definition note_content :: "local_status \<Rightarrow> json \<Rightarrow> json" where
  "note_content status note =
    (let note = (if ls_spoiler_text status \<noteq> []
           then jset ''sensitive'' (JBool True) (jset ''summary'' (JString (ls_spoiler_text status)) note)
           else jset ''sensitive'' (JBool (ls_sensitive status)) note)
     in case ls_language status of
          None \<Rightarrow> note
        | Some language \<Rightarrow>
            jset ''contentMap'' (jobject [(language, JString (ls_content_html status))]) note)"

definition note_quote ::
    "('t::linorder) emission_env \<Rightarrow> emission_db \<Rightarrow> local_status \<Rightarrow> json \<Rightarrow> json" where
  "note_quote env db status note =
    (case (status_has_active_quote status, ls_quote_of_uri status) of
       (True, Some quote_uri) \<Rightarrow>
         let note = jset ''_misskey_quote'' (JString quote_uri)
               (jset ''quoteUrl'' (JString quote_uri) (jset ''quoteUri'' (JString quote_uri) note))
         in if status_effective_quote_state status = quote_state.Accepted
            then (case quote_authorization_stamp_uri (en_parse_url env) db (en_config env) status quote_uri of
                None \<Rightarrow> note | Some stamp \<Rightarrow> jset ''quoteAuthorization'' (JString stamp) note)
            else note
     | _ \<Rightarrow> note)"

definition note_poll ::
    "('t::linorder) emission_env \<Rightarrow> emission_db \<Rightarrow> local_status \<Rightarrow> bool \<Rightarrow> json \<Rightarrow> json option" where
  "note_poll env db status include_context note =
    (case find_status_poll_by_status_id db (ls_id status) of
       None \<Rightarrow> Some note
     | Some poll \<Rightarrow>
         map_option (\<lambda>note.
             if include_context
             then jset ''@context'' (note_context (status_has_active_quote status) True) note else note)
           (apply_activitypub_poll_fields env note poll (em_poll_options db (sp_id poll))
             (em_poll_voters db (sp_id poll))
             (unwrap_or (is_iso_timestamp_in_past env (sp_expires_at poll)) False)))"

definition build_activitypub_note ::
    "('t::linorder) emission_env \<Rightarrow> emission_db \<Rightarrow> local_account \<Rightarrow> local_status \<Rightarrow> bool \<Rightarrow>
     media_attachment_row list option \<Rightarrow> json option" where
  "build_activitypub_note env db account status include_context attachment_override =
    (let attachments = unwrap_or attachment_override (find_media_attachments_by_status_id db (ls_id status))
     in Option.bind (activitypub_datetime_string (en_parse_time env) (en_format_time env)
         (ls_created_at status)) (\<lambda>published.
       let note = note_base db (en_config env) account status published attachments;
           note = (if include_context
             then jset ''@context'' (note_context (status_has_active_quote status) False) note else note);
           note = note_content status note;
           note = (case resolve_reply_object_uri db status of
             None \<Rightarrow> note | Some uri \<Rightarrow> jset ''inReplyTo'' (JString uri) note)
       in note_poll env db status include_context (note_quote env db status note)))"

section \<open>Activities\<close>

definition create_activity_context :: "local_status \<Rightarrow> json" where
  "create_activity_context status =
    (if status_has_active_quote status then JArray [ACTIVITYSTREAMS, quote_context_mapping]
     else ACTIVITYSTREAMS)"

text \<open>
  The payloads are the documents themselves: their serialisation, which cannot fail on a document,
  is left out. A note without an \<open>id\<close> is an error that does not arise.
\<close>

definition build_create_activity_payload ::
    "('t::linorder) emission_env \<Rightarrow> emission_db \<Rightarrow> local_account \<Rightarrow> local_status \<Rightarrow>
     media_attachment_row list option \<Rightarrow> (string \<times> json) option" where
  "build_create_activity_payload env db account status attachments_override =
    Option.bind (build_activitypub_note env db account status False attachments_override) (\<lambda>note.
    Option.bind (get_str note ''id'') (\<lambda>note_id.
    Option.bind (activitypub_datetime_string (en_parse_time env) (en_format_time env)
        (ls_created_at status)) (\<lambda>published.
      let activity_id = note_id @ ''/activity''
      in Some (activity_id, jobject
        [(''@context'', create_activity_context status), (''type'', JString ''Create''),
         (''id'', JString activity_id),
         (''actor'', JString (actor_url (en_config env) (la_username account))),
         (''published'', JString published),
         (''to'', unwrap_or (jget note ''to'') (JArray [])),
         (''cc'', unwrap_or (jget note ''cc'') (JArray [])), (''object'', note)]))))"

definition build_activitypub_delete_with_published_at ::
    "emission_db \<Rightarrow> app_config \<Rightarrow> local_account \<Rightarrow> local_status \<Rightarrow> string \<Rightarrow> json" where
  "build_activitypub_delete_with_published_at db config account status published_at =
    (let note_id = local_status_ap_id config account status;
         (to, cc) = activitypub_audiences_for_status db config account status
     in jobject [(''@context'', ACTIVITYSTREAMS), (''type'', JString ''Delete''),
       (''id'', JString (note_id @ ''#delete'')),
       (''actor'', JString (actor_url config (la_username account))),
       (''published'', JString published_at), (''to'', to), (''cc'', cc), (''object'', JString note_id)])"

definition status_activity_context :: "json \<Rightarrow> json" where
  "status_activity_context object =
    (if list_ex (\<lambda>k. jget object k \<noteq> None)
        [''_misskey_quote'', ''quoteUri'', ''quoteUrl'', ''quoteAuthorization'']
     then JArray [ACTIVITYSTREAMS, quote_context_mapping] else ACTIVITYSTREAMS)"

definition build_status_update_activity_with_id ::
    "app_config \<Rightarrow> local_account \<Rightarrow> json \<Rightarrow> string \<Rightarrow> string \<Rightarrow> json" where
  "build_status_update_activity_with_id config account object activity_id published_at =
    jobject [(''@context'', status_activity_context object), (''id'', JString activity_id),
      (''type'', JString ''Update''), (''actor'', JString (actor_url config (la_username account))),
      (''published'', JString published_at), (''to'', unwrap_or (jget object ''to'') (JArray [])),
      (''cc'', unwrap_or (jget object ''cc'') (JArray [])), (''object'', object)]"

section \<open>Members of what is built\<close>

definition is_object :: "json \<Rightarrow> bool" where
  "is_object j \<longleftrightarrow> (case j of JObject _ \<Rightarrow> True | _ \<Rightarrow> False)"

lemma map_of_set_member: "map_of (set_member k v ms) = (map_of ms)(k \<mapsto> v)"
  by (induction ms) (auto simp: fun_upd_twist)

lemma is_object_jset [simp]: "is_object (jset k v j) = is_object j"
  by (cases j) (simp_all add: is_object_def)

lemma jget_jset [simp]:
  "jget (jset k v j) l = (if k = l \<and> is_object j then Some v else jget j l)"
  by (cases j) (auto simp: is_object_def map_of_set_member)

lemma is_object_jobject [simp]: "is_object (jobject ms)"
proof -
  have "is_object (fold (\<lambda>(k, v). jset k v) ms j) = is_object j" for j
  proof (induction ms arbitrary: j)
    case (Cons m ms)
    then show ?case by (cases m) simp
  qed simp
  from this [of "JObject []"] show ?thesis by (simp add: jobject_def is_object_def)
qed

lemma jget_jobject: "jget (jobject ms) l = map_of (rev ms) l"
proof -
  have "is_object j \<Longrightarrow> jget (fold (\<lambda>(k, v). jset k v) ms j) l =
      (case map_of (rev ms) l of None \<Rightarrow> jget j l | Some v \<Rightarrow> Some v)" for j
  proof (induction ms arbitrary: j)
    case (Cons m ms)
    then show ?case by (cases m) (simp add: map_add_def split: option.split)
  qed simp
  from this [of "JObject []"] show ?thesis
    by (simp add: jobject_def is_object_def split: option.splits)
qed

text \<open>After the base, a step of the note sets members other than its audience.\<close>

lemma poll_fields_audience:
  assumes "apply_activitypub_poll_fields env note poll options voters expired = Some n" "is_object note"
  shows "is_object n \<and> jget n ''to'' = jget note ''to'' \<and> jget n ''cc'' = jget note ''cc''"
  using assms by (auto simp: apply_activitypub_poll_fields_def Let_def split: if_splits)

lemma note_poll_audience:
  assumes "note_poll env db status c note = Some n" "is_object note"
  shows "is_object n \<and> jget n ''to'' = jget note ''to'' \<and> jget n ''cc'' = jget note ''cc''"
  using assms
  by (auto simp: note_poll_def split: option.splits if_splits dest!: poll_fields_audience)

lemma note_quote_audience:
  "is_object note \<Longrightarrow> is_object (note_quote env db status note) \<and>
   jget (note_quote env db status note) ''to'' = jget note ''to'' \<and>
   jget (note_quote env db status note) ''cc'' = jget note ''cc''"
  by (auto simp: note_quote_def Let_def split: option.splits bool.splits prod.splits)

lemma note_content_audience:
  "is_object note \<Longrightarrow> is_object (note_content status note) \<and>
   jget (note_content status note) ''to'' = jget note ''to'' \<and>
   jget (note_content status note) ''cc'' = jget note ''cc''"
  by (auto simp: note_content_def Let_def split: option.splits)

lemma note_base_audience:
  "is_object (note_base db config account status published attachments) \<and>
   jget (note_base db config account status published attachments) ''to'' =
     Some (fst (activitypub_audiences_for_status db config account status)) \<and>
   jget (note_base db config account status published attachments) ''cc'' =
     Some (snd (activitypub_audiences_for_status db config account status))"
  by (simp add: note_base_def Let_def jget_jobject split: prod.split)

lemma built_note_audience:
  assumes "build_activitypub_note env db account status c attachments = Some n"
  shows "jget n ''to'' = Some (fst (activitypub_audiences_for_status db (en_config env) account status))"
    and "jget n ''cc'' = Some (snd (activitypub_audiences_for_status db (en_config env) account status))"
proof -
  let ?base = "\<lambda>published. note_base db (en_config env) account status published
    (unwrap_or attachments (find_media_attachments_by_status_id db (ls_id status)))"
  obtain published nt where built: "note_poll env db status c (note_quote env db status nt) = Some n"
    and same: "is_object nt \<and> jget nt ''to'' = jget (?base published) ''to'' \<and>
      jget nt ''cc'' = jget (?base published) ''cc''"
  proof -
    obtain published where n: "note_poll env db status c (note_quote env db status
        (let note = ?base published;
             note = (if c then jset ''@context'' (note_context (status_has_active_quote status) False) note
               else note);
             note = note_content status note
         in case resolve_reply_object_uri db status of
              None \<Rightarrow> note | Some uri \<Rightarrow> jset ''inReplyTo'' (JString uri) note)) = Some n"
      using assms by (auto simp: build_activitypub_note_def Let_def bind_eq_Some_conv)
    show thesis
      by (rule that [OF n, of published])
        (use note_base_audience note_content_audience in \<open>auto simp: Let_def split: option.split\<close>)
  qed
  show "jget n ''to'' = Some (fst (activitypub_audiences_for_status db (en_config env) account status))"
    "jget n ''cc'' = Some (snd (activitypub_audiences_for_status db (en_config env) account status))"
    using note_poll_audience [OF built] note_quote_audience [of nt env db status] same
      note_base_audience by auto
qed

section \<open>Audience of what is built\<close>

lemma audience_uris_json [simp]: "audience_uris (audience_json xs) = xs"
  by (induction xs) (simp_all add: audience_json_def)

lemma audience_uri_list_strings [simp]: "audience_uri_list (jstrings xs) = xs"
  by (induction xs) (simp_all add: jstrings_def map_filter_simps)

lemma append_unique_set: "set (append_unique_uris target seen uris) = set target \<union> (set uris - seen)"
  by (induction uris arbitrary: target seen) auto

lemma audience_uris_strings [simp]: "audience_uris (jstrings xs) = xs"
  by (induction xs) (simp_all add: jstrings_def)

definition base_to :: "app_config \<Rightarrow> string \<Rightarrow> visibility \<Rightarrow> string list" where
  "base_to config username v =
    (case v of visibility.Public \<Rightarrow> [PUBLIC_COLLECTION] | Direct \<Rightarrow> []
     | _ \<Rightarrow> [actor_url config username @ ''/followers''])"

definition base_cc :: "app_config \<Rightarrow> string \<Rightarrow> visibility \<Rightarrow> string list" where
  "base_cc config username v =
    (case v of visibility.Public \<Rightarrow> [actor_url config username @ ''/followers'']
     | Unlisted \<Rightarrow> [PUBLIC_COLLECTION] | _ \<Rightarrow> [])"

lemma audiences_base:
  "activitypub_audiences_for_visibility config username v =
    (jstrings (base_to config username v), jstrings (base_cc config username v))"
  by (cases v) (simp_all add: activitypub_audiences_for_visibility_def Let_def base_to_def base_cc_def
      jstrings_def)

text \<open>Who a status is sent to: its collections, and on \<open>to\<close> the actors it addresses.\<close>

lemma status_audience_uris:
  "set (audience_uris (fst (activitypub_audiences_for_status db config account status))) \<union>
     set (base_cc config (la_username account) (ls_visibility status)) =
   set (base_to config (la_username account) (ls_visibility status)) \<union>
     set (base_cc config (la_username account) (ls_visibility status)) \<union>
     set (collect_addressed_actor_uris db config account status)"
  "audience_uris (snd (activitypub_audiences_for_status db config account status)) =
    base_cc config (la_username account) (ls_visibility status)"
proof -
  have direct: "base_to config u Direct = []" "base_cc config u Direct = []" for u
    by (simp_all add: base_to_def base_cc_def)
  show "audience_uris (snd (activitypub_audiences_for_status db config account status)) =
      base_cc config (la_username account) (ls_visibility status)"
    using direct by (simp add: activitypub_audiences_for_status_def audiences_base Let_def)
  show "set (audience_uris (fst (activitypub_audiences_for_status db config account status))) \<union>
     set (base_cc config (la_username account) (ls_visibility status)) =
   set (base_to config (la_username account) (ls_visibility status)) \<union>
     set (base_cc config (la_username account) (ls_visibility status)) \<union>
     set (collect_addressed_actor_uris db config account status)"
    using direct by (auto simp: activitypub_audiences_for_status_def audiences_base Let_def
        append_unique_set)
qed

definition plain_actor :: "string \<Rightarrow> bool" where
  "plain_actor uri \<longleftrightarrow> \<not> is_public_audience_uri uri \<and> \<not> is_followers_collection_uri uri"

lemma followers_uri:
  "is_followers_collection_uri (s @ ''/followers'')" "\<not> is_public_audience_uri (s @ ''/followers'')"
proof -
  have "trim_end_matches (s @ ''/followers'') (CHR ''/'') = s @ ''/followers''"
    by (rule trim_end_matches_id) simp
  then show "is_followers_collection_uri (s @ ''/followers'')"
    by (simp only: is_followers_collection_uri_def ends_with_append)
  have "s @ ''/followers'' \<noteq> t" if "last t \<noteq> CHR ''s''" for t
  proof
    assume "s @ ''/followers'' = t"
    then have "last t = CHR ''s''" by auto
    with that show False by simp
  qed
  then show "\<not> is_public_audience_uri (s @ ''/followers'')"
    by (simp add: is_public_audience_uri_def ACTIVITYSTREAMS_PUBLIC_def ACTIVITYSTREAMS_PUBLIC_SHORT_def)
qed

lemma public_uri: "is_public_audience_uri PUBLIC_COLLECTION" "\<not> is_followers_collection_uri PUBLIC_COLLECTION"
  by code_simp+

section \<open>Addressed actors\<close>

lemma fold_push_set:
  "set (fold (\<lambda>h rs. case f h of None \<Rightarrow> rs | Some u \<Rightarrow> push_new u rs) hs rs) =
    set rs \<union> {u. \<exists>h \<in> set hs. f h = Some u}"
  by (induction hs arbitrary: rs) (auto simp: push_new_def split: option.splits if_splits)

lemma addressed_set:
  "set (collect_addressed_actor_uris db config author status) =
    {u. \<exists>h \<in> set (extract_account_handles_from_text (ls_text status) (instance_host config)).
        addressed_by_handle db config author h = Some u} \<union>
    set_option (resolve_reply_actor_uri db config author status)"
  by (auto simp: collect_addressed_actor_uris_def Let_def fold_push_set push_new_def
      split: option.split if_splits)

lemma add_mentions_hrefs: "fst ` set (add_mentions ms seen) = fst ` set ms - set seen"
  by (induction ms seen rule: add_mentions.induct) (auto split: if_splits)

lemma add_mentions_distinct: "distinct (map fst (add_mentions ms seen))"
proof -
  have "distinct (map fst (add_mentions ms seen)) \<and> fst ` set (add_mentions ms seen) \<inter> set seen = {}"
    by (induction ms seen rule: add_mentions.induct) (auto simp: image_iff)
  then show ?thesis ..
qed

lemma map_filter_set: "set (List.map_filter f xs) = {y. \<exists>x \<in> set xs. f x = Some y}"
  by (induction xs) (auto simp: map_filter_simps split: option.split)

lemma mention_hrefs:
  "fst ` set (note_mentions db config author status) =
    {u. \<exists>h \<in> set (extract_account_handles_from_text (ls_text status) (instance_host config)).
        map_option fst (mention_of_handle db config h) = Some u} \<union>
    set_option (resolve_reply_actor_uri db config author status)"
  unfolding note_mentions_def add_mentions_hrefs
  by (force simp: map_filter_set split: option.split)

text \<open>A handle mentions whom it addresses, and besides only the author.\<close>

lemma mention_addressed:
  "map_option fst (mention_of_handle db config h) =
    (case addressed_by_handle db config author h of
       Some u \<Rightarrow> Some u
     | None \<Rightarrow> if is_local_to h (ac_instance_domain config)
         then map_option (\<lambda>a. actor_url config (la_username a))
           (opt_filter (\<lambda>a. la_id a = la_id author) (find_account_by_username db (ah_username h)))
         else None)"
  by (cases "find_account_by_username db (ah_username h)")
    (auto simp: mention_of_handle_def addressed_by_handle_def opt_filter_def option.map_comp comp_def
      map_option_bind split: option.split)

definition sample_config :: app_config where
  "sample_config = \<lparr>ac_instance_domain = ''x.y'', ac_media_public_base_url = None\<rparr>"

definition sample_env :: "nat emission_env" where
  "sample_env = \<lparr>en_config = sample_config, en_parse_url = (\<lambda>_. None), en_parse_time = (\<lambda>_. None),
    en_format_time = (\<lambda>_. None), en_now = 0\<rparr>"

definition sample_emission_db :: emission_db where
  "sample_emission_db = \<lparr>em_accounts = [], em_actors =
      [\<lparr>ra_actor_uri = ''https://b.c/u/bo'', ra_username = ''bo'', ra_domain = ''b.c'',
        ra_inbox_uri = Some ''https://b.c/u/bo/inbox'', ra_shared_inbox_uri = Some ''https://b.c/inbox'',
        ra_updated_at = []\<rparr>],
    em_statuses = [], em_remote_statuses = [], em_media = [], em_polls = [],
    em_poll_options = (\<lambda>_. []), em_poll_voters = (\<lambda>_. 0)\<rparr>"

definition sample_author :: local_account where
  "sample_author = \<lparr>la_id = ''1'', la_username = ''al'', la_access_email = [], la_display_name = [],
    la_bio_html = [], la_bio_text = [], la_fields = [], la_locked = False, la_bot = False,
    la_discoverable = True, la_default_post_visibility = visibility.Public,
    la_default_quote_policy = quote_approval_policy.Public, la_default_sensitive = False,
    la_default_language = None, la_avatar_object_key = None, la_avatar_content_type = None,
    la_header_object_key = None, la_header_content_type = None, la_private_key_jwk = [],
    la_public_key_pem = [], la_created_at = []\<rparr>"

definition sample_status :: "visibility \<Rightarrow> string \<Rightarrow> local_status" where
  "sample_status v content = \<lparr>ls_id = ''7'', ls_account_id = ''1'', ls_ap_id = None, ls_in_reply_to_id = None,
    ls_in_reply_to_account_id = None, ls_boost_of_uri = None, ls_quote_of_uri = None,
    ls_content_html = [], ls_text = content, ls_spoiler_text = [], ls_visibility = v,
    ls_sensitive = False, ls_language = None, ls_quote_approval_policy = None,
    ls_quote_state = quote_state.Accepted, ls_application_id = None, ls_card_json = None,
    ls_created_at = ''T'', ls_updated_at = None\<rparr>"

section \<open>Properties\<close>

text \<open>
  C11: What is sent is read back: unless an actor it addresses has the address of a collection, the
  visibility that a server reads off the audience of a note is the one its author chose. A Create
  and a Delete name the audience of their note, and the actors are on \<open>to\<close>, none of them lost.
\<close>

theorem emitted_note_reads_back:
  assumes "list_all plain_actor (collect_addressed_actor_uris db (en_config env) account status)"
    and "build_activitypub_note env db account status c attachments = Some n"
    and "build_create_activity_payload env db account status attachments = Some (ident, create)"
  shows "visibility_from_activitypub_object n = visibility_as_str (ls_visibility status) \<and>
    set (collect_addressed_actor_uris db (en_config env) account status) \<subseteq>
      set (collect_activitypub_uris (jget n ''to'') []) \<union> set (collect_activitypub_uris (jget n ''cc'') []) \<and>
    (let delete = build_activitypub_delete_with_published_at db (en_config env) account status at
     in list_all (\<lambda>a. jget a ''to'' = jget n ''to'' \<and> jget a ''cc'' = jget n ''cc'') [create, delete])"
proof -
  let ?c = "en_config env" and ?u = "la_username account" and ?v = "ls_visibility status"
  let ?audiences = "activitypub_audiences_for_status db ?c account status"
  note to_cc = built_note_audience [OF assms(2)]
  note uris = status_audience_uris [of db ?c account status]
  let ?to = "audience_uris (fst ?audiences)" and ?cc = "audience_uris (snd ?audiences)"
  have plain: "plain_actor u" if "u \<in> set (collect_addressed_actor_uris db ?c account status)" for u
    using assms(1) that by (simp add: list_all_iff)
  have base: "set ?to \<subseteq> set (base_to ?c ?u ?v) \<union> set (base_cc ?c ?u ?v) \<union>
      set (collect_addressed_actor_uris db ?c account status)"
    using uris(1) by blast
  have to_sub: "set (base_to ?c ?u ?v) \<subseteq> set ?to"
    by (auto simp: activitypub_audiences_for_status_def audiences_base Let_def append_unique_set
        base_to_def)
  have extra: "set ?to \<subseteq> set (base_to ?c ?u ?v) \<union> set (collect_addressed_actor_uris db ?c account status)"
    by (auto simp: activitypub_audiences_for_status_def audiences_base Let_def append_unique_set)
  have public_to: "audience_values_contains_public ?to \<longleftrightarrow> ?v = visibility.Public"
  proof -
    have "(\<exists>u \<in> set ?to. is_public_audience_uri u) \<longleftrightarrow> (\<exists>u \<in> set (base_to ?c ?u ?v). is_public_audience_uri u)"
      using to_sub extra plain by (auto simp: plain_actor_def)
    then show ?thesis
      using public_uri followers_uri
      by (auto simp: audience_values_contains_public_def list_ex_iff base_to_def split: visibility.splits)
  qed
  have public_cc: "audience_values_contains_public ?cc \<longleftrightarrow> ?v = Unlisted"
    using public_uri followers_uri
    by (cases ?v) (simp_all add: audience_values_contains_public_def uris(2) base_cc_def)
  have followers: "audience_values_contain_followers ?to \<or> audience_values_contain_followers ?cc \<longleftrightarrow>
      ?v \<noteq> Direct"
  proof -
    have "(\<exists>u \<in> set ?to. is_followers_collection_uri u) \<longleftrightarrow>
        (\<exists>u \<in> set (base_to ?c ?u ?v). is_followers_collection_uri u)"
      using to_sub extra plain by (auto simp: plain_actor_def)
    then show ?thesis
      using public_uri followers_uri
      by (cases ?v) (simp_all add: audience_values_contain_followers_def list_ex_iff base_to_def
          uris(2) base_cc_def)
  qed
  have "visibility_from_audience_lists ?to ?cc = ?v"
    by (cases ?v) (simp_all add: visibility_from_audience_lists_def public_to public_cc followers
        visibility_from_activitypub_audiences_def)
  then have "visibility_from_activitypub_object n = visibility_as_str ?v"
    unfolding visibility_from_object_eq by (simp add: to_cc collect_activitypub_uris_def)
  moreover have "set (collect_addressed_actor_uris db ?c account status) \<subseteq> set ?to \<union> set ?cc"
    using uris by auto
  moreover have "jget create ''to'' = jget n ''to''" "jget create ''cc'' = jget n ''cc''"
    using assms(3) to_cc built_note_audience [of env db account status False attachments]
    by (auto simp: build_create_activity_payload_def Let_def bind_eq_Some_conv jget_jobject unwrap_or_def)
  moreover have "jget (build_activitypub_delete_with_published_at db ?c account status at) ''to'' = jget n ''to''"
    "jget (build_activitypub_delete_with_published_at db ?c account status at) ''cc'' = jget n ''cc''"
    by (simp_all add: build_activitypub_delete_with_published_at_def Let_def jget_jobject to_cc split: prod.split)
  ultimately show ?thesis by (simp add: to_cc collect_activitypub_uris_def)
qed

theorem emitted_note_reads_back_witness:
  "case build_activitypub_note sample_env sample_emission_db sample_author
      (sample_status Direct ''hi @bo@b.c'') False None of
     None \<Rightarrow> False | Some n \<Rightarrow> visibility_from_activitypub_object n = ''direct''"
proof -
  let ?s = "sample_status Direct ''hi @bo@b.c''"
  let ?n = "build_activitypub_note sample_env sample_emission_db sample_author ?s False None"
  let ?p = "build_create_activity_payload sample_env sample_emission_db sample_author ?s None"
  have plain: "list_all plain_actor (collect_addressed_actor_uris sample_emission_db
      (en_config sample_env) sample_author ?s)" by code_simp
  have "?n \<noteq> None" "?p \<noteq> None" by code_simp+
  then obtain n i p where "?n = Some n" "?p = Some (i, p)" by auto
  from emitted_note_reads_back [OF plain this] this show ?thesis
    by (simp add: sample_status_def)
qed

text \<open>
  Who is addressed is told so: the mention tags of a note are distinct, name every actor its
  audience addresses, and name nobody else but the author who mentions oneself.
\<close>

theorem mentions_are_addressed:
  "distinct (map fst (note_mentions db config author status)) \<and>
   set (collect_addressed_actor_uris db config author status) \<subseteq> fst ` set (note_mentions db config author status) \<and>
   fst ` set (note_mentions db config author status) \<subseteq>
     set (collect_addressed_actor_uris db config author status) \<union>
     {actor_url config (la_username a) |a. a \<in> set (em_accounts db) \<and> la_id a = la_id author}"
proof -
  let ?handles = "extract_account_handles_from_text (ls_text status) (instance_host config)"
  let ?own = "{actor_url config (la_username a) |a. a \<in> set (em_accounts db) \<and> la_id a = la_id author}"
  have known: "a \<in> set (em_accounts db)" if "find_account_by_username db u = Some a" for u a
    using that by (auto simp: find_account_by_username_def find_Some_iff)
  have "addressed_by_handle db config author h = Some u \<Longrightarrow>
      map_option fst (mention_of_handle db config h) = Some u" for h u
    by (simp add: mention_addressed [of db config h author])
  then have "set (collect_addressed_actor_uris db config author status) \<subseteq>
      fst ` set (note_mentions db config author status)"
    unfolding mention_hrefs addressed_set by blast
  moreover have "addressed_by_handle db config author h = Some u \<or> u \<in> ?own"
    if "map_option fst (mention_of_handle db config h) = Some u" for h u
    using that known unfolding mention_addressed [of db config h author]
    by (auto simp: opt_filter_def split: option.splits if_splits)
  then have "fst ` set (note_mentions db config author status) \<subseteq>
      set (collect_addressed_actor_uris db config author status) \<union> ?own"
    unfolding mention_hrefs addressed_set by blast
  ultimately show ?thesis by (simp add: note_mentions_def add_mentions_distinct)
qed

end
