(* ===== verification/Recipients.thy ===== *)
theory Recipients
  imports Note_Emission Delivery_Queue
begin

text \<open>
  To whom a status is delivered (\<open>delivery/outbox_enqueue.rs\<close>, \<open>delivery/outbound.rs\<close>,
  \<open>domain_blocks.rs\<close>): the inboxes of the addressed remote actors and of the followers, without those
  of blocked domains, and the rows queued for them. A document is queued as its serialisation,
  which is an argument and from which its \<open>id\<close> and \<open>type\<close> are read back.
\<close>

section \<open>Tables\<close>

record follower_row =
  fw_account_id :: string
  fw_actor_uri :: string
  fw_inbox_uri :: string
  fw_shared_inbox_uri :: "string option"

record domain_block_row =
  db_account_id :: string
  db_domain :: string

record recipients_db =
  rd_emission :: emission_db
  rd_followers :: "follower_row list"
  rd_domain_blocks :: "domain_block_row list"

section \<open>Domain blocks\<close>

datatype domain_block_error = DomainBlank | DomainInvalid

text \<open>A domain with white space inside is not one word.\<close>

definition normalize_domain_block_value :: "string option \<Rightarrow> domain_block_error + string" where
  "normalize_domain_block_value v =
    (case trimmed_option v of
       None \<Rightarrow> Inl DomainBlank
     | Some domain \<Rightarrow>
         if split_whitespace domain \<noteq> [domain] then Inl DomainInvalid
         else Inr (to_ascii_lowercase domain))"

definition normalize_blocked_instance_domain :: "string \<Rightarrow> string option" where
  "normalize_blocked_instance_domain domain =
    (let normalized = to_ascii_lowercase (trim_start_matches (trim domain) ''@'') in
     if normalized = [] \<or> CHR ''/'' \<in> set normalized then None else Some normalized)"

definition insert_account_domain_block ::
    "string \<Rightarrow> string \<Rightarrow> domain_block_row list \<Rightarrow> domain_block_row list" where
  "insert_account_domain_block account domain rows =
    push_new \<lparr>db_account_id = account, db_domain = domain\<rparr> rows"

definition delete_account_domain_block ::
    "string \<Rightarrow> string \<Rightarrow> domain_block_row list \<Rightarrow> domain_block_row list" where
  "delete_account_domain_block account domain rows =
    filter (\<lambda>r. \<not> (db_account_id r = account \<and> db_domain r = domain)) rows"

definition list_all_account_domain_blocks :: "domain_block_row list \<Rightarrow> string \<Rightarrow> string list" where
  "list_all_account_domain_blocks rows account =
    map db_domain (filter (\<lambda>r. db_account_id r = account) rows)"

text \<open>\<open>host.ends_with(".domain")\<close>\<close>

definition host_blocked_by :: "string \<Rightarrow> string \<Rightarrow> bool" where
  "host_blocked_by host blocked \<longleftrightarrow>
    (let blocked = to_ascii_lowercase (trim blocked) in
     blocked \<noteq> [] \<and> (host = blocked \<or> ends_with host (CHR ''.'' # blocked)))"

definition delivery_inbox_blocked_by_domains ::
    "(string \<Rightarrow> parsed_url option) \<Rightarrow> string \<Rightarrow> string list \<Rightarrow> bool" where
  "delivery_inbox_blocked_by_domains parse_url inbox blocked_domains \<longleftrightarrow>
    (if blocked_domains = [] then False
     else case Option.bind (parse_url inbox) pu_host_str of
         None \<Rightarrow> False
       | Some host \<Rightarrow> list_ex (host_blocked_by (to_ascii_lowercase host)) blocked_domains)"

definition filter_delivery_inboxes_for_domain_blocks ::
    "(string \<Rightarrow> parsed_url option) \<Rightarrow> string list \<Rightarrow> string list \<Rightarrow> string list" where
  "filter_delivery_inboxes_for_domain_blocks parse_url inboxes blocked_domains =
    filter (\<lambda>inbox. \<not> delivery_inbox_blocked_by_domains parse_url inbox blocked_domains) inboxes"

definition domain_block_preview_candidates ::
    "string list \<Rightarrow> string list \<Rightarrow> string option \<Rightarrow> nat \<Rightarrow> string list" where
  "domain_block_preview_candidates known blocked q limit =
    (let blocked = set (map (\<lambda>v. to_ascii_lowercase (trim v)) blocked);
         query = map_option to_ascii_lowercase (trimmed_option q)
     in take limit (filter (\<lambda>d. case query of
            None \<Rightarrow> True | Some needle \<Rightarrow> contains_str (to_ascii_lowercase d) needle)
          (filter (\<lambda>d. to_ascii_lowercase d \<notin> blocked) known)))"

section \<open>Inboxes\<close>

definition load_remote_actor_delivery_inbox :: "emission_db \<Rightarrow> string \<Rightarrow> string option" where
  "load_remote_actor_delivery_inbox db actor_uri =
    Option.bind (find (\<lambda>r. ra_actor_uri r = actor_uri) (em_actors db))
      (\<lambda>r. opt_or (ra_shared_inbox_uri r) (ra_inbox_uri r))"

text \<open>\<open>COALESCE(NULLIF(shared_inbox_uri, ''), inbox_uri)\<close>, each once, in order.\<close>

definition follower_target :: "follower_row \<Rightarrow> string" where
  "follower_target f = unwrap_or (opt_filter (\<lambda>v. v \<noteq> []) (fw_shared_inbox_uri f)) (fw_inbox_uri f)"

definition list_follower_delivery_targets :: "follower_row list \<Rightarrow> string \<Rightarrow> string list" where
  "list_follower_delivery_targets rows account =
    filter (\<lambda>v. trim v \<noteq> [])
      (sort (remdups (map follower_target (filter (\<lambda>f. fw_account_id f = account) rows))))"

definition follower_delivery_inboxes ::
    "'t emission_env \<Rightarrow> recipients_db \<Rightarrow> string \<Rightarrow> string list" where
  "follower_delivery_inboxes env rd account =
    filter_delivery_inboxes_for_domain_blocks (en_parse_url env)
      (list_follower_delivery_targets (rd_followers rd) account)
      (list_all_account_domain_blocks (rd_domain_blocks rd) account)"

definition merge_author_inbox ::
    "'t emission_env \<Rightarrow> recipients_db \<Rightarrow> string \<Rightarrow> string option \<Rightarrow> string list \<Rightarrow> string list" where
  "merge_author_inbox env rd account author_actor_uri inboxes =
    (case Option.bind author_actor_uri (load_remote_actor_delivery_inbox (rd_emission rd)) of
       None \<Rightarrow> inboxes
     | Some author_inbox \<Rightarrow>
         if delivery_inbox_blocked_by_domains (en_parse_url env) author_inbox
             (list_all_account_domain_blocks (rd_domain_blocks rd) account)
         then inboxes
         else if author_inbox \<in> set inboxes then inboxes else inboxes @ [author_inbox])"

fun audience_uri_strings :: "json \<Rightarrow> string list" where
  "audience_uri_strings (JString uri) = [uri]"
| "audience_uri_strings (JArray values) = concat (map audience_uri_strings values)"
| "audience_uri_strings (JObject members) =
    (case Option.bind (map_of members ''id'') as_str of None \<Rightarrow> [] | Some uri \<Rightarrow> [uri])"
| "audience_uri_strings _ = []"

definition is_local_actor_uri :: "'t emission_env \<Rightarrow> string \<Rightarrow> bool" where
  "is_local_actor_uri env uri \<longleftrightarrow>
    local_username_from_actor_uri (en_parse_url env) (en_config env) uri \<noteq> None"

definition push_inbox :: "string option \<Rightarrow> string list \<Rightarrow> string list" where
  "push_inbox inbox inboxes = (case inbox of None \<Rightarrow> inboxes | Some i \<Rightarrow> push_new i inboxes)"

definition remote_addressed_delivery_inboxes ::
    "'t emission_env \<Rightarrow> recipients_db \<Rightarrow> string \<Rightarrow> json list \<Rightarrow> string list" where
  "remote_addressed_delivery_inboxes env rd account audiences =
    filter_delivery_inboxes_for_domain_blocks (en_parse_url env)
      (fold (\<lambda>uri. push_inbox
            (if is_local_actor_uri env uri \<or> is_followers_collection_uri uri \<or> is_public_audience_uri uri
             then None else load_remote_actor_delivery_inbox (rd_emission rd) uri))
          (concat (map audience_uri_strings audiences)) [])
      (list_all_account_domain_blocks (rd_domain_blocks rd) account)"

definition remote_direct_delivery_inboxes ::
    "'t emission_env \<Rightarrow> recipients_db \<Rightarrow> string \<Rightarrow> json \<Rightarrow> string list" where
  "remote_direct_delivery_inboxes env rd account to_audiences =
    remote_addressed_delivery_inboxes env rd account [to_audiences]"

text \<open>The audiences an update reads are arrays or single addresses.\<close>

definition update_audience_uris :: "json \<Rightarrow> string list" where
  "update_audience_uris j = audience_uri_list j"

definition push_open_inbox ::
    "'t emission_env \<Rightarrow> recipients_db \<Rightarrow> string \<Rightarrow> string \<Rightarrow> string list \<Rightarrow> string list" where
  "push_open_inbox env rd account uri inboxes =
    push_inbox (opt_filter (\<lambda>inbox. \<not> delivery_inbox_blocked_by_domains (en_parse_url env) inbox
        (list_all_account_domain_blocks (rd_domain_blocks rd) account))
      (load_remote_actor_delivery_inbox (rd_emission rd) uri)) inboxes"

definition status_update_inboxes ::
    "'t emission_env \<Rightarrow> recipients_db \<Rightarrow> local_account \<Rightarrow> local_status \<Rightarrow> string list" where
  "status_update_inboxes env rd account status =
    (let (to, cc) = activitypub_audiences_for_status (rd_emission rd) (en_config env) account status
     in if ls_visibility status = Direct
        then fold (\<lambda>uri inboxes. if is_local_actor_uri env uri then inboxes
            else push_open_inbox env rd (la_id account) uri inboxes) (update_audience_uris to) []
        else fold (\<lambda>uri inboxes.
            if is_local_actor_uri env uri \<or> is_followers_collection_uri uri \<or> is_public_audience_uri uri
            then inboxes else push_open_inbox env rd (la_id account) uri inboxes)
          (update_audience_uris to @ update_audience_uris cc)
          (follower_delivery_inboxes env rd (la_id account)))"

section \<open>Queueing\<close>

definition describe_outbound_activity :: "json \<Rightarrow> (string \<times> string) option" where
  "describe_outbound_activity payload =
    Option.bind (trimmed_option (get_str payload ''id'')) (\<lambda>activity_id.
    Option.bind (trimmed_option (get_str payload ''type'')) (\<lambda>activity_type.
      Some (activity_id, activity_type)))"

record queue_env =
  qe_to_string :: "json \<Rightarrow> string"
  qe_fresh :: "string \<Rightarrow> string"
  qe_now :: int
  qe_iso_now :: string

text \<open>\<open>None\<close>: an error, or the panic of a timestamp.\<close>

definition enqueue_targeted ::
    "queue_env \<Rightarrow> string \<Rightarrow> string option \<Rightarrow> json \<Rightarrow> string list \<Rightarrow> outbox_table \<Rightarrow> outbox_table option" where
  "enqueue_targeted qe account status_id payload inboxes rows =
    map_option (\<lambda>(activity_id, activity_type).
        enqueue_targeted_outbox_activity (qe_fresh qe) (qe_now qe) account status_id activity_id
          activity_type (qe_to_string qe payload) inboxes rows)
      (describe_outbound_activity payload)"

definition outbox_create_insert ::
    "('t::linorder) emission_env \<Rightarrow> queue_env \<Rightarrow> recipients_db \<Rightarrow> local_account \<Rightarrow> local_status \<Rightarrow>
     media_attachment_row list option \<Rightarrow> string \<Rightarrow> outbox_table \<Rightarrow> outbox_table option" where
  "outbox_create_insert env qe rd account status attachments ident rows =
    (if ls_visibility status = Direct then Some rows
     else Option.bind (build_create_activity_payload env (rd_emission rd) account status attachments)
       (\<lambda>(activity_id, payload). outbox_delivery_insert (qe_now qe) ident (la_id account) (ls_id status)
          activity_id ''Create'' (qe_to_string qe payload) rows))"

definition enqueue_direct_create_activity ::
    "('t::linorder) emission_env \<Rightarrow> queue_env \<Rightarrow> recipients_db \<Rightarrow> local_account \<Rightarrow> local_status \<Rightarrow>
     media_attachment_row list option \<Rightarrow> outbox_table \<Rightarrow> outbox_table option" where
  "enqueue_direct_create_activity env qe rd account status attachments rows =
    (if ls_visibility status \<noteq> Direct then Some rows
     else let (to, _) = activitypub_audiences_for_status (rd_emission rd) (en_config env) account status;
              inboxes = remote_direct_delivery_inboxes env rd (la_id account) to
       in if inboxes = [] then Some rows
          else Option.bind (build_create_activity_payload env (rd_emission rd) account status attachments)
            (\<lambda>(_, payload). enqueue_targeted qe (la_id account) (Some (ls_id status)) payload inboxes rows))"

definition enqueue_addressed_create_activity ::
    "('t::linorder) emission_env \<Rightarrow> queue_env \<Rightarrow> recipients_db \<Rightarrow> local_account \<Rightarrow> local_status \<Rightarrow>
     media_attachment_row list option \<Rightarrow> outbox_table \<Rightarrow> outbox_table option" where
  "enqueue_addressed_create_activity env qe rd account status attachments rows =
    (if ls_visibility status = Direct then Some rows
     else let (to, cc) = activitypub_audiences_for_status (rd_emission rd) (en_config env) account status;
              inboxes = remote_addressed_delivery_inboxes env rd (la_id account) [to, cc]
       in if inboxes = [] then Some rows
          else Option.bind (build_create_activity_payload env (rd_emission rd) account status attachments)
            (\<lambda>(_, payload). enqueue_targeted qe (la_id account) (Some (ls_id status)) payload inboxes rows))"

definition status_delete ::
    "'t emission_env \<Rightarrow> queue_env \<Rightarrow> recipients_db \<Rightarrow> local_account \<Rightarrow> local_status \<Rightarrow> json" where
  "status_delete env qe rd account status =
    build_activitypub_delete_with_published_at (rd_emission rd) (en_config env) account status (qe_iso_now qe)"

definition outbox_delete_insert ::
    "'t emission_env \<Rightarrow> queue_env \<Rightarrow> recipients_db \<Rightarrow> local_account \<Rightarrow> local_status \<Rightarrow> string \<Rightarrow>
     outbox_table \<Rightarrow> outbox_table option" where
  "outbox_delete_insert env qe rd account status ident rows =
    (if ls_visibility status = Direct then Some rows
     else let activity = status_delete env qe rd account status
       in Option.bind (get_str activity ''id'') (\<lambda>activity_id.
         outbox_delivery_insert (qe_now qe) ident (la_id account) (ls_id status) activity_id ''Delete''
           (qe_to_string qe activity) rows))"

definition enqueue_direct_delete_activity ::
    "'t emission_env \<Rightarrow> queue_env \<Rightarrow> recipients_db \<Rightarrow> local_account \<Rightarrow> local_status \<Rightarrow> outbox_table \<Rightarrow>
     outbox_table option" where
  "enqueue_direct_delete_activity env qe rd account status rows =
    (if ls_visibility status \<noteq> Direct then Some rows
     else let (to, _) = activitypub_audiences_for_status (rd_emission rd) (en_config env) account status;
              inboxes = remote_direct_delivery_inboxes env rd (la_id account) to
       in if inboxes = [] then Some rows
          else enqueue_targeted qe (la_id account) (Some (ls_id status))
            (status_delete env qe rd account status) inboxes rows)"

definition enqueue_addressed_delete_activity ::
    "'t emission_env \<Rightarrow> queue_env \<Rightarrow> recipients_db \<Rightarrow> local_account \<Rightarrow> local_status \<Rightarrow> outbox_table \<Rightarrow>
     outbox_table option" where
  "enqueue_addressed_delete_activity env qe rd account status rows =
    (if ls_visibility status = Direct then Some rows
     else let (to, cc) = activitypub_audiences_for_status (rd_emission rd) (en_config env) account status;
              inboxes = remote_addressed_delivery_inboxes env rd (la_id account) [to, cc]
       in if inboxes = [] then Some rows
          else enqueue_targeted qe (la_id account) (Some (ls_id status))
            (status_delete env qe rd account status) inboxes rows)"

text \<open>An update names a fresh identifier of its own.\<close>

definition enqueue_status_update_activity ::
    "('t::linorder) emission_env \<Rightarrow> queue_env \<Rightarrow> recipients_db \<Rightarrow> local_account \<Rightarrow> local_status \<Rightarrow>
     string \<Rightarrow> outbox_table \<Rightarrow> outbox_table option" where
  "enqueue_status_update_activity env qe rd account status entity rows =
    Option.bind (build_activitypub_note env (rd_emission rd) account status False None) (\<lambda>object.
    Option.bind (get_str object ''id'') (\<lambda>object_id.
      let payload = build_status_update_activity_with_id (en_config env) account object
            (object_id @ ''/updates/'' @ entity) (qe_iso_now qe);
          inboxes = status_update_inboxes env rd account status
      in if inboxes = [] then Some rows
         else enqueue_targeted qe (la_id account) (Some (ls_id status)) payload inboxes rows))"

section \<open>Sets of inboxes\<close>

definition open_inbox :: "'t emission_env \<Rightarrow> recipients_db \<Rightarrow> string \<Rightarrow> string \<Rightarrow> bool" where
  "open_inbox env rd account inbox \<longleftrightarrow>
    \<not> delivery_inbox_blocked_by_domains (en_parse_url env) inbox
      (list_all_account_domain_blocks (rd_domain_blocks rd) account)"

definition remote_uri :: "'t emission_env \<Rightarrow> string \<Rightarrow> bool" where
  "remote_uri env uri \<longleftrightarrow> \<not> is_local_actor_uri env uri \<and> plain_actor uri"

lemma fold_push_inbox:
  "set (fold (\<lambda>u. push_inbox (f u)) us is) = set is \<union> {i. \<exists>u \<in> set us. f u = Some i}"
  by (induction us arbitrary: "is") (auto simp: push_inbox_def push_new_def split: option.splits)

lemma addressed_inboxes:
  "set (remote_addressed_delivery_inboxes env rd account audiences) =
    {i. open_inbox env rd account i \<and> (\<exists>u \<in> set (concat (map audience_uri_strings audiences)).
        remote_uri env u \<and> load_remote_actor_delivery_inbox (rd_emission rd) u = Some i)}"
  by (auto simp: remote_addressed_delivery_inboxes_def filter_delivery_inboxes_for_domain_blocks_def
      fold_push_inbox open_inbox_def remote_uri_def plain_actor_def split: if_splits)

lemma fold_skip: "fold (\<lambda>u is. if P u then is else g u is) us acc = fold g (filter (\<lambda>u. \<not> P u) us) acc"
  by (induction us arbitrary: acc) auto

lemma fold_open:
  "set (fold (push_open_inbox env rd account) us is) =
    set is \<union> {i. open_inbox env rd account i \<and>
      (\<exists>u \<in> set us. load_remote_actor_delivery_inbox (rd_emission rd) u = Some i)}"
  unfolding push_open_inbox_def [abs_def] fold_push_inbox
  by (auto simp: open_inbox_def opt_filter_def split: option.splits if_splits)

lemma follower_inboxes_open:
  "i \<in> set (follower_delivery_inboxes env rd account) \<Longrightarrow> open_inbox env rd account i"
  by (simp add: follower_delivery_inboxes_def filter_delivery_inboxes_for_domain_blocks_def open_inbox_def)

lemma audience_strings [simp]:
  "audience_uri_strings (jstrings xs) = xs" "audience_uri_strings (audience_json xs) = xs"
  "audience_uri_strings (JArray []) = []"
  by (induction xs) (simp_all add: jstrings_def audience_json_def)

lemma update_strings [simp]: "update_audience_uris (jstrings xs) = xs"
  by (simp add: update_audience_uris_def)

text \<open>The audiences of a status are lists of addresses.\<close>

lemma status_audience_forms:
  "\<exists>to cc. activitypub_audiences_for_status db config account status = (jstrings to, jstrings cc)"
proof -
  have *: "audience_json = jstrings" "JArray [] = jstrings []"
    by (auto simp: audience_json_def jstrings_def)
  show ?thesis
    unfolding activitypub_audiences_for_status_def audiences_base * by (auto simp: Let_def)
qed

section \<open>Rows queued\<close>

lemma distinct_targets_sub: "set (distinct_targets seen ts) \<subseteq> trim ` set ts"
  by (induction ts arbitrary: seen) (auto simp: Let_def)

lemma insert_or_ignore_sub: "set (insert_or_ignore r rows) \<subseteq> insert r (set rows)"
  by (auto simp: insert_or_ignore_def)

lemma fold_insert_sub: "set (fold insert_or_ignore rs rows) \<subseteq> set rs \<union> set rows"
  by (induction rs arbitrary: rows) (use insert_or_ignore_sub in fastforce)+

lemma enqueued_rows:
  assumes "enqueue_targeted qe account status_id payload inboxes rows = Some rows'" "r \<in> set rows'"
  shows "r \<in> set rows \<or> (\<exists>i \<in> set inboxes. od_target_inbox r = Some (trim i))"
proof -
  obtain aid ty where "rows' = enqueue_targeted_outbox_activity (qe_fresh qe) (qe_now qe) account status_id
      aid ty (qe_to_string qe payload) inboxes rows"
    using assms(1) by (auto simp: enqueue_targeted_def)
  also have "\<dots> = fold insert_or_ignore (map (\<lambda>t. queued_row (qe_now qe) (qe_fresh qe t) account status_id
      aid ty (Some t) (qe_to_string qe payload)) (distinct_targets [] inboxes)) rows"
    by (simp add: enqueue_targeted_outbox_activity_def fold_map comp_def)
  finally show ?thesis
    using assms(2) fold_insert_sub distinct_targets_sub [of "[]" inboxes]
    by (fastforce simp: queued_row_def)
qed

section \<open>Properties\<close>


definition sample_recipients :: recipients_db where
  "sample_recipients = \<lparr>rd_emission = sample_emission_db, rd_followers = [], rd_domain_blocks = []\<rparr>"

definition sample_queue_env :: queue_env where
  "sample_queue_env = \<lparr>qe_to_string = (\<lambda>_. ''{}''), qe_fresh = (\<lambda>t. t), qe_now = 0, qe_iso_now = ''T''\<rparr>"




text \<open>
  A block of a domain is escaped with a dot. It stops the inboxes on the domain and on its
  subdomains, but not on the same host written with a final dot, which the code elsewhere takes for
  the same.
\<close>

theorem domain_block_escaped_by_dot:
  assumes "domain \<noteq> []" "list_all handle_char domain" "to_ascii_lowercase domain = domain"
    and "last domain \<noteq> CHR ''.''"
    and "parse_url inbox = Some u" "pu_host_str u = Some host"
  shows "(host = domain \<longrightarrow> delivery_inbox_blocked_by_domains parse_url inbox [domain]) \<and>
    (host = sub @ ''.'' @ domain \<longrightarrow> delivery_inbox_blocked_by_domains parse_url inbox [domain]) \<and>
    (host = domain @ ''.'' \<longrightarrow> \<not> delivery_inbox_blocked_by_domains parse_url inbox [domain] \<and>
      (is_local_host config u \<longleftrightarrow> domain = instance_host config))"
proof -
  have trim: "trim domain = domain"
    using assms(2) handle_char_plain by (intro trim_id_plain) (auto simp: list_all_iff)
  have block: "delivery_inbox_blocked_by_domains parse_url inbox [domain] \<longleftrightarrow>
      host_blocked_by (to_ascii_lowercase host) domain"
    by (simp add: delivery_inbox_blocked_by_domains_def assms(5,6))
  have hb: "host_blocked_by h domain \<longleftrightarrow> h = domain \<or> ends_with h (CHR ''.'' # domain)" for h
    using assms(1,3) by (simp add: host_blocked_by_def trim)
  have dot: "ascii_lower (CHR ''.'') = CHR ''.''" by (simp add: ascii_lower_def is_ascii_uppercase_def)
  have "\<not> host_blocked_by (domain @ ''.'') domain"
  proof
    assume "host_blocked_by (domain @ ''.'') domain"
    then obtain r where "domain @ ''.'' = r @ CHR ''.'' # domain" by (auto simp: hb ends_with_iff)
    then have "last (domain @ ''.'') = last domain" using assms(1) by simp
    then show False using assms(4) by simp
  qed
  moreover have "host_blocked_by (to_ascii_lowercase (sub @ ''.'' @ domain)) domain"
    using assms(3) dot by (auto simp: hb ends_with_iff to_ascii_lowercase_def)
  moreover have "trim_end_matches (domain @ ''.'') (CHR ''.'') = domain"
    using assms(4) by (simp add: trim_end_matches_def) (metis dropWhile_eq_self_iff hd_rev rev_rev_ident)
  ultimately show ?thesis
    using assms(3,6) dot unfolding block
    by (auto simp: hb is_local_host_def to_ascii_lowercase_def)
qed

definition sample_dotted :: "string \<Rightarrow> parsed_url option" where
  "sample_dotted s = Some \<lparr>pu_scheme = ''https'', pu_username = [], pu_password = None,
    pu_host_str = Some ''evil.example.'', pu_port = None, pu_path = ''/inbox'', pu_query = None,
    pu_fragment = None\<rparr>"

theorem domain_block_escaped_by_dot_witness:
  "\<not> delivery_inbox_blocked_by_domains sample_dotted ''https://evil.example./inbox'' [''evil.example'']"
proof -
  have "list_all handle_char ''evil.example''" "to_ascii_lowercase ''evil.example'' = ''evil.example''"
    by code_simp+
  then show ?thesis
    using domain_block_escaped_by_dot [of "''evil.example''" sample_dotted
        "''https://evil.example./inbox''"]
    by (simp add: sample_dotted_def)
qed

end
