(* ===== verification/Relays.thy ===== *)
theory Relays
  imports Signed_Requests Recipients
begin

text \<open>
  Federation relays (\<open>relays.rs\<close>, \<open>inbox/relay_handlers.rs\<close>): the relays an administrator follows, their
  states, and what becomes of an activity that one server delivers for another. What is stored or
  deleted for a relayed activity is a value, the handlers of contents carry it out. \<open>None\<close> is an error.
\<close>

section \<open>Relays\<close>

definition RELAY_STATE_IDLE :: string where "RELAY_STATE_IDLE = ''idle''"
definition RELAY_STATE_PENDING :: string where "RELAY_STATE_PENDING = ''pending''"
definition RELAY_STATE_ACCEPTED :: string where "RELAY_STATE_ACCEPTED = ''accepted''"
definition RELAY_STATE_REJECTED :: string where "RELAY_STATE_REJECTED = ''rejected''"

record federation_relay_row =
  rl_id :: string
  rl_inbox_url :: string
  rl_actor_uri :: "string option"
  rl_follow_activity_id :: "string option"
  rl_signing_account_id :: string
  rl_state :: string

record relay_db =
  rdb_relays :: "federation_relay_row list"
  rdb_outbox :: outbox_table

definition update_relays ::
    "(federation_relay_row \<Rightarrow> bool) \<Rightarrow> (federation_relay_row \<Rightarrow> federation_relay_row) \<Rightarrow> relay_db \<Rightarrow> relay_db" where
  "update_relays P f db = db\<lparr>rdb_relays := map (\<lambda>r. if P r then f r else r) (rdb_relays db)\<rparr>"

definition find_federation_relay_by_id :: "relay_db \<Rightarrow> string \<Rightarrow> federation_relay_row option" where
  "find_federation_relay_by_id db relay_id = find (\<lambda>r. rl_id r = relay_id) (rdb_relays db)"

definition normalize_relay_inbox_url :: "url_crate \<Rightarrow> string \<Rightarrow> string option" where
  "normalize_relay_inbox_url lib v =
    (let trimmed = trim v in
     if trimmed = [] then None
     else case parse_remote_http_url lib trimmed of
         Inl _ \<Rightarrow> None
       | Inr parsed \<Rightarrow>
           if pu_scheme parsed \<noteq> ''https'' \<and> pu_scheme parsed \<noteq> ''http'' then None
           else Some (url_as_str lib parsed))"

definition list_enabled_relay_inbox_urls ::
    "(string \<Rightarrow> parsed_url option) \<Rightarrow> string list \<Rightarrow> relay_db \<Rightarrow> string list" where
  "list_enabled_relay_inbox_urls parse_url blocked_domains db =
    filter (\<lambda>inbox. \<not> delivery_inbox_blocked_by_domains parse_url inbox blocked_domains)
      (map rl_inbox_url (filter (\<lambda>r. rl_state r = RELAY_STATE_ACCEPTED) (rdb_relays db)))"

definition url_host_lower :: "(string \<Rightarrow> parsed_url option) \<Rightarrow> string \<Rightarrow> string option" where
  "url_host_lower parse_url url =
    map_option to_ascii_lowercase (Option.bind (parse_url url) pu_host_str)"

definition relay_delivery_is_enabled ::
    "(string \<Rightarrow> parsed_url option) \<Rightarrow> relay_db \<Rightarrow> remote_actor_profile \<Rightarrow> bool" where
  "relay_delivery_is_enabled parse_url db delivery_actor \<longleftrightarrow>
    (let actor_uri = rp_actor_uri delivery_actor; actor_host = url_host_lower parse_url actor_uri in
     list_ex (\<lambda>r. rl_actor_uri r = Some actor_uri \<or>
         (case url_host_lower parse_url (rl_inbox_url r) of
            None \<Rightarrow> False | Some inbox_host \<Rightarrow> actor_host = Some inbox_host))
       (filter (\<lambda>r. rl_state r = RELAY_STATE_ACCEPTED) (rdb_relays db)))"

definition relay_follow :: "app_config \<Rightarrow> local_account \<Rightarrow> string \<Rightarrow> (string \<times> json) list" where
  "relay_follow config account follow_activity_id =
    [(''id'', JString follow_activity_id), (''type'', JString ''Follow''),
     (''actor'', JString (actor_url config (la_username account))),
     (''object'', JString ''https://www.w3.org/ns/activitystreams#Public'')]"

definition build_relay_follow_activity :: "app_config \<Rightarrow> local_account \<Rightarrow> string \<Rightarrow> json" where
  "build_relay_follow_activity config account follow_activity_id =
    jobject ((''@context'', JString ''https://www.w3.org/ns/activitystreams'') #
      relay_follow config account follow_activity_id)"

text \<open>\<open>fresh_id\<close> is the random identifier that is generated.\<close>

definition build_relay_undo_follow_activity ::
    "app_config \<Rightarrow> string \<Rightarrow> local_account \<Rightarrow> string \<Rightarrow> json" where
  "build_relay_undo_follow_activity config fresh_id account follow_activity_id =
    (let actor = actor_url config (la_username account) in
     jobject [(''@context'', JString ''https://www.w3.org/ns/activitystreams''),
       (''id'', JString (actor @ ''/relay-undo/'' @ fresh_id)), (''type'', JString ''Undo''),
       (''actor'', JString actor),
       (''object'', jobject (relay_follow config account follow_activity_id))])"

section \<open>Operations of the administrator\<close>

definition create_and_enable_federation_relay ::
    "url_crate \<Rightarrow> app_config \<Rightarrow> queue_env \<Rightarrow> string \<Rightarrow> string \<Rightarrow> local_account \<Rightarrow> string \<Rightarrow> relay_db \<Rightarrow>
     federation_relay_row option \<times> relay_db" where
  "create_and_enable_federation_relay lib config qe relay_id fresh_id admin inbox_url0 db =
    (case normalize_relay_inbox_url lib inbox_url0 of
       None \<Rightarrow> (None, db)
     | Some inbox_url \<Rightarrow>
       let follow_activity_id =
             actor_url config (la_username admin) @ ''/relay-follows/'' @ fresh_id;
           payload = build_relay_follow_activity config admin follow_activity_id
       in if find_federation_relay_by_id db relay_id \<noteq> None then (None, db)
          else let db = db\<lparr>rdb_relays := rdb_relays db @
                   [\<lparr>rl_id = relay_id, rl_inbox_url = inbox_url, rl_actor_uri = None,
                     rl_follow_activity_id = Some follow_activity_id,
                     rl_signing_account_id = la_id admin, rl_state = RELAY_STATE_PENDING\<rparr>]\<rparr>
            in (case enqueue_targeted qe (la_id admin) None payload [inbox_url] (rdb_outbox db) of
                  None \<Rightarrow> (None, db)
                | Some outbox \<Rightarrow>
                    let db = db\<lparr>rdb_outbox := outbox\<rparr> in (find_federation_relay_by_id db relay_id, db)))"

definition disable_federation_relay ::
    "app_config \<Rightarrow> queue_env \<Rightarrow> string \<Rightarrow> (string \<Rightarrow> local_account option) \<Rightarrow> string \<Rightarrow> relay_db \<Rightarrow>
     bool option \<times> relay_db" where
  "disable_federation_relay config qe fresh_id account_by_id relay_id db =
    (case find_federation_relay_by_id db relay_id of
       None \<Rightarrow> (Some False, db)
     | Some relay \<Rightarrow>
       if rl_state relay = RELAY_STATE_IDLE then (Some True, db)
       else (case account_by_id (rl_signing_account_id relay) of
           None \<Rightarrow> (None, db)
         | Some account \<Rightarrow>
           (case (case rl_follow_activity_id relay of
                    None \<Rightarrow> Some (rdb_outbox db)
                  | Some follow_activity_id \<Rightarrow>
                      enqueue_targeted qe (la_id account) None
                        (build_relay_undo_follow_activity config fresh_id account follow_activity_id)
                        [rl_inbox_url relay] (rdb_outbox db)) of
              None \<Rightarrow> (None, db)
            | Some outbox \<Rightarrow>
                (Some True, update_relays (\<lambda>r. rl_id r = relay_id)
                  (\<lambda>r. r\<lparr>rl_state := RELAY_STATE_IDLE, rl_follow_activity_id := None\<rparr>)
                  (db\<lparr>rdb_outbox := outbox\<rparr>)))))"

definition delete_federation_relay ::
    "app_config \<Rightarrow> queue_env \<Rightarrow> string \<Rightarrow> (string \<Rightarrow> local_account option) \<Rightarrow> string \<Rightarrow> relay_db \<Rightarrow>
     bool option \<times> relay_db" where
  "delete_federation_relay config qe fresh_id account_by_id relay_id db =
    (case disable_federation_relay config qe fresh_id account_by_id relay_id db of
       (None, db) \<Rightarrow> (None, db)
     | (Some _, db) \<Rightarrow>
         (Some (list_ex (\<lambda>r. rl_id r = relay_id) (rdb_relays db)),
          db\<lparr>rdb_relays := filter (\<lambda>r. rl_id r \<noteq> relay_id) (rdb_relays db)\<rparr>))"

definition mark_federation_relay_accepted :: "string \<Rightarrow> string \<Rightarrow> relay_db \<Rightarrow> relay_db" where
  "mark_federation_relay_accepted follow_activity_id relay_actor_uri =
    update_relays (\<lambda>r. rl_follow_activity_id r = Some follow_activity_id)
      (\<lambda>r. r\<lparr>rl_state := RELAY_STATE_ACCEPTED, rl_actor_uri := Some relay_actor_uri\<rparr>)"

definition mark_federation_relay_rejected :: "string \<Rightarrow> relay_db \<Rightarrow> relay_db" where
  "mark_federation_relay_rejected follow_activity_id =
    update_relays (\<lambda>r. rl_follow_activity_id r = Some follow_activity_id)
      (\<lambda>r. r\<lparr>rl_state := RELAY_STATE_REJECTED\<rparr>)"

section \<open>Relayed activities\<close>

definition relay_follow_activity_id_from_accept :: "json \<Rightarrow> string option" where
  "relay_follow_activity_id_from_accept activity =
    Option.bind (jget activity ''object'') (\<lambda>object. activity_object_id (Some object))"

text \<open>What is done for a relayed activity beside the table of relays.\<close>

datatype relay_action =
    Relay_Refused
  | Relay_Nothing
  | Relay_Unauthorized
  | Relay_Store string json
  | Relay_Delete string

text \<open>The decision is the same for a Create and for an Update.\<close>

definition handle_relay_content :: "json \<Rightarrow> string \<Rightarrow> relay_action" where
  "handle_relay_content activity content_actor_uri =
    (case jget activity ''object'' of
       Some (JObject members) \<Rightarrow>
         let object = JObject members in
         if \<not> object_has_supported_remote_status_type object then Relay_Nothing
         else if \<not> object_attributed_to_remote_actor object activity content_actor_uri
         then Relay_Unauthorized
         else if \<not> note_targets_public object then Relay_Nothing
         else Relay_Store content_actor_uri object
     | _ \<Rightarrow> Relay_Nothing)"

text \<open>
  \<open>content_actor\<close> is the profile of the content's actor, cached or fetched, by its address; its
  address need not be the one it was loaded by. \<open>None\<close>: it cannot be loaded.
\<close>

definition handle_relay_delivered_activity ::
    "(string \<Rightarrow> parsed_url option) \<Rightarrow> (string \<Rightarrow> remote_actor_profile option) \<Rightarrow> json \<Rightarrow>
     verified_delivery \<Rightarrow> relay_db \<Rightarrow> relay_action option \<times> relay_db" where
  "handle_relay_delivered_activity parse_url content_actor activity delivery db =
    (if \<not> vd_relayed delivery then (Some Relay_Refused, db)
     else if \<not> relay_delivery_is_enabled parse_url db (vd_delivery_actor delivery)
     then (Some Relay_Refused, db)
     else if activitypub_has_type activity ''Accept''
     then (Some Relay_Nothing,
       (case relay_follow_activity_id_from_accept activity of
          Some follow_activity_id \<Rightarrow>
            mark_federation_relay_accepted follow_activity_id
              (rp_actor_uri (vd_delivery_actor delivery)) db
        | None \<Rightarrow> db))
     else if activitypub_has_type activity ''Reject''
     then (Some Relay_Nothing,
       (case relay_follow_activity_id_from_accept activity of
          Some follow_activity_id \<Rightarrow> mark_federation_relay_rejected follow_activity_id db
        | None \<Rightarrow> db))
     else (case content_actor (vd_content_actor_uri delivery) of
         None \<Rightarrow> (None, db)
       | Some actor \<Rightarrow>
         (Some (if activitypub_has_type activity ''Create'' \<or> activitypub_has_type activity ''Update''
            then handle_relay_content activity (rp_actor_uri actor)
            else if activitypub_has_type activity ''Delete'' then Relay_Delete (rp_actor_uri actor)
            else Relay_Nothing), db)))"

section \<open>Runs\<close>

text \<open>Everything that happens to the relays of an instance, in any order.\<close>

datatype relay_event =
    Create_Relay queue_env string string local_account string
  | Disable_Relay queue_env string string
  | Delete_Relay queue_env string string
  | Relay_Delivery json verified_delivery

fun relay_apply ::
    "url_crate \<Rightarrow> app_config \<Rightarrow> (string \<Rightarrow> local_account option) \<Rightarrow> (string \<Rightarrow> parsed_url option) \<Rightarrow>
     (string \<Rightarrow> remote_actor_profile option) \<Rightarrow> relay_event \<Rightarrow> relay_db \<Rightarrow> relay_db" where
  "relay_apply lib config accounts parse_url actors (Create_Relay qe relay_id fresh_id admin inbox) db =
     snd (create_and_enable_federation_relay lib config qe relay_id fresh_id admin inbox db)"
| "relay_apply lib config accounts parse_url actors (Disable_Relay qe fresh_id relay_id) db =
     snd (disable_federation_relay config qe fresh_id accounts relay_id db)"
| "relay_apply lib config accounts parse_url actors (Delete_Relay qe fresh_id relay_id) db =
     snd (delete_federation_relay config qe fresh_id accounts relay_id db)"
| "relay_apply lib config accounts parse_url actors (Relay_Delivery activity delivery) db =
     snd (handle_relay_delivered_activity parse_url actors activity delivery db)"

definition no_relay_accepted :: "relay_db \<Rightarrow> bool" where
  "no_relay_accepted db \<longleftrightarrow> list_all (\<lambda>r. rl_state r \<noteq> RELAY_STATE_ACCEPTED) (rdb_relays db)"

lemmas relay_states =
  RELAY_STATE_IDLE_def RELAY_STATE_PENDING_def RELAY_STATE_ACCEPTED_def RELAY_STATE_REJECTED_def

lemma none_enabled:
  "no_relay_accepted db \<Longrightarrow> \<not> relay_delivery_is_enabled parse_url db actor"
  "no_relay_accepted db \<Longrightarrow> list_enabled_relay_inbox_urls parse_url blocked db = []"
  by (auto simp: no_relay_accepted_def relay_delivery_is_enabled_def list_enabled_relay_inbox_urls_def
      Let_def list_ex_iff list_all_iff)

lemma disable_keeps:
  "no_relay_accepted db \<Longrightarrow>
    no_relay_accepted (snd (disable_federation_relay config qe fresh_id accounts relay_id db))"
  by (auto simp: disable_federation_relay_def no_relay_accepted_def update_relays_def list_all_iff
      relay_states split: option.splits)

lemma delete_keeps:
  assumes "no_relay_accepted db"
  shows "no_relay_accepted (snd (delete_federation_relay config qe fresh_id accounts relay_id db))"
proof -
  obtain r d where "disable_federation_relay config qe fresh_id accounts relay_id db = (r, d)" by force
  then have "no_relay_accepted d" using disable_keeps [OF assms] by (metis snd_conv)
  with \<open>disable_federation_relay config qe fresh_id accounts relay_id db = (r, d)\<close> show ?thesis
    by (cases r) (auto simp: delete_federation_relay_def no_relay_accepted_def list_all_iff)
qed

lemma create_keeps:
  "no_relay_accepted db \<Longrightarrow>
    no_relay_accepted (snd (create_and_enable_federation_relay lib config qe relay_id fresh_id admin inbox db))"
  by (auto simp: create_and_enable_federation_relay_def no_relay_accepted_def Let_def relay_states
      split: option.splits)

lemma relay_apply_keeps:
  "no_relay_accepted db \<Longrightarrow> no_relay_accepted (relay_apply lib config accounts parse_url actors e db)"
  by (cases e)
     (auto simp: create_keeps disable_keeps delete_keeps handle_relay_delivered_activity_def none_enabled)

text \<open>
  C24: A relay is never accepted: from a state without an accepted relay none is reached with one,
  whatever administrators do and relays deliver, for the answer of a relay is looked at only if it
  is delivered for another actor by a relay that has been accepted. So no inbox of a relay is ever
  delivered to, and no relayed activity is let in.
\<close>

theorem no_relay_is_ever_accepted:
  assumes "no_relay_accepted db"
    and "db' = fold (relay_apply lib config accounts parse_url actors) events db"
  shows "list_enabled_relay_inbox_urls parse_url blocked db' = [] \<and>
    fst (handle_relay_delivered_activity parse_url actors activity delivery db') = Some Relay_Refused"
proof -
  have "no_relay_accepted (fold (relay_apply lib config accounts parse_url actors) events db)"
    using assms(1) by (induction events arbitrary: db) (simp_all add: relay_apply_keeps)
  then show ?thesis
    using assms(2) by (simp add: none_enabled handle_relay_delivered_activity_def)
qed

definition sample_relay_delivery :: relay_event where
  "sample_relay_delivery = Relay_Delivery
     (JObject [(''type'', JString ''Accept''), (''object'', JString ''https://h.example/relay-follows/1'')])
     \<lparr>vd_delivery_actor = bob, vd_content_actor_uri = ''https://a.example/users/al'', vd_relayed = True\<rparr>"

definition pending_relay :: relay_db where
  "pending_relay = \<lparr>rdb_relays = [\<lparr>rl_id = ''1'', rl_inbox_url = ''https://a.example/inbox'',
     rl_actor_uri = None, rl_follow_activity_id = Some ''https://h.example/relay-follows/1'',
     rl_signing_account_id = ''1'', rl_state = RELAY_STATE_PENDING\<rparr>], rdb_outbox = []\<rparr>"

theorem no_relay_is_ever_accepted_witness:
  "list_enabled_relay_inbox_urls (\<lambda>_. None) []
     (fold (relay_apply sample_crate sample_config (\<lambda>_. None) (\<lambda>_. None) (\<lambda>_. None))
       [sample_relay_delivery, Delete_Relay sample_queue_env ''2'' ''9''] pending_relay) = []"
proof -
  have "no_relay_accepted pending_relay" by code_simp
  from no_relay_is_ever_accepted [OF this refl] show ?thesis by (rule conjunct1)
qed

end
