(* ===== verification/Inbox_Activities.thy ===== *)
theory Inbox_Activities
  imports Signed_Requests Inbox
begin

text \<open>
  What keeps an activity from being processed twice (\<open>inbox/activity_store.rs\<close>, \<open>inbox.rs\<close>): the rows
  of \<open>inbox_activities\<close> with every statement on them, the processing of a verified activity around
  the handlers of its type, and runs of workers that overlap, are late or die. Times are in seconds.
\<close>

section \<open>Rows\<close>

record inbox_activity_row =
  ia_actor_uri :: string
  ia_activity_id :: string
  ia_activity_type :: string
  ia_created_at :: int
  ia_processed_at :: "int option"

type_synonym inbox_table = "inbox_activity_row list"
type_synonym inbox_key = "string \<times> string"

definition ia_key :: "inbox_activity_row \<Rightarrow> inbox_key" where
  "ia_key r = (ia_actor_uri r, ia_activity_id r)"

definition INBOX_IN_FLIGHT_STALE_SECONDS :: int where "INBOX_IN_FLIGHT_STALE_SECONDS = 15 * 60"

definition ia_stale :: "int \<Rightarrow> inbox_activity_row \<Rightarrow> bool" where
  "ia_stale now r \<longleftrightarrow>
    ia_processed_at r = None \<and> ia_created_at r \<le> now - INBOX_IN_FLIGHT_STALE_SECONDS"

section \<open>Statements\<close>

text \<open>The two statements by which the processing begins; another worker can come between them.\<close>

definition reclaim_inbox_activity :: "int \<Rightarrow> inbox_key \<Rightarrow> inbox_table \<Rightarrow> inbox_table" where
  "reclaim_inbox_activity now key = filter (\<lambda>r. \<not> (ia_key r = key \<and> ia_stale now r))"

definition insert_inbox_activity ::
    "int \<Rightarrow> inbox_key \<Rightarrow> string \<Rightarrow> inbox_table \<Rightarrow> bool \<times> inbox_table" where
  "insert_inbox_activity now key activity_type table =
    (if list_ex (\<lambda>r. ia_key r = key) table then (False, table)
     else (True, table @ [\<lparr>ia_actor_uri = fst key, ia_activity_id = snd key,
       ia_activity_type = activity_type, ia_created_at = now, ia_processed_at = None\<rparr>]))"

definition begin_inbox_activity_processing ::
    "int \<Rightarrow> string \<Rightarrow> string \<Rightarrow> string \<Rightarrow> inbox_table \<Rightarrow> bool \<times> inbox_table" where
  "begin_inbox_activity_processing now actor_uri activity_id activity_type table =
    insert_inbox_activity now (actor_uri, activity_id) activity_type
      (reclaim_inbox_activity now (actor_uri, activity_id) table)"

definition mark_inbox_activity_processed ::
    "int \<Rightarrow> string \<Rightarrow> string \<Rightarrow> inbox_table \<Rightarrow> inbox_table" where
  "mark_inbox_activity_processed now actor_uri activity_id =
    map (\<lambda>r. if ia_key r = (actor_uri, activity_id) then r\<lparr>ia_processed_at := Some now\<rparr> else r)"

definition release_inbox_activity_processing ::
    "string \<Rightarrow> string \<Rightarrow> inbox_table \<Rightarrow> inbox_table" where
  "release_inbox_activity_processing actor_uri activity_id =
    filter (\<lambda>r. \<not> (ia_key r = (actor_uri, activity_id) \<and> ia_processed_at r = None))"

text \<open>
  What the reconciliation looks up: the addresses of the remote statuses, their links, and the remote
  actors. \<open>LIKE\<close> ignores the case of ASCII letters.
\<close>

record stored_remote =
  sr_object_uris :: "string list"
  sr_urls :: "string list"
  sr_actor_uris :: "string list"

definition without_activity :: "string \<Rightarrow> string" where
  "without_activity activity_id = replace_all ''/activity'' [] activity_id"

definition took_effect :: "stored_remote \<Rightarrow> inbox_activity_row \<Rightarrow> bool" where
  "took_effect sr r \<longleftrightarrow>
    (ia_activity_type r = ''Create'' \<and>
       without_activity (ia_activity_id r) \<in> set (sr_object_uris sr)) \<or>
    (ia_activity_type r = ''Update'' \<and>
       (contains_str (to_ascii_lowercase (ia_activity_id r)) ''#updates/'' \<and>
          ia_actor_uri r \<in> set (sr_actor_uris sr) \<or>
        without_activity (ia_activity_id r) \<in> set (sr_object_uris sr) \<or>
        ia_activity_id r \<in> set (sr_object_uris sr))) \<or>
    (ia_activity_type r = ''Delete'' \<and>
       ia_activity_id r \<notin> set (sr_object_uris sr) \<and> ia_activity_id r \<notin> set (sr_urls sr))"

definition lost_create :: "stored_remote \<Rightarrow> inbox_activity_row \<Rightarrow> bool" where
  "lost_create sr r \<longleftrightarrow> ia_activity_type r = ''Create'' \<and>
    without_activity (ia_activity_id r) \<notin> set (sr_object_uris sr)"

text \<open>
  Both statements change at most as many rows as the limit; which, is left to the database:
  \<open>pick\<close> is its choice. The report has the numbers of changed rows.
\<close>

definition reclaim_stale_inbox_activities ::
    "(nat \<Rightarrow> inbox_activity_row list \<Rightarrow> inbox_activity_row list) \<Rightarrow> stored_remote \<Rightarrow> int \<Rightarrow> nat \<Rightarrow>
     inbox_table \<Rightarrow> (nat \<times> nat) \<times> inbox_table" where
  "reclaim_stale_inbox_activities pick sr now limit table =
    (let marked = (\<lambda>r. ia_stale now r \<and>
           r \<in> set (pick limit (filter (\<lambda>r. ia_stale now r \<and> took_effect sr r) table)));
         n_marked = List.length (filter marked table);
         table = map (\<lambda>r. if marked r then r\<lparr>ia_processed_at := Some now\<rparr> else r) table;
         released = (\<lambda>r. ia_stale now r \<and> ia_activity_type r = ''Create'' \<and>
           r \<in> set (pick limit (filter (\<lambda>r. ia_stale now r \<and> lost_create sr r) table)))
     in ((n_marked, List.length (filter released table)), filter (\<lambda>r. \<not> released r) table))"

section \<open>Processing\<close>

definition inbox_activity_type :: "json \<Rightarrow> string" where
  "inbox_activity_type activity = unwrap_or (activitypub_primary_type activity) []"

definition inbox_activity_id :: "json \<Rightarrow> string option" where
  "inbox_activity_id activity = trimmed_option (get_str activity ''id'')"

definition inbox_activity_dedupe_id :: "crypto \<Rightarrow> json \<Rightarrow> string \<Rightarrow> string \<Rightarrow> string + string" where
  "inbox_activity_dedupe_id cr activity remote_actor_uri body =
    (case inbox_activity_id activity of
       Some ident \<Rightarrow> Inr ident
     | None \<Rightarrow> and_then (sha256_http_digest cr body) (\<lambda>digest.
         Inr (''derived:'' @ remote_actor_uri @ '':'' @
              unwrap_or (activitypub_primary_type activity) ''Unknown'' @ '':'' @ digest)))"

definition inbox_activity_ignores_recipient :: "string \<Rightarrow> bool" where
  "inbox_activity_ignores_recipient activity_type \<longleftrightarrow>
    activity_type \<in> {''Accept'', ''Reject'', ''Delete'', ''Add'', ''Remove''}"

text \<open>
  The handlers of the types of activities, over the tables \<open>'s\<close> they change. Those of \<open>Create\<close> and
  \<open>Update\<close> are called with all recipients at once, or with one.
\<close>

type_synonym 's handler = "'s \<Rightarrow> (string + unit) \<times> 's"

record 's inbox_handlers =
  ih_follow :: "local_account \<Rightarrow> 's handler"
  ih_undo :: "local_account \<Rightarrow> 's handler"
  ih_accept :: "'s handler"
  ih_reject :: "'s handler"
  ih_like :: "local_account \<Rightarrow> 's handler"
  ih_create :: "local_account \<Rightarrow> 's handler"
  ih_create_all :: "local_account list \<Rightarrow> 's handler"
  ih_announce :: "local_account \<Rightarrow> 's handler"
  ih_add :: "'s handler"
  ih_remove :: "'s handler"
  ih_update :: "local_account \<Rightarrow> 's handler"
  ih_update_all :: "local_account list \<Rightarrow> 's handler"
  ih_delete :: "'s handler"

definition with_account :: "local_account option \<Rightarrow> (local_account \<Rightarrow> 's handler) \<Rightarrow> 's handler" where
  "with_account account handle s = (case account of Some a \<Rightarrow> handle a s | None \<Rightarrow> (Inr (), s))"

definition dispatch_inbox_activity ::
    "'s inbox_handlers \<Rightarrow> string \<Rightarrow> local_account option \<Rightarrow> 's handler" where
  "dispatch_inbox_activity h activity_type account s =
    (if activity_type = ''Follow'' then with_account account (ih_follow h) s
     else if activity_type = ''Undo'' then with_account account (ih_undo h) s
     else if activity_type = ''Accept'' then ih_accept h s
     else if activity_type = ''Reject'' then ih_reject h s
     else if activity_type = ''Like'' then with_account account (ih_like h) s
     else if activity_type = ''Create'' then with_account account (ih_create h) s
     else if activity_type = ''Announce'' then with_account account (ih_announce h) s
     else if activity_type = ''Add'' then with_account account (\<lambda>_. ih_add h) s
     else if activity_type = ''Remove'' then with_account account (\<lambda>_. ih_remove h) s
     else if activity_type = ''Update'' then with_account account (ih_update h) s
     else if activity_type = ''Delete'' then ih_delete h s
     else (Inr (), s))"

fun dispatch_each :: "(local_account \<Rightarrow> 's handler) \<Rightarrow> local_account list \<Rightarrow> 's handler" where
  "dispatch_each handle [] s = (Inr (), s)"
| "dispatch_each handle (account # accounts) s =
    (case handle account s of
       (Inr _, s) \<Rightarrow> dispatch_each handle accounts s
     | (Inl e, s) \<Rightarrow> (Inl e, s))"

definition handle_for_accounts ::
    "'s inbox_handlers \<Rightarrow> string \<Rightarrow> local_account list \<Rightarrow> 's handler" where
  "handle_for_accounts h activity_type accounts s =
    (if accounts = [] then dispatch_inbox_activity h activity_type None s
     else if activity_type = ''Create'' then ih_create_all h accounts s
     else if activity_type = ''Update'' then ih_update_all h accounts s
     else if inbox_activity_ignores_recipient activity_type
     then dispatch_inbox_activity h activity_type (Some (hd accounts)) s
     else dispatch_each (\<lambda>account. dispatch_inbox_activity h activity_type (Some account)) accounts s)"

datatype inbox_answer = Accepted_202 | Unauthorized_401 | Failed_With string

definition inbox_result_response :: "string + unit \<Rightarrow> inbox_answer" where
  "inbox_result_response result =
    (case result of
       Inr _ \<Rightarrow> Accepted_202
     | Inl message \<Rightarrow> if starts_with message ''activitypub unauthorized:'' then Unauthorized_401
         else Failed_With message)"

definition finish_inbox_activity ::
    "int \<Rightarrow> string \<Rightarrow> string \<Rightarrow> string + unit \<Rightarrow> inbox_table \<Rightarrow> inbox_table" where
  "finish_inbox_activity now actor_uri activity_id result =
    (case result of
       Inr _ \<Rightarrow> mark_inbox_activity_processed now actor_uri activity_id
     | Inl _ \<Rightarrow> release_inbox_activity_processing actor_uri activity_id)"

text \<open>A worker that has the tables to itself from \<open>t0\<close>, when it begins, to \<open>t1\<close>, when it finishes.\<close>

definition process_verified_inbox_activity ::
    "'s inbox_handlers \<Rightarrow> crypto \<Rightarrow> int \<Rightarrow> int \<Rightarrow> local_account list \<Rightarrow> string \<Rightarrow> json \<Rightarrow> string \<Rightarrow>
     inbox_table \<times> 's \<Rightarrow> inbox_answer \<times> inbox_table \<times> 's" where
  "process_verified_inbox_activity h cr t0 t1 accounts body activity actor_uri =
    (\<lambda>(table, s). case inbox_activity_dedupe_id cr activity actor_uri body of
       Inl e \<Rightarrow> (Failed_With e, table, s)
     | Inr activity_id \<Rightarrow>
       (case begin_inbox_activity_processing t0 actor_uri activity_id (inbox_activity_type activity)
              table of
          (False, table) \<Rightarrow> (Accepted_202, table, s)
        | (True, table) \<Rightarrow>
          (case handle_for_accounts h (inbox_activity_type activity) accounts s of
             (result, s) \<Rightarrow> (inbox_result_response result,
               finish_inbox_activity t1 actor_uri activity_id result table, s))))"

section \<open>Runs\<close>

text \<open>
  Workers that overlap. \<open>iw_running\<close> has the activities being processed with the time each was
  begun, \<open>iw_succeeded\<close> those whose handlers have ended well. A worker can die.
\<close>

record inbox_world =
  iw_now :: int
  iw_table :: inbox_table
  iw_running :: "(inbox_key \<times> int) list"
  iw_succeeded :: "inbox_key list"

definition empty_inbox_world :: inbox_world where
  "empty_inbox_world = \<lparr>iw_now = 0, iw_table = [], iw_running = [], iw_succeeded = []\<rparr>"

datatype inbox_run_event =
    Tick nat
  | Reclaim_Key inbox_key
  | Insert_Key inbox_key string
  | Finish nat "string + unit"
  | Die nat
  | Reconcile "nat \<Rightarrow> inbox_activity_row list \<Rightarrow> inbox_activity_row list" stored_remote nat

definition remove_at :: "nat \<Rightarrow> 'a list \<Rightarrow> 'a list" where
  "remove_at i xs = take i xs @ drop (Suc i) xs"

fun inbox_apply :: "inbox_run_event \<Rightarrow> inbox_world \<Rightarrow> inbox_world" where
  "inbox_apply (Tick d) w = w\<lparr>iw_now := iw_now w + int d\<rparr>"
| "inbox_apply (Reclaim_Key key) w =
     w\<lparr>iw_table := reclaim_inbox_activity (iw_now w) key (iw_table w)\<rparr>"
| "inbox_apply (Insert_Key key activity_type) w =
     (case insert_inbox_activity (iw_now w) key activity_type (iw_table w) of
        (True, table) \<Rightarrow> w\<lparr>iw_table := table, iw_running := iw_running w @ [(key, iw_now w)]\<rparr>
      | (False, _) \<Rightarrow> w)"
| "inbox_apply (Finish i result) w =
     (if i < List.length (iw_running w) then
        let key = fst (iw_running w ! i) in
        w\<lparr>iw_table := finish_inbox_activity (iw_now w) (fst key) (snd key) result (iw_table w),
          iw_running := remove_at i (iw_running w),
          iw_succeeded := (if is_ok result then iw_succeeded w @ [key] else iw_succeeded w)\<rparr>
      else w)"
| "inbox_apply (Die i) w = w\<lparr>iw_running := remove_at i (iw_running w)\<rparr>"
| "inbox_apply (Reconcile pick sr limit) w =
     w\<lparr>iw_table := snd (reclaim_stale_inbox_activities pick sr (iw_now w) limit (iw_table w))\<rparr>"

text \<open>A worker is prompt if it does not finish after its record has become stale.\<close>

definition young :: "int \<Rightarrow> inbox_key \<times> int \<Rightarrow> bool" where
  "young now r \<longleftrightarrow> now < snd r + INBOX_IN_FLIGHT_STALE_SECONDS"

fun prompt :: "inbox_run_event \<Rightarrow> inbox_world \<Rightarrow> bool" where
  "prompt (Finish i result) w \<longleftrightarrow> i < List.length (iw_running w) \<longrightarrow> young (iw_now w) (iw_running w ! i)"
| "prompt _ w \<longleftrightarrow> True"

fun prompt_run :: "inbox_run_event list \<Rightarrow> inbox_world \<Rightarrow> bool" where
  "prompt_run [] w \<longleftrightarrow> True"
| "prompt_run (e # es) w \<longleftrightarrow> prompt e w \<and> prompt_run es (inbox_apply e w)"

definition young_keys :: "inbox_world \<Rightarrow> inbox_key list" where
  "young_keys w = map fst (filter (young (iw_now w)) (iw_running w))"

definition holds_claim :: "inbox_table \<Rightarrow> inbox_key \<times> int \<Rightarrow> bool" where
  "holds_claim table x \<longleftrightarrow>
    (\<exists>r \<in> set table. ia_key r = fst x \<and> ia_created_at r = snd x \<and> ia_processed_at r = None)"

definition has_processed :: "inbox_table \<Rightarrow> inbox_key \<Rightarrow> bool" where
  "has_processed table key \<longleftrightarrow> (\<exists>r \<in> set table. ia_key r = key \<and> ia_processed_at r \<noteq> None)"

definition inbox_world_ok :: "inbox_world \<Rightarrow> bool" where
  "inbox_world_ok w \<longleftrightarrow>
    distinct (map ia_key (iw_table w)) \<and> distinct (young_keys w) \<and> distinct (iw_succeeded w) \<and>
    (\<forall>x \<in> set (iw_running w). young (iw_now w) x \<longrightarrow> holds_claim (iw_table w) x) \<and>
    (\<forall>key \<in> set (iw_succeeded w). has_processed (iw_table w) key)"

text \<open>A change of the table that leaves alone the keys and what is not stale keeps the invariant.\<close>

lemma holds_claim_kept:
  assumes "holds_claim table x" "young now x"
    and "\<And>r. r \<in> set table \<Longrightarrow> \<not> ia_stale now r \<Longrightarrow> r \<in> set table'"
  shows "holds_claim table' x"
proof -
  obtain r where r: "r \<in> set table" "ia_key r = fst x" "ia_created_at r = snd x" "ia_processed_at r = None"
    using assms(1) by (auto simp: holds_claim_def)
  moreover have "\<not> ia_stale now r" using r(3) assms(2) by (simp add: young_def ia_stale_def)
  ultimately show ?thesis using assms(3) unfolding holds_claim_def by blast
qed

lemma has_processed_kept:
  assumes "has_processed table key"
    and "\<And>r. r \<in> set table \<Longrightarrow> \<not> ia_stale now r \<Longrightarrow> r \<in> set table'"
  shows "has_processed table' key"
proof -
  obtain r where r: "r \<in> set table" "ia_key r = key" "ia_processed_at r \<noteq> None"
    using assms(1) by (auto simp: has_processed_def)
  moreover have "\<not> ia_stale now r" using r(3) by (simp add: ia_stale_def)
  ultimately show ?thesis using assms(2) unfolding has_processed_def by blast
qed

lemma inbox_ok_table:
  assumes "inbox_world_ok w" "distinct (map ia_key table)"
    and "\<And>r. r \<in> set (iw_table w) \<Longrightarrow> \<not> ia_stale (iw_now w) r \<Longrightarrow> r \<in> set table"
  shows "inbox_world_ok (w\<lparr>iw_table := table\<rparr>)"
proof -
  have "holds_claim table x" if "holds_claim (iw_table w) x" "young (iw_now w) x" for x
    using holds_claim_kept [OF that assms(3)] .
  moreover have "has_processed table key" if "has_processed (iw_table w) key" for key
    using has_processed_kept [OF that assms(3)] .
  ultimately show ?thesis using assms(1,2) by (simp add: inbox_world_ok_def young_keys_def)
qed

lemma distinct_map_filter_keys: "distinct (map f xs) \<Longrightarrow> distinct (map f (filter P xs))"
  by (simp add: distinct_map inj_on_def)

lemma inbox_ok_reconcile:
  assumes "inbox_world_ok w"
  shows "inbox_world_ok (inbox_apply (Reconcile pick sr limit) w)"
proof -
  define marked where "marked = (\<lambda>r. ia_stale (iw_now w) r \<and> r \<in> set (pick limit
    (filter (\<lambda>r. ia_stale (iw_now w) r \<and> took_effect sr r) (iw_table w))))"
  define table where "table = map (\<lambda>r. if marked r then r\<lparr>ia_processed_at := Some (iw_now w)\<rparr> else r)
    (iw_table w)"
  have keys: "map ia_key table = map ia_key (iw_table w)"
    by (simp add: table_def ia_key_def)
  have kept: "r \<in> set table" if "r \<in> set (iw_table w)" "\<not> ia_stale (iw_now w) r" for r
    using that by (force simp: table_def marked_def)
  have "distinct (map ia_key (iw_table w))" using assms by (simp add: inbox_world_ok_def)
  with keys have distinct: "distinct (map ia_key table)" by simp
  show ?thesis
    unfolding inbox_apply.simps reclaim_stale_inbox_activities_def Let_def snd_conv
      marked_def [symmetric] table_def [symmetric]
    by (rule inbox_ok_table [OF assms]) (auto simp: distinct_map_filter_keys [OF distinct] kept)
qed

lemma young_earlier: "young (now + int d) x \<Longrightarrow> young now x"
  by (simp add: young_def)

lemma inbox_ok_tick:
  assumes "inbox_world_ok w"
  shows "inbox_world_ok (inbox_apply (Tick d) w)"
proof -
  have "filter (young (iw_now w + int d)) (iw_running w) =
      filter (young (iw_now w + int d)) (filter (young (iw_now w)) (iw_running w))"
    by (auto dest: young_earlier intro!: filter_cong)
  moreover have "distinct (map fst (filter (young (iw_now w)) (iw_running w)))"
    using assms by (simp add: inbox_world_ok_def young_keys_def)
  ultimately have "distinct (map fst (filter (young (iw_now w + int d)) (iw_running w)))"
    by (simp only: distinct_map_filter_keys)
  then have "distinct (young_keys (inbox_apply (Tick d) w))" by (simp add: young_keys_def)
  with assms show ?thesis by (auto simp: inbox_world_ok_def dest: young_earlier)
qed

lemma holds_claim_key: "holds_claim table x \<Longrightarrow> fst x \<in> ia_key ` set table"
  unfolding holds_claim_def by (metis imageI)

lemma holds_claim_append: "holds_claim table x \<Longrightarrow> holds_claim (table @ rows) x"
  by (auto simp: holds_claim_def)

lemma has_processed_append: "has_processed table key \<Longrightarrow> has_processed (table @ rows) key"
  by (auto simp: has_processed_def)

lemma inbox_ok_insert:
  assumes "inbox_world_ok w"
  shows "inbox_world_ok (inbox_apply (Insert_Key key activity_type) w)"
proof (cases "list_ex (\<lambda>r. ia_key r = key) (iw_table w)")
  case True
  then show ?thesis using assms by (simp add: insert_inbox_activity_def)
next
  case False
  then have new: "key \<notin> ia_key ` set (iw_table w)" by (auto simp: list_ex_iff)
  have "key \<notin> set (young_keys w)"
    using assms new by (auto simp: inbox_world_ok_def young_keys_def dest: holds_claim_key)
  with False new assms show ?thesis
    by (auto simp: insert_inbox_activity_def inbox_world_ok_def young_keys_def holds_claim_append
        has_processed_append) (auto simp: holds_claim_def ia_key_def)
qed

lemma set_remove_at: "set (remove_at i xs) \<subseteq> set xs"
  by (auto simp: remove_at_def dest: in_set_takeD in_set_dropD)

lemma split_at: "i < List.length xs \<Longrightarrow> xs = take i xs @ xs ! i # drop (Suc i) xs"
  by (rule id_take_nth_drop)

lemma filter_remove_at:
  "distinct (map f (filter P xs)) \<Longrightarrow> distinct (map f (filter P (remove_at i xs)))"
proof (cases "i < List.length xs")
  case True
  assume "distinct (map f (filter P xs))"
  then have "distinct (map f (filter P (take i xs @ xs ! i # drop (Suc i) xs)))"
    using split_at [OF True] by simp
  then show ?thesis by (auto simp: remove_at_def split: if_splits)
qed (simp add: remove_at_def)

lemma inbox_ok_die:
  assumes "inbox_world_ok w"
  shows "inbox_world_ok (w\<lparr>iw_running := remove_at i (iw_running w)\<rparr>)"
  using assms set_remove_at [of i "iw_running w"] filter_remove_at [of fst _ "iw_running w" i]
  unfolding inbox_world_ok_def young_keys_def by auto

lemma distinct_keys_eq:
  "distinct (map f xs) \<Longrightarrow> x \<in> set xs \<Longrightarrow> y \<in> set xs \<Longrightarrow> f x = f y \<Longrightarrow> x = y"
  by (auto simp: distinct_map inj_on_def)

text \<open>Without the claim at \<open>i\<close>, no young claim has its key.\<close>

lemma removed_claim:
  assumes "distinct (map fst (filter P xs))" "i < List.length xs" "P (xs ! i)"
    and "x \<in> set (remove_at i xs)" "P x"
  shows "fst x \<noteq> fst (xs ! i)"
proof -
  have "distinct (map fst (filter P (take i xs @ xs ! i # drop (Suc i) xs)))"
    using assms(1) split_at [OF assms(2)] by simp
  then have "fst (xs ! i) \<notin> fst ` set (filter P (take i xs)) \<union> fst ` set (filter P (drop (Suc i) xs))"
    using assms(3) by simp
  moreover have "x \<in> set (filter P (take i xs)) \<union> set (filter P (drop (Suc i) xs))"
    using assms(4,5) by (auto simp: remove_at_def)
  ultimately show ?thesis by (metis Un_iff imageI)
qed

lemma other_key_kept:
  assumes "\<And>r. r \<in> set table \<Longrightarrow> ia_key r \<noteq> key \<Longrightarrow> r \<in> set table'"
  shows "holds_claim table x \<Longrightarrow> fst x \<noteq> key \<Longrightarrow> holds_claim table' x"
    and "has_processed table k \<Longrightarrow> k \<noteq> key \<Longrightarrow> has_processed table' k"
  using assms unfolding holds_claim_def has_processed_def by metis+

lemma finish_others:
  "r \<in> set table \<Longrightarrow> ia_key r \<noteq> key \<Longrightarrow>
    r \<in> set (finish_inbox_activity now (fst key) (snd key) result table)"
  by (cases result) (force simp: finish_inbox_activity_def mark_inbox_activity_processed_def
      release_inbox_activity_processing_def)+

lemma finish_keys:
  "distinct (map ia_key table) \<Longrightarrow>
    distinct (map ia_key (finish_inbox_activity now (fst key) (snd key) result table))"
proof (cases result)
  case (Inr u)
  have "map ia_key (mark_inbox_activity_processed now (fst key) (snd key) table) = map ia_key table"
    by (simp add: mark_inbox_activity_processed_def ia_key_def)
  then show "distinct (map ia_key table) \<Longrightarrow> ?thesis" by (simp add: Inr finish_inbox_activity_def)
qed (simp add: finish_inbox_activity_def release_inbox_activity_processing_def distinct_map_filter_keys)

lemma finish_success:
  "r \<in> set table \<Longrightarrow> ia_key r = key \<Longrightarrow>
    has_processed (mark_inbox_activity_processed now (fst key) (snd key) table) key"
  unfolding has_processed_def mark_inbox_activity_processed_def
  by (rule bexI [of _ "r\<lparr>ia_processed_at := Some now\<rparr>"])
     (auto simp: ia_key_def intro!: rev_image_eqI)

lemma inbox_ok_finish:
  assumes ok: "inbox_world_ok w" and prompt: "prompt (Finish i result) w"
  shows "inbox_world_ok (inbox_apply (Finish i result) w)"
proof (cases "i < List.length (iw_running w)")
  case True
  define x where "x = iw_running w ! i"
  define table where "table = finish_inbox_activity (iw_now w) (fst (fst x)) (snd (fst x)) result (iw_table w)"
  have young: "young (iw_now w) x" using prompt True by (simp add: x_def)
  have "x \<in> set (iw_running w)" using True by (simp add: x_def)
  then have "holds_claim (iw_table w) x" using ok young by (simp add: inbox_world_ok_def)
  then obtain r where r: "r \<in> set (iw_table w)" "ia_key r = fst x" "ia_processed_at r = None"
    by (auto simp: holds_claim_def)
  have new: "fst x \<notin> set (iw_succeeded w)"
  proof
    assume "fst x \<in> set (iw_succeeded w)"
    then obtain r' where "r' \<in> set (iw_table w)" "ia_key r' = fst x" "ia_processed_at r' \<noteq> None"
      using ok unfolding inbox_world_ok_def has_processed_def by blast
    with r ok show False using distinct_keys_eq [of ia_key "iw_table w" r r']
      by (auto simp: inbox_world_ok_def)
  qed
  have "r \<in> set table" if "r \<in> set (iw_table w)" "ia_key r \<noteq> fst x" for r
    unfolding table_def by (rule finish_others [OF that])
  note others = other_key_kept [OF this]
  have keys: "distinct (map ia_key table)"
    using ok finish_keys by (simp add: table_def inbox_world_ok_def)
  have claims: "holds_claim table y" if "y \<in> set (remove_at i (iw_running w))" "young (iw_now w) y" for y
  proof (rule others(1))
    show "holds_claim (iw_table w) y"
      using ok that(2) subsetD [OF set_remove_at that(1)] by (simp add: inbox_world_ok_def)
    show "fst y \<noteq> fst x"
      using removed_claim [of "young (iw_now w)" "iw_running w" i y] ok True young that
      by (simp add: x_def inbox_world_ok_def young_keys_def)
  qed
  have processed: "has_processed table k" if "k \<in> set (iw_succeeded w)" for k
  proof (rule others(2))
    show "has_processed (iw_table w) k" using ok that by (simp add: inbox_world_ok_def)
    show "k \<noteq> fst x" using that new by auto
  qed
  have succeeded: "has_processed table (fst x)" if "is_ok result"
    using that finish_success [OF r(1,2)]
    by (cases result) (simp_all add: table_def finish_inbox_activity_def)
  have "distinct (map fst (filter (young (iw_now w)) (remove_at i (iw_running w))))"
    using ok by (simp add: filter_remove_at inbox_world_ok_def young_keys_def)
  with keys claims processed succeeded new ok True show ?thesis
    by (auto simp: inbox_world_ok_def young_keys_def Let_def x_def [symmetric] table_def [symmetric])
qed (use ok in simp)

lemma inbox_apply_ok:
  assumes "inbox_world_ok w" "prompt e w"
  shows "inbox_world_ok (inbox_apply e w)"
proof (cases e)
  case (Reclaim_Key key)
  have "distinct (map ia_key (reclaim_inbox_activity (iw_now w) key (iw_table w)))"
    using assms(1) by (simp add: inbox_world_ok_def reclaim_inbox_activity_def distinct_map_filter_keys)
  then show ?thesis
    unfolding Reclaim_Key inbox_apply.simps
    by (rule inbox_ok_table [OF assms(1)]) (simp add: reclaim_inbox_activity_def)
qed (use assms in \<open>simp_all only: inbox_ok_tick inbox_ok_insert inbox_ok_finish inbox_ok_reconcile
    inbox_apply.simps(5) inbox_ok_die\<close>)

lemma inbox_run_ok:
  "inbox_world_ok w \<Longrightarrow> prompt_run es w \<Longrightarrow> inbox_world_ok (fold inbox_apply es w)"
  by (induction es arbitrary: w) (simp_all add: inbox_apply_ok)

lemma inbox_empty_ok: "inbox_world_ok empty_inbox_world"
  by (simp add: empty_inbox_world_def inbox_world_ok_def young_keys_def)

lemma find_unique:
  assumes "x \<in> set xs" "P x" "\<And>y. y \<in> set xs \<Longrightarrow> P y \<Longrightarrow> y = x"
  shows "find P xs = Some x"
proof (cases "find P xs")
  case None
  then show ?thesis using assms(1,2) by (simp add: find_None_iff)
next
  case (Some y)
  then have "y \<in> set xs" "P y" by (auto simp: find_Some_iff)
  then show ?thesis using assms(3) Some by simp
qed

section \<open>The record of the domain\<close>

definition record_of :: "inbox_table \<Rightarrow> inbox_key \<Rightarrow> inbox_activity_record_state" where
  "record_of table key =
    (case find (\<lambda>r. ia_key r = key) table of
       None \<Rightarrow> inbox_activity_record_state.Absent
     | Some r \<Rightarrow> if ia_processed_at r = None then InFlight else Processed)"

lemma record_of_append:
  "record_of (table @ [r]) key =
    (if record_of table key = inbox_activity_record_state.Absent \<and> ia_key r = key
     then if ia_processed_at r = None then InFlight else Processed else record_of table key)"
  by (induction table) (auto simp: record_of_def split: if_splits)

lemma record_of_Absent:
  "record_of table key = inbox_activity_record_state.Absent \<longleftrightarrow> \<not> list_ex (\<lambda>r. ia_key r = key) table"
  by (induction table) (auto simp: record_of_def)

lemma record_of_filter:
  assumes "\<And>r. r \<in> set table \<Longrightarrow> ia_key r = key \<Longrightarrow> P r"
  shows "record_of (filter P table) key = record_of table key"
  using assms by (induction table) (auto simp: record_of_def)

lemma record_of_release:
  assumes "distinct (map ia_key table)"
  shows "record_of (release_inbox_activity_processing (fst key) (snd key) table) key =
    (if record_of table key = InFlight then inbox_activity_record_state.Absent else record_of table key)"
  using assms
proof (induction table)
  case (Cons r table)
  show ?case
  proof (cases "ia_key r = key")
    case True
    have "ia_key r \<notin> ia_key ` set table" using Cons.prems by simp
    then have "\<forall>x \<in> set table. ia_key x \<noteq> key" using True by (metis imageI)
    then have "record_of (release_inbox_activity_processing (fst key) (snd key) table) key =
        inbox_activity_record_state.Absent"
      by (auto simp: record_of_Absent release_inbox_activity_processing_def list_ex_iff)
    with True show ?thesis
      by (simp add: release_inbox_activity_processing_def) (simp add: record_of_def)
  qed (use Cons in \<open>simp_all add: release_inbox_activity_processing_def record_of_def\<close>)
qed (simp add: release_inbox_activity_processing_def record_of_def)

lemma record_of_mark:
  "record_of (mark_inbox_activity_processed now (fst key) (snd key) table) key =
    (if record_of table key = inbox_activity_record_state.Absent then inbox_activity_record_state.Absent
     else Processed)"
  by (induction table) (auto simp: mark_inbox_activity_processed_def record_of_def ia_key_def)

lemma record_of_insert:
  "fst (insert_inbox_activity now key activity_type table) =
      snd (inbox_activity_after_receive (record_of table key)) \<and>
   record_of (snd (insert_inbox_activity now key activity_type table)) key =
      fst (inbox_activity_after_receive (record_of table key))"
  using record_of_Absent [of table key]
  by (cases "record_of table key")
     (auto simp: insert_inbox_activity_def record_of_append ia_key_def)

section \<open>Properties\<close>

text \<open>
  C8: An activity is processed once. However many workers are given an activity, whatever they are
  given between the statements of others, and whichever of them die or are cleaned up after, if
  none finishes later than a quarter of an hour after it began, then no activity succeeds twice, no two
  workers process one activity at a time, and one that has succeeded is not begun again.
\<close>

theorem inbox_activity_once:
  assumes "prompt_run es empty_inbox_world" and "w = fold inbox_apply es empty_inbox_world"
  shows "distinct (iw_succeeded w) \<and>
    distinct (map fst (filter (\<lambda>x. iw_now w < snd x + 15 * 60) (iw_running w))) \<and>
    (\<forall>key \<in> set (iw_succeeded w). record_of (iw_table w) key = Processed \<and>
       \<not> fst (insert_inbox_activity now key activity_type (reclaim_inbox_activity now key (iw_table w))))"
proof -
  have ok: "inbox_world_ok w" using inbox_run_ok [OF inbox_empty_ok] assms by simp
  have "record_of (iw_table w) key = Processed \<and>
      \<not> fst (insert_inbox_activity now key activity_type (reclaim_inbox_activity now key (iw_table w)))"
    if "key \<in> set (iw_succeeded w)" for key
  proof -
    have "has_processed (iw_table w) key" using ok that by (simp add: inbox_world_ok_def)
    then obtain r where r: "r \<in> set (iw_table w)" "ia_key r = key" "ia_processed_at r \<noteq> None"
      unfolding has_processed_def by blast
    have unique: "r' = r" if "r' \<in> set (iw_table w)" "ia_key r' = key" for r'
      using ok r(1,2) that distinct_keys_eq [of ia_key "iw_table w" r' r] by (simp add: inbox_world_ok_def)
    have "find (\<lambda>r. ia_key r = key) (iw_table w) = Some r"
    proof (rule find_unique)
      show "\<And>y. y \<in> set (iw_table w) \<Longrightarrow> ia_key y = key \<Longrightarrow> y = r" by (rule unique)
    qed (use r in simp_all)
    then have kept: "record_of (iw_table w) key = Processed" using r(3) by (simp add: record_of_def)
    moreover have "record_of (reclaim_inbox_activity now key (iw_table w)) key = Processed"
      unfolding reclaim_inbox_activity_def
    proof (subst record_of_filter)
      show "\<not> (ia_key r' = key \<and> ia_stale now r')"
        if "r' \<in> set (iw_table w)" "ia_key r' = key" for r'
        using unique [OF that] r(3) by (simp add: ia_stale_def)
    qed (rule kept)
    ultimately show ?thesis by (simp add: record_of_insert)
  qed
  moreover have "young (iw_now w) = (\<lambda>x. iw_now w < snd x + 15 * 60)"
    by (rule ext) (simp add: young_def INBOX_IN_FLIGHT_STALE_SECONDS_def)
  ultimately show ?thesis using ok by (simp add: inbox_world_ok_def young_keys_def)
qed

definition sample_inbox_run :: "inbox_run_event list" where
  "sample_inbox_run = [Insert_Key (''a'', ''1'') ''Like'', Insert_Key (''a'', ''1'') ''Like'',
     Finish 0 (Inl ''down''), Insert_Key (''a'', ''1'') ''Like'', Tick 5, Finish 0 (Inr ())]"

theorem inbox_activity_once_witness:
  "iw_succeeded (fold inbox_apply sample_inbox_run empty_inbox_world) = [(''a'', ''1'')] \<and>
   distinct (iw_succeeded (fold inbox_apply sample_inbox_run empty_inbox_world))"
proof
  show "iw_succeeded (fold inbox_apply sample_inbox_run empty_inbox_world) = [(''a'', ''1'')]"
    by code_simp
  have "prompt_run sample_inbox_run empty_inbox_world" by code_simp
  from inbox_activity_once [OF this refl] show
    "distinct (iw_succeeded (fold inbox_apply sample_inbox_run empty_inbox_world))" by (rule conjunct1)
qed

text \<open>
  C10: The statements on a row implement the record of the domain. Inserting it is receiving the
  activity, and the worker begins exactly if the record says so; marking it is the success and releasing
  it the failure, where an outcome that does not apply leaves the record alone. Clearing away
  changes nothing for a record that is not stale, and no statement changes another activity.
\<close>

theorem inbox_table_refines_record:
  assumes "distinct (map ia_key table)"
  shows "(fst (insert_inbox_activity now key activity_type table),
      record_of (snd (insert_inbox_activity now key activity_type table)) key) =
      prod.swap (inbox_activity_after_receive (record_of table key)) \<and>
    record_of (finish_inbox_activity now (fst key) (snd key) (Inr ()) table) key =
      unwrap_or (inbox_activity_after_success (record_of table key)) (record_of table key) \<and>
    record_of (finish_inbox_activity now (fst key) (snd key) (Inl e) table) key =
      unwrap_or (inbox_activity_after_failure (record_of table key)) (record_of table key) \<and>
    (list_all (\<lambda>r. \<not> ia_stale now r) table \<longrightarrow>
      reclaim_inbox_activity now key table = table \<and>
      snd (reclaim_stale_inbox_activities pick sr now limit table) = table) \<and>
    (other \<noteq> key \<longrightarrow>
      record_of (reclaim_inbox_activity now key table) other = record_of table other \<and>
      record_of (snd (insert_inbox_activity now key activity_type table)) other = record_of table other \<and>
      record_of (finish_inbox_activity now (fst key) (snd key) result table) other = record_of table other)"
    (is "?insert \<and> ?success \<and> ?failure \<and> ?clearing \<and> ?others")
proof (intro conjI)
  show ?insert using record_of_insert by (simp add: prod_eq_iff)
  show ?success
    by (cases "record_of table key") (simp_all add: finish_inbox_activity_def record_of_mark)
  show ?failure
    using record_of_release [OF assms]
    by (cases "record_of table key") (simp_all add: finish_inbox_activity_def)
  show ?clearing
    by (auto simp: reclaim_inbox_activity_def reclaim_stale_inbox_activities_def Let_def list_all_iff
        intro!: map_idI filter_True)
  have "record_of (mark_inbox_activity_processed now (fst key) (snd key) table) other =
      record_of table other" if "other \<noteq> key"
    using that by (induction table) (auto simp: mark_inbox_activity_processed_def record_of_def ia_key_def)
  moreover have "record_of (release_inbox_activity_processing (fst key) (snd key) table) other =
      record_of table other" if "other \<noteq> key"
    unfolding release_inbox_activity_processing_def by (rule record_of_filter) (use that in auto)
  moreover have "record_of (reclaim_inbox_activity now key table) other = record_of table other"
    if "other \<noteq> key"
    unfolding reclaim_inbox_activity_def by (rule record_of_filter) (use that in auto)
  moreover have "record_of (snd (insert_inbox_activity now key activity_type table)) other =
      record_of table other" if "other \<noteq> key"
    using that by (simp add: insert_inbox_activity_def record_of_append ia_key_def)
  ultimately show ?others by (cases result) (simp_all add: finish_inbox_activity_def)
qed

definition sample_inbox_table :: inbox_table where
  "sample_inbox_table = snd (insert_inbox_activity 0 (''a'', ''1'') ''Like'' [])"

theorem inbox_table_refines_record_witness:
  "record_of (finish_inbox_activity 9 ''a'' ''1'' (Inr ()) sample_inbox_table) (''a'', ''1'') = Processed"
proof -
  have "distinct (map ia_key sample_inbox_table)" by code_simp
  from inbox_table_refines_record [OF this, where key = "(''a'', ''1'')" and now = 9]
  have "record_of (finish_inbox_activity 9 ''a'' ''1'' (Inr ()) sample_inbox_table) (''a'', ''1'') =
    unwrap_or (inbox_activity_after_success (record_of sample_inbox_table (''a'', ''1'')))
      (record_of sample_inbox_table (''a'', ''1''))" by simp
  also have "\<dots> = Processed" by code_simp
  finally show ?thesis .
qed


definition counting_handlers :: "nat inbox_handlers" where
  "counting_handlers = (let h = (\<lambda>n. (Inr (), Suc n)); fail = (\<lambda>n. (Inl ''down'', n)) in
     \<lparr>ih_follow = \<lambda>_. h, ih_undo = \<lambda>_. h, ih_accept = h, ih_reject = h, ih_like = \<lambda>_. h,
      ih_create = \<lambda>_. fail, ih_create_all = \<lambda>_. fail, ih_announce = \<lambda>_. h, ih_add = h, ih_remove = h,
      ih_update = \<lambda>_. h, ih_update_all = \<lambda>_. h, ih_delete = h\<rparr>)"

definition sample_like :: json where
  "sample_like = JObject [(''id'', JString ''1''), (''type'', JString ''Create'')]"


text \<open>
  A worker that is late destroys the claim of another. The first is taken for dead after a quarter of an
  hour, the activity comes again and a second worker begins; the first fails and releases the record
  of the second, so that a third begins while the second is still at work, and both succeed.
\<close>

lemma activity_processed_twice:
  "iw_succeeded (fold inbox_apply
     [Insert_Key key t, Tick 900, Reclaim_Key key, Insert_Key key t, Finish 0 (Inl e),
      Insert_Key key t, Finish 0 (Inr ()), Finish 0 (Inr ())] empty_inbox_world) = [key, key]"
  by (cases key) (simp add: empty_inbox_world_def insert_inbox_activity_def reclaim_inbox_activity_def
      ia_stale_def ia_key_def INBOX_IN_FLIGHT_STALE_SECONDS_def finish_inbox_activity_def remove_at_def
      mark_inbox_activity_processed_def release_inbox_activity_processing_def Let_def)

end
