(* ===== verification/Inbox_Follows.thy ===== *)
theory Inbox_Follows
  imports Inbox_Activities Outbound_Queue Recipients Follow
begin

text \<open>
  Follows across servers (\<open>inbox/follow_handlers.rs\<close>, \<open>inbox/interactions.rs\<close>, \<open>follow_requests.rs\<close>,
  \<open>relationships.rs\<close>, \<open>relationship/remote.rs\<close>, \<open>inbox/activity_store.rs\<close>): who follows a local
  account, who asks to, whom it follows, and the answers that are queued. An \<open>Inl\<close> is an error, after
  which what was written before stays. Notifications and the JSON of answers are not modelled.
\<close>

section \<open>Tables\<close>

record stored_follower = follower_row +
  fw_follow_activity_id :: "string option"

record remote_request_row =
  rq_account_id :: string
  rq_actor_uri :: string
  rq_inbox_uri :: string
  rq_shared_inbox_uri :: "string option"
  rq_follow_activity_id :: "string option"

record local_follow_row =
  fl_follower_account_id :: string
  fl_target_account_id :: string
  fl_state :: local_follow_state

record follow_db =
  fd_followers :: "stored_follower list"
  fd_requests :: "remote_request_row list"
  fd_local_follows :: "local_follow_row list"
  fd_outbound :: outbound_db
  fd_outbox :: outbox_table

text \<open>What the operations read: the addresses of remote actors and the blocks of domains.\<close>

record follow_env =
  fe_config :: app_config
  fe_parse_url :: "string \<Rightarrow> parsed_url option"
  fe_actors :: emission_db
  fe_domain_blocks :: "domain_block_row list"
  fe_queue :: queue_env

section \<open>Followers and requests\<close>

definition upsert_follower_by_inbox ::
    "string \<Rightarrow> string \<Rightarrow> string \<Rightarrow> string option \<Rightarrow> string option \<Rightarrow> follow_db \<Rightarrow> follow_db" where
  "upsert_follower_by_inbox account actor_uri inbox_uri shared_inbox_uri follow_activity_id db =
    (if list_ex (\<lambda>f. fw_account_id f = account \<and> fw_actor_uri f = actor_uri) (fd_followers db)
     then db\<lparr>fd_followers := map (\<lambda>f. if fw_account_id f = account \<and> fw_actor_uri f = actor_uri
         then f\<lparr>fw_inbox_uri := inbox_uri, fw_shared_inbox_uri := shared_inbox_uri,
                fw_follow_activity_id := opt_or follow_activity_id (fw_follow_activity_id f)\<rparr>
         else f) (fd_followers db)\<rparr>
     else db\<lparr>fd_followers := fd_followers db @ [\<lparr>fw_account_id = account, fw_actor_uri = actor_uri,
         fw_inbox_uri = inbox_uri, fw_shared_inbox_uri = shared_inbox_uri,
         fw_follow_activity_id = follow_activity_id\<rparr>]\<rparr>)"

definition upsert_follower ::
    "string \<Rightarrow> remote_actor_profile \<Rightarrow> string option \<Rightarrow> follow_db \<Rightarrow> follow_db" where
  "upsert_follower account actor =
    upsert_follower_by_inbox account (rp_actor_uri actor) (rp_inbox_uri actor) (rp_shared_inbox_uri actor)"

definition of_actor :: "string \<Rightarrow> string \<Rightarrow> string \<Rightarrow> string \<Rightarrow> string \<Rightarrow> bool" where
  "of_actor account actor_uri canonical row_account row_actor \<longleftrightarrow>
    row_account = account \<and> (row_actor = actor_uri \<or> row_actor = canonical)"

definition find_follower_follow_activity_id ::
    "string \<Rightarrow> string \<Rightarrow> string \<Rightarrow> follow_db \<Rightarrow> string option" where
  "find_follower_follow_activity_id account actor_uri canonical db =
    Option.bind (find (\<lambda>f. of_actor account actor_uri canonical (fw_account_id f) (fw_actor_uri f))
      (fd_followers db)) fw_follow_activity_id"

definition delete_follower_by_actor :: "string \<Rightarrow> string \<Rightarrow> string \<Rightarrow> follow_db \<Rightarrow> follow_db" where
  "delete_follower_by_actor account actor_uri canonical db =
    (let matches = (\<lambda>f. of_actor account actor_uri canonical (fw_account_id f) (fw_actor_uri f));
         target_inbox = trimmed_option (map_option (\<lambda>f. follower_target (follower_row.truncate f))
           (find matches (fd_followers db)));
         db = db\<lparr>fd_followers := filter (\<lambda>f. \<not> matches f) (fd_followers db)\<rparr>
     in case target_inbox of
          Some inbox \<Rightarrow>
            db\<lparr>fd_outbox := cancel_pending_outbox_deliveries_for_inbox account inbox (fd_outbox db)\<rparr>
        | None \<Rightarrow> db)"

definition find_pending_remote_follow_request_by_actor ::
    "string \<Rightarrow> string \<Rightarrow> follow_db \<Rightarrow> remote_request_row option" where
  "find_pending_remote_follow_request_by_actor account actor_uri db =
    find (\<lambda>q. rq_account_id q = account \<and> rq_actor_uri q = actor_uri) (fd_requests db)"

definition upsert_remote_follow_request ::
    "string \<Rightarrow> remote_actor_profile \<Rightarrow> string option \<Rightarrow> follow_db \<Rightarrow> follow_db" where
  "upsert_remote_follow_request account actor follow_activity_id db =
    (let row = \<lparr>rq_account_id = account, rq_actor_uri = rp_actor_uri actor,
           rq_inbox_uri = rp_inbox_uri actor, rq_shared_inbox_uri = rp_shared_inbox_uri actor,
           rq_follow_activity_id = follow_activity_id\<rparr>;
         same = (\<lambda>q. rq_account_id q = account \<and> rq_actor_uri q = rp_actor_uri actor)
     in if list_ex same (fd_requests db)
        then db\<lparr>fd_requests := map (\<lambda>q. if same q then row else q) (fd_requests db)\<rparr>
        else db\<lparr>fd_requests := fd_requests db @ [row]\<rparr>)"

definition delete_remote_follow_request_by_actor ::
    "string \<Rightarrow> string \<Rightarrow> string \<Rightarrow> follow_db \<Rightarrow> follow_db" where
  "delete_remote_follow_request_by_actor account actor_uri canonical db =
    db\<lparr>fd_requests := filter (\<lambda>q. \<not> of_actor account actor_uri canonical (rq_account_id q) (rq_actor_uri q))
      (fd_requests db)\<rparr>"

definition finalize_remote_follow_request_by_actor :: "string \<Rightarrow> string \<Rightarrow> follow_db \<Rightarrow> follow_db" where
  "finalize_remote_follow_request_by_actor account actor_uri =
    delete_remote_follow_request_by_actor account actor_uri actor_uri"

section \<open>Answers\<close>

definition build_accept_activity ::
    "app_config \<Rightarrow> string \<Rightarrow> local_account \<Rightarrow> json \<Rightarrow> string \<Rightarrow> json" where
  "build_accept_activity config fresh account follow_activity remote_actor_uri =
    (let actor = actor_url config (la_username account) in
     jobject [(''@context'', JString ''https://www.w3.org/ns/activitystreams''),
       (''id'', JString (actor @ ''/accepts/'' @ fresh)), (''type'', JString ''Accept''),
       (''actor'', JString actor), (''to'', jstrings [remote_actor_uri]),
       (''object'', follow_activity)])"

definition build_follow_response_object :: "app_config \<Rightarrow> local_account \<Rightarrow> string \<Rightarrow> string \<Rightarrow> json" where
  "build_follow_response_object config account follow_activity_id remote_actor_uri =
    jobject [(''id'', JString follow_activity_id), (''type'', JString ''Follow''),
      (''actor'', JString remote_actor_uri),
      (''object'', JString (actor_url config (la_username account)))]"

definition build_stored_accept_follow_activity ::
    "app_config \<Rightarrow> string \<Rightarrow> local_account \<Rightarrow> string \<Rightarrow> string \<Rightarrow> json" where
  "build_stored_accept_follow_activity config fresh account follow_activity_id remote_actor_uri =
    (let actor = actor_url config (la_username account) in
     jobject [(''@context'', JString ''https://www.w3.org/ns/activitystreams''),
       (''id'', JString (actor @ ''/accepts/'' @ fresh)), (''type'', JString ''Accept''),
       (''actor'', JString actor), (''to'', jstrings [remote_actor_uri]),
       (''object'', build_follow_response_object config account follow_activity_id remote_actor_uri)])"

definition build_reject_follow_activity ::
    "app_config \<Rightarrow> string \<Rightarrow> local_account \<Rightarrow> string \<Rightarrow> string \<Rightarrow> json" where
  "build_reject_follow_activity config fresh account follow_activity_id remote_actor_uri =
    (let actor = actor_url config (la_username account) in
     jobject [(''@context'', JString ''https://www.w3.org/ns/activitystreams''),
       (''id'', JString (actor @ ''/rejects/'' @ fresh)), (''type'', JString ''Reject''),
       (''actor'', JString actor), (''to'', jstrings [remote_actor_uri]),
       (''object'', build_follow_response_object config account follow_activity_id remote_actor_uri)])"

definition build_follow_activity_with_id ::
    "app_config \<Rightarrow> local_account \<Rightarrow> string \<Rightarrow> string \<Rightarrow> string \<Rightarrow> json" where
  "build_follow_activity_with_id config account remote_actor_uri follow_activity_id published =
    jobject [(''@context'', JString ''https://www.w3.org/ns/activitystreams''),
      (''id'', JString follow_activity_id), (''type'', JString ''Follow''),
      (''actor'', JString (actor_url config (la_username account))),
      (''published'', JString published), (''object'', JString remote_actor_uri),
      (''to'', jstrings [remote_actor_uri])]"

definition build_undo_follow_activity ::
    "app_config \<Rightarrow> string \<Rightarrow> local_account \<Rightarrow> string \<Rightarrow> string \<Rightarrow> json" where
  "build_undo_follow_activity config fresh account follow_activity_id remote_actor_uri =
    (let actor = actor_url config (la_username account) in
     jobject [(''@context'', JString ''https://www.w3.org/ns/activitystreams''),
       (''id'', JString (actor @ ''/undo/'' @ fresh)), (''type'', JString ''Undo''),
       (''actor'', JString actor), (''to'', jstrings [remote_actor_uri]),
       (''object'', jobject [(''id'', JString follow_activity_id), (''type'', JString ''Follow''),
          (''actor'', JString actor), (''object'', JString remote_actor_uri)])])"

text \<open>\<open>Inr None\<close>: there is no address, or it is blocked.\<close>

definition queue_remote_actor_activity ::
    "follow_env \<Rightarrow> string \<Rightarrow> string \<Rightarrow> json \<Rightarrow> follow_db \<Rightarrow> (string + string option) \<times> follow_db" where
  "queue_remote_actor_activity env account target_actor_uri payload db =
    (let blocked_domains = list_all_account_domain_blocks (fe_domain_blocks env) account in
     case load_remote_actor_delivery_inbox (fe_actors env) target_actor_uri of
       None \<Rightarrow> (Inr None, db)
     | Some target_inbox \<Rightarrow>
       if delivery_inbox_blocked_by_domains (fe_parse_url env) target_inbox blocked_domains
       then (Inr None, db)
       else (case describe_outbound_activity payload of
           None \<Rightarrow> (Inl ''outbound activity is missing id or type'', db)
         | Some (activity_id, activity_type) \<Rightarrow>
           (Inr (Some activity_id),
            db\<lparr>fd_outbound := enqueue_outbound_activity (qe_fresh (fe_queue env) activity_id)
              (qe_now (fe_queue env)) account activity_id activity_type (Some target_actor_uri)
              target_inbox (qe_to_string (fe_queue env) payload) (fd_outbound db)\<rparr>)))"

definition queue_remote_actor_activity_required ::
    "follow_env \<Rightarrow> string \<Rightarrow> string \<Rightarrow> json \<Rightarrow> follow_db \<Rightarrow> (string + string) \<times> follow_db" where
  "queue_remote_actor_activity_required env account target_actor_uri payload db =
    (case queue_remote_actor_activity env account target_actor_uri payload db of
       (result, db) \<Rightarrow>
         (and_then result (\<lambda>queued. ok_or queued ''remote account is missing a delivery inbox''), db))"

definition unit_result :: "(string + 'a) \<times> 's \<Rightarrow> (string + unit) \<times> 's" where
  "unit_result = (\<lambda>(result, s). (and_then result (\<lambda>_. Inr ()), s))"

section \<open>Handlers of the inbox\<close>

definition handle_inbox_follow ::
    "follow_env \<Rightarrow> string \<Rightarrow> json \<Rightarrow> remote_actor_profile \<Rightarrow> local_account \<Rightarrow> follow_db handler" where
  "handle_inbox_follow env fresh activity actor account db =
    (if \<not> follow_targets_local_actor (jget activity ''object'')
          (actor_url (fe_config env) (la_username account))
     then (Inr (), db)
     else let follow_activity_id = get_str activity ''id''
     in if la_locked account
        then (Inr (), upsert_remote_follow_request (la_id account) actor follow_activity_id db)
        else
          let db = delete_remote_follow_request_by_actor (la_id account) (rp_actor_uri actor)
                     (rp_actor_uri actor) db;
              db = upsert_follower (la_id account) actor follow_activity_id db;
              accept_activity =
                build_accept_activity (fe_config env) fresh account activity (rp_actor_uri actor)
          in unit_result (queue_remote_actor_activity_required env (la_id account)
               (rp_actor_uri actor) accept_activity db))"

definition string_undo_matches_known_follow ::
    "local_account \<Rightarrow> string \<Rightarrow> string \<Rightarrow> string \<Rightarrow> follow_db \<Rightarrow> bool" where
  "string_undo_matches_known_follow account object_id0 actor_uri canonical db \<longleftrightarrow>
    find_follower_follow_activity_id (la_id account) actor_uri canonical db = Some object_id0 \<or>
    list_ex (\<lambda>requester. case find_pending_remote_follow_request_by_actor (la_id account) requester db of
        Some request \<Rightarrow> rq_follow_activity_id request = Some object_id0
      | None \<Rightarrow> False) [actor_uri, canonical]"

definition activity_is_follow_undo ::
    "follow_env \<Rightarrow> local_account \<Rightarrow> json \<Rightarrow> string \<Rightarrow> remote_actor_profile \<Rightarrow> follow_db \<Rightarrow> bool" where
  "activity_is_follow_undo env account activity actor_uri actor db =
    (case jget activity ''object'' of
       None \<Rightarrow> False
     | Some object \<Rightarrow>
       (case as_str object of
          Some object_id0 \<Rightarrow>
            string_undo_matches_known_follow account object_id0 actor_uri (rp_actor_uri actor) db
        | None \<Rightarrow> is_follow_undo (Some object) actor_uri (rp_actor_uri actor) \<and>
            follow_targets_local_actor (jget object ''object'')
              (actor_url (fe_config env) (la_username account))))"

text \<open>\<open>other\<close> undoes a vote or an interaction.\<close>

definition handle_inbox_undo ::
    "follow_env \<Rightarrow> follow_db handler \<Rightarrow> json \<Rightarrow> remote_actor_profile \<Rightarrow> local_account \<Rightarrow> follow_db handler" where
  "handle_inbox_undo env other activity actor account db =
    (case get_str activity ''actor'' of
       None \<Rightarrow> (Inr (), db)
     | Some actor_uri \<Rightarrow>
       if \<not> activity_is_follow_undo env account activity actor_uri actor db then other db
       else (Inr (), delete_remote_follow_request_by_actor (la_id account) actor_uri (rp_actor_uri actor)
               (delete_follower_by_actor (la_id account) actor_uri (rp_actor_uri actor) db)))"

definition find_follow_by_activity_id :: "string \<Rightarrow> follow_db \<Rightarrow> follow_row option" where
  "find_follow_by_activity_id follow_activity_id db =
    find (\<lambda>f. fo_follow_activity_id f = follow_activity_id) (ob_follows (fd_outbound db))"

definition update_follow_state_from_response ::
    "json \<Rightarrow> remote_actor_profile \<Rightarrow> remote_follow_state \<Rightarrow> follow_db \<Rightarrow> follow_db" where
  "update_follow_state_from_response activity actor state db =
    (case Option.bind (jget activity ''object'') (\<lambda>object. get_str object ''id'') of
       None \<Rightarrow> db
     | Some follow_activity_id \<Rightarrow>
       (case find_follow_by_activity_id follow_activity_id db of
          None \<Rightarrow> db
        | Some follow \<Rightarrow>
          if fo_target_actor_uri follow \<noteq> rp_actor_uri actor then db
          else let outbound = fd_outbound db in
            db\<lparr>fd_outbound := outbound\<lparr>ob_follows := map (\<lambda>f.
              if fo_follow_activity_id f = follow_activity_id then f\<lparr>fo_state := state\<rparr> else f)
              (ob_follows outbound)\<rparr>\<rparr>))"

text \<open>\<open>feature\<close> tells whether the answer was one about a featured collection.\<close>

definition handle_inbox_accept ::
    "(follow_db \<Rightarrow> (string + bool) \<times> follow_db) \<Rightarrow> json \<Rightarrow> remote_actor_profile \<Rightarrow> follow_db handler" where
  "handle_inbox_accept feature activity actor db =
    (case feature db of
       (Inl e, db) \<Rightarrow> (Inl e, db)
     | (Inr True, db) \<Rightarrow> (Inr (), db)
     | (Inr False, db) \<Rightarrow>
         (Inr (), update_follow_state_from_response activity actor remote_follow_state.Accepted db))"

definition handle_inbox_reject ::
    "(follow_db \<Rightarrow> (string + bool) \<times> follow_db) \<Rightarrow> json \<Rightarrow> remote_actor_profile \<Rightarrow> follow_db handler" where
  "handle_inbox_reject feature activity actor db =
    (case feature db of
       (Inl e, db) \<Rightarrow> (Inl e, db)
     | (Inr True, db) \<Rightarrow> (Inr (), db)
     | (Inr False, db) \<Rightarrow>
         (Inr (), update_follow_state_from_response activity actor remote_follow_state.Rejected db))"

section \<open>Decisions of the owner\<close>

datatype pending_follow_request =
    Local_Request string
  | Remote_Request remote_request_row

definition authorize_pending_follow_request ::
    "follow_env \<Rightarrow> string \<Rightarrow> local_account \<Rightarrow> pending_follow_request \<Rightarrow> follow_db handler" where
  "authorize_pending_follow_request env fresh viewer request db =
    (case request of
       Local_Request requester \<Rightarrow>
         let decided = authorize_local_follow_request (pending_local_follow_request_state (la_locked viewer));
             db = (if fr_local_follow decided = Some local_follow_state.Accepted
               then db\<lparr>fd_local_follows := map (\<lambda>f.
                   if fl_target_account_id f = la_id viewer \<and> fl_follower_account_id f = requester \<and>
                      fl_state f = local_follow_state.Pending
                   then f\<lparr>fl_state := local_follow_state.Accepted\<rparr> else f) (fd_local_follows db)\<rparr>
               else db)
         in (Inr (), db)
     | Remote_Request q \<Rightarrow>
         (case find_pending_remote_follow_request_by_actor (la_id viewer) (rq_actor_uri q) db of
            None \<Rightarrow> (Inr (), db)
          | Some pending \<Rightarrow>
            let decided =
              authorize_local_follow_request (pending_remote_follow_request_state (la_locked viewer))
            in if fr_remote_request decided \<noteq> Fulfilled then (Inr (), db)
               else
                 let db = upsert_follower_by_inbox (la_id viewer) (rq_actor_uri pending)
                       (rq_inbox_uri pending) (rq_shared_inbox_uri pending)
                       (rq_follow_activity_id pending) db
                 in (case (case rq_follow_activity_id pending of
                        None \<Rightarrow> (Inr (), db)
                      | Some follow_activity_id \<Rightarrow>
                          unit_result (queue_remote_actor_activity_required env (la_id viewer)
                            (rq_actor_uri pending)
                            (build_stored_accept_follow_activity (fe_config env) fresh viewer
                              follow_activity_id (rq_actor_uri pending)) db)) of
                      (Inl e, db) \<Rightarrow> (Inl e, db)
                    | (Inr _, db) \<Rightarrow> (Inr (), finalize_remote_follow_request_by_actor (la_id viewer)
                        (rq_actor_uri pending) db))))"

definition reject_pending_follow_request ::
    "follow_env \<Rightarrow> string \<Rightarrow> local_account \<Rightarrow> pending_follow_request \<Rightarrow> follow_db handler" where
  "reject_pending_follow_request env fresh viewer request db =
    (case request of
       Local_Request requester \<Rightarrow>
         let decided = reject_local_follow_request (pending_local_follow_request_state (la_locked viewer));
             db = (if fr_local_follow decided = None
               then db\<lparr>fd_local_follows := filter (\<lambda>f. \<not>
                   (fl_target_account_id f = la_id viewer \<and> fl_follower_account_id f = requester \<and>
                    fl_state f = local_follow_state.Pending)) (fd_local_follows db)\<rparr>
               else db)
         in (Inr (), db)
     | Remote_Request q \<Rightarrow>
         (case find_pending_remote_follow_request_by_actor (la_id viewer) (rq_actor_uri q) db of
            None \<Rightarrow> (Inr (), db)
          | Some pending \<Rightarrow>
            let decided =
              reject_local_follow_request (pending_remote_follow_request_state (la_locked viewer))
            in if fr_remote_request decided \<noteq> remote_inbound_follow_request_state.Absent
               then (Inr (), db)
               else (case (case rq_follow_activity_id pending of
                        None \<Rightarrow> (Inr (), db)
                      | Some follow_activity_id \<Rightarrow>
                          unit_result (queue_remote_actor_activity_required env (la_id viewer)
                            (rq_actor_uri pending)
                            (build_reject_follow_activity (fe_config env) fresh viewer
                              follow_activity_id (rq_actor_uri pending)) db)) of
                      (Inl e, db) \<Rightarrow> (Inl e, db)
                    | (Inr _, db) \<Rightarrow> (Inr (), finalize_remote_follow_request_by_actor (la_id viewer)
                        (rq_actor_uri pending) db))))"

section \<open>Following a remote account\<close>

text \<open>The columns of a follow that are options of its display are left out.\<close>

definition upsert_remote_follow ::
    "local_account \<Rightarrow> string \<Rightarrow> bool \<Rightarrow> string \<Rightarrow> follow_db \<Rightarrow> follow_db" where
  "upsert_remote_follow follower actor_uri actor_locked follow_activity_id db =
    (let outbound = fd_outbound db; state = initial_remote_follow_state actor_locked;
         same = (\<lambda>f. fo_follower_account_id f = la_id follower \<and> fo_target_actor_uri f = actor_uri)
     in db\<lparr>fd_outbound := outbound\<lparr>ob_follows :=
       (if list_ex same (ob_follows outbound)
        then map (\<lambda>f. if same f
          then f\<lparr>fo_follow_activity_id := follow_activity_id, fo_state := state\<rparr> else f)
          (ob_follows outbound)
        else ob_follows outbound @ [\<lparr>fo_follower_account_id = la_id follower,
          fo_target_actor_uri = actor_uri, fo_follow_activity_id = follow_activity_id,
          fo_state = state\<rparr>])\<rparr>\<rparr>)"

definition load_follow_activity_id :: "string \<Rightarrow> string \<Rightarrow> follow_db \<Rightarrow> string option" where
  "load_follow_activity_id follower_id target db =
    map_option fo_follow_activity_id (find (\<lambda>f. fo_follower_account_id f = follower_id \<and>
      fo_target_actor_uri f = target) (ob_follows (fd_outbound db)))"

definition delete_follow_by_target :: "string \<Rightarrow> string \<Rightarrow> follow_db \<Rightarrow> follow_db" where
  "delete_follow_by_target follower_id target db =
    (let outbound = fd_outbound db in
     db\<lparr>fd_outbound := outbound\<lparr>ob_follows := filter (\<lambda>f. \<not> (fo_follower_account_id f = follower_id \<and>
       fo_target_actor_uri f = target)) (ob_follows outbound)\<rparr>\<rparr>)"

definition follow_remote_account ::
    "follow_env \<Rightarrow> string \<Rightarrow> string \<Rightarrow> local_account \<Rightarrow> string \<Rightarrow> bool \<Rightarrow> follow_db handler" where
  "follow_remote_account env fresh published follower actor_uri actor_locked db =
    (let payload = build_follow_activity_with_id (fe_config env) follower actor_uri
           (actor_url (fe_config env) (la_username follower) @ ''/follows/'' @ fresh) published
     in case queue_remote_actor_activity_required env (la_id follower) actor_uri payload db of
          (Inl e, db) \<Rightarrow> (Inl e, db)
        | (Inr follow_activity_id, db) \<Rightarrow>
            (Inr (), upsert_remote_follow follower actor_uri actor_locked follow_activity_id db))"

definition unfollow_remote_account ::
    "follow_env \<Rightarrow> string \<Rightarrow> local_account \<Rightarrow> string \<Rightarrow> follow_db handler" where
  "unfollow_remote_account env fresh follower actor_uri db =
    (case (case load_follow_activity_id (la_id follower) actor_uri db of
         None \<Rightarrow> (Inr (), db)
       | Some follow_activity_id \<Rightarrow>
           unit_result (queue_remote_actor_activity env (la_id follower) actor_uri
             (build_undo_follow_activity (fe_config env) fresh follower follow_activity_id actor_uri) db)) of
       (Inl e, db) \<Rightarrow> (Inl e, db)
     | (Inr _, db) \<Rightarrow> (Inr (), delete_follow_by_target (la_id follower) actor_uri db))"

section \<open>Who follows\<close>

definition follower_uris :: "follow_db \<Rightarrow> string \<Rightarrow> string set" where
  "follower_uris db account =
    set (map fw_actor_uri (filter (\<lambda>f. fw_account_id f = account) (fd_followers db)))"

definition requester_uris :: "follow_db \<Rightarrow> string \<Rightarrow> string set" where
  "requester_uris db account =
    set (map rq_actor_uri (filter (\<lambda>q. rq_account_id q = account) (fd_requests db)))"

lemma map_filter_keyed:
  assumes "\<And>x. x \<in> set xs \<Longrightarrow> f (g x) = f x" "\<And>x. x \<in> set xs \<Longrightarrow> P (g x) = P x"
  shows "map f (filter P (map g xs)) = map f (filter P xs)"
  using assms by (induction xs) auto

lemma follower_uris_upsert [simp]:
  "follower_uris (upsert_follower_by_inbox account uri inbox shared ident db) a =
    (if a = account then insert uri (follower_uris db a) else follower_uris db a)"
  "requester_uris (upsert_follower_by_inbox account uri inbox shared ident db) a = requester_uris db a"
proof -
  show "follower_uris (upsert_follower_by_inbox account uri inbox shared ident db) a =
    (if a = account then insert uri (follower_uris db a) else follower_uris db a)"
  proof (cases "list_ex (\<lambda>f. fw_account_id f = account \<and> fw_actor_uri f = uri) (fd_followers db)")
    case True
    then have "uri \<in> follower_uris db account" by (auto simp: follower_uris_def list_ex_iff)
    with True show ?thesis
      by (auto simp: upsert_follower_by_inbox_def) (simp_all add: follower_uris_def map_filter_keyed)
  qed (simp add: upsert_follower_by_inbox_def follower_uris_def)
  show "requester_uris (upsert_follower_by_inbox account uri inbox shared ident db) a =
      requester_uris db a"
    by (simp add: requester_uris_def upsert_follower_by_inbox_def)
qed

lemma follower_uris_request [simp]:
  "follower_uris (upsert_remote_follow_request account actor ident db) a = follower_uris db a"
  "requester_uris (upsert_remote_follow_request account actor ident db) a =
    (if a = account then insert (rp_actor_uri actor) (requester_uris db a) else requester_uris db a)"
proof -
  show "follower_uris (upsert_remote_follow_request account actor ident db) a = follower_uris db a"
    by (simp add: follower_uris_def upsert_remote_follow_request_def Let_def)
  show "requester_uris (upsert_remote_follow_request account actor ident db) a =
    (if a = account then insert (rp_actor_uri actor) (requester_uris db a) else requester_uris db a)"
  proof (cases "list_ex (\<lambda>q. rq_account_id q = account \<and> rq_actor_uri q = rp_actor_uri actor)
      (fd_requests db)")
    case True
    then have "rp_actor_uri actor \<in> requester_uris db account"
      by (force simp: requester_uris_def list_ex_iff image_iff)
    with True show ?thesis
      by (auto simp: upsert_remote_follow_request_def Let_def)
        (simp_all add: requester_uris_def map_filter_keyed)
  qed (simp add: upsert_remote_follow_request_def Let_def requester_uris_def)
qed

lemma follower_uris_delete_request [simp]:
  "follower_uris (delete_remote_follow_request_by_actor account uri canonical db) a = follower_uris db a"
  "requester_uris (delete_remote_follow_request_by_actor account uri canonical db) a =
    (if a = account then requester_uris db a - {uri, canonical} else requester_uris db a)"
  by (auto simp: follower_uris_def requester_uris_def delete_remote_follow_request_by_actor_def
      of_actor_def)

lemma follower_uris_delete [simp]:
  "follower_uris (delete_follower_by_actor account uri canonical db) a =
    (if a = account then follower_uris db a - {uri, canonical} else follower_uris db a)"
  "requester_uris (delete_follower_by_actor account uri canonical db) a = requester_uris db a"
  by (auto simp: follower_uris_def requester_uris_def delete_follower_by_actor_def Let_def of_actor_def
      split: option.splits)

lemma follower_uris_outbound [simp]:
  "follower_uris (db\<lparr>fd_outbound := outbound\<rparr>) a = follower_uris db a"
  "requester_uris (db\<lparr>fd_outbound := outbound\<rparr>) a = requester_uris db a"
  "follower_uris (db\<lparr>fd_local_follows := local_follows\<rparr>) a = follower_uris db a"
  "requester_uris (db\<lparr>fd_local_follows := local_follows\<rparr>) a = requester_uris db a"
  by (simp_all add: follower_uris_def requester_uris_def)

lemma follower_uris_queue [simp]:
  "follower_uris (snd (queue_remote_actor_activity env account uri payload db)) a = follower_uris db a"
  "requester_uris (snd (queue_remote_actor_activity env account uri payload db)) a = requester_uris db a"
  by (auto simp: queue_remote_actor_activity_def Let_def split: option.splits)

lemma snd_unit_result [simp]: "snd (unit_result r) = snd r"
  by (simp add: unit_result_def split_beta)

lemma follower_uris_required [simp]:
  "follower_uris (snd (queue_remote_actor_activity_required env account uri payload db)) a =
    follower_uris db a"
  "requester_uris (snd (queue_remote_actor_activity_required env account uri payload db)) a =
    requester_uris db a"
  by (simp_all add: queue_remote_actor_activity_required_def split_beta)

lemma follower_uris_response [simp]:
  "follower_uris (update_follow_state_from_response activity actor state db) a = follower_uris db a"
  "requester_uris (update_follow_state_from_response activity actor state db) a = requester_uris db a"
  by (auto simp: update_follow_state_from_response_def Let_def split: option.splits)

section \<open>Runs\<close>

text \<open>
  Everything that happens to the followers of the accounts: activities for one recipient, decisions,
  and follows of others. The other handlers of an Undo and the answers about collections do not touch
  these tables.
\<close>

datatype follow_event =
    Follow_Delivered follow_env string json remote_actor_profile local_account
  | Undo_Delivered follow_env json remote_actor_profile local_account
  | Accept_Delivered json remote_actor_profile
  | Reject_Delivered json remote_actor_profile
  | Authorized follow_env string local_account pending_follow_request
  | Rejected_By_Owner follow_env string local_account pending_follow_request
  | Follow_Remote follow_env string string local_account string bool
  | Unfollow_Remote follow_env string local_account string

fun follow_apply :: "follow_event \<Rightarrow> follow_db \<Rightarrow> follow_db" where
  "follow_apply (Follow_Delivered env fresh activity actor account) db =
     snd (handle_inbox_follow env fresh activity actor account db)"
| "follow_apply (Undo_Delivered env activity actor account) db =
     snd (handle_inbox_undo env (\<lambda>db. (Inr (), db)) activity actor account db)"
| "follow_apply (Accept_Delivered activity actor) db =
     snd (handle_inbox_accept (\<lambda>db. (Inr False, db)) activity actor db)"
| "follow_apply (Reject_Delivered activity actor) db =
     snd (handle_inbox_reject (\<lambda>db. (Inr False, db)) activity actor db)"
| "follow_apply (Authorized env fresh viewer request) db =
     snd (authorize_pending_follow_request env fresh viewer request db)"
| "follow_apply (Rejected_By_Owner env fresh viewer request) db =
     snd (reject_pending_follow_request env fresh viewer request db)"
| "follow_apply (Follow_Remote env fresh published follower uri locked) db =
     snd (follow_remote_account env fresh published follower uri locked db)"
| "follow_apply (Unfollow_Remote env fresh follower uri) db =
     snd (unfollow_remote_account env fresh follower uri db)"

text \<open>Whom an event may let in.\<close>

fun lets_in :: "string \<Rightarrow> follow_event \<Rightarrow> string set" where
  "lets_in a (Follow_Delivered env fresh activity actor account) =
     (if la_id account = a \<and> \<not> la_locked account then {rp_actor_uri actor} else {})"
| "lets_in a (Authorized env fresh viewer (Remote_Request q)) =
     (if la_id viewer = a then {rq_actor_uri q} else {})"
| "lets_in a _ = {}"

lemma follow_lets_in:
  "follower_uris (snd (handle_inbox_follow env fresh activity actor account db)) a \<subseteq>
    follower_uris db a \<union> lets_in a (Follow_Delivered env fresh activity actor account)"
  by (auto simp: handle_inbox_follow_def Let_def upsert_follower_def)

lemma undo_lets_in:
  "follower_uris (snd (handle_inbox_undo env (\<lambda>db. (Inr (), db)) activity actor account db)) a \<subseteq>
    follower_uris db a"
  by (auto simp: handle_inbox_undo_def split: option.splits)

lemma owner_queue:
  "follower_uris (snd (case rid of None \<Rightarrow> (Inr (), db)
      | Some i \<Rightarrow> unit_result (queue_remote_actor_activity_required env account uri (payload i) db))) a =
    follower_uris db a"
  by (cases rid) simp_all

lemma undo_queue:
  "follower_uris (snd (case rid of None \<Rightarrow> (Inr (), db)
      | Some i \<Rightarrow> unit_result (queue_remote_actor_activity env account uri (payload i) db))) a =
    follower_uris db a"
  by (cases rid) simp_all

lemma found_request:
  "find_pending_remote_follow_request_by_actor account uri db = Some q \<Longrightarrow>
    rq_account_id q = account \<and> rq_actor_uri q = uri \<and> q \<in> set (fd_requests db)"
  by (auto simp: find_pending_remote_follow_request_by_actor_def find_Some_iff)

lemma authorize_lets_in:
  "follower_uris (snd (authorize_pending_follow_request env fresh viewer request db)) a \<subseteq>
    follower_uris db a \<union> lets_in a (Authorized env fresh viewer request)"
proof (cases request)
  case (Remote_Request q)
  show ?thesis
  proof (cases "find_pending_remote_follow_request_by_actor (la_id viewer) (rq_actor_uri q) db")
    case (Some pending)
    let ?db = "upsert_follower_by_inbox (la_id viewer) (rq_actor_uri pending) (rq_inbox_uri pending)
      (rq_shared_inbox_uri pending) (rq_follow_activity_id pending) db"
    obtain r d where queued: "(case rq_follow_activity_id pending of None \<Rightarrow> (Inr (), ?db)
        | Some i \<Rightarrow> unit_result (queue_remote_actor_activity_required env (la_id viewer)
            (rq_actor_uri pending) (build_stored_accept_follow_activity (fe_config env) fresh viewer i
              (rq_actor_uri pending)) ?db)) = (r, d)" by force
    have "follower_uris d a = follower_uris ?db a"
      using owner_queue [where rid = "rq_follow_activity_id pending" and db = ?db and env = env
          and account = "la_id viewer" and uri = "rq_actor_uri pending" and a = a
          and payload = "\<lambda>i. build_stored_accept_follow_activity (fe_config env) fresh viewer i
            (rq_actor_uri pending)"] queued by (simp only: snd_conv)
    then have uris: "follower_uris d a \<subseteq> follower_uris db a \<union> lets_in a (Authorized env fresh viewer request)"
      using found_request [OF Some] Remote_Request by auto
    have "snd (authorize_pending_follow_request env fresh viewer request db) \<in>
        {db, d, finalize_remote_follow_request_by_actor (la_id viewer) (rq_actor_uri pending) d}"
      unfolding authorize_pending_follow_request_def Remote_Request pending_follow_request.case Some
        option.case Let_def queued
      by (cases r) simp_all
    with uris show ?thesis by (auto simp: finalize_remote_follow_request_by_actor_def)
  qed (simp add: authorize_pending_follow_request_def Remote_Request)
qed (auto simp: authorize_pending_follow_request_def Let_def)

lemma reject_lets_in:
  "follower_uris (snd (reject_pending_follow_request env fresh viewer request db)) a = follower_uris db a"
proof (cases request)
  case (Remote_Request q)
  show ?thesis
  proof (cases "find_pending_remote_follow_request_by_actor (la_id viewer) (rq_actor_uri q) db")
    case (Some pending)
    obtain r d where queued: "(case rq_follow_activity_id pending of None \<Rightarrow> (Inr (), db)
        | Some i \<Rightarrow> unit_result (queue_remote_actor_activity_required env (la_id viewer)
            (rq_actor_uri pending) (build_reject_follow_activity (fe_config env) fresh viewer i
              (rq_actor_uri pending)) db)) = (r, d)" by force
    have "follower_uris d a = follower_uris db a"
      using owner_queue [where rid = "rq_follow_activity_id pending" and db = db and env = env
          and account = "la_id viewer" and uri = "rq_actor_uri pending" and a = a
          and payload = "\<lambda>i. build_reject_follow_activity (fe_config env) fresh viewer i
            (rq_actor_uri pending)"] queued by (simp only: snd_conv)
    moreover have "snd (reject_pending_follow_request env fresh viewer request db) \<in>
        {db, d, finalize_remote_follow_request_by_actor (la_id viewer) (rq_actor_uri pending) d}"
      unfolding reject_pending_follow_request_def Remote_Request pending_follow_request.case Some
        option.case Let_def queued
      by (cases r) simp_all
    ultimately show ?thesis
      by (elim insertE emptyE) (simp_all add: finalize_remote_follow_request_by_actor_def)
  qed (simp add: reject_pending_follow_request_def Remote_Request)
qed (auto simp: reject_pending_follow_request_def Let_def)

lemma follow_remote_uris:
  "follower_uris (snd (follow_remote_account env fresh published follower uri locked db)) a =
    follower_uris db a"
proof -
  obtain r d where queued: "queue_remote_actor_activity_required env (la_id follower) uri
      (build_follow_activity_with_id (fe_config env) follower uri
        (actor_url (fe_config env) (la_username follower) @ ''/follows/'' @ fresh) published) db = (r, d)"
    by force
  then have "follower_uris d a = follower_uris db a" by (metis follower_uris_required(1) snd_conv)
  with queued show ?thesis
    by (cases r) (simp_all add: follow_remote_account_def upsert_remote_follow_def Let_def)
qed

lemma unfollow_remote_uris:
  "follower_uris (snd (unfollow_remote_account env fresh follower uri db)) a = follower_uris db a"
proof -
  obtain r d where queued: "(case load_follow_activity_id (la_id follower) uri db of
      None \<Rightarrow> (Inr (), db)
    | Some i \<Rightarrow> unit_result (queue_remote_actor_activity env (la_id follower) uri
        (build_undo_follow_activity (fe_config env) fresh follower i uri) db)) = (r, d)" by force
  from undo_queue [where a = a and env = env and db = db and uri = uri and rid = "load_follow_activity_id (la_id follower) uri db" and account = "la_id follower"
      and payload = "\<lambda>i. build_undo_follow_activity (fe_config env) fresh follower i uri"] queued
  have "follower_uris d a = follower_uris db a" by (simp only: snd_conv)
  with queued show ?thesis
    by (cases r) (simp_all add: unfollow_remote_account_def delete_follow_by_target_def Let_def)
qed

lemma event_lets_in: "follower_uris (follow_apply e db) a \<subseteq> follower_uris db a \<union> lets_in a e"
proof (cases e)
  case (Follow_Delivered env fresh activity actor account)
  then show ?thesis using follow_lets_in by (simp only: follow_apply.simps)
next
  case (Undo_Delivered env activity actor account)
  have "follower_uris (follow_apply e db) a \<subseteq> follower_uris db a"
    unfolding Undo_Delivered follow_apply.simps by (rule undo_lets_in)
  then show ?thesis by blast
next
  case (Authorized env fresh viewer request)
  then show ?thesis using authorize_lets_in by (simp only: follow_apply.simps)
qed (simp_all add: handle_inbox_accept_def handle_inbox_reject_def reject_lets_in follow_remote_uris
    unfollow_remote_uris)

section \<open>Properties\<close>

text \<open>
  C9: A locked account is followed only by whom its owner has let in. Whatever is delivered, in
  whatever order, and whatever is decided about others, as long as the account is locked each new
  follower of it is one whose request its owner has authorised.
\<close>

theorem locked_followers_authorized:
  assumes "\<And>env fresh activity actor account.
      Follow_Delivered env fresh activity actor account \<in> set events \<Longrightarrow> la_id account = a \<Longrightarrow>
      la_locked account"
  shows "follower_uris (fold follow_apply events db) a \<subseteq> follower_uris db a \<union>
    {uri. \<exists>env fresh viewer q. Authorized env fresh viewer (Remote_Request q) \<in> set events \<and>
       la_id viewer = a \<and> rq_actor_uri q = uri}"
proof -
  have "follower_uris (fold follow_apply events db) a \<subseteq>
      follower_uris db a \<union> (\<Union>e \<in> set events. lets_in a e)"
  proof (induction events arbitrary: db)
    case (Cons e events)
    then show ?case using event_lets_in [of e db a] by fastforce
  qed simp
  moreover have "uri \<in> {uri. \<exists>env fresh viewer q. Authorized env fresh viewer (Remote_Request q) \<in> set events \<and>
      la_id viewer = a \<and> rq_actor_uri q = uri}" if "e \<in> set events" "uri \<in> lets_in a e" for e uri
  proof (cases e)
    case (Follow_Delivered env fresh activity actor account)
    then show ?thesis using that assms by (auto split: if_splits)
  next
    case (Authorized env fresh viewer request)
    then show ?thesis using that by (cases request) (auto split: if_splits)
  qed (use that in simp_all)
  ultimately show ?thesis by blast
qed

definition sample_follow_env :: follow_env where
  "sample_follow_env = \<lparr>fe_config = sample_config, fe_parse_url = (\<lambda>_. None),
     fe_actors = sample_emission_db, fe_domain_blocks = [], fe_queue = sample_queue_env\<rparr>"

definition empty_follow_db :: follow_db where
  "empty_follow_db = \<lparr>fd_followers = [], fd_requests = [], fd_local_follows = [],
     fd_outbound = \<lparr>ob_rows = [], ob_follows = []\<rparr>, fd_outbox = []\<rparr>"

definition locked_author :: local_account where
  "locked_author = sample_author\<lparr>la_locked := True\<rparr>"

definition sample_follow_activity :: json where
  "sample_follow_activity = JObject [(''type'', JString ''Follow''),
     (''object'', JString (actor_url sample_config ''al''))]"

definition sample_remote_request :: remote_request_row where
  "sample_remote_request = \<lparr>rq_account_id = ''1'', rq_actor_uri = rp_actor_uri bob, rq_inbox_uri = [],
     rq_shared_inbox_uri = None, rq_follow_activity_id = None\<rparr>"

lemma locked_author_fields: "la_id locked_author = ''1''" "la_locked locked_author"
  by (simp_all add: locked_author_def sample_author_def)

theorem locked_followers_authorized_witness:
  "follower_uris (fold follow_apply
     [Follow_Delivered sample_follow_env ''7'' sample_follow_activity bob locked_author,
      Authorized sample_follow_env ''8'' locked_author (Remote_Request sample_remote_request)]
     empty_follow_db) ''1'' = {rp_actor_uri bob}" (is "?left = _")
proof
  have "?left \<subseteq> follower_uris empty_follow_db ''1'' \<union> {uri. \<exists>env fresh viewer q.
      Authorized env fresh viewer (Remote_Request q) \<in> set
        [Follow_Delivered sample_follow_env ''7'' sample_follow_activity bob locked_author,
         Authorized sample_follow_env ''8'' locked_author (Remote_Request sample_remote_request)] \<and>
      la_id viewer = ''1'' \<and> rq_actor_uri q = uri}"
    by (rule locked_followers_authorized) (auto simp: locked_author_def)
  then show "?left \<subseteq> {rp_actor_uri bob}"
    by (auto simp: sample_remote_request_def follower_uris_def empty_follow_db_def)
  have "rp_actor_uri bob \<in> ?left" by code_simp
  then show "{rp_actor_uri bob} \<subseteq> ?left" by blast
qed

section \<open>The state of the domain\<close>

definition inbound_state :: "bool \<Rightarrow> follow_db \<Rightarrow> string \<Rightarrow> string \<Rightarrow> local_follow_request_state" where
  "inbound_state locked db account uri =
    \<lparr>fr_scenario = RemoteFollower, fr_target_locked = locked,
     fr_local_follow =
       (if uri \<in> follower_uris db account then Some local_follow_state.Accepted else None),
     fr_remote_request =
       (if uri \<in> requester_uris db account then remote_inbound_follow_request_state.Queued
        else if uri \<in> follower_uris db account then Fulfilled
        else remote_inbound_follow_request_state.Absent)\<rparr>"

definition local_follow_of :: "follow_db \<Rightarrow> string \<Rightarrow> string \<Rightarrow> local_follow_state option" where
  "local_follow_of db target follower = map_option fl_state
    (find (\<lambda>f. fl_target_account_id f = target \<and> fl_follower_account_id f = follower)
      (fd_local_follows db))"

lemma pending_found:
  "uri \<in> requester_uris db account \<Longrightarrow>
    \<exists>q. find_pending_remote_follow_request_by_actor account uri db = Some q \<and> rq_actor_uri q = uri"
proof -
  assume "uri \<in> requester_uris db account"
  then obtain q where "q \<in> set (fd_requests db)" "rq_account_id q = account" "rq_actor_uri q = uri"
    by (auto simp: requester_uris_def)
  then obtain q' where "find_pending_remote_follow_request_by_actor account uri db = Some q'"
    by (cases "find_pending_remote_follow_request_by_actor account uri db")
      (auto simp: find_pending_remote_follow_request_by_actor_def find_None_iff)
  then show ?thesis using found_request by blast
qed

lemma requester_queue:
  "requester_uris (snd (case rid of None \<Rightarrow> (Inr (), db)
      | Some i \<Rightarrow> unit_result (queue_remote_actor_activity_required env account uri (payload i) db))) a =
    requester_uris db a"
  by (cases rid) simp_all

lemma authorize_outcome:
  assumes "uri \<in> requester_uris db (la_id viewer)" "rq_actor_uri q = uri"
    and "authorize_pending_follow_request env fresh viewer (Remote_Request q) db = (Inr (), db')"
  shows "follower_uris db' (la_id viewer) = insert uri (follower_uris db (la_id viewer)) \<and>
    requester_uris db' (la_id viewer) = requester_uris db (la_id viewer) - {uri}"
proof -
  obtain pending where pending: "find_pending_remote_follow_request_by_actor (la_id viewer) uri db =
      Some pending" "rq_actor_uri pending = uri"
    using pending_found [OF assms(1)] by blast
  let ?db = "upsert_follower_by_inbox (la_id viewer) uri (rq_inbox_uri pending)
    (rq_shared_inbox_uri pending) (rq_follow_activity_id pending) db"
  obtain r d where queued: "(case rq_follow_activity_id pending of None \<Rightarrow> (Inr (), ?db)
      | Some i \<Rightarrow> unit_result (queue_remote_actor_activity_required env (la_id viewer)
          uri (build_stored_accept_follow_activity (fe_config env) fresh viewer i uri) ?db)) = (r, d)"
    by force
  note sets = owner_queue [where rid = "rq_follow_activity_id pending" and db = ?db and env = env
      and account = "la_id viewer" and uri = uri and a = "la_id viewer"
      and payload = "\<lambda>i. build_stored_accept_follow_activity (fe_config env) fresh viewer i uri"]
    requester_queue [where rid = "rq_follow_activity_id pending" and db = ?db and env = env
      and account = "la_id viewer" and uri = uri and a = "la_id viewer"
      and payload = "\<lambda>i. build_stored_accept_follow_activity (fe_config env) fresh viewer i uri"]
  have "follower_uris d (la_id viewer) = insert uri (follower_uris db (la_id viewer))"
    "requester_uris d (la_id viewer) = requester_uris db (la_id viewer)"
    using sets queued by simp_all
  moreover have "db' = finalize_remote_follow_request_by_actor (la_id viewer) uri d"
    using assms(3) unfolding authorize_pending_follow_request_def pending_follow_request.case assms(2)
      pending option.case Let_def queued
    by (cases r) (simp_all add: authorize_local_follow_request_def pending_remote_follow_request_state_def)
  ultimately show ?thesis by (simp add: finalize_remote_follow_request_by_actor_def)
qed

lemma reject_outcome:
  assumes "uri \<in> requester_uris db (la_id viewer)" "rq_actor_uri q = uri"
    and "reject_pending_follow_request env fresh viewer (Remote_Request q) db = (Inr (), db')"
  shows "follower_uris db' (la_id viewer) = follower_uris db (la_id viewer) \<and>
    requester_uris db' (la_id viewer) = requester_uris db (la_id viewer) - {uri}"
proof -
  obtain pending where pending: "find_pending_remote_follow_request_by_actor (la_id viewer) uri db =
      Some pending" "rq_actor_uri pending = uri"
    using pending_found [OF assms(1)] by blast
  obtain r d where queued: "(case rq_follow_activity_id pending of None \<Rightarrow> (Inr (), db)
      | Some i \<Rightarrow> unit_result (queue_remote_actor_activity_required env (la_id viewer)
          uri (build_reject_follow_activity (fe_config env) fresh viewer i uri) db)) = (r, d)"
    by force
  note sets = owner_queue [where rid = "rq_follow_activity_id pending" and db = db and env = env
      and account = "la_id viewer" and uri = uri and a = "la_id viewer"
      and payload = "\<lambda>i. build_reject_follow_activity (fe_config env) fresh viewer i uri"]
    requester_queue [where rid = "rq_follow_activity_id pending" and db = db and env = env
      and account = "la_id viewer" and uri = uri and a = "la_id viewer"
      and payload = "\<lambda>i. build_reject_follow_activity (fe_config env) fresh viewer i uri"]
  have "follower_uris d (la_id viewer) = follower_uris db (la_id viewer)"
    "requester_uris d (la_id viewer) = requester_uris db (la_id viewer)"
    using sets queued by simp_all
  moreover have "db' = finalize_remote_follow_request_by_actor (la_id viewer) uri d"
    using assms(3) unfolding reject_pending_follow_request_def pending_follow_request.case assms(2)
      pending option.case Let_def queued
    by (cases r) (simp_all add: reject_local_follow_request_def pending_remote_follow_request_state_def)
  ultimately show ?thesis by (simp add: finalize_remote_follow_request_by_actor_def)
qed

lemma follow_outcome:
  assumes "follow_targets_local_actor (jget activity ''object'')
      (actor_url (fe_config env) (la_username account))"
    and "handle_inbox_follow env fresh activity actor account db = (result, db')"
  shows "if la_locked account
    then follower_uris db' (la_id account) = follower_uris db (la_id account) \<and>
      requester_uris db' (la_id account) = insert (rp_actor_uri actor) (requester_uris db (la_id account))
    else follower_uris db' (la_id account) = insert (rp_actor_uri actor) (follower_uris db (la_id account)) \<and>
      requester_uris db' (la_id account) = requester_uris db (la_id account) - {rp_actor_uri actor}"
proof -
  have "db' = snd (handle_inbox_follow env fresh activity actor account db)" using assms(2) by simp
  then show ?thesis
    using assms(1) by (simp add: handle_inbox_follow_def Let_def upsert_follower_def)
qed

lemma local_authorized:
  assumes "\<And>f s. P (f\<lparr>fl_state := s\<rparr>) = P f"
  shows "map_option fl_state (find P (map (\<lambda>f. if P f \<and> fl_state f = local_follow_state.Pending
        then f\<lparr>fl_state := local_follow_state.Accepted\<rparr> else f) fs)) =
      map_option local_follow_state_after_authorize (map_option fl_state (find P fs))"
proof (induction fs)
  case (Cons f fs)
  then show ?case using assms by (cases "fl_state f") auto
qed simp

text \<open>
  C28: The tables implement the request of the domain. A Follow of an actor of whom nothing is known
  makes it the initial request, and what the owner decides, if it is carried out, is what the domain
  makes of the request that is waiting; the same holds for the row of a local follower.
\<close>

theorem follow_tables_refine_request:
  assumes "follow_targets_local_actor (jget activity ''object'')
      (actor_url (fe_config env) (la_username account))"
    and "rp_actor_uri actor \<notin> follower_uris db (la_id account) \<union> requester_uris db (la_id account)"
    and "handle_inbox_follow env fresh activity actor account db = (result, followed)"
    and "uri \<in> requester_uris db2 (la_id account)" "uri \<notin> follower_uris db2 (la_id account)"
    and "rq_actor_uri q = uri"
    and "authorize_pending_follow_request env fresh account (Remote_Request q) db2 = (Inr (), authorized)"
    and "reject_pending_follow_request env fresh account (Remote_Request q) db2 = (Inr (), rejected)"
  shows "inbound_state (la_locked account) followed (la_id account) (rp_actor_uri actor) =
      initial_local_follow_request_state RemoteFollower (la_locked account) \<and>
    inbound_state (la_locked account) db2 (la_id account) uri =
      pending_remote_follow_request_state (la_locked account) \<and>
    inbound_state (la_locked account) authorized (la_id account) uri =
      authorize_local_follow_request (inbound_state (la_locked account) db2 (la_id account) uri) \<and>
    inbound_state (la_locked account) rejected (la_id account) uri =
      reject_local_follow_request (inbound_state (la_locked account) db2 (la_id account) uri) \<and>
    local_follow_of (snd (authorize_pending_follow_request env fresh account (Local_Request u) db))
        (la_id account) u =
      map_option local_follow_state_after_authorize (local_follow_of db (la_id account) u)"
proof (intro conjI)
  show "inbound_state (la_locked account) followed (la_id account) (rp_actor_uri actor) =
      initial_local_follow_request_state RemoteFollower (la_locked account)"
    using follow_outcome [OF assms(1,3)] assms(2)
    by (cases "la_locked account") (simp_all add: inbound_state_def
        remote_inbound_request_after_inbox_follow_def)
  show pending: "inbound_state (la_locked account) db2 (la_id account) uri =
      pending_remote_follow_request_state (la_locked account)"
    using assms(4,5) by (simp add: inbound_state_def pending_remote_follow_request_state_def)
  show "inbound_state (la_locked account) authorized (la_id account) uri =
      authorize_local_follow_request (inbound_state (la_locked account) db2 (la_id account) uri)"
    unfolding pending using authorize_outcome [OF assms(4,6,7)]
    by (simp add: inbound_state_def authorize_local_follow_request_def
        pending_remote_follow_request_state_def)
  show "inbound_state (la_locked account) rejected (la_id account) uri =
      reject_local_follow_request (inbound_state (la_locked account) db2 (la_id account) uri)"
    unfolding pending using reject_outcome [OF assms(4,6,8)] assms(5)
    by (simp add: inbound_state_def reject_local_follow_request_def
        pending_remote_follow_request_state_def)
  from local_authorized [where P = "\<lambda>f. fl_target_account_id f = la_id account \<and> fl_follower_account_id f = u"]
  show "local_follow_of (snd (authorize_pending_follow_request env fresh account (Local_Request u) db))
        (la_id account) u =
      map_option local_follow_state_after_authorize (local_follow_of db (la_id account) u)"
    by (simp add: local_follow_of_def authorize_pending_follow_request_def Let_def conj_assoc
        authorize_local_follow_request_def pending_local_follow_request_state_def)
qed

theorem follow_tables_refine_request_witness:
  "inbound_state True (snd (authorize_pending_follow_request sample_follow_env ''7'' locked_author
      (Remote_Request sample_remote_request) (empty_follow_db\<lparr>fd_requests := [sample_remote_request]\<rparr>)))
      ''1'' (rp_actor_uri bob) =
    authorize_local_follow_request (pending_remote_follow_request_state True)"
proof -
  let ?db = "empty_follow_db\<lparr>fd_requests := [sample_remote_request]\<rparr>"
  have facts: "follow_targets_local_actor (jget sample_follow_activity ''object'')
      (actor_url (fe_config sample_follow_env) (la_username locked_author))"
    "rp_actor_uri bob \<notin> follower_uris empty_follow_db (la_id locked_author) \<union>
      requester_uris empty_follow_db (la_id locked_author)"
    "rp_actor_uri bob \<in> requester_uris ?db (la_id locked_author)"
    "rp_actor_uri bob \<notin> follower_uris ?db (la_id locked_author)"
    "rq_actor_uri sample_remote_request = rp_actor_uri bob"
    "fst (authorize_pending_follow_request sample_follow_env ''7'' locked_author
      (Remote_Request sample_remote_request) ?db) = Inr ()"
    "fst (reject_pending_follow_request sample_follow_env ''7'' locked_author
      (Remote_Request sample_remote_request) ?db) = Inr ()"
    by code_simp+
  obtain result followed where run: "handle_inbox_follow sample_follow_env ''7'' sample_follow_activity bob
      locked_author empty_follow_db = (result, followed)" by force
  obtain authorized where authorized: "authorize_pending_follow_request sample_follow_env ''7'' locked_author
      (Remote_Request sample_remote_request) ?db = (Inr (), authorized)"
    using facts(6) by (metis prod.collapse)
  obtain rejected where rejected: "reject_pending_follow_request sample_follow_env ''7'' locked_author
      (Remote_Request sample_remote_request) ?db = (Inr (), rejected)"
    using facts(7) by (metis prod.collapse)
  from follow_tables_refine_request [OF facts(1,2) run facts(3-5) authorized rejected] authorized
  show ?thesis by (simp add: locked_author_fields)
qed


definition sample_author_profile :: remote_actor_profile where
  "sample_author_profile = bob\<lparr>rp_actor_uri := actor_url sample_config ''al''\<rparr>"

definition sample_followed_db :: follow_db where
  "sample_followed_db = empty_follow_db\<lparr>fd_outbound := \<lparr>ob_rows = [], ob_follows =
     [\<lparr>fo_follower_account_id = ''1'', fo_target_actor_uri = actor_url sample_config ''al'',
       fo_follow_activity_id = ''f'', fo_state = remote_follow_state.Pending\<rparr>]\<rparr>\<rparr>"

definition sample_handshake :: "(string + unit) \<times> follow_db" where
  "sample_handshake = handle_inbox_follow sample_follow_env ''7''
     (build_follow_activity_with_id sample_config sample_author (rp_actor_uri sample_author_profile) ''f'' ''T'')
     sample_author_profile locked_author empty_follow_db"


text \<open>
  The follower is known by its address even after its Follow of a locked account is refused: if it
  follows already and asks again, the refusal of the owner is sent, but it keeps following.
\<close>

lemma rejected_follower_stays:
  assumes "uri \<in> follower_uris db (la_id viewer)" "uri \<in> requester_uris db (la_id viewer)"
    and "rq_actor_uri q = uri"
    and "reject_pending_follow_request env fresh viewer (Remote_Request q) db = (Inr (), db')"
  shows "uri \<in> follower_uris db' (la_id viewer) \<and> uri \<notin> requester_uris db' (la_id viewer)"
  using reject_outcome [OF assms(2-4)] assms(1) by simp

text \<open>
  When a follower leaves, the deliveries that are pending for the inbox it shares are given up, also
  those that other followers of its server would have been given by them.
\<close>

lemma undo_cancels_others_deliveries:
  assumes "find (\<lambda>f. of_actor account uri uri (fw_account_id f) (fw_actor_uri f)) (fd_followers db) = Some f"
    and "follower_target (follower_row.truncate f) = inbox" "trim inbox = inbox" "inbox \<noteq> []"
    and "g \<in> set (fd_followers db)" "fw_account_id g = account" "fw_actor_uri g \<noteq> uri"
    and "d \<in> set (fd_outbox db)" "od_account_id d = account" "od_target_inbox d = Some inbox"
    and "od_state d = Row_Queued"
  shows "g \<in> set (fd_followers (delete_follower_by_actor account uri uri db)) \<and>
    d\<lparr>od_state := Row_Failed\<rparr> \<in> set (fd_outbox (delete_follower_by_actor account uri uri db))"
proof -
  have "trimmed_option (Some inbox) = Some inbox"
    using assms(3,4) by (simp add: trimmed_option_def trimmed_nonempty_id)
  then have "delete_follower_by_actor account uri uri db = db\<lparr>
      fd_followers := filter (\<lambda>f. \<not> of_actor account uri uri (fw_account_id f) (fw_actor_uri f)) (fd_followers db),
      fd_outbox := cancel_pending_outbox_deliveries_for_inbox account inbox (fd_outbox db)\<rparr>"
    using assms(1,2) by (simp add: delete_follower_by_actor_def Let_def)
  moreover have "d\<lparr>od_state := Row_Failed\<rparr> \<in>
      set (cancel_pending_outbox_deliveries_for_inbox account inbox (fd_outbox db))"
    using assms(8-11) unfolding cancel_pending_outbox_deliveries_for_inbox_def update_where_def
    by (auto intro!: rev_image_eqI [of d])
  ultimately show ?thesis using assms(5-7) by (simp add: of_actor_def)
qed

end
