(* ===== verification/Background_Jobs.thy ===== *)
theory Background_Jobs
  imports Text_Ops
begin

text \<open>
  The jobs a worker leaves for later (\<open>background_jobs.rs\<close>): the rows of \<open>background_jobs\<close> with every
  statement on them, what a worker that has claimed a job reports of it, and runs of workers that
  overlap, are late or die. Times are in seconds. What a job does is not part of the queue.
\<close>

section \<open>Rows\<close>

datatype job_status = Job_Pending | Job_Running | Job_Completed | Job_Failed

record background_job =
  bj_id :: string
  bj_type :: string
  bj_payload :: string
  bj_status :: job_status
  bj_attempts :: int
  bj_next_run_at :: int
  bj_last_error :: "string option"
  bj_updated_at :: int

definition MAX_JOB_ATTEMPTS :: int where "MAX_JOB_ATTEMPTS = 5"

definition BASE_BACKOFF_SECS :: int where "BASE_BACKOFF_SECS = 60"

definition BACKGROUND_JOB_STALE_SECONDS :: int where "BACKGROUND_JOB_STALE_SECONDS = 15 * 60"

definition STALE_RECLAIM_ERROR :: string where
  "STALE_RECLAIM_ERROR = ''reclaimed after stale running state (worker cancellation or timeout)''"

definition job_open :: "background_job \<Rightarrow> bool" where
  "job_open j \<longleftrightarrow> bj_status j = Job_Pending \<or> bj_status j = Job_Running"

definition job_stale :: "int \<Rightarrow> background_job \<Rightarrow> bool" where
  "job_stale now j \<longleftrightarrow>
    bj_status j = Job_Running \<and> bj_updated_at j \<le> now - BACKGROUND_JOB_STALE_SECONDS"

section \<open>Statements\<close>

definition update_jobs ::
    "string list \<Rightarrow> (background_job \<Rightarrow> background_job) \<Rightarrow> background_job list \<Rightarrow> background_job list" where
  "update_jobs ids f jobs = map (\<lambda>j. if bj_id j \<in> set ids then f j else j) jobs"

definition first_jobs ::
    "(background_job \<Rightarrow> int) \<Rightarrow> nat \<Rightarrow> (background_job \<Rightarrow> bool) \<Rightarrow> background_job list \<Rightarrow> string list" where
  "first_jobs key limit P jobs = map bj_id (take limit (sort_key key (filter P jobs)))"

definition soft_enqueue_background_job ::
    "string \<Rightarrow> int \<Rightarrow> string \<Rightarrow> string \<Rightarrow> int \<Rightarrow> background_job list \<Rightarrow> background_job list" where
  "soft_enqueue_background_job ident now job_type payload next_run_at jobs =
    (if list_ex (\<lambda>j. bj_id j = ident \<or>
         (bj_type j = job_type \<and> bj_payload j = payload \<and> job_open j)) jobs
     then jobs
     else jobs @ [\<lparr>bj_id = ident, bj_type = job_type, bj_payload = payload, bj_status = Job_Pending,
       bj_attempts = 0, bj_next_run_at = next_run_at, bj_last_error = None, bj_updated_at = now\<rparr>])"

definition reclaimed :: "int \<Rightarrow> job_status \<Rightarrow> background_job \<Rightarrow> background_job" where
  "reclaimed now status j =
    j\<lparr>bj_status := status, bj_attempts := bj_attempts j + 1, bj_next_run_at := now,
      bj_last_error := Some STALE_RECLAIM_ERROR, bj_updated_at := now\<rparr>"

text \<open>How many were put back, how many have failed, and the table.\<close>

definition reclaim_stale_background_jobs ::
    "int \<Rightarrow> u32 \<Rightarrow> background_job list \<Rightarrow> (nat \<times> nat) \<times> background_job list" where
  "reclaim_stale_background_jobs now limit jobs =
    (let limit = nat (if uint limit < 2 ^ 31 then uint limit else 100);
         exhausted = first_jobs bj_updated_at limit
           (\<lambda>j. job_stale now j \<and> bj_attempts j + 1 \<ge> MAX_JOB_ATTEMPTS) jobs;
         jobs = update_jobs exhausted (reclaimed now Job_Failed) jobs;
         remaining = limit - length exhausted
     in if remaining = 0 then ((0, length exhausted), jobs)
        else let again = first_jobs bj_updated_at remaining
               (\<lambda>j. job_stale now j \<and> bj_attempts j + 1 < MAX_JOB_ATTEMPTS) jobs
          in ((length again, length exhausted), update_jobs again (reclaimed now Job_Pending) jobs))"

definition claimed :: "int \<Rightarrow> background_job \<Rightarrow> background_job" where
  "claimed now j = j\<lparr>bj_status := Job_Running, bj_updated_at := now\<rparr>"

definition claim_jobs ::
    "(background_job \<Rightarrow> bool) \<Rightarrow> int \<Rightarrow> nat \<Rightarrow> background_job list \<Rightarrow>
     background_job list \<times> background_job list" where
  "claim_jobs P now limit jobs =
    (let ids = first_jobs bj_next_run_at limit
           (\<lambda>j. bj_status j = Job_Pending \<and> bj_next_run_at j \<le> now \<and> P j) jobs
     in (map (claimed now) (filter (\<lambda>j. bj_id j \<in> set ids) jobs), update_jobs ids (claimed now) jobs))"

text \<open>The claims of \<open>process_due_background_jobs\<close> and \<open>run_pending_background_job_now\<close>.\<close>

definition claim_due_background_jobs ::
    "int \<Rightarrow> u32 \<Rightarrow> background_job list \<Rightarrow> background_job list \<times> background_job list" where
  "claim_due_background_jobs now limit =
    claim_jobs (\<lambda>_. True) now (nat (min (uint limit) (2 ^ 31 - 1)))"

definition claim_pending_background_job ::
    "int \<Rightarrow> string \<Rightarrow> string \<Rightarrow> background_job list \<Rightarrow> background_job list \<times> background_job list" where
  "claim_pending_background_job now job_type payload =
    claim_jobs (\<lambda>j. bj_type j = job_type \<and> bj_payload j = payload) now 1"

text \<open>
  The report on a claimed job; \<open>now\<close> is when the worker claimed it. The guard of the statement is the
  identifier of the job alone.
\<close>

definition run_claimed_background_job ::
    "int \<Rightarrow> background_job \<Rightarrow> string + unit \<Rightarrow> background_job list \<Rightarrow> background_job list" where
  "run_claimed_background_job now job result =
    update_jobs [bj_id job]
      (case result of
         Inr _ \<Rightarrow> (\<lambda>j. j\<lparr>bj_status := Job_Completed, bj_updated_at := now\<rparr>)
       | Inl message \<Rightarrow>
           let next_attempts = bj_attempts job + 1;
               (status, next_run_at) =
                 (if next_attempts \<ge> MAX_JOB_ATTEMPTS then (Job_Failed, now)
                  else (Job_Pending, now + BASE_BACKOFF_SECS * 2 ^ nat (min next_attempts 6)))
           in (\<lambda>j. j\<lparr>bj_status := status, bj_attempts := next_attempts, bj_next_run_at := next_run_at,
                    bj_last_error := Some message, bj_updated_at := now\<rparr>))"

section \<open>Runs\<close>

text \<open>
  Workers that overlap. \<open>bw_workers\<close> has the jobs being run with the time each was claimed,
  \<open>bw_claims\<close> and \<open>bw_succeeded\<close> the jobs that were claimed and that ended well, each as often as it
  happened.
\<close>

record job_world =
  bw_now :: int
  bw_jobs :: "background_job list"
  bw_workers :: "(background_job \<times> int) list"
  bw_claims :: "string list"
  bw_succeeded :: "string list"

definition empty_job_world :: job_world where
  "empty_job_world = \<lparr>bw_now = 0, bw_jobs = [], bw_workers = [], bw_claims = [], bw_succeeded = []\<rparr>"

datatype job_event =
    Time_Passes nat
  | Enqueue_Job string string string int
  | Claim_Due u32
  | Claim_Now string string
  | Report_Job background_job int "string + unit"
  | Worker_Dies background_job int
  | Reclaim_Stale u32

definition taken :: "background_job list \<times> background_job list \<Rightarrow> job_world \<Rightarrow> job_world" where
  "taken claim w = w\<lparr>bw_jobs := snd claim,
    bw_workers := bw_workers w @ map (\<lambda>j. (j, bw_now w)) (fst claim),
    bw_claims := bw_claims w @ map bj_id (fst claim)\<rparr>"

fun job_apply :: "job_event \<Rightarrow> job_world \<Rightarrow> job_world" where
  "job_apply (Time_Passes n) w = w\<lparr>bw_now := bw_now w + int n\<rparr>"
| "job_apply (Enqueue_Job ident job_type payload at) w =
     w\<lparr>bw_jobs := soft_enqueue_background_job ident (bw_now w) job_type payload at (bw_jobs w)\<rparr>"
| "job_apply (Claim_Due limit) w = taken (claim_due_background_jobs (bw_now w) limit (bw_jobs w)) w"
| "job_apply (Claim_Now job_type payload) w =
     taken (claim_pending_background_job (bw_now w) job_type payload (bw_jobs w)) w"
| "job_apply (Report_Job job t result) w =
     (if (job, t) \<in> set (bw_workers w)
      then w\<lparr>bw_jobs := run_claimed_background_job t job result (bw_jobs w),
             bw_workers := remove1 (job, t) (bw_workers w),
             bw_succeeded := (if is_ok result then bj_id job # bw_succeeded w else bw_succeeded w)\<rparr>
      else w)"
| "job_apply (Worker_Dies job t) w = w\<lparr>bw_workers := remove1 (job, t) (bw_workers w)\<rparr>"
| "job_apply (Reclaim_Stale limit) w =
     w\<lparr>bw_jobs := snd (reclaim_stale_background_jobs (bw_now w) limit (bw_jobs w))\<rparr>"

text \<open>No worker reports on a job it claimed a quarter of an hour ago or longer.\<close>

fun job_prompt :: "job_event \<Rightarrow> job_world \<Rightarrow> bool" where
  "job_prompt (Report_Job job t result) w \<longleftrightarrow> bw_now w - t < BACKGROUND_JOB_STALE_SECONDS"
| "job_prompt _ w \<longleftrightarrow> True"

fun job_run :: "job_event list \<Rightarrow> job_world \<Rightarrow> job_world" where
  "job_run [] w = w"
| "job_run (e # es) w = job_run es (job_apply e w)"

fun prompt_job_run :: "job_event list \<Rightarrow> job_world \<Rightarrow> bool" where
  "prompt_job_run [] w \<longleftrightarrow> True"
| "prompt_job_run (e # es) w \<longleftrightarrow> job_prompt e w \<and> prompt_job_run es (job_apply e w)"

section \<open>The invariant of prompt runs\<close>

definition fresh_workers :: "job_world \<Rightarrow> (background_job \<times> int) list" where
  "fresh_workers w =
    filter (\<lambda>(d, t). bw_now w - t < BACKGROUND_JOB_STALE_SECONDS) (bw_workers w)"

definition job_ok :: "job_world \<Rightarrow> background_job \<Rightarrow> bool" where
  "job_ok w j \<longleftrightarrow>
    0 \<le> bj_attempts j \<and> bj_attempts j \<le> MAX_JOB_ATTEMPTS \<and>
    (bj_status j \<noteq> Job_Failed \<longrightarrow> bj_attempts j < MAX_JOB_ATTEMPTS) \<and>
    (bj_status j = Job_Failed \<longrightarrow> bj_attempts j = MAX_JOB_ATTEMPTS) \<and>
    int (count_list (bw_claims w) (bj_id j)) =
      bj_attempts j + (if bj_status j \<in> {Job_Running, Job_Completed} then 1 else 0) \<and>
    count_list (bw_succeeded w) (bj_id j) = (if bj_status j = Job_Completed then 1 else 0)"

definition job_held :: "background_job list \<Rightarrow> background_job \<times> int \<Rightarrow> bool" where
  "job_held jobs = (\<lambda>(d, t). \<exists>j \<in> set jobs. bj_id j = bj_id d \<and> bj_status j = Job_Running \<and>
     bj_attempts j = bj_attempts d \<and> bj_updated_at j = t)"

definition job_key :: "background_job \<Rightarrow> string \<times> string" where
  "job_key j = (bj_type j, bj_payload j)"

definition job_world_ok :: "job_world \<Rightarrow> bool" where
  "job_world_ok w \<longleftrightarrow>
    distinct (map bj_id (bw_jobs w)) \<and> (\<forall>j \<in> set (bw_jobs w). job_ok w j) \<and>
    (\<forall>d \<in> set (fresh_workers w). job_held (bw_jobs w) d) \<and>
    distinct (map (bj_id \<circ> fst) (fresh_workers w)) \<and>
    distinct (map job_key (filter job_open (bw_jobs w))) \<and>
    set (bw_claims w) \<union> set (bw_succeeded w) \<subseteq> set (map bj_id (bw_jobs w))"

lemma distinct_keys_update:
  assumes "distinct (map k (filter Q xs))" "\<And>x. x \<in> set xs \<Longrightarrow> k (g x) = k x"
    "\<And>x. x \<in> set xs \<Longrightarrow> Q (g x) \<Longrightarrow> Q x"
  shows "distinct (map k (filter Q (map g xs)))"
  using assms
proof (induction xs)
  case (Cons x xs)
  have sub: "k ` set (filter Q (map g xs)) \<subseteq> k ` set (filter Q xs)"
    using Cons.prems(2,3) by (auto simp: image_iff)
  show ?case
    using Cons.IH Cons.prems sub by (auto split: if_splits)
qed simp

lemma job_ids_update [simp]:
  assumes "\<And>j. bj_id (f j) = bj_id j"
  shows "map bj_id (update_jobs ids f jobs) = map bj_id jobs"
  using assms by (simp add: update_jobs_def)

lemma distinct_id:
  "distinct (map bj_id jobs) \<Longrightarrow> i \<in> set jobs \<Longrightarrow> j \<in> set jobs \<Longrightarrow> bj_id i = bj_id j \<Longrightarrow> i = j"
  by (auto simp: distinct_map dest: inj_onD)

lemma first_jobs_P:
  assumes "distinct (map bj_id jobs)" "j \<in> set jobs" "bj_id j \<in> set (first_jobs key limit P jobs)"
  shows "P j"
proof -
  from assms(3) obtain i where "i \<in> set (take limit (sort_key key (filter P jobs)))" "bj_id i = bj_id j"
    by (auto simp: first_jobs_def)
  then have "i \<in> set jobs" "P i" by (auto dest: in_set_takeD)
  then show ?thesis using assms(1,2) \<open>bj_id i = bj_id j\<close> distinct_id by metis
qed

text \<open>A statement on rows that no prompt worker holds.\<close>

lemma update_ok:
  assumes ok: "job_world_ok w"
    and same: "\<And>j. bj_id (f j) = bj_id j" "\<And>j. job_key (f j) = job_key j"
    and f: "\<And>j. j \<in> set (bw_jobs w) \<Longrightarrow> bj_id j \<in> set ids \<Longrightarrow>
      job_open j \<and> job_ok w (f j) \<and> (\<forall>t. \<not> (bj_status j = Job_Running \<and> bj_updated_at j = t \<and>
        bw_now w - t < BACKGROUND_JOB_STALE_SECONDS))"
  shows "job_world_ok (w\<lparr>bw_jobs := update_jobs ids f (bw_jobs w)\<rparr>)"
proof -
  let ?jobs = "update_jobs ids f (bw_jobs w)"
  have fresh: "fresh_workers (w\<lparr>bw_jobs := ?jobs\<rparr>) = fresh_workers w"
    and jok: "job_ok (w\<lparr>bw_jobs := ?jobs\<rparr>) j = job_ok w j" for j
    by (simp_all add: fresh_workers_def job_ok_def)
  have held: "job_held ?jobs d" if d: "d \<in> set (fresh_workers w)" for d
  proof -
    obtain e t where e: "d = (e, t)" by force
    from ok d have "job_held (bw_jobs w) d" by (simp add: job_world_ok_def)
    then obtain j where j: "j \<in> set (bw_jobs w)" "bj_id j = bj_id e" "bj_status j = Job_Running"
        "bj_attempts j = bj_attempts e" "bj_updated_at j = t"
      by (auto simp: job_held_def e)
    from d have "bw_now w - t < BACKGROUND_JOB_STALE_SECONDS" by (simp add: fresh_workers_def e)
    with f [of j] j have "bj_id j \<notin> set ids" by blast
    with j(1) have "j \<in> set ?jobs" by (force simp: update_jobs_def image_iff)
    with j show ?thesis by (auto simp: job_held_def e)
  qed
  have "distinct (map job_key (filter job_open ?jobs))"
    unfolding update_jobs_def
    by (rule distinct_keys_update) (use ok same f in \<open>auto simp: job_world_ok_def split: if_splits\<close>)
  moreover have "\<forall>j \<in> set ?jobs. job_ok w j"
    using ok f by (auto simp: job_world_ok_def update_jobs_def)
  moreover have "distinct (map bj_id ?jobs)" "set (map bj_id ?jobs) = set (map bj_id (bw_jobs w))"
    using ok same(1) by (simp_all add: job_world_ok_def del: set_map)
  ultimately show ?thesis
    using ok held unfolding job_world_ok_def fresh jok by (simp del: set_map)
qed

lemma reclaimed_ok:
  assumes ok: "job_world_ok w"
    and P: "\<And>j. P j \<Longrightarrow> job_stale (bw_now w) j \<and>
      (if status = Job_Failed then bj_attempts j + 1 \<ge> MAX_JOB_ATTEMPTS
       else status = Job_Pending \<and> bj_attempts j + 1 < MAX_JOB_ATTEMPTS)"
  shows "job_world_ok (w\<lparr>bw_jobs := update_jobs (first_jobs key limit P (bw_jobs w))
    (reclaimed (bw_now w) status) (bw_jobs w)\<rparr>)"
proof (rule update_ok [OF ok])
  show "bj_id (reclaimed (bw_now w) status j) = bj_id j"
    "job_key (reclaimed (bw_now w) status j) = job_key j" for j
    by (simp_all add: reclaimed_def job_key_def)
  fix j assume j: "j \<in> set (bw_jobs w)" "bj_id j \<in> set (first_jobs key limit P (bw_jobs w))"
  with ok have "P j" by (intro first_jobs_P) (auto simp: job_world_ok_def)
  note facts = P [OF this]
  from facts have stale: "bj_status j = Job_Running"
      "bj_updated_at j \<le> bw_now w - BACKGROUND_JOB_STALE_SECONDS"
    by (simp_all add: job_stale_def)
  from ok j(1) have "job_ok w j" by (simp add: job_world_ok_def)
  with facts stale have "job_ok w (reclaimed (bw_now w) status j)"
    by (auto simp: job_ok_def reclaimed_def job_open_def split: if_splits)
  with stale show "job_open j \<and> job_ok w (reclaimed (bw_now w) status j) \<and>
      (\<forall>t. \<not> (bj_status j = Job_Running \<and> bj_updated_at j = t \<and>
        bw_now w - t < BACKGROUND_JOB_STALE_SECONDS))"
    by (auto simp: job_open_def)
qed

lemma reclaim_stale_ok:
  assumes ok: "job_world_ok w"
  shows "job_world_ok (w\<lparr>bw_jobs := snd (reclaim_stale_background_jobs (bw_now w) limit (bw_jobs w))\<rparr>)"
proof -
  define n where "n = nat (if uint limit < 2 ^ 31 then uint limit else 100)"
  define ids where "ids = first_jobs bj_updated_at n
    (\<lambda>j. job_stale (bw_now w) j \<and> bj_attempts j + 1 \<ge> MAX_JOB_ATTEMPTS) (bw_jobs w)"
  let ?w = "w\<lparr>bw_jobs := update_jobs ids (reclaimed (bw_now w) Job_Failed) (bw_jobs w)\<rparr>"
  have w: "job_world_ok ?w" unfolding ids_def by (rule reclaimed_ok [OF ok]) simp
  have "job_world_ok (?w\<lparr>bw_jobs := update_jobs (first_jobs bj_updated_at (n - length ids)
      (\<lambda>j. job_stale (bw_now w) j \<and> bj_attempts j + 1 < MAX_JOB_ATTEMPTS) (bw_jobs ?w))
      (reclaimed (bw_now ?w) Job_Pending) (bw_jobs ?w)\<rparr>)"
    by (rule reclaimed_ok [OF w]) simp
  with w show ?thesis
    unfolding reclaim_stale_background_jobs_def Let_def n_def [symmetric] ids_def [symmetric]
    by (simp split: if_splits)
qed

lemma enqueue_job_ok:
  assumes ok: "job_world_ok w"
  shows "job_world_ok (w\<lparr>bw_jobs :=
    soft_enqueue_background_job ident now job_type payload at (bw_jobs w)\<rparr>)"
proof (cases "list_ex (\<lambda>j. bj_id j = ident \<or>
    (bj_type j = job_type \<and> bj_payload j = payload \<and> job_open j)) (bw_jobs w)")
  case False
  then have new: "ident \<notin> set (map bj_id (bw_jobs w))"
    "(job_type, payload) \<notin> job_key ` {j \<in> set (bw_jobs w). job_open j}"
    by (auto simp: list_ex_iff job_key_def)
  with ok have "ident \<notin> set (bw_claims w)" "ident \<notin> set (bw_succeeded w)"
    by (auto simp: job_world_ok_def)
  then have "count_list (bw_claims w) ident = 0" "count_list (bw_succeeded w) ident = 0"
    by (simp_all add: count_list_0_iff)
  with False new ok show ?thesis
    by (auto simp: soft_enqueue_background_job_def job_world_ok_def job_ok_def fresh_workers_def
        job_held_def job_key_def job_open_def MAX_JOB_ATTEMPTS_def)
next
  case True
  then show ?thesis using ok by (simp add: soft_enqueue_background_job_def)
qed

lemma count_list_map_filter:
  assumes "distinct (map f xs)" "x \<in> set xs"
  shows "count_list (map f (filter P xs)) (f x) = (if P x then 1 else 0)"
proof -
  have "count_list (map f xs') y = (if y \<in> f ` set xs' then 1 else 0)" if "distinct (map f xs')" for xs' y
    using that by (induction xs') auto
  moreover have "distinct (map f (filter P xs))" using assms(1) by (rule distinct_map_filter)
  ultimately have "count_list (map f (filter P xs)) (f x) =
      (if f x \<in> f ` set (filter P xs) then 1 else 0)" by blast
  moreover have "f x \<in> f ` set (filter P xs) \<longleftrightarrow> P x"
    using assms by (auto simp: distinct_map dest: inj_onD)
  ultimately show ?thesis by simp
qed

lemma claim_ok:
  assumes ok: "job_world_ok w" and P: "\<And>j. P j \<Longrightarrow> bj_status j = Job_Pending"
    and ids: "ids = first_jobs key limit P (bw_jobs w)"
  shows "job_world_ok (taken (map (claimed (bw_now w)) (filter (\<lambda>j. bj_id j \<in> set ids) (bw_jobs w)),
    update_jobs ids (claimed (bw_now w)) (bw_jobs w)) w)"
proof -
  let ?sel = "filter (\<lambda>j. bj_id j \<in> set ids) (bw_jobs w)"
  let ?jobs = "update_jobs ids (claimed (bw_now w)) (bw_jobs w)"
  let ?w = "taken (map (claimed (bw_now w)) ?sel, ?jobs) w"
  have d: "distinct (map bj_id (bw_jobs w))" using ok by (simp add: job_world_ok_def)
  have pending: "bj_status j = Job_Pending" if "j \<in> set (bw_jobs w)" "bj_id j \<in> set ids" for j
    using first_jobs_P [OF d that(1), of key limit P] that(2) P by (simp add: ids)
  have claims: "bw_claims ?w = bw_claims w @ map bj_id ?sel" and jobs: "bw_jobs ?w = ?jobs"
    and rest: "bw_succeeded ?w = bw_succeeded w" "bw_now ?w = bw_now w"
    by (simp_all add: taken_def comp_def claimed_def)
  have fresh: "fresh_workers ?w = fresh_workers w @ map (\<lambda>j. (claimed (bw_now w) j, bw_now w)) ?sel"
    by (simp add: fresh_workers_def taken_def BACKGROUND_JOB_STALE_SECONDS_def comp_def)
  have disj: "bj_id (fst x) \<notin> set ids" if x: "x \<in> set (fresh_workers w)" for x
  proof -
    from ok x have "job_held (bw_jobs w) x" by (simp add: job_world_ok_def)
    then obtain j where j: "j \<in> set (bw_jobs w)" "bj_id j = bj_id (fst x)" "bj_status j = Job_Running"
      by (auto simp: job_held_def)
    show ?thesis
    proof
      assume "bj_id (fst x) \<in> set ids"
      with pending [OF j(1)] j(2,3) show False by simp
    qed
  qed
  have jok: "job_ok ?w (if bj_id j \<in> set ids then claimed (bw_now w) j else j)"
    if j: "j \<in> set (bw_jobs w)" for j
  proof -
    have "count_list (map bj_id ?sel) (bj_id j) = (if bj_id j \<in> set ids then 1 else 0)"
      using count_list_map_filter [OF d j] .
    with ok j pending [OF j] show ?thesis
      by (auto simp: job_world_ok_def job_ok_def claims rest claimed_def job_open_def)
  qed
  have held: "job_held ?jobs x" if x: "x \<in> set (fresh_workers ?w)" for x
  proof -
    consider "x \<in> set (fresh_workers w)"
      | j where "j \<in> set (bw_jobs w)" "bj_id j \<in> set ids" "x = (claimed (bw_now w) j, bw_now w)"
      using x unfolding fresh by auto
    then show ?thesis
    proof cases
      case 1
      with ok have "job_held (bw_jobs w) x" by (simp add: job_world_ok_def)
      with disj [OF 1] show ?thesis by (force simp: job_held_def update_jobs_def)
    next
      case 2
      then have "claimed (bw_now w) j \<in> set ?jobs"
        by (auto simp: update_jobs_def image_iff intro!: bexI [of _ j])
      then show ?thesis unfolding 2(3) job_held_def prod.case
        by (rule bexI [rotated]) (simp add: claimed_def)
    qed
  qed
  have "distinct (map (bj_id \<circ> fst) (fresh_workers ?w))"
    unfolding fresh map_append distinct_append
  proof (intro conjI)
    show "distinct (map (bj_id \<circ> fst) (fresh_workers w))" using ok by (simp add: job_world_ok_def)
    show "distinct (map (bj_id \<circ> fst) (map (\<lambda>j. (claimed (bw_now w) j, bw_now w)) ?sel))"
      using distinct_map_filter [OF d] by (simp add: comp_def claimed_def)
    have "y \<notin> set ids" if "y \<in> (bj_id \<circ> fst) ` set (fresh_workers w)" for y
      using that disj by (elim imageE) simp
    moreover have "set (map (bj_id \<circ> fst) (map (\<lambda>j. (claimed (bw_now w) j, bw_now w)) ?sel)) \<subseteq> set ids"
      by (auto simp: claimed_def)
    ultimately show "set (map (bj_id \<circ> fst) (fresh_workers w)) \<inter>
        set (map (bj_id \<circ> fst) (map (\<lambda>j. (claimed (bw_now w) j, bw_now w)) ?sel)) = {}"
      by (auto simp del: map_map)
  qed
  moreover have "distinct (map job_key (filter job_open ?jobs))"
    unfolding update_jobs_def
  proof (rule distinct_keys_update)
    show "distinct (map job_key (filter job_open (bw_jobs w)))" using ok by (simp add: job_world_ok_def)
    fix x assume x: "x \<in> set (bw_jobs w)"
    show "job_key (if bj_id x \<in> set ids then claimed (bw_now w) x else x) = job_key x"
      by (simp add: claimed_def job_key_def)
    show "job_open x" if "job_open (if bj_id x \<in> set ids then claimed (bw_now w) x else x)"
      using pending [OF x] that by (cases "bj_id x \<in> set ids") (simp_all add: job_open_def)
  qed
  moreover have ids_eq: "map bj_id ?jobs = map bj_id (bw_jobs w)" by (simp add: claimed_def)
  moreover have "job_ok ?w x" if x: "x \<in> set ?jobs" for x
  proof -
    from x obtain j where "j \<in> set (bw_jobs w)"
        "x = (if bj_id j \<in> set ids then claimed (bw_now w) j else j)"
      by (auto simp: update_jobs_def)
    then show ?thesis using jok by simp
  qed
  moreover have "set (bw_claims ?w) \<union> set (bw_succeeded ?w) \<subseteq> set (map bj_id (bw_jobs w))"
    using ok unfolding claims rest job_world_ok_def by auto
  ultimately show ?thesis
    unfolding job_world_ok_def jobs using d held by simp
qed

lemma report_job_ok:
  assumes ok: "job_world_ok w" and mem: "(d, t) \<in> set (bw_workers w)"
    and prompt: "bw_now w - t < BACKGROUND_JOB_STALE_SECONDS"
  shows "job_world_ok (job_apply (Report_Job d t result) w)"
proof -
  let ?w = "job_apply (Report_Job d t result) w"
  define f where "f = (\<lambda>j :: background_job. case result of
      Inr _ \<Rightarrow> j\<lparr>bj_status := Job_Completed, bj_updated_at := t\<rparr>
    | Inl message \<Rightarrow>
        if bj_attempts d + 1 \<ge> MAX_JOB_ATTEMPTS
        then j\<lparr>bj_status := Job_Failed, bj_attempts := bj_attempts d + 1, bj_next_run_at := t,
               bj_last_error := Some message, bj_updated_at := t\<rparr>
        else j\<lparr>bj_status := Job_Pending, bj_attempts := bj_attempts d + 1,
               bj_next_run_at := t + BASE_BACKOFF_SECS * 2 ^ nat (min (bj_attempts d + 1) 6),
               bj_last_error := Some message, bj_updated_at := t\<rparr>)"
  have same: "bj_id (f j) = bj_id j" "job_key (f j) = job_key j" for j
    by (simp_all add: f_def job_key_def split: sum.split)
  have jobs: "bw_jobs ?w = update_jobs [bj_id d] f (bw_jobs w)"
    using mem by (auto simp: run_claimed_background_job_def f_def fun_eq_iff Let_def update_jobs_def
        split: sum.split)
  have rest: "bw_claims ?w = bw_claims w" "bw_now ?w = bw_now w"
    "bw_succeeded ?w = (if is_ok result then bj_id d # bw_succeeded w else bw_succeeded w)"
    using mem by simp_all
  have fresh: "fresh_workers ?w = remove1 (d, t) (fresh_workers w)"
    using mem prompt by (simp add: fresh_workers_def filter_remove1)
  have in_fresh: "(d, t) \<in> set (fresh_workers w)" using mem prompt by (simp add: fresh_workers_def)
  from ok have dist: "distinct (map (bj_id \<circ> fst) (fresh_workers w))"
    and ids: "distinct (map bj_id (bw_jobs w))"
    and keys: "distinct (map job_key (filter job_open (bw_jobs w)))"
    by (simp_all add: job_world_ok_def)
  from ok in_fresh have "job_held (bw_jobs w) (d, t)" by (simp add: job_world_ok_def)
  then obtain j where j: "j \<in> set (bw_jobs w)" "bj_id j = bj_id d" "bj_status j = Job_Running"
      "bj_attempts j = bj_attempts d" by (auto simp: job_held_def)
  have only: "i = j" if "i \<in> set (bw_jobs w)" "bj_id i = bj_id d" for i
    using distinct_id [OF ids that(1) j(1)] that(2) j(2) by simp
  have others: "bj_id (fst x) \<noteq> bj_id d" if "x \<in> set (fresh_workers ?w)" for x
  proof -
    from dist have inj: "inj_on (bj_id \<circ> fst) (set (fresh_workers w))" and "distinct (fresh_workers w)"
      by (simp_all add: distinct_map)
    with that have "x \<in> set (fresh_workers w)" "x \<noteq> (d, t)" unfolding fresh by auto
    with inj_onD [OF inj _ _ in_fresh, of x] show ?thesis by auto
  qed
  have held: "job_held (bw_jobs ?w) x" if x: "x \<in> set (fresh_workers ?w)" for x
  proof -
    from x have "x \<in> set (fresh_workers w)" unfolding fresh by (meson notin_set_remove1)
    with ok have "job_held (bw_jobs w) x" by (simp add: job_world_ok_def)
    with others [OF x] show ?thesis unfolding jobs by (force simp: job_held_def update_jobs_def)
  qed
  have "job_ok w j" using ok j(1) by (simp add: job_world_ok_def)
  then have fj: "job_ok ?w (f j)"
    using j(2-4) unfolding job_ok_def rest
    by (cases result) (auto simp: f_def job_open_def)
  have other: "job_ok ?w i" if "i \<in> set (bw_jobs w)" "bj_id i \<noteq> bj_id d" for i
    using ok that unfolding job_ok_def rest by (simp add: job_world_ok_def job_ok_def)
  have "distinct (map (bj_id \<circ> fst) (fresh_workers ?w))"
    unfolding fresh using dist unfolding distinct_map
    by (meson distinct_remove1 inj_on_subset set_remove1_subset)
  moreover have "distinct (map job_key (filter job_open (bw_jobs ?w)))"
    unfolding jobs update_jobs_def
  proof (rule distinct_keys_update [OF keys])
    fix x assume x: "x \<in> set (bw_jobs w)"
    show "job_key (if bj_id x \<in> set [bj_id d] then f x else x) = job_key x" by (simp add: same)
    show "job_open x" if "job_open (if bj_id x \<in> set [bj_id d] then f x else x)"
      using only [OF x] j(3) that by (cases "bj_id x = bj_id d") (simp_all add: job_open_def)
  qed
  moreover have "map bj_id (bw_jobs ?w) = map bj_id (bw_jobs w)" unfolding jobs by (simp add: same)
  moreover have "\<forall>i \<in> set (bw_jobs ?w). job_ok ?w i"
    unfolding jobs using fj other only by (auto simp: update_jobs_def)
  moreover have "set (bw_claims ?w) \<union> set (bw_succeeded ?w) \<subseteq> set (map bj_id (bw_jobs w))"
    using ok imageI [OF j(1), of bj_id] j(2) unfolding rest job_world_ok_def by simp
  ultimately show ?thesis unfolding job_world_ok_def using ids held by simp
qed

lemma dies_ok:
  assumes ok: "job_world_ok w"
  shows "job_world_ok (job_apply (Worker_Dies d t) w)"
proof -
  let ?w = "job_apply (Worker_Dies d t) w"
  have fresh: "fresh_workers ?w = (if bw_now w - t < BACKGROUND_JOB_STALE_SECONDS
      then remove1 (d, t) (fresh_workers w) else fresh_workers w)"
    by (simp add: fresh_workers_def filter_remove1 remove1_idem)
  have "distinct (map (bj_id \<circ> fst) (remove1 (d, t) (fresh_workers w)))"
    using ok unfolding job_world_ok_def distinct_map
    by (meson distinct_remove1 inj_on_subset set_remove1_subset)
  then have "distinct (map (bj_id \<circ> fst) (fresh_workers ?w))"
    unfolding fresh using ok by (simp add: job_world_ok_def)
  moreover have "set (fresh_workers ?w) \<subseteq> set (fresh_workers w)"
    unfolding fresh by (simp add: set_remove1_subset)
  then have "\<forall>x \<in> set (fresh_workers ?w). job_held (bw_jobs w) x"
    using ok unfolding job_world_ok_def by blast
  moreover have "job_ok ?w j = job_ok w j" for j by (simp add: job_ok_def)
  ultimately show ?thesis using ok unfolding job_world_ok_def by simp
qed

lemma time_ok:
  assumes ok: "job_world_ok w"
  shows "job_world_ok (job_apply (Time_Passes n) w)"
proof -
  let ?w = "job_apply (Time_Passes n) w"
  have fresh: "fresh_workers ?w =
      filter (\<lambda>(d, t). bw_now ?w - t < BACKGROUND_JOB_STALE_SECONDS) (fresh_workers w)"
    by (auto simp: fresh_workers_def intro: filter_cong)
  have "job_ok ?w j = job_ok w j" for j by (simp add: job_ok_def)
  moreover have "distinct (map (bj_id \<circ> fst) (fresh_workers ?w))"
    unfolding fresh using ok by (intro distinct_map_filter) (simp add: job_world_ok_def)
  moreover have "set (fresh_workers ?w) \<subseteq> set (fresh_workers w)" unfolding fresh by auto
  then have "\<forall>x \<in> set (fresh_workers ?w). job_held (bw_jobs w) x"
    using ok unfolding job_world_ok_def by blast
  ultimately show ?thesis using ok unfolding job_world_ok_def by simp
qed

lemma apply_ok:
  assumes ok: "job_world_ok w" and prompt: "job_prompt e w"
  shows "job_world_ok (job_apply e w)"
proof (cases e)
  case (Report_Job d t result)
  then show ?thesis using report_job_ok [OF ok, of d t result] prompt ok
    by (cases "(d, t) \<in> set (bw_workers w)") simp_all
next
  case (Claim_Due limit)
  show ?thesis
    unfolding Claim_Due job_apply.simps claim_due_background_jobs_def claim_jobs_def Let_def
    by (rule claim_ok [OF ok _ refl]) simp
next
  case (Claim_Now job_type payload)
  show ?thesis
    unfolding Claim_Now job_apply.simps claim_pending_background_job_def claim_jobs_def Let_def
    by (rule claim_ok [OF ok _ refl]) simp
qed (use ok enqueue_job_ok reclaim_stale_ok dies_ok time_ok in simp_all)

lemma job_run_ok: "job_world_ok w \<Longrightarrow> prompt_job_run es w \<Longrightarrow> job_world_ok (job_run es w)"
  by (induction es arbitrary: w) (auto dest: apply_ok)

lemma empty_jobs_ok: "job_world_ok empty_job_world"
  by (simp add: job_world_ok_def empty_job_world_def fresh_workers_def)

lemma first_jobs_all:
  "length jobs \<le> n \<Longrightarrow> j \<in> set jobs \<Longrightarrow> P j \<Longrightarrow> bj_id j \<in> set (first_jobs key n P jobs)"
  by (simp add: first_jobs_def le_trans [OF length_filter_le])

lemma first_jobs_length: "length (first_jobs key n P jobs) \<le> length (filter P jobs)"
  by (simp add: first_jobs_def)

lemma in_table:
  "distinct (map bj_id jobs) \<Longrightarrow> j \<in> set jobs \<Longrightarrow> bj_id j \<in> set ids \<Longrightarrow> f j \<in> set (update_jobs ids f jobs)"
  by (force simp: update_jobs_def image_iff)

lemma not_in_table: "j \<in> set jobs \<Longrightarrow> bj_id j \<notin> set ids \<Longrightarrow> j \<in> set (update_jobs ids f jobs)"
  by (force simp: update_jobs_def image_iff)

lemma length_filter_mono:
  "(\<And>x. P x \<Longrightarrow> Q x) \<Longrightarrow> length (filter P xs) \<le> length (filter Q xs)"
  by (induction xs) (auto intro: le_SucI)

text \<open>A running row that nobody reports on is put back, or has failed, when it is reclaimed.\<close>

lemma stale_reclaimed:
  assumes d: "distinct (map bj_id jobs)" and j: "j \<in> set jobs" "job_stale now j"
    and n: "length jobs \<le> nat (uint limit)" "uint limit < 2 ^ 31"
  shows "\<exists>i \<in> set (snd (reclaim_stale_background_jobs now limit jobs)). bj_id i = bj_id j \<and>
    bj_attempts i = bj_attempts j + 1 \<and> bj_next_run_at i = now \<and>
    bj_status i = (if bj_attempts j + 1 \<ge> MAX_JOB_ATTEMPTS then Job_Failed else Job_Pending)"
proof -
  let ?P = "\<lambda>j. job_stale now j \<and> bj_attempts j + 1 \<ge> MAX_JOB_ATTEMPTS"
  let ?Q = "\<lambda>j. job_stale now j \<and> bj_attempts j + 1 < MAX_JOB_ATTEMPTS"
  define n where "n = nat (uint limit)"
  define ids where "ids = first_jobs bj_updated_at n ?P jobs"
  define jobs1 where "jobs1 = update_jobs ids (reclaimed now Job_Failed) jobs"
  define ids1 where "ids1 = first_jobs bj_updated_at (n - length ids) ?Q jobs1"
  have snd: "snd (reclaim_stale_background_jobs now limit jobs) =
      (if n - length ids = 0 then jobs1 else update_jobs ids1 (reclaimed now Job_Pending) jobs1)"
    using n(2) unfolding reclaim_stale_background_jobs_def Let_def ids_def jobs1_def ids1_def n_def
    by simp
  have ids_P: "?P i" if "i \<in> set jobs" "bj_id i \<in> set ids" for i
    using first_jobs_P [OF d that(1), of bj_updated_at n ?P] that(2) unfolding ids_def by blast
  have d1: "distinct (map bj_id jobs1)" using d by (simp add: jobs1_def reclaimed_def)
  have ids1_Q: "?Q i" if "i \<in> set jobs1" "bj_id i \<in> set ids1" for i
    using first_jobs_P [OF d1 that(1), of bj_updated_at "n - length ids" ?Q] that(2)
    unfolding ids1_def by blast
  show ?thesis
  proof (cases "bj_attempts j + 1 \<ge> MAX_JOB_ATTEMPTS")
    case True
    have "bj_id j \<in> set ids"
      unfolding ids_def by (rule first_jobs_all) (use n j True in \<open>simp_all add: n_def\<close>)
    then have r: "reclaimed now Job_Failed j \<in> set jobs1"
      unfolding jobs1_def by (rule in_table [OF d j(1)])
    moreover have "bj_id j \<notin> set ids1"
      using ids1_Q [OF r] by (auto simp: reclaimed_def job_stale_def)
    ultimately have "reclaimed now Job_Failed j \<in> set (snd (reclaim_stale_background_jobs now limit jobs))"
      unfolding snd by (auto intro: not_in_table simp: reclaimed_def)
    then show ?thesis by (rule bexI [rotated]) (use True in \<open>simp add: reclaimed_def\<close>)
  next
    case False
    then have "bj_id j \<notin> set ids" using ids_P [OF j(1)] by auto
    then have j1: "j \<in> set jobs1" unfolding jobs1_def by (rule not_in_table [OF j(1)])
    have "length ids \<le> length (filter ?P jobs)" unfolding ids_def by (rule first_jobs_length)
    moreover have "length (filter ?Q jobs1) \<le> length (filter (\<lambda>x. \<not> ?P x) jobs)"
      unfolding jobs1_def update_jobs_def filter_map length_map
      by (rule length_filter_mono) (auto simp: reclaimed_def job_stale_def split: if_splits)
    moreover have "0 < length (filter (\<lambda>x. \<not> ?P x) jobs)"
      using j(1) False by (auto simp: filter_empty_conv)
    ultimately have room: "length (filter ?Q jobs1) \<le> n - length ids" "n - length ids \<noteq> 0"
      using n(1) sum_length_filter_compl [of ?P jobs] unfolding n_def by linarith+
    have "bj_id j \<in> set ids1"
      unfolding ids1_def first_jobs_def using room(1) j1 j(2) False by simp
    then have "reclaimed now Job_Pending j \<in> set (update_jobs ids1 (reclaimed now Job_Pending) jobs1)"
      by (rule in_table [OF d1 j1])
    then show ?thesis
      unfolding snd using room(2) False
      by (auto intro!: bexI [of _ "reclaimed now Job_Pending j"] simp: reclaimed_def)
  qed
qed

section \<open>Properties\<close>


definition sample_job_run :: "job_event list" where
  "sample_job_run = [Enqueue_Job ''a'' ''t'' ''p'' 0, Claim_Due 7]"

lemma sample_job_run_facts:
  "prompt_job_run sample_job_run empty_job_world"
  "job_run sample_job_run empty_job_world = \<lparr>bw_now = 0,
     bw_jobs = [\<lparr>bj_id = ''a'', bj_type = ''t'', bj_payload = ''p'', bj_status = Job_Running,
       bj_attempts = 0, bj_next_run_at = 0, bj_last_error = None, bj_updated_at = 0\<rparr>],
     bw_workers = [(\<lparr>bj_id = ''a'', bj_type = ''t'', bj_payload = ''p'', bj_status = Job_Running,
       bj_attempts = 0, bj_next_run_at = 0, bj_last_error = None, bj_updated_at = 0\<rparr>, 0)],
     bw_claims = [''a''], bw_succeeded = []\<rparr>"
  by (simp_all add: sample_job_run_def empty_job_world_def soft_enqueue_background_job_def taken_def
      claim_due_background_jobs_def claim_jobs_def first_jobs_def update_jobs_def claimed_def Let_def)


text \<open>
  A report has no mark of the claim it is for. A worker that was taken for dead, and then fails,
  makes a job that another has completed pending again, and it is run once more.
\<close>

lemma completed_job_runs_again:
  defines "job \<equiv> \<lparr>bj_id = ''a'', bj_type = ''t'', bj_payload = ''p'', bj_status = Job_Running,
     bj_attempts = 0, bj_next_run_at = 0, bj_last_error = None, bj_updated_at = 0\<rparr>"
  defines "w \<equiv> job_run [Time_Passes 900, Reclaim_Stale 7, Claim_Due 7,
     Report_Job (job\<lparr>bj_attempts := 1, bj_next_run_at := 900,
       bj_last_error := Some STALE_RECLAIM_ERROR, bj_updated_at := 900\<rparr>) 900 (Inr ()),
     Report_Job job 0 (Inl ''late''), Claim_Due 7] (job_run sample_job_run empty_job_world)"
  shows "bw_succeeded w = [''a''] \<and> map bj_status (bw_jobs w) = [Job_Running] \<and>
    bw_claims w = [''a'', ''a'', ''a'']"
  unfolding w_def job_def sample_job_run_facts(2)
  by (simp add: taken_def claim_due_background_jobs_def claim_jobs_def first_jobs_def update_jobs_def
      claimed_def Let_def reclaim_stale_background_jobs_def job_stale_def reclaimed_def
      BACKGROUND_JOB_STALE_SECONDS_def MAX_JOB_ATTEMPTS_def run_claimed_background_job_def
      BASE_BACKOFF_SECS_def)

end
