(* ===== verification/Remote_Store.thy ===== *)
theory Remote_Store
  imports Remote_Ingest Note_Emission Recipients Actor_Profile Background_Jobs
begin

text \<open>
  The tables of remote statuses (\<open>remote/store.rs\<close>, \<open>remote/store/\<close>, \<open>store/statuses/remote_mutations.rs\<close>,
  \<open>remote/poll_mutations.rs\<close>): the statements on them, and the storing of a note or an announce with
  its attachments, its poll, the snapshot of what it replaces and the jobs it asks for. Hashtags,
  mentions and counts are not modelled. What is rendered (the snapshot of an edit, the preview card,
  the map of emojis) is an argument.
\<close>

section \<open>Rows with a key\<close>

text \<open>\<open>INSERT .. ON CONFLICT(key) DO UPDATE SET ..\<close>: \<open>merge\<close> makes the row from the one that is there.\<close>

definition upsert_by :: "('r \<Rightarrow> 'k) \<Rightarrow> ('r \<Rightarrow> 'r \<Rightarrow> 'r) \<Rightarrow> 'r \<Rightarrow> 'r list \<Rightarrow> 'r list" where
  "upsert_by key merge excluded rows =
    (if list_ex (\<lambda>r. key r = key excluded) rows
     then map (\<lambda>r. if key r = key excluded then merge excluded r else r) rows
     else rows @ [excluded])"

definition row_with :: "('r \<Rightarrow> 'k) \<Rightarrow> 'k \<Rightarrow> 'r list \<Rightarrow> 'r option" where
  "row_with key k rows = find (\<lambda>r. key r = k) rows"

text \<open>What the statements of a table with a unique key promise.\<close>

locale keyed_upsert =
  fixes key :: "'r \<Rightarrow> 'k" and merge :: "'r \<Rightarrow> 'r \<Rightarrow> 'r"
  assumes merge_key: "key r = key x \<Longrightarrow> key (merge x r) = key x"
begin

lemma upsert_finds:
  "row_with key (key x) (upsert_by key merge x rows) =
    Some (case row_with key (key x) rows of None \<Rightarrow> x | Some r \<Rightarrow> merge x r)"
proof (cases "list_ex (\<lambda>r. key r = key x) rows")
  case True
  then have "find (\<lambda>r. key r = key x) (map (\<lambda>r. if key r = key x then merge x r else r) rows) =
      map_option (merge x) (find (\<lambda>r. key r = key x) rows)"
    by (induction rows) (auto simp: merge_key)
  moreover from True obtain r where "find (\<lambda>r. key r = key x) rows = Some r"
    by (cases "find (\<lambda>r. key r = key x) rows") (auto simp: find_None_iff list_ex_iff)
  ultimately show ?thesis using True by (simp add: row_with_def upsert_by_def)
next
  case False
  then have "find (\<lambda>r. key r = key x) rows = None" by (simp add: find_None_iff list_ex_iff)
  moreover have "find (\<lambda>r. key r = key x) (rows @ [x]) = Some x"
    using False by (induction rows) auto
  ultimately show ?thesis using False by (simp add: row_with_def upsert_by_def)
qed

lemma upsert_finds_others:
  assumes "k \<noteq> key x"
  shows "row_with key k (upsert_by key merge x rows) = row_with key k rows"
proof -
  have "find (\<lambda>r. key r = k) (map (\<lambda>r. if key r = key x then merge x r else r) rows) =
      find (\<lambda>r. key r = k) rows"
    using assms by (induction rows) (auto simp: merge_key)
  moreover have "find (\<lambda>r. key r = k) (rows @ [x]) = find (\<lambda>r. key r = k) rows"
    using assms by (induction rows) auto
  ultimately show ?thesis by (simp add: row_with_def upsert_by_def)
qed

lemma upsert_found:
  assumes "row_with key k rows = Some r"
  shows "row_with key k (upsert_by key merge x rows) = Some (if key x = k then merge x r else r)"
  using assms upsert_finds [of x rows] upsert_finds_others [of k x rows] by auto

lemma map_keys: "map key (map (\<lambda>r. if key r = key x then merge x r else r) rows) = map key rows"
  by (simp add: merge_key cong: if_cong)

lemma upsert_keys: "set (map key (upsert_by key merge x rows)) = insert (key x) (set (map key rows))"
proof (cases "list_ex (\<lambda>r. key r = key x) rows")
  case True
  then obtain r where "r \<in> set rows" "key x = key r" by (auto simp: list_ex_iff)
  then have "key x \<in> set (map key rows)" by simp
  then show ?thesis using True by (simp only: upsert_by_def if_True map_keys insert_absorb)
next
  case False
  then show ?thesis by (simp add: upsert_by_def)
qed

lemma upsert_distinct:
  assumes "distinct (map key rows)"
  shows "distinct (map key (upsert_by key merge x rows))"
proof (cases "list_ex (\<lambda>r. key r = key x) rows")
  case True
  with assms show ?thesis by (simp only: upsert_by_def if_True map_keys)
next
  case False
  with assms show ?thesis by (auto simp: upsert_by_def list_ex_iff)
qed

end

section \<open>Tables\<close>

text \<open>A row of \<open>remote_statuses\<close>; the counts are joined from another table.\<close>

record remote_status_row = remote_status_record +
  rsr_raw_object_json :: string
  rsr_updated_at :: string

text \<open>An attachment: its dimensions have 32 bits without a sign in the worker and with one in the table.\<close>

record 'n attachment_of =
  rat_id :: string
  rat_status_id :: string
  rat_remote_url :: string
  rat_preview_url :: "string option"
  rat_content_type :: string
  rat_description :: "string option"
  rat_blurhash :: "string option"
  rat_width :: "'n option"
  rat_height :: "'n option"
  rat_created_at :: string

type_synonym remote_attachment_row = "u32 attachment_of"

type_synonym remote_attachment_record = "int attachment_of"

record remote_poll_row =
  rpl_id :: string
  rpl_status_id :: string
  rpl_multiple :: bool
  rpl_expires_at :: "string option"
  rpl_voters_count :: "int option"
  rpl_votes_count :: int
  rpl_expired :: bool
  rpl_updated_at :: string

record remote_poll_option_row =
  rpo_poll_id :: string
  rpo_position :: int
  rpo_title :: string
  rpo_votes_count :: int

record remote_poll_vote_row =
  rpv_id :: string
  rpv_poll_id :: string
  rpv_account_id :: string
  rpv_option_position :: int
  rpv_option_title :: "string option"
  rpv_activity_id :: string
  rpv_created_at :: string

record remote_edit_row =
  red_status_id :: string
  red_snapshot_json :: string
  red_created_at :: string

record remote_store =
  rst_rows :: "remote_status_row list"
  rst_edits :: "remote_edit_row list"
  rst_attachments :: "remote_attachment_record list"
  rst_polls :: "remote_poll_row list"
  rst_poll_options :: "remote_poll_option_row list"
  rst_poll_votes :: "remote_poll_vote_row list"
  rst_jobs :: "background_job list"

text \<open>
  What storing depends on: the tables of local accounts and statuses, followers and blocks, the
  clocks of the worker and of the database, random identifiers, and what is rendered.
  \<open>sv_snapshot\<close> is \<open>None\<close> where the author is not in the table of actors.
\<close>

record 't store_env =
  sv_config :: app_config
  sv_parse_url :: "string \<Rightarrow> parsed_url option"
  sv_local :: emission_db
  sv_followers :: "follower_row list"
  sv_blocks :: "(string \<times> string) list"
  sv_parse_time :: "string \<Rightarrow> 't option"
  sv_to_utc :: "'t \<Rightarrow> utc_time"
  sv_to_string :: "json \<Rightarrow> string + string"
  sv_display :: "json \<Rightarrow> string"
  sv_clock :: "string + string"
  sv_db_now :: string
  sv_now :: int
  sv_fresh :: "string + status_id"
  sv_fresh_job :: "string \<Rightarrow> string"
  sv_emojis :: "json \<Rightarrow> string"
  sv_card :: "string \<Rightarrow> remote_attachment_row list \<Rightarrow> string option"
  sv_snapshot :: "remote_status \<Rightarrow> string \<Rightarrow> (string + string) option"

section \<open>Lookups\<close>

definition row_status :: "remote_status_row \<Rightarrow> string + remote_status" where
  "row_status r =
    map_err record_hydration_error_message
      (remote_status_try_from_record (remote_status_record.truncate r))"

definition optional_status :: "remote_status_row option \<Rightarrow> string + remote_status option" where
  "optional_status row =
    (case row of None \<Rightarrow> Inr None | Some r \<Rightarrow> and_then (row_status r) (\<lambda>s. Inr (Some s)))"

definition row_by_object_uri :: "remote_store \<Rightarrow> string \<Rightarrow> remote_status_row option" where
  "row_by_object_uri st uri = row_with rsr_object_uri uri (rst_rows st)"

definition find_remote_status_by_object_uri ::
    "remote_store \<Rightarrow> string \<Rightarrow> string + remote_status option" where
  "find_remote_status_by_object_uri st uri = optional_status (row_by_object_uri st uri)"

definition remote_status_by_id :: "remote_store \<Rightarrow> string \<Rightarrow> string + remote_status option" where
  "remote_status_by_id st ident =
    optional_status (find (\<lambda>r. rsr_id r = ident) (rst_rows st))"

definition find_remote_status_by_url_or_object_uri ::
    "remote_store \<Rightarrow> string \<Rightarrow> string + remote_status option" where
  "find_remote_status_by_url_or_object_uri st uri =
    and_then (find_remote_status_by_object_uri st uri) (\<lambda>found.
      case found of
        Some s \<Rightarrow> Inr (Some s)
      | None \<Rightarrow> optional_status (find (\<lambda>r. rsr_url r = Some uri) (rst_rows st)))"

section \<open>Attachments\<close>

lemma map_of_size:
  "map_of members k = Some v \<Longrightarrow> size v < size_list (\<lambda>p. Suc (size (snd p))) members"
  by (induction members) (auto split: if_splits)

lemma array_member_size [termination_simp]:
  "map_of members k = Some (JArray vs) \<Longrightarrow>
    size_list size vs < Suc (size_list (\<lambda>p. Suc (size (snd p))) members)"
  using map_of_size [of members k "JArray vs"] by simp

text \<open>An address may be a text, an object with one, or a list of such; the first counts.\<close>

fun attachment_uri :: "json \<Rightarrow> string option" and first_attachment_uri :: "json list \<Rightarrow> string option" where
  "attachment_uri (JString uri) = Some uri"
| "attachment_uri (JObject members) =
     opt_or
       (case map_of members ''url'' of
          Some (JString uri) \<Rightarrow> Some uri
        | Some (JArray values) \<Rightarrow> first_attachment_uri values
        | Some (JObject url) \<Rightarrow> activity_object_id (Some (JObject url))
        | _ \<Rightarrow> None)
       (Option.bind (map_of members ''id'') as_str)"
| "attachment_uri (JArray values) = first_attachment_uri values"
| "attachment_uri _ = None"
| "first_attachment_uri [] = None"
| "first_attachment_uri (v # vs) = opt_or (attachment_uri v) (first_attachment_uri vs)"

fun as_u64 :: "json \<Rightarrow> u64 option" where
  "as_u64 (JNumber s) =
     map_option word_of_nat (parse_digits (2 ^ 64 - 1) s)"
| "as_u64 _ = None"

definition as_array :: "json \<Rightarrow> json list option" where
  "as_array v = (case v of JArray vs \<Rightarrow> Some vs | _ \<Rightarrow> None)"

definition remote_status_attachments_from_object ::
    "string \<Rightarrow> string \<Rightarrow> json \<Rightarrow> remote_attachment_row list" where
  "remote_status_attachments_from_object now status_id object =
    (case Option.bind (jget object ''attachment'') as_array of
       None \<Rightarrow> []
     | Some values \<Rightarrow>
         List.map_filter (\<lambda>(index, value).
           map_option (\<lambda>remote_url.
             \<lparr>rat_id = status_id @ '':remote:'' @ show_nat index, rat_status_id = status_id,
              rat_remote_url = remote_url,
              rat_preview_url = Option.bind (jget value ''icon'') attachment_uri,
              rat_content_type = unwrap_or (get_str value ''mediaType'') ''application/octet-stream'',
              rat_description = get_str value ''name'', rat_blurhash = get_str value ''blurhash'',
              rat_width = map_option ucast (Option.bind (jget value ''width'') as_u64),
              rat_height = map_option ucast (Option.bind (jget value ''height'') as_u64),
              rat_created_at = now\<rparr>)
             (attachment_uri value)) (enumerate 0 values))"

text \<open>A dimension is bound as \<open>value as i32\<close>, which wraps, and read back as \<open>u32\<close>.\<close>

definition dimension_column :: "u32 \<Rightarrow> int" where "dimension_column n = sint (ucast n :: i32)"

definition read_dimension :: "int option \<Rightarrow> string + u32 option" where
  "read_dimension column =
    (case column of
       None \<Rightarrow> Inr None
     | Some n \<Rightarrow> if 0 \<le> n \<and> n < 2 ^ 32 then Inr (Some (word_of_int n))
       else Inl ''D1 row deserialize failed'')"

definition with_dimensions :: "'a attachment_of \<Rightarrow> 'b option \<Rightarrow> 'b option \<Rightarrow> 'b attachment_of" where
  "with_dimensions a width height =
    \<lparr>rat_id = rat_id a, rat_status_id = rat_status_id a, rat_remote_url = rat_remote_url a,
     rat_preview_url = rat_preview_url a, rat_content_type = rat_content_type a,
     rat_description = rat_description a, rat_blurhash = rat_blurhash a, rat_width = width,
     rat_height = height, rat_created_at = rat_created_at a\<rparr>"

definition attachment_record :: "remote_attachment_row \<Rightarrow> remote_attachment_record" where
  "attachment_record a =
    with_dimensions a (map_option dimension_column (rat_width a)) (map_option dimension_column (rat_height a))"

definition replace_remote_status_attachments ::
    "string \<Rightarrow> remote_attachment_row list \<Rightarrow> remote_store \<Rightarrow> remote_store" where
  "replace_remote_status_attachments status_id attachments st =
    st\<lparr>rst_attachments := filter (\<lambda>a. rat_status_id a \<noteq> status_id) (rst_attachments st) @
      map attachment_record attachments\<rparr>"

definition read_attachment :: "remote_attachment_record \<Rightarrow> string + remote_attachment_row" where
  "read_attachment r =
    and_then (read_dimension (rat_width r)) (\<lambda>width.
    and_then (read_dimension (rat_height r)) (\<lambda>height. Inr (with_dimensions r width height)))"

text \<open>\<open>d1_results\<close>: one row that cannot be read makes the whole answer an error.\<close>

fun read_rows :: "('r \<Rightarrow> string + 'a) \<Rightarrow> 'r list \<Rightarrow> string + 'a list" where
  "read_rows f [] = Inr []"
| "read_rows f (r # rs) = and_then (f r) (\<lambda>a. and_then (read_rows f rs) (\<lambda>as. Inr (a # as)))"

definition attachments_in_order :: "'n attachment_of list \<Rightarrow> 'n attachment_of list" where
  "attachments_in_order rows = sort_key rat_created_at (sort_key rat_id rows)"

definition find_remote_status_attachments_by_status_id ::
    "remote_store \<Rightarrow> string \<Rightarrow> string + remote_attachment_row list" where
  "find_remote_status_attachments_by_status_id st ident =
    read_rows read_attachment
      (attachments_in_order (filter (\<lambda>a. rat_status_id a = ident) (rst_attachments st)))"

text \<open>Those of several statuses, by status.\<close>

definition find_remote_status_attachments_by_status_ids ::
    "remote_store \<Rightarrow> string list \<Rightarrow> string + (string \<Rightarrow> remote_attachment_row list)" where
  "find_remote_status_attachments_by_status_ids st ids =
    and_then (read_rows read_attachment (sort_key rat_status_id
        (attachments_in_order (filter (\<lambda>a. rat_status_id a \<in> set ids) (rst_attachments st))))) (\<lambda>rows.
      Inr (\<lambda>ident. filter (\<lambda>a. rat_status_id a = ident) rows))"

section \<open>Polls\<close>

record remote_poll_option_draft =
  pod_title :: string
  pod_votes_count :: u64

record remote_poll_draft =
  rpd_multiple :: bool
  rpd_expires_at :: "string option"
  rpd_voters_count :: "u64 option"
  rpd_votes_count :: u64
  rpd_expired :: bool
  rpd_options :: "remote_poll_option_draft list"

definition extract_remote_poll_option_draft :: "json \<Rightarrow> remote_poll_option_draft option" where
  "extract_remote_poll_option_draft value =
    Option.bind (get_str value ''name'') (\<lambda>name.
      if trim name = [] then None
      else Some \<lparr>pod_title = trim name,
        pod_votes_count = unwrap_or (Option.bind (jget value ''replies'') (\<lambda>replies.
          Option.bind (jget replies ''totalItems'') as_u64)) 0\<rparr>)"

definition extract_remote_poll_draft :: "json \<Rightarrow> remote_poll_draft option" where
  "extract_remote_poll_draft object =
    Option.bind
      (case Option.bind (jget object ''anyOf'') as_array of
         Some entries \<Rightarrow> Some (True, entries)
       | None \<Rightarrow> map_option (Pair False) (Option.bind (jget object ''oneOf'') as_array))
      (\<lambda>(multiple, entries).
        let options = List.map_filter extract_remote_poll_option_draft entries in
        if length options < 2 then None
        else Option.bind (opt_or (get_str object ''closed'') (get_str object ''endTime'')) (\<lambda>expires_at.
          Some \<lparr>rpd_multiple = multiple, rpd_expires_at = Some expires_at,
            rpd_voters_count = Option.bind (jget object ''votersCount'') as_u64,
            rpd_votes_count = sum_list (map pod_votes_count options),
            rpd_expired = (jget object ''closed'' \<noteq> None), rpd_options = options\<rparr>))"

definition list_remote_status_poll_options :: "remote_store \<Rightarrow> string \<Rightarrow> remote_poll_option_row list" where
  "list_remote_status_poll_options st poll_id =
    sort_key rpo_position (filter (\<lambda>p. rpo_poll_id p = poll_id) (rst_poll_options st))"

text \<open>The first position of a title.\<close>

definition title_position :: "string list \<Rightarrow> string \<Rightarrow> nat option" where
  "title_position titles title =
    (if title \<in> set titles then Some (length (takeWhile (\<lambda>t. t \<noteq> title) titles)) else None)"

text \<open>A position is 32 bits wide.\<close>

definition u32_position :: "int \<Rightarrow> nat option" where
  "u32_position p = (if 0 \<le> p \<and> p < 2 ^ 32 then Some (nat p) else None)"

definition resolve_remote_poll_vote_position :: "string list \<Rightarrow> int \<Rightarrow> string option \<Rightarrow> nat option" where
  "resolve_remote_poll_vote_position titles option_position option_title =
    (let stored = opt_filter (\<lambda>p. p < length titles) (u32_position option_position) in
     case option_title of
       None \<Rightarrow> stored
     | Some title \<Rightarrow>
         opt_or (opt_filter (\<lambda>p. titles ! p = title) stored)
           (opt_or (Option.bind (title_position titles title) (\<lambda>p. u32_position (int p))) stored))"

definition prune_remote_poll_vote_rows :: "string \<Rightarrow> string list \<Rightarrow> remote_store \<Rightarrow> remote_store" where
  "prune_remote_poll_vote_rows poll_id titles st =
    st\<lparr>rst_poll_votes := filter (\<lambda>v. rpv_poll_id v = poll_id \<longrightarrow>
      resolve_remote_poll_vote_position titles (rpv_option_position v) (rpv_option_title v) \<noteq> None)
      (rst_poll_votes st)\<rparr>"

text \<open>\<open>as i32\<close> of a count of voters, which wraps, and the bound on a count of votes.\<close>

definition as_i32 :: "u64 \<Rightarrow> int" where "as_i32 n = sint (ucast n :: i32)"

definition clamped_i32 :: "u64 \<Rightarrow> int" where "clamped_i32 n = min (uint n) (2 ^ 31 - 1)"

definition remote_poll_id :: "string \<Rightarrow> string" where
  "remote_poll_id status_id = ''remote-'' @ status_id"

definition upsert_remote_status_poll ::
    "string \<Rightarrow> string \<Rightarrow> remote_poll_draft \<Rightarrow> remote_store \<Rightarrow> remote_store" where
  "upsert_remote_status_poll now status_id poll st =
    (let poll_id = remote_poll_id status_id;
         row = \<lparr>rpl_id = poll_id, rpl_status_id = status_id, rpl_multiple = rpd_multiple poll,
           rpl_expires_at = rpd_expires_at poll,
           rpl_voters_count = map_option as_i32 (rpd_voters_count poll),
           rpl_votes_count = clamped_i32 (rpd_votes_count poll), rpl_expired = rpd_expired poll,
           rpl_updated_at = now\<rparr>;
         options = map (\<lambda>(position, draft). \<lparr>rpo_poll_id = poll_id, rpo_position = int position,
             rpo_title = pod_title draft, rpo_votes_count = clamped_i32 (pod_votes_count draft)\<rparr>)
           (enumerate 0 (rpd_options poll));
         st = st\<lparr>
           rst_polls := (if list_ex (\<lambda>p. rpl_status_id p = status_id) (rst_polls st)
             then map (\<lambda>p. if rpl_status_id p = status_id then row else p) (rst_polls st)
             else rst_polls st @ [row]),
           rst_poll_options :=
             filter (\<lambda>p. rpo_poll_id p \<noteq> poll_id) (rst_poll_options st) @ options\<rparr>
     in prune_remote_poll_vote_rows poll_id
          (map rpo_title (list_remote_status_poll_options st poll_id)) st)"

definition polls_of :: "string \<Rightarrow> remote_store \<Rightarrow> string set" where
  "polls_of status_id st =
    set (map rpl_id (filter (\<lambda>p. rpl_status_id p = status_id) (rst_polls st)))"

definition delete_remote_status_poll_by_status_id :: "string \<Rightarrow> remote_store \<Rightarrow> remote_store" where
  "delete_remote_status_poll_by_status_id status_id st =
    st\<lparr>rst_poll_votes := filter (\<lambda>v. rpv_poll_id v \<notin> polls_of status_id st) (rst_poll_votes st),
       rst_poll_options := filter (\<lambda>p. rpo_poll_id p \<notin> polls_of status_id st) (rst_poll_options st),
       rst_polls := filter (\<lambda>p. rpl_status_id p \<noteq> status_id) (rst_polls st)\<rparr>"

section \<open>Statements on statuses\<close>

definition is_refused :: "string \<Rightarrow> bool" where
  "is_refused state \<longleftrightarrow> state = ''rejected'' \<or> state = ''revoked''"

text \<open>\<open>remote_status_upsert_sql\<close>: the row of an intent, and what of it goes into a row that is there.\<close>

definition intent_row :: "stored_remote_status_intent \<Rightarrow> remote_status_row" where
  "intent_row i =
    \<lparr>rsr_id = status_id_str (srs_status_id i), rsr_actor_uri = srs_actor_uri i,
     rsr_object_uri = srs_object_uri i, rsr_url = srs_url i,
     rsr_in_reply_to_uri = srs_in_reply_to_uri i, rsr_boost_of_uri = None,
     rsr_quote_of_uri = srs_quote_of_uri i, rsr_content_html = srs_content_html i,
     rsr_text_content = srs_text_content i, rsr_spoiler_text = srs_spoiler_text i,
     rsr_visibility = visibility_as_str (srs_visibility i),
     rsr_sensitive = i32_of_bool (srs_sensitive i), rsr_language = srs_language i,
     rsr_quote_state = quote_state_as_str (srs_quote_state i),
     rsr_published_at = srs_published_at i, rsr_edited_at = srs_edited_at i,
     rsr_card_json = srs_card_json i, rsr_federated_emojis_json = srs_federated_emojis_json i,
     rsr_in_reply_to_id = srs_in_reply_to_id i, rsr_favourites_count = Some 0,
     rsr_reblogs_count = Some 0, rsr_replies_count = Some 0,
     rsr_raw_object_json = srs_raw_object_json i, rsr_updated_at = srs_revision_at i\<rparr>"

definition merge_row :: "remote_status_row \<Rightarrow> remote_status_row \<Rightarrow> remote_status_row" where
  "merge_row excluded r =
    excluded\<lparr>rsr_id := rsr_id r,
      rsr_quote_state := (if is_refused (rsr_quote_state r) then rsr_quote_state r
        else rsr_quote_state excluded),
      rsr_edited_at := opt_or (rsr_edited_at excluded) (rsr_edited_at r),
      rsr_card_json := opt_or (rsr_card_json excluded) (rsr_card_json r),
      rsr_in_reply_to_id := opt_or (rsr_in_reply_to_id excluded) (rsr_in_reply_to_id r),
      rsr_favourites_count := rsr_favourites_count r, rsr_reblogs_count := rsr_reblogs_count r,
      rsr_replies_count := rsr_replies_count r\<rparr>"

definition upsert_remote_status_draft ::
    "stored_remote_status_intent \<Rightarrow> remote_store \<Rightarrow> remote_store" where
  "upsert_remote_status_draft intent st =
    st\<lparr>rst_rows := upsert_by rsr_object_uri merge_row (intent_row intent) (rst_rows st)\<rparr>"

text \<open>
  \<open>remote_reblog_upsert_sql\<close>: the columns it does not name keep their values, in a new row those of
  the schema.
\<close>

definition reblog_intent_row :: "string \<Rightarrow> stored_remote_reblog_intent \<Rightarrow> remote_status_row" where
  "reblog_intent_row now i =
    \<lparr>rsr_id = status_id_str (srb_status_id i), rsr_actor_uri = srb_actor_uri i,
     rsr_object_uri = srb_object_uri i, rsr_url = None, rsr_in_reply_to_uri = None,
     rsr_boost_of_uri = Some (srb_boost_of_uri i), rsr_quote_of_uri = srb_quote_of_uri i,
     rsr_content_html = [], rsr_text_content = [], rsr_spoiler_text = [],
     rsr_visibility = visibility_as_str (srb_visibility i), rsr_sensitive = 0,
     rsr_language = None, rsr_quote_state = quote_state_as_str (srb_quote_state i),
     rsr_published_at = srb_published_at i, rsr_edited_at = None, rsr_card_json = None,
     rsr_federated_emojis_json = ''[]'', rsr_in_reply_to_id = None, rsr_favourites_count = Some 0,
     rsr_reblogs_count = Some 0, rsr_replies_count = Some 0,
     rsr_raw_object_json = srb_raw_object_json i, rsr_updated_at = now\<rparr>"

definition merge_reblog_row :: "remote_status_row \<Rightarrow> remote_status_row \<Rightarrow> remote_status_row" where
  "merge_reblog_row excluded r =
    excluded\<lparr>rsr_id := rsr_id r, rsr_text_content := rsr_text_content r,
      rsr_quote_state := (if is_refused (rsr_quote_state r) then rsr_quote_state r
        else rsr_quote_state excluded),
      rsr_edited_at := rsr_edited_at r, rsr_card_json := rsr_card_json r,
      rsr_federated_emojis_json := rsr_federated_emojis_json r,
      rsr_in_reply_to_id := rsr_in_reply_to_id r, rsr_favourites_count := rsr_favourites_count r,
      rsr_reblogs_count := rsr_reblogs_count r, rsr_replies_count := rsr_replies_count r\<rparr>"

definition upsert_remote_reblog_status_draft ::
    "string \<Rightarrow> stored_remote_reblog_intent \<Rightarrow> remote_store \<Rightarrow> remote_store" where
  "upsert_remote_reblog_status_draft now intent st =
    st\<lparr>rst_rows := upsert_by rsr_object_uri merge_reblog_row (reblog_intent_row now intent)
      (rst_rows st)\<rparr>"

definition update_rows ::
    "string \<Rightarrow> (remote_status_row \<Rightarrow> remote_status_row) \<Rightarrow> remote_store \<Rightarrow> remote_store" where
  "update_rows ident f st =
    st\<lparr>rst_rows := map (\<lambda>r. if rsr_id r = ident then f r else r) (rst_rows st)\<rparr>"

definition update_remote_status_card_json ::
    "string \<Rightarrow> string \<Rightarrow> string option \<Rightarrow> remote_store \<Rightarrow> remote_store" where
  "update_remote_status_card_json now ident card_json =
    update_rows ident (\<lambda>r. r\<lparr>rsr_card_json := card_json, rsr_updated_at := now\<rparr>)"

definition update_remote_status_quote_state ::
    "string \<Rightarrow> string \<Rightarrow> quote_state \<Rightarrow> remote_store \<Rightarrow> (string + remote_status) \<times> remote_store" where
  "update_remote_status_quote_state now ident state st =
    (let st = update_rows ident
           (\<lambda>r. r\<lparr>rsr_quote_state := quote_state_as_str state, rsr_updated_at := now\<rparr>) st
     in (and_then (remote_status_by_id st ident) (\<lambda>s. ok_or s ''remote status not found''), st))"

definition clear_remote_status_quote ::
    "string \<Rightarrow> remote_status \<Rightarrow> remote_store \<Rightarrow> (string + remote_status) \<times> remote_store" where
  "clear_remote_status_quote now status =
    update_remote_status_quote_state now (rs_id status)
      (quote_state_after_revoke (rs_quote_state status))"

definition delete_remote_status_by_id :: "string \<Rightarrow> remote_store \<Rightarrow> remote_store" where
  "delete_remote_status_by_id ident st =
    st\<lparr>rst_attachments := filter (\<lambda>a. rat_status_id a \<noteq> ident) (rst_attachments st),
       rst_poll_options := filter (\<lambda>p. rpo_poll_id p \<notin> polls_of ident st) (rst_poll_options st),
       rst_polls := filter (\<lambda>p. rpl_status_id p \<noteq> ident) (rst_polls st),
       rst_rows := filter (\<lambda>r. rsr_id r \<noteq> ident) (rst_rows st)\<rparr>"

section \<open>Storing a note\<close>

definition is_blocking_actor :: "'t store_env \<Rightarrow> string \<Rightarrow> string \<Rightarrow> bool" where
  "is_blocking_actor env account actor_uri \<longleftrightarrow> (account, actor_uri) \<in> set (sv_blocks env)"

definition count_followers_by_actor :: "'t store_env \<Rightarrow> string \<Rightarrow> string \<Rightarrow> nat" where
  "count_followers_by_actor env account actor_uri =
    length (filter (\<lambda>f. fw_account_id f = account \<and> fw_actor_uri f = actor_uri) (sv_followers env))"

definition local_status_by_uri :: "'t store_env \<Rightarrow> string \<Rightarrow> local_status option" where
  "local_status_by_uri env =
    find_local_status_by_object_uri (sv_parse_url env) (sv_local env) (sv_config env)"

definition resolve_remote_quote_resolution ::
    "'t store_env \<Rightarrow> string \<Rightarrow> string option \<Rightarrow> remote_quote_resolution" where
  "resolve_remote_quote_resolution env actor_uri quote_of_uri =
    (case quote_of_uri of
       None \<Rightarrow> resolution_without_quote
     | Some uri \<Rightarrow>
       (case local_status_by_uri env uri of
          None \<Rightarrow> resolution_accepted_quote uri
        | Some status \<Rightarrow>
          (case find_account_by_id (sv_local env) (ls_account_id status) of
             None \<Rightarrow> resolution_accepted_quote uri
           | Some owner \<Rightarrow> resolution_with_local_target uri
               \<lparr>lt_blocked_by_owner = is_blocking_actor env (la_id owner) actor_uri,
                lt_policy_allows = allows_quote (status_effective_quote_approval_policy status) False
                  (count_followers_by_actor env (la_id owner) actor_uri > 0)\<rparr>)))"

text \<open>The intent with what is kept of the row that is there, and with the reply it answers.\<close>

definition merged_with_previous ::
    "remote_status_row option \<Rightarrow> stored_remote_status_intent \<Rightarrow> string + stored_remote_status_intent" where
  "merged_with_previous previous intent =
    (case previous of
       None \<Rightarrow> Inr intent
     | Some p \<Rightarrow> and_then (row_status p) (\<lambda>s.
         let intent = intent\<lparr>srs_quote_state :=
               merged_quote_state_for_remote_upsert (rs_quote_state s) (srs_quote_state intent)\<rparr>
         in Inr (if rsr_raw_object_json p \<noteq> srs_raw_object_json intent
                 then intent\<lparr>srs_edited_at := Some (srs_revision_at intent)\<rparr> else intent)))"

definition with_in_reply_to ::
    "'t store_env \<Rightarrow> remote_store \<Rightarrow> stored_remote_status_intent \<Rightarrow> string + stored_remote_status_intent" where
  "with_in_reply_to env st intent =
    (case srs_in_reply_to_uri intent of
       None \<Rightarrow> Inr intent
     | Some uri \<Rightarrow> and_then (find_remote_status_by_url_or_object_uri st uri) (\<lambda>remote.
         Inr (case remote of
             Some r \<Rightarrow> intent\<lparr>srs_in_reply_to_id := Some (rs_id r)\<rparr>
           | None \<Rightarrow>
             (case local_status_by_uri env uri of
                Some l \<Rightarrow> intent\<lparr>srs_in_reply_to_id := Some (ls_id l)\<rparr>
              | None \<Rightarrow> intent))))"

definition insert_previous_remote_status_snapshot_if_changed ::
    "'t store_env \<Rightarrow> remote_status_row option \<Rightarrow> stored_remote_status_intent \<Rightarrow> remote_store \<Rightarrow>
     (string + unit) \<times> remote_store" where
  "insert_previous_remote_status_snapshot_if_changed env previous intent st =
    (case opt_filter (\<lambda>p. rsr_raw_object_json p \<noteq> srs_raw_object_json intent) previous of
       None \<Rightarrow> (Inr (), st)
     | Some p \<Rightarrow>
       (case row_status p of
          Inl e \<Rightarrow> (Inl e, st)
        | Inr status \<Rightarrow>
          (case sv_snapshot env status (srs_revision_at intent) of
             None \<Rightarrow> (Inr (), st)
           | Some (Inl e) \<Rightarrow> (Inl e, st)
           | Some (Inr snapshot) \<Rightarrow> (Inr (), st\<lparr>rst_edits := rst_edits st @
               [\<lparr>red_status_id = rsr_id p, red_snapshot_json = snapshot,
                 red_created_at = srs_revision_at intent\<rparr>]\<rparr>))))"

definition remote_status_notify_kind :: "bool \<Rightarrow> bool \<Rightarrow> bool \<Rightarrow> string option" where
  "remote_status_notify_kind is_live_ingest is_new content_changed =
    (if \<not> is_live_ingest then None
     else if is_new then Some ''create''
     else if content_changed then Some ''update'' else None)"

definition remote_status_notify_payload :: "string \<Rightarrow> string \<Rightarrow> string \<Rightarrow> json" where
  "remote_status_notify_payload status_id actor_uri kind =
    jobject [(''status_id'', JString status_id), (''actor_uri'', JString actor_uri),
      (''kind'', JString kind)]"

definition card_unfurl_payload :: "string \<Rightarrow> string \<Rightarrow> json" where
  "card_unfurl_payload status_kind status_id =
    jobject [(''status_kind'', JString status_kind), (''status_id'', JString status_id)]"

definition resolve_in_reply_to_payload :: "string \<Rightarrow> json" where
  "resolve_in_reply_to_payload remote_status_id =
    jobject [(''remote_status_id'', JString remote_status_id)]"

definition ask_for_job :: "'t store_env \<Rightarrow> string \<Rightarrow> json \<Rightarrow> remote_store \<Rightarrow> remote_store" where
  "ask_for_job env job_type payload st =
    (let payload = sv_display env payload in
     st\<lparr>rst_jobs := soft_enqueue_background_job (sv_fresh_job env (job_type @ payload)) (sv_now env)
       job_type payload (sv_now env) (rst_jobs st)\<rparr>)"

definition replace_remote_status_dependents ::
    "'t store_env \<Rightarrow> remote_status \<Rightarrow> json \<Rightarrow> remote_store \<Rightarrow>
     remote_attachment_row list \<times> remote_store" where
  "replace_remote_status_dependents env status object st =
    (let attachments = remote_status_attachments_from_object (unwrap_or (ok (sv_clock env)) [])
           (rs_id status) object;
         st = replace_remote_status_attachments (rs_id status) attachments st
     in (attachments,
         case extract_remote_poll_draft object of
           Some poll \<Rightarrow> upsert_remote_status_poll (sv_db_now env) (rs_id status) poll st
         | None \<Rightarrow> delete_remote_status_poll_by_status_id (rs_id status) st))"

text \<open>What is asked for after a status has been stored.\<close>

definition jobs_after_upsert ::
    "'t store_env \<Rightarrow> bool \<Rightarrow> string \<Rightarrow> remote_status_row option \<Rightarrow> string \<Rightarrow> remote_status \<Rightarrow>
     remote_store \<Rightarrow> remote_store" where
  "jobs_after_upsert env live actor_uri previous raw status st =
    (let st = ask_for_job env ''card_unfurl'' (card_unfurl_payload ''remote'' (rs_id status)) st;
         st = (if rs_in_reply_to_id status = None \<and> rs_in_reply_to_uri status \<noteq> None
               then ask_for_job env ''resolve_in_reply_to'' (resolve_in_reply_to_payload (rs_id status)) st
               else st)
     in case remote_status_notify_kind live (previous = None)
            (\<exists>p \<in> set_option previous. rsr_raw_object_json p \<noteq> raw) of
          None \<Rightarrow> st
        | Some kind \<Rightarrow> ask_for_job env ''remote_status_notify''
            (remote_status_notify_payload (rs_id status) actor_uri kind) st)"

definition status_intent ::
    "'t store_env \<Rightarrow> string \<Rightarrow> json \<Rightarrow> remote_status_row option \<Rightarrow> remote_store \<Rightarrow>
     string + stored_remote_status_intent" where
  "status_intent env actor_uri object previous st =
    and_then (sv_clock env) (\<lambda>revision_at.
    and_then (sv_fresh env) (\<lambda>ident.
    and_then (build_remote_status_store_intent (sv_parse_time env) (sv_to_utc env) (sv_to_string env)
        (sv_clock env) actor_uri object ident
        (resolve_remote_quote_resolution env actor_uri (quote_target_uri_from_object object))
        revision_at) (\<lambda>intent.
    and_then (merged_with_previous previous intent) (\<lambda>intent.
    with_in_reply_to env st (intent\<lparr>srs_federated_emojis_json := sv_emojis env object\<rparr>)))))"

text \<open>\<open>live\<close> tells whether it arrived at an inbox.\<close>

definition upsert_remote_status ::
    "'t store_env \<Rightarrow> bool \<Rightarrow> string \<Rightarrow> json \<Rightarrow> remote_store \<Rightarrow> (string + unit) \<times> remote_store" where
  "upsert_remote_status env live actor_uri object st =
    (case get_str object ''id'' of
       None \<Rightarrow> (Inl ''remote status object is missing id'', st)
     | Some object_uri \<Rightarrow>
       let previous = row_by_object_uri st object_uri in
       (case status_intent env actor_uri object previous st of
          Inl e \<Rightarrow> (Inl e, st)
        | Inr intent \<Rightarrow>
          (case insert_previous_remote_status_snapshot_if_changed env previous intent st of
             (Inl e, st) \<Rightarrow> (Inl e, st)
           | (Inr _, st) \<Rightarrow>
             let st = upsert_remote_status_draft intent st in
             (case and_then (find_remote_status_by_object_uri st (srs_object_uri intent))
                 (\<lambda>s. ok_or s ''cached remote status could not be reloaded'') of
                Inl e \<Rightarrow> (Inl e, st)
              | Inr status \<Rightarrow>
                (case replace_remote_status_dependents env status object st of
                   (attachments, st) \<Rightarrow>
                   let st = update_remote_status_card_json (sv_db_now env) (rs_id status)
                         (sv_card env (plain_text status) attachments) st
                   in (Inr (), jobs_after_upsert env live actor_uri previous
                         (srs_raw_object_json intent) status st))))))"

definition reblog_intent ::
    "'t store_env \<Rightarrow> string \<Rightarrow> json \<Rightarrow> string + stored_remote_reblog_intent" where
  "reblog_intent env actor_uri activity =
    and_then (sv_fresh env) (\<lambda>ident.
      build_remote_reblog_store_intent (sv_parse_time env) (sv_to_utc env) (sv_to_string env)
        (sv_clock env) actor_uri activity ident
        (resolve_remote_quote_resolution env actor_uri (quote_target_uri_from_object activity)))"

definition upsert_remote_reblog_status ::
    "'t store_env \<Rightarrow> bool \<Rightarrow> string \<Rightarrow> json \<Rightarrow> remote_store \<Rightarrow> (string + unit) \<times> remote_store" where
  "upsert_remote_reblog_status env live actor_uri activity st =
    (case get_str activity ''id'' of
       None \<Rightarrow> (Inl ''remote announce activity is missing id'', st)
     | Some object_uri \<Rightarrow>
       (case and_then (reblog_intent env actor_uri activity) (\<lambda>intent.
           and_then (find_remote_status_by_object_uri st object_uri) (\<lambda>previous.
             Inr (previous, case previous of
                 None \<Rightarrow> intent
               | Some p \<Rightarrow> intent\<lparr>srb_quote_state :=
                   merged_quote_state_for_remote_upsert (rs_quote_state p) (srb_quote_state intent)\<rparr>))) of
          Inl e \<Rightarrow> (Inl e, st)
        | Inr (previous, intent) \<Rightarrow>
          let st = upsert_remote_reblog_status_draft (sv_db_now env) intent st in
          (Inr (), case remote_status_notify_kind live (previous = None) False of
             None \<Rightarrow> st
           | Some kind \<Rightarrow> ask_for_job env ''remote_status_notify'' (remote_status_notify_payload
               (status_id_str (srb_status_id intent)) actor_uri kind) st)))"

interpretation status_rows: keyed_upsert rsr_object_uri merge_row
  by unfold_locales (simp add: merge_row_def)

interpretation reblog_rows: keyed_upsert rsr_object_uri merge_reblog_row
  by unfold_locales (simp add: merge_reblog_row_def)

section \<open>What the statements change\<close>

lemma rows_untouched [simp]:
  "rst_rows (ask_for_job env t p st) = rst_rows st"
  "rst_rows (replace_remote_status_attachments ident atts st) = rst_rows st"
  "rst_rows (prune_remote_poll_vote_rows i ts st) = rst_rows st"
  "rst_rows (upsert_remote_status_poll now ident poll st) = rst_rows st"
  "rst_rows (delete_remote_status_poll_by_status_id ident st) = rst_rows st"
  "rst_edits (ask_for_job env t p st) = rst_edits st"
  "rst_edits (replace_remote_status_attachments ident atts st) = rst_edits st"
  "rst_edits (prune_remote_poll_vote_rows i ts st) = rst_edits st"
  "rst_edits (upsert_remote_status_poll now ident poll st) = rst_edits st"
  "rst_edits (delete_remote_status_poll_by_status_id ident st) = rst_edits st"
  by (simp_all add: ask_for_job_def replace_remote_status_attachments_def Let_def
      prune_remote_poll_vote_rows_def upsert_remote_status_poll_def
      delete_remote_status_poll_by_status_id_def)

lemma dependents_rows [simp]:
  "rst_rows (snd (replace_remote_status_dependents env status object st)) = rst_rows st"
  "rst_edits (snd (replace_remote_status_dependents env status object st)) = rst_edits st"
  by (auto simp: replace_remote_status_dependents_def Let_def split: option.split)

lemma jobs_rows [simp]:
  "rst_rows (jobs_after_upsert env live actor previous raw status st) = rst_rows st"
  "rst_edits (jobs_after_upsert env live actor previous raw status st) = rst_edits st"
  by (auto simp: jobs_after_upsert_def Let_def split: option.split)

lemma snapshot_rows:
  "insert_previous_remote_status_snapshot_if_changed env previous intent st = (r, st') \<Longrightarrow>
    rst_rows st' = rst_rows st"
  by (auto simp: insert_previous_remote_status_snapshot_if_changed_def split: option.splits sum.splits)

text \<open>The rows after an upsert: those of before, or those with the new row and perhaps its card.\<close>

definition card_rows :: "string \<Rightarrow> string \<Rightarrow> string option \<Rightarrow> remote_status_row list \<Rightarrow> remote_status_row list" where
  "card_rows now ident cd rows =
    map (\<lambda>r. if rsr_id r = ident then r\<lparr>rsr_card_json := cd, rsr_updated_at := now\<rparr> else r) rows"

lemma card_update_rows:
  "rst_rows (update_remote_status_card_json now ident cd st) = card_rows now ident cd (rst_rows st)"
  "rst_edits (update_remote_status_card_json now ident cd st) = rst_edits st"
  by (simp_all add: update_remote_status_card_json_def update_rows_def card_rows_def)

lemma card_rows_keys [simp]:
  "map rsr_object_uri (card_rows now ident cd rows) = map rsr_object_uri rows"
  "map rsr_id (card_rows now ident cd rows) = map rsr_id rows"
  by (simp_all add: card_rows_def o_def)

lemma card_rows_finds:
  "row_with rsr_object_uri u (card_rows now ident cd rows) =
    map_option (\<lambda>r. if rsr_id r = ident then r\<lparr>rsr_card_json := cd, rsr_updated_at := now\<rparr> else r)
      (row_with rsr_object_uri u rows)"
  by (induction rows) (auto simp: card_rows_def row_with_def)

lemma dependents_cases:
  "replace_remote_status_dependents env status object st = (a, st') \<Longrightarrow>
    rst_rows st' = rst_rows st \<and> rst_edits st' = rst_edits st"
  using dependents_rows [of env status object st] by simp

lemma upsert_Inr:
  assumes "upsert_remote_status env live actor object st = (Inr (), st')"
  obtains u i st1 status where "get_str object ''id'' = Some u"
    "status_intent env actor object (row_by_object_uri st u) st = Inr i"
    "insert_previous_remote_status_snapshot_if_changed env (row_by_object_uri st u) i st = (Inr (), st1)"
    "find_remote_status_by_object_uri (upsert_remote_status_draft i st1) (srs_object_uri i) =
      Inr (Some status)"
    "st' = jobs_after_upsert env live actor (row_by_object_uri st u) (srs_raw_object_json i) status
      (update_remote_status_card_json (sv_db_now env) (rs_id status)
        (sv_card env (plain_text status)
          (fst (replace_remote_status_dependents env status object (upsert_remote_status_draft i st1))))
        (snd (replace_remote_status_dependents env status object (upsert_remote_status_draft i st1))))"
  using assms
  by (auto simp: upsert_remote_status_def Let_def and_then_Inr ok_or_def
      split: option.splits sum.splits prod.splits)

lemma status_upsert_rows:
  fixes env :: "'t store_env"
  assumes "upsert_remote_status env live actor object st = (r, st')"
  shows "rst_rows st' = rst_rows st \<or>
    (\<exists>x. rst_rows st' = upsert_by rsr_object_uri merge_row x (rst_rows st)) \<or>
    (\<exists>x now ident cd. rst_rows st' =
      card_rows now ident cd (upsert_by rsr_object_uri merge_row x (rst_rows st)))"
proof (cases r)
  case (Inl e)
  with assms show ?thesis
    by (auto simp: upsert_remote_status_def Let_def upsert_remote_status_draft_def
        dest!: snapshot_rows split: option.splits sum.splits prod.splits)
next
  case (Inr x)
  with assms have "upsert_remote_status env live actor object st = (Inr (), st')" by simp
  then show ?thesis
  proof (rule upsert_Inr, intro disjI2 exI)
    fix u i st1 status
    let ?st = "upsert_remote_status_draft i st1"
    assume "insert_previous_remote_status_snapshot_if_changed env (row_by_object_uri st u) i st = (Inr (), st1)"
      and st': "st' = jobs_after_upsert env live actor (row_by_object_uri st u) (srs_raw_object_json i) status
      (update_remote_status_card_json (sv_db_now env) (rs_id status)
        (sv_card env (plain_text status) (fst (replace_remote_status_dependents env status object ?st)))
        (snd (replace_remote_status_dependents env status object ?st)))"
    then have "rst_rows st1 = rst_rows st" by (auto dest: snapshot_rows)
    then show "rst_rows st' = card_rows (sv_db_now env) (rs_id status)
        (sv_card env (plain_text status) (fst (replace_remote_status_dependents env status object ?st)))
        (upsert_by rsr_object_uri merge_row (intent_row i) (rst_rows st))"
      by (simp add: st' card_update_rows upsert_remote_status_draft_def)
  qed
qed

lemma reblog_upsert_rows:
  assumes "upsert_remote_reblog_status env live actor activity st = (r, st')"
  shows "rst_rows st' = rst_rows st \<or>
    (\<exists>x. rst_rows st' = upsert_by rsr_object_uri merge_reblog_row x (rst_rows st))"
  using assms
  by (auto simp: upsert_remote_reblog_status_def Let_def upsert_remote_reblog_status_draft_def
      split: option.splits sum.splits prod.splits)

section \<open>Sequences of upserts\<close>

datatype 't remote_upsert =
    UpsertNote "'t store_env" bool string json
  | UpsertAnnounce "'t store_env" bool string json

fun apply_upsert :: "'t remote_upsert \<Rightarrow> remote_store \<Rightarrow> remote_store" where
  "apply_upsert (UpsertNote env live actor object) st =
    snd (upsert_remote_status env live actor object st)"
| "apply_upsert (UpsertAnnounce env live actor activity) st =
    snd (upsert_remote_reblog_status env live actor activity st)"

text \<open>What a row keeps whatever is stored under its key.\<close>

definition row_kept :: "remote_status_row \<Rightarrow> remote_status_row \<Rightarrow> bool" where
  "row_kept r r' \<longleftrightarrow> rsr_id r' = rsr_id r \<and> rsr_object_uri r' = rsr_object_uri r \<and>
    (is_refused (rsr_quote_state r) \<longrightarrow> rsr_quote_state r' = rsr_quote_state r)"

lemma row_kept_refl [simp]: "row_kept r r" by (simp add: row_kept_def)

lemma row_kept_trans: "row_kept r r' \<Longrightarrow> row_kept r' r'' \<Longrightarrow> row_kept r r''"
  by (auto simp: row_kept_def)

lemma row_with_key: "row_with key k rows = Some r \<Longrightarrow> key r = k \<and> r \<in> set rows"
  by (auto simp: row_with_def find_Some_iff)

lemma merges_keep:
  "rsr_object_uri r = rsr_object_uri x \<Longrightarrow> row_kept r (merge_row x r)"
  "rsr_object_uri r = rsr_object_uri x \<Longrightarrow> row_kept r (merge_reblog_row x r)"
  by (simp_all add: row_kept_def merge_row_def merge_reblog_row_def)

lemma upserts_keep:
  assumes found: "row_with rsr_object_uri u rows = Some r"
  shows "\<exists>r'. row_with rsr_object_uri u (upsert_by rsr_object_uri merge_row x rows) = Some r' \<and> row_kept r r'"
    and "\<exists>r'. row_with rsr_object_uri u (upsert_by rsr_object_uri merge_reblog_row x rows) = Some r' \<and>
      row_kept r r'"
  using row_with_key [OF found] merges_keep [of r x]
  by (auto simp: status_rows.upsert_found [OF found] reblog_rows.upsert_found [OF found])

lemma card_keeps:
  assumes "row_with rsr_object_uri u rows = Some r"
  shows "\<exists>r'. row_with rsr_object_uri u (card_rows now ident cd rows) = Some r' \<and> row_kept r r'"
  using assms by (simp add: card_rows_finds) (simp add: row_kept_def)

lemma apply_upsert_keeps:
  assumes found: "row_by_object_uri st u = Some r"
  shows "\<exists>r'. row_by_object_uri (apply_upsert op st) u = Some r' \<and> row_kept r r'"
proof (cases op)
  case (UpsertNote env live actor object)
  obtain e st' where run: "upsert_remote_status env live actor object st = (e, st')" by force
  note found' = found [unfolded row_by_object_uri_def]
  from status_upsert_rows [OF run]
  have "\<exists>r'. row_with rsr_object_uri u (rst_rows st') = Some r' \<and> row_kept r r'"
  proof (elim disjE exE)
    fix x now ident cd
    assume rows: "rst_rows st' = card_rows now ident cd (upsert_by rsr_object_uri merge_row x (rst_rows st))"
    obtain r1 where r1: "row_with rsr_object_uri u (upsert_by rsr_object_uri merge_row x (rst_rows st)) = Some r1"
      "row_kept r r1" using upserts_keep(1) [OF found'] by blast
    then show ?thesis
      using card_keeps [OF r1(1)] row_kept_trans by (simp only: rows) blast
  qed (use found' upserts_keep(1) [OF found'] in auto)
  then show ?thesis using run UpsertNote by (simp add: row_by_object_uri_def)
next
  case (UpsertAnnounce env live actor activity)
  obtain e st' where run: "upsert_remote_reblog_status env live actor activity st = (e, st')" by force
  note found' = found [unfolded row_by_object_uri_def]
  from reblog_upsert_rows [OF run]
  have "\<exists>r'. row_with rsr_object_uri u (rst_rows st') = Some r' \<and> row_kept r r'"
    by (elim disjE exE) (use found' upserts_keep(2) [OF found'] in auto)
  then show ?thesis using run UpsertAnnounce by (simp add: row_by_object_uri_def)
qed

lemma upserts_run_keeps:
  assumes "row_by_object_uri st u = Some r"
  shows "\<exists>r'. row_by_object_uri (fold apply_upsert ops st) u = Some r' \<and> row_kept r r'"
  using assms
proof (induction ops arbitrary: st r)
  case (Cons op ops)
  from apply_upsert_keeps [OF Cons.prems] obtain r1
    where r1: "row_by_object_uri (apply_upsert op st) u = Some r1" "row_kept r r1" by blast
  from Cons.IH [OF r1(1)] r1(2) row_kept_trans show ?case by auto
qed auto

section \<open>What storing a note leaves\<close>

definition store_keys_ok :: "remote_store \<Rightarrow> bool" where
  "store_keys_ok st \<longleftrightarrow>
    distinct (map rsr_object_uri (rst_rows st)) \<and> distinct (map rsr_id (rst_rows st))"

lemma row_status_id: "row_status r = Inr s \<Longrightarrow> rs_id s = rsr_id r"
  by (auto simp: row_status_def remote_status_try_from_record_def remote_status_record.truncate_def
      and_then_Inr map_err_def split: sum.splits option.splits if_splits)

lemma attachments_of_status:
  "a \<in> set (remote_status_attachments_from_object now ident object) \<Longrightarrow> rat_status_id a = ident"
  by (auto simp: remote_status_attachments_from_object_def map_filter_def split: option.splits)

lemma dependents_attachments:
  "filter (\<lambda>a. rat_status_id a = rs_id status)
      (rst_attachments (snd (replace_remote_status_dependents env status object st))) =
    map attachment_record
      (remote_status_attachments_from_object (unwrap_or (ok (sv_clock env)) []) (rs_id status) object)"
  using attachments_of_status
  by (auto simp: replace_remote_status_dependents_def Let_def replace_remote_status_attachments_def
      upsert_remote_status_poll_def prune_remote_poll_vote_rows_def
      delete_remote_status_poll_by_status_id_def attachment_record_def with_dimensions_def
      filter_id_conv filter_empty_conv split: option.split)

lemma attachments_untouched [simp]:
  "rst_attachments (ask_for_job env t p st) = rst_attachments st"
  "rst_attachments (jobs_after_upsert env live actor previous raw status st) = rst_attachments st"
  "rst_attachments (update_remote_status_card_json now ident cd st) = rst_attachments st"
  by (auto simp: ask_for_job_def jobs_after_upsert_def Let_def update_remote_status_card_json_def
      update_rows_def split: option.split)

lemma built_intent_fields:
  assumes "build_remote_status_store_intent parse to_utc to_string clock actor object ident q at = Inr i"
  shows "trimmed_option (get_str object ''id'') = Some (srs_object_uri i) \<and> srs_actor_uri i = actor \<and>
    to_string object = Inr (srs_raw_object_json i) \<and> srs_status_id i = ident \<and>
    srs_revision_at i = at \<and> srs_edited_at i = None"
proof -
  from status_intent_Inr [OF assms] obtain n raw where n:
    "status_input_into_incoming (activity_pub_status_input_from_object parse to_utc object) = Inr n"
    and raw: "to_string object = Inr raw"
    and i: "i = (t_state (incoming_status_into_store_intent n ident actor q raw at))
        \<lparr>srs_published_at := srs_published_at i\<rparr>"
    by blast
  have "srs_object_uri i = ins_object_uri n \<and> srs_actor_uri i = actor \<and> srs_raw_object_json i = raw \<and>
      srs_status_id i = ident \<and> srs_revision_at i = at \<and> srs_edited_at i = None"
    by (subst i, subst (2) i, subst (3) i, subst (4) i, subst (5) i, subst (6) i)
      (simp add: incoming_status_into_store_intent_def without_events_def)
  then show ?thesis
    using n raw by (auto simp: status_input_into_incoming_def activity_pub_status_input_from_object_def
        and_then_Inr ok_or_def split: option.splits)
qed

lemma in_reply_to_fields:
  "with_in_reply_to env st i = Inr j \<Longrightarrow>
    srs_object_uri j = srs_object_uri i \<and> srs_actor_uri j = srs_actor_uri i \<and>
    srs_raw_object_json j = srs_raw_object_json i \<and> srs_status_id j = srs_status_id i \<and>
    srs_revision_at j = srs_revision_at i \<and> srs_edited_at j = srs_edited_at i"
  by (auto simp: with_in_reply_to_def and_then_Inr split: option.splits)

lemma previous_fields:
  assumes "merged_with_previous previous i = Inr j"
  shows "srs_object_uri j = srs_object_uri i \<and> srs_actor_uri j = srs_actor_uri i \<and>
    srs_raw_object_json j = srs_raw_object_json i \<and> srs_status_id j = srs_status_id i \<and>
    srs_revision_at j = srs_revision_at i \<and>
    srs_edited_at j = (if previous \<noteq> None \<and> rsr_raw_object_json (the previous) \<noteq> srs_raw_object_json i
      then Some (srs_revision_at i) else srs_edited_at i)"
  using assms by (auto simp: merged_with_previous_def and_then_Inr Let_def split: option.splits)

lemma stored_intent_fields:
  assumes "status_intent env actor object previous st = Inr i"
  shows "trimmed_option (get_str object ''id'') = Some (srs_object_uri i) \<and> srs_actor_uri i = actor \<and>
    sv_to_string env object = Inr (srs_raw_object_json i) \<and> sv_fresh env = Inr (srs_status_id i) \<and>
    sv_clock env = Inr (srs_revision_at i) \<and>
    srs_edited_at i = (if previous \<noteq> None \<and> rsr_raw_object_json (the previous) \<noteq> srs_raw_object_json i
      then Some (srs_revision_at i) else None)"
proof -
  obtain at ident i0 i1 where c: "sv_clock env = Inr at" "sv_fresh env = Inr ident"
    and b: "build_remote_status_store_intent (sv_parse_time env) (sv_to_utc env) (sv_to_string env)
        (sv_clock env) actor object ident
        (resolve_remote_quote_resolution env actor (quote_target_uri_from_object object)) at = Inr i0"
    and m: "merged_with_previous previous i0 = Inr i1"
    and r: "with_in_reply_to env st (i1\<lparr>srs_federated_emojis_json := sv_emojis env object\<rparr>) = Inr i"
    using assms by (auto simp: status_intent_def and_then_Inr)
  show ?thesis
    using in_reply_to_fields [OF r] previous_fields [OF m] built_intent_fields [OF b] c by simp
qed

lemma merge_row_id [simp]: "rsr_id (merge_row x r) = rsr_id r" by (simp add: merge_row_def)

lemma upsert_ids_distinct:
  assumes "distinct (map rsr_id rows)" "rsr_id x \<notin> rsr_id ` set rows"
  shows "distinct (map rsr_id (upsert_by rsr_object_uri merge_row x rows))"
proof -
  have "map rsr_id (map (\<lambda>r. if rsr_object_uri r = rsr_object_uri x then merge_row x r else r) rows) =
      map rsr_id rows" by simp
  then show ?thesis using assms by (simp only: upsert_by_def split: if_split) simp
qed

definition edits_with_snapshot ::
    "'t store_env \<Rightarrow> remote_status_row \<Rightarrow> remote_status \<Rightarrow> string \<Rightarrow> remote_edit_row list \<Rightarrow>
     remote_edit_row list \<Rightarrow> bool" where
  "edits_with_snapshot env p s at edits edits' \<longleftrightarrow>
    (case sv_snapshot env s at of
       None \<Rightarrow> edits' = edits
     | Some (Inl _) \<Rightarrow> False
     | Some (Inr snapshot) \<Rightarrow> edits' = edits @
         [\<lparr>red_status_id = rsr_id p, red_snapshot_json = snapshot, red_created_at = at\<rparr>])"

lemma snapshot_edits:
  assumes "insert_previous_remote_status_snapshot_if_changed env previous i st = (Inr (), st')"
  shows "case previous of
      None \<Rightarrow> rst_edits st' = rst_edits st
    | Some p \<Rightarrow>
        if rsr_raw_object_json p = srs_raw_object_json i then rst_edits st' = rst_edits st
        else \<exists>s. row_status p = Inr s \<and>
          edits_with_snapshot env p s (srs_revision_at i) (rst_edits st) (rst_edits st')"
  using assms
  by (auto simp: edits_with_snapshot_def insert_previous_remote_status_snapshot_if_changed_def opt_filter_def
      split: option.splits sum.splits if_splits)

text \<open>The card goes to the row of the status alone, as no other row has its identifier.\<close>

lemma card_on_own_row:
  assumes "distinct (map rsr_id rows)" "row_with rsr_object_uri u rows = Some row"
  shows "row_with rsr_object_uri u (card_rows now (rsr_id row) cd rows) =
      Some (row\<lparr>rsr_card_json := cd, rsr_updated_at := now\<rparr>)"
    and "k \<noteq> u \<Longrightarrow>
      row_with rsr_object_uri k (card_rows now (rsr_id row) cd rows) = row_with rsr_object_uri k rows"
proof -
  have row: "rsr_object_uri row = u" "row \<in> set rows" using row_with_key [OF assms(2)] by simp_all
  show "row_with rsr_object_uri u (card_rows now (rsr_id row) cd rows) =
      Some (row\<lparr>rsr_card_json := cd, rsr_updated_at := now\<rparr>)"
    using assms by (simp add: card_rows_finds)
  show "row_with rsr_object_uri k (card_rows now (rsr_id row) cd rows) = row_with rsr_object_uri k rows"
    if "k \<noteq> u"
  proof (cases "row_with rsr_object_uri k rows")
    case (Some r)
    then have "r \<in> set rows" "rsr_object_uri r = k" using row_with_key [OF Some] by simp_all
    then have "rsr_id r \<noteq> rsr_id row"
      using assms(1) row that by (auto simp: distinct_map dest: inj_onD)
    then show ?thesis using Some by (simp add: card_rows_finds)
  qed (simp add: card_rows_finds)
qed

section \<open>Reading attachments back\<close>

definition dimension_fits :: "u32 option \<Rightarrow> bool" where
  "dimension_fits d \<longleftrightarrow> (case d of None \<Rightarrow> True | Some n \<Rightarrow> uint n < 2 ^ 31)"

definition dimensions_fit :: "remote_attachment_row \<Rightarrow> bool" where
  "dimensions_fit a \<longleftrightarrow> dimension_fits (rat_width a) \<and> dimension_fits (rat_height a)"

lemma dimension_column_eq:
  "dimension_column n = (if uint n < 2 ^ 31 then uint n else uint n - 2 ^ 32)"
proof -
  have b: "0 \<le> uint n" "uint n < 2 ^ 32" using uint_lt2p [of n] by simp_all
  have s: "sint n = (uint n + 2 ^ 31) mod 2 ^ 32 - 2 ^ 31"
    by (simp add: sint_uint signed_take_bit_eq_take_bit_shift take_bit_eq_mod)
  show ?thesis
  proof (cases "uint n < 2 ^ 31")
    case True
    then have "(uint n + 2 ^ 31) mod 2 ^ 32 = uint n + 2 ^ 31" using b by (intro mod_pos_pos_trivial) simp_all
    then show ?thesis using True s by (simp add: dimension_column_def)
  next
    case False
    have "(uint n - 2 ^ 31 + 2 ^ 32) mod 2 ^ 32 = (uint n - 2 ^ 31) mod 2 ^ 32" by (rule mod_add_self2)
    also have "\<dots> = uint n - 2 ^ 31" using b False by (intro mod_pos_pos_trivial) simp_all
    finally show ?thesis using False s by (simp add: dimension_column_def add.commute)
  qed
qed

lemma read_dimension_column:
  "read_dimension (map_option dimension_column d) =
    (if dimension_fits d then Inr d else Inl ''D1 row deserialize failed'')"
proof (cases d)
  case (Some n)
  have "uint n < 2 ^ 32" "0 \<le> uint n" using uint_lt2p [of n] by simp_all
  then show ?thesis by (simp add: Some read_dimension_def dimension_fits_def dimension_column_eq)
qed (simp add: read_dimension_def dimension_fits_def)

lemma read_attachment_record:
  "read_attachment (attachment_record a) =
    (if dimensions_fit a then Inr a else Inl ''D1 row deserialize failed'')"
  by (simp add: read_attachment_def attachment_record_def with_dimensions_def read_dimension_column
      dimensions_fit_def)

lemma read_rows_map:
  assumes "\<And>a. f (g a) = (if P a then Inr a else Inl e)"
  shows "read_rows f (map g xs) = (if list_all P xs then Inr xs else Inl e)"
  by (induction xs) (simp_all add: assms)

lemma read_rows_error:
  "r \<in> set rows \<Longrightarrow> \<not> is_ok (f r) \<Longrightarrow> \<not> is_ok (read_rows f rows)"
  by (induction rows) (auto simp: and_then_def is_ok_def split: sum.splits)

lemmas read_attachment_rows =
  read_rows_map [where f = read_attachment and g = attachment_record, OF read_attachment_record]

lemma sort_key_of_map: "sort_key f (map g xs) = map g (sort_key (\<lambda>x. f (g x)) xs)"
proof -
  have "insort_key f (g x) (map g ys) = map g (insort_key (\<lambda>x. f (g x)) x ys)" for x ys
    by (induction ys) simp_all
  then show ?thesis by (induction xs) simp_all
qed

lemma records_in_order:
  "attachments_in_order (map attachment_record atts) = map attachment_record (attachments_in_order atts)"
  by (simp add: attachments_in_order_def sort_key_of_map)
    (simp add: attachment_record_def with_dimensions_def)

lemma own_attachments:
  "filter (\<lambda>a. rat_status_id a = ident)
      (rst_attachments (replace_remote_status_attachments ident
        (remote_status_attachments_from_object now ident object) st)) =
    map attachment_record (remote_status_attachments_from_object now ident object)"
  using attachments_of_status
  by (auto simp: replace_remote_status_attachments_def attachment_record_def with_dimensions_def
      filter_id_conv filter_empty_conv)


section \<open>Storing a note, as a whole\<close>

text \<open>What is stored of a note under its address, by the row that was there.\<close>

definition note_stored ::
    "'t store_env \<Rightarrow> string \<Rightarrow> json \<Rightarrow> remote_status_row option \<Rightarrow> remote_status_row \<Rightarrow>
     remote_store \<Rightarrow> remote_store \<Rightarrow> bool" where
  "note_stored env actor object previous row st st' \<longleftrightarrow>
    rsr_actor_uri row = actor \<and> sv_to_string env object = Inr (rsr_raw_object_json row) \<and>
    filter (\<lambda>a. rat_status_id a = rsr_id row) (rst_attachments st') =
      map attachment_record (remote_status_attachments_from_object (unwrap_or (ok (sv_clock env)) []) (rsr_id row) object) \<and>
    (case previous of
       None \<Rightarrow> rsr_edited_at row = None \<and> rst_edits st' = rst_edits st \<and>
         (\<exists>ident. sv_fresh env = Inr ident \<and> rsr_id row = status_id_str ident)
     | Some p \<Rightarrow> rsr_id row = rsr_id p \<and>
         (if rsr_raw_object_json p = rsr_raw_object_json row
          then rsr_edited_at row = rsr_edited_at p \<and> rst_edits st' = rst_edits st
          else \<exists>at s. sv_clock env = Inr at \<and> row_status p = Inr s \<and> rsr_edited_at row = Some at \<and>
            edits_with_snapshot env p s at (rst_edits st) (rst_edits st')))"

lemma upserted_row:
  assumes i: "status_intent env actor object previous st = Inr i"
    and snap: "insert_previous_remote_status_snapshot_if_changed env previous i st = (Inr (), st1)"
    and edits: "rst_edits st' = rst_edits st1"
    and atts: "filter (\<lambda>a. rat_status_id a = rsr_id row) (rst_attachments st') =
      map attachment_record (remote_status_attachments_from_object (unwrap_or (ok (sv_clock env)) []) (rsr_id row) object)"
    and row: "row = (case previous of None \<Rightarrow> intent_row i | Some p \<Rightarrow> merge_row (intent_row i) p)
      \<lparr>rsr_card_json := cd, rsr_updated_at := now\<rparr>"
  shows "note_stored env actor object previous row st st'"
proof -
  note fields = stored_intent_fields [OF i]
  show ?thesis
  proof (cases previous)
    case None
    with snapshot_edits [OF snap] fields edits atts show ?thesis
      by (simp add: note_stored_def row intent_row_def)
  next
    case (Some p)
    with snapshot_edits [OF snap] fields edits atts show ?thesis
      by (auto simp: note_stored_def row intent_row_def merge_row_def opt_or_def
          split: if_splits option.splits sum.splits)
  qed
qed

lemma note_replaces:
  assumes run: "upsert_remote_status env live actor object st = (Inr (), st')"
    and u: "get_str object ''id'' = Some u" "trim u = u"
    and ok: "store_keys_ok st"
    and fresh: "\<And>i. sv_fresh env = Inr i \<Longrightarrow> status_id_str i \<notin> rsr_id ` set (rst_rows st)"
  shows "store_keys_ok st' \<and>
    (\<forall>k. k \<noteq> u \<longrightarrow> row_by_object_uri st' k = row_by_object_uri st k) \<and>
    (\<exists>row. row_by_object_uri st' u = Some row \<and>
      note_stored env actor object (row_by_object_uri st u) row st st')"
  using run
proof (rule upsert_Inr)
  fix w i st1 status
  let ?previous = "row_by_object_uri st w"
  let ?st2 = "upsert_remote_status_draft i st1"
  let ?deps = "replace_remote_status_dependents env status object ?st2"
  assume w: "get_str object ''id'' = Some w"
    and i: "status_intent env actor object ?previous st = Inr i"
    and snap: "insert_previous_remote_status_snapshot_if_changed env ?previous i st = (Inr (), st1)"
    and status: "find_remote_status_by_object_uri ?st2 (srs_object_uri i) = Inr (Some status)"
    and st': "st' = jobs_after_upsert env live actor ?previous (srs_raw_object_json i) status
      (update_remote_status_card_json (sv_db_now env) (rs_id status)
        (sv_card env (plain_text status) (fst ?deps)) (snd ?deps))"
  note fields = stored_intent_fields [OF i]
  have wu: "w = u" and key: "srs_object_uri i = u" "rsr_object_uri (intent_row i) = u"
    using w u fields by (auto simp: trimmed_option_def opt_filter_def intent_row_def split: if_splits)
  let ?rows = "upsert_by rsr_object_uri merge_row (intent_row i) (rst_rows st)"
  let ?row = "case ?previous of None \<Rightarrow> intent_row i | Some p \<Rightarrow> merge_row (intent_row i) p"
  have rows: "rst_rows ?st2 = ?rows"
    using snapshot_rows [OF snap] by (simp add: upsert_remote_status_draft_def)
  have found: "row_with rsr_object_uri u ?rows = Some ?row"
    using status_rows.upsert_finds [of "intent_row i" "rst_rows st"] key
    by (simp add: row_by_object_uri_def wu)
  have ident: "rs_id status = rsr_id ?row"
    using status key found rows
    by (auto simp: find_remote_status_by_object_uri_def optional_status_def row_by_object_uri_def
        and_then_Inr dest: row_status_id)
  have ids: "distinct (map rsr_id ?rows)" and uris: "distinct (map rsr_object_uri ?rows)"
    using ok fresh fields upsert_ids_distinct [of "rst_rows st" "intent_row i"]
      status_rows.upsert_distinct [of "rst_rows st" "intent_row i"]
    by (auto simp: store_keys_ok_def intent_row_def)
  let ?cd = "sv_card env (plain_text status) (fst ?deps)"
  have rows': "rst_rows st' = card_rows (sv_db_now env) (rsr_id ?row) ?cd ?rows"
    using rows by (simp add: st' card_update_rows ident)
  have atts: "filter (\<lambda>a. rat_status_id a = rsr_id ?row) (rst_attachments st') =
      map attachment_record (remote_status_attachments_from_object (unwrap_or (ok (sv_clock env)) []) (rsr_id ?row) object)"
    using dependents_attachments [of status env object ?st2] by (simp add: st' ident)
  have edits: "rst_edits st' = rst_edits st1"
    by (simp add: st' card_update_rows upsert_remote_status_draft_def)
  have "row_by_object_uri st' u = Some (?row\<lparr>rsr_card_json := ?cd, rsr_updated_at := sv_db_now env\<rparr>)"
    using card_on_own_row(1) [OF ids found] by (simp add: row_by_object_uri_def rows')
  moreover have "note_stored env actor object ?previous
      (?row\<lparr>rsr_card_json := ?cd, rsr_updated_at := sv_db_now env\<rparr>) st st'"
    using upserted_row [OF i snap edits _ refl] atts by simp
  moreover have "row_by_object_uri st' k = row_by_object_uri st k" if "k \<noteq> u" for k
    using card_on_own_row(2) [OF ids found that] status_rows.upsert_finds_others [of k "intent_row i"]
      that key by (simp add: row_by_object_uri_def rows')
  moreover have "store_keys_ok st'" using ids uris by (simp add: store_keys_ok_def rows')
  ultimately show ?thesis by (auto simp: wu)
qed


text \<open>
  Whatever notes and announces arrive later, from whatever actors, the row of an address
  stays, under the identifier it has, and a quote that was refused or revoked stays refused.
\<close>

theorem stored_refusal_is_final:
  assumes "row_by_object_uri st u = Some r"
  shows "\<exists>r'. row_by_object_uri (fold apply_upsert ops st) u = Some r' \<and> rsr_id r' = rsr_id r \<and>
    (is_refused (rsr_quote_state r) \<longrightarrow> rsr_quote_state r' = rsr_quote_state r)"
  using upserts_run_keeps [OF assms] by (auto simp: row_kept_def)

definition sample_store_env :: "string \<Rightarrow> unit store_env" where
  "sample_store_env ident =
    \<lparr>sv_config = \<lparr>ac_instance_domain = ''h.x'', ac_media_public_base_url = None\<rparr>,
     sv_parse_url = (\<lambda>_. None), sv_local = sample_emission_db, sv_followers = [], sv_blocks = [],
     sv_parse_time = (\<lambda>_. None), sv_to_utc = (\<lambda>_. Utc 0 0 0 0 0 0 0),
     sv_to_string = (\<lambda>v. Inr (unwrap_or (get_str v ''content'') [])), sv_display = (\<lambda>_. []),
     sv_clock = Inr ''now'', sv_db_now = ''now'', sv_now = 0, sv_fresh = Inr (StatusId ident),
     sv_fresh_job = (\<lambda>t. t), sv_emojis = (\<lambda>_. ''[]''), sv_card = (\<lambda>_ _. None),
     sv_snapshot = (\<lambda>_ _. Some (Inr ''{}''))\<rparr>"

definition sample_note :: "string \<Rightarrow> json" where
  "sample_note content = JObject [(''id'', JString ''n''), (''content'', JString content)]"

definition sample_store :: remote_store where
  "sample_store = snd (upsert_remote_status (sample_store_env ''s'') True ''a'' (sample_note ''x'')
    \<lparr>rst_rows = [], rst_edits = [], rst_attachments = [], rst_polls = [], rst_poll_options = [],
     rst_poll_votes = [], rst_jobs = []\<rparr>)"

lemma sample_store_rows: "map rsr_id (rst_rows sample_store) = [''s'']"
  "map rsr_object_uri (rst_rows sample_store) = [''n'']"
  "map rsr_actor_uri (rst_rows sample_store) = [''a'']"
  by code_simp+

lemma sample_takeover:
  "fst (upsert_remote_status (sample_store_env ''t'') True ''b'' (sample_note ''y'') sample_store) = Inr ()"
  by code_simp

lemma sample_store_row:
  obtains p where "rst_rows sample_store = [p]" "rsr_id p = ''s''" "rsr_actor_uri p = ''a''"
    "row_by_object_uri sample_store ''n'' = Some p"
proof -
  obtain p where p: "rst_rows sample_store = [p]"
    using sample_store_rows(1) by (auto simp: map_eq_Cons_conv)
  then show ?thesis
    using that [OF p] sample_store_rows by (simp add: row_by_object_uri_def row_with_def)
qed


text \<open>
  The row of before is looked up by the address as the document gives it and the row is stored by
  the address without blanks around it: an edit whose address has blanks replaces the text of the
  row, keeps no snapshot, does not mark it as edited and is announced as a new note.
\<close>

theorem padded_address_edits_silently:
  "(let note = JObject [(''id'', JString '' n''), (''content'', JString ''y'')];
        st = snd (upsert_remote_status (sample_store_env ''t'') True ''a'' note sample_store)
    in map (\<lambda>r. (rsr_id r, rsr_text_content r, rsr_edited_at r)) (rst_rows st) = [(''s'', ''y'', None)] \<and>
      rst_edits st = [])"
  by code_simp

text \<open>The announce of another actor under the address of a row whose quote was refused.\<close>

definition sample_announce :: json where
  "sample_announce = JObject [(''id'', JString ''n''), (''object'', JString ''m'')]"

theorem stored_refusal_is_final_witness:
  "\<exists>r. row_by_object_uri (fold apply_upsert
        [UpsertNote (sample_store_env ''t'') True ''b'' (sample_note ''y''),
         UpsertAnnounce (sample_store_env ''w'') False ''c'' sample_announce]
        (snd (update_remote_status_quote_state ''now'' ''s'' quote_state.Rejected sample_store))) ''n'' = Some r \<and>
      rsr_id r = ''s'' \<and> rsr_quote_state r = ''rejected''"
proof -
  let ?st = "snd (update_remote_status_quote_state ''now'' ''s'' quote_state.Rejected sample_store)"
  obtain p where p: "rst_rows sample_store = [p]" "rsr_id p = ''s''"
    "row_by_object_uri sample_store ''n'' = Some p" by (rule sample_store_row)
  then have "row_by_object_uri ?st ''n'' = Some (p\<lparr>rsr_quote_state := ''rejected'', rsr_updated_at := ''now''\<rparr>)"
    by (auto simp: update_remote_status_quote_state_def update_rows_def row_by_object_uri_def
        row_with_def Let_def split: if_splits)
  from stored_refusal_is_final [OF this,
      of "[UpsertNote (sample_store_env ''t'') True ''b'' (sample_note ''y''),
         UpsertAnnounce (sample_store_env ''w'') False ''c'' sample_announce]"] p
  show ?thesis by (simp add: is_refused_def)
qed

end
