(* ===== verification/Remote_Resolve.thy ===== *)
theory Remote_Resolve
  imports Remote_Store Signed_Requests
begin

text \<open>
  Statuses of other servers that the instance asks for itself: signed requests for documents
  (\<open>http/signatures.rs\<close>), the fall back on unsigned ones (\<open>response/accounts.rs\<close>), a status by its
  address (\<open>remote/resolve.rs\<close>), the note an announce is about (\<open>inbox/status_interactions.rs\<close>) and the
  refresh of a poll (\<open>remote/polls.rs\<close>).
\<close>

section \<open>Signed requests for documents\<close>

definition MAX_SIGNED_REMOTE_FETCH_REDIRECTS :: nat where "MAX_SIGNED_REMOTE_FETCH_REDIRECTS = 5"

definition signed_get_signing_string :: "string \<Rightarrow> string \<Rightarrow> string \<Rightarrow> string" where
  "signed_get_signing_string path_and_query host date =
    ''(request-target): get '' @ path_and_query @ line_feed @ ''host: '' @ host @ line_feed @
    ''date: '' @ date"

text \<open>
  What fetching depends on. \<open>re_signed_http\<close> is the answer to a request with the headers given,
  \<open>re_http_date\<close> the clock as the text of a date, \<open>re_key\<close> the signing key of an account.
\<close>

record 't resolve_env =
  re_store :: "'t store_env"
  re_fetch :: verify_env
  re_signed_http :: "int \<Rightarrow> string \<Rightarrow> (string \<times> string) list \<Rightarrow> string + http_response"
  re_http_date :: "int \<Rightarrow> string + string"
  re_key :: "string \<Rightarrow> string + string option"

definition user_agent :: "app_config \<Rightarrow> string" where
  "user_agent config =
    ''cfwdon (+https://'' @
      trim_end_matches (trim_start_matches (trim_start_matches (trim (ac_instance_domain config))
        ''https://'') ''http://'') (CHR ''/'') @ ''/)''"

definition get_signature_header :: "string \<Rightarrow> string \<Rightarrow> string" where
  "get_signature_header key_id signature =
    ''keyId='' @ [CHR 0x22] @ key_id @ [CHR 0x22] @ '',algorithm='' @ [CHR 0x22] @ ''rsa-sha256'' @
    [CHR 0x22] @ '',headers='' @ [CHR 0x22] @ ''(request-target) host date'' @ [CHR 0x22] @
    '',signature='' @ [CHR 0x22] @ signature @ [CHR 0x22]"

definition signed_get_headers ::
    "'t resolve_env \<Rightarrow> local_account \<Rightarrow> string \<Rightarrow> int \<Rightarrow> parsed_url \<Rightarrow> string + (string \<times> string) list" where
  "signed_get_headers env signer key now url =
    (let fetch = re_fetch env; config = sv_config (re_store env) in
     and_then (parse_http_url_parts (ve_url fetch) (url_as_str (ve_url fetch) url)) (\<lambda>(host, path_and_query).
     and_then (re_http_date env now) (\<lambda>date.
     and_then (cr_sign (ve_crypto fetch) key (signed_get_signing_string path_and_query host date)) (\<lambda>signature.
     Inr [(''Accept'', ACTIVITYPUB_ACCEPT), (''User-Agent'', user_agent config), (''Date'', date),
       (''Signature'', get_signature_header (public_key_id config (la_username signer))
          (cr_encode (ve_crypto fetch) signature))]))))"

text \<open>The loop over the redirects; \<open>clock i\<close> are the moments of hop \<open>i\<close>.\<close>

function signed_hops ::
    "'t resolve_env \<Rightarrow> (nat \<Rightarrow> hop_times) \<Rightarrow> local_account \<Rightarrow> string \<Rightarrow> string \<Rightarrow> nat \<Rightarrow> parsed_url \<Rightarrow>
     dns_caches \<Rightarrow> (string + json) \<times> dns_caches" where
  "signed_hops env clock signer key url redirect_count current_url caches =
    (let fetch = re_fetch env; sent = url_as_str (ve_url fetch) current_url;
         now = ht_send (clock redirect_count) in
     if redirect_count > MAX_SIGNED_REMOTE_FETCH_REDIRECTS
     then (Inl (''signed remote fetch exceeded redirect limit for '' @ url), caches)
     else case and_then (signed_get_headers env signer key now current_url) (re_signed_http env now sent) of
       Inl e \<Rightarrow> (Inl e, caches)
     | Inr response \<Rightarrow>
       let status = hr_status response in
       if 300 \<le> status \<and> status < 400 then
         if redirect_count = MAX_SIGNED_REMOTE_FETCH_REDIRECTS
         then (Inl (''signed remote fetch exceeded redirect limit for '' @ url), caches)
         else (case hr_location response of
             None \<Rightarrow> (Inl (''signed remote fetch redirect missing Location header for '' @ sent), caches)
           | Some location \<Rightarrow>
             (case resolve_remote_redirect_location (ve_url fetch) current_url location of
                Inl e \<Rightarrow> (Inl e, caches)
              | Inr next_url \<Rightarrow>
                (case validate_remote_fetch_url (ve_url fetch) (ve_net fetch) (clock (redirect_count + 1))
                    next_url caches of
                   (Inl e, caches) \<Rightarrow> (Inl e, caches)
                 | (Inr _, caches) \<Rightarrow>
                     signed_hops env clock signer key url (redirect_count + 1) next_url caches)))
       else if status div 100 \<noteq> 2
       then (Inl (''failed to fetch signed remote document '' @ sent @ '': HTTP '' @ show_nat status), caches)
       else (parse_remote_http_json_response (ve_json fetch) response sent status, caches))"
  by pat_completeness auto
termination
  by (relation "measure (\<lambda>(env, clock, signer, key, url, i, u, caches). 6 - i)")
     (auto simp: MAX_SIGNED_REMOTE_FETCH_REDIRECTS_def)

declare signed_hops.simps [simp del]

definition fetch_signed_activitypub_document ::
    "'t resolve_env \<Rightarrow> (nat \<Rightarrow> hop_times) \<Rightarrow> local_account \<Rightarrow> string \<Rightarrow> dns_caches \<Rightarrow>
     (string + json) \<times> dns_caches" where
  "fetch_signed_activitypub_document env clock account url caches =
    (let fetch = re_fetch env in
     case and_then (re_key env (la_id account)) (\<lambda>key. ok_or key ''account private signing key is missing'') of
       Inl e \<Rightarrow> (Inl e, caches)
     | Inr key \<Rightarrow>
       (case parse_remote_http_url (ve_url fetch) url of
          Inl e \<Rightarrow> (Inl e, caches)
        | Inr current_url \<Rightarrow>
          (case validate_remote_fetch_url (ve_url fetch) (ve_net fetch) (clock 0) current_url caches of
             (Inl e, caches) \<Rightarrow> (Inl e, caches)
           | (Inr _, caches) \<Rightarrow> signed_hops env clock account key url 0 current_url caches)))"

definition fetch_remote_activitypub_document ::
    "'t resolve_env \<Rightarrow> (nat \<Rightarrow> hop_times) \<Rightarrow> string \<Rightarrow> dns_caches \<Rightarrow> (string + json) \<times> dns_caches" where
  "fetch_remote_activitypub_document env clock url caches =
    (case fetch_remote_http_json (ve_url (re_fetch env)) (ve_json (re_fetch env)) (ve_net (re_fetch env))
        clock url caches of
       (document, caches, _) \<Rightarrow> (document, caches))"

section \<open>Signed first, unsigned where that fails\<close>

definition signed_fetch_allows_unsigned_fallback :: "string \<Rightarrow> bool" where
  "signed_fetch_allows_unsigned_fallback message \<longleftrightarrow>
    list_ex (contains_str message) [''private signing key is missing'', ''HTTP '',
      ''error decoding response body'', ''expected value'', ''invalid type'', ''EOF while parsing'']"

datatype remote_fetch_auth_mode = Public_Only | Authorized_First

record remote_fetch_context =
  fc_signer :: "local_account option"
  fc_auth_mode :: remote_fetch_auth_mode

definition context_public :: "local_account option \<Rightarrow> remote_fetch_context" where
  "context_public signer = \<lparr>fc_signer = signer, fc_auth_mode = Public_Only\<rparr>"

definition context_authorized :: "local_account option \<Rightarrow> remote_fetch_context" where
  "context_authorized signer = \<lparr>fc_signer = signer, fc_auth_mode = Authorized_First\<rparr>"

definition authorized_signer :: "remote_fetch_context option \<Rightarrow> local_account option" where
  "authorized_signer ctx =
    Option.bind ctx (\<lambda>c. if fc_auth_mode c = Authorized_First then fc_signer c else None)"

text \<open>The moments of the second fetch come after the six hops of the first.\<close>

definition fetch_activitypub_document_with_context ::
    "'t resolve_env \<Rightarrow> (nat \<Rightarrow> hop_times) \<Rightarrow> remote_fetch_context option \<Rightarrow> string \<Rightarrow> dns_caches \<Rightarrow>
     (string + json) \<times> dns_caches" where
  "fetch_activitypub_document_with_context env clock ctx url caches =
    (case authorized_signer ctx of
       None \<Rightarrow> fetch_remote_activitypub_document env clock url caches
     | Some signer \<Rightarrow>
       (case fetch_signed_activitypub_document env clock signer url caches of
          (Inr document, caches) \<Rightarrow> (Inr document, caches)
        | (Inl e, caches) \<Rightarrow>
            if signed_fetch_allows_unsigned_fallback e
            then fetch_remote_activitypub_document env (\<lambda>i. clock (i + 6)) url caches
            else (Inl e, caches)))"

definition fetch_remote_actor_profile_with_context ::
    "'t resolve_env \<Rightarrow> (nat \<Rightarrow> hop_times) \<Rightarrow> remote_fetch_context option \<Rightarrow> string \<Rightarrow> dns_caches \<Rightarrow>
     (string + remote_actor_profile) \<times> dns_caches" where
  "fetch_remote_actor_profile_with_context env clock ctx actor_uri caches =
    (case fetch_activitypub_document_with_context env clock ctx actor_uri caches of
       (Inl e, caches) \<Rightarrow> (Inl e, caches)
     | (Inr document, caches) \<Rightarrow>
       (case parse_remote_actor_profile_document (ve_url (re_fetch env)) document actor_uri of
          Inl e \<Rightarrow> (Inl e, caches)
        | Inr profile \<Rightarrow>
          (case validate_remote_actor_profile_urls (ve_url (re_fetch env)) (ve_net (re_fetch env))
              (\<lambda>i. clock (i + 12)) profile caches of
             (Inl e, caches) \<Rightarrow> (Inl e, caches)
           | (Inr _, caches) \<Rightarrow> (Inr profile, caches))))"

section \<open>A status by its address\<close>

text \<open>\<open>LIKE 'p%'\<close>: letters of ASCII match in either case, an underscore matches any character.\<close>

fun like_prefix :: "string \<Rightarrow> string \<Rightarrow> bool" where
  "like_prefix [] s \<longleftrightarrow> True"
| "like_prefix (p # ps) [] \<longleftrightarrow> False"
| "like_prefix (p # ps) (c # s) \<longleftrightarrow>
     (p = CHR ''_'' \<or> ascii_lower p = ascii_lower c) \<and> like_prefix ps s"

definition signer_rank :: "local_account \<Rightarrow> nat" where
  "signer_rank a =
    (if list_ex (\<lambda>p. like_prefix p (la_username a)) [''codex_smoke_'', ''cfclient'', ''phanpy'', ''accessflow'']
     then 2 else 0)"

definition find_any_local_account :: "local_account list \<Rightarrow> local_account option" where
  "find_any_local_account accounts =
    (case sort_key signer_rank (sort_key la_created_at accounts) of [] \<Rightarrow> None | a # _ \<Rightarrow> Some a)"

definition is_public_visibility_text :: "string \<Rightarrow> bool" where
  "is_public_visibility_text v \<longleftrightarrow> v = ''public'' \<or> v = ''unlisted''"

text \<open>The note of a document, its address and its author, where they may stand for each other.\<close>

definition note_of_document :: "string \<Rightarrow> json \<Rightarrow> string + (json \<times> string \<times> string) option" where
  "note_of_document fetch_url document =
    (case extract_remote_note_object document of
       None \<Rightarrow> Inr None
     | Some object \<Rightarrow>
       if \<not> is_public_visibility_text (visibility_from_activitypub_object object) then Inr None
       else
         and_then (ok_or (get_str object ''id'') ''remote status object is missing id'') (\<lambda>note_id.
         and_then (ok_or (opt_or (activity_object_id (jget object ''attributedTo''))
             (activity_object_id (jget document ''actor'')))
           ''remote status object is missing attributedTo'') (\<lambda>actor_uri.
         Inr (if remote_status_object_authority_allowed fetch_url note_id actor_uri = Inr ()
              then Some (object, note_id, actor_uri) else None))))"

record resolve_state =
  rz_store :: remote_store
  rz_actors :: actor_table
  rz_caches :: dns_caches

definition fetched_document ::
    "'t resolve_env \<Rightarrow> local_account option \<Rightarrow> string \<Rightarrow> string \<Rightarrow> dns_caches \<Rightarrow> (string + json) \<times> dns_caches" where
  "fetched_document env signer url fetch_url caches =
    (case signer of
       Some account \<Rightarrow>
         (case fetch_signed_activitypub_document env (ve_clock (re_fetch env)) account fetch_url caches of
            (document, caches) \<Rightarrow>
              (map_err (\<lambda>e. ''resolve_remote_status signed fetch failed for '' @ url @ '': '' @ e) document, caches))
     | None \<Rightarrow>
         (case fetch_remote_activitypub_document env (ve_clock (re_fetch env)) fetch_url caches of
            (document, caches) \<Rightarrow>
              (map_err (\<lambda>e. ''resolve_remote_status fetch failed for '' @ url @ '': '' @ e) document, caches)))"

text \<open>Storing a note that was asked for, with its author.\<close>

definition store_fetched_note ::
    "'t resolve_env \<Rightarrow> remote_actor_profile \<Rightarrow> json \<Rightarrow> resolve_state \<Rightarrow> (string + unit) \<times> resolve_state" where
  "store_fetched_note env profile object st =
    (case upsert_remote_status (re_store env) False (rp_actor_uri profile) object (rz_store st) of
       (result, store) \<Rightarrow>
         (result, st\<lparr>rz_actors := upsert_remote_actor profile (rz_actors st), rz_store := store\<rparr>))"

definition cached_with_actor ::
    "string + remote_status option \<Rightarrow> actor_table \<Rightarrow> string + (remote_status \<times> remote_actor_profile) option" where
  "cached_with_actor found actors =
    and_then found (\<lambda>status. Inr (Option.bind status (\<lambda>s.
      map_option (Pair s) (find_cached_remote_actor_profile_by_actor_uri actors (rs_actor_uri s)))))"

definition resolve_remote_status_by_url ::
    "'t resolve_env \<Rightarrow> local_account option \<Rightarrow> string \<Rightarrow> resolve_state \<Rightarrow>
     (string + (remote_status \<times> remote_actor_profile) option) \<times> resolve_state" where
  "resolve_remote_status_by_url env viewer url st =
    (case find_remote_status_by_url_or_object_uri (rz_store st) url of
       Inl e \<Rightarrow> (Inl e, st)
     | Inr (Some status) \<Rightarrow> (cached_with_actor (Inr (Some status)) (rz_actors st), st)
     | Inr None \<Rightarrow>
       (case parse_remote_http_url (ve_url (re_fetch env)) url of
          Inl e \<Rightarrow> (Inl e, st)
        | Inr parsed \<Rightarrow>
          let fetch_url = url_as_str (ve_url (re_fetch env)) parsed;
              signer = opt_or viewer (find_any_local_account (em_accounts (sv_local (re_store env)))) in
          (case fetched_document env signer url fetch_url (rz_caches st) of
             (Inl e, caches) \<Rightarrow> (Inl e, st\<lparr>rz_caches := caches\<rparr>)
           | (Inr document, caches) \<Rightarrow>
             (case note_of_document fetch_url document of
                Inl e \<Rightarrow> (Inl e, st\<lparr>rz_caches := caches\<rparr>)
              | Inr None \<Rightarrow> (Inr None, st\<lparr>rz_caches := caches\<rparr>)
              | Inr (Some (object, note_id, actor_uri)) \<Rightarrow>
                (case fetch_remote_actor_profile_with_context env (\<lambda>i. ve_clock (re_fetch env) (i + 6))
                    (Some (context_authorized signer)) actor_uri caches of
                   (Inl e, caches) \<Rightarrow> (Inl e, st\<lparr>rz_caches := caches\<rparr>)
                 | (Inr profile, caches) \<Rightarrow>
                   (case store_fetched_note env profile object (st\<lparr>rz_caches := caches\<rparr>) of
                      (Inl e, st) \<Rightarrow> (Inl e, st)
                    | (Inr _, st) \<Rightarrow>
                        (and_then (find_remote_status_by_object_uri (rz_store st) note_id) (\<lambda>status.
                           Inr (Option.bind status (\<lambda>s. map_option (Pair s)
                             (find_cached_remote_actor_profile_by_actor_uri (rz_actors st)
                               (rp_actor_uri profile))))), st)))))))"

section \<open>The note an announce is about\<close>

text \<open>An embedded note is taken if it is public and at the server of its author.\<close>

definition acceptable_embedded_announce_target :: "json \<Rightarrow> (string \<times> string) option" where
  "acceptable_embedded_announce_target object =
    Option.bind (get_str object ''id'') (\<lambda>note_id.
    Option.bind (activity_object_id (jget object ''attributedTo'')) (\<lambda>attributed_uri.
      if remote_status_object_authority_allowed note_id note_id attributed_uri \<noteq> Inr () then None
      else if \<not> is_public_visibility_text (visibility_from_activitypub_object object) then None
      else Some (note_id, attributed_uri)))"

definition fetch_profile ::
    "'t resolve_env \<Rightarrow> string \<Rightarrow> dns_caches \<Rightarrow> (string + remote_actor_profile) \<times> dns_caches" where
  "fetch_profile env actor_uri caches =
    (case fetch_remote_actor_profile (ve_url (re_fetch env)) (ve_json (re_fetch env)) (ve_net (re_fetch env))
        (ve_clock (re_fetch env)) actor_uri caches of
       (profile, caches, _) \<Rightarrow> (profile, caches))"

definition upsert_embedded_announce_target ::
    "'t resolve_env \<Rightarrow> json \<Rightarrow> resolve_state \<Rightarrow> (string + bool) \<times> resolve_state" where
  "upsert_embedded_announce_target env object st =
    (case acceptable_embedded_announce_target object of
       None \<Rightarrow> (Inr False, st)
     | Some (_, attributed_uri) \<Rightarrow>
       (case (case find_cached_remote_actor_profile_by_actor_uri (rz_actors st) attributed_uri of
            Some cached \<Rightarrow> (Inr cached, rz_caches st)
          | None \<Rightarrow> fetch_profile env attributed_uri (rz_caches st)) of
          (Inl _, caches) \<Rightarrow> (Inr False, st\<lparr>rz_caches := caches\<rparr>)
        | (Inr profile, caches) \<Rightarrow>
          (case store_fetched_note env profile object (st\<lparr>rz_caches := caches\<rparr>) of
             (result, st) \<Rightarrow> (and_then result (\<lambda>_. Inr True), st))))"

definition resolved_announce_target ::
    "'t resolve_env \<Rightarrow> string \<Rightarrow> resolve_state \<Rightarrow> (string + unit) \<times> resolve_state" where
  "resolved_announce_target env uri st = (Inr (), snd (resolve_remote_status_by_url env None uri st))"

definition ensure_announce_boost_target ::
    "'t resolve_env \<Rightarrow> json \<Rightarrow> string \<Rightarrow> resolve_state \<Rightarrow> (string + unit) \<times> resolve_state" where
  "ensure_announce_boost_target env activity object_uri st =
    (if local_status_by_uri (re_store env) object_uri \<noteq> None then (Inr (), st)
     else case find_remote_status_by_url_or_object_uri (rz_store st) object_uri of
       Inl e \<Rightarrow> (Inl e, st)
     | Inr (Some _) \<Rightarrow> (Inr (), st)
     | Inr None \<Rightarrow>
       (case extract_remote_note_object activity of
          None \<Rightarrow> resolved_announce_target env object_uri st
        | Some object \<Rightarrow>
          (case upsert_embedded_announce_target env object st of
             (Inl e, st) \<Rightarrow> (Inl e, st)
           | (Inr True, st) \<Rightarrow> (Inr (), st)
           | (Inr False, st) \<Rightarrow> resolved_announce_target env object_uri st)))"

section \<open>The refresh of a poll\<close>

text \<open>\<open>in_past\<close> is whether a text is a moment before now, where it is a moment.\<close>

definition remote_poll_should_refresh ::
    "(string \<Rightarrow> bool option) \<Rightarrow> remote_poll_row \<Rightarrow> local_account option \<Rightarrow> bool" where
  "remote_poll_should_refresh in_past poll viewer =
    (if viewer = None \<or> rpl_expired poll then False
     else (case rpl_expires_at poll of
         None \<Rightarrow> True
       | Some t \<Rightarrow> \<not> unwrap_or (in_past t) False))"

text \<open>The counts of a draft by title; of options with one title the last counts.\<close>

definition remote_poll_votes_by_title :: "remote_poll_draft \<Rightarrow> string \<Rightarrow> u64 option" where
  "remote_poll_votes_by_title draft =
    map_of (rev (map (\<lambda>o'. (pod_title o', pod_votes_count o')) (rpd_options draft)))"

definition remote_poll_has_expected_voters_count :: "remote_poll_draft \<Rightarrow> int option \<Rightarrow> bool" where
  "remote_poll_has_expected_voters_count draft expected =
    (case expected of None \<Rightarrow> True | Some n \<Rightarrow> uint (unwrap_or (rpd_voters_count draft) 0) \<ge> n)"

definition has_option_votes :: "remote_poll_draft \<Rightarrow> remote_poll_option_row \<Rightarrow> int \<Rightarrow> bool" where
  "has_option_votes draft option expected =
    (case remote_poll_votes_by_title draft (rpo_title option) of
       None \<Rightarrow> False
     | Some n \<Rightarrow> uint n \<ge> max expected 0)"

definition remote_poll_draft_acknowledges_local_snapshot ::
    "remote_poll_row \<Rightarrow> remote_poll_option_row list \<Rightarrow> remote_poll_draft \<Rightarrow> bool" where
  "remote_poll_draft_acknowledges_local_snapshot poll options draft \<longleftrightarrow>
    rpd_multiple draft = rpl_multiple poll \<and> uint (rpd_votes_count draft) \<ge> max (rpl_votes_count poll) 0 \<and>
    (rpl_multiple poll \<longrightarrow> remote_poll_has_expected_voters_count draft
      (map_option (\<lambda>n. max n 0) (rpl_voters_count poll))) \<and>
    list_all (\<lambda>option. has_option_votes draft option (rpo_votes_count option)) options"

text \<open>Both times are those of \<open>CURRENT_TIMESTAMP\<close>.\<close>

definition has_remote_poll_votes_created_after :: "remote_store \<Rightarrow> string \<Rightarrow> string \<Rightarrow> bool" where
  "has_remote_poll_votes_created_after st poll_id created_after =
    list_ex (\<lambda>v. rpv_poll_id v = poll_id \<and> rpv_created_at v > created_after) (rst_poll_votes st)"

definition poll_actor_uri :: "json \<Rightarrow> json \<Rightarrow> string \<Rightarrow> string" where
  "poll_actor_uri document object author =
    unwrap_or (opt_or (get_str object ''attributedTo'') (get_str document ''actor'')) author"

definition refresh_remote_poll_if_needed ::
    "'t resolve_env \<Rightarrow> (string \<Rightarrow> bool option) \<Rightarrow> remote_status \<Rightarrow> remote_poll_row \<Rightarrow> local_account option \<Rightarrow>
     resolve_state \<Rightarrow> (string + unit) \<times> resolve_state" where
  "refresh_remote_poll_if_needed env in_past status poll viewer st =
    (if \<not> remote_poll_should_refresh in_past poll viewer then (Inr (), st)
     else case fetch_remote_activitypub_document env (ve_clock (re_fetch env)) (rs_object_uri status)
         (rz_caches st) of
       (Inl _, caches) \<Rightarrow> (Inr (), st\<lparr>rz_caches := caches\<rparr>)
     | (Inr document, caches) \<Rightarrow>
       let st = st\<lparr>rz_caches := caches\<rparr> in
       (case extract_remote_note_object document of
          None \<Rightarrow> (Inr (), st)
        | Some object \<Rightarrow>
          (case extract_remote_poll_draft object of
             None \<Rightarrow> (Inr (), st)
           | Some draft \<Rightarrow>
             if has_remote_poll_votes_created_after (rz_store st) (rpl_id poll) (rpl_updated_at poll) \<and>
               \<not> remote_poll_draft_acknowledges_local_snapshot poll
                  (list_remote_status_poll_options (rz_store st) (rpl_id poll)) draft
             then (Inr (), st)
             else (case fetch_profile env (poll_actor_uri document object (rs_actor_uri status)) (rz_caches st) of
                 (Inl _, caches) \<Rightarrow> (Inr (), st\<lparr>rz_caches := caches\<rparr>)
               | (Inr profile, caches) \<Rightarrow>
                   store_fetched_note env profile object (st\<lparr>rz_caches := caches\<rparr>)))))"

section \<open>What storing a note changes\<close>

definition fresh_ident :: "'t store_env \<Rightarrow> remote_store \<Rightarrow> bool" where
  "fresh_ident env st \<longleftrightarrow>
    (\<forall>i. sv_fresh env = Inr i \<longrightarrow> status_id_str i \<notin> rsr_id ` set (rst_rows st))"

lemma stored_row_fields:
  assumes "status_intent env actor object previous st = Inr i"
    and "row_with rsr_object_uri (srs_object_uri i) (upsert_by rsr_object_uri merge_row (intent_row i) rows) =
      Some row"
  shows "rsr_actor_uri row = actor" "rsr_object_uri row = srs_object_uri i"
    "sv_to_string env object = Inr (rsr_raw_object_json row)"
proof -
  have key: "rsr_object_uri (intent_row i) = srs_object_uri i" by (simp add: intent_row_def)
  note fields = stored_intent_fields [OF assms(1)]
  from status_rows.upsert_finds [of "intent_row i" rows] assms(2)
  have "row = (case row_with rsr_object_uri (srs_object_uri i) rows of
      None \<Rightarrow> intent_row i | Some r \<Rightarrow> merge_row (intent_row i) r)"
    by (simp add: key)
  then show "rsr_actor_uri row = actor" "rsr_object_uri row = srs_object_uri i"
    "sv_to_string env object = Inr (rsr_raw_object_json row)"
    using fields by (auto simp: intent_row_def merge_row_def split: option.splits)
qed

text \<open>The rows after storing a note: those of before, those with the new row, or with its card too.\<close>

inductive note_rows ::
    "'t store_env \<Rightarrow> string \<Rightarrow> json \<Rightarrow> remote_store \<Rightarrow> remote_status_row list \<Rightarrow> bool"
  for env :: "'t store_env" and actor :: string and object :: json and st :: remote_store where
  rows_kept: "note_rows env actor object st (rst_rows st)"
| row_stored: "status_intent env actor object previous st = Inr i \<Longrightarrow>
    note_rows env actor object st (upsert_by rsr_object_uri merge_row (intent_row i) (rst_rows st))"
| row_with_card: "status_intent env actor object previous st = Inr i \<Longrightarrow>
    rows = upsert_by rsr_object_uri merge_row (intent_row i) (rst_rows st) \<Longrightarrow>
    row_with rsr_object_uri (srs_object_uri i) rows = Some row \<Longrightarrow>
    note_rows env actor object st (card_rows now (rsr_id row) cd rows)"

lemma upsert_note_rows:
  fixes env :: "'t store_env"
  assumes "upsert_remote_status env live actor object st = (r, st')"
  shows "note_rows env actor object st (rst_rows st')"
proof (cases r)
  case (Inl e)
  with assms show ?thesis
    by (auto simp: upsert_remote_status_def Let_def upsert_remote_status_draft_def
        dest!: snapshot_rows intro: rows_kept row_stored split: option.splits sum.splits prod.splits)
next
  case (Inr x)
  with assms have "upsert_remote_status env live actor object st = (Inr (), st')" by simp
  then show ?thesis
  proof (rule upsert_Inr)
    fix u i st1 status
    let ?st = "upsert_remote_status_draft i st1"
    let ?rows = "upsert_by rsr_object_uri merge_row (intent_row i) (rst_rows st)"
    let ?cd = "sv_card env (plain_text status) (fst (replace_remote_status_dependents env status object ?st))"
    assume i: "status_intent env actor object (row_by_object_uri st u) st = Inr i"
      and snap: "insert_previous_remote_status_snapshot_if_changed env (row_by_object_uri st u) i st = (Inr (), st1)"
      and status: "find_remote_status_by_object_uri ?st (srs_object_uri i) = Inr (Some status)"
      and st': "st' = jobs_after_upsert env live actor (row_by_object_uri st u) (srs_raw_object_json i) status
      (update_remote_status_card_json (sv_db_now env) (rs_id status) ?cd
        (snd (replace_remote_status_dependents env status object ?st)))"
    have rows: "rst_rows ?st = ?rows"
      using snapshot_rows [OF snap] by (simp add: upsert_remote_status_draft_def)
    obtain row where row: "row_with rsr_object_uri (srs_object_uri i) ?rows = Some row" "rs_id status = rsr_id row"
      using status rows row_status_id
      by (auto simp: find_remote_status_by_object_uri_def optional_status_def row_by_object_uri_def
          and_then_Inr split: option.splits)
    have "rst_rows st' = card_rows (sv_db_now env) (rsr_id row) ?cd ?rows"
      by (simp add: st' card_update_rows rows row(2))
    then show "note_rows env actor object st (rst_rows st')"
      by (simp only:) (rule row_with_card [OF i refl row(1)])
  qed
qed

text \<open>Only the row under the address of the note changes, and it becomes one of the actor that stores it.\<close>

lemma intent_row_keys [simp]:
  "rsr_object_uri (intent_row i) = srs_object_uri i"
  "rsr_id (intent_row i) = status_id_str (srs_status_id i)"
  by (simp_all add: intent_row_def)

lemma note_rows_change:
  assumes "note_rows env actor object st rows'"
    and ok: "store_keys_ok st" and fresh: "fresh_ident env st"
    and changed: "row_with rsr_object_uri k rows' \<noteq> row_with rsr_object_uri k (rst_rows st)"
  shows "\<exists>row. row_with rsr_object_uri k rows' = Some row \<and> rsr_actor_uri row = actor \<and>
    trimmed_option (get_str object ''id'') = Some k"
  using assms(1)
proof cases
  case rows_kept
  with changed show ?thesis by simp
next
  case (row_stored previous i)
  obtain row where row: "row_with rsr_object_uri (srs_object_uri i) rows' = Some row"
    using status_rows.upsert_finds [of "intent_row i" "rst_rows st"] row_stored
    by simp
  have "k = srs_object_uri i"
    using status_rows.upsert_finds_others [of k "intent_row i"] changed row_stored
    by auto
  with row stored_row_fields [OF row_stored(2), of "rst_rows st" row] stored_intent_fields [OF row_stored(2)]
    row_stored show ?thesis by auto
next
  case (row_with_card previous i rows row now cd)
  note fields = stored_intent_fields [OF row_with_card(2)]
  have ids: "distinct (map rsr_id rows)"
    using ok fresh fields upsert_ids_distinct [of "rst_rows st" "intent_row i"]
    by (auto simp: store_keys_ok_def fresh_ident_def row_with_card(3))
  have "k = srs_object_uri i"
  proof (rule ccontr)
    assume "k \<noteq> srs_object_uri i"
    then have "row_with rsr_object_uri k rows' = row_with rsr_object_uri k rows"
      "row_with rsr_object_uri k rows = row_with rsr_object_uri k (rst_rows st)"
      using card_on_own_row(2) [OF ids row_with_card(4)] row_with_card
        status_rows.upsert_finds_others [of k "intent_row i" "rst_rows st"] by simp_all
    with changed show False by simp
  qed
  with card_on_own_row(1) [OF ids row_with_card(4)] fields row_with_card
    stored_row_fields(1) [OF row_with_card(2), of "rst_rows st" row] show ?thesis by auto
qed

lemma upsert_changes_own_row:
  assumes "upsert_remote_status env live actor object st = (r, st')"
    and "store_keys_ok st" "fresh_ident env st"
    and "row_by_object_uri st' k \<noteq> row_by_object_uri st k"
  shows "\<exists>row. row_by_object_uri st' k = Some row \<and> rsr_actor_uri row = actor \<and>
    trimmed_option (get_str object ''id'') = Some k"
  using note_rows_change [OF upsert_note_rows [OF assms(1)] assms(2,3)] assms(4)
  by (simp add: row_by_object_uri_def)

section \<open>Properties\<close>

lemma fetched_note_changes:
  assumes "store_fetched_note env profile object st = (r, st')"
    and "store_keys_ok (rz_store st)" "fresh_ident (re_store env) (rz_store st)"
    and "row_by_object_uri (rz_store st') k \<noteq> row_by_object_uri (rz_store st) k"
  shows "\<exists>row. row_by_object_uri (rz_store st') k = Some row \<and> rsr_actor_uri row = rp_actor_uri profile \<and>
    trimmed_option (get_str object ''id'') = Some k"
proof -
  obtain result store where run:
    "upsert_remote_status (re_store env) False (rp_actor_uri profile) object (rz_store st) = (result, store)"
    by force
  with assms(1) have "rz_store st' = store" by (auto simp: store_fetched_note_def)
  then show ?thesis using upsert_changes_own_row [OF run assms(2,3)] assms(4) by simp
qed

lemma authority_of_trimmed:
  "trimmed_option (Some s) = Some k \<Longrightarrow> remote_http_authority k = remote_http_authority s"
  by (auto simp: trimmed_option_def opt_filter_def remote_http_authority_def split: if_splits)

lemma profile_authority:
  assumes "fetch_remote_actor_profile_with_context env clock ctx actor_uri caches = (Inr profile, caches')"
  shows "\<exists>a. remote_http_authority actor_uri = Some a \<and> remote_http_authority (rp_actor_uri profile) = Some a"
proof -
  from assms obtain document where
    "parse_remote_actor_profile_document (ve_url (re_fetch env)) document actor_uri = Inr profile"
    by (auto simp: fetch_remote_actor_profile_with_context_def split: prod.splits sum.splits)
  from parsed_profile(1) [OF this] show ?thesis
    by (auto simp: profile_of_authority_def profile_urls_def)
qed

lemma document_note_authority:
  assumes "note_of_document fetch_url document = Inr (Some (object, note_id, actor_uri))"
  shows "get_str object ''id'' = Some note_id \<and> extract_remote_note_object document = Some object \<and>
    (\<exists>a. remote_http_authority fetch_url = Some a \<and> remote_http_authority note_id = Some a \<and>
      remote_http_authority actor_uri = Some a)"
  using assms
  by (auto simp: note_of_document_def and_then_Inr ok_or_def status_authority_ok authorities_match_iff
      split: option.splits if_splits) metis


text \<open>
  An announce is believed about the note it embeds: whoever sends it, the note is stored as one of the
  author it names, with no request to any server when the author is known.
\<close>

lemma fetched_note_stored:
  assumes "store_fetched_note env profile object st = (Inr (), st')"
    and "store_keys_ok (rz_store st)" "fresh_ident (re_store env) (rz_store st)"
    and "get_str object ''id'' = Some u" "trim u = u"
  shows "\<exists>row. row_by_object_uri (rz_store st') u = Some row \<and> rsr_actor_uri row = rp_actor_uri profile \<and>
    sv_to_string (re_store env) object = Inr (rsr_raw_object_json row)"
proof -
  from assms(1) have
    "upsert_remote_status (re_store env) False (rp_actor_uri profile) object (rz_store st) =
      (Inr (), rz_store st')"
    by (auto simp: store_fetched_note_def split: prod.splits)
  from note_replaces [OF this assms(4,5,2)] assms(3) show ?thesis
    by (auto simp: note_stored_def fresh_ident_def)
qed

theorem announce_embeds_forged_note:
  assumes unknown: "local_status_by_uri (re_store env) uri = None"
      "find_remote_status_by_url_or_object_uri (rz_store st) uri = Inr None"
    and embedded: "extract_remote_note_object activity = Some object"
      "acceptable_embedded_announce_target object = Some (u, author)" "trim u = u"
    and known: "find_cached_remote_actor_profile_by_actor_uri (rz_actors st) author = Some profile"
    and ok: "store_keys_ok (rz_store st)" "fresh_ident (re_store env) (rz_store st)"
    and run: "ensure_announce_boost_target env activity uri st = (Inr (), st')"
  shows "rz_caches st' = rz_caches st \<and>
    (\<exists>row. row_by_object_uri (rz_store st') u = Some row \<and> rsr_actor_uri row = rp_actor_uri profile \<and>
      sv_to_string (re_store env) object = Inr (rsr_raw_object_json row))"
proof -
  have stored: "store_fetched_note env profile object st = (Inr (), st')"
    using unknown embedded known run
    by (auto simp: ensure_announce_boost_target_def upsert_embedded_announce_target_def and_then_def
        split: prod.splits sum.splits bool.splits)
  moreover have "get_str object ''id'' = Some u"
    using embedded(2) by (auto simp: acceptable_embedded_announce_target_def bind_eq_Some_conv split: if_splits)
  moreover from stored have "rz_caches st' = rz_caches st"
    by (auto simp: store_fetched_note_def split: prod.splits)
  ultimately show ?thesis
    using fetched_note_stored [OF stored ok] embedded(3) by simp
qed

text \<open>
  The refresh of a poll stores whatever note the server of the poll gives, under the address and as the
  author the note names.
\<close>

theorem poll_refresh_stores_any_note:
  assumes "remote_poll_should_refresh in_past poll viewer"
    and "fetch_remote_activitypub_document env (ve_clock (re_fetch env)) (rs_object_uri status)
      (rz_caches st) = (Inr document, caches)"
    and "extract_remote_note_object document = Some object" "extract_remote_poll_draft object = Some draft"
    and "\<not> has_remote_poll_votes_created_after (rz_store st) (rpl_id poll) (rpl_updated_at poll)"
    and "fetch_profile env (poll_actor_uri document object (rs_actor_uri status)) caches = (Inr profile, caches')"
    and id: "get_str object ''id'' = Some u" "trim u = u"
    and ok: "store_keys_ok (rz_store st)" "fresh_ident (re_store env) (rz_store st)"
    and run: "refresh_remote_poll_if_needed env in_past status poll viewer st = (Inr (), st')"
  shows "\<exists>row. row_by_object_uri (rz_store st') u = Some row \<and> rsr_actor_uri row = rp_actor_uri profile"
proof -
  have "store_fetched_note env profile object (st\<lparr>rz_caches := caches'\<rparr>) = (Inr (), st')"
    using assms by (simp add: refresh_remote_poll_if_needed_def Let_def)
  from fetched_note_stored [OF this] ok id show ?thesis by auto
qed

text \<open>A server with one note and its author.\<close>

definition sample_public_note :: json where
  "sample_public_note = JObject
    [(''id'', JString ''https://a.example/1''), (''type'', JString ''Note''),
     (''attributedTo'', JString ''https://a.example/users/bob''), (''to'', JString ''as:Public''),
     (''content'', JString ''x'')]"

definition sample_resolve_env :: "unit resolve_env" where
  "sample_resolve_env =
    \<lparr>re_store = sample_store_env ''s'',
     re_fetch = sample_verify_env
       \<lparr>ve_url := sample_crate,
        ve_json := (\<lambda>body. Inr (if body = ''note'' then sample_public_note else foreign_document)),
        ve_net := sample_network\<lparr>net_http := (\<lambda>_ s. Inr \<lparr>hr_status = 200, hr_location = None,
          hr_content_type = None,
          hr_body = Inr (if s = ''https://a.example/1'' then ''note'' else ''actor'')\<rparr>)\<rparr>\<rparr>,
     re_signed_http = (\<lambda>_ _ _. Inl ''unreachable''), re_http_date = (\<lambda>_. Inl ''no clock''),
     re_key = (\<lambda>_. Inr None)\<rparr>"

definition empty_resolve_state :: resolve_state where
  "empty_resolve_state =
    \<lparr>rz_store = \<lparr>rst_rows = [], rst_edits = [], rst_attachments = [], rst_polls = [],
       rst_poll_options = [], rst_poll_votes = [], rst_jobs = []\<rparr>,
     rz_actors = [], rz_caches = \<lparr>dc_l1 = Map.empty, dc_kv = None\<rparr>\<rparr>"

lemma sample_fetched:
  "fst (fetched_document sample_resolve_env None ''https://a.example/1'' ''https://a.example/1'' c) =
    Inr sample_public_note"
  "note_of_document ''https://a.example/1'' sample_public_note =
    Inr (Some (sample_public_note, ''https://a.example/1'', ''https://a.example/users/bob''))"
  "fst (fetch_remote_actor_profile_with_context sample_resolve_env
      (\<lambda>i. ve_clock (re_fetch sample_resolve_env) (i + 6)) (Some (context_authorized None))
      ''https://a.example/users/bob'' c) = Inr foreign_profile"
  by code_simp+

lemma sample_looked_up:
  "find_remote_status_by_url_or_object_uri (rz_store empty_resolve_state) ''https://a.example/1'' = Inr None"
  "map_option (url_as_str (ve_url (re_fetch sample_resolve_env)))
    (ok (parse_remote_http_url (ve_url (re_fetch sample_resolve_env)) ''https://a.example/1'')) =
    Some ''https://a.example/1''"
  "find_any_local_account (em_accounts (sv_local (re_store sample_resolve_env))) = None"
  by code_simp+

lemma sample_stored:
  "row_by_object_uri (snd (upsert_remote_status (re_store sample_resolve_env) False
    (rp_actor_uri foreign_profile) sample_public_note (rz_store empty_resolve_state)))
    ''https://a.example/1'' \<noteq> None"
  by code_simp

lemma sample_resolved:
  "row_by_object_uri (rz_store (snd (resolve_remote_status_by_url sample_resolve_env None
    ''https://a.example/1'' empty_resolve_state))) ''https://a.example/1'' \<noteq> None"
proof -
  obtain u where u: "parse_remote_http_url (ve_url (re_fetch sample_resolve_env)) ''https://a.example/1'' = Inr u"
    "url_as_str (ve_url (re_fetch sample_resolve_env)) u = ''https://a.example/1''"
    using sample_looked_up(2) by auto
  obtain c1 where c1: "fetched_document sample_resolve_env None ''https://a.example/1'' ''https://a.example/1''
      (rz_caches empty_resolve_state) = (Inr sample_public_note, c1)"
    using sample_fetched(1) by (metis prod.collapse)
  obtain c2 where c2: "fetch_remote_actor_profile_with_context sample_resolve_env
      (\<lambda>i. ve_clock (re_fetch sample_resolve_env) (i + 6)) (Some (context_authorized None))
      ''https://a.example/users/bob'' c1 = (Inr foreign_profile, c2)"
    using sample_fetched(3) by (metis prod.collapse)
  obtain r store where run: "upsert_remote_status (re_store sample_resolve_env) False
      (rp_actor_uri foreign_profile) sample_public_note (rz_store empty_resolve_state) = (r, store)"
    by force
  have "rz_store (snd (resolve_remote_status_by_url sample_resolve_env None ''https://a.example/1''
      empty_resolve_state)) = store"
    by (simp add: resolve_remote_status_by_url_def sample_looked_up u c1 sample_fetched(2) c2 opt_or_def
        store_fetched_note_def run split: sum.split)
  then show ?thesis using sample_stored unfolding run by simp
qed


end
