(* ===== verification/Poll_Votes.thy ===== *)
theory Poll_Votes
  imports Note_Emission Remote_Store
begin

text \<open>
  Polls of the instance (\<open>local_polls/votes.rs\<close>, \<open>local_polls.rs\<close>, \<open>store/local_polls/polls.rs\<close>,
  \<open>polls/request_parsing.rs\<close>): the votes of local accounts and of actors of other servers, each
  statement on the tables with the triggers that guard them, and the answer to a client.
\<close>

section \<open>Tables\<close>

record local_poll_row = status_poll_row +
  sp_hide_totals :: int

record local_option_row =
  lo_poll_id :: string
  lo_position :: int
  lo_title :: string
  lo_votes_count :: int

record local_vote_row =
  lv_id :: string
  lv_poll_id :: string
  lv_account_id :: string
  lv_option_position :: int
  lv_activity_uri :: "string option"

text \<open>\<open>pd_accounts\<close> are the identifiers of the local accounts.\<close>

record poll_db =
  pd_accounts :: "string list"
  pd_polls :: "local_poll_row list"
  pd_options :: "local_option_row list"
  pd_votes :: "local_vote_row list"

definition poll_options :: "poll_db \<Rightarrow> string \<Rightarrow> local_option_row list" where
  "poll_options db poll_id =
    sort_key lo_position (filter (\<lambda>o'. lo_poll_id o' = poll_id) (pd_options db))"

definition account_votes :: "poll_db \<Rightarrow> string \<Rightarrow> string \<Rightarrow> local_vote_row list" where
  "account_votes db poll_id account_id =
    filter (\<lambda>v. lv_poll_id v = poll_id \<and> lv_account_id v = account_id) (pd_votes db)"

text \<open>Positions outside of 32 bits are left out.\<close>

definition list_poll_vote_positions_for_account :: "poll_db \<Rightarrow> string \<Rightarrow> string \<Rightarrow> int list" where
  "list_poll_vote_positions_for_account db poll_id account_id =
    filter (\<lambda>p. 0 \<le> p \<and> p < 2 ^ 32)
      (sort (map lv_option_position (account_votes db poll_id account_id)))"

definition find_status_poll_vote_for_remote_actor_by_activity_uri ::
    "poll_db \<Rightarrow> string \<Rightarrow> string \<Rightarrow> local_vote_row option" where
  "find_status_poll_vote_for_remote_actor_by_activity_uri db account_id activity_uri =
    find (\<lambda>v. lv_account_id v = account_id \<and> lv_activity_uri v = Some activity_uri) (pd_votes db)"

definition find_status_poll_vote_id_by_position ::
    "poll_db \<Rightarrow> string \<Rightarrow> string \<Rightarrow> int \<Rightarrow> string option" where
  "find_status_poll_vote_id_by_position db poll_id account_id position =
    map_option lv_id (find (\<lambda>v. lv_option_position v = position) (account_votes db poll_id account_id))"

definition count_poll_voters :: "poll_db \<Rightarrow> string \<Rightarrow> nat" where
  "count_poll_voters db poll_id =
    length (remdups (map lv_account_id (filter (\<lambda>v. lv_poll_id v = poll_id) (pd_votes db))))"

section \<open>Statements\<close>

text \<open>
  An insertion is refused by the triggers when the poll, the account or the option is not there, also
  where it is one \<open>OR IGNORE\<close>. \<open>vote_clashes\<close> are the unique keys.
\<close>

definition vote_trigger_error :: "poll_db \<Rightarrow> local_vote_row \<Rightarrow> string option" where
  "vote_trigger_error db v =
    (if \<not> list_ex (\<lambda>p. sp_id p = lv_poll_id v) (pd_polls db)
     then Some ''status_poll_votes.poll_id must reference status_polls.id''
     else if lv_account_id v \<notin> set (pd_accounts db)
     then Some ''status_poll_votes.account_id must reference accounts.id''
     else if \<not> list_ex (\<lambda>o'. lo_poll_id o' = lv_poll_id v \<and> lo_position o' = lv_option_position v) (pd_options db)
     then Some ''status_poll_votes.option_position must reference a poll option''
     else None)"

definition vote_clashes :: "local_vote_row \<Rightarrow> local_vote_row \<Rightarrow> bool" where
  "vote_clashes v w \<longleftrightarrow> lv_id v = lv_id w \<or>
    (lv_poll_id v = lv_poll_id w \<and> lv_account_id v = lv_account_id w \<and>
     lv_option_position v = lv_option_position w) \<or>
    (lv_activity_uri v \<noteq> None \<and> lv_activity_uri v = lv_activity_uri w)"

definition insert_vote :: "bool \<Rightarrow> local_vote_row \<Rightarrow> poll_db \<Rightarrow> (string + unit) \<times> poll_db" where
  "insert_vote or_ignore v db =
    (case vote_trigger_error db v of
       Some e \<Rightarrow> (Inl e, db)
     | None \<Rightarrow>
         if list_ex (vote_clashes v) (pd_votes db)
         then (if or_ignore then Inr () else Inl ''UNIQUE constraint failed'', db)
         else (Inr (), db\<lparr>pd_votes := pd_votes db @ [v]\<rparr>))"

definition insert_account_poll_vote_row :: "local_vote_row \<Rightarrow> poll_db \<Rightarrow> (string + unit) \<times> poll_db" where
  "insert_account_poll_vote_row = insert_vote False"

definition insert_incoming_poll_vote_row :: "local_vote_row \<Rightarrow> poll_db \<Rightarrow> (string + unit) \<times> poll_db" where
  "insert_incoming_poll_vote_row = insert_vote True"

definition update_option :: "string \<Rightarrow> int \<Rightarrow> (int \<Rightarrow> int) \<Rightarrow> poll_db \<Rightarrow> poll_db" where
  "update_option poll_id position f db =
    db\<lparr>pd_options := map (\<lambda>o'. if lo_poll_id o' = poll_id \<and> lo_position o' = position
      then o'\<lparr>lo_votes_count := f (lo_votes_count o')\<rparr> else o') (pd_options db)\<rparr>"

definition decrement_poll_option_vote_count :: "string \<Rightarrow> int \<Rightarrow> poll_db \<Rightarrow> poll_db" where
  "decrement_poll_option_vote_count poll_id choice =
    update_option poll_id choice (\<lambda>n. if n > 0 then n - 1 else 0)"

definition increment_poll_option_vote_count :: "string \<Rightarrow> int \<Rightarrow> poll_db \<Rightarrow> poll_db" where
  "increment_poll_option_vote_count poll_id choice = update_option poll_id choice (\<lambda>n. n + 1)"

definition delete_votes :: "(local_vote_row \<Rightarrow> bool) \<Rightarrow> poll_db \<Rightarrow> poll_db" where
  "delete_votes P db = db\<lparr>pd_votes := filter (\<lambda>v. \<not> P v) (pd_votes db)\<rparr>"

definition delete_poll_votes_for_account :: "string \<Rightarrow> string \<Rightarrow> poll_db \<Rightarrow> poll_db" where
  "delete_poll_votes_for_account poll_id account_id =
    delete_votes (\<lambda>v. lv_poll_id v = poll_id \<and> lv_account_id v = account_id)"

definition delete_incoming_poll_vote_by_activity_uri :: "string \<Rightarrow> string \<Rightarrow> string \<Rightarrow> poll_db \<Rightarrow> poll_db" where
  "delete_incoming_poll_vote_by_activity_uri poll_id account_id activity_uri =
    delete_votes (\<lambda>v. lv_poll_id v = poll_id \<and> lv_account_id v = account_id \<and>
      lv_activity_uri v = Some activity_uri)"

definition delete_incoming_poll_vote_by_id :: "string \<Rightarrow> poll_db \<Rightarrow> poll_db" where
  "delete_incoming_poll_vote_by_id vote_id = delete_votes (\<lambda>v. lv_id v = vote_id)"

section \<open>Votes of local accounts\<close>

definition check_unique_choices :: "u32 list \<Rightarrow> string + u32 list" where
  "check_unique_choices choices =
    (if choices = [] then Inl ''choices must not be empty''
     else if \<not> distinct choices then Inl ''duplicate poll choices are not allowed''
     else Inr choices)"

definition validate_poll_vote_submission :: "nat \<Rightarrow> bool \<Rightarrow> nat \<Rightarrow> string + unit" where
  "validate_poll_vote_submission existing multiple choices =
    (if existing \<noteq> 0 then Inl ''you have already voted in this poll''
     else if \<not> multiple \<and> choices \<noteq> 1 then Inl ''poll does not allow multiple choices''
     else Inr ())"

definition validate_local_poll_vote_choices :: "nat \<Rightarrow> bool \<Rightarrow> u32 list \<Rightarrow> string + unit" where
  "validate_local_poll_vote_choices option_count multiple choices =
    (if list_ex (\<lambda>c. unat c \<ge> option_count) choices then Inl ''poll choice index is out of range''
     else if \<not> multiple \<and> length choices \<noteq> 1 then Inl ''poll does not allow multiple choices''
     else Inr ())"

fun insert_account_poll_votes ::
    "(u32 \<Rightarrow> string) \<Rightarrow> string \<Rightarrow> string \<Rightarrow> u32 list \<Rightarrow> poll_db \<Rightarrow> (string + unit) \<times> poll_db" where
  "insert_account_poll_votes fresh poll_id account_id [] db = (Inr (), db)"
| "insert_account_poll_votes fresh poll_id account_id (c # cs) db =
    (case insert_account_poll_vote_row
        \<lparr>lv_id = fresh c, lv_poll_id = poll_id, lv_account_id = account_id,
         lv_option_position = sint (ucast c :: i32), lv_activity_uri = None\<rparr> db of
       (Inl e, db) \<Rightarrow> (Inl e, db)
     | (Inr _, db) \<Rightarrow> insert_account_poll_votes fresh poll_id account_id cs
         (increment_poll_option_vote_count poll_id (sint (ucast c :: i32)) db))"

definition remove_existing_account_poll_votes ::
    "string \<Rightarrow> string \<Rightarrow> int list \<Rightarrow> poll_db \<Rightarrow> poll_db" where
  "remove_existing_account_poll_votes poll_id account_id existing db =
    delete_poll_votes_for_account poll_id account_id
      (fold (decrement_poll_option_vote_count poll_id) existing db)"

definition replace_account_poll_votes ::
    "(u32 \<Rightarrow> string) \<Rightarrow> string \<Rightarrow> string \<Rightarrow> int list \<Rightarrow> u32 list \<Rightarrow> poll_db \<Rightarrow> (string + unit) \<times> poll_db" where
  "replace_account_poll_votes fresh poll_id account_id existing choices db =
    insert_account_poll_votes fresh poll_id account_id choices
      (remove_existing_account_poll_votes poll_id account_id existing db)"

text \<open>What is read before the vote is written, and the vote, with \<open>fresh\<close> identifiers.\<close>

definition check_poll_vote :: "local_poll_row \<Rightarrow> string \<Rightarrow> u32 list \<Rightarrow> poll_db \<Rightarrow> string + int list" where
  "check_poll_vote poll account_id choices db =
    (let multiple = (sp_multiple poll \<noteq> 0);
         existing = list_poll_vote_positions_for_account db (sp_id poll) account_id
     in and_then (validate_local_poll_vote_choices (length (poll_options db (sp_id poll))) multiple choices) (\<lambda>_.
        and_then (validate_poll_vote_submission (length existing) multiple (length choices)) (\<lambda>_.
        Inr existing)))"

definition apply_poll_vote ::
    "(u32 \<Rightarrow> string) \<Rightarrow> local_poll_row \<Rightarrow> string \<Rightarrow> u32 list \<Rightarrow> poll_db \<Rightarrow> (string + unit) \<times> poll_db" where
  "apply_poll_vote fresh poll account_id choices db =
    (case check_poll_vote poll account_id choices db of
       Inl e \<Rightarrow> (Inl e, db)
     | Inr existing \<Rightarrow> replace_account_poll_votes fresh (sp_id poll) account_id existing choices db)"

section \<open>Votes of other servers\<close>

definition apply_incoming_poll_vote ::
    "string \<Rightarrow> local_poll_row \<Rightarrow> string \<Rightarrow> u32 \<Rightarrow> string option \<Rightarrow> poll_db \<Rightarrow> (string + unit) \<times> poll_db" where
  "apply_incoming_poll_vote vote_id poll account_id choice activity_uri db =
    (let existing = list_poll_vote_positions_for_account db (sp_id poll) account_id in
     if unat choice \<ge> length (poll_options db (sp_id poll)) then (Inr (), db)
     else if sp_multiple poll = 0 \<and> existing \<noteq> [] then (Inr (), db)
     else if uint choice \<in> set existing then (Inr (), db)
     else insert_incoming_poll_vote_row
       \<lparr>lv_id = vote_id, lv_poll_id = sp_id poll, lv_account_id = account_id,
        lv_option_position = sint (ucast choice :: i32), lv_activity_uri = activity_uri\<rparr> db)"

datatype deletion_filter = ActivityUri string | VoteId string

record deletion_target =
  dt_poll_id :: string
  dt_option_position :: int
  dt_filter :: deletion_filter

definition incoming_poll_vote_choice_position :: "poll_db \<Rightarrow> local_poll_row \<Rightarrow> string \<Rightarrow> nat option" where
  "incoming_poll_vote_choice_position db poll choice_name =
    (let titles = map lo_title (poll_options db (sp_id poll)) in
     if choice_name \<in> set titles
     then opt_filter (\<lambda>p. p < 2 ^ 32) (Some (length (takeWhile (\<lambda>t. t \<noteq> choice_name) titles)))
     else None)"

definition incoming_poll_vote_deletion_target_for_choice_name ::
    "poll_db \<Rightarrow> local_poll_row \<Rightarrow> string \<Rightarrow> string \<Rightarrow> deletion_target option" where
  "incoming_poll_vote_deletion_target_for_choice_name db poll account_id choice_name =
    Option.bind (incoming_poll_vote_choice_position db poll choice_name) (\<lambda>position.
    map_option (\<lambda>vote_id. \<lparr>dt_poll_id = sp_id poll, dt_option_position = int position,
        dt_filter = VoteId vote_id\<rparr>)
      (find_status_poll_vote_id_by_position db (sp_id poll) account_id
        (sint (word_of_nat position :: i32))))"

definition resolve_incoming_poll_vote_deletion_target ::
    "poll_db \<Rightarrow> local_poll_row \<Rightarrow> string \<Rightarrow> string option \<Rightarrow> string option \<Rightarrow> deletion_target option" where
  "resolve_incoming_poll_vote_deletion_target db poll account_id activity_uri choice_name =
    (case activity_uri of
       Some uri \<Rightarrow>
         map_option (\<lambda>v. \<lparr>dt_poll_id = lv_poll_id v, dt_option_position = lv_option_position v,
             dt_filter = ActivityUri uri\<rparr>)
           (find_status_poll_vote_for_remote_actor_by_activity_uri db account_id uri)
     | None \<Rightarrow>
         Option.bind choice_name (incoming_poll_vote_deletion_target_for_choice_name db poll account_id))"

definition delete_incoming_poll_vote_target :: "string \<Rightarrow> deletion_target \<Rightarrow> poll_db \<Rightarrow> poll_db" where
  "delete_incoming_poll_vote_target account_id target =
    (case dt_filter target of
       ActivityUri uri \<Rightarrow> delete_incoming_poll_vote_by_activity_uri (dt_poll_id target) account_id uri
     | VoteId vote_id \<Rightarrow> delete_incoming_poll_vote_by_id vote_id)"

definition delete_incoming_poll_vote ::
    "local_poll_row \<Rightarrow> string \<Rightarrow> string option \<Rightarrow> string option \<Rightarrow> poll_db \<Rightarrow> bool \<times> poll_db" where
  "delete_incoming_poll_vote poll account_id activity_uri choice_name db =
    (case resolve_incoming_poll_vote_deletion_target db poll account_id activity_uri choice_name of
       None \<Rightarrow> (False, db)
     | Some target \<Rightarrow>
         (True, decrement_poll_option_vote_count (dt_poll_id target) (dt_option_position target)
           (delete_incoming_poll_vote_target account_id target db)))"

section \<open>The answer to a client\<close>

record poll_option_response =
  pr_title :: string
  pr_option_votes :: "int option"

record poll_response =
  pr_id :: string
  pr_expired :: bool
  pr_multiple :: bool
  pr_votes_count :: int
  pr_voters_count :: "nat option"
  pr_voted :: "bool option"
  pr_own_votes :: "int list option"
  pr_options :: "poll_option_response list"

definition reveal_totals :: "bool \<Rightarrow> local_poll_row \<Rightarrow> bool" where
  "reveal_totals expired poll \<longleftrightarrow> expired \<or> sp_hide_totals poll = 0"

text \<open>
  \<open>expired\<close> is the comparison of the end of the poll with the current time, which the caller makes
  once for both uses. The end as a text (see \<open>Timestamps\<close>) and the empty list of emojis are left out.
\<close>

definition mastodon_poll_response_from_rows ::
    "bool \<Rightarrow> local_poll_row \<Rightarrow> local_option_row list \<Rightarrow> int list option \<Rightarrow> nat option \<Rightarrow> poll_response option" where
  "mastodon_poll_response_from_rows expired poll options own_votes multiple_voters_count =
    (if options = [] then None
     else let reveal = reveal_totals expired poll in
       Some \<lparr>pr_id = sp_id poll, pr_expired = expired, pr_multiple = (sp_multiple poll \<noteq> 0),
         pr_votes_count = (if reveal then sum_list (map (\<lambda>o'. max (lo_votes_count o') 0) options) else 0),
         pr_voters_count = (if sp_multiple poll \<noteq> 0 \<and> reveal then Some (unwrap_or multiple_voters_count 0)
           else None),
         pr_voted = map_option (\<lambda>votes. votes \<noteq> []) own_votes, pr_own_votes = own_votes,
         pr_options = map (\<lambda>o'. \<lparr>pr_title = lo_title o',
           pr_option_votes = (if reveal then Some (max (lo_votes_count o') 0) else None)\<rparr>) options\<rparr>)"

definition build_mastodon_poll_response ::
    "(string \<Rightarrow> bool option) \<Rightarrow> poll_db \<Rightarrow> local_poll_row \<Rightarrow> string option \<Rightarrow> poll_response option" where
  "build_mastodon_poll_response in_past db poll viewer =
    (let expired = unwrap_or (in_past (sp_expires_at poll)) False in
     mastodon_poll_response_from_rows expired poll (poll_options db (sp_id poll))
       (map_option (list_poll_vote_positions_for_account db (sp_id poll)) viewer)
       (if sp_multiple poll \<noteq> 0 \<and> reveal_totals expired poll
        then Some (count_poll_voters db (sp_id poll)) else None))"

section \<open>Sequences of votes\<close>

text \<open>Votes and their withdrawal, by local accounts and by actors of other servers.\<close>

datatype poll_event =
    Local_Vote "u32 \<Rightarrow> string" local_poll_row string "u32 list"
  | Incoming_Vote string local_poll_row string u32 "string option"
  | Incoming_Undo local_poll_row string "string option" "string option"

fun poll_apply :: "poll_event \<Rightarrow> poll_db \<Rightarrow> poll_db" where
  "poll_apply (Local_Vote fresh poll account choices) db = snd (apply_poll_vote fresh poll account choices db)"
| "poll_apply (Incoming_Vote vote_id poll actor choice uri) db =
    snd (apply_incoming_poll_vote vote_id poll actor choice uri db)"
| "poll_apply (Incoming_Undo poll actor uri choice_name) db =
    snd (delete_incoming_poll_vote poll actor uri choice_name db)"

text \<open>A poll is one of the table, and the address of an actor is no identifier of an account.\<close>

fun poll_event_ok :: "poll_db \<Rightarrow> poll_event \<Rightarrow> bool" where
  "poll_event_ok db (Local_Vote fresh poll account choices) \<longleftrightarrow> poll \<in> set (pd_polls db)"
| "poll_event_ok db (Incoming_Vote vote_id poll actor choice uri) \<longleftrightarrow>
    poll \<in> set (pd_polls db) \<and> actor \<notin> set (pd_accounts db)"
| "poll_event_ok db (Incoming_Undo poll actor uri choice_name) \<longleftrightarrow> actor \<notin> set (pd_accounts db)"

definition vote_count :: "poll_db \<Rightarrow> string \<Rightarrow> int \<Rightarrow> nat" where
  "vote_count db poll_id position =
    length (filter (\<lambda>v. lv_poll_id v = poll_id \<and> lv_option_position v = position) (pd_votes db))"

definition counts_ok :: "poll_db \<Rightarrow> bool" where
  "counts_ok db \<longleftrightarrow> (\<forall>o' \<in> set (pd_options db).
    lo_votes_count o' = int (vote_count db (lo_poll_id o') (lo_position o')))"

definition votes_known :: "poll_db \<Rightarrow> bool" where
  "votes_known db \<longleftrightarrow> (\<forall>v \<in> set (pd_votes db). vote_trigger_error db v = None)"

definition single_choice_ok :: "poll_db \<Rightarrow> bool" where
  "single_choice_ok db \<longleftrightarrow> (\<forall>p \<in> set (pd_polls db). sp_multiple p = 0 \<longrightarrow>
    (\<forall>a. length (account_votes db (sp_id p) a) \<le> 1))"

definition positions_ok :: "poll_db \<Rightarrow> bool" where
  "positions_ok db \<longleftrightarrow> (\<forall>p \<in> set (pd_polls db).
    map lo_position (poll_options db (sp_id p)) = map int [0..<length (poll_options db (sp_id p))] \<and>
    length (poll_options db (sp_id p)) \<le> 2 ^ 31)"

definition poll_db_ok :: "poll_db \<Rightarrow> bool" where
  "poll_db_ok db \<longleftrightarrow> counts_ok db \<and> votes_known db \<and> single_choice_ok db \<and> positions_ok db \<and>
    distinct (map sp_id (pd_polls db))"

subsection \<open>Counts follow votes\<close>

lemma insert_vote_Inr:
  assumes "insert_vote False v db = (Inr (), db')"
  shows "db' = db\<lparr>pd_votes := pd_votes db @ [v]\<rparr>" "vote_trigger_error db v = None"
    "\<forall>w \<in> set (pd_votes db). \<not> vote_clashes v w"
  using assms by (auto simp: insert_vote_def list_ex_iff split: option.splits if_splits)

lemma insert_vote_Inl: "insert_vote f v db = (Inl e, db') \<Longrightarrow> db' = db"
  by (auto simp: insert_vote_def split: option.splits if_splits)

lemma update_option_fields [simp]:
  "pd_accounts (update_option p c f db) = pd_accounts db" "pd_polls (update_option p c f db) = pd_polls db"
  "pd_votes (update_option p c f db) = pd_votes db"
  by (simp_all add: update_option_def)

lemma update_option_positions [simp]:
  "map lo_position (poll_options (update_option p c f db) q) = map lo_position (poll_options db q)"
  "length (poll_options (update_option p c f db) q) = length (poll_options db q)"
proof -
  let ?g = "\<lambda>o'. if lo_poll_id o' = p \<and> lo_position o' = c
      then o'\<lparr>lo_votes_count := f (lo_votes_count o')\<rparr> else o'"
  have filtered: "filter (\<lambda>o'. lo_poll_id o' = q) (map ?g xs) = map ?g (filter (\<lambda>o'. lo_poll_id o' = q) xs)" for xs
    by (induction xs) auto
  have sorted: "sort_key lo_position (map ?g xs) = map ?g (sort_key lo_position xs)" for xs
  proof -
    have "sort_key lo_position (map ?g xs) = map ?g (sort_key (\<lambda>x. lo_position (?g x)) xs)"
      by (rule sort_key_of_map)
    also have "(\<lambda>x. lo_position (?g x)) = lo_position" by (simp add: fun_eq_iff)
    finally show ?thesis .
  qed
  have "pd_options (update_option p c f db) = map ?g (pd_options db)" by (simp add: update_option_def)
  then have eq: "poll_options (update_option p c f db) q = map ?g (poll_options db q)"
    by (simp only: poll_options_def filtered sorted)
  show "map lo_position (poll_options (update_option p c f db) q) = map lo_position (poll_options db q)"
    "length (poll_options (update_option p c f db) q) = length (poll_options db q)"
    by (simp_all add: eq)
qed

lemma option_there:
  "list_ex (\<lambda>o'. lo_poll_id o' = p \<and> lo_position o' = c) xs \<longleftrightarrow>
    (p, c) \<in> set (map (\<lambda>o'. (lo_poll_id o', lo_position o')) xs)"
  by (auto simp: list_ex_iff image_iff)

lemma update_option_keys [simp]:
  "map (\<lambda>o'. (lo_poll_id o', lo_position o')) (pd_options (update_option p c f db)) =
    map (\<lambda>o'. (lo_poll_id o', lo_position o')) (pd_options db)"
  by (simp add: update_option_def)

lemma update_option_trigger [simp]:
  "vote_trigger_error (update_option p c f db) v = vote_trigger_error db v"
  unfolding vote_trigger_error_def option_there by (simp del: set_map)

lemma counted_vote:
  assumes ok: "counts_ok db"
  shows "counts_ok (increment_poll_option_vote_count (lv_poll_id v) (lv_option_position v)
    (db\<lparr>pd_votes := pd_votes db @ [v]\<rparr>))"
  using ok
  by (auto simp: counts_ok_def increment_poll_option_vote_count_def update_option_def vote_count_def)

definition same_polls :: "poll_db \<Rightarrow> poll_db \<Rightarrow> bool" where
  "same_polls db db' \<longleftrightarrow> pd_accounts db' = pd_accounts db \<and> pd_polls db' = pd_polls db \<and>
    (\<forall>q. map lo_position (poll_options db' q) = map lo_position (poll_options db q)) \<and>
    (\<forall>v. vote_trigger_error db' v = vote_trigger_error db v)"

lemma same_polls_refl [simp]: "same_polls db db" by (simp add: same_polls_def)

lemma same_polls_trans: "same_polls a b \<Longrightarrow> same_polls b c \<Longrightarrow> same_polls a c"
  by (simp add: same_polls_def)

lemma with_vote_fields [simp]:
  "vote_trigger_error (db\<lparr>pd_votes := vs\<rparr>) v = vote_trigger_error db v"
  "poll_options (db\<lparr>pd_votes := vs\<rparr>) q = poll_options db q"
  by (simp_all add: vote_trigger_error_def poll_options_def)

lemma inserted_votes:
  assumes "insert_account_poll_votes fresh poll a cs db = (r, db')" "counts_ok db" "votes_known db"
  shows "counts_ok db' \<and> votes_known db' \<and> same_polls db db' \<and>
    (\<exists>new. pd_votes db' = pd_votes db @ new \<and> (\<forall>v \<in> set new. lv_poll_id v = poll \<and> lv_account_id v = a) \<and>
      length new \<le> length cs \<and>
      (r = Inr () \<longrightarrow> map lv_option_position new = map (\<lambda>c. sint (ucast c :: i32)) cs))"
  using assms
proof (induction cs arbitrary: db)
  case (Cons c cs)
  let ?v = "\<lparr>lv_id = fresh c, lv_poll_id = poll, lv_account_id = a,
     lv_option_position = sint (ucast c :: i32), lv_activity_uri = None\<rparr>"
  obtain r1 db1 where step: "insert_vote False ?v db = (r1, db1)" by force
  show ?case
  proof (cases r1)
    case (Inl e)
    then have "db' = db" "r = Inl e"
      using Cons.prems(1) step insert_vote_Inl by (auto simp: insert_account_poll_vote_row_def)
    then show ?thesis using Cons.prems by (auto intro: exI [of _ "[]"])
  next
    case (Inr u)
    note ins = insert_vote_Inr [OF step [unfolded Inr, simplified]]
    let ?db = "increment_poll_option_vote_count poll (sint (ucast c :: i32)) db1"
    have run: "insert_account_poll_votes fresh poll a cs ?db = (r, db')"
      using Cons.prems(1) step Inr by (simp add: insert_account_poll_vote_row_def)
    have votes: "pd_votes ?db = pd_votes db @ [?v]"
      by (simp add: ins(1) increment_poll_option_vote_count_def)
    have same: "same_polls db ?db"
      by (simp add: same_polls_def ins(1) increment_poll_option_vote_count_def)
    have "counts_ok ?db" using counted_vote [OF Cons.prems(2), of ?v] by (simp add: ins(1))
    moreover have "votes_known ?db"
      using Cons.prems(3) ins(2) same unfolding votes_known_def votes same_polls_def by auto
    ultimately have IH: "counts_ok db' \<and> votes_known db' \<and> same_polls ?db db' \<and>
        (\<exists>new. pd_votes db' = pd_votes ?db @ new \<and> (\<forall>v \<in> set new. lv_poll_id v = poll \<and> lv_account_id v = a) \<and>
          length new \<le> length cs \<and>
          (r = Inr () \<longrightarrow> map lv_option_position new = map (\<lambda>c. sint (ucast c :: i32)) cs))"
      by (rule Cons.IH [OF run])
    then obtain new where new: "pd_votes db' = pd_votes ?db @ new"
        "\<forall>v \<in> set new. lv_poll_id v = poll \<and> lv_account_id v = a" "length new \<le> length cs"
        "r = Inr () \<longrightarrow> map lv_option_position new = map (\<lambda>c. sint (ucast c :: i32)) cs"
      by blast
    have "\<exists>new. pd_votes db' = pd_votes db @ new \<and> (\<forall>v \<in> set new. lv_poll_id v = poll \<and> lv_account_id v = a) \<and>
        length new \<le> length (c # cs) \<and>
        (r = Inr () \<longrightarrow> map lv_option_position new = map (\<lambda>c. sint (ucast c :: i32)) (c # cs))"
      by (rule exI [of _ "?v # new"]) (use new votes in simp)
    with IH same same_polls_trans show ?thesis by blast
  qed
qed (auto intro: exI [of _ "[]"])

subsection \<open>Who has voted\<close>

lemma vote_position_range:
  assumes ok: "votes_known db" "positions_ok db" and p: "p \<in> set (pd_polls db)"
    and v: "v \<in> set (pd_votes db)" "lv_poll_id v = sp_id p"
  shows "0 \<le> lv_option_position v \<and> lv_option_position v < int (length (poll_options db (sp_id p))) \<and>
    lv_option_position v < 2 ^ 32"
proof -
  from ok(1) v(1) have "vote_trigger_error db v = None" by (simp add: votes_known_def)
  then obtain o' where "o' \<in> set (pd_options db)" "lo_poll_id o' = sp_id p" "lo_position o' = lv_option_position v"
    using v(2) by (auto simp: vote_trigger_error_def list_ex_iff split: if_splits)
  then have "lv_option_position v \<in> set (map lo_position (poll_options db (sp_id p)))"
    by (auto simp: poll_options_def image_iff)
  moreover have map: "map lo_position (poll_options db (sp_id p)) = map int [0..<length (poll_options db (sp_id p))]"
    and le: "length (poll_options db (sp_id p)) \<le> 2 ^ 31"
    using ok(2) p by (auto simp: positions_ok_def)
  ultimately have "lv_option_position v \<in> set (map int [0..<length (poll_options db (sp_id p))])" by (simp only: map)
  then show ?thesis using le by auto
qed

lemma positions_of_account:
  assumes ok: "votes_known db" "positions_ok db" and p: "p \<in> set (pd_polls db)"
  shows "list_poll_vote_positions_for_account db (sp_id p) a =
    sort (map lv_option_position (account_votes db (sp_id p) a))"
proof -
  have "\<forall>x \<in> set (sort (map lv_option_position (account_votes db (sp_id p) a))). 0 \<le> x \<and> x < 2 ^ 32"
    using vote_position_range [OF ok p] by (auto simp: account_votes_def)
  then show ?thesis by (simp only: list_poll_vote_positions_for_account_def filter_id_conv)
qed

lemma account_votes_of_vote:
  "account_votes (db\<lparr>pd_votes := pd_votes db @ new\<rparr>) p a = account_votes db p a @
    filter (\<lambda>v. lv_poll_id v = p \<and> lv_account_id v = a) new"
  by (simp add: account_votes_def)

lemma stranger_has_no_votes:
  assumes "votes_known db" "a \<notin> set (pd_accounts db)"
  shows "account_votes db p a = []"
    "find_status_poll_vote_for_remote_actor_by_activity_uri db a uri = None"
  using assms by (auto simp: account_votes_def votes_known_def vote_trigger_error_def filter_empty_conv
      find_status_poll_vote_for_remote_actor_by_activity_uri_def find_None_iff split: if_splits)

lemma incoming_vote_no_change:
  assumes "a \<notin> set (pd_accounts db)"
  shows "snd (apply_incoming_poll_vote i poll a c uri db) = db"
  using assms by (auto simp: apply_incoming_poll_vote_def Let_def insert_incoming_poll_vote_row_def
      insert_vote_def vote_trigger_error_def)

lemma incoming_undo_no_change:
  assumes "votes_known db" "a \<notin> set (pd_accounts db)"
  shows "delete_incoming_poll_vote poll a uri name db = (False, db)"
  using stranger_has_no_votes [OF assms]
  by (auto simp: delete_incoming_poll_vote_def resolve_incoming_poll_vote_deletion_target_def
      incoming_poll_vote_deletion_target_for_choice_name_def find_status_poll_vote_id_by_position_def
      split: option.splits bind_splits)

lemma accepted_vote:
  assumes ok: "votes_known db" "positions_ok db" and p: "p \<in> set (pd_polls db)"
    and check: "check_poll_vote p a cs db = Inr existing"
  shows "existing = []" "account_votes db (sp_id p) a = []" "sp_multiple p = 0 \<Longrightarrow> length cs = 1"
    "\<forall>c \<in> set cs. unat c < length (poll_options db (sp_id p))"
proof -
  show ex: "existing = []" and "sp_multiple p = 0 \<Longrightarrow> length cs = 1"
    "\<forall>c \<in> set cs. unat c < length (poll_options db (sp_id p))"
    using check by (auto simp: check_poll_vote_def validate_poll_vote_submission_def Let_def
        validate_local_poll_vote_choices_def and_then_def list_ex_iff not_le split: if_splits)
  have "existing = list_poll_vote_positions_for_account db (sp_id p) a"
    using check by (auto simp: check_poll_vote_def validate_poll_vote_submission_def Let_def
        validate_local_poll_vote_choices_def and_then_def split: if_splits)
  with ex positions_of_account [OF ok p, of a]
  have "sort (map lv_option_position (account_votes db (sp_id p) a)) = []" by simp
  then have "length (sort (map lv_option_position (account_votes db (sp_id p) a))) = 0" by (simp only: list.size)
  then show "account_votes db (sp_id p) a = []" by simp
qed

lemma nothing_removed:
  assumes "account_votes db p a = []"
  shows "remove_existing_account_poll_votes p a [] db = db"
proof -
  have "filter (\<lambda>v. \<not> (lv_poll_id v = p \<and> lv_account_id v = a)) (pd_votes db) = pd_votes db"
    using assms by (auto simp: account_votes_def filter_empty_conv intro: filter_True)
  then show ?thesis
    by (simp add: remove_existing_account_poll_votes_def delete_poll_votes_for_account_def delete_votes_def)
qed

lemma vote_outcome:
  assumes ok: "votes_known db" "positions_ok db" "counts_ok db" and p: "p \<in> set (pd_polls db)"
    and run: "apply_poll_vote fresh p a cs db = (r, db')"
  shows "db' = db \<and> (\<exists>e. r = Inl e) \<or>
    counts_ok db' \<and> votes_known db' \<and> same_polls db db' \<and> account_votes db (sp_id p) a = [] \<and>
    (\<exists>new. pd_votes db' = pd_votes db @ new \<and>
      (\<forall>v \<in> set new. lv_poll_id v = sp_id p \<and> lv_account_id v = a) \<and>
      (sp_multiple p = 0 \<longrightarrow> length new \<le> 1))"
proof (cases "check_poll_vote p a cs db")
  case (Inl e)
  with run show ?thesis by (auto simp: apply_poll_vote_def)
next
  case (Inr existing)
  note acc = accepted_vote [OF ok(1,2) p Inr]
  have "insert_account_poll_votes fresh (sp_id p) a cs db = (r, db')"
    using run Inr acc(1) nothing_removed [OF acc(2)]
    by (simp add: apply_poll_vote_def replace_account_poll_votes_def)
  from inserted_votes [OF this ok(3,1)] acc(2,3) show ?thesis by auto
qed

lemma same_polls_positions: "same_polls db db' \<Longrightarrow> positions_ok db \<Longrightarrow> positions_ok db'"
  by (simp add: same_polls_def positions_ok_def) (metis length_map)

lemma local_vote_keeps:
  assumes ok: "poll_db_ok db" and p: "p \<in> set (pd_polls db)"
  shows "poll_db_ok (snd (apply_poll_vote fresh p a cs db))"
    "pd_polls (snd (apply_poll_vote fresh p a cs db)) = pd_polls db \<and>
     pd_accounts (snd (apply_poll_vote fresh p a cs db)) = pd_accounts db"
proof -
  obtain r db' where run: "apply_poll_vote fresh p a cs db = (r, db')" by force
  have oks: "counts_ok db" "votes_known db" "single_choice_ok db" "positions_ok db" "distinct (map sp_id (pd_polls db))"
    using ok by (simp_all add: poll_db_ok_def)
  have "poll_db_ok db' \<and> pd_polls db' = pd_polls db \<and> pd_accounts db' = pd_accounts db"
  proof (cases "db' = db")
    case True
    with ok show ?thesis by simp
  next
    case False
    with vote_outcome [OF oks(2,4,1) p run] obtain new where
      kept: "counts_ok db'" "votes_known db'" "same_polls db db'" and none: "account_votes db (sp_id p) a = []"
      and new: "pd_votes db' = pd_votes db @ new" "\<forall>v \<in> set new. lv_poll_id v = sp_id p \<and> lv_account_id v = a"
        "sp_multiple p = 0 \<longrightarrow> length new \<le> 1" by blast
    have polls: "pd_polls db' = pd_polls db" "pd_accounts db' = pd_accounts db"
      using kept(3) by (simp_all add: same_polls_def)
    have "length (account_votes db' (sp_id q) b) \<le> 1" if q: "q \<in> set (pd_polls db)" "sp_multiple q = 0" for q b
    proof -
      have votes: "account_votes db' (sp_id q) b = account_votes db (sp_id q) b @
          filter (\<lambda>v. lv_poll_id v = sp_id q \<and> lv_account_id v = b) new"
        by (simp add: account_votes_def new(1))
      show ?thesis
      proof (cases "sp_id q = sp_id p \<and> b = a")
        case True
        then have "q = p" using oks(5) p q(1) by (auto simp: distinct_map dest: inj_onD)
        with True none new(3) q(2) votes show ?thesis
          by (metis append_Nil le_trans length_filter_le)
      next
        case False
        then have "filter (\<lambda>v. lv_poll_id v = sp_id q \<and> lv_account_id v = b) new = []"
          using new(2) by (auto simp: filter_empty_conv)
        with oks(3) q votes show ?thesis by (simp add: single_choice_ok_def)
      qed
    qed
    with kept same_polls_positions [OF kept(3) oks(4)] oks(5) polls show ?thesis
      by (simp add: poll_db_ok_def single_choice_ok_def)
  qed
  then show "poll_db_ok (snd (apply_poll_vote fresh p a cs db))"
    "pd_polls (snd (apply_poll_vote fresh p a cs db)) = pd_polls db \<and>
     pd_accounts (snd (apply_poll_vote fresh p a cs db)) = pd_accounts db" by (simp_all add: run)
qed

lemma poll_apply_keeps:
  assumes "poll_db_ok db" "poll_event_ok db e"
  shows "poll_db_ok (poll_apply e db) \<and> pd_polls (poll_apply e db) = pd_polls db \<and>
    pd_accounts (poll_apply e db) = pd_accounts db"
proof (cases e)
  case (Local_Vote fresh p a cs)
  with assms local_vote_keeps show ?thesis by simp
next
  case (Incoming_Vote i p a c uri)
  with assms incoming_vote_no_change show ?thesis by simp
next
  case (Incoming_Undo p a uri name)
  with assms incoming_undo_no_change show ?thesis by (simp add: poll_db_ok_def)
qed

lemma poll_event_ok_cong:
  "pd_polls db' = pd_polls db \<Longrightarrow> pd_accounts db' = pd_accounts db \<Longrightarrow> poll_event_ok db' e = poll_event_ok db e"
  by (cases e) simp_all

lemma poll_events_keep:
  assumes "poll_db_ok db" "\<forall>e \<in> set es. poll_event_ok db e"
  shows "poll_db_ok (fold poll_apply es db) \<and> pd_polls (fold poll_apply es db) = pd_polls db"
  using assms
proof (induction es arbitrary: db)
  case (Cons e es)
  then have step: "poll_db_ok (poll_apply e db)" "pd_polls (poll_apply e db) = pd_polls db"
    "pd_accounts (poll_apply e db) = pd_accounts db"
    using poll_apply_keeps [of db e] by simp_all
  have "\<forall>e' \<in> set es. poll_event_ok (poll_apply e db) e'"
    using Cons.prems(2) poll_event_ok_cong [OF step(2,3)] by simp
  from Cons.IH [OF step(1) this] step(2) show ?case by simp
qed simp

subsection \<open>When a vote is taken\<close>

lemma position_of_choice: "unat (c :: u32) < 2 ^ 31 \<Longrightarrow> sint (ucast c :: i32) = int (unat c)"
proof -
  assume "unat c < 2 ^ 31"
  then have "int (unat c) < int (2 ^ 31)" by (simp only: of_nat_less_iff)
  then have "uint c < 2 ^ 31" by simp
  moreover have "- (2 ^ 31) \<le> uint c" using uint_ge_0 [of c] by (rule order_trans [rotated]) simp
  ultimately have "signed_take_bit 31 (uint c) = uint c" by (intro signed_take_bit_int_eq_self)
  then show ?thesis by (simp add: sint_uint)
qed

lemma vote_inserts:
  assumes "\<forall>c \<in> set cs. vote_trigger_error db \<lparr>lv_id = fresh c, lv_poll_id = p, lv_account_id = a,
      lv_option_position = sint (ucast c :: i32), lv_activity_uri = None\<rparr> = None"
    and "distinct (map (\<lambda>c. sint (ucast c :: i32)) cs)" "inj_on fresh (set cs)"
    and "\<forall>c \<in> set cs. fresh c \<notin> set (map lv_id (pd_votes db))"
    and "\<forall>v \<in> set (account_votes db p a). \<forall>c \<in> set cs. lv_option_position v \<noteq> sint (ucast c :: i32)"
  shows "fst (insert_account_poll_votes fresh p a cs db) = Inr ()"
  using assms
proof (induction cs arbitrary: db)
  case (Cons c cs)
  let ?v = "\<lparr>lv_id = fresh c, lv_poll_id = p, lv_account_id = a,
     lv_option_position = sint (ucast c :: i32), lv_activity_uri = None\<rparr>"
  let ?db = "increment_poll_option_vote_count p (sint (ucast c :: i32)) (db\<lparr>pd_votes := pd_votes db @ [?v]\<rparr>)"
  have "\<forall>w \<in> set (pd_votes db). \<not> vote_clashes ?v w"
    using Cons.prems(4,5) by (auto simp: vote_clashes_def account_votes_def)
  then have "insert_account_poll_vote_row ?v db = (Inr (), db\<lparr>pd_votes := pd_votes db @ [?v]\<rparr>)"
    using Cons.prems(1) by (auto simp: insert_account_poll_vote_row_def insert_vote_def list_ex_iff)
  then have step: "insert_account_poll_votes fresh p a (c # cs) db = insert_account_poll_votes fresh p a cs ?db" by simp
  have votes: "pd_votes ?db = pd_votes db @ [?v]" by (simp add: increment_poll_option_vote_count_def)
  then have own: "account_votes ?db p a = account_votes db p a @ [?v]" by (simp add: account_votes_def)
  have trigger: "vote_trigger_error ?db w = vote_trigger_error db w" for w
    by (simp add: increment_poll_option_vote_count_def)
  have "fst (insert_account_poll_votes fresh p a cs ?db) = Inr ()"
  proof (rule Cons.IH)
    show "\<forall>c' \<in> set cs. vote_trigger_error ?db \<lparr>lv_id = fresh c', lv_poll_id = p, lv_account_id = a,
        lv_option_position = sint (ucast c' :: i32), lv_activity_uri = None\<rparr> = None"
      using Cons.prems(1) unfolding trigger by simp
    show "distinct (map (\<lambda>c. sint (ucast c :: i32)) cs)" "inj_on fresh (set cs)"
      using Cons.prems(2,3) by (auto simp: inj_on_def)
    show "\<forall>c' \<in> set cs. fresh c' \<notin> set (map lv_id (pd_votes ?db))"
      using Cons.prems(2,3,4) unfolding votes by (auto simp: inj_on_def)
    show "\<forall>v \<in> set (account_votes ?db p a). \<forall>c' \<in> set cs. lv_option_position v \<noteq> sint (ucast c' :: i32)"
      using Cons.prems(2,5) unfolding own by auto
  qed
  then show ?case by (simp only: step)
qed simp

lemma option_row_there:
  assumes "positions_ok db" "p \<in> set (pd_polls db)" "unat (c :: u32) < length (poll_options db (sp_id p))"
  shows "sint (ucast c :: i32) = int (unat c)"
    "\<exists>o' \<in> set (pd_options db). lo_poll_id o' = sp_id p \<and> lo_position o' = sint (ucast c :: i32)"
proof -
  have map: "map lo_position (poll_options db (sp_id p)) = map int [0..<length (poll_options db (sp_id p))]"
    and le: "length (poll_options db (sp_id p)) \<le> 2 ^ 31"
    using assms(1,2) by (auto simp: positions_ok_def)
  show pos: "sint (ucast c :: i32) = int (unat c)" using le assms(3) by (intro position_of_choice) simp
  have "int (unat c) \<in> set (map int [0..<length (poll_options db (sp_id p))])"
    using assms(3) by (auto simp del: of_nat_unat)
  then have "int (unat c) \<in> set (map lo_position (poll_options db (sp_id p)))" by (simp only: map)
  then show "\<exists>o' \<in> set (pd_options db). lo_poll_id o' = sp_id p \<and> lo_position o' = sint (ucast c :: i32)"
    by (auto simp: poll_options_def pos [simplified])
qed

lemma check_accepts:
  assumes ok: "votes_known db" "positions_ok db" and p: "p \<in> set (pd_polls db)"
  shows "is_ok (check_poll_vote p a cs db) \<longleftrightarrow>
    account_votes db (sp_id p) a = [] \<and> (\<forall>c \<in> set cs. unat c < length (poll_options db (sp_id p))) \<and>
    (sp_multiple p = 0 \<longrightarrow> length cs = 1)"
proof
  assume "is_ok (check_poll_vote p a cs db)"
  then obtain e where "check_poll_vote p a cs db = Inr e" by (auto simp: is_ok_def split: sum.splits)
  from accepted_vote [OF ok p this] show "account_votes db (sp_id p) a = [] \<and>
    (\<forall>c \<in> set cs. unat c < length (poll_options db (sp_id p))) \<and> (sp_multiple p = 0 \<longrightarrow> length cs = 1)" by simp
next
  assume "account_votes db (sp_id p) a = [] \<and>
    (\<forall>c \<in> set cs. unat c < length (poll_options db (sp_id p))) \<and> (sp_multiple p = 0 \<longrightarrow> length cs = 1)"
  then show "is_ok (check_poll_vote p a cs db)"
    by (auto simp: check_poll_vote_def Let_def validate_local_poll_vote_choices_def list_ex_iff
        validate_poll_vote_submission_def list_poll_vote_positions_for_account_def is_ok_def)
qed

lemma vote_succeeds:
  assumes ok: "votes_known db" "positions_ok db" and p: "p \<in> set (pd_polls db)" "a \<in> set (pd_accounts db)"
    and check: "check_poll_vote p a cs db = Inr e" and cs: "distinct cs"
    and fresh: "inj_on fresh (set cs)" "\<forall>c \<in> set cs. fresh c \<notin> set (map lv_id (pd_votes db))"
  shows "fst (insert_account_poll_votes fresh (sp_id p) a cs db) = Inr ()"
proof (rule vote_inserts)
  note acc = accepted_vote [OF ok p(1) check]
  have pos: "sint (ucast c :: i32) = int (unat c)" if "c \<in> set cs" for c
    using option_row_there(1) [OF ok(2) p(1)] acc(4) that by blast
  show "\<forall>c \<in> set cs. vote_trigger_error db \<lparr>lv_id = fresh c, lv_poll_id = sp_id p, lv_account_id = a,
      lv_option_position = sint (ucast c :: i32), lv_activity_uri = None\<rparr> = None"
    using option_row_there(2) [OF ok(2) p(1)] acc(4) p by (auto simp: vote_trigger_error_def list_ex_iff)
  have "map (\<lambda>c. sint (ucast c :: i32)) cs = map (\<lambda>c. int (unat c)) cs" by (rule map_cong [OF refl pos])
  then show "distinct (map (\<lambda>c. sint (ucast c :: i32)) cs)"
    using cs by (simp only: distinct_map) (simp add: inj_on_def word_uint_eq_iff)
  show "\<forall>v \<in> set (account_votes db (sp_id p) a). \<forall>c \<in> set cs. lv_option_position v \<noteq> sint (ucast c :: i32)"
    by (simp add: acc(2))
qed (use fresh in simp_all)

lemma vote_decided:
  assumes ok: "poll_db_ok db" and p: "p \<in> set (pd_polls db)" "a \<in> set (pd_accounts db)" and cs: "distinct cs"
    and fresh: "inj_on fresh (set cs)" "\<forall>c \<in> set cs. fresh c \<notin> set (map lv_id (pd_votes db))"
    and run: "apply_poll_vote fresh p a cs db = (r, db')"
  shows "is_ok r \<longleftrightarrow> account_votes db (sp_id p) a = [] \<and>
      (\<forall>c \<in> set cs. unat c < length (poll_options db (sp_id p))) \<and> (sp_multiple p = 0 \<longrightarrow> length cs = 1)"
    "\<not> is_ok r \<Longrightarrow> db' = db"
    "is_ok r \<Longrightarrow> map lv_option_position (account_votes db' (sp_id p) a) = map (int \<circ> unat) cs"
    "is_ok r \<Longrightarrow> filter (\<lambda>v. \<not> (lv_poll_id v = sp_id p \<and> lv_account_id v = a)) (pd_votes db') = pd_votes db"
proof -
  have oks: "counts_ok db" "votes_known db" "positions_ok db" using ok by (simp_all add: poll_db_ok_def)
  have all: "is_ok r = is_ok (check_poll_vote p a cs db) \<and> (is_ok r \<or> db' = db) \<and>
    (\<not> is_ok r \<or> map lv_option_position (account_votes db' (sp_id p) a) = map (int \<circ> unat) cs \<and>
      filter (\<lambda>v. \<not> (lv_poll_id v = sp_id p \<and> lv_account_id v = a)) (pd_votes db') = pd_votes db)"
  proof (cases "check_poll_vote p a cs db")
    case (Inl e)
    with run show ?thesis by (auto simp: apply_poll_vote_def)
  next
    case (Inr e)
    note acc = accepted_vote [OF oks(2,3) p(1) Inr]
    have ins: "insert_account_poll_votes fresh (sp_id p) a cs db = (r, db')"
      using run Inr acc(1) nothing_removed [OF acc(2)]
      by (simp add: apply_poll_vote_def replace_account_poll_votes_def)
    with vote_succeeds [OF oks(2,3) p Inr cs fresh] have r: "r = Inr ()" by simp
    from inserted_votes [OF ins oks(1,2)] r obtain new where new: "pd_votes db' = pd_votes db @ new"
      "\<forall>v \<in> set new. lv_poll_id v = sp_id p \<and> lv_account_id v = a"
      "map lv_option_position new = map (\<lambda>c. sint (ucast c :: i32)) cs" by blast
    have pos: "sint (ucast c :: i32) = (int \<circ> unat) c" if "c \<in> set cs" for c
      using option_row_there(1) [OF oks(3) p(1)] acc(4) that by (simp only: o_apply)
    have "map (\<lambda>c. sint (ucast c :: i32)) cs = map (int \<circ> unat) cs" by (rule map_cong [OF refl pos])
    with new(3) have "map lv_option_position new = map (int \<circ> unat) cs" by (rule trans)
    moreover have "account_votes db' (sp_id p) a = new"
      using acc(2) new(1,2) by (simp add: account_votes_def)
    moreover have "filter (\<lambda>v. \<not> (lv_poll_id v = sp_id p \<and> lv_account_id v = a)) (pd_votes db') = pd_votes db"
      using acc(2) new(1,2) by (auto simp: account_votes_def filter_empty_conv intro!: filter_True)
    ultimately show ?thesis using Inr r by simp
  qed
  then show "\<not> is_ok r \<Longrightarrow> db' = db"
    "is_ok r \<Longrightarrow> map lv_option_position (account_votes db' (sp_id p) a) = map (int \<circ> unat) cs"
    "is_ok r \<Longrightarrow> filter (\<lambda>v. \<not> (lv_poll_id v = sp_id p \<and> lv_account_id v = a)) (pd_votes db') = pd_votes db"
    by blast+
  from all have "is_ok r = is_ok (check_poll_vote p a cs db)" by blast
  then show "is_ok r \<longleftrightarrow> account_votes db (sp_id p) a = [] \<and>
      (\<forall>c \<in> set cs. unat c < length (poll_options db (sp_id p))) \<and> (sp_multiple p = 0 \<longrightarrow> length cs = 1)"
    by (simp only: check_accepts [OF oks(2,3) p(1)])
qed

subsection \<open>What is shown\<close>

lemma sum_of_indicators:
  "sum_list (map (\<lambda>k. if k = i then 1 else 0) [0..<n]) = (if i < n then 1 else 0 :: int)"
  by (induction n) (auto simp: less_Suc_eq)

lemma votes_by_position:
  assumes "\<forall>v \<in> set vs. 0 \<le> lv_option_position v \<and> lv_option_position v < int n"
  shows "sum_list (map (\<lambda>k. int (length (filter (\<lambda>v. lv_option_position v = int k) vs))) [0..<n]) = int (length vs)"
  using assms
proof (induction vs)
  case (Cons v vs)
  then obtain i where i: "lv_option_position v = int i" "i < n" by (metis list.set_intros(1) nonneg_int_cases of_nat_less_iff)
  have "(\<lambda>k. int (length (filter (\<lambda>w. lv_option_position w = int k) (v # vs)))) =
      (\<lambda>k. (if k = i then 1 else 0) + int (length (filter (\<lambda>w. lv_option_position w = int k) vs)))"
    using i(1) by auto
  then show ?case using Cons sum_of_indicators [of i n] i(2) by (simp only: sum_list_addf) simp
qed simp

lemma shown_total:
  assumes ok: "poll_db_ok db" and p: "p \<in> set (pd_polls db)"
  shows "sum_list (map (\<lambda>o'. max (lo_votes_count o') 0) (poll_options db (sp_id p))) =
    int (length (filter (\<lambda>v. lv_poll_id v = sp_id p) (pd_votes db)))"
proof -
  let ?n = "length (poll_options db (sp_id p))"
  let ?vs = "filter (\<lambda>v. lv_poll_id v = sp_id p) (pd_votes db)"
  have oks: "counts_ok db" "votes_known db" "positions_ok db" using ok by (simp_all add: poll_db_ok_def)
  have "max (lo_votes_count o') 0 = int (vote_count db (sp_id p) (lo_position o'))"
    if "o' \<in> set (poll_options db (sp_id p))" for o'
    using that oks(1) by (auto simp: poll_options_def counts_ok_def)
  then have "map (\<lambda>o'. max (lo_votes_count o') 0) (poll_options db (sp_id p)) =
      map (\<lambda>i. int (vote_count db (sp_id p) i)) (map lo_position (poll_options db (sp_id p)))" by simp
  also have "map lo_position (poll_options db (sp_id p)) = map int [0..<?n]"
    using oks(3) p by (auto simp: positions_ok_def)
  also have "map (\<lambda>i. int (vote_count db (sp_id p) i)) (map int [0..<?n]) =
      map (\<lambda>k. int (length (filter (\<lambda>v. lv_option_position v = int k) ?vs))) [0..<?n]"
    by (simp add: vote_count_def conj_commute)
  finally show ?thesis using votes_by_position [of ?vs ?n] vote_position_range [OF oks(2,3) p] by simp
qed

lemma response_totals:
  assumes "poll_db_ok db" "p \<in> set (pd_polls db)" "build_mastodon_poll_response in_past db p viewer = Some r"
  shows "pr_votes_count r = (if unwrap_or (in_past (sp_expires_at p)) False \<or> sp_hide_totals p = 0
    then int (length (filter (\<lambda>v. lv_poll_id v = sp_id p) (pd_votes db))) else 0)"
  using assms(3) shown_total [OF assms(1,2)]
  by (auto simp: build_mastodon_poll_response_def mastodon_poll_response_from_rows_def Let_def reveal_totals_def
      split: if_splits)

section \<open>Properties\<close>

definition sample_poll :: local_poll_row where
  "sample_poll = \<lparr>sp_id = ''p'', sp_status_id = ''s'', sp_multiple = 0,
    sp_expires_at = ''2027-01-01 00:00:00'', sp_hide_totals = 1\<rparr>"

definition sample_poll_db :: poll_db where
  "sample_poll_db = \<lparr>pd_accounts = [''a'', ''b''], pd_polls = [sample_poll],
    pd_options = [\<lparr>lo_poll_id = ''p'', lo_position = 0, lo_title = ''Yes'', lo_votes_count = 0\<rparr>,
      \<lparr>lo_poll_id = ''p'', lo_position = 1, lo_title = ''No'', lo_votes_count = 0\<rparr>],
    pd_votes = []\<rparr>"

definition sample_poll_events :: "poll_event list" where
  "sample_poll_events = [Local_Vote (\<lambda>_. ''v1'') sample_poll ''a'' [1],
    Incoming_Vote ''v2'' sample_poll ''https://remote.example/u'' 0 (Some ''https://remote.example/v''),
    Local_Vote (\<lambda>_. ''v3'') sample_poll ''a'' [0], Local_Vote (\<lambda>_. ''v4'') sample_poll ''b'' [0]]"

text \<open>
  C37: Whatever votes and withdrawals are handled one after the other, each option counts the votes
  for it, an account has one vote at most in a poll of a single choice, and the total a client is
  shown is the number of votes, or nothing while the totals are hidden.
\<close>

theorem poll_votes_counted:
  assumes "poll_db_ok db" "\<forall>e \<in> set es. poll_event_ok db e"
  shows "(\<forall>o' \<in> set (pd_options (fold poll_apply es db)).
      lo_votes_count o' = int (vote_count (fold poll_apply es db) (lo_poll_id o') (lo_position o'))) \<and>
    (\<forall>p \<in> set (pd_polls db). sp_multiple p = 0 \<longrightarrow>
      (\<forall>a. length (account_votes (fold poll_apply es db) (sp_id p) a) \<le> 1)) \<and>
    (\<forall>p \<in> set (pd_polls db). \<forall>in_past viewer r.
      build_mastodon_poll_response in_past (fold poll_apply es db) p viewer = Some r \<longrightarrow>
      pr_votes_count r = (if unwrap_or (in_past (sp_expires_at p)) False \<or> sp_hide_totals p = 0
        then int (length (filter (\<lambda>v. lv_poll_id v = sp_id p) (pd_votes (fold poll_apply es db)))) else 0))"
proof -
  let ?db = "fold poll_apply es db"
  have ok: "poll_db_ok ?db" and polls: "pd_polls ?db = pd_polls db" using poll_events_keep [OF assms] by simp_all
  from ok have "counts_ok ?db" "single_choice_ok ?db" by (simp_all add: poll_db_ok_def)
  then show ?thesis
    using response_totals [OF ok] by (auto simp only: counts_ok_def single_choice_ok_def polls)
qed

lemma sample_poll_db_ok: "poll_db_ok sample_poll_db"
  by (simp add: poll_db_ok_def counts_ok_def votes_known_def single_choice_ok_def positions_ok_def
      sample_poll_db_def sample_poll_def vote_count_def account_votes_def poll_options_def upt_rec)

lemma sample_poll_events_ok: "\<forall>e \<in> set sample_poll_events. poll_event_ok sample_poll_db e"
  by (simp add: sample_poll_events_def sample_poll_db_def)

theorem poll_votes_counted_witness:
  "map lv_id (pd_votes (fold poll_apply sample_poll_events sample_poll_db)) = [''v1'', ''v4''] \<and>
   list_all (\<lambda>o'. lo_votes_count o' = int (vote_count (fold poll_apply sample_poll_events sample_poll_db)
       (lo_poll_id o') (lo_position o')))
     (pd_options (fold poll_apply sample_poll_events sample_poll_db))"
proof -
  have "map lv_id (pd_votes (fold poll_apply sample_poll_events sample_poll_db)) = [''v1'', ''v4'']" by code_simp
  then show ?thesis using poll_votes_counted [OF sample_poll_db_ok sample_poll_events_ok] by (simp add: list_all_iff)
qed

text \<open>
  C38: A local vote with distinct choices is taken exactly if the account has none in the poll, every
  choice is an option, and there is one choice only where the poll allows no more. Then the choices are
  the votes of the account, in their order, and every other vote is as before; otherwise nothing changes.
\<close>

theorem local_vote_decided:
  assumes "poll_db_ok db" "p \<in> set (pd_polls db)" "a \<in> set (pd_accounts db)" "distinct cs"
    "inj_on fresh (set cs)" "\<forall>c \<in> set cs. fresh c \<notin> set (map lv_id (pd_votes db))"
    "apply_poll_vote fresh p a cs db = (r, db')"
  shows "(is_ok r \<longleftrightarrow> account_votes db (sp_id p) a = [] \<and>
      (\<forall>c \<in> set cs. unat c < length (poll_options db (sp_id p))) \<and> (sp_multiple p = 0 \<longrightarrow> length cs = 1)) \<and>
    (if is_ok r then
       map lv_option_position (account_votes db' (sp_id p) a) = map (int \<circ> unat) cs \<and>
       filter (\<lambda>v. \<not> (lv_poll_id v = sp_id p \<and> lv_account_id v = a)) (pd_votes db') = pd_votes db
     else db' = db)"
  using vote_decided [OF assms] by simp

theorem local_vote_decided_witness:
  "is_ok (fst (apply_poll_vote (\<lambda>_. ''v1'') sample_poll ''a'' [1] sample_poll_db)) \<and>
   map lv_option_position (account_votes (snd (apply_poll_vote (\<lambda>_. ''v1'') sample_poll ''a'' [1] sample_poll_db)) ''p'' ''a'') = [1]"
proof -
  have there: "sample_poll \<in> set (pd_polls sample_poll_db)" "''a'' \<in> set (pd_accounts sample_poll_db)"
    "distinct [1 :: u32]" "inj_on (\<lambda>_. ''v1'') (set [1 :: u32])"
    "\<forall>c \<in> set [1 :: u32]. ''v1'' \<notin> set (map lv_id (pd_votes sample_poll_db))"
    by (simp_all add: sample_poll_db_def)
  have ok: "is_ok (fst (apply_poll_vote (\<lambda>_. ''v1'') sample_poll ''a'' [1] sample_poll_db))" by code_simp
  have "sp_id sample_poll = ''p''" by (simp add: sample_poll_def)
  with ok local_vote_decided [OF sample_poll_db_ok there prod.collapse [symmetric]] show ?thesis by auto
qed

subsection \<open>Where votes go wrong\<close>

text \<open>
  The triggers of the table ask for a local account: every vote of an actor of another server is an
  error of the database, as soon as it gets past the checks.
\<close>

lemma remote_vote_always_fails:
  assumes "actor \<notin> set (pd_accounts db)" "unat choice < length (poll_options db (sp_id p))"
    "list_poll_vote_positions_for_account db (sp_id p) actor = []"
  shows "\<not> is_ok (fst (apply_incoming_poll_vote vote_id p actor choice uri db))"
  using assms by (auto simp: apply_incoming_poll_vote_def insert_incoming_poll_vote_row_def
      insert_vote_def vote_trigger_error_def)

text \<open>
  The checks and the writes are separate statements: two votes of one account that are checked before
  either is written both end well, and the option of the first counts a vote that is gone.
\<close>

lemma overlapping_votes_drift:
  "check_poll_vote sample_poll ''a'' [0] sample_poll_db = Inr [] \<and>
   check_poll_vote sample_poll ''a'' [1] sample_poll_db = Inr [] \<and>
   (let first = replace_account_poll_votes (\<lambda>_. ''v1'') ''p'' ''a'' [] [0] sample_poll_db;
        second = replace_account_poll_votes (\<lambda>_. ''v2'') ''p'' ''a'' [] [1] (snd first)
    in is_ok (fst first) \<and> is_ok (fst second) \<and> map lv_id (pd_votes (snd second)) = [''v2''] \<and>
       map lo_votes_count (pd_options (snd second)) = [1, 1])"
  by code_simp

text \<open>The totals a poll hides from clients are in the document other servers get.\<close>

lemma hidden_totals_federated:
  "map_option (map pr_option_votes \<circ> pr_options)
     (build_mastodon_poll_response (\<lambda>_. Some False) (poll_apply (Local_Vote (\<lambda>_. ''v1'') sample_poll ''a'' [1]) sample_poll_db)
       sample_poll None) = Some [None, None] \<and>
   poll_option_json \<lparr>po_title = t, po_votes_count = 1\<rparr> =
     jobject [(''type'', JString ''Note''), (''name'', JString t),
       (''replies'', jobject [(''type'', JString ''Collection''), (''totalItems'', JNumber (show_nat 1))])]"
proof -
  have "map_option (map pr_option_votes \<circ> pr_options)
     (build_mastodon_poll_response (\<lambda>_. Some False) (poll_apply (Local_Vote (\<lambda>_. ''v1'') sample_poll ''a'' [1]) sample_poll_db)
       sample_poll None) = Some [None, None]" by code_simp
  then show ?thesis by (simp add: poll_option_json_def)
qed

end
