(* ===== verification/Remote_Interactions.thy ===== *)
theory Remote_Interactions
  imports Remote_Store
begin

text \<open>
  Favourites and boosts that actors of other servers give to statuses of the instance
  (\<open>store/statuses/remote_mutations.rs\<close>, \<open>statuses/favourite_store.rs\<close>), with the counts that the
  triggers of the tables keep. Rows stand in the order of their creation.
\<close>

section \<open>Tables\<close>

record interaction_row =
  ir_actor :: string
  ir_status_id :: string
  ir_target_uri :: string
  ir_activity_uri :: "string option"

text \<open>\<open>it_counts\<close> is the column of \<open>status_counts\<close>.\<close>

record interaction_table =
  it_rows :: "interaction_row list"
  it_counts :: "string \<Rightarrow> int option"

definition interaction_key :: "interaction_row \<Rightarrow> string \<times> string" where
  "interaction_key r = (ir_actor r, ir_target_uri r)"

definition merge_interaction :: "interaction_row \<Rightarrow> interaction_row \<Rightarrow> interaction_row" where
  "merge_interaction x r = r\<lparr>ir_status_id := ir_status_id x, ir_activity_uri := ir_activity_uri x\<rparr>"

interpretation interactions: keyed_upsert interaction_key merge_interaction
  by unfold_locales (simp add: interaction_key_def merge_interaction_def)

definition count_up :: "string \<Rightarrow> (string \<Rightarrow> int option) \<Rightarrow> string \<Rightarrow> int option" where
  "count_up status_id counts =
    counts(status_id := Some (case counts status_id of None \<Rightarrow> 1 | Some n \<Rightarrow> n + 1))"

definition count_down :: "string \<Rightarrow> (string \<Rightarrow> int option) \<Rightarrow> string \<Rightarrow> int option" where
  "count_down status_id counts =
    counts(status_id := map_option (\<lambda>n. max (n - 1) 0) (counts status_id))"

definition upsert_interaction :: "interaction_row \<Rightarrow> interaction_table \<Rightarrow> interaction_table" where
  "upsert_interaction x t =
    t\<lparr>it_rows := upsert_by interaction_key merge_interaction x (it_rows t),
      it_counts := (case row_with interaction_key (interaction_key x) (it_rows t) of
          None \<Rightarrow> count_up (ir_status_id x) (it_counts t)
        | Some r \<Rightarrow> if ir_status_id x = ir_status_id r then it_counts t
            else count_up (ir_status_id x) (count_down (ir_status_id r) (it_counts t)))\<rparr>"

definition delete_interactions :: "(interaction_row \<Rightarrow> bool) \<Rightarrow> interaction_table \<Rightarrow> interaction_table" where
  "delete_interactions P t =
    t\<lparr>it_rows := filter (\<lambda>r. \<not> P r) (it_rows t),
      it_counts := fold (\<lambda>r. count_down (ir_status_id r)) (filter P (it_rows t)) (it_counts t)\<rparr>"

definition upsert_remote_favourite ::
    "string \<Rightarrow> string \<Rightarrow> string \<Rightarrow> string option \<Rightarrow> interaction_table \<Rightarrow> interaction_table" where
  "upsert_remote_favourite actor status_id target activity_uri =
    upsert_interaction \<lparr>ir_actor = actor, ir_status_id = status_id, ir_target_uri = target,
      ir_activity_uri = activity_uri\<rparr>"

definition upsert_remote_reblog ::
    "string \<Rightarrow> string \<Rightarrow> string \<Rightarrow> string option \<Rightarrow> interaction_table \<Rightarrow> interaction_table" where
  "upsert_remote_reblog actor status_id target activity_uri =
    upsert_interaction \<lparr>ir_actor = actor, ir_status_id = status_id, ir_target_uri = target,
      ir_activity_uri = activity_uri\<rparr>"

definition undone_by :: "string \<Rightarrow> string \<Rightarrow> string option \<Rightarrow> interaction_row \<Rightarrow> bool" where
  "undone_by actor target activity_uri r \<longleftrightarrow> ir_actor r = actor \<and>
    (case activity_uri of
       Some uri \<Rightarrow> ir_activity_uri r = Some uri
     | None \<Rightarrow> ir_target_uri r = target)"

definition delete_remote_favourite ::
    "string \<Rightarrow> string \<Rightarrow> string option \<Rightarrow> interaction_table \<Rightarrow> interaction_table" where
  "delete_remote_favourite actor target activity_uri =
    delete_interactions (undone_by actor target activity_uri)"

definition delete_remote_reblog ::
    "string \<Rightarrow> string \<Rightarrow> string option \<Rightarrow> interaction_table \<Rightarrow> interaction_table" where
  "delete_remote_reblog actor target activity_uri =
    delete_interactions (undone_by actor target activity_uri)"

definition list_remote_favourite_actor_uris_for_status ::
    "interaction_table \<Rightarrow> string \<Rightarrow> nat \<Rightarrow> string list" where
  "list_remote_favourite_actor_uris_for_status t status_id limit =
    map ir_actor (take limit (rev (filter (\<lambda>r. ir_status_id r = status_id) (it_rows t))))"

section \<open>Counts follow rows\<close>

definition shown_count :: "interaction_table \<Rightarrow> string \<Rightarrow> int" where
  "shown_count t status_id = unwrap_or (it_counts t status_id) 0"

definition rows_of_status :: "interaction_row list \<Rightarrow> string \<Rightarrow> nat" where
  "rows_of_status rows status_id = length (filter (\<lambda>r. ir_status_id r = status_id) rows)"

text \<open>\<open>base\<close> counts what local accounts gave, in tables of their own.\<close>

definition counts_kept :: "(string \<Rightarrow> nat) \<Rightarrow> interaction_table \<Rightarrow> bool" where
  "counts_kept base t \<longleftrightarrow> distinct (map interaction_key (it_rows t)) \<and>
    (\<forall>i. shown_count t i = int (base i + rows_of_status (it_rows t) i))"

lemma rows_of_status_simps [simp]:
  "rows_of_status [] i = 0"
  "rows_of_status (r # rs) i = (if ir_status_id r = i then 1 else 0) + rows_of_status rs i"
  "rows_of_status (xs @ ys) i = rows_of_status xs i + rows_of_status ys i"
  by (simp_all add: rows_of_status_def)

lemma rows_of_status_parts:
  "rows_of_status rs i = rows_of_status (filter P rs) i + rows_of_status (filter (\<lambda>r. \<not> P r) rs) i"
  by (induction rs) simp_all

lemma count_up_value: "unwrap_or (count_up i c j) 0 = unwrap_or (c j) 0 + (if j = i then 1 else 0)"
  by (simp add: count_up_def split: option.split)

lemma count_down_value:
  "1 \<le> unwrap_or (c i) 0 \<Longrightarrow> unwrap_or (count_down i c j) 0 = unwrap_or (c j) 0 - (if j = i then 1 else 0)"
  by (cases "c i") (auto simp: count_down_def)

lemma counts_down:
  assumes "\<forall>i. int (rows_of_status ds i) \<le> unwrap_or (c i) 0"
  shows "unwrap_or (fold (\<lambda>r. count_down (ir_status_id r)) ds c j) 0 = unwrap_or (c j) 0 - int (rows_of_status ds j)"
  using assms
proof (induction ds arbitrary: c)
  case (Cons r ds)
  have one: "1 \<le> unwrap_or (c (ir_status_id r)) 0"
    using Cons.prems [THEN spec, of "ir_status_id r"] by simp
  have "\<forall>i. int (rows_of_status ds i) \<le> unwrap_or (count_down (ir_status_id r) c i) 0"
  proof
    fix i
    show "int (rows_of_status ds i) \<le> unwrap_or (count_down (ir_status_id r) c i) 0"
      using Cons.prems [THEN spec, of i] count_down_value [of c "ir_status_id r" i, OF one] by (simp split: if_splits)
  qed
  from Cons.IH [OF this] count_down_value [of c "ir_status_id r" j, OF one] show ?case by simp
qed simp

lemma row_split:
  assumes "distinct (map interaction_key rows)" "row_with interaction_key k rows = Some r"
  obtains xs ys where "rows = xs @ r # ys" "interaction_key r = k"
    "\<forall>s \<in> set xs \<union> set ys. interaction_key s \<noteq> k"
proof -
  from assms(2) have r: "r \<in> set rows" "interaction_key r = k"
    by (auto simp: row_with_def find_Some_iff)
  then obtain xs ys where rows: "rows = xs @ r # ys" by (meson split_list)
  have "\<forall>s \<in> set xs \<union> set ys. interaction_key s \<noteq> k"
  proof -
    have "k \<notin> set (map interaction_key xs)" "k \<notin> set (map interaction_key ys)"
      using assms(1) by (auto simp: rows r(2) [symmetric])
    then show ?thesis by (auto simp: image_iff)
  qed
  with rows r(2) show thesis by (rule that)
qed

lemma upsert_counts:
  assumes "counts_kept base t"
  shows "counts_kept base (upsert_interaction x t)"
proof (cases "row_with interaction_key (interaction_key x) (it_rows t)")
  case None
  then have new: "upsert_by interaction_key merge_interaction x (it_rows t) = it_rows t @ [x]"
    by (auto simp: row_with_def upsert_by_def find_None_iff list_ex_iff)
  have shown: "shown_count (upsert_interaction x t) i = shown_count t i + (if i = ir_status_id x then 1 else 0)" for i
    using None by (simp add: shown_count_def upsert_interaction_def count_up_value)
  show ?thesis using assms interactions.upsert_distinct [of "it_rows t" x]
    by (simp add: counts_kept_def shown) (simp add: upsert_interaction_def new)
next
  case (Some r)
  from assms have dist: "distinct (map interaction_key (it_rows t))"
    and counts: "\<And>i. unwrap_or (it_counts t i) 0 = int (base i + rows_of_status (it_rows t) i)"
    by (simp_all add: counts_kept_def shown_count_def)
  obtain xs ys where rows: "it_rows t = xs @ r # ys" and key: "interaction_key r = interaction_key x"
    and others: "\<forall>s \<in> set xs \<union> set ys. interaction_key s \<noteq> interaction_key x"
    by (rule row_split [OF dist Some])
  have same: "map (\<lambda>s. if interaction_key s = interaction_key x then merge_interaction x s else s) zs = zs"
    if "\<forall>s \<in> set zs. interaction_key s \<noteq> interaction_key x" for zs
    using that by (induction zs) simp_all
  have "list_ex (\<lambda>s. interaction_key s = interaction_key x) (it_rows t)" using key by (simp add: rows)
  then have new: "upsert_by interaction_key merge_interaction x (it_rows t) = xs @ merge_interaction x r # ys"
    using others key same [of xs] same [of ys] by (simp add: upsert_by_def rows)
  then have after: "it_rows (upsert_interaction x t) = xs @ merge_interaction x r # ys"
    by (simp add: upsert_interaction_def)
  have one: "1 \<le> unwrap_or (it_counts t (ir_status_id r)) 0" by (simp add: counts rows)
  have moved: "unwrap_or (it_counts (upsert_interaction x t) i) 0 =
      unwrap_or (it_counts t i) 0 + (if i = ir_status_id x then 1 else 0) - (if i = ir_status_id r then 1 else 0)" for i
    using Some count_down_value [of "it_counts t" "ir_status_id r" i, OF one]
    by (auto simp: upsert_interaction_def count_up_value)
  have left: "rows_of_status (it_rows (upsert_interaction x t)) i + (if i = ir_status_id r then 1 else 0) =
      rows_of_status (it_rows t) i + (if i = ir_status_id x then 1 else 0)" for i
    by (simp add: after rows merge_interaction_def)
  have "unwrap_or (it_counts (upsert_interaction x t) i) 0 =
      int (base i + rows_of_status (it_rows (upsert_interaction x t)) i)" for i
    using moved [of i] left [of i] counts [of i]
    by (cases "i = ir_status_id x"; cases "i = ir_status_id r") simp_all
  then show ?thesis using interactions.upsert_distinct [OF dist, of x]
    by (simp add: counts_kept_def shown_count_def upsert_interaction_def)
qed

lemma delete_counts:
  assumes "counts_kept base t"
  shows "counts_kept base (delete_interactions P t)"
proof -
  from assms have dist: "distinct (map interaction_key (it_rows t))"
    and counts: "\<And>i. unwrap_or (it_counts t i) 0 = int (base i + rows_of_status (it_rows t) i)"
    by (simp_all add: counts_kept_def shown_count_def)
  have parts: "rows_of_status (it_rows t) i =
      rows_of_status (filter P (it_rows t)) i + rows_of_status (filter (\<lambda>r. \<not> P r) (it_rows t)) i" for i
    by (rule rows_of_status_parts)
  have "\<forall>i. int (rows_of_status (filter P (it_rows t)) i) \<le> unwrap_or (it_counts t i) 0"
    by (simp add: counts parts)
  from counts_down [OF this] have "shown_count (delete_interactions P t) i =
      int (base i + rows_of_status (filter (\<lambda>r. \<not> P r) (it_rows t)) i)" for i
    by (simp add: shown_count_def delete_interactions_def counts parts)
  then show ?thesis using dist by (simp add: counts_kept_def delete_interactions_def distinct_map_filter)
qed

end
