(* ===== verification/Inbox_Statuses.thy ===== *)
theory Inbox_Statuses
  imports Remote_Resolve Poll_Votes Remote_Interactions Inbox_Follows
begin

text \<open>
  What activities of other servers do to statuses (\<open>inbox/status_handlers.rs\<close>,
  \<open>inbox/status_interactions.rs\<close>, \<open>inbox/poll_interactions.rs\<close>, \<open>inbox/actor_updates.rs\<close>,
  \<open>inbox/interactions.rs\<close>), which accounts of the instance they are for
  (\<open>inbox/target_resolution.rs\<close>), and the handlers of \<open>Inbox_Activities\<close> put together. What is
  streamed to clients, softly, is no part of the state.
\<close>

section \<open>State\<close>

record inbox_state =
  ix_resolve :: resolve_state
  ix_follows :: follow_db
  ix_polls :: poll_db
  ix_favourites :: interaction_table
  ix_reblogs :: interaction_table

text \<open>
  \<open>ie_boosts\<close> are the accounts that boosted an address, \<open>ie_fresh\<close> gives an identifier for each account.
  The tables of featured collections are looked at by \<open>ie_feature_account\<close> and
  \<open>ie_collection_account\<close>, and changed with the answers of \<open>ie_store_collection\<close>,
  \<open>ie_revoke_feature\<close>, \<open>ie_feature_response\<close>, \<open>ie_collection_add\<close> and \<open>ie_collection_remove\<close>.
\<close>

record 't inbox_env =
  ie_resolve :: "'t resolve_env"
  ie_follow :: follow_env
  ie_emission :: "'t emission_env"
  ie_conversation :: "string \<Rightarrow> string option"
  ie_participants :: "string \<Rightarrow> string list"
  ie_boosts :: "(string \<times> string) list"
  ie_in_past :: "string \<Rightarrow> bool option"
  ie_fresh :: "string \<Rightarrow> string"
  ie_feature_account :: "string \<Rightarrow> string option"
  ie_collection_account :: "string \<Rightarrow> string option"
  ie_store_collection :: "json \<Rightarrow> string + unit"
  ie_revoke_feature :: "string \<Rightarrow> string \<Rightarrow> string + bool"
  ie_feature_response :: "json \<Rightarrow> string + bool"
  ie_collection_add :: "json \<Rightarrow> string + unit"
  ie_collection_remove :: "json \<Rightarrow> string + unit"

definition inbox_config :: "'t inbox_env \<Rightarrow> app_config" where
  "inbox_config env = sv_config (re_store (ie_resolve env))"

definition inbox_db :: "'t inbox_env \<Rightarrow> emission_db" where
  "inbox_db env = sv_local (re_store (ie_resolve env))"

definition inbox_status_by_uri :: "'t inbox_env \<Rightarrow> string \<Rightarrow> local_status option" where
  "inbox_status_by_uri env = local_status_by_uri (re_store (ie_resolve env))"

definition inbox_followers :: "inbox_state \<Rightarrow> follower_row list" where
  "inbox_followers st = map follower_row.truncate (fd_followers (ix_follows st))"

text \<open>The environment of \<open>Remote_Resolve\<close> with the followers of the moment.\<close>

definition resolve_env_at :: "'t inbox_env \<Rightarrow> inbox_state \<Rightarrow> 't resolve_env" where
  "resolve_env_at env st =
    (ie_resolve env)\<lparr>re_store := (re_store (ie_resolve env))\<lparr>sv_followers := inbox_followers st\<rparr>\<rparr>"

definition is_object_member :: "json \<Rightarrow> json option" where
  "is_object_member activity = opt_filter is_object (jget activity ''object'')"

definition on_resolve ::
    "(resolve_state \<Rightarrow> (string + 'a) \<times> resolve_state) \<Rightarrow> inbox_state \<Rightarrow> (string + 'a) \<times> inbox_state" where
  "on_resolve f st = (case f (ix_resolve st) of (r, rz) \<Rightarrow> (r, st\<lparr>ix_resolve := rz\<rparr>))"

definition on_follows :: "follow_db handler \<Rightarrow> inbox_state handler" where
  "on_follows f st = (case f (ix_follows st) of (r, db) \<Rightarrow> (r, st\<lparr>ix_follows := db\<rparr>))"

definition know_actor :: "remote_actor_profile \<Rightarrow> inbox_state \<Rightarrow> inbox_state" where
  "know_actor actor st =
    st\<lparr>ix_resolve := (ix_resolve st)\<lparr>rz_actors := upsert_remote_actor actor (rz_actors (ix_resolve st))\<rparr>\<rparr>"

section \<open>Who may interact with a status\<close>

definition is_remote_actor_following_local_account :: "follow_db \<Rightarrow> string \<Rightarrow> string \<Rightarrow> bool" where
  "is_remote_actor_following_local_account db account_id actor_uri \<longleftrightarrow>
    list_ex (\<lambda>f. fw_account_id f = account_id \<and> fw_actor_uri f = actor_uri) (fd_followers db)"

definition remote_actor_may_interact_with_local_status ::
    "'t inbox_env \<Rightarrow> follow_db \<Rightarrow> local_status \<Rightarrow> string \<Rightarrow> bool" where
  "remote_actor_may_interact_with_local_status env db status actor_uri \<longleftrightarrow>
    \<not> is_blocking_actor (re_store (ie_resolve env)) (ls_account_id status) actor_uri \<and>
    (case ls_visibility status of
       visibility.Public \<Rightarrow> True
     | visibility.Unlisted \<Rightarrow> True
     | FollowersOnly \<Rightarrow> is_remote_actor_following_local_account db (ls_account_id status) actor_uri
     | visibility.Direct \<Rightarrow>
       (case ie_conversation env (ls_id status) of
          None \<Rightarrow> False
        | Some conversation_id \<Rightarrow>
            list_ex (\<lambda>p. p = actor_uri \<or> eq_ignore_ascii_case p actor_uri)
              (ie_participants env conversation_id)))"

section \<open>Votes\<close>

definition poll_of_status :: "poll_db \<Rightarrow> string \<Rightarrow> local_poll_row option" where
  "poll_of_status db status_id = find (\<lambda>p. sp_status_id p = status_id) (pd_polls db)"

text \<open>The polls as the documents of statuses show them.\<close>

definition shown_polls :: "poll_db \<Rightarrow> emission_db \<Rightarrow> emission_db" where
  "shown_polls polls db =
    db\<lparr>em_polls := map status_poll_row.truncate (pd_polls polls),
       em_poll_options := \<lambda>i. map (\<lambda>o'. \<lparr>po_title = lo_title o', po_votes_count = lo_votes_count o'\<rparr>)
         (poll_options polls i),
       em_poll_voters := count_poll_voters polls\<rparr>"

definition inbox_recipients :: "'t inbox_env \<Rightarrow> inbox_state \<Rightarrow> recipients_db" where
  "inbox_recipients env st =
    \<lparr>rd_emission = shown_polls (ix_polls st) (inbox_db env), rd_followers = inbox_followers st,
     rd_domain_blocks = fe_domain_blocks (ie_follow env)\<rparr>"

text \<open>A failure to queue the update is ignored.\<close>

definition queue_status_update ::
    "('t::linorder) inbox_env \<Rightarrow> local_account \<Rightarrow> local_status \<Rightarrow> inbox_state \<Rightarrow> inbox_state" where
  "queue_status_update env account status st =
    (case enqueue_status_update_activity (ie_emission env) (fe_queue (ie_follow env)) (inbox_recipients env st)
        account status (ie_fresh env (la_id account)) (fd_outbox (ix_follows st)) of
       None \<Rightarrow> st
     | Some rows \<Rightarrow> st\<lparr>ix_follows := (ix_follows st)\<lparr>fd_outbox := rows\<rparr>\<rparr>)"

definition handle_inbox_poll_vote ::
    "('t::linorder) inbox_env \<Rightarrow> json \<Rightarrow> remote_actor_profile \<Rightarrow> local_account \<Rightarrow> string option \<Rightarrow> inbox_state \<Rightarrow>
     (string + bool) \<times> inbox_state" where
  "handle_inbox_poll_vote env object actor account activity_uri st =
    (case (get_str object ''inReplyTo'', get_str object ''name'') of
       (Some in_reply_to, Some choice_name) \<Rightarrow>
       (case inbox_status_by_uri env in_reply_to of
          None \<Rightarrow> (Inr False, st)
        | Some status \<Rightarrow>
          if ls_account_id status \<noteq> la_id account then (Inr False, st)
          else if \<not> remote_actor_may_interact_with_local_status env (ix_follows st) status (rp_actor_uri actor)
          then (Inr False, st)
          else (case poll_of_status (ix_polls st) (ls_id status) of
              None \<Rightarrow> (Inr False, st)
            | Some poll \<Rightarrow>
              let titles = map lo_title (poll_options (ix_polls st) (sp_id poll)) in
              if unwrap_or (ie_in_past env (sp_expires_at poll)) False then (Inr True, st)
              else if trim choice_name \<notin> set titles then (Inr True, st)
              else let choice = length (takeWhile (\<lambda>t. t \<noteq> trim choice_name) titles) in
                (case apply_incoming_poll_vote (ie_fresh env (la_id account)) poll (rp_actor_uri actor)
                    (word_of_nat choice) activity_uri (ix_polls st) of
                   (Inl e, polls) \<Rightarrow> (Inl e, st\<lparr>ix_polls := polls\<rparr>)
                 | (Inr _, polls) \<Rightarrow>
                     (Inr True, queue_status_update env account status (st\<lparr>ix_polls := polls\<rparr>)))))
     | _ \<Rightarrow> (Inr False, st))"

definition poll_and_status :: "poll_db \<Rightarrow> local_status option \<Rightarrow> (local_poll_row \<times> local_status) option" where
  "poll_and_status polls status =
    Option.bind status (\<lambda>s. map_option (\<lambda>p. (p, s)) (poll_of_status polls (ls_id s)))"

text \<open>The vote that is undone, with its poll and status, as the joins of the lookups give them.\<close>

definition voted_status :: "'t inbox_env \<Rightarrow> poll_db \<Rightarrow> local_vote_row \<Rightarrow> local_status option" where
  "voted_status env polls vote =
    Option.bind (find (\<lambda>p. sp_id p = lv_poll_id vote) (pd_polls polls)) (\<lambda>p.
      find_status_by_id (inbox_db env) (sp_status_id p))"

definition vote_with_status ::
    "'t inbox_env \<Rightarrow> (local_vote_row \<Rightarrow> bool) \<Rightarrow> poll_db \<Rightarrow> local_vote_row option" where
  "vote_with_status env P polls =
    find (\<lambda>v. P v \<and> voted_status env polls v \<noteq> None) (pd_votes polls)"

definition undo_nested :: "json \<Rightarrow> string \<Rightarrow> string option" where
  "undo_nested undo_target key = Option.bind (is_object_member undo_target) (\<lambda>ob. get_str ob key)"

definition undone_vote ::
    "'t inbox_env \<Rightarrow> json \<Rightarrow> string \<Rightarrow> poll_db \<Rightarrow> (local_poll_row \<times> local_status) option" where
  "undone_vote env undo_target actor_uri polls =
    (case Option.bind (activity_object_id (Some undo_target)) (\<lambda>uri. vote_with_status env
         (\<lambda>v. lv_account_id v = actor_uri \<and> lv_activity_uri v = Some uri) polls) of
       Some v \<Rightarrow> poll_and_status polls (voted_status env polls v)
     | None \<Rightarrow> poll_and_status polls
         (Option.bind (undo_nested undo_target ''inReplyTo'') (inbox_status_by_uri env)))"

definition handle_inbox_poll_vote_undo ::
    "('t::linorder) inbox_env \<Rightarrow> json \<Rightarrow> remote_actor_profile \<Rightarrow> local_account \<Rightarrow> inbox_state \<Rightarrow>
     (string + bool) \<times> inbox_state" where
  "handle_inbox_poll_vote_undo env activity actor account st =
    (case jget activity ''object'' of
       None \<Rightarrow> (Inr False, st)
     | Some undo_target \<Rightarrow>
       (case undone_vote env undo_target (rp_actor_uri actor) (ix_polls st) of
          None \<Rightarrow> (Inr False, st)
        | Some (poll, status) \<Rightarrow>
          if ls_account_id status \<noteq> la_id account then (Inr False, st)
          else (case delete_incoming_poll_vote poll (rp_actor_uri actor) (activity_object_id (Some undo_target))
                (trimmed_option (undo_nested undo_target ''name'')) (ix_polls st) of
              (False, polls) \<Rightarrow> (Inr False, st\<lparr>ix_polls := polls\<rparr>)
            | (True, polls) \<Rightarrow>
                (Inr True, queue_status_update env account status (st\<lparr>ix_polls := polls\<rparr>)))))"

section \<open>Likes and boosts\<close>

definition handle_inbox_like ::
    "'t inbox_env \<Rightarrow> json \<Rightarrow> remote_actor_profile \<Rightarrow> local_account \<Rightarrow> inbox_state handler" where
  "handle_inbox_like env activity actor account st =
    (case activity_object_id (jget activity ''object'') of
       None \<Rightarrow> (Inr (), st)
     | Some object_uri \<Rightarrow>
       (case inbox_status_by_uri env object_uri of
          None \<Rightarrow> (Inr (), st)
        | Some status \<Rightarrow>
          if ls_account_id status \<noteq> la_id account then (Inr (), st)
          else if \<not> remote_actor_may_interact_with_local_status env (ix_follows st) status (rp_actor_uri actor)
          then (Inr (), st)
          else (Inr (), st\<lparr>ix_favourites := upsert_remote_favourite (rp_actor_uri actor) (ls_id status)
                 object_uri (get_str activity ''id'') (ix_favourites st)\<rparr>)))"

definition boost_local_status ::
    "'t inbox_env \<Rightarrow> json \<Rightarrow> remote_actor_profile \<Rightarrow> local_account \<Rightarrow> string \<Rightarrow> inbox_state handler" where
  "boost_local_status env activity actor account object_uri st =
    (case inbox_status_by_uri env object_uri of
       None \<Rightarrow> (Inr (), st)
     | Some status \<Rightarrow>
       if ls_account_id status \<noteq> la_id account then (Inr (), st)
       else if \<not> remote_actor_may_interact_with_local_status env (ix_follows st) status (rp_actor_uri actor)
       then (Inr (), st)
       else (Inr (), st\<lparr>ix_reblogs := upsert_remote_reblog (rp_actor_uri actor) (ls_id status)
              object_uri (get_str activity ''id'') (ix_reblogs st)\<rparr>))"

definition store_boost ::
    "'t inbox_env \<Rightarrow> json \<Rightarrow> remote_actor_profile \<Rightarrow> inbox_state handler" where
  "store_boost env activity actor st =
    (case upsert_remote_reblog_status (re_store (resolve_env_at env st)) True (rp_actor_uri actor) activity
        (rz_store (ix_resolve st)) of
       (r, store) \<Rightarrow> (r, st\<lparr>ix_resolve := (ix_resolve st)\<lparr>rz_store := store\<rparr>\<rparr>))"

definition handle_inbox_announce ::
    "'t inbox_env \<Rightarrow> json \<Rightarrow> remote_actor_profile \<Rightarrow> local_account \<Rightarrow> inbox_state handler" where
  "handle_inbox_announce env activity actor account st =
    (case activity_object_id (jget activity ''object'') of
       None \<Rightarrow> (Inr (), st)
     | Some object_uri \<Rightarrow>
       let st = know_actor actor st in
       (case on_resolve (ensure_announce_boost_target (resolve_env_at env st) activity object_uri) st of
          (Inl e, st) \<Rightarrow> (Inl e, st)
        | (Inr _, st) \<Rightarrow>
          (case store_boost env activity actor st of
             (Inl e, st) \<Rightarrow> (Inl e, st)
           | (Inr _, st) \<Rightarrow> boost_local_status env activity actor account object_uri st)))"

section \<open>Statuses\<close>

definition unattributed :: string where
  "unattributed = ''activitypub unauthorized: object attribution mismatch''"

text \<open>The note of an activity: an object of a supported type.\<close>

definition status_object :: "json \<Rightarrow> json option" where
  "status_object activity = opt_filter object_has_supported_remote_status_type (is_object_member activity)"

definition targets_account :: "'t inbox_env \<Rightarrow> json \<Rightarrow> local_account \<Rightarrow> bool" where
  "targets_account env object account \<longleftrightarrow>
    note_targets_account_or_followers (actor_url (inbox_config env) (la_username account)) object"

definition store_note ::
    "'t inbox_env \<Rightarrow> remote_actor_profile \<Rightarrow> json \<Rightarrow> inbox_state handler" where
  "store_note env actor object st =
    (case upsert_remote_status (re_store (resolve_env_at env st)) True (rp_actor_uri actor) object
        (rz_store (ix_resolve st)) of
       (r, store) \<Rightarrow>
         (r, (know_actor actor st)\<lparr>ix_resolve := (ix_resolve (know_actor actor st))\<lparr>rz_store := store\<rparr>\<rparr>))"

definition handle_inbox_create ::
    "('t::linorder) inbox_env \<Rightarrow> json \<Rightarrow> remote_actor_profile \<Rightarrow> local_account \<Rightarrow> inbox_state handler" where
  "handle_inbox_create env activity actor account st =
    (case status_object activity of
       None \<Rightarrow> (Inr (), st)
     | Some object \<Rightarrow>
       if \<not> object_attributed_to_remote_actor object activity (rp_actor_uri actor) then (Inl unattributed, st)
       else (case handle_inbox_poll_vote env object actor account (get_str activity ''id'') st of
           (Inl e, st) \<Rightarrow> (Inl e, st)
         | (Inr True, st) \<Rightarrow> (Inr (), st)
         | (Inr False, st) \<Rightarrow>
             if targets_account env object account then store_note env actor object st else (Inr (), st)))"

text \<open>Whether an account is addressed that takes the note for no vote.\<close>

fun any_addressed ::
    "('t::linorder) inbox_env \<Rightarrow> json \<Rightarrow> json \<Rightarrow> remote_actor_profile \<Rightarrow> local_account list \<Rightarrow> inbox_state \<Rightarrow>
     (string + bool) \<times> inbox_state" where
  "any_addressed env activity object actor [] st = (Inr False, st)"
| "any_addressed env activity object actor (account # accounts) st =
    (case handle_inbox_poll_vote env object actor account (get_str activity ''id'') st of
       (Inl e, st) \<Rightarrow> (Inl e, st)
     | (Inr voted, st) \<Rightarrow>
       (case any_addressed env activity object actor accounts st of
          (Inl e, st) \<Rightarrow> (Inl e, st)
        | (Inr later, st) \<Rightarrow> (Inr (\<not> voted \<and> targets_account env object account \<or> later), st)))"

definition handle_inbox_create_for_accounts ::
    "('t::linorder) inbox_env \<Rightarrow> json \<Rightarrow> remote_actor_profile \<Rightarrow> local_account list \<Rightarrow> inbox_state handler" where
  "handle_inbox_create_for_accounts env activity actor accounts st =
    (case status_object activity of
       None \<Rightarrow> (Inr (), st)
     | Some object \<Rightarrow>
       if \<not> object_attributed_to_remote_actor object activity (rp_actor_uri actor) then (Inl unattributed, st)
       else (case any_addressed env activity object actor accounts st of
           (Inl e, st) \<Rightarrow> (Inl e, st)
         | (Inr addressed, st) \<Rightarrow> if addressed then store_note env actor object st else (Inr (), st)))"

section \<open>Updates of actors\<close>

definition is_local_account_following_remote_actor :: "follow_db \<Rightarrow> string \<Rightarrow> string \<Rightarrow> bool" where
  "is_local_account_following_remote_actor db account_id actor_uri \<longleftrightarrow>
    list_ex (\<lambda>f. fo_follower_account_id f = account_id \<and> fo_target_actor_uri f = actor_uri \<and>
      fo_state f = remote_follow_state.Accepted) (ob_follows (fd_outbound db))"

definition has_any_local_followers_for_remote_actor :: "follow_db \<Rightarrow> string \<Rightarrow> bool" where
  "has_any_local_followers_for_remote_actor db actor_uri \<longleftrightarrow>
    list_ex (\<lambda>f. fo_target_actor_uri f = actor_uri \<and> fo_state f = remote_follow_state.Accepted)
      (ob_follows (fd_outbound db))"

definition same_delivery_identity :: "remote_actor_profile \<Rightarrow> remote_actor_profile \<Rightarrow> bool" where
  "same_delivery_identity a b \<longleftrightarrow> rp_public_key_pem a = rp_public_key_pem b \<and>
    rp_public_key_id a = rp_public_key_id b \<and> rp_inbox_uri a = rp_inbox_uri b \<and>
    rp_shared_inbox_uri a = rp_shared_inbox_uri b"

definition remote_actor_delivery_identity_changed ::
    "remote_actor_profile \<Rightarrow> remote_actor_profile \<Rightarrow> bool" where
  "remote_actor_delivery_identity_changed previous refreshed \<longleftrightarrow>
    \<not> same_delivery_identity previous refreshed"

text \<open>A change of the keys or the inboxes is taken only as the server of the actor confirms it.\<close>

definition confirmed_actor_profile ::
    "'t resolve_env \<Rightarrow> remote_actor_profile \<Rightarrow> json \<Rightarrow> dns_caches \<Rightarrow>
     (string + remote_actor_profile) \<times> dns_caches" where
  "confirmed_actor_profile env actor object caches =
    (case parse_remote_actor_profile_document (ve_url (re_fetch env)) object (rp_actor_uri actor) of
       Inl e \<Rightarrow> (Inl e, caches)
     | Inr refreshed \<Rightarrow>
       (case validate_remote_actor_profile_urls (ve_url (re_fetch env)) (ve_net (re_fetch env))
           (\<lambda>i. ve_clock (re_fetch env) (i + 6)) refreshed caches of
          (Inl e, caches) \<Rightarrow> (Inl e, caches)
        | (Inr _, caches) \<Rightarrow>
          if \<not> remote_actor_delivery_identity_changed actor refreshed then (Inr refreshed, caches)
          else (case fetch_profile env (rp_actor_uri refreshed) caches of
              (Inl e, caches) \<Rightarrow> (Inl e, caches)
            | (Inr confirmed, caches) \<Rightarrow>
                (if rp_actor_uri confirmed = rp_actor_uri refreshed \<and> same_delivery_identity confirmed refreshed
                 then Inr confirmed
                 else Inl ''remote actor Update identity fields did not match canonical fetch'', caches))))"

definition handle_inbox_actor_update ::
    "'t inbox_env \<Rightarrow> json \<Rightarrow> remote_actor_profile \<Rightarrow> local_account option \<Rightarrow> inbox_state handler" where
  "handle_inbox_actor_update env activity actor account st =
    (case opt_filter object_has_activitypub_actor_type (is_object_member activity) of
       None \<Rightarrow> (Inr (), st)
     | Some object \<Rightarrow>
       let object_actor_uri = unwrap_or (opt_or (activity_object_id (Some object))
             (activity_object_id (jget activity ''actor''))) [];
           is_relevant = (case account of
               Some a \<Rightarrow> is_local_account_following_remote_actor (ix_follows st) (la_id a) (rp_actor_uri actor)
             | None \<Rightarrow> has_any_local_followers_for_remote_actor (ix_follows st) (rp_actor_uri actor))
       in if object_actor_uri \<noteq> rp_actor_uri actor \<or> \<not> is_relevant then (Inr (), st)
       else (case confirmed_actor_profile (ie_resolve env) actor object (rz_caches (ix_resolve st)) of
           (Inl e, caches) \<Rightarrow> (Inl e, st\<lparr>ix_resolve := (ix_resolve st)\<lparr>rz_caches := caches\<rparr>\<rparr>)
         | (Inr profile, caches) \<Rightarrow>
             (Inr (), know_actor profile (st\<lparr>ix_resolve := (ix_resolve st)\<lparr>rz_caches := caches\<rparr>\<rparr>))))"

section \<open>Updates and deletions\<close>

definition handle_inbox_collection_update ::
    "'t inbox_env \<Rightarrow> json \<Rightarrow> remote_actor_profile \<Rightarrow> inbox_state \<Rightarrow> (string + bool) \<times> inbox_state" where
  "handle_inbox_collection_update env activity actor st =
    (case opt_filter (\<lambda>ob. get_str ob ''type'' = Some ''FeaturedCollection'') (is_object_member activity) of
       None \<Rightarrow> (Inr False, st)
     | Some object \<Rightarrow> (and_then (ie_store_collection env object) (\<lambda>_. Inr True), know_actor actor st))"

text \<open>An update of a status that is addressed to one of the accounts at least.\<close>

definition update_status ::
    "'t inbox_env \<Rightarrow> json \<Rightarrow> remote_actor_profile \<Rightarrow> local_account list \<Rightarrow> inbox_state handler" where
  "update_status env activity actor accounts st =
    (case handle_inbox_collection_update env activity actor st of
       (Inl e, st) \<Rightarrow> (Inl e, st)
     | (Inr True, st) \<Rightarrow> (Inr (), st)
     | (Inr False, st) \<Rightarrow>
       (case status_object activity of
          None \<Rightarrow> (Inr (), st)
        | Some object \<Rightarrow>
          if \<not> object_attributed_to_remote_actor object activity (rp_actor_uri actor) then (Inl unattributed, st)
          else if list_ex (targets_account env object) accounts then store_note env actor object st
          else (Inr (), st)))"

definition is_actor_update :: "json \<Rightarrow> bool" where
  "is_actor_update activity \<longleftrightarrow>
    (case is_object_member activity of None \<Rightarrow> False | Some object \<Rightarrow> object_has_activitypub_actor_type object)"

definition handle_inbox_update ::
    "'t inbox_env \<Rightarrow> json \<Rightarrow> remote_actor_profile \<Rightarrow> local_account \<Rightarrow> inbox_state handler" where
  "handle_inbox_update env activity actor account st =
    (if is_object_member activity = None then (Inr (), st)
     else if is_actor_update activity then handle_inbox_actor_update env activity actor (Some account) st
     else update_status env activity actor [account] st)"

definition handle_inbox_update_for_accounts ::
    "'t inbox_env \<Rightarrow> json \<Rightarrow> remote_actor_profile \<Rightarrow> local_account list \<Rightarrow> inbox_state handler" where
  "handle_inbox_update_for_accounts env activity actor accounts st =
    (if is_object_member activity = None then (Inr (), st)
     else if is_actor_update activity
     then dispatch_each (\<lambda>account. handle_inbox_actor_update env activity actor (Some account)) accounts st
     else update_status env activity actor accounts st)"

definition fanout_and_delete_remote_status_by_object_uri_soft ::
    "remote_actor_profile \<Rightarrow> string \<Rightarrow> inbox_state handler" where
  "fanout_and_delete_remote_status_by_object_uri_soft actor object_uri st =
    (case find_remote_status_by_object_uri (rz_store (ix_resolve st)) object_uri of
       Inl e \<Rightarrow> (Inl e, st)
     | Inr None \<Rightarrow> (Inr (), st)
     | Inr (Some status) \<Rightarrow>
         if rs_actor_uri status \<noteq> rp_actor_uri actor then (Inr (), st)
         else (Inr (), st\<lparr>ix_resolve := (ix_resolve st)\<lparr>rz_store :=
           delete_remote_status_by_id (rs_id status) (rz_store (ix_resolve st))\<rparr>\<rparr>))"

definition activitypub_value_id :: "json option \<Rightarrow> string option" where
  "activitypub_value_id value =
    (case value of
       Some (JString v) \<Rightarrow> Some v
     | Some (JObject members) \<Rightarrow> get_str (JObject members) ''id''
     | _ \<Rightarrow> None)"

text \<open>The collection and the actor whose consent is withdrawn, where the actor itself says so.\<close>

definition revoked_feature :: "json \<Rightarrow> remote_actor_profile \<Rightarrow> (string \<times> string) option" where
  "revoked_feature activity actor =
    Option.bind (opt_filter (\<lambda>ob. get_str ob ''type'' = Some ''FeatureAuthorization'')
      (is_object_member activity)) (\<lambda>object.
    Option.bind (activitypub_value_id (jget object ''interactingObject'')) (\<lambda>collection.
    Option.bind (activitypub_value_id (jget object ''interactionTarget'')) (\<lambda>featured.
      if featured = rp_actor_uri actor then Some (collection, featured) else None)))"

definition handle_inbox_delete ::
    "'t inbox_env \<Rightarrow> json \<Rightarrow> remote_actor_profile \<Rightarrow> inbox_state handler" where
  "handle_inbox_delete env activity actor st =
    (case (case revoked_feature activity actor of
         None \<Rightarrow> Inr False
       | Some (collection, featured) \<Rightarrow> ie_revoke_feature env collection featured) of
       Inl e \<Rightarrow> (Inl e, st)
     | Inr True \<Rightarrow> (Inr (), st)
     | Inr False \<Rightarrow>
       (case activity_object_id (jget activity ''object'') of
          None \<Rightarrow> (Inr (), st)
        | Some object_uri \<Rightarrow> fanout_and_delete_remote_status_by_object_uri_soft actor object_uri st))"

definition handle_inbox_interaction_undo ::
    "json \<Rightarrow> remote_actor_profile \<Rightarrow> inbox_state handler" where
  "handle_inbox_interaction_undo activity actor st =
    (case jget activity ''object'' of
       None \<Rightarrow> (Inr (), st)
     | Some object \<Rightarrow>
       let activity_type = unwrap_or (activitypub_primary_type object) [];
           target_uri = unwrap_or (activity_object_id (jget object ''object'')) [];
           activity_uri = get_str object ''id''
       in if activity_type = ''Like''
          then (Inr (), st\<lparr>ix_favourites :=
            delete_remote_favourite (rp_actor_uri actor) target_uri activity_uri (ix_favourites st)\<rparr>)
          else if activity_type = ''Announce''
          then let st = st\<lparr>ix_reblogs :=
                 delete_remote_reblog (rp_actor_uri actor) target_uri activity_uri (ix_reblogs st)\<rparr>
            in (case activity_uri of
                None \<Rightarrow> (Inr (), st)
              | Some uri \<Rightarrow> fanout_and_delete_remote_status_by_object_uri_soft actor uri st)
          else (Inr (), st))"

text \<open>The undoing of a follow is \<open>handle_inbox_undo\<close> of \<open>Inbox_Follows\<close>.\<close>

definition undo_activity ::
    "('t::linorder) inbox_env \<Rightarrow> json \<Rightarrow> remote_actor_profile \<Rightarrow> local_account \<Rightarrow> inbox_state handler" where
  "undo_activity env activity actor account st =
    (case get_str activity ''actor'' of
       None \<Rightarrow> (Inr (), st)
     | Some actor_uri \<Rightarrow>
       if activity_is_follow_undo (ie_follow env) account activity actor_uri actor (ix_follows st)
       then on_follows (handle_inbox_undo (ie_follow env) (\<lambda>db. (Inr (), db)) activity actor account) st
       else (case handle_inbox_poll_vote_undo env activity actor account st of
           (Inl e, st) \<Rightarrow> (Inl e, st)
         | (Inr True, st) \<Rightarrow> (Inr (), st)
         | (Inr False, st) \<Rightarrow> handle_inbox_interaction_undo activity actor st))"

section \<open>The handlers\<close>

definition handle_inbox_collection_add ::
    "'t inbox_env \<Rightarrow> json \<Rightarrow> remote_actor_profile \<Rightarrow> inbox_state handler" where
  "handle_inbox_collection_add env activity actor st =
    (if activitypub_value_id (jget activity ''target'') = None \<or> is_object_member activity = None
     then (Inr (), st)
     else (ie_collection_add env activity, know_actor actor st))"

definition worker_handlers ::
    "('t::linorder) inbox_env \<Rightarrow> json \<Rightarrow> remote_actor_profile \<Rightarrow> inbox_state inbox_handlers" where
  "worker_handlers env activity actor =
    \<lparr>ih_follow = \<lambda>account. on_follows
       (handle_inbox_follow (ie_follow env) (ie_fresh env (la_id account)) activity actor account),
     ih_undo = undo_activity env activity actor,
     ih_accept = on_follows (handle_inbox_accept (\<lambda>db. (ie_feature_response env activity, db)) activity actor),
     ih_reject = on_follows (handle_inbox_reject (\<lambda>db. (ie_feature_response env activity, db)) activity actor),
     ih_like = handle_inbox_like env activity actor,
     ih_create = handle_inbox_create env activity actor,
     ih_create_all = handle_inbox_create_for_accounts env activity actor,
     ih_announce = handle_inbox_announce env activity actor,
     ih_add = handle_inbox_collection_add env activity actor,
     ih_remove = (\<lambda>st. (ie_collection_remove env activity, st)),
     ih_update = handle_inbox_update env activity actor,
     ih_update_all = handle_inbox_update_for_accounts env activity actor,
     ih_delete = handle_inbox_delete env activity actor\<rparr>"

section \<open>The accounts an activity is for\<close>

definition list_local_follower_accounts_for_remote_actor ::
    "emission_db \<Rightarrow> follow_db \<Rightarrow> string \<Rightarrow> local_account list" where
  "list_local_follower_accounts_for_remote_actor accounts db actor_uri =
    concat (map (\<lambda>f. filter (\<lambda>a. la_id a = fo_follower_account_id f) (em_accounts accounts))
      (filter (\<lambda>f. fo_target_actor_uri f = actor_uri \<and> fo_state f = remote_follow_state.Accepted)
        (ob_follows (fd_outbound db))))"

definition first_local_follower_for_remote_actor ::
    "emission_db \<Rightarrow> follow_db \<Rightarrow> string \<Rightarrow> local_account option" where
  "first_local_follower_for_remote_actor accounts db actor_uri =
    (case list_local_follower_accounts_for_remote_actor accounts db actor_uri of
       [] \<Rightarrow> None
     | a # _ \<Rightarrow> Some a)"

definition resolve_local_status_owner_account :: "'t inbox_env \<Rightarrow> string \<Rightarrow> local_account option" where
  "resolve_local_status_owner_account env status_uri =
    Option.bind (inbox_status_by_uri env status_uri) (\<lambda>status.
      find_account_by_id (inbox_db env) (ls_account_id status))"

definition resolve_local_interaction_target_account :: "'t inbox_env \<Rightarrow> string \<Rightarrow> local_account option" where
  "resolve_local_interaction_target_account env remote_status_uri =
    (case find (\<lambda>s. ls_quote_of_uri s = Some remote_status_uri \<and> ls_quote_state s \<noteq> Revoked)
        (em_statuses (inbox_db env)) of
       Some s \<Rightarrow> find_account_by_id (inbox_db env) (ls_account_id s)
     | None \<Rightarrow> Option.bind (find (\<lambda>b. snd b = remote_status_uri) (ie_boosts env)) (\<lambda>b.
         find_account_by_id (inbox_db env) (fst b)))"

definition targeted_followers ::
    "'t inbox_env \<Rightarrow> follow_db \<Rightarrow> json \<Rightarrow> json \<Rightarrow> local_account list option" where
  "targeted_followers env db activity object =
    Option.bind (opt_or (activity_object_id (jget activity ''actor''))
        (activity_object_id (jget object ''attributedTo''))) (\<lambda>actor_uri.
      (case filter (targets_account env object)
          (list_local_follower_accounts_for_remote_actor (inbox_db env) db actor_uri) of
         [] \<Rightarrow> None
       | accounts \<Rightarrow> Some accounts))"

definition resolve_remote_status_activity_target_accounts ::
    "'t inbox_env \<Rightarrow> follow_db \<Rightarrow> json \<Rightarrow> local_account list option" where
  "resolve_remote_status_activity_target_accounts env db activity =
    (if \<not> (activitypub_has_type activity ''Create'' \<or> activitypub_has_type activity ''Update'') then None
     else Option.bind (status_object activity) (\<lambda>object.
       let owner = (\<lambda>uri. Option.bind uri (resolve_local_status_owner_account env));
           status_uri = activity_object_id (Some object)
       in (case opt_or (owner status_uri)
              (opt_or (Option.bind status_uri (resolve_local_interaction_target_account env))
              (opt_or (owner (activity_object_id (jget object ''inReplyTo'')))
                (owner (quote_target_uri_from_object object)))) of
             Some account \<Rightarrow> Some [account]
           | None \<Rightarrow> targeted_followers env db activity object)))"

definition resolve_remote_actor_update_target_account ::
    "'t inbox_env \<Rightarrow> follow_db \<Rightarrow> json \<Rightarrow> local_account option" where
  "resolve_remote_actor_update_target_account env db activity =
    (if activitypub_has_type activity ''Update'' \<and> is_actor_update activity
     then Option.bind (opt_or (activity_object_id (is_object_member activity))
         (activity_object_id (jget activity ''actor'')))
       (first_local_follower_for_remote_actor (inbox_db env) db)
     else None)"

definition resolve_remote_actor_announce_target_accounts ::
    "'t inbox_env \<Rightarrow> follow_db \<Rightarrow> json \<Rightarrow> local_account list option" where
  "resolve_remote_actor_announce_target_accounts env db activity =
    (if \<not> activitypub_has_type activity ''Announce'' then None
     else Option.bind (activity_object_id (jget activity ''actor'')) (\<lambda>actor_uri.
       (case list_local_follower_accounts_for_remote_actor (inbox_db env) db actor_uri of
          [] \<Rightarrow> None
        | followers \<Rightarrow> Some followers)))"

definition is_collection_activity :: "json \<Rightarrow> bool" where
  "is_collection_activity activity \<longleftrightarrow>
    (if activitypub_has_type activity ''Add'' \<or> activitypub_has_type activity ''Remove''
     then jget activity ''target'' \<noteq> None
     else activitypub_has_type activity ''Update'' \<and>
       (case jget activity ''object'' of
          None \<Rightarrow> False
        | Some object \<Rightarrow> activitypub_has_type object ''FeaturedCollection''))"

definition resolve_remote_collection_activity_target_account ::
    "'t inbox_env \<Rightarrow> follow_db \<Rightarrow> json \<Rightarrow> local_account option" where
  "resolve_remote_collection_activity_target_account env db activity =
    (if is_collection_activity activity
     then Option.bind (activity_object_id (jget activity ''actor''))
       (first_local_follower_for_remote_actor (inbox_db env) db)
     else None)"

definition resolve_follow_response_target_account ::
    "'t inbox_env \<Rightarrow> follow_db \<Rightarrow> json \<Rightarrow> local_account option" where
  "resolve_follow_response_target_account env db activity =
    Option.bind (activity_object_id (jget activity ''object'')) (\<lambda>follow_activity_id.
    Option.bind (find_follow_by_activity_id follow_activity_id db) (\<lambda>follow.
      find_account_by_id (inbox_db env) (fo_follower_account_id follow)))"

definition resolve_feature_response_target_account :: "'t inbox_env \<Rightarrow> json \<Rightarrow> local_account option" where
  "resolve_feature_response_target_account env activity =
    (if activitypub_has_type activity ''Accept'' \<or> activitypub_has_type activity ''Reject''
     then Option.bind (activity_object_id (jget activity ''object'')) (\<lambda>uri.
       Option.bind (ie_feature_account env uri) (find_account_by_id (inbox_db env)))
     else None)"

definition resolve_feature_authorization_delete_target_account ::
    "'t inbox_env \<Rightarrow> json \<Rightarrow> local_account option" where
  "resolve_feature_authorization_delete_target_account env activity =
    (if \<not> activitypub_has_type activity ''Delete'' then None
     else Option.bind (opt_filter (\<lambda>ob. activitypub_has_type ob ''FeatureAuthorization'')
         (is_object_member activity)) (\<lambda>object.
       Option.bind (activity_object_id (jget object ''interactingObject'')) (\<lambda>collection_uri.
       Option.bind (ie_collection_account env collection_uri) (find_account_by_id (inbox_db env)))))"

definition resolve_poll_vote_target_account ::
    "'t inbox_env \<Rightarrow> poll_db \<Rightarrow> json \<Rightarrow> local_account option" where
  "resolve_poll_vote_target_account env polls activity =
    (if \<not> activitypub_has_type activity ''Undo'' then None
     else Option.bind (activity_object_id (jget activity ''object'')) (\<lambda>activity_uri.
       Option.bind (vote_with_status env (\<lambda>v. lv_activity_uri v = Some activity_uri) polls) (\<lambda>vote.
       Option.bind (voted_status env polls vote) (\<lambda>status.
         find_account_by_id (inbox_db env) (ls_account_id status)))))"

text \<open>Accounts without keys get keys; nothing else of an account changes.\<close>

definition resolve_shared_inbox_target_accounts ::
    "'t inbox_env \<Rightarrow> string option \<Rightarrow> json \<Rightarrow> inbox_state \<Rightarrow> local_account list" where
  "resolve_shared_inbox_target_accounts env username activity st =
    (let parse = sv_parse_url (re_store (ie_resolve env)); db = ix_follows st;
         at_most_one = (\<lambda>a. case a of None \<Rightarrow> [] | Some x \<Rightarrow> [x])
     in case opt_or username (extract_inbox_target_username
           (local_username_from_actor_uri parse (inbox_config env))
           (local_username_from_status_uri parse (inbox_config env)) activity) of
       Some name \<Rightarrow> at_most_one (find_account_by_username (inbox_db env) name)
     | None \<Rightarrow>
       (case opt_or (resolve_follow_response_target_account env db activity)
            (opt_or (resolve_feature_response_target_account env activity)
            (opt_or (resolve_poll_vote_target_account env (ix_polls st) activity)
              (resolve_feature_authorization_delete_target_account env activity))) of
          Some account \<Rightarrow> [account]
        | None \<Rightarrow>
          (case opt_or (resolve_remote_status_activity_target_accounts env db activity)
               (resolve_remote_actor_announce_target_accounts env db activity) of
             Some accounts \<Rightarrow> accounts
           | None \<Rightarrow> at_most_one (opt_or (resolve_remote_actor_update_target_account env db activity)
               (resolve_remote_collection_activity_target_account env db activity)))))"

section \<open>The inboxes\<close>

datatype shared_inbox_outcome = Unauthorized | AcceptedNoTargets | Process

definition shared_inbox_preprocess_outcome :: "bool \<Rightarrow> bool \<Rightarrow> shared_inbox_outcome" where
  "shared_inbox_preprocess_outcome signature_ok has_local_targets =
    (if \<not> signature_ok then Unauthorized
     else if \<not> has_local_targets then AcceptedNoTargets
     else Process)"

text \<open>Both inboxes after the verification of a delivery that no relay forwarded.\<close>

definition shared_inbox_response ::
    "('t::linorder) inbox_env \<Rightarrow> crypto \<Rightarrow> int \<Rightarrow> int \<Rightarrow> string \<Rightarrow> json \<Rightarrow> remote_actor_profile \<Rightarrow>
     inbox_table \<times> inbox_state \<Rightarrow> inbox_answer \<times> inbox_table \<times> inbox_state" where
  "shared_inbox_response env cr t0 t1 body activity actor = (\<lambda>(table, st).
    let accounts = resolve_shared_inbox_target_accounts env None activity st in
    (case shared_inbox_preprocess_outcome True (accounts \<noteq> []) of
       Unauthorized \<Rightarrow> (Unauthorized_401, table, st)
     | AcceptedNoTargets \<Rightarrow> (Accepted_202, table, st)
     | Process \<Rightarrow> process_verified_inbox_activity (worker_handlers env activity actor) cr t0 t1 accounts
         body activity (rp_actor_uri actor) (table, st)))"

text \<open>\<open>None\<close> is the answer that there is no such account.\<close>

definition inbox_response ::
    "('t::linorder) inbox_env \<Rightarrow> crypto \<Rightarrow> int \<Rightarrow> int \<Rightarrow> string \<Rightarrow> string \<Rightarrow> json \<Rightarrow> remote_actor_profile \<Rightarrow>
     inbox_table \<times> inbox_state \<Rightarrow> (inbox_answer \<times> inbox_table \<times> inbox_state) option" where
  "inbox_response env cr t0 t1 username body activity actor = (\<lambda>(table, st).
    (case resolve_shared_inbox_target_accounts env
        (Some (to_ascii_lowercase (trim username))) activity st of
       [] \<Rightarrow> None
     | account # _ \<Rightarrow> Some (process_verified_inbox_activity (worker_handlers env activity actor) cr t0 t1
         [account] body activity (rp_actor_uri actor) (table, st))))"

end
