(* ===== verification/Inbox_Effects.thy ===== *)
theory Inbox_Effects
  imports Inbox_Statuses
begin

text \<open>
  What activities of one actor can do to the statuses, favourites and boosts of others, what the two
  inboxes have in common and where they differ.
\<close>

section \<open>Rows of one actor\<close>

lemma other_row_kept:
  assumes "ir_actor r \<noteq> actor" "ir_actor x = actor"
  shows "r \<in> set (it_rows (upsert_interaction x t)) \<longleftrightarrow> r \<in> set (it_rows t)"
  using assms by (auto simp: upsert_interaction_def upsert_by_def interaction_key_def merge_interaction_def)

lemma upserted_rows:
  "set (it_rows (upsert_interaction x t)) \<subseteq>
    set (it_rows t) \<union> {r. ir_actor r = ir_actor x \<and> ir_status_id r = ir_status_id x}"
  by (auto simp: upsert_interaction_def upsert_by_def interaction_key_def merge_interaction_def)

text \<open>Nothing changes but rows of the actor, and counts follow the rows.\<close>

definition rows_of_others_kept :: "string \<Rightarrow> interaction_table \<Rightarrow> interaction_table \<Rightarrow> bool" where
  "rows_of_others_kept actor t t' \<longleftrightarrow>
    (\<forall>r. ir_actor r \<noteq> actor \<longrightarrow> (r \<in> set (it_rows t') \<longleftrightarrow> r \<in> set (it_rows t))) \<and>
    (\<forall>base. counts_kept base t \<longrightarrow> counts_kept base t')"

lemma rows_of_others_refl [simp]: "rows_of_others_kept actor t t"
  by (simp add: rows_of_others_kept_def)

lemma rows_of_others_trans:
  "rows_of_others_kept actor a b \<Longrightarrow> rows_of_others_kept actor b c \<Longrightarrow> rows_of_others_kept actor a c"
  by (simp add: rows_of_others_kept_def)

lemma upsert_keeps_others [simp]:
  "rows_of_others_kept actor t (upsert_remote_favourite actor i u a t)"
  "rows_of_others_kept actor t (upsert_remote_reblog actor i u a t)"
  by (auto simp: rows_of_others_kept_def upsert_remote_favourite_def upsert_remote_reblog_def
      other_row_kept upsert_counts)

lemma deleted_rows: "it_rows (delete_interactions P t) = filter (\<lambda>r. \<not> P r) (it_rows t)"
  by (simp add: delete_interactions_def)

lemma delete_keeps_others [simp]:
  "rows_of_others_kept actor t (delete_remote_favourite actor u a t)"
  "rows_of_others_kept actor t (delete_remote_reblog actor u a t)"
  by (auto simp: rows_of_others_kept_def delete_remote_favourite_def delete_remote_reblog_def
      delete_counts deleted_rows undone_by_def)

section \<open>Effects of handlers\<close>

text \<open>A relation between the states before and after that handlers in a row keep.\<close>

locale effect =
  fixes R :: "inbox_state \<Rightarrow> inbox_state \<Rightarrow> bool"
  assumes same: "R s s" and chain: "R a b \<Longrightarrow> R b c \<Longrightarrow> R a c"
begin

lemma each:
  assumes "\<And>account s. R s (snd (handle account s))"
  shows "R s (snd (dispatch_each handle accounts s))"
proof (induction accounts arbitrary: s)
  case (Cons account accounts)
  obtain r s' where step: "handle account s = (r, s')" by force
  then have "R s s'" using assms [of s account] by simp
  with Cons.IH [of s'] chain step same show ?case by (auto split: sum.splits)
qed (simp add: same)

lemma after: "p = (r, s') \<Longrightarrow> R s (snd p) \<Longrightarrow> R s' s'' \<Longrightarrow> R s s''"
  using chain by simp

lemma each_account:
  assumes "\<And>account s. R s (snd (handle account s))"
  shows "R s (snd (with_account account handle s))"
  using assms same by (cases account) (simp_all add: with_account_def)

end

definition interactions_of_others_kept :: "string \<Rightarrow> inbox_state \<Rightarrow> inbox_state \<Rightarrow> bool" where
  "interactions_of_others_kept actor st st' \<longleftrightarrow>
    rows_of_others_kept actor (ix_favourites st) (ix_favourites st') \<and>
    rows_of_others_kept actor (ix_reblogs st) (ix_reblogs st')"

definition untouched_interactions :: "inbox_state \<Rightarrow> inbox_state \<Rightarrow> bool" where
  "untouched_interactions st st' \<longleftrightarrow>
    ix_favourites st' = ix_favourites st \<and> ix_reblogs st' = ix_reblogs st"

text \<open>New rows are of statuses that the actor may interact with, by the followers of before.\<close>

definition may_add :: "'t inbox_env \<Rightarrow> follow_db \<Rightarrow> string \<Rightarrow> interaction_row \<Rightarrow> bool" where
  "may_add env db actor r \<longleftrightarrow> ir_actor r = actor \<and>
    (\<exists>status \<in> set (em_statuses (inbox_db env)). ls_id status = ir_status_id r \<and>
      remote_actor_may_interact_with_local_status env db status actor)"

definition only_permitted_added :: "'t inbox_env \<Rightarrow> string \<Rightarrow> inbox_state \<Rightarrow> inbox_state \<Rightarrow> bool" where
  "only_permitted_added env actor st st' \<longleftrightarrow> ix_follows st' = ix_follows st \<and>
    set (it_rows (ix_favourites st')) \<union> set (it_rows (ix_reblogs st')) \<subseteq>
      set (it_rows (ix_favourites st)) \<union> set (it_rows (ix_reblogs st)) \<union>
      {r. may_add env (ix_follows st) actor r}"

definition nothing_added :: "inbox_state \<Rightarrow> inbox_state \<Rightarrow> bool" where
  "nothing_added st st' \<longleftrightarrow>
    set (it_rows (ix_favourites st')) \<union> set (it_rows (ix_reblogs st')) \<subseteq>
      set (it_rows (ix_favourites st)) \<union> set (it_rows (ix_reblogs st))"

interpretation others: effect "interactions_of_others_kept actor"
  by unfold_locales (auto simp: interactions_of_others_kept_def intro: rows_of_others_trans)

interpretation permitted: effect "only_permitted_added env actor"
  by unfold_locales (auto simp: only_permitted_added_def)

interpretation nothing: effect nothing_added
  by unfold_locales (auto simp: nothing_added_def)

interpretation untouched: effect untouched_interactions
  by unfold_locales (auto simp: untouched_interactions_def)

lemma untouched_effects:
  "untouched_interactions st st' \<Longrightarrow> interactions_of_others_kept actor st st'"
  "untouched_interactions st st' \<Longrightarrow> nothing_added st st'"
  by (simp_all add: untouched_interactions_def interactions_of_others_kept_def nothing_added_def)

lemma interaction_fields [simp]:
  "ix_favourites (know_actor actor st) = ix_favourites st" "ix_reblogs (know_actor actor st) = ix_reblogs st"
  "ix_follows (know_actor actor st) = ix_follows st"
  "ix_favourites (queue_status_update env account status st) = ix_favourites st"
  "ix_reblogs (queue_status_update env account status st) = ix_reblogs st"
  by (simp_all add: know_actor_def queue_status_update_def split: option.split)

lemma on_parts_untouched [simp]:
  "untouched_interactions st (snd (on_follows f st))" "untouched_interactions st (snd (on_resolve g st))"
  "ix_follows (snd (on_resolve g st)) = ix_follows st"
  by (simp_all add: untouched_interactions_def on_follows_def on_resolve_def split: prod.split)

lemma note_stored_untouched:
  "untouched_interactions st (snd (store_note env actor object st))"
  by (simp add: untouched_interactions_def store_note_def split: prod.split)

lemma vote_untouched: "untouched_interactions st (snd (handle_inbox_poll_vote env object actor account uri st))"
  by (simp add: untouched_interactions_def handle_inbox_poll_vote_def Let_def
      split: option.split prod.split sum.split)

lemma vote_undo_untouched: "untouched_interactions st (snd (handle_inbox_poll_vote_undo env activity actor account st))"
  by (simp add: handle_inbox_poll_vote_undo_def untouched_interactions_def
      split: option.split prod.split bool.split)

lemma addressed_untouched: "untouched_interactions st (snd (any_addressed env activity object actor accounts st))"
proof (induction accounts arbitrary: st)
  case (Cons account accounts)
  obtain r st' where step: "handle_inbox_poll_vote env object actor account (get_str activity ''id'') st = (r, st')"
    by force
  note later = untouched.after [OF step vote_untouched]
  have "snd (any_addressed env activity object actor (account # accounts) st) =
      (case r of Inl e \<Rightarrow> st' | Inr _ \<Rightarrow> snd (any_addressed env activity object actor accounts st'))"
    by (simp add: step split: sum.split prod.split)
  then show ?case using later [OF untouched.same] later [OF Cons.IH] by (simp split: sum.split)
qed (simp add: untouched.same)

lemma create_untouched:
  "untouched_interactions st (snd (handle_inbox_create env activity actor account st))"
proof (cases "status_object activity")
  case (Some object)
  obtain r st' where step: "handle_inbox_poll_vote env object actor account (get_str activity ''id'') st = (r, st')"
    by force
  note later = untouched.after [OF step vote_untouched]
  show ?thesis
  proof (cases r)
    case (Inr voted)
    with Some step later [OF note_stored_untouched [where env = env]] later [OF untouched.same] untouched.same show ?thesis
      by (cases voted) (simp_all add: handle_inbox_create_def)
  qed (use Some step later [OF untouched.same] untouched.same in \<open>simp add: handle_inbox_create_def\<close>)
qed (simp add: handle_inbox_create_def untouched.same)

lemma create_all_untouched:
  "untouched_interactions st (snd (handle_inbox_create_for_accounts env activity actor accounts st))"
proof (cases "status_object activity")
  case (Some object)
  obtain r st' where step: "any_addressed env activity object actor accounts st = (r, st')" by force
  note later = untouched.after [OF step addressed_untouched]
  with Some step later [OF note_stored_untouched [where env = env]] later [OF untouched.same] untouched.same show ?thesis
    by (cases r) (simp_all add: handle_inbox_create_for_accounts_def)
qed (simp add: handle_inbox_create_for_accounts_def untouched.same)

lemma update_status_untouched:
  "untouched_interactions st (snd (update_status env activity actor accounts st))"
proof -
  obtain r st' where step: "handle_inbox_collection_update env activity actor st = (r, st')" by force
  have "untouched_interactions st (snd (handle_inbox_collection_update env activity actor st))"
    by (simp add: handle_inbox_collection_update_def untouched_interactions_def split: option.split)
  note later = untouched.after [OF step this]
  show ?thesis
  proof (cases r)
    case (Inr taken)
    with step later [OF note_stored_untouched [where env = env]] later [OF untouched.same] show ?thesis
      by (cases taken) (simp_all add: update_status_def split: option.split)
  qed (use step later [OF untouched.same] in \<open>simp add: update_status_def\<close>)
qed

lemma actor_update_untouched:
  "untouched_interactions st (snd (handle_inbox_actor_update env activity actor account st))"
  by (simp add: handle_inbox_actor_update_def Let_def untouched_interactions_def
      split: option.split sum.split prod.split)

lemma update_untouched:
  "untouched_interactions st (snd (handle_inbox_update env activity actor account st))"
  "untouched_interactions st (snd (handle_inbox_update_for_accounts env activity actor accounts st))"
  by (simp_all add: handle_inbox_update_def handle_inbox_update_for_accounts_def update_status_untouched
      actor_update_untouched untouched.each untouched.same)

lemma delete_untouched:
  "untouched_interactions st (snd (fanout_and_delete_remote_status_by_object_uri_soft actor uri st))"
  "untouched_interactions st (snd (handle_inbox_delete env activity actor st))"
  by (simp_all add: handle_inbox_delete_def fanout_and_delete_remote_status_by_object_uri_soft_def
      untouched_interactions_def split: option.split sum.split bool.split prod.split)

lemma add_untouched: "untouched_interactions st (snd (handle_inbox_collection_add env activity actor st))"
  by (simp add: handle_inbox_collection_add_def untouched_interactions_def)

section \<open>Likes, boosts and their undoing\<close>

lemma status_found: "inbox_status_by_uri env uri = Some s \<Longrightarrow> s \<in> set (em_statuses (inbox_db env))"
  by (auto simp: inbox_status_by_uri_def local_status_by_uri_def find_local_status_by_object_uri_def inbox_db_def
      find_status_by_id_def find_status_by_ap_id_def find_Some_iff split: option.splits bind_splits if_splits)

lemma like_effect:
  "interactions_of_others_kept (rp_actor_uri actor) st (snd (handle_inbox_like env activity actor account st))"
  "only_permitted_added env (rp_actor_uri actor) st (snd (handle_inbox_like env activity actor account st))"
proof -
  show "interactions_of_others_kept (rp_actor_uri actor) st (snd (handle_inbox_like env activity actor account st))"
    by (simp add: handle_inbox_like_def interactions_of_others_kept_def split: option.split)
  show "only_permitted_added env (rp_actor_uri actor) st (snd (handle_inbox_like env activity actor account st))"
    using status_found upserted_rows
    by (fastforce simp: handle_inbox_like_def only_permitted_added_def may_add_def upsert_remote_favourite_def
        split: option.split)
qed

lemma boost_effect:
  "interactions_of_others_kept (rp_actor_uri actor) st (snd (boost_local_status env activity actor account uri st))"
  "only_permitted_added env (rp_actor_uri actor) st (snd (boost_local_status env activity actor account uri st))"
proof -
  show "interactions_of_others_kept (rp_actor_uri actor) st (snd (boost_local_status env activity actor account uri st))"
    by (simp add: boost_local_status_def interactions_of_others_kept_def split: option.split)
  show "only_permitted_added env (rp_actor_uri actor) st (snd (boost_local_status env activity actor account uri st))"
    using status_found upserted_rows
    by (fastforce simp: boost_local_status_def only_permitted_added_def may_add_def upsert_remote_reblog_def
        split: option.split)
qed

lemma quiet_step:
  "untouched_interactions st st' \<Longrightarrow> ix_follows st' = ix_follows st \<Longrightarrow> only_permitted_added env actor st st'"
  by (simp add: untouched_interactions_def only_permitted_added_def)

lemma store_boost_quiet:
  "untouched_interactions st (snd (store_boost env activity actor st))"
  "ix_follows (snd (store_boost env activity actor st)) = ix_follows st"
  by (simp_all add: store_boost_def untouched_interactions_def split: prod.split)

lemma announce_steps:
  "\<exists>st'. untouched_interactions st st' \<and> ix_follows st' = ix_follows st \<and>
    (snd (handle_inbox_announce env activity actor account st) = st' \<or>
     (\<exists>uri. snd (handle_inbox_announce env activity actor account st) =
       snd (boost_local_status env activity actor account uri st')))"
proof (cases "activity_object_id (jget activity ''object'')")
  case (Some uri)
  define st0 where "st0 = know_actor actor st"
  obtain r1 st1 where s1: "on_resolve (ensure_announce_boost_target (resolve_env_at env st0) activity uri) st0 = (r1, st1)"
    by force
  obtain r2 st2 where s2: "store_boost env activity actor st1 = (r2, st2)" by force
  have q0: "untouched_interactions st st0" "ix_follows st0 = ix_follows st"
    by (simp_all add: st0_def untouched_interactions_def)
  have q1: "untouched_interactions st0 st1" "ix_follows st1 = ix_follows st0"
    using on_parts_untouched(2,3) [where st = st0 and g = "ensure_announce_boost_target (resolve_env_at env st0) activity uri"]
    by (simp_all add: s1)
  have q2: "untouched_interactions st1 st2" "ix_follows st2 = ix_follows st1"
    using store_boost_quiet [where st = st1 and env = env and activity = activity and actor = actor] by (simp_all add: s2)
  have run: "handle_inbox_announce env activity actor account st =
      (case r1 of Inl e \<Rightarrow> (Inl e, st1) | Inr _ \<Rightarrow> (case r2 of Inl e \<Rightarrow> (Inl e, st2)
        | Inr _ \<Rightarrow> boost_local_status env activity actor account uri st2))"
    using Some s1 s2 by (simp add: handle_inbox_announce_def st0_def Let_def split: sum.split)
  have two: "untouched_interactions st st1" "untouched_interactions st st2"
    using q0 q1 q2 untouched.chain by blast+
  show ?thesis
  proof (cases r1)
    case (Inl e)
    with run two(1) q0 q1 show ?thesis by (intro exI [of _ st1]) simp
  next
    case (Inr u)
    show ?thesis
    proof (cases r2)
      case Inl
      with Inr run two(2) q0 q1 q2 show ?thesis by (intro exI [of _ st2]) simp
    next
      case r2: Inr
      with Inr run two(2) q0 q1 q2 show ?thesis by (intro exI [of _ st2] conjI disjI2 exI [of _ uri]) simp_all
    qed
  qed
next
  case None
  then show ?thesis by (intro exI [of _ st]) (simp add: handle_inbox_announce_def untouched.same)
qed

lemma announce_effect:
  "interactions_of_others_kept (rp_actor_uri actor) st (snd (handle_inbox_announce env activity actor account st))"
  "only_permitted_added env (rp_actor_uri actor) st (snd (handle_inbox_announce env activity actor account st))"
proof -
  obtain st' where quiet: "untouched_interactions st st'" "ix_follows st' = ix_follows st" and ran:
      "snd (handle_inbox_announce env activity actor account st) = st' \<or>
       (\<exists>uri. snd (handle_inbox_announce env activity actor account st) =
         snd (boost_local_status env activity actor account uri st'))"
    using announce_steps [of st env activity actor account] by blast
  show "interactions_of_others_kept (rp_actor_uri actor) st (snd (handle_inbox_announce env activity actor account st))"
    using ran untouched_effects(1) [OF quiet(1)]
      others.chain [OF untouched_effects(1) [OF quiet(1)] boost_effect(1) [where env = env]]
    by (elim disjE exE) simp_all
  show "only_permitted_added env (rp_actor_uri actor) st (snd (handle_inbox_announce env activity actor account st))"
    using ran quiet_step [OF quiet]
      permitted.chain [OF quiet_step [OF quiet] boost_effect(2) [where env = env]]
    by (elim disjE exE) simp_all
qed

lemma interaction_undo_effect:
  "interactions_of_others_kept (rp_actor_uri actor) st (snd (handle_inbox_interaction_undo activity actor st))"
  "nothing_added st (snd (handle_inbox_interaction_undo activity actor st))"
proof -
  have deleted: "ix_favourites (snd (fanout_and_delete_remote_status_by_object_uri_soft actor uri st)) = ix_favourites st"
    "ix_reblogs (snd (fanout_and_delete_remote_status_by_object_uri_soft actor uri st)) = ix_reblogs st" for uri st
    using delete_untouched(1) [of st actor uri] by (simp_all add: untouched_interactions_def)
  show "interactions_of_others_kept (rp_actor_uri actor) st (snd (handle_inbox_interaction_undo activity actor st))"
    by (simp add: handle_inbox_interaction_undo_def Let_def interactions_of_others_kept_def deleted split: option.split)
  have rows: "x \<in> set (it_rows (delete_remote_favourite a u i t)) \<Longrightarrow> x \<in> set (it_rows t)"
    "x \<in> set (it_rows (delete_remote_reblog a u i t)) \<Longrightarrow> x \<in> set (it_rows t)" for x a u i t
    by (auto simp: delete_remote_favourite_def delete_remote_reblog_def deleted_rows)
  show "nothing_added st (snd (handle_inbox_interaction_undo activity actor st))"
    by (auto simp: handle_inbox_interaction_undo_def Let_def nothing_added_def deleted split: option.split dest: rows)
qed

lemma undo_effect:
  "interactions_of_others_kept (rp_actor_uri actor) st (snd (undo_activity env activity actor account st))"
  "nothing_added st (snd (undo_activity env activity actor account st))"
proof -
  have "\<exists>st'. untouched_interactions st st' \<and> (snd (undo_activity env activity actor account st) = st' \<or>
      snd (undo_activity env activity actor account st) = snd (handle_inbox_interaction_undo activity actor st'))"
  proof (cases "get_str activity ''actor''")
    case None
    then show ?thesis by (intro exI [of _ st]) (simp add: undo_activity_def untouched.same)
  next
    case (Some uri)
    show ?thesis
    proof (cases "activity_is_follow_undo (ie_follow env) account activity uri actor (ix_follows st)")
      case True
      with Some show ?thesis by (intro exI conjI disjI1) (auto simp: undo_activity_def)
    next
      case False
      obtain r st' where step: "handle_inbox_poll_vote_undo env activity actor account st = (r, st')" by force
      then have "untouched_interactions st st'"
        using vote_undo_untouched [of st env activity actor account] by simp
      with Some False step show ?thesis
        by (intro exI [of _ st']) (auto simp: undo_activity_def split: sum.split bool.split)
    qed
  qed
  then obtain st' where quiet: "untouched_interactions st st'" and ran:
      "snd (undo_activity env activity actor account st) = st' \<or>
       snd (undo_activity env activity actor account st) = snd (handle_inbox_interaction_undo activity actor st')"
    by blast
  show "interactions_of_others_kept (rp_actor_uri actor) st (snd (undo_activity env activity actor account st))"
    using ran untouched_effects(1) [OF quiet]
      others.chain [OF untouched_effects(1) [OF quiet] interaction_undo_effect(1)] by (elim disjE) simp_all
  show "nothing_added st (snd (undo_activity env activity actor account st))"
    using ran untouched_effects(2) [OF quiet]
      nothing.chain [OF untouched_effects(2) [OF quiet] interaction_undo_effect(2)] by (elim disjE) simp_all
qed

section \<open>What a delivery can do\<close>

text \<open>Handlers of other kinds than these leave favourites and boosts alone.\<close>

definition adds_interactions :: "string \<Rightarrow> bool" where
  "adds_interactions kind \<longleftrightarrow> kind = ''Like'' \<or> kind = ''Announce''"

lemma dispatch_kinds:
  "dispatch_inbox_activity (worker_handlers env activity actor) ''Like'' account st =
    with_account account (handle_inbox_like env activity actor) st"
  "dispatch_inbox_activity (worker_handlers env activity actor) ''Announce'' account st =
    with_account account (handle_inbox_announce env activity actor) st"
  "dispatch_inbox_activity (worker_handlers env activity actor) ''Undo'' account st =
    with_account account (undo_activity env activity actor) st"
  by (simp_all add: dispatch_inbox_activity_def worker_handlers_def)

lemma adding_dispatch:
  assumes "adds_interactions kind"
  shows "interactions_of_others_kept (rp_actor_uri actor) st
      (snd (dispatch_inbox_activity (worker_handlers env activity actor) kind account st))"
    "only_permitted_added env (rp_actor_uri actor) st
      (snd (dispatch_inbox_activity (worker_handlers env activity actor) kind account st))"
proof -
  from assms consider "kind = ''Like''" | "kind = ''Announce''" by (auto simp: adds_interactions_def)
  then show "interactions_of_others_kept (rp_actor_uri actor) st
      (snd (dispatch_inbox_activity (worker_handlers env activity actor) kind account st))"
    by cases (simp_all add: dispatch_kinds others.each_account like_effect announce_effect)
  from assms consider "kind = ''Like''" | "kind = ''Announce''" by (auto simp: adds_interactions_def)
  then show "only_permitted_added env (rp_actor_uri actor) st
      (snd (dispatch_inbox_activity (worker_handlers env activity actor) kind account st))"
    by cases (simp_all add: dispatch_kinds permitted.each_account like_effect announce_effect)
qed

lemma quiet_dispatch:
  assumes "\<not> adds_interactions kind" "kind \<noteq> ''Undo''"
  shows "untouched_interactions st
    (snd (dispatch_inbox_activity (worker_handlers env activity actor) kind account st))"
  using assms
  by (simp add: adds_interactions_def dispatch_inbox_activity_def worker_handlers_def untouched.same
      untouched.each_account create_untouched update_untouched delete_untouched add_untouched)

lemma other_dispatch:
  assumes "\<not> adds_interactions kind"
  shows "interactions_of_others_kept (rp_actor_uri actor) st
      (snd (dispatch_inbox_activity (worker_handlers env activity actor) kind account st))"
    "nothing_added st (snd (dispatch_inbox_activity (worker_handlers env activity actor) kind account st))"
proof -
  show "interactions_of_others_kept (rp_actor_uri actor) st
      (snd (dispatch_inbox_activity (worker_handlers env activity actor) kind account st))"
  proof (cases "kind = ''Undo''")
    case True
    then show ?thesis by (simp add: dispatch_kinds others.each_account undo_effect)
  next
    case False
    from untouched_effects(1) [OF quiet_dispatch [OF assms False]] show ?thesis .
  qed
  show "nothing_added st (snd (dispatch_inbox_activity (worker_handlers env activity actor) kind account st))"
  proof (cases "kind = ''Undo''")
    case True
    then show ?thesis by (simp add: dispatch_kinds nothing.each_account undo_effect)
  next
    case False
    from untouched_effects(2) [OF quiet_dispatch [OF assms False]] show ?thesis .
  qed
qed

lemma delivery_effect:
  "interactions_of_others_kept (rp_actor_uri actor) st
    (snd (handle_for_accounts (worker_handlers env activity actor) kind accounts st))"
  "if adds_interactions kind
   then only_permitted_added env (rp_actor_uri actor) st
     (snd (handle_for_accounts (worker_handlers env activity actor) kind accounts st))
   else nothing_added st (snd (handle_for_accounts (worker_handlers env activity actor) kind accounts st))"
proof -
  have all: "untouched_interactions st (snd (ih_create_all (worker_handlers env activity actor) accounts st))"
    "untouched_interactions st (snd (ih_update_all (worker_handlers env activity actor) accounts st))"
    by (simp_all add: worker_handlers_def create_all_untouched update_untouched)
  have not: "\<not> adds_interactions ''Create''" "\<not> adds_interactions ''Update''"
    by (simp_all add: adds_interactions_def)
  note kept = adding_dispatch(1) [where env = env] other_dispatch(1) [where env = env]
  show "interactions_of_others_kept (rp_actor_uri actor) st
      (snd (handle_for_accounts (worker_handlers env activity actor) kind accounts st))"
    using kept untouched_effects(1) [OF all(1)] untouched_effects(1) [OF all(2)]
    by (cases "adds_interactions kind") (auto simp: handle_for_accounts_def intro!: others.each)
  show "if adds_interactions kind
    then only_permitted_added env (rp_actor_uri actor) st
      (snd (handle_for_accounts (worker_handlers env activity actor) kind accounts st))
    else nothing_added st (snd (handle_for_accounts (worker_handlers env activity actor) kind accounts st))"
    using untouched_effects(2) [OF all(1)] untouched_effects(2) [OF all(2)] not
      adding_dispatch(2) [where env = env] other_dispatch(2) [where env = env]
    by (auto simp: handle_for_accounts_def intro!: permitted.each nothing.each)
qed

section \<open>Statuses of other actors\<close>

definition stored_rows :: "inbox_state \<Rightarrow> remote_status_row list" where
  "stored_rows st = rst_rows (rz_store (ix_resolve st))"

text \<open>A status of another actor is neither removed nor changed.\<close>

definition statuses_of_others_kept :: "string \<Rightarrow> inbox_state \<Rightarrow> inbox_state \<Rightarrow> bool" where
  "statuses_of_others_kept actor st st' \<longleftrightarrow> (distinct (map rsr_id (stored_rows st)) \<longrightarrow>
    distinct (map rsr_id (stored_rows st')) \<and>
    (\<forall>r. rsr_actor_uri r \<noteq> actor \<longrightarrow> (r \<in> set (stored_rows st') \<longleftrightarrow> r \<in> set (stored_rows st))))"

interpretation statuses: effect "statuses_of_others_kept actor"
  by unfold_locales (auto simp: statuses_of_others_kept_def)

lemma same_store_keeps: "stored_rows st' = stored_rows st \<Longrightarrow> statuses_of_others_kept actor st st'"
  by (simp add: statuses_of_others_kept_def)

lemma stored_rows_updates [simp]:
  "stored_rows (know_actor actor st) = stored_rows st" "stored_rows (st\<lparr>ix_follows := db\<rparr>) = stored_rows st"
  "stored_rows (st\<lparr>ix_polls := polls\<rparr>) = stored_rows st" "stored_rows (st\<lparr>ix_favourites := t\<rparr>) = stored_rows st"
  "stored_rows (st\<lparr>ix_reblogs := t\<rparr>) = stored_rows st"
  "stored_rows (queue_status_update env account status st) = stored_rows st"
  "stored_rows (snd (on_follows f st)) = stored_rows st"
  by (simp_all add: stored_rows_def know_actor_def queue_status_update_def on_follows_def
      split: option.split prod.split)

lemma found_status_row:
  assumes "find_remote_status_by_object_uri store uri = Inr (Some status)"
  shows "\<exists>r \<in> set (rst_rows store). rsr_id r = rs_id status \<and> rsr_actor_uri r = rs_actor_uri status"
proof -
  from assms obtain r where row: "row_by_object_uri store uri = Some r" and ok: "row_status r = Inr status"
    by (auto simp: find_remote_status_by_object_uri_def optional_status_def and_then_Inr split: option.splits)
  from ok have "rsr_id r = rs_id status" "rsr_actor_uri r = rs_actor_uri status"
    by (auto simp: row_status_def remote_status_try_from_record_def and_then_Inr remote_status_record.defs
        map_err_def split: sum.splits)
  then show ?thesis using row by (auto simp: row_by_object_uri_def row_with_def find_Some_iff)
qed

lemma deletion_keeps_others:
  "statuses_of_others_kept (rp_actor_uri actor) st
    (snd (fanout_and_delete_remote_status_by_object_uri_soft actor uri st))"
proof (cases "find_remote_status_by_object_uri (rz_store (ix_resolve st)) uri")
  case (Inr found)
  show ?thesis
  proof (cases found)
    case (Some status)
    show ?thesis
    proof (cases "rs_actor_uri status = rp_actor_uri actor")
      case True
      from found_status_row [of "rz_store (ix_resolve st)" uri status] Inr Some True obtain r0 where
        r0: "r0 \<in> set (stored_rows st)" "rsr_id r0 = rs_id status" "rsr_actor_uri r0 = rp_actor_uri actor"
        by (auto simp: stored_rows_def)
      have rows: "stored_rows (snd (fanout_and_delete_remote_status_by_object_uri_soft actor uri st)) =
          filter (\<lambda>r. rsr_id r \<noteq> rs_id status) (stored_rows st)"
        using Inr Some True
        by (simp add: fanout_and_delete_remote_status_by_object_uri_soft_def stored_rows_def
            delete_remote_status_by_id_def)
      have "r = r0" if "distinct (map rsr_id (stored_rows st))" "r \<in> set (stored_rows st)" "rsr_id r = rs_id status" for r
      proof -
        from that(1) have "inj_on rsr_id (set (stored_rows st))" by (simp add: distinct_map)
        from inj_onD [OF this, of r r0] that(2,3) r0(1,2) show ?thesis by simp
      qed
      then show ?thesis using r0(3)
        by (auto simp: statuses_of_others_kept_def rows distinct_map_filter)
    qed (use Inr Some in \<open>simp add: fanout_and_delete_remote_status_by_object_uri_soft_def same_store_keeps\<close>)
  qed (use Inr in \<open>simp add: fanout_and_delete_remote_status_by_object_uri_soft_def same_store_keeps\<close>)
qed (simp add: fanout_and_delete_remote_status_by_object_uri_soft_def same_store_keeps)

lemma delete_keeps_statuses:
  "statuses_of_others_kept (rp_actor_uri actor) st (snd (handle_inbox_delete env activity actor st))"
  by (simp add: handle_inbox_delete_def deletion_keeps_others statuses.same
      split: option.split sum.split bool.split prod.split)

lemma interaction_undo_keeps_statuses:
  "statuses_of_others_kept (rp_actor_uri actor) st (snd (handle_inbox_interaction_undo activity actor st))"
proof -
  have "statuses_of_others_kept (rp_actor_uri actor) st
      (snd (fanout_and_delete_remote_status_by_object_uri_soft actor uri (st\<lparr>ix_reblogs := t\<rparr>)))" for uri t
    by (rule statuses.chain [OF same_store_keeps deletion_keeps_others]) simp
  then show ?thesis
    by (simp add: handle_inbox_interaction_undo_def Let_def same_store_keeps split: option.split)
qed

lemma vote_undo_same_store: "stored_rows (snd (handle_inbox_poll_vote_undo env activity actor account st)) = stored_rows st"
  by (simp add: handle_inbox_poll_vote_undo_def Let_def split: option.split prod.split bool.split)

lemma undo_keeps_statuses:
  "statuses_of_others_kept (rp_actor_uri actor) st (snd (undo_activity env activity actor account st))"
proof -
  obtain r st' where step: "handle_inbox_poll_vote_undo env activity actor account st = (r, st')" by force
  have "stored_rows st' = stored_rows st" using vote_undo_same_store [of env activity actor account st] step by simp
  note kept = same_store_keeps [OF this] statuses.chain [OF same_store_keeps [OF this] interaction_undo_keeps_statuses]
  then show ?thesis
    by (simp add: undo_activity_def step same_store_keeps split: option.split sum.split bool.split)
qed

lemma dispatch_keeps_statuses:
  assumes "kind \<notin> {''Create'', ''Update'', ''Announce''}"
  shows "statuses_of_others_kept (rp_actor_uri actor) st
    (snd (dispatch_inbox_activity (worker_handlers env activity actor) kind account st))"
proof -
  have like: "stored_rows (snd (handle_inbox_like env activity actor a s)) = stored_rows s" for a s
    by (simp add: handle_inbox_like_def split: option.split)
  have add: "stored_rows (snd (handle_inbox_collection_add env activity actor s)) = stored_rows s" for s
    by (simp add: handle_inbox_collection_add_def)
  show ?thesis using assms
    by (simp add: dispatch_inbox_activity_def worker_handlers_def statuses.same statuses.each_account
        undo_keeps_statuses delete_keeps_statuses same_store_keeps like add)
qed

lemma delivery_keeps_statuses:
  assumes "kind \<notin> {''Create'', ''Update'', ''Announce''}"
  shows "statuses_of_others_kept (rp_actor_uri actor) st
    (snd (handle_for_accounts (worker_handlers env activity actor) kind accounts st))"
  using assms dispatch_keeps_statuses [OF assms, where env = env]
  by (simp add: handle_for_accounts_def statuses.each)

section \<open>The inboxes\<close>

text \<open>A deletion is for no account, but where a consent is withdrawn or a follow has the same address.\<close>

lemma deletion_has_no_target:
  assumes types: "activitypub_type_strings (jget activity ''type'') = [''Delete'']"
    and object: "activity_object_id (jget activity ''object'') = Some uri"
    and feature: "resolve_feature_authorization_delete_target_account env activity = None"
    and follow: "find_follow_by_activity_id uri (ix_follows st) = None"
  shows "resolve_shared_inbox_target_accounts env None activity st = []"
proof -
  have kinds: "activitypub_has_type activity t \<longleftrightarrow> t = ''Delete''" for t
    using types by (auto simp: activitypub_has_type_def)
  have "extract_inbox_target_username a b activity = None" for a b
    by (simp add: extract_inbox_target_username_def types)
  moreover have "resolve_follow_response_target_account env (ix_follows st) activity = None"
    by (simp add: resolve_follow_response_target_account_def object follow)
  ultimately show ?thesis using feature
    by (simp add: resolve_shared_inbox_target_accounts_def Let_def kinds is_collection_activity_def
        resolve_feature_response_target_account_def resolve_poll_vote_target_account_def
        resolve_remote_status_activity_target_accounts_def resolve_remote_actor_announce_target_accounts_def
        resolve_remote_actor_update_target_account_def resolve_remote_collection_activity_target_account_def)
qed

lemma shared_inbox_without_targets:
  "resolve_shared_inbox_target_accounts env None activity st = [] \<Longrightarrow>
    shared_inbox_response env cr t0 t1 body activity actor (table, st) = (Accepted_202, table, st)"
  by (simp add: shared_inbox_response_def shared_inbox_preprocess_outcome_def)

lemma processed_state:
  fixes h :: "'s inbox_handlers"
  assumes "process_verified_inbox_activity h cr t0 t1 accounts body activity uri (table, st) = (answer, table', st')"
  shows "st' = st \<or> st' = snd (handle_for_accounts h (inbox_activity_type activity) accounts st)"
  using assms by (auto simp: process_verified_inbox_activity_def split: sum.splits prod.splits bool.splits)

text \<open>
  A deletion at the shared inbox, where servers deliver it, is accepted and changes nothing; the same
  deletion at the inbox of an account deletes the status.
\<close>

lemma deletion_at_shared_inbox_ignored:
  assumes "activitypub_type_strings (jget activity ''type'') = [''Delete'']"
    and "activity_object_id (jget activity ''object'') = Some uri"
    and "resolve_feature_authorization_delete_target_account env activity = None"
    and "find_follow_by_activity_id uri (ix_follows st) = None"
  shows "shared_inbox_response env cr t0 t1 body activity actor (table, st) = (Accepted_202, table, st)"
  by (rule shared_inbox_without_targets [OF deletion_has_no_target [OF assms]])

lemma deletion_at_own_inbox_deletes:
  assumes "activitypub_primary_type activity = Some ''Delete''" "revoked_feature activity actor = None"
    and "activity_object_id (jget activity ''object'') = Some uri"
    and "find_remote_status_by_object_uri (rz_store (ix_resolve st)) uri = Inr (Some status)"
    and "rs_actor_uri status = rp_actor_uri actor"
  shows "\<forall>r \<in> set (stored_rows (snd (handle_for_accounts (worker_handlers env activity actor)
      (inbox_activity_type activity) [account] st))). rsr_id r \<noteq> rs_id status"
  using assms
  by (simp add: inbox_activity_type_def handle_for_accounts_def inbox_activity_ignores_recipient_def
      dispatch_inbox_activity_def worker_handlers_def handle_inbox_delete_def stored_rows_def
      fanout_and_delete_remote_status_by_object_uri_soft_def delete_remote_status_by_id_def)

text \<open>The same holds when a boost of a remote status is taken back.\<close>

lemma boost_undo_at_shared_inbox_ignored:
  assumes types: "activitypub_type_strings (jget activity ''type'') = [''Undo'']"
    and boost: "jget activity ''object'' = Some object" "activity_object_id (Some object) = Some uri"
    and boosted: "jget object ''object'' = Some note" "activity_object_id (Some note) = Some target"
      "jget note ''inReplyTo'' = None"
    and remote: "local_username_from_actor_uri (sv_parse_url (re_store (ie_resolve env))) (inbox_config env) target = None"
      "local_username_from_status_uri (sv_parse_url (re_store (ie_resolve env))) (inbox_config env) target = None"
    and no_follow: "find_follow_by_activity_id uri (ix_follows st) = None"
    and no_vote: "vote_with_status env (\<lambda>v. lv_activity_uri v = Some uri) (ix_polls st) = None"
  shows "shared_inbox_response env cr t0 t1 body activity actor (table, st) = (Accepted_202, table, st)"
proof (rule shared_inbox_without_targets)
  have kinds: "activitypub_has_type activity t \<longleftrightarrow> t = ''Undo''" for t
    using types by (auto simp: activitypub_has_type_def)
  have "extract_inbox_target_username
      (local_username_from_actor_uri (sv_parse_url (re_store (ie_resolve env))) (inbox_config env))
      (local_username_from_status_uri (sv_parse_url (re_store (ie_resolve env))) (inbox_config env)) activity = None"
    by (simp add: extract_inbox_target_username_def types boost(1) boosted remote)
  moreover have "resolve_follow_response_target_account env (ix_follows st) activity = None"
    by (simp add: resolve_follow_response_target_account_def boost no_follow)
  moreover have "resolve_poll_vote_target_account env (ix_polls st) activity = None"
    by (simp add: resolve_poll_vote_target_account_def boost no_vote)
  ultimately show "resolve_shared_inbox_target_accounts env None activity st = []"
    by (simp add: resolve_shared_inbox_target_accounts_def Let_def kinds is_collection_activity_def
        resolve_feature_response_target_account_def resolve_feature_authorization_delete_target_account_def
        resolve_remote_status_activity_target_accounts_def resolve_remote_actor_announce_target_accounts_def
        resolve_remote_actor_update_target_account_def resolve_remote_collection_activity_target_account_def)
qed

text \<open>
  A favourite is known by the address it names, and many addresses name one status, for instance with
  different queries. One actor that likes the status by two of them counts twice.
\<close>

lemma one_actor_likes_twice:
  assumes found: "inbox_status_by_uri env uri = Some status" "inbox_status_by_uri env uri' = Some status"
      "uri \<noteq> uri'" "ls_account_id status = la_id account"
    and allowed: "remote_actor_may_interact_with_local_status env (ix_follows st) status (rp_actor_uri actor)"
    and ids: "activity_object_id (jget like ''object'') = Some uri" "activity_object_id (jget like' ''object'') = Some uri'"
    and fresh: "\<forall>r \<in> set (it_rows (ix_favourites st)). ir_actor r \<noteq> rp_actor_uri actor"
  shows "shown_count (ix_favourites (snd (handle_inbox_like env like' actor account
      (snd (handle_inbox_like env like actor account st))))) (ls_id status) =
    shown_count (ix_favourites st) (ls_id status) + 2"
proof -
  have none: "row_with interaction_key (rp_actor_uri actor, u) (it_rows (ix_favourites st)) = None" for u
    using fresh by (auto simp: row_with_def find_None_iff interaction_key_def)
  have liked: "snd (handle_inbox_like env a actor account s) = s\<lparr>ix_favourites :=
      upsert_remote_favourite (rp_actor_uri actor) (ls_id status) u (get_str a ''id'') (ix_favourites s)\<rparr>"
    if "activity_object_id (jget a ''object'') = Some u" "inbox_status_by_uri env u = Some status"
      "ix_follows s = ix_follows st" for a u s
    using that found(4) allowed by (simp add: handle_inbox_like_def)
  define t where "t = upsert_remote_favourite (rp_actor_uri actor) (ls_id status) uri (get_str like ''id'') (ix_favourites st)"
  have first: "shown_count t (ls_id status) = shown_count (ix_favourites st) (ls_id status) + 1"
    using none by (simp add: t_def upsert_remote_favourite_def upsert_interaction_def interaction_key_def
        shown_count_def count_up_value)
  have "it_rows t = it_rows (ix_favourites st) @ [\<lparr>ir_actor = rp_actor_uri actor, ir_status_id = ls_id status,
      ir_target_uri = uri, ir_activity_uri = get_str like ''id''\<rparr>]"
    using fresh by (auto simp: t_def upsert_remote_favourite_def upsert_interaction_def upsert_by_def
        list_ex_iff interaction_key_def)
  then have "row_with interaction_key (rp_actor_uri actor, uri') (it_rows t) = None"
    using fresh found(3) by (auto simp: row_with_def find_None_iff interaction_key_def)
  then have "shown_count (upsert_remote_favourite (rp_actor_uri actor) (ls_id status) uri' i t) (ls_id status) =
      shown_count t (ls_id status) + 1" for i
    by (simp add: upsert_remote_favourite_def upsert_interaction_def interaction_key_def shown_count_def count_up_value)
  then show ?thesis using first liked [OF ids(1) found(1)] liked [OF ids(2) found(2)] by (simp add: t_def)
qed

section \<open>Properties\<close>

text \<open>
  C35: Whatever activity of an actor is processed, for whatever accounts: favourites and boosts of
  other actors stay as they are, what is new is of statuses the actor may interact with, counts follow
  the rows, and only notes and announces change statuses of other actors.
\<close>

theorem delivered_interactions_own:
  assumes run: "process_verified_inbox_activity (worker_handlers env activity actor) cr t0 t1 accounts
      body activity (rp_actor_uri actor) (table, st) = (answer, table', st')"
  shows "(\<forall>r. ir_actor r \<noteq> rp_actor_uri actor \<longrightarrow>
      (r \<in> set (it_rows (ix_favourites st')) \<longleftrightarrow> r \<in> set (it_rows (ix_favourites st))) \<and>
      (r \<in> set (it_rows (ix_reblogs st')) \<longleftrightarrow> r \<in> set (it_rows (ix_reblogs st)))) \<and>
    (\<forall>r \<in> set (it_rows (ix_favourites st')) \<union> set (it_rows (ix_reblogs st')).
      r \<in> set (it_rows (ix_favourites st)) \<union> set (it_rows (ix_reblogs st)) \<or>
      (\<exists>status \<in> set (em_statuses (inbox_db env)). ls_id status = ir_status_id r \<and>
        remote_actor_may_interact_with_local_status env (ix_follows st) status (rp_actor_uri actor))) \<and>
    (\<forall>base. (counts_kept base (ix_favourites st) \<longrightarrow> counts_kept base (ix_favourites st')) \<and>
      (counts_kept base (ix_reblogs st) \<longrightarrow> counts_kept base (ix_reblogs st'))) \<and>
    (inbox_activity_type activity \<notin> {''Create'', ''Update'', ''Announce''} \<longrightarrow>
      distinct (map rsr_id (stored_rows st)) \<longrightarrow>
      (\<forall>r. rsr_actor_uri r \<noteq> rp_actor_uri actor \<longrightarrow> (r \<in> set (stored_rows st') \<longleftrightarrow> r \<in> set (stored_rows st))))"
proof -
  let ?kind = "inbox_activity_type activity"
  let ?run = "snd (handle_for_accounts (worker_handlers env activity actor) ?kind accounts st)"
  consider "st' = st" | "st' = ?run" using processed_state [OF run] by blast
  then show ?thesis
  proof cases
    case 1
    then show ?thesis by auto
  next
    case 2
    have kept: "interactions_of_others_kept (rp_actor_uri actor) st st'"
      unfolding 2 by (rule delivery_effect)
    have added: "\<forall>r \<in> set (it_rows (ix_favourites st')) \<union> set (it_rows (ix_reblogs st')).
        r \<in> set (it_rows (ix_favourites st)) \<union> set (it_rows (ix_reblogs st)) \<or>
        may_add env (ix_follows st) (rp_actor_uri actor) r"
      using delivery_effect(2) [of ?kind env actor st activity accounts]
      unfolding 2 [symmetric] by (auto simp: only_permitted_added_def nothing_added_def split: if_splits)
    have statuses: "statuses_of_others_kept (rp_actor_uri actor) st st'"
      if "?kind \<notin> {''Create'', ''Update'', ''Announce''}"
      unfolding 2 by (rule delivery_keeps_statuses [OF that])
    from kept added statuses show ?thesis
      by (auto simp: interactions_of_others_kept_def rows_of_others_kept_def may_add_def statuses_of_others_kept_def)
  qed
qed

definition sample_inbox_env :: "unit inbox_env" where
  "sample_inbox_env =
    \<lparr>ie_resolve = sample_resolve_env\<lparr>re_store := (sample_store_env ''s'')\<lparr>sv_local := sample_emission_db
       \<lparr>em_accounts := [sample_author],
        em_statuses := [(sample_status visibility.Public [])\<lparr>ls_ap_id := Some ''https://x.y/7''\<rparr>]\<rparr>\<rparr>\<rparr>,
     ie_follow = sample_follow_env,
     ie_emission = \<lparr>en_config = sample_config, en_parse_url = (\<lambda>_. None), en_parse_time = (\<lambda>_. None),
       en_format_time = (\<lambda>_. None), en_now = ()\<rparr>,
     ie_conversation = (\<lambda>_. None), ie_participants = (\<lambda>_. []), ie_boosts = [], ie_in_past = (\<lambda>_. None),
     ie_fresh = (\<lambda>i. i), ie_feature_account = (\<lambda>_. None), ie_collection_account = (\<lambda>_. None),
     ie_store_collection = (\<lambda>_. Inr ()), ie_revoke_feature = (\<lambda>_ _. Inr False),
     ie_feature_response = (\<lambda>_. Inr False), ie_collection_add = (\<lambda>_. Inr ()),
     ie_collection_remove = (\<lambda>_. Inr ())\<rparr>"

definition sample_favourite :: interaction_row where
  "sample_favourite = \<lparr>ir_actor = ''q'', ir_status_id = ''7'', ir_target_uri = ''https://x.y/7'',
    ir_activity_uri = None\<rparr>"

definition sample_inbox_state :: inbox_state where
  "sample_inbox_state =
    \<lparr>ix_resolve = empty_resolve_state, ix_follows = empty_follow_db,
     ix_polls = \<lparr>pd_accounts = [''1''], pd_polls = [], pd_options = [], pd_votes = []\<rparr>,
     ix_favourites = \<lparr>it_rows = [sample_favourite], it_counts = [''7'' \<mapsto> 1]\<rparr>,
     ix_reblogs = \<lparr>it_rows = [], it_counts = Map.empty\<rparr>\<rparr>"

definition sample_like_activity :: json where
  "sample_like_activity = JObject [(''type'', JString ''Like''), (''id'', JString ''l''),
    (''object'', JString ''https://x.y/7'')]"

definition sample_liked :: "inbox_answer \<times> inbox_table \<times> inbox_state" where
  "sample_liked = process_verified_inbox_activity (worker_handlers sample_inbox_env sample_like_activity bob)
    sample_crypto 0 1 [sample_author] [] sample_like_activity (rp_actor_uri bob) ([], sample_inbox_state)"

theorem delivered_interactions_own_witness:
  "map ir_actor (it_rows (ix_favourites (snd (snd sample_liked)))) = [''q'', rp_actor_uri bob] \<and>
   sample_favourite \<in> set (it_rows (ix_favourites (snd (snd sample_liked))))"
proof -
  have rows: "map ir_actor (it_rows (ix_favourites (snd (snd sample_liked)))) = [''q'', rp_actor_uri bob]"
    by code_simp
  obtain answer table st where run: "sample_liked = (answer, table, st)" by (metis prod_cases3)
  have other: "ir_actor sample_favourite \<noteq> rp_actor_uri bob" by code_simp
  from delivered_interactions_own [OF run [unfolded sample_liked_def]] other
  have "sample_favourite \<in> set (it_rows (ix_favourites st)) \<longleftrightarrow>
      sample_favourite \<in> set (it_rows (ix_favourites sample_inbox_state))" by blast
  then have "sample_favourite \<in> set (it_rows (ix_favourites st))" by (simp add: sample_inbox_state_def)
  then have "sample_favourite \<in> set (it_rows (ix_favourites (snd (snd sample_liked))))"
    by (simp only: run snd_conv)
  with rows show ?thesis by blast
qed

text \<open>
  C36: At the shared inbox a note that no account takes for a vote is handled once, as at the inbox of
  the first account it is addressed to.
\<close>

theorem shared_create_as_first_addressed:
  assumes "status_object activity = Some object"
    and "\<forall>account \<in> set accounts.
      handle_inbox_poll_vote env object actor account (get_str activity ''id'') st = (Inr False, st)"
  shows "handle_inbox_create_for_accounts env activity actor accounts st =
    (if \<not> object_attributed_to_remote_actor object activity (rp_actor_uri actor) then (Inl unattributed, st)
     else case find (targets_account env object) accounts of
       None \<Rightarrow> (Inr (), st)
     | Some account \<Rightarrow> handle_inbox_create env activity actor account st)"
proof -
  have addressed: "any_addressed env activity object actor accounts st =
      (Inr (list_ex (targets_account env object) accounts), st)"
    using assms(2) by (induction accounts) simp_all
  have "list_ex (targets_account env object) accounts \<longleftrightarrow> find (targets_account env object) accounts \<noteq> None"
    by (auto simp: list_ex_iff find_None_iff)
  moreover have "handle_inbox_create env activity actor account st = store_note env actor object st"
    if "find (targets_account env object) accounts = Some account"
      "object_attributed_to_remote_actor object activity (rp_actor_uri actor)" for account
  proof -
    from that(1) have "account \<in> set accounts" "targets_account env object account"
      by (auto simp: find_Some_iff)
    then show ?thesis using assms that(2) by (simp add: handle_inbox_create_def)
  qed
  ultimately show ?thesis using assms(1) addressed
    by (auto simp: handle_inbox_create_for_accounts_def split: option.split)
qed

definition sample_create_activity :: json where
  "sample_create_activity = JObject [(''type'', JString ''Create''), (''id'', JString ''c''),
    (''object'', JObject [(''type'', JString ''Note''), (''id'', JString ''n''),
      (''attributedTo'', JString (rp_actor_uri bob)), (''content'', JString ''x''),
      (''to'', JString ''https://www.w3.org/ns/activitystreams#Public'')])]"

theorem shared_create_as_first_addressed_witness:
  "handle_inbox_create_for_accounts sample_inbox_env sample_create_activity bob [sample_author, locked_author]
     sample_inbox_state =
   handle_inbox_create sample_inbox_env sample_create_activity bob sample_author sample_inbox_state"
proof -
  obtain object where object: "status_object sample_create_activity = Some object"
    "get_str object ''inReplyTo'' = None" "object_attributed_to_remote_actor object sample_create_activity (rp_actor_uri bob)"
    "targets_account sample_inbox_env object sample_author"
  proof
    show "status_object sample_create_activity = Some (the (jget sample_create_activity ''object''))" by code_simp
    show "get_str (the (jget sample_create_activity ''object'')) ''inReplyTo'' = None" by code_simp
    show "object_attributed_to_remote_actor (the (jget sample_create_activity ''object'')) sample_create_activity
      (rp_actor_uri bob)" by code_simp
    show "targets_account sample_inbox_env (the (jget sample_create_activity ''object'')) sample_author" by code_simp
  qed
  then have "\<forall>account \<in> set [sample_author, locked_author].
      handle_inbox_poll_vote sample_inbox_env object bob account (get_str sample_create_activity ''id'')
        sample_inbox_state = (Inr False, sample_inbox_state)"
    by (simp add: handle_inbox_poll_vote_def)
  from shared_create_as_first_addressed [OF object(1) this] object(3,4) show ?thesis by simp
qed

end
